(* ===== verification/Prelude.thy ===== *)
theory Prelude imports "HOL-Library.Word" "HOL-Library.AList" begin

text \<open>
  Vocabulary shared by every component: the machine integers of the C++ code, its exceptions as
  values, the two associative containers of the standard library, time, and the collections of
  rewrite rules the component theories fill.

  \<^item> \<open>std::unordered_map\<close> is an association list with distinct keys; the order in which a
    loop visits it is the order of the list, and no property relies on a particular one.
  \<^item> \<open>std::map\<close> is an association list whose keys ascend, so a loop visits it in key order.
  \<^item> A time point or a duration is an \<open>int\<close> number of nanoseconds; the clock is an argument.
  \<^item> A function that may throw returns \<open>exn + 'a\<close>, with \<open>Inl\<close> for the exception.
\<close>

unbundle bit_operations_syntax

named_theorems storage_simps "equations of the record storages"
named_theorems tracker_simps "equations of the race and ranch trackers"

section \<open>Integers, time and exceptions\<close>

type_synonym u8 = "8 word"
type_synonym u16 = "16 word"
type_synonym u32 = "32 word"
type_synonym u64 = "64 word"
type_synonym i32 = "32 word"
type_synonym bytes = "u8 list"
type_synonym uid = u32
type_synonym tid = u32
type_synonym time_point = int
type_synonym client_id = nat

abbreviation InvalidUid :: uid where "InvalidUid \<equiv> 0"
abbreviation InvalidTid :: tid where "InvalidTid \<equiv> 0"

definition milliseconds :: "int \<Rightarrow> int" where
  "milliseconds n = n * 1000000"

definition seconds :: "int \<Rightarrow> int" where
  "seconds n = n * 1000000000"

definition hours :: "int \<Rightarrow> int" where
  "hours n = seconds (n * 3600)"

datatype exn =
    RuntimeError string
  | OverflowError
  | OutOfRange string
  | LogicError string
  | BadOptionalAccess

text \<open>\<open>std::exception::what\<close>.\<close>

definition what :: "exn \<Rightarrow> string" where
  "what x = (case x of RuntimeError m \<Rightarrow> m | OutOfRange m \<Rightarrow> m | LogicError m \<Rightarrow> m
     | OverflowError \<Rightarrow> ''Couldnt complete the stream operation'' | BadOptionalAccess \<Rightarrow> ''bad optional access'')"

definition bnd :: "exn + 'a \<Rightarrow> ('a \<Rightarrow> exn + 'b) \<Rightarrow> exn + 'b" where
  "bnd m f = (case m of Inl e \<Rightarrow> Inl e | Inr x \<Rightarrow> f x)"

lemma bnd_simps [simp]: "bnd (Inl e) f = Inl e" "bnd (Inr x) f = f x"
  by (simp_all add: bnd_def)

lemma bnd_Inr_iff: "bnd m f = Inr y \<longleftrightarrow> (\<exists>x. m = Inr x \<and> f x = Inr y)"
  by (cases m) auto

lemma bnd_assoc: "bnd (bnd m f) g = bnd m (\<lambda>x. bnd (f x) g)"
  by (cases m) auto

section \<open>Actions\<close>

text \<open>An action on a state that may throw. What it did to the state before it threw stays done.\<close>

type_synonym ('s, 'a) act = "'s \<Rightarrow> (exn + 'a) \<times> 's"

definition pure :: "'a \<Rightarrow> ('s, 'a) act" where
  "pure x s = (Inr x, s)"

definition throw :: "string \<Rightarrow> ('s, 'a) act" where
  "throw x s = (Inl (RuntimeError x), s)"

definition lift :: "exn + 'a \<Rightarrow> ('s, 'a) act" where
  "lift x s = (x, s)"

definition seq :: "('s, 'a) act \<Rightarrow> ('a \<Rightarrow> ('s, 'b) act) \<Rightarrow> ('s, 'b) act" where
  "seq m f s = (case m s of (Inl x, s') \<Rightarrow> (Inl x, s') | (Inr y, s') \<Rightarrow> f y s')"

definition get_state :: "('s, 's) act" where
  "get_state s = (Inr s, s)"

definition modify :: "('s \<Rightarrow> 's) \<Rightarrow> ('s, unit) act" where
  "modify f s = (Inr (), f s)"

fun for_each :: "'a list \<Rightarrow> ('a \<Rightarrow> ('s, unit) act) \<Rightarrow> ('s, unit) act" where
  "for_each [] f = pure ()"
| "for_each (x # xs) f = seq (f x) (\<lambda>_. for_each xs f)"

text \<open>\<open>try { m } catch (...) { log }\<close>.\<close>

definition try_catch :: "('s, unit) act \<Rightarrow> ('s, unit) act" where
  "try_catch m s = (Inr (), snd (m s))"

named_theorems act_defs "definitions of the actions"
declare pure_def [act_defs] throw_def [act_defs] lift_def [act_defs] seq_def [act_defs]
  get_state_def [act_defs] modify_def [act_defs] try_catch_def [act_defs]

text \<open>An action keeps a property of the state, on every path.\<close>

definition preserves :: "('s \<Rightarrow> bool) \<Rightarrow> ('s, 'a) act \<Rightarrow> bool" where
  "preserves P m \<longleftrightarrow> (\<forall>s. P s \<longrightarrow> P (snd (m s)))"

named_theorems preserves_intros "rules that split an action into its parts"

lemma preservesI: "(\<And>s. P s \<Longrightarrow> P (snd (m s))) \<Longrightarrow> preserves P m"
  by (simp add: preserves_def)

lemma preservesD: "preserves P m \<Longrightarrow> P s \<Longrightarrow> P (snd (m s))"
  by (simp add: preserves_def)

lemma preserves_basic [preserves_intros]:
  "preserves P (pure x)" "preserves P (throw e)" "preserves P (lift z)" "preserves P get_state"
  by (simp_all add: preserves_def act_defs)

lemma preserves_seq [preserves_intros]:
  "preserves P m \<Longrightarrow> (\<And>x. preserves P (f x)) \<Longrightarrow> preserves P (seq m f)"
  by (auto simp: preserves_def seq_def split: prod.splits sum.splits)

lemma preserves_split [preserves_intros]:
  "(b \<Longrightarrow> preserves P m) \<Longrightarrow> (\<not> b \<Longrightarrow> preserves P m') \<Longrightarrow> preserves P (if b then m else m')"
  "(z = None \<Longrightarrow> preserves P m) \<Longrightarrow> (\<And>x. z = Some x \<Longrightarrow> preserves P (f x)) \<Longrightarrow>
     preserves P (case z of None \<Rightarrow> m | Some x \<Rightarrow> f x)"
  "(\<And>a b. p = (a, b) \<Longrightarrow> preserves P (g a b)) \<Longrightarrow> preserves P (case p of (a, b) \<Rightarrow> g a b)"
  "preserves P (h t) \<Longrightarrow> preserves P (Let t h)"
  by (auto simp: Let_def split: option.splits prod.splits)

lemma preserves_for_each [preserves_intros]:
  "(\<And>x. preserves P (f x)) \<Longrightarrow> preserves P (for_each xs f)"
  by (induction xs) (auto intro: preserves_intros)

lemma preserves_try_catch [preserves_intros]: "preserves P m \<Longrightarrow> preserves P (try_catch m)"
  by (simp add: preserves_def try_catch_def)

text \<open>An action succeeds from the states of \<open>P\<close> and establishes \<open>Q\<close> of its result.\<close>

definition valid :: "('s \<Rightarrow> bool) \<Rightarrow> ('s, 'a) act \<Rightarrow> ('a \<Rightarrow> 's \<Rightarrow> bool) \<Rightarrow> bool" where
  "valid P m Q \<longleftrightarrow> (\<forall>s. P s \<longrightarrow> (\<exists>x s'. m s = (Inr x, s') \<and> Q x s'))"

lemma validI: "(\<And>s. P s \<Longrightarrow> \<exists>x s'. m s = (Inr x, s') \<and> Q x s') \<Longrightarrow> valid P m Q"
  by (simp add: valid_def)

lemma validE:
  assumes "valid P m Q" "P s"
  obtains x s' where "m s = (Inr x, s')" "Q x s'"
  using assms unfolding valid_def by blast

lemma valid_seq: "valid P m R \<Longrightarrow> (\<And>x. valid (R x) (f x) Q) \<Longrightarrow> valid P (seq m f) Q"
  unfolding valid_def seq_def by fastforce

lemma valid_pure: "(\<And>s. P s \<Longrightarrow> Q x s) \<Longrightarrow> valid P (pure x) Q"
  by (simp add: valid_def pure_def)

lemma valid_modify: "(\<And>s. P s \<Longrightarrow> Q () (f s)) \<Longrightarrow> valid P (modify f) Q"
  by (simp add: valid_def modify_def)

lemma valid_for_each: "(\<And>x. x \<in> set xs \<Longrightarrow> valid P (f x) (\<lambda>_. P)) \<Longrightarrow> valid P (for_each xs f) (\<lambda>_. P)"
  by (induction xs) (auto intro: valid_pure valid_seq)

text \<open>The weakest precondition: \<open>Q\<close> of a result, \<open>E\<close> after an exception.\<close>

definition wp :: "('s, 'a) act \<Rightarrow> ('a \<Rightarrow> 's \<Rightarrow> bool) \<Rightarrow> ('s \<Rightarrow> bool) \<Rightarrow> 's \<Rightarrow> bool" where
  "wp m Q E s = (case m s of (Inl x, s') \<Rightarrow> E s' | (Inr x, s') \<Rightarrow> Q x s')"

named_theorems wp_simps "weakest preconditions of the actions"

lemma wp_basic [wp_simps]:
  "wp (pure x) Q E s = Q x s" "wp (throw e) Q E s = E s"
  "wp (lift z) Q E s = (case z of Inl _ \<Rightarrow> E s | Inr x \<Rightarrow> Q x s)"
  by (auto simp: wp_def act_defs split: sum.splits)

lemma wp_state [wp_simps]: "wp get_state Q E s = Q s s" "wp (modify f) R E s = R () (f s)"
  by (simp_all add: wp_def act_defs)

lemma wp_seq [wp_simps]: "wp (seq m f) Q E s = wp m (\<lambda>x. wp (f x) Q E) E s"
  by (auto simp: wp_def act_defs split: prod.splits sum.splits)

lemma wp_if [wp_simps]: "wp (if b then m else m') Q E s = (if b then wp m Q E s else wp m' Q E s)"
  by simp

lemma wp_case [wp_simps]:
  "wp (case z of None \<Rightarrow> m | Some x \<Rightarrow> f x) Q E s = (case z of None \<Rightarrow> wp m Q E s | Some x \<Rightarrow> wp (f x) Q E s)"
  "wp (case p of (a, b) \<Rightarrow> g a b) Q E s = (case p of (a, b) \<Rightarrow> wp (g a b) Q E s)"
  by (auto split: option.splits prod.splits)

lemma wp_Let [wp_simps]: "wp (Let t h) Q E s = (let x = t in wp (h x) Q E s)"
  by simp

lemma wp_mono: "wp m Q E s \<Longrightarrow> (\<And>x s. Q x s \<Longrightarrow> Q' x s) \<Longrightarrow> (\<And>s. E s \<Longrightarrow> E' s) \<Longrightarrow> wp m Q' E' s"
  by (auto simp: wp_def split: prod.splits sum.splits)

lemma preserves_wp: "preserves P m \<longleftrightarrow> (\<forall>s. P s \<longrightarrow> wp m (\<lambda>_. P) P s)"
  by (auto simp: preserves_def wp_def split: prod.splits sum.splits) (metis prod.collapse sum.exhaust_sel snd_conv)

lemma preserves_wpI: "(\<And>s. P s \<Longrightarrow> wp m (\<lambda>_. P) P s) \<Longrightarrow> preserves P m"
  by (simp add: preserves_wp)

lemma wp_preserves:
  "preserves P m \<Longrightarrow> P s \<Longrightarrow> (\<And>x s. P s \<Longrightarrow> Q x s) \<Longrightarrow> (\<And>s. P s \<Longrightarrow> E s) \<Longrightarrow> wp m Q E s"
  unfolding preserves_wp by (blast intro: wp_mono)

lemma wp_for_each:
  "I s \<Longrightarrow> (\<And>x s. x \<in> set xs \<Longrightarrow> I s \<Longrightarrow> wp (f x) (\<lambda>_. I) E s) \<Longrightarrow> wp (for_each xs f) (\<lambda>_. I) E s"
proof (induction xs arbitrary: s)
  case (Cons x xs)
  then have "wp (f x) (\<lambda>_. I) E s" "\<And>s. I s \<Longrightarrow> wp (for_each xs f) (\<lambda>_. I) E s" by simp_all
  then have "wp (f x) (\<lambda>_. wp (for_each xs f) (\<lambda>_. I) E) E s" by (rule wp_mono)
  then show ?case by (simp add: wp_seq)
qed (simp add: wp_basic(1))

section \<open>Unordered maps\<close>

text \<open>
  \<open>try_emplace\<close> keeps the value of a present key, \<open>insert_or_assign\<close> and
  \<open>operator[] =\<close> replace it, \<open>erase\<close> removes the key if it is there.
\<close>

type_synonym ('k, 'v) umap = "('k \<times> 'v) list"

abbreviation keys_of :: "('k \<times> 'v) list \<Rightarrow> 'k list" where
  "keys_of m \<equiv> map fst m"

abbreviation vals_of :: "('k \<times> 'v) list \<Rightarrow> 'v list" where
  "vals_of m \<equiv> map snd m"

abbreviation has_key :: "('k \<times> 'v) list \<Rightarrow> 'k \<Rightarrow> bool" where
  "has_key m k \<equiv> map_of m k \<noteq> None"

definition umap_put :: "'k \<Rightarrow> 'v \<Rightarrow> ('k, 'v) umap \<Rightarrow> ('k, 'v) umap" where
  "umap_put k v m = AList.update k v m"

definition umap_erase :: "'k \<Rightarrow> ('k, 'v) umap \<Rightarrow> ('k, 'v) umap" where
  "umap_erase k m = AList.delete k m"

definition umap_ok :: "('k, 'v) umap \<Rightarrow> bool" where
  "umap_ok m \<longleftrightarrow> distinct (keys_of m)"

lemma map_of_umap_put [simp]:
  "map_of (umap_put k v m) k' = (if k' = k then Some v else map_of m k')"
  by (simp add: umap_put_def update_conv)

lemma map_of_umap_erase [simp]:
  "map_of (umap_erase k m) k' = (if k' = k then None else map_of m k')"
  by (simp add: umap_erase_def delete_conv)

lemma keys_umap_put [simp]: "set (keys_of (umap_put k v m)) = insert k (set (keys_of m))"
  using dom_update [of k v m] by (simp add: umap_put_def dom_map_of_conv_image_fst)

lemma keys_umap_erase [simp]: "set (keys_of (umap_erase k m)) = set (keys_of m) - {k}"
  by (induction m) (auto simp: umap_erase_def)

lemma umap_ok_simps [simp, intro]:
  "umap_ok []"
  "umap_ok m \<Longrightarrow> umap_ok (umap_put k v m)"
  "umap_ok m \<Longrightarrow> umap_ok (umap_erase k m)"
  by (simp_all add: umap_ok_def umap_put_def umap_erase_def distinct_update distinct_delete)

lemma has_key_iff: "has_key m k \<longleftrightarrow> k \<in> set (keys_of m)"
  by (simp add: map_of_eq_None_iff)

lemma umap_put_fresh: "map_of m k = None \<Longrightarrow> umap_put k v m = m @ [(k, v)]"
  by (induction m) (auto simp: umap_put_def split: if_splits)

lemma length_umap_put [simp]:
  "length (umap_put k v m) = (if has_key m k then length m else Suc (length m))"
  by (induction m) (auto simp: umap_put_def)

lemma umap_erase_absent: "map_of m k = None \<Longrightarrow> umap_erase k m = m"
  by (induction m) (auto simp: umap_erase_def split: if_splits)

lemma length_umap_erase:
  "umap_ok m \<Longrightarrow> length (umap_erase k m) = (if has_key m k then length m - 1 else length m)"
proof (induction m)
  case Nil
  then show ?case by (simp add: umap_erase_def)
next
  case (Cons p m)
  obtain a v where p: "p = (a, v)" by (cases p)
  show ?case
  proof (cases "a = k")
    case True
    with Cons.prems p have "map_of m k = None"
      by (simp add: umap_ok_def map_of_eq_None_iff)
    with True p umap_erase_absent [of m k] show ?thesis by (simp add: umap_erase_def)
  next
    case False
    with Cons p show ?thesis
      by (cases m) (auto simp: umap_erase_def umap_ok_def)
  qed
qed

lemma umap_put_put [simp]: "umap_put k v (umap_put k w m) = umap_put k v m"
  by (simp add: umap_put_def)

lemma umap_update_keys: "has_key m k \<Longrightarrow> keys_of (umap_put k v m) = keys_of m"
  by (induction m) (auto simp: umap_put_def split: if_splits)

section \<open>Ordered maps\<close>

type_synonym ('k, 'v) omap = "('k \<times> 'v) list"

fun omap_put :: "'k::linorder \<Rightarrow> 'v \<Rightarrow> ('k, 'v) omap \<Rightarrow> ('k, 'v) omap" where
  "omap_put k v [] = [(k, v)]"
| "omap_put k v ((a, b) # m) =
     (if k < a then (k, v) # (a, b) # m
      else if k = a then (k, v) # m
      else (a, b) # omap_put k v m)"

definition omap_erase :: "'k \<Rightarrow> ('k, 'v) omap \<Rightarrow> ('k, 'v) omap" where
  "omap_erase k m = AList.delete k m"

definition omap_ok :: "('k::linorder, 'v) omap \<Rightarrow> bool" where
  "omap_ok m \<longleftrightarrow> sorted_wrt (<) (keys_of m)"

lemma map_of_omap_put [simp]:
  "map_of (omap_put k v m) k' = (if k' = k then Some v else map_of m k')"
  by (induction k v m rule: omap_put.induct) auto

lemma map_of_omap_erase [simp]:
  "map_of (omap_erase k m) k' = (if k' = k then None else map_of m k')"
  by (simp add: omap_erase_def delete_conv)

lemma keys_omap_put [simp]: "set (keys_of (omap_put k v m)) = insert k (set (keys_of m))"
  by (induction k v m rule: omap_put.induct) auto

lemma keys_omap_erase [simp]: "set (keys_of (omap_erase k m)) = set (keys_of m) - {k}"
  by (induction m) (auto simp: omap_erase_def)

lemma omap_ok_put [simp, intro]: "omap_ok m \<Longrightarrow> omap_ok (omap_put k v m)"
proof (induction k v m rule: omap_put.induct)
  case (1 k v)
  then show ?case by (simp add: omap_ok_def)
next
  case (2 k v a b m)
  then have "omap_ok m" and "\<forall>x \<in> set (keys_of m). a < x"
    by (auto simp: omap_ok_def)
  with 2 show ?case
    using keys_omap_put [of k v m] by (auto simp: omap_ok_def)
qed

lemma omap_ok_erase [simp, intro]: "omap_ok m \<Longrightarrow> omap_ok (omap_erase k m)"
proof (induction m)
  case Nil
  then show ?case by (simp add: omap_erase_def)
next
  case (Cons p m)
  then show ?case
    using keys_omap_erase [of k m] by (cases p) (auto simp: omap_ok_def omap_erase_def)
qed

lemma omap_ok_Nil [simp]: "omap_ok []"
  by (simp add: omap_ok_def)

lemma omap_ok_distinct: "omap_ok m \<Longrightarrow> distinct (keys_of m)"
  using strict_sorted_iff [of "keys_of m"] by (simp add: omap_ok_def)

section \<open>Unordered sets\<close>

text \<open>An \<open>std::unordered_set\<close> is a list without repetition.\<close>

definition uset_insert :: "'a \<Rightarrow> 'a list \<Rightarrow> 'a list" where
  "uset_insert x xs = (if x \<in> set xs then xs else xs @ [x])"

definition uset_erase :: "'a \<Rightarrow> 'a list \<Rightarrow> 'a list" where
  "uset_erase x xs = removeAll x xs"

lemma set_uset_insert [simp]: "set (uset_insert x xs) = insert x (set xs)"
  by (auto simp: uset_insert_def)

lemma set_uset_erase [simp]: "set (uset_erase x xs) = set xs - {x}"
  by (simp add: uset_erase_def)

lemma distinct_uset [simp, intro]:
  "distinct xs \<Longrightarrow> distinct (uset_insert x xs)"
  "distinct xs \<Longrightarrow> distinct (uset_erase x xs)"
  by (simp_all add: uset_insert_def uset_erase_def distinct_removeAll)

end
