(* ===== verification/Id_Sources.thy ===== *)
theory Id_Sources imports Prelude begin

text \<open>
  Sources of identifiers: \<open>race/P2dIdPool.hpp\<close>, which recycles the identifiers returned to it, and
  \<open>tracker/RanchTracker.cpp\<close>, which numbers the characters and the horses in a ranch.

  The locale \<open>id_source\<close> is what the users of a recycling pool rely on: an identifier in use is
  never handed out a second time.
\<close>

section \<open>The contract of a recycling source\<close>

datatype 'i id_op = AcquireId | ReleaseId 'i

text \<open>The identifiers held after a sequence of operations, oldest first; only held identifiers are
  released.\<close>

fun run_ids :: "('s \<Rightarrow> 'i option \<times> 's) \<Rightarrow> ('i \<Rightarrow> 's \<Rightarrow> 's) \<Rightarrow> 'i id_op list \<Rightarrow> 'i list \<Rightarrow> 's
    \<Rightarrow> 'i list \<times> 's" where
  "run_ids acquire release [] held s = (held, s)"
| "run_ids acquire release (AcquireId # ops) held s =
     (case acquire s of
        (Some i, s') \<Rightarrow> run_ids acquire release ops (held @ [i]) s'
      | (None, s') \<Rightarrow> run_ids acquire release ops held s')"
| "run_ids acquire release (ReleaseId i # ops) held s =
     (if i \<in> set held then run_ids acquire release ops (remove1 i held) (release i s)
      else run_ids acquire release ops held s)"

locale id_source =
  fixes acquire :: "'s \<Rightarrow> 'i option \<times> 's"
    and release :: "'i \<Rightarrow> 's \<Rightarrow> 's"
    and live :: "'s \<Rightarrow> 'i set"
    and inv :: "'s \<Rightarrow> bool"
  assumes acquire_some: "inv s \<Longrightarrow> acquire s = (Some i, s') \<Longrightarrow>
      i \<notin> live s \<and> live s' = insert i (live s) \<and> inv s'"
    and acquire_none: "inv s \<Longrightarrow> acquire s = (None, s') \<Longrightarrow> s' = s"
    and release_live: "inv s \<Longrightarrow> i \<in> live s \<Longrightarrow> live (release i s) = live s - {i} \<and> inv (release i s)"
begin

lemma held_distinct:
  assumes "inv s" "distinct held" "set held = live s"
    and "run_ids acquire release ops held s = (held', s')"
  shows "distinct held' \<and> set held' = live s' \<and> inv s'"
  using assms
proof (induction ops arbitrary: held s)
  case Nil
  then show ?case by simp
next
  case (Cons oper ops)
  show ?case
  proof (cases oper)
    case AcquireId
    obtain r s1 where r: "acquire s = (r, s1)" by fastforce
    show ?thesis
    proof (cases r)
      case None
      with Cons AcquireId r acquire_none [of s s1] show ?thesis by simp
    next
      case (Some i)
      with Cons.prems AcquireId r acquire_some [of s i s1] Cons.IH [of s1 "held @ [i]"]
      show ?thesis by simp
    qed
  next
    case (ReleaseId i)
    show ?thesis
    proof (cases "i \<in> set held")
      case True
      with Cons.prems ReleaseId release_live [of s i] Cons.IH [of "release i s" "remove1 i held"]
      show ?thesis by simp
    next
      case False
      with Cons ReleaseId show ?thesis by simp
    qed
  qed
qed

end

section \<open>The P2D identifier pool\<close>

record P2dIdPool =
  next_new_id :: u32
  free_list :: "u16 list"

definition empty_pool :: P2dIdPool where
  "empty_pool = \<lparr>next_new_id = 0, free_list = []\<rparr>"

definition Acquire :: "P2dIdPool \<Rightarrow> u16 option \<times> P2dIdPool" where
  "Acquire p =
     (if free_list p \<noteq> [] then (Some (last (free_list p)), p\<lparr>free_list := butlast (free_list p)\<rparr>)
      else if next_new_id p > 0xFFFF then (None, p)
      else (Some (ucast (next_new_id p)), p\<lparr>next_new_id := next_new_id p + 1\<rparr>))"

definition Release :: "u16 \<Rightarrow> P2dIdPool \<Rightarrow> P2dIdPool" where
  "Release i p = p\<lparr>free_list := free_list p @ [i]\<rparr>"

definition pool_live :: "P2dIdPool \<Rightarrow> u16 set" where
  "pool_live p = {i. unat i < unat (next_new_id p)} - set (free_list p)"

definition pool_ok :: "P2dIdPool \<Rightarrow> bool" where
  "pool_ok p \<longleftrightarrow> next_new_id p \<le> 0x10000 \<and> distinct (free_list p)
     \<and> (\<forall>i \<in> set (free_list p). unat i < unat (next_new_id p))"

lemma Acquire_recycled:
  assumes "pool_ok p" "free_list p = xs @ [i]"
  shows "i \<notin> pool_live p" "pool_live (p\<lparr>free_list := xs\<rparr>) = insert i (pool_live p)"
    "pool_ok (p\<lparr>free_list := xs\<rparr>)"
  using assms by (auto simp: pool_live_def pool_ok_def)

lemma Acquire_fresh:
  assumes "pool_ok p" "free_list p = []" "\<not> next_new_id p > 0xFFFF"
  shows "ucast (next_new_id p) \<notin> pool_live p"
    "pool_live (p\<lparr>next_new_id := next_new_id p + 1\<rparr>) = insert (ucast (next_new_id p)) (pool_live p)"
    "pool_ok (p\<lparr>next_new_id := next_new_id p + 1\<rparr>)"
proof -
  have n: "unat (next_new_id p) < 65536"
    using assms(3) by (simp add: not_less word_le_nat_alt)
  have u: "unat (ucast (next_new_id p) :: u16) = unat (next_new_id p)"
    using n by (simp add: unsigned_ucast_eq take_bit_nat_eq_self)
  have s: "unat (next_new_id p + 1) = unat (next_new_id p) + 1"
    using n unat_add_lem [of "next_new_id p" 1] by simp
  show "ucast (next_new_id p) \<notin> pool_live p" by (simp add: pool_live_def u)
  have "unat i < unat (next_new_id p) + 1 \<longleftrightarrow> i = ucast (next_new_id p) \<or> unat i < unat (next_new_id p)"
    for i :: u16
    using u by (auto simp: less_Suc_eq word_unat_eq_iff)
  then show "pool_live (p\<lparr>next_new_id := next_new_id p + 1\<rparr>) = insert (ucast (next_new_id p)) (pool_live p)"
    using assms(2) s by (auto simp: pool_live_def)
  show "pool_ok (p\<lparr>next_new_id := next_new_id p + 1\<rparr>)"
    using assms(2) s n by (simp add: pool_ok_def word_le_nat_alt)
qed

interpretation p2d: id_source Acquire Release pool_live pool_ok
proof
  fix s s' i
  assume "pool_ok s" "Acquire s = (Some i, s')"
  then show "i \<notin> pool_live s \<and> pool_live s' = insert i (pool_live s) \<and> pool_ok s'"
    using Acquire_recycled [of s "butlast (free_list s)" "last (free_list s)"] Acquire_fresh [of s]
    by (auto simp: Acquire_def split: if_splits)
next
  fix s s'
  assume "Acquire s = (None, s')"
  then show "s' = s" by (auto simp: Acquire_def split: if_splits)
next
  fix s i
  assume "pool_ok s" "i \<in> pool_live s"
  then show "pool_live (Release i s) = pool_live s - {i} \<and> pool_ok (Release i s)"
    by (auto simp: pool_live_def pool_ok_def Release_def)
qed

text \<open>The identifiers the pool has handed out and not got back are pairwise different, after any
  sequence of operations that returns only identifiers in use.\<close>

theorem P2d_ids_distinct:
  "distinct (fst (run_ids Acquire Release ops [] empty_pool))"
  using p2d.held_distinct [of empty_pool "[]" ops]
  by (cases "run_ids Acquire Release ops [] empty_pool")
    (simp add: pool_ok_def pool_live_def empty_pool_def)

text \<open>The pool refuses an identifier exactly when all 65536 of them are in use.\<close>

theorem P2d_exhausted:
  assumes "pool_ok p"
  shows "fst (Acquire p) = None \<longleftrightarrow> pool_live p = UNIV"
proof
  assume "fst (Acquire p) = None"
  then have "free_list p = []" "next_new_id p > 0xFFFF"
    by (auto simp: Acquire_def split: if_splits)
  moreover have "unat (i :: u16) \<le> 65535" for i by (rule less_Suc_eq_le [THEN iffD1]) (use unsigned_less [of i, where 'a = nat] in simp)
  ultimately show "pool_live p = UNIV"
    by (auto simp: pool_live_def word_less_nat_alt intro: le_less_trans)
next
  assume live: "pool_live p = UNIV"
  show "fst (Acquire p) = None"
  proof (cases "Acquire p")
    case (Pair r p')
    with p2d.acquire_some [OF assms, of _ p'] live show ?thesis by (cases r) auto
  qed
qed

lemma P2d_exhausted_witness:
  "fst (Acquire \<lparr>next_new_id = 3, free_list = [1]\<rparr>) = None
     \<longleftrightarrow> pool_live \<lparr>next_new_id = 3, free_list = [1]\<rparr> = UNIV"
  by (rule P2d_exhausted) (simp add: pool_ok_def)

section \<open>Numbering entities\<close>

text \<open>A tracker numbers entities from a 16-bit counter that starts at one and never goes back. A step
  either numbers one new entity or numbers none, and then it may only forget some.\<close>

type_synonym oid = u16

definition numbered :: "('s \<Rightarrow> oid) \<Rightarrow> ('s \<Rightarrow> 'e \<Rightarrow> oid option) \<Rightarrow> nat \<Rightarrow> 's \<Rightarrow> bool" where
  "numbered counter number n s \<longleftrightarrow> (\<exists>k \<le> n. unat (counter s) = k + 1)
     \<and> (\<forall>e i. number s e = Some i \<longrightarrow> 0 < i \<and> i < counter s)
     \<and> (\<forall>e f i. number s e = Some i \<longrightarrow> number s f = Some i \<longrightarrow> e = f)"

locale numbering =
  fixes counter :: "'s \<Rightarrow> oid" and number :: "'s \<Rightarrow> 'e \<Rightarrow> oid option" and step :: "'o \<Rightarrow> 's \<Rightarrow> 's"
  assumes step_cases:
    "(counter (step a s) = counter s \<and> (\<forall>e i. number (step a s) e = Some i \<longrightarrow> number s e = Some i))
     \<or> (\<exists>e. counter (step a s) = counter s + 1
          \<and> (\<forall>f. number (step a s) f = (if f = e then Some (counter s) else number s f)))"
begin

lemma numbered_new:
  assumes "numbered counter number n s" "Suc n < 65535" "counter s' = counter s + 1"
    and "\<And>f. number s' f = (if f = e then Some (counter s) else number s f)"
  shows "numbered counter number (Suc n) s'"
proof -
  obtain k where k: "k \<le> n" "unat (counter s) = k + 1"
    using assms(1) by (auto simp: numbered_def)
  then have k': "unat (counter s') = Suc k + 1"
    using assms(2,3) unat_add_lem [of "counter s" 1] by simp
  then have less: "counter s < counter s'" "0 < counter s"
    using k(2) by (simp_all add: word_less_nat_alt)
  have "0 < i \<and> i < counter s'" if "number s' f = Some i" for f i
    using assms(1,4) less that by (auto simp: numbered_def split: if_splits intro: less_trans)
  moreover have "f = g" if "number s' f = Some i" "number s' g = Some i" for f g i
    using assms(1,4) that by (auto simp: numbered_def split: if_splits)
  ultimately show ?thesis
    unfolding numbered_def using k(1) k' by blast
qed

lemma numbered_step:
  assumes "numbered counter number n s" "Suc n < 65535"
  shows "numbered counter number (Suc n) (step a s)"
  using step_cases [of a s]
proof (elim disjE exE conjE)
  assume "counter (step a s) = counter s" "\<forall>e i. number (step a s) e = Some i \<longrightarrow> number s e = Some i"
  with assms(1) show ?thesis unfolding numbered_def using le_Suc_eq by metis
qed (use assms numbered_new in blast)

lemma numbered_run:
  "n + length ops < 65535 \<Longrightarrow> numbered counter number n s \<Longrightarrow>
     numbered counter number (n + length ops) (fold step ops s)"
proof (induction ops arbitrary: n s)
  case (Cons a ops)
  from Cons.IH [of "Suc n" "step a s"] Cons.prems numbered_step [of n s a]
  show ?case by simp
qed simp

lemma numbers_distinct:
  assumes "counter s = 1" "\<And>e. number s e = None" "length ops < 65535"
    and "number (fold step ops s) e = Some i"
  shows "i \<noteq> 0 \<and> (\<forall>f. number (fold step ops s) f = Some i \<longrightarrow> f = e)"
proof -
  have "numbered counter number 0 s" using assms(1,2) by (simp add: numbered_def)
  from numbered_run [OF _ this, of ops] assms(3,4)
  show ?thesis unfolding numbered_def by (metis add_0 less_irrefl)
qed

end

section \<open>The ranch tracker\<close>

abbreviation InvalidEntityOid :: oid where "InvalidEntityOid \<equiv> 0"

record ranch_tracker =
  rat_nextObjectId :: oid
  rat_characters :: "(uid, oid) omap"
  rat_horses :: "(uid, oid) omap"

definition empty_ranch_tracker :: ranch_tracker where
  "empty_ranch_tracker = \<lparr>rat_nextObjectId = 1, rat_characters = [], rat_horses = []\<rparr>"

definition AddCharacter :: "uid \<Rightarrow> ranch_tracker \<Rightarrow> oid \<times> ranch_tracker" where
  "AddCharacter character t =
     (case map_of (rat_characters t) character of
        Some i \<Rightarrow> (i, t)
      | None \<Rightarrow> (rat_nextObjectId t,
          t\<lparr>rat_characters := omap_put character (rat_nextObjectId t) (rat_characters t),
            rat_nextObjectId := rat_nextObjectId t + 1\<rparr>))"

definition RemoveCharacter :: "uid \<Rightarrow> ranch_tracker \<Rightarrow> ranch_tracker" where
  "RemoveCharacter character t =
     (if \<not> has_key (rat_characters t) character then t
      else t\<lparr>rat_characters := omap_erase character (rat_characters t)\<rparr>)"

definition GetCharacterOid :: "uid \<Rightarrow> ranch_tracker \<Rightarrow> oid" where
  "GetCharacterOid character t =
     (case map_of (rat_characters t) character of None \<Rightarrow> InvalidEntityOid | Some i \<Rightarrow> i)"

definition AddHorse :: "uid \<Rightarrow> ranch_tracker \<Rightarrow> oid \<times> ranch_tracker" where
  "AddHorse horse t =
     (case map_of (rat_horses t) horse of
        Some i \<Rightarrow> (i, t)
      | None \<Rightarrow> (rat_nextObjectId t,
          t\<lparr>rat_horses := omap_put horse (rat_nextObjectId t) (rat_horses t),
            rat_nextObjectId := rat_nextObjectId t + 1\<rparr>))"

definition RemoveHorse :: "uid \<Rightarrow> ranch_tracker \<Rightarrow> ranch_tracker" where
  "RemoveHorse horse t =
     (if \<not> has_key (rat_horses t) horse then t
      else t\<lparr>rat_horses := omap_erase horse (rat_horses t)\<rparr>)"

definition GetHorseOid :: "uid \<Rightarrow> ranch_tracker \<Rightarrow> oid" where
  "GetHorseOid horse t =
     (case map_of (rat_horses t) horse of None \<Rightarrow> InvalidEntityOid | Some i \<Rightarrow> i)"

datatype ranch_op =
    Add_Character uid
  | Remove_Character uid
  | Add_Horse uid
  | Remove_Horse uid

fun ranch_step :: "ranch_op \<Rightarrow> ranch_tracker \<Rightarrow> ranch_tracker" where
  "ranch_step (Add_Character u) t = snd (AddCharacter u t)"
| "ranch_step (Remove_Character u) t = RemoveCharacter u t"
| "ranch_step (Add_Horse u) t = snd (AddHorse u t)"
| "ranch_step (Remove_Horse u) t = RemoveHorse u t"

text \<open>The entities of a ranch are its characters and its horses, which share the numbering.\<close>

definition entity_oid :: "ranch_tracker \<Rightarrow> uid + uid \<Rightarrow> oid option" where
  "entity_oid t e = (case e of Inl c \<Rightarrow> map_of (rat_characters t) c | Inr h \<Rightarrow> map_of (rat_horses t) h)"

lemma entity_oid_add [tracker_simps]:
  "entity_oid (snd (AddCharacter c t)) e =
     (if e = Inl c \<and> map_of (rat_characters t) c = None then Some (rat_nextObjectId t) else entity_oid t e)"
  "entity_oid (snd (AddHorse c t)) e =
     (if e = Inr c \<and> map_of (rat_horses t) c = None then Some (rat_nextObjectId t) else entity_oid t e)"
  "entity_oid (RemoveCharacter c t) e = (if e = Inl c then None else entity_oid t e)"
  "entity_oid (RemoveHorse c t) e = (if e = Inr c then None else entity_oid t e)"
  by (auto simp: entity_oid_def AddCharacter_def AddHorse_def RemoveCharacter_def RemoveHorse_def
      split: sum.splits option.splits)

lemma next_oid [tracker_simps]:
  "rat_nextObjectId (snd (AddCharacter c t)) =
     (if map_of (rat_characters t) c = None then rat_nextObjectId t + 1 else rat_nextObjectId t)"
  "rat_nextObjectId (snd (AddHorse c t)) =
     (if map_of (rat_horses t) c = None then rat_nextObjectId t + 1 else rat_nextObjectId t)"
  "rat_nextObjectId (RemoveCharacter c t) = rat_nextObjectId t"
  "rat_nextObjectId (RemoveHorse c t) = rat_nextObjectId t"
  by (auto simp: AddCharacter_def AddHorse_def RemoveCharacter_def RemoveHorse_def split: option.splits)

interpretation ranch: numbering rat_nextObjectId entity_oid ranch_step
proof unfold_locales
  fix a t
  show "(rat_nextObjectId (ranch_step a t) = rat_nextObjectId t
        \<and> (\<forall>e i. entity_oid (ranch_step a t) e = Some i \<longrightarrow> entity_oid t e = Some i))
      \<or> (\<exists>e. rat_nextObjectId (ranch_step a t) = rat_nextObjectId t + 1
        \<and> (\<forall>f. entity_oid (ranch_step a t) f = (if f = e then Some (rat_nextObjectId t) else entity_oid t f)))"
  proof (cases a)
    case (Add_Character c)
    then show ?thesis by (cases "map_of (rat_characters t) c") (auto simp: tracker_simps)
  next
    case (Add_Horse c)
    then show ?thesis by (cases "map_of (rat_horses t) c") (auto simp: tracker_simps)
  qed (simp_all add: tracker_simps)
qed

text \<open>C29: In a ranch on which fewer than 65535 operations were performed, no two entities, be they
  characters or horses, share an object identifier, and none has the invalid one.\<close>

theorem ranch_oids_distinct:
  assumes "length ops < 65535"
    and "entity_oid (fold ranch_step ops empty_ranch_tracker) e = Some i"
  shows "i \<noteq> InvalidEntityOid
    \<and> (\<forall>f. entity_oid (fold ranch_step ops empty_ranch_tracker) f = Some i \<longrightarrow> f = e)"
  using ranch.numbers_distinct [OF _ _ assms]
  by (simp add: empty_ranch_tracker_def entity_oid_def split: sum.splits)

lemma ranch_oids_distinct_witness:
  "let t = fold ranch_step [Add_Character 7, Add_Horse 7, Remove_Character 7, Add_Character 9] empty_ranch_tracker
   in GetCharacterOid 9 t = 3 \<and> (\<forall>f. entity_oid t f = Some 3 \<longrightarrow> f = Inl 9)"
proof -
  let ?ops = "[Add_Character 7, Add_Horse 7, Remove_Character 7, Add_Character 9]"
  have "entity_oid (fold ranch_step ?ops empty_ranch_tracker) (Inl 9) = Some 3"
    by (simp add: entity_oid_def AddCharacter_def AddHorse_def RemoveCharacter_def
        empty_ranch_tracker_def omap_erase_def)
  with ranch_oids_distinct [OF _ this] show ?thesis
    by (simp add: Let_def GetCharacterOid_def entity_oid_def)
qed

text \<open>After 65535 additions the counter wraps: the next entity is given the invalid identifier.\<close>

lemma ranch_oid_wraps:
  "rat_nextObjectId t = 65535 \<Longrightarrow> map_of (rat_characters t) c = None \<Longrightarrow>
     map_of (rat_characters t) d = None \<Longrightarrow> c \<noteq> d \<Longrightarrow>
     fst (AddCharacter d (snd (AddCharacter c t))) = InvalidEntityOid"
  by (simp add: AddCharacter_def)

end
