(* ===== verification/Streams.thy ===== *)
theory Streams imports Prelude begin

text \<open>
  \<open>libserver/util/Stream.hpp\<close> and \<open>Stream.cpp\<close>: the bounded byte buffers every message of the
  protocol is written to and read from, and the string boundary of
  \<open>libserver/util/Locale.cpp\<close>.

  \<^item> A \<open>stream\<close> is the storage and the cursor of \<open>StreamBase\<close>; sink and source differ only in
    the operations applied to them.
  \<^item> A numeric value is copied in memory order; the targets of the program are little endian.
    A \<open>float\<close> is its 32-bit pattern: the code only copies it here.
  \<^item> The ICU converters are not part of the repository. They are the two fields of \<open>icu\<close>,
    \<open>None\<close> for an error status; \<open>ToUtf8\<close> and \<open>FromUtf8\<close> are the code around them, which cuts
    the result at its first zero byte because it is returned through a C string.

  The locale \<open>codec\<close> is the contract of a pair of \<open>Write\<close> and \<open>Read\<close> functions. Its proof
  obligation for a concrete pair is one \<open>intro\<close> over the collection \<open>codec_intros\<close>.
\<close>

named_theorems codec_intros "compositional rules for matching writers and readers"

section \<open>The streams\<close>

record stream =
  storage :: bytes
  cursor :: nat

definition stream_of :: "bytes \<Rightarrow> stream" where
  "stream_of b = \<lparr>storage = b, cursor = 0\<rparr>"

definition Seek :: "nat \<Rightarrow> stream \<Rightarrow> exn + stream" where
  "Seek c s = (if c > length (storage s) then Inl OverflowError else Inr (s\<lparr>cursor := c\<rparr>))"

fun poke :: "bytes \<Rightarrow> nat \<Rightarrow> bytes \<Rightarrow> bytes" where
  "poke [] c buf = buf"
| "poke (b # bs) c buf = poke bs (Suc c) (buf[c := b])"

definition sink_write :: "bytes \<Rightarrow> stream \<Rightarrow> exn + stream" where
  "sink_write bs s =
     (if cursor s + length bs > length (storage s) then Inl OverflowError
      else Inr \<lparr>storage = poke bs (cursor s) (storage s), cursor = cursor s + length bs\<rparr>)"

definition source_read :: "nat \<Rightarrow> stream \<Rightarrow> exn + (bytes \<times> stream)" where
  "source_read n s =
     (if cursor s + n > length (storage s) then Inl OverflowError
      else Inr (take n (drop (cursor s) (storage s)), s\<lparr>cursor := cursor s + n\<rparr>))"

lemma length_poke [simp]: "length (poke bs c buf) = length buf"
  by (induction bs c buf rule: poke.induct) auto

lemma poke_append: "poke (xs @ ys) c buf = poke ys (c + length xs) (poke xs c buf)"
  by (induction xs c buf rule: poke.induct) auto

lemma poke_eq:
  "c + length bs \<le> length buf \<Longrightarrow> poke bs c buf = take c buf @ bs @ drop (c + length bs) buf"
proof (induction bs c buf rule: poke.induct)
  case (1 c buf)
  then show ?case by simp
next
  case (2 b bs c buf)
  then have "poke bs (Suc c) (buf[c := b])
      = take (Suc c) (buf[c := b]) @ bs @ drop (Suc c + length bs) (buf[c := b])"
    by simp
  with 2 show ?case
    by (simp add: take_Suc_conv_app_nth)
qed

section \<open>Numeric values\<close>

definition bytes_of_u16 :: "u16 \<Rightarrow> bytes" where
  "bytes_of_u16 w = [ucast w, ucast (drop_bit 8 w)]"

definition u16_of_bytes :: "bytes \<Rightarrow> u16" where
  "u16_of_bytes b = ucast (b ! 0) OR push_bit 8 (ucast (b ! 1))"

definition bytes_of_u32 :: "u32 \<Rightarrow> bytes" where
  "bytes_of_u32 w = [ucast w, ucast (drop_bit 8 w), ucast (drop_bit 16 w), ucast (drop_bit 24 w)]"

definition u32_of_bytes :: "bytes \<Rightarrow> u32" where
  "u32_of_bytes b = ucast (b ! 0) OR push_bit 8 (ucast (b ! 1))
     OR push_bit 16 (ucast (b ! 2)) OR push_bit 24 (ucast (b ! 3))"

definition w8 :: "u8 \<Rightarrow> stream \<Rightarrow> exn + stream" where
  "w8 v = sink_write [v]"

definition w16 :: "u16 \<Rightarrow> stream \<Rightarrow> exn + stream" where
  "w16 v = sink_write (bytes_of_u16 v)"

definition w32 :: "u32 \<Rightarrow> stream \<Rightarrow> exn + stream" where
  "w32 v = sink_write (bytes_of_u32 v)"

definition wbool :: "bool \<Rightarrow> stream \<Rightarrow> exn + stream" where
  "wbool v = w8 (if v then 1 else 0)"

definition r8 :: "stream \<Rightarrow> exn + (u8 \<times> stream)" where
  "r8 s = bnd (source_read 1 s) (\<lambda>(b, s). Inr (b ! 0, s))"

definition r16 :: "stream \<Rightarrow> exn + (u16 \<times> stream)" where
  "r16 s = bnd (source_read 2 s) (\<lambda>(b, s). Inr (u16_of_bytes b, s))"

definition r32 :: "stream \<Rightarrow> exn + (u32 \<times> stream)" where
  "r32 s = bnd (source_read 4 s) (\<lambda>(b, s). Inr (u32_of_bytes b, s))"

definition rbool :: "stream \<Rightarrow> exn + (bool \<times> stream)" where
  "rbool s = bnd (r8 s) (\<lambda>(v, s). Inr (v \<noteq> 0, s))"

lemma length_bytes_of_u16 [simp]: "length (bytes_of_u16 w) = 2"
  by (simp add: bytes_of_u16_def)

lemma length_bytes_of_u32 [simp]: "length (bytes_of_u32 w) = 4"
  by (simp add: bytes_of_u32_def)

lemma u16_of_bytes_of_u16 [simp]: "u16_of_bytes (bytes_of_u16 w) = w"
  unfolding u16_of_bytes_def bytes_of_u16_def
  by (rule bit_word_eqI) (auto simp: bit_simps)

lemma u32_of_bytes_of_u32 [simp]: "u32_of_bytes (bytes_of_u32 w) = w"
proof (rule bit_word_eqI)
  fix n assume "n < LENGTH(32)"
  then show "bit (u32_of_bytes (bytes_of_u32 w)) n = bit w n"
    unfolding u32_of_bytes_def bytes_of_u32_def
    by (cases "n < 16"; cases "n < 24") (auto simp: bit_simps)
qed

section \<open>Strings\<close>

record icu =
  utf8_to_euckr :: "bytes \<Rightarrow> bytes option"
  euckr_to_utf8 :: "bytes \<Rightarrow> bytes option"

definition c_string :: "bytes \<Rightarrow> bytes" where
  "c_string b = takeWhile (\<lambda>c. c \<noteq> 0) b"

definition FromUtf8 :: "icu \<Rightarrow> bytes \<Rightarrow> exn + bytes" where
  "FromUtf8 cv input = (case utf8_to_euckr cv input of
      None \<Rightarrow> Inl (RuntimeError ''Failed to perform locale conversion'')
    | Some out \<Rightarrow> Inr (c_string out))"

definition ToUtf8 :: "icu \<Rightarrow> bytes \<Rightarrow> exn + bytes" where
  "ToUtf8 cv input = (case euckr_to_utf8 cv input of
      None \<Rightarrow> Inl (RuntimeError ''Failed to perform locale conversion'')
    | Some out \<Rightarrow> Inr (c_string out))"

fun w8s :: "bytes \<Rightarrow> stream \<Rightarrow> exn + stream" where
  "w8s [] s = Inr s"
| "w8s (b # bs) s = bnd (w8 b s) (w8s bs)"

definition wstr :: "icu \<Rightarrow> bytes \<Rightarrow> stream \<Rightarrow> exn + stream" where
  "wstr cv v s = bnd (FromUtf8 cv v) (\<lambda>buffer. bnd (w8s buffer s) (w8 0))"

function read_cstr :: "bytes \<Rightarrow> stream \<Rightarrow> exn + (bytes \<times> stream)" where
  "read_cstr acc s =
     (case r8 s of
        Inl e \<Rightarrow> Inl e
      | Inr (c, s') \<Rightarrow> if c = 0 then Inr (acc, s') else read_cstr (acc @ [c]) s')"
  by pat_completeness auto
termination
  by (relation "measure (\<lambda>(acc, s). length (storage s) - cursor s)")
    (auto simp: r8_def source_read_def bnd_def split: if_splits)

declare read_cstr.simps [simp del]

definition rstr :: "icu \<Rightarrow> stream \<Rightarrow> exn + (bytes \<times> stream)" where
  "rstr cv s = bnd (read_cstr [] s) (\<lambda>(buffer, s). bnd (ToUtf8 cv buffer) (\<lambda>v. Inr (v, s)))"

text \<open>The strings that survive the trip: both conversions succeed and undo each other.\<close>

definition icu_ok :: "icu \<Rightarrow> bytes \<Rightarrow> bool" where
  "icu_ok cv v \<longleftrightarrow> (\<exists>b. FromUtf8 cv v = Inr b \<and> ToUtf8 cv b = Inr v)"

section \<open>Sequencing\<close>

text \<open>\<open>stream.Write(a).Write(b)\<close> and \<open>stream.Read(a).Read(b)\<close>.\<close>

fun seqw :: "(stream \<Rightarrow> exn + stream) list \<Rightarrow> stream \<Rightarrow> exn + stream" where
  "seqw [] s = Inr s"
| "seqw (w # ws) s = bnd (w s) (seqw ws)"

definition rd ::
  "(stream \<Rightarrow> exn + ('a \<times> stream)) \<Rightarrow> ('a \<Rightarrow> stream \<Rightarrow> exn + ('b \<times> stream))
     \<Rightarrow> stream \<Rightarrow> exn + ('b \<times> stream)" where
  "rd r k s = bnd (r s) (\<lambda>(v, s'). k v s')"

definition ret :: "'a \<Rightarrow> stream \<Rightarrow> exn + ('a \<times> stream)" where
  "ret v s = Inr (v, s)"

fun read_n :: "nat \<Rightarrow> (stream \<Rightarrow> exn + ('a \<times> stream)) \<Rightarrow> stream \<Rightarrow> exn + ('a list \<times> stream)" where
  "read_n 0 r s = Inr ([], s)"
| "read_n (Suc n) r s = rd r (\<lambda>x. rd (read_n n r) (\<lambda>xs. ret (x # xs))) s"

text \<open>A container behind its size, as one unsigned byte.\<close>

definition wlist :: "('a \<Rightarrow> stream \<Rightarrow> exn + stream) \<Rightarrow> 'a list \<Rightarrow> stream \<Rightarrow> exn + stream" where
  "wlist w xs = seqw (w8 (of_nat (length xs)) # map w xs)"

definition rlist :: "(stream \<Rightarrow> exn + ('a \<times> stream)) \<Rightarrow> stream \<Rightarrow> exn + ('a list \<times> stream)" where
  "rlist r = rd r8 (\<lambda>n. read_n (unat n) r)"

section \<open>Matching writers and readers\<close>

definition writes :: "(stream \<Rightarrow> exn + stream) \<Rightarrow> bytes \<Rightarrow> bool" where
  "writes w bs \<longleftrightarrow> (\<forall>s. cursor s \<le> length (storage s) \<longrightarrow> w s = sink_write bs s)"

definition reads :: "(stream \<Rightarrow> exn + ('a \<times> stream)) \<Rightarrow> 'a \<Rightarrow> bytes \<Rightarrow> bool" where
  "reads r v bs \<longleftrightarrow>
     (\<forall>s rest. drop (cursor s) (storage s) = bs @ rest
        \<longrightarrow> r s = Inr (v, s\<lparr>cursor := cursor s + length bs\<rparr>))"

definition matches :: "(stream \<Rightarrow> exn + stream) \<Rightarrow> (stream \<Rightarrow> exn + ('a \<times> stream)) \<Rightarrow> 'a \<Rightarrow> bool" where
  "matches w r v \<longleftrightarrow> (\<exists>bs. writes w bs \<and> reads r v bs)"

lemma drop_eq_append_le: "drop c xs = bs @ rest \<Longrightarrow> bs \<noteq> [] \<Longrightarrow> c + length bs \<le> length xs"
proof -
  assume *: "drop c xs = bs @ rest" "bs \<noteq> []"
  then have "length xs - c = length bs + length rest"
    by (metis length_append length_drop)
  moreover have "length bs > 0" using * by simp
  ultimately show ?thesis by linarith
qed

lemma sink_write_Nil: "cursor s \<le> length (storage s) \<Longrightarrow> sink_write [] s = Inr s"
  by (simp add: sink_write_def)

lemma sink_write_append:
  "bnd (sink_write xs s) (sink_write ys) = sink_write (xs @ ys) s"
  by (auto simp: sink_write_def poke_append add.assoc)

lemma sink_write_cursor:
  "sink_write bs s = Inr s' \<Longrightarrow> cursor s' \<le> length (storage s')"
  by (auto simp: sink_write_def split: if_splits)

lemma source_read_prefix:
  assumes "drop (cursor s) (storage s) = bs @ rest" "bs \<noteq> []"
  shows "source_read (length bs) s = Inr (bs, s\<lparr>cursor := cursor s + length bs\<rparr>)"
  using drop_eq_append_le [OF assms] assms(1) by (simp add: source_read_def)

lemma matches_num:
  assumes "\<And>v. w v = sink_write (enc v)"
    and "\<And>s. r s = bnd (source_read n s) (\<lambda>(b, s). Inr (dec b, s))"
    and "\<And>v. length (enc v) = n" "0 < n" "\<And>v. dec (enc v) = v"
  shows "matches (w v) r v"
proof -
  have "enc v \<noteq> []" using assms(3,4) by (metis length_0_conv less_irrefl)
  then have "reads r v (enc v)"
    using assms(2,3,5) source_read_prefix [of _ "enc v"] by (auto simp: reads_def)
  with assms(1) show ?thesis by (auto simp: matches_def writes_def)
qed

lemma matches_w8 [codec_intros]: "matches (w8 v) r8 v"
  by (rule matches_num [where enc = "\<lambda>v. [v]" and n = 1 and dec = "\<lambda>b. b ! 0"])
    (simp_all add: w8_def r8_def)

lemma matches_w16 [codec_intros]: "matches (w16 v) r16 v"
  by (rule matches_num [where enc = bytes_of_u16 and n = 2 and dec = u16_of_bytes])
    (simp_all add: w16_def r16_def bytes_of_u16_def [of v for v] u16_of_bytes_of_u16
      [unfolded bytes_of_u16_def])

lemma matches_w32 [codec_intros]: "matches (w32 v) r32 v"
  by (rule matches_num [where enc = bytes_of_u32 and n = 4 and dec = u32_of_bytes])
    (simp_all add: w32_def r32_def bytes_of_u32_def [of v for v] u32_of_bytes_of_u32
      [unfolded bytes_of_u32_def])

lemma writes_append: "writes w1 a \<Longrightarrow> writes w2 b \<Longrightarrow> writes (\<lambda>s. bnd (w1 s) w2) (a @ b)"
  unfolding writes_def by (auto simp: sink_write_append [symmetric] bnd_def sink_write_cursor
    split: sum.splits)

lemma reads_rd:
  assumes "reads r v a" "reads (k v) u b"
  shows "reads (rd r k) u (a @ b)"
  unfolding reads_def
proof (intro allI impI)
  fix s :: stream and rest
  assume d: "drop (cursor s) (storage s) = (a @ b) @ rest"
  let ?s = "s\<lparr>cursor := cursor s + length a\<rparr>"
  from d assms(1) have "r s = Inr (v, ?s)" by (simp add: reads_def)
  moreover have "drop (cursor ?s) (storage ?s) = b @ rest"
    using d by (simp add: drop_drop [symmetric] add.commute del: drop_drop)
  ultimately show "rd r k s = Inr (u, s\<lparr>cursor := cursor s + length (a @ b)\<rparr>)"
    using assms(2) by (simp add: rd_def reads_def add.assoc)
qed

lemma matches_Cons [codec_intros]:
  assumes "matches w r v" "matches (seqw ws) (k v) u"
  shows "matches (seqw (w # ws)) (rd r k) u"
proof -
  obtain a b where "writes w a" "reads r v a" "writes (seqw ws) b" "reads (k v) u b"
    using assms by (auto simp: matches_def)
  then show ?thesis
    using writes_append [of w a "seqw ws" b] reads_rd [of r v a k u b]
    by (auto simp: matches_def writes_def)
qed

lemma matches_Nil [codec_intros]: "u' = u \<Longrightarrow> matches (seqw []) (ret u') u"
proof -
  have "reads (ret u) u []" by (simp add: reads_def ret_def)
  moreover have "writes (seqw []) []" by (simp add: writes_def sink_write_Nil)
  ultimately show "u' = u \<Longrightarrow> ?thesis" by (auto simp: matches_def)
qed

lemma matches_wbool [codec_intros]: "matches (wbool v) rbool v"
proof -
  obtain bs where bs: "writes (w8 (if v then 1 else 0)) bs" "reads r8 (if v then 1 else 0) bs"
    using matches_w8 [of "if v then 1 else 0"] by (auto simp: matches_def)
  then have "reads rbool v bs" by (auto simp: reads_def rbool_def)
  with bs(1) show ?thesis by (auto simp: matches_def wbool_def)
qed

lemma writes_w8s: "writes (w8s bs) bs"
proof (induction bs)
  case Nil
  show ?case by (simp add: writes_def sink_write_Nil)
next
  case (Cons b bs)
  have "writes (w8 b) [b]" by (simp add: writes_def w8_def)
  from writes_append [OF this Cons.IH] show ?case by (simp add: writes_def)
qed

lemma reads_r8: "reads r8 c [c]"
  using source_read_prefix [of _ "[c]"] by (auto simp: reads_def r8_def)

lemma reads_read_cstr: "0 \<notin> set bs \<Longrightarrow> reads (read_cstr acc) (acc @ bs) (bs @ [0])"
proof (induction bs arbitrary: acc)
  case Nil
  show ?case
    using reads_r8 [of 0] by (auto simp: reads_def read_cstr.simps [of acc])
next
  case (Cons c bs)
  then have c: "c \<noteq> 0" and IH: "reads (read_cstr (acc @ [c])) (acc @ c # bs) (bs @ [0])"
    using Cons.IH [of "acc @ [c]"] by auto
  have "read_cstr acc = rd r8 (\<lambda>d. if d = 0 then ret acc else read_cstr (acc @ [d]))"
    by (rule ext, subst read_cstr.simps)
      (auto simp: rd_def ret_def bnd_def split: sum.splits)
  with reads_rd [OF reads_r8 [of c], of "\<lambda>d. if d = 0 then ret acc else read_cstr (acc @ [d])"]
    c IH show ?case by simp
qed

lemma c_string_no_zero: "0 \<notin> set (c_string b)"
  by (auto simp: c_string_def dest: set_takeWhileD)

lemma matches_wstr [codec_intros]:
  assumes "icu_ok cv v"
  shows "matches (wstr cv v) (rstr cv) v"
proof -
  obtain b where b: "FromUtf8 cv v = Inr b" "ToUtf8 cv b = Inr v"
    using assms by (auto simp: icu_ok_def)
  then have nz: "0 \<notin> set b"
    using c_string_no_zero by (auto simp: FromUtf8_def split: option.splits)
  have "writes (w8 0) [0]" by (simp add: writes_def w8_def)
  from writes_append [OF writes_w8s this, of b] b(1)
  have "writes (wstr cv v) (b @ [0])" by (simp add: writes_def wstr_def)
  moreover have "reads (rstr cv) v (b @ [0])"
    using reads_read_cstr [OF nz, of "[]"] b(2) by (auto simp: reads_def rstr_def)
  ultimately show ?thesis by (auto simp: matches_def)
qed

section \<open>The contract of a message structure\<close>

locale codec =
  fixes wr :: "'a \<Rightarrow> stream \<Rightarrow> exn + stream"
    and rdr :: "stream \<Rightarrow> exn + ('a \<times> stream)"
    and ok :: "'a \<Rightarrow> bool"
  assumes codec_matches: "ok v \<Longrightarrow> matches (wr v) rdr v"
begin

text \<open>What was written is read back, and the reader stops exactly where the writer did.\<close>

lemma roundtrip:
  assumes "ok v" "cursor s \<le> length (storage s)" "wr v s = Inr s'"
  shows "rdr (s'\<lparr>cursor := cursor s\<rparr>) = Inr (v, s')"
proof -
  obtain bs where w: "writes (wr v) bs" and r: "reads rdr v bs"
    using codec_matches [OF assms(1)] by (auto simp: matches_def)
  from w assms(2,3) have sw: "sink_write bs s = Inr s'" by (simp add: writes_def)
  then have "drop (cursor s) (storage s') = bs @ drop (cursor s + length bs) (storage s)"
    and "cursor s' = cursor s + length bs"
    by (auto simp: sink_write_def poke_eq split: if_splits)
  with r show ?thesis by (simp add: reads_def)
qed

text \<open>The writer appends a fixed sequence of bytes, which the reader takes off any stream that
  begins with it.\<close>

lemma wire_format:
  assumes "ok v"
  shows "\<exists>bs. writes (wr v) bs
    \<and> (\<forall>rest. rdr (stream_of (bs @ rest)) = Inr (v, \<lparr>storage = bs @ rest, cursor = length bs\<rparr>))"
proof -
  obtain bs where "writes (wr v) bs" "reads rdr v bs"
    using codec_matches [OF assms] by (auto simp: matches_def)
  then show ?thesis by (auto simp: reads_def stream_of_def)
qed

lemma read_n_matches:
  "\<forall>x \<in> set xs. ok x \<Longrightarrow> matches (seqw (map wr xs)) (read_n (length xs) rdr) xs"
proof (induction xs)
  case Nil
  have "read_n (length []) rdr = ret []" by (rule ext) (simp add: ret_def)
  then show ?case using matches_Nil [of "[]" "[]"] by (simp del: seqw.simps read_n.simps)
next
  case (Cons x xs)
  have "matches (seqw (map wr xs)) (rd (read_n (length xs) rdr) (\<lambda>ys. ret (x # ys))) (x # xs)"
  proof -
    obtain bs where "writes (seqw (map wr xs)) bs" "reads (read_n (length xs) rdr) xs bs"
      using Cons by (auto simp: matches_def)
    moreover have "reads (ret (x # xs)) (x # xs) []" by (simp add: reads_def ret_def)
    ultimately show ?thesis
      using reads_rd [of "read_n (length xs) rdr" xs bs "\<lambda>ys. ret (x # ys)" "x # xs" "[]"]
      by (auto simp: matches_def)
  qed
  moreover have "matches (wr x) rdr x" using Cons.prems by (simp add: codec_matches)
  ultimately show ?case
    using matches_Cons [of "wr x" rdr x "map wr xs" "\<lambda>y. rd (read_n (length xs) rdr) (\<lambda>ys. ret (y # ys))"]
    by (simp del: seqw.simps)
qed

lemma list_matches:
  assumes "length xs < 256" "\<forall>x \<in> set xs. ok x"
  shows "matches (wlist wr xs) (rlist rdr) xs"
  unfolding wlist_def rlist_def
proof (rule matches_Cons [OF matches_w8])
  have "unat (of_nat (length xs) :: u8) = length xs"
    using assms(1) by (simp add: unat_of_nat)
  with read_n_matches [OF assms(2)]
  show "matches (seqw (map wr xs)) (read_n (unat (of_nat (length xs) :: u8)) rdr) xs" by simp
qed

end

end
