(* ===== verification/Wire_Items.thy ===== *)
theory Wire_Items imports Streams begin

text \<open>
  \<open>libserver/network/command/proto/CommonStructureDefinitions.hpp\<close> and \<open>.cpp\<close>: the
  structures shared by the messages that do not describe a character or a horse. For each the
  record of its fields, its \<open>Write\<close>, its \<open>Read\<close>, and the interpretation of \<open>codec\<close> that
  proves them inverse. An enumeration travels as, and is modelled by, its underlying integer.
  The settings of a user are the exception: see \<open>Settings_Read\<close>.
\<close>

section \<open>Plain structures\<close>

record wire_item =
  wi_uid :: "u32"
  wi_tid :: "u32"
  wi_expiresAt :: "u32"
  wi_count :: "u32"

definition Item_Write :: "wire_item \<Rightarrow> stream \<Rightarrow> exn + stream" where
  "Item_Write v = seqw [
     w32 (wi_uid v),
     w32 (wi_tid v),
     w32 (wi_expiresAt v),
     w32 (wi_count v)]"

definition Item_Read :: "stream \<Rightarrow> exn + (wire_item \<times> stream)" where
  "Item_Read =
     rd r32 (\<lambda>uid'.
     rd r32 (\<lambda>tid'.
     rd r32 (\<lambda>expiresAt'.
     rd r32 (\<lambda>count'.
     ret \<lparr>wi_uid = uid',
         wi_tid = tid',
         wi_expiresAt = expiresAt',
         wi_count = count'\<rparr>))))"

interpretation wire_item: codec Item_Write Item_Read "\<lambda>_. True"
  by unfold_locales (unfold Item_Write_def Item_Read_def, (rule codec_intros | simp)+)

declare wire_item.codec_matches [codec_intros]
declare wire_item.list_matches [codec_intros]

record wire_stored_item =
  wsi_uid :: "u32"
  wsi_goodsSq :: "u32"
  wsi_status :: "u8"
  wsi_val3 :: "u32"
  wsi_val4 :: "u32"
  wsi_carrots :: "u32"
  wsi_priceId :: "u32"
  wsi_sender :: "bytes"
  wsi_message :: "bytes"
  wsi_dateAndTime :: "u32"

definition StoredItem_Write :: "icu \<Rightarrow> wire_stored_item \<Rightarrow> stream \<Rightarrow> exn + stream" where
  "StoredItem_Write cv v = seqw [
     w32 (wsi_uid v),
     w32 (wsi_goodsSq v),
     w8 (wsi_status v),
     w32 (wsi_val3 v),
     w32 (wsi_val4 v),
     w32 (wsi_carrots v),
     w32 (wsi_priceId v),
     wstr cv (wsi_sender v),
     wstr cv (wsi_message v),
     w32 (wsi_dateAndTime v)]"

definition StoredItem_Read :: "icu \<Rightarrow> stream \<Rightarrow> exn + (wire_stored_item \<times> stream)" where
  "StoredItem_Read cv =
     rd r32 (\<lambda>uid'.
     rd r32 (\<lambda>goodsSq'.
     rd r8 (\<lambda>status'.
     rd r32 (\<lambda>val3'.
     rd r32 (\<lambda>val4'.
     rd r32 (\<lambda>carrots'.
     rd r32 (\<lambda>priceId'.
     rd (rstr cv) (\<lambda>sender'.
     rd (rstr cv) (\<lambda>message'.
     rd r32 (\<lambda>dateAndTime'.
     ret \<lparr>wsi_uid = uid',
         wsi_goodsSq = goodsSq',
         wsi_status = status',
         wsi_val3 = val3',
         wsi_val4 = val4',
         wsi_carrots = carrots',
         wsi_priceId = priceId',
         wsi_sender = sender',
         wsi_message = message',
         wsi_dateAndTime = dateAndTime'\<rparr>))))))))))"

definition StoredItem_ok :: "icu \<Rightarrow> wire_stored_item \<Rightarrow> bool" where
  "StoredItem_ok cv v \<longleftrightarrow> icu_ok cv (wsi_sender v) \<and> icu_ok cv (wsi_message v)"

interpretation wire_stored_item: codec "StoredItem_Write cv" "StoredItem_Read cv" "StoredItem_ok cv" for cv
  by unfold_locales (unfold StoredItem_Write_def StoredItem_Read_def StoredItem_ok_def, (rule codec_intros | simp)+)

declare wire_stored_item.codec_matches [codec_intros]
declare wire_stored_item.list_matches [codec_intros]

record wire_quest =
  wq_tid :: "u16"
  wq_member0 :: "u32"
  wq_status :: "u8"
  wq_progress :: "u32"
  wq_member3 :: "u8"
  wq_member4 :: "u8"

definition Quest_Write :: "wire_quest \<Rightarrow> stream \<Rightarrow> exn + stream" where
  "Quest_Write v = seqw [
     w16 (wq_tid v),
     w32 (wq_member0 v),
     w8 (wq_status v),
     w32 (wq_progress v),
     w8 (wq_member3 v),
     w8 (wq_member4 v)]"

definition Quest_Read :: "stream \<Rightarrow> exn + (wire_quest \<times> stream)" where
  "Quest_Read =
     rd r16 (\<lambda>tid'.
     rd r32 (\<lambda>member0'.
     rd r8 (\<lambda>status'.
     rd r32 (\<lambda>progress'.
     rd r8 (\<lambda>member3'.
     rd r8 (\<lambda>member4'.
     ret \<lparr>wq_tid = tid',
         wq_member0 = member0',
         wq_status = status',
         wq_progress = progress',
         wq_member3 = member3',
         wq_member4 = member4'\<rparr>))))))"

interpretation wire_quest: codec Quest_Write Quest_Read "\<lambda>_. True"
  by unfold_locales (unfold Quest_Write_def Quest_Read_def, (rule codec_intros | simp)+)

declare wire_quest.codec_matches [codec_intros]
declare wire_quest.list_matches [codec_intros]

record wire_housing =
  wh_uid :: "u32"
  wh_tid :: "u16"
  wh_durability :: "u32"

definition Housing_Write :: "wire_housing \<Rightarrow> stream \<Rightarrow> exn + stream" where
  "Housing_Write v = seqw [
     w32 (wh_uid v),
     w16 (wh_tid v),
     w32 (wh_durability v)]"

definition Housing_Read :: "stream \<Rightarrow> exn + (wire_housing \<times> stream)" where
  "Housing_Read =
     rd r32 (\<lambda>uid'.
     rd r16 (\<lambda>tid'.
     rd r32 (\<lambda>durability'.
     ret \<lparr>wh_uid = uid',
         wh_tid = tid',
         wh_durability = durability'\<rparr>)))"

interpretation wire_housing: codec Housing_Write Housing_Read "\<lambda>_. True"
  by unfold_locales (unfold Housing_Write_def Housing_Read_def, (rule codec_intros | simp)+)

declare wire_housing.codec_matches [codec_intros]
declare wire_housing.list_matches [codec_intros]

record wire_league =
  wl_type :: "u8"
  wl_rankingPercentile :: "u8"

definition League_Write :: "wire_league \<Rightarrow> stream \<Rightarrow> exn + stream" where
  "League_Write v = seqw [
     w8 (wl_type v),
     w8 (wl_rankingPercentile v)]"

definition League_Read :: "stream \<Rightarrow> exn + (wire_league \<times> stream)" where
  "League_Read =
     rd r8 (\<lambda>type'.
     rd r8 (\<lambda>rankingPercentile'.
     ret \<lparr>wl_type = type',
         wl_rankingPercentile = rankingPercentile'\<rparr>))"

interpretation wire_league: codec League_Write League_Read "\<lambda>_. True"
  by unfold_locales (unfold League_Write_def League_Read_def, (rule codec_intros | simp)+)

declare wire_league.codec_matches [codec_intros]
declare wire_league.list_matches [codec_intros]

record wire_daily_quest =
  wdq_questId :: "u16"
  wdq_progress :: "u32"
  wdq_rewardType :: "u8"
  wdq_rewardId :: "u8"

definition DailyQuest_Write :: "wire_daily_quest \<Rightarrow> stream \<Rightarrow> exn + stream" where
  "DailyQuest_Write v = seqw [
     w16 (wdq_questId v),
     w32 (wdq_progress v),
     w8 (wdq_rewardType v),
     w8 (wdq_rewardId v)]"

definition DailyQuest_Read :: "stream \<Rightarrow> exn + (wire_daily_quest \<times> stream)" where
  "DailyQuest_Read =
     rd r16 (\<lambda>questId'.
     rd r32 (\<lambda>progress'.
     rd r8 (\<lambda>rewardType'.
     rd r8 (\<lambda>rewardId'.
     ret \<lparr>wdq_questId = questId',
         wdq_progress = progress',
         wdq_rewardType = rewardType',
         wdq_rewardId = rewardId'\<rparr>))))"

interpretation wire_daily_quest: codec DailyQuest_Write DailyQuest_Read "\<lambda>_. True"
  by unfold_locales (unfold DailyQuest_Write_def DailyQuest_Read_def, (rule codec_intros | simp)+)

declare wire_daily_quest.codec_matches [codec_intros]
declare wire_daily_quest.list_matches [codec_intros]

record wire_shop_order =
  wso_goodsSq :: "u32"
  wso_equipImmediately :: "bool"
  wso_priceId :: "u16"

definition ShopOrder_Write :: "wire_shop_order \<Rightarrow> stream \<Rightarrow> exn + stream" where
  "ShopOrder_Write v = seqw [
     w32 (wso_goodsSq v),
     wbool (wso_equipImmediately v),
     w16 (wso_priceId v)]"

definition ShopOrder_Read :: "stream \<Rightarrow> exn + (wire_shop_order \<times> stream)" where
  "ShopOrder_Read =
     rd r32 (\<lambda>goodsSq'.
     rd rbool (\<lambda>equipImmediately'.
     rd r16 (\<lambda>priceId'.
     ret \<lparr>wso_goodsSq = goodsSq',
         wso_equipImmediately = equipImmediately',
         wso_priceId = priceId'\<rparr>)))"

interpretation wire_shop_order: codec ShopOrder_Write ShopOrder_Read "\<lambda>_. True"
  by unfold_locales (unfold ShopOrder_Write_def ShopOrder_Read_def, (rule codec_intros | simp)+)

declare wire_shop_order.codec_matches [codec_intros]
declare wire_shop_order.list_matches [codec_intros]

record wire_packed_vector3 =
  wpv_x :: "u32"
  wpv_y :: "u32"
  wpv_z :: "u32"
  wpv_w :: "u32"

definition PackedVector3_Write :: "wire_packed_vector3 \<Rightarrow> stream \<Rightarrow> exn + stream" where
  "PackedVector3_Write v = seqw [
     w32 (wpv_x v),
     w32 (wpv_y v),
     w32 (wpv_z v),
     w32 (wpv_w v)]"

definition PackedVector3_Read :: "stream \<Rightarrow> exn + (wire_packed_vector3 \<times> stream)" where
  "PackedVector3_Read =
     rd r32 (\<lambda>x'.
     rd r32 (\<lambda>y'.
     rd r32 (\<lambda>z'.
     rd r32 (\<lambda>w'.
     ret \<lparr>wpv_x = x',
         wpv_y = y',
         wpv_z = z',
         wpv_w = w'\<rparr>))))"

interpretation wire_packed_vector3: codec PackedVector3_Write PackedVector3_Read "\<lambda>_. True"
  by unfold_locales (unfold PackedVector3_Write_def PackedVector3_Read_def, (rule codec_intros | simp)+)

declare wire_packed_vector3.codec_matches [codec_intros]
declare wire_packed_vector3.list_matches [codec_intros]

record wire_objective =
  wob_isCompleted :: "bool"
  wob_progress :: "u32"
  wob_achievementTier :: "u8"

definition ObjectiveProgress_Write :: "wire_objective \<Rightarrow> stream \<Rightarrow> exn + stream" where
  "ObjectiveProgress_Write v = seqw [
     wbool (wob_isCompleted v),
     w32 (wob_progress v),
     w8 (wob_achievementTier v)]"

definition ObjectiveProgress_Read :: "stream \<Rightarrow> exn + (wire_objective \<times> stream)" where
  "ObjectiveProgress_Read =
     rd rbool (\<lambda>isCompleted'.
     rd r32 (\<lambda>progress'.
     rd r8 (\<lambda>achievementTier'.
     ret \<lparr>wob_isCompleted = isCompleted',
         wob_progress = progress',
         wob_achievementTier = achievementTier'\<rparr>)))"

interpretation wire_objective: codec ObjectiveProgress_Write ObjectiveProgress_Read "\<lambda>_. True"
  by unfold_locales (unfold ObjectiveProgress_Write_def ObjectiveProgress_Read_def, (rule codec_intros | simp)+)

declare wire_objective.codec_matches [codec_intros]
declare wire_objective.list_matches [codec_intros]

record wire_vector3 =
  wv_x :: "u32"
  wv_y :: "u32"
  wv_z :: "u32"

definition Vector3_Write :: "wire_vector3 \<Rightarrow> stream \<Rightarrow> exn + stream" where
  "Vector3_Write v = seqw [
     w32 (wv_x v),
     w32 (wv_y v),
     w32 (wv_z v)]"

definition Vector3_Read :: "stream \<Rightarrow> exn + (wire_vector3 \<times> stream)" where
  "Vector3_Read =
     rd r32 (\<lambda>x'.
     rd r32 (\<lambda>y'.
     rd r32 (\<lambda>z'.
     ret \<lparr>wv_x = x',
         wv_y = y',
         wv_z = z'\<rparr>)))"

interpretation wire_vector3: codec Vector3_Write Vector3_Read "\<lambda>_. True"
  by unfold_locales (unfold Vector3_Write_def Vector3_Read_def, (rule codec_intros | simp)+)

declare wire_vector3.codec_matches [codec_intros]
declare wire_vector3.list_matches [codec_intros]

record wire_breeding_bonus =
  wbb_id :: "u8"
  wbb_type :: "u8"
  wbb_value :: "u8"

definition BreedingBonus_Write :: "wire_breeding_bonus \<Rightarrow> stream \<Rightarrow> exn + stream" where
  "BreedingBonus_Write v = seqw [
     w8 (wbb_id v),
     w8 (wbb_type v),
     w8 (wbb_value v)]"

definition BreedingBonus_Read :: "stream \<Rightarrow> exn + (wire_breeding_bonus \<times> stream)" where
  "BreedingBonus_Read =
     rd r8 (\<lambda>id'.
     rd r8 (\<lambda>type'.
     rd r8 (\<lambda>value'.
     ret \<lparr>wbb_id = id',
         wbb_type = type',
         wbb_value = value'\<rparr>)))"

interpretation wire_breeding_bonus: codec BreedingBonus_Write BreedingBonus_Read "\<lambda>_. True"
  by unfold_locales (unfold BreedingBonus_Write_def BreedingBonus_Read_def, (rule codec_intros | simp)+)

declare wire_breeding_bonus.codec_matches [codec_intros]
declare wire_breeding_bonus.list_matches [codec_intros]

section \<open>Options\<close>

record keyboard_option =
  ko_secondaryKey :: "u8"
  ko_type :: "u8"
  ko_unused :: "u8"
  ko_primaryKey :: "u8"

definition KeyboardOption_Write :: "keyboard_option \<Rightarrow> stream \<Rightarrow> exn + stream" where
  "KeyboardOption_Write v = seqw [
     w8 (ko_secondaryKey v),
     w8 (ko_type v),
     w8 (ko_unused v),
     w8 (ko_primaryKey v)]"

definition KeyboardOption_Read :: "stream \<Rightarrow> exn + (keyboard_option \<times> stream)" where
  "KeyboardOption_Read =
     rd r8 (\<lambda>secondaryKey'.
     rd r8 (\<lambda>type'.
     rd r8 (\<lambda>unused'.
     rd r8 (\<lambda>primaryKey'.
     ret \<lparr>ko_secondaryKey = secondaryKey',
         ko_type = type',
         ko_unused = unused',
         ko_primaryKey = primaryKey'\<rparr>))))"

interpretation keyboard_option: codec KeyboardOption_Write KeyboardOption_Read "\<lambda>_. True"
  by unfold_locales (unfold KeyboardOption_Write_def KeyboardOption_Read_def, (rule codec_intros | simp)+)

declare keyboard_option.codec_matches [codec_intros]
declare keyboard_option.list_matches [codec_intros]

record gamepad_option =
  go_secondaryButton :: "u8"
  go_type :: "u8"
  go_unused :: "u8"
  go_primaryButton :: "u8"

definition GamepadOption_Write :: "gamepad_option \<Rightarrow> stream \<Rightarrow> exn + stream" where
  "GamepadOption_Write v = seqw [
     w8 (go_secondaryButton v),
     w8 (go_type v),
     w8 (go_unused v),
     w8 (go_primaryButton v)]"

definition GamepadOption_Read :: "stream \<Rightarrow> exn + (gamepad_option \<times> stream)" where
  "GamepadOption_Read =
     rd r8 (\<lambda>secondaryButton'.
     rd r8 (\<lambda>type'.
     rd r8 (\<lambda>unused'.
     rd r8 (\<lambda>primaryButton'.
     ret \<lparr>go_secondaryButton = secondaryButton',
         go_type = type',
         go_unused = unused',
         go_primaryButton = primaryButton'\<rparr>))))"

interpretation gamepad_option: codec GamepadOption_Write GamepadOption_Read "\<lambda>_. True"
  by unfold_locales (unfold GamepadOption_Write_def GamepadOption_Read_def, (rule codec_intros | simp)+)

declare gamepad_option.codec_matches [codec_intros]
declare gamepad_option.list_matches [codec_intros]

record keyboard_options =
  kbo_bindings :: "keyboard_option list"

definition KeyboardOptions_Write :: "keyboard_options \<Rightarrow> stream \<Rightarrow> exn + stream" where
  "KeyboardOptions_Write v = wlist KeyboardOption_Write (kbo_bindings v)"

definition KeyboardOptions_Read :: "stream \<Rightarrow> exn + (keyboard_options \<times> stream)" where
  "KeyboardOptions_Read = rd (rlist KeyboardOption_Read) (\<lambda>bindings. ret \<lparr>kbo_bindings = bindings\<rparr>)"

record gamepad_options =
  gpo_bindings :: "gamepad_option list"

definition GamepadOptions_Write :: "gamepad_options \<Rightarrow> stream \<Rightarrow> exn + stream" where
  "GamepadOptions_Write v = wlist GamepadOption_Write (gpo_bindings v)"

definition GamepadOptions_Read :: "stream \<Rightarrow> exn + (gamepad_options \<times> stream)" where
  "GamepadOptions_Read = rd (rlist GamepadOption_Read) (\<lambda>bindings. ret \<lparr>gpo_bindings = bindings\<rparr>)"

text \<open>The eight macros are a fixed array: no size is sent.\<close>

record macro_options =
  mo_macros :: "bytes list"

definition MacroOptions_Write :: "icu \<Rightarrow> macro_options \<Rightarrow> stream \<Rightarrow> exn + stream" where
  "MacroOptions_Write cv v = seqw (map (wstr cv) (mo_macros v))"

definition MacroOptions_Read :: "icu \<Rightarrow> stream \<Rightarrow> exn + (macro_options \<times> stream)" where
  "MacroOptions_Read cv = rd (read_n 8 (rstr cv)) (\<lambda>macros. ret \<lparr>mo_macros = macros\<rparr>)"

interpretation wire_string: codec "wstr cv" "rstr cv" "icu_ok cv" for cv
  by unfold_locales (rule matches_wstr)

lemma matches_map [codec_intros]:
  assumes "matches w r xs" "f xs = u"
  shows "matches w (rd r (\<lambda>v. ret (f v))) u"
proof -
  obtain bs where "writes w bs" "reads r xs bs"
    using assms by (auto simp: matches_def)
  moreover have "reads (ret (f xs)) (f xs) []" by (simp add: reads_def ret_def)
  ultimately show ?thesis
    using assms(2) reads_rd [of r xs bs "\<lambda>v. ret (f v)" "f xs" "[]"] by (auto simp: matches_def)
qed

interpretation wire_keyboard: codec KeyboardOptions_Write KeyboardOptions_Read
  "\<lambda>v. length (kbo_bindings v) < 256"
proof unfold_locales
  fix v :: keyboard_options
  assume "length (kbo_bindings v) < 256"
  then have "matches (wlist KeyboardOption_Write (kbo_bindings v)) (rlist KeyboardOption_Read)
      (kbo_bindings v)"
    by (simp add: keyboard_option.list_matches)
  from matches_map [OF this, of "\<lambda>bindings. \<lparr>kbo_bindings = bindings\<rparr>" v]
  show "matches (KeyboardOptions_Write v) KeyboardOptions_Read v"
    by (simp add: KeyboardOptions_Write_def KeyboardOptions_Read_def)
qed

interpretation wire_gamepad: codec GamepadOptions_Write GamepadOptions_Read
  "\<lambda>v. length (gpo_bindings v) < 256"
proof unfold_locales
  fix v :: gamepad_options
  assume "length (gpo_bindings v) < 256"
  then have "matches (wlist GamepadOption_Write (gpo_bindings v)) (rlist GamepadOption_Read)
      (gpo_bindings v)"
    by (simp add: gamepad_option.list_matches)
  from matches_map [OF this, of "\<lambda>bindings. \<lparr>gpo_bindings = bindings\<rparr>" v]
  show "matches (GamepadOptions_Write v) GamepadOptions_Read v"
    by (simp add: GamepadOptions_Write_def GamepadOptions_Read_def)
qed

interpretation wire_macros: codec "MacroOptions_Write cv" "MacroOptions_Read cv"
  "\<lambda>v. length (mo_macros v) = 8 \<and> (\<forall>m \<in> set (mo_macros v). icu_ok cv m)" for cv
proof unfold_locales
  fix v :: macro_options
  assume *: "length (mo_macros v) = 8 \<and> (\<forall>m \<in> set (mo_macros v). icu_ok cv m)"
  then have "matches (seqw (map (wstr cv) (mo_macros v))) (read_n 8 (rstr cv)) (mo_macros v)"
    using wire_string.read_n_matches [of "mo_macros v" cv] by simp
  from matches_map [OF this, of "\<lambda>macros. \<lparr>mo_macros = macros\<rparr>" v]
  show "matches (MacroOptions_Write cv v) (MacroOptions_Read cv) v"
    by (simp add: MacroOptions_Write_def MacroOptions_Read_def)
qed

section \<open>Settings\<close>

text \<open>
  The settings hold up to four option groups, selected by bits 0, 3, 4 and 5 of the type bit
  set. \<open>Settings_Read\<close> fills the object \<open>v0\<close> it is given and leaves an unselected group as it
  was. The bindings are sent here in the order type, unused, primary, secondary.
\<close>

record wire_settings =
  ws_typeBitset :: u32
  ws_keyboard :: "keyboard_option list"
  ws_macros :: "bytes list"
  ws_valueOption :: u32
  ws_gamepad :: "gamepad_option list"
  ws_age :: u8
  ws_hideAge :: u8

definition Settings_keyboard_w :: "keyboard_option \<Rightarrow> stream \<Rightarrow> exn + stream" where
  "Settings_keyboard_w b = seqw [w8 (ko_type b), w8 (ko_unused b), w8 (ko_primaryKey b),
     w8 (ko_secondaryKey b)]"

definition Settings_keyboard_r :: "stream \<Rightarrow> exn + (keyboard_option \<times> stream)" where
  "Settings_keyboard_r = rd r8 (\<lambda>type. rd r8 (\<lambda>unused. rd r8 (\<lambda>primaryKey. rd r8 (\<lambda>secondaryKey.
     ret \<lparr>ko_secondaryKey = secondaryKey, ko_type = type, ko_unused = unused,
       ko_primaryKey = primaryKey\<rparr>))))"

definition Settings_gamepad_w :: "gamepad_option \<Rightarrow> stream \<Rightarrow> exn + stream" where
  "Settings_gamepad_w b = seqw [w8 (go_type b), w8 (go_unused b), w8 (go_primaryButton b),
     w8 (go_secondaryButton b)]"

definition Settings_gamepad_r :: "stream \<Rightarrow> exn + (gamepad_option \<times> stream)" where
  "Settings_gamepad_r = rd r8 (\<lambda>type. rd r8 (\<lambda>unused. rd r8 (\<lambda>primaryButton. rd r8 (\<lambda>secondaryButton.
     ret \<lparr>go_secondaryButton = secondaryButton, go_type = type, go_unused = unused,
       go_primaryButton = primaryButton\<rparr>))))"

definition Settings_Write :: "icu \<Rightarrow> wire_settings \<Rightarrow> stream \<Rightarrow> exn + stream" where
  "Settings_Write cv v = seqw [
     w32 (ws_typeBitset v),
     (if bit (ws_typeBitset v) 0 then wlist Settings_keyboard_w (ws_keyboard v) else seqw []),
     (if bit (ws_typeBitset v) 3 then seqw (map (wstr cv) (ws_macros v)) else seqw []),
     (if bit (ws_typeBitset v) 4 then w32 (ws_valueOption v) else seqw []),
     (if bit (ws_typeBitset v) 5 then wlist Settings_gamepad_w (ws_gamepad v) else seqw []),
     w8 (ws_age v),
     w8 (ws_hideAge v)]"

definition Settings_Read :: "icu \<Rightarrow> wire_settings \<Rightarrow> stream \<Rightarrow> exn + (wire_settings \<times> stream)" where
  "Settings_Read cv v0 =
     rd r32 (\<lambda>typeBitset.
     rd (if bit typeBitset 0 then rlist Settings_keyboard_r else ret (ws_keyboard v0)) (\<lambda>keyboard.
     rd (if bit typeBitset 5 then rlist Settings_gamepad_r else ret (ws_gamepad v0)) (\<lambda>gamepad.
     rd (if bit typeBitset 3 then read_n 8 (rstr cv) else ret (ws_macros v0)) (\<lambda>macros.
     rd (if bit typeBitset 4 then r32 else ret (ws_valueOption v0)) (\<lambda>valueOption.
     rd r8 (\<lambda>age.
     rd r8 (\<lambda>hideAge.
     ret \<lparr>ws_typeBitset = typeBitset, ws_keyboard = keyboard, ws_macros = macros,
       ws_valueOption = valueOption, ws_gamepad = gamepad, ws_age = age,
       ws_hideAge = hideAge\<rparr>)))))))"

definition Settings_ok :: "icu \<Rightarrow> wire_settings \<Rightarrow> wire_settings \<Rightarrow> bool" where
  "Settings_ok cv v0 v \<longleftrightarrow>
     (if bit (ws_typeBitset v) 0 then length (ws_keyboard v) < 256
      else ws_keyboard v = ws_keyboard v0)
   \<and> (if bit (ws_typeBitset v) 3
      then length (ws_macros v) = 8 \<and> (\<forall>m \<in> set (ws_macros v). icu_ok cv m)
      else ws_macros v = ws_macros v0)
   \<and> (bit (ws_typeBitset v) 4 \<or> ws_valueOption v = ws_valueOption v0)
   \<and> (if bit (ws_typeBitset v) 5 then length (ws_gamepad v) < 256
      else ws_gamepad v = ws_gamepad v0)"

text \<open>The selections the two functions agree on: no gamepad, or neither macros nor a value.\<close>

definition Settings_aligned :: "wire_settings \<Rightarrow> bool" where
  "Settings_aligned v \<longleftrightarrow> \<not> bit (ws_typeBitset v) 5
     \<or> (\<not> bit (ws_typeBitset v) 3 \<and> \<not> bit (ws_typeBitset v) 4)"

interpretation settings_key: codec Settings_keyboard_w Settings_keyboard_r "\<lambda>_. True"
  by unfold_locales (unfold Settings_keyboard_w_def Settings_keyboard_r_def, (rule codec_intros | simp)+)

interpretation settings_button: codec Settings_gamepad_w Settings_gamepad_r "\<lambda>_. True"
  by unfold_locales (unfold Settings_gamepad_w_def Settings_gamepad_r_def, (rule codec_intros | simp)+)

lemma seqw_skip: "seqw (seqw [] # ws) = seqw ws"
  by (rule ext) simp

lemma rd_ret [simp]: "rd (ret x) k = k x"
  by (rule ext) (simp add: rd_def ret_def)

lemma matches_if [codec_intros]:
  "(b \<Longrightarrow> matches w1 r1 v) \<Longrightarrow> (\<not> b \<Longrightarrow> matches w2 r2 v)
     \<Longrightarrow> matches (if b then w1 else w2) (if b then r1 else r2) v"
  by simp

lemma matches_keep: "x = v \<Longrightarrow> matches (seqw []) (ret x) v"
  by (rule matches_Nil)

lemma matches_macros:
  "length ms = 8 \<Longrightarrow> \<forall>m \<in> set ms. icu_ok cv m
     \<Longrightarrow> matches (seqw (map (wstr cv) ms)) (read_n 8 (rstr cv)) ms"
  using wire_string.read_n_matches [of ms cv] by simp

lemma Settings_matches:
  assumes "Settings_ok cv v0 v" "Settings_aligned v"
  shows "matches (Settings_Write cv v) (Settings_Read cv v0) v"
proof (cases "bit (ws_typeBitset v) 5")
  case False
  show ?thesis
    unfolding Settings_Write_def Settings_Read_def
    apply (rule matches_Cons [OF matches_w32])
    apply (rule matches_Cons [where v = "ws_keyboard v"])
    subgoal using assms(1)
      by (auto simp: Settings_ok_def simp del: seqw.simps
          intro: settings_key.list_matches matches_keep)
    apply (simp only: False if_False rd_ret seqw_skip)
    apply (rule matches_Cons [where v = "ws_macros v"])
    subgoal using assms(1)
      by (auto simp: Settings_ok_def simp del: seqw.simps intro: matches_macros matches_keep)
    apply (rule matches_Cons [where v = "ws_valueOption v"])
    subgoal using assms(1)
      by (auto simp: Settings_ok_def simp del: seqw.simps intro: matches_w32 matches_keep)
    apply (simp only: seqw_skip)
    apply (rule matches_Cons [OF matches_w8])
    apply (rule matches_Cons [OF matches_w8])
    apply (rule matches_Nil)
    using assms(1) False by (simp add: Settings_ok_def)
next
  case True
  with assms(2) have no: "\<not> bit (ws_typeBitset v) 3" "\<not> bit (ws_typeBitset v) 4"
    by (auto simp: Settings_aligned_def)
  show ?thesis
    unfolding Settings_Write_def Settings_Read_def
    apply (rule matches_Cons [OF matches_w32])
    apply (rule matches_Cons [where v = "ws_keyboard v"])
    subgoal using assms(1)
      by (auto simp: Settings_ok_def simp del: seqw.simps
          intro: settings_key.list_matches matches_keep)
    apply (simp only: True no if_True if_False rd_ret seqw_skip)
    apply (rule matches_Cons [where v = "ws_gamepad v"])
    subgoal using assms(1) True
      by (auto simp: Settings_ok_def simp del: seqw.simps intro: settings_button.list_matches)
    apply (rule matches_Cons [OF matches_w8])
    apply (rule matches_Cons [OF matches_w8])
    apply (rule matches_Nil)
    using assms(1) no by (simp add: Settings_ok_def)
qed

section \<open>Skill sets\<close>

text \<open>
  The game mode is a byte in memory and a double word on the wire. The assertions of the code
  are compiled out of the server (\<open>RelWithDebInfo\<close>, the build type of the \<open>Dockerfile\<close>).
\<close>

record wire_skill_set =
  wss_setId :: u8
  wss_gamemode :: u8
  wss_skills :: "u32 list"

definition SkillSet_Write :: "wire_skill_set \<Rightarrow> stream \<Rightarrow> exn + stream" where
  "SkillSet_Write v = seqw [
     w8 (wss_setId v),
     w32 (ucast (wss_gamemode v)),
     wlist w32 (wss_skills v)]"

definition SkillSet_Read :: "stream \<Rightarrow> exn + (wire_skill_set \<times> stream)" where
  "SkillSet_Read =
     rd r8 (\<lambda>setId.
     rd r32 (\<lambda>commandGameMode.
     rd (rlist r32) (\<lambda>skills.
     ret \<lparr>wss_setId = setId, wss_gamemode = ucast commandGameMode, wss_skills = skills\<rparr>)))"

interpretation wire_u32: codec w32 r32 "\<lambda>_. True"
  by unfold_locales (rule matches_w32)

interpretation wire_skill_set: codec SkillSet_Write SkillSet_Read
  "\<lambda>v. length (wss_skills v) < 256"
proof unfold_locales
  fix v :: wire_skill_set
  assume "length (wss_skills v) < 256"
  then have l: "matches (wlist w32 (wss_skills v)) (rlist r32) (wss_skills v)"
    by (simp add: wire_u32.list_matches)
  have "ucast (ucast (wss_gamemode v) :: u32) = wss_gamemode v"
    by (rule bit_word_eqI) (auto simp: bit_simps)
  then show "matches (SkillSet_Write v) SkillSet_Read v"
    unfolding SkillSet_Write_def SkillSet_Read_def
    by (intro matches_Cons [OF matches_w8] matches_Cons [OF matches_w32] matches_Cons [OF l]
        matches_Nil) simp
qed


section \<open>Settings on the wire\<close>

text \<open>Settings that select no gamepad bindings, or neither macros nor a value beside them, are
  read back as they were written, whatever object they are read into agrees on the unselected
  groups.\<close>

theorem Settings_roundtrip:
  assumes "Settings_ok cv v0 v" "Settings_aligned v"
  shows "\<exists>bs. writes (Settings_Write cv v) bs
    \<and> (\<forall>rest. Settings_Read cv v0 (stream_of (bs @ rest))
         = Inr (v, \<lparr>storage = bs @ rest, cursor = length bs\<rparr>))"
proof -
  obtain bs where "writes (Settings_Write cv v) bs" "reads (Settings_Read cv v0) v bs"
    using Settings_matches [OF assms] by (auto simp: matches_def)
  then show ?thesis by (auto simp: reads_def stream_of_def)
qed

definition plain_icu :: icu where
  "plain_icu = \<lparr>utf8_to_euckr = Some, euckr_to_utf8 = Some\<rparr>"

definition sample_settings :: "u32 \<Rightarrow> wire_settings" where
  "sample_settings bits = \<lparr>ws_typeBitset = bits, ws_keyboard = [], ws_macros = [],
     ws_valueOption = 7, ws_gamepad = [], ws_age = 20, ws_hideAge = 1\<rparr>"

lemma Settings_roundtrip_witness:
  "\<exists>bs. writes (Settings_Write plain_icu (sample_settings 17)) bs
    \<and> Settings_Read plain_icu (sample_settings 0) (stream_of bs)
      = Inr (sample_settings 17, \<lparr>storage = bs, cursor = length bs\<rparr>)"
proof -
  have "Settings_ok plain_icu (sample_settings 0) (sample_settings 17)"
    and "Settings_aligned (sample_settings 17)"
    by (simp_all add: Settings_ok_def Settings_aligned_def sample_settings_def)
  from Settings_roundtrip [OF this] show ?thesis by (metis append_Nil2)
qed

text \<open>With gamepad bindings and a value selected together the two functions disagree on the
  order of the groups: the settings below are written, and reading the written bytes takes the
  value for a number of bindings and runs out of data.\<close>

theorem Settings_order_mismatch:
  "case Settings_Write plain_icu (sample_settings 48) (stream_of (replicate 11 0)) of
     Inl e \<Rightarrow> False
   | Inr s \<Rightarrow> cursor s = 11
       \<and> Settings_Read plain_icu (sample_settings 48) (stream_of (storage s)) = Inl OverflowError"
  by code_simp


end
