(* ===== verification/Race_Tracker.thy ===== *)
theory Race_Tracker imports Id_Sources Wire_Items begin

text \<open>
  \<open>server/tracker/RaceTracker.cpp\<close>: the racers, item decks and events of one race, and the object
  ids of its characters.

  \<^item> \<open>_racers\<close> and \<open>_itemDecks\<close> are ordered maps, \<open>_events\<close> and \<open>_characterOids\<close> unordered ones.
  \<^item> A reference the code returns is a key here; the caller writes the changed record back with
    \<open>set_racer\<close>.
  \<^item> \<open>time_point::max()\<close> and \<open>min()\<close>, which stand for a time never set, are \<open>None\<close>.
  \<^item> A race progress is the bit pattern of its float.
\<close>

section \<open>Data\<close>

datatype RacerState = Disconnected | Loading | Racing | Finishing
datatype TeamColor = Color_Solo | Color_Unknown | Color_Red | Color_Blue
datatype SetEquipEffect = NoSetEffect | CriticalSpellChance | PassiveGaugeFaster | GaugeWhileHolding

definition InvalidCourseTime :: u32 where "InvalidCourseTime = 0xFFFFFFFF"
definition EventThrottleDuration :: int where "EventThrottleDuration = milliseconds 250"
definition EffectCount :: nat where "EffectCount = 24"

record event_item =
  ei_oid :: oid
  ei_itemType :: u32
  ei_position :: wire_vector3

record mount_stats =
  ms_agility :: u32
  ms_ambition :: u32
  ms_rush :: u32
  ms_endurance :: u32
  ms_courage :: u32

record magic_target =
  mt_casterOid :: u16
  mt_effectInstanceId :: u16

record racer =
  ra_oid :: oid
  ra_state :: RacerState
  ra_team :: TeamColor
  ra_worldPosition :: wire_vector3
  ra_starPointValue :: u32
  ra_jumpComboValue :: u32
  ra_courseTime :: u32
  ra_magicItem :: "u32 option"
  ra_raceProgress :: u32
  ra_trackedDecks :: "oid list"
  ra_deckCooldown :: "(oid, time_point) umap"
  ra_eventItems :: "event_item list"
  ra_effects :: "bool list"
  ra_effectGenerations :: "u32 list"
  ra_attackRank :: u32
  ra_dragonReceivedAt :: time_point
  ra_lastGaugeUpdate :: "time_point option"
  ra_mountStats :: mount_stats
  ra_activeSetEffect :: SetEquipEffect
  ra_pendingMagicTarget :: "magic_target option"

record item_deck =
  id_oid :: oid
  id_items :: "u32 list"
  id_currentItem :: u32
  id_respawnTime :: int
  id_respawnTimePoint :: "time_point option"
  id_position :: wire_vector3

record race_event =
  ev_id :: u32
  ev_throttledUntil :: time_point

record team_info =
  ti_points :: u32
  ti_boostCount :: u32
  ti_gaugeLocked :: bool

record race_tracker =
  rt_blueTeam :: team_info
  rt_redTeam :: team_info
  rt_firstPassItemSpawn :: bool
  rt_characterOids :: "(uid, oid) umap"
  rt_nextCharacterOid :: oid
  rt_nextItemDeckOid :: oid
  rt_racers :: "(uid, racer) omap"
  rt_itemDecks :: "(oid, item_deck) omap"
  rt_events :: "(u32, race_event) umap"
  rt_nextEffectInstanceId :: u16

definition new_vector3 :: wire_vector3 where
  "new_vector3 = \<lparr>wv_x = 0, wv_y = 0, wv_z = 0\<rparr>"

definition new_racer :: racer where
  "new_racer = \<lparr>ra_oid = InvalidEntityOid, ra_state = Disconnected, ra_team = Color_Solo,
     ra_worldPosition = new_vector3, ra_starPointValue = 0, ra_jumpComboValue = 0,
     ra_courseTime = InvalidCourseTime, ra_magicItem = None, ra_raceProgress = 0,
     ra_trackedDecks = [], ra_deckCooldown = [], ra_eventItems = [],
     ra_effects = replicate EffectCount False, ra_effectGenerations = replicate EffectCount 0,
     ra_attackRank = 0, ra_dragonReceivedAt = 0, ra_lastGaugeUpdate = None,
     ra_mountStats = \<lparr>ms_agility = 0, ms_ambition = 0, ms_rush = 0, ms_endurance = 0, ms_courage = 0\<rparr>,
     ra_activeSetEffect = NoSetEffect, ra_pendingMagicTarget = None\<rparr>"

definition new_item_deck :: item_deck where
  "new_item_deck = \<lparr>id_oid = 0, id_items = [], id_currentItem = 0, id_respawnTime = 0,
     id_respawnTimePoint = None, id_position = new_vector3\<rparr>"

definition new_team_info :: team_info where
  "new_team_info = \<lparr>ti_points = 0, ti_boostCount = 0, ti_gaugeLocked = False\<rparr>"

definition new_tracker :: race_tracker where
  "new_tracker = \<lparr>rt_blueTeam = new_team_info, rt_redTeam = new_team_info,
     rt_firstPassItemSpawn = True, rt_characterOids = [], rt_nextCharacterOid = 1,
     rt_nextItemDeckOid = 1, rt_racers = [], rt_itemDecks = [], rt_events = [],
     rt_nextEffectInstanceId = 0\<rparr>"

section \<open>Operations\<close>

definition set_racer :: "uid \<Rightarrow> racer \<Rightarrow> race_tracker \<Rightarrow> race_tracker" where
  "set_racer u r t = t\<lparr>rt_racers := omap_put u r (rt_racers t)\<rparr>"

definition AddRacer :: "uid \<Rightarrow> race_tracker \<Rightarrow> (exn + racer) \<times> race_tracker" where
  "AddRacer characterUid t =
     (if has_key (rt_racers t) characterUid
      then (Inl (RuntimeError ''Character is already a racer''), t)
      else let t = (if has_key (rt_characterOids t) characterUid then t
                    else t\<lparr>rt_characterOids := umap_put characterUid (rt_nextCharacterOid t) (rt_characterOids t),
                           rt_nextCharacterOid := rt_nextCharacterOid t + 1\<rparr>);
               r = new_racer\<lparr>ra_oid := the (map_of (rt_characterOids t) characterUid)\<rparr>
           in (Inr r, set_racer characterUid r t))"

definition RemoveRacer :: "uid \<Rightarrow> race_tracker \<Rightarrow> race_tracker" where
  "RemoveRacer characterUid t = t\<lparr>rt_racers := omap_erase characterUid (rt_racers t)\<rparr>"

definition IsRacer :: "uid \<Rightarrow> race_tracker \<Rightarrow> bool" where
  "IsRacer characterUid t = has_key (rt_racers t) characterUid"

definition GetRacer :: "uid \<Rightarrow> race_tracker \<Rightarrow> exn + racer" where
  "GetRacer characterUid t = (case map_of (rt_racers t) characterUid of
     None \<Rightarrow> Inl (RuntimeError ''Character is not a racer'') | Some r \<Rightarrow> Inr r)"

definition AddItemDeck :: "race_tracker \<Rightarrow> (exn + item_deck) \<times> race_tracker" where
  "AddItemDeck t =
     (if has_key (rt_itemDecks t) (rt_nextItemDeckOid t)
      then (Inl (RuntimeError ''Item is already added to the race map''), t)
      else let d = new_item_deck\<lparr>id_oid := rt_nextItemDeckOid t\<rparr>
           in (Inr d, t\<lparr>rt_itemDecks := omap_put (rt_nextItemDeckOid t) d (rt_itemDecks t),
                       rt_nextItemDeckOid := rt_nextItemDeckOid t + 1\<rparr>))"

definition set_item_deck :: "oid \<Rightarrow> item_deck \<Rightarrow> race_tracker \<Rightarrow> race_tracker" where
  "set_item_deck i d t = t\<lparr>rt_itemDecks := omap_put i d (rt_itemDecks t)\<rparr>"

definition RemoveItemDeck :: "oid \<Rightarrow> race_tracker \<Rightarrow> race_tracker" where
  "RemoveItemDeck itemId t = t\<lparr>rt_itemDecks := omap_erase itemId (rt_itemDecks t)\<rparr>"

definition GetItemDeck :: "oid \<Rightarrow> race_tracker \<Rightarrow> exn + item_deck" where
  "GetItemDeck itemId t = (case map_of (rt_itemDecks t) itemId of
     None \<Rightarrow> Inl (RuntimeError ''Item deck is not in the race map'') | Some d \<Rightarrow> Inr d)"

definition IsEventThrottled :: "time_point \<Rightarrow> u32 \<Rightarrow> race_tracker \<Rightarrow> bool \<times> race_tracker" where
  "IsEventThrottled now eventId t =
     (case map_of (rt_events t) eventId of
        Some e \<Rightarrow>
          if ev_throttledUntil e > now then (True, t)
          else (False, t\<lparr>rt_events := umap_put eventId
                  (e\<lparr>ev_throttledUntil := now + EventThrottleDuration\<rparr>) (rt_events t)\<rparr>)
      | None \<Rightarrow>
          (False, t\<lparr>rt_events := umap_put eventId
             \<lparr>ev_id = eventId, ev_throttledUntil = now + EventThrottleDuration\<rparr> (rt_events t)\<rparr>))"

text \<open>The caller sets the type and the position of the added item.\<close>

definition AddEventItem :: "uid \<Rightarrow> u32 \<Rightarrow> wire_vector3 \<Rightarrow> race_tracker \<Rightarrow> (exn + oid) \<times> race_tracker" where
  "AddEventItem characterUid itemType position t =
     (case GetRacer characterUid t of
        Inl x \<Rightarrow> (Inl x, t)
      | Inr r \<Rightarrow>
          let item = \<lparr>ei_oid = rt_nextItemDeckOid t, ei_itemType = itemType, ei_position = position\<rparr>
          in (Inr (ei_oid item), set_racer characterUid (r\<lparr>ra_eventItems := ra_eventItems r @ [item]\<rparr>)
                (t\<lparr>rt_nextItemDeckOid := rt_nextItemDeckOid t + 1\<rparr>)))"

definition FindEventItem :: "uid \<Rightarrow> oid \<Rightarrow> race_tracker \<Rightarrow> exn + oid" where
  "FindEventItem characterUid i t =
     bnd (GetRacer characterUid t) (\<lambda>r. Inr (case find (\<lambda>e. ei_oid e = i) (ra_eventItems r) of
       None \<Rightarrow> InvalidEntityOid | Some e \<Rightarrow> ei_oid e))"

definition GetEventItem :: "uid \<Rightarrow> oid \<Rightarrow> race_tracker \<Rightarrow> exn + event_item" where
  "GetEventItem characterUid i t =
     bnd (GetRacer characterUid t) (\<lambda>r. case find (\<lambda>e. ei_oid e = i) (ra_eventItems r) of
       None \<Rightarrow> Inl (RuntimeError ''Event item is not tracked for racer'') | Some e \<Rightarrow> Inr e)"

definition RemoveEventItem :: "uid \<Rightarrow> oid \<Rightarrow> race_tracker \<Rightarrow> (exn + unit) \<times> race_tracker" where
  "RemoveEventItem characterUid i t =
     (case GetRacer characterUid t of
        Inl x \<Rightarrow> (Inl x, t)
      | Inr r \<Rightarrow> (Inr (), set_racer characterUid
          (r\<lparr>ra_eventItems := filter (\<lambda>e. ei_oid e \<noteq> i) (ra_eventItems r)\<rparr>) t))"

definition GetNextEffectInstanceIdAndIncrementBy :: "u16 \<Rightarrow> race_tracker \<Rightarrow> u16 \<times> race_tracker" where
  "GetNextEffectInstanceIdAndIncrementBy increment t =
     (let nextId = rt_nextEffectInstanceId t; n = nextId + increment
      in (nextId, t\<lparr>rt_nextEffectInstanceId := (if n = 0 then 1 else n)\<rparr>))"

definition Tracker_Clear :: "race_tracker \<Rightarrow> race_tracker" where
  "Tracker_Clear t = t\<lparr>rt_racers := [], rt_itemDecks := [], rt_events := [],
     rt_nextItemDeckOid := 1, rt_firstPassItemSpawn := True\<rparr>"

section \<open>Object ids\<close>

text \<open>What may happen to a tracker over the life of a room. A handler that changes a racer keeps its
  object id.\<close>

datatype tracker_op =
    T_AddRacer uid
  | T_RemoveRacer uid
  | T_Update uid "racer \<Rightarrow> racer"
  | T_AddItemDeck
  | T_RemoveItemDeck oid
  | T_AddEventItem uid u32 wire_vector3
  | T_RemoveEventItem uid oid
  | T_Event time_point u32
  | T_Effect u16
  | T_Clear

fun tracker_step :: "tracker_op \<Rightarrow> race_tracker \<Rightarrow> race_tracker" where
  "tracker_step (T_AddRacer u) t = snd (AddRacer u t)"
| "tracker_step (T_RemoveRacer u) t = RemoveRacer u t"
| "tracker_step (T_Update u f) t = (case GetRacer u t of
     Inl _ \<Rightarrow> t | Inr r \<Rightarrow> set_racer u ((f r)\<lparr>ra_oid := ra_oid r\<rparr>) t)"
| "tracker_step T_AddItemDeck t = snd (AddItemDeck t)"
| "tracker_step (T_RemoveItemDeck i) t = RemoveItemDeck i t"
| "tracker_step (T_AddEventItem u k p) t = snd (AddEventItem u k p t)"
| "tracker_step (T_RemoveEventItem u i) t = snd (RemoveEventItem u i t)"
| "tracker_step (T_Event now i) t = snd (IsEventThrottled now i t)"
| "tracker_step (T_Effect n) t = snd (GetNextEffectInstanceIdAndIncrementBy n t)"
| "tracker_step T_Clear t = Tracker_Clear t"

definition character_oid :: "race_tracker \<Rightarrow> uid \<Rightarrow> oid option" where
  "character_oid t u = map_of (rt_characterOids t) u"

lemma character_oid_step [tracker_simps]:
  "character_oid (tracker_step a t) u =
     (case a of T_AddRacer v \<Rightarrow>
        if v = u \<and> map_of (rt_racers t) u = None \<and> character_oid t u = None
        then Some (rt_nextCharacterOid t) else character_oid t u
      | _ \<Rightarrow> character_oid t u)"
  by (cases a)
    (auto simp: character_oid_def AddRacer_def RemoveRacer_def set_racer_def AddItemDeck_def
      RemoveItemDeck_def AddEventItem_def RemoveEventItem_def IsEventThrottled_def
      GetNextEffectInstanceIdAndIncrementBy_def Tracker_Clear_def Let_def split: sum.splits option.splits)

lemma next_character_step [tracker_simps]:
  "rt_nextCharacterOid (tracker_step a t) =
     (case a of T_AddRacer v \<Rightarrow>
        if map_of (rt_racers t) v = None \<and> character_oid t v = None
        then rt_nextCharacterOid t + 1 else rt_nextCharacterOid t
      | _ \<Rightarrow> rt_nextCharacterOid t)"
  by (cases a)
    (auto simp: character_oid_def AddRacer_def RemoveRacer_def set_racer_def AddItemDeck_def
      RemoveItemDeck_def AddEventItem_def RemoveEventItem_def IsEventThrottled_def
      GetNextEffectInstanceIdAndIncrementBy_def Tracker_Clear_def Let_def split: sum.splits option.splits)

interpretation race: numbering rt_nextCharacterOid character_oid tracker_step
proof unfold_locales
  fix a t
  show "(rt_nextCharacterOid (tracker_step a t) = rt_nextCharacterOid t
        \<and> (\<forall>e i. character_oid (tracker_step a t) e = Some i \<longrightarrow> character_oid t e = Some i))
      \<or> (\<exists>e. rt_nextCharacterOid (tracker_step a t) = rt_nextCharacterOid t + 1
        \<and> (\<forall>f. character_oid (tracker_step a t) f =
              (if f = e then Some (rt_nextCharacterOid t) else character_oid t f)))"
  proof (cases a)
    case (T_AddRacer v)
    then show ?thesis
      by (cases "map_of (rt_racers t) v = None \<and> character_oid t v = None") (auto simp: tracker_simps simp del: tracker_step.simps)
  qed (simp_all add: tracker_simps del: tracker_step.simps)
qed

text \<open>A racer has the id its character was given, and that id is never taken back.\<close>

definition racers_numbered :: "race_tracker \<Rightarrow> bool" where
  "racers_numbered t \<longleftrightarrow> (\<forall>u r. map_of (rt_racers t) u = Some r \<longrightarrow> character_oid t u = Some (ra_oid r))"

lemma racers_numbered_step: "racers_numbered t \<Longrightarrow> racers_numbered (tracker_step a t)"
  by (cases a)
    (auto simp: racers_numbered_def character_oid_def AddRacer_def GetRacer_def RemoveRacer_def
      set_racer_def AddItemDeck_def RemoveItemDeck_def AddEventItem_def RemoveEventItem_def
      IsEventThrottled_def GetNextEffectInstanceIdAndIncrementBy_def Tracker_Clear_def Let_def
      split: sum.splits option.splits if_splits)

lemma racers_numbered_run: "racers_numbered t \<Longrightarrow> racers_numbered (fold tracker_step ops t)"
  by (induction ops arbitrary: t) (simp_all add: racers_numbered_step)

lemma character_oid_mono: "character_oid t u = Some i \<Longrightarrow> character_oid (tracker_step a t) u = Some i"
  by (subst character_oid_step) (cases a; simp)

lemma character_oid_run: "character_oid t u = Some i \<Longrightarrow> character_oid (fold tracker_step ops t) u = Some i"
proof (induction ops arbitrary: t)
  case (Cons a ops)
  from Cons.IH [OF character_oid_mono [OF Cons.prems]] show ?case by simp
qed simp

text \<open>C34: Over the life of a room, in which any operations add, remove and change racers, decks, items,
  events and effects and clear the tracker between races, two different racers of a race never share
  an object id nor have the invalid one, as long as fewer than 65535 operations were performed; and
  a character that races again after any of this has the object id it had before, which the clients
  rely on because they keep the assignments.\<close>

theorem racer_oids_stable:
  assumes "length (before @ after) < 65535"
    and "map_of (rt_racers (fold tracker_step before new_tracker)) u = Some r"
    and "map_of (rt_racers (fold tracker_step (before @ after) new_tracker)) u = Some r'"
    and "map_of (rt_racers (fold tracker_step (before @ after) new_tracker)) v = Some q"
  shows "ra_oid r' = ra_oid r \<and> ra_oid r \<noteq> InvalidEntityOid \<and> (ra_oid q = ra_oid r' \<longrightarrow> v = u)"
proof -
  let ?t = "fold tracker_step before new_tracker"
  let ?t' = "fold tracker_step (before @ after) new_tracker"
  have init: "racers_numbered new_tracker" "rt_nextCharacterOid new_tracker = 1"
    "character_oid new_tracker e = None" for e
    by (simp_all add: racers_numbered_def new_tracker_def character_oid_def)
  note oid = racers_numbered_run [OF init(1), unfolded racers_numbered_def, rule_format]
  from oid [OF assms(2)] have "character_oid ?t' u = Some (ra_oid r)"
    using character_oid_run [of ?t u "ra_oid r" after] by simp
  moreover from oid [OF assms(3)] have "character_oid ?t' u = Some (ra_oid r')" .
  moreover from oid [OF assms(4)] have "character_oid ?t' v = Some (ra_oid q)" .
  ultimately show ?thesis
    using race.numbers_distinct [OF init(2,3) assms(1), of u "ra_oid r"] by (metis option.inject)
qed

lemma racer_oids_stable_witness:
  "let before = [T_AddRacer 7, T_AddRacer 8]; after = [T_Clear, T_AddRacer 9, T_AddRacer 8];
       t = fold tracker_step before new_tracker; t' = fold tracker_step (before @ after) new_tracker
   in map (ra_oid \<circ> snd) (rt_racers t') = [2, 3]
    \<and> ra_oid (the (map_of (rt_racers t') 8)) = ra_oid (the (map_of (rt_racers t) 8))"
proof -
  let ?b = "[T_AddRacer 7, T_AddRacer 8]" and ?a = "[T_Clear, T_AddRacer 9, T_AddRacer 8]"
  have "fold tracker_step ?b new_tracker = new_tracker\<lparr>
      rt_characterOids := [(7, 1), (8, 2)], rt_nextCharacterOid := 3,
      rt_racers := [(7, new_racer\<lparr>ra_oid := 1\<rparr>), (8, new_racer\<lparr>ra_oid := 2\<rparr>)]\<rparr>"
    by (simp add: AddRacer_def set_racer_def Let_def new_tracker_def umap_put_def)
  moreover from this have "fold tracker_step (?b @ ?a) new_tracker = new_tracker\<lparr>
      rt_characterOids := [(7, 1), (8, 2), (9, 3)], rt_nextCharacterOid := 4,
      rt_racers := [(8, new_racer\<lparr>ra_oid := 2\<rparr>), (9, new_racer\<lparr>ra_oid := 3\<rparr>)]\<rparr>"
    by (simp add: AddRacer_def set_racer_def Let_def new_tracker_def umap_put_def Tracker_Clear_def)
  ultimately show ?thesis
    using racer_oids_stable [of ?b ?a 8 "new_racer\<lparr>ra_oid := 2\<rparr>" "new_racer\<lparr>ra_oid := 2\<rparr>"
        9 "new_racer\<lparr>ra_oid := 3\<rparr>"]
    by (simp add: Let_def)
qed

section \<open>Event throttling\<close>

text \<open>A history of calls for one event, with the verdicts.\<close>

fun throttle_run :: "u32 \<Rightarrow> time_point list \<Rightarrow> race_tracker \<Rightarrow> bool list" where
  "throttle_run e [] t = []"
| "throttle_run e (now # nows) t =
     (case IsEventThrottled now e t of (b, t) \<Rightarrow> b # throttle_run e nows t)"

lemma throttle_until:
  assumes "map_of (rt_events t) e = Some v" "j < length nows" "\<not> throttle_run e nows t ! j"
  shows "ev_throttledUntil v \<le> nows ! j"
  using assms
proof (induction nows arbitrary: t v j)
  case (Cons now nows)
  show ?case
  proof (cases "ev_throttledUntil v > now")
    case True
    with Cons.prems(1) have "IsEventThrottled now e t = (True, t)" by (simp add: IsEventThrottled_def)
    with Cons.prems show ?thesis
      using Cons.IH [OF Cons.prems(1)] by (cases j) auto
  next
    case False
    let ?v = "v\<lparr>ev_throttledUntil := now + EventThrottleDuration\<rparr>"
    let ?t = "t\<lparr>rt_events := umap_put e ?v (rt_events t)\<rparr>"
    have one: "IsEventThrottled now e t = (False, ?t)"
      using Cons.prems(1) False by (simp add: IsEventThrottled_def)
    show ?thesis
    proof (cases j)
      case (Suc i)
      with one Cons.prems(2,3) have "ev_throttledUntil ?v \<le> nows ! i"
        by (intro Cons.IH [of ?t ?v i]) simp_all
      with False Suc show ?thesis by (simp add: EventThrottleDuration_def milliseconds_def)
    qed (use False in simp)
  qed
qed simp

text \<open>However often and whenever an event is triggered during a race, the triggers the tracker lets
  through are at least a quarter of a second apart.\<close>

theorem events_spaced:
  assumes "i < j" "j < length nows"
    and "\<not> throttle_run e nows t ! i" "\<not> throttle_run e nows t ! j"
  shows "nows ! i + milliseconds 250 \<le> nows ! j"
  using assms
proof (induction nows arbitrary: t i j)
  case (Cons now nows)
  obtain b t1 where one: "IsEventThrottled now e t = (b, t1)" by fastforce
  show ?case
  proof (cases i)
    case 0
    with Cons.prems one have "\<not> b" by simp
    with one obtain v where "map_of (rt_events t1) e = Some v"
      "ev_throttledUntil v = now + EventThrottleDuration"
      by (auto simp: IsEventThrottled_def split: option.splits if_splits)
    with throttle_until [OF this(1), of "j - 1" nows] 0 one Cons.prems show ?thesis
      by (cases j) (auto simp: EventThrottleDuration_def)
  next
    case (Suc k)
    with Cons.prems one show ?thesis
      using Cons.IH [of k "j - 1" t1] by (cases j) auto
  qed
qed simp

lemma events_spaced_witness:
  "throttle_run 3 [0, 100000000, 250000000] new_tracker = [False, True, False]
    \<and> (0::int) + milliseconds 250 \<le> 250000000"
proof -
  have "throttle_run 3 [0, 100000000, 250000000] new_tracker = [False, True, False]"
    by (simp add: IsEventThrottled_def new_tracker_def EventThrottleDuration_def milliseconds_def)
  with events_spaced [of 0 2 "[0, 100000000, 250000000]" 3 new_tracker] show ?thesis by simp
qed

end
