(* ===== verification/Magic_System.thy ===== *)
theory Magic_System imports Race_Tracker begin

text \<open>
  \<open>server/race/MagicSystem.cpp\<close> and the lookups of \<open>libserver/registry/MagicRegistry.cpp\<close>: which spell a
  racer is given and what a spell does to the racer it hits.

  \<^item> The registry is what the configuration file was read into: an argument.
  \<^item> A float field is its bit pattern. \<open>effect_ms\<close>, the milliseconds
    \<open>static_cast<uint32_t>(effectDelay * 1000.0f)\<close>, is an argument of what uses it.
  \<^item> The draws of the random engine are arguments.
  \<^item> An index outside of the \<open>effects\<close> array or of the weights, undefined in C++, is the exception
    \<open>OutOfRange\<close>.
  \<^item> The fields of a slot that the code modelled here never reads are left out.
\<close>

section \<open>Floats\<close>

text \<open>The order of two floats by their bit patterns; a NaN is greater than nothing.\<close>

definition float_nan :: "u32 \<Rightarrow> bool" where
  "float_nan b \<longleftrightarrow> b AND 0x7FFFFFFF > 0x7F800000"

definition float_key :: "u32 \<Rightarrow> int" where
  "float_key b = (if b AND 0x80000000 = 0 then uint (b AND 0x7FFFFFFF) else - uint (b AND 0x7FFFFFFF))"

definition float_gt :: "u32 \<Rightarrow> u32 \<Rightarrow> bool" where
  "float_gt a b \<longleftrightarrow> \<not> float_nan a \<and> \<not> float_nan b \<and> float_key a > float_key b"

section \<open>The registry\<close>

record slot_info =
  sl_type :: u32
  sl_basicType :: u32
  sl_criticalType :: u32
  sl_skillEffectId :: u32
  sl_attackValue :: u32
  sl_castingTime :: u32
  sl_effectDelay :: u32
  sl_adjustMotionSpeed :: u32
  sl_teamMode :: u32
  sl_removeMagic :: u32
  sl_removeHotRodding :: u32
  sl_replaceEffect :: u32
  sl_attackRank :: u32
  sl_criticalByDarkFire :: u32
  sl_givePositionalMagic :: u32
  sl_positionalWeights :: "u32 list"

datatype MountStat = Agility | Ambition | Rush | Endurance | Courage

record stat_scaling =
  ss_stat :: MountStat
  ss_durationScaleBp :: u32
  ss_critStepBp :: u32
  ss_targetDurationReductionBp :: u32

record regen_info =
  ri_pointPerTick :: u32
  ri_intervalMs :: u32
  ri_courageScaleBp :: u32

record set_bonus_info =
  sb_critChanceBonusBp :: u32
  sb_passiveGaugeScaleBp :: u32
  sb_holdingGaugeScaleBp :: u32

record magic_registry =
  mr_slotInfo :: "(u32, slot_info) umap"
  mr_regenInfo :: regen_info
  mr_setBonusInfo :: set_bonus_info
  mr_baseCritChanceBp :: u32
  mr_statScalings :: "(u32, stat_scaling) umap"
  mr_soloPositionWeights :: "(u32 \<times> slot_info) list list"
  mr_teamPositionWeights :: "(u32 \<times> slot_info) list list"

text \<open>The second half of \<open>ReadConfig\<close>: the weights of the spells that a position may be given.\<close>

definition position_weights :: "(u32, slot_info) umap \<Rightarrow> bool \<Rightarrow> (u32 \<times> slot_info) list list" where
  "position_weights slots isTeam =
     map (\<lambda>i. map (\<lambda>(k, s). (sl_positionalWeights s ! i, s))
                (filter (\<lambda>(k, s). sl_basicType s = k \<and> sl_type s = sl_basicType s
                                \<and> (isTeam \<or> sl_teamMode s = 0)) slots)) [0..<8]"

definition load_registry ::
  "(u32, slot_info) umap \<Rightarrow> regen_info \<Rightarrow> set_bonus_info \<Rightarrow> u32 \<Rightarrow> (u32, stat_scaling) umap \<Rightarrow> magic_registry" where
  "load_registry slots regen bonus crit scalings =
     \<lparr>mr_slotInfo = slots, mr_regenInfo = regen, mr_setBonusInfo = bonus, mr_baseCritChanceBp = crit,
      mr_statScalings = scalings, mr_soloPositionWeights = position_weights slots False,
      mr_teamPositionWeights = position_weights slots True\<rparr>"

definition GetSlotInfo :: "magic_registry \<Rightarrow> u32 \<Rightarrow> exn + slot_info" where
  "GetSlotInfo mr k = (case map_of (mr_slotInfo mr) k of
     None \<Rightarrow> Inl (RuntimeError ''Magic slot not found'') | Some s \<Rightarrow> Inr s)"

definition GetSlotInfoByEffectId :: "magic_registry \<Rightarrow> u32 \<Rightarrow> exn + slot_info" where
  "GetSlotInfoByEffectId mr effectId =
     (case find (\<lambda>s. sl_skillEffectId s = effectId) (vals_of (mr_slotInfo mr)) of
        None \<Rightarrow> Inl (RuntimeError ''Magic slot not found for effect ID'') | Some s \<Rightarrow> Inr s)"

definition GetStatScaling :: "magic_registry \<Rightarrow> u32 \<Rightarrow> stat_scaling option" where
  "GetStatScaling mr basicType = map_of (mr_statScalings mr) basicType"

section \<open>Effects and spells\<close>

text \<open>The constants of \<open>SkillEffect\<close> and of \<open>MagicType\<close> the code names.\<close>

abbreviation Effect_WaterShield :: u32 where "Effect_WaterShield \<equiv> 2"
abbreviation Effect_WaterShieldCritical :: u32 where "Effect_WaterShieldCritical \<equiv> 3"
abbreviation Effect_Booster :: u32 where "Effect_Booster \<equiv> 5"
abbreviation Effect_HotRodding :: u32 where "Effect_HotRodding \<equiv> 6"
abbreviation Effect_HotRoddingCritical :: u32 where "Effect_HotRoddingCritical \<equiv> 7"
abbreviation Effect_JumpStun :: u32 where "Effect_JumpStun \<equiv> 10"
abbreviation Effect_JumpStunCritical :: u32 where "Effect_JumpStunCritical \<equiv> 11"
abbreviation Effect_DarkFire :: u32 where "Effect_DarkFire \<equiv> 12"
abbreviation Effect_DarkFireCritical :: u32 where "Effect_DarkFireCritical \<equiv> 13"
abbreviation Effect_BufPower :: u32 where "Effect_BufPower \<equiv> 18"
abbreviation Effect_BufPowerCritical :: u32 where "Effect_BufPowerCritical \<equiv> 19"
abbreviation Effect_BufGauge :: u32 where "Effect_BufGauge \<equiv> 20"
abbreviation Effect_BufGaugeCritical :: u32 where "Effect_BufGaugeCritical \<equiv> 21"
abbreviation Effect_BufSpeed :: u32 where "Effect_BufSpeed \<equiv> 22"
abbreviation Effect_BufSpeedCritical :: u32 where "Effect_BufSpeedCritical \<equiv> 23"

abbreviation Magic_FireBallCritical :: u32 where "Magic_FireBallCritical \<equiv> 3"
abbreviation Magic_JumpStun :: u32 where "Magic_JumpStun \<equiv> 12"
abbreviation Magic_JumpStunCritical :: u32 where "Magic_JumpStunCritical \<equiv> 13"
abbreviation Magic_DarkFire :: u32 where "Magic_DarkFire \<equiv> 14"
abbreviation Magic_DarkFireCritical :: u32 where "Magic_DarkFireCritical \<equiv> 15"
abbreviation Magic_Summon :: u32 where "Magic_Summon \<equiv> 16"
abbreviation Magic_SummonCritical :: u32 where "Magic_SummonCritical \<equiv> 17"
abbreviation Magic_Lightning :: u32 where "Magic_Lightning \<equiv> 18"
abbreviation Magic_LightningCritical :: u32 where "Magic_LightningCritical \<equiv> 19"

text \<open>\<open>racer.effects[id]\<close> for the ids the code names.\<close>

definition has_effect :: "racer \<Rightarrow> u32 \<Rightarrow> bool" where
  "has_effect r i = (ra_effects r ! unat i)"

definition GetMountStatValue :: "mount_stats \<Rightarrow> MountStat \<Rightarrow> u32" where
  "GetMountStatValue ms w = (case w of Agility \<Rightarrow> ms_agility ms | Ambition \<Rightarrow> ms_ambition ms
     | Rush \<Rightarrow> ms_rush ms | Endurance \<Rightarrow> ms_endurance ms | Courage \<Rightarrow> ms_courage ms)"

definition FindRacerByOid :: "(uid, racer) omap \<Rightarrow> oid \<Rightarrow> (uid \<times> racer) option" where
  "FindRacerByOid racers i = find (\<lambda>(u, r). ra_oid r = i) racers"

definition IsSelfCast :: "u32 \<Rightarrow> bool" where
  "IsSelfCast k \<longleftrightarrow> k \<in> {4, 5, 6, 7, 8, 9}"

definition IsTeamBuff :: "u32 \<Rightarrow> bool" where
  "IsTeamBuff k \<longleftrightarrow> k \<in> {20, 21, 22, 23, 24, 25}"

definition IsIceWall :: "u32 \<Rightarrow> bool" where
  "IsIceWall k \<longleftrightarrow> k = 10 \<or> k = 11"

definition IsValidSkillEffectId :: "u32 \<Rightarrow> bool" where
  "IsValidSkillEffectId i \<longleftrightarrow> unat i < EffectCount \<and> i \<noteq> 4"

definition HeavyAttackRank :: u32 where "HeavyAttackRank = 2"

definition IsStrippedByAttack :: "slot_info \<Rightarrow> slot_info \<Rightarrow> bool" where
  "IsStrippedByAttack attack active =
     (let i = sl_skillEffectId active
      in if i \<in> {Effect_HotRodding, Effect_HotRoddingCritical, Effect_BufPower, Effect_BufPowerCritical,
                 Effect_BufGauge, Effect_BufGaugeCritical}
         then False
         else if i \<in> {Effect_JumpStun, Effect_JumpStunCritical, Effect_DarkFire, Effect_DarkFireCritical}
         then sl_removeMagic attack \<noteq> 0 \<and> sl_attackRank attack \<ge> HeavyAttackRank
         else if i \<in> {Effect_Booster, Effect_BufSpeed, Effect_BufSpeedCritical}
         then sl_removeMagic attack \<noteq> 0 \<or> sl_basicType attack = Magic_JumpStun
         else if i = Effect_WaterShield
         then sl_removeMagic attack \<noteq> 0 \<or> sl_type attack = Magic_JumpStunCritical
            \<or> sl_type attack = Magic_DarkFireCritical
         else sl_removeMagic attack \<noteq> 0 \<and> sl_adjustMotionSpeed active \<noteq> 0 \<and> sl_attackValue active = 0)"

definition DrainsGaugeOnHit :: "slot_info \<Rightarrow> bool" where
  "DrainsGaugeOnHit attack \<longleftrightarrow> sl_type attack \<in>
     {Magic_FireBallCritical, Magic_SummonCritical, Magic_Lightning, Magic_LightningCritical}"

record effect_resolution =
  er_effectId :: u32
  er_shieldBlocks :: bool
  er_isDuplicated :: bool

definition shield_threshold :: "racer \<Rightarrow> u32" where
  "shield_threshold r =
     (if has_effect r Effect_WaterShieldCritical then 200
      else if has_effect r Effect_WaterShield then 100 else 0)"

definition hot_rodding_blocks :: "slot_info \<Rightarrow> racer \<Rightarrow> bool" where
  "hot_rodding_blocks s r =
     (let isAttack = (sl_attackValue s > 0);
          isLightning = (isAttack \<and> sl_removeHotRodding s \<noteq> 0);
          isCriticalLightning = (isLightning \<and> sl_criticalType s = 0)
      in isAttack \<and> ((has_effect r Effect_HotRodding \<and> \<not> isLightning)
                     \<or> (has_effect r Effect_HotRoddingCritical \<and> \<not> isCriticalLightning)))"

definition occupied_effect :: "magic_registry \<Rightarrow> slot_info \<Rightarrow> exn + u32" where
  "occupied_effect mr s =
     (if sl_replaceEffect s \<noteq> 0 then Inr (sl_skillEffectId s)
      else bnd (GetSlotInfo mr (sl_basicType s)) (\<lambda>b. Inr (sl_skillEffectId b)))"

definition is_duplicated :: "slot_info \<Rightarrow> racer \<Rightarrow> u32 \<Rightarrow> exn + bool" where
  "is_duplicated s r occupied =
     (let isAttack = (sl_attackValue s > 0)
      in if hot_rodding_blocks s r \<or> (isAttack \<and> sl_attackRank s < 2 \<and> ra_attackRank r \<ge> 2)
         then Inr True
         else if sl_attackRank s > 0 then Inr (ra_attackRank r \<ge> sl_attackRank s)
         else if unat occupied \<ge> EffectCount then Inl (OutOfRange ''effects'')
         else Inr (has_effect r occupied \<and> (isAttack \<or> sl_replaceEffect s = 0)))"

definition ResolveEffect :: "magic_registry \<Rightarrow> slot_info \<Rightarrow> racer \<Rightarrow> exn + effect_resolution" where
  "ResolveEffect mr s r =
     (let shieldBlocks = (sl_attackValue s > 0 \<and> sl_attackValue s < shield_threshold r);
          effectId = (if shieldBlocks
                      then if has_effect r Effect_WaterShieldCritical then Effect_WaterShieldCritical
                           else Effect_WaterShield
                      else sl_skillEffectId s)
      in bnd (occupied_effect mr s) (\<lambda>occupied.
         bnd (is_duplicated s r occupied) (\<lambda>isDuplicated.
           Inr \<lparr>er_effectId = effectId, er_shieldBlocks = shieldBlocks, er_isDuplicated = isDuplicated\<rparr>)))"

section \<open>Durations\<close>

definition ComputeEffectDurationMs ::
  "(u32 \<Rightarrow> u32) \<Rightarrow> magic_registry \<Rightarrow> slot_info \<Rightarrow> racer option \<Rightarrow> racer \<Rightarrow> u32" where
  "ComputeEffectDurationMs effect_ms mr s attacker target =
     (let base = effect_ms (sl_effectDelay s)
      in case GetStatScaling mr (sl_basicType s) of
           None \<Rightarrow> base
         | Some scaling \<Rightarrow>
             let base = (case attacker of
                   Some a \<Rightarrow>
                     if ss_durationScaleBp scaling > 0
                     then base * (1000 + min (ss_durationScaleBp scaling * GetMountStatValue (ra_mountStats a) (ss_stat scaling)) 1150) div 1000
                     else base
                 | None \<Rightarrow> base)
             in if ss_targetDurationReductionBp scaling > 0
                then base * (1000 - min (ss_targetDurationReductionBp scaling * GetMountStatValue (ra_mountStats target) (ss_stat scaling)) 1000) div 1000
                else base)"

section \<open>Random spells\<close>

text \<open>\<open>draw\<close> is the index the discrete distribution draws, \<open>roll\<close> the number between 0 and 9999 of the
  critical roll.\<close>

definition SelectMagicTypeByPosition ::
  "magic_registry \<Rightarrow> nat \<Rightarrow> u32 \<Rightarrow> bool \<Rightarrow> exn + slot_info" where
  "SelectMagicTypeByPosition mr draw position isTeam =
     (if position > 7 then Inl (OutOfRange ''Position must be between 0 and 7'')
      else let weights = (if isTeam then mr_teamPositionWeights mr else mr_soloPositionWeights mr) ! unat position
           in if draw < length weights then Inr (snd (weights ! draw)) else Inl (OutOfRange ''weights''))"

definition racer_position :: "uid \<Rightarrow> racer \<Rightarrow> (uid, racer) omap \<Rightarrow> nat" where
  "racer_position racerUid racer racers =
     length (filter (\<lambda>(u, r). u \<noteq> racerUid \<and> float_gt (ra_raceProgress r) (ra_raceProgress racer)) racers)"

text \<open>The interpolation onto the eight weight slots, truncated. The code divides floats; for the small
  numbers of a race the division rounds to a float that is below the next integer, and truncating it
  gives the integer quotient.\<close>

definition effective_position :: "nat \<Rightarrow> nat \<Rightarrow> nat" where
  "effective_position position racerCount =
     min 7 (if racerCount > 1 then position * 7 div (racerCount - 1) else position)"

definition crit_chance :: "magic_registry \<Rightarrow> racer \<Rightarrow> slot_info \<Rightarrow> u32" where
  "crit_chance mr r s =
     (if sl_criticalType s \<noteq> 0
      then mr_baseCritChanceBp mr
        + (case GetStatScaling mr (sl_basicType s) of
             Some scaling \<Rightarrow> ss_critStepBp scaling * (GetMountStatValue (ra_mountStats r) (ss_stat scaling) div 10)
           | None \<Rightarrow> 0)
        + (if ra_activeSetEffect r = CriticalSpellChance then sb_critChanceBonusBp (mr_setBonusInfo mr) else 0)
      else mr_baseCritChanceBp mr)"

definition RandomMagicItem ::
  "magic_registry \<Rightarrow> nat \<Rightarrow> int \<Rightarrow> race_tracker \<Rightarrow> uid \<Rightarrow> exn + slot_info" where
  "RandomMagicItem mr draw roll t racerUid =
     bnd (GetRacer racerUid t) (\<lambda>racer.
     let position = effective_position (racer_position racerUid racer (rt_racers t)) (length (rt_racers t))
     in bnd (SelectMagicTypeByPosition mr draw (of_nat position) (ra_team racer \<in> {Color_Red, Color_Blue})) (\<lambda>s.
        if roll < sint (crit_chance mr racer s) then GetSlotInfo mr (sl_criticalType s) else Inr s))"

text \<open>A slot table the configuration may hold: every slot is under its type, a basic slot has a weight
  for each position, and its critical variant is there and as much for teams as the basic one.\<close>

definition slots_ok :: "(u32, slot_info) umap \<Rightarrow> bool" where
  "slots_ok slots \<longleftrightarrow> list_all (\<lambda>(k, s). sl_type s = k \<and>
     (sl_basicType s = k \<longrightarrow> length (sl_positionalWeights s) = 8 \<and>
        (case map_of slots (sl_criticalType s) of None \<Rightarrow> False | Some c \<Rightarrow> sl_teamMode c = sl_teamMode s))) slots"

lemma weights_basic:
  assumes "slots_ok slots" "i < 8" "(w, s) \<in> set (position_weights slots isTeam ! i)"
  shows "(\<exists>k. (k, s) \<in> set slots) \<and> (isTeam \<or> sl_teamMode s = 0)
    \<and> (\<exists>c. map_of slots (sl_criticalType s) = Some c \<and> sl_teamMode c = sl_teamMode s)"
  using assms unfolding position_weights_def slots_ok_def list_all_iff
  by (auto split: option.splits)

lemma racer_position_less:
  assumes "map_of racers u = Some r"
  shows "racer_position u r racers < length racers"
proof -
  have "(u, r) \<in> set racers" by (rule map_of_SomeD [OF assms])
  then have "length (filter (\<lambda>(v, q). v \<noteq> u \<and> float_gt (ra_raceProgress q) (ra_raceProgress r)) racers) < length racers"
    by (intro length_filter_less [of "(u, r)"]) auto
  then show ?thesis by (simp add: racer_position_def)
qed

lemma effective_position_bounds:
  assumes "p < n"
  shows "effective_position p n \<le> 7" "effective_position 0 n = 0"
    "n > 1 \<Longrightarrow> effective_position (n - 1) n = 7"
  by (simp_all add: effective_position_def)


definition sample_slot :: "u32 \<Rightarrow> u32 \<Rightarrow> u32 \<Rightarrow> slot_info" where
  "sample_slot k basic crit = \<lparr>sl_type = k, sl_basicType = basic, sl_criticalType = crit,
     sl_skillEffectId = k - 2, sl_attackValue = 50, sl_castingTime = 0, sl_effectDelay = 0,
     sl_adjustMotionSpeed = 1, sl_teamMode = 0, sl_removeMagic = 1, sl_removeHotRodding = 0,
     sl_replaceEffect = 0, sl_attackRank = 2, sl_criticalByDarkFire = 1, sl_givePositionalMagic = 0,
     sl_positionalWeights = [1, 50, 45, 45, 30, 20, 3, 3]\<rparr>"

definition sample_slots :: "(u32, slot_info) umap" where
  "sample_slots = [(2, sample_slot 2 2 3), (3, sample_slot 3 2 0)]"

definition sample_registry :: magic_registry where
  "sample_registry = load_registry sample_slots \<lparr>ri_pointPerTick = 1000, ri_intervalMs = 200, ri_courageScaleBp = 9\<rparr>
     \<lparr>sb_critChanceBonusBp = 1000, sb_passiveGaugeScaleBp = 3300, sb_holdingGaugeScaleBp = 2000\<rparr> 500 []"

definition sample_tracker :: race_tracker where
  "sample_tracker = new_tracker\<lparr>rt_racers :=
     [(7, new_racer\<lparr>ra_oid := 1, ra_raceProgress := 0x3F000000\<rparr>), (8, new_racer\<lparr>ra_oid := 2\<rparr>)]\<rparr>"


end
