(* ===== verification/Rooms.thy ===== *)
theory Rooms imports Prelude begin

text \<open>
  \<open>server/room/Room.cpp\<close> and \<open>server/system/RoomSystem.cpp\<close>: the waiting rooms of the races and
  the system that numbers them.

  \<^item> The coin of \<open>std::rand\<close> that picks a team in a tie is an argument.
  \<^item> A function given a consumer takes it as a function from a room to its result and the room it
    leaves; the locks of the rooms are not modelled, each call is one step.
  \<^item> \<open>Mode_Unset\<close> is the value 0 of a mode that was never assigned; it is no enumerator.
\<close>

section \<open>Rooms\<close>

datatype GameMode = Game_Unset | Game_Speed | Game_Magic | Game_Guild | Game_Tutorial
datatype TeamMode = Mode_Unset | Mode_FFA | Mode_Team | Mode_Single
datatype Team = Team_Solo | Team_Red | Team_Blue

record player =
  pl_isReady :: bool
  pl_team :: Team
  pl_clientId :: client_id

record room_details =
  rd_name :: bytes
  rd_password :: bytes
  rd_missionId :: u16
  rd_courseId :: u16
  rd_maxPlayerCount :: u32
  rd_gameMode :: GameMode
  rd_teamMode :: TeamMode
  rd_npcDifficulty :: u8
  rd_skillBracket :: u8
  rd_masterUid :: uid

record room =
  rm_details :: room_details
  rm_uid :: u32
  rm_queuedPlayers :: "uid list"
  rm_players :: "(uid, player) umap"
  rm_roomIsPlaying :: bool

record room_snapshot =
  rsn_uid :: u32
  rsn_details :: room_details
  rsn_playerCount :: nat
  rsn_isPlaying :: bool

datatype PreventStartReason = PreventNone | NotAllPlayersReady | TeamImbalance

definition new_player :: "client_id \<Rightarrow> player" where
  "new_player c = \<lparr>pl_isReady = False, pl_team = Team_Solo, pl_clientId = c\<rparr>"

definition ToggleReady :: "player \<Rightarrow> bool \<times> player" where
  "ToggleReady p = (\<not> pl_isReady p, p\<lparr>pl_isReady := \<not> pl_isReady p\<rparr>)"

definition SetReady :: "bool \<Rightarrow> player \<Rightarrow> player" where
  "SetReady ready p = p\<lparr>pl_isReady := ready\<rparr>"

definition SetTeam :: "Team \<Rightarrow> player \<Rightarrow> player" where
  "SetTeam team p = p\<lparr>pl_team := team\<rparr>"

definition new_details :: room_details where
  "new_details = \<lparr>rd_name = [], rd_password = [], rd_missionId = 0, rd_courseId = 0,
     rd_maxPlayerCount = 0, rd_gameMode = Game_Unset, rd_teamMode = Mode_Unset,
     rd_npcDifficulty = 0, rd_skillBracket = 0, rd_masterUid = InvalidUid\<rparr>"

definition new_room :: "u32 \<Rightarrow> room" where
  "new_room u = \<lparr>rm_details = new_details, rm_uid = u, rm_queuedPlayers = [], rm_players = [],
     rm_roomIsPlaying = False\<rparr>"

definition IsRoomFull :: "room \<Rightarrow> bool" where
  "IsRoomFull r \<longleftrightarrow>
     length (rm_players r) + length (rm_queuedPlayers r) \<ge> unat (rd_maxPlayerCount (rm_details r))"

definition QueuePlayer :: "uid \<Rightarrow> room \<Rightarrow> bool \<times> room" where
  "QueuePlayer characterUid r =
     (if IsRoomFull r then (False, r)
      else (True, r\<lparr>rm_queuedPlayers := uset_insert characterUid (rm_queuedPlayers r)\<rparr>))"

definition DequeuePlayer :: "uid \<Rightarrow> room \<Rightarrow> bool \<times> room" where
  "DequeuePlayer characterUid r =
     (characterUid \<in> set (rm_queuedPlayers r),
      r\<lparr>rm_queuedPlayers := uset_erase characterUid (rm_queuedPlayers r)\<rparr>)"

definition team_count :: "Team \<Rightarrow> room \<Rightarrow> nat" where
  "team_count t r = length (filter (\<lambda>p. pl_team p = t) (vals_of (rm_players r)))"

definition pick_team :: "bool \<Rightarrow> room \<Rightarrow> Team" where
  "pick_team coin r =
     (if rd_teamMode (rm_details r) = Mode_Team
      then let redTeamCount = team_count Team_Red r; blueTeamCount = team_count Team_Blue r
           in if redTeamCount > blueTeamCount then Team_Blue
              else if blueTeamCount > redTeamCount then Team_Red
              else if coin then Team_Red else Team_Blue
      else Team_Solo)"

definition AddPlayer :: "bool \<Rightarrow> client_id \<Rightarrow> uid \<Rightarrow> room \<Rightarrow> (exn + bool) \<times> room" where
  "AddPlayer coin clientId characterUid r =
     (if length (rm_players r) \<ge> unat (rd_maxPlayerCount (rm_details r)) then (Inr False, r)
      else let player = (new_player clientId)\<lparr>pl_team := pick_team coin r\<rparr>;
               r = r\<lparr>rm_queuedPlayers := uset_erase characterUid (rm_queuedPlayers r)\<rparr>
           in if has_key (rm_players r) characterUid
              then (Inl (RuntimeError ''Player already exists''), r)
              else (Inr True, r\<lparr>rm_players := umap_put characterUid player (rm_players r)\<rparr>))"

definition RemovePlayer :: "uid \<Rightarrow> room \<Rightarrow> room" where
  "RemovePlayer characterUid r = r\<lparr>rm_players := umap_erase characterUid (rm_players r)\<rparr>"

definition GetPlayer :: "uid \<Rightarrow> room \<Rightarrow> exn + player" where
  "GetPlayer characterUid r = (case map_of (rm_players r) characterUid of
      None \<Rightarrow> Inl (RuntimeError ''Room player does not exist'') | Some p \<Rightarrow> Inr p)"

definition HasPlayer :: "uid \<Rightarrow> room \<Rightarrow> bool" where
  "HasPlayer characterUid r = has_key (rm_players r) characterUid"

text \<open>The loop of \<open>CanRoomStart\<close>, with the counts of the two teams as \<open>uint32_t\<close>: \<open>None\<close> if it
  returned early.\<close>

fun start_loop :: "uid \<Rightarrow> (uid \<times> player) list \<Rightarrow> u32 \<Rightarrow> u32 \<Rightarrow> (u32 \<times> u32) option" where
  "start_loop masterUid [] red blue = Some (red, blue)"
| "start_loop masterUid ((characterUid, p) # ps) red blue =
     (let red = (if pl_team p = Team_Red then red + 1 else red);
          blue = (if pl_team p = Team_Blue then blue + 1 else blue)
      in if characterUid \<noteq> masterUid \<and> \<not> pl_isReady p then None
         else start_loop masterUid ps red blue)"

definition CanRoomStart :: "room \<Rightarrow> PreventStartReason" where
  "CanRoomStart r =
     (case start_loop (rd_masterUid (rm_details r)) (rm_players r) 0 0 of
        None \<Rightarrow> NotAllPlayersReady
      | Some (red, blue) \<Rightarrow>
          if rd_teamMode (rm_details r) = Mode_Team \<and> red \<noteq> blue then TeamImbalance else PreventNone)"

definition SetRoomPlaying :: "bool \<Rightarrow> room \<Rightarrow> room" where
  "SetRoomPlaying state r = r\<lparr>rm_roomIsPlaying := state\<rparr>"

definition GetRoomSnapshot :: "room \<Rightarrow> room_snapshot" where
  "GetRoomSnapshot r = \<lparr>rsn_uid = rm_uid r, rsn_details = rm_details r,
     rsn_playerCount = length (rm_players r), rsn_isPlaying = rm_roomIsPlaying r\<rparr>"

section \<open>Properties of a room\<close>

definition sample_room :: room where
  "sample_room = (new_room 3)\<lparr>rm_details := new_details\<lparr>rd_maxPlayerCount := 2, rd_teamMode := Mode_Team\<rparr>\<rparr>"

definition imbalance :: "room \<Rightarrow> nat" where
  "imbalance r = (team_count Team_Red r - team_count Team_Blue r)
     + (team_count Team_Blue r - team_count Team_Red r)"

lemma team_count_add:
  "map_of (rm_players r) u = None \<Longrightarrow>
     team_count t (r\<lparr>rm_queuedPlayers := q, rm_players := umap_put u p (rm_players r)\<rparr>)
       = team_count t r + (if pl_team p = t then 1 else 0)"
  by (simp add: team_count_def umap_put_fresh)

text \<open>In a team room a player who enters joins the smaller team, and either one in a tie: the
  difference between the teams shrinks by one, or becomes one.\<close>

theorem AddPlayer_balances:
  assumes "rd_teamMode (rm_details r) = Mode_Team" "AddPlayer coin c u r = (Inr True, r')"
  shows "imbalance r' = (if imbalance r = 0 then 1 else imbalance r - 1)"
proof -
  have *: "map_of (rm_players r) u = None"
    "r' = r\<lparr>rm_queuedPlayers := uset_erase u (rm_queuedPlayers r),
       rm_players := umap_put u ((new_player c)\<lparr>pl_team := pick_team coin r\<rparr>) (rm_players r)\<rparr>"
    using assms(2) by (auto simp: AddPlayer_def Let_def split: if_splits)
  show ?thesis
    using assms(1) team_count_add [OF *(1)]
    by (auto simp: *(2) imbalance_def pick_team_def Let_def)
qed

lemma AddPlayer_balances_witness:
  "imbalance (snd (AddPlayer False 5 9 sample_room)) = 1"
proof -
  have "AddPlayer False 5 9 sample_room = (Inr True, snd (AddPlayer False 5 9 sample_room))"
    by (simp add: AddPlayer_def Let_def sample_room_def new_room_def new_details_def)
  from AddPlayer_balances [OF _ this]
  show ?thesis
    by (simp add: sample_room_def new_room_def new_details_def imbalance_def team_count_def)
qed

text \<open>The verdict of \<open>CanRoomStart\<close> in terms of the players, for rooms of fewer than \<open>2 ^ 32\<close>.\<close>

lemma start_loop_None:
  "start_loop m ps red blue = None \<longleftrightarrow> (\<exists>(u, p) \<in> set ps. u \<noteq> m \<and> \<not> pl_isReady p)"
  by (induction m ps red blue rule: start_loop.induct) (auto simp: Let_def)

lemma start_loop_Some:
  "start_loop m ps red blue = Some (r, b) \<Longrightarrow>
     r = red + of_nat (length (filter (\<lambda>p. pl_team p = Team_Red) (map snd ps)))
   \<and> b = blue + of_nat (length (filter (\<lambda>p. pl_team p = Team_Blue) (map snd ps)))"
  by (induction m ps red blue rule: start_loop.induct) (auto simp: Let_def split: if_splits)

text \<open>A race can start exactly when every player but the master is ready and, in a team room, the
  teams are of equal size; a player who is not ready is reported before an imbalance.\<close>

theorem CanRoomStart_iff:
  assumes "length (rm_players r) < 2 ^ 32"
  shows "CanRoomStart r =
    (if \<exists>(u, p) \<in> set (rm_players r). u \<noteq> rd_masterUid (rm_details r) \<and> \<not> pl_isReady p
     then NotAllPlayersReady
     else if rd_teamMode (rm_details r) = Mode_Team \<and> team_count Team_Red r \<noteq> team_count Team_Blue r
     then TeamImbalance else PreventNone)"
proof (cases "start_loop (rd_masterUid (rm_details r)) (rm_players r) 0 0")
  case None
  with start_loop_None [of "rd_masterUid (rm_details r)" "rm_players r" 0 0]
  show ?thesis by (simp add: CanRoomStart_def)
next
  case (Some rb)
  obtain red blue where rb: "rb = (red, blue)" by (cases rb)
  have ready: "\<not> (\<exists>(u, p) \<in> set (rm_players r). u \<noteq> rd_masterUid (rm_details r) \<and> \<not> pl_isReady p)"
    using Some start_loop_None [of "rd_masterUid (rm_details r)" "rm_players r" 0 0] by simp
  have small: "team_count t r < 2 ^ 32" for t
    using assms le_less_trans [OF length_filter_le]
    unfolding team_count_def by (metis length_map)
  have "red = of_nat (team_count Team_Red r)" "blue = of_nat (team_count Team_Blue r)"
    using start_loop_Some [OF Some [unfolded rb]] by (simp_all add: team_count_def)
  then have "red = blue \<longleftrightarrow> team_count Team_Red r = team_count Team_Blue r"
    using small [of Team_Red] small [of Team_Blue] by (simp add: word_unat_eq_iff unat_of_nat)
  with ready Some rb show ?thesis by (simp add: CanRoomStart_def)
qed

lemma CanRoomStart_iff_witness:
  "CanRoomStart (snd (AddPlayer True 5 9 sample_room)) = NotAllPlayersReady"
  by (subst CanRoomStart_iff)
    (simp_all add: AddPlayer_def Let_def sample_room_def new_room_def new_details_def new_player_def
      umap_put_def)

section \<open>The room system\<close>

record room_system =
  rs_sequencedId :: u32
  rs_rooms :: "(u32, room) umap"

type_synonym 'a room_consumer = "room \<Rightarrow> (exn + 'a) \<times> room"

text \<open>The room is there even if its consumer throws. The assertion that the number is new is
  compiled out: a number in use gets the room that has it.\<close>

definition CreateRoom :: "'a room_consumer \<Rightarrow> room_system \<Rightarrow> (exn + 'a) \<times> room_system" where
  "CreateRoom consumer s =
     (let roomUid = rs_sequencedId s + 1;
          r = (case map_of (rs_rooms s) roomUid of Some r \<Rightarrow> r | None \<Rightarrow> new_room roomUid);
          (res, r) = consumer r
      in (res, \<lparr>rs_sequencedId = roomUid, rs_rooms = umap_put roomUid r (rs_rooms s)\<rparr>))"

definition GetRoom :: "u32 \<Rightarrow> 'a room_consumer \<Rightarrow> room_system \<Rightarrow> (exn + 'a) \<times> room_system" where
  "GetRoom u consumer s =
     (case map_of (rs_rooms s) u of
        None \<Rightarrow> (Inl (RuntimeError ''Room does not exist''), s)
      | Some r \<Rightarrow> (case consumer r of (res, r) \<Rightarrow> (res, s\<lparr>rs_rooms := umap_put u r (rs_rooms s)\<rparr>)))"

definition RoomExists :: "u32 \<Rightarrow> room_system \<Rightarrow> bool" where
  "RoomExists u s = has_key (rs_rooms s) u"

definition GetRoomsSnapshot :: "room_system \<Rightarrow> room_snapshot list" where
  "GetRoomsSnapshot s = map GetRoomSnapshot (vals_of (rs_rooms s))"

definition DeleteRoom :: "u32 \<Rightarrow> room_system \<Rightarrow> (exn + unit) \<times> room_system" where
  "DeleteRoom u s =
     (if \<not> has_key (rs_rooms s) u then (Inl (RuntimeError ''Room does not exist''), s)
      else (Inr (), s\<lparr>rs_rooms := umap_erase u (rs_rooms s)\<rparr>))"

text \<open>A consumer of the code changes the room it is given, never its number.\<close>

definition keeps_uid :: "'a room_consumer \<Rightarrow> bool" where
  "keeps_uid consumer \<longleftrightarrow> (\<forall>r. rm_uid (snd (consumer r)) = rm_uid r)"

definition rooms_ok :: "room_system \<Rightarrow> bool" where
  "rooms_ok s \<longleftrightarrow> umap_ok (rs_rooms s)
     \<and> (\<forall>u r. map_of (rs_rooms s) u = Some r \<longrightarrow> rm_uid r = u \<and> 0 < u \<and> u \<le> rs_sequencedId s)"

lemma rooms_ok_CreateRoom:
  assumes "rooms_ok s" "keeps_uid consumer" "rs_sequencedId s < 0xFFFFFFFF"
  shows "rooms_ok (snd (CreateRoom consumer s))"
    and "map_of (rs_rooms s) (rs_sequencedId s + 1) = None"
proof -
  let ?n = "rs_sequencedId s + 1"
  have n: "unat ?n = unat (rs_sequencedId s) + 1"
    using assms(3) unat_add_lem [of "rs_sequencedId s" 1] by (simp add: word_less_nat_alt)
  then have lt: "rs_sequencedId s < ?n" "0 < ?n" by (simp_all add: word_less_nat_alt)
  show new: "map_of (rs_rooms s) ?n = None"
    using assms(1) lt(1) unfolding rooms_ok_def by (metis not_le option.exhaust)
  obtain res r where r: "consumer (new_room ?n) = (res, r)" by fastforce
  then have "rm_uid r = ?n"
    using assms(2) by (metis keeps_uid_def new_room_def room.select_convs(2) snd_conv)
  with new r lt assms(1) show "rooms_ok (snd (CreateRoom consumer s))"
    by (auto simp: CreateRoom_def Let_def rooms_ok_def split: if_splits intro: le_less_trans less_imp_le)
qed

lemma rooms_ok_GetRoom:
  "rooms_ok s \<Longrightarrow> keeps_uid consumer \<Longrightarrow> rooms_ok (snd (GetRoom u consumer s))"
  by (auto simp: GetRoom_def rooms_ok_def keeps_uid_def split: option.splits prod.splits if_splits)
    (metis snd_conv)

lemma rooms_ok_DeleteRoom: "rooms_ok s \<Longrightarrow> rooms_ok (snd (DeleteRoom u s))"
  by (auto simp: DeleteRoom_def rooms_ok_def split: if_splits)

text \<open>As long as the sequence has not run through its \<open>2 ^ 32 - 1\<close> numbers, a created room gets a
  number no room has, different from zero, its snapshot is the only new one, and the other rooms
  are untouched.\<close>

theorem CreateRoom_fresh:
  assumes "rooms_ok s" "keeps_uid consumer" "rs_sequencedId s < 0xFFFFFFFF"
    and "CreateRoom consumer s = (res, s')"
  shows "\<exists>r. consumer (new_room (rs_sequencedId s + 1)) = (res, r)
    \<and> rs_rooms s' = rs_rooms s @ [(rs_sequencedId s + 1, r)]
    \<and> GetRoomsSnapshot s' = GetRoomsSnapshot s @ [GetRoomSnapshot r]
    \<and> \<not> RoomExists (rs_sequencedId s + 1) s \<and> rooms_ok s'"
proof -
  note new = rooms_ok_CreateRoom [OF assms(1-3)]
  with assms(4) show ?thesis
    by (auto simp: CreateRoom_def Let_def RoomExists_def GetRoomsSnapshot_def umap_put_fresh
        split: prod.splits)
qed

lemma CreateRoom_fresh_witness:
  "let s = \<lparr>rs_sequencedId = 4, rs_rooms = []\<rparr>; s' = snd (CreateRoom (\<lambda>r. (Inr (), r)) s)
   in rs_rooms s' = [(5, new_room 5)] \<and> rooms_ok s'"
proof -
  let ?s = "\<lparr>rs_sequencedId = 4, rs_rooms = []\<rparr>"
  have "rooms_ok ?s" "keeps_uid (\<lambda>r. (Inr (), r) :: (exn + unit) \<times> room)"
    by (simp_all add: rooms_ok_def keeps_uid_def)
  from CreateRoom_fresh [OF this, of "Inr ()" "snd (CreateRoom (\<lambda>r. (Inr (), r)) ?s)"]
  show ?thesis by (auto simp: CreateRoom_def Let_def umap_put_def)
qed

end
