(* ===== verification/Otp.thy ===== *)
theory Otp imports Prelude begin

text \<open>
  \<open>server/system/OtpSystem.cpp\<close>: the one-time codes with which a client that the lobby sent to a
  ranch, a race or the messenger proves there who it is, and the long-term keys bound to an
  address. The random device's draw and the clock are arguments.
\<close>

section \<open>Operations\<close>

type_synonym otp_key = u64

record otp_code =
  oc_expiry :: time_point
  oc_code :: u32

record otp_ltk =
  ol_code :: u32
  ol_endpointAddress :: u32

record otp_system =
  os_codes :: "(otp_key, otp_code) umap"
  os_ltks :: "(otp_key, otp_ltk) umap"

definition GrantCode :: "otp_key \<Rightarrow> u32 \<Rightarrow> time_point \<Rightarrow> otp_system \<Rightarrow> u32 \<times> otp_system" where
  "GrantCode key draw now s =
     (draw, s\<lparr>os_codes := umap_put key \<lparr>oc_expiry = now + seconds 30, oc_code = draw\<rparr> (os_codes s)\<rparr>)"

definition AuthorizeCode :: "otp_key \<Rightarrow> u32 \<Rightarrow> time_point \<Rightarrow> otp_system \<Rightarrow> bool \<times> otp_system" where
  "AuthorizeCode key code now s =
     (case map_of (os_codes s) key of
        None \<Rightarrow> (False, s)
      | Some ctx \<Rightarrow>
          let expired = now > oc_expiry ctx;
              authorized = (\<not> expired \<and> oc_code ctx = code)
          in (authorized, if authorized then s\<lparr>os_codes := umap_erase key (os_codes s)\<rparr> else s))"

definition GrantLtk :: "otp_key \<Rightarrow> u32 \<Rightarrow> u32 \<Rightarrow> otp_system \<Rightarrow> u32 \<times> otp_system" where
  "GrantLtk key draw endpointAddress s =
     (draw, s\<lparr>os_ltks := umap_put key \<lparr>ol_code = draw, ol_endpointAddress = endpointAddress\<rparr> (os_ltks s)\<rparr>)"

definition AuthorizeLtk :: "otp_key \<Rightarrow> u32 \<Rightarrow> u32 \<Rightarrow> otp_system \<Rightarrow> bool" where
  "AuthorizeLtk key code endpointAddress s =
     (case map_of (os_ltks s) key of
        None \<Rightarrow> False
      | Some ctx \<Rightarrow> ol_code ctx = code \<and> ol_endpointAddress ctx = endpointAddress)"

section \<open>Properties\<close>

datatype otp_event =
    Granted otp_key u32 time_point
  | Tried otp_key u32 time_point
  | Ltk_Granted otp_key u32 u32

fun otp_step :: "otp_event \<Rightarrow> otp_system \<Rightarrow> otp_system" where
  "otp_step (Granted k d t) s = snd (GrantCode k d t s)"
| "otp_step (Tried k c t) s = snd (AuthorizeCode k c t s)"
| "otp_step (Ltk_Granted k d a) s = snd (GrantLtk k d a s)"

definition grants :: "otp_key \<Rightarrow> otp_event \<Rightarrow> bool" where
  "grants k e \<longleftrightarrow> (\<exists>d t. e = Granted k d t)"

definition wins :: "otp_key \<Rightarrow> u32 \<Rightarrow> time_point \<Rightarrow> otp_event \<Rightarrow> bool" where
  "wins k code expiry e \<longleftrightarrow> (\<exists>t \<le> expiry. e = Tried k code t)"

lemma codes_step:
  "\<not> grants k e \<Longrightarrow> map_of (os_codes (otp_step e s)) k = None \<or>
     map_of (os_codes (otp_step e s)) k = map_of (os_codes s) k"
  by (cases e) (auto simp: GrantCode_def AuthorizeCode_def GrantLtk_def grants_def Let_def
      split: option.splits)

lemma codes_run_None:
  "\<forall>e \<in> set es. \<not> grants k e \<Longrightarrow> map_of (os_codes s) k = None \<Longrightarrow>
     map_of (os_codes (fold otp_step es s)) k = None"
proof (induction es arbitrary: s)
  case (Cons e es)
  then show ?case using codes_step [of k e s] by auto
qed simp

lemma codes_step_keeps:
  "\<not> grants k e \<Longrightarrow> map_of (os_codes s) k = Some ctx \<Longrightarrow> \<not> wins k (oc_code ctx) (oc_expiry ctx) e \<Longrightarrow>
     map_of (os_codes (otp_step e s)) k = Some ctx"
  by (cases e) (auto simp: GrantCode_def AuthorizeCode_def GrantLtk_def grants_def wins_def Let_def
      split: option.splits)

lemma codes_run_keeps:
  "\<forall>e \<in> set es. \<not> grants k e \<and> \<not> wins k (oc_code ctx) (oc_expiry ctx) e \<Longrightarrow>
     map_of (os_codes s) k = Some ctx \<Longrightarrow> map_of (os_codes (fold otp_step es s)) k = Some ctx"
  by (induction es arbitrary: s) (auto simp: codes_step_keeps)

text \<open>C14: A granted code is good for exactly one use: presented with its key within thirty seconds of
  the grant it is accepted, whatever else was granted or tried under other keys or wrongly under
  this one; presented later, or with another value, it is refused; and once accepted it is refused
  from then on, until the key is granted a new one.\<close>

theorem code_one_time:
  assumes "\<forall>e \<in> set es. \<not> grants k e \<and> \<not> wins k code (granted + seconds 30) e"
    and "s1 = fold otp_step es (snd (GrantCode k code granted s))"
    and "AuthorizeCode k c t s1 = (accepted, s2)"
    and "\<forall>e \<in> set later. \<not> grants k e"
  shows "(accepted \<longleftrightarrow> c = code \<and> t \<le> granted + seconds 30)
    \<and> (accepted \<longrightarrow> \<not> fst (AuthorizeCode k c' t' (fold otp_step later s2)))"
proof -
  have "map_of (os_codes s1) k = Some \<lparr>oc_expiry = granted + seconds 30, oc_code = code\<rparr>"
    unfolding assms(2) using assms(1) by (intro codes_run_keeps) (auto simp: GrantCode_def)
  with assms(3) have *: "accepted \<longleftrightarrow> c = code \<and> t \<le> granted + seconds 30"
    "s2 = (if accepted then s1\<lparr>os_codes := umap_erase k (os_codes s1)\<rparr> else s1)"
    by (auto simp: AuthorizeCode_def Let_def)
  moreover have "\<not> fst (AuthorizeCode k c' t' (fold otp_step later s2))" if accepted
  proof -
    from * that have "map_of (os_codes s2) k = None" by simp
    from codes_run_None [OF assms(4) this] show ?thesis by (simp add: AuthorizeCode_def)
  qed
  ultimately show ?thesis by blast
qed

lemma code_one_time_witness:
  "let s1 = fold otp_step [Tried 1 8 0, Granted 2 9 0] (snd (GrantCode 1 7 0 \<lparr>os_codes = [], os_ltks = []\<rparr>));
       s2 = snd (AuthorizeCode 1 7 (seconds 30) s1)
   in fst (AuthorizeCode 1 7 (seconds 30) s1)
     \<and> \<not> fst (AuthorizeCode 1 7 (seconds 30) (fold otp_step [Granted 2 7 5] s2))"
proof -
  let ?es = "[Tried 1 8 0, Granted 2 9 0]"
  let ?s = "fold otp_step ?es (snd (GrantCode 1 7 0 \<lparr>os_codes = [], os_ltks = []\<rparr>))"
  have es: "\<forall>e \<in> set ?es. \<not> grants 1 e \<and> \<not> wins 1 7 (0 + seconds 30) e"
    by (simp add: grants_def wins_def)
  have later: "\<forall>e \<in> set [Granted 2 7 5]. \<not> grants 1 e" by (simp add: grants_def)
  from code_one_time [where c = 7 and t = "seconds 30" and c' = 7 and t' = "seconds 30"
      and s = "\<lparr>os_codes = [], os_ltks = []\<rparr>", OF es refl prod.collapse [symmetric] later]
  show ?thesis by (simp only: Let_def add_0) simp
qed

text \<open>A long-term key is accepted any number of times, but only from the address it was granted to.\<close>

lemma AuthorizeLtk_after_grant:
  "AuthorizeLtk k c a (snd (GrantLtk k draw address s)) \<longleftrightarrow> c = draw \<and> a = address"
  by (auto simp: AuthorizeLtk_def GrantLtk_def)

end
