(* ===== verification/Job_Scheduler.thy ===== *)
theory Job_Scheduler imports Prelude "HOL-Library.Multiset" begin

text \<open>
  \<open>libserver/util/Scheduler.cpp\<close>: the list of jobs each director ticks. A task is a value of a type
  \<open>'t\<close>; \<open>exec\<close> runs it on the state \<open>'w\<close> and returns the jobs it queued, in order, and the message
  of the exception it threw, if any.

  \<open>sch_iterator\<close> is the position of \<open>_jobIterator\<close> in the list, \<open>None\<close> for \<open>cend\<close>: the end of a
  \<open>std::list\<close> stays the end when a job is appended, and the other positions keep their job.
\<close>

section \<open>The scheduler\<close>

record 't job =
  job_when :: time_point
  job_task :: 't

record 't scheduler =
  sch_jobs :: "'t job list"
  sch_iterator :: "nat option"

type_synonym ('t, 'w) exec = "'t \<Rightarrow> 'w \<Rightarrow> 't job list \<times> 'w \<times> string option"

definition new_scheduler :: "'t scheduler" where
  "new_scheduler = \<lparr>sch_jobs = [], sch_iterator = None\<rparr>"

definition Scheduler_Queue :: "'t \<Rightarrow> time_point \<Rightarrow> 't scheduler \<Rightarrow> 't scheduler" where
  "Scheduler_Queue task when s = s\<lparr>sch_jobs := sch_jobs s @ [\<lparr>job_when = when, job_task = task\<rparr>]\<rparr>"

text \<open>The first job at or after a position whose time has come.\<close>

fun find_due :: "time_point \<Rightarrow> nat \<Rightarrow> 't job list \<Rightarrow> nat option" where
  "find_due now i [] = None"
| "find_due now i (j # js) = (if now \<ge> job_when j then Some i else find_due now (Suc i) js)"

definition iterator_at :: "nat \<Rightarrow> 't job list \<Rightarrow> nat option" where
  "iterator_at i js = (if i < length js then Some i else None)"

text \<open>The jobs a task queues are appended before its own job is erased.\<close>

definition Scheduler_Tick ::
  "('t, 'w) exec \<Rightarrow> time_point \<Rightarrow> 't scheduler \<Rightarrow> 'w \<Rightarrow> (exn + unit) \<times> 't scheduler \<times> 'w" where
  "Scheduler_Tick exec now s w =
     (if sch_jobs s = [] then (Inr (), s, w)
      else let start = (case sch_iterator s of None \<Rightarrow> 0 | Some i \<Rightarrow> i)
      in case find_due now start (drop start (sch_jobs s)) of
           None \<Rightarrow> (Inr (), s\<lparr>sch_iterator := None\<rparr>, w)
         | Some i \<Rightarrow>
             let (queued, w, thrown) = exec (job_task (sch_jobs s ! i)) w;
                 js = take i (sch_jobs s) @ drop (Suc i) (sch_jobs s @ queued);
                 s = \<lparr>sch_jobs = js, sch_iterator = iterator_at i js\<rparr>
             in (case thrown of None \<Rightarrow> Inr () | Some x \<Rightarrow> Inl (RuntimeError x), s, w))"

definition scheduler_ok :: "'t scheduler \<Rightarrow> bool" where
  "scheduler_ok s \<longleftrightarrow> (\<forall>i. sch_iterator s = Some i \<longrightarrow> i < length (sch_jobs s))"

section \<open>What a tick does\<close>

definition due :: "time_point \<Rightarrow> 't job \<Rightarrow> bool" where
  "due now j \<longleftrightarrow> job_when j \<le> now"

definition start_of :: "'t scheduler \<Rightarrow> nat" where
  "start_of s = (case sch_iterator s of None \<Rightarrow> 0 | Some i \<Rightarrow> i)"

text \<open>Tasks that queue nothing and are only recorded; \<open>thrown\<close> tells which of them throw.\<close>

definition record_task :: "('t \<Rightarrow> string option) \<Rightarrow> ('t, 't list) exec" where
  "record_task thrown t w = ([], w @ [t], thrown t)"

text \<open>The tick loop of a director, which survives the exceptions of its tasks.\<close>

fun ticks :: "('t, 'w) exec \<Rightarrow> time_point \<Rightarrow> nat \<Rightarrow> 't scheduler \<Rightarrow> 'w \<Rightarrow> 't scheduler \<times> 'w" where
  "ticks exec now 0 s w = (s, w)"
| "ticks exec now (Suc k) s w = (case Scheduler_Tick exec now s w of (r, s', w') \<Rightarrow> ticks exec now k s' w')"

lemma find_due_None: "\<forall>j \<in> set js. \<not> due now j \<Longrightarrow> find_due now k js = None"
  by (induction js arbitrary: k) (auto simp: due_def)

lemma find_due_Some:
  "\<forall>j \<in> set skipped. \<not> due now j \<Longrightarrow> due now j \<Longrightarrow>
     find_due now k (skipped @ j # later) = Some (k + length skipped)"
  by (induction skipped arbitrary: k) (auto simp: due_def)

lemma due_split:
  obtains "\<forall>j \<in> set js. \<not> due now j"
  | skipped j later where "js = skipped @ j # later" "\<forall>j \<in> set skipped. \<not> due now j" "due now j"
  using split_list_first_prop [of js "due now"] by metis

text \<open>The two things a tick can do, in terms of the jobs before and after the iterator.\<close>

lemma tick_rewinds:
  assumes "sch_jobs s = before @ after" "start_of s = length before" "\<forall>j \<in> set after. \<not> due now j"
  obtains r s' where "Scheduler_Tick exec now s w = (r, s', w)" "sch_jobs s' = before @ after"
    "sch_jobs s' \<noteq> [] \<Longrightarrow> start_of s' = 0" "r = Inr ()"
  using assms find_due_None [OF assms(3), of "length before"]
  by (cases "sch_jobs s = []") (auto simp: Scheduler_Tick_def start_of_def Let_def)

lemma tick_runs_exec:
  assumes "sch_jobs s = before @ skipped @ j # later" "start_of s = length before"
    "\<forall>j \<in> set skipped. \<not> due now j" "due now j" "exec (job_task j) w = (queued, w', thrown)"
  shows "Scheduler_Tick exec now s w =
    (case thrown of None \<Rightarrow> Inr () | Some x \<Rightarrow> Inl (RuntimeError x),
     \<lparr>sch_jobs = before @ skipped @ later @ queued,
       sch_iterator = iterator_at (length before + length skipped) (before @ skipped @ later @ queued)\<rparr>, w')"
proof -
  let ?i = "length before + length skipped"
  have "find_due now (length before) (drop (length before) (sch_jobs s)) = Some ?i"
    using find_due_Some [OF assms(3,4), of "length before" later] assms(1) by simp
  moreover have "sch_jobs s ! ?i = j"
    using assms(1) nth_append_length [of "before @ skipped" j later] by simp
  moreover have "take ?i (sch_jobs s) @ drop (Suc ?i) (sch_jobs s @ queued) = before @ skipped @ later @ queued"
    using assms(1) by simp
  ultimately show ?thesis
    using assms(1,2,5) by (simp add: Scheduler_Tick_def start_of_def [symmetric] Let_def)
qed

lemma tick_runs:
  assumes "sch_jobs s = before @ skipped @ j # later" "start_of s = length before"
    "\<forall>j \<in> set skipped. \<not> due now j" "due now j"
  obtains r s' where
    "Scheduler_Tick (record_task thrown) now s w = (r, s', w @ [job_task j])"
    "sch_jobs s' = before @ skipped @ later"
    "start_of s' = (if later = [] then 0 else length (before @ skipped))"
  using tick_runs_exec [OF assms, of "record_task thrown" w "[]" "w @ [job_task j]" "thrown (job_task j)"]
  by (simp add: record_task_def start_of_def iterator_at_def)

text \<open>The jobs a tick leaves behind, whatever the tasks do.\<close>

lemma tick_cases:
  assumes "scheduler_ok s" "Scheduler_Tick exec now s w = (r, s', w')"
  obtains "w' = w" "sch_jobs s' = sch_jobs s"
  | before j later queued thrown where "sch_jobs s = before @ j # later" "due now j"
    "exec (job_task j) w = (queued, w', thrown)" "sch_jobs s' = before @ later @ queued"
proof -
  let ?n = "start_of s"
  have "?n \<le> length (sch_jobs s)"
    using assms(1) by (auto simp: scheduler_ok_def start_of_def split: option.splits)
  then have js: "sch_jobs s = take ?n (sch_jobs s) @ drop ?n (sch_jobs s)" "?n = length (take ?n (sch_jobs s))"
    by simp_all
  show thesis
  proof (cases rule: due_split [of "drop ?n (sch_jobs s)" now])
    case 1
    show thesis using tick_rewinds [OF js 1, of exec w] assms(2) js(1) that(1) by (metis prod.inject)
  next
    case (2 skipped j later)
    obtain queued w1 thrown where e: "exec (job_task j) w = (queued, w1, thrown)"
      by (cases "exec (job_task j) w") auto
    let ?pre = "take ?n (sch_jobs s)"
    have split: "sch_jobs s = ?pre @ skipped @ j # later" using js(1) 2(1) by simp
    from tick_runs_exec [of s ?pre skipped j later now exec w queued w1 thrown] split js(2) 2(2,3) e assms(2)
    have "w' = w1" "sch_jobs s' = (?pre @ skipped) @ later @ queued" by auto
    with that(2) [of "?pre @ skipped" j later queued thrown] split 2(3) e show thesis by simp
  qed
qed

lemma drain_forward:
  assumes "sch_jobs s = before @ after" "sch_jobs s \<noteq> [] \<Longrightarrow> start_of s = length before"
    and "\<forall>j \<in> set before. \<not> due now j" "length (filter (due now) after) \<le> k"
    and "ticks (record_task thrown) now k s w = (s', w')"
  shows "sch_jobs s' = before @ filter (\<lambda>j. \<not> due now j) after
    \<and> w' = w @ map job_task (filter (due now) after)"
  using assms
proof (induction k arbitrary: s before after w)
  case 0
  then have "\<forall>j \<in> set after. \<not> due now j" by (auto simp: filter_empty_conv)
  with 0 show ?case by (auto simp: filter_id_conv [THEN iffD2] filter_False)
next
  case (Suc k)
  show ?case
  proof (cases "sch_jobs s = []")
    case True
    then have "Scheduler_Tick (record_task thrown) now s w = (Inr (), s, w)"
      by (simp add: Scheduler_Tick_def)
    with Suc.IH [of s "[]" "[]" w] Suc.prems True show ?thesis by simp
  next
    case False
    with Suc.prems(2) have start: "start_of s = length before" by simp
    show ?thesis
    proof (cases rule: due_split [of after now])
      case 1
      obtain r s1 where t: "Scheduler_Tick (record_task thrown) now s w = (r, s1, w)"
        "sch_jobs s1 = before @ after" "sch_jobs s1 \<noteq> [] \<Longrightarrow> start_of s1 = 0"
        using tick_rewinds [OF Suc.prems(1) start 1] by metis
      have all: "\<forall>j \<in> set (before @ after). \<not> due now j" using 1 Suc.prems(3) by auto
      from Suc.IH [of s1 "[]" "before @ after" w] t all Suc.prems(5) 1
      show ?thesis by (simp add: filter_id_conv [THEN iffD2] filter_False)
    next
      case (2 skipped j later)
      then have js: "sch_jobs s = before @ skipped @ j # later" using Suc.prems(1) by simp
      obtain r s1 where t: "Scheduler_Tick (record_task thrown) now s w = (r, s1, w @ [job_task j])"
        "sch_jobs s1 = before @ skipped @ later"
        "start_of s1 = (if later = [] then 0 else length (before @ skipped))"
        using tick_runs [OF js start 2(2,3), of thrown w] by metis
      have f: "filter (due now) skipped = []" "filter (\<lambda>j. \<not> due now j) skipped = skipped"
        using 2(2) by (auto simp: filter_id_conv filter_empty_conv)
      show ?thesis
      proof (cases "later = []")
        case True
        from Suc.IH [of s1 "[]" "before @ skipped" "w @ [job_task j]"] t True Suc.prems(3,5) 2 f
        show ?thesis by (auto simp: filter_id_conv [THEN iffD2] filter_False)
      next
        case False
        from Suc.IH [of s1 "before @ skipped" later "w @ [job_task j]"] t False Suc.prems(3-5) 2 f
        show ?thesis by auto
      qed
    qed
  qed
qed

lemma drain_all:
  assumes "sch_jobs s = before @ after" "sch_jobs s \<noteq> [] \<Longrightarrow> start_of s = length before"
    and "length (filter (due now) (before @ after)) < k"
    and "ticks (record_task thrown) now k s w = (s', w')"
  shows "sch_jobs s' = filter (\<lambda>j. \<not> due now j) (before @ after)
    \<and> mset w' = mset w + mset (map job_task (filter (due now) (before @ after)))"
  using assms
proof (induction k arbitrary: s before after w)
  case 0
  then show ?case by simp
next
  case (Suc k)
  show ?case
  proof (cases "sch_jobs s = []")
    case True
    with drain_forward [OF _ _ _ _ Suc.prems(4), of "[]" "[]"] Suc.prems(1) show ?thesis by simp
  next
    case False
    with Suc.prems(2) have start: "start_of s = length before" by simp
    show ?thesis
    proof (cases rule: due_split [of after now])
      case 1
      obtain r s1 where t: "Scheduler_Tick (record_task thrown) now s w = (r, s1, w)"
        "sch_jobs s1 = before @ after" "sch_jobs s1 \<noteq> [] \<Longrightarrow> start_of s1 = 0"
        using tick_rewinds [OF Suc.prems(1) start 1] by metis
      from drain_forward [of s1 "[]" "before @ after" now k thrown w s' w'] t Suc.prems(3,4)
      show ?thesis by simp
    next
      case (2 skipped j later)
      then have js: "sch_jobs s = before @ skipped @ j # later" using Suc.prems(1) by simp
      obtain r s1 where t: "Scheduler_Tick (record_task thrown) now s w = (r, s1, w @ [job_task j])"
        "sch_jobs s1 = before @ skipped @ later"
        "start_of s1 = (if later = [] then 0 else length (before @ skipped))"
        using tick_runs [OF js start 2(2,3), of thrown w] by metis
      have f: "filter (due now) skipped = []" "filter (\<lambda>j. \<not> due now j) skipped = skipped"
        using 2(2) by (auto simp: filter_id_conv filter_empty_conv)
      show ?thesis
      proof (cases "later = []")
        case True
        from drain_forward [of s1 "[]" "before @ skipped" now k thrown "w @ [job_task j]" s' w']
          t True Suc.prems(3,4) 2 f show ?thesis by auto
      next
        case False
        from Suc.IH [of s1 "before @ skipped" later "w @ [job_task j]"] t False Suc.prems(3,4) 2 f
        show ?thesis by auto
      qed
    qed
  qed
qed

text \<open>C12: However many jobs are pending and wherever the iterator stands, one tick more than there are
  due jobs runs each of them exactly once, throwing or not, and leaves the jobs that are not due,
  in their order.\<close>

theorem Scheduler_drains:
  assumes "scheduler_ok s"
    and "ticks (record_task thrown) now (length (filter (due now) (sch_jobs s)) + 1) s [] = (s', executed)"
  shows "sch_jobs s' = filter (\<lambda>j. \<not> due now j) (sch_jobs s)
    \<and> mset executed = mset (map job_task (filter (due now) (sch_jobs s)))"
proof -
  let ?n = "start_of s"
  have "?n \<le> length (sch_jobs s)"
    using assms(1) by (auto simp: scheduler_ok_def start_of_def split: option.splits)
  then have "sch_jobs s = take ?n (sch_jobs s) @ drop ?n (sch_jobs s)"
    "start_of s = length (take ?n (sch_jobs s))" by simp_all
  from drain_all [OF this _ assms(2)] show ?thesis by simp
qed

lemma Scheduler_drains_witness:
  "let s = \<lparr>sch_jobs = [\<lparr>job_when = 0, job_task = ''a''\<rparr>, \<lparr>job_when = 9, job_task = ''b''\<rparr>,
             \<lparr>job_when = 5, job_task = ''c''\<rparr>], sch_iterator = Some 1\<rparr>
   in sch_jobs (fst (ticks (record_task (\<lambda>_. None)) 5 3 s [])) = [\<lparr>job_when = 9, job_task = ''b''\<rparr>]
     \<and> mset (snd (ticks (record_task (\<lambda>_. None)) 5 3 s [])) = {#''a'', ''c''#}"
proof -
  let ?s = "\<lparr>sch_jobs = [\<lparr>job_when = 0, job_task = ''a''\<rparr>, \<lparr>job_when = 9, job_task = ''b''\<rparr>,
             \<lparr>job_when = 5, job_task = ''c''\<rparr>], sch_iterator = Some 1\<rparr>"
  have ok: "scheduler_ok ?s" by (simp add: scheduler_ok_def)
  have n: "length (filter (due 5) (sch_jobs ?s)) + 1 = 3" by (simp add: due_def)
  show ?thesis
    using Scheduler_drains [OF ok, of "\<lambda>_. None" 5] unfolding n
    by (cases "ticks (record_task (\<lambda>_. None)) 5 3 ?s []") (simp add: Let_def due_def)
qed

text \<open>The iterator never leaves the list.\<close>

lemma scheduler_ok_Queue: "scheduler_ok s \<Longrightarrow> scheduler_ok (Scheduler_Queue task when s)"
  by (auto simp: scheduler_ok_def Scheduler_Queue_def less_Suc_eq)

lemma scheduler_ok_Tick: "Scheduler_Tick exec now s w = (r, s', w') \<Longrightarrow> scheduler_ok s \<Longrightarrow> scheduler_ok s'"
  by (auto simp: Scheduler_Tick_def scheduler_ok_def iterator_at_def Let_def
      split: if_splits option.splits prod.splits)

lemma Scheduler_Tick_keeps:
  "P w \<Longrightarrow> (\<And>t w. P w \<Longrightarrow> P (fst (snd (exec t w)))) \<Longrightarrow> P (snd (snd (Scheduler_Tick exec now s w)))"
  by (auto simp: Scheduler_Tick_def Let_def split: prod.splits option.splits) (metis fst_conv snd_conv)+

end
