(* ===== verification/Race_State.thy ===== *)
theory Race_State imports Magic_System Rooms Otp Job_Scheduler "HOL-Library.Product_Lexorder" begin

text \<open>
  The data of the races (\<open>server/race/RaceInstance.hpp\<close>) and of the race server
  (\<open>server/race/RaceNetworkHandler.hpp\<close>), and the ways its code reaches them.

  \<^item> The state \<open>race_server\<close> holds what the handlers reach: their clients, race instances, session ids
    and scheduler, the rooms of the room system, the character and horse records of the data
    director, the one-time codes, and the users of the lobby director. A record that is not available has no entry.
  \<^item> A command is sent by appending it to \<open>sv_sent\<close>; sending to a client that is gone does nothing in
    the code and is in the list here.
  \<^item> \<open>sv_resets\<close> lists the clients whose rolling code a handler has reset with \<open>SetCode\<close>; the command
    server applies it when the handler is done.
  \<^item> What the registries and the configuration hold is the argument \<open>env\<close>. Float computations on
    them are functions of \<open>env\<close>.
  \<^item> The steady clock is the argument \<open>now\<close>, read once per call; \<open>time_point::max()\<close> is \<open>None\<close>.
  \<^item> Protocol game and team modes are their numbers. Logging is left out.
\<close>

section \<open>Configuration\<close>

abbreviation Mode_Speed_Race :: u8 where "Mode_Speed_Race \<equiv> 1"
abbreviation Mode_Magic_Race :: u8 where "Mode_Magic_Race \<equiv> 2"
abbreviation Teams_FFA :: u8 where "Teams_FFA \<equiv> 1"
abbreviation Teams_Team :: u8 where "Teams_Team \<equiv> 2"
abbreviation Teams_Single :: u8 where "Teams_Single \<equiv> 3"

record game_mode_info =
  gm_goodJumpStarPoints :: u32
  gm_perfectJumpStarPoints :: u32
  gm_perfectJumpMaxBonusCombo :: u32
  gm_perfectJumpUnitStarPoints :: u32
  gm_spurConsumeStarPoints :: u32
  gm_starPointsMax :: u32
  gm_usedDeckIds :: "u32 list"
  gm_mapBlockPool :: "u32 list"

record deck_item_instance =
  di_deckId :: u32
  di_position :: wire_vector3

record map_block_info =
  mb_requiredLevel :: u32
  mb_offset :: wire_vector3
  mb_trainingFee :: u32
  mb_timeLimit :: u32
  mb_waitTime :: u32
  mb_itemDecks :: "deck_item_instance list"

record deck_info =
  dk_respawnTime :: int
  dk_items :: "u32 list"

record level_info =
  li_level :: u32
  li_expRequired :: u32

record race_env =
  env_gameModes :: "(u32, game_mode_info) umap"
  env_mapBlocks :: "(u32, map_block_info) umap"
  env_decks :: "(u32, deck_info) umap"
  env_deckItemSlots :: "(u32, u32) umap"
  env_magic :: magic_registry
  env_levels :: "level_info list"
  env_countdown :: "u32 option"
  env_carrots :: "bool \<Rightarrow> u32"
  env_effect_ms :: "u32 \<Rightarrow> u32"
  env_spur_ms :: "u32 \<Rightarrow> u32 \<Rightarrow> int"
  env_near :: "wire_vector3 \<Rightarrow> wire_vector3 \<Rightarrow> bool"
  env_move :: "wire_vector3 \<Rightarrow> wire_vector3 \<Rightarrow> wire_vector3"

definition GetCourseGameModeInfo :: "race_env \<Rightarrow> u32 \<Rightarrow> exn + game_mode_info" where
  "GetCourseGameModeInfo env k = (case map_of (env_gameModes env) k of
     None \<Rightarrow> Inl (RuntimeError ''Invalid course game mode'') | Some m \<Rightarrow> Inr m)"

definition GetMapBlockInfo :: "race_env \<Rightarrow> u32 \<Rightarrow> exn + map_block_info" where
  "GetMapBlockInfo env k = (case map_of (env_mapBlocks env) k of
     None \<Rightarrow> Inl (RuntimeError ''Invalid course map block'') | Some m \<Rightarrow> Inr m)"

definition GetDeckInfo :: "race_env \<Rightarrow> u32 \<Rightarrow> exn + deck_info" where
  "GetDeckInfo env k = (case map_of (env_decks env) k of
     None \<Rightarrow> Inl (RuntimeError ''Invalid deck item ID'') | Some d \<Rightarrow> Inr d)"

definition GetDeckItemSlot :: "race_env \<Rightarrow> u32 \<Rightarrow> exn + u32" where
  "GetDeckItemSlot env k = (case map_of (env_deckItemSlots env) k of
     None \<Rightarrow> Inl (RuntimeError ''Invalid item type ID'') | Some s \<Rightarrow> Inr s)"

text \<open>\<open>CharacterRegistry::GetLevelForExp\<close>: the levels in the order of the configuration.\<close>

fun level_loop :: "level_info list \<Rightarrow> u32 \<Rightarrow> u32 \<Rightarrow> u32" where
  "level_loop [] totalExp currentLevel = currentLevel"
| "level_loop (i # is) totalExp currentLevel =
     (if totalExp < li_expRequired i then currentLevel else level_loop is totalExp (li_level i))"

definition GetLevelForExp :: "race_env \<Rightarrow> u32 \<Rightarrow> u32" where
  "GetLevelForExp env totalExp = level_loop (env_levels env) totalExp 1"

section \<open>State\<close>

datatype Stage = Stage_Waiting | Stage_Loading | Stage_Racing | Stage_Finishing

record race_parameters =
  pa_gameMode :: u8
  pa_teamMode :: u8
  pa_mapBlockId :: u32
  pa_missionId :: u16
  pa_masterUid :: uid

record race_instance =
  in_roomUid :: u32
  in_parameters :: race_parameters
  in_gameModeId :: u32
  in_gameModeInfo :: game_mode_info
  in_mapBlockId :: u32
  in_mapBlockInfo :: map_block_info
  in_loadingStart :: "time_point option"
  in_raceStart :: "time_point option"
  in_stage :: Stage
  in_stageTimeout :: "time_point option"
  in_tracker :: race_tracker
  in_bonusCourseType :: u16

record client_context =
  cc_characterUid :: uid
  cc_roomUid :: uid
  cc_isAuthenticated :: bool

datatype Role = Role_User | Role_Op | Role_GameMaster

record skill_sets =
  sk_set1 :: "u32 \<times> u32"
  sk_set2 :: "u32 \<times> u32"
  sk_activeSetId :: u32

record character =
  ch_name :: bytes
  ch_level :: u32
  ch_carrots :: u32
  ch_experience :: u32
  ch_mountUid :: uid
  ch_role :: Role
  ch_speed_skills :: skill_sets
  ch_magic_skills :: skill_sets

record horse =
  ho_name :: bytes
  ho_clazz :: u32
  ho_clazzProgress :: u32
  ho_growthPoints :: u32
  ho_fatigue :: u32
  ho_potentialType :: u32
  ho_potentialLevel :: u32
  ho_potentialValue :: u32

record score =
  sc_uid :: uid
  sc_name :: bytes
  sc_bitset :: u32
  sc_courseTime :: u32
  sc_experience :: u32
  sc_carrots :: u32
  sc_teamColor :: TeamColor
  sc_level :: u32
  sc_levelProgress :: u32
  sc_mountName :: bytes
  sc_horseClass :: u8
  sc_horseClassProgress :: u32
  sc_growthPoints :: u16

record start_racer =
  sr_oid :: oid
  sr_name :: bytes
  sr_p2dId :: u16
  sr_teamColor :: TeamColor

record start_notify =
  sn_raceGameMode :: u8
  sn_raceTeamMode :: u8
  sn_hostOid :: oid
  sn_raceMapBlockId :: u16
  sn_raceMissionId :: u16
  sn_racers :: "start_racer list"
  sn_setId :: u8
  sn_skills :: "u32 list"

text \<open>What a master may change about a room; bit \<open>i\<close> of the first field tells that the \<open>i\<close>-th of the others
  is meant.\<close>

record room_options =
  op_bitfield :: u16
  op_name :: bytes
  op_playerCount :: u8
  op_password :: bytes
  op_gameMode :: u8
  op_mapBlockId :: u16
  op_npcDifficulty :: u8

text \<open>The commands the modelled code sends, by their names in the protocol: those of the waiting room,
  of the race, of the magic, and of the company around it.\<close>

datatype room_msg =
    EnterRoomCancel
  | EnterRoomOK bool u32 u32 "(uid \<times> bool \<times> bool \<times> Team) list"
  | EnterRoomNotify uid bool bool Team
  | ChangeRoomOptionsNotify room_options
  | LeaveRoomNotify uid
  | LeaveRoomOK
  | ReadyRaceNotify uid bool
  | ChangeTeamOK uid u32
  | ChangeTeamNotify uid u32
  | ChangeMasterNotify uid
  | StartRaceCancel nat
  | RoomCountdown u32 u16 u16
  | StartRaceNotify start_notify
  | KickNotify uid

datatype course_msg =
    RaceResultNotify "score list"
  | UpdateGameMoney u32
  | LoadingCompleteNotify oid
  | UserRaceCountdown u64
  | UserRaceFinalNotify oid u32
  | RaceDeleteNotify oid
  | StarPointGetOK oid u32 bool
  | RequestSpurOK oid u8 u32 u8
  | HurdleClearResultOK oid u8 u32
  | TeamSpurGauge TeamColor u32 u32 u32
  | ActivateEventNotify u32 oid
  | DeactivateEventNotify u32 oid

datatype magic_msg =
    CreateItem oid u32 wire_vector3 u32
  | GameRaceItemGet oid oid u32
  | RequestMagicItemOK oid u32
  | RequestMagicItemNotify u32 oid
  | UseMagicItemOK oid u32 "oid list" u16 u32
  | UseMagicItemNotify oid u32 "oid list" u16 u32
  | MagicExpire u32 u16 u16 u16
  | AddSkillEffect oid u32 oid u16 bool bool u32
  | RemoveSkillEffect oid u32
  | UseItemSlotNotify oid
  | RemoveMagicTarget u16 oid oid oid
  | ChangeMagicTargetOK u16 oid oid oid
  | ChangeMagicTargetCancel u16 oid oid oid
  | ChangeMagicTargetNotify u16 oid oid oid
  | ObtainEgg uid uid tid

text \<open>What is said around a race: clocks, chat, relayed packets, invitations, rewards.\<close>

datatype social_msg =
    UserRaceTimerOK u64 u64
  | AwardNotify u32
  | RaceResultOK u16 u32
  | UpdateMountInfoNotify uid
  | ChatNotify bytes bytes bool
  | RelayCommandNotify u8 u16
  | RelayNotify oid oid u16 bytes
  | ActivateInteractiveEvent u32 oid u64
  | OpCmdOK bytes
  | InviteUserOK uid bytes
  | InviteUserCancel uid bytes
  | TriggerizeAct u8 u32 u16
  | GameCreateClientItem oid u8
  | UpdateDailyQuestNotify uid u16 wire_objective u32 u8 u32 u32

datatype summon_msg =
    RequestUserOK bool bytes u32 u32
  | RequestUserCancel bool bytes u32 u32
  | RequestUserNotify bool bytes u32 u32

datatype race_msg = Room_msg room_msg | Course_msg course_msg | Magic_msg magic_msg
  | Social_msg social_msg | Summon_msg summon_msg

text \<open>The jobs of the scheduler: a race that starts after its countdown, effects that expire, held items
  that are stripped, ice walls that melt, events that end.\<close>

datatype race_task =
    Task_StartRace u32
  | Task_EffectExpiry u32 uid oid u32 u32 u32
  | Task_StripMagicItem u32 uid
  | Task_IceWallExpiry u32 u32 u16
  | Task_DeactivateEvent client_id u32
  | Task_SpurStart u32 TeamColor u32 u32
  | Task_UnlockGauge u32 TeamColor

record race_server =
  sv_scheduler :: "race_task scheduler"
  sv_clients :: "(client_id, client_context) umap"
  sv_p2dIds :: "(client_id, u16) umap"
  sv_p2dIdPool :: P2dIdPool
  sv_raceInstances :: "(u32, race_instance) umap"
  sv_rooms :: room_system
  sv_otp :: otp_system
  sv_characters :: "(uid, character) umap"
  sv_horses :: "(uid, horse) umap"
  sv_users :: "uid list"
  sv_sent :: "(client_id \<times> race_msg) list"
  sv_resets :: "client_id list"

type_synonym 'a race_act = "(race_server, 'a) act"

section \<open>Access\<close>

definition send :: "client_id \<Rightarrow> race_msg \<Rightarrow> unit race_act" where
  "send c m = modify (\<lambda>s. s\<lparr>sv_sent := sv_sent s @ [(c, m)]\<rparr>)"

definition queue_task :: "race_task \<Rightarrow> time_point \<Rightarrow> unit race_act" where
  "queue_task task when = modify (\<lambda>s. s\<lparr>sv_scheduler := Scheduler_Queue task when (sv_scheduler s)\<rparr>)"

definition get_room :: "u32 \<Rightarrow> room race_act" where
  "get_room u s = (case map_of (rs_rooms (sv_rooms s)) u of
     None \<Rightarrow> (Inl (RuntimeError ''Room does not exist''), s) | Some r \<Rightarrow> (Inr r, s))"

definition put_room :: "u32 \<Rightarrow> room \<Rightarrow> unit race_act" where
  "put_room u r = modify (\<lambda>s. s\<lparr>sv_rooms := (sv_rooms s)\<lparr>rs_rooms := umap_put u r (rs_rooms (sv_rooms s))\<rparr>\<rparr>)"

definition get_instance :: "u32 \<Rightarrow> race_instance race_act" where
  "get_instance u s = (case map_of (sv_raceInstances s) u of
     None \<Rightarrow> (Inl (RuntimeError ''Race instance does not exist''), s) | Some i \<Rightarrow> (Inr i, s))"

definition put_instance :: "u32 \<Rightarrow> race_instance \<Rightarrow> unit race_act" where
  "put_instance u i = modify (\<lambda>s. s\<lparr>sv_raceInstances := umap_put u i (sv_raceInstances s)\<rparr>)"

definition put_tracker :: "u32 \<Rightarrow> race_tracker \<Rightarrow> unit race_act" where
  "put_tracker u t = seq (get_instance u) (\<lambda>i. put_instance u (i\<lparr>in_tracker := t\<rparr>))"

definition put_racer :: "u32 \<Rightarrow> uid \<Rightarrow> racer \<Rightarrow> unit race_act" where
  "put_racer u c r = seq (get_instance u) (\<lambda>i. put_instance u (i\<lparr>in_tracker := set_racer c r (in_tracker i)\<rparr>))"

definition get_character :: "uid \<Rightarrow> character race_act" where
  "get_character u s = (case map_of (sv_characters s) u of
     None \<Rightarrow> (Inl (RuntimeError ''Value of the record is unavailable''), s) | Some c \<Rightarrow> (Inr c, s))"

definition put_character :: "uid \<Rightarrow> character \<Rightarrow> unit race_act" where
  "put_character u c = modify (\<lambda>s. s\<lparr>sv_characters := umap_put u c (sv_characters s)\<rparr>)"

definition get_horse :: "uid \<Rightarrow> horse race_act" where
  "get_horse u s = (case map_of (sv_horses s) u of
     None \<Rightarrow> (Inl (RuntimeError ''Value of the record is unavailable''), s) | Some h \<Rightarrow> (Inr h, s))"

definition get_user :: "uid \<Rightarrow> unit race_act" where
  "get_user u s = (if u \<in> set (sv_users s) then (Inr (), s)
     else (Inl (RuntimeError ''User instance for character not available''), s))"

definition broadcast :: "u32 \<Rightarrow> race_msg \<Rightarrow> unit race_act" where
  "broadcast u m = seq (get_room u) (\<lambda>r. modify (\<lambda>s. s\<lparr>sv_sent := sv_sent s @
     map (\<lambda>p. (pl_clientId p, m)) (vals_of (rm_players r))\<rparr>))"

definition broadcast_except :: "u32 \<Rightarrow> race_msg \<Rightarrow> uid \<Rightarrow> unit race_act" where
  "broadcast_except u m skip = seq (get_room u) (\<lambda>r. modify (\<lambda>s. s\<lparr>sv_sent := sv_sent s @
     map (\<lambda>(c, p). (pl_clientId p, m)) (filter (\<lambda>(c, p). c \<noteq> skip) (rm_players r))\<rparr>))"

definition GetClientContext :: "client_id \<Rightarrow> bool \<Rightarrow> client_context race_act" where
  "GetClientContext c requireAuthorized s = (case map_of (sv_clients s) c of
     None \<Rightarrow> (Inl (RuntimeError ''Race client is not available''), s)
   | Some ctx \<Rightarrow> if requireAuthorized \<and> \<not> cc_isAuthenticated ctx
       then (Inl (RuntimeError ''Race client is not authenticated''), s) else (Inr ctx, s))"

definition FindClientIdByCharacterUid :: "uid \<Rightarrow> race_server \<Rightarrow> client_id option" where
  "FindClientIdByCharacterUid u s =
     map_option fst (find (\<lambda>(c, ctx). cc_characterUid ctx = u \<and> cc_isAuthenticated ctx) (sv_clients s))"

definition GetClientIdByCharacterUid :: "uid \<Rightarrow> client_id race_act" where
  "GetClientIdByCharacterUid u s = (case FindClientIdByCharacterUid u s of
     None \<Rightarrow> (Inl (RuntimeError ''Character not associated with any client''), s) | Some c \<Rightarrow> (Inr c, s))"

definition GetRaceInstance :: "client_context \<Rightarrow> bool \<Rightarrow> race_instance race_act" where
  "GetRaceInstance ctx checkRacer =
     (if cc_roomUid ctx = InvalidUid then throw ''Tried to get race instance but room uid is invalid''
      else seq (get_instance (cc_roomUid ctx)) (\<lambda>i.
        if checkRacer \<and> \<not> IsRacer (cc_characterUid ctx) (in_tracker i)
        then throw ''Tried to get race instance but character is not a racer''
        else pure i))"

definition GetOrCreateP2dId :: "client_id \<Rightarrow> u16 race_act" where
  "GetOrCreateP2dId c s =
     (case map_of (sv_p2dIds s) c of
        Some i \<Rightarrow> (Inr i, s)
      | None \<Rightarrow> (case Acquire (sv_p2dIdPool s) of
          (None, pool) \<Rightarrow> (Inl (RuntimeError ''P2dId pool has been exhausted.''), s\<lparr>sv_p2dIdPool := pool\<rparr>)
        | (Some i, pool) \<Rightarrow> (Inr i, s\<lparr>sv_p2dIdPool := pool, sv_p2dIds := umap_put c i (sv_p2dIds s)\<rparr>)))"

text \<open>What the accesses keep.\<close>

lemma preserves_reads [preserves_intros]:
  "preserves P (get_room u)" "preserves P (get_instance u)" "preserves P (get_character v)"
  "preserves P (get_horse v)" "preserves P (get_user v)" "preserves P (GetClientContext c b)"
  "preserves P (GetClientIdByCharacterUid v)" "preserves P (GetRaceInstance ctx b)"
  by (auto simp: preserves_def get_room_def get_instance_def get_character_def get_horse_def get_user_def
      GetClientContext_def GetClientIdByCharacterUid_def GetRaceInstance_def act_defs
      split: option.splits sum.splits prod.splits)

end
