(* ===== verification/Data_Records.thy ===== *)
theory Data_Records imports Race_State begin

text \<open>
  \<open>libserver/data/DataDefinitions.hpp\<close>: the records the server keeps about its players, and the
  \<open>DataDirector\<close> that hands them out, as the systems and directors see it.

  \<^item> A field is its value; that it was modified only tells the data source what to write.
  \<^item> A table holds the records of one kind that are available, by their number: \<open>get_row\<close> finds none if a record is not
    there yet. What makes a record available is the subject of \<open>Data_Storage\<close>.
  \<^item> A created record gets the next number of its table, unless the data source fails. The data source of files counts
    in this way, but gives horses and items numbers of one sequence; here each of the two tables counts on its own.
  \<^item> Carrots and cash are signed in the code and 32-bit words here. A duration is a number of seconds.
\<close>

section \<open>Tables\<close>

record 'a table =
  tb_rows :: "(uid, 'a) umap"
  tb_sequentialUid :: u32
  tb_failing :: bool

definition get_row :: "'a table \<Rightarrow> uid \<Rightarrow> 'a option" where
  "get_row t u = (if u = InvalidUid then None else map_of (tb_rows t) u)"

definition put_row :: "uid \<Rightarrow> 'a \<Rightarrow> 'a table \<Rightarrow> 'a table" where
  "put_row u x t = t\<lparr>tb_rows := umap_put u x (tb_rows t)\<rparr>"

definition delete_row :: "uid \<Rightarrow> 'a table \<Rightarrow> 'a table" where
  "delete_row u t = t\<lparr>tb_rows := umap_erase u (tb_rows t)\<rparr>"

definition create_row :: "(uid \<Rightarrow> 'a) \<Rightarrow> 'a table \<Rightarrow> uid option \<times> 'a table" where
  "create_row fresh t =
     (let u = tb_sequentialUid t + 1 in
      if tb_failing t then (None, t)
      else (Some u, t\<lparr>tb_sequentialUid := u, tb_rows := umap_put u (fresh u) (tb_rows t)\<rparr>))"

text \<open>\<open>Get\<close> of a list of keys: all the records, if they are all available.\<close>

definition get_rows :: "'a table \<Rightarrow> uid list \<Rightarrow> 'a list option" where
  "get_rows t us = (if list_all (\<lambda>u. has_key (tb_rows t) u) us
     then Some (map (\<lambda>u. the (map_of (tb_rows t) u)) us) else None)"

section \<open>Records\<close>

datatype Punishment = Punishment_None | Punishment_Mute | Punishment_Ban

record infraction =
  if_uid :: uid
  if_description :: bytes
  if_punishment :: Punishment
  if_duration :: int
  if_createdAt :: time_point

record user_record =
  us_name :: bytes
  us_token :: bytes
  us_infractions :: "uid list"
  us_characterUid :: uid
  us_lastSeenOnline :: time_point

record item =
  it_uid :: uid
  it_tid :: tid
  it_count :: u32
  it_duration :: int
  it_createdAt :: time_point

record pet =
  pt_uid :: uid
  pt_itemUid :: uid
  pt_petId :: uid
  pt_name :: bytes
  pt_birthDate :: time_point

record storage_item_part =
  sip_tid :: tid
  sip_count :: u32
  sip_duration :: int

record storage_item =
  si_uid :: uid
  si_sender :: bytes
  si_message :: bytes
  si_carrots :: i32
  si_items :: "storage_item_part list"
  si_checked :: bool
  si_createdAt :: time_point
  si_duration :: int
  si_goodsSq :: u32
  si_priceId :: u32

record guild =
  gu_uid :: uid
  gu_name :: bytes
  gu_description :: bytes
  gu_owner :: uid
  gu_officers :: "uid list"
  gu_members :: "uid list"
  gu_rank :: u32
  gu_totalWins :: u32
  gu_totalLosses :: u32
  gu_seasonalWins :: u32
  gu_seasonalLosses :: u32

record option_binding =
  ob_primaryKey :: u32
  ob_type :: u32
  ob_secondaryKey :: u32

record settings_record =
  se_uid :: uid
  se_keyboardBindings :: "option_binding list option"
  se_macros :: "bytes list option"
  se_gamepadBindings :: "option_binding list option"
  se_age :: u32
  se_hideAge :: bool

datatype RoleRank = Rank_None | Rank_Trial | Rank_Moderator | Rank_Admin

record character_parts =
  cp_modelId :: u32
  cp_mouthId :: u32
  cp_faceId :: u32

record character_appearance =
  ca_voiceId :: u32
  ca_headSize :: u32
  ca_height :: u32
  ca_thighVolume :: u32
  ca_legVolume :: u32
  ca_emblemId :: u32

record contact_group =
  cg_uid :: uid
  cg_name :: bytes
  cg_members :: "uid list"
  cg_createdAt :: time_point

record contacts =
  cn_pending :: "uid list"
  cn_groups :: "(uid, contact_group) omap"

record mailbox =
  mx_hasNewMail :: bool
  mx_inbox :: "uid list"
  mx_sent :: "uid list"

record character_info =
  ci_uid :: uid
  ci_name :: bytes
  ci_introduction :: bytes
  ci_level :: u32
  ci_experience :: u32
  ci_carrots :: i32
  ci_cash :: i32
  ci_role :: Role
  ci_roleRank :: RoleRank
  ci_parts :: character_parts
  ci_appearance :: character_appearance
  ci_guildUid :: uid
  ci_contacts :: contacts
  ci_gifts :: "uid list"
  ci_purchases :: "uid list"
  ci_inventory :: "uid list"
  ci_characterEquipment :: "uid list"
  ci_expiredEquipment :: "uid list"
  ci_horses :: "uid list"
  ci_horseSlotCount :: u8
  ci_breedingWishlist :: "uid list"
  ci_pets :: "uid list"
  ci_mountUid :: uid
  ci_petUid :: uid
  ci_eggs :: "uid list"
  ci_housing :: "uid list"
  ci_isRanchLocked :: bool
  ci_settingsUid :: uid
  ci_speed_skills :: skill_sets
  ci_magic_skills :: skill_sets
  ci_dailyQuestGroupUid :: uid
  ci_mailbox :: mailbox
  ci_quests :: "uid list"

text \<open>A \<open>data::Character\<close> and a \<open>data::Horse\<close> as they are constructed.\<close>

definition default_skills :: skill_sets where
  "default_skills = \<lparr>sk_set1 = (0, 0), sk_set2 = (0, 0), sk_activeSetId = 0\<rparr>"

definition default_character :: character_info where
  "default_character = \<lparr>ci_uid = InvalidUid, ci_name = [], ci_introduction = [], ci_level = 0, ci_experience = 0,
     ci_carrots = 0, ci_cash = 0, ci_role = Role_User, ci_roleRank = Rank_None,
     ci_parts = \<lparr>cp_modelId = 0, cp_mouthId = 0, cp_faceId = 0\<rparr>,
     ci_appearance = \<lparr>ca_voiceId = 0, ca_headSize = 0, ca_height = 0, ca_thighVolume = 0, ca_legVolume = 0, ca_emblemId = 0\<rparr>,
     ci_guildUid = InvalidUid, ci_contacts = \<lparr>cn_pending = [], cn_groups = []\<rparr>, ci_gifts = [], ci_purchases = [],
     ci_inventory = [], ci_characterEquipment = [], ci_expiredEquipment = [], ci_horses = [], ci_horseSlotCount = 0,
     ci_breedingWishlist = [], ci_pets = [], ci_mountUid = InvalidUid, ci_petUid = InvalidUid, ci_eggs = [],
     ci_housing = [], ci_isRanchLocked = False, ci_settingsUid = InvalidUid, ci_speed_skills = default_skills,
     ci_magic_skills = default_skills, ci_dailyQuestGroupUid = InvalidUid,
     ci_mailbox = \<lparr>mx_hasNewMail = False, mx_inbox = [], mx_sent = []\<rparr>, ci_quests = []\<rparr>"

datatype HorseType = Type_Adult | Type_Foal | Type_Stallion | Type_Rent

record horse_parts =
  hp_skinTid :: tid
  hp_faceTid :: tid
  hp_maneTid :: tid
  hp_tailTid :: tid

record horse_appearance =
  hpa_scale :: u32
  hpa_legLength :: u32
  hpa_legVolume :: u32
  hpa_bodyLength :: u32
  hpa_bodyVolume :: u32

record horse_stats =
  hs_agility :: u32
  hs_courage :: u32
  hs_rush :: u32
  hs_endurance :: u32
  hs_ambition :: u32

record horse_mastery =
  hm_spurMagicCount :: u32
  hm_jumpCount :: u32
  hm_slidingTime :: u32
  hm_glidingDistance :: u32

record horse_potential =
  po_type :: u32
  po_level :: u32
  po_value :: u32

record mount_condition =
  mc_stamina :: u32
  mc_charm :: u32
  mc_friendliness :: u32
  mc_injury :: u32
  mc_plenitude :: u32
  mc_bodyDirtiness :: u32
  mc_maneDirtiness :: u32
  mc_tailDirtiness :: u32
  mc_bodyPolish :: u32
  mc_manePolish :: u32
  mc_tailPolish :: u32
  mc_attachment :: u32
  mc_boredom :: u32
  mc_stopAmendsPoint :: u32

record mount_info =
  mi_boostsInARow :: u32
  mi_winsSpeedSingle :: u32
  mi_winsSpeedTeam :: u32
  mi_winsMagicSingle :: u32
  mi_winsMagicTeam :: u32
  mi_totalDistance :: u32
  mi_topSpeed :: u32
  mi_longestGlideDistance :: u32
  mi_participated :: u32
  mi_cumulativePrize :: u32
  mi_biggestPrize :: u32

record horse_info =
  hi_uid :: uid
  hi_tid :: tid
  hi_name :: bytes
  hi_parts :: horse_parts
  hi_appearance :: horse_appearance
  hi_stats :: horse_stats
  hi_mastery :: horse_mastery
  hi_rating :: u32
  hi_clazz :: u32
  hi_clazzProgress :: u32
  hi_grade :: u32
  hi_growthPoints :: u32
  hi_breedingCount :: u32
  hi_breedingCombo :: u32
  hi_type :: HorseType
  hi_dateOfBirth :: time_point
  hi_tendency :: u32
  hi_spirit :: u32
  hi_potential :: horse_potential
  hi_luckState :: u32
  hi_fatigue :: u32
  hi_emblemUid :: u32
  hi_mountCondition :: mount_condition
  hi_mountInfo :: mount_info
  hi_father :: uid
  hi_mother :: uid
  hi_lineage :: u32

definition default_horse :: horse_info where
  "default_horse = \<lparr>hi_uid = InvalidUid, hi_tid = InvalidTid, hi_name = [],
     hi_parts = \<lparr>hp_skinTid = 0, hp_faceTid = 0, hp_maneTid = 0, hp_tailTid = 0\<rparr>,
     hi_appearance = \<lparr>hpa_scale = 0, hpa_legLength = 0, hpa_legVolume = 0, hpa_bodyLength = 0, hpa_bodyVolume = 0\<rparr>,
     hi_stats = \<lparr>hs_agility = 0, hs_courage = 0, hs_rush = 0, hs_endurance = 0, hs_ambition = 0\<rparr>,
     hi_mastery = \<lparr>hm_spurMagicCount = 0, hm_jumpCount = 0, hm_slidingTime = 0, hm_glidingDistance = 0\<rparr>,
     hi_rating = 0, hi_clazz = 0, hi_clazzProgress = 0, hi_grade = 0, hi_growthPoints = 0, hi_breedingCount = 0,
     hi_breedingCombo = 0, hi_type = Type_Adult, hi_dateOfBirth = 0, hi_tendency = 0, hi_spirit = 0,
     hi_potential = \<lparr>po_type = 0, po_level = 0, po_value = 0\<rparr>, hi_luckState = 0, hi_fatigue = 0, hi_emblemUid = 0,
     hi_mountCondition = \<lparr>mc_stamina = 0, mc_charm = 0, mc_friendliness = 0, mc_injury = 0, mc_plenitude = 0,
       mc_bodyDirtiness = 0, mc_maneDirtiness = 0, mc_tailDirtiness = 0, mc_bodyPolish = 0, mc_manePolish = 0,
       mc_tailPolish = 0, mc_attachment = 0, mc_boredom = 0, mc_stopAmendsPoint = 0\<rparr>,
     hi_mountInfo = \<lparr>mi_boostsInARow = 0, mi_winsSpeedSingle = 0, mi_winsSpeedTeam = 0, mi_winsMagicSingle = 0,
       mi_winsMagicTeam = 0, mi_totalDistance = 0, mi_topSpeed = 0, mi_longestGlideDistance = 0, mi_participated = 0,
       mi_cumulativePrize = 0, mi_biggestPrize = 0\<rparr>,
     hi_father = InvalidUid, hi_mother = InvalidUid, hi_lineage = 1\<rparr>"

record housing =
  hg_uid :: uid
  hg_housingId :: u32
  hg_expiresAt :: time_point
  hg_durability :: u32

record egg_record =
  eg_uid :: uid
  eg_itemUid :: uid
  eg_itemTid :: tid
  eg_incubatedAt :: time_point
  eg_incubatorSlot :: u32
  eg_boostsUsed :: u32

record daily_quest_entry =
  dqe_questId :: u16
  dqe_progress :: u32

record daily_quest_group =
  dq_uid :: uid
  dq_rewardId :: u8
  dq_rewardType :: u8
  dq_rewardPoints :: u32
  dq_carrotsClaimed :: bool
  dq_quests :: "daily_quest_entry list"

datatype QuestStatus = InProgress | ReadyToClaim | Completed

record quest =
  qu_uid :: uid
  qu_questId :: u32
  qu_isCompleted :: QuestStatus
  qu_progress :: u32

datatype MailType = CanReply | NoReply | CarnivalReward | BreedingReward

record mail =
  ma_uid :: uid
  ma_from :: uid
  ma_to :: uid
  ma_isRead :: bool
  ma_isDeleted :: bool
  ma_type :: MailType
  ma_claimUid :: u32
  ma_createdAt :: time_point
  ma_body :: bytes

record stallion =
  st_uid :: uid
  st_horseUid :: uid
  st_ownerUid :: uid
  st_breedingCharge :: u32
  st_timesMated :: u32
  st_registeredAt :: time_point
  st_expiresAt :: time_point

datatype RewardType = Reward_Breeding | Reward_Carnival

record reward_record =
  rw_claimUid :: uid
  rw_characterUid :: uid
  rw_type :: RewardType
  rw_carrots :: u32
  rw_isClaimed :: bool
  rw_createdAt :: time_point
  rw_claimedAt :: time_point

text \<open>Users are keyed by their name.\<close>

record data_director =
  dd_users :: "(bytes, user_record) umap"
  dd_infractions :: "infraction table"
  dd_characters :: "character_info table"
  dd_horses :: "horse_info table"
  dd_items :: "item table"
  dd_storageItems :: "storage_item table"
  dd_eggs :: "egg_record table"
  dd_pets :: "pet table"
  dd_housing :: "housing table"
  dd_guilds :: "guild table"
  dd_settings :: "settings_record table"
  dd_dailyQuestGroups :: "daily_quest_group table"
  dd_quests :: "quest table"
  dd_mails :: "mail table"
  dd_stallions :: "stallion table"
  dd_rewards :: "reward_record table"

definition empty_table :: "'a table" where
  "empty_table = \<lparr>tb_rows = [], tb_sequentialUid = 0, tb_failing = False\<rparr>"

definition empty_director :: data_director where
  "empty_director = \<lparr>dd_users = [], dd_infractions = empty_table, dd_characters = empty_table, dd_horses = empty_table,
     dd_items = empty_table, dd_storageItems = empty_table, dd_eggs = empty_table, dd_pets = empty_table,
     dd_housing = empty_table, dd_guilds = empty_table, dd_settings = empty_table, dd_dailyQuestGroups = empty_table,
     dd_quests = empty_table, dd_mails = empty_table, dd_stallions = empty_table, dd_rewards = empty_table\<rparr>"

type_synonym 'a data_act = "(data_director, 'a) act"

text \<open>\<open>Immutable\<close> and \<open>Mutable\<close> of the record of a key. A record that is not available throws.\<close>

definition unavailable :: exn where
  "unavailable = RuntimeError ''Value of the record is unavailable''"

definition view_row :: "(data_director \<Rightarrow> 'a table) \<Rightarrow> uid \<Rightarrow> 'a data_act" where
  "view_row sel u d = (case get_row (sel d) u of None \<Rightarrow> (Inl unavailable, d) | Some x \<Rightarrow> (Inr x, d))"

definition change_row ::
  "(data_director \<Rightarrow> 'a table) \<Rightarrow> (('a table \<Rightarrow> 'a table) \<Rightarrow> data_director \<Rightarrow> data_director) \<Rightarrow> uid \<Rightarrow> ('a \<Rightarrow> 'a) \<Rightarrow> unit data_act" where
  "change_row sel upd u f d =
     (case get_row (sel d) u of None \<Rightarrow> (Inl unavailable, d) | Some x \<Rightarrow> (Inr (), upd (put_row u (f x)) d))"

definition fresh_row ::
  "(data_director \<Rightarrow> 'a table) \<Rightarrow> (('a table \<Rightarrow> 'a table) \<Rightarrow> data_director \<Rightarrow> data_director) \<Rightarrow> (uid \<Rightarrow> 'a) \<Rightarrow> uid data_act" where
  "fresh_row sel upd fresh d =
     (case create_row fresh (sel d) of
        (None, t) \<Rightarrow> (Inl unavailable, upd (\<lambda>_. t) d)
      | (Some u, t) \<Rightarrow> (Inr u, upd (\<lambda>_. t) d))"

section \<open>Table laws\<close>

lemma get_row_put [simp]:
  "get_row (put_row u x t) v = (if v = u \<and> u \<noteq> InvalidUid then Some x else get_row t v)"
  by (simp add: get_row_def put_row_def)

lemma get_row_delete [simp]: "get_row (delete_row u t) v = (if v = u then None else get_row t v)"
  by (simp add: get_row_def delete_row_def)

lemma get_rows_in: "get_rows t us = Some xs \<Longrightarrow> u \<in> set us \<Longrightarrow> \<exists>x \<in> set xs. map_of (tb_rows t) u = Some x"
  by (force simp: get_rows_def list_all_iff split: if_splits)

end
