(* ===== verification/Item_System.thy ===== *)
theory Item_System imports Data_Records begin

text \<open>
  \<open>server/system/ItemSystem.cpp\<close>: the items of a character, in its inventory and its equipment.

  \<^item> The operations act on the character and the table of items. They are \<open>noexcept\<close>: an exception, which only a
    failing data source causes, ends the program.
  \<^item> The abstract specification of the items of a character are two maps from kinds to counts; the
    operations refine it.
\<close>

section \<open>Operations\<close>

record item_state =
  is_character :: character_info
  is_items :: "item table"

type_synonym 'a item_act = "(item_state, 'a) act"

definition search_items :: "item table \<Rightarrow> tid \<Rightarrow> uid list \<Rightarrow> uid" where
  "search_items t itemTid itemUids = (case get_rows t itemUids of
     None \<Rightarrow> InvalidUid
   | Some xs \<Rightarrow> (case find (\<lambda>x. it_tid x = itemTid \<and> it_uid x \<noteq> InvalidUid) xs of
       None \<Rightarrow> InvalidUid | Some x \<Rightarrow> it_uid x))"

definition GetItem :: "item_state \<Rightarrow> tid \<Rightarrow> uid" where
  "GetItem s itemTid =
     (let foundUid = search_items (is_items s) itemTid (ci_inventory (is_character s)) in
      if foundUid \<noteq> InvalidUid then foundUid
      else search_items (is_items s) itemTid (ci_characterEquipment (is_character s)))"

definition create_item :: "(uid \<Rightarrow> item) \<Rightarrow> uid item_act" where
  "create_item fresh s = (case create_row fresh (is_items s) of
     (None, t) \<Rightarrow> (Inl (RuntimeError ''Value of the record is unavailable''), s\<lparr>is_items := t\<rparr>)
   | (Some u, t) \<Rightarrow> (Inr u, s\<lparr>is_items := t, is_character := (is_character s)\<lparr>ci_inventory :=
       ci_inventory (is_character s) @ [u]\<rparr>\<rparr>))"

definition update_item :: "uid \<Rightarrow> (item \<Rightarrow> item) \<Rightarrow> uid item_act" where
  "update_item u f s = (case map_of (tb_rows (is_items s)) u of
     None \<Rightarrow> (Inr InvalidUid, s)
   | Some x \<Rightarrow> (Inr u, s\<lparr>is_items := put_row u (f x) (is_items s)\<rparr>))"

definition AddItem :: "time_point \<Rightarrow> tid \<Rightarrow> u32 \<Rightarrow> uid item_act" where
  "AddItem now itemTid amount s =
     (let itemUid = GetItem s itemTid in
      if itemUid = InvalidUid
      then create_item (\<lambda>u. \<lparr>it_uid = u, it_tid = itemTid, it_count = amount, it_duration = 0, it_createdAt = now\<rparr>) s
      else update_item itemUid (\<lambda>x. x\<lparr>it_count := it_count x + amount\<rparr>) s)"

definition extend_item :: "time_point \<Rightarrow> int \<Rightarrow> item \<Rightarrow> item" where
  "extend_item now duration x =
     (if it_createdAt x + seconds (it_duration x) \<le> now
      then x\<lparr>it_createdAt := now, it_duration := duration\<rparr>
      else x\<lparr>it_duration := it_duration x + duration\<rparr>)"

definition AddTemporaryItem :: "time_point \<Rightarrow> tid \<Rightarrow> int \<Rightarrow> uid item_act" where
  "AddTemporaryItem now itemTid duration s =
     (let itemUid = GetItem s itemTid in
      if itemUid = InvalidUid
      then create_item (\<lambda>u. \<lparr>it_uid = u, it_tid = itemTid, it_count = 1, it_duration = duration, it_createdAt = now\<rparr>) s
      else update_item itemUid (extend_item now duration) s)"

definition drop_item :: "uid \<Rightarrow> item_state \<Rightarrow> item_state" where
  "drop_item u s = s\<lparr>is_items := delete_row u (is_items s), is_character := (is_character s)\<lparr>ci_inventory :=
     filter (\<lambda>v. v \<noteq> u) (ci_inventory (is_character s))\<rparr>\<rparr>"

definition RemoveItem :: "tid \<Rightarrow> unit item_act" where
  "RemoveItem itemTid s =
     (let itemUid = search_items (is_items s) itemTid (ci_inventory (is_character s)) in
      (Inr (), if itemUid = InvalidUid then s else drop_item itemUid s))"

record consume_verdict =
  cv_itemUid :: uid
  cv_itemConsumed :: bool
  cv_remainingItemCount :: u32

definition no_verdict :: consume_verdict where
  "no_verdict = \<lparr>cv_itemUid = InvalidUid, cv_itemConsumed = False, cv_remainingItemCount = 0\<rparr>"

text \<open>An item of which there is not enough counts as having nothing left, and goes.\<close>

definition ConsumeItem :: "tid \<Rightarrow> u32 \<Rightarrow> consume_verdict item_act" where
  "ConsumeItem itemTid amount s =
     (let itemUid = search_items (is_items s) itemTid (ci_inventory (is_character s)) in
      case map_of (tb_rows (is_items s)) itemUid of
        None \<Rightarrow> (Inr no_verdict, s)
      | Some x \<Rightarrow>
          if itemUid = InvalidUid then (Inr no_verdict, s)
          else
            let enough = (it_count x \<ge> amount);
                remaining = (if enough then it_count x - amount else 0) in
            if remaining = 0
            then (Inr \<lparr>cv_itemUid = InvalidUid, cv_itemConsumed = enough, cv_remainingItemCount = 0\<rparr>, drop_item itemUid s)
            else (Inr \<lparr>cv_itemUid = itemUid, cv_itemConsumed = enough, cv_remainingItemCount = remaining\<rparr>,
                  s\<lparr>is_items := put_row itemUid (x\<lparr>it_count := remaining\<rparr>) (is_items s)\<rparr>))"

definition has_tid :: "item table \<Rightarrow> tid \<Rightarrow> uid list \<Rightarrow> bool" where
  "has_tid t itemTid itemUids = (case get_rows t itemUids of
     None \<Rightarrow> False | Some xs \<Rightarrow> list_ex (\<lambda>x. it_tid x = itemTid) xs)"

definition HasItem :: "item_state \<Rightarrow> tid \<Rightarrow> bool" where
  "HasItem s itemTid \<longleftrightarrow> has_tid (is_items s) itemTid (ci_inventory (is_character s))
     \<or> has_tid (is_items s) itemTid (ci_characterEquipment (is_character s))"

definition HasItemInstance :: "character_info \<Rightarrow> uid \<Rightarrow> bool" where
  "HasItemInstance c itemUid \<longleftrightarrow> itemUid \<in> set (ci_inventory c) \<or> itemUid \<in> set (ci_characterEquipment c)"

section \<open>The specification\<close>

type_synonym stock = "tid \<rightharpoonup> u32"

datatype item_op = Op_Add tid u32 | Op_AddTemporary tid int | Op_Remove tid | Op_Consume tid u32

text \<open>What the inventory and the equipment hold of every kind, before and after an operation.\<close>

fun stock_step :: "item_op \<Rightarrow> stock \<times> stock \<Rightarrow> stock \<times> stock" where
  "stock_step (Op_Add k n) (held, worn) =
     (case held k of Some m \<Rightarrow> (held(k \<mapsto> m + n), worn)
      | None \<Rightarrow> (case worn k of Some m \<Rightarrow> (held, worn(k \<mapsto> m + n)) | None \<Rightarrow> (held(k \<mapsto> n), worn)))"
| "stock_step (Op_AddTemporary k d) (held, worn) =
     (if held k = None \<and> worn k = None then (held(k \<mapsto> 1), worn) else (held, worn))"
| "stock_step (Op_Remove k) (held, worn) = (held(k := None), worn)"
| "stock_step (Op_Consume k n) (held, worn) =
     (case held k of Some m \<Rightarrow> (held(k := if m > n then Some (m - n) else None), worn) | None \<Rightarrow> (held, worn))"

fun item_step :: "time_point \<Rightarrow> item_op \<Rightarrow> item_state \<Rightarrow> item_state" where
  "item_step now (Op_Add k n) s = snd (AddItem now k n s)"
| "item_step now (Op_AddTemporary k d) s = snd (AddTemporaryItem now k d s)"
| "item_step now (Op_Remove k) s = snd (RemoveItem k s)"
| "item_step now (Op_Consume k n) s = snd (ConsumeItem k n s)"

definition stock_of :: "item table \<Rightarrow> uid list \<Rightarrow> stock" where
  "stock_of t us k = map_option it_count (find (\<lambda>x. it_tid x = k) (map (\<lambda>u. the (map_of (tb_rows t) u)) us))"

definition stocks :: "item_state \<Rightarrow> stock \<times> stock" where
  "stocks s = (stock_of (is_items s) (ci_inventory (is_character s)),
               stock_of (is_items s) (ci_characterEquipment (is_character s)))"

text \<open>All items are available, and no two are of one kind.\<close>

definition stocked :: "item table \<Rightarrow> uid list \<Rightarrow> bool" where
  "stocked t us \<longleftrightarrow> (\<forall>u \<in> set us. u \<noteq> InvalidUid \<and> (\<exists>x. map_of (tb_rows t) u = Some x \<and> it_uid x = u))
     \<and> (\<forall>u \<in> set us. \<forall>v \<in> set us. it_tid (the (map_of (tb_rows t) u)) = it_tid (the (map_of (tb_rows t) v)) \<longrightarrow> u = v)"

definition items_ok :: "item_state \<Rightarrow> bool" where
  "items_ok s \<longleftrightarrow> stocked (is_items s) (ci_inventory (is_character s) @ ci_characterEquipment (is_character s))
     \<and> set (ci_inventory (is_character s)) \<inter> set (ci_characterEquipment (is_character s)) = {}
     \<and> (\<forall>u. has_key (tb_rows (is_items s)) u \<longrightarrow> u \<le> tb_sequentialUid (is_items s))
     \<and> \<not> tb_failing (is_items s)"

section \<open>Stocks\<close>

lemma option_eqI: "(\<And>n. a = Some n \<longleftrightarrow> b = Some n) \<Longrightarrow> a = b"
  by (metis not_Some_eq)

lemma stocked_appendD: "stocked t (us @ vs) \<Longrightarrow> stocked t us" "stocked t (us @ vs) \<Longrightarrow> stocked t vs"
  by (simp_all add: stocked_def)

lemma find_map_Some:
  assumes "find P (map f us) = Some x"
  obtains u where "u \<in> set us" "x = f u" "P x"
  using assms unfolding find_Some_iff by (metis length_map nth_map nth_mem)

abbreviation row_of :: "item table \<Rightarrow> uid \<Rightarrow> item" where
  "row_of t u \<equiv> the (map_of (tb_rows t) u)"

lemma stocked_row: "stocked t us \<Longrightarrow> u \<in> set us \<Longrightarrow> map_of (tb_rows t) u = Some (row_of t u) \<and> it_uid (row_of t u) = u \<and> u \<noteq> InvalidUid"
  by (force simp: stocked_def)

lemma stocked_inj: "stocked t us \<Longrightarrow> u \<in> set us \<Longrightarrow> v \<in> set us \<Longrightarrow> it_tid (row_of t u) = it_tid (row_of t v) \<Longrightarrow> u = v"
  by (simp add: stocked_def)

lemma stock_Some:
  assumes "stocked t us"
  shows "stock_of t us k = Some n \<longleftrightarrow> (\<exists>u \<in> set us. it_tid (row_of t u) = k \<and> it_count (row_of t u) = n)"
proof
  assume "stock_of t us k = Some n"
  then obtain x where "find (\<lambda>x. it_tid x = k) (map (row_of t) us) = Some x" "it_count x = n"
    by (auto simp: stock_of_def)
  then show "\<exists>u \<in> set us. it_tid (row_of t u) = k \<and> it_count (row_of t u) = n"
    by (blast elim: find_map_Some)
next
  assume "\<exists>u \<in> set us. it_tid (row_of t u) = k \<and> it_count (row_of t u) = n"
  then obtain u where u: "u \<in> set us" "it_tid (row_of t u) = k" "it_count (row_of t u) = n" by blast
  then have "find (\<lambda>x. it_tid x = k) (map (row_of t) us) \<noteq> None" by (auto simp: find_None_iff)
  then obtain y where y: "find (\<lambda>x. it_tid x = k) (map (row_of t) us) = Some y" by blast
  then obtain v where "v \<in> set us" "y = row_of t v" "it_tid y = k" by (rule find_map_Some)
  with stocked_inj [OF assms, of v u] u y show "stock_of t us k = Some n" by (simp add: stock_of_def)
qed

lemma stock_None: "stock_of t us k = None \<longleftrightarrow> (\<forall>u \<in> set us. it_tid (row_of t u) \<noteq> k)"
  by (auto simp: stock_of_def find_None_iff)

lemma search_found:
  assumes "stocked t us" "search_items t k us = u" "u \<noteq> InvalidUid"
  shows "u \<in> set us" "it_tid (row_of t u) = k" "stock_of t us k = Some (it_count (row_of t u))"
proof -
  have rows: "get_rows t us = Some (map (row_of t) us)"
    using stocked_row [OF assms(1)] by (force simp: get_rows_def list_all_iff)
  from assms(2,3) obtain x where "find (\<lambda>x. it_tid x = k \<and> it_uid x \<noteq> InvalidUid) (map (row_of t) us) = Some x" "it_uid x = u"
    by (auto simp: search_items_def rows split: option.splits)
  then obtain v where v: "v \<in> set us" "x = row_of t v" "it_tid x = k" "it_uid x = u" by (blast elim: find_map_Some)
  with stocked_row [OF assms(1)] have "v = u" by metis
  with v show "u \<in> set us" "it_tid (row_of t u) = k" by simp_all
  then show "stock_of t us k = Some (it_count (row_of t u))" using stock_Some [OF assms(1)] by blast
qed

lemma search_none:
  assumes "stocked t us" "search_items t k us = InvalidUid"
  shows "stock_of t us k = None"
proof -
  have rows: "get_rows t us = Some (map (row_of t) us)"
    using stocked_row [OF assms(1)] by (force simp: get_rows_def list_all_iff)
  have "find (\<lambda>x. it_tid x = k \<and> it_uid x \<noteq> InvalidUid) (map (row_of t) us) = None"
  proof (rule ccontr)
    assume "\<not> ?thesis"
    then obtain x where "find (\<lambda>x. it_tid x = k \<and> it_uid x \<noteq> InvalidUid) (map (row_of t) us) = Some x" by blast
    with assms(2) show False by (auto simp: search_items_def rows elim!: find_map_Some)
  qed
  with stocked_row [OF assms(1)] show ?thesis by (auto simp: find_None_iff stock_None)
qed

section \<open>How the stocks change\<close>

lemma row_of_put [simp]: "row_of (put_row u x t) v = (if v = u then x else row_of t v)"
  by (simp add: put_row_def)

lemma has_put [simp]: "map_of (tb_rows (put_row u x t)) v = (if v = u then Some x else map_of (tb_rows t) v)"
  by (simp add: put_row_def)

lemma has_delete [simp]: "map_of (tb_rows (delete_row u t)) v = (if v = u then None else map_of (tb_rows t) v)"
  by (simp add: delete_row_def)

lemma stocked_put:
  assumes "stocked t us" "it_uid x = it_uid (row_of t u)" "it_tid x = it_tid (row_of t u)"
  shows "stocked (put_row u x t) us"
  using assms unfolding stocked_def by (metis (no_types, lifting) has_put option.sel)

lemma stock_cong:
  assumes "\<And>u. u \<in> set us \<Longrightarrow> map_of (tb_rows t') u = map_of (tb_rows t) u"
  shows "stock_of t' us = stock_of t us"
proof -
  have "map (row_of t') us = map (row_of t) us" using assms by simp
  then show ?thesis unfolding stock_of_def by metis
qed

lemma stock_put_other: "u \<notin> set us \<Longrightarrow> stock_of (put_row u x t) us = stock_of t us"
  by (rule stock_cong) auto

lemma stock_put:
  assumes "stocked t us" "it_uid x = it_uid (row_of t u)" "it_tid x = it_tid (row_of t u)" "u \<in> set us"
  shows "stock_of (put_row u x t) us = (stock_of t us)(it_tid x \<mapsto> it_count x)"
proof (intro ext option_eqI)
  fix k n
  note st = stock_Some [OF assms(1)] stock_Some [OF stocked_put [OF assms(1-3)]]
  show "stock_of (put_row u x t) us k = Some n \<longleftrightarrow> ((stock_of t us)(it_tid x \<mapsto> it_count x)) k = Some n"
  proof (cases "k = it_tid x")
    case True
    have "stock_of (put_row u x t) us (it_tid x) = Some (it_count x)" using assms(4) by (auto simp: st)
    with True show ?thesis by simp
  next
    case False
    with assms(3) show ?thesis by (auto simp: st intro!: bex_cong)
  qed
qed

lemma stocked_subset: "stocked t vs \<Longrightarrow> set us \<subseteq> set vs \<Longrightarrow> stocked t us"
  unfolding stocked_def by (meson subsetD)

lemma stocked_cong:
  "stocked t us \<Longrightarrow> (\<And>u. u \<in> set us \<Longrightarrow> map_of (tb_rows t') u = map_of (tb_rows t) u) \<Longrightarrow> stocked t' us"
  by (simp add: stocked_def)

lemma stock_delete:
  assumes "stocked t us" "u \<in> set us"
  shows "stock_of (delete_row u t) (filter (\<lambda>v. v \<noteq> u) us) = (stock_of t us)(it_tid (row_of t u) := None)"
proof (intro ext option_eqI)
  fix k n
  have "stocked t (filter (\<lambda>v. v \<noteq> u) us)" using assms(1) by (rule stocked_subset) auto
  then have "stocked (delete_row u t) (filter (\<lambda>v. v \<noteq> u) us)" by (rule stocked_cong) simp
  note st = stock_Some [OF assms(1)] stock_Some [OF this]
  have "it_tid (row_of t v) \<noteq> it_tid (row_of t u)" if "v \<in> set us" "v \<noteq> u" for v
    using stocked_inj [OF assms(1)] that assms(2) by blast
  then show "stock_of (delete_row u t) (filter (\<lambda>v. v \<noteq> u) us) k = Some n
      \<longleftrightarrow> ((stock_of t us)(it_tid (row_of t u) := None)) k = Some n"
    by (auto simp: st)
qed

text \<open>A created item.\<close>

lemma stock_create:
  assumes "stocked t us" "u \<notin> set us" "it_uid x = u" "u \<noteq> InvalidUid" "stock_of t us (it_tid x) = None"
    and rows: "\<And>v. map_of (tb_rows t') v = (if v = u then Some x else map_of (tb_rows t) v)"
  shows "stocked t' (us @ [u])" "stock_of t' (us @ [u]) = (stock_of t us)(it_tid x \<mapsto> it_count x)"
proof -
  have fresh: "it_tid (row_of t v) \<noteq> it_tid x" if "v \<in> set us" for v using assms(5) that by (simp add: stock_None)
  with assms(1-4) show ok: "stocked t' (us @ [u])"
    unfolding stocked_def rows by (auto dest: fresh)
  have eq: "row_of t' u = x" "\<And>v. v \<in> set us \<Longrightarrow> row_of t' v = row_of t v" using assms(2) by (auto simp: rows)
  show "stock_of t' (us @ [u]) = (stock_of t us)(it_tid x \<mapsto> it_count x)"
  proof (intro ext option_eqI)
    fix k n
    show "stock_of t' (us @ [u]) k = Some n \<longleftrightarrow> ((stock_of t us)(it_tid x \<mapsto> it_count x)) k = Some n"
      using fresh by (auto simp: stock_Some [OF ok] stock_Some [OF assms(1)] eq)
  qed
qed

section \<open>The operations refine the specification\<close>

abbreviation held_of :: "item_state \<Rightarrow> uid list" where "held_of s \<equiv> ci_inventory (is_character s)"
abbreviation worn_of :: "item_state \<Rightarrow> uid list" where "worn_of s \<equiv> ci_characterEquipment (is_character s)"

lemma items_ok_parts:
  assumes "items_ok s"
  shows "stocked (is_items s) (held_of s)" "stocked (is_items s) (worn_of s)"
  using assms by (auto simp: items_ok_def intro: stocked_appendD)

lemma GetItem_cases:
  assumes "items_ok s"
  obtains (none) "GetItem s k = InvalidUid" "fst (stocks s) k = None" "snd (stocks s) k = None"
  | (held) "GetItem s k \<noteq> InvalidUid" "GetItem s k \<in> set (held_of s)" "it_tid (row_of (is_items s) (GetItem s k)) = k"
      "fst (stocks s) k = Some (it_count (row_of (is_items s) (GetItem s k)))"
  | (worn) "GetItem s k \<noteq> InvalidUid" "GetItem s k \<in> set (worn_of s)" "it_tid (row_of (is_items s) (GetItem s k)) = k"
      "fst (stocks s) k = None" "snd (stocks s) k = Some (it_count (row_of (is_items s) (GetItem s k)))"
proof -
  note p = items_ok_parts [OF assms]
  let ?h = "search_items (is_items s) k (held_of s)" and ?w = "search_items (is_items s) k (worn_of s)"
  consider "?h \<noteq> InvalidUid" | "?h = InvalidUid" "?w \<noteq> InvalidUid" | "?h = InvalidUid" "?w = InvalidUid" by blast
  then show thesis
  proof cases
    case 1
    with search_found [OF p(1) refl 1] show thesis by (intro held) (simp_all add: GetItem_def stocks_def)
  next
    case 2
    with search_none [OF p(1)] search_found [OF p(2) refl 2(2)] show thesis
      by (intro worn) (simp_all add: GetItem_def stocks_def)
  next
    case 3
    with search_none [OF p(1)] search_none [OF p(2)] show thesis
      by (intro none) (simp_all add: GetItem_def stocks_def)
  qed
qed

text \<open>An update of an item that keeps its number and its kind.\<close>

lemma put_item:
  assumes "items_ok s" "u \<in> set (held_of s) \<union> set (worn_of s)"
    and "it_uid x = it_uid (row_of (is_items s) u)" "it_tid x = it_tid (row_of (is_items s) u)"
  defines "s' \<equiv> s\<lparr>is_items := put_row u x (is_items s)\<rparr>"
  shows "items_ok s'"
    "stocks s' = (if u \<in> set (held_of s) then ((fst (stocks s))(it_tid x \<mapsto> it_count x), snd (stocks s))
       else (fst (stocks s), (snd (stocks s))(it_tid x \<mapsto> it_count x)))"
    "tb_sequentialUid (is_items s') = tb_sequentialUid (is_items s)"
proof -
  note p = items_ok_parts [OF assms(1)]
  have ok: "stocked (is_items s) (held_of s @ worn_of s)" "set (held_of s) \<inter> set (worn_of s) = {}"
    "\<forall>v. has_key (tb_rows (is_items s)) v \<longrightarrow> v \<le> tb_sequentialUid (is_items s)" "\<not> tb_failing (is_items s)"
    using assms(1) by (auto simp: items_ok_def)
  have "has_key (tb_rows (is_items s)) u" using stocked_row [OF ok(1)] assms(2) by force
  then show "items_ok s'" using ok stocked_put [OF ok(1) assms(3,4)]
    by (simp add: items_ok_def s'_def) (simp add: put_row_def)
  show "stocks s' = (if u \<in> set (held_of s) then ((fst (stocks s))(it_tid x \<mapsto> it_count x), snd (stocks s))
       else (fst (stocks s), (snd (stocks s))(it_tid x \<mapsto> it_count x)))"
  proof (cases "u \<in> set (held_of s)")
    case True
    then have "u \<notin> set (worn_of s)" using ok(2) by blast
    with True stock_put [OF p(1) assms(3,4)] show ?thesis by (simp add: stocks_def s'_def stock_put_other)
  next
    case False
    with stock_put [OF p(2) assms(3,4)] assms(2) show ?thesis by (simp add: stocks_def s'_def stock_put_other)
  qed
  show "tb_sequentialUid (is_items s') = tb_sequentialUid (is_items s)" by (simp add: s'_def put_row_def)
qed

lemma update_item:
  assumes "items_ok s" "u \<in> set (held_of s) \<union> set (worn_of s)"
  shows "snd (update_item u f s) = s\<lparr>is_items := put_row u (f (row_of (is_items s) u)) (is_items s)\<rparr>"
  using stocked_row [of "is_items s" "held_of s @ worn_of s" u] assms
  by (auto simp: update_item_def items_ok_def split: option.splits)

text \<open>A new item of a kind the character has none of.\<close>

lemma create_item:
  assumes "items_ok s" "fst (stocks s) k = None" "snd (stocks s) k = None" "unat (tb_sequentialUid (is_items s)) + 1 < 2 ^ 32"
    and x: "\<And>u. it_uid (fresh u) = u" "\<And>u. it_tid (fresh u) = k" "\<And>u. it_count (fresh u) = n"
  defines "s' \<equiv> snd (create_item fresh s)"
  shows "items_ok s' \<and> stocks s' = ((fst (stocks s))(k \<mapsto> n), snd (stocks s))
    \<and> unat (tb_sequentialUid (is_items s')) = unat (tb_sequentialUid (is_items s)) + 1"
proof -
  let ?t = "is_items s" let ?u = "tb_sequentialUid (is_items s) + 1"
  note p = items_ok_parts [OF assms(1)]
  have ok: "stocked ?t (held_of s @ worn_of s)" "set (held_of s) \<inter> set (worn_of s) = {}"
    "\<And>v. has_key (tb_rows ?t) v \<Longrightarrow> v \<le> tb_sequentialUid ?t" "\<not> tb_failing ?t"
    using assms(1) by (auto simp: items_ok_def)
  have u: "unat ?u = unat (tb_sequentialUid ?t) + 1" using assms(4) by (simp add: unat_word_ariths)
  then have gt: "tb_sequentialUid ?t < ?u" by (simp add: word_less_nat_alt)
  then have new: "\<not> has_key (tb_rows ?t) ?u" "?u \<noteq> InvalidUid"
    using ok(3) [of ?u] by (meson leD) (metis gt word_not_simps(1))
  have mem: "?u \<notin> set (held_of s @ worn_of s)" using stocked_row [OF ok(1)] new(1) by (metis option.distinct(1))
  obtain t' where t': "s' = s\<lparr>is_items := t', is_character := (is_character s)\<lparr>ci_inventory := held_of s @ [?u]\<rparr>\<rparr>"
    "\<And>v. map_of (tb_rows t') v = (if v = ?u then Some (fresh ?u) else map_of (tb_rows ?t) v)"
    "tb_sequentialUid t' = ?u" "\<not> tb_failing t'"
    using ok(4) by (simp add: s'_def create_item_def create_row_def Let_def)
  have "stocked t' (held_of s @ worn_of s @ [?u])"
    using stock_create(1) [OF ok(1), of ?u "fresh ?u" t'] mem new(2) x(1,2) t'(2) assms(2,3)
    by (auto simp: stocks_def stock_None)
  then have 1: "stocked t' ((held_of s @ [?u]) @ worn_of s)" by (rule stocked_subset) auto
  have 2: "stock_of t' (held_of s @ [?u]) = (stock_of ?t (held_of s))(k \<mapsto> n)"
    using stock_create(2) [OF p(1), of ?u "fresh ?u" t'] mem new(2) x t'(2) assms(2) by (simp add: stocks_def)
  have 3: "stock_of t' (worn_of s) = stock_of ?t (worn_of s)" using mem by (intro stock_cong) (auto simp: t'(2))
  have "v \<le> ?u" if "has_key (tb_rows t') v" for v using that ok(3) [of v] gt by (auto simp: t'(2) split: if_splits)
  then show ?thesis using 1 2 3 mem ok(2) t' u by (auto simp: items_ok_def stocks_def)
qed

text \<open>An item of the inventory is dropped.\<close>

lemma drop_item:
  assumes "items_ok s" "u \<in> set (held_of s)"
  defines "s' \<equiv> drop_item u s"
  shows "items_ok s'" "stocks s' = ((fst (stocks s))(it_tid (row_of (is_items s) u) := None), snd (stocks s))"
    "tb_sequentialUid (is_items s') = tb_sequentialUid (is_items s)"
proof -
  note p = items_ok_parts [OF assms(1)]
  have ok: "stocked (is_items s) (held_of s @ worn_of s)" "set (held_of s) \<inter> set (worn_of s) = {}"
    using assms(1) by (auto simp: items_ok_def)
  then have "stocked (is_items s) (filter (\<lambda>v. v \<noteq> u) (held_of s) @ worn_of s)" by (auto intro: stocked_subset)
  then have "stocked (delete_row u (is_items s)) (filter (\<lambda>v. v \<noteq> u) (held_of s) @ worn_of s)"
    by (rule stocked_cong) (use assms(2) ok(2) in auto)
  with assms(1) show "items_ok s'" by (auto simp: items_ok_def s'_def drop_item_def) (simp_all add: delete_row_def split: if_splits)
  have "stock_of (delete_row u (is_items s)) (worn_of s) = stock_of (is_items s) (worn_of s)"
    using assms(2) ok(2) by (intro stock_cong) auto
  with stock_delete [OF p(1) assms(2)]
  show "stocks s' = ((fst (stocks s))(it_tid (row_of (is_items s) u) := None), snd (stocks s))"
    by (simp add: stocks_def s'_def drop_item_def)
  show "tb_sequentialUid (is_items s') = tb_sequentialUid (is_items s)" by (simp add: s'_def drop_item_def delete_row_def)
qed

text \<open>Every operation does to the stocks what the specification says.\<close>

lemma add_refines:
  assumes "items_ok s" "unat (tb_sequentialUid (is_items s)) + 1 < 2 ^ 32"
  shows "items_ok (item_step now (Op_Add k n) s)
    \<and> stocks (item_step now (Op_Add k n) s) = stock_step (Op_Add k n) (stocks s)
    \<and> unat (tb_sequentialUid (is_items (item_step now (Op_Add k n) s))) \<le> unat (tb_sequentialUid (is_items s)) + 1"
proof -
  obtain a b where st: "stocks s = (a, b)" by fastforce
  let ?f = "\<lambda>x. x\<lparr>it_count := it_count x + n\<rparr>"
  show ?thesis using assms(1)
  proof (cases rule: GetItem_cases [where k = k])
    case none
    with create_item [OF assms(1) none(2,3) assms(2)] st show ?thesis by (simp add: AddItem_def)
  next
    case held
    note put = put_item [OF assms(1), of "GetItem s k" "?f (row_of (is_items s) (GetItem s k))"]
    from held st put update_item [OF assms(1), of "GetItem s k" ?f] show ?thesis by (simp add: AddItem_def)
  next
    case worn
    then have out: "GetItem s k \<notin> set (held_of s)" using assms(1) by (auto simp: items_ok_def)
    note put = put_item [OF assms(1), of "GetItem s k" "?f (row_of (is_items s) (GetItem s k))"]
    from worn st put out update_item [OF assms(1), of "GetItem s k" ?f] show ?thesis by (simp add: AddItem_def)
  qed
qed

lemma add_temporary_refines:
  assumes "items_ok s" "unat (tb_sequentialUid (is_items s)) + 1 < 2 ^ 32"
  shows "items_ok (item_step now (Op_AddTemporary k d) s)
    \<and> stocks (item_step now (Op_AddTemporary k d) s) = stock_step (Op_AddTemporary k d) (stocks s)
    \<and> unat (tb_sequentialUid (is_items (item_step now (Op_AddTemporary k d) s))) \<le> unat (tb_sequentialUid (is_items s)) + 1"
proof -
  obtain a b where st: "stocks s = (a, b)" by fastforce
  let ?f = "extend_item now d"
  have f: "it_uid (?f x) = it_uid x" "it_tid (?f x) = it_tid x" "it_count (?f x) = it_count x" for x
    by (simp_all add: extend_item_def)
  show ?thesis using assms(1)
  proof (cases rule: GetItem_cases [where k = k])
    case none
    with create_item [OF assms(1) none(2,3) assms(2)] st show ?thesis by (simp add: AddTemporaryItem_def)
  next
    case held
    note put = put_item [OF assms(1), of "GetItem s k" "?f (row_of (is_items s) (GetItem s k))"]
    from held st put update_item [OF assms(1), of "GetItem s k" ?f] show ?thesis
      by (simp add: AddTemporaryItem_def f fun_upd_idem)
  next
    case worn
    then have out: "GetItem s k \<notin> set (held_of s)" using assms(1) by (auto simp: items_ok_def)
    note put = put_item [OF assms(1), of "GetItem s k" "?f (row_of (is_items s) (GetItem s k))"]
    from worn st put out update_item [OF assms(1), of "GetItem s k" ?f] show ?thesis
      by (simp add: AddTemporaryItem_def f fun_upd_idem)
  qed
qed

lemma remove_refines:
  assumes "items_ok s"
  shows "items_ok (item_step now (Op_Remove k) s)
    \<and> stocks (item_step now (Op_Remove k) s) = stock_step (Op_Remove k) (stocks s)
    \<and> unat (tb_sequentialUid (is_items (item_step now (Op_Remove k) s))) \<le> unat (tb_sequentialUid (is_items s)) + 1"
proof -
  obtain a b where st: "stocks s = (a, b)" by fastforce
  note p = items_ok_parts [OF assms]
  let ?u = "search_items (is_items s) k (held_of s)"
  show ?thesis
  proof (cases "?u = InvalidUid")
    case True
    with search_none [OF p(1)] st assms show ?thesis by (simp add: RemoveItem_def stocks_def fun_upd_idem)
  next
    case False
    with search_found [OF p(1) refl False] drop_item [OF assms] st show ?thesis by (simp add: RemoveItem_def Let_def)
  qed
qed

lemma consume_refines:
  assumes "items_ok s"
  shows "items_ok (item_step now (Op_Consume k n) s)
    \<and> stocks (item_step now (Op_Consume k n) s) = stock_step (Op_Consume k n) (stocks s)
    \<and> unat (tb_sequentialUid (is_items (item_step now (Op_Consume k n) s))) \<le> unat (tb_sequentialUid (is_items s)) + 1"
proof -
  obtain a b where st: "stocks s = (a, b)" by fastforce
  note p = items_ok_parts [OF assms]
  let ?u = "search_items (is_items s) k (held_of s)" let ?x = "row_of (is_items s) ?u"
  show ?thesis
  proof (cases "?u = InvalidUid")
    case True
    with search_none [OF p(1)] st assms show ?thesis
      by (auto simp: ConsumeItem_def stocks_def split: option.splits)
  next
    case False
    note fd = search_found [OF p(1) refl False]
    obtain x where x: "map_of (tb_rows (is_items s)) ?u = Some x" using stocked_row [OF p(1) fd(1)] by blast
    have a: "it_tid x = k" "a k = Some (it_count x)" using fd(2,3) st x by (simp_all add: stocks_def)
    show ?thesis
    proof (cases "it_count x > n")
      case True
      then have "it_count x \<ge> n" "it_count x - n \<noteq> 0" by (auto simp: order_less_le)
      then have "snd (ConsumeItem k n s) = s\<lparr>is_items := put_row ?u (x\<lparr>it_count := it_count x - n\<rparr>) (is_items s)\<rparr>"
        using False x by (simp add: ConsumeItem_def Let_def)
      with put_item [OF assms, of ?u "x\<lparr>it_count := it_count x - n\<rparr>"] True fd(1) st a x show ?thesis by simp
    next
      case gone: False
      then have "\<not> (it_count x \<ge> n \<and> it_count x - n \<noteq> 0)" by (auto simp: order_less_le)
      then have "snd (ConsumeItem k n s) = drop_item ?u s" using False x by (simp add: ConsumeItem_def Let_def)
      with drop_item [OF assms fd(1)] gone st a x show ?thesis by simp
    qed
  qed
qed

lemma item_step_refines:
  assumes "items_ok s" "unat (tb_sequentialUid (is_items s)) + 1 < 2 ^ 32"
  shows "items_ok (item_step now op s) \<and> stocks (item_step now op s) = stock_step op (stocks s)
    \<and> unat (tb_sequentialUid (is_items (item_step now op s))) \<le> unat (tb_sequentialUid (is_items s)) + 1"
  using add_refines [OF assms] add_temporary_refines [OF assms] remove_refines [OF assms(1)] consume_refines [OF assms(1)]
  by (cases op) blast+

definition item_run :: "(time_point \<times> item_op) list \<Rightarrow> item_state \<Rightarrow> item_state" where
  "item_run ops s = fold (\<lambda>(now, op). item_step now op) ops s"

text \<open>C36: Whatever sequence of additions, temporary additions, removals and consumptions the systems of the server perform on a
  character whose items are all available and of distinct kinds, the records of its inventory and equipment hold of every kind
  what two maps from kinds to counts hold after the same operations, as long as the numbers of the items do not run out.\<close>

theorem items_refine:
  assumes "items_ok s" "unat (tb_sequentialUid (is_items s)) + length ops < 2 ^ 32"
  shows "stocks (item_run ops s) = fold stock_step (map snd ops) (stocks s)"
  using assms
proof (induction ops arbitrary: s)
  case Nil
  then show ?case by (simp add: item_run_def)
next
  case (Cons e ops)
  obtain now op where e: "e = (now, op)" by fastforce
  from Cons.prems have "unat (tb_sequentialUid (is_items s)) + 1 < 2 ^ 32" by simp
  note st = item_step_refines [OF Cons.prems(1) this, of now op]
  with Cons.prems Cons.IH [of "item_step now op s"] show ?case by (simp add: item_run_def e)
qed

definition fresh_items :: item_state where
  "fresh_items = \<lparr>is_character = default_character\<lparr>ci_inventory := [4], ci_characterEquipment := [7]\<rparr>,
     is_items = \<lparr>tb_rows =
       [(4, \<lparr>it_uid = 4, it_tid = 41001, it_count = 10, it_duration = 0, it_createdAt = 0\<rparr>),
        (7, \<lparr>it_uid = 7, it_tid = 20008, it_count = 1, it_duration = 0, it_createdAt = 0\<rparr>)],
       tb_sequentialUid = 7, tb_failing = False\<rparr>\<rparr>"

lemma items_refine_witness:
  "stocks (item_run [(5, Op_Add 41001 5), (6, Op_Consume 41001 12), (7, Op_Add 45001 1), (8, Op_Remove 45001)] fresh_items)
     = ([41001 \<mapsto> 3], [20008 \<mapsto> 1])"
proof -
  have st: "stocks fresh_items = ([41001 \<mapsto> 10], [20008 \<mapsto> 1])"
    by (auto simp: fresh_items_def stocks_def stock_of_def default_character_def)
  have ok: "items_ok fresh_items"
    by (auto simp: fresh_items_def items_ok_def stocked_def default_character_def split: if_splits)
  have "unat (tb_sequentialUid (is_items fresh_items)) + 4 < 2 ^ 32" by (simp add: fresh_items_def)
  with items_refine [OF ok, of "[(5, Op_Add 41001 5), (6, Op_Consume 41001 12), (7, Op_Add 45001 1), (8, Op_Remove 45001)]"]
  show ?thesis by (simp add: st fun_upd_twist)
qed

end
