(* ===== verification/Times.thy ===== *)
theory Times imports Prelude begin

text \<open>
  \<open>libserver/util/Util.hpp\<close> and \<open>Util.cpp\<close>: the time formats of the protocol and the text
  utilities. A time point of \<open>system_clock\<close> is the number of nanoseconds since 1970-01-01.

  The calendar of \<open>std::chrono\<close> (\<open>year_month_day\<close> from and to \<open>sys_days\<close>) is the proleptic
  Gregorian one: \<open>civil_of_days\<close> and \<open>days_of_civil\<close>. For a date that does not exist the
  standard leaves \<open>sys_days\<close> unspecified; the value the model has there is used by no theorem.
\<close>

section \<open>The calendar\<close>

definition leap :: "int \<Rightarrow> bool" where
  "leap y \<longleftrightarrow> y mod 4 = 0 \<and> (y mod 100 \<noteq> 0 \<or> y mod 400 = 0)"

definition days_before_year :: "int \<Rightarrow> int" where
  "days_before_year y = 365 * (y - 1) + (y - 1) div 4 - (y - 1) div 100 + (y - 1) div 400 - 719162"

definition month_starts :: "bool \<Rightarrow> int list" where
  "month_starts l = (if l
     then [0, 31, 60, 91, 121, 152, 182, 213, 244, 274, 305, 335, 366]
     else [0, 31, 59, 90, 120, 151, 181, 212, 243, 273, 304, 334, 365])"

fun month_search :: "int list \<Rightarrow> int \<Rightarrow> int \<Rightarrow> int \<times> int" where
  "month_search (a # b # rest) m n =
     (if n < b \<or> rest = [] then (m, n - a + 1) else month_search (b # rest) (m + 1) n)"
| "month_search _ m n = (m, n + 1)"

definition year_split :: "int \<Rightarrow> int \<times> int" where
  "year_split z =
     (let n = z + 719162;
          y400 = n div 146097; r400 = n mod 146097;
          y100 = min (r400 div 36524) 3; r100 = r400 - 36524 * y100;
          y4 = r100 div 1461; r4 = r100 mod 1461;
          y1 = min (r4 div 365) 3
      in (400 * y400 + 100 * y100 + 4 * y4 + y1 + 1, r4 - 365 * y1))"

definition civil_of_days :: "int \<Rightarrow> int \<times> int \<times> int" where
  "civil_of_days z =
     (let (y, n) = year_split z; (m, d) = month_search (month_starts (leap y)) 1 n in (y, m, d))"

definition days_of_civil :: "int \<Rightarrow> int \<Rightarrow> int \<Rightarrow> int" where
  "days_of_civil y m d = days_before_year y + month_starts (leap y) ! nat (m - 1) + d - 1"

section \<open>Time formats\<close>

definition floor_days :: "time_point \<Rightarrow> int" where
  "floor_days t = t div seconds 86400"

definition second_of_day :: "time_point \<Rightarrow> int" where
  "second_of_day t = t mod seconds 86400 div seconds 1"

record date_time =
  dt_years :: int
  dt_months :: int
  dt_days :: int
  dt_hours :: int
  dt_minutes :: int
  dt_seconds :: int

definition TimePointToFileTime :: "time_point \<Rightarrow> u32 \<times> u32" where
  "TimePointToFileTime timePoint =
     (let totalTime = word_of_int (- ((- timePoint) div seconds 1)) + 11644473600 :: u64;
          fileTime = totalTime * 10000000
      in (ucast fileTime, ucast (drop_bit 32 fileTime)))"

definition DateTimeToAliciaTime :: "date_time \<Rightarrow> u32" where
  "DateTimeToAliciaTime dateTime =
     word_of_int (min (dt_years dateTime) 4095)
     OR push_bit 12 (word_of_int (min (dt_months dateTime) 15))
     OR push_bit 16 (word_of_int (min (dt_days dateTime) 31))
     OR push_bit 21 (word_of_int (min (dt_hours dateTime) 31))
     OR push_bit 26 (word_of_int (min (dt_minutes dateTime) 63))"

definition TimePointToAliciaTime :: "time_point \<Rightarrow> u32" where
  "TimePointToAliciaTime timePoint =
     (let (y, m, d) = civil_of_days (floor_days timePoint); s = second_of_day timePoint
      in DateTimeToAliciaTime \<lparr>dt_years = y, dt_months = m, dt_days = d,
           dt_hours = s div 3600, dt_minutes = s div 60 mod 60, dt_seconds = 0\<rparr>)"

text \<open>The average year and month of \<open>std::chrono\<close> last 31556952 and 2629746 seconds.
  \<open>duration_cast\<close> truncates, \<open>floor\<close> rounds down.\<close>

definition DurationToAliciaTime :: "int \<Rightarrow> u32" where
  "DurationToAliciaTime duration =
     (let timeLeft = sgn duration * (\<bar>duration\<bar> div seconds 1);
          years = timeLeft div 31556952; timeLeft = timeLeft mod 31556952;
          months = timeLeft div 2629746; timeLeft = timeLeft mod 2629746;
          days = timeLeft div 86400; timeLeft = timeLeft mod 86400;
          hours = timeLeft div 3600; timeLeft = timeLeft mod 3600
      in DateTimeToAliciaTime \<lparr>dt_years = years, dt_months = months, dt_days = days,
           dt_hours = hours, dt_minutes = timeLeft div 60, dt_seconds = 0\<rparr>)"

text \<open>A shop time stamp is three words: month and year, hour and day, second and minute, the
  first of each pair in the high half.\<close>

type_synonym shop_time = "u32 \<times> u32 \<times> u32"

definition low16 :: "u32 \<Rightarrow> int" where
  "low16 w = uint (ucast w :: u16)"

definition high16 :: "u32 \<Rightarrow> int" where
  "high16 w = uint (ucast (drop_bit 16 w) :: u16)"

definition halves :: "int \<Rightarrow> int \<Rightarrow> u32" where
  "halves h l = push_bit 16 (word_of_int h) OR word_of_int l"

definition AliciaShopTimeToDateTime :: "shop_time \<Rightarrow> date_time" where
  "AliciaShopTimeToDateTime timestamp = (case timestamp of (w0, w1, w2) \<Rightarrow>
     \<lparr>dt_years = low16 w0, dt_months = high16 w0, dt_days = low16 w1,
      dt_hours = high16 w1, dt_minutes = low16 w2, dt_seconds = high16 w2\<rparr>)"

definition DateTimeToAliciaShopTime :: "date_time \<Rightarrow> shop_time" where
  "DateTimeToAliciaShopTime dateTime =
     (halves (dt_months dateTime) (dt_years dateTime),
      halves (dt_hours dateTime) (dt_days dateTime),
      halves (dt_seconds dateTime) (dt_minutes dateTime))"

definition AliciaShopTimeToTimePoint :: "shop_time \<Rightarrow> time_point" where
  "AliciaShopTimeToTimePoint timestamp = (case timestamp of (w0, w1, w2) \<Rightarrow>
     seconds (days_of_civil (low16 w0) (high16 w0) (low16 w1) * 86400
       + high16 w1 * 3600 + low16 w2 * 60 + high16 w2))"

text \<open>The date of a time point is always \<open>ok\<close>: the exception of the code is unreachable.\<close>

definition TimePointToAliciaShopTime :: "time_point \<Rightarrow> shop_time" where
  "TimePointToAliciaShopTime timePoint =
     (let (y, m, d) = civil_of_days (floor_days timePoint); s = second_of_day timePoint
      in (halves m y, halves (s div 3600) d, halves (s mod 60) (s div 60 mod 60)))"

definition TimePointToRaceTimePoint :: "time_point \<Rightarrow> u64" where
  "TimePointToRaceTimePoint timePoint = word_of_int timePoint div 100"

section \<open>Text\<close>

function TokenizeString :: "u8 \<Rightarrow> bytes \<Rightarrow> bytes list" where
  "TokenizeString delimiter value =
     (case dropWhile (\<lambda>c. c \<noteq> delimiter) value of
        [] \<Rightarrow> [value]
      | _ # rest \<Rightarrow> takeWhile (\<lambda>c. c \<noteq> delimiter) value # TokenizeString delimiter rest)"
  by pat_completeness auto
termination
proof (relation "measure (\<lambda>(_, value). length value)", simp)
  fix delimiter :: u8 and v c rest
  assume "dropWhile (\<lambda>c. c \<noteq> delimiter) v = c # rest"
  then have "length (c # rest) \<le> length v" by (metis length_dropWhile_le)
  then show "((delimiter, rest), delimiter, v) \<in> measure (\<lambda>(_, value). length value)" by simp
qed

declare TokenizeString.simps [simp del]

definition hex_digit :: "u8 \<Rightarrow> u8" where
  "hex_digit d = (if d < 10 then 48 + d else 55 + d)"

definition isalnum :: "u8 \<Rightarrow> bool" where
  "isalnum c \<longleftrightarrow> 48 \<le> c \<and> c \<le> 57 \<or> 65 \<le> c \<and> c \<le> 90 \<or> 97 \<le> c \<and> c \<le> 122"

definition pad_right :: "nat \<Rightarrow> bytes \<Rightarrow> bytes" where
  "pad_right n b = b @ replicate (n - length b) 32"

definition dump_row :: "bytes \<Rightarrow> bytes" where
  "dump_row row =
     pad_right 48 (concat (map (\<lambda>b. [hex_digit (drop_bit 4 b), hex_digit (b AND 15), 32]) row))
     @ [9] @ pad_right 16 (map (\<lambda>b. if isalnum b then b else 46) row) @ [10]"

function chunks :: "nat \<Rightarrow> 'a list \<Rightarrow> 'a list list" where
  "chunks n xs = (if xs = [] \<or> n = 0 then [] else take n xs # chunks n (drop n xs))"
  by pat_completeness auto
termination by (relation "measure (\<lambda>(_, xs). length xs)") auto

declare chunks.simps [simp del]

definition GenerateByteDump :: "bytes \<Rightarrow> bytes" where
  "GenerateByteDump data = concat (map dump_row (chunks 16 data))"

section \<open>The calendar is a bijection\<close>

lemma year_split_spec:
  assumes "year_split z = (y, n)"
  shows "days_before_year y + n = z" "0 \<le> n" "n < (if leap y then 366 else 365)"
proof -
  define N where "N = z + 719162"
  define a r b s c t d where "a = N div 146097" and "r = N mod 146097"
    and "b = min (r div 36524) 3" and "s = r - 36524 * b"
    and "c = s div 1461" and "t = s mod 1461" and "d = min (t div 365) 3"
  note defs = N_def a_def r_def b_def s_def c_def t_def d_def
  have "(400 * a + 100 * b + 4 * c + d + 1, t - 365 * d) = (y, n)"
    unfolding defs using assms by (simp only: year_split_def Let_def)
  then have y: "y = 400 * a + 100 * b + 4 * c + d + 1" and n: "n = t - 365 * d" by simp_all
  have r: "0 \<le> r" "r < 146097" by (simp_all add: r_def)
  have b: "0 \<le> b" "b \<le> 3" using r by (auto simp: b_def)
  have s: "0 \<le> s" "s \<le> 36524" "s = 36524 \<longrightarrow> b = 3" using r by (auto simp: s_def b_def min_def)
  have c: "0 \<le> c" "c \<le> 24" using s by (auto simp: c_def)
  have ct: "s = 1461 * c + t" by (simp add: t_def c_def)
  have t: "0 \<le> t" "t < 1461" by (simp_all add: t_def)
  have t3: "t \<le> 1459 \<or> c < 24 \<or> b = 3" using s c t ct by linarith
  have d: "0 \<le> d" "d \<le> 3" using t by (auto simp: d_def)
  have n0: "0 \<le> n" and n1: "n \<le> 365" and n2: "n = 365 \<longrightarrow> d = 3 \<and> t = 1460"
    using t d by (auto simp: n d_def min_def)
  have q4: "(y - 1) div 4 = 100 * a + 25 * b + c" using y d by simp
  have q100: "(y - 1) div 100 = 4 * a + b" using y c d by simp
  have q400: "(y - 1) div 400 = a" using y b c d by simp
  have "N = 146097 * a + r" "r = 36524 * b + s" "s = 1461 * c + t"
    by (simp_all add: a_def r_def s_def c_def t_def)
  moreover have "days_before_year y
      = 365 * (y - 1) + (100 * a + 25 * b + c) - (4 * a + b) + a - 719162"
    by (simp only: days_before_year_def q4 q100 q400)
  ultimately show "days_before_year y + n = z" using y n by (simp add: N_def)
  show "0 \<le> n" by (rule n0)
  show "n < (if leap y then 366 else 365)"
  proof (cases "n = 365")
    case True
    with n2 have d3: "d = 3" and t1: "t = 1460" by auto
    with t3 have cb: "c < 24 \<or> b = 3" by auto
    have y4: "y = 4 * (100 * a + 25 * b + c + 1)" using y d3 by simp
    have y100: "y = 100 * (4 * a + b) + 4 * (c + 1)" using y d3 by simp
    have "leap y"
    proof (cases "c < 24")
      case True
      with c have "0 < 4 * (c + 1)" "4 * (c + 1) < 100" by auto
      moreover have "(100 * k + w) mod 100 = w" if "0 < w" "w < 100" for k w :: int
        using that by simp
      ultimately have "y mod 100 = 4 * (c + 1)" by (simp only: y100)
      with \<open>0 < 4 * (c + 1)\<close> y4 show ?thesis by (simp add: leap_def)
    next
      case False
      with c cb have "c = 24" "b = 3" by auto
      with y100 have "y = 400 * (a + 1)" by simp
      then show ?thesis by (simp add: leap_def)
    qed
    then show ?thesis using n1 by simp
  qed (use n1 in auto)
qed

lemma month_search_spec:
  assumes "0 \<le> n" "n < (if l then 366 else 365)" "month_search (month_starts l) 1 n = (m, d)"
  shows "month_starts l ! nat (m - 1) + d - 1 = n" "1 \<le> m" "m \<le> 12" "1 \<le> d" "d \<le> 31"
  using assms by (auto simp: month_starts_def split: if_splits)

lemma civil_of_days_spec:
  assumes "civil_of_days z = (y, m, d)"
  shows "days_of_civil y m d = z" "1 \<le> m" "m \<le> 12" "1 \<le> d" "d \<le> 31"
proof -
  obtain n where ys: "year_split z = (y, n)" and ms: "month_search (month_starts (leap y)) 1 n = (m, d)"
    using assms by (auto simp: civil_of_days_def split: prod.splits)
  note * = year_split_spec [OF ys] month_search_spec [OF year_split_spec(2,3) [OF ys] ms]
  show "days_of_civil y m d = z" using *(1,4) by (simp add: days_of_civil_def)
  show "1 \<le> m" "m \<le> 12" "1 \<le> d" "d \<le> 31" using * by simp_all
qed
section \<open>Shop time stamps\<close>

lemma low16_halves: "0 \<le> l \<Longrightarrow> l < 65536 \<Longrightarrow> low16 (halves h l) = l"
proof -
  assume l: "0 \<le> l" "l < 65536"
  have "(ucast (halves h l) :: u16) = word_of_int l"
    by (rule bit_word_eqI) (auto simp: halves_def bit_simps)
  with l show ?thesis by (simp add: low16_def uint_word_of_int)
qed

lemma high16_halves:
  "0 \<le> l \<Longrightarrow> l < 65536 \<Longrightarrow> 0 \<le> h \<Longrightarrow> h < 65536 \<Longrightarrow> high16 (halves h l) = h"
proof -
  assume *: "0 \<le> l" "l < 65536" "0 \<le> h" "h < 65536"
  have bl: "\<not> bit l (16 + n)" for n
  proof -
    have "take_bit 16 l = l" using * by (simp add: take_bit_int_eq_self)
    then show ?thesis by (metis bit_take_bit_iff not_add_less1)
  qed
  have "(ucast (drop_bit 16 (halves h l)) :: u16) = word_of_int h"
    by (rule bit_word_eqI) (auto simp: halves_def bit_simps bl)
  with * show ?thesis by (simp add: high16_def uint_word_of_int)
qed

lemma second_of_day_bounds: "0 \<le> second_of_day t" "second_of_day t < 86400"
proof -
  have "t mod 86400000000000 div 1000000000 \<le> 86399999999999 div (1000000000 :: int)"
    by (rule zdiv_mono1) (use pos_mod_bound [of 86400000000000 t] in simp_all)
  then show "0 \<le> second_of_day t" "second_of_day t < 86400"
    by (simp_all add: second_of_day_def seconds_def pos_imp_zdiv_nonneg_iff)
qed

text \<open>A time point survives the shop's time stamp up to the second: unpacking the packed
  stamp gives the last full second before the time point, for every year the sixteen bits of
  the format can hold.\<close>

theorem shop_time_roundtrip:
  assumes "0 \<le> fst (civil_of_days (floor_days t))" "fst (civil_of_days (floor_days t)) < 65536"
  shows "AliciaShopTimeToTimePoint (TimePointToAliciaShopTime t) = t div seconds 1 * seconds 1"
proof -
  obtain y m d where c: "civil_of_days (floor_days t) = (y, m, d)" by (cases "civil_of_days (floor_days t)")
  note cd = civil_of_days_spec [OF c]
  define s where "s = second_of_day t"
  have s: "0 \<le> s" "s < 86400" using second_of_day_bounds [of t] by (auto simp: s_def)
  have "AliciaShopTimeToTimePoint (TimePointToAliciaShopTime t)
      = seconds (floor_days t * 86400 + s div 3600 * 3600 + s div 60 mod 60 * 60 + s mod 60)"
    using assms c cd s
    by (simp add: TimePointToAliciaShopTime_def AliciaShopTimeToTimePoint_def Let_def
        s_def [symmetric] low16_halves high16_halves)
  also have "s div 3600 * 3600 + s div 60 mod 60 * 60 + s mod 60 = s"
  proof -
    have "s div 60 mod 60 = s div 60 - 60 * (s div 3600)"
      by (simp add: minus_mult_div_eq_mod [symmetric] zdiv_zmult2_eq [symmetric])
    then show ?thesis using minus_mult_div_eq_mod [of s 60] by simp
  qed
  then have "floor_days t * 86400 + s div 3600 * 3600 + s div 60 mod 60 * 60 + s mod 60
      = floor_days t * 86400 + s" by simp
  also have "seconds (floor_days t * 86400 + s) = t div seconds 1 * seconds 1"
  proof -
    have "(1000000000 * (86400 * q) + r) div 1000000000 = 86400 * q + r div 1000000000"
      for q r :: int by simp
    from this [of "t div 86400000000000" "t mod 86400000000000"]
    have "t div 1000000000 = 86400 * (t div 86400000000000) + t mod 86400000000000 div 1000000000"
      by simp
    then show ?thesis by (simp add: s_def second_of_day_def floor_days_def seconds_def)
  qed
  finally show ?thesis .
qed

lemma shop_time_roundtrip_witness:
  "AliciaShopTimeToTimePoint (TimePointToAliciaShopTime 1761955199500000000)
     = 1761955199500000000 div seconds 1 * seconds 1"
  by (rule shop_time_roundtrip; code_simp)

section \<open>Tokens\<close>

definition join :: "u8 \<Rightarrow> bytes list \<Rightarrow> bytes" where
  "join delimiter tokens = (case tokens of [] \<Rightarrow> []
     | t # ts \<Rightarrow> t @ concat (map (\<lambda>u. delimiter # u) ts))"

text \<open>\<open>TokenizeString\<close> cuts at every delimiter and nowhere else: there is at least one token,
  no token contains the delimiter, and the tokens joined by it are the string.\<close>

theorem TokenizeString_tokens:
  "TokenizeString delimiter v \<noteq> []
     \<and> delimiter \<notin> \<Union> (set ` set (TokenizeString delimiter v))
     \<and> join delimiter (TokenizeString delimiter v) = v"
proof (induction v rule: TokenizeString.induct)
  case (1 delimiter v)
  let ?p = "\<lambda>c. c \<noteq> delimiter"
  have nt: "delimiter \<notin> set (takeWhile ?p v)" by (auto dest: set_takeWhileD)
  show ?case
  proof (cases "dropWhile ?p v")
    case Nil
    then have "delimiter \<notin> set v" by auto
    moreover have "TokenizeString delimiter v = [v]"
      by (simp only: TokenizeString.simps [of delimiter v] Nil list.case)
    ultimately show ?thesis by (simp add: join_def)
  next
    case (Cons c rest)
    then have c: "c = delimiter" using hd_dropWhile [of ?p v] by auto
    have v: "v = takeWhile ?p v @ delimiter # rest"
      using takeWhile_dropWhile_id [of ?p v] Cons c by simp
    from 1 [OF Cons] obtain t ts where ts: "TokenizeString delimiter rest = t # ts"
      "delimiter \<notin> \<Union> (set ` set (t # ts))" "join delimiter (t # ts) = rest"
      by (cases "TokenizeString delimiter rest") auto
    have "TokenizeString delimiter v = takeWhile ?p v # t # ts"
      using Cons ts(1) by (simp add: TokenizeString.simps [of delimiter v])
    then show ?thesis using nt ts(2,3) v by (auto simp: join_def)
  qed
qed

lemma length_dump_row: "length row \<le> 16 \<Longrightarrow> length (dump_row row) = 66"
proof -
  have "length (concat (map (\<lambda>b. [hex_digit (drop_bit 4 b), hex_digit (b AND 15), 32]) row))
      = 3 * length row"
    by (induction row) auto
  then show "length row \<le> 16 \<Longrightarrow> ?thesis" by (simp add: dump_row_def pad_right_def)
qed

end
