(* ===== verification/Horse_Registry.thy ===== *)
theory Horse_Registry imports Race_State Times begin

text \<open>
  \<open>libserver/registry/HorseRegistry.cpp\<close>: the progress of a horse's class and potential and the
  catalogue of parts.

  \<^item> What \<open>ReadConfig\<close> loads is the record \<open>horse_config\<close>; its grouped indices of manes, tails and
    faces are computed from the parts.
  \<^item> A draw is an argument: an index taken modulo the number of candidates, and for the raffle of
    potential points the index it gives at a level.
\<close>

section \<open>Configuration\<close>

record coat =
  co_tid :: tid
  co_faceType :: int
  co_minGrade :: int
  co_tier :: nat
  co_inheritanceRate :: u32
  co_allowedColorGroups :: int

text \<open>A mane or a tail.\<close>

record hair =
  hr_tid :: tid
  hr_color :: nat
  hr_shape :: int
  hr_inheritanceRate :: u32
  hr_minGrade :: int
  hr_tier :: int

record potential_level =
  ple_level :: u32
  ple_requiredClassProgression :: u32

record grade_info =
  gi_grade :: u32
  gi_minStatSum :: int

record horse_config =
  hc_base :: u32
  hc_exp10 :: u32
  hc_exp20 :: u32
  hc_potentialLevels :: "potential_level list"
  hc_potentialGrowth :: "u32 list"
  hc_grades :: "grade_info list"
  hc_coats :: "(tid, coat) umap"
  hc_manes :: "(tid, hair) umap"
  hc_tails :: "(tid, hair) umap"
  hc_faces :: "(tid, int) umap"
  hc_colorGroups :: "nat list list"
  hc_potentialTypes :: "u32 list"
  hc_breedingRatios :: "(u32, int) umap"
  hc_emblems :: "(u32, u32) umap"
  hc_emblemRatios :: "(u32, int) umap"

section \<open>Class\<close>

definition MaxClass :: u32 where "MaxClass = 30"

definition GetCumulativeClassExp :: "horse_config \<Rightarrow> u32 \<Rightarrow> u32" where
  "GetCumulativeClassExp cfg level =
     (if level \<le> 1 then 0
      else
        let transitions = level - 1;
            total = min transitions 10 * hc_base cfg;
            total = (if transitions > 10 then total + min (transitions - 10) 10 * hc_exp10 cfg else total)
        in if transitions > 20 then total + (transitions - 20) * hc_exp20 cfg else total)"

text \<open>The loop that advances the class; \<open>fuel\<close> is the number of classes left.\<close>

fun class_loop :: "horse_config \<Rightarrow> u32 \<Rightarrow> nat \<Rightarrow> u32 \<Rightarrow> u32 \<Rightarrow> u32 \<times> u32" where
  "class_loop cfg progress 0 level growth = (level, growth)"
| "class_loop cfg progress (Suc n) level growth =
     (if progress \<ge> GetCumulativeClassExp cfg (level + 1)
      then class_loop cfg progress n (level + 1) (growth + (if level + 1 = MaxClass then 2 else 1))
      else (level, growth))"

definition ApplyClassProgress :: "horse_config \<Rightarrow> u32 \<Rightarrow> horse \<Rightarrow> horse" where
  "ApplyClassProgress cfg gainedExp h =
     (let level = max (ho_clazz h) 1 in
      if level \<ge> MaxClass then h
      else
        let progress = ho_clazzProgress h + gainedExp in
        case class_loop cfg progress (unat (MaxClass - level)) level (ho_growthPoints h) of
          (level, growth) \<Rightarrow> h\<lparr>ho_clazzProgress := progress, ho_clazz := level, ho_growthPoints := growth\<rparr>)"

section \<open>Potential\<close>

definition target_level :: "horse_config \<Rightarrow> u32 \<Rightarrow> u32" where
  "target_level cfg progress = fold (\<lambda>p t.
     if progress \<ge> ple_requiredClassProgression p then max t (ple_level p) else t)
     (hc_potentialLevels cfg) 1"

definition potential_points :: "horse_config \<Rightarrow> u32 list" where
  "potential_points cfg = filter (\<lambda>k. k \<le> 15) (hc_potentialGrowth cfg)"

text \<open>One raffle per level below the target, at most up to level 10.\<close>

fun potential_loop ::
  "u32 list \<Rightarrow> (nat \<Rightarrow> nat) \<Rightarrow> u32 \<Rightarrow> nat \<Rightarrow> u32 \<Rightarrow> u32 \<Rightarrow> u32 \<times> u32" where
  "potential_loop points raffle target 0 level gained = (level, gained)"
| "potential_loop points raffle target (Suc n) level gained =
     (if level < target \<and> level \<le> 10
      then potential_loop points raffle target n (level + 1)
             (gained + points ! (raffle (unat (level - 1)) mod length points))
      else (level, gained))"

definition ApplyPotentialGrowth :: "horse_config \<Rightarrow> (nat \<Rightarrow> nat) \<Rightarrow> horse \<Rightarrow> u32 \<times> horse" where
  "ApplyPotentialGrowth cfg raffle h =
     (if ho_potentialType h = 0 then (0, h)
      else
        case potential_loop (potential_points cfg) raffle (target_level cfg (ho_clazzProgress h)) 10
               (max (ho_potentialLevel h) 1) 0 of
          (level, gained) \<Rightarrow>
            if gained = 0 then (0, h)
            else (gained, h\<lparr>ho_potentialValue := min (ho_potentialValue h + gained) 100,
                            ho_potentialLevel := level\<rparr>))"

section \<open>Grades\<close>

definition GetGradeForStatSum :: "horse_config \<Rightarrow> int \<Rightarrow> u32" where
  "GetGradeForStatSum cfg statSum = fold (\<lambda>g result.
     if statSum \<ge> gi_minStatSum g \<and> gi_grade g > result then gi_grade g else result) (hc_grades cfg) 1"

section \<open>Parts\<close>

abbreviation Color_White :: nat where "Color_White \<equiv> 2"

definition invalidCoat :: coat where
  "invalidCoat = \<lparr>co_tid = 1, co_faceType = 0, co_minGrade = 1, co_tier = 1, co_inheritanceRate = 0x3F800000,
     co_allowedColorGroups = 0\<rparr>"

definition invalidHair :: hair where
  "invalidHair = \<lparr>hr_tid = 1, hr_color = Color_White, hr_shape = 1, hr_inheritanceRate = 0x41F00000,
     hr_minGrade = 1, hr_tier = 1\<rparr>"

definition GetCoatInfo :: "horse_config \<Rightarrow> tid \<Rightarrow> coat" where
  "GetCoatInfo cfg coatTid = (case map_of (hc_coats cfg) coatTid of Some c \<Rightarrow> c | None \<Rightarrow> invalidCoat)"

definition GetMane :: "horse_config \<Rightarrow> tid \<Rightarrow> hair" where
  "GetMane cfg t = (case map_of (hc_manes cfg) t of Some m \<Rightarrow> m | None \<Rightarrow> invalidHair)"

definition GetTail :: "horse_config \<Rightarrow> tid \<Rightarrow> hair" where
  "GetTail cfg t = (case map_of (hc_tails cfg) t of Some m \<Rightarrow> m | None \<Rightarrow> invalidHair)"

text \<open>The first color group, from \<open>k\<close> on, that has a color; -1 if none has.\<close>

fun color_group :: "nat \<Rightarrow> int \<Rightarrow> nat list list \<Rightarrow> int" where
  "color_group color k [] = - 1"
| "color_group color k (colors # groups) =
     (if color \<in> set colors then k else color_group color (k + 1) groups)"

definition GetManeColorGroupId :: "horse_config \<Rightarrow> tid \<Rightarrow> int" where
  "GetManeColorGroupId cfg maneTid = (case map_of (hc_manes cfg) maneTid of
     None \<Rightarrow> - 1 | Some m \<Rightarrow> color_group (hr_color m) 0 (hc_colorGroups cfg))"

definition GetTailColorGroupId :: "horse_config \<Rightarrow> tid \<Rightarrow> int" where
  "GetTailColorGroupId cfg tailTid = (case map_of (hc_tails cfg) tailTid of
     None \<Rightarrow> - 1 | Some m \<Rightarrow> color_group (hr_color m) 0 (hc_colorGroups cfg))"

definition FindTailByColorAndShape :: "horse_config \<Rightarrow> nat \<Rightarrow> int \<Rightarrow> tid" where
  "FindTailByColorAndShape cfg color shape =
     (case find (\<lambda>(t, i). hr_color i = color \<and> hr_shape i = shape) (hc_tails cfg) of
        Some (t, _) \<Rightarrow> t | None \<Rightarrow> InvalidTid)"

text \<open>The manes or tails of a color group and shape: what \<open>ReadConfig\<close> indexes.\<close>

definition hairs_of :: "nat list list \<Rightarrow> (tid, hair) umap \<Rightarrow> int \<Rightarrow> int \<Rightarrow> tid list" where
  "hairs_of groups hairs groupId shape =
     (if 0 \<le> groupId \<and> groupId < int (length groups)
      then map fst (filter (\<lambda>(t, h). hr_color h \<in> set (groups ! nat groupId) \<and> hr_shape h = shape) hairs)
      else [])"

definition pick :: "nat \<Rightarrow> tid list \<Rightarrow> tid" where
  "pick draw candidates = (if candidates = [] then InvalidTid else candidates ! (draw mod length candidates))"

definition GetRandomManeFromColorAndShape :: "horse_config \<Rightarrow> nat \<Rightarrow> int \<Rightarrow> int \<Rightarrow> tid" where
  "GetRandomManeFromColorAndShape cfg draw colorGroupId shape =
     pick draw (hairs_of (hc_colorGroups cfg) (hc_manes cfg) colorGroupId shape)"

definition GetRandomTailByColorGroupAndShape :: "horse_config \<Rightarrow> nat \<Rightarrow> int \<Rightarrow> int \<Rightarrow> tid" where
  "GetRandomTailByColorGroupAndShape cfg draw colorGroupId shape =
     pick draw (hairs_of (hc_colorGroups cfg) (hc_tails cfg) colorGroupId shape)"

definition GetRandomFaceForCoat :: "horse_config \<Rightarrow> nat \<Rightarrow> tid \<Rightarrow> tid" where
  "GetRandomFaceForCoat cfg draw coatTid =
     pick draw (keys_of (filter (\<lambda>(t, k). k = co_faceType (GetCoatInfo cfg coatTid)) (hc_faces cfg)))"

text \<open>Per shape the lowest grade, and the rate of the part with the lowest number.\<close>

definition aggregate :: "(tid, hair) umap \<Rightarrow> (int, tid \<times> int \<times> u32) omap" where
  "aggregate parts = fold (\<lambda>(t, p) byShape.
     case map_of byShape (hr_shape p) of
       None \<Rightarrow> omap_put (hr_shape p) (t, hr_minGrade p, hr_inheritanceRate p) byShape
     | Some (t0, g, rate) \<Rightarrow> omap_put (hr_shape p)
         (if t < t0 then (t, min g (hr_minGrade p), hr_inheritanceRate p)
          else (t0, min g (hr_minGrade p), rate)) byShape) parts []"

definition AggregateShapeInheritance :: "(tid, hair) umap \<Rightarrow> (int \<times> int \<times> u32) list" where
  "AggregateShapeInheritance parts = map (\<lambda>(shape, t, g, rate). (shape, g, rate)) (aggregate parts)"

definition GetManeShapeInheritance :: "horse_config \<Rightarrow> (int \<times> int \<times> u32) list" where
  "GetManeShapeInheritance cfg = AggregateShapeInheritance (hc_manes cfg)"

definition GetTailShapeInheritance :: "horse_config \<Rightarrow> (int \<times> int \<times> u32) list" where
  "GetTailShapeInheritance cfg = AggregateShapeInheritance (hc_tails cfg)"

definition GetPossibleCoats :: "horse_config \<Rightarrow> tid list" where
  "GetPossibleCoats cfg = keys_of (hc_coats cfg)"

text \<open>The emblems of a tier of rarity.\<close>

definition GetEmblemsByOdds :: "horse_config \<Rightarrow> u32 \<Rightarrow> u32 list" where
  "GetEmblemsByOdds cfg odds = keys_of (filter (\<lambda>(i, tier). tier = odds) (hc_emblems cfg))"

section \<open>Class progress\<close>

lemma class_step:
  assumes "level \<le> MaxClass" "Suc n = unat (MaxClass - level)"
  shows "n = unat (MaxClass - (level + 1))" "level + 1 \<le> MaxClass" "level \<le> level + 1"
proof -
  have *: "unat level < 30" "unat (MaxClass - level) = 30 - unat level"
    using assms by (simp_all add: MaxClass_def unat_sub word_le_nat_alt)
  then have "unat (level + 1) = unat level + 1" by (simp add: unat_word_ariths)
  with * assms(2) show "n = unat (MaxClass - (level + 1))" "level + 1 \<le> MaxClass" "level \<le> level + 1"
    by (simp_all add: MaxClass_def word_le_nat_alt unat_sub)
qed

lemma class_loop_class: "n = unat (MaxClass - level) \<Longrightarrow> level \<le> MaxClass \<Longrightarrow>
   level \<le> fst (class_loop cfg p n level g) \<and> fst (class_loop cfg p n level g) \<le> MaxClass"
proof (induction n arbitrary: level g)
  case (Suc n)
  note l = class_step [OF Suc.prems(2,1)]
  from Suc.IH [OF l(1,2)] l(3) Suc.prems(2) show ?case by (auto intro: order_trans)
qed simp

text \<open>More progress goes on from where less progress has stopped.\<close>

lemma class_loop_more:
  assumes "class_loop cfg p n level g = (level1, g1)" "n = unat (MaxClass - level)" "level \<le> MaxClass" "p \<le> q"
  shows "class_loop cfg q n level g = class_loop cfg q (unat (MaxClass - level1)) level1 g1"
  using assms
proof (induction n arbitrary: level g)
  case 0
  then show ?case by simp
next
  case (Suc n)
  show ?case
  proof (cases "p \<ge> GetCumulativeClassExp cfg (level + 1)")
    case True
    have "n = unat (MaxClass - (level + 1)) \<and> level + 1 \<le> MaxClass"
      using class_step [OF Suc.prems(3,2)] by simp
    with Suc.IH [of "level + 1"] Suc.prems(1,4) True show ?thesis by (auto intro: order_trans)
  next
    case False
    with Suc.prems(1) have "level1 = level" "g1 = g" by simp_all
    with Suc.prems(2) show ?thesis by simp
  qed
qed

text \<open>A horse's class never falls and never rises above 30, however much progress is reported; only a class that was
  already above 30 stays what it was.\<close>

theorem class_in_range:
  "ho_clazz h \<le> ho_clazz (ApplyClassProgress cfg gainedExp h)
   \<and> ho_clazz (ApplyClassProgress cfg gainedExp h) \<le> max MaxClass (ho_clazz h)"
proof (cases "max (ho_clazz h) 1 \<ge> MaxClass")
  case True
  then show ?thesis by (simp add: ApplyClassProgress_def Let_def)
next
  case False
  let ?l = "max (ho_clazz h) 1"
  obtain level g where l: "class_loop cfg (ho_clazzProgress h + gainedExp) (unat (MaxClass - ?l)) ?l
      (ho_growthPoints h) = (level, g)" by fastforce
  from class_loop_class [OF refl, of ?l cfg] False l have "?l \<le> level" "level \<le> MaxClass"
    by (metis fst_conv linear order_refl)+
  with False l show ?thesis by (auto simp: ApplyClassProgress_def Let_def max_def split: if_splits)
qed

text \<open>C35: It does not matter for a horse in how many races it earns its progress, as long as the counter does not overflow
  and it is not yet of the highest class in between: two reports leave the horse that one report of their sum leaves. When
  the first report already takes it to class 30, the second is dropped: class and growth points are still those of one report
  of the sum, but the progress, which decides about the growth of the potential, stays at what the first report made it.\<close>

theorem class_progress_adds_up:
  assumes "unat (ho_clazzProgress h) + unat a + unat b < 2 ^ 32"
  shows "ApplyClassProgress cfg b (ApplyClassProgress cfg a h) =
    (if ho_clazz (ApplyClassProgress cfg a h) < MaxClass then ApplyClassProgress cfg (a + b) h
     else (ApplyClassProgress cfg (a + b) h)\<lparr>ho_clazzProgress := ho_clazzProgress (ApplyClassProgress cfg a h)\<rparr>)"
proof (cases "max (ho_clazz h) 1 \<ge> MaxClass")
  case True
  then have "\<not> ho_clazz h < MaxClass" by (auto simp: MaxClass_def max_def word_le_nat_alt word_less_nat_alt split: if_splits)
  with True show ?thesis by (simp add: ApplyClassProgress_def Let_def)
next
  case False
  let ?l = "max (ho_clazz h) 1" and ?p = "ho_clazzProgress h + a" and ?q = "ho_clazzProgress h + (a + b)"
  have "unat ?p = unat (ho_clazzProgress h) + unat a" "unat ?q = unat (ho_clazzProgress h) + unat a + unat b"
    using assms by (simp_all add: unat_word_ariths)
  then have le: "?p \<le> ?q" by (simp add: word_le_nat_alt)
  obtain level g where l: "class_loop cfg ?p (unat (MaxClass - ?l)) ?l (ho_growthPoints h) = (level, g)"
    by fastforce
  with class_loop_class [OF refl, of ?l cfg] False have lv: "?l \<le> level" "level \<le> MaxClass"
    by (metis fst_conv linear order_refl)+
  then have "1 \<le> level" by (metis max.cobounded2 order_trans)
  have "?l \<le> MaxClass" using False by (metis linear)
  note more = class_loop_more [OF l refl this le]
  have a: "ApplyClassProgress cfg a h = h\<lparr>ho_clazzProgress := ?p, ho_clazz := level, ho_growthPoints := g\<rparr>"
    using False l by (simp add: ApplyClassProgress_def)
  show ?thesis
  proof (cases "level = MaxClass")
    case True
    with False more show ?thesis
      by (auto simp: a ApplyClassProgress_def [of cfg b] ApplyClassProgress_def [of cfg "a + b"] Let_def MaxClass_def
        split: prod.splits)
  next
    case lower: False
    with lv(2) have "level < MaxClass" "\<not> max level 1 \<ge> MaxClass" "max level 1 = level"
      using \<open>1 \<le> level\<close> by (auto simp: max_absorb1)
    with False more show ?thesis
      by (auto simp: a ApplyClassProgress_def [of cfg b] ApplyClassProgress_def [of cfg "a + b"] Let_def add.assoc
        split: prod.splits)
  qed
qed

definition plain_horses :: horse_config where
  "plain_horses = \<lparr>hc_base = 100, hc_exp10 = 200, hc_exp20 = 300, hc_potentialLevels = [],
     hc_potentialGrowth = [], hc_grades = [], hc_coats = [], hc_manes = [], hc_tails = [], hc_faces = [],
     hc_colorGroups = [], hc_potentialTypes = [], hc_breedingRatios = [], hc_emblems = [], hc_emblemRatios = []\<rparr>"

definition foal :: horse where
  "foal = \<lparr>ho_name = [66], ho_clazz = 0, ho_clazzProgress = 0, ho_growthPoints = 0, ho_fatigue = 0,
     ho_potentialType = 0, ho_potentialLevel = 0, ho_potentialValue = 0\<rparr>"

text \<open>Two reports of 1350 and 850 leave the horse one of 2200 does; after one of 6200, which takes the horse to class 30,
  another of 850 is dropped.\<close>

lemma class_progress_adds_up_witness:
  "ApplyClassProgress plain_horses 850 (ApplyClassProgress plain_horses 1350 foal)
     = foal\<lparr>ho_clazzProgress := 2200, ho_clazz := 17, ho_growthPoints := 16\<rparr>
   \<and> ApplyClassProgress plain_horses 850 (ApplyClassProgress plain_horses 6200 foal)
     = foal\<lparr>ho_clazzProgress := 6200, ho_clazz := 30, ho_growthPoints := 30\<rparr>"
proof -
  have one: "ApplyClassProgress plain_horses 1350 foal
      = foal\<lparr>ho_clazzProgress := 1350, ho_clazz := 12, ho_growthPoints := 11\<rparr>"
    "ApplyClassProgress plain_horses (1350 + 850) foal
      = foal\<lparr>ho_clazzProgress := 2200, ho_clazz := 17, ho_growthPoints := 16\<rparr>"
    "ApplyClassProgress plain_horses 6200 foal
      = foal\<lparr>ho_clazzProgress := 6200, ho_clazz := 30, ho_growthPoints := 30\<rparr>"
    "ApplyClassProgress plain_horses (6200 + 850) foal
      = foal\<lparr>ho_clazzProgress := 7050, ho_clazz := 30, ho_growthPoints := 30\<rparr>"
    by code_simp+
  have "unat (ho_clazzProgress foal) + unat (1350 :: u32) + unat (850 :: u32) < 2 ^ 32"
    "unat (ho_clazzProgress foal) + unat (6200 :: u32) + unat (850 :: u32) < 2 ^ 32"
    by (simp_all add: foal_def)
  from this [THEN class_progress_adds_up [where cfg = plain_horses]] show ?thesis
    unfolding one by (simp add: MaxClass_def)
qed

end
