(* ===== verification/Genetics.thy ===== *)
theory Genetics imports Data_Records Horse_Registry begin

text \<open>
  \<open>server/ranch/Genetics.cpp\<close> and the lookups of \<open>libserver/registry/BreedingRegistry.cpp\<close>: what a foal
  inherits from its parents and grandparents.

  \<^item> A die is a draw of the random engine: given the weights of the outcomes it returns an index, taken modulo their number.
    Weights are integers, or the bit patterns of floats; a die for a number of candidates that only the registry
    knows is given none. Every place that draws has a die of its own, \<open>dice k\<close>.
  \<^item> Float arithmetic is the argument \<open>fo\<close>, on bit patterns.
  \<^item> Reading a record that is not available also asks for its retrieval, which is the subject of \<open>Data_Storage\<close>.
\<close>

section \<open>Draws and floats\<close>

type_synonym die = "int list \<Rightarrow> nat"

definition weighted_roll :: "die \<Rightarrow> int list \<Rightarrow> nat" where
  "weighted_roll die weights = die weights mod length weights"

definition uniform :: "die \<Rightarrow> nat \<Rightarrow> nat" where
  "uniform die n = weighted_roll die (replicate n 1)"

definition PickWeighted :: "die \<Rightarrow> 'a list \<Rightarrow> int list \<Rightarrow> 'a \<Rightarrow> 'a" where
  "PickWeighted die vs weights fallback = (if vs = [] then fallback else vs ! weighted_roll die weights)"

record float_ops =
  fo_add :: "u32 \<Rightarrow> u32 \<Rightarrow> u32"
  fo_sub :: "u32 \<Rightarrow> u32 \<Rightarrow> u32"
  fo_mul :: "u32 \<Rightarrow> u32 \<Rightarrow> u32"
  fo_div :: "u32 \<Rightarrow> u32 \<Rightarrow> u32"
  fo_less :: "u32 \<Rightarrow> u32 \<Rightarrow> bool"
  fo_of_int :: "int \<Rightarrow> u32"
  fo_uniform :: "nat \<Rightarrow> u32 \<Rightarrow> u32 \<Rightarrow> u32"
  fo_lround :: "u32 \<Rightarrow> int"
  fo_scale :: "u32 \<Rightarrow> u32 \<Rightarrow> u32 \<Rightarrow> u32"

definition fo_max :: "float_ops \<Rightarrow> u32 \<Rightarrow> u32 \<Rightarrow> u32" where
  "fo_max fo a b = (if fo_less fo a b then b else a)"

definition clamp :: "int \<Rightarrow> int \<Rightarrow> int \<Rightarrow> int" where
  "clamp v lo hi = (if v < lo then lo else if hi < v then hi else v)"

section \<open>The breeding registry\<close>

record grade_probability_row =
  gp_gradeDistance :: u32
  gp_minus3 :: u32
  gp_minus2 :: u32
  gp_minus1 :: u32
  gp_plus :: "u32 list"

record breeding_params =
  bp_childGradeLimit :: int
  bp_successDecayPerBreeding :: int
  bp_minSuccessRate :: int
  bp_chanceCardChance :: int
  bp_appearanceVariation :: int
  bp_inheritanceRateBonusUnit :: int

record failure_card_prob =
  fp_moneySpent :: u32
  fp_probA :: int
  fp_probB :: int
  fp_probC :: int

record failure_card_range =
  fr_grade :: u32
  fr_minId :: u32
  fr_maxId :: u32

record failure_card_reward =
  fw_itemTid :: u32
  fw_itemCount :: u32
  fw_gameMoney :: u32

record failure_card_table =
  ft_gradeRanges :: "failure_card_range list"
  ft_rewards :: "(u32, failure_card_reward) umap"

record bonus_band =
  bb_minGrade :: u32
  bb_maxGrade :: u32
  bb_activationChance :: int

record bonus_entry =
  be_id :: u8
  be_type :: u8
  be_value :: u8
  be_ratioSmall :: int
  be_ratioBig :: int

record breeding_registry =
  br_failureCardProbs :: "failure_card_prob list"
  br_normalCard :: failure_card_table
  br_chanceCard :: failure_card_table
  br_params :: breeding_params
  br_gradeProbabilities :: "grade_probability_row list"
  br_smallGradeBand :: bonus_band
  br_bigGradeBand :: bonus_band
  br_bonusEntries :: "bonus_entry list"

definition GetFailureCardProb :: "breeding_registry \<Rightarrow> u32 \<Rightarrow> failure_card_prob" where
  "GetFailureCardProb b moneySpent =
     (case find (\<lambda>e. moneySpent \<le> fp_moneySpent e) (br_failureCardProbs b) of
        Some e \<Rightarrow> e | None \<Rightarrow> last (br_failureCardProbs b))"

definition GetCardGradeRange :: "failure_card_table \<Rightarrow> u32 \<Rightarrow> failure_card_range option" where
  "GetCardGradeRange t grade = find (\<lambda>r. fr_grade r = grade) (ft_gradeRanges t)"

definition GetCardReward :: "failure_card_table \<Rightarrow> u32 \<Rightarrow> failure_card_reward option" where
  "GetCardReward t rewardId = map_of (ft_rewards t) rewardId"

definition GetGradeProbability :: "breeding_registry \<Rightarrow> u32 \<Rightarrow> grade_probability_row" where
  "GetGradeProbability b gradeDistance =
     (if br_gradeProbabilities b = []
      then \<lparr>gp_gradeDistance = 0, gp_minus3 = 0, gp_minus2 = 0, gp_minus1 = 0, gp_plus = []\<rparr>
      else case find (\<lambda>row. gp_gradeDistance row = gradeDistance) (br_gradeProbabilities b) of
             Some row \<Rightarrow> row | None \<Rightarrow> last (br_gradeProbabilities b))"

section \<open>Ancestors\<close>

datatype Part = Part_Skin | Part_Mane | Part_Tail

record ancestry =
  an_mare :: uid
  an_stallion :: uid
  an_grandparents :: "uid list"

definition ReadPart :: "data_director \<Rightarrow> uid \<Rightarrow> Part \<Rightarrow> tid" where
  "ReadPart d horseUid part = (case get_row (dd_horses d) horseUid of
     None \<Rightarrow> 0
   | Some h \<Rightarrow> (case part of Part_Skin \<Rightarrow> hp_skinTid (hi_parts h) | Part_Mane \<Rightarrow> hp_maneTid (hi_parts h)
       | Part_Tail \<Rightarrow> hp_tailTid (hi_parts h)))"

definition read_grandparents :: "data_director \<Rightarrow> uid \<Rightarrow> uid list" where
  "read_grandparents d parentUid = (case get_row (dd_horses d) parentUid of
     None \<Rightarrow> [InvalidUid, InvalidUid] | Some h \<Rightarrow> [hi_mother h, hi_father h])"

definition BuildAncestry :: "data_director \<Rightarrow> uid \<Rightarrow> uid \<Rightarrow> ancestry" where
  "BuildAncestry d mareUid stallionUid = \<lparr>an_mare = mareUid, an_stallion = stallionUid,
     an_grandparents = read_grandparents d mareUid @ read_grandparents d stallionUid\<rparr>"

definition IsAncestryResident :: "data_director \<Rightarrow> uid \<Rightarrow> uid \<Rightarrow> bool" where
  "IsAncestryResident d mareUid stallionUid \<longleftrightarrow>
     list_all (\<lambda>u. u = InvalidUid \<or> get_row (dd_horses d) u \<noteq> None)
       ([mareUid, stallionUid] @ an_grandparents (BuildAncestry d mareUid stallionUid))"

fun donor_loop :: "nat \<Rightarrow> nat \<Rightarrow> uid list \<Rightarrow> uid" where
  "donor_loop percent upper [] = InvalidUid"
| "donor_loop percent upper (g # gs) = (if percent < upper then g else donor_loop percent (upper + 5) gs)"

definition RollInheritedDonor :: "die \<Rightarrow> ancestry \<Rightarrow> uid" where
  "RollInheritedDonor die a =
     (let percent = uniform die 100 in
      if percent < 10 then an_mare a
      else if percent < 20 then an_stallion a
      else donor_loop percent 25 (an_grandparents a))"

definition CalculateLineage :: "data_director \<Rightarrow> tid \<Rightarrow> uid \<Rightarrow> uid \<Rightarrow> u32" where
  "CalculateLineage d foalSkinTid mareUid stallionUid =
     (let a = BuildAncestry d mareUid stallionUid;
          lineage = 1;
          lineage = (if ReadPart d (an_mare a) Part_Skin = foalSkinTid then lineage + 2 else lineage);
          lineage = (if ReadPart d (an_stallion a) Part_Skin = foalSkinTid then lineage + 2 else lineage);
          lineage = fold (\<lambda>g l. if g \<noteq> InvalidUid \<and> ReadPart d g Part_Skin = foalSkinTid then l + 1 else l)
            (an_grandparents a) lineage
      in min lineage 9)"

definition RecalculateLineage :: "data_director \<Rightarrow> uid \<Rightarrow> u32" where
  "RecalculateLineage d horseUid = (case get_row (dd_horses d) horseUid of
     None \<Rightarrow> 0
   | Some h \<Rightarrow> CalculateLineage d (hp_skinTid (hi_parts h)) (hi_mother h) (hi_father h))"

section \<open>Traits\<close>

abbreviation float_half :: u32 where "float_half \<equiv> 0x3F000000"
abbreviation float_1 :: u32 where "float_1 \<equiv> 0x3F800000"
abbreviation float_2 :: u32 where "float_2 \<equiv> 0x40000000"
abbreviation float_30 :: u32 where "float_30 \<equiv> 0x41F00000"
abbreviation float_60 :: u32 where "float_60 \<equiv> 0x42700000"
abbreviation float_100 :: u32 where "float_100 \<equiv> 0x42C80000"
abbreviation float_fifth :: u32 where "float_fifth \<equiv> 0x3E4CCCCD"

definition RollTendency :: "horse_config \<Rightarrow> die \<Rightarrow> u32" where
  "RollTendency cfg die =
     (let tendencies = filter (\<lambda>t. case map_of (hc_breedingRatios cfg) t of Some r \<Rightarrow> r > 0 | None \<Rightarrow> False) [1, 2, 3, 4, 5, 6]
      in PickWeighted die tendencies (map (\<lambda>t. the (map_of (hc_breedingRatios cfg) t)) tendencies) 1)"

definition RollEmblem :: "horse_config \<Rightarrow> die \<Rightarrow> die \<Rightarrow> u32" where
  "RollEmblem cfg tier_die emblem_die =
     (let ratios = filter (\<lambda>(odds, ratio). ratio > 0) (hc_emblemRatios cfg);
          emblems = GetEmblemsByOdds cfg (PickWeighted tier_die (map fst ratios) (map snd ratios) 1)
      in if emblems = [] then 1 else emblems ! uniform emblem_die (length emblems))"

fun offset_loop :: "float_ops \<Rightarrow> u32 \<Rightarrow> u32 \<Rightarrow> int \<Rightarrow> u32 list \<Rightarrow> int" where
  "offset_loop fo percent cumulative i [] = - 3"
| "offset_loop fo percent cumulative i (p # ps) =
     (if fo_less fo percent (fo_add fo cumulative p) then i - 3
      else offset_loop fo percent (fo_add fo cumulative p) (i + 1) ps)"

definition CalculateFoalGrade :: "float_ops \<Rightarrow> breeding_registry \<Rightarrow> die \<Rightarrow> u8 \<Rightarrow> u8 \<Rightarrow> u8" where
  "CalculateFoalGrade fo b die mareGrade stallionGrade =
     (let minGrade = min mareGrade stallionGrade; maxGrade = max mareGrade stallionGrade;
          row = GetGradeProbability b (ucast (maxGrade - minGrade));
          gradeOffset = offset_loop fo (fo_uniform fo (die []) 0 float_100) 0 0
            ([gp_minus3 row, gp_minus2 row, gp_minus1 row] @ gp_plus row)
      in word_of_int (clamp (uint minGrade + gradeOffset) 1 (bp_childGradeLimit (br_params b))))"

definition base_stat :: "die \<Rightarrow> u32 \<Rightarrow> u32 \<Rightarrow> u32" where
  "base_stat die mareStat stallionStat =
     (let avgStat = (mareStat + stallionStat) div 2 in
      if avgStat \<le> 2
      then min (avgStat + of_nat (weighted_roll die
             ([[30, 40, 20, 10], [20, 50, 25, 5], [10, 30, 50, 10]] ! unat avgStat))) 100
      else word_of_int (clamp (sint (avgStat + word_of_int (int (uniform die 7) - 3))) 0 100))"

definition absorb :: "u32 \<Rightarrow> u32 list \<Rightarrow> u32 list" where
  "absorb difference stats =
     (let i = length (takeWhile (\<lambda>x. x \<noteq> Max (set stats)) stats) in stats[i := stats ! i + difference])"

definition fit_stats :: "float_ops \<Rightarrow> u32 \<Rightarrow> u32 list \<Rightarrow> u32 list" where
  "fit_stats fo targetTotal stats =
     (let currentTotal = sum_list stats in
      if currentTotal \<noteq> targetTotal \<and> currentTotal > 0
      then let scaled = map (\<lambda>s. fo_scale fo s targetTotal currentTotal) stats
           in map (\<lambda>s. min s 100) (absorb (targetTotal - sum_list scaled) scaled)
      else stats)"

definition stat_list :: "horse_stats \<Rightarrow> u32 list" where
  "stat_list s = [hs_agility s, hs_courage s, hs_rush s, hs_endurance s, hs_ambition s]"

definition stats_of_list :: "u32 list \<Rightarrow> horse_stats" where
  "stats_of_list xs = \<lparr>hs_agility = xs ! 0, hs_courage = xs ! 1, hs_rush = xs ! 2, hs_endurance = xs ! 3,
     hs_ambition = xs ! 4\<rparr>"

definition target_total :: "die \<Rightarrow> u8 \<Rightarrow> u32" where
  "target_total die targetGrade =
     (let minTotal = (ucast targetGrade - 1) * 10; maxTotal = ucast targetGrade * 10 - 1
      in minTotal + of_nat (uniform die (unat (maxTotal - minTotal) + 1)))"

definition base_stats :: "(nat \<Rightarrow> die) \<Rightarrow> horse_stats \<Rightarrow> horse_stats \<Rightarrow> u32 list" where
  "base_stats dice mareStats stallionStats =
     map (\<lambda>(k, m, s). base_stat (dice k) m s) (zip [0..<5] (zip (stat_list mareStats) (stat_list stallionStats)))"

definition CalculateFoalStats ::
  "float_ops \<Rightarrow> die \<Rightarrow> (nat \<Rightarrow> die) \<Rightarrow> horse_stats \<Rightarrow> horse_stats \<Rightarrow> u8 \<Rightarrow> horse_stats" where
  "CalculateFoalStats fo total_die dice mareStats stallionStats targetGrade =
     stats_of_list (fit_stats fo (target_total total_die targetGrade) (base_stats dice mareStats stallionStats))"

definition inherit_value :: "float_ops \<Rightarrow> u32 \<Rightarrow> die \<Rightarrow> u32 \<Rightarrow> u32 \<Rightarrow> u32" where
  "inherit_value fo spread die mareValue stallionValue =
     (let average = fo_div fo (fo_add fo (fo_of_int fo (uint mareValue)) (fo_of_int fo (uint stallionValue))) float_2;
          variation = fo_uniform fo (die []) (fo_sub fo float_1 spread) (fo_add fo float_1 spread)
      in word_of_int (clamp (fo_lround fo (fo_mul fo average variation)) 0 10))"

definition CalculateFoalAppearance ::
  "float_ops \<Rightarrow> breeding_registry \<Rightarrow> (nat \<Rightarrow> die) \<Rightarrow> horse_appearance \<Rightarrow> horse_appearance \<Rightarrow> horse_appearance" where
  "CalculateFoalAppearance fo b dice m s =
     (let inherit = inherit_value fo (fo_div fo (fo_of_int fo (bp_appearanceVariation (br_params b))) float_100)
      in \<lparr>hpa_scale = inherit (dice 0) (hpa_scale m) (hpa_scale s),
          hpa_legLength = inherit (dice 1) (hpa_legLength m) (hpa_legLength s),
          hpa_legVolume = inherit (dice 2) (hpa_legVolume m) (hpa_legVolume s),
          hpa_bodyLength = inherit (dice 3) (hpa_bodyLength m) (hpa_bodyLength s),
          hpa_bodyVolume = inherit (dice 4) (hpa_bodyVolume m) (hpa_bodyVolume s)\<rparr>)"

definition carries_potential :: "data_director \<Rightarrow> uid \<Rightarrow> int" where
  "carries_potential d u = (case get_row (dd_horses d) u of
     None \<Rightarrow> 0 | Some h \<Rightarrow> if po_type (hi_potential h) > 0 then 1 else 0)"

definition CalculateFoalPotential ::
  "data_director \<Rightarrow> horse_config \<Rightarrow> die \<Rightarrow> die \<Rightarrow> uid \<Rightarrow> uid \<Rightarrow> tid \<Rightarrow> horse_potential" where
  "CalculateFoalPotential d cfg chance_die type_die mareUid stallionUid foalSkinTid =
     (let none = \<lparr>po_type = 0, po_level = 0, po_value = 0\<rparr>;
          tier = co_tier (GetCoatInfo cfg foalSkinTid);
          probability = 5 + (if tier = 3 then 10 else if tier = 2 then 5 else 0)
            + (carries_potential d mareUid + carries_potential d stallionUid) * 10
      in if int (uniform chance_die 100) \<ge> probability then none
         else if hc_potentialTypes cfg = [] then none
         else \<lparr>po_type = ucast (ucast (hc_potentialTypes cfg ! uniform type_die (length (hc_potentialTypes cfg))) :: u8),
               po_level = 1, po_value = 0\<rparr>)"

section \<open>Looks\<close>

definition StallionCoatBonusMultiplier :: "float_ops \<Rightarrow> breeding_registry \<Rightarrow> u32 \<Rightarrow> u32 \<Rightarrow> u32 \<Rightarrow> u32" where
  "StallionCoatBonusMultiplier fo b mareCombo pregnancyChance stallionLineage =
     (let comboBonus = mareCombo * word_of_int (bp_inheritanceRateBonusUnit (br_params b));
          pregnancyBonus = 30 - min pregnancyChance 30;
          lineageBonus = (if stallionLineage > 1 then stallionLineage - 1 else 0);
          totalBonus = min (comboBonus + pregnancyBonus + lineageBonus) 100
      in fo_add fo float_1 (fo_div fo (fo_of_int fo (uint totalBonus)) float_100))"

definition wearable :: "horse_config \<Rightarrow> u8 \<Rightarrow> tid \<Rightarrow> bool" where
  "wearable cfg foalGrade t \<longleftrightarrow> co_minGrade (GetCoatInfo cfg t) \<le> uint foalGrade"

definition random_valid_skin :: "horse_config \<Rightarrow> die \<Rightarrow> u8 \<Rightarrow> tid" where
  "random_valid_skin cfg die foalGrade =
     (let tids = filter (wearable cfg foalGrade) (GetPossibleCoats cfg)
      in PickWeighted die tids (map (\<lambda>t. uint (co_inheritanceRate (GetCoatInfo cfg t))) tids) 1)"

definition CalculateFoalSkin ::
  "data_director \<Rightarrow> float_ops \<Rightarrow> horse_config \<Rightarrow> breeding_registry \<Rightarrow> die \<Rightarrow> die \<Rightarrow> uid \<Rightarrow> uid \<Rightarrow> u8 \<Rightarrow> u32 \<Rightarrow> u32 \<Rightarrow> tid" where
  "CalculateFoalSkin d fo cfg b die random_die mareUid stallionUid foalGrade mareCombo pregnancyChance =
     (let mareSkin = ReadPart d mareUid Part_Skin; stallionSkin = ReadPart d stallionUid Part_Skin in
      if mareSkin = 0 \<or> stallionSkin = 0 then 1
      else
        let stallionLineage = (case get_row (dd_horses d) stallionUid of None \<Rightarrow> 1 | Some h \<Rightarrow> hi_lineage h);
            gpSkins = filter (\<lambda>t. t \<noteq> 0) (map (\<lambda>g. ReadPart d g Part_Skin) (an_grandparents (BuildAncestry d mareUid stallionUid)));
            rate = (\<lambda>t. co_inheritanceRate (GetCoatInfo cfg t));
            mareWeight = rate mareSkin;
            stallionWeight = fo_mul fo (rate stallionSkin)
              (StallionCoatBonusMultiplier fo b mareCombo pregnancyChance stallionLineage);
            gpCount = min (length gpSkins) 4;
            parentWeight = fo_add fo (fo_add fo mareWeight stallionWeight)
              (fo_mul fo float_half (fo_of_int fo (int gpCount)));
            randomWeight = fo_max fo float_30 (fo_sub fo float_60 (fo_mul fo parentWeight float_fifth));
            candidates = [mareSkin, stallionSkin] @ take gpCount gpSkins @ [InvalidTid];
            weights = [mareWeight, stallionWeight] @ replicate gpCount float_half @ [randomWeight];
            chosen = PickWeighted die candidates (map uint weights) InvalidTid
        in if chosen = InvalidTid then random_valid_skin cfg random_die foalGrade
           else if wearable cfg foalGrade chosen then chosen else random_valid_skin cfg random_die foalGrade)"

definition CalculateFoalFace :: "horse_config \<Rightarrow> die \<Rightarrow> tid \<Rightarrow> tid" where
  "CalculateFoalFace cfg die foalSkinTid =
     (let faceTid = GetRandomFaceForCoat cfg (die []) foalSkinTid in if faceTid = InvalidTid then 1 else faceTid)"

definition shape_inheritance :: "horse_config \<Rightarrow> Part \<Rightarrow> (int \<times> int \<times> u32) list" where
  "shape_inheritance cfg part = (if part = Part_Mane then GetManeShapeInheritance cfg else GetTailShapeInheritance cfg)"

definition GetShapeFromTid :: "horse_config \<Rightarrow> tid \<Rightarrow> Part \<Rightarrow> int" where
  "GetShapeFromTid cfg t part = (if part = Part_Mane then hr_shape (GetMane cfg t) else hr_shape (GetTail cfg t))"

text \<open>A shape rolled among those the grade may wear.\<close>

definition roll_shape :: "horse_config \<Rightarrow> die \<Rightarrow> u8 \<Rightarrow> Part \<Rightarrow> int" where
  "roll_shape cfg die foalGrade part =
     (let eligible = filter (\<lambda>(shape, g, rate). g \<le> uint foalGrade) (shape_inheritance cfg part)
      in PickWeighted die (map fst eligible) (map (\<lambda>(shape, g, rate). uint rate) eligible) 0)"

definition ValidateShape :: "horse_config \<Rightarrow> die \<Rightarrow> int \<Rightarrow> u8 \<Rightarrow> Part \<Rightarrow> int" where
  "ValidateShape cfg die shape foalGrade part =
     (if list_ex (\<lambda>(s, g, rate). g \<le> uint foalGrade \<and> s = shape) (shape_inheritance cfg part) then shape
      else roll_shape cfg die foalGrade part)"

definition InheritShape :: "data_director \<Rightarrow> horse_config \<Rightarrow> die \<Rightarrow> die \<Rightarrow> ancestry \<Rightarrow> u8 \<Rightarrow> Part \<Rightarrow> int" where
  "InheritShape d cfg donor_die shape_die a foalGrade part =
     (let donor = RollInheritedDonor donor_die a in
      if donor \<noteq> InvalidUid
      then ValidateShape cfg shape_die (GetShapeFromTid cfg (ReadPart d donor part) part) foalGrade part
      else roll_shape cfg shape_die foalGrade part)"

definition CalculateManeTailGenetics ::
  "data_director \<Rightarrow> horse_config \<Rightarrow> (nat \<Rightarrow> die) \<Rightarrow> uid \<Rightarrow> uid \<Rightarrow> u8 \<Rightarrow> tid \<Rightarrow> tid \<times> tid" where
  "CalculateManeTailGenetics d cfg dice mareUid stallionUid foalGrade foalSkinTid =
     (let a = BuildAncestry d mareUid stallionUid;
          colorGroupId = co_allowedColorGroups (GetCoatInfo cfg foalSkinTid);
          maneShape = InheritShape d cfg (dice 0) (dice 1) a foalGrade Part_Mane;
          tailShape = InheritShape d cfg (dice 2) (dice 3) a foalGrade Part_Tail;
          maneTid = GetRandomManeFromColorAndShape cfg (dice 4 []) colorGroupId maneShape;
          maneTid = (if maneTid = InvalidTid then 1 else maneTid);
          tailTid = FindTailByColorAndShape cfg (hr_color (GetMane cfg maneTid)) tailShape;
          tailTid = (if tailTid = InvalidTid
            then let t = GetRandomTailByColorGroupAndShape cfg (dice 5 []) colorGroupId tailShape
                 in if t = InvalidTid then 1 else t
            else tailTid)
      in (maneTid, tailTid))"

section \<open>Foals\<close>

record parent_info =
  pi_tid :: tid
  pi_grade :: u8
  pi_combo :: u32
  pi_breedingCount :: u32
  pi_stats :: horse_stats
  pi_appearance :: horse_appearance

definition read_parent :: "data_director \<Rightarrow> uid \<Rightarrow> parent_info" where
  "read_parent d u = (case get_row (dd_horses d) u of
     None \<Rightarrow> \<lparr>pi_tid = 0, pi_grade = 0, pi_combo = 0, pi_breedingCount = 0, pi_stats = stats_of_list [0, 0, 0, 0, 0],
       pi_appearance = \<lparr>hpa_scale = 0, hpa_legLength = 0, hpa_legVolume = 0, hpa_bodyLength = 0, hpa_bodyVolume = 0\<rparr>\<rparr>
   | Some h \<Rightarrow> \<lparr>pi_tid = 28000, pi_grade = ucast (hi_grade h), pi_combo = hi_breedingCombo h,
       pi_breedingCount = hi_breedingCount h, pi_stats = hi_stats h, pi_appearance = hi_appearance h\<rparr>)"

text \<open>The grade a foal is meant to have, and the one its stats come to.\<close>

definition target_grade :: "float_ops \<Rightarrow> breeding_registry \<Rightarrow> die \<Rightarrow> u8 \<Rightarrow> u8 \<Rightarrow> u32 \<Rightarrow> u8" where
  "target_grade fo b die mareGrade stallionGrade gradeBonus =
     ucast (min (ucast (CalculateFoalGrade fo b die mareGrade stallionGrade) + gradeBonus)
       (word_of_int (bp_childGradeLimit (br_params b)) :: u32))"

definition grade_of_stats :: "horse_config \<Rightarrow> breeding_registry \<Rightarrow> horse_stats \<Rightarrow> u8" where
  "grade_of_stats cfg b s = ucast (min (GetGradeForStatSum cfg (sint (sum_list (stat_list s))))
     (word_of_int (bp_childGradeLimit (br_params b))))"

definition CreateFoal ::
  "data_director \<Rightarrow> float_ops \<Rightarrow> horse_config \<Rightarrow> breeding_registry \<Rightarrow> (nat \<Rightarrow> nat \<Rightarrow> die) \<Rightarrow> time_point \<Rightarrow> uid \<Rightarrow> uid \<Rightarrow> u32
     \<Rightarrow> horse_info \<Rightarrow> horse_info" where
  "CreateFoal d fo cfg b dice now mareUid stallionUid gradeBonus h =
     (let mare = read_parent d mareUid; stallion = read_parent d stallionUid;
          stats = CalculateFoalStats fo (dice 1 0) (dice 2) (pi_stats mare) (pi_stats stallion)
            (target_grade fo b (dice 0 2) (pi_grade mare) (pi_grade stallion) gradeBonus);
          foalGrade = grade_of_stats cfg b stats;
          foalSkin = CalculateFoalSkin d fo cfg b (dice 3 0) (dice 3 1) mareUid stallionUid foalGrade (pi_combo mare)
            (min (pi_breedingCount stallion) 30);
          (mane, tail) = CalculateManeTailGenetics d cfg (dice 4) mareUid stallionUid foalGrade foalSkin
      in h\<lparr>hi_name := [], hi_type := Type_Foal, hi_dateOfBirth := now, hi_clazz := 1, hi_clazzProgress := 0,
          hi_growthPoints := 0, hi_mountCondition := (hi_mountCondition h)\<lparr>mc_stamina := 4000\<rparr>,
          hi_tid := pi_tid mare, hi_tendency := RollTendency cfg (dice 0 0),
          hi_emblemUid := RollEmblem cfg (dice 0 1) (dice 0 3),
          hi_stats := stats, hi_grade := ucast foalGrade,
          hi_parts := \<lparr>hp_skinTid = foalSkin, hp_faceTid = CalculateFoalFace cfg (dice 5 0) foalSkin,
            hp_maneTid = mane, hp_tailTid = tail\<rparr>,
          hi_appearance := CalculateFoalAppearance fo b (dice 6) (pi_appearance mare) (pi_appearance stallion),
          hi_potential := CalculateFoalPotential d cfg (dice 7 0) (dice 7 1) mareUid stallionUid foalSkin,
          hi_father := stallionUid, hi_mother := mareUid,
          hi_lineage := CalculateLineage d foalSkin mareUid stallionUid\<rparr>)"

section \<open>Stats\<close>

lemma weighted_roll_less: "weights \<noteq> [] \<Longrightarrow> weighted_roll die weights < length weights"
  by (simp add: weighted_roll_def)

lemma uniform_less: "0 < n \<Longrightarrow> uniform die n < n"
  using weighted_roll_less [of "replicate n 1" die] by (simp add: uniform_def)

lemma unat_sum_list:
  fixes xs :: "u32 list"
  shows "sum_list (map unat xs) < 2 ^ 32 \<Longrightarrow> unat (sum_list xs) = sum_list (map unat xs)"
proof (induction xs)
  case (Cons x xs)
  then have "unat (sum_list xs) = sum_list (map unat xs)" by simp
  with Cons.prems show ?case by (simp add: unat_word_ariths)
qed simp

lemma sum_list_le: "(\<And>x. x \<in> set xs \<Longrightarrow> x \<le> (n :: nat)) \<Longrightarrow> sum_list xs \<le> length xs * n"
  by (induction xs) (auto simp: add_mono)

lemma sum_list_member_le: "x \<in> set xs \<Longrightarrow> x \<le> sum_list (xs :: nat list)"
  by (induction xs) auto

lemma clamp_range: "lo \<le> hi \<Longrightarrow> lo \<le> clamp v lo hi \<and> clamp v lo hi \<le> hi"
  by (simp add: clamp_def)

lemma base_stat_le: "unat (base_stat die m s) \<le> 100"
proof (cases "(m + s) div 2 \<le> 2")
  case True
  then show ?thesis by (simp add: base_stat_def Let_def min_def word_le_nat_alt)
next
  case False
  have "unat (word_of_int (clamp v 0 100) :: u32) \<le> 100" for v
    using clamp_range [of 0 100 v] nat_mono [of "clamp v 0 100" 100] by (simp add: unat_eq_nat_uint uint_word_of_int)
  with False show ?thesis by (simp add: base_stat_def Let_def)
qed

lemma length_base_stats [simp]: "length (base_stats dice m s) = 5"
  by (simp add: base_stats_def stat_list_def)

lemma base_stats_le: "x \<in> set (base_stats dice m s) \<Longrightarrow> unat x \<le> 100"
  by (auto simp: base_stats_def base_stat_le)

text \<open>What the code relies on of the double arithmetic, for the stats (at most 100), the targets (below 100) and the sums of
  five stats it computes with: scaling a stat and cutting off the fraction never gives more than the exact quotient. (For
  doubles this holds in this range, where a quotient that is not whole is too far from the next whole number to be rounded up
  to it; it does not hold of arbitrary 32-bit values.)\<close>

definition scales_down :: "float_ops \<Rightarrow> bool" where
  "scales_down fo \<longleftrightarrow> (\<forall>s t c. s \<le> 100 \<longrightarrow> t < 100 \<longrightarrow> 0 < c \<longrightarrow> c \<le> 500 \<longrightarrow>
     unat (fo_scale fo s t c) * unat c \<le> unat s * unat t)"

lemma scaled_sum:
  assumes "scales_down fo" "0 < c" "unat c = sum_list (map unat xs)"
    "\<forall>x \<in> set xs. unat x \<le> 100" "unat t < 100" "unat c \<le> 500"
  shows "sum_list (map (\<lambda>s. unat (fo_scale fo s t c)) xs) \<le> unat t"
proof -
  have one: "unat (fo_scale fo s t c) * unat c \<le> unat s * unat t" if "unat s \<le> 100" for s
    using assms(1,2,5,6) that by (simp add: scales_down_def word_le_nat_alt word_less_nat_alt)
  have "sum_list (map (\<lambda>s. unat (fo_scale fo s t c)) ys) * unat c \<le> sum_list (map unat ys) * unat t"
    if "\<forall>y \<in> set ys. unat y \<le> 100" for ys
    using that one by (induction ys) (auto simp: algebra_simps add_mono)
  from this [OF assms(4)] assms(2,3) show ?thesis by (simp add: word_less_nat_alt mult.commute)
qed

lemma takeWhile_shorter: "x \<in> set xs \<Longrightarrow> \<not> P x \<Longrightarrow> length (takeWhile P xs) < length xs"
  by (induction xs) auto

lemma sum_list_add_at: "i < length xs \<Longrightarrow> sum_list (xs[i := xs ! i + e]) = sum_list xs + (e :: u32)"
  by (induction xs arbitrary: i) (auto simp: nth_Cons algebra_simps split: nat.splits)

lemma sum_list_add_at_nat: "i < length xs \<Longrightarrow> sum_list (xs[i := xs ! i + e]) = sum_list xs + (e :: nat)"
  by (induction xs arbitrary: i) (auto simp: nth_Cons split: nat.splits)

text \<open>What the largest stat absorbs makes the sum what it has to be.\<close>

lemma absorb_sum:
  assumes "xs \<noteq> []" "sum_list (map unat xs) \<le> unat t"
  shows "sum_list (map unat (absorb (t - sum_list xs) xs)) = unat t"
proof -
  define i where "i = length (takeWhile (\<lambda>x. x \<noteq> Max (set xs)) xs)"
  have i: "i < length xs" unfolding i_def by (rule takeWhile_shorter [of "Max (set xs)"]) (use assms(1) in auto)
  have "sum_list (map unat xs) < 2 ^ 32" using assms(2) unsigned_less [of t, where 'a = nat] by simp
  note sum = unat_sum_list [OF this]
  with assms(2) have d: "unat (t - sum_list xs) = unat t - sum_list (map unat xs)"
    by (simp add: unat_sub word_le_nat_alt)
  have "unat (xs ! i) \<le> sum_list (map unat xs)" using i by (intro sum_list_member_le) simp
  moreover have "unat t < 2 ^ 32" using unsigned_less [of t, where 'a = nat] by simp
  ultimately have "unat (xs ! i + (t - sum_list xs)) = unat (xs ! i) + (unat t - sum_list (map unat xs))"
    using d assms(2) by (simp add: unat_word_ariths)
  then have "map unat (absorb (t - sum_list xs) xs)
      = (map unat xs)[i := map unat xs ! i + (unat t - sum_list (map unat xs))]"
    using i by (simp add: absorb_def Let_def map_update i_def [symmetric])
  with i assms(2) sum_list_add_at_nat [of i "map unat xs" "unat t - sum_list (map unat xs)"] show ?thesis by simp
qed

lemma fit_stats_sum:
  assumes "scales_down fo" "xs \<noteq> []" "unat t < 100" "\<forall>x \<in> set xs. unat x \<le> 100"
    "sum_list (map unat xs) \<le> 500" "0 < sum_list (map unat xs)"
  shows "sum_list (map unat (fit_stats fo t xs)) = unat t"
proof (cases "sum_list xs = t")
  case True
  with unat_sum_list [of xs] assms(5) show ?thesis by (simp add: fit_stats_def Let_def)
next
  case False
  define sc where "sc = map (\<lambda>s. fo_scale fo s t (sum_list xs)) xs"
  have c: "unat (sum_list xs) = sum_list (map unat xs)" using unat_sum_list [of xs] assms(5) by simp
  with assms(6) have pos: "0 < sum_list xs" by (simp add: word_less_nat_alt)
  have "sum_list (map unat sc) \<le> unat t" using scaled_sum [OF assms(1) pos c assms(4,3)] c assms(5) by (simp add: sc_def o_def)
  moreover have "sc \<noteq> []" using assms(2) by (simp add: sc_def)
  ultimately have sum: "sum_list (map unat (absorb (t - sum_list sc) sc)) = unat t" by (intro absorb_sum)
  have "unat y \<le> 100" if "y \<in> set (absorb (t - sum_list sc) sc)" for y
    using sum_list_member_le [of "unat y" "map unat (absorb (t - sum_list sc) sc)"] that sum assms(3) by simp
  then have "map (\<lambda>s. min s 100) (absorb (t - sum_list sc) sc) = absorb (t - sum_list sc) sc"
    by (intro map_idI) (simp add: min_def word_le_nat_alt)
  with False pos have "fit_stats fo t xs = absorb (t - sum_list sc) sc"
    by (simp add: fit_stats_def Let_def sc_def)
  with sum show ?thesis by simp
qed

text \<open>C39: For a target grade from 1 to 10, unless all the stats inherited from its parents are zero, a newborn foal's five
  stats add up to a number in the bucket of ten its target grade stands for, so that its grade is the one that was rolled.
  Of the double arithmetic that scales the stats it relies on \<open>scales_down\<close> alone: within the range of the stats it cuts
  a scaled stat off to at most the exact quotient.\<close>

theorem foal_stats_in_bucket:
  assumes "scales_down fo" "1 \<le> g" "g \<le> 10" "base_stats dice m s \<noteq> [0, 0, 0, 0, 0]"
  shows "sum_list (map unat (stat_list (CalculateFoalStats fo die dice m s g))) \<in> {(unat g - 1) * 10 ..< unat g * 10}"
proof -
  let ?xs = "base_stats dice m s" let ?t = "target_total die g"
  have g: "1 \<le> unat g" "unat g \<le> 10" using assms(2,3) by (simp_all add: word_le_nat_alt)
  let ?lo = "(ucast g - 1) * 10 :: u32" let ?hi = "ucast g * 10 - 1 :: u32"
  have "unat g \<in> {1, 2, 3, 4, 5, 6, 7, 8, 9, 10}" using g by (simp, arith)
  then have cases: "g \<in> {1, 2, 3, 4, 5, 6, 7, 8, 9, 10}" by (auto simp: word_unat_eq_iff)
  then have lo: "unat ?lo = (unat g - 1) * 10" by auto
  from cases have hi: "unat ?hi = unat g * 10 - 1" by auto
  have "unat (?hi - ?lo) = 9" using g lo hi by (subst unat_sub) (auto simp: word_le_nat_alt)
  then have t: "?t = ?lo + of_nat (uniform die 10)" by (simp add: target_total_def)
  have "unat ?t = (unat g - 1) * 10 + uniform die 10"
    using g lo uniform_less [of 10 die] by (simp add: t unat_word_ariths unat_of_nat)
  then have bucket: "unat ?t \<in> {(unat g - 1) * 10 ..< unat g * 10}" using uniform_less [of 10 die] g by auto
  have "sum_list (map unat ?xs) \<le> length (map unat ?xs) * 100" by (rule sum_list_le) (auto simp: base_stats_le)
  then have small: "sum_list (map unat ?xs) \<le> 500" by simp
  have each: "\<forall>x \<in> set ?xs. unat x \<le> 100" using base_stats_le by blast
  have "0 < sum_list (map unat ?xs)"
  proof (rule ccontr)
    assume "\<not> ?thesis"
    then have "\<forall>x \<in> set ?xs. x = 0" using sum_list_member_le [of _ "map unat ?xs"] by (fastforce simp: unat_eq_0)
    then have "?xs = replicate 5 0" using replicate_length_same [of ?xs 0] by simp
    with assms(4) show False by (simp add: numeral_eq_Suc)
  qed
  with fit_stats_sum [OF assms(1) _ _ each small, of ?t] bucket g
  have sum: "sum_list (map unat (fit_stats fo ?t ?xs)) = unat ?t" by (auto simp: base_stats_def stat_list_def)
  have "length (fit_stats fo ?t ?xs) = 5" by (simp add: fit_stats_def absorb_def Let_def)
  then obtain a b c d e where "fit_stats fo ?t ?xs = [a, b, c, d, e]"
    by (auto simp: numeral_eq_Suc length_Suc_conv)
  with sum bucket show ?thesis by (simp add: CalculateFoalStats_def stats_of_list_def stat_list_def)
qed

text \<open>Exact arithmetic on naturals scales down.\<close>

definition exact_ops :: float_ops where
  "exact_ops = \<lparr>fo_add = (+), fo_sub = (-), fo_mul = (*), fo_div = (div), fo_less = (<), fo_of_int = word_of_int,
     fo_uniform = (\<lambda>n lo hi. lo), fo_lround = uint,
     fo_scale = (\<lambda>s t c. of_nat (unat s * unat t div unat c))\<rparr>"

lemma exact_scales_down: "scales_down exact_ops"
proof -
  have "unat (of_nat n :: u32) \<le> n" for n by (simp add: unat_of_nat)
  then have "unat (of_nat (a div c) :: u32) * c \<le> a" for a c
    by (meson div_times_less_eq_dividend le_trans mult_le_mono1)
  then show ?thesis by (simp add: scales_down_def exact_ops_def)
qed

lemma foal_stats_in_bucket_witness:
  "sum_list (map unat (stat_list (CalculateFoalStats exact_ops (\<lambda>_. 3) (\<lambda>_ _. 1)
     (stats_of_list [10, 20, 5, 0, 1]) (stats_of_list [12, 8, 5, 2, 0]) 4))) \<in> {30 ..< 40}"
proof -
  have "base_stats (\<lambda>_ _. 1) (stats_of_list [10, 20, 5, 0, 1]) (stats_of_list [12, 8, 5, 2, 0]) \<noteq> [0, 0, 0, 0, 0]"
    by code_simp
  from foal_stats_in_bucket [OF exact_scales_down _ _ this, of 4 "\<lambda>_. 3"] show ?thesis by simp
qed

section \<open>Coat and lineage\<close>

lemma PickWeighted_in:
  assumes "length weights = length vs"
  shows "PickWeighted die vs weights fallback \<in> insert fallback (set vs)"
proof (cases "vs = []")
  case False
  with assms have "weights \<noteq> []" by (metis length_0_conv)
  then have "weighted_roll die weights < length vs" using weighted_roll_less [of weights die] assms by simp
  with False show ?thesis by (simp add: PickWeighted_def)
qed (simp add: PickWeighted_def)

lemma random_valid_skin_wearable: "wearable cfg g (random_valid_skin cfg die g) \<or> random_valid_skin cfg die g = 1"
proof -
  let ?tids = "filter (wearable cfg g) (GetPossibleCoats cfg)"
  have "random_valid_skin cfg die g \<in> insert 1 (set ?tids)"
    unfolding random_valid_skin_def Let_def by (rule PickWeighted_in) simp
  then show ?thesis by auto
qed

lemma skin_wearable:
  "wearable cfg g (CalculateFoalSkin d fo cfg b die random_die mareUid stallionUid g mareCombo pregnancyChance)
   \<or> CalculateFoalSkin d fo cfg b die random_die mareUid stallionUid g mareCombo pregnancyChance = 1"
  using random_valid_skin_wearable [of cfg g random_die] by (auto simp: CalculateFoalSkin_def Let_def)

lemma narrow_again [simp]: "ucast (ucast (x :: u8) :: u32) = x"
  by transfer (simp add: take_bit_take_bit)

text \<open>C40: A foal never wears a coat that is above its grade, whatever its ancestors wear: a coat it would inherit but may
  not wear is replaced by a random one it may, or by Chestnut where no coat is configured for its grade.\<close>

theorem foal_coat_wearable:
  "hp_skinTid (hi_parts (CreateFoal d fo cfg b dice now mareUid stallionUid gradeBonus h))
     \<in> insert 1 {t. wearable cfg (ucast (hi_grade (CreateFoal d fo cfg b dice now mareUid stallionUid gradeBonus h))) t}"
  by (auto simp: CreateFoal_def Let_def split: prod.splits) (metis skin_wearable)

lemma lineage_range: "1 \<le> CalculateLineage d t m s \<and> CalculateLineage d t m s \<le> 9"
proof -
  have step: "unat l \<le> n \<Longrightarrow> 1 \<le> unat l \<Longrightarrow> n + length gs < 2 ^ 32 \<Longrightarrow>
      1 \<le> unat (fold (\<lambda>g l. if P g then l + 1 else l) gs l)" for P n and l :: u32 and gs :: "uid list"
  proof (induction gs arbitrary: l n)
    case (Cons g gs)
    have "unat (l + 1) = unat l + 1" using Cons.prems by (simp add: unat_word_ariths)
    with Cons.prems Cons.IH [of "l + 1" "Suc n"] Cons.IH [of l n] show ?case by simp
  qed simp
  show ?thesis
    unfolding CalculateLineage_def Let_def
    by (auto simp: word_le_nat_alt min_def BuildAncestry_def read_grandparents_def intro!: step [of _ 5]
      split: option.splits)
qed

end
