(* ===== verification/Player_Systems.thy ===== *)
theory Player_Systems imports Genetics begin

text \<open>
  The systems of \<open>server/system\<close> that look after the records of players: \<open>QuestSystem\<close>, \<open>RewardSystem\<close>,
  \<open>HorseSystem\<close>, \<open>InfractionSystem\<close> and \<open>ModerationSystem\<close>.

  \<^item> They act on the records of the data director. The clock is an argument.
  \<^item> Dereferencing the infractions of a user when they are not all available, which is undefined in the code, is an error here.
  \<^item> A mode flag of a quest is its number. Its function is the enumeration of the code.
\<close>

section \<open>Daily quests\<close>

datatype quest_function =
    F_Unknown | F_True | F_RunMap | F_TeamWin | F_PerfectJump | F_FireballAttack | F_CollectDropItem
  | F_GlidingDistanceValue | F_ClearMission | F_PrizeWinnerForLowLevel | F_PrizeWinnerInMapForLowLevel

datatype QuestEvent =
    Event_Any | Event_PrizeWinner | Event_PerfectJump | Event_FireballAttack | Event_RunMap | Event_TeamWin
  | Event_GlidingDistance | Event_CollectDropItem

record quest_info =
  qi_gameModeFlag :: u32
  qi_successValue :: u32
  qi_function :: quest_function
  qi_functionValue :: u32
  qi_rewardId :: u32
  qi_rewardExp :: u32
  qi_rewardGameMoney :: u32
  qi_rewardPoint :: u32

abbreviation Flag_None :: u32 where "Flag_None \<equiv> 0"
abbreviation Flag_SpeedTeam :: u32 where "Flag_SpeedTeam \<equiv> 2"
abbreviation Flag_MagicTeam :: u32 where "Flag_MagicTeam \<equiv> 8"
abbreviation Flag_SpeedSoloAction :: u32 where "Flag_SpeedSoloAction \<equiv> 35"
abbreviation Flag_MagicSoloAction :: u32 where "Flag_MagicSoloAction \<equiv> 76"
abbreviation Flag_Any :: u32 where "Flag_Any \<equiv> 111"

definition IsModeMatch :: "u32 \<Rightarrow> u32 \<Rightarrow> bool" where
  "IsModeMatch questFlag eventMode \<longleftrightarrow> questFlag = Flag_None \<or> questFlag = Flag_Any \<or> questFlag = eventMode"

definition ToGameModeFlag :: "u8 \<Rightarrow> u8 \<Rightarrow> u32" where
  "ToGameModeFlag gameMode teamMode =
     (let isTeam = (teamMode = Teams_Team) in
      if gameMode = Mode_Speed_Race then (if isTeam then Flag_SpeedTeam else Flag_SpeedSoloAction)
      else if gameMode = Mode_Magic_Race then (if isTeam then Flag_MagicTeam else Flag_MagicSoloAction)
      else Flag_None)"

fun IsEventMatch :: "quest_function \<Rightarrow> QuestEvent \<Rightarrow> u32 \<Rightarrow> u32 \<Rightarrow> bool" where
  "IsEventMatch f Event_Any qv v = (f = F_True)"
| "IsEventMatch f Event_PrizeWinner qv v = (f = F_PrizeWinnerForLowLevel \<or> f = F_PrizeWinnerInMapForLowLevel)"
| "IsEventMatch f Event_PerfectJump qv v = (f = F_PerfectJump)"
| "IsEventMatch f Event_FireballAttack qv v = (f = F_FireballAttack)"
| "IsEventMatch f Event_RunMap qv v = (f = F_RunMap \<and> qv = v)"
| "IsEventMatch f Event_TeamWin qv v = (f = F_TeamWin)"
| "IsEventMatch f Event_GlidingDistance qv v = (f = F_GlidingDistanceValue)"
| "IsEventMatch f Event_CollectDropItem qv v = (f = F_CollectDropItem)"

abbreviation Reward_Carrots :: u8 where "Reward_Carrots \<equiv> 1"
abbreviation Reward_Exp :: u8 where "Reward_Exp \<equiv> 2"

record quest_notify =
  qn_characterUid :: uid
  qn_questId :: u16
  qn_isCompleted :: bool
  qn_progress :: u32
  qn_carrotsReward :: u32
  qn_rewardType :: u8
  qn_mountExp :: u32

text \<open>What the event does to one of the three quests, and what it tells the player.\<close>

definition quest_step ::
  "(u32, quest_info) umap \<Rightarrow> uid \<Rightarrow> QuestEvent \<Rightarrow> u32 \<Rightarrow> u32 \<Rightarrow> u8 \<Rightarrow> daily_quest_entry
     \<Rightarrow> daily_quest_entry \<times> quest_notify option" where
  "quest_step quests characterUid event gameMode v groupReward e =
     (case map_of quests (ucast (dqe_questId e)) of
        None \<Rightarrow> (e, None)
      | Some q \<Rightarrow>
          if dqe_questId e = 0 \<or> dqe_progress e \<ge> qi_successValue q
             \<or> \<not> IsModeMatch (qi_gameModeFlag q) gameMode
             \<or> \<not> IsEventMatch (qi_function q) event (qi_functionValue q) v
          then (e, None)
          else
            let progress = min (dqe_progress e + 1) (qi_successValue q);
                completed = (progress \<ge> qi_successValue q);
                rewardType = (if completed then groupReward else 0)
            in (e\<lparr>dqe_progress := progress\<rparr>,
                Some \<lparr>qn_characterUid = characterUid, qn_questId = dqe_questId e, qn_isCompleted = completed,
                  qn_progress = progress,
                  qn_carrotsReward = (if rewardType = Reward_Carrots then qi_rewardGameMoney q else 0),
                  qn_rewardType = rewardType, qn_mountExp = (if rewardType = Reward_Exp then qi_rewardExp q else 0)\<rparr>))"

definition OnQuestEvent ::
  "(u32, quest_info) umap \<Rightarrow> uid \<Rightarrow> QuestEvent \<Rightarrow> u32 \<Rightarrow> u32 \<Rightarrow> data_director \<Rightarrow> quest_notify list \<times> data_director" where
  "OnQuestEvent quests characterUid event gameMode v d =
     (case get_row (dd_characters d) characterUid of
        None \<Rightarrow> ([], d)
      | Some c \<Rightarrow>
          case get_row (dd_dailyQuestGroups d) (ci_dailyQuestGroupUid c) of
            None \<Rightarrow> ([], d)
          | Some g \<Rightarrow>
              let steps = map (quest_step quests characterUid event gameMode v (dq_rewardType g)) (dq_quests g)
              in (List.map_filter snd steps,
                  d\<lparr>dd_dailyQuestGroups := put_row (ci_dailyQuestGroupUid c) (g\<lparr>dq_quests := map fst steps\<rparr>)
                      (dd_dailyQuestGroups d)\<rparr>))"

section \<open>Rewards\<close>

definition CreateReward :: "time_point \<Rightarrow> uid \<Rightarrow> RewardType \<Rightarrow> u32 \<Rightarrow> data_director \<Rightarrow> uid \<times> data_director" where
  "CreateReward now characterUid rtype carrots d =
     (case create_row (\<lambda>u. \<lparr>rw_claimUid = u, rw_characterUid = characterUid, rw_type = rtype, rw_carrots = carrots,
             rw_isClaimed = False, rw_createdAt = now, rw_claimedAt = 0\<rparr>) (dd_rewards d) of
        (None, t) \<Rightarrow> (InvalidUid, d\<lparr>dd_rewards := t\<rparr>)
      | (Some u, t) \<Rightarrow> (u, d\<lparr>dd_rewards := t\<rparr>))"

definition ClaimReward :: "time_point \<Rightarrow> uid \<Rightarrow> uid \<Rightarrow> data_director \<Rightarrow> bool \<times> data_director" where
  "ClaimReward now claimUid characterUid d =
     (if claimUid = InvalidUid \<or> characterUid = InvalidUid then (False, d)
      else case get_row (dd_rewards d) claimUid of
        None \<Rightarrow> (False, d)
      | Some r \<Rightarrow>
          if rw_isClaimed r \<or> rw_characterUid r \<noteq> characterUid then (False, d)
          else
            let finish = (\<lambda>d. d\<lparr>dd_rewards := put_row claimUid (r\<lparr>rw_isClaimed := True, rw_claimedAt := now\<rparr>)
                  (dd_rewards d)\<rparr>) in
            if rw_carrots r > 0
            then case get_row (dd_characters d) characterUid of
                   None \<Rightarrow> (False, d)
                 | Some c \<Rightarrow> (True, finish (d\<lparr>dd_characters := put_row characterUid
                     (c\<lparr>ci_carrots := ci_carrots c + rw_carrots r\<rparr>) (dd_characters d)\<rparr>))
            else (True, finish d))"

section \<open>Horses\<close>

definition FoalGrowUpDuration :: int where "FoalGrowUpDuration = hours 1"

fun promote_loop ::
  "time_point \<Rightarrow> uid list \<Rightarrow> (uid, time_point) umap \<Rightarrow> data_director \<Rightarrow> (uid, time_point) umap \<times> data_director" where
  "promote_loop now [] maturing d = (maturing, d)"
| "promote_loop now (u # us) maturing d =
     (case get_row (dd_horses d) u of
        None \<Rightarrow> promote_loop now us maturing d
      | Some h \<Rightarrow>
          if hi_type h \<noteq> Type_Foal then promote_loop now us maturing d
          else if now \<ge> hi_dateOfBirth h + FoalGrowUpDuration
          then promote_loop now us maturing (d\<lparr>dd_horses := put_row u (h\<lparr>hi_type := Type_Adult\<rparr>) (dd_horses d)\<rparr>)
          else promote_loop now us
            (if has_key maturing u then maturing else umap_put u (hi_dateOfBirth h + FoalGrowUpDuration) maturing) d)"

definition PromoteMaturedFoals :: "time_point \<Rightarrow> uid \<Rightarrow> data_director \<Rightarrow> (uid, time_point) umap \<times> data_director" where
  "PromoteMaturedFoals now characterUid d = (case get_row (dd_characters d) characterUid of
     None \<Rightarrow> ([], d) | Some c \<Rightarrow> promote_loop now (ci_horses c) [] d)"

definition repair_one :: "uid \<Rightarrow> nat \<times> data_director \<Rightarrow> nat \<times> data_director" where
  "repair_one u st = (case st of (n, d) \<Rightarrow>
     (case get_row (dd_horses d) u of
        None \<Rightarrow> (n, d)
      | Some h \<Rightarrow>
          if RecalculateLineage d u \<le> hi_lineage h then (n, d)
          else (n + 1, d\<lparr>dd_horses := put_row u (h\<lparr>hi_lineage := RecalculateLineage d u\<rparr>) (dd_horses d)\<rparr>)))"

definition RepairLineages :: "uid \<Rightarrow> data_director \<Rightarrow> nat \<times> data_director" where
  "RepairLineages characterUid d = (case get_row (dd_characters d) characterUid of
     None \<Rightarrow> (0, d) | Some c \<Rightarrow> fold repair_one (ci_horses c @ [ci_mountUid c]) (0, d))"

section \<open>Infractions\<close>

record punishment_verdict =
  pv_preventServerJoining :: bool
  pv_mute_active :: bool
  pv_mute_expiresAt :: time_point

text \<open>A duration of \<open>seconds::max()\<close> never ends.\<close>

definition seconds_max :: int where "seconds_max = 2 ^ 63 - 1"

text \<open>\<open>createdAt + duration\<close> in nanoseconds of 64 bits.\<close>

definition expires_at :: "infraction \<Rightarrow> time_point" where
  "expires_at i = sint (word_of_int (if_createdAt i + seconds (if_duration i)) :: u64)"

definition punish :: "time_point \<Rightarrow> infraction \<Rightarrow> punishment_verdict \<Rightarrow> punishment_verdict" where
  "punish now i v =
     (if if_duration i \<noteq> seconds_max \<and> expires_at i < now then v
      else case if_punishment i of
        Punishment_Mute \<Rightarrow> v\<lparr>pv_mute_active := True, pv_mute_expiresAt := expires_at i\<rparr>
      | Punishment_Ban \<Rightarrow> v\<lparr>pv_preventServerJoining := True\<rparr>
      | Punishment_None \<Rightarrow> v)"

definition CheckOutstandingPunishments :: "time_point \<Rightarrow> bytes \<Rightarrow> data_director \<Rightarrow> exn + punishment_verdict" where
  "CheckOutstandingPunishments now userName d =
     (case map_of (dd_users d) userName of
        None \<Rightarrow> Inl (RuntimeError ''Couldn't check outstanding infractions, user not available'')
      | Some u \<Rightarrow>
          (case get_rows (dd_infractions d) (us_infractions u) of
             None \<Rightarrow> Inl BadOptionalAccess
           | Some is \<Rightarrow> Inr (fold (punish now) is
               \<lparr>pv_preventServerJoining = False, pv_mute_active = False, pv_mute_expiresAt = 0\<rparr>)))"

section \<open>Moderation\<close>

text \<open>\<open>match\<close> is the regular expression search of the standard library.\<close>

definition Moderate :: "('r \<Rightarrow> bytes \<Rightarrow> bool) \<Rightarrow> (bool \<times> 'r) list \<Rightarrow> bytes \<Rightarrow> bool" where
  "Moderate match words input = list_ex (\<lambda>(isPrevented, regex). match regex input \<and> isPrevented) words"

section \<open>Daily quests pay once\<close>

definition satisfied :: "(u32, quest_info) umap \<Rightarrow> daily_quest_entry \<Rightarrow> bool" where
  "satisfied quests e \<longleftrightarrow> (case map_of quests (ucast (dqe_questId e)) of
     None \<Rightarrow> True | Some q \<Rightarrow> dqe_progress e \<ge> qi_successValue q)"

definition completes :: "u16 \<Rightarrow> quest_notify option \<Rightarrow> bool" where
  "completes k n \<longleftrightarrow> (case n of None \<Rightarrow> False | Some n \<Rightarrow> qn_isCompleted n \<and> qn_questId n = k)"

definition open_quests :: "(u32, quest_info) umap \<Rightarrow> u16 \<Rightarrow> daily_quest_entry list \<Rightarrow> nat" where
  "open_quests quests k es = length (filter (\<lambda>e. dqe_questId e = k \<and> \<not> satisfied quests e) es)"

lemma quest_step_open:
  "(if completes k (snd (quest_step quests u ev m v r e)) then 1 else 0)
     + open_quests quests k [fst (quest_step quests u ev m v r e)] \<le> open_quests quests k [e]"
  by (auto simp: quest_step_def completes_def open_quests_def satisfied_def Let_def split: option.splits)

lemma completed_notifies:
  "length (filter (\<lambda>n. qn_isCompleted n \<and> qn_questId n = k) (List.map_filter snd ss))
     = length (filter (completes k) (map snd ss))"
  by (induction ss) (auto simp: List.map_filter_def completes_def split: option.splits)

lemma quest_steps_open:
  "length (filter (\<lambda>n. qn_isCompleted n \<and> qn_questId n = k)
       (List.map_filter snd (map (quest_step quests u ev m v r) es)))
     + open_quests quests k (map fst (map (quest_step quests u ev m v r) es)) \<le> open_quests quests k es"
  unfolding completed_notifies
proof (induction es)
  case (Cons e es)
  then show ?case using quest_step_open [of k quests u ev m v r e] by (auto simp: open_quests_def split: if_splits)
qed (simp add: open_quests_def)

text \<open>A sequence of events of one character: all it is told.\<close>

fun quest_run ::
  "(u32, quest_info) umap \<Rightarrow> uid \<Rightarrow> (QuestEvent \<times> u32 \<times> u32) list \<Rightarrow> data_director \<Rightarrow> quest_notify list \<times> data_director" where
  "quest_run quests u [] d = ([], d)"
| "quest_run quests u ((ev, m, v) # evs) d =
     (case OnQuestEvent quests u ev m v d of (ns, d) \<Rightarrow>
        case quest_run quests u evs d of (ns', d) \<Rightarrow> (ns @ ns', d))"

lemma quest_run_open:
  assumes "get_row (dd_characters d) u = Some c" "get_row (dd_dailyQuestGroups d) (ci_dailyQuestGroupUid c) = Some g"
  shows "length (filter (\<lambda>n. qn_isCompleted n \<and> qn_questId n = k) (fst (quest_run quests u evs d)))
    \<le> open_quests quests k (dq_quests g)"
  using assms
proof (induction evs arbitrary: d g)
  case (Cons e evs)
  obtain ev m v where e: "e = (ev, m, v)" by (cases e)
  let ?ss = "map (quest_step quests u ev m v (dq_rewardType g)) (dq_quests g)" let ?g = "g\<lparr>dq_quests := map fst ?ss\<rparr>"
  let ?d = "d\<lparr>dd_dailyQuestGroups := put_row (ci_dailyQuestGroupUid c) ?g (dd_dailyQuestGroups d)\<rparr>"
  have "ci_dailyQuestGroupUid c \<noteq> InvalidUid" using Cons.prems(2) by (auto simp: get_row_def)
  then have "length (filter (\<lambda>n. qn_isCompleted n \<and> qn_questId n = k) (fst (quest_run quests u evs ?d)))
      \<le> open_quests quests k (dq_quests ?g)" using Cons.prems by (intro Cons.IH) simp_all
  moreover have "OnQuestEvent quests u ev m v d = (List.map_filter snd ?ss, ?d)"
    using Cons.prems by (simp add: OnQuestEvent_def Let_def)
  ultimately show ?case
    using quest_steps_open [of k quests u ev m v "dq_rewardType g" "dq_quests g"]
    by (cases "quest_run quests u evs ?d") (simp add: e)
qed simp

text \<open>C37: A daily quest is reported complete, which is what its reward is paid for, at most once, whatever events of whatever
  kinds and modes follow each other, as long as the three quests of the player's group are different ones.\<close>

theorem quest_completes_once:
  assumes "get_row (dd_characters d) u = Some c" "get_row (dd_dailyQuestGroups d) (ci_dailyQuestGroupUid c) = Some g"
    and "distinct (map dqe_questId (dq_quests g))"
  shows "length (filter (\<lambda>n. qn_isCompleted n \<and> qn_questId n = k) (fst (quest_run quests u evs d))) \<le> 1"
proof -
  have "length (filter (\<lambda>e. dqe_questId e = k \<and> P e) es) \<le> 1" if "distinct (map dqe_questId es)" for P and es :: "daily_quest_entry list"
    using that
  proof (induction es)
    case (Cons e es)
    then have "\<forall>x \<in> set es. dqe_questId e \<noteq> dqe_questId x" by (simp add: image_iff)
    then have "dqe_questId e = k \<Longrightarrow> filter (\<lambda>e. dqe_questId e = k \<and> P e) es = []" by (auto simp: filter_empty_conv)
    with Cons show ?case by auto
  qed simp
  from this [OF assms(3)] quest_run_open [OF assms(1,2), of k quests evs] show ?thesis
    unfolding open_quests_def by (rule order_trans [rotated])
qed

definition quest_group :: daily_quest_group where
  "quest_group = \<lparr>dq_uid = 3, dq_rewardId = 1, dq_rewardType = Reward_Carrots, dq_rewardPoints = 0, dq_carrotsClaimed = False,
     dq_quests = [\<lparr>dqe_questId = 5, dqe_progress = 0\<rparr>, \<lparr>dqe_questId = 6, dqe_progress = 0\<rparr>, \<lparr>dqe_questId = 0, dqe_progress = 0\<rparr>]\<rparr>"

definition quest_player :: data_director where
  "quest_player = empty_director\<lparr>
     dd_characters := put_row 2 (default_character\<lparr>ci_uid := 2, ci_dailyQuestGroupUid := 3\<rparr>) empty_table,
     dd_dailyQuestGroups := put_row 3 quest_group empty_table\<rparr>"

definition jump_quest :: quest_info where
  "jump_quest = \<lparr>qi_gameModeFlag = Flag_None, qi_successValue = 2, qi_function = F_PerfectJump, qi_functionValue = 0,
     qi_rewardId = 1, qi_rewardExp = 0, qi_rewardGameMoney = 500, qi_rewardPoint = 10\<rparr>"

lemma quest_completes_once_witness:
  "length (filter (\<lambda>n. qn_isCompleted n \<and> qn_questId n = 5)
     (fst (quest_run [(5, jump_quest)] 2 (replicate 4 (Event_PerfectJump, Flag_Any, 0)) quest_player))) \<le> 1"
  by (rule quest_completes_once [where c = "default_character\<lparr>ci_uid := 2, ci_dailyQuestGroupUid := 3\<rparr>" and g = quest_group])
    (simp_all add: quest_player_def empty_table_def get_row_def put_row_def umap_put_def quest_group_def)

section \<open>Rewards are paid once\<close>

fun claim_run :: "(time_point \<times> uid \<times> uid) list \<Rightarrow> data_director \<Rightarrow> (uid \<times> bool) list" where
  "claim_run [] d = []"
| "claim_run ((now, k, u) # tries) d = (k, fst (ClaimReward now k u d)) # claim_run tries (snd (ClaimReward now k u d))"

definition claimed :: "uid \<Rightarrow> data_director \<Rightarrow> bool" where
  "claimed k d \<longleftrightarrow> (case get_row (dd_rewards d) k of None \<Rightarrow> False | Some r \<Rightarrow> rw_isClaimed r)"

lemma claim_marks: "fst (ClaimReward now k u d) \<Longrightarrow> \<not> claimed k d \<and> claimed k (snd (ClaimReward now k u d))"
  by (auto simp: ClaimReward_def claimed_def Let_def split: option.splits if_splits)

lemma claim_keeps: "claimed k d \<Longrightarrow> claimed k (snd (ClaimReward now k' u d))"
  by (auto simp: ClaimReward_def claimed_def Let_def split: option.splits if_splits)

lemma claim_run_claimed: "claimed k d \<Longrightarrow> filter (\<lambda>(k', paid). k' = k \<and> paid) (claim_run tries d) = []"
proof (induction tries d rule: claim_run.induct)
  case (2 now k' u tries d)
  with claim_keeps [OF 2(2), of now k' u] claim_marks [of now k u d] show ?case by auto
qed simp

text \<open>C38: A reward is paid at most once, whoever claims it how often and whichever other rewards are claimed in between.\<close>

theorem reward_paid_once: "length (filter (\<lambda>(k', paid). k' = k \<and> paid) (claim_run tries d)) \<le> 1"
proof (induction tries d rule: claim_run.induct)
  case (2 now k' u tries d)
  with claim_marks [of now k u d] claim_run_claimed [of k] show ?case by auto
qed simp

section \<open>Lineages and foals\<close>

lemma get_row_uid: "get_row t u = Some x \<Longrightarrow> u \<noteq> InvalidUid"
  by (auto simp: get_row_def)

text \<open>The parts of the records of the horses that a lineage is calculated from.\<close>

definition same_tree :: "data_director \<Rightarrow> data_director \<Rightarrow> bool" where
  "same_tree d d' \<longleftrightarrow> (\<forall>u.
     map_option (\<lambda>h. (hp_skinTid (hi_parts h), hi_mother h, hi_father h)) (get_row (dd_horses d') u)
       = map_option (\<lambda>h. (hp_skinTid (hi_parts h), hi_mother h, hi_father h)) (get_row (dd_horses d) u))"

lemma same_tree_refl [simp]: "same_tree d d"
  by (simp add: same_tree_def)

lemma same_tree_trans: "same_tree d d' \<Longrightarrow> same_tree d' d'' \<Longrightarrow> same_tree d d''"
  by (simp add: same_tree_def)

lemma same_tree_lineage:
  assumes "same_tree d d'"
  shows "RecalculateLineage d' u = RecalculateLineage d u"
proof -
  have skin: "ReadPart d' v Part_Skin = ReadPart d v Part_Skin" for v
    using assms unfolding same_tree_def
    by (elim allE [of _ v]) (auto simp: ReadPart_def split: option.splits)
  have grand: "read_grandparents d' v = read_grandparents d v" for v
    using assms unfolding same_tree_def
    by (elim allE [of _ v]) (auto simp: read_grandparents_def split: option.splits)
  have "CalculateLineage d' t m f = CalculateLineage d t m f" for t m f
    by (simp add: CalculateLineage_def BuildAncestry_def skin grand)
  then show ?thesis
    using assms unfolding same_tree_def
    by (elim allE [of _ u]) (auto simp: RecalculateLineage_def split: option.splits)
qed

definition repaired :: "data_director \<Rightarrow> uid \<Rightarrow> bool" where
  "repaired d u \<longleftrightarrow> (case get_row (dd_horses d) u of None \<Rightarrow> True | Some h \<Rightarrow> RecalculateLineage d u \<le> hi_lineage h)"

lemma repair_one:
  assumes "repair_one u (n, d) = (n', d')"
  shows "same_tree d d'" "dd_characters d' = dd_characters d" "repaired d' u" "repaired d v \<Longrightarrow> repaired d' v"
proof -
  show tree: "same_tree d d'" using assms by (auto simp: repair_one_def same_tree_def split: option.splits if_splits)
  show "dd_characters d' = dd_characters d" using assms by (auto simp: repair_one_def split: option.splits if_splits)
  show "repaired d' u" "repaired d v \<Longrightarrow> repaired d' v"
    using assms same_tree_lineage [OF tree]
    by (auto simp: repair_one_def repaired_def dest: get_row_uid split: option.splits if_splits)
qed

lemma repair_all:
  assumes "fold repair_one us (n, d) = (n', d')"
  shows "dd_characters d' = dd_characters d \<and> (\<forall>u. u \<in> set us \<or> repaired d u \<longrightarrow> repaired d' u)"
  using assms
proof (induction us arbitrary: n d)
  case (Cons u us)
  obtain n1 d1 where 1: "repair_one u (n, d) = (n1, d1)" by fastforce
  with Cons.prems have "fold repair_one us (n1, d1) = (n', d')" by simp
  from Cons.IH [OF this] repair_one [OF 1] show ?case by auto
qed simp

lemma repaired_idle: "\<forall>u \<in> set us. repaired d u \<Longrightarrow> fold repair_one us (n, d) = (n, d)"
  by (induction us) (auto simp: repair_one_def repaired_def split: option.splits)

text \<open>Repairing the lineages of a character's horses settles them: repairing them again right after finds nothing to
  repair and changes nothing.\<close>

theorem RepairLineages_idempotent: "RepairLineages u (snd (RepairLineages u d)) = (0, snd (RepairLineages u d))"
proof (cases "get_row (dd_characters d) u")
  case (Some c)
  obtain n d' where r: "fold repair_one (ci_horses c @ [ci_mountUid c]) (0, d) = (n, d')" by fastforce
  from repair_all [OF r] Some have "get_row (dd_characters d') u = Some c" "\<forall>v \<in> set (ci_horses c @ [ci_mountUid c]). repaired d' v"
    by auto
  with repaired_idle [of _ d' 0] r Some show ?thesis by (simp add: RepairLineages_def del: fold_append)
qed (simp add: RepairLineages_def)

text \<open>A foal of which it is time.\<close>

definition grown :: "time_point \<Rightarrow> horse_info \<Rightarrow> horse_info" where
  "grown now h = (if hi_type h = Type_Foal \<and> now \<ge> hi_dateOfBirth h + FoalGrowUpDuration then h\<lparr>hi_type := Type_Adult\<rparr> else h)"

lemma promote_loop_horses:
  "get_row (dd_horses (snd (promote_loop now us m d))) u =
     map_option (if u \<in> set us then grown now else id) (get_row (dd_horses d) u)"
proof (induction now us m d rule: promote_loop.induct)
  case (2 now v us m d)
  show ?case
  proof (cases "get_row (dd_horses d) v")
    case None
    with 2(1) show ?thesis by (cases "u = v") auto
  next
    case (Some h)
    note v = get_row_uid [OF Some]
    consider "hi_type h \<noteq> Type_Foal" | "hi_type h = Type_Foal" "now \<ge> hi_dateOfBirth h + FoalGrowUpDuration"
      | "hi_type h = Type_Foal" "\<not> now \<ge> hi_dateOfBirth h + FoalGrowUpDuration" by blast
    then show ?thesis
    proof cases
      case 1
      with 2(2) Some show ?thesis by (cases "u = v") (auto simp: grown_def)
    next
      case 2
      with "2.IH"(3) Some v show ?thesis by (cases "u = v") (auto simp: grown_def)
    next
      case 3
      with 2(4) Some show ?thesis by (cases "u = v") (auto simp: grown_def)
    qed
  qed
qed (simp add: option.map_ident)

lemma promote_loop_maturing:
  "map_of (fst (promote_loop now us m d)) u =
     (case map_of m u of Some t \<Rightarrow> Some t
      | None \<Rightarrow> (case get_row (dd_horses d) u of
          None \<Rightarrow> None
        | Some h \<Rightarrow> if u \<in> set us \<and> hi_type h = Type_Foal \<and> now < hi_dateOfBirth h + FoalGrowUpDuration
            then Some (hi_dateOfBirth h + FoalGrowUpDuration) else None))"
proof (induction now us m d rule: promote_loop.induct)
  case (1 now m d)
  then show ?case by (auto split: option.splits)
next
  case (2 now v us m d)
  show ?case
  proof (cases "get_row (dd_horses d) v")
    case None
    with 2(1) show ?thesis by (cases "u = v") (auto split: option.splits)
  next
    case (Some h)
    note v = get_row_uid [OF Some]
    consider "hi_type h \<noteq> Type_Foal" | "hi_type h = Type_Foal" "now \<ge> hi_dateOfBirth h + FoalGrowUpDuration"
      | "hi_type h = Type_Foal" "\<not> now \<ge> hi_dateOfBirth h + FoalGrowUpDuration" by blast
    then show ?thesis
    proof cases
      case 1
      with 2(2) Some show ?thesis by (cases "u = v") (auto split: option.splits)
    next
      case 2
      with "2.IH"(3) Some v show ?thesis by (cases "u = v") (auto split: option.splits)
    next
      case 3
      with 2(4) Some show ?thesis by (cases "u = v") (auto split: option.splits)
    qed
  qed
qed

text \<open>Looking after the foals of a character turns exactly those of its horses into adults that are foals of at least an
  hour, and reports of every younger foal when it will be one, and of no other horse.\<close>

theorem PromoteMaturedFoals_grows:
  assumes "get_row (dd_characters d) c = Some ch"
  shows "get_row (dd_horses (snd (PromoteMaturedFoals now c d))) u
      = map_option (if u \<in> set (ci_horses ch) then grown now else id) (get_row (dd_horses d) u)
    \<and> (map_of (fst (PromoteMaturedFoals now c d)) u = Some t \<longleftrightarrow>
        u \<in> set (ci_horses ch) \<and> (\<exists>h. get_row (dd_horses d) u = Some h \<and> hi_type h = Type_Foal
          \<and> now < t \<and> t = hi_dateOfBirth h + FoalGrowUpDuration))"
  using assms by (auto simp: PromoteMaturedFoals_def promote_loop_horses promote_loop_maturing split: option.splits if_splits)

definition ranch_of_two :: data_director where
  "ranch_of_two = empty_director\<lparr>
     dd_characters := put_row 2 (default_character\<lparr>ci_uid := 2, ci_horses := [8, 9]\<rparr>) empty_table,
     dd_horses := put_row 8 (default_horse\<lparr>hi_uid := 8, hi_type := Type_Foal\<rparr>) empty_table\<rparr>"

lemma PromoteMaturedFoals_grows_witness:
  "get_row (dd_horses (snd (PromoteMaturedFoals (hours 2) 2 ranch_of_two))) 8
     = Some (default_horse\<lparr>hi_uid := 8, hi_type := Type_Adult\<rparr>)"
proof -
  let ?c = "default_character\<lparr>ci_uid := 2, ci_horses := [8, 9]\<rparr>"
  have c: "get_row (dd_characters ranch_of_two) 2 = Some ?c" by (simp add: ranch_of_two_def)
  have "get_row (dd_horses ranch_of_two) 8 = Some (default_horse\<lparr>hi_uid := 8, hi_type := Type_Foal\<rparr>)"
    by (simp add: ranch_of_two_def)
  with PromoteMaturedFoals_grows [OF c, of "hours 2" 8 0] show ?thesis
    by (simp add: grown_def FoalGrowUpDuration_def hours_def seconds_def default_horse_def)
qed

end
