(* ===== verification/Wire_Ranch.thy ===== *)
theory Wire_Ranch imports Wire_Items begin

text \<open>
  The structures of \<open>CommonStructureDefinitions.hpp\<close> and \<open>.cpp\<close> that describe what stands in
  a ranch or a race: the appearance of a character, the horse with its parts, stats and mount
  condition, pets, eggs, the guild and the rented mount. \<open>Horse::Write\<close> writes its two unnamed
  member structures inline; \<open>MountCondition_Write\<close> and \<open>Vals1_Write\<close> are those statements.
\<close>

section \<open>Characters\<close>

record wire_character_parts =
  wcp_charId :: "u8"
  wcp_mouthSerialId :: "u8"
  wcp_faceSerialId :: "u8"
  wcp_val0 :: "u8"

definition CharacterParts_Write :: "wire_character_parts \<Rightarrow> stream \<Rightarrow> exn + stream" where
  "CharacterParts_Write v = seqw [
     w8 (wcp_charId v),
     w8 (wcp_mouthSerialId v),
     w8 (wcp_faceSerialId v),
     w8 (wcp_val0 v)]"

definition CharacterParts_Read :: "stream \<Rightarrow> exn + (wire_character_parts \<times> stream)" where
  "CharacterParts_Read =
     rd r8 (\<lambda>charId'.
     rd r8 (\<lambda>mouthSerialId'.
     rd r8 (\<lambda>faceSerialId'.
     rd r8 (\<lambda>val0'.
     ret \<lparr>wcp_charId = charId',
         wcp_mouthSerialId = mouthSerialId',
         wcp_faceSerialId = faceSerialId',
         wcp_val0 = val0'\<rparr>))))"

interpretation wire_character_parts: codec CharacterParts_Write CharacterParts_Read "\<lambda>_. True"
  by unfold_locales (unfold CharacterParts_Write_def CharacterParts_Read_def, (rule codec_intros | simp)+)

declare wire_character_parts.codec_matches [codec_intros]
declare wire_character_parts.list_matches [codec_intros]

record wire_character_appearance =
  wca_voiceId :: "u16"
  wca_headSize :: "u16"
  wca_height :: "u16"
  wca_thighVolume :: "u16"
  wca_legVolume :: "u16"
  wca_emblemId :: "u16"

definition CharacterAppearance_Write :: "wire_character_appearance \<Rightarrow> stream \<Rightarrow> exn + stream" where
  "CharacterAppearance_Write v = seqw [
     w16 (wca_voiceId v),
     w16 (wca_headSize v),
     w16 (wca_height v),
     w16 (wca_thighVolume v),
     w16 (wca_legVolume v),
     w16 (wca_emblemId v)]"

definition CharacterAppearance_Read :: "stream \<Rightarrow> exn + (wire_character_appearance \<times> stream)" where
  "CharacterAppearance_Read =
     rd r16 (\<lambda>voiceId'.
     rd r16 (\<lambda>headSize'.
     rd r16 (\<lambda>height'.
     rd r16 (\<lambda>thighVolume'.
     rd r16 (\<lambda>legVolume'.
     rd r16 (\<lambda>emblemId'.
     ret \<lparr>wca_voiceId = voiceId',
         wca_headSize = headSize',
         wca_height = height',
         wca_thighVolume = thighVolume',
         wca_legVolume = legVolume',
         wca_emblemId = emblemId'\<rparr>))))))"

interpretation wire_character_appearance: codec CharacterAppearance_Write CharacterAppearance_Read "\<lambda>_. True"
  by unfold_locales (unfold CharacterAppearance_Write_def CharacterAppearance_Read_def, (rule codec_intros | simp)+)

declare wire_character_appearance.codec_matches [codec_intros]
declare wire_character_appearance.list_matches [codec_intros]

record wire_character =
  wch_parts :: "wire_character_parts"
  wch_appearance :: "wire_character_appearance"

definition Character_Write :: "wire_character \<Rightarrow> stream \<Rightarrow> exn + stream" where
  "Character_Write v = seqw [
     CharacterParts_Write (wch_parts v),
     CharacterAppearance_Write (wch_appearance v)]"

definition Character_Read :: "stream \<Rightarrow> exn + (wire_character \<times> stream)" where
  "Character_Read =
     rd CharacterParts_Read (\<lambda>parts'.
     rd CharacterAppearance_Read (\<lambda>appearance'.
     ret \<lparr>wch_parts = parts',
         wch_appearance = appearance'\<rparr>))"

interpretation wire_character: codec Character_Write Character_Read "\<lambda>_. True"
  by unfold_locales (unfold Character_Write_def Character_Read_def, (rule codec_intros | simp)+)

declare wire_character.codec_matches [codec_intros]
declare wire_character.list_matches [codec_intros]

section \<open>Horses\<close>

record wire_horse_parts =
  whp_skinId :: "u8"
  whp_maneId :: "u8"
  whp_tailId :: "u8"
  whp_faceId :: "u8"

definition HorseParts_Write :: "wire_horse_parts \<Rightarrow> stream \<Rightarrow> exn + stream" where
  "HorseParts_Write v = seqw [
     w8 (whp_skinId v),
     w8 (whp_maneId v),
     w8 (whp_tailId v),
     w8 (whp_faceId v)]"

definition HorseParts_Read :: "stream \<Rightarrow> exn + (wire_horse_parts \<times> stream)" where
  "HorseParts_Read =
     rd r8 (\<lambda>skinId'.
     rd r8 (\<lambda>maneId'.
     rd r8 (\<lambda>tailId'.
     rd r8 (\<lambda>faceId'.
     ret \<lparr>whp_skinId = skinId',
         whp_maneId = maneId',
         whp_tailId = tailId',
         whp_faceId = faceId'\<rparr>))))"

interpretation wire_horse_parts: codec HorseParts_Write HorseParts_Read "\<lambda>_. True"
  by unfold_locales (unfold HorseParts_Write_def HorseParts_Read_def, (rule codec_intros | simp)+)

declare wire_horse_parts.codec_matches [codec_intros]
declare wire_horse_parts.list_matches [codec_intros]

record wire_horse_appearance =
  wha_scale :: "u8"
  wha_legLength :: "u8"
  wha_legVolume :: "u8"
  wha_bodyLength :: "u8"
  wha_bodyVolume :: "u8"

definition HorseAppearance_Write :: "wire_horse_appearance \<Rightarrow> stream \<Rightarrow> exn + stream" where
  "HorseAppearance_Write v = seqw [
     w8 (wha_scale v),
     w8 (wha_legLength v),
     w8 (wha_legVolume v),
     w8 (wha_bodyLength v),
     w8 (wha_bodyVolume v)]"

definition HorseAppearance_Read :: "stream \<Rightarrow> exn + (wire_horse_appearance \<times> stream)" where
  "HorseAppearance_Read =
     rd r8 (\<lambda>scale'.
     rd r8 (\<lambda>legLength'.
     rd r8 (\<lambda>legVolume'.
     rd r8 (\<lambda>bodyLength'.
     rd r8 (\<lambda>bodyVolume'.
     ret \<lparr>wha_scale = scale',
         wha_legLength = legLength',
         wha_legVolume = legVolume',
         wha_bodyLength = bodyLength',
         wha_bodyVolume = bodyVolume'\<rparr>)))))"

interpretation wire_horse_appearance: codec HorseAppearance_Write HorseAppearance_Read "\<lambda>_. True"
  by unfold_locales (unfold HorseAppearance_Write_def HorseAppearance_Read_def, (rule codec_intros | simp)+)

declare wire_horse_appearance.codec_matches [codec_intros]
declare wire_horse_appearance.list_matches [codec_intros]

record wire_horse_stats =
  whs_agility :: "u32"
  whs_ambition :: "u32"
  whs_rush :: "u32"
  whs_endurance :: "u32"
  whs_courage :: "u32"

definition HorseStats_Write :: "wire_horse_stats \<Rightarrow> stream \<Rightarrow> exn + stream" where
  "HorseStats_Write v = seqw [
     w32 (whs_agility v),
     w32 (whs_ambition v),
     w32 (whs_rush v),
     w32 (whs_endurance v),
     w32 (whs_courage v)]"

definition HorseStats_Read :: "stream \<Rightarrow> exn + (wire_horse_stats \<times> stream)" where
  "HorseStats_Read =
     rd r32 (\<lambda>agility'.
     rd r32 (\<lambda>ambition'.
     rd r32 (\<lambda>rush'.
     rd r32 (\<lambda>endurance'.
     rd r32 (\<lambda>courage'.
     ret \<lparr>whs_agility = agility',
         whs_ambition = ambition',
         whs_rush = rush',
         whs_endurance = endurance',
         whs_courage = courage'\<rparr>)))))"

interpretation wire_horse_stats: codec HorseStats_Write HorseStats_Read "\<lambda>_. True"
  by unfold_locales (unfold HorseStats_Write_def HorseStats_Read_def, (rule codec_intros | simp)+)

declare wire_horse_stats.codec_matches [codec_intros]
declare wire_horse_stats.list_matches [codec_intros]

record wire_horse_mastery =
  whm_spurMagicCount :: "u32"
  whm_jumpCount :: "u32"
  whm_slidingTime :: "u32"
  whm_glidingDistance :: "u32"

definition HorseMastery_Write :: "wire_horse_mastery \<Rightarrow> stream \<Rightarrow> exn + stream" where
  "HorseMastery_Write v = seqw [
     w32 (whm_spurMagicCount v),
     w32 (whm_jumpCount v),
     w32 (whm_slidingTime v),
     w32 (whm_glidingDistance v)]"

definition HorseMastery_Read :: "stream \<Rightarrow> exn + (wire_horse_mastery \<times> stream)" where
  "HorseMastery_Read =
     rd r32 (\<lambda>spurMagicCount'.
     rd r32 (\<lambda>jumpCount'.
     rd r32 (\<lambda>slidingTime'.
     rd r32 (\<lambda>glidingDistance'.
     ret \<lparr>whm_spurMagicCount = spurMagicCount',
         whm_jumpCount = jumpCount',
         whm_slidingTime = slidingTime',
         whm_glidingDistance = glidingDistance'\<rparr>))))"

interpretation wire_horse_mastery: codec HorseMastery_Write HorseMastery_Read "\<lambda>_. True"
  by unfold_locales (unfold HorseMastery_Write_def HorseMastery_Read_def, (rule codec_intros | simp)+)

declare wire_horse_mastery.codec_matches [codec_intros]
declare wire_horse_mastery.list_matches [codec_intros]

record wire_mount_condition =
  wmc_stamina :: "u16"
  wmc_charmPoint :: "u16"
  wmc_friendlyPoint :: "u16"
  wmc_injuryPoint :: "u16"
  wmc_plenitude :: "u16"
  wmc_bodyDirtiness :: "u16"
  wmc_maneDirtiness :: "u16"
  wmc_tailDirtiness :: "u16"
  wmc_attachment :: "u16"
  wmc_boredom :: "u16"
  wmc_bodyPolish :: "u16"
  wmc_manePolish :: "u16"
  wmc_tailPolish :: "u16"
  wmc_stopAmendsPoint :: "u16"

definition MountCondition_Write :: "wire_mount_condition \<Rightarrow> stream \<Rightarrow> exn + stream" where
  "MountCondition_Write v = seqw [
     w16 (wmc_stamina v),
     w16 (wmc_charmPoint v),
     w16 (wmc_friendlyPoint v),
     w16 (wmc_injuryPoint v),
     w16 (wmc_plenitude v),
     w16 (wmc_bodyDirtiness v),
     w16 (wmc_maneDirtiness v),
     w16 (wmc_tailDirtiness v),
     w16 (wmc_attachment v),
     w16 (wmc_boredom v),
     w16 (wmc_bodyPolish v),
     w16 (wmc_manePolish v),
     w16 (wmc_tailPolish v),
     w16 (wmc_stopAmendsPoint v)]"

definition MountCondition_Read :: "stream \<Rightarrow> exn + (wire_mount_condition \<times> stream)" where
  "MountCondition_Read =
     rd r16 (\<lambda>stamina'.
     rd r16 (\<lambda>charmPoint'.
     rd r16 (\<lambda>friendlyPoint'.
     rd r16 (\<lambda>injuryPoint'.
     rd r16 (\<lambda>plenitude'.
     rd r16 (\<lambda>bodyDirtiness'.
     rd r16 (\<lambda>maneDirtiness'.
     rd r16 (\<lambda>tailDirtiness'.
     rd r16 (\<lambda>attachment'.
     rd r16 (\<lambda>boredom'.
     rd r16 (\<lambda>bodyPolish'.
     rd r16 (\<lambda>manePolish'.
     rd r16 (\<lambda>tailPolish'.
     rd r16 (\<lambda>stopAmendsPoint'.
     ret \<lparr>wmc_stamina = stamina',
         wmc_charmPoint = charmPoint',
         wmc_friendlyPoint = friendlyPoint',
         wmc_injuryPoint = injuryPoint',
         wmc_plenitude = plenitude',
         wmc_bodyDirtiness = bodyDirtiness',
         wmc_maneDirtiness = maneDirtiness',
         wmc_tailDirtiness = tailDirtiness',
         wmc_attachment = attachment',
         wmc_boredom = boredom',
         wmc_bodyPolish = bodyPolish',
         wmc_manePolish = manePolish',
         wmc_tailPolish = tailPolish',
         wmc_stopAmendsPoint = stopAmendsPoint'\<rparr>))))))))))))))"

interpretation wire_mount_condition: codec MountCondition_Write MountCondition_Read "\<lambda>_. True"
  by unfold_locales (unfold MountCondition_Write_def MountCondition_Read_def, (rule codec_intros | simp)+)

declare wire_mount_condition.codec_matches [codec_intros]
declare wire_mount_condition.list_matches [codec_intros]

record wire_horse_vals1 =
  whv_type :: "u8"
  whv_val1 :: "u32"
  whv_dateOfBirth :: "u32"
  whv_tendency :: "u8"
  whv_spirit :: "u8"
  whv_classProgression :: "u32"
  whv_val5 :: "u32"
  whv_potentialLevel :: "u8"
  whv_potentialType :: "u8"
  whv_potentialValue :: "u8"
  whv_val9 :: "u8"
  whv_luck :: "u8"
  whv_injury :: "u8"
  whv_val12 :: "u8"
  whv_fatigue :: "u16"
  whv_val14 :: "u16"
  whv_emblem :: "u16"

definition Vals1_Write :: "wire_horse_vals1 \<Rightarrow> stream \<Rightarrow> exn + stream" where
  "Vals1_Write v = seqw [
     w8 (whv_type v),
     w32 (whv_val1 v),
     w32 (whv_dateOfBirth v),
     w8 (whv_tendency v),
     w8 (whv_spirit v),
     w32 (whv_classProgression v),
     w32 (whv_val5 v),
     w8 (whv_potentialLevel v),
     w8 (whv_potentialType v),
     w8 (whv_potentialValue v),
     w8 (whv_val9 v),
     w8 (whv_luck v),
     w8 (whv_injury v),
     w8 (whv_val12 v),
     w16 (whv_fatigue v),
     w16 (whv_val14 v),
     w16 (whv_emblem v)]"

definition Vals1_Read :: "stream \<Rightarrow> exn + (wire_horse_vals1 \<times> stream)" where
  "Vals1_Read =
     rd r8 (\<lambda>type'.
     rd r32 (\<lambda>val1'.
     rd r32 (\<lambda>dateOfBirth'.
     rd r8 (\<lambda>tendency'.
     rd r8 (\<lambda>spirit'.
     rd r32 (\<lambda>classProgression'.
     rd r32 (\<lambda>val5'.
     rd r8 (\<lambda>potentialLevel'.
     rd r8 (\<lambda>potentialType'.
     rd r8 (\<lambda>potentialValue'.
     rd r8 (\<lambda>val9'.
     rd r8 (\<lambda>luck'.
     rd r8 (\<lambda>injury'.
     rd r8 (\<lambda>val12'.
     rd r16 (\<lambda>fatigue'.
     rd r16 (\<lambda>val14'.
     rd r16 (\<lambda>emblem'.
     ret \<lparr>whv_type = type',
         whv_val1 = val1',
         whv_dateOfBirth = dateOfBirth',
         whv_tendency = tendency',
         whv_spirit = spirit',
         whv_classProgression = classProgression',
         whv_val5 = val5',
         whv_potentialLevel = potentialLevel',
         whv_potentialType = potentialType',
         whv_potentialValue = potentialValue',
         whv_val9 = val9',
         whv_luck = luck',
         whv_injury = injury',
         whv_val12 = val12',
         whv_fatigue = fatigue',
         whv_val14 = val14',
         whv_emblem = emblem'\<rparr>)))))))))))))))))"

interpretation wire_horse_vals1: codec Vals1_Write Vals1_Read "\<lambda>_. True"
  by unfold_locales (unfold Vals1_Write_def Vals1_Read_def, (rule codec_intros | simp)+)

declare wire_horse_vals1.codec_matches [codec_intros]
declare wire_horse_vals1.list_matches [codec_intros]

record wire_horse =
  who_uid :: "u32"
  who_tid :: "u32"
  who_name :: "bytes"
  who_parts :: "wire_horse_parts"
  who_appearance :: "wire_horse_appearance"
  who_stats :: "wire_horse_stats"
  who_rating :: "u32"
  who_clazz :: "u8"
  who_val0 :: "u8"
  who_grade :: "u8"
  who_growthPoints :: "u16"
  who_mountCondition :: "wire_mount_condition"
  who_vals1 :: "wire_horse_vals1"
  who_mastery :: "wire_horse_mastery"
  who_val16 :: "u32"
  who_visualCleanlinessBitset :: "u32"

definition Horse_Write :: "icu \<Rightarrow> wire_horse \<Rightarrow> stream \<Rightarrow> exn + stream" where
  "Horse_Write cv v = seqw [
     w32 (who_uid v),
     w32 (who_tid v),
     wstr cv (who_name v),
     HorseParts_Write (who_parts v),
     HorseAppearance_Write (who_appearance v),
     HorseStats_Write (who_stats v),
     w32 (who_rating v),
     w8 (who_clazz v),
     w8 (who_val0 v),
     w8 (who_grade v),
     w16 (who_growthPoints v),
     MountCondition_Write (who_mountCondition v),
     Vals1_Write (who_vals1 v),
     HorseMastery_Write (who_mastery v),
     w32 (who_val16 v),
     w32 (who_visualCleanlinessBitset v)]"

definition Horse_Read :: "icu \<Rightarrow> stream \<Rightarrow> exn + (wire_horse \<times> stream)" where
  "Horse_Read cv =
     rd r32 (\<lambda>uid'.
     rd r32 (\<lambda>tid'.
     rd (rstr cv) (\<lambda>name'.
     rd HorseParts_Read (\<lambda>parts'.
     rd HorseAppearance_Read (\<lambda>appearance'.
     rd HorseStats_Read (\<lambda>stats'.
     rd r32 (\<lambda>rating'.
     rd r8 (\<lambda>clazz'.
     rd r8 (\<lambda>val0'.
     rd r8 (\<lambda>grade'.
     rd r16 (\<lambda>growthPoints'.
     rd MountCondition_Read (\<lambda>mountCondition'.
     rd Vals1_Read (\<lambda>vals1'.
     rd HorseMastery_Read (\<lambda>mastery'.
     rd r32 (\<lambda>val16'.
     rd r32 (\<lambda>visualCleanlinessBitset'.
     ret \<lparr>who_uid = uid',
         who_tid = tid',
         who_name = name',
         who_parts = parts',
         who_appearance = appearance',
         who_stats = stats',
         who_rating = rating',
         who_clazz = clazz',
         who_val0 = val0',
         who_grade = grade',
         who_growthPoints = growthPoints',
         who_mountCondition = mountCondition',
         who_vals1 = vals1',
         who_mastery = mastery',
         who_val16 = val16',
         who_visualCleanlinessBitset = visualCleanlinessBitset'\<rparr>))))))))))))))))"

definition Horse_ok :: "icu \<Rightarrow> wire_horse \<Rightarrow> bool" where
  "Horse_ok cv v \<longleftrightarrow> icu_ok cv (who_name v)"

interpretation wire_horse: codec "Horse_Write cv" "Horse_Read cv" "Horse_ok cv" for cv
  by unfold_locales (unfold Horse_Write_def Horse_Read_def Horse_ok_def, (rule codec_intros | simp)+)

declare wire_horse.codec_matches [codec_intros]
declare wire_horse.list_matches [codec_intros]

section \<open>Guilds, rents, pets and eggs\<close>

record wire_guild =
  wgu_uid :: "u32"
  wgu_val1 :: "u8"
  wgu_val2 :: "u32"
  wgu_name :: "bytes"
  wgu_guildRole :: "u8"
  wgu_val5 :: "u32"
  wgu_val6 :: "u8"

definition Guild_Write :: "icu \<Rightarrow> wire_guild \<Rightarrow> stream \<Rightarrow> exn + stream" where
  "Guild_Write cv v = seqw [
     w32 (wgu_uid v),
     w8 (wgu_val1 v),
     w32 (wgu_val2 v),
     wstr cv (wgu_name v),
     w8 (wgu_guildRole v),
     w32 (wgu_val5 v),
     w8 (wgu_val6 v)]"

definition Guild_Read :: "icu \<Rightarrow> stream \<Rightarrow> exn + (wire_guild \<times> stream)" where
  "Guild_Read cv =
     rd r32 (\<lambda>uid'.
     rd r8 (\<lambda>val1'.
     rd r32 (\<lambda>val2'.
     rd (rstr cv) (\<lambda>name'.
     rd r8 (\<lambda>guildRole'.
     rd r32 (\<lambda>val5'.
     rd r8 (\<lambda>val6'.
     ret \<lparr>wgu_uid = uid',
         wgu_val1 = val1',
         wgu_val2 = val2',
         wgu_name = name',
         wgu_guildRole = guildRole',
         wgu_val5 = val5',
         wgu_val6 = val6'\<rparr>)))))))"

definition Guild_ok :: "icu \<Rightarrow> wire_guild \<Rightarrow> bool" where
  "Guild_ok cv v \<longleftrightarrow> icu_ok cv (wgu_name v)"

interpretation wire_guild: codec "Guild_Write cv" "Guild_Read cv" "Guild_ok cv" for cv
  by unfold_locales (unfold Guild_Write_def Guild_Read_def Guild_ok_def, (rule codec_intros | simp)+)

declare wire_guild.codec_matches [codec_intros]
declare wire_guild.list_matches [codec_intros]

record wire_rent =
  wre_mountUid :: "u32"
  wre_val1 :: "u32"
  wre_val2 :: "u32"

definition Rent_Write :: "wire_rent \<Rightarrow> stream \<Rightarrow> exn + stream" where
  "Rent_Write v = seqw [
     w32 (wre_mountUid v),
     w32 (wre_val1 v),
     w32 (wre_val2 v)]"

definition Rent_Read :: "stream \<Rightarrow> exn + (wire_rent \<times> stream)" where
  "Rent_Read =
     rd r32 (\<lambda>mountUid'.
     rd r32 (\<lambda>val1'.
     rd r32 (\<lambda>val2'.
     ret \<lparr>wre_mountUid = mountUid',
         wre_val1 = val1',
         wre_val2 = val2'\<rparr>)))"

interpretation wire_rent: codec Rent_Write Rent_Read "\<lambda>_. True"
  by unfold_locales (unfold Rent_Write_def Rent_Read_def, (rule codec_intros | simp)+)

declare wire_rent.codec_matches [codec_intros]
declare wire_rent.list_matches [codec_intros]

record wire_pet =
  wpe_petId :: "u32"
  wpe_member2 :: "u32"
  wpe_name :: "bytes"
  wpe_birthDate :: "u32"

definition Pet_Write :: "icu \<Rightarrow> wire_pet \<Rightarrow> stream \<Rightarrow> exn + stream" where
  "Pet_Write cv v = seqw [
     w32 (wpe_petId v),
     w32 (wpe_member2 v),
     wstr cv (wpe_name v),
     w32 (wpe_birthDate v)]"

definition Pet_Read :: "icu \<Rightarrow> stream \<Rightarrow> exn + (wire_pet \<times> stream)" where
  "Pet_Read cv =
     rd r32 (\<lambda>petId'.
     rd r32 (\<lambda>member2'.
     rd (rstr cv) (\<lambda>name'.
     rd r32 (\<lambda>birthDate'.
     ret \<lparr>wpe_petId = petId',
         wpe_member2 = member2',
         wpe_name = name',
         wpe_birthDate = birthDate'\<rparr>))))"

definition Pet_ok :: "icu \<Rightarrow> wire_pet \<Rightarrow> bool" where
  "Pet_ok cv v \<longleftrightarrow> icu_ok cv (wpe_name v)"

interpretation wire_pet: codec "Pet_Write cv" "Pet_Read cv" "Pet_ok cv" for cv
  by unfold_locales (unfold Pet_Write_def Pet_Read_def Pet_ok_def, (rule codec_intros | simp)+)

declare wire_pet.codec_matches [codec_intros]
declare wire_pet.list_matches [codec_intros]

record wire_egg =
  weg_uid :: "u32"
  weg_itemTid :: "u32"
  weg_member3 :: "u32"
  weg_member4 :: "u8"
  weg_remainingHatchingTime :: "u32"
  weg_timeRemaining :: "u32"
  weg_boostPreviewValue :: "u32"
  weg_hatchingProgress :: "u32"
  weg_boostCooldown :: "u32"

definition Egg_Write :: "wire_egg \<Rightarrow> stream \<Rightarrow> exn + stream" where
  "Egg_Write v = seqw [
     w32 (weg_uid v),
     w32 (weg_itemTid v),
     w32 (weg_member3 v),
     w8 (weg_member4 v),
     w32 (weg_remainingHatchingTime v),
     w32 (weg_timeRemaining v),
     w32 (weg_boostPreviewValue v),
     w32 (weg_hatchingProgress v),
     w32 (weg_boostCooldown v)]"

definition Egg_Read :: "stream \<Rightarrow> exn + (wire_egg \<times> stream)" where
  "Egg_Read =
     rd r32 (\<lambda>uid'.
     rd r32 (\<lambda>itemTid'.
     rd r32 (\<lambda>member3'.
     rd r8 (\<lambda>member4'.
     rd r32 (\<lambda>remainingHatchingTime'.
     rd r32 (\<lambda>timeRemaining'.
     rd r32 (\<lambda>boostPreviewValue'.
     rd r32 (\<lambda>hatchingProgress'.
     rd r32 (\<lambda>boostCooldown'.
     ret \<lparr>weg_uid = uid',
         weg_itemTid = itemTid',
         weg_member3 = member3',
         weg_member4 = member4',
         weg_remainingHatchingTime = remainingHatchingTime',
         weg_timeRemaining = timeRemaining',
         weg_boostPreviewValue = boostPreviewValue',
         weg_hatchingProgress = hatchingProgress',
         weg_boostCooldown = boostCooldown'\<rparr>)))))))))"

interpretation wire_egg: codec Egg_Write Egg_Read "\<lambda>_. True"
  by unfold_locales (unfold Egg_Write_def Egg_Read_def, (rule codec_intros | simp)+)

declare wire_egg.codec_matches [codec_intros]
declare wire_egg.list_matches [codec_intros]

record wire_pet_info =
  wpi_characterUid :: "u32"
  wpi_itemUid :: "u32"
  wpi_pet :: "wire_pet"
  wpi_member4 :: "u32"

definition PetInfo_Write :: "icu \<Rightarrow> wire_pet_info \<Rightarrow> stream \<Rightarrow> exn + stream" where
  "PetInfo_Write cv v = seqw [
     w32 (wpi_characterUid v),
     w32 (wpi_itemUid v),
     Pet_Write cv (wpi_pet v),
     w32 (wpi_member4 v)]"

definition PetInfo_Read :: "icu \<Rightarrow> stream \<Rightarrow> exn + (wire_pet_info \<times> stream)" where
  "PetInfo_Read cv =
     rd r32 (\<lambda>characterUid'.
     rd r32 (\<lambda>itemUid'.
     rd (Pet_Read cv) (\<lambda>pet'.
     rd r32 (\<lambda>member4'.
     ret \<lparr>wpi_characterUid = characterUid',
         wpi_itemUid = itemUid',
         wpi_pet = pet',
         wpi_member4 = member4'\<rparr>))))"

definition PetInfo_ok :: "icu \<Rightarrow> wire_pet_info \<Rightarrow> bool" where
  "PetInfo_ok cv v \<longleftrightarrow> Pet_ok cv (wpi_pet v)"

interpretation wire_pet_info: codec "PetInfo_Write cv" "PetInfo_Read cv" "PetInfo_ok cv" for cv
  by unfold_locales (unfold PetInfo_Write_def PetInfo_Read_def PetInfo_ok_def, (rule codec_intros | simp)+)

declare wire_pet_info.codec_matches [codec_intros]
declare wire_pet_info.list_matches [codec_intros]

record wire_pet_birth_info =
  wpb_eggItem :: "wire_item"
  wpb_member2 :: "u32"
  wpb_member3 :: "u32"
  wpb_petInfo :: "wire_pet_info"

definition PetBirthInfo_Write :: "icu \<Rightarrow> wire_pet_birth_info \<Rightarrow> stream \<Rightarrow> exn + stream" where
  "PetBirthInfo_Write cv v = seqw [
     Item_Write (wpb_eggItem v),
     w32 (wpb_member2 v),
     w32 (wpb_member3 v),
     PetInfo_Write cv (wpb_petInfo v)]"

definition PetBirthInfo_Read :: "icu \<Rightarrow> stream \<Rightarrow> exn + (wire_pet_birth_info \<times> stream)" where
  "PetBirthInfo_Read cv =
     rd Item_Read (\<lambda>eggItem'.
     rd r32 (\<lambda>member2'.
     rd r32 (\<lambda>member3'.
     rd (PetInfo_Read cv) (\<lambda>petInfo'.
     ret \<lparr>wpb_eggItem = eggItem',
         wpb_member2 = member2',
         wpb_member3 = member3',
         wpb_petInfo = petInfo'\<rparr>))))"

definition PetBirthInfo_ok :: "icu \<Rightarrow> wire_pet_birth_info \<Rightarrow> bool" where
  "PetBirthInfo_ok cv v \<longleftrightarrow> PetInfo_ok cv (wpb_petInfo v)"

interpretation wire_pet_birth_info: codec "PetBirthInfo_Write cv" "PetBirthInfo_Read cv" "PetBirthInfo_ok cv" for cv
  by unfold_locales (unfold PetBirthInfo_Write_def PetBirthInfo_Read_def PetBirthInfo_ok_def, (rule codec_intros | simp)+)

declare wire_pet_birth_info.codec_matches [codec_intros]
declare wire_pet_birth_info.list_matches [codec_intros]

section \<open>What a ranch shows\<close>

record wire_ranch_horse =
  wrh_horseOid :: "u16"
  wrh_horse :: "wire_horse"

definition RanchHorse_Write :: "icu \<Rightarrow> wire_ranch_horse \<Rightarrow> stream \<Rightarrow> exn + stream" where
  "RanchHorse_Write cv v = seqw [
     w16 (wrh_horseOid v),
     Horse_Write cv (wrh_horse v)]"

definition RanchHorse_Read :: "icu \<Rightarrow> stream \<Rightarrow> exn + (wire_ranch_horse \<times> stream)" where
  "RanchHorse_Read cv =
     rd r16 (\<lambda>horseOid'.
     rd (Horse_Read cv) (\<lambda>horse'.
     ret \<lparr>wrh_horseOid = horseOid',
         wrh_horse = horse'\<rparr>))"

definition RanchHorse_ok :: "icu \<Rightarrow> wire_ranch_horse \<Rightarrow> bool" where
  "RanchHorse_ok cv v \<longleftrightarrow> Horse_ok cv (wrh_horse v)"

interpretation wire_ranch_horse: codec "RanchHorse_Write cv" "RanchHorse_Read cv" "RanchHorse_ok cv" for cv
  by unfold_locales (unfold RanchHorse_Write_def RanchHorse_Read_def RanchHorse_ok_def, (rule codec_intros | simp)+)

declare wire_ranch_horse.codec_matches [codec_intros]
declare wire_ranch_horse.list_matches [codec_intros]

text \<open>
  \<open>RanchCharacter::Write\<close> writes the guild and the rent field by field, \<open>RanchCharacter::Read\<close>
  reads them with the readers of these structures.
\<close>

lemmas guild_inline [codec_intros] = wire_guild.codec_matches [unfolded Guild_Write_def]
lemmas rent_inline [codec_intros] = wire_rent.codec_matches [unfolded Rent_Write_def]

record wire_ranch_character =
  wrc_uid :: "u32"
  wrc_name :: "bytes"
  wrc_role :: "u8"
  wrc_age :: "u8"
  wrc_gender :: "u8"
  wrc_introduction :: "bytes"
  wrc_character :: "wire_character"
  wrc_mount :: "wire_horse"
  wrc_characterEquipment :: "wire_item list"
  wrc_guild :: "wire_guild"
  wrc_oid :: "u16"
  wrc_isBusy :: "u8"
  wrc_unk3 :: "u8"
  wrc_rent :: "wire_rent"
  wrc_pet :: "wire_pet"
  wrc_unk4 :: "u8"
  wrc_unk5 :: "u8"

definition RanchCharacter_Write :: "icu \<Rightarrow> wire_ranch_character \<Rightarrow> stream \<Rightarrow> exn + stream" where
  "RanchCharacter_Write cv v = seqw [
     w32 (wrc_uid v),
     wstr cv (wrc_name v),
     w8 (wrc_role v),
     w8 (wrc_age v),
     w8 (wrc_gender v),
     wstr cv (wrc_introduction v),
     Character_Write (wrc_character v),
     Horse_Write cv (wrc_mount v),
     wlist Item_Write (wrc_characterEquipment v),
     seqw [
       w32 (wgu_uid (wrc_guild v)),
       w8 (wgu_val1 (wrc_guild v)),
       w32 (wgu_val2 (wrc_guild v)),
       wstr cv (wgu_name (wrc_guild v)),
       w8 (wgu_guildRole (wrc_guild v)),
       w32 (wgu_val5 (wrc_guild v)),
       w8 (wgu_val6 (wrc_guild v))],
     w16 (wrc_oid v),
     w8 (wrc_isBusy v),
     w8 (wrc_unk3 v),
     seqw [
       w32 (wre_mountUid (wrc_rent v)),
       w32 (wre_val1 (wrc_rent v)),
       w32 (wre_val2 (wrc_rent v))],
     Pet_Write cv (wrc_pet v),
     w8 (wrc_unk4 v),
     w8 (wrc_unk5 v)]"

definition RanchCharacter_Read :: "icu \<Rightarrow> stream \<Rightarrow> exn + (wire_ranch_character \<times> stream)" where
  "RanchCharacter_Read cv =
     rd r32 (\<lambda>uid'.
     rd (rstr cv) (\<lambda>name'.
     rd r8 (\<lambda>role'.
     rd r8 (\<lambda>age'.
     rd r8 (\<lambda>gender'.
     rd (rstr cv) (\<lambda>introduction'.
     rd Character_Read (\<lambda>character'.
     rd (Horse_Read cv) (\<lambda>mount'.
     rd (rlist Item_Read) (\<lambda>characterEquipment'.
     rd (Guild_Read cv) (\<lambda>guild'.
     rd r16 (\<lambda>oid'.
     rd r8 (\<lambda>isBusy'.
     rd r8 (\<lambda>unk3'.
     rd Rent_Read (\<lambda>rent'.
     rd (Pet_Read cv) (\<lambda>pet'.
     rd r8 (\<lambda>unk4'.
     rd r8 (\<lambda>unk5'.
     ret \<lparr>wrc_uid = uid',
         wrc_name = name',
         wrc_role = role',
         wrc_age = age',
         wrc_gender = gender',
         wrc_introduction = introduction',
         wrc_character = character',
         wrc_mount = mount',
         wrc_characterEquipment = characterEquipment',
         wrc_guild = guild',
         wrc_oid = oid',
         wrc_isBusy = isBusy',
         wrc_unk3 = unk3',
         wrc_rent = rent',
         wrc_pet = pet',
         wrc_unk4 = unk4',
         wrc_unk5 = unk5'\<rparr>)))))))))))))))))"

definition RanchCharacter_ok :: "icu \<Rightarrow> wire_ranch_character \<Rightarrow> bool" where
  "RanchCharacter_ok cv v \<longleftrightarrow> icu_ok cv (wrc_name v) \<and> icu_ok cv (wrc_introduction v) \<and> Horse_ok cv (wrc_mount v) \<and> length (wrc_characterEquipment v) < 256 \<and> Guild_ok cv (wrc_guild v) \<and> Pet_ok cv (wrc_pet v)"

interpretation wire_ranch_character: codec "RanchCharacter_Write cv" "RanchCharacter_Read cv" "RanchCharacter_ok cv" for cv
  by unfold_locales (unfold RanchCharacter_Write_def RanchCharacter_Read_def RanchCharacter_ok_def, (rule codec_intros | simp)+)

declare wire_ranch_character.codec_matches [codec_intros]
declare wire_ranch_character.list_matches [codec_intros]

section \<open>Round trip\<close>

text \<open>C30: A ranch character, with its horse, equipment, guild, rented mount and pet, is written as
  a sequence of bytes from which \<open>RanchCharacter::Read\<close> recovers every field, stopping after the
  last of them, provided its strings survive the conversion to EUC-KR and it carries fewer than
  256 items.\<close>

theorem RanchCharacter_roundtrip:
  assumes "RanchCharacter_ok cv v"
  shows "\<exists>bs. writes (RanchCharacter_Write cv v) bs
    \<and> (\<forall>rest. RanchCharacter_Read cv (stream_of (bs @ rest))
         = Inr (v, \<lparr>storage = bs @ rest, cursor = length bs\<rparr>))"
  by (rule wire_ranch_character.wire_format [OF assms])

definition sample_character :: wire_ranch_character where
  "sample_character =
     \<lparr>wrc_uid = 0, wrc_name = [0x41, 0x42], wrc_role = 0, wrc_age = 0, wrc_gender = 0,
     wrc_introduction = [0x41, 0x42], wrc_character = \<lparr>wch_parts = \<lparr>wcp_charId =
     0, wcp_mouthSerialId = 0, wcp_faceSerialId = 0, wcp_val0 = 0\<rparr>, wch_appearance =
     \<lparr>wca_voiceId = 0, wca_headSize = 0, wca_height = 0, wca_thighVolume = 0,
     wca_legVolume = 0, wca_emblemId = 0\<rparr>\<rparr>, wrc_mount = \<lparr>who_uid = 0,
     who_tid = 0, who_name = [0x41, 0x42], who_parts = \<lparr>whp_skinId = 0, whp_maneId = 0,
     whp_tailId = 0, whp_faceId = 0\<rparr>, who_appearance = \<lparr>wha_scale = 0,
     wha_legLength = 0, wha_legVolume = 0, wha_bodyLength = 0, wha_bodyVolume = 0\<rparr>,
     who_stats = \<lparr>whs_agility = 0, whs_ambition = 0, whs_rush = 0, whs_endurance = 0,
     whs_courage = 0\<rparr>, who_rating = 0, who_clazz = 0, who_val0 = 0, who_grade = 0,
     who_growthPoints = 0, who_mountCondition = \<lparr>wmc_stamina = 0, wmc_charmPoint = 0,
     wmc_friendlyPoint = 0, wmc_injuryPoint = 0, wmc_plenitude = 0, wmc_bodyDirtiness = 0,
     wmc_maneDirtiness = 0, wmc_tailDirtiness = 0, wmc_attachment = 0, wmc_boredom = 0,
     wmc_bodyPolish = 0, wmc_manePolish = 0, wmc_tailPolish = 0, wmc_stopAmendsPoint =
     0\<rparr>, who_vals1 = \<lparr>whv_type = 0, whv_val1 = 0, whv_dateOfBirth = 0,
     whv_tendency = 0, whv_spirit = 0, whv_classProgression = 0, whv_val5 = 0,
     whv_potentialLevel = 0, whv_potentialType = 0, whv_potentialValue = 0, whv_val9 = 0,
     whv_luck = 0, whv_injury = 0, whv_val12 = 0, whv_fatigue = 0, whv_val14 = 0, whv_emblem =
     0\<rparr>, who_mastery = \<lparr>whm_spurMagicCount = 0, whm_jumpCount = 0,
     whm_slidingTime = 0, whm_glidingDistance = 0\<rparr>, who_val16 = 0,
     who_visualCleanlinessBitset = 0\<rparr>, wrc_characterEquipment = [], wrc_guild =
     \<lparr>wgu_uid = 0, wgu_val1 = 0, wgu_val2 = 0, wgu_name = [0x41, 0x42], wgu_guildRole =
     0, wgu_val5 = 0, wgu_val6 = 0\<rparr>, wrc_oid = 0, wrc_isBusy = 0, wrc_unk3 = 0, wrc_rent
     = \<lparr>wre_mountUid = 0, wre_val1 = 0, wre_val2 = 0\<rparr>, wrc_pet =
     \<lparr>wpe_petId = 0, wpe_member2 = 0, wpe_name = [0x41, 0x42], wpe_birthDate =
     0\<rparr>, wrc_unk4 = 0, wrc_unk5 = 0\<rparr>"

lemma RanchCharacter_roundtrip_witness:
  "\<exists>bs. writes (RanchCharacter_Write plain_icu sample_character) bs
    \<and> RanchCharacter_Read plain_icu (stream_of (bs @ [7]))
      = Inr (sample_character, \<lparr>storage = bs @ [7], cursor = length bs\<rparr>)"
proof -
  have "icu_ok plain_icu [0x41, 0x42]"
    by (simp add: icu_ok_def plain_icu_def FromUtf8_def ToUtf8_def c_string_def)
  then have "RanchCharacter_ok plain_icu sample_character"
    by (simp add: RanchCharacter_ok_def sample_character_def Horse_ok_def Guild_ok_def Pet_ok_def)
  from RanchCharacter_roundtrip [OF this] show ?thesis by blast
qed

end
