(* ===== verification/Messages.thy ===== *)
theory Messages imports Wire_Ranch Times begin

text \<open>
  What the message definitions of the four protocols share: the remaining integer widths,
  statement by statement reading into a default-initialised structure, and the two contracts
  every message function satisfies.

  \<^item> A message is a record with the fields of its structure (\<open>unit\<close> when it has none), an
    enumeration its underlying integer, a \<open>std::array\<close> a list; \<open>X_default\<close> is the structure
    with its default member initialisers, 0 for a member without one.
  \<^item> \<open>build d steps\<close> is \<open>T command; T::Read(command, stream)\<close>: the steps update the structure
    \<open>d\<close> one member at a time, and may look at the members read so far.
  \<^item> \<open>throws\<close> is a body that only throws.
  \<^item> An \<open>assert\<close> is not part of the release build and is left out.
\<close>

section \<open>Widths and byte order\<close>

definition bytes_of_u64 :: "u64 \<Rightarrow> bytes" where
  "bytes_of_u64 w = bytes_of_u32 (ucast w) @ bytes_of_u32 (ucast (drop_bit 32 w))"

definition u64_of_bytes :: "bytes \<Rightarrow> u64" where
  "u64_of_bytes b = ucast (u32_of_bytes (take 4 b)) OR push_bit 32 (ucast (u32_of_bytes (drop 4 b)))"

definition w64 :: "u64 \<Rightarrow> stream \<Rightarrow> exn + stream" where
  "w64 v = sink_write (bytes_of_u64 v)"

definition r64 :: "stream \<Rightarrow> exn + (u64 \<times> stream)" where
  "r64 s = bnd (source_read 8 s) (\<lambda>(b, s). Inr (u64_of_bytes b, s))"

text \<open>\<open>htonl\<close> on a little endian host.\<close>

definition htonl :: "u32 \<Rightarrow> u32" where
  "htonl w = u32_of_bytes (rev (bytes_of_u32 w))"

definition wshop :: "shop_time \<Rightarrow> stream \<Rightarrow> exn + stream" where
  "wshop t = (case t of (a, b, c) \<Rightarrow> seqw [w32 a, w32 b, w32 c])"

definition rshop :: "stream \<Rightarrow> exn + (shop_time \<times> stream)" where
  "rshop = rd r32 (\<lambda>a. rd r32 (\<lambda>b. rd r32 (\<lambda>c. ret (a, b, c))))"

section \<open>Writers\<close>

definition throws :: "exn \<Rightarrow> stream \<Rightarrow> exn + 'a" where
  "throws e s = Inl e"

definition throw_if :: "bool \<Rightarrow> exn \<Rightarrow> stream \<Rightarrow> exn + stream" where
  "throw_if b e s = (if b then Inl e else Inr s)"

text \<open>\<open>std::optional::value\<close>.\<close>

definition wopt :: "('a \<Rightarrow> stream \<Rightarrow> exn + stream) \<Rightarrow> 'a option \<Rightarrow> stream \<Rightarrow> exn + stream" where
  "wopt w x s = (case x of None \<Rightarrow> Inl BadOptionalAccess | Some y \<Rightarrow> w y s)"

section \<open>Readers\<close>

type_synonym 'c read_step = "'c \<Rightarrow> stream \<Rightarrow> exn + ('c \<times> stream)"

definition fld :: "(stream \<Rightarrow> exn + ('a \<times> stream)) \<Rightarrow> (('a \<Rightarrow> 'a) \<Rightarrow> 'c \<Rightarrow> 'c) \<Rightarrow> 'c read_step" where
  "fld r upd c = rd r (\<lambda>v. ret (upd (\<lambda>_. v) c))"

fun seqr :: "'c read_step list \<Rightarrow> 'c read_step" where
  "seqr [] c = ret c"
| "seqr (r # rs) c = rd (r c) (seqr rs)"

definition build :: "'c \<Rightarrow> 'c read_step list \<Rightarrow> stream \<Rightarrow> exn + ('c \<times> stream)" where
  "build c steps = seqr steps c"

definition assign :: "('c \<Rightarrow> 'c) \<Rightarrow> 'c read_step" where
  "assign f c = ret (f c)"

definition emplace :: "(stream \<Rightarrow> exn + ('a \<times> stream)) \<Rightarrow> stream \<Rightarrow> exn + ('a option \<times> stream)" where
  "emplace r = rd r (\<lambda>v. ret (Some v))"

text \<open>A container behind a size of any width.\<close>

definition rlist_by ::
  "(stream \<Rightarrow> exn + ('n::len word \<times> stream)) \<Rightarrow> (stream \<Rightarrow> exn + ('a \<times> stream))
     \<Rightarrow> stream \<Rightarrow> exn + ('a list \<times> stream)" where
  "rlist_by rn r = rd rn (\<lambda>n. read_n (unat n) r)"

text \<open>Reading a member from a separate stream over bytes that were read before.\<close>

definition nested :: "('c \<Rightarrow> bytes) \<Rightarrow> 'c read_step \<Rightarrow> 'c read_step" where
  "nested payload step c s = bnd (step c (stream_of (payload c))) (\<lambda>(c', _). Inr (c', s))"

section \<open>The contract of a reader\<close>

text \<open>
  A \<open>parser\<close> never depends on anything but the bytes it consumes: whenever it succeeds, the
  stream continued with some bytes, the cursor is moved behind exactly these, and on every
  other stream that continues with them it has the same result.
\<close>

definition consumes :: "stream \<Rightarrow> bytes \<Rightarrow> stream \<Rightarrow> bool" where
  "consumes s bs s' \<longleftrightarrow> (\<exists>rest. drop (cursor s) (storage s) = bs @ rest)
     \<and> s' = s\<lparr>cursor := cursor s + length bs\<rparr>"

definition parser :: "(stream \<Rightarrow> exn + ('a \<times> stream)) \<Rightarrow> bool" where
  "parser r \<longleftrightarrow> (\<forall>s v s'. r s = Inr (v, s') \<longrightarrow> (\<exists>bs. consumes s bs s' \<and> reads r v bs))"

named_theorems parser_intros "readers that are parsers"

lemma parserI:
  "(\<And>s v s'. r s = Inr (v, s') \<Longrightarrow> \<exists>bs. consumes s bs s' \<and> reads r v bs) \<Longrightarrow> parser r"
  by (auto simp: parser_def)

lemma parserE:
  assumes "parser r" "r s = Inr (v, s')"
  obtains bs where "consumes s bs s'" "reads r v bs"
  using assms unfolding parser_def by blast

lemma consumes_trans:
  assumes "consumes s a s'" "consumes s' b s''"
  shows "consumes s (a @ b) s''"
proof -
  obtain rest where r: "drop (cursor s) (storage s) = a @ rest" "s' = s\<lparr>cursor := cursor s + length a\<rparr>"
    using assms(1) by (auto simp: consumes_def)
  obtain rest' where "drop (cursor s + length a) (storage s) = b @ rest'"
      "s'' = s\<lparr>cursor := cursor s + length (a @ b)\<rparr>"
    using assms(2) r(2) by (auto simp: consumes_def add.assoc)
  moreover have "drop (cursor s + length a) (storage s) = rest"
    using r(1) by (metis add.commute append_eq_conv_conj drop_drop)
  ultimately show ?thesis using r(1) by (auto simp: consumes_def)
qed

lemma parser_ret [parser_intros]: "parser (ret v)"
proof (rule parserI)
  fix s v' s' assume "ret v s = Inr (v', s')"
  then have "consumes s [] s'" "reads (ret v) v' []"
    by (auto simp: ret_def consumes_def reads_def)
  then show "\<exists>bs. consumes s bs s' \<and> reads (ret v) v' bs" by blast
qed

lemma parser_throws [parser_intros]: "parser (throws e)"
  by (auto simp: parser_def throws_def)

lemma parser_rd [parser_intros]:
  assumes "parser r" "\<And>v. parser (k v)"
  shows "parser (rd r k)"
proof (rule parserI)
  fix s u s'' assume "rd r k s = Inr (u, s'')"
  then obtain v s' where *: "r s = Inr (v, s')" "k v s' = Inr (u, s'')"
    by (auto simp: rd_def bnd_def split: sum.splits)
  obtain a where a: "consumes s a s'" "reads r v a" by (rule parserE [OF assms(1) *(1)])
  obtain b where b: "consumes s' b s''" "reads (k v) u b"
    by (rule parserE [OF assms(2) *(2)])
  have "consumes s (a @ b) s''" "reads (rd r k) u (a @ b)"
    using consumes_trans [OF a(1) b(1)] reads_rd [of r v a k u b] a(2) b(2) by blast+
  then show "\<exists>bs. consumes s bs s'' \<and> reads (rd r k) u bs" by blast
qed

lemma parser_if [parser_intros]: "parser r \<Longrightarrow> parser r' \<Longrightarrow> parser (if b then r else r')"
  by simp

lemma parser_source:
  assumes "0 < n" and "\<And>s. r s = bnd (source_read n s) (\<lambda>(b, s). Inr (dec b, s))"
  shows "parser r"
proof (rule parserI)
  fix s v s' assume "r s = Inr (v, s')"
  then obtain b where b: "source_read n s = Inr (b, s')" "v = dec b"
    by (auto simp: assms(2) bnd_def split: sum.splits)
  then have len: "cursor s + n \<le> length (storage s)" and bs: "b = take n (drop (cursor s) (storage s))"
    "s' = s\<lparr>cursor := cursor s + n\<rparr>"
    by (auto simp: source_read_def split: if_splits)
  then have n: "length b = n" by simp
  have "drop (cursor s) (storage s) = b @ drop n (drop (cursor s) (storage s))"
    by (simp only: bs(1) append_take_drop_id)
  then have "consumes s b s'" using bs(2) n unfolding consumes_def by blast
  moreover have "reads r v b"
    unfolding reads_def using source_read_prefix [of _ b] n assms(1) b(2)
    by (auto simp: assms(2) simp del: length_0_conv length_greater_0_conv)
  ultimately show "\<exists>bs. consumes s bs s' \<and> reads r v bs" by blast
qed

lemma parser_prims [parser_intros]: "parser r8" "parser r16" "parser r32" "parser r64"
proof -
  show "parser r8" by (rule parser_source [where n = 1 and dec = "\<lambda>b. b ! 0"]) (simp_all add: r8_def)
  show "parser r16" by (rule parser_source [where n = 2]) (simp_all add: r16_def)
  show "parser r32" by (rule parser_source [where n = 4]) (simp_all add: r32_def)
  show "parser r64" by (rule parser_source [where n = 8]) (simp_all add: r64_def)
qed

lemma parser_rbool [parser_intros]: "parser rbool"
proof -
  have eq: "rbool = rd r8 (\<lambda>v. ret (v \<noteq> 0))"
    by (rule ext) (auto simp: rbool_def rd_def ret_def bnd_def split: sum.splits)
  show ?thesis unfolding eq by (intro parser_rd parser_prims parser_ret)
qed

lemma parser_read_cstr: "parser (read_cstr acc)"
proof (rule parserI)
  fix s v s' assume "read_cstr acc s = Inr (v, s')"
  then show "\<exists>bs. consumes s bs s' \<and> reads (read_cstr acc) v bs"
  proof (induction acc s rule: read_cstr.induct)
    case (1 acc s)
    obtain c s1 where c: "r8 s = Inr (c, s1)"
      using 1(2) by (subst (asm) read_cstr.simps) (auto split: sum.splits)
    have c1: "consumes s [c] s1"
    proof -
      obtain bs where bs: "consumes s bs s1" "reads r8 c bs"
        by (rule parserE [OF parser_prims(1) c])
      have "cursor s1 = cursor s + 1" using c
        by (auto simp: r8_def source_read_def bnd_def split: if_splits sum.splits)
      with bs(1) have "length bs = 1" by (simp add: consumes_def)
      moreover have "r8 (stream_of bs) = Inr (c, \<lparr>storage = bs, cursor = length bs\<rparr>)"
        using bs(2) by (auto simp: reads_def stream_of_def)
      ultimately have "bs = [c]"
        by (cases bs) (auto simp: r8_def source_read_def stream_of_def)
      with bs(1) show ?thesis by simp
    qed
    have eq: "read_cstr a = rd r8 (\<lambda>d. if d = 0 then ret a else read_cstr (a @ [d]))" for a
      by (rule ext, subst read_cstr.simps) (auto simp: rd_def ret_def bnd_def split: sum.splits)
    show ?case
    proof (cases "c = 0")
      case True
      with 1(2) c have v: "v = acc" "s' = s1" by (auto simp: read_cstr.simps [of acc s])
      have "reads (ret acc) acc []" by (simp add: reads_def ret_def)
      then have "reads (read_cstr acc) acc [c]"
        using True reads_rd [OF reads_r8 [of c], of "\<lambda>d. if d = 0 then ret acc else read_cstr (acc @ [d])" acc "[]"]
        by (simp add: eq [of acc])
      with c1 v show ?thesis by blast
    next
      case False
      with 1(2) c have "read_cstr (acc @ [c]) s1 = Inr (v, s')" by (auto simp: read_cstr.simps [of acc s])
      with 1(1) [OF c refl False] obtain bs where bs: "consumes s1 bs s'" "reads (read_cstr (acc @ [c])) v bs"
        by auto
      from False have "reads (read_cstr acc) v ([c] @ bs)"
        using reads_rd [OF reads_r8 [of c], of "\<lambda>d. if d = 0 then ret acc else read_cstr (acc @ [d])" v bs] bs(2)
        by (simp add: eq [of acc])
      with consumes_trans [OF c1 bs(1)] show ?thesis by blast
    qed
  qed
qed

lemma parser_rstr [parser_intros]: "parser (rstr cv)"
proof -
  define conv where "conv b = (\<lambda>s. bnd (ToUtf8 cv b) (\<lambda>v. Inr (v, s :: stream)))" for b
  have "parser (conv b)" for b
    by (cases "ToUtf8 cv b") (auto simp: conv_def parser_def consumes_def reads_def intro: exI [of _ "[]"])
  moreover have "rstr cv = rd (read_cstr []) conv"
    by (rule ext) (simp add: rstr_def rd_def conv_def)
  ultimately show ?thesis by (simp add: parser_rd parser_read_cstr)
qed

lemma parser_read_n [parser_intros]: "parser r \<Longrightarrow> parser (read_n n r)"
proof (induction n)
  case 0
  have "read_n 0 r = ret []" by (rule ext) (simp add: ret_def)
  then show ?case by (simp only: parser_ret)
next
  case (Suc n)
  have "read_n (Suc n) r = rd r (\<lambda>x. rd (read_n n r) (\<lambda>xs. ret (x # xs)))" by (rule ext) simp
  with Suc show ?case by (simp only: parser_rd parser_ret)
qed

lemma parser_rlist [parser_intros]: "parser r \<Longrightarrow> parser (rlist r)"
  unfolding rlist_def by (intro parser_intros)

lemma parser_rlist_by [parser_intros]: "parser rn \<Longrightarrow> parser r \<Longrightarrow> parser (rlist_by rn r)"
  unfolding rlist_by_def by (intro parser_intros)

lemma parser_fld [parser_intros]: "parser r \<Longrightarrow> parser (fld r upd c)"
  unfolding fld_def by (intro parser_intros)

lemma parser_seqr_Nil [parser_intros]: "parser (seqr [] c)"
proof -
  have "seqr [] c = ret c" by (rule ext) simp
  then show ?thesis by (simp only: parser_ret)
qed

lemma parser_seqr_Cons [parser_intros]:
  "parser (r c) \<Longrightarrow> (\<And>c. parser (seqr rs c)) \<Longrightarrow> parser (seqr (r # rs) c)"
proof -
  have "seqr (r # rs) c = rd (r c) (seqr rs)" by (rule ext) simp
  then show "parser (r c) \<Longrightarrow> (\<And>c. parser (seqr rs c)) \<Longrightarrow> ?thesis" by (simp only: parser_rd)
qed

lemma parser_build [parser_intros]: "parser (seqr steps c) \<Longrightarrow> parser (build c steps)"
  by (simp add: build_def)

lemma parser_assign [parser_intros]: "parser (assign f c)"
  unfolding assign_def by (rule parser_ret)

lemma parser_emplace [parser_intros]: "parser r \<Longrightarrow> parser (emplace r)"
  unfolding emplace_def by (intro parser_intros)

lemma parser_rshop [parser_intros]: "parser rshop"
  unfolding rshop_def by (intro parser_intros)

lemma parser_nested [parser_intros]: "parser (nested payload step c)"
proof (rule parserI)
  fix s c' s' assume "nested payload step c s = Inr (c', s')"
  then have "consumes s [] s'" "reads (nested payload step c) c' []"
    by (auto simp: nested_def consumes_def reads_def bnd_def split: sum.splits)
  then show "\<exists>bs. consumes s bs s' \<and> reads (nested payload step c) c' bs" by blast
qed

definition Settings_default :: wire_settings where
  "Settings_default = \<lparr>ws_typeBitset = 0, ws_keyboard = [], ws_macros = replicate 8 [],
     ws_valueOption = 0, ws_gamepad = [], ws_age = 0, ws_hideAge = 0\<rparr>"

section \<open>The shared structures\<close>

lemma wire_parsers [parser_intros]:
  "parser Item_Read"
  "parser (StoredItem_Read cv)"
  "parser Quest_Read"
  "parser Housing_Read"
  "parser League_Read"
  "parser DailyQuest_Read"
  "parser ShopOrder_Read"
  "parser PackedVector3_Read"
  "parser ObjectiveProgress_Read"
  "parser Vector3_Read"
  "parser BreedingBonus_Read"
  "parser KeyboardOption_Read"
  "parser GamepadOption_Read"
  "parser CharacterParts_Read"
  "parser CharacterAppearance_Read"
  "parser Character_Read"
  "parser HorseParts_Read"
  "parser HorseAppearance_Read"
  "parser HorseStats_Read"
  "parser HorseMastery_Read"
  "parser MountCondition_Read"
  "parser Vals1_Read"
  "parser (Horse_Read cv)"
  "parser (Guild_Read cv)"
  "parser Rent_Read"
  "parser (Pet_Read cv)"
  "parser Egg_Read"
  "parser (PetInfo_Read cv)"
  "parser (PetBirthInfo_Read cv)"
  "parser (RanchHorse_Read cv)"
  "parser (RanchCharacter_Read cv)"
  "parser SkillSet_Read"
  unfolding Item_Read_def
    StoredItem_Read_def
    Quest_Read_def
    Housing_Read_def
    League_Read_def
    DailyQuest_Read_def
    ShopOrder_Read_def
    PackedVector3_Read_def
    ObjectiveProgress_Read_def
    Vector3_Read_def
    BreedingBonus_Read_def
    KeyboardOption_Read_def
    GamepadOption_Read_def
    CharacterParts_Read_def
    CharacterAppearance_Read_def
    Character_Read_def
    HorseParts_Read_def
    HorseAppearance_Read_def
    HorseStats_Read_def
    HorseMastery_Read_def
    MountCondition_Read_def
    Vals1_Read_def
    Horse_Read_def
    Guild_Read_def
    Rent_Read_def
    Pet_Read_def
    Egg_Read_def
    PetInfo_Read_def
    PetBirthInfo_Read_def
    RanchHorse_Read_def
    RanchCharacter_Read_def
    SkillSet_Read_def
  by (intro parser_intros)+

lemma parser_Settings [parser_intros]: "parser (Settings_Read cv v0)"
  unfolding Settings_Read_def Settings_keyboard_r_def Settings_gamepad_r_def by (intro parser_intros)

end
