(* ===== verification/Msg_Chatter.thy ===== *)
theory Msg_Chatter imports Messages begin

text \<open>
  \<open>libserver/network/chatter/proto/ChatterMessageDefinitions.hpp\<close> and \<open>.cpp\<close>: the messages of
  the chatter servers.
\<close>

record Presence =
  Presence_status :: "u8"
  Presence_scene :: "u32"
  Presence_sceneUid :: "u32"

definition Presence_Write :: "Presence \<Rightarrow> stream \<Rightarrow> exn + stream" where
  "Presence_Write v = seqw [
     w8 (Presence_status v),
     w32 (Presence_scene v),
     w32 (Presence_sceneUid v)]"

definition Presence_Read :: "stream \<Rightarrow> exn + (Presence \<times> stream)" where
  "Presence_Read =
     rd r8 (\<lambda>status'.
     rd r32 (\<lambda>scene'.
     rd r32 (\<lambda>sceneUid'.
     ret \<lparr>Presence_status = status',
       Presence_scene = scene',
       Presence_sceneUid = sceneUid'\<rparr>)))"

datatype (plugins only:) ChatCmdLogin = ChatCmdLogin
  (ChatCmdLogin_characterUid: "u32")
  (ChatCmdLogin_name: "bytes")
  (ChatCmdLogin_code: "u32")
  (ChatCmdLogin_guildUid: "u32")

definition ChatCmdLogin_Write :: "ChatCmdLogin \<Rightarrow> stream \<Rightarrow> exn + stream" where
  "ChatCmdLogin_Write _ = throws (RuntimeError ''Not implemented'')"

definition ChatCmdLogin_Read :: "icu \<Rightarrow> stream \<Rightarrow> exn + (ChatCmdLogin \<times> stream)" where
  "ChatCmdLogin_Read cv =
     rd r32 (\<lambda>characterUid'.
     rd (rstr cv) (\<lambda>name'.
     rd r32 (\<lambda>code'.
     rd r32 (\<lambda>guildUid'.
     ret (ChatCmdLogin characterUid' name' code' guildUid')))))"

datatype (plugins only:) ChatCmdLoginAckOK_MailAlarm = ChatCmdLoginAckOK_MailAlarm
  (ChatCmdLoginAckOK_MailAlarm_unreadMailCount: "u32")
  (ChatCmdLoginAckOK_MailAlarm_hasMail: "bool")

datatype (plugins only:) ChatCmdLoginAckOK_Group = ChatCmdLoginAckOK_Group
  (ChatCmdLoginAckOK_Group_uid: "u32")
  (ChatCmdLoginAckOK_Group_name: "bytes")

datatype (plugins only:) ChatCmdLoginAckOK_Friend = ChatCmdLoginAckOK_Friend
  (ChatCmdLoginAckOK_Friend_uid: "u32")
  (ChatCmdLoginAckOK_Friend_categoryUid: "u32")
  (ChatCmdLoginAckOK_Friend_name: "bytes")
  (ChatCmdLoginAckOK_Friend_status: "u8")
  (ChatCmdLoginAckOK_Friend_member5: "u8")
  (ChatCmdLoginAckOK_Friend_scene: "u32")
  (ChatCmdLoginAckOK_Friend_sceneUid: "u32")

datatype (plugins only:) ChatCmdLoginAckOK = ChatCmdLoginAckOK
  (ChatCmdLoginAckOK_latestUnreadMailUid: "u32")
  (ChatCmdLoginAckOK_mailAlarm: "ChatCmdLoginAckOK_MailAlarm")
  (ChatCmdLoginAckOK_groups: "ChatCmdLoginAckOK_Group list")
  (ChatCmdLoginAckOK_friends: "ChatCmdLoginAckOK_Friend list")

definition ChatCmdLoginAckOK_Write :: "icu \<Rightarrow> ChatCmdLoginAckOK \<Rightarrow> stream \<Rightarrow> exn + stream" where
  "ChatCmdLoginAckOK_Write cv v = seqw [
     w32 (ChatCmdLoginAckOK_latestUnreadMailUid v),
     w32 (ChatCmdLoginAckOK_MailAlarm_unreadMailCount (ChatCmdLoginAckOK_mailAlarm v)),
     wbool (ChatCmdLoginAckOK_MailAlarm_hasMail (ChatCmdLoginAckOK_mailAlarm v)),
     w32 (of_nat (length (ChatCmdLoginAckOK_groups v))),
     seqw (map (\<lambda>group. seqw [
         w32 (ChatCmdLoginAckOK_Group_uid group),
         wstr cv (ChatCmdLoginAckOK_Group_name group)]) (ChatCmdLoginAckOK_groups v)),
     w32 (of_nat (length (ChatCmdLoginAckOK_friends v))),
     seqw (map (\<lambda>fr. seqw [
         w32 (ChatCmdLoginAckOK_Friend_uid fr),
         w32 (ChatCmdLoginAckOK_Friend_categoryUid fr),
         wstr cv (ChatCmdLoginAckOK_Friend_name fr),
         w8 (ChatCmdLoginAckOK_Friend_status fr),
         w8 (ChatCmdLoginAckOK_Friend_member5 fr),
         w32 (ChatCmdLoginAckOK_Friend_scene fr),
         w32 (ChatCmdLoginAckOK_Friend_sceneUid fr)]) (ChatCmdLoginAckOK_friends v))]"

definition ChatCmdLoginAckOK_Read :: "stream \<Rightarrow> exn + (ChatCmdLoginAckOK \<times> stream)" where
  "ChatCmdLoginAckOK_Read = throws (RuntimeError ''Not implemented'')"

datatype (plugins only:) ChatCmdLoginAckCancel = ChatCmdLoginAckCancel
  (ChatCmdLoginAckCancel_errorCode: "u32")

definition ChatCmdLoginAckCancel_Write :: "ChatCmdLoginAckCancel \<Rightarrow> stream \<Rightarrow> exn + stream" where
  "ChatCmdLoginAckCancel_Write v = seqw [
     w32 (ChatCmdLoginAckCancel_errorCode v)]"

definition ChatCmdLoginAckCancel_Read :: "stream \<Rightarrow> exn + (ChatCmdLoginAckCancel \<times> stream)" where
  "ChatCmdLoginAckCancel_Read = throws (RuntimeError ''Not implemented'')"

datatype (plugins only:) ChatCmdBuddyAdd = ChatCmdBuddyAdd
  (ChatCmdBuddyAdd_characterName: "bytes")

definition ChatCmdBuddyAdd_Write :: "ChatCmdBuddyAdd \<Rightarrow> stream \<Rightarrow> exn + stream" where
  "ChatCmdBuddyAdd_Write _ = throws (RuntimeError ''Not implemented'')"

definition ChatCmdBuddyAdd_Read :: "icu \<Rightarrow> stream \<Rightarrow> exn + (ChatCmdBuddyAdd \<times> stream)" where
  "ChatCmdBuddyAdd_Read cv =
     rd (rstr cv) (\<lambda>characterName'.
     ret (ChatCmdBuddyAdd characterName'))"

datatype (plugins only:) ChatCmdBuddyAddAckOk = ChatCmdBuddyAddAckOk
  (ChatCmdBuddyAddAckOk_characterUid: "u32")
  (ChatCmdBuddyAddAckOk_characterName: "bytes")
  (ChatCmdBuddyAddAckOk_unk2: "u8")
  (ChatCmdBuddyAddAckOk_status: "u8")

definition ChatCmdBuddyAddAckOk_Write :: "icu \<Rightarrow> ChatCmdBuddyAddAckOk \<Rightarrow> stream \<Rightarrow> exn + stream" where
  "ChatCmdBuddyAddAckOk_Write cv v = seqw [
     w32 (ChatCmdBuddyAddAckOk_characterUid v),
     wstr cv (ChatCmdBuddyAddAckOk_characterName v),
     w8 (ChatCmdBuddyAddAckOk_unk2 v),
     w8 (ChatCmdBuddyAddAckOk_status v)]"

definition ChatCmdBuddyAddAckOk_Read :: "stream \<Rightarrow> exn + (ChatCmdBuddyAddAckOk \<times> stream)" where
  "ChatCmdBuddyAddAckOk_Read = throws (RuntimeError ''Not implemented'')"

datatype (plugins only:) ChatCmdBuddyAddAckCancel = ChatCmdBuddyAddAckCancel
  (ChatCmdBuddyAddAckCancel_errorCode: "u32")

definition ChatCmdBuddyAddAckCancel_Write :: "ChatCmdBuddyAddAckCancel \<Rightarrow> stream \<Rightarrow> exn + stream" where
  "ChatCmdBuddyAddAckCancel_Write v = seqw [
     w32 (ChatCmdBuddyAddAckCancel_errorCode v)]"

definition ChatCmdBuddyAddAckCancel_Read :: "stream \<Rightarrow> exn + (ChatCmdBuddyAddAckCancel \<times> stream)" where
  "ChatCmdBuddyAddAckCancel_Read = throws (RuntimeError ''Not implemented'')"

datatype (plugins only:) ChatCmdBuddyAddRequestTrs = ChatCmdBuddyAddRequestTrs
  (ChatCmdBuddyAddRequestTrs_requestingCharacterUid: "u32")
  (ChatCmdBuddyAddRequestTrs_requestingCharacterName: "bytes")

definition ChatCmdBuddyAddRequestTrs_Write :: "icu \<Rightarrow> ChatCmdBuddyAddRequestTrs \<Rightarrow> stream \<Rightarrow> exn + stream" where
  "ChatCmdBuddyAddRequestTrs_Write cv v = seqw [
     w32 (ChatCmdBuddyAddRequestTrs_requestingCharacterUid v),
     wstr cv (ChatCmdBuddyAddRequestTrs_requestingCharacterName v)]"

definition ChatCmdBuddyAddRequestTrs_Read :: "stream \<Rightarrow> exn + (ChatCmdBuddyAddRequestTrs \<times> stream)" where
  "ChatCmdBuddyAddRequestTrs_Read = throws (RuntimeError ''Not implemented'')"

datatype (plugins only:) ChatCmdBuddyAddReply = ChatCmdBuddyAddReply
  (ChatCmdBuddyAddReply_requestingCharacterUid: "u32")
  (ChatCmdBuddyAddReply_requestAccepted: "bool")

definition ChatCmdBuddyAddReply_Write :: "ChatCmdBuddyAddReply \<Rightarrow> stream \<Rightarrow> exn + stream" where
  "ChatCmdBuddyAddReply_Write _ = throws (RuntimeError ''Not implemented'')"

definition ChatCmdBuddyAddReply_Read :: "stream \<Rightarrow> exn + (ChatCmdBuddyAddReply \<times> stream)" where
  "ChatCmdBuddyAddReply_Read =
     rd r32 (\<lambda>requestingCharacterUid'.
     rd rbool (\<lambda>requestAccepted'.
     ret (ChatCmdBuddyAddReply requestingCharacterUid' requestAccepted')))"

datatype (plugins only:) ChatCmdBuddyDelete = ChatCmdBuddyDelete
  (ChatCmdBuddyDelete_characterUid: "u32")

definition ChatCmdBuddyDelete_Write :: "ChatCmdBuddyDelete \<Rightarrow> stream \<Rightarrow> exn + stream" where
  "ChatCmdBuddyDelete_Write _ = throws (RuntimeError ''Not implemented'')"

definition ChatCmdBuddyDelete_Read :: "stream \<Rightarrow> exn + (ChatCmdBuddyDelete \<times> stream)" where
  "ChatCmdBuddyDelete_Read =
     rd r32 (\<lambda>characterUid'.
     ret (ChatCmdBuddyDelete characterUid'))"

datatype (plugins only:) ChatCmdBuddyDeleteAckOk = ChatCmdBuddyDeleteAckOk
  (ChatCmdBuddyDeleteAckOk_characterUid: "u32")

definition ChatCmdBuddyDeleteAckOk_Write :: "ChatCmdBuddyDeleteAckOk \<Rightarrow> stream \<Rightarrow> exn + stream" where
  "ChatCmdBuddyDeleteAckOk_Write v = seqw [
     w32 (ChatCmdBuddyDeleteAckOk_characterUid v)]"

definition ChatCmdBuddyDeleteAckOk_Read :: "stream \<Rightarrow> exn + (ChatCmdBuddyDeleteAckOk \<times> stream)" where
  "ChatCmdBuddyDeleteAckOk_Read = throws (RuntimeError ''Not implemented'')"

datatype (plugins only:) ChatCmdBuddyDeleteAckCancel = ChatCmdBuddyDeleteAckCancel
  (ChatCmdBuddyDeleteAckCancel_errorCode: "u32")

definition ChatCmdBuddyDeleteAckCancel_Write :: "ChatCmdBuddyDeleteAckCancel \<Rightarrow> stream \<Rightarrow> exn + stream" where
  "ChatCmdBuddyDeleteAckCancel_Write v = seqw [
     w32 (ChatCmdBuddyDeleteAckCancel_errorCode v)]"

definition ChatCmdBuddyDeleteAckCancel_Read :: "stream \<Rightarrow> exn + (ChatCmdBuddyDeleteAckCancel \<times> stream)" where
  "ChatCmdBuddyDeleteAckCancel_Read = throws (RuntimeError ''Not implemented'')"

datatype (plugins only:) ChatCmdBuddyMove = ChatCmdBuddyMove
  (ChatCmdBuddyMove_characterUid: "u32")
  (ChatCmdBuddyMove_groupUid: "u32")

definition ChatCmdBuddyMove_Write :: "ChatCmdBuddyMove \<Rightarrow> stream \<Rightarrow> exn + stream" where
  "ChatCmdBuddyMove_Write _ = throws (RuntimeError ''Not implemented'')"

definition ChatCmdBuddyMove_Read :: "stream \<Rightarrow> exn + (ChatCmdBuddyMove \<times> stream)" where
  "ChatCmdBuddyMove_Read =
     rd r32 (\<lambda>characterUid'.
     rd r32 (\<lambda>groupUid'.
     ret (ChatCmdBuddyMove characterUid' groupUid')))"

datatype (plugins only:) ChatCmdBuddyMoveAckOk = ChatCmdBuddyMoveAckOk
  (ChatCmdBuddyMoveAckOk_characterUid: "u32")
  (ChatCmdBuddyMoveAckOk_groupUid: "u32")

definition ChatCmdBuddyMoveAckOk_Write :: "ChatCmdBuddyMoveAckOk \<Rightarrow> stream \<Rightarrow> exn + stream" where
  "ChatCmdBuddyMoveAckOk_Write v = seqw [
     w32 (ChatCmdBuddyMoveAckOk_characterUid v),
     w32 (ChatCmdBuddyMoveAckOk_groupUid v)]"

definition ChatCmdBuddyMoveAckOk_Read :: "stream \<Rightarrow> exn + (ChatCmdBuddyMoveAckOk \<times> stream)" where
  "ChatCmdBuddyMoveAckOk_Read = throws (RuntimeError ''Not implemented'')"

datatype (plugins only:) ChatCmdBuddyMoveAckCancel = ChatCmdBuddyMoveAckCancel
  (ChatCmdBuddyMoveAckCancel_errorCode: "u32")

definition ChatCmdBuddyMoveAckCancel_Write :: "ChatCmdBuddyMoveAckCancel \<Rightarrow> stream \<Rightarrow> exn + stream" where
  "ChatCmdBuddyMoveAckCancel_Write v = seqw [
     w32 (ChatCmdBuddyMoveAckCancel_errorCode v)]"

definition ChatCmdBuddyMoveAckCancel_Read :: "stream \<Rightarrow> exn + (ChatCmdBuddyMoveAckCancel \<times> stream)" where
  "ChatCmdBuddyMoveAckCancel_Read = throws (RuntimeError ''Not implemented'')"

datatype (plugins only:) ChatCmdGroupAdd = ChatCmdGroupAdd
  (ChatCmdGroupAdd_groupName: "bytes")

definition ChatCmdGroupAdd_Write :: "ChatCmdGroupAdd \<Rightarrow> stream \<Rightarrow> exn + stream" where
  "ChatCmdGroupAdd_Write _ = throws (RuntimeError ''Not implemented'')"

definition ChatCmdGroupAdd_Read :: "icu \<Rightarrow> stream \<Rightarrow> exn + (ChatCmdGroupAdd \<times> stream)" where
  "ChatCmdGroupAdd_Read cv =
     rd (rstr cv) (\<lambda>groupName'.
     ret (ChatCmdGroupAdd groupName'))"

datatype (plugins only:) ChatCmdGroupAddAckOk = ChatCmdGroupAddAckOk
  (ChatCmdGroupAddAckOk_groupUid: "u32")
  (ChatCmdGroupAddAckOk_groupName: "bytes")

definition ChatCmdGroupAddAckOk_Write :: "icu \<Rightarrow> ChatCmdGroupAddAckOk \<Rightarrow> stream \<Rightarrow> exn + stream" where
  "ChatCmdGroupAddAckOk_Write cv v = seqw [
     w32 (ChatCmdGroupAddAckOk_groupUid v),
     wstr cv (ChatCmdGroupAddAckOk_groupName v)]"

definition ChatCmdGroupAddAckOk_Read :: "stream \<Rightarrow> exn + (ChatCmdGroupAddAckOk \<times> stream)" where
  "ChatCmdGroupAddAckOk_Read = throws (RuntimeError ''Not implemented'')"

datatype (plugins only:) ChatCmdGroupAddAckCancel = ChatCmdGroupAddAckCancel
  (ChatCmdGroupAddAckCancel_errorCode: "u32")

definition ChatCmdGroupAddAckCancel_Write :: "ChatCmdGroupAddAckCancel \<Rightarrow> stream \<Rightarrow> exn + stream" where
  "ChatCmdGroupAddAckCancel_Write v = seqw [
     w32 (ChatCmdGroupAddAckCancel_errorCode v)]"

definition ChatCmdGroupAddAckCancel_Read :: "stream \<Rightarrow> exn + (ChatCmdGroupAddAckCancel \<times> stream)" where
  "ChatCmdGroupAddAckCancel_Read = throws (RuntimeError ''Not implemented'')"

datatype (plugins only:) ChatCmdGroupRename = ChatCmdGroupRename
  (ChatCmdGroupRename_groupUid: "u32")
  (ChatCmdGroupRename_groupName: "bytes")

definition ChatCmdGroupRename_Write :: "ChatCmdGroupRename \<Rightarrow> stream \<Rightarrow> exn + stream" where
  "ChatCmdGroupRename_Write _ = throws (RuntimeError ''Not implemented'')"

definition ChatCmdGroupRename_Read :: "icu \<Rightarrow> stream \<Rightarrow> exn + (ChatCmdGroupRename \<times> stream)" where
  "ChatCmdGroupRename_Read cv =
     rd r32 (\<lambda>groupUid'.
     rd (rstr cv) (\<lambda>groupName'.
     ret (ChatCmdGroupRename groupUid' groupName')))"

datatype (plugins only:) ChatCmdGroupRenameAckOk = ChatCmdGroupRenameAckOk
  (ChatCmdGroupRenameAckOk_groupUid: "u32")
  (ChatCmdGroupRenameAckOk_groupName: "bytes")

definition ChatCmdGroupRenameAckOk_Write :: "icu \<Rightarrow> ChatCmdGroupRenameAckOk \<Rightarrow> stream \<Rightarrow> exn + stream" where
  "ChatCmdGroupRenameAckOk_Write cv v = seqw [
     w32 (ChatCmdGroupRenameAckOk_groupUid v),
     wstr cv (ChatCmdGroupRenameAckOk_groupName v)]"

definition ChatCmdGroupRenameAckOk_Read :: "stream \<Rightarrow> exn + (ChatCmdGroupRenameAckOk \<times> stream)" where
  "ChatCmdGroupRenameAckOk_Read = throws (RuntimeError ''Not implemented'')"

datatype (plugins only:) ChatCmdGroupRenameAckCancel = ChatCmdGroupRenameAckCancel
  (ChatCmdGroupRenameAckCancel_errorCode: "u32")

definition ChatCmdGroupRenameAckCancel_Write :: "ChatCmdGroupRenameAckCancel \<Rightarrow> stream \<Rightarrow> exn + stream" where
  "ChatCmdGroupRenameAckCancel_Write v = seqw [
     w32 (ChatCmdGroupRenameAckCancel_errorCode v)]"

definition ChatCmdGroupRenameAckCancel_Read :: "stream \<Rightarrow> exn + (ChatCmdGroupRenameAckCancel \<times> stream)" where
  "ChatCmdGroupRenameAckCancel_Read = throws (RuntimeError ''Not implemented'')"

datatype (plugins only:) ChatCmdGroupDelete = ChatCmdGroupDelete
  (ChatCmdGroupDelete_groupUid: "u32")

definition ChatCmdGroupDelete_Write :: "ChatCmdGroupDelete \<Rightarrow> stream \<Rightarrow> exn + stream" where
  "ChatCmdGroupDelete_Write _ = throws (RuntimeError ''Not implemented'')"

definition ChatCmdGroupDelete_Read :: "stream \<Rightarrow> exn + (ChatCmdGroupDelete \<times> stream)" where
  "ChatCmdGroupDelete_Read =
     rd r32 (\<lambda>groupUid'.
     ret (ChatCmdGroupDelete groupUid'))"

datatype (plugins only:) ChatCmdGroupDeleteAckOk = ChatCmdGroupDeleteAckOk
  (ChatCmdGroupDeleteAckOk_groupUid: "u32")

definition ChatCmdGroupDeleteAckOk_Write :: "ChatCmdGroupDeleteAckOk \<Rightarrow> stream \<Rightarrow> exn + stream" where
  "ChatCmdGroupDeleteAckOk_Write v = seqw [
     w32 (ChatCmdGroupDeleteAckOk_groupUid v)]"

definition ChatCmdGroupDeleteAckOk_Read :: "stream \<Rightarrow> exn + (ChatCmdGroupDeleteAckOk \<times> stream)" where
  "ChatCmdGroupDeleteAckOk_Read = throws (RuntimeError ''Not implemented'')"

datatype (plugins only:) ChatCmdGroupDeleteAckCancel = ChatCmdGroupDeleteAckCancel
  (ChatCmdGroupDeleteAckCancel_errorCode: "u32")

definition ChatCmdGroupDeleteAckCancel_Write :: "ChatCmdGroupDeleteAckCancel \<Rightarrow> stream \<Rightarrow> exn + stream" where
  "ChatCmdGroupDeleteAckCancel_Write v = seqw [
     w32 (ChatCmdGroupDeleteAckCancel_errorCode v)]"

definition ChatCmdGroupDeleteAckCancel_Read :: "stream \<Rightarrow> exn + (ChatCmdGroupDeleteAckCancel \<times> stream)" where
  "ChatCmdGroupDeleteAckCancel_Read = throws (RuntimeError ''Not implemented'')"

datatype (plugins only:) ChatCmdLetterList_Request = ChatCmdLetterList_Request
  (ChatCmdLetterList_Request_lastMailUid: "u32")
  (ChatCmdLetterList_Request_count: "u32")

definition ChatCmdLetterList_Request_Write :: "ChatCmdLetterList_Request \<Rightarrow> stream \<Rightarrow> exn + stream" where
  "ChatCmdLetterList_Request_Write _ = throws (RuntimeError ''Not implemented'')"

definition ChatCmdLetterList_Request_Read :: "stream \<Rightarrow> exn + (ChatCmdLetterList_Request \<times> stream)" where
  "ChatCmdLetterList_Request_Read =
     rd r32 (\<lambda>lastMailUid'.
     rd r32 (\<lambda>count'.
     ret (ChatCmdLetterList_Request lastMailUid' count')))"

datatype (plugins only:) ChatCmdLetterList = ChatCmdLetterList
  (ChatCmdLetterList_mailboxFolder: "u8")
  (ChatCmdLetterList_request: "ChatCmdLetterList_Request")

definition ChatCmdLetterList_Write :: "ChatCmdLetterList \<Rightarrow> stream \<Rightarrow> exn + stream" where
  "ChatCmdLetterList_Write _ = throws (RuntimeError ''Not implemented'')"

definition ChatCmdLetterList_Read :: "stream \<Rightarrow> exn + (ChatCmdLetterList \<times> stream)" where
  "ChatCmdLetterList_Read =
     rd r8 (\<lambda>mailboxFolder'.
     rd ChatCmdLetterList_Request_Read (\<lambda>request'.
     ret (ChatCmdLetterList mailboxFolder' request')))"

datatype (plugins only:) ChatCmdLetterListAckOk_MailboxInfo = ChatCmdLetterListAckOk_MailboxInfo
  (ChatCmdLetterListAckOk_MailboxInfo_mailCount: "u32")
  (ChatCmdLetterListAckOk_MailboxInfo_hasMoreMail: "u8")

datatype (plugins only:) ChatCmdLetterListAckOk_InboxMail_Struct0 = ChatCmdLetterListAckOk_InboxMail_Struct0
  (ChatCmdLetterListAckOk_InboxMail_Struct0_unk0: "bytes")
  (ChatCmdLetterListAckOk_InboxMail_Struct0_body: "bytes")

datatype (plugins only:) ChatCmdLetterListAckOk_InboxMail = ChatCmdLetterListAckOk_InboxMail
  (ChatCmdLetterListAckOk_InboxMail_uid: "u32")
  (ChatCmdLetterListAckOk_InboxMail_type: "u32")
  (ChatCmdLetterListAckOk_InboxMail_claimUid: "u32")
  (ChatCmdLetterListAckOk_InboxMail_sender: "bytes")
  (ChatCmdLetterListAckOk_InboxMail_date: "bytes")
  (ChatCmdLetterListAckOk_InboxMail_struct0: "ChatCmdLetterListAckOk_InboxMail_Struct0")

datatype (plugins only:) ChatCmdLetterListAckOk_SentMail_Content = ChatCmdLetterListAckOk_SentMail_Content
  (ChatCmdLetterListAckOk_SentMail_Content_date: "bytes")
  (ChatCmdLetterListAckOk_SentMail_Content_body: "bytes")

datatype (plugins only:) ChatCmdLetterListAckOk_SentMail = ChatCmdLetterListAckOk_SentMail
  (ChatCmdLetterListAckOk_SentMail_mailUid: "u32")
  (ChatCmdLetterListAckOk_SentMail_recipient: "bytes")
  (ChatCmdLetterListAckOk_SentMail_content: "ChatCmdLetterListAckOk_SentMail_Content")

datatype (plugins only:) ChatCmdLetterListAckOk = ChatCmdLetterListAckOk
  (ChatCmdLetterListAckOk_mailboxFolder: "u8")
  (ChatCmdLetterListAckOk_mailboxInfo: "ChatCmdLetterListAckOk_MailboxInfo")
  (ChatCmdLetterListAckOk_inboxMails: "ChatCmdLetterListAckOk_InboxMail list")
  (ChatCmdLetterListAckOk_sentMails: "ChatCmdLetterListAckOk_SentMail list")

definition ChatCmdLetterListAckOk_Write :: "icu \<Rightarrow> ChatCmdLetterListAckOk \<Rightarrow> stream \<Rightarrow> exn + stream" where
  "ChatCmdLetterListAckOk_Write cv v = seqw [
     w8 (ChatCmdLetterListAckOk_mailboxFolder v),
     w32 (ChatCmdLetterListAckOk_MailboxInfo_mailCount (ChatCmdLetterListAckOk_mailboxInfo v)),
     w8 (ChatCmdLetterListAckOk_MailboxInfo_hasMoreMail (ChatCmdLetterListAckOk_mailboxInfo v)),
     (if ChatCmdLetterListAckOk_mailboxFolder v = 1 then seqw (map (\<lambda>sentMail. seqw [
               w32 (ChatCmdLetterListAckOk_SentMail_mailUid sentMail),
               wstr cv (ChatCmdLetterListAckOk_SentMail_recipient sentMail),
               wstr cv (ChatCmdLetterListAckOk_SentMail_Content_date (ChatCmdLetterListAckOk_SentMail_content sentMail)),
               wstr cv (ChatCmdLetterListAckOk_SentMail_Content_body (ChatCmdLetterListAckOk_SentMail_content sentMail))]) (ChatCmdLetterListAckOk_sentMails v))
      else if ChatCmdLetterListAckOk_mailboxFolder v = 2 then seqw (map (\<lambda>mail. seqw [
               w32 (ChatCmdLetterListAckOk_InboxMail_uid mail),
               w32 (ChatCmdLetterListAckOk_InboxMail_type mail),
               w32 (ChatCmdLetterListAckOk_InboxMail_claimUid mail),
               wstr cv (ChatCmdLetterListAckOk_InboxMail_sender mail),
               wstr cv (ChatCmdLetterListAckOk_InboxMail_date mail),
               wstr cv (ChatCmdLetterListAckOk_InboxMail_Struct0_unk0 (ChatCmdLetterListAckOk_InboxMail_struct0 mail)),
               wstr cv (ChatCmdLetterListAckOk_InboxMail_Struct0_body (ChatCmdLetterListAckOk_InboxMail_struct0 mail))]) (ChatCmdLetterListAckOk_inboxMails v))
      else throws (RuntimeError ''Not implemented''))]"

definition ChatCmdLetterListAckOk_Read :: "stream \<Rightarrow> exn + (ChatCmdLetterListAckOk \<times> stream)" where
  "ChatCmdLetterListAckOk_Read = throws (RuntimeError ''Not implemented'')"

datatype (plugins only:) ChatCmdLetterListAckCancel = ChatCmdLetterListAckCancel
  (ChatCmdLetterListAckCancel_errorCode: "u32")

definition ChatCmdLetterListAckCancel_Write :: "ChatCmdLetterListAckCancel \<Rightarrow> stream \<Rightarrow> exn + stream" where
  "ChatCmdLetterListAckCancel_Write v = seqw [
     w32 (ChatCmdLetterListAckCancel_errorCode v)]"

definition ChatCmdLetterListAckCancel_Read :: "stream \<Rightarrow> exn + (ChatCmdLetterListAckCancel \<times> stream)" where
  "ChatCmdLetterListAckCancel_Read = throws (RuntimeError ''Not implemented'')"

datatype (plugins only:) ChatCmdLetterSend = ChatCmdLetterSend
  (ChatCmdLetterSend_recipient: "bytes")
  (ChatCmdLetterSend_body: "bytes")

definition ChatCmdLetterSend_Write :: "ChatCmdLetterSend \<Rightarrow> stream \<Rightarrow> exn + stream" where
  "ChatCmdLetterSend_Write _ = throws (RuntimeError ''Not implemented'')"

definition ChatCmdLetterSend_Read :: "icu \<Rightarrow> stream \<Rightarrow> exn + (ChatCmdLetterSend \<times> stream)" where
  "ChatCmdLetterSend_Read cv =
     rd (rstr cv) (\<lambda>recipient'.
     rd (rstr cv) (\<lambda>body'.
     ret (ChatCmdLetterSend recipient' body')))"

datatype (plugins only:) ChatCmdLetterSendAckOk = ChatCmdLetterSendAckOk
  (ChatCmdLetterSendAckOk_mailUid: "u32")
  (ChatCmdLetterSendAckOk_recipient: "bytes")
  (ChatCmdLetterSendAckOk_date: "bytes")
  (ChatCmdLetterSendAckOk_body: "bytes")

definition ChatCmdLetterSendAckOk_Write :: "icu \<Rightarrow> ChatCmdLetterSendAckOk \<Rightarrow> stream \<Rightarrow> exn + stream" where
  "ChatCmdLetterSendAckOk_Write cv v = seqw [
     w32 (ChatCmdLetterSendAckOk_mailUid v),
     wstr cv (ChatCmdLetterSendAckOk_recipient v),
     wstr cv (ChatCmdLetterSendAckOk_date v),
     wstr cv (ChatCmdLetterSendAckOk_body v)]"

definition ChatCmdLetterSendAckOk_Read :: "stream \<Rightarrow> exn + (ChatCmdLetterSendAckOk \<times> stream)" where
  "ChatCmdLetterSendAckOk_Read = throws (RuntimeError ''Not implemented'')"

datatype (plugins only:) ChatCmdLetterSendAckCancel = ChatCmdLetterSendAckCancel
  (ChatCmdLetterSendAckCancel_errorCode: "u32")

definition ChatCmdLetterSendAckCancel_Write :: "ChatCmdLetterSendAckCancel \<Rightarrow> stream \<Rightarrow> exn + stream" where
  "ChatCmdLetterSendAckCancel_Write v = seqw [
     w32 (ChatCmdLetterSendAckCancel_errorCode v)]"

definition ChatCmdLetterSendAckCancel_Read :: "stream \<Rightarrow> exn + (ChatCmdLetterSendAckCancel \<times> stream)" where
  "ChatCmdLetterSendAckCancel_Read = throws (RuntimeError ''Not implemented'')"

datatype (plugins only:) ChatCmdLetterRead = ChatCmdLetterRead
  (ChatCmdLetterRead_unk0: "u8")
  (ChatCmdLetterRead_mailUid: "u32")

definition ChatCmdLetterRead_Write :: "ChatCmdLetterRead \<Rightarrow> stream \<Rightarrow> exn + stream" where
  "ChatCmdLetterRead_Write _ = throws (RuntimeError ''Not implemented'')"

definition ChatCmdLetterRead_Read :: "stream \<Rightarrow> exn + (ChatCmdLetterRead \<times> stream)" where
  "ChatCmdLetterRead_Read =
     rd r8 (\<lambda>unk0'.
     rd r32 (\<lambda>mailUid'.
     ret (ChatCmdLetterRead unk0' mailUid')))"

datatype (plugins only:) ChatCmdLetterReadAckOk = ChatCmdLetterReadAckOk
  (ChatCmdLetterReadAckOk_unk0: "u8")
  (ChatCmdLetterReadAckOk_mailUid: "u32")
  (ChatCmdLetterReadAckOk_unk2: "bytes")

definition ChatCmdLetterReadAckOk_Write :: "icu \<Rightarrow> ChatCmdLetterReadAckOk \<Rightarrow> stream \<Rightarrow> exn + stream" where
  "ChatCmdLetterReadAckOk_Write cv v = seqw [
     w8 (ChatCmdLetterReadAckOk_unk0 v),
     w32 (ChatCmdLetterReadAckOk_mailUid v),
     wstr cv (ChatCmdLetterReadAckOk_unk2 v)]"

definition ChatCmdLetterReadAckOk_Read :: "stream \<Rightarrow> exn + (ChatCmdLetterReadAckOk \<times> stream)" where
  "ChatCmdLetterReadAckOk_Read = throws (RuntimeError ''Not implemented'')"

datatype (plugins only:) ChatCmdLetterReadAckCancel = ChatCmdLetterReadAckCancel
  (ChatCmdLetterReadAckCancel_errorCode: "u32")

definition ChatCmdLetterReadAckCancel_Write :: "ChatCmdLetterReadAckCancel \<Rightarrow> stream \<Rightarrow> exn + stream" where
  "ChatCmdLetterReadAckCancel_Write v = seqw [
     w32 (ChatCmdLetterReadAckCancel_errorCode v)]"

definition ChatCmdLetterReadAckCancel_Read :: "stream \<Rightarrow> exn + (ChatCmdLetterReadAckCancel \<times> stream)" where
  "ChatCmdLetterReadAckCancel_Read = throws (RuntimeError ''Not implemented'')"

datatype (plugins only:) ChatCmdLetterDelete = ChatCmdLetterDelete
  (ChatCmdLetterDelete_folder: "u8")
  (ChatCmdLetterDelete_mailUid: "u32")

definition ChatCmdLetterDelete_Write :: "ChatCmdLetterDelete \<Rightarrow> stream \<Rightarrow> exn + stream" where
  "ChatCmdLetterDelete_Write _ = throws (RuntimeError ''Not implemented'')"

definition ChatCmdLetterDelete_Read :: "stream \<Rightarrow> exn + (ChatCmdLetterDelete \<times> stream)" where
  "ChatCmdLetterDelete_Read =
     rd r8 (\<lambda>folder'.
     rd r32 (\<lambda>mailUid'.
     ret (ChatCmdLetterDelete folder' mailUid')))"

datatype (plugins only:) ChatCmdLetterDeleteAckOk = ChatCmdLetterDeleteAckOk
  (ChatCmdLetterDeleteAckOk_folder: "u8")
  (ChatCmdLetterDeleteAckOk_mailUid: "u32")

definition ChatCmdLetterDeleteAckOk_Write :: "ChatCmdLetterDeleteAckOk \<Rightarrow> stream \<Rightarrow> exn + stream" where
  "ChatCmdLetterDeleteAckOk_Write v = seqw [
     w8 (ChatCmdLetterDeleteAckOk_folder v),
     w32 (ChatCmdLetterDeleteAckOk_mailUid v)]"

definition ChatCmdLetterDeleteAckOk_Read :: "stream \<Rightarrow> exn + (ChatCmdLetterDeleteAckOk \<times> stream)" where
  "ChatCmdLetterDeleteAckOk_Read = throws (RuntimeError ''Not implemented'')"

datatype (plugins only:) ChatCmdLetterDeleteAckCancel = ChatCmdLetterDeleteAckCancel
  (ChatCmdLetterDeleteAckCancel_errorCode: "u32")

definition ChatCmdLetterDeleteAckCancel_Write :: "ChatCmdLetterDeleteAckCancel \<Rightarrow> stream \<Rightarrow> exn + stream" where
  "ChatCmdLetterDeleteAckCancel_Write v = seqw [
     w32 (ChatCmdLetterDeleteAckCancel_errorCode v)]"

definition ChatCmdLetterDeleteAckCancel_Read :: "stream \<Rightarrow> exn + (ChatCmdLetterDeleteAckCancel \<times> stream)" where
  "ChatCmdLetterDeleteAckCancel_Read = throws (RuntimeError ''Not implemented'')"

datatype (plugins only:) ChatCmdLetterArriveTrs = ChatCmdLetterArriveTrs
  (ChatCmdLetterArriveTrs_mailUid: "u32")
  (ChatCmdLetterArriveTrs_mailType: "u32")
  (ChatCmdLetterArriveTrs_claimUid: "u32")
  (ChatCmdLetterArriveTrs_sender: "bytes")
  (ChatCmdLetterArriveTrs_date: "bytes")
  (ChatCmdLetterArriveTrs_body: "bytes")

definition ChatCmdLetterArriveTrs_Write :: "icu \<Rightarrow> ChatCmdLetterArriveTrs \<Rightarrow> stream \<Rightarrow> exn + stream" where
  "ChatCmdLetterArriveTrs_Write cv v = seqw [
     w32 (ChatCmdLetterArriveTrs_mailUid v),
     w32 (ChatCmdLetterArriveTrs_mailType v),
     w32 (ChatCmdLetterArriveTrs_claimUid v),
     wstr cv (ChatCmdLetterArriveTrs_sender v),
     wstr cv (ChatCmdLetterArriveTrs_date v),
     wstr cv (ChatCmdLetterArriveTrs_body v)]"

definition ChatCmdLetterArriveTrs_Read :: "stream \<Rightarrow> exn + (ChatCmdLetterArriveTrs \<times> stream)" where
  "ChatCmdLetterArriveTrs_Read = throws (RuntimeError ''Not implemented'')"

record ChatCmdUpdateState =
  ChatCmdUpdateState_presence :: "Presence"

definition ChatCmdUpdateState_Write :: "ChatCmdUpdateState \<Rightarrow> stream \<Rightarrow> exn + stream" where
  "ChatCmdUpdateState_Write _ = throws (RuntimeError ''Not implemented'')"

definition Presence_default :: "Presence" where
  "Presence_default = \<lparr>Presence_status = 1,
     Presence_scene = 0,
     Presence_sceneUid = 0\<rparr>"

definition ChatCmdUpdateState_default :: "ChatCmdUpdateState" where
  "ChatCmdUpdateState_default = \<lparr>ChatCmdUpdateState_presence = Presence_default\<rparr>"

definition ChatCmdUpdateState_Read :: "stream \<Rightarrow> exn + (ChatCmdUpdateState \<times> stream)" where
  "ChatCmdUpdateState_Read = build ChatCmdUpdateState_default [
     fld r8 (ChatCmdUpdateState_presence_update \<circ> Presence_status_update),
     fld r32 (ChatCmdUpdateState_presence_update \<circ> Presence_scene_update),
     fld r32 (ChatCmdUpdateState_presence_update \<circ> Presence_sceneUid_update)]"

datatype (plugins only:) ChatCmdUpdateStateTrs = ChatCmdUpdateStateTrs
  (ChatCmdUpdateStateTrs_presence: "Presence")
  (ChatCmdUpdateStateTrs_affectedCharacterUid: "u32")

definition ChatCmdUpdateStateTrs_Write :: "ChatCmdUpdateStateTrs \<Rightarrow> stream \<Rightarrow> exn + stream" where
  "ChatCmdUpdateStateTrs_Write v = seqw [
     w32 (ChatCmdUpdateStateTrs_affectedCharacterUid v),
     w8 (Presence_status (ChatCmdUpdateStateTrs_presence v)),
     w32 (Presence_scene (ChatCmdUpdateStateTrs_presence v)),
     w32 (Presence_sceneUid (ChatCmdUpdateStateTrs_presence v))]"

definition ChatCmdUpdateStateTrs_Read :: "stream \<Rightarrow> exn + (ChatCmdUpdateStateTrs \<times> stream)" where
  "ChatCmdUpdateStateTrs_Read = throws (RuntimeError ''Not implemented'')"

record ChatCmdChatInvite =
  ChatCmdChatInvite_chatParticipantUids :: "u32 list"

definition ChatCmdChatInvite_Write :: "ChatCmdChatInvite \<Rightarrow> stream \<Rightarrow> exn + stream" where
  "ChatCmdChatInvite_Write _ = throws (RuntimeError ''Not implemented'')"

definition ChatCmdChatInvite_default :: "ChatCmdChatInvite" where
  "ChatCmdChatInvite_default = \<lparr>ChatCmdChatInvite_chatParticipantUids = []\<rparr>"

definition ChatCmdChatInvite_Read :: "stream \<Rightarrow> exn + (ChatCmdChatInvite \<times> stream)" where
  "ChatCmdChatInvite_Read = build ChatCmdChatInvite_default [
     fld (rlist_by r32 r32) ChatCmdChatInvite_chatParticipantUids_update]"

datatype (plugins only:) ChatCmdChatInvitationTrs = ChatCmdChatInvitationTrs
  (ChatCmdChatInvitationTrs_unk0: "u32")
  (ChatCmdChatInvitationTrs_unk1: "u32")
  (ChatCmdChatInvitationTrs_unk2: "u32")
  (ChatCmdChatInvitationTrs_hostname: "bytes")
  (ChatCmdChatInvitationTrs_port: "u16")
  (ChatCmdChatInvitationTrs_unk5: "u32")

definition ChatCmdChatInvitationTrs_Write :: "icu \<Rightarrow> ChatCmdChatInvitationTrs \<Rightarrow> stream \<Rightarrow> exn + stream" where
  "ChatCmdChatInvitationTrs_Write cv v = seqw [
     w32 (ChatCmdChatInvitationTrs_unk0 v),
     w32 (ChatCmdChatInvitationTrs_unk1 v),
     w32 (ChatCmdChatInvitationTrs_unk2 v),
     wstr cv (ChatCmdChatInvitationTrs_hostname v),
     w16 (ChatCmdChatInvitationTrs_port v),
     w32 (ChatCmdChatInvitationTrs_unk5 v)]"

definition ChatCmdChatInvitationTrs_Read :: "stream \<Rightarrow> exn + (ChatCmdChatInvitationTrs \<times> stream)" where
  "ChatCmdChatInvitationTrs_Read = throws (RuntimeError ''Not implemented'')"

datatype (plugins only:) ChatCmdEnterRoom = ChatCmdEnterRoom
  (ChatCmdEnterRoom_code: "u32")
  (ChatCmdEnterRoom_characterUid: "u32")
  (ChatCmdEnterRoom_characterName: "bytes")
  (ChatCmdEnterRoom_guildUid: "u32")

definition ChatCmdEnterRoom_Write :: "ChatCmdEnterRoom \<Rightarrow> stream \<Rightarrow> exn + stream" where
  "ChatCmdEnterRoom_Write _ = throws (RuntimeError ''Not implemented'')"

definition ChatCmdEnterRoom_Read :: "icu \<Rightarrow> stream \<Rightarrow> exn + (ChatCmdEnterRoom \<times> stream)" where
  "ChatCmdEnterRoom_Read cv =
     rd r32 (\<lambda>code'.
     rd r32 (\<lambda>characterUid'.
     rd (rstr cv) (\<lambda>characterName'.
     rd r32 (\<lambda>guildUid'.
     ret (ChatCmdEnterRoom code' characterUid' characterName' guildUid')))))"

datatype (plugins only:) ChatCmdEnterRoomAckOk_Struct0 = ChatCmdEnterRoomAckOk_Struct0
  (ChatCmdEnterRoomAckOk_Struct0_unk0: "u32")
  (ChatCmdEnterRoomAckOk_Struct0_unk1: "bytes")

datatype (plugins only:) ChatCmdEnterRoomAckOk = ChatCmdEnterRoomAckOk
  (ChatCmdEnterRoomAckOk_unk1: "ChatCmdEnterRoomAckOk_Struct0 list")

definition ChatCmdEnterRoomAckOk_Write :: "icu \<Rightarrow> ChatCmdEnterRoomAckOk \<Rightarrow> stream \<Rightarrow> exn + stream" where
  "ChatCmdEnterRoomAckOk_Write cv v = seqw [
     w32 (of_nat (length (ChatCmdEnterRoomAckOk_unk1 v))),
     seqw (map (\<lambda>item. seqw [
         w32 (ChatCmdEnterRoomAckOk_Struct0_unk0 item),
         wstr cv (ChatCmdEnterRoomAckOk_Struct0_unk1 item)]) (ChatCmdEnterRoomAckOk_unk1 v))]"

definition ChatCmdEnterRoomAckOk_Read :: "stream \<Rightarrow> exn + (ChatCmdEnterRoomAckOk \<times> stream)" where
  "ChatCmdEnterRoomAckOk_Read = throws (RuntimeError ''Not implemented'')"

datatype (plugins only:) ChatCmdEnterRoomAckCancel = ChatCmdEnterRoomAckCancel
  (ChatCmdEnterRoomAckCancel_errorCode: "u32")

definition ChatCmdEnterRoomAckCancel_Write :: "ChatCmdEnterRoomAckCancel \<Rightarrow> stream \<Rightarrow> exn + stream" where
  "ChatCmdEnterRoomAckCancel_Write v = seqw [
     w32 (ChatCmdEnterRoomAckCancel_errorCode v)]"

definition ChatCmdEnterRoomAckCancel_Read :: "stream \<Rightarrow> exn + (ChatCmdEnterRoomAckCancel \<times> stream)" where
  "ChatCmdEnterRoomAckCancel_Read = throws (RuntimeError ''Not implemented'')"

datatype (plugins only:) ChatCmdEnterBuddyTrs = ChatCmdEnterBuddyTrs
  (ChatCmdEnterBuddyTrs_unk0: "u32")
  (ChatCmdEnterBuddyTrs_unk1: "bytes")

definition ChatCmdEnterBuddyTrs_Write :: "icu \<Rightarrow> ChatCmdEnterBuddyTrs \<Rightarrow> stream \<Rightarrow> exn + stream" where
  "ChatCmdEnterBuddyTrs_Write cv v = seqw [
     w32 (ChatCmdEnterBuddyTrs_unk0 v),
     wstr cv (ChatCmdEnterBuddyTrs_unk1 v)]"

definition ChatCmdEnterBuddyTrs_Read :: "stream \<Rightarrow> exn + (ChatCmdEnterBuddyTrs \<times> stream)" where
  "ChatCmdEnterBuddyTrs_Read = throws (RuntimeError ''Not implemented'')"

datatype (plugins only:) ChatCmdLeaveBuddyTrs = ChatCmdLeaveBuddyTrs
  (ChatCmdLeaveBuddyTrs_unk0: "u32")

definition ChatCmdLeaveBuddyTrs_Write :: "ChatCmdLeaveBuddyTrs \<Rightarrow> stream \<Rightarrow> exn + stream" where
  "ChatCmdLeaveBuddyTrs_Write v = seqw [
     w32 (ChatCmdLeaveBuddyTrs_unk0 v)]"

definition ChatCmdLeaveBuddyTrs_Read :: "stream \<Rightarrow> exn + (ChatCmdLeaveBuddyTrs \<times> stream)" where
  "ChatCmdLeaveBuddyTrs_Read = throws (RuntimeError ''Not implemented'')"

datatype (plugins only:) ChatCmdChat = ChatCmdChat
  (ChatCmdChat_message: "bytes")
  (ChatCmdChat_role: "u8")

definition ChatCmdChat_Write :: "ChatCmdChat \<Rightarrow> stream \<Rightarrow> exn + stream" where
  "ChatCmdChat_Write _ = throws (RuntimeError ''Not implemented'')"

definition ChatCmdChat_Read :: "icu \<Rightarrow> stream \<Rightarrow> exn + (ChatCmdChat \<times> stream)" where
  "ChatCmdChat_Read cv =
     rd (rstr cv) (\<lambda>message'.
     rd r8 (\<lambda>role'.
     ret (ChatCmdChat message' role')))"

datatype (plugins only:) ChatCmdChatTrs = ChatCmdChatTrs
  (ChatCmdChatTrs_characterUid: "u32")
  (ChatCmdChatTrs_message: "bytes")

definition ChatCmdChatTrs_Write :: "icu \<Rightarrow> ChatCmdChatTrs \<Rightarrow> stream \<Rightarrow> exn + stream" where
  "ChatCmdChatTrs_Write cv v = seqw [
     w32 (ChatCmdChatTrs_characterUid v),
     wstr cv (ChatCmdChatTrs_message v)]"

definition ChatCmdChatTrs_Read :: "stream \<Rightarrow> exn + (ChatCmdChatTrs \<times> stream)" where
  "ChatCmdChatTrs_Read = throws (RuntimeError ''Not implemented'')"

datatype (plugins only:) ChatCmdInputState = ChatCmdInputState
  (ChatCmdInputState_state: "u8")

definition ChatCmdInputState_Write :: "ChatCmdInputState \<Rightarrow> stream \<Rightarrow> exn + stream" where
  "ChatCmdInputState_Write _ = throws (RuntimeError ''Not implemented'')"

definition ChatCmdInputState_Read :: "stream \<Rightarrow> exn + (ChatCmdInputState \<times> stream)" where
  "ChatCmdInputState_Read =
     rd r8 (\<lambda>state'.
     ret (ChatCmdInputState state'))"

datatype (plugins only:) ChatCmdInputStateTrs = ChatCmdInputStateTrs
  (ChatCmdInputStateTrs_unk0: "u32")
  (ChatCmdInputStateTrs_state: "u8")

definition ChatCmdInputStateTrs_Write :: "ChatCmdInputStateTrs \<Rightarrow> stream \<Rightarrow> exn + stream" where
  "ChatCmdInputStateTrs_Write v = seqw [
     w32 (ChatCmdInputStateTrs_unk0 v),
     w8 (ChatCmdInputStateTrs_state v)]"

definition ChatCmdInputStateTrs_Read :: "stream \<Rightarrow> exn + (ChatCmdInputStateTrs \<times> stream)" where
  "ChatCmdInputStateTrs_Read = throws (RuntimeError ''Not implemented'')"

type_synonym ChatCmdEndChatTrs = unit

definition ChatCmdEndChatTrs_Write :: "ChatCmdEndChatTrs \<Rightarrow> stream \<Rightarrow> exn + stream" where
  "ChatCmdEndChatTrs_Write _ = seqw []"

definition ChatCmdEndChatTrs_Read :: "stream \<Rightarrow> exn + (ChatCmdEndChatTrs \<times> stream)" where
  "ChatCmdEndChatTrs_Read = throws (RuntimeError ''Not implemented'')"

datatype (plugins only:) ChatCmdGameInvite = ChatCmdGameInvite
  (ChatCmdGameInvite_recipientCharacterUid: "u32")

definition ChatCmdGameInvite_Write :: "ChatCmdGameInvite \<Rightarrow> stream \<Rightarrow> exn + stream" where
  "ChatCmdGameInvite_Write _ = throws (RuntimeError ''Not implemented'')"

definition ChatCmdGameInvite_Read :: "stream \<Rightarrow> exn + (ChatCmdGameInvite \<times> stream)" where
  "ChatCmdGameInvite_Read =
     rd r32 (\<lambda>recipientCharacterUid'.
     ret (ChatCmdGameInvite recipientCharacterUid'))"

datatype (plugins only:) ChatCmdGameInviteAck = ChatCmdGameInviteAck
  (ChatCmdGameInviteAck_unk0: "u32")
  (ChatCmdGameInviteAck_unk1: "u32")

definition ChatCmdGameInviteAck_Write :: "ChatCmdGameInviteAck \<Rightarrow> stream \<Rightarrow> exn + stream" where
  "ChatCmdGameInviteAck_Write v = seqw [
     w32 (ChatCmdGameInviteAck_unk0 v),
     w32 (ChatCmdGameInviteAck_unk1 v)]"

definition ChatCmdGameInviteAck_Read :: "stream \<Rightarrow> exn + (ChatCmdGameInviteAck \<times> stream)" where
  "ChatCmdGameInviteAck_Read = throws (RuntimeError ''Not implemented'')"

datatype (plugins only:) ChatCmdGameInviteTrs = ChatCmdGameInviteTrs
  (ChatCmdGameInviteTrs_unk0: "u32")

definition ChatCmdGameInviteTrs_Write :: "ChatCmdGameInviteTrs \<Rightarrow> stream \<Rightarrow> exn + stream" where
  "ChatCmdGameInviteTrs_Write v = seqw [
     w32 (ChatCmdGameInviteTrs_unk0 v)]"

definition ChatCmdGameInviteTrs_Read :: "stream \<Rightarrow> exn + (ChatCmdGameInviteTrs \<times> stream)" where
  "ChatCmdGameInviteTrs_Read = throws (RuntimeError ''Not implemented'')"

datatype (plugins only:) ChatCmdChannelChatTrs = ChatCmdChannelChatTrs
  (ChatCmdChannelChatTrs_messageAuthor: "bytes")
  (ChatCmdChannelChatTrs_message: "bytes")
  (ChatCmdChannelChatTrs_role: "u8")

definition ChatCmdChannelChatTrs_Write :: "icu \<Rightarrow> ChatCmdChannelChatTrs \<Rightarrow> stream \<Rightarrow> exn + stream" where
  "ChatCmdChannelChatTrs_Write cv v = seqw [
     wstr cv (ChatCmdChannelChatTrs_messageAuthor v),
     wstr cv (ChatCmdChannelChatTrs_message v),
     w8 (ChatCmdChannelChatTrs_role v)]"

definition ChatCmdChannelChatTrs_Read :: "stream \<Rightarrow> exn + (ChatCmdChannelChatTrs \<times> stream)" where
  "ChatCmdChannelChatTrs_Read = throws (RuntimeError ''Not implemented'')"

type_synonym ChatCmdChannelInfo = unit

definition ChatCmdChannelInfo_Write :: "ChatCmdChannelInfo \<Rightarrow> stream \<Rightarrow> exn + stream" where
  "ChatCmdChannelInfo_Write _ = throws (RuntimeError ''Not implemented'')"

definition ChatCmdChannelInfo_Read :: "stream \<Rightarrow> exn + (ChatCmdChannelInfo \<times> stream)" where
  "ChatCmdChannelInfo_Read = ret ()"

datatype (plugins only:) ChatCmdChannelInfoAckOk = ChatCmdChannelInfoAckOk
  (ChatCmdChannelInfoAckOk_hostname: "bytes")
  (ChatCmdChannelInfoAckOk_port: "u16")
  (ChatCmdChannelInfoAckOk_code: "u32")

definition ChatCmdChannelInfoAckOk_Write :: "icu \<Rightarrow> ChatCmdChannelInfoAckOk \<Rightarrow> stream \<Rightarrow> exn + stream" where
  "ChatCmdChannelInfoAckOk_Write cv v = seqw [
     wstr cv (ChatCmdChannelInfoAckOk_hostname v),
     w16 (ChatCmdChannelInfoAckOk_port v),
     w32 (ChatCmdChannelInfoAckOk_code v)]"

definition ChatCmdChannelInfoAckOk_Read :: "stream \<Rightarrow> exn + (ChatCmdChannelInfoAckOk \<times> stream)" where
  "ChatCmdChannelInfoAckOk_Read = throws (RuntimeError ''Not implemented'')"

datatype (plugins only:) ChatCmdGuildChannelChatTrs = ChatCmdGuildChannelChatTrs
  (ChatCmdGuildChannelChatTrs_guildUid: "u32")
  (ChatCmdGuildChannelChatTrs_author: "bytes")
  (ChatCmdGuildChannelChatTrs_message: "bytes")
  (ChatCmdGuildChannelChatTrs_role: "u8")

definition ChatCmdGuildChannelChatTrs_Write :: "icu \<Rightarrow> ChatCmdGuildChannelChatTrs \<Rightarrow> stream \<Rightarrow> exn + stream" where
  "ChatCmdGuildChannelChatTrs_Write cv v = seqw [
     w32 (ChatCmdGuildChannelChatTrs_guildUid v),
     wstr cv (ChatCmdGuildChannelChatTrs_author v),
     wstr cv (ChatCmdGuildChannelChatTrs_message v),
     w8 (ChatCmdGuildChannelChatTrs_role v)]"

definition ChatCmdGuildChannelChatTrs_Read :: "stream \<Rightarrow> exn + (ChatCmdGuildChannelChatTrs \<times> stream)" where
  "ChatCmdGuildChannelChatTrs_Read = throws (RuntimeError ''Not implemented'')"

record ChatCmdGuildLogin =
  ChatCmdGuildLogin_characterUid :: "u32"
  ChatCmdGuildLogin_name :: "bytes"
  ChatCmdGuildLogin_code :: "u32"
  ChatCmdGuildLogin_guildUid :: "u32"

definition ChatCmdGuildLogin_Write :: "ChatCmdGuildLogin \<Rightarrow> stream \<Rightarrow> exn + stream" where
  "ChatCmdGuildLogin_Write _ = throws (RuntimeError ''Not implemented'')"

definition ChatCmdGuildLogin_Read :: "icu \<Rightarrow> stream \<Rightarrow> exn + (ChatCmdGuildLogin \<times> stream)" where
  "ChatCmdGuildLogin_Read cv = rd (ChatCmdLogin_Read cv) (\<lambda>b.
     ret \<lparr>ChatCmdGuildLogin_characterUid = ChatCmdLogin_characterUid b,
       ChatCmdGuildLogin_name = ChatCmdLogin_name b,
       ChatCmdGuildLogin_code = ChatCmdLogin_code b,
       ChatCmdGuildLogin_guildUid = ChatCmdLogin_guildUid b\<rparr>)"

datatype (plugins only:) ChatCmdGuildLoginAckOK_GuildMember = ChatCmdGuildLoginAckOK_GuildMember
  (ChatCmdGuildLoginAckOK_GuildMember_characterUid: "u32")
  (ChatCmdGuildLoginAckOK_GuildMember_presence: "Presence")

definition ChatCmdGuildLoginAckOK_GuildMember_Write :: "ChatCmdGuildLoginAckOK_GuildMember \<Rightarrow> stream \<Rightarrow> exn + stream" where
  "ChatCmdGuildLoginAckOK_GuildMember_Write v = seqw [
     w32 (ChatCmdGuildLoginAckOK_GuildMember_characterUid v),
     Presence_Write (ChatCmdGuildLoginAckOK_GuildMember_presence v)]"

definition ChatCmdGuildLoginAckOK_GuildMember_Read :: "stream \<Rightarrow> exn + (ChatCmdGuildLoginAckOK_GuildMember \<times> stream)" where
  "ChatCmdGuildLoginAckOK_GuildMember_Read = throws (RuntimeError ''Not implemented'')"

datatype (plugins only:) ChatCmdGuildLoginAckOK = ChatCmdGuildLoginAckOK
  (ChatCmdGuildLoginAckOK_guildMembers: "ChatCmdGuildLoginAckOK_GuildMember list")

definition ChatCmdGuildLoginAckOK_Write :: "ChatCmdGuildLoginAckOK \<Rightarrow> stream \<Rightarrow> exn + stream" where
  "ChatCmdGuildLoginAckOK_Write v = seqw [
     w32 (of_nat (length (ChatCmdGuildLoginAckOK_guildMembers v))),
     seqw (map ChatCmdGuildLoginAckOK_GuildMember_Write (ChatCmdGuildLoginAckOK_guildMembers v))]"

definition ChatCmdGuildLoginAckOK_Read :: "stream \<Rightarrow> exn + (ChatCmdGuildLoginAckOK \<times> stream)" where
  "ChatCmdGuildLoginAckOK_Read = throws (RuntimeError ''Not implemented'')"

datatype (plugins only:) ChatCmdGuildLoginAckCancel = ChatCmdGuildLoginAckCancel
  (ChatCmdGuildLoginAckCancel_errorCode: "u32")

definition ChatCmdGuildLoginAckCancel_Write :: "ChatCmdGuildLoginAckCancel \<Rightarrow> stream \<Rightarrow> exn + stream" where
  "ChatCmdGuildLoginAckCancel_Write v = seqw [
     w32 (ChatCmdGuildLoginAckCancel_errorCode v)]"

definition ChatCmdGuildLoginAckCancel_Read :: "stream \<Rightarrow> exn + (ChatCmdGuildLoginAckCancel \<times> stream)" where
  "ChatCmdGuildLoginAckCancel_Read = throws (RuntimeError ''Not implemented'')"

datatype (plugins only:) ChatCmdUpdateGuildMemberStateTrs = ChatCmdUpdateGuildMemberStateTrs
  (ChatCmdUpdateGuildMemberStateTrs_presence: "Presence")
  (ChatCmdUpdateGuildMemberStateTrs_affectedCharacterUid: "u32")

definition ChatCmdUpdateGuildMemberStateTrs_Write :: "ChatCmdUpdateGuildMemberStateTrs \<Rightarrow> stream \<Rightarrow> exn + stream" where
  "ChatCmdUpdateGuildMemberStateTrs_Write v = seqw [
     w32 (ChatCmdUpdateGuildMemberStateTrs_affectedCharacterUid v),
     w8 (Presence_status (ChatCmdUpdateGuildMemberStateTrs_presence v)),
     w32 (Presence_scene (ChatCmdUpdateGuildMemberStateTrs_presence v)),
     w32 (Presence_sceneUid (ChatCmdUpdateGuildMemberStateTrs_presence v))]"

definition ChatCmdUpdateGuildMemberStateTrs_Read :: "stream \<Rightarrow> exn + (ChatCmdUpdateGuildMemberStateTrs \<times> stream)" where
  "ChatCmdUpdateGuildMemberStateTrs_Read = throws (RuntimeError ''Not implemented'')"

datatype (plugins only:) ChatCmdChannelInfoGuildRoomAckOk = ChatCmdChannelInfoGuildRoomAckOk
  (ChatCmdChannelInfoGuildRoomAckOk_hostname: "bytes")
  (ChatCmdChannelInfoGuildRoomAckOk_port: "u16")
  (ChatCmdChannelInfoGuildRoomAckOk_code: "u32")

definition ChatCmdChannelInfoGuildRoomAckOk_Write :: "icu \<Rightarrow> ChatCmdChannelInfoGuildRoomAckOk \<Rightarrow> stream \<Rightarrow> exn + stream" where
  "ChatCmdChannelInfoGuildRoomAckOk_Write cv v = seqw [
     wstr cv (ChatCmdChannelInfoGuildRoomAckOk_hostname v),
     w16 (ChatCmdChannelInfoGuildRoomAckOk_port v),
     w32 (ChatCmdChannelInfoGuildRoomAckOk_code v)]"

definition ChatCmdChannelInfoGuildRoomAckOk_Read :: "stream \<Rightarrow> exn + (ChatCmdChannelInfoGuildRoomAckOk \<times> stream)" where
  "ChatCmdChannelInfoGuildRoomAckOk_Read = throws (RuntimeError ''Not implemented'')"

section \<open>Messages that are both written and read\<close>

interpretation Presence_codec: codec Presence_Write Presence_Read "\<lambda>_. True"
  by unfold_locales (unfold Presence_Write_def Presence_Read_def, (rule codec_intros | simp)+)

declare Presence_codec.codec_matches [codec_intros]

section \<open>Every reader is a parser\<close>

lemma Msg_Chatter_parsers [parser_intros]:
  "parser Presence_Read"
  "parser (ChatCmdLogin_Read cv)"
  "parser (ChatCmdBuddyAdd_Read cv)"
  "parser ChatCmdBuddyAddReply_Read"
  "parser ChatCmdBuddyDelete_Read"
  "parser ChatCmdBuddyMove_Read"
  "parser (ChatCmdGroupAdd_Read cv)"
  "parser (ChatCmdGroupRename_Read cv)"
  "parser ChatCmdGroupDelete_Read"
  "parser ChatCmdLetterList_Request_Read"
  "parser ChatCmdLetterList_Read"
  "parser (ChatCmdLetterSend_Read cv)"
  "parser ChatCmdLetterRead_Read"
  "parser ChatCmdLetterDelete_Read"
  "parser ChatCmdUpdateState_Read"
  "parser ChatCmdChatInvite_Read"
  "parser (ChatCmdEnterRoom_Read cv)"
  "parser (ChatCmdChat_Read cv)"
  "parser ChatCmdInputState_Read"
  "parser ChatCmdGameInvite_Read"
  "parser ChatCmdChannelInfo_Read"
  "parser (ChatCmdGuildLogin_Read cv)"
  unfolding Presence_Read_def
    ChatCmdLogin_Read_def
    ChatCmdBuddyAdd_Read_def
    ChatCmdBuddyAddReply_Read_def
    ChatCmdBuddyDelete_Read_def
    ChatCmdBuddyMove_Read_def
    ChatCmdGroupAdd_Read_def
    ChatCmdGroupRename_Read_def
    ChatCmdGroupDelete_Read_def
    ChatCmdLetterList_Request_Read_def
    ChatCmdLetterList_Read_def
    ChatCmdLetterSend_Read_def
    ChatCmdLetterRead_Read_def
    ChatCmdLetterDelete_Read_def
    ChatCmdUpdateState_Read_def
    ChatCmdChatInvite_Read_def
    ChatCmdEnterRoom_Read_def
    ChatCmdChat_Read_def
    ChatCmdInputState_Read_def
    ChatCmdGameInvite_Read_def
    ChatCmdChannelInfo_Read_def
    ChatCmdGuildLogin_Read_def
  by (intro parser_intros)+

end
