(* ===== verification/Network.thy ===== *)
theory Network imports Streams begin

text \<open>
  \<open>libserver/network/Server.hpp\<close> and \<open>Server.cpp\<close>: the admission of connections by
  \<open>IsConnectionThrottled\<close>, the bookkeeping of clients, and the read loop that hands the buffered
  bytes of a client to the protocol above and keeps what it did not consume.

  The event handlers of the server on top may throw, and may end the client they serve: both are
  inputs of the operations that call them. Sockets, threads and the asynchronous writes are the business of Boost.Asio. A step of the
  server is the completion handler that runs: a connection was accepted, a client ended, bytes
  arrived. All of them run on the one thread of the I/O context.

  The locale \<open>frame_parser\<close> is the contract of the two protocol servers built on it: a loop that
  takes whole frames off the front of the buffer. It gives them the property their clients rely
  on, that the fragmentation of a byte stream into network reads is invisible as long as the
  client is not ended, and what exactly it changes otherwise.
\<close>

section \<open>Connection throttling\<close>

type_synonym address = u32

definition MaxConnectionsPerAddress :: nat where "MaxConnectionsPerAddress = 10"
definition MaxConnectRatePerAddress :: nat where "MaxConnectRatePerAddress = 10"
definition RateWindow :: int where "RateWindow = seconds 30"

record address_state =
  activeConnections :: nat
  connectionTimestamps :: "time_point list"

text \<open>A client, with the flag its \<open>Begin\<close> sets and its \<open>End\<close> clears.\<close>

record network_client =
  remoteAddress :: address
  shouldRun :: bool

text \<open>\<open>accepting\<close>: the accept loop has not been left by an exception.\<close>

record network_server =
  accepting :: bool
  next_client_id :: client_id
  net_clients :: "(client_id, network_client) umap"
  addressStates :: "(address, address_state) umap"

definition empty_address_state :: address_state where
  "empty_address_state = \<lparr>activeConnections = 0, connectionTimestamps = []\<rparr>"

definition address_state_of :: "network_server \<Rightarrow> address \<Rightarrow> address_state" where
  "address_state_of s a = (case map_of (addressStates s) a of
      Some st \<Rightarrow> st | None \<Rightarrow> empty_address_state)"

fun pop_expired :: "time_point \<Rightarrow> time_point list \<Rightarrow> time_point list" where
  "pop_expired now [] = []"
| "pop_expired now (t # ts) = (if now - t < RateWindow then t # ts else pop_expired now ts)"

definition IsConnectionThrottled ::
  "address \<Rightarrow> time_point \<Rightarrow> network_server \<Rightarrow> bool \<times> network_server" where
  "IsConnectionThrottled a now s =
     (let st = address_state_of s a;
          put = (\<lambda>st. s\<lparr>addressStates := umap_put a st (addressStates s)\<rparr>)
      in if activeConnections st \<ge> MaxConnectionsPerAddress then (True, put st)
         else let st = st\<lparr>connectionTimestamps := pop_expired now (connectionTimestamps st)\<rparr>
              in if length (connectionTimestamps st) \<ge> MaxConnectRatePerAddress then (True, put st)
                 else (False, put (st\<lparr>activeConnections := activeConnections st + 1,
                        connectionTimestamps := connectionTimestamps st @ [now]\<rparr>)))"

definition OnThrottleDisconnect :: "address \<Rightarrow> network_server \<Rightarrow> network_server" where
  "OnThrottleDisconnect a s =
     (case map_of (addressStates s) a of
        None \<Rightarrow> s
      | Some st \<Rightarrow>
          let st = (if activeConnections st > 0
                    then st\<lparr>activeConnections := activeConnections st - 1\<rparr> else st)
          in s\<lparr>addressStates :=
               (if activeConnections st = 0 \<and> connectionTimestamps st = []
                then umap_erase a (addressStates s)
                else umap_put a st (addressStates s))\<rparr>)"

text \<open>The completion handler of \<open>AcceptLoop\<close>, for a connection from \<open>a\<close>, or one that was broken
  too early to have an address, or an error of the acceptor: the identifier of the client it
  begins, if any. \<open>connected\<close> is how the \<open>OnClientConnected\<close> of the server on top ends; its exception
  leaves the loop, as an error of the acceptor does.\<close>

datatype accept_result =
    AcceptError
  | BrokenTooEarly
  | Accepted address

definition AcceptLoop ::
  "accept_result \<Rightarrow> time_point \<Rightarrow> exn + unit \<Rightarrow> network_server \<Rightarrow> client_id option \<times> network_server" where
  "AcceptLoop result now connected s =
     (case result of
        AcceptError \<Rightarrow> (None, s\<lparr>accepting := False\<rparr>)
      | BrokenTooEarly \<Rightarrow> (None, s)
      | Accepted a \<Rightarrow>
          let (throttled, s) = IsConnectionThrottled a now s
          in if throttled then (None, s)
             else let clientId = next_client_id s
                  in (Some clientId,
                      s\<lparr>accepting := \<not> isl connected, next_client_id := clientId + 1,
                        net_clients := umap_put clientId \<lparr>remoteAddress = a, shouldRun = True\<rparr>
                          (net_clients s)\<rparr>))"

text \<open>\<open>disconnected\<close> is how the \<open>OnClientDisconnected\<close> of the server on top ends. Its exception is
  passed on, and the client is then not erased, although the throttle counts it no more. An
  unknown client is excluded by an assertion, which the server is built without.\<close>

definition OnClientDisconnected ::
  "client_id \<Rightarrow> exn + unit \<Rightarrow> network_server \<Rightarrow> (exn + unit) \<times> network_server" where
  "OnClientDisconnected c disconnected s =
     (case map_of (net_clients s) c of
        None \<Rightarrow> (Inr (), s)
      | Some client \<Rightarrow>
          let s = OnThrottleDisconnect (remoteAddress client) s
          in case disconnected of
               Inl e \<Rightarrow> (Inl e, s)
             | Inr _ \<Rightarrow> (Inr (), s\<lparr>net_clients := umap_erase c (net_clients s)\<rparr>))"

text \<open>\<open>Client::End\<close>: only the first call does anything.\<close>

definition Client_End ::
  "client_id \<Rightarrow> exn + unit \<Rightarrow> network_server \<Rightarrow> (exn + unit) \<times> network_server" where
  "Client_End c disconnected s =
     (case map_of (net_clients s) c of
        None \<Rightarrow> (Inr (), s)
      | Some client \<Rightarrow>
          if \<not> shouldRun client then (Inr (), s)
          else OnClientDisconnected c disconnected
                 (s\<lparr>net_clients := umap_put c (client\<lparr>shouldRun := False\<rparr>) (net_clients s)\<rparr>))"

definition initial_server :: network_server where
  "initial_server = \<lparr>accepting = True, next_client_id = 0, net_clients = [], addressStates = []\<rparr>"

section \<open>What the throttle guarantees\<close>

text \<open>The server with its clock, the connections it admitted so far, oldest first, and whether a
  disconnect handler of the server on top has thrown.\<close>

record net_world =
  nw_server :: network_server
  nw_clock :: time_point
  nw_admitted :: "(address \<times> time_point) list"
  nw_thrown :: bool

inductive net_step :: "net_world \<Rightarrow> net_world \<Rightarrow> bool" where
  admitted: "accepting (nw_server w) \<Longrightarrow> nw_clock w \<le> t \<Longrightarrow>
     AcceptLoop (Accepted a) t connected (nw_server w) = (Some c, s) \<Longrightarrow>
     net_step w (w\<lparr>nw_server := s, nw_clock := t, nw_admitted := nw_admitted w @ [(a, t)]\<rparr>)"
| refused: "accepting (nw_server w) \<Longrightarrow> nw_clock w \<le> t \<Longrightarrow>
     AcceptLoop result t connected (nw_server w) = (None, s) \<Longrightarrow>
     net_step w (w\<lparr>nw_server := s, nw_clock := t\<rparr>)"
| ended: "nw_clock w \<le> t \<Longrightarrow> Client_End c disconnected (nw_server w) = (r, s) \<Longrightarrow>
     net_step w (w\<lparr>nw_server := s, nw_clock := t, nw_thrown := nw_thrown w \<or> isl r\<rparr>)"

inductive net_reachable :: "net_world \<Rightarrow> bool" where
  initial: "net_reachable \<lparr>nw_server = initial_server, nw_clock = t, nw_admitted = [], nw_thrown = False\<rparr>"
| step: "net_reachable w \<Longrightarrow> net_step w w' \<Longrightarrow> net_reachable w'"

text \<open>The clients of an address that run.\<close>

definition connections_of :: "network_server \<Rightarrow> address \<Rightarrow> nat" where
  "connections_of s a =
     length (filter (\<lambda>(c, cl). remoteAddress cl = a \<and> shouldRun cl) (net_clients s))"

definition admissions :: "net_world \<Rightarrow> address \<Rightarrow> time_point list" where
  "admissions w a = map snd (filter (\<lambda>(b, t). b = a) (nw_admitted w))"

text \<open>Any admission and the tenth after it are a whole window apart.\<close>

definition spaced :: "time_point list \<Rightarrow> bool" where
  "spaced ts \<longleftrightarrow> (\<forall>i. i + MaxConnectRatePerAddress < length ts \<longrightarrow>
     ts ! i + RateWindow \<le> ts ! (i + MaxConnectRatePerAddress))"

text \<open>The timestamps kept for an address are the last admissions; those no longer kept are old.\<close>

definition stamps_ok :: "net_world \<Rightarrow> address \<Rightarrow> bool" where
  "stamps_ok w a \<longleftrightarrow> (\<exists>old. admissions w a = old @ connectionTimestamps (address_state_of (nw_server w) a)
     \<and> (\<forall>t \<in> set old. t + RateWindow \<le> nw_clock w))"

definition net_inv :: "net_world \<Rightarrow> bool" where
  "net_inv w \<longleftrightarrow>
     (\<forall>c \<in> set (keys_of (net_clients (nw_server w))). c < next_client_id (nw_server w))
     \<and> umap_ok (net_clients (nw_server w))
     \<and> (\<not> nw_thrown w \<longrightarrow> (\<forall>(c, cl) \<in> set (net_clients (nw_server w)). shouldRun cl))
     \<and> (\<forall>a. activeConnections (address_state_of (nw_server w) a) = connections_of (nw_server w) a)
     \<and> (\<forall>a. connections_of (nw_server w) a \<le> MaxConnectionsPerAddress)
     \<and> (\<forall>a. stamps_ok w a \<and> spaced (admissions w a))"

lemma pop_expired_split:
  "\<exists>old. ts = old @ pop_expired now ts \<and> (\<forall>t \<in> set old. t + RateWindow \<le> now)"
proof (induction ts)
  case Nil
  then show ?case by simp
next
  case (Cons t ts)
  then obtain old where old: "ts = old @ pop_expired now ts" "\<forall>t \<in> set old. t + RateWindow \<le> now"
    by blast
  show ?case
  proof (cases "now - t < RateWindow")
    case True
    then show ?thesis by (intro exI [of _ "[]"]) simp
  next
    case False
    with old show ?thesis by (intro exI [of _ "t # old"]) auto
  qed
qed

lemma spaced_append:
  assumes "spaced (old @ ts)" "\<forall>t \<in> set old. t + RateWindow \<le> now"
    "length ts < MaxConnectRatePerAddress"
  shows "spaced (old @ ts @ [now])"
  unfolding spaced_def
proof (intro allI impI)
  fix i assume i: "i + MaxConnectRatePerAddress < length (old @ ts @ [now])"
  show "(old @ ts @ [now]) ! i + RateWindow \<le> (old @ ts @ [now]) ! (i + MaxConnectRatePerAddress)"
  proof (cases "i + MaxConnectRatePerAddress < length (old @ ts)")
    case True
    then have "(old @ ts) ! i + RateWindow \<le> (old @ ts) ! (i + MaxConnectRatePerAddress)"
      using assms(1) by (simp only: spaced_def)
    with True show ?thesis
      using nth_append [of "old @ ts" "[now]" i]
        nth_append [of "old @ ts" "[now]" "i + MaxConnectRatePerAddress"] by simp
  next
    case False
    with i have last: "i + MaxConnectRatePerAddress = length (old @ ts)" by simp
    with assms(3) have "i < length old" by simp
    with assms(2) have "(old @ ts @ [now]) ! i + RateWindow \<le> now" by (simp add: nth_append)
    moreover have "(old @ ts @ [now]) ! (i + MaxConnectRatePerAddress) = now"
      using nth_append_length [of "old @ ts" now "[]"] by (simp add: last)
    ultimately show ?thesis by simp
  qed
qed

lemma address_state_of_put [simp]:
  "address_state_of (s\<lparr>addressStates := umap_put a st (addressStates s)\<rparr>) b
     = (if b = a then st else address_state_of s b)"
  by (simp add: address_state_of_def)

abbreviation runs_at :: "address \<Rightarrow> client_id \<times> network_client \<Rightarrow> bool" where
  "runs_at a \<equiv> \<lambda>(c, cl). remoteAddress cl = a \<and> shouldRun cl"

lemma filter_umap_stop:
  "umap_ok m \<Longrightarrow> map_of m c = Some cl \<Longrightarrow> shouldRun cl \<Longrightarrow>
     length (filter (runs_at a) (umap_put c (cl\<lparr>shouldRun := False\<rparr>) m))
       = length (filter (runs_at a) m) - (if a = remoteAddress cl then 1 else 0)
   \<and> (a = remoteAddress cl \<longrightarrow> 0 < length (filter (runs_at a) m))"
proof (induction m)
  case (Cons p m)
  obtain k d where p: "p = (k, d)" by (cases p)
  have ok: "umap_ok m" using Cons.prems(1) p by (auto simp: umap_ok_def)
  show ?case
  proof (cases "k = c")
    case False
    with Cons.IH ok p Cons.prems(2,3) show ?thesis by (auto simp: umap_put_def)
  qed (use p Cons.prems(2,3) in \<open>auto simp: umap_put_def\<close>)
qed simp

lemma filter_umap_erase:
  "umap_ok m \<Longrightarrow> map_of m c = Some cl \<Longrightarrow> \<not> shouldRun cl \<Longrightarrow>
     filter (runs_at a) (umap_erase c m) = filter (runs_at a) m"
proof (induction m)
  case (Cons p m)
  obtain k d where p: "p = (k, d)" by (cases p)
  have ok: "umap_ok m" "k \<notin> set (keys_of m)" using Cons.prems(1) p by (auto simp: umap_ok_def)
  show ?case
  proof (cases "k = c")
    case True
    with ok(2) have "umap_erase c m = m" by (simp add: umap_erase_absent map_of_eq_None_iff)
    with True p Cons.prems(2,3) show ?thesis by (auto simp: umap_erase_def)
  next
    case False
    with Cons.IH ok(1) p Cons.prems(2,3) show ?thesis by (auto simp: umap_erase_def)
  qed
qed simp

lemma OnThrottleDisconnect_state:
  "address_state_of (OnThrottleDisconnect a s) b =
     (if b = a then (address_state_of s a)\<lparr>activeConnections := activeConnections (address_state_of s a) - 1\<rparr>
      else address_state_of s b)"
  "net_clients (OnThrottleDisconnect a s) = net_clients s"
  "next_client_id (OnThrottleDisconnect a s) = next_client_id s"
  by (auto simp: OnThrottleDisconnect_def address_state_of_def empty_address_state_def Let_def
      split: option.splits)

lemma IsConnectionThrottled_state:
  assumes "IsConnectionThrottled a now s = (b, s')"
  shows "net_clients s' = net_clients s" "next_client_id s' = next_client_id s"
    "x \<noteq> a \<Longrightarrow> address_state_of s' x = address_state_of s x"
    "\<exists>old ts. connectionTimestamps (address_state_of s a) = old @ ts
       \<and> (\<forall>t \<in> set old. t + RateWindow \<le> now)
       \<and> (if b then activeConnections (address_state_of s' a) = activeConnections (address_state_of s a)
              \<and> connectionTimestamps (address_state_of s' a) = ts
          else activeConnections (address_state_of s a) < MaxConnectionsPerAddress
              \<and> length ts < MaxConnectRatePerAddress
              \<and> activeConnections (address_state_of s' a) = activeConnections (address_state_of s a) + 1
              \<and> connectionTimestamps (address_state_of s' a) = ts @ [now])"
proof -
  let ?st = "address_state_of s a"
  show "net_clients s' = net_clients s" "next_client_id s' = next_client_id s"
    "x \<noteq> a \<Longrightarrow> address_state_of s' x = address_state_of s x"
    using assms by (auto simp: IsConnectionThrottled_def Let_def split: if_splits)
  obtain old where old: "connectionTimestamps ?st = old @ pop_expired now (connectionTimestamps ?st)"
      "\<forall>t \<in> set old. t + RateWindow \<le> now"
    using pop_expired_split by blast
  show "\<exists>old ts. connectionTimestamps ?st = old @ ts
       \<and> (\<forall>t \<in> set old. t + RateWindow \<le> now)
       \<and> (if b then activeConnections (address_state_of s' a) = activeConnections ?st
              \<and> connectionTimestamps (address_state_of s' a) = ts
          else activeConnections ?st < MaxConnectionsPerAddress
              \<and> length ts < MaxConnectRatePerAddress
              \<and> activeConnections (address_state_of s' a) = activeConnections ?st + 1
              \<and> connectionTimestamps (address_state_of s' a) = ts @ [now])"
  proof (cases "activeConnections ?st \<ge> MaxConnectionsPerAddress")
    case True
    with assms show ?thesis
      by (intro exI [of _ "[]"] exI [of _ "connectionTimestamps ?st"])
        (auto simp: IsConnectionThrottled_def Let_def)
  next
    case False
    with assms old show ?thesis
      by (intro exI [of _ old] exI [of _ "pop_expired now (connectionTimestamps ?st)"])
        (auto simp: IsConnectionThrottled_def Let_def split: if_splits)
  qed
qed

lemma stamps_ok_mono:
  assumes "stamps_ok w a" "nw_clock w \<le> nw_clock w'" "admissions w' a = admissions w a"
    "connectionTimestamps (address_state_of (nw_server w) a)
       = old @ connectionTimestamps (address_state_of (nw_server w') a)"
    "\<forall>t \<in> set old. t + RateWindow \<le> nw_clock w'"
  shows "stamps_ok w' a"
proof -
  obtain o' where "admissions w a = o' @ connectionTimestamps (address_state_of (nw_server w) a)"
      "\<forall>t \<in> set o'. t + RateWindow \<le> nw_clock w"
    using assms(1) by (auto simp: stamps_ok_def)
  with assms(2-) show ?thesis
    unfolding stamps_ok_def by (intro exI [of _ "o' @ old"]) fastforce
qed

lemma net_inv_initial:
  "net_inv \<lparr>nw_server = initial_server, nw_clock = t, nw_admitted = [], nw_thrown = False\<rparr>"
  by (simp add: net_inv_def initial_server_def address_state_of_def empty_address_state_def
      connections_of_def stamps_ok_def admissions_def spaced_def)

text \<open>The invariant looks at the clients, the next identifier and the states of the addresses.\<close>

lemma net_inv_cong:
  assumes "net_inv w" "nw_clock w \<le> nw_clock w'" "nw_admitted w' = nw_admitted w"
    "nw_thrown w \<Longrightarrow> nw_thrown w'"
    "net_clients (nw_server w') = net_clients (nw_server w)"
    "next_client_id (nw_server w') = next_client_id (nw_server w)"
    "addressStates (nw_server w') = addressStates (nw_server w)"
  shows "net_inv w'"
proof -
  have st: "address_state_of (nw_server w') b = address_state_of (nw_server w) b" for b
    using assms(7) by (simp add: address_state_of_def)
  have adm: "admissions w' b = admissions w b" for b using assms(3) by (simp add: admissions_def)
  have "stamps_ok w' b" for b
    using assms(1,2) stamps_ok_mono [of w b w' "[]"] by (auto simp: net_inv_def adm st)
  moreover have "connections_of (nw_server w') b = connections_of (nw_server w) b" for b
    using assms(5) by (simp add: connections_of_def)
  ultimately show ?thesis using assms(1,4-6) by (auto simp: net_inv_def adm st)
qed

lemma net_inv_throttled:
  assumes "net_inv w" "nw_clock w \<le> t" "IsConnectionThrottled a t (nw_server w) = (True, s)"
  shows "net_inv (w\<lparr>nw_server := s, nw_clock := t\<rparr>)"
proof -
  let ?w = "w\<lparr>nw_server := s, nw_clock := t\<rparr>"
  note st = IsConnectionThrottled_state [OF assms(3)]
  have adm: "admissions ?w b = admissions w b" for b by (simp add: admissions_def)
  obtain old where old: "connectionTimestamps (address_state_of (nw_server w) a)
       = old @ connectionTimestamps (address_state_of s a)" "\<forall>u \<in> set old. u + RateWindow \<le> t"
    and act: "activeConnections (address_state_of s a) = activeConnections (address_state_of (nw_server w) a)"
    using st(4) by auto
  have "stamps_ok ?w b" for b
    using assms(1,2) st(3) [of b] old stamps_ok_mono [of w b ?w "if b = a then old else []"]
    by (cases "b = a") (auto simp: net_inv_def adm)
  moreover have "activeConnections (address_state_of s b) = connections_of s b"
    "connections_of s b = connections_of (nw_server w) b" for b
    using assms(1) st(1) st(3) [of b] act by (cases "b = a"; auto simp: net_inv_def connections_of_def)+
  ultimately show ?thesis
    using assms(1) st(1,2) by (auto simp: net_inv_def adm)
qed

lemma net_inv_refused:
  assumes "net_inv w" "nw_clock w \<le> t" "AcceptLoop result t connected (nw_server w) = (None, s)"
  shows "net_inv (w\<lparr>nw_server := s, nw_clock := t\<rparr>)"
proof (cases result)
  case (Accepted a)
  with assms(3) have "IsConnectionThrottled a t (nw_server w) = (True, s)"
    by (auto simp: AcceptLoop_def Let_def split: prod.splits if_splits)
  with assms(1,2) show ?thesis by (rule net_inv_throttled)
qed (use assms in \<open>auto simp: AcceptLoop_def intro: net_inv_cong [of w]\<close>)

lemma net_inv_admitted:
  assumes "net_inv w" "nw_clock w \<le> t"
    "AcceptLoop (Accepted a) t connected (nw_server w) = (Some c, s)"
  shows "net_inv (w\<lparr>nw_server := s, nw_clock := t, nw_admitted := nw_admitted w @ [(a, t)]\<rparr>)"
proof -
  let ?w = "w\<lparr>nw_server := s, nw_clock := t, nw_admitted := nw_admitted w @ [(a, t)]\<rparr>"
  let ?cl = "\<lparr>remoteAddress = a, shouldRun = True\<rparr>"
  obtain s1 where t: "IsConnectionThrottled a t (nw_server w) = (False, s1)"
    and c: "c = next_client_id s1"
    and s: "s = s1\<lparr>accepting := \<not> isl connected, next_client_id := c + 1,
      net_clients := umap_put c ?cl (net_clients s1)\<rparr>"
    using assms(3) by (auto simp: AcceptLoop_def Let_def split: prod.splits if_splits)
  note st = IsConnectionThrottled_state [OF t]
  have same: "address_state_of s b = address_state_of s1 b" for b
    by (simp add: s address_state_of_def)
  have fresh: "map_of (net_clients (nw_server w)) c = None"
    using assms(1) st(2) c by (auto simp: net_inv_def map_of_eq_None_iff)
  then have clients: "net_clients s = net_clients (nw_server w) @ [(c, ?cl)]"
    using st(1) by (simp add: s umap_put_fresh)
  have adm: "admissions ?w b = admissions w b @ (if b = a then [t] else [])" for b
    by (simp add: admissions_def)
  obtain old ts where old: "connectionTimestamps (address_state_of (nw_server w) a) = old @ ts"
      "\<forall>u \<in> set old. u + RateWindow \<le> t"
    and act: "activeConnections (address_state_of (nw_server w) a) < MaxConnectionsPerAddress"
      "activeConnections (address_state_of s1 a) = activeConnections (address_state_of (nw_server w) a) + 1"
    and new: "length ts < MaxConnectRatePerAddress"
      "connectionTimestamps (address_state_of s1 a) = ts @ [t]"
    using st(4) by auto
  obtain o' where o': "admissions w a = o' @ old @ ts" "\<forall>u \<in> set o'. u + RateWindow \<le> nw_clock w"
    using assms(1) old(1) unfolding net_inv_def stamps_ok_def by metis
  then have olds: "\<forall>u \<in> set (o' @ old). u + RateWindow \<le> t" using old(2) assms(2) by auto
  have stamps: "stamps_ok ?w b" for b
  proof (cases "b = a")
    case True
    then show ?thesis
      unfolding stamps_ok_def using olds o'(1) new(2)
      by (intro exI [of _ "o' @ old"]) (auto simp: adm same)
  next
    case False
    then show ?thesis
      using assms(1,2) st(3) [of b] stamps_ok_mono [of w b ?w "[]"]
      by (auto simp: net_inv_def adm same)
  qed
  have space: "spaced (admissions ?w b)" for b
  proof -
    have "spaced (admissions w b)" using assms(1) by (simp add: net_inv_def)
    with spaced_append [OF _ olds new(1)] o'(1) show ?thesis by (cases "b = a") (simp_all add: adm)
  qed
  have count: "connections_of s b = connections_of (nw_server w) b + (if b = a then 1 else 0)" for b
    by (simp add: connections_of_def clients)
  have "activeConnections (address_state_of s b) = connections_of s b"
    "connections_of s b \<le> MaxConnectionsPerAddress" for b
    using assms(1) act st(3) [of b] by (cases "b = a"; auto simp: net_inv_def count same)+
  moreover have "umap_ok (net_clients s)"
    using assms(1) st(1) by (simp add: net_inv_def s)
  moreover have "\<not> nw_thrown w \<longrightarrow> (\<forall>(c, cl) \<in> set (net_clients s). shouldRun cl)"
    using assms(1) by (auto simp: net_inv_def clients)
  moreover have "\<forall>x \<in> set (keys_of (net_clients s)). x < next_client_id s"
    using assms(1) st(2) c unfolding net_inv_def clients by (auto simp: s less_Suc_eq)
  ultimately show ?thesis
    using stamps space by (auto simp: net_inv_def)
qed

text \<open>What ending a client that runs leaves, whether its disconnect handler throws or not.\<close>

lemma Client_End_running:
  assumes "umap_ok (net_clients s)" "map_of (net_clients s) c = Some cl" "shouldRun cl"
    "Client_End c disconnected s = (r, s')"
  shows "address_state_of s' b = (if b = remoteAddress cl
      then (address_state_of s b)\<lparr>activeConnections := activeConnections (address_state_of s b) - 1\<rparr>
      else address_state_of s b)"
    "next_client_id s' = next_client_id s" "umap_ok (net_clients s')"
    "set (keys_of (net_clients s')) \<subseteq> set (keys_of (net_clients s))"
    "connections_of s' b = connections_of s b - (if b = remoteAddress cl then 1 else 0)"
    "\<not> isl r \<Longrightarrow> net_clients s' = umap_erase c (net_clients s)"
proof -
  let ?a = "remoteAddress cl"
  let ?m = "umap_put c (cl\<lparr>shouldRun := False\<rparr>) (net_clients s)"
  let ?s = "s\<lparr>net_clients := ?m\<rparr>"
  have same: "address_state_of ?s b = address_state_of s b" for b by (simp add: address_state_of_def)
  have e: "(r, s') = (case disconnected of Inl e \<Rightarrow> (Inl e, OnThrottleDisconnect ?a ?s)
      | Inr _ \<Rightarrow> (Inr (), (OnThrottleDisconnect ?a ?s)\<lparr>net_clients := umap_erase c ?m\<rparr>))"
    using assms(2-4)
    by (cases disconnected)
      (auto simp: Client_End_def OnClientDisconnected_def Let_def OnThrottleDisconnect_state)
  then have s': "net_clients s' = (if isl r then ?m else umap_erase c ?m)"
    "address_state_of s' b = address_state_of (OnThrottleDisconnect ?a ?s) b"
    "next_client_id s' = next_client_id s" for b
    by (auto simp: OnThrottleDisconnect_state address_state_of_def split: sum.splits)
  have keys: "set (keys_of ?m) = set (keys_of (net_clients s))"
    using umap_update_keys [of "net_clients s" c] assms(2) by simp
  show "next_client_id s' = next_client_id s" by (rule s')
  show "umap_ok (net_clients s')" using assms(1) by (simp add: s')
  show "set (keys_of (net_clients s')) \<subseteq> set (keys_of (net_clients s))"
    unfolding s'(1) by (cases "isl r") (simp_all only: if_True if_False keys_umap_erase keys Diff_subset order_refl)
  show "address_state_of s' b = (if b = ?a
      then (address_state_of s b)\<lparr>activeConnections := activeConnections (address_state_of s b) - 1\<rparr>
      else address_state_of s b)"
    by (simp only: s'(2) OnThrottleDisconnect_state same split: if_split) simp
  have ok: "umap_ok ?m" "map_of ?m c = Some (cl\<lparr>shouldRun := False\<rparr>)"
    "\<not> shouldRun (cl\<lparr>shouldRun := False\<rparr>)" using assms(1) by simp_all
  show "connections_of s' b = connections_of s b - (if b = ?a then 1 else 0)"
    unfolding connections_of_def s'(1)
    using filter_umap_erase [OF ok, of b] conjunct1 [OF filter_umap_stop [OF assms(1-3), of b]]
    by (cases "isl r") (simp_all only: if_True if_False not_False_eq_True)
  show "\<not> isl r \<Longrightarrow> net_clients s' = umap_erase c (net_clients s)"
    by (simp add: s'(1) umap_erase_def umap_put_def delete_update_same)
qed

lemma net_inv_ended:
  assumes "net_inv w" "nw_clock w \<le> t" "Client_End c disconnected (nw_server w) = (r, s)"
  shows "net_inv (w\<lparr>nw_server := s, nw_clock := t, nw_thrown := nw_thrown w \<or> isl r\<rparr>)"
proof (cases "\<exists>cl. map_of (net_clients (nw_server w)) c = Some cl \<and> shouldRun cl")
  case False
  then have "s = nw_server w"
    using assms(3) by (auto simp: Client_End_def split: option.splits if_splits)
  then show ?thesis using assms(1,2) by (auto intro: net_inv_cong [of w])
next
  case True
  then obtain cl where cl: "map_of (net_clients (nw_server w)) c = Some cl" "shouldRun cl" by blast
  let ?w = "w\<lparr>nw_server := s, nw_clock := t, nw_thrown := nw_thrown w \<or> isl r\<rparr>"
  have ok: "umap_ok (net_clients (nw_server w))" using assms(1) by (simp add: net_inv_def)
  note st = Client_End_running [OF ok cl assms(3)]
  have adm: "admissions ?w b = admissions w b" for b by (simp add: admissions_def)
  have "stamps_ok ?w b" for b
    using assms(1,2) stamps_ok_mono [of w b ?w "[]"] by (auto simp: net_inv_def adm st)
  moreover have "connections_of (nw_server w) b - 1 \<le> MaxConnectionsPerAddress" for b
    using assms(1) le_trans [OF diff_le_self] by (auto simp: net_inv_def)
  moreover have "\<forall>x \<in> set (keys_of (net_clients s)). x < next_client_id s"
    using assms(1) st(2,4) unfolding net_inv_def by (metis subsetD)
  moreover have "\<not> nw_thrown w \<Longrightarrow> \<not> isl r \<Longrightarrow> \<forall>(x, cl) \<in> set (net_clients s). shouldRun cl"
    using assms(1) st(6)
    unfolding net_inv_def umap_erase_def AList.delete_eq by auto
  ultimately show ?thesis
    using assms(1) st(3) by (auto simp: net_inv_def adm st(1) st(5))
qed

lemma net_inv_reachable: "net_reachable w \<Longrightarrow> net_inv w"
proof (induction rule: net_reachable.induct)
  case (initial t)
  then show ?case by (rule net_inv_initial)
next
  case (step w w')
  from step(2,3) show ?case
    by (cases rule: net_step.cases) (auto intro: net_inv_admitted net_inv_refused net_inv_ended)
qed

text \<open>C4: However connections are accepted, refused and ended, and whatever the handlers of the
  server on top throw, no address ever has more than \<open>MaxConnectionsPerAddress\<close> running clients,
  the counter the throttle keeps per address is the number of its running clients, and any eleven
  admissions of an address stretch over at least \<open>RateWindow\<close>. As long as no disconnect handler
  has thrown, every client the server keeps runs; afterwards it may keep clients that ended.\<close>

theorem throttle_bounds:
  assumes "net_reachable w"
  shows "connections_of (nw_server w) a \<le> MaxConnectionsPerAddress
    \<and> activeConnections (address_state_of (nw_server w) a) = connections_of (nw_server w) a
    \<and> spaced (admissions w a)
    \<and> (\<not> nw_thrown w \<longrightarrow> (\<forall>(c, cl) \<in> set (net_clients (nw_server w)). shouldRun cl))"
  using net_inv_reachable [OF assms] by (simp add: net_inv_def)

text \<open>A client is admitted, and its disconnect handler throws: it stays in the map of the clients
  for good, although the throttle does not count it.\<close>

lemma throttle_bounds_witness:
  "let s = snd (Client_End 0 (Inl (RuntimeError ''handler''))
             (snd (AcceptLoop (Accepted 7) 0 (Inr ()) initial_server)))
   in connections_of s 7 \<le> MaxConnectionsPerAddress
    \<and> activeConnections (address_state_of s 7) = connections_of s 7
    \<and> activeConnections (address_state_of s 7) = 0 \<and> has_key (net_clients s) 0"
proof -
  let ?start = "\<lparr>nw_server = initial_server, nw_clock = 0, nw_admitted = [], nw_thrown = False\<rparr>"
  let ?s1 = "snd (AcceptLoop (Accepted 7) 0 (Inr ()) initial_server)"
  let ?s2 = "snd (Client_End 0 (Inl (RuntimeError ''handler'')) ?s1)"
  let ?w1 = "?start\<lparr>nw_server := ?s1, nw_clock := 0, nw_admitted := nw_admitted ?start @ [(7, 0)]\<rparr>"
  note evaluate = AcceptLoop_def IsConnectionThrottled_def Let_def initial_server_def
    address_state_of_def empty_address_state_def MaxConnectionsPerAddress_def
    MaxConnectRatePerAddress_def umap_put_def Client_End_def OnClientDisconnected_def
    OnThrottleDisconnect_def
  have "net_step ?start ?w1"
    by (rule net_step.admitted [where c = 0 and connected = "Inr ()"]) (simp_all add: evaluate)
  then have r1: "net_reachable ?w1" by (rule net_reachable.step [OF net_reachable.initial])
  have "Client_End 0 (Inl (RuntimeError ''handler'')) ?s1 = (Inl (RuntimeError ''handler''), ?s2)"
    by (simp add: evaluate)
  then have "net_step ?w1 (?w1\<lparr>nw_server := ?s2, nw_clock := 0,
      nw_thrown := nw_thrown ?w1 \<or> isl (Inl (RuntimeError ''handler'') :: exn + unit)\<rparr>)"
    by (intro net_step.ended) simp_all
  then have "net_reachable (?w1\<lparr>nw_server := ?s2, nw_clock := 0, nw_thrown := True\<rparr>)"
    by (intro net_reachable.step [OF r1]) simp
  from throttle_bounds [OF this, of 7] show ?thesis by (simp add: evaluate)
qed

section \<open>The read loop of a client\<close>

text \<open>
  What \<open>Client::ReadLoop\<close> keeps: whether it waits for a read, the bytes its protocol has not
  consumed, and the state \<open>'s\<close> of the program. A handler of the protocol may end the client it
  serves, so \<open>_shouldRun\<close> is a part of \<open>'s\<close>: \<open>cv_shouldRun\<close> reads it and \<open>cv_End\<close> is \<open>Client::End\<close>,
  with the exception of the disconnect handler if that throws. \<open>on_data\<close> is the \<open>OnClientData\<close> of
  the server on top: the number of bytes consumed, or an exception, which ends the client.
  \<open>rl_escaped\<close> is an exception of \<open>End\<close>, which leaves the completion handler.
\<close>

record 's client_view =
  cv_shouldRun :: "'s \<Rightarrow> bool"
  cv_End :: "'s \<Rightarrow> exn option \<times> 's"

record 's read_client =
  rl_waiting :: bool
  rl_buffer :: bytes
  rl_escaped :: "exn option"
  rl_state :: 's

type_synonym 's on_data = "bytes \<Rightarrow> 's \<Rightarrow> (exn + nat) \<times> 's"

text \<open>The completion handler of a read, up to the next read: the buffer of a client whose handler
  threw keeps all the bytes, and the flag is looked at only once everything has been handled.\<close>

definition ReadLoop ::
  "'s client_view \<Rightarrow> 's on_data \<Rightarrow> bytes \<Rightarrow> 's read_client \<Rightarrow> 's read_client" where
  "ReadLoop view on_data received c =
     (if \<not> rl_waiting c then c
      else let receivedData = rl_buffer c @ received
           in case on_data receivedData (rl_state c) of
                (Inr consumedBytes, st) \<Rightarrow>
                  c\<lparr>rl_waiting := cv_shouldRun view st, rl_buffer := drop consumedBytes receivedData,
                    rl_state := st\<rparr>
              | (Inl e, st) \<Rightarrow>
                  let (escaped, st) = cv_End view st
                  in c\<lparr>rl_waiting := False, rl_buffer := receivedData, rl_escaped := escaped,
                       rl_state := st\<rparr>)"

definition ReadLoop_all ::
  "'s client_view \<Rightarrow> 's on_data \<Rightarrow> bytes list \<Rightarrow> 's read_client \<Rightarrow> 's read_client" where
  "ReadLoop_all view on_data chunks c = foldl (\<lambda>c chunk. ReadLoop view on_data chunk c) c chunks"

text \<open>The reads up to and including the one after which the client no longer waits.\<close>

fun reads_used :: "'s client_view \<Rightarrow> 's on_data \<Rightarrow> bytes list \<Rightarrow> 's read_client \<Rightarrow> nat" where
  "reads_used view on_data [] c = 0"
| "reads_used view on_data (chunk # chunks) c =
     (if rl_waiting c then Suc (reads_used view on_data chunks (ReadLoop view on_data chunk c)) else 0)"

text \<open>All that a read client leaves to the rest of the program: its state, an escaped exception,
  and, while it waits for more, the bytes it kept. Nothing reads the buffer of an ended client.\<close>

definition same_outcome :: "'s read_client \<Rightarrow> 's read_client \<Rightarrow> bool" where
  "same_outcome c d \<longleftrightarrow> rl_state c = rl_state d \<and> rl_escaped c = rl_escaped d
     \<and> rl_waiting c = rl_waiting d \<and> (rl_waiting c \<longrightarrow> rl_buffer c = rl_buffer d)"

lemma same_outcome_refl [simp, intro]: "same_outcome c c"
  by (simp add: same_outcome_def)

lemma same_outcome_trans: "same_outcome c d \<Longrightarrow> same_outcome d e \<Longrightarrow> same_outcome c e"
  by (auto simp: same_outcome_def)

lemma ReadLoop_stopped: "\<not> rl_waiting c \<Longrightarrow> ReadLoop view on_data x c = c"
  by (simp add: ReadLoop_def)

lemma ReadLoop_all_simps [simp]:
  "ReadLoop_all view on_data [] c = c"
  "ReadLoop_all view on_data (x # xs) c = ReadLoop_all view on_data xs (ReadLoop view on_data x c)"
  by (simp_all add: ReadLoop_all_def)

lemma ReadLoop_all_stopped: "\<not> rl_waiting c \<Longrightarrow> ReadLoop_all view on_data xs c = c"
  by (induction xs) (simp_all add: ReadLoop_stopped)

lemma reads_used_stopped: "\<not> rl_waiting c \<Longrightarrow> reads_used view on_data xs c = 0"
  by (cases xs) simp_all

lemma same_outcome_ReadLoop:
  "same_outcome c d \<Longrightarrow> same_outcome (ReadLoop view on_data x c) (ReadLoop view on_data x d)"
  by (auto simp: same_outcome_def ReadLoop_def Let_def split: prod.splits sum.splits)

lemma reads_used_cong:
  "same_outcome c d \<Longrightarrow> reads_used view on_data xs c = reads_used view on_data xs d"
proof (induction xs arbitrary: c d)
  case (Cons x xs)
  from Cons.IH [OF same_outcome_ReadLoop [OF Cons.prems]] Cons.prems show ?case
    by (simp add: same_outcome_def)
qed simp

lemma same_outcome_ReadLoop_all:
  "same_outcome c d \<Longrightarrow> same_outcome (ReadLoop_all view on_data xs c) (ReadLoop_all view on_data xs d)"
  by (induction xs arbitrary: c d) (simp_all add: same_outcome_ReadLoop)

text \<open>One turn of the loop of \<open>OnClientData\<close>: wait for more data, give the connection up, or take
  one frame of the given size.\<close>

datatype 's frame_result =
    Wait
  | Bad exn 's
  | Took nat 's

definition advance :: "nat \<Rightarrow> (exn + nat) \<times> 's \<Rightarrow> (exn + nat) \<times> 's" where
  "advance n r = (case r of (Inr m, s) \<Rightarrow> (Inr (n + m), s) | (Inl e, s) \<Rightarrow> (Inl e, s))"

lemma advance_simps [simp]:
  "advance n (Inr m, s) = (Inr (n + m), s)" "advance n (Inl e, s) = (Inl e, s)"
  by (simp_all add: advance_def)

locale frame_parser =
  fixes frame :: "bytes \<Rightarrow> 's \<Rightarrow> 's frame_result"
    and run :: "'s on_data"
  assumes run_unfold: "run d s =
      (if d = [] then (Inr 0, s)
       else case frame d s of
              Wait \<Rightarrow> (Inr 0, s)
            | Bad e s' \<Rightarrow> (Inl e, s')
            | Took n s' \<Rightarrow> advance n (run (drop n d) s'))"
    and took_size: "frame d s = Took n s' \<Longrightarrow> 0 < n \<and> n \<le> length d"
    and took_more: "frame d s = Took n s' \<Longrightarrow> frame (d @ e) s = Took n s'"
    and bad_more: "frame d s = Bad x s' \<Longrightarrow> frame (d @ e) s = Bad x s'"
begin

text \<open>Running over more data resumes where running over the first part stopped.\<close>

lemma run_append:
  "case run d s of
     (Inr n, s') \<Rightarrow> n \<le> length d \<and> run (d @ e) s = advance n (run (drop n d @ e) s')
   | (Inl x, s') \<Rightarrow> run (d @ e) s = (Inl x, s')"
proof (induction "length d" arbitrary: d s rule: less_induct)
  case less
  have zero: "run (d @ e) s = advance 0 (run (d @ e) s)"
    by (simp add: advance_def split: prod.splits sum.splits)
  consider "d = []" | "d \<noteq> []" "frame d s = Wait" | x s' where "d \<noteq> []" "frame d s = Bad x s'"
    | n s' where "d \<noteq> []" "frame d s = Took n s'"
    by (cases "frame d s") auto
  then show ?case
  proof cases
    case 1
    with zero show ?thesis using run_unfold [of "[]" s] by simp
  next
    case 2
    with zero show ?thesis using run_unfold [of d s] by simp
  next
    case 3
    with bad_more [OF 3(2)] show ?thesis
      using run_unfold [of d s] run_unfold [of "d @ e" s] by simp
  next
    case 4
    have n: "0 < n" "n \<le> length d" using took_size [OF 4(2)] by auto
    then have "length (drop n d) < length d" by simp
    from less [OF this, of s'] have IH: "case run (drop n d) s' of
         (Inr m, s'') \<Rightarrow> m \<le> length (drop n d)
           \<and> run (drop n d @ e) s' = advance m (run (drop m (drop n d) @ e) s'')
       | (Inl x, s'') \<Rightarrow> run (drop n d @ e) s' = (Inl x, s'')" .
    have r: "run d s = advance n (run (drop n d) s')"
      using run_unfold [of d s] 4 by simp
    have re: "run (d @ e) s = advance n (run (drop n d @ e) s')"
      using run_unfold [of "d @ e" s] 4 took_more [OF 4(2), of e] n by simp
    show ?thesis
    proof (cases "run (drop n d) s'")
      case (Pair res s'')
      show ?thesis
      proof (cases res)
        case (Inl x)
        with Pair IH r re show ?thesis by simp
      next
        case (Inr m)
        with Pair IH have m: "m \<le> length d - n"
          "run (drop n d @ e) s' = advance m (run (drop m (drop n d) @ e) s'')" by simp_all
        obtain res' t where t: "run (drop (m + n) d @ e) s'' = (res', t)" by fastforce
        have "run (d @ e) s = advance (n + m) (run (drop (m + n) d @ e) s'')"
          using re m(2) t by (cases res') simp_all
        with Pair Inr r m n show ?thesis by (simp add: add.commute)
      qed
    qed
  qed
qed

text \<open>While the client waits for more after the first of two reads, the two are as good as one.\<close>

lemma ReadLoop_append:
  assumes "rl_waiting (ReadLoop view run x c)"
  shows "same_outcome (ReadLoop view run y (ReadLoop view run x c)) (ReadLoop view run (x @ y) c)"
proof -
  have c: "rl_waiting c" using assms ReadLoop_stopped [of c view run x] by (cases "rl_waiting c") auto
  obtain n s' where r: "run (rl_buffer c @ x) (rl_state c) = (Inr n, s')" "cv_shouldRun view s'"
    using assms c by (auto simp: ReadLoop_def Let_def split: prod.splits sum.splits)
  obtain res t where t: "run (drop n (rl_buffer c @ x) @ y) s' = (res, t)" by fastforce
  have n: "n \<le> length (rl_buffer c @ x)"
    and all: "run ((rl_buffer c @ x) @ y) (rl_state c) = advance n (res, t)"
    using run_append [where d = "rl_buffer c @ x" and s = "rl_state c" and e = y] r t by simp_all
  have d: "drop m (drop n (rl_buffer c @ x) @ y) = drop (n + m) ((rl_buffer c @ x) @ y)" for m
  proof -
    have "drop n (rl_buffer c @ x) @ y = drop n ((rl_buffer c @ x) @ y)"
      using n by (simp only: drop_append diff_is_0_eq) simp
    then show ?thesis by (simp only: drop_drop add.commute)
  qed
  from c r t all d show ?thesis
    by (cases res) (simp_all add: ReadLoop_def Let_def same_outcome_def split: prod.splits)
qed

text \<open>However the bytes are cut into reads, the outcome is that of one read of the bytes the client
  lived to receive.\<close>

lemma fragmentation:
  assumes "chunks \<noteq> []"
  shows "same_outcome (ReadLoop_all view run chunks c)
    (ReadLoop view run (concat (take (reads_used view run chunks c) chunks)) c)"
  using assms
proof (induction "length chunks" arbitrary: chunks rule: less_induct)
  case less
  obtain x xs where xs: "chunks = x # xs" using less.prems by (cases chunks) auto
  consider "\<not> rl_waiting c" | "rl_waiting c" "\<not> rl_waiting (ReadLoop view run x c) \<or> xs = []"
    | y ys where "rl_waiting c" "rl_waiting (ReadLoop view run x c)" "xs = y # ys"
    by (cases xs) auto
  then show ?case
  proof cases
    case 1
    then show ?thesis by (simp add: ReadLoop_all_stopped ReadLoop_stopped)
  next
    case 2
    then show ?thesis by (auto simp: xs ReadLoop_all_stopped reads_used_stopped)
  next
    case 3
    let ?c = "ReadLoop view run x c"
    have same: "same_outcome (ReadLoop view run y ?c) (ReadLoop view run (x @ y) c)"
      using 3(2) by (rule ReadLoop_append)
    have "reads_used view run ys (ReadLoop view run y ?c)
        = reads_used view run ys (ReadLoop view run (x @ y) c)"
      by (rule reads_used_cong [OF same])
    with 3 less(1) [of "(x @ y) # ys"] same_outcome_trans [OF same_outcome_ReadLoop_all [OF same]]
    show ?thesis by (simp add: xs)
  qed
qed

text \<open>If no frame ends the client, that is one read of all the bytes.\<close>

lemma fragmentation_whole:
  assumes "chunks \<noteq> []" "rl_waiting c \<Longrightarrow> cv_shouldRun view (rl_state c)"
    "\<And>d s n s'. frame d s = Took n s' \<Longrightarrow> cv_shouldRun view s \<Longrightarrow> cv_shouldRun view s'"
  shows "same_outcome (ReadLoop_all view run chunks c) (ReadLoop view run (concat chunks) c)"
  using assms(1,2)
proof (induction "length chunks" arbitrary: chunks rule: less_induct)
  case less
  have keeps: "run d s = (Inr n, s') \<Longrightarrow> cv_shouldRun view s \<Longrightarrow> cv_shouldRun view s'" for d s n s'
  proof (induction "length d" arbitrary: d s n rule: less_induct)
    case less
    from less.prems run_unfold [of d s] show ?case
    proof (cases "d = [] \<or> frame d s = Wait")
      case False
      with less.prems(1) run_unfold [of d s] obtain m s1 k where
        f: "frame d s = Took m s1" "run (drop m d) s1 = (Inr k, s')"
        by (auto simp: advance_def split: frame_result.splits sum.splits prod.splits)
      with took_size [OF f(1)] have "length (drop m d) < length d" by auto
      from less.hyps [OF this f(2)] assms(3) [OF f(1)] less.prems(2) show ?thesis by simp
    qed (auto split: if_splits)
  qed
  obtain x xs where xs: "chunks = x # xs" using less.prems by (cases chunks) auto
  consider "\<not> rl_waiting c" | "xs = []" | y ys where "rl_waiting c" "xs = y # ys"
    by (cases xs) auto
  then show ?case
  proof cases
    case 1
    then show ?thesis by (simp add: ReadLoop_all_stopped ReadLoop_stopped)
  next
    case 2
    then show ?thesis by (simp add: xs)
  next
    case 3
    let ?c = "ReadLoop view run x c"
    have same: "same_outcome (ReadLoop view run y ?c) (ReadLoop view run (x @ y) c)"
    proof (cases "rl_waiting ?c")
      case True
      then show ?thesis by (rule ReadLoop_append)
    next
      case False
      obtain res s' where r: "run (rl_buffer c @ x) (rl_state c) = (res, s')" by fastforce
      with False 3(1) less.prems(2) keeps obtain e where e: "res = Inl e"
        by (cases res) (auto simp: ReadLoop_def Let_def)
      with r have "run ((rl_buffer c @ x) @ y) (rl_state c) = (Inl e, s')"
        using run_append [where d = "rl_buffer c @ x" and s = "rl_state c" and e = y] by simp
      with r e 3(1) show ?thesis
        by (simp add: ReadLoop_stopped [OF False])
          (simp add: ReadLoop_def Let_def same_outcome_def split: prod.splits)
    qed
    from 3 less(1) [of "(x @ y) # ys"] less.prems(2)
      same_outcome_trans [OF same_outcome_ReadLoop_all [OF same]]
    show ?thesis by (simp add: xs)
  qed
qed

end

end
