(* ===== verification/Chatter_Server.thy ===== *)
theory Chatter_Server imports Network begin

text \<open>
  \<open>libserver/network/chatter/ChatterServer.cpp\<close> and the queueing of commands in
  \<open>ChatterServer.hpp\<close>: the messenger's framing, which scrambles header and data with a fixed key
  in both directions. The registered handlers are the parameter \<open>hs\<close> and the state they act on
  is \<open>'w\<close>; a handler that throws leaves a state too, the exception is caught and logged.
\<close>

section \<open>Scrambling\<close>

definition ChatterXorCode :: bytes where
  "ChatterXorCode = [0x2B, 0xFE, 0xB8, 0x02]"

definition MaxChatterSize :: nat where "MaxChatterSize = 4092"

fun chatter_xor :: "nat \<Rightarrow> bytes \<Rightarrow> bytes" where
  "chatter_xor idx [] = []"
| "chatter_xor idx (v # vs) = (v XOR ChatterXorCode ! (idx mod 4)) # chatter_xor (Suc idx) vs"

section \<open>Receiving\<close>

type_synonym 'w chatter_handlers = "u16 \<Rightarrow> (client_id \<Rightarrow> bytes \<Rightarrow> 'w \<Rightarrow> 'w) option"

definition chatter_dispatch :: "'w chatter_handlers \<Rightarrow> client_id \<Rightarrow> u16 \<Rightarrow> bytes \<Rightarrow> 'w \<Rightarrow> 'w" where
  "chatter_dispatch hs c commandId commandData s =
     (case hs commandId of None \<Rightarrow> s | Some handler \<Rightarrow> handler c commandData s)"

definition read_chatter ::
  "'w chatter_handlers \<Rightarrow> client_id \<Rightarrow> bytes \<Rightarrow> 'w \<Rightarrow> 'w frame_result" where
  "read_chatter hs c data s =
     (let bufferedDataSize = length data
      in if bufferedDataSize < 4 then Wait
         else let len = u16_of_bytes (take 2 data) XOR u16_of_bytes (take 2 ChatterXorCode);
                  commandId = u16_of_bytes (take 2 (drop 2 data))
                    XOR u16_of_bytes (drop 2 ChatterXorCode)
         in if unat len < 4 \<or> unat len > MaxChatterSize
            then Bad (RuntimeError ''Invalid chatter header: Bad command data size'') s
            else if bufferedDataSize < unat len then Wait
            else let commandDataLength = unat len - 4;
                     commandData = chatter_xor 0 (take commandDataLength (drop 4 data))
            in Took (unat len) (chatter_dispatch hs c commandId commandData s))"

function Chatter_OnClientData :: "'w chatter_handlers \<Rightarrow> client_id \<Rightarrow> 'w on_data" where
  "Chatter_OnClientData hs c data s =
     (if data = [] then (Inr 0, s)
      else case read_chatter hs c data s of
             Wait \<Rightarrow> (Inr 0, s)
           | Bad e s' \<Rightarrow> (Inl e, s')
           | Took n s' \<Rightarrow> advance n (Chatter_OnClientData hs c (drop n data) s'))"
  by pat_completeness auto
termination
  by (relation "measure (\<lambda>(hs, c, data, s). length data)")
    (auto simp: read_chatter_def Let_def split: if_splits)

declare Chatter_OnClientData.simps [simp del]

lemma read_chatter_Took: "read_chatter hs c d s = Took n s' \<Longrightarrow> 0 < n \<and> n \<le> length d"
  by (auto simp: read_chatter_def Let_def split: if_splits)

lemma read_chatter_more:
  assumes "read_chatter hs c d s \<noteq> Wait"
  shows "read_chatter hs c (d @ e) s = read_chatter hs c d s"
proof -
  have l: "4 \<le> length d" using assms by (auto simp: read_chatter_def Let_def split: if_splits)
  then have t: "take 2 (d @ e) = take 2 d" "take 2 (drop 2 (d @ e)) = take 2 (drop 2 d)"
    by simp_all
  obtain len where len: "u16_of_bytes (take 2 d) XOR u16_of_bytes (take 2 ChatterXorCode) = len"
    by simp
  show ?thesis
  proof (cases "length d < unat len")
    case True
    with assms l show ?thesis unfolding read_chatter_def t len by (auto simp: Let_def split: if_splits)
  next
    case False
    then have "take (unat len - 4) (drop 4 (d @ e)) = take (unat len - 4) (drop 4 d)"
      using l by simp
    with False l show ?thesis unfolding read_chatter_def t len by (auto simp: Let_def)
  qed
qed

interpretation chatter: frame_parser "read_chatter hs c" "Chatter_OnClientData hs c" for hs c
proof unfold_locales
  fix d and s :: 'a
  show "Chatter_OnClientData hs c d s =
      (if d = [] then (Inr 0, s)
       else case read_chatter hs c d s of
              Wait \<Rightarrow> (Inr 0, s)
            | Bad e s' \<Rightarrow> (Inl e, s')
            | Took n s' \<Rightarrow> advance n (Chatter_OnClientData hs c (drop n d) s'))"
    by (subst Chatter_OnClientData.simps) (rule refl)
qed (simp_all add: read_chatter_Took read_chatter_more)

text \<open>The messenger too processes the bytes of a client independently of how the network fragments
  them, up to the read in which the client is ended.\<close>

theorem Chatter_fragmentation:
  "same_outcome (ReadLoop_all view (Chatter_OnClientData hs c) (chunk # chunks) client)
     (ReadLoop view (Chatter_OnClientData hs c)
       (concat (take (reads_used view (Chatter_OnClientData hs c) (chunk # chunks) client)
         (chunk # chunks))) client)"
  by (rule chatter.fragmentation) simp

section \<open>Sending\<close>

text \<open>\<open>QueueCommand\<close>: \<open>area\<close> is the memory \<open>buf.prepare(4092)\<close> returned. The space of the header
  is reserved by writing an \<open>int\<close>; the whole message is scrambled at the end.\<close>

definition QueueCommand :: "u16 \<Rightarrow> (stream \<Rightarrow> exn + stream) \<Rightarrow> bytes \<Rightarrow> exn + bytes" where
  "QueueCommand commandId supplier area =
     bnd (w32 0 (stream_of area)) (\<lambda>sink.
     bnd (supplier sink) (\<lambda>sink.
     let len = of_nat (cursor sink) :: u16
     in bnd (Seek 0 sink) (\<lambda>sink.
        bnd (seqw [w16 len, w16 commandId] sink) (\<lambda>sink.
        bnd (Seek 0 sink) (\<lambda>sink.
        let source = take (unat len) (storage sink)
        in bnd (sink_write (chatter_xor 0 source) sink) (\<lambda>sink.
           Inr (take (unat len) (storage sink))))))))"

lemma length_chatter_xor [simp]: "length (chatter_xor idx vs) = length vs"
  by (induction vs arbitrary: idx) auto

lemma chatter_xor_involutive [simp]: "chatter_xor idx (chatter_xor idx vs) = vs"
  by (induction vs arbitrary: idx) (auto simp: xor.assoc)

lemma chatter_xor_append:
  "chatter_xor idx (xs @ ys) = chatter_xor idx xs @ chatter_xor (idx + length xs) ys"
  by (induction xs arbitrary: idx) auto

lemma chatter_xor_period: "chatter_xor (idx + 4) vs = chatter_xor idx vs"
proof (induction vs arbitrary: idx)
  case (Cons v vs)
  from Cons.IH [of "Suc idx"] show ?case by (simp add: add.commute)
qed simp

lemma u16_of_bytes_xor:
  "u16_of_bytes [a XOR k, b XOR l] = u16_of_bytes [a, b] XOR u16_of_bytes [k, l]"
proof (rule bit_word_eqI)
  fix n
  have "bit (x :: u8) n \<Longrightarrow> n < 8" for x using bit_imp_le_length by force
  then show "bit (u16_of_bytes [a XOR k, b XOR l]) n
      = bit (u16_of_bytes [a, b] XOR u16_of_bytes [k, l]) n"
    unfolding u16_of_bytes_def by (cases "n < 8") (auto simp: bit_simps)
qed

definition chatter_frame :: "u16 \<Rightarrow> bytes \<Rightarrow> bytes" where
  "chatter_frame commandId bs =
     chatter_xor 0 (bytes_of_u16 (of_nat (4 + length bs)) @ bytes_of_u16 commandId @ bs)"

lemma chatter_frame_eq:
  "chatter_frame commandId bs =
     chatter_xor 0 (bytes_of_u16 (of_nat (4 + length bs)) @ bytes_of_u16 commandId) @ chatter_xor 0 bs"
  using chatter_xor_append [of 0 "bytes_of_u16 (of_nat (4 + length bs)) @ bytes_of_u16 commandId" bs]
    chatter_xor_period [of 0 bs]
  by (simp add: chatter_frame_def)

lemma length_chatter_frame [simp]: "length (chatter_frame commandId bs) = 4 + length bs"
  by (simp add: chatter_frame_def)

lemma chatter_size:
  "n \<le> MaxChatterSize \<Longrightarrow> unat (of_nat n :: u16) = n"
  by (simp add: unat_of_nat MaxChatterSize_def)

lemma reserve_header:
  "4 \<le> length area \<Longrightarrow>
     w32 0 (stream_of area) = Inr \<lparr>storage = bytes_of_u32 0 @ drop 4 area, cursor = 4\<rparr>"
  using poke_eq [of 0 "bytes_of_u32 0" area] by (simp add: w32_def stream_of_def sink_write_def)

lemma QueueCommand_frame:
  assumes "writes supplier bs" "length area = MaxChatterSize" "4 + length bs \<le> MaxChatterSize"
  shows "QueueCommand commandId supplier area = Inr (chatter_frame commandId bs)"
proof -
  let ?len = "of_nat (4 + length bs) :: u16"
  have "4 \<le> length area" using assms(2) by (simp add: MaxChatterSize_def)
  then have w: "w32 0 (stream_of area)
      = Inr \<lparr>storage = bytes_of_u32 0 @ drop 4 area, cursor = 4\<rparr>"
    by (rule reserve_header)
  have sup: "supplier \<lparr>storage = bytes_of_u32 0 @ drop 4 area, cursor = 4\<rparr>
      = Inr \<lparr>storage = bytes_of_u32 0 @ bs @ drop (4 + length bs) area, cursor = 4 + length bs\<rparr>"
    using assms \<open>4 \<le> length area\<close> le_diff_conv2 [of 4 MaxChatterSize "length bs"]
    by (simp add: writes_def sink_write_def poke_eq not_less add.commute)
  have head: "seqw [w16 ?len, w16 commandId]
        \<lparr>storage = bytes_of_u32 0 @ bs @ drop (4 + length bs) area, cursor = 0\<rparr>
      = Inr \<lparr>storage = bytes_of_u16 ?len @ bytes_of_u16 commandId @ bs @ drop (4 + length bs) area,
          cursor = 4\<rparr>"
    by (simp add: w16_def sink_write_def poke_eq bytes_of_u32_def bytes_of_u16_def)
  have len: "unat ?len = 4 + length bs" by (rule chatter_size [OF assms(3)])
  have tk: "take (4 + length bs) (bytes_of_u16 ?len @ bytes_of_u16 commandId @ bs @ rest)
      = bytes_of_u16 ?len @ bytes_of_u16 commandId @ bs" for rest
    by simp
  show ?thesis
    unfolding QueueCommand_def w sup bnd_simps Let_def stream.simps Seek_def
    unfolding stream.simps head bnd_simps len
    by (simp add: head [simplified] len [simplified] tk [simplified] sink_write_def poke_eq chatter_frame_def)
qed

lemma read_chatter_frame:
  assumes "4 + length bs \<le> MaxChatterSize"
  shows "read_chatter hs c (chatter_frame commandId bs @ rest) s
    = Took (length (chatter_frame commandId bs)) (chatter_dispatch hs c commandId bs s)"
proof -
  let ?len = "of_nat (4 + length bs) :: u16"
  let ?d = "chatter_frame commandId bs @ rest"
  obtain a b x y where hb: "bytes_of_u16 ?len = [a, b]" "bytes_of_u16 commandId = [x, y]"
    by (simp add: bytes_of_u16_def)
  have d: "?d = [a XOR 0x2B, b XOR 0xFE, x XOR 0xB8, y XOR 0x02] @ chatter_xor 0 bs @ rest"
    unfolding chatter_frame_eq hb by (simp add: ChatterXorCode_def)
  have len: "u16_of_bytes (take 2 ?d) XOR u16_of_bytes (take 2 ChatterXorCode) = ?len"
    unfolding d using u16_of_bytes_xor [of a "0x2B" b "0xFE"] u16_of_bytes_of_u16 [of ?len]
    unfolding hb by (simp add: ChatterXorCode_def xor.assoc)
  have "u16_of_bytes (take 2 (drop 2 ?d)) XOR u16_of_bytes (drop 2 ChatterXorCode) = commandId"
    unfolding d using u16_of_bytes_xor [of x "0xB8" y "0x02"] u16_of_bytes_of_u16 [of commandId]
    unfolding hb by (simp add: ChatterXorCode_def xor.assoc)
  moreover have "take (length bs) (drop 4 ?d) = chatter_xor 0 bs" unfolding d by simp
  ultimately show ?thesis
    unfolding read_chatter_def len Let_def using assms chatter_size [OF assms] by simp
qed

text \<open>The messenger's scrambling is symmetric: what \<open>QueueCommand\<close> sends for a structure that
  writes the bytes \<open>bs\<close>, a receiver running the same parser hands to the handler of that command
  as \<open>bs\<close>; a structure too large for the buffer throws instead.\<close>

theorem QueueCommand_received:
  assumes "writes supplier bs" "length area = MaxChatterSize"
  shows "if 4 + length bs \<le> MaxChatterSize
    then \<exists>frame. QueueCommand commandId supplier area = Inr frame
      \<and> Chatter_OnClientData hs c frame s = (Inr (4 + length bs), chatter_dispatch hs c commandId bs s)
    else QueueCommand commandId supplier area = Inl OverflowError"
proof (cases "4 + length bs \<le> MaxChatterSize")
  case True
  have "chatter_frame commandId bs \<noteq> []"
    using length_chatter_frame [of commandId bs] by (metis add_is_0 list.size(3) zero_neq_numeral)
  then have "Chatter_OnClientData hs c (chatter_frame commandId bs) s
      = (Inr (4 + length bs), chatter_dispatch hs c commandId bs s)"
    using read_chatter_frame [OF True, of hs c commandId "[]" s]
    by (simp add: Chatter_OnClientData.simps)
  with True QueueCommand_frame [OF assms True] show ?thesis by simp
next
  case False
  have "4 \<le> length area" using assms(2) by (simp add: MaxChatterSize_def)
  then have "w32 0 (stream_of area) = Inr \<lparr>storage = bytes_of_u32 0 @ drop 4 area, cursor = 4\<rparr>"
    by (rule reserve_header)
  moreover have "supplier \<lparr>storage = bytes_of_u32 0 @ drop 4 area, cursor = 4\<rparr> = Inl OverflowError"
    using False assms \<open>4 \<le> length area\<close> by (simp add: writes_def sink_write_def bytes_of_u32_def)
  ultimately show ?thesis using False by (simp add: QueueCommand_def)
qed

lemma QueueCommand_received_witness:
  "\<exists>frame. QueueCommand 4 (sink_write [1, 2]) (replicate MaxChatterSize 0) = Inr frame
     \<and> Chatter_OnClientData (\<lambda>i. Some (\<lambda>c data s. s @ [(i, data)])) 9 frame []
       = (Inr 6, [(4, [1, 2])])"
  using QueueCommand_received [of "sink_write [1, 2]" "[1, 2]" "replicate MaxChatterSize 0" 4
      "\<lambda>i. Some (\<lambda>c data s. s @ [(i, data)])" 9 "[]"]
  by (simp add: writes_def chatter_dispatch_def MaxChatterSize_def)

end
