(* ===== verification/Messenger.thy ===== *)
theory Messenger imports Player_Systems Times Msg_Chatter Otp Chatter_Server begin

text \<open>
  \<open>server/messenger/MessengerDirector.cpp\<close>: friends and their groups, letters, presence and invitations.

  \<^item> The state holds the contexts of the clients, the records of the data director, the one-time codes and
    what has been sent, in order. A context exists for every connected client, so sending to it never fails.
  \<^item> The environment of a command is \<open>messenger_env\<close>: the clock, the hash that makes the key of a code, the data
    source's index of names, the random draw of a long-term key, the addresses of clients, the configuration, and
    how the host's locale prints numbers.
  \<^item> A set of a record is an ascending list. \<open>DisconnectClient\<close> runs the handler of the disconnection at once.
\<close>

section \<open>State\<close>

record messenger_context =
  mc_isAuthenticated :: bool
  mc_otpCode :: "u32 option"
  mc_characterUid :: uid
  mc_presence :: Presence

definition new_context :: messenger_context where
  "new_context = \<lparr>mc_isAuthenticated = False, mc_otpCode = None, mc_characterUid = InvalidUid, mc_presence = Presence_default\<rparr>"

datatype (plugins only:) chat_out =
    Out_LoginAckOK ChatCmdLoginAckOK
  | Out_LoginAckCancel ChatCmdLoginAckCancel
  | Out_BuddyAddRequestTrs ChatCmdBuddyAddRequestTrs
  | Out_BuddyAddAckOk ChatCmdBuddyAddAckOk
  | Out_UpdateStateTrs ChatCmdUpdateStateTrs
  | Out_UpdateGuildMemberStateTrs ChatCmdUpdateGuildMemberStateTrs
  | Out_BuddyDeleteAckOk ChatCmdBuddyDeleteAckOk
  | Out_BuddyDeleteAckCancel ChatCmdBuddyDeleteAckCancel
  | Out_BuddyMoveAckOk ChatCmdBuddyMoveAckOk
  | Out_BuddyMoveAckCancel ChatCmdBuddyMoveAckCancel
  | Out_GroupAddAckOk ChatCmdGroupAddAckOk
  | Out_GroupRenameAckOk ChatCmdGroupRenameAckOk
  | Out_GroupRenameAckCancel ChatCmdGroupRenameAckCancel
  | Out_GroupDeleteAckOk ChatCmdGroupDeleteAckOk
  | Out_GroupDeleteAckCancel ChatCmdGroupDeleteAckCancel
  | Out_LetterListAckOk ChatCmdLetterListAckOk
  | Out_LetterListAckCancel ChatCmdLetterListAckCancel
  | Out_LetterSendAckOk ChatCmdLetterSendAckOk
  | Out_LetterSendAckCancel ChatCmdLetterSendAckCancel
  | Out_LetterArriveTrs ChatCmdLetterArriveTrs
  | Out_LetterReadAckOk ChatCmdLetterReadAckOk
  | Out_LetterReadAckCancel ChatCmdLetterReadAckCancel
  | Out_LetterDeleteAckOk ChatCmdLetterDeleteAckOk
  | Out_LetterDeleteAckCancel ChatCmdLetterDeleteAckCancel
  | Out_ChatInvitationTrs ChatCmdChatInvitationTrs
  | Out_GameInviteTrs ChatCmdGameInviteTrs
  | Out_GameInviteAck ChatCmdGameInviteAck
  | Out_ChannelInfoAckOk ChatCmdChannelInfoAckOk
  | Out_ChannelInfoGuildRoomAckOk ChatCmdChannelInfoGuildRoomAckOk
  | Out_GuildLoginAckOK ChatCmdGuildLoginAckOK
  | Out_GuildLoginAckCancel ChatCmdGuildLoginAckCancel

record messenger =
  me_clients :: "(client_id, messenger_context) umap"
  me_data :: data_director
  me_otp :: otp_system
  me_sent :: "(client_id \<times> chat_out) list"

record messenger_env =
  mv_now :: time_point
  mv_hash :: "uid \<Rightarrow> u32 \<Rightarrow> otp_key"
  mv_uid_of_name :: "bytes \<Rightarrow> uid"
  mv_draw :: u32
  mv_address :: "client_id \<Rightarrow> u32"
  mv_privateChat :: "bool \<times> bytes \<times> u16"
  mv_allChat :: "bool \<times> bytes \<times> u16"
  mv_grouped :: "u32 \<Rightarrow> bytes"
  mv_percent :: "u32 \<Rightarrow> bytes"

record earnings =
  ea_timesMated :: u32
  ea_revenue :: u32
  ea_breedingFee :: u32
  ea_earnings :: u32
  ea_taxRate :: u32
  ea_claimUid :: uid

type_synonym 'a chat_act = "(messenger, 'a) act"

abbreviation (input) FriendsCategoryUid :: uid where "FriendsCategoryUid \<equiv> 0"
abbreviation (input) MessengerOtpConstant :: u32 where "MessengerOtpConstant \<equiv> 0xBABF67A0"
abbreviation (input) AllChatOtpConstant :: u32 where "AllChatOtpConstant \<equiv> 0x14E05CE5"

abbreviation (input) Status_Hidden :: u8 where "Status_Hidden \<equiv> 0"
abbreviation (input) Status_Offline :: u8 where "Status_Offline \<equiv> 1"
abbreviation (input) Status_Online :: u8 where "Status_Online \<equiv> 2"
abbreviation (input) Scene_Ranch :: u32 where "Scene_Ranch \<equiv> 0"
abbreviation (input) Folder_Sent :: u8 where "Folder_Sent \<equiv> 1"
abbreviation (input) Folder_Inbox :: u8 where "Folder_Inbox \<equiv> 2"

abbreviation (input) LoginFailed :: u32 where "LoginFailed \<equiv> 1"
abbreviation (input) CommandCharacterIsNotClientCharacter :: u32 where "CommandCharacterIsNotClientCharacter \<equiv> 2"
abbreviation (input) CharacterDoesNotExist :: u32 where "CharacterDoesNotExist \<equiv> 3"
abbreviation (input) GuildLoginCharacterNotGuildMember :: u32 where "GuildLoginCharacterNotGuildMember \<equiv> 5"
abbreviation (input) MailInvalidUid :: u32 where "MailInvalidUid \<equiv> 6"
abbreviation (input) MailDoesNotExistOrNotAvailable :: u32 where "MailDoesNotExistOrNotAvailable \<equiv> 7"
abbreviation (input) MailDoesNotBelongToCharacter :: u32 where "MailDoesNotBelongToCharacter \<equiv> 8"
abbreviation (input) MailUnknownMailboxFolder :: u32 where "MailUnknownMailboxFolder \<equiv> 9"
abbreviation (input) LetterDeleteUnknownMailboxFolder :: u32 where "LetterDeleteUnknownMailboxFolder \<equiv> 11"
abbreviation (input) LetterDeleteMailDoesNotBelongToCharacter :: u32 where "LetterDeleteMailDoesNotBelongToCharacter \<equiv> 13"
abbreviation (input) BuddyDeleteTargetCharacterUnavailable :: u32 where "BuddyDeleteTargetCharacterUnavailable \<equiv> 18"
abbreviation (input) BuddyMoveGroupDoesNotExist :: u32 where "BuddyMoveGroupDoesNotExist \<equiv> 19"
abbreviation (input) BuddyMoveAlreadyInGroup :: u32 where "BuddyMoveAlreadyInGroup \<equiv> 20"
abbreviation (input) BuddyMoveFriendNotFound :: u32 where "BuddyMoveFriendNotFound \<equiv> 21"
abbreviation (input) GroupRenameGroupDoesNotExist :: u32 where "GroupRenameGroupDoesNotExist \<equiv> 22"
abbreviation (input) GroupRenameDuplicateName :: u32 where "GroupRenameDuplicateName \<equiv> 23"
abbreviation (input) GroupDeleteGroupDoesNotExist :: u32 where "GroupDeleteGroupDoesNotExist \<equiv> 24"
abbreviation (input) GroupDeleteDefaultFriendGroupMissing :: u32 where "GroupDeleteDefaultFriendGroupMissing \<equiv> 25"

section \<open>Text\<close>

definition ascii :: "string \<Rightarrow> bytes" where
  "ascii s = map of_char s"

fun decimal :: "nat \<Rightarrow> bytes" where
  "decimal n = (if n < 10 then [48 + of_nat n] else decimal (n div 10) @ [48 + of_nat (n mod 10)])"

declare decimal.simps [simp del]

definition padded :: "nat \<Rightarrow> int \<Rightarrow> bytes" where
  "padded w i = (let t = decimal (nat i) in replicate (w - length t) 48 @ t)"

definition floor_seconds :: "time_point \<Rightarrow> time_point" where
  "floor_seconds t = t div 1000000000 * 1000000000"

text \<open>\<open>std::format\<close> with \<open>DateTimeFormat\<close>.\<close>

definition format_date :: "time_point \<Rightarrow> bytes" where
  "format_date t =
     (let (y, m, d) = civil_of_days (floor_days t); s = second_of_day t in
      padded 2 (s div 3600) @ ascii '':'' @ padded 2 (s div 60 mod 60) @ ascii '':'' @ padded 2 (s mod 60) @ ascii '' ''
      @ padded 2 d @ ascii ''/'' @ padded 2 m @ ascii ''/'' @ padded 4 y @ ascii '' UTC'')"

fun mail_type_code :: "MailType \<Rightarrow> u32" where
  "mail_type_code CanReply = 0" | "mail_type_code NoReply = 1" | "mail_type_code CarnivalReward = 2"
| "mail_type_code BreedingReward = 3"

fun GetSystemNameFromType :: "MailType \<Rightarrow> exn + bytes" where
  "GetSystemNameFromType BreedingReward = Inr (ascii ''Breeding System'')"
| "GetSystemNameFromType CarnivalReward = Inr (ascii ''Carnival System'')"
| "GetSystemNameFromType NoReply = Inr []"
| "GetSystemNameFromType CanReply = Inl (RuntimeError ''Unsupported system mail type'')"

section \<open>Clients and records\<close>

definition on_data :: "'a data_act \<Rightarrow> 'a chat_act" where
  "on_data m s = (let (r, d) = m (me_data s) in (r, s\<lparr>me_data := d\<rparr>))"

definition view_character :: "uid \<Rightarrow> character_info chat_act" where
  "view_character u = on_data (view_row dd_characters u)"

definition change_character :: "uid \<Rightarrow> (character_info \<Rightarrow> character_info) \<Rightarrow> unit chat_act" where
  "change_character u f = on_data (change_row dd_characters dd_characters_update u f)"

definition change_mail :: "uid \<Rightarrow> (mail \<Rightarrow> mail) \<Rightarrow> unit chat_act" where
  "change_mail u f = on_data (change_row dd_mails dd_mails_update u f)"

definition queue_chat :: "client_id \<Rightarrow> chat_out \<Rightarrow> unit chat_act" where
  "queue_chat c out = modify (\<lambda>s. s\<lparr>me_sent := me_sent s @ [(c, out)]\<rparr>)"

definition change_context :: "client_id \<Rightarrow> (messenger_context \<Rightarrow> messenger_context) \<Rightarrow> unit chat_act" where
  "change_context c f = modify (\<lambda>s. case map_of (me_clients s) c of None \<Rightarrow> s
     | Some x \<Rightarrow> s\<lparr>me_clients := umap_put c (f x) (me_clients s)\<rparr>)"

definition GetMessengerContext :: "client_id \<Rightarrow> bool \<Rightarrow> messenger_context chat_act" where
  "GetMessengerContext c requireAuthentication s =
     (case map_of (me_clients s) c of
        None \<Rightarrow> (Inl (RuntimeError ''Messenger client is not available''), s)
      | Some x \<Rightarrow>
          if requireAuthentication \<and> \<not> mc_isAuthenticated x
          then (Inl (RuntimeError ''Messenger client is not authenticated''), s) else (Inr x, s))"

definition GetClientByCharacterUid :: "uid \<Rightarrow> messenger \<Rightarrow> (client_id \<times> messenger_context) option" where
  "GetClientByCharacterUid u s = find (\<lambda>(c, x). mc_characterUid x = u) (me_clients s)"

definition IsCharacterOnline :: "uid \<Rightarrow> messenger \<Rightarrow> bool" where
  "IsCharacterOnline u s \<longleftrightarrow> GetClientByCharacterUid u s \<noteq> None"

text \<open>Sending to the client of a character, if it is online.\<close>

definition tell_character :: "uid \<Rightarrow> chat_out \<Rightarrow> unit chat_act" where
  "tell_character u out = seq get_state (\<lambda>s. case GetClientByCharacterUid u s of
     None \<Rightarrow> pure () | Some (c, x) \<Rightarrow> queue_chat c out)"

section \<open>Presence\<close>

abbreviation character_groups :: "character_info \<Rightarrow> (uid, contact_group) omap" where
  "character_groups ch \<equiv> cn_groups (ci_contacts ch)"

abbreviation set_groups :: "(uid, contact_group) omap \<Rightarrow> character_info \<Rightarrow> character_info" where
  "set_groups gs \<equiv> ci_contacts_update (cn_groups_update (\<lambda>_. gs))"

definition has_friend :: "uid \<Rightarrow> (uid, contact_group) omap \<Rightarrow> bool" where
  "has_friend u gs \<longleftrightarrow> list_ex (\<lambda>(k, g). u \<in> set (cg_members g)) gs"

text \<open>Whom a change of presence is told: the clients whose character has the invoker as a friend, and those of its
  guild.\<close>

fun presence_targets ::
  "data_director \<Rightarrow> client_id \<Rightarrow> uid \<Rightarrow> uid \<Rightarrow> (client_id, messenger_context) umap \<Rightarrow> exn + client_id list \<times> client_id list" where
  "presence_targets d c u guildUid [] = Inr ([], [])"
| "presence_targets d c u guildUid ((t, x) # clients) =
     (if \<not> mc_isAuthenticated x then presence_targets d c u guildUid clients
      else if t = c \<and> guildUid \<noteq> InvalidUid
      then bnd (presence_targets d c u guildUid clients) (\<lambda>(fs, ms). Inr (fs, t # ms))
      else case get_row (dd_characters d) (mc_characterUid x) of
          None \<Rightarrow> Inl unavailable
        | Some ch \<Rightarrow> bnd (presence_targets d c u guildUid clients) (\<lambda>(fs, ms).
            Inr (if has_friend u (character_groups ch) then t # fs else fs,
                 if guildUid \<noteq> InvalidUid \<and> ci_guildUid ch \<noteq> InvalidUid \<and> guildUid = ci_guildUid ch then t # ms else ms)))"

definition HandleChatterUpdateState :: "client_id \<Rightarrow> ChatCmdUpdateState \<Rightarrow> unit chat_act" where
  "HandleChatterUpdateState c cmd =
     seq (GetMessengerContext c False) (\<lambda>x.
     if \<not> mc_isAuthenticated x then pure ()
     else let p = ChatCmdUpdateState_presence cmd; u = mc_characterUid x in
     if Presence_status p > 5 then pure ()
     else if Presence_status p = Status_Hidden then pure ()
     else
       seq (change_context c (mc_presence_update (\<lambda>_. p))) (\<lambda>_.
       seq (view_character u) (\<lambda>ch.
       seq get_state (\<lambda>s.
       seq (lift (presence_targets (me_data s) c u (ci_guildUid ch) (me_clients s))) (\<lambda>(friendsToNotify, guildMembersToNotify).
       seq (for_each friendsToNotify (\<lambda>t. queue_chat t (Out_UpdateStateTrs (ChatCmdUpdateStateTrs p u)))) (\<lambda>_.
       for_each guildMembersToNotify (\<lambda>t.
         queue_chat t (Out_UpdateGuildMemberStateTrs (ChatCmdUpdateGuildMemberStateTrs p u)))))))))"

definition HandleMessengerConnected :: "client_id \<Rightarrow> unit chat_act" where
  "HandleMessengerConnected c = modify (\<lambda>s. if has_key (me_clients s) c then s
     else s\<lparr>me_clients := umap_put c new_context (me_clients s)\<rparr>)"

definition HandleMessengerDisconnected :: "client_id \<Rightarrow> unit chat_act" where
  "HandleMessengerDisconnected c =
     seq (HandleChatterUpdateState c \<lparr>ChatCmdUpdateState_presence =
        \<lparr>Presence_status = Status_Offline, Presence_scene = Scene_Ranch, Presence_sceneUid = 0\<rparr>\<rparr>) (\<lambda>_.
     modify (\<lambda>s. s\<lparr>me_clients := umap_erase c (me_clients s)\<rparr>))"

section \<open>Login\<close>

definition online_presence :: "uid \<Rightarrow> (client_id, messenger_context) umap \<Rightarrow> Presence" where
  "online_presence u clients =
     (case find (\<lambda>(c, x). mc_isAuthenticated x \<and> mc_characterUid x = u) clients of
        None \<Rightarrow> Presence_default | Some (c, x) \<Rightarrow> mc_presence x)"

definition friend_entry :: "messenger \<Rightarrow> uid \<Rightarrow> u8 \<Rightarrow> uid \<Rightarrow> ChatCmdLoginAckOK_Friend option" where
  "friend_entry s categoryUid member5 u =
     map_option (\<lambda>ch. let p = online_presence u (me_clients s) in
        ChatCmdLoginAckOK_Friend (ci_uid ch) categoryUid (ci_name ch) (Presence_status p) member5
          (Presence_scene p) (Presence_sceneUid p))
       (get_row (dd_characters (me_data s)) u)"

definition is_unread :: "data_director \<Rightarrow> uid \<Rightarrow> bool" where
  "is_unread d u = (case get_row (dd_mails d) u of None \<Rightarrow> False | Some m \<Rightarrow> \<not> (ma_isRead m \<or> ma_isDeleted m))"

definition login_response :: "character_info \<Rightarrow> messenger \<Rightarrow> ChatCmdLoginAckOK" where
  "login_response ch s =
     (let unread = length (filter (is_unread (me_data s)) (mx_inbox (ci_mailbox ch))); count32 = of_nat unread :: u32 in
      ChatCmdLoginAckOK InvalidUid (ChatCmdLoginAckOK_MailAlarm count32 (count32 \<noteq> 0))
        (ChatCmdLoginAckOK_Group FriendsCategoryUid []
          # map (\<lambda>(k, g). ChatCmdLoginAckOK_Group k (cg_name g)) (character_groups ch))
        (concat (map (\<lambda>(k, g). List.map_filter (friend_entry s k 0) (cg_members g)) (character_groups ch))
          @ List.map_filter (friend_entry s FriendsCategoryUid 2) (cn_pending (ci_contacts ch))))"

definition HandleChatterLogin :: "messenger_env \<Rightarrow> client_id \<Rightarrow> ChatCmdLogin \<Rightarrow> unit chat_act" where
  "HandleChatterLogin env c cmd =
     seq (GetMessengerContext c False) (\<lambda>_.
     seq (\<lambda>s. let (accepted, otp) = AuthorizeCode (mv_hash env (ChatCmdLogin_characterUid cmd) MessengerOtpConstant)
                  (ChatCmdLogin_code cmd) (mv_now env) (me_otp s)
              in (Inr accepted, s\<lparr>me_otp := otp\<rparr>)) (\<lambda>accepted.
     seq (change_context c (mc_isAuthenticated_update (\<lambda>_. accepted))) (\<lambda>_.
     if \<not> accepted
     then seq (queue_chat c (Out_LoginAckCancel (ChatCmdLoginAckCancel LoginFailed))) (\<lambda>_. HandleMessengerDisconnected c)
     else
       seq (change_context c (\<lambda>x. x\<lparr>mc_otpCode := Some (ChatCmdLogin_code cmd), mc_presence :=
          \<lparr>Presence_status = Status_Online, Presence_scene = Scene_Ranch, Presence_sceneUid = mc_characterUid x\<rparr>\<rparr>)) (\<lambda>_.
       seq (change_character (ChatCmdLogin_characterUid cmd) (ci_mailbox_update (mx_hasNewMail_update (\<lambda>_. False)))) (\<lambda>_.
       seq (view_character (ChatCmdLogin_characterUid cmd)) (\<lambda>ch.
       seq (change_context c (mc_characterUid_update (\<lambda>_. ci_uid ch))) (\<lambda>_.
       seq get_state (\<lambda>s.
       seq (queue_chat c (Out_LoginAckOK (login_response ch s))) (\<lambda>_.
       HandleChatterUpdateState c \<lparr>ChatCmdUpdateState_presence =
         \<lparr>Presence_status = Status_Online, Presence_scene = Scene_Ranch, Presence_sceneUid = ci_uid ch\<rparr>\<rparr>)))))))))"

section \<open>Friends\<close>

definition HandleChatterBuddyAdd :: "messenger_env \<Rightarrow> client_id \<Rightarrow> ChatCmdBuddyAdd \<Rightarrow> unit chat_act" where
  "HandleChatterBuddyAdd env c cmd =
     seq (GetMessengerContext c True) (\<lambda>x.
     let target = mv_uid_of_name env (ChatCmdBuddyAdd_characterName cmd); u = mc_characterUid x in
     if target = InvalidUid then pure ()
     else
       seq (view_character u) (\<lambda>invoker.
       if ChatCmdBuddyAdd_characterName cmd = ci_name invoker then pure ()
       else
         seq (view_character target) (\<lambda>ch.
         if u \<in> set (cn_pending (ci_contacts ch)) then pure ()
         else
           seq (change_character target (ci_contacts_update (cn_pending_update (insort_insert u)))) (\<lambda>_.
           tell_character target (Out_BuddyAddRequestTrs (ChatCmdBuddyAddRequestTrs u (ci_name invoker)))))))"

text \<open>The friends group is made when a character gets its first friend.\<close>

definition accept_friend :: "time_point \<Rightarrow> uid \<Rightarrow> character_info \<Rightarrow> character_info" where
  "accept_friend now u ch =
     (let gs = character_groups ch;
          g = (case map_of gs FriendsCategoryUid of Some g \<Rightarrow> g
               | None \<Rightarrow> \<lparr>cg_uid = InvalidUid, cg_name = ascii ''_internal_friends_group_'', cg_members = [], cg_createdAt = now\<rparr>)
      in ci_contacts_update (cn_pending_update (uset_erase u))
           (set_groups (omap_put FriendsCategoryUid (g\<lparr>cg_members := insort_insert u (cg_members g)\<rparr>) gs) ch))"

definition offline_presence :: Presence where
  "offline_presence = \<lparr>Presence_status = Status_Offline, Presence_scene = 0, Presence_sceneUid = 0\<rparr>"

text \<open>What the two new friends are told about each other.\<close>

definition introduce_friends :: "client_id \<Rightarrow> messenger_context \<Rightarrow> bytes \<Rightarrow> uid \<Rightarrow> bytes \<Rightarrow> unit chat_act" where
  "introduce_friends c x ownName requester requesterName =
     seq get_state (\<lambda>s.
       let other = GetClientByCharacterUid requester s; u = mc_characterUid x in
       seq (case other of None \<Rightarrow> pure ()
          | Some (t, y) \<Rightarrow>
              seq (queue_chat t (Out_BuddyAddAckOk (ChatCmdBuddyAddAckOk u ownName 0 (Presence_status (mc_presence x))))) (\<lambda>_.
              queue_chat t (Out_UpdateStateTrs (ChatCmdUpdateStateTrs (mc_presence x) u)))) (\<lambda>_.
       let p = (case other of None \<Rightarrow> offline_presence | Some (t, y) \<Rightarrow> mc_presence y);
           status = (case other of None \<Rightarrow> 0 | Some (t, y) \<Rightarrow> Presence_status (mc_presence y)) in
       seq (queue_chat c (Out_BuddyAddAckOk (ChatCmdBuddyAddAckOk requester requesterName 0 status))) (\<lambda>_.
       queue_chat c (Out_UpdateStateTrs (ChatCmdUpdateStateTrs p requester)))))"

definition HandleChatterBuddyAddReply :: "messenger_env \<Rightarrow> client_id \<Rightarrow> ChatCmdBuddyAddReply \<Rightarrow> unit chat_act" where
  "HandleChatterBuddyAddReply env c cmd =
     seq (GetMessengerContext c True) (\<lambda>x.
     seq get_state (\<lambda>s.
     let requester = ChatCmdBuddyAddReply_requestingCharacterUid cmd; u = mc_characterUid x in
     case get_row (dd_characters (me_data s)) requester of
       None \<Rightarrow> pure ()
     | Some requestingCharacter \<Rightarrow>
         seq (view_character u) (\<lambda>respondingCharacter.
         if ChatCmdBuddyAddReply_requestAccepted cmd
         then
           seq (change_character requester (accept_friend (mv_now env) u)) (\<lambda>_.
           seq (change_character u (accept_friend (mv_now env) requester)) (\<lambda>_.
           introduce_friends c x (ci_name respondingCharacter) requester (ci_name requestingCharacter)))
         else change_character u (ci_contacts_update (cn_pending_update (uset_erase requester))))))"

definition delete_friend :: "uid \<Rightarrow> (uid, contact_group) omap \<Rightarrow> (uid, contact_group) omap" where
  "delete_friend u gs = map (\<lambda>(k, g). (k, g\<lparr>cg_members := uset_erase u (cg_members g)\<rparr>)) gs"

definition HandleChatterBuddyDelete :: "client_id \<Rightarrow> ChatCmdBuddyDelete \<Rightarrow> unit chat_act" where
  "HandleChatterBuddyDelete c cmd =
     seq (GetMessengerContext c True) (\<lambda>x.
     seq get_state (\<lambda>s.
     let target = ChatCmdBuddyDelete_characterUid cmd; u = mc_characterUid x in
     if get_row (dd_characters (me_data s)) target = None
     then queue_chat c (Out_BuddyDeleteAckCancel (ChatCmdBuddyDeleteAckCancel BuddyDeleteTargetCharacterUnavailable))
     else
       seq (change_character target (\<lambda>ch. set_groups (delete_friend u (character_groups ch)) ch)) (\<lambda>_.
       seq (change_character u (\<lambda>ch. set_groups (delete_friend target (character_groups ch)) ch)) (\<lambda>_.
       seq (queue_chat c (Out_BuddyDeleteAckOk (ChatCmdBuddyDeleteAckOk target))) (\<lambda>_.
       tell_character target (Out_BuddyDeleteAckOk (ChatCmdBuddyDeleteAckOk u)))))))"

section \<open>Groups\<close>

text \<open>The groups after a friend has moved, or the error.\<close>

definition move_friend :: "uid \<Rightarrow> uid \<Rightarrow> (uid, contact_group) omap \<Rightarrow> u32 + (uid, contact_group) omap" where
  "move_friend u target gs =
     (case map_of gs target of
        None \<Rightarrow> Inl BuddyMoveGroupDoesNotExist
      | Some g \<Rightarrow>
          if u \<in> set (cg_members g) then Inl BuddyMoveAlreadyInGroup
          else case find (\<lambda>(k, h). u \<in> set (cg_members h)) gs of
              None \<Rightarrow> Inl BuddyMoveFriendNotFound
            | Some (k, h) \<Rightarrow>
                Inr (omap_put target (g\<lparr>cg_members := insort_insert u (cg_members g)\<rparr>)
                      (omap_put k (h\<lparr>cg_members := uset_erase u (cg_members h)\<rparr>) gs)))"

definition HandleChatterBuddyMove :: "client_id \<Rightarrow> ChatCmdBuddyMove \<Rightarrow> unit chat_act" where
  "HandleChatterBuddyMove c cmd =
     seq (GetMessengerContext c True) (\<lambda>x.
     seq (view_character (mc_characterUid x)) (\<lambda>ch.
     case move_friend (ChatCmdBuddyMove_characterUid cmd) (ChatCmdBuddyMove_groupUid cmd) (character_groups ch) of
       Inl e \<Rightarrow> queue_chat c (Out_BuddyMoveAckCancel (ChatCmdBuddyMoveAckCancel e))
     | Inr gs \<Rightarrow>
         seq (change_character (mc_characterUid x) (set_groups gs)) (\<lambda>_.
         queue_chat c (Out_BuddyMoveAckOk
           (ChatCmdBuddyMoveAckOk (ChatCmdBuddyMove_characterUid cmd) (ChatCmdBuddyMove_groupUid cmd))))))"

text \<open>The number of a new group is the largest one plus one; that of a character without groups is read from past the
  end of its map, which is undefined and ends the command here. When the numbers are used up nothing is made.\<close>

definition add_group :: "time_point \<Rightarrow> bytes \<Rightarrow> (uid, contact_group) omap \<Rightarrow> uid \<times> (uid, contact_group) omap" where
  "add_group now name gs =
     (let k = fst (last gs) + 1 in
      if k = 0 \<or> has_key gs k then (InvalidUid, gs)
      else (k, omap_put k \<lparr>cg_uid = k, cg_name = name, cg_members = [], cg_createdAt = now\<rparr> gs))"

definition HandleChatterGroupAdd :: "messenger_env \<Rightarrow> client_id \<Rightarrow> ChatCmdGroupAdd \<Rightarrow> unit chat_act" where
  "HandleChatterGroupAdd env c cmd =
     seq (GetMessengerContext c True) (\<lambda>x.
     seq (view_character (mc_characterUid x)) (\<lambda>ch.
     if character_groups ch = [] then throw ''undefined: the last of no groups''
     else let (k, gs) = add_group (mv_now env) (ChatCmdGroupAdd_groupName cmd) (character_groups ch) in
       seq (change_character (mc_characterUid x) (set_groups gs)) (\<lambda>_.
       queue_chat c (Out_GroupAddAckOk (ChatCmdGroupAddAckOk k (ChatCmdGroupAdd_groupName cmd))))))"

definition rename_group :: "uid \<Rightarrow> bytes \<Rightarrow> (uid, contact_group) omap \<Rightarrow> u32 + (uid, contact_group) omap" where
  "rename_group k name gs =
     (case map_of gs k of
        None \<Rightarrow> Inl GroupRenameGroupDoesNotExist
      | Some g \<Rightarrow>
          if list_ex (\<lambda>(k, h). cg_name h = name) gs then Inl GroupRenameDuplicateName
          else Inr (omap_put k (g\<lparr>cg_name := name\<rparr>) gs))"

definition HandleChatterGroupRename :: "client_id \<Rightarrow> ChatCmdGroupRename \<Rightarrow> unit chat_act" where
  "HandleChatterGroupRename c cmd =
     seq (GetMessengerContext c True) (\<lambda>x.
     seq (view_character (mc_characterUid x)) (\<lambda>ch.
     case rename_group (ChatCmdGroupRename_groupUid cmd) (ChatCmdGroupRename_groupName cmd) (character_groups ch) of
       Inl e \<Rightarrow> queue_chat c (Out_GroupRenameAckCancel (ChatCmdGroupRenameAckCancel e))
     | Inr gs \<Rightarrow>
         seq (change_character (mc_characterUid x) (set_groups gs)) (\<lambda>_.
         queue_chat c (Out_GroupRenameAckOk
           (ChatCmdGroupRenameAckOk (ChatCmdGroupRename_groupUid cmd) (ChatCmdGroupRename_groupName cmd))))))"

text \<open>The members go back to the friends, then the group goes; the group of the friends is no exception.\<close>

definition delete_group :: "uid \<Rightarrow> (uid, contact_group) omap \<Rightarrow> u32 + (uid, contact_group) omap" where
  "delete_group k gs =
     (case map_of gs k of
        None \<Rightarrow> Inl GroupDeleteGroupDoesNotExist
      | Some g \<Rightarrow>
          case map_of gs FriendsCategoryUid of
            None \<Rightarrow> Inl GroupDeleteDefaultFriendGroupMissing
          | Some friends \<Rightarrow>
              Inr (omap_erase k (omap_put FriendsCategoryUid
                (friends\<lparr>cg_members := fold insort_insert (cg_members g) (cg_members friends)\<rparr>) gs)))"

definition HandleChatterGroupDelete :: "client_id \<Rightarrow> ChatCmdGroupDelete \<Rightarrow> unit chat_act" where
  "HandleChatterGroupDelete c cmd =
     seq (GetMessengerContext c True) (\<lambda>x.
     seq (view_character (mc_characterUid x)) (\<lambda>ch.
     case delete_group (ChatCmdGroupDelete_groupUid cmd) (character_groups ch) of
       Inl e \<Rightarrow> queue_chat c (Out_GroupDeleteAckCancel (ChatCmdGroupDeleteAckCancel e))
     | Inr gs \<Rightarrow>
         seq (change_character (mc_characterUid x) (set_groups gs)) (\<lambda>_.
         queue_chat c (Out_GroupDeleteAckOk (ChatCmdGroupDeleteAckOk (ChatCmdGroupDelete_groupUid cmd))))))"

section \<open>Letters\<close>

definition visible_mails :: "data_director \<Rightarrow> uid list \<Rightarrow> uid list" where
  "visible_mails d box = filter (\<lambda>u. case get_row (dd_mails d) u of None \<Rightarrow> False | Some m \<Rightarrow> \<not> ma_isDeleted m) box"

definition after_mail :: "uid \<Rightarrow> uid list \<Rightarrow> uid list" where
  "after_mail lastMailUid box =
     (if lastMailUid \<noteq> InvalidUid \<and> lastMailUid \<in> set box then tl (dropWhile (\<lambda>u. u \<noteq> lastMailUid) box) else box)"

definition MaxMailsPerRequest :: nat where "MaxMailsPerRequest = 10"

text \<open>The letters of a page, and whether there are more.\<close>

definition mail_page :: "uid \<Rightarrow> nat \<Rightarrow> uid list \<Rightarrow> uid list \<times> bool" where
  "mail_page lastMailUid wanted box =
     (let remaining = after_mail lastMailUid box; n = min (min wanted MaxMailsPerRequest) (length remaining)
      in (take n remaining, n \<noteq> length remaining))"

definition mail_listing :: "data_director \<Rightarrow> u8 \<Rightarrow> uid \<Rightarrow> exn + mail \<times> bytes" where
  "mail_listing d folder u =
     (case get_row (dd_mails d) u of
        None \<Rightarrow> Inl unavailable
      | Some m \<Rightarrow>
          let correspondent = (if folder = Folder_Sent then ma_to m else ma_from m) in
          if correspondent = InvalidUid then bnd (GetSystemNameFromType (ma_type m)) (\<lambda>name. Inr (m, name))
          else case get_row (dd_characters d) correspondent of
              None \<Rightarrow> Inl unavailable | Some ch \<Rightarrow> Inr (m, ci_name ch))"

fun mail_listings :: "data_director \<Rightarrow> u8 \<Rightarrow> uid list \<Rightarrow> exn + (mail \<times> bytes) list" where
  "mail_listings d folder [] = Inr []"
| "mail_listings d folder (u # us) =
     bnd (mail_listing d folder u) (\<lambda>m. bnd (mail_listings d folder us) (\<lambda>ms. Inr (m # ms)))"

definition sent_entry :: "mail \<times> bytes \<Rightarrow> ChatCmdLetterListAckOk_SentMail" where
  "sent_entry = (\<lambda>(m, name). ChatCmdLetterListAckOk_SentMail (ma_uid m) name
     (ChatCmdLetterListAckOk_SentMail_Content (format_date (ma_createdAt m)) (ma_body m)))"

definition inbox_entry :: "mail \<times> bytes \<Rightarrow> ChatCmdLetterListAckOk_InboxMail" where
  "inbox_entry = (\<lambda>(m, name). ChatCmdLetterListAckOk_InboxMail (ma_uid m) (mail_type_code (ma_type m)) (ma_claimUid m) name
     (format_date (ma_createdAt m))
     (ChatCmdLetterListAckOk_InboxMail_Struct0 (if ma_isRead m then [0x0F] else []) (ma_body m)))"

definition letter_list :: "u8 \<Rightarrow> bool \<Rightarrow> (mail \<times> bytes) list \<Rightarrow> ChatCmdLetterListAckOk" where
  "letter_list folder hasMore ms =
     ChatCmdLetterListAckOk folder (ChatCmdLetterListAckOk_MailboxInfo (of_nat (length ms)) (if hasMore then 1 else 0))
       (if folder = Folder_Inbox then map inbox_entry ms else []) (if folder = Folder_Sent then map sent_entry ms else [])"

definition HandleChatterLetterList :: "client_id \<Rightarrow> ChatCmdLetterList \<Rightarrow> unit chat_act" where
  "HandleChatterLetterList c cmd =
     (let folder = ChatCmdLetterList_mailboxFolder cmd;
          lastMailUid = ChatCmdLetterList_Request_lastMailUid (ChatCmdLetterList_request cmd);
          wanted = unat (ChatCmdLetterList_Request_count (ChatCmdLetterList_request cmd)) in
      if folder \<noteq> Folder_Inbox \<and> folder \<noteq> Folder_Sent
      then queue_chat c (Out_LetterListAckCancel (ChatCmdLetterListAckCancel MailUnknownMailboxFolder))
      else
        seq (GetMessengerContext c True) (\<lambda>x.
        seq (view_character (mc_characterUid x)) (\<lambda>ch.
        seq get_state (\<lambda>s.
        let box = (if folder = Folder_Inbox then mx_inbox (ci_mailbox ch) else mx_sent (ci_mailbox ch)) in
        if lastMailUid \<noteq> InvalidUid \<and> lastMailUid \<notin> set box then pure ()
        else let (page, hasMore) = mail_page lastMailUid wanted (visible_mails (me_data s) box) in
          seq (lift (mail_listings (me_data s) folder page)) (\<lambda>ms.
          queue_chat c (Out_LetterListAckOk (letter_list folder hasMore ms)))))))"

definition new_mail :: "uid \<Rightarrow> uid \<Rightarrow> MailType \<Rightarrow> u32 \<Rightarrow> time_point \<Rightarrow> bytes \<Rightarrow> uid \<Rightarrow> mail" where
  "new_mail sender recipient type claimUid created body u =
     \<lparr>ma_uid = u, ma_from = sender, ma_to = recipient, ma_isRead = False, ma_isDeleted = False, ma_type = type,
      ma_claimUid = claimUid, ma_createdAt = created, ma_body = body\<rparr>"

definition create_mail :: "(uid \<Rightarrow> mail) \<Rightarrow> uid chat_act" where
  "create_mail m = on_data (fresh_row dd_mails dd_mails_update m)"

definition receive_mail :: "uid \<Rightarrow> character_info \<Rightarrow> character_info" where
  "receive_mail u = ci_mailbox_update (\<lambda>b. b\<lparr>mx_inbox := u # mx_inbox b, mx_hasNewMail := True\<rparr>)"

definition HandleChatterLetterSend :: "messenger_env \<Rightarrow> client_id \<Rightarrow> ChatCmdLetterSend \<Rightarrow> unit chat_act" where
  "HandleChatterLetterSend env c cmd =
     (let recipient = mv_uid_of_name env (ChatCmdLetterSend_recipient cmd); body = ChatCmdLetterSend_body cmd;
          utcNow = floor_seconds (mv_now env); date = format_date utcNow in
      if recipient = InvalidUid
      then queue_chat c (Out_LetterSendAckCancel (ChatCmdLetterSendAckCancel CharacterDoesNotExist))
      else
        seq (GetMessengerContext c True) (\<lambda>x.
        seq (view_character (mc_characterUid x)) (\<lambda>sender.
        seq (create_mail (new_mail (ci_uid sender) recipient CanReply InvalidUid utcNow body)) (\<lambda>mailUid.
        seq (change_character recipient (receive_mail mailUid)) (\<lambda>_.
        seq (change_character (mc_characterUid x) (ci_mailbox_update (mx_sent_update (\<lambda>us. mailUid # us)))) (\<lambda>_.
        seq (queue_chat c (Out_LetterSendAckOk
              (ChatCmdLetterSendAckOk mailUid (ChatCmdLetterSend_recipient cmd) date body))) (\<lambda>_.
        tell_character recipient (Out_LetterArriveTrs
          (ChatCmdLetterArriveTrs mailUid (mail_type_code CanReply) InvalidUid (ci_name sender) date body))))))))) "

definition HandleChatterLetterRead :: "client_id \<Rightarrow> ChatCmdLetterRead \<Rightarrow> unit chat_act" where
  "HandleChatterLetterRead c cmd =
     seq (GetMessengerContext c True) (\<lambda>x.
     seq get_state (\<lambda>s.
     let u = ChatCmdLetterRead_mailUid cmd in
     if u = InvalidUid then queue_chat c (Out_LetterReadAckCancel (ChatCmdLetterReadAckCancel MailInvalidUid))
     else if get_row (dd_mails (me_data s)) u = None
     then queue_chat c (Out_LetterReadAckCancel (ChatCmdLetterReadAckCancel MailDoesNotExistOrNotAvailable))
     else
       seq (view_character (mc_characterUid x)) (\<lambda>ch.
       if u \<notin> set (mx_inbox (ci_mailbox ch))
       then queue_chat c (Out_LetterReadAckCancel (ChatCmdLetterReadAckCancel MailDoesNotBelongToCharacter))
       else
         seq (change_mail u (ma_isRead_update (\<lambda>_. True))) (\<lambda>_.
         queue_chat c (Out_LetterReadAckOk (ChatCmdLetterReadAckOk (ChatCmdLetterRead_unk0 cmd) u []))))))"

definition HandleChatterLetterDelete :: "client_id \<Rightarrow> ChatCmdLetterDelete \<Rightarrow> unit chat_act" where
  "HandleChatterLetterDelete c cmd =
     seq (GetMessengerContext c True) (\<lambda>x.
     seq get_state (\<lambda>s.
     let folder = ChatCmdLetterDelete_folder cmd; u = ChatCmdLetterDelete_mailUid cmd;
         cancel = (\<lambda>e. queue_chat c (Out_LetterDeleteAckCancel (ChatCmdLetterDeleteAckCancel e))) in
     if (folder \<noteq> Folder_Sent \<and> folder \<noteq> Folder_Inbox) \<or> get_row (dd_mails (me_data s)) u = None
     then cancel LetterDeleteUnknownMailboxFolder
     else
       seq (view_character (mc_characterUid x)) (\<lambda>ch.
       if u \<notin> set (if folder = Folder_Sent then mx_sent (ci_mailbox ch) else mx_inbox (ci_mailbox ch))
       then cancel LetterDeleteMailDoesNotBelongToCharacter
       else
         seq (change_mail u (ma_isDeleted_update (\<lambda>_. True))) (\<lambda>_.
         queue_chat c (Out_LetterDeleteAckOk (ChatCmdLetterDeleteAckOk folder u))))))"

text \<open>The letter that tells a player that the registration of a stallion has ended.\<close>

definition stallion_letter :: "messenger_env \<Rightarrow> bytes \<Rightarrow> bytes \<Rightarrow> earnings \<Rightarrow> bytes" where
  "stallion_letter env characterName horseName e =
     ascii ''Hello '' @ characterName @ ascii ''~'' @ [10]
     @ ascii ''Your breeding registration at the Stato Breeding Centre for'' @ [10]
     @ ascii ''your horse '' @ [34] @ horseName @ [34] @ ascii '' has ended.'' @ [10, 10]
     @ (if ea_timesMated e > 0
        then ascii ''Times Bred: '' @ decimal (unat (ea_timesMated e)) @ [10]
          @ ascii ''Total Revenue: '' @ mv_grouped env (ea_revenue e) @ ascii '' Carrots'' @ [10]
          @ ascii ''Tax: '' @ mv_percent env (ea_taxRate e) @ ascii ''%'' @ [10]
          @ ascii ''Final Payout: <font color=#C36A0C>'' @ mv_grouped env (ea_earnings e) @ ascii '' Carrots</font>''
        else ascii ''Unfortunately, your horse was not mated during this period.'')"

definition SendStallionReward :: "messenger_env \<Rightarrow> uid \<Rightarrow> uid \<Rightarrow> earnings \<Rightarrow> unit chat_act" where
  "SendStallionReward env characterUid horseUid e =
     (let utcNow = floor_seconds (mv_now env);
          type = (if ea_timesMated e > 0 then BreedingReward else NoReply) in
      seq (view_character characterUid) (\<lambda>ch.
      seq (on_data (view_row dd_horses horseUid)) (\<lambda>horse.
      let body = stallion_letter env (ci_name ch) (hi_name horse) e in
      seq (create_mail (new_mail InvalidUid characterUid type (ea_claimUid e) utcNow body)) (\<lambda>mailUid.
      seq (change_character characterUid (receive_mail mailUid)) (\<lambda>_.
      seq get_state (\<lambda>s.
      if \<not> IsCharacterOnline characterUid s then pure ()
      else
        seq (lift (GetSystemNameFromType type)) (\<lambda>name.
        tell_character characterUid (Out_LetterArriveTrs
          (ChatCmdLetterArriveTrs mailUid (mail_type_code type) (ea_claimUid e) name (format_date utcNow) body))))))))) "

section \<open>Invitations and channels\<close>

definition HandleChatterChatInvite :: "messenger_env \<Rightarrow> client_id \<Rightarrow> ChatCmdChatInvite \<Rightarrow> unit chat_act" where
  "HandleChatterChatInvite env c cmd =
     seq (GetMessengerContext c True) (\<lambda>x.
     case mv_privateChat env of (enabled, hostname, port) \<Rightarrow>
     if \<not> enabled then pure ()
     else
       seq get_state (\<lambda>s.
       for_each (filter (\<lambda>(t, y). mc_isAuthenticated y
           \<and> mc_characterUid y \<in> set (ChatCmdChatInvite_chatParticipantUids cmd)) (me_clients s)) (\<lambda>(t, y).
         seq (queue_chat c (Out_ChatInvitationTrs
           (ChatCmdChatInvitationTrs 0 (mc_characterUid x) 0xABCDEF09 hostname port (mc_characterUid y)))) (\<lambda>_.
         queue_chat t (Out_ChatInvitationTrs
           (ChatCmdChatInvitationTrs 0 (mc_characterUid y) 0xABCDEF09 hostname port (mc_characterUid x))))))) "

definition HandleChatterGameInvite :: "client_id \<Rightarrow> ChatCmdGameInvite \<Rightarrow> unit chat_act" where
  "HandleChatterGameInvite c cmd =
     seq (GetMessengerContext c True) (\<lambda>x.
     seq get_state (\<lambda>s.
     let recipient = ChatCmdGameInvite_recipientCharacterUid cmd; u = mc_characterUid x in
     case GetClientByCharacterUid recipient s of
       None \<Rightarrow> pure ()
     | Some (t, y) \<Rightarrow>
         seq (queue_chat t (Out_GameInviteTrs (ChatCmdGameInviteTrs u))) (\<lambda>_.
         queue_chat c (Out_GameInviteAck (ChatCmdGameInviteAck u recipient)))))"

definition HandleChatterChannelInfo :: "messenger_env \<Rightarrow> client_id \<Rightarrow> unit chat_act" where
  "HandleChatterChannelInfo env c =
     seq (GetMessengerContext c True) (\<lambda>x.
     case mv_allChat env of (enabled, hostname, port) \<Rightarrow>
     if \<not> enabled then pure ()
     else
       seq (\<lambda>s. let (code, otp) = GrantLtk (mv_hash env (mc_characterUid x) AllChatOtpConstant) (mv_draw env)
                    (mv_address env c) (me_otp s)
                in (Inr code, s\<lparr>me_otp := otp\<rparr>)) (\<lambda>code.
       seq (queue_chat c (Out_ChannelInfoAckOk (ChatCmdChannelInfoAckOk hostname port code))) (\<lambda>_.
       seq (view_character (mc_characterUid x)) (\<lambda>ch.
       if ci_guildUid ch = 0 then pure ()
       else case mv_privateChat env of (_, hostname, port) \<Rightarrow>
         queue_chat c (Out_ChannelInfoGuildRoomAckOk (ChatCmdChannelInfoGuildRoomAckOk hostname port code))))))"

section \<open>Guilds\<close>

definition guild_presence :: "uid \<Rightarrow> (client_id, messenger_context) umap \<Rightarrow> Presence" where
  "guild_presence u clients =
     (case find (\<lambda>(c, x). mc_characterUid x = u) clients of None \<Rightarrow> Presence_default | Some (c, x) \<Rightarrow> mc_presence x)"

definition HandleChatterGuildLogin :: "client_id \<Rightarrow> ChatCmdGuildLogin \<Rightarrow> unit chat_act" where
  "HandleChatterGuildLogin c cmd =
     seq (GetMessengerContext c True) (\<lambda>x.
     let cancel = (\<lambda>e. queue_chat c (Out_GuildLoginAckCancel (ChatCmdGuildLoginAckCancel e))) in
     if mc_otpCode x \<noteq> Some (ChatCmdGuildLogin_code cmd) then cancel LoginFailed
     else
       seq (change_context c (mc_isAuthenticated_update (\<lambda>_. True))) (\<lambda>_.
       seq (view_character (mc_characterUid x)) (\<lambda>ch.
       if ChatCmdGuildLogin_characterUid cmd \<noteq> mc_characterUid x then cancel CommandCharacterIsNotClientCharacter
       else if ci_guildUid ch \<noteq> ChatCmdGuildLogin_guildUid cmd then cancel GuildLoginCharacterNotGuildMember
       else
         seq (on_data (view_row dd_guilds (ChatCmdGuildLogin_guildUid cmd))) (\<lambda>g.
         seq get_state (\<lambda>s.
         seq (queue_chat c (Out_GuildLoginAckOK (ChatCmdGuildLoginAckOK
              (map (\<lambda>u. ChatCmdGuildLoginAckOK_GuildMember u (guild_presence u (me_clients s))) (gu_members g))))) (\<lambda>_.
         HandleChatterUpdateState c \<lparr>ChatCmdUpdateState_presence = mc_presence x\<rparr>))))))"

section \<open>Registering\<close>

definition register_chat ::
  "(stream \<Rightarrow> exn + ('m \<times> stream)) \<Rightarrow> (client_id \<Rightarrow> 'm \<Rightarrow> unit chat_act) \<Rightarrow> client_id \<Rightarrow> bytes \<Rightarrow> messenger \<Rightarrow> messenger" where
  "register_chat reader handler c data s =
     (case reader (stream_of data) of Inl _ \<Rightarrow> s | Inr (cmd, _) \<Rightarrow> snd (handler c cmd s))"

definition messenger_commands :: "icu \<Rightarrow> messenger_env \<Rightarrow> (u16 \<times> (client_id \<Rightarrow> bytes \<Rightarrow> messenger \<Rightarrow> messenger)) list" where
  "messenger_commands cv env = [
     (0x1, register_chat (ChatCmdLogin_Read cv) (HandleChatterLogin env)),
     (0x4, register_chat (ChatCmdBuddyAdd_Read cv) (HandleChatterBuddyAdd env)),
     (0x8, register_chat ChatCmdBuddyAddReply_Read (HandleChatterBuddyAddReply env)),
     (0x9, register_chat ChatCmdBuddyDelete_Read HandleChatterBuddyDelete),
     (0xC, register_chat ChatCmdBuddyMove_Read HandleChatterBuddyMove),
     (0xF, register_chat (ChatCmdGroupAdd_Read cv) (HandleChatterGroupAdd env)),
     (0x12, register_chat (ChatCmdGroupRename_Read cv) HandleChatterGroupRename),
     (0x15, register_chat ChatCmdGroupDelete_Read HandleChatterGroupDelete),
     (0x18, register_chat ChatCmdLetterList_Read HandleChatterLetterList),
     (0x1B, register_chat (ChatCmdLetterSend_Read cv) (HandleChatterLetterSend env)),
     (0x1E, register_chat ChatCmdLetterRead_Read HandleChatterLetterRead),
     (0x21, register_chat ChatCmdLetterDelete_Read HandleChatterLetterDelete),
     (0x25, register_chat ChatCmdUpdateState_Read HandleChatterUpdateState),
     (0x27, register_chat ChatCmdChatInvite_Read (HandleChatterChatInvite env)),
     (0x38, register_chat ChatCmdChannelInfo_Read (\<lambda>c _. HandleChatterChannelInfo env c)),
     (0x40, register_chat (ChatCmdGuildLogin_Read cv) HandleChatterGuildLogin),
     (0x34, register_chat ChatCmdGameInvite_Read HandleChatterGameInvite)]"

definition messenger_handlers :: "icu \<Rightarrow> messenger_env \<Rightarrow> messenger chatter_handlers" where
  "messenger_handlers cv env = map_of (messenger_commands cv env)"

section \<open>Laws of the actions\<close>

definition put_character :: "uid \<Rightarrow> character_info \<Rightarrow> data_director \<Rightarrow> data_director" where
  "put_character u ch = dd_characters_update (put_row u ch)"

lemma get_put_character [simp]:
  "get_row (dd_characters (put_character u ch d)) w = (if w = u \<and> u \<noteq> InvalidUid then Some ch else get_row (dd_characters d) w)"
  by (simp add: put_character_def)

text \<open>The weakest preconditions of the messenger's actions.\<close>

lemma wp_chat [wp_simps]:
  "wp (GetMessengerContext c a) Q E s = (case map_of (me_clients s) c of None \<Rightarrow> E s
     | Some x \<Rightarrow> if a \<and> \<not> mc_isAuthenticated x then E s else Q x s)"
  "wp (view_character u) Q' E s = (case get_row (dd_characters (me_data s)) u of None \<Rightarrow> E s | Some ch \<Rightarrow> Q' ch s)"
  "wp (change_character u f) R E s = (case get_row (dd_characters (me_data s)) u of None \<Rightarrow> E s
     | Some ch \<Rightarrow> R () (s\<lparr>me_data := put_character u (f ch) (me_data s)\<rparr>))"
  "wp (queue_chat c out) R E s = R () (s\<lparr>me_sent := me_sent s @ [(c, out)]\<rparr>)"
  by (auto simp: wp_def GetMessengerContext_def view_character_def view_row_def change_character_def change_row_def on_data_def
      queue_chat_def modify_def put_character_def split: option.splits)

lemma wp_tell [wp_simps]:
  "wp (tell_character u out) R E s = R () (case GetClientByCharacterUid u s of None \<Rightarrow> s
     | Some (c, x) \<Rightarrow> s\<lparr>me_sent := me_sent s @ [(c, out)]\<rparr>)"
  by (auto simp: tell_character_def wp_simps split: option.splits)

lemma wp_create_mail [wp_simps]:
  "wp (create_mail m) Q E s =
     (let t = dd_mails (me_data s); u = tb_sequentialUid t + 1 in
      if tb_failing t then E s
      else Q u (s\<lparr>me_data := (me_data s)\<lparr>dd_mails := t\<lparr>tb_sequentialUid := u, tb_rows := umap_put u (m u) (tb_rows t)\<rparr>\<rparr>\<rparr>))"
  by (simp add: wp_def create_mail_def on_data_def fresh_row_def create_row_def Let_def)

lemma get_row_put_rows: "get_row (t\<lparr>tb_sequentialUid := n, tb_rows := umap_put u x (tb_rows t)\<rparr>) v = get_row (put_row u x t) v"
  by (simp add: get_row_def put_row_def)

end
