(* ===== verification/Breeding_Market.thy ===== *)
theory Breeding_Market imports Messenger Genetics Job_Scheduler begin

text \<open>
  \<open>server/ranch/BreedingMarket.cpp\<close>: horses whose owners offer them for breeding, for a fee and for a day.

  \<^item> The state is the map of registrations, the scheduler, and the state the messenger works on, which holds the
    records: the end of a registration pays a reward and sends a letter.
  \<^item> An exception out of an operation that is \<open>noexcept\<close> ends the program; it is the exception of the action here.
  \<^item> The shares of the market are computed in single precision; on the integers that occur that is rounding to 24
    significant bits, ties to even, which \<open>round_float\<close> does.
  \<^item> \<open>std::ranges::sort\<close> does not say how it orders equal elements; the model keeps their order.
\<close>

section \<open>State\<close>

datatype market_task = Expiration_Check

record market =
  bm_registrations :: "(uid, uid) umap"
  bm_scheduler :: "market_task scheduler"
  bm_messenger :: messenger

type_synonym 'a market_act = "(market, 'a) act"

abbreviation bm_data :: "market \<Rightarrow> data_director" where "bm_data s \<equiv> me_data (bm_messenger s)"

definition on_messenger :: "'a chat_act \<Rightarrow> 'a market_act" where
  "on_messenger m s = (let (r, w) = m (bm_messenger s) in (r, s\<lparr>bm_messenger := w\<rparr>))"

text \<open>\<open>Get\<close> of a cache: the key zero is not special.\<close>

definition in_cache :: "'a table \<Rightarrow> uid \<Rightarrow> 'a option" where
  "in_cache t u = map_of (tb_rows t) u"

section \<open>Shares\<close>

fun bit_length :: "nat \<Rightarrow> nat" where
  "bit_length n = (if n = 0 then 0 else Suc (bit_length (n div 2)))"

declare bit_length.simps [simp del]

text \<open>The nearest number with 24 significant bits.\<close>

definition round_float :: "nat \<Rightarrow> nat" where
  "round_float n =
     (let k = bit_length n - 24; q = n div 2 ^ k; r = n mod 2 ^ k in
      (if 2 * r > 2 ^ k \<or> 2 * r = 2 ^ k \<and> odd q then q + 1 else q) * 2 ^ k)"

text \<open>\<open>0.20f\<close> is \<open>13421773 / 2 ^ 26\<close>.\<close>

abbreviation (input) EarningTaxes_bits :: u32 where "EarningTaxes_bits \<equiv> 0x3E4CCCCD"

definition earnings_tax :: "u32 \<Rightarrow> u32" where
  "earnings_tax revenue = of_nat (round_float (round_float (unat revenue) * 13421773) div 2 ^ 26)"

text \<open>The half of the fee, rounded up; \<open>0.50f\<close> is exact.\<close>

definition CalculateRegistrationFee :: "i32 \<Rightarrow> i32" where
  "CalculateRegistrationFee breedingFee =
     (let f = (if sint breedingFee < 0 then - int (round_float (nat (- sint breedingFee)))
               else int (round_float (nat (sint breedingFee))))
      in of_int ((f + 1) div 2))"

definition GetGradeFeeRange :: "u32 \<Rightarrow> (int \<times> int) option" where
  "GetGradeFeeRange grade =
     (if grade = 4 then Some (4000, 12000) else if grade = 5 then Some (5000, 15000)
      else if grade = 6 then Some (6000, 18000) else if grade = 7 then Some (8000, 24000)
      else if grade = 8 then Some (10000, 40000) else None)"

section \<open>Registrations\<close>

definition MaxStallionsPerCharacter :: nat where "MaxStallionsPerCharacter = 3"
definition MarketDuration :: int where "MarketDuration = hours 24"

definition CanRegisterStallion :: "uid \<Rightarrow> market \<Rightarrow> bool" where
  "CanRegisterStallion characterUid s =
     (case get_row (dd_characters (bm_data s)) characterUid of
        None \<Rightarrow> False
      | Some ch \<Rightarrow> length (filter (has_key (bm_registrations s)) (ci_horses ch)) < MaxStallionsPerCharacter)"

definition change_horse :: "uid \<Rightarrow> (horse_info \<Rightarrow> horse_info) \<Rightarrow> unit chat_act" where
  "change_horse u f = on_data (change_row dd_horses dd_horses_update u f)"

definition new_stallion :: "time_point \<Rightarrow> uid \<Rightarrow> uid \<Rightarrow> i32 \<Rightarrow> uid \<Rightarrow> stallion" where
  "new_stallion now characterUid horseUid breedingFee u =
     \<lparr>st_uid = u, st_horseUid = horseUid, st_ownerUid = characterUid, st_breedingCharge = breedingFee, st_timesMated = 0,
      st_registeredAt = now, st_expiresAt = now + MarketDuration\<rparr>"

definition RegisterStallion :: "time_point \<Rightarrow> uid \<Rightarrow> uid \<Rightarrow> i32 \<Rightarrow> uid chat_act" where
  "RegisterStallion now characterUid horseUid breedingFee =
     seq get_state (\<lambda>s. if get_row (dd_horses (me_data s)) horseUid = None then pure InvalidUid
     else
       seq (change_horse horseUid (hi_type_update (\<lambda>_. Type_Stallion))) (\<lambda>_.
       on_data (fresh_row dd_stallions dd_stallions_update (new_stallion now characterUid horseUid breedingFee))))"

text \<open>Taking the fee, if the character has it.\<close>

definition pay_registration :: "uid \<Rightarrow> i32 \<Rightarrow> bool chat_act" where
  "pay_registration characterUid fee =
     seq (view_character characterUid) (\<lambda>ch.
     if sint (ci_carrots ch) \<ge> sint fee
     then seq (change_character characterUid (ci_carrots_update (\<lambda>c. c - fee))) (\<lambda>_. pure True)
     else pure False)"

definition HandleRegisterStallion :: "time_point \<Rightarrow> uid \<Rightarrow> uid \<Rightarrow> i32 \<Rightarrow> bool market_act" where
  "HandleRegisterStallion now characterUid horseUid breedingFee =
     seq get_state (\<lambda>s.
     if has_key (bm_registrations s) horseUid \<or> \<not> CanRegisterStallion characterUid s then pure False
     else case (get_row (dd_characters (bm_data s)) characterUid, get_row (dd_horses (bm_data s)) horseUid) of
       (Some ch, Some horse) \<Rightarrow>
         if horseUid \<notin> set (ci_horses ch) then pure False
         else (case GetGradeFeeRange (hi_grade horse) of
           None \<Rightarrow> pure False
         | Some (lo, hi) \<Rightarrow>
             if sint breedingFee < lo \<or> hi < sint breedingFee then pure False
             else
               seq (on_messenger (pay_registration characterUid (CalculateRegistrationFee breedingFee))) (\<lambda>paid.
               if \<not> paid then pure False
               else
                 seq (on_messenger (RegisterStallion now characterUid horseUid breedingFee)) (\<lambda>stallionUid.
                 if stallionUid = InvalidUid then pure False
                 else
                   seq (modify (\<lambda>s. if has_key (bm_registrations s) horseUid then s
                      else s\<lparr>bm_registrations := umap_put horseUid stallionUid (bm_registrations s)\<rparr>)) (\<lambda>_. pure True))))
     | _ \<Rightarrow> pure False)"

section \<open>The end of a registration\<close>

definition stallion_earnings :: "stallion \<Rightarrow> earnings" where
  "stallion_earnings st =
     (let revenue = st_timesMated st * st_breedingCharge st in
      \<lparr>ea_timesMated = st_timesMated st, ea_revenue = revenue, ea_breedingFee = st_breedingCharge st,
       ea_earnings = revenue - earnings_tax revenue, ea_taxRate = EarningTaxes_bits, ea_claimUid = InvalidUid\<rparr>)"

text \<open>The payment; whatever it throws is caught.\<close>

definition pay_out :: "messenger_env \<Rightarrow> uid \<Rightarrow> uid \<Rightarrow> earnings \<Rightarrow> unit chat_act" where
  "pay_out env ownerUid horseUid e =
     try_catch
      (seq (if ea_timesMated e > 0
            then on_data (\<lambda>d. let (u, d) = CreateReward (mv_now env) ownerUid Reward_Breeding (ea_earnings e) d in (Inr u, d))
            else pure InvalidUid) (\<lambda>claimUid.
       SendStallionReward env ownerUid horseUid (e\<lparr>ea_claimUid := claimUid\<rparr>)))"

definition UnregisterStallion :: "messenger_env \<Rightarrow> uid \<Rightarrow> uid \<Rightarrow> unit chat_act" where
  "UnregisterStallion env horseUid stallionUid =
     seq get_state (\<lambda>s.
     case (in_cache (dd_stallions (me_data s)) stallionUid, in_cache (dd_horses (me_data s)) horseUid) of
       (Some st, Some horse) \<Rightarrow>
         seq (pay_out env (st_ownerUid st) horseUid (stallion_earnings st)) (\<lambda>_.
         seq (modify (\<lambda>s. s\<lparr>me_data := dd_horses_update
            (\<lambda>t. put_row horseUid ((the (in_cache t horseUid))\<lparr>hi_type := Type_Adult\<rparr>) t) (me_data s)\<rparr>)) (\<lambda>_.
         modify (\<lambda>s. s\<lparr>me_data := dd_stallions_update (delete_row stallionUid) (me_data s)\<rparr>)))
     | _ \<Rightarrow> pure ())"

definition HandleUnregisterStallion :: "messenger_env \<Rightarrow> uid \<Rightarrow> uid \<Rightarrow> bool market_act" where
  "HandleUnregisterStallion env characterUid horseUid =
     seq get_state (\<lambda>s.
     case map_of (bm_registrations s) horseUid of
       None \<Rightarrow> pure False
     | Some stallionUid \<Rightarrow>
         case (get_row (dd_characters (bm_data s)) characterUid, in_cache (dd_stallions (bm_data s)) stallionUid,
               in_cache (dd_horses (bm_data s)) horseUid) of
           (Some ch, Some st, Some horse) \<Rightarrow>
             if horseUid \<notin> set (ci_horses ch) then pure False
             else
               seq (on_messenger (UnregisterStallion env horseUid stallionUid)) (\<lambda>_.
               seq (modify (\<lambda>s. s\<lparr>bm_registrations := umap_erase horseUid (bm_registrations s)\<rparr>)) (\<lambda>_. pure True))
         | _ \<Rightarrow> pure False)"

text \<open>\<open>earnings\<close> stays zero in this preview.\<close>

definition CalculateUnregisterEarnings :: "uid \<Rightarrow> market \<Rightarrow> earnings option" where
  "CalculateUnregisterEarnings horseUid s =
     (case map_of (bm_registrations s) horseUid of
        None \<Rightarrow> None
      | Some stallionUid \<Rightarrow>
          case (in_cache (dd_stallions (bm_data s)) stallionUid, in_cache (dd_horses (bm_data s)) horseUid) of
            (Some st, Some horse) \<Rightarrow> Some ((stallion_earnings st)\<lparr>ea_earnings := 0\<rparr>)
          | _ \<Rightarrow> None)"

definition GetStallionData :: "uid \<Rightarrow> market \<Rightarrow> (uid \<times> u32) option" where
  "GetStallionData horseUid s =
     (case map_of (bm_registrations s) horseUid of
        None \<Rightarrow> None
      | Some stallionUid \<Rightarrow> map_option (\<lambda>st. (stallionUid, st_breedingCharge st)) (in_cache (dd_stallions (bm_data s)) stallionUid))"

definition IsRegistered :: "uid \<Rightarrow> market \<Rightarrow> bool" where
  "IsRegistered horseUid s \<longleftrightarrow> has_key (bm_registrations s) horseUid"

definition expired_registrations :: "time_point \<Rightarrow> market \<Rightarrow> (uid \<times> uid) list" where
  "expired_registrations now s =
     filter (\<lambda>(h, u). case get_row (dd_stallions (bm_data s)) u of None \<Rightarrow> False | Some st \<Rightarrow> now > st_expiresAt st)
       (bm_registrations s)"

definition RunExpirationCheck :: "messenger_env \<Rightarrow> unit market_act" where
  "RunExpirationCheck env =
     seq get_state (\<lambda>s.
     for_each (expired_registrations (mv_now env) s) (\<lambda>(h, u).
       seq (on_messenger (UnregisterStallion env h u)) (\<lambda>_.
       modify (\<lambda>s. s\<lparr>bm_registrations := umap_erase h (bm_registrations s)\<rparr>))))"

definition ScheduleExpirationCheck :: "time_point \<Rightarrow> market \<Rightarrow> market" where
  "ScheduleExpirationCheck now s = s\<lparr>bm_scheduler := Scheduler_Queue Expiration_Check (now + seconds 60) (bm_scheduler s)\<rparr>"

text \<open>The task, which queues itself again after the check.\<close>

definition market_exec :: "messenger_env \<Rightarrow> (market_task, market) exec" where
  "market_exec env task s =
     (case RunExpirationCheck env s of
        (Inl e, s) \<Rightarrow> ([], s, Some (what e))
      | (Inr _, s) \<Rightarrow> ([\<lparr>job_when = mv_now env + seconds 60, job_task = Expiration_Check\<rparr>], s, None))"

definition Market_Tick :: "messenger_env \<Rightarrow> unit market_act" where
  "Market_Tick env s =
     (let (r, sch, s') = Scheduler_Tick (market_exec env) (mv_now env) (bm_scheduler s) s in (r, s'\<lparr>bm_scheduler := sch\<rparr>))"

definition Market_Terminate :: "market \<Rightarrow> market" where
  "Market_Terminate s = s\<lparr>bm_registrations := []\<rparr>"

section \<open>The snapshot\<close>

datatype SnapshotOrder =
    LineageDescending | TimeLeftDescending | FeeDescending | PregnancyChanceAscending
  | PregnancyChanceDescending | FeeAscending | TimeLeftAscending | LineageAscending

datatype FilterStat = Stat_None | Stat_Agility | Stat_Ambition | Stat_Rush | Stat_Endurance | Stat_Courage

record snapshot_filter =
  sf_grade :: u8
  sf_coats :: "tid list"
  sf_manes :: "tid list"
  sf_tails :: "tid list"
  sf_firstPreferredStat :: FilterStat
  sf_secondPreferred :: FilterStat

fun statValue :: "horse_stats \<Rightarrow> FilterStat \<Rightarrow> u32" where
  "statValue st Stat_Agility = hs_agility st"
| "statValue st Stat_Ambition = hs_ambition st"
| "statValue st Stat_Rush = hs_rush st"
| "statValue st Stat_Endurance = hs_endurance st"
| "statValue st Stat_Courage = hs_courage st"
| "statValue st Stat_None = 0"

definition requiredSharePercent :: "snapshot_filter \<Rightarrow> FilterStat \<Rightarrow> u32" where
  "requiredSharePercent f stat =
     (if sf_firstPreferredStat f = stat then 38 else 0) + (if sf_secondPreferred f = stat then 38 else 0)"

definition meetsShare :: "snapshot_filter \<Rightarrow> horse_stats \<Rightarrow> FilterStat \<Rightarrow> bool" where
  "meetsShare f st stat \<longleftrightarrow>
     stat = Stat_None
     \<or> statValue st stat * 100 \<ge> requiredSharePercent f stat *
         (hs_agility st + hs_courage st + hs_rush st + hs_endurance st + hs_ambition st)"

definition filter_match :: "horse_config \<Rightarrow> snapshot_filter \<Rightarrow> horse_info \<Rightarrow> bool" where
  "filter_match cfg f h \<longleftrightarrow>
     \<not> (sf_grade f \<noteq> 0 \<and> ucast (hi_grade h) \<noteq> sf_grade f)
     \<and> (sf_coats f = [] \<or> hp_skinTid (hi_parts h) \<in> set (sf_coats f))
     \<and> (sf_manes f = [] \<or> of_int (hr_shape (GetMane cfg (hp_maneTid (hi_parts h)))) \<in> set (sf_manes f))
     \<and> (sf_tails f = [] \<or> of_int (hr_shape (GetTail cfg (hp_tailTid (hi_parts h)))) \<in> set (sf_tails f))
     \<and> meetsShare f (hi_stats h) (sf_firstPreferredStat f) \<and> meetsShare f (hi_stats h) (sf_secondPreferred f)"

text \<open>What a registration is sorted by.\<close>

definition snapshot_key :: "SnapshotOrder \<Rightarrow> horse_info \<Rightarrow> stallion \<Rightarrow> int" where
  "snapshot_key order h st =
     (case order of
        LineageDescending \<Rightarrow> - uint (hi_lineage h) | LineageAscending \<Rightarrow> uint (hi_lineage h)
      | TimeLeftDescending \<Rightarrow> - st_expiresAt st | TimeLeftAscending \<Rightarrow> st_expiresAt st
      | FeeDescending \<Rightarrow> - uint (st_breedingCharge st) | FeeAscending \<Rightarrow> uint (st_breedingCharge st)
      | PregnancyChanceDescending \<Rightarrow> uint (hi_breedingCount h) | PregnancyChanceAscending \<Rightarrow> - uint (hi_breedingCount h))"

definition market_offers :: "horse_config \<Rightarrow> snapshot_filter \<Rightarrow> market \<Rightarrow> (uid \<times> uid \<times> horse_info \<times> stallion) list" where
  "market_offers cfg f s =
     List.map_filter (\<lambda>(h, u).
       case (get_row (dd_stallions (bm_data s)) u, get_row (dd_horses (bm_data s)) h) of
         (Some st, Some horse) \<Rightarrow> if filter_match cfg f horse then Some (h, u, horse, st) else None
       | _ \<Rightarrow> None) (bm_registrations s)"

definition CollectMarketSnapshot :: "horse_config \<Rightarrow> SnapshotOrder \<Rightarrow> snapshot_filter \<Rightarrow> market \<Rightarrow> (uid \<times> uid) list" where
  "CollectMarketSnapshot cfg order f s =
     map (\<lambda>(h, u, horse, st). (h, u)) (sort_key (\<lambda>(h, u, horse, st). snapshot_key order horse st) (market_offers cfg f s))"

section \<open>Initialization\<close>

text \<open>The loop spins until the records of every stallion are loaded, which other threads do meanwhile: the records are those
  of the world at each turn of the loop.\<close>

definition loaded_horse :: "data_director \<Rightarrow> uid \<Rightarrow> uid option" where
  "loaded_horse d stallionUid =
     (case in_cache (dd_stallions d) stallionUid of
        None \<Rightarrow> None
      | Some st \<Rightarrow>
          if in_cache (dd_horses d) (st_horseUid st) = None \<or> in_cache (dd_characters d) (st_ownerUid st) = None then None
          else Some (st_horseUid st))"

partial_function (option) initialize_loop ::
  "(nat \<Rightarrow> data_director) \<Rightarrow> nat \<Rightarrow> uid list \<Rightarrow> nat \<Rightarrow> (uid, uid) umap \<Rightarrow> (uid, uid) umap option" where
  "initialize_loop world n stallionUids i regs =
     (if stallionUids = [] then Some regs
      else
        let i = (if i = length stallionUids then 0 else i); stallionUid = stallionUids ! i in
        case loaded_horse (world n) stallionUid of
          None \<Rightarrow> initialize_loop world (Suc n) stallionUids (Suc i) regs
        | Some h \<Rightarrow> initialize_loop world (Suc n) (take i stallionUids @ drop (Suc i) stallionUids) i
            (if has_key regs h then regs else umap_put h stallionUid regs))"

definition Market_Initialize :: "(nat \<Rightarrow> data_director) \<Rightarrow> uid list \<Rightarrow> time_point \<Rightarrow> market \<Rightarrow> market option" where
  "Market_Initialize world stallionUids now s =
     map_option (\<lambda>regs. ScheduleExpirationCheck now (s\<lparr>bm_registrations := regs\<rparr>))
       (initialize_loop world 0 stallionUids 0 (bm_registrations s))"

end
