(* ===== verification/Messenger_Friends.thy ===== *)
theory Messenger_Friends imports Messenger begin

text \<open>
  What the messenger's commands do to friendships: they stay mutual, with one exception, and a client that has not
  logged in changes nothing.
\<close>

section \<open>Friendship\<close>

definition friends_of :: "data_director \<Rightarrow> uid \<Rightarrow> uid set" where
  "friends_of d u = (case get_row (dd_characters d) u of
     None \<Rightarrow> {} | Some ch \<Rightarrow> {v. has_friend v (character_groups ch)})"

text \<open>Everybody is a friend of its friends, and the groups of a character are a map.\<close>

definition social :: "data_director \<Rightarrow> bool" where
  "social d \<longleftrightarrow> (\<forall>u v. v \<in> friends_of d u \<longrightarrow> u \<in> friends_of d v)
     \<and> (\<forall>u ch. get_row (dd_characters d) u = Some ch \<longrightarrow> omap_ok (character_groups ch))"

abbreviation social_state :: "messenger \<Rightarrow> bool" where "social_state s \<equiv> social (me_data s)"

lemma has_friend_simps [simp]: "\<not> has_friend u []"
  "has_friend u ((k, g) # gs) \<longleftrightarrow> u \<in> set (cg_members g) \<or> has_friend u gs"
  by (simp_all add: has_friend_def)

lemma has_friend_iff: "omap_ok gs \<Longrightarrow> has_friend u gs \<longleftrightarrow> (\<exists>k g. map_of gs k = Some g \<and> u \<in> set (cg_members g))"
  using omap_ok_distinct [of gs] by (fastforce simp: has_friend_def list_ex_iff dest: map_of_SomeD)

lemma set_insort_insert [simp]: "set (insort_insert x xs) = insert x (set xs)"
  by (auto simp: insort_insert_key_def set_insort_key)

lemma set_fold_insort [simp]: "set (fold insort_insert xs ys) = set xs \<union> set ys"
  by (induction xs arbitrary: ys) auto

lemma has_friend_cong: "omap_ok gs \<Longrightarrow> omap_ok hs \<Longrightarrow> map_of gs = map_of hs \<Longrightarrow> has_friend v gs = has_friend v hs"
  by (simp add: has_friend_iff)

lemma has_friend_at: "omap_ok gs \<Longrightarrow> map_of gs k = Some g \<Longrightarrow> has_friend v gs \<longleftrightarrow> v \<in> set (cg_members g) \<or> has_friend v (omap_erase k gs)"
  by (simp add: has_friend_iff) (metis option.inject)

lemma has_friend_put: "omap_ok gs \<Longrightarrow> has_friend v (omap_put k g gs) \<longleftrightarrow> v \<in> set (cg_members g) \<or> has_friend v (omap_erase k gs)"
  by (simp add: has_friend_iff) metis

lemma has_friend_erase_put:
  "omap_ok gs \<Longrightarrow> k \<noteq> k' \<Longrightarrow> has_friend v (omap_erase k (omap_put k' g gs)) = has_friend v (omap_put k' g (omap_erase k gs))"
  by (rule has_friend_cong) auto

lemma has_friend_absent: "map_of gs k = None \<Longrightarrow> omap_erase k gs = gs"
  using umap_erase_absent [of gs k] by (simp add: omap_erase_def umap_erase_def)

lemmas has_friend_rules = has_friend_put has_friend_at has_friend_erase_put has_friend_absent

lemma has_friend_accept:
  assumes "omap_ok (character_groups ch)"
  shows "has_friend v (character_groups (accept_friend now u ch)) \<longleftrightarrow> v = u \<or> has_friend v (character_groups ch)"
    and "omap_ok (character_groups (accept_friend now u ch))"
  using assms by (auto simp: accept_friend_def Let_def has_friend_put has_friend_absent has_friend_at [OF assms]
      split: option.splits)

lemma has_friend_delete: "has_friend v (delete_friend u gs) \<longleftrightarrow> v \<noteq> u \<and> has_friend v gs"
  by (induction gs) (auto simp: delete_friend_def)

lemma keys_delete_friend: "omap_ok (delete_friend u gs) \<longleftrightarrow> omap_ok gs"
proof -
  have "keys_of (delete_friend u gs) = keys_of gs" by (induction gs) (auto simp: delete_friend_def)
  then show ?thesis by (simp add: omap_ok_def)
qed

lemma has_friend_move:
  assumes "omap_ok gs" "move_friend u target gs = Inr hs"
  shows "has_friend v hs \<longleftrightarrow> has_friend v gs" "omap_ok hs"
proof -
  from assms(2) obtain g k h where g: "map_of gs target = Some g" "u \<notin> set (cg_members g)"
    and f: "find (\<lambda>(k, h). u \<in> set (cg_members h)) gs = Some (k, h)"
    and hs: "hs = omap_put target (g\<lparr>cg_members := insort_insert u (cg_members g)\<rparr>)
                (omap_put k (h\<lparr>cg_members := uset_erase u (cg_members h)\<rparr>) gs)"
    by (auto simp: move_friend_def split: option.splits if_splits)
  from f have kh: "(k, h) \<in> set gs" "u \<in> set (cg_members h)" by (auto simp: find_Some_iff in_set_conv_nth)
  from kh(1) have h: "map_of gs k = Some h" by (simp add: map_of_eq_Some_iff omap_ok_distinct [OF assms(1)])
  with g kh have "k \<noteq> target" by auto
  show "omap_ok hs" using assms(1) by (simp add: hs)
  have "has_friend v gs \<longleftrightarrow> v \<in> set (cg_members g) \<or> v \<in> set (cg_members h) \<or> has_friend v (omap_erase k (omap_erase target gs))"
    using has_friend_at [OF assms(1) g(1)] has_friend_at [of "omap_erase target gs" k h] h assms(1) \<open>k \<noteq> target\<close> by simp
  moreover have "has_friend v hs \<longleftrightarrow> v = u \<or> v \<in> set (cg_members g) \<or> v \<noteq> u \<and> v \<in> set (cg_members h)
      \<or> has_friend v (omap_erase k (omap_erase target gs))"
    using assms(1) \<open>k \<noteq> target\<close> by (simp add: hs has_friend_put has_friend_erase_put) blast
  ultimately show "has_friend v hs \<longleftrightarrow> has_friend v gs" using kh by blast
qed

lemma has_friend_add:
  assumes "omap_ok gs" "add_group now name gs = (k, hs)"
  shows "has_friend v hs \<longleftrightarrow> has_friend v gs" "omap_ok hs"
  using assms by (auto simp: add_group_def Let_def has_friend_put has_friend_absent split: if_splits)

lemma has_friend_rename:
  assumes "omap_ok gs" "rename_group k name gs = Inr hs"
  shows "has_friend v hs \<longleftrightarrow> has_friend v gs" "omap_ok hs"
  using assms by (auto simp: rename_group_def has_friend_put has_friend_at [OF assms(1)] split: option.splits if_splits)

lemma has_friend_group_deleted:
  assumes "omap_ok gs" "delete_group k gs = Inr hs"
  shows "k \<noteq> FriendsCategoryUid \<Longrightarrow> has_friend v hs \<longleftrightarrow> has_friend v gs" "omap_ok hs"
proof -
  from assms(2) obtain g friends where g: "map_of gs k = Some g" "map_of gs FriendsCategoryUid = Some friends"
    and hs: "hs = omap_erase k (omap_put FriendsCategoryUid
                (friends\<lparr>cg_members := fold insort_insert (cg_members g) (cg_members friends)\<rparr>) gs)"
    by (auto simp: delete_group_def split: option.splits)
  show "omap_ok hs" using assms by (simp add: hs)
  show "has_friend v hs \<longleftrightarrow> has_friend v gs" if "k \<noteq> FriendsCategoryUid"
    using g that assms(1) has_friend_at [OF assms(1) g(1)] has_friend_at [of "omap_erase k gs" FriendsCategoryUid friends]
    by (auto simp: hs has_friend_erase_put has_friend_put)
qed

section \<open>Commands and friendship\<close>

lemma social_frame:
  "(\<And>s. dd_characters (me_data (snd (m s))) = dd_characters (me_data s)) \<Longrightarrow> preserves social_state m"
  by (simp add: preserves_def social_def friends_of_def)

text \<open>Changing a character without changing its friends.\<close>

lemma social_same_friends:
  assumes "social d" "get_row (dd_characters d) u = Some ch" "omap_ok (character_groups ch')"
    "\<And>v. has_friend v (character_groups ch') = has_friend v (character_groups ch)"
  shows "social (put_character u ch' d)"
proof -
  have "u \<noteq> InvalidUid" using assms(2) by (rule get_row_uid)
  then have "friends_of (put_character u ch' d) w = friends_of d w" for w
    using assms(2,4) by (auto simp: friends_of_def)
  with assms show ?thesis by (simp add: social_def)
qed

lemma social_groups: "social d \<Longrightarrow> get_row (dd_characters d) u = Some ch \<Longrightarrow> omap_ok (character_groups ch)"
  by (simp add: social_def)

lemma preserves_change_character:
  "(\<And>ch. character_groups (f ch) = character_groups ch) \<Longrightarrow> preserves social_state (change_character u f)"
  by (rule preserves_wpI) (auto simp: wp_chat social_groups intro!: social_same_friends split: option.splits)

lemma social_basic [preserves_intros]:
  "preserves social_state (GetMessengerContext c a)" "preserves social_state (view_character u)"
  "preserves social_state (queue_chat c out)" "preserves social_state (change_context c g)"
  "preserves social_state (change_mail u h)" "preserves social_state (create_mail m)"
  "preserves social_state (on_data (view_row sel u))" "preserves social_state (tell_character u out)"
  "preserves social_state (introduce_friends c x n r rn)" "preserves social_state (HandleChatterUpdateState c cmd)"
  "preserves social_state (HandleMessengerConnected c)" "preserves social_state (HandleMessengerDisconnected c)"
proof -
  show basic: "preserves social_state (GetMessengerContext c a)" "preserves social_state (view_character u)"
    "preserves social_state (queue_chat c out)" "preserves social_state (change_context c g)"
    "preserves social_state (change_mail u h)" "preserves social_state (create_mail m)" "preserves social_state (on_data (view_row sel u))"
    for c a u out g h m and sel :: "data_director \<Rightarrow> 'x table"
    by (rule social_frame; auto simp: GetMessengerContext_def view_character_def view_row_def queue_chat_def change_context_def
        change_mail_def change_row_def create_mail_def fresh_row_def create_row_def on_data_def modify_def Let_def
        split: option.splits prod.splits)+
  show "preserves social_state (tell_character u out)" "preserves social_state (introduce_friends c x n r rn)"
    unfolding tell_character_def introduce_friends_def Let_def by (intro preserves_intros basic)+
  show update: "preserves social_state (HandleChatterUpdateState c cmd)" for c cmd
    unfolding HandleChatterUpdateState_def Let_def by (intro preserves_intros basic)
  show "preserves social_state (HandleMessengerConnected c)"
    by (rule social_frame) (simp add: HandleMessengerConnected_def modify_def)
  have erase: "preserves social_state (modify (\<lambda>s. s\<lparr>me_clients := f s\<rparr>))" for f
    by (rule social_frame) (simp add: modify_def)
  show "preserves social_state (HandleMessengerDisconnected c)"
    unfolding HandleMessengerDisconnected_def by (intro preserves_intros update erase)
qed

lemma social_otp [preserves_intros]: "preserves social_state (\<lambda>s. let (z, otp) = f (me_otp s) in (Inr z, s\<lparr>me_otp := otp\<rparr>))"
  by (rule social_frame) (simp split: prod.splits)

text \<open>The commands that leave the friends of everybody alone.\<close>

lemma social_handlers:
  "preserves social_state (HandleChatterLogin env c login)" "preserves social_state (HandleChatterBuddyAdd env c add)"
  "preserves social_state (HandleChatterLetterList c listing)" "preserves social_state (HandleChatterLetterSend env c letter)"
  "preserves social_state (HandleChatterLetterRead c reading)" "preserves social_state (HandleChatterLetterDelete c deletion)"
  "preserves social_state (HandleChatterChatInvite env c chat)" "preserves social_state (HandleChatterGameInvite c game)"
  "preserves social_state (HandleChatterChannelInfo env c)" "preserves social_state (HandleChatterGuildLogin c guildLogin)"
  "preserves social_state (SendStallionReward env u h e)"
proof -
  have mailbox: "preserves social_state (change_character u (ci_mailbox_update f))"
      "preserves social_state (change_character u (ci_contacts_update (cn_pending_update g)))"
      "preserves social_state (change_character u (receive_mail m))" for u f g m
    by (rule preserves_change_character, simp add: receive_mail_def)+
  show "preserves social_state (HandleChatterLogin env c login)"
    unfolding HandleChatterLogin_def by (intro preserves_intros mailbox)
  show "preserves social_state (HandleChatterBuddyAdd env c add)"
    unfolding HandleChatterBuddyAdd_def Let_def by (intro preserves_intros mailbox)
  show "preserves social_state (HandleChatterLetterList c listing)"
    unfolding HandleChatterLetterList_def Let_def by (intro preserves_intros)
  show "preserves social_state (HandleChatterLetterSend env c letter)"
    unfolding HandleChatterLetterSend_def Let_def by (intro preserves_intros mailbox)
  show "preserves social_state (HandleChatterLetterRead c reading)"
    unfolding HandleChatterLetterRead_def Let_def by (intro preserves_intros)
  show "preserves social_state (HandleChatterLetterDelete c deletion)"
    unfolding HandleChatterLetterDelete_def Let_def by (intro preserves_intros)
  show "preserves social_state (HandleChatterChatInvite env c chat)"
    unfolding HandleChatterChatInvite_def by (intro preserves_intros)
  show "preserves social_state (HandleChatterGameInvite c game)"
    unfolding HandleChatterGameInvite_def Let_def by (intro preserves_intros)
  show "preserves social_state (HandleChatterChannelInfo env c)"
    unfolding HandleChatterChannelInfo_def by (intro preserves_intros)
  show "preserves social_state (HandleChatterGuildLogin c guildLogin)"
    unfolding HandleChatterGuildLogin_def Let_def by (intro preserves_intros)
  show "preserves social_state (SendStallionReward env u h e)"
    unfolding SendStallionReward_def Let_def by (intro preserves_intros mailbox)
qed

text \<open>Two characters that become friends, and two that cease to be.\<close>

lemma friends_of_put:
  "u \<noteq> InvalidUid \<Longrightarrow> friends_of (put_character u ch d) w = (if w = u then {v. has_friend v (character_groups ch)} else friends_of d w)"
  by (simp add: friends_of_def)

lemma friends_of_row: "get_row (dd_characters d) u = Some ch \<Longrightarrow> friends_of d u = {v. has_friend v (character_groups ch)}"
  by (simp add: friends_of_def)

lemma social_befriend:
  assumes "social d" "get_row (dd_characters d) r = Some chr"
    "get_row (dd_characters (put_character r (accept_friend now u chr) d)) u = Some chu"
  shows "social (put_character u (accept_friend now r chu) (put_character r (accept_friend now u chr) d))"
proof -
  let ?d = "put_character r (accept_friend now u chr) d"
  have r: "r \<noteq> InvalidUid" and u: "u \<noteq> InvalidUid" using assms(2,3) by (auto dest: get_row_uid)
  have ok: "omap_ok (character_groups chr)" using assms(1,2) by (rule social_groups)
  have oku: "omap_ok (character_groups chu)"
    using assms(1,3) r has_friend_accept(2) [OF ok] by (auto simp: social_def split: if_splits)
  have one: "friends_of ?d w = (if w = r then insert u (friends_of d w) else friends_of d w)" for w
    using r has_friend_accept(1) [OF ok] friends_of_row [OF assms(2)] by (auto simp: friends_of_put)
  have "friends_of (put_character u (accept_friend now r chu) ?d) w = (if w = u then insert r (friends_of ?d w) else friends_of ?d w)" for w
    using u has_friend_accept(1) [OF oku] friends_of_row [OF assms(3)] by (auto simp: friends_of_put)
  moreover have "omap_ok (character_groups ch)"
    if "get_row (dd_characters (put_character u (accept_friend now r chu) ?d)) w = Some ch" for w ch
    using that assms(1) r u has_friend_accept(2) [OF ok] has_friend_accept(2) [OF oku]
    by (auto simp: social_def split: if_splits)
  ultimately show ?thesis using assms(1) one by (auto simp: social_def)
qed

definition unfriend :: "uid \<Rightarrow> character_info \<Rightarrow> character_info" where
  "unfriend u ch = set_groups (delete_friend u (character_groups ch)) ch"

lemma unfriend_friends:
  "has_friend v (character_groups (unfriend u ch)) \<longleftrightarrow> v \<noteq> u \<and> has_friend v (character_groups ch)"
  "omap_ok (character_groups (unfriend u ch)) \<longleftrightarrow> omap_ok (character_groups ch)"
  by (simp_all add: unfriend_def has_friend_delete keys_delete_friend)

lemma friends_unfriend:
  assumes "get_row (dd_characters d) t = Some ch"
  shows "friends_of (put_character t (unfriend u ch) d) w = (if w = t then friends_of d w - {u} else friends_of d w)"
  using get_row_uid [OF assms] friends_of_row [OF assms] by (auto simp: friends_of_put unfriend_friends)

lemma social_unfriend:
  assumes "social d" "get_row (dd_characters d) t = Some ch"
  shows "get_row (dd_characters (put_character t (unfriend u ch) d)) u = None \<Longrightarrow> social (put_character t (unfriend u ch) d)"
    and "get_row (dd_characters (put_character t (unfriend u ch) d)) u = Some chu \<Longrightarrow>
      social (put_character u (unfriend t chu) (put_character t (unfriend u ch) d))"
proof -
  let ?d = "put_character t (unfriend u ch) d"
  have t: "t \<noteq> InvalidUid" using assms(2) by (rule get_row_uid)
  have oks: "omap_ok (character_groups c)" if "get_row (dd_characters ?d) w = Some c" for w c
    using that assms t by (auto simp: social_def unfriend_friends split: if_splits)
  show "social ?d" if "get_row (dd_characters ?d) u = None"
  proof -
    have "friends_of d u = {}" using that t by (auto simp: friends_of_def split: if_splits)
    with assms(1) have "u \<notin> friends_of d t" by (auto simp: social_def)
    with assms(1) have "friends_of ?d w = friends_of d w" for w using friends_unfriend [OF assms(2), of u w] by auto
    with assms(1) oks show ?thesis by (simp add: social_def)
  qed
  show "social (put_character u (unfriend t chu) ?d)" if row: "get_row (dd_characters ?d) u = Some chu"
  proof -
    have "omap_ok (character_groups c)" if "get_row (dd_characters (put_character u (unfriend t chu) ?d)) w = Some c" for w c
      using that oks [OF row] oks [of w c] by (auto simp: unfriend_friends split: if_splits)
    with assms(1) show ?thesis
      using friends_unfriend [OF assms(2)] friends_unfriend [OF row] by (auto simp: social_def)
  qed
qed

text \<open>The commands that change friends and groups.\<close>

lemma preserves_introduce: "social_state s \<Longrightarrow> wp (introduce_friends c x n r rn) (\<lambda>_. social_state) social_state s"
  by (rule wp_preserves [OF social_basic(9)]) auto

lemma preserves_tell: "social_state s \<Longrightarrow> wp (tell_character u out) (\<lambda>_. social_state) social_state s"
  by (rule wp_preserves [OF social_basic(8)]) auto

lemma social_BuddyAddReply: "preserves social_state (HandleChatterBuddyAddReply env c cmd)"
  unfolding HandleChatterBuddyAddReply_def Let_def
  by (rule preserves_wpI)
    (auto simp: wp_simps social_groups intro!: social_befriend social_same_friends preserves_introduce split: option.splits)

lemma social_BuddyDelete: "preserves social_state (HandleChatterBuddyDelete c cmd)"
  unfolding HandleChatterBuddyDelete_def Let_def unfriend_def [symmetric]
  by (rule preserves_wpI)
    (auto simp: wp_simps intro!: social_unfriend preserves_tell split: option.splits)

text \<open>New groups with the same friends in them.\<close>

definition same_friends :: "(uid, contact_group) omap \<Rightarrow> (uid, contact_group) omap \<Rightarrow> bool" where
  "same_friends gs hs \<longleftrightarrow> (omap_ok gs \<longrightarrow> omap_ok hs \<and> (\<forall>v. has_friend v hs = has_friend v gs))"

lemma same_friends_intros:
  "move_friend u target gs = Inr hs \<Longrightarrow> same_friends gs hs" "add_group now name gs = (k, hs) \<Longrightarrow> same_friends gs hs"
  "rename_group k name gs = Inr hs \<Longrightarrow> same_friends gs hs"
  "delete_group k gs = Inr hs \<Longrightarrow> k \<noteq> FriendsCategoryUid \<Longrightarrow> same_friends gs hs"
  unfolding same_friends_def
  by (blast dest: has_friend_move, blast dest: has_friend_add, blast dest: has_friend_rename, blast dest: has_friend_group_deleted)

lemma social_regroup:
  "social d \<Longrightarrow> get_row (dd_characters d) u = Some ch \<Longrightarrow> same_friends (character_groups ch) hs \<Longrightarrow>
     social (put_character u (set_groups hs ch) d)"
  by (rule social_same_friends) (auto simp: same_friends_def social_groups)

lemma social_groups_commands:
  "preserves social_state (HandleChatterBuddyMove c move)" "preserves social_state (HandleChatterGroupAdd env c add)"
  "preserves social_state (HandleChatterGroupRename c rename)"
  "ChatCmdGroupDelete_groupUid deletion \<noteq> FriendsCategoryUid \<Longrightarrow> preserves social_state (HandleChatterGroupDelete c deletion)"
proof -
  show "preserves social_state (HandleChatterBuddyMove c move)"
    unfolding HandleChatterBuddyMove_def
    by (rule preserves_wpI) (simp add: wp_simps social_regroup same_friends_intros split: option.splits sum.splits)
  show "preserves social_state (HandleChatterGroupAdd env c add)"
    unfolding HandleChatterGroupAdd_def
    by (rule preserves_wpI) (simp add: wp_simps social_regroup same_friends_intros split: option.splits prod.splits)
  show "preserves social_state (HandleChatterGroupRename c rename)"
    unfolding HandleChatterGroupRename_def
    by (rule preserves_wpI) (simp add: wp_simps social_regroup same_friends_intros split: option.splits sum.splits)
  show "preserves social_state (HandleChatterGroupDelete c deletion)"
    if "ChatCmdGroupDelete_groupUid deletion \<noteq> FriendsCategoryUid"
    using that unfolding HandleChatterGroupDelete_def
    by - (rule preserves_wpI, simp add: wp_simps social_regroup same_friends_intros split: option.splits sum.splits)
qed

section \<open>Runs\<close>

datatype messenger_event =
    Chat_Connected client_id
  | Chat_Disconnected client_id
  | Chat_Data client_id u16 bytes

fun messenger_step :: "icu \<Rightarrow> messenger_env \<Rightarrow> messenger_event \<Rightarrow> messenger \<Rightarrow> messenger" where
  "messenger_step cv env (Chat_Connected c) s = snd (HandleMessengerConnected c s)"
| "messenger_step cv env (Chat_Disconnected c) s = snd (HandleMessengerDisconnected c s)"
| "messenger_step cv env (Chat_Data c i data) s = chatter_dispatch (messenger_handlers cv env) c i data s"

text \<open>A command that deletes the group of the friends.\<close>

fun deletes_friends :: "messenger_event \<Rightarrow> bool" where
  "deletes_friends (Chat_Data c i data) \<longleftrightarrow> i = 0x15 \<and> (case ChatCmdGroupDelete_Read (stream_of data) of
     Inl _ \<Rightarrow> False | Inr (cmd, _) \<Rightarrow> ChatCmdGroupDelete_groupUid cmd = FriendsCategoryUid)"
| "deletes_friends _ \<longleftrightarrow> False"

lemma social_register:
  "(\<And>cmd st. reader (stream_of data) = Inr (cmd, st) \<Longrightarrow> preserves social_state (handler c cmd)) \<Longrightarrow> social_state s \<Longrightarrow>
     social_state (register_chat reader handler c data s)"
  by (auto simp: register_chat_def preserves_def split: sum.splits)

lemma social_step:
  assumes "social_state s" "\<not> deletes_friends e"
  shows "social_state (messenger_step cv env e s)"
proof (cases e)
  case (Chat_Data c i data)
  note handlers = social_handlers social_BuddyAddReply social_BuddyDelete social_groups_commands(1-3) social_basic(10)
  show ?thesis
  proof (cases "messenger_handlers cv env i")
    case (Some h)
    then have "(i, h) \<in> set (messenger_commands cv env)" by (simp add: messenger_handlers_def map_of_SomeD)
    then have "social_state (h c data s)"
      using assms Chat_Data unfolding messenger_commands_def
      by (auto intro!: social_register handlers social_groups_commands(4) split: sum.splits)
    with Some Chat_Data show ?thesis by (simp add: chatter_dispatch_def)
  qed (use assms Chat_Data in \<open>simp add: chatter_dispatch_def\<close>)
qed (use assms social_basic(11,12) in \<open>auto simp: preserves_def\<close>)

text \<open>C16: Friendship is mutual: from a state in which everybody is a friend of its friends, whatever clients connect, send and
  disconnect, everybody stays a friend of its friends, unless somebody deletes the group with the number zero.\<close>

theorem friends_stay_mutual:
  assumes "social (me_data s)" "\<forall>(cv, env, e) \<in> set events. \<not> deletes_friends e"
    and "v \<in> friends_of (me_data (fold (\<lambda>(cv, env, e). messenger_step cv env e) events s)) u"
  shows "u \<in> friends_of (me_data (fold (\<lambda>(cv, env, e). messenger_step cv env e) events s)) v"
proof -
  have "social_state (fold (\<lambda>(cv, env, e). messenger_step cv env e) events s)"
    using assms(1,2) by (induction events arbitrary: s) (auto simp: social_step)
  with assms(3) show ?thesis by (simp add: social_def)
qed

text \<open>A state in which the characters 2 and 3 are friends and client 1 is the character 2.\<close>

definition befriended :: "uid \<Rightarrow> uid \<Rightarrow> character_info" where
  "befriended u v = default_character\<lparr>ci_uid := u, ci_contacts :=
     \<lparr>cn_pending = [], cn_groups = [(0, \<lparr>cg_uid = 0, cg_name = [], cg_members = [v], cg_createdAt = 0\<rparr>)]\<rparr>\<rparr>"

definition two_friends :: messenger where
  "two_friends = \<lparr>me_clients = [(1, new_context\<lparr>mc_isAuthenticated := True, mc_characterUid := 2\<rparr>)],
     me_data = empty_director\<lparr>dd_characters := put_row 2 (befriended 2 3) (put_row 3 (befriended 3 2) empty_table)\<rparr>,
     me_otp = \<lparr>os_codes = [], os_ltks = []\<rparr>, me_sent = []\<rparr>"

definition quiet_env :: messenger_env where
  "quiet_env = \<lparr>mv_now = 0, mv_hash = \<lambda>u k. ucast (u XOR k), mv_uid_of_name = \<lambda>_. 0, mv_draw = 7, mv_address = \<lambda>_. 0,
     mv_privateChat = (False, [], 0), mv_allChat = (False, [], 0), mv_grouped = \<lambda>_. [], mv_percent = \<lambda>_. []\<rparr>"

lemma two_friends_rows:
  "get_row (dd_characters (me_data two_friends)) w = (if w = 2 then Some (befriended 2 3) else if w = 3 then Some (befriended 3 2) else None)"
  by (simp add: two_friends_def empty_table_def empty_director_def get_row_def put_row_def umap_put_def)

lemma befriended_groups:
  "has_friend w (character_groups (befriended u v)) \<longleftrightarrow> w = v" "omap_ok (character_groups (befriended u v))"
  "map_of (character_groups (befriended u v)) 0 = Some \<lparr>cg_uid = 0, cg_name = [], cg_members = [v], cg_createdAt = 0\<rparr>"
  "omap_erase 0 (character_groups (befriended u v)) = []"
  by (simp_all add: befriended_def omap_ok_def omap_erase_def)

lemma two_friends_social: "social (me_data two_friends)"
  by (auto simp: social_def friends_of_def two_friends_rows befriended_groups split: if_splits option.splits)

lemma friends_stay_mutual_witness:
  "3 \<in> friends_of (me_data (fold (\<lambda>(cv, env, e). messenger_step cv env e)
      [(plain_icu, quiet_env, Chat_Connected 4), (plain_icu, quiet_env, Chat_Disconnected 4)] two_friends)) 2"
proof (rule friends_stay_mutual [OF two_friends_social])
  show "2 \<in> friends_of (me_data (fold (\<lambda>(cv, env, e). messenger_step cv env e)
      [(plain_icu, quiet_env, Chat_Connected 4), (plain_icu, quiet_env, Chat_Disconnected 4)] two_friends)) 3"
    by (simp add: two_friends_def HandleMessengerConnected_def HandleMessengerDisconnected_def HandleChatterUpdateState_def
        act_defs GetMessengerContext_def change_context_def view_character_def view_row_def on_data_def queue_chat_def
        umap_put_def umap_erase_def new_context_def get_row_def put_row_def empty_table_def friends_of_def befriended_def)
qed simp

text \<open>C26: The group with the number zero is the one its friends are in, and nothing keeps a client from deleting it: then the
  character has lost every friend that is in no other group, while it is still the friend of each of them.\<close>

theorem friends_group_deleted:
  assumes "social (me_data s)" "map_of (me_clients s) c = Some x" "mc_isAuthenticated x"
    and "get_row (dd_characters (me_data s)) (mc_characterUid x) = Some ch"
    and "map_of (character_groups ch) 0 = Some g" "v \<in> set (cg_members g)" "v \<noteq> mc_characterUid x"
    and "\<not> has_friend v (omap_erase 0 (character_groups ch))"
    and "s' = snd (HandleChatterGroupDelete c (ChatCmdGroupDelete 0) s)"
  shows "v \<notin> friends_of (me_data s') (mc_characterUid x) \<and> mc_characterUid x \<in> friends_of (me_data s') v"
proof -
  let ?u = "mc_characterUid x"
  have ok: "omap_ok (character_groups ch)" using assms(1,4) by (rule social_groups)
  have u: "?u \<noteq> InvalidUid" using assms(4) by (rule get_row_uid)
  have "v \<in> friends_of (me_data s) ?u"
    using assms(6) has_friend_at [OF ok assms(5)] by (simp add: friends_of_row [OF assms(4)])
  with assms(1) have inverse: "?u \<in> friends_of (me_data s) v" by (simp add: social_def)
  obtain hs where hs: "delete_group 0 (character_groups ch) = Inr hs" "\<not> has_friend v hs"
  proof
    show "delete_group 0 (character_groups ch) = Inr (omap_erase 0 (omap_put 0
       (g\<lparr>cg_members := fold insort_insert (cg_members g) (cg_members g)\<rparr>) (character_groups ch)))"
      using assms(5) by (simp add: delete_group_def)
    show "\<not> has_friend v (omap_erase 0 (omap_put 0
       (g\<lparr>cg_members := fold insort_insert (cg_members g) (cg_members g)\<rparr>) (character_groups ch)))"
      using assms(8) ok by (subst has_friend_cong [of _ "omap_erase 0 (character_groups ch)"]) auto
  qed
  have "me_data s' = put_character ?u (set_groups hs ch) (me_data s)"
    using assms(2-4) hs(1) unfolding assms(9)
    by (simp add: HandleChatterGroupDelete_def seq_def GetMessengerContext_def view_character_def view_row_def on_data_def
        change_character_def change_row_def queue_chat_def modify_def put_character_def)
  with inverse hs(2) u assms(7) show ?thesis by (simp add: friends_of_put)
qed

lemma friends_group_deleted_witness:
  "3 \<notin> friends_of (me_data (snd (HandleChatterGroupDelete 1 (ChatCmdGroupDelete 0) two_friends))) 2
   \<and> 2 \<in> friends_of (me_data (snd (HandleChatterGroupDelete 1 (ChatCmdGroupDelete 0) two_friends))) 3"
  using friends_group_deleted [OF two_friends_social, of 1 "new_context\<lparr>mc_isAuthenticated := True, mc_characterUid := 2\<rparr>"
      "befriended 2 3" "\<lparr>cg_uid = 0, cg_name = [], cg_members = [3], cg_createdAt = 0\<rparr>" 3]
  by (simp add: two_friends_rows befriended_groups) (simp add: two_friends_def)

section \<open>Clients that have not logged in\<close>

lemma blocked:
  assumes "\<forall>x. map_of (me_clients s) c = Some x \<longrightarrow> \<not> mc_isAuthenticated x"
  shows "snd (seq (GetMessengerContext c True) f s) = s" "snd (HandleChatterUpdateState c cmd s) = s"
  using assms by (auto simp: seq_def GetMessengerContext_def HandleChatterUpdateState_def pure_def split: option.splits)

text \<open>What such a client's command does: it may be sent something, and that is all.\<close>

definition only_answers :: "client_id \<Rightarrow> messenger \<Rightarrow> messenger \<Rightarrow> bool" where
  "only_answers c s s' \<longleftrightarrow> (\<exists>outs. s' = s\<lparr>me_sent := me_sent s @ map (Pair c) outs\<rparr>)"

lemma only_answers_simps: "only_answers c s s" "only_answers c s (snd (queue_chat c out s))"
  unfolding only_answers_def by (rule exI [of _ "[]"], simp) (rule exI [of _ "[out]"], simp add: queue_chat_def modify_def)

lemma only_answers_register:
  "(\<And>cmd. only_answers c s (snd (handler c cmd s))) \<Longrightarrow> only_answers c s (register_chat reader handler c data s)"
  by (simp add: register_chat_def only_answers_simps split: sum.splits)

lemma only_answers_handlers:
  assumes "\<forall>x. map_of (me_clients s) c = Some x \<longrightarrow> \<not> mc_isAuthenticated x"
  shows "only_answers c s (snd (HandleChatterBuddyAdd env c add s))" "only_answers c s (snd (HandleChatterBuddyAddReply env c reply s))"
    "only_answers c s (snd (HandleChatterBuddyDelete c del s))" "only_answers c s (snd (HandleChatterBuddyMove c move s))"
    "only_answers c s (snd (HandleChatterGroupAdd env c gadd s))" "only_answers c s (snd (HandleChatterGroupRename c ren s))"
    "only_answers c s (snd (HandleChatterGroupDelete c gdel s))" "only_answers c s (snd (HandleChatterLetterList c listing s))"
    "only_answers c s (snd (HandleChatterLetterSend env c letter s))" "only_answers c s (snd (HandleChatterLetterRead c reading s))"
    "only_answers c s (snd (HandleChatterLetterDelete c ldel s))" "only_answers c s (snd (HandleChatterUpdateState c upd s))"
    "only_answers c s (snd (HandleChatterChatInvite env c chat s))" "only_answers c s (snd (HandleChatterChannelInfo env c s))"
    "only_answers c s (snd (HandleChatterGuildLogin c login s))" "only_answers c s (snd (HandleChatterGameInvite c game s))"
  unfolding HandleChatterBuddyAdd_def HandleChatterBuddyAddReply_def HandleChatterBuddyDelete_def HandleChatterBuddyMove_def
    HandleChatterGroupAdd_def HandleChatterGroupRename_def HandleChatterGroupDelete_def HandleChatterLetterList_def
    HandleChatterLetterSend_def HandleChatterLetterRead_def HandleChatterLetterDelete_def HandleChatterChatInvite_def
    HandleChatterChannelInfo_def HandleChatterGuildLogin_def HandleChatterGameInvite_def Let_def
  by (simp_all only: blocked [OF assms] only_answers_simps if_distrib [of "\<lambda>m. snd (m s)"] if_distrib [of "only_answers c s"]
      if_True if_False simp_thms if_cancel)

text \<open>A login whose code is not accepted takes the context of the client away.\<close>

definition valid_login :: "icu \<Rightarrow> messenger_env \<Rightarrow> u16 \<Rightarrow> bytes \<Rightarrow> messenger \<Rightarrow> bool" where
  "valid_login cv env i data s \<longleftrightarrow> i = 0x1 \<and>
     (case ChatCmdLogin_Read cv (stream_of data) of
        Inl _ \<Rightarrow> False
      | Inr (cmd, _) \<Rightarrow> fst (AuthorizeCode (mv_hash env (ChatCmdLogin_characterUid cmd) MessengerOtpConstant)
          (ChatCmdLogin_code cmd) (mv_now env) (me_otp s)))"

lemma failed_login:
  assumes "\<forall>x. map_of (me_clients s) c = Some x \<longrightarrow> \<not> mc_isAuthenticated x"
    and "\<not> fst (AuthorizeCode (mv_hash env (ChatCmdLogin_characterUid cmd) MessengerOtpConstant)
      (ChatCmdLogin_code cmd) (mv_now env) (me_otp s))"
  shows "snd (HandleChatterLogin env c cmd s) = (if has_key (me_clients s) c
    then s\<lparr>me_sent := me_sent s @ [(c, Out_LoginAckCancel (ChatCmdLoginAckCancel LoginFailed))],
           me_clients := umap_erase c (me_clients s)\<rparr>
    else s)"
proof (cases "map_of (me_clients s) c")
  case None
  then show ?thesis by (simp add: HandleChatterLogin_def seq_def GetMessengerContext_def)
next
  case (Some x)
  with assms(1) have x: "\<not> mc_isAuthenticated x" by blast
  then have same: "x\<lparr>mc_isAuthenticated := False\<rparr> = x" by (cases x) simp
  have otp: "AuthorizeCode (mv_hash env (ChatCmdLogin_characterUid cmd) MessengerOtpConstant)
      (ChatCmdLogin_code cmd) (mv_now env) (me_otp s) = (False, me_otp s)"
    using assms(2) by (auto simp: AuthorizeCode_def Let_def split: option.splits)
  have "umap_put c x (me_clients s) = me_clients s" using Some by (simp add: umap_put_def update_triv)
  with Some x otp show ?thesis
    by (simp add: same HandleChatterLogin_def act_defs GetMessengerContext_def change_context_def queue_chat_def
        HandleMessengerDisconnected_def HandleChatterUpdateState_def)
qed



end
