(* ===== verification/Market_Registrations.thy ===== *)
theory Market_Registrations imports Breeding_Market Messenger_Friends begin

text \<open>
  What the breeding market promises: the loop that loads the registrations, the tax, and what a registration means
  for the records.
\<close>

section \<open>Loading\<close>

lemma initialize_loop_step:
  "us \<noteq> [] \<Longrightarrow> initialize_loop world n us i regs =
     (let i = (if i = length us then 0 else i) in
      case loaded_horse (world n) (us ! i) of
        None \<Rightarrow> initialize_loop world (Suc n) us (Suc i) regs
      | Some h \<Rightarrow> initialize_loop world (Suc n) (take i us @ drop (Suc i) us) i
          (if has_key regs h then regs else umap_put h (us ! i) regs))"
  by (subst initialize_loop.simps) (simp add: Let_def)

lemma initialize_loop_done [simp]: "initialize_loop world n [] i regs = Some regs"
  by (subst initialize_loop.simps) simp

text \<open>From turn \<open>N\<close> on every stallion is loaded, so each turn takes one off the list.\<close>

lemma initialize_loop_returns:
  "i \<le> length us \<Longrightarrow> \<forall>u \<in> set us. \<forall>n \<ge> N. loaded_horse (world n) u \<noteq> None \<Longrightarrow>
   \<exists>r. initialize_loop world n us i regs = Some r"
proof (induction "(N - n) + length us" arbitrary: n us i regs rule: less_induct)
  case less
  show ?case
  proof (cases "us = []")
    case False
    define j where "j = (if i = length us then 0 else i)"
    have j: "j < length us" using less.prems(1) False by (auto simp: j_def)
    show ?thesis
    proof (cases "loaded_horse (world n) (us ! j)")
      case None
      have "n < N" using less.prems(2) j None by (meson not_le nth_mem)
      then have "\<exists>r. initialize_loop world (Suc n) us (Suc j) regs = Some r"
        using less.prems j by (intro less.hyps) auto
      then show ?thesis using None by (simp add: initialize_loop_step [OF False] flip: j_def)
    next
      case (Some h)
      have "\<exists>r. initialize_loop world (Suc n) (take j us @ drop (Suc j) us) j regs' = Some r" for regs'
        using less.prems j by (intro less.hyps) (auto dest: in_set_takeD in_set_dropD)
      then show ?thesis using Some by (simp add: initialize_loop_step [OF False] Let_def flip: j_def)
    qed
  qed simp
qed

text \<open>If the loop returns, every stallion has been seen loaded, and every new registration is that of a stallion seen.\<close>

definition loading_result :: "(nat \<Rightarrow> data_director) \<Rightarrow> uid list \<Rightarrow> (uid, uid) umap \<Rightarrow> (uid, uid) umap \<Rightarrow> bool" where
  "loading_result world us regs r \<longleftrightarrow>
     (\<forall>u \<in> set us. \<exists>m h. loaded_horse (world m) u = Some h \<and> has_key r h)
     \<and> (\<forall>h u. map_of regs h = Some u \<longrightarrow> map_of r h = Some u)
     \<and> (\<forall>h u. map_of r h = Some u \<longrightarrow> map_of regs h = Some u \<or> u \<in> set us \<and> (\<exists>m. loaded_horse (world m) u = Some h))"

lemma loading_result_step:
  "j < length us \<Longrightarrow> loaded_horse (world m) (us ! j) = Some h \<Longrightarrow>
   loading_result world (take j us @ drop (Suc j) us) (if has_key regs h then regs else umap_put h (us ! j) regs) r \<Longrightarrow>
   loading_result world us regs r"
proof -
  assume j: "j < length us" and h: "loaded_horse (world m) (us ! j) = Some h"
    and r: "loading_result world (take j us @ drop (Suc j) us) (if has_key regs h then regs else umap_put h (us ! j) regs) r"
  have us: "set us = insert (us ! j) (set (take j us @ drop (Suc j) us))"
    using id_take_nth_drop [OF j] by (metis Un_insert_right list.simps(15) set_append)
  define regs' where "regs' = (if has_key regs h then regs else umap_put h (us ! j) regs)"
  have regs': "map_of regs' g = (if g = h \<and> \<not> has_key regs h then Some (us ! j) else map_of regs g)" for g
    by (simp add: regs'_def)
  have seen: "\<forall>u \<in> set (take j us @ drop (Suc j) us). \<exists>m h. loaded_horse (world m) u = Some h \<and> has_key r h"
    and kept: "\<And>g u. map_of regs' g = Some u \<Longrightarrow> map_of r g = Some u"
    and known: "\<And>g u. map_of r g = Some u \<Longrightarrow> map_of regs' g = Some u
      \<or> u \<in> set (take j us @ drop (Suc j) us) \<and> (\<exists>m. loaded_horse (world m) u = Some g)"
    using r unfolding loading_result_def regs'_def [symmetric] by blast+
  have "has_key regs' h" by (simp add: regs')
  then have "has_key r h" using kept by blast
  then have "\<forall>u \<in> set us. \<exists>m h. loaded_horse (world m) u = Some h \<and> has_key r h"
    unfolding us using seen h by blast
  moreover have "map_of r g = Some u" if "map_of regs g = Some u" for g u
    using that by (intro kept) (auto simp: regs')
  moreover have "map_of regs g = Some u \<or> u \<in> set us \<and> (\<exists>m. loaded_horse (world m) u = Some g)"
    if "map_of r g = Some u" for g u
    using known [OF that] h unfolding us regs' by (auto split: if_splits)
  ultimately show ?thesis unfolding loading_result_def by blast
qed

lemma initialize_loop_result_induct:
  "initialize_loop world n us i regs = Some r \<Longrightarrow> i \<le> length us \<longrightarrow> loading_result world us regs r"
proof (erule initialize_loop.raw_induct [rotated], rule impI)
  fix loop world n us i regs r
  assume IH: "\<And>world n us i regs r. loop world n us i regs = Some r \<Longrightarrow> i \<le> length us \<longrightarrow> loading_result world us regs r"
    and i: "i \<le> length us"
    and r: "(if us = [] then Some regs
      else let i = if i = length us then 0 else i; stallionUid = us ! i in
        case loaded_horse (world n) stallionUid of
          None \<Rightarrow> loop world (Suc n) us (Suc i) regs
        | Some h \<Rightarrow> loop world (Suc n) (take i us @ drop (Suc i) us) i
            (if has_key regs h then regs else umap_put h stallionUid regs)) = Some (r :: (uid, uid) umap)"
  show "loading_result world us regs r"
  proof (cases "us = []")
    case False
    define j where "j = (if i = length us then 0 else i)"
    have j: "j < length us" using i False by (auto simp: j_def)
    show ?thesis
    proof (cases "loaded_horse (world n) (us ! j)")
      case None
      then show ?thesis using r j False IH [of world "Suc n" us "Suc j" regs r] by (simp flip: j_def)
    next
      case (Some h)
      then show ?thesis using r j False
        by (intro loading_result_step [of j us world n h] IH [of world "Suc n", THEN mp]) (auto simp: Let_def simp flip: j_def)
    qed
  qed (use r in \<open>simp add: loading_result_def\<close>)
qed

lemma initialize_loop_result: "initialize_loop world n us i regs = Some r \<Longrightarrow> i \<le> length us \<Longrightarrow> loading_result world us regs r"
  using initialize_loop_result_induct by blast

text \<open>A record that has been loaded stays: nothing evicts one.\<close>

definition keeps_loaded :: "(nat \<Rightarrow> data_director) \<Rightarrow> bool" where
  "keeps_loaded world \<longleftrightarrow> (\<forall>n u. loaded_horse (world n) u \<noteq> None \<longrightarrow> loaded_horse (world (Suc n)) u \<noteq> None)"

lemma keeps_loaded_from:
  "keeps_loaded world \<Longrightarrow> loaded_horse (world m) u \<noteq> None \<Longrightarrow> m \<le> n \<Longrightarrow> loaded_horse (world n) u \<noteq> None"
  by (rotate_tac 2, induction n rule: dec_induct) (simp_all add: keeps_loaded_def)

lemma eventually_all_loaded:
  assumes "keeps_loaded world" "\<forall>u \<in> set us. \<exists>n. loaded_horse (world n) u \<noteq> None"
  shows "\<exists>N. \<forall>u \<in> set us. \<forall>n \<ge> N. loaded_horse (world n) u \<noteq> None"
  using assms(2)
proof (induction us)
  case (Cons u us)
  then obtain N M where N: "\<forall>v \<in> set us. \<forall>n \<ge> N. loaded_horse (world n) v \<noteq> None" and M: "loaded_horse (world M) u \<noteq> None"
    by auto
  show ?case using N keeps_loaded_from [OF assms(1) M] by (intro exI [of _ "max N M"]) auto
qed simp

text \<open>C18: the market opens exactly if the records of every stallion, its horse and its owner become available at some
  time: the loop of \<open>Initialize\<close> never gives up a stallion whose records cannot be loaded, and then never returns.\<close>

theorem market_opens_iff:
  assumes "keeps_loaded world"
  shows "Market_Initialize world us now s \<noteq> None \<longleftrightarrow> (\<forall>u \<in> set us. \<exists>n. loaded_horse (world n) u \<noteq> None)"
proof
  assume "Market_Initialize world us now s \<noteq> None"
  then show "\<forall>u \<in> set us. \<exists>n. loaded_horse (world n) u \<noteq> None"
    using initialize_loop_result [of world 0 us 0]
    by (fastforce simp: Market_Initialize_def loading_result_def)
next
  assume "\<forall>u \<in> set us. \<exists>n. loaded_horse (world n) u \<noteq> None"
  then obtain N where "\<forall>u \<in> set us. \<forall>n \<ge> N. loaded_horse (world n) u \<noteq> None"
    using eventually_all_loaded [OF assms] by blast
  then show "Market_Initialize world us now s \<noteq> None"
    using initialize_loop_returns [of 0 us N world 0] by (auto simp: Market_Initialize_def)
qed

definition stabled :: "stallion \<Rightarrow> data_director" where
  "stabled st = empty_director\<lparr>
     dd_stallions := put_row (st_uid st) st (empty_table\<lparr>tb_sequentialUid := st_uid st\<rparr>),
     dd_horses := put_row (st_horseUid st) (default_horse\<lparr>hi_type := Type_Stallion\<rparr>) empty_table,
     dd_characters := put_row (st_ownerUid st) (default_character\<lparr>ci_uid := st_ownerUid st, ci_horses := [st_horseUid st]\<rparr>)
       empty_table\<rparr>"

definition offered_stallion :: stallion where
  "offered_stallion = \<lparr>st_uid = 4, st_horseUid = 9, st_ownerUid = 3, st_breedingCharge = 5000, st_timesMated = 2,
     st_registeredAt = 0, st_expiresAt = MarketDuration\<rparr>"

definition closed_market :: market where
  "closed_market = \<lparr>bm_registrations = [], bm_scheduler = new_scheduler,
     bm_messenger = \<lparr>me_clients = [], me_data = empty_director, me_otp = \<lparr>os_codes = [], os_ltks = []\<rparr>, me_sent = []\<rparr>\<rparr>"

lemma market_opens_iff_witness:
  "Market_Initialize (\<lambda>n. if n < 2 then empty_director else stabled offered_stallion) [4] 0 closed_market \<noteq> None"
  by (subst market_opens_iff)
    (auto simp: keeps_loaded_def intro: exI [of _ 2] simp: loaded_horse_def in_cache_def stabled_def offered_stallion_def put_row_def empty_director_def
      empty_table_def split: if_splits)

section \<open>The tax\<close>

lemma bit_length_le: "n < 2 ^ k \<Longrightarrow> bit_length n \<le> k"
proof (induction k arbitrary: n)
  case (Suc k)
  then have "n div 2 < 2 ^ k" by auto
  then show ?case using Suc.IH [of "n div 2"] by (subst bit_length.simps) auto
qed (simp add: bit_length.simps)

lemma round_float_exact: "n < 2 ^ 24 \<Longrightarrow> round_float n = n"
  using bit_length_le [of n 24] by (simp add: round_float_def)

lemma round_float_bounds:
  assumes "bit_length n - 24 \<le> k"
  shows "n div 2 ^ k * 2 ^ k \<le> round_float n" "2 * round_float n \<le> 2 * n + 2 ^ k"
proof -
  define j where "j = bit_length n - 24"
  have j: "j \<le> k" using assms by (simp add: j_def)
  have n: "n div 2 ^ j * 2 ^ j + n mod 2 ^ j = n" by (rule div_mult_mod_eq)
  have down: "n div 2 ^ j * 2 ^ j \<le> round_float n" by (simp add: round_float_def Let_def flip: j_def)
  have "2 ^ k = 2 ^ (k - j) * (2::nat) ^ j" using j by (simp flip: power_add)
  then have "n div 2 ^ k * 2 ^ k = n div 2 ^ j div 2 ^ (k - j) * 2 ^ (k - j) * 2 ^ j"
    by (simp add: div_mult2_eq mult.assoc mult.commute [of "2 ^ (k - j)" "2 ^ j"])
  also have "\<dots> \<le> n div 2 ^ j * 2 ^ j" by simp
  finally show "n div 2 ^ k * 2 ^ k \<le> round_float n" using down by simp
  have "2 * round_float n \<le> 2 * n + 2 ^ j"
    using n unfolding round_float_def Let_def j_def [symmetric]
    by (cases "2 * (n mod 2 ^ j) > 2 ^ j \<or> 2 * (n mod 2 ^ j) = 2 ^ j \<and> odd (n div 2 ^ j)")
      (simp_all add: add_mult_distrib, linarith+)
  also have "(2::nat) ^ j \<le> 2 ^ k" using j by simp
  finally show "2 * round_float n \<le> 2 * n + 2 ^ k" by simp
qed

lemma earnings_tax_fifth:
  assumes r: "unat r < 2 ^ 24"
  shows "unat (earnings_tax r) = unat r div 5"
proof -
  define n where "n = unat r"
  define q where "q = n div 5"
  define s where "s = n mod 5"
  have n: "n = 5 * q + s" "s < 5" "n < 2 ^ 24" using r by (simp_all add: n_def q_def s_def)
  define m where "m = n * 13421773"
  have m: "m = q * 2 ^ 26 + (q + s * 13421773)" using n(1) by (simp add: m_def algebra_simps)
  have s: "s * 13421773 \<le> 53687092" using n(2) by simp
  have q: "q < 3355444" using n by simp
  have "m < 2 ^ 48" using n(3) by (simp add: m_def)
  then have bl: "bit_length m - 24 \<le> 24" using bit_length_le [of m 48] by simp
  have "bit_length m - 24 \<le> 26" using bl by simp
  note low = round_float_bounds(1) [OF this] and high = round_float_bounds(2) [OF bl]
  have "m div 2 ^ 26 = q" using m s q by simp
  then have "q * 2 ^ 26 \<le> round_float m" using low by simp
  moreover have "round_float m < (q + 1) * 2 ^ 26" using high m s q by simp
  ultimately have "round_float m div 2 ^ 26 = q" by (intro div_nat_eqI) simp_all
  then have "earnings_tax r = of_nat q" using n(3) by (simp add: earnings_tax_def round_float_exact m_def flip: n_def)
  then show ?thesis using q by (simp add: unat_of_nat q_def n_def)
qed

text \<open>C28: as long as the revenue is below \<open>2 ^ 24\<close>, the single precision tax is exactly a fifth of it, rounded down: the
  player is paid the rest.\<close>

theorem earnings_four_fifths:
  assumes "uint (st_timesMated st) * uint (st_breedingCharge st) < 2 ^ 24"
  shows "uint (ea_earnings (stallion_earnings st)) =
    uint (st_timesMated st) * uint (st_breedingCharge st) - uint (st_timesMated st) * uint (st_breedingCharge st) div 5"
proof -
  define r where "r = st_timesMated st * st_breedingCharge st"
  have r: "uint r = uint (st_timesMated st) * uint (st_breedingCharge st)"
    unfolding r_def uint_word_ariths using assms by (intro mod_pos_pos_trivial) simp_all
  have "unat r < 2 ^ 24" using assms by (simp add: unat_eq_nat_uint r nat_less_iff)
  then have tax: "uint (earnings_tax r) = uint r div 5"
    using earnings_tax_fifth [of r] by (metis of_nat_numeral uint_nat zdiv_int)
  have "uint (r - earnings_tax r) = uint r - uint (earnings_tax r)"
    using uint_ge_0 [of r] unfolding uint_sub_if' tax by presburger
  then show ?thesis by (simp add: stallion_earnings_def tax r flip: r_def)
qed

lemma earnings_four_fifths_witness: "uint (ea_earnings (stallion_earnings offered_stallion)) = 8000"
  by (subst earnings_four_fifths) (simp_all add: offered_stallion_def)

section \<open>Registrations and records\<close>

text \<open>The horses of a character, which no operation of the market changes.\<close>

definition horses_of :: "data_director \<Rightarrow> uid \<Rightarrow> uid list option" where
  "horses_of d c = map_option ci_horses (get_row (dd_characters d) c)"

definition stables_ok :: "data_director \<Rightarrow> bool" where
  "stables_ok d \<longleftrightarrow> (\<forall>c hs. horses_of d c = Some hs \<longrightarrow> distinct hs
     \<and> (\<forall>c' hs'. horses_of d c' = Some hs' \<and> c' \<noteq> c \<longrightarrow> set hs \<inter> set hs' = {}))"

text \<open>Every registration has its stallion record and its horse, which is a stallion; no player has more than three; and
  the numbers of the stallions have been given out.\<close>

definition registered_ok :: "(uid, uid) umap \<Rightarrow> data_director \<Rightarrow> bool" where
  "registered_ok regs d \<longleftrightarrow> (\<forall>h u. map_of regs h = Some u \<longrightarrow>
     (\<exists>st. in_cache (dd_stallions d) u = Some st \<and> st_horseUid st = h)
     \<and> (\<exists>horse. in_cache (dd_horses d) h = Some horse \<and> hi_type horse = Type_Stallion))"

definition limit_ok :: "(uid, uid) umap \<Rightarrow> data_director \<Rightarrow> bool" where
  "limit_ok regs d \<longleftrightarrow> (\<forall>c hs. horses_of d c = Some hs \<longrightarrow> length (filter (has_key regs) hs) \<le> MaxStallionsPerCharacter)"

definition numbers_ok :: "data_director \<Rightarrow> bool" where
  "numbers_ok d \<longleftrightarrow> (\<forall>u. in_cache (dd_stallions d) u \<noteq> None \<longrightarrow> u \<le> tb_sequentialUid (dd_stallions d))"

definition market_ok :: "market \<Rightarrow> bool" where
  "market_ok s \<longleftrightarrow> umap_ok (bm_registrations s) \<and> registered_ok (bm_registrations s) (bm_data s)
     \<and> limit_ok (bm_registrations s) (bm_data s) \<and> stables_ok (bm_data s) \<and> numbers_ok (bm_data s)"

lemma wp_market [wp_simps]:
  "wp (on_messenger m) Q E s =
     wp m (\<lambda>x w. Q x (s\<lparr>bm_messenger := w\<rparr>)) (\<lambda>w. E (s\<lparr>bm_messenger := w\<rparr>)) (bm_messenger s)"
  by (auto simp: wp_def on_messenger_def split: prod.splits sum.splits)

lemma wp_on_data [wp_simps]:
  "wp (on_data (change_row sel upd u f)) R E' w = (case get_row (sel (me_data w)) u of None \<Rightarrow> E' w
     | Some x \<Rightarrow> R () (w\<lparr>me_data := upd (put_row u (f x)) (me_data w)\<rparr>))"
  "wp (on_data (fresh_row sel upd g)) Q' E' w =
     (let t = sel (me_data w); u = tb_sequentialUid t + 1 in
      if tb_failing t then E' (w\<lparr>me_data := upd (\<lambda>_. t) (me_data w)\<rparr>)
      else Q' u (w\<lparr>me_data := upd (\<lambda>_. t\<lparr>tb_sequentialUid := u, tb_rows := umap_put u (g u) (tb_rows t)\<rparr>) (me_data w)\<rparr>))"
  by (auto simp: wp_def on_data_def change_row_def fresh_row_def create_row_def Let_def split: option.splits)

lemma get_row_in_cache: "get_row t u = Some x \<Longrightarrow> in_cache t u = Some x"
  by (simp add: get_row_def in_cache_def split: if_splits)

lemma in_cache_rows [simp]:
  "in_cache (put_row u x t) v = (if v = u then Some x else in_cache t v)"
  "in_cache (delete_row u t) v = (if v = u then None else in_cache t v)"
  "in_cache (t\<lparr>tb_sequentialUid := n, tb_rows := umap_put u x (tb_rows t)\<rparr>) v = (if v = u then Some x else in_cache t v)"
  by (simp_all add: in_cache_def put_row_def delete_row_def)

lemma stable_put_character:
  "get_row (dd_characters d) u = Some ch \<Longrightarrow> ci_horses ch' = ci_horses ch \<Longrightarrow> horses_of (put_character u ch' d) = horses_of d"
  by (auto simp: horses_of_def)

lemma put_character_frame [simp]:
  "dd_stallions (put_character u ch d) = dd_stallions d" "dd_horses (put_character u ch d) = dd_horses d"
  "dd_rewards (put_character u ch d) = dd_rewards d" "dd_mails (put_character u ch d) = dd_mails d"
  by (simp_all add: put_character_def)

lemma stable_frame [simp]:
  "horses_of (dd_stallions_update a d) = horses_of d" "horses_of (dd_horses_update b d) = horses_of d"
  "horses_of (dd_mails_update m d) = horses_of d" "horses_of (dd_rewards_update r d) = horses_of d"
  by (simp_all add: horses_of_def fun_eq_iff)

text \<open>Two states of the data that the market does not tell apart.\<close>

definition same_stable :: "data_director \<Rightarrow> data_director \<Rightarrow> bool" where
  "same_stable d d' \<longleftrightarrow> dd_stallions d' = dd_stallions d \<and> dd_horses d' = dd_horses d \<and> horses_of d' = horses_of d"

lemma same_stable_refl [simp]: "same_stable d d" by (simp add: same_stable_def)

lemma market_ok_same:
  "market_ok s \<Longrightarrow> same_stable (bm_data s) (bm_data s') \<Longrightarrow> bm_registrations s' = bm_registrations s \<Longrightarrow> market_ok s'"
  by (simp add: market_ok_def same_stable_def registered_ok_def limit_ok_def stables_ok_def numbers_ok_def)

text \<open>The payment keeps the records the market knows.\<close>

lemma pay_out_same: "preserves (\<lambda>w. same_stable d (me_data w)) (pay_out env c h e)"
proof -
  let ?P = "\<lambda>w. same_stable d (me_data w)"
  have change: "preserves ?P (change_character c (receive_mail m))" for c m
    by (rule preserves_wpI) (auto simp: wp_simps same_stable_def stable_put_character receive_mail_def split: option.splits)
  have mail: "preserves ?P (create_mail m)" for m
    by (rule preserves_wpI) (auto simp: wp_simps Let_def same_stable_def)
  have view: "preserves ?P (view_character u)" "preserves ?P (tell_character u out)" for u out
    by (rule preserves_wpI; auto simp: wp_simps split: option.splits)+
  have horse: "preserves ?P (on_data (view_row dd_horses u))" for u
    by (auto simp: preserves_def on_data_def view_row_def split: option.splits)
  have reward: "preserves ?P (on_data (\<lambda>d. let (u, d) = CreateReward n c k r d in (Inr u, d)))" for n c k r
    by (auto simp: preserves_def on_data_def CreateReward_def create_row_def Let_def same_stable_def split: option.splits)
  show ?thesis unfolding pay_out_def SendStallionReward_def Let_def [of "floor_seconds _"] Let_def [of "if _ then BreedingReward else _"]
    by (intro preserves_intros change mail view horse reward)
qed

text \<open>Entering a registration and striking it out.\<close>

lemma limit_put:
  assumes "limit_ok regs d" "stables_ok d" "horses_of d c = Some hs" "h \<in> set hs"
    "length (filter (has_key regs) hs) < MaxStallionsPerCharacter"
  shows "limit_ok (umap_put h u regs) d"
  unfolding limit_ok_def
proof (intro allI impI)
  fix c' hs' assume hs': "horses_of d c' = Some hs'"
  have split: "length (filter (has_key (umap_put h u regs)) gs) \<le> Suc (length (filter (has_key regs) gs))" if "distinct gs" for gs
    using that
  proof (induction gs)
    case (Cons a gs)
    then have "a = h \<Longrightarrow> filter (has_key (umap_put h u regs)) gs = filter (has_key regs) gs" by (intro filter_cong) auto
    then show ?case using Cons by auto
  qed simp
  show "length (filter (has_key (umap_put h u regs)) hs') \<le> MaxStallionsPerCharacter"
  proof (cases "c' = c")
    case True
    then have "hs' = hs" "distinct hs" using hs' assms(2,3) by (auto simp: stables_ok_def)
    then show ?thesis using split [of hs] assms(5) by simp
  next
    case False
    then have "h \<notin> set hs'" using hs' assms(2-4) unfolding stables_ok_def by blast
    then have "filter (has_key (umap_put h u regs)) hs' = filter (has_key regs) hs'" by (intro filter_cong) auto
    then show ?thesis using hs' assms(1) by (simp add: limit_ok_def)
  qed
qed

lemma limit_ok_same: "horses_of d' = horses_of d \<Longrightarrow> limit_ok regs d' \<longleftrightarrow> limit_ok regs d"
  by (simp add: limit_ok_def)

lemma limit_erase: "limit_ok regs d \<Longrightarrow> limit_ok (umap_erase h regs) d"
proof -
  have "length (filter (has_key (umap_erase h regs)) hs) \<le> length (filter (has_key regs) hs)" for hs
    by (induction hs) auto
  then show "limit_ok regs d \<Longrightarrow> limit_ok (umap_erase h regs) d"
    unfolding limit_ok_def by (meson le_trans)
qed

lemma fresh_number:
  "numbers_ok d \<Longrightarrow> unat (tb_sequentialUid (dd_stallions d)) + 1 < 2 ^ 32 \<Longrightarrow>
   in_cache (dd_stallions d) (tb_sequentialUid (dd_stallions d) + 1) = None"
proof (rule ccontr)
  let ?n = "tb_sequentialUid (dd_stallions d)"
  assume n: "numbers_ok d" "unat ?n + 1 < 2 ^ 32" "in_cache (dd_stallions d) (?n + 1) \<noteq> None"
  then have "?n + 1 \<le> ?n" by (auto simp: numbers_ok_def)
  then show False using n(2) by (simp add: word_le_nat_alt unat_word_ariths)
qed

lemma CanRegisterStallion_iff:
  "CanRegisterStallion c s \<longleftrightarrow>
     (\<exists>hs. horses_of (bm_data s) c = Some hs \<and> length (filter (has_key (bm_registrations s)) hs) < MaxStallionsPerCharacter)"
  by (auto simp: CanRegisterStallion_def horses_of_def split: option.splits)

text \<open>The state after the records of a new registration have been made.\<close>

lemma market_ok_register:
  assumes ok: "market_ok s" and fresh: "unat (tb_sequentialUid (dd_stallions (bm_data s))) + 1 < 2 ^ 32"
    and new: "map_of (bm_registrations s) h = None" "horses_of (bm_data s) c = Some hs" "h \<in> set hs"
      "length (filter (has_key (bm_registrations s)) hs) < MaxStallionsPerCharacter"
    and horse: "hi_type horse = Type_Stallion" and st: "st_horseUid st = h"
    and d: "dd_horses d = put_row h horse (dd_horses (bm_data s))"
      "dd_stallions d = (dd_stallions (bm_data s))\<lparr>tb_sequentialUid := tb_sequentialUid (dd_stallions (bm_data s)) + 1,
         tb_rows := umap_put (tb_sequentialUid (dd_stallions (bm_data s)) + 1) st (tb_rows (dd_stallions (bm_data s)))\<rparr>"
      "horses_of d = horses_of (bm_data s)"
    and s': "bm_data s' = d"
      "bm_registrations s' = umap_put h (tb_sequentialUid (dd_stallions (bm_data s)) + 1) (bm_registrations s)"
  shows "market_ok s'"
proof -
  let ?n = "tb_sequentialUid (dd_stallions (bm_data s))"
  have none: "in_cache (dd_stallions (bm_data s)) (?n + 1) = None" using ok fresh by (simp add: market_ok_def fresh_number)
  have "?n < ?n + 1" using fresh by (simp add: word_less_nat_alt unat_word_ariths)
  then have "numbers_ok d" using ok by (auto simp: numbers_ok_def d market_ok_def intro: order_trans less_imp_le)
  moreover have "registered_ok (bm_registrations s') d"
    using ok none horse st by (fastforce simp: registered_ok_def s' d market_ok_def)
  moreover have "limit_ok (bm_registrations s') d" "stables_ok d"
    using ok limit_put [OF _ _ new(2-4), of "?n + 1"] by (simp_all add: market_ok_def s' limit_ok_def stables_ok_def d(3))
  ultimately show ?thesis using ok by (simp add: market_ok_def s')
qed

lemma market_ok_typed:
  assumes "market_ok s" "bm_registrations s' = bm_registrations s" "dd_stallions (bm_data s') = dd_stallions (bm_data s)"
    "horses_of (bm_data s') = horses_of (bm_data s)" "dd_horses (bm_data s') = put_row h horse (dd_horses (bm_data s))"
    "hi_type horse = Type_Stallion"
  shows "market_ok s'"
  using assms by (auto simp: market_ok_def registered_ok_def limit_ok_def stables_ok_def numbers_ok_def)

abbreviation stallion_number :: "market \<Rightarrow> nat" where
  "stallion_number s \<equiv> unat (tb_sequentialUid (dd_stallions (bm_data s)))"

definition market_below :: "nat \<Rightarrow> market \<Rightarrow> bool" where
  "market_below n s \<longleftrightarrow> market_ok s \<and> stallion_number s \<le> n"

lemma stallion_number_Suc: "unat (x :: u32) + 1 < 2 ^ 32 \<Longrightarrow> unat (x + 1) = unat x + 1"
  by (simp add: unat_word_ariths)

lemma wp_pay_registration:
  "wp (pay_registration c fee) Q E w = (case get_row (dd_characters (me_data w)) c of
     None \<Rightarrow> E w
   | Some ch \<Rightarrow> if sint (ci_carrots ch) \<ge> sint fee
       then Q True (w\<lparr>me_data := put_character c (ci_carrots_update (\<lambda>x. x - fee) ch) (me_data w)\<rparr>) else Q False w)"
  by (auto simp: pay_registration_def wp_simps split: option.splits)

text \<open>The state after \<open>RegisterStallion\<close> has made the horse a stallion.\<close>

definition as_stallion :: "uid \<Rightarrow> horse_info \<Rightarrow> data_director \<Rightarrow> data_director" where
  "as_stallion h horse = dd_horses_update (put_row h (horse\<lparr>hi_type := Type_Stallion\<rparr>))"

definition put_stallion :: "(uid \<Rightarrow> stallion) \<Rightarrow> data_director \<Rightarrow> data_director" where
  "put_stallion st d = (let t = dd_stallions d; u = tb_sequentialUid t + 1 in
     d\<lparr>dd_stallions := t\<lparr>tb_sequentialUid := u, tb_rows := umap_put u (st u) (tb_rows t)\<rparr>\<rparr>)"

lemma as_stallion_frame [simp]:
  "dd_stallions (as_stallion h horse d) = dd_stallions d" "horses_of (as_stallion h horse d) = horses_of d"
  "dd_horses (as_stallion h horse d) = put_row h (horse\<lparr>hi_type := Type_Stallion\<rparr>) (dd_horses d)"
  "dd_horses (put_stallion st d) = dd_horses d" "horses_of (put_stallion st d) = horses_of d"
  by (simp_all add: as_stallion_def put_stallion_def Let_def horses_of_def fun_eq_iff)

lemma wp_RegisterStallion:
  "wp (RegisterStallion now c h fee) Q E w = (case get_row (dd_horses (me_data w)) h of
     None \<Rightarrow> Q InvalidUid w
   | Some horse \<Rightarrow>
       let d = as_stallion h horse (me_data w) in
       if tb_failing (dd_stallions d) then E (w\<lparr>me_data := d\<rparr>)
       else Q (tb_sequentialUid (dd_stallions d) + 1) (w\<lparr>me_data := put_stallion (new_stallion now c h fee) d\<rparr>))"
  by (auto simp: RegisterStallion_def change_horse_def wp_simps as_stallion_def put_stallion_def Let_def split: option.splits)

lemma register_below:
  assumes below: "market_below n s" and n: "Suc n < 2 ^ 32"
  shows "market_below (Suc n) (snd (HandleRegisterStallion now c h fee s))"
proof -
  have ok: "market_ok s" and number: "stallion_number s \<le> n" using below by (simp_all add: market_below_def)
  then have stay: "market_below (Suc n) s" by (simp add: market_below_def)
  have wp: "wp (HandleRegisterStallion now c h fee) (\<lambda>_. market_below (Suc n)) (market_below (Suc n)) s"
  proof (cases "has_key (bm_registrations s) h \<or> \<not> CanRegisterStallion c s")
    case True
    then show ?thesis using stay by (simp add: HandleRegisterStallion_def wp_simps)
  next
    case new: False
    then obtain ch where ch: "get_row (dd_characters (bm_data s)) c = Some ch"
      by (auto simp: CanRegisterStallion_def split: option.splits)
    show ?thesis
    proof (cases "\<exists>horse. get_row (dd_horses (bm_data s)) h = Some horse \<and> h \<in> set (ci_horses ch)")
      case False
      then show ?thesis using stay new ch
        by (cases "get_row (dd_horses (bm_data s)) h") (simp_all add: HandleRegisterStallion_def wp_simps)
    next
      case True
      then obtain horse where horse: "get_row (dd_horses (bm_data s)) h = Some horse" and mine: "h \<in> set (ci_horses ch)" by blast
      define paid where "paid = put_character c (ci_carrots_update (\<lambda>x. x - CalculateRegistrationFee fee) ch) (bm_data s)"
      have paid: "dd_stallions paid = dd_stallions (bm_data s)" "dd_horses paid = dd_horses (bm_data s)"
        "horses_of paid = horses_of (bm_data s)"
        using ch by (simp_all add: paid_def stable_put_character)
      let ?typed = "as_stallion h horse paid"
      let ?set = "\<lambda>d. s\<lparr>bm_messenger := (bm_messenger s)\<lparr>me_data := d\<rparr>\<rparr>"
      have "market_below (Suc n) (?set paid)"
        using market_ok_same [OF ok, of "?set paid"] number by (simp add: market_below_def same_stable_def paid)
      moreover have "market_below (Suc n) (?set ?typed)"
        using market_ok_typed [OF ok, of "?set ?typed"] number by (simp add: market_below_def paid)
      moreover have "market_below (Suc n) ((?set (put_stallion (new_stallion now c h fee) ?typed))\<lparr>bm_registrations :=
          umap_put h (tb_sequentialUid (dd_stallions (bm_data s)) + 1) (bm_registrations s)\<rparr>)"
        (is "market_below _ ?s'")
      proof -
        have "horses_of (bm_data s) c = Some (ci_horses ch)" using ch by (simp add: horses_of_def)
        moreover have "length (filter (has_key (bm_registrations s)) (ci_horses ch)) < MaxStallionsPerCharacter"
          using new ch by (simp add: CanRegisterStallion_def)
        ultimately have "market_ok ?s'"
          using new mine number n
          by (intro market_ok_register [OF ok, where horse = "horse\<lparr>hi_type := Type_Stallion\<rparr>" and d = "bm_data ?s'" and c = c
              and h = h and hs = "ci_horses ch"])
            (simp_all add: paid put_stallion_def Let_def new_stallion_def)
        then show ?thesis using number n by (simp add: market_below_def put_stallion_def Let_def paid stallion_number_Suc)
      qed
      moreover have "tb_sequentialUid (dd_stallions (bm_data s)) + 1 \<noteq> 0"
        using stallion_number_Suc [of "tb_sequentialUid (dd_stallions (bm_data s))"] number n by auto
      ultimately show ?thesis using new horse ch mine stay
        by (auto simp: HandleRegisterStallion_def wp_simps wp_pay_registration wp_RegisterStallion paid_def [symmetric] paid Let_def
            split: option.splits)
    qed
  qed
  then show ?thesis by (auto simp: wp_def split: prod.splits sum.splits)
qed

section \<open>The end of a registration\<close>

text \<open>The records after the end of a registration: the horse is an adult again, and its stallion record is gone.\<close>

definition retired :: "uid \<Rightarrow> uid \<Rightarrow> data_director \<Rightarrow> data_director \<Rightarrow> bool" where
  "retired h u d d' \<longleftrightarrow> horses_of d' = horses_of d \<and> dd_stallions d' = delete_row u (dd_stallions d)
     \<and> dd_horses d' = put_row h ((the (in_cache (dd_horses d) h))\<lparr>hi_type := Type_Adult\<rparr>) (dd_horses d)"

text \<open>A reward waits, and an unread letter in the inbox tells of it.\<close>

definition paid_by_letter :: "uid \<Rightarrow> u32 \<Rightarrow> data_director \<Rightarrow> bool" where
  "paid_by_letter c carrots d \<longleftrightarrow> (\<exists>claim r letter m ch.
     in_cache (dd_rewards d) claim = Some r \<and> rw_characterUid r = c \<and> rw_carrots r = carrots \<and> \<not> rw_isClaimed r
     \<and> get_row (dd_characters d) c = Some ch \<and> letter \<in> set (mx_inbox (ci_mailbox ch))
     \<and> in_cache (dd_mails d) letter = Some m \<and> ma_claimUid m = claim \<and> ma_type m = BreedingReward \<and> \<not> ma_isRead m)"

lemma wp_UnregisterStallion:
  assumes "in_cache (dd_stallions (me_data w)) u = Some st" "in_cache (dd_horses (me_data w)) h \<noteq> None"
    and "\<And>w'. retired h u (me_data w) (me_data w') \<Longrightarrow> (\<forall>c n. paid_by_letter c n
      (me_data (snd (pay_out env (st_ownerUid st) h (stallion_earnings st) w))) \<longrightarrow> paid_by_letter c n (me_data w')) \<Longrightarrow> Q () w'"
  shows "wp (UnregisterStallion env h u) Q E w"
proof -
  obtain horse where horse: "in_cache (dd_horses (me_data w)) h = Some horse" using assms(2) by auto
  define paid where "paid = snd (pay_out env (st_ownerUid st) h (stallion_earnings st) w)"
  have same: "same_stable (me_data w) (me_data paid)"
    unfolding paid_def by (rule preservesD [OF pay_out_same]) simp
  have pay: "wp (pay_out env (st_ownerUid st) h (stallion_earnings st)) R E w = R () paid" for R
    by (simp add: paid_def pay_out_def try_catch_def wp_def)
  show ?thesis unfolding UnregisterStallion_def
    using same by (simp add: wp_simps assms(1) horse pay) (rule assms(3), simp_all add: retired_def same_stable_def paid_by_letter_def flip: paid_def)
qed

lemma retired_ok:
  assumes "market_ok s" "map_of (bm_registrations s) h = Some u" "retired h u (bm_data s) (bm_data s')"
    "bm_registrations s' = umap_erase h (bm_registrations s)"
  shows "market_ok s'"
proof -
  have "registered_ok (bm_registrations s) (bm_data s)" using assms(1) by (simp add: market_ok_def)
  then have "registered_ok (bm_registrations s') (bm_data s')"
    unfolding registered_ok_def
  proof (intro allI impI)
    fix g v assume "map_of (bm_registrations s') g = Some v"
    then have g: "g \<noteq> h" "map_of (bm_registrations s) g = Some v" using assms(4) by (simp_all split: if_splits)
    obtain st where "in_cache (dd_stallions (bm_data s)) u = Some st" "st_horseUid st = h"
      using \<open>registered_ok _ _\<close> assms(2) unfolding registered_ok_def by blast
    moreover obtain st' where "in_cache (dd_stallions (bm_data s)) v = Some st'" "st_horseUid st' = g"
      using \<open>registered_ok _ _\<close> g(2) unfolding registered_ok_def by blast
    ultimately have "v \<noteq> u" using g(1) by auto
    then show "(\<exists>st. in_cache (dd_stallions (bm_data s')) v = Some st \<and> st_horseUid st = g)
        \<and> (\<exists>horse. in_cache (dd_horses (bm_data s')) g = Some horse \<and> hi_type horse = Type_Stallion)"
      using \<open>registered_ok _ _\<close> assms(3) g by (simp add: registered_ok_def retired_def)
  qed
  moreover have "limit_ok (bm_registrations s') (bm_data s')"
    using limit_erase [of "bm_registrations s" "bm_data s" h] assms
    by (simp add: market_ok_def retired_def limit_ok_same [of "bm_data s'" "bm_data s"])
  ultimately show ?thesis using assms
    by (auto simp: market_ok_def retired_def stables_ok_def numbers_ok_def delete_row_def in_cache_def)
qed

lemma retired_below:
  "market_below n s \<Longrightarrow> map_of (bm_registrations s) h = Some u \<Longrightarrow> retired h u (bm_data s) (bm_data s') \<Longrightarrow>
   bm_registrations s' = umap_erase h (bm_registrations s) \<Longrightarrow> market_below n s'"
  using retired_ok [of s h u s'] by (simp add: market_below_def retired_def delete_row_def)

lemma registered_rows:
  "market_below n s \<Longrightarrow> map_of (bm_registrations s) h = Some u \<Longrightarrow>
   \<exists>st horse. in_cache (dd_stallions (bm_data s)) u = Some st \<and> in_cache (dd_horses (bm_data s)) h = Some horse"
  unfolding market_below_def market_ok_def registered_ok_def by blast

lemma unregister_below:
  assumes "market_below n s"
  shows "market_below n (snd (HandleUnregisterStallion env c h s))"
proof -
  have "wp (HandleUnregisterStallion env c h) (\<lambda>_. market_below n) (market_below n) s"
  proof (cases "map_of (bm_registrations s) h")
    case None
    then show ?thesis using assms by (simp add: HandleUnregisterStallion_def wp_simps)
  next
    case (Some u)
    then obtain st horse where rows: "in_cache (dd_stallions (bm_data s)) u = Some st" "in_cache (dd_horses (bm_data s)) h = Some horse"
      using registered_rows assms by blast
    have "wp (UnregisterStallion env h u) (\<lambda>_ w. market_below n (s\<lparr>bm_messenger := w, bm_registrations :=
        umap_erase h (bm_registrations s)\<rparr>)) E (bm_messenger s)" for E
      by (rule wp_UnregisterStallion [of _ u st]) (simp_all add: rows retired_below [OF assms Some])
    then show ?thesis using assms Some rows
      by (auto simp: HandleUnregisterStallion_def wp_simps split: option.splits)
  qed
  then show ?thesis by (auto simp: wp_def split: prod.splits sum.splits)
qed

text \<open>The check ends the registrations of the list, one after the other.\<close>

definition end_registration :: "messenger_env \<Rightarrow> uid \<times> uid \<Rightarrow> unit market_act" where
  "end_registration env = (\<lambda>(h, u). seq (on_messenger (UnregisterStallion env h u)) (\<lambda>_.
     modify (\<lambda>s. s\<lparr>bm_registrations := umap_erase h (bm_registrations s)\<rparr>)))"

lemma RunExpirationCheck_eq:
  "RunExpirationCheck env s = for_each (expired_registrations (mv_now env) s) (end_registration env) s"
  by (simp add: RunExpirationCheck_def end_registration_def seq_def get_state_def)

lemma end_registrations:
  "market_below n s \<Longrightarrow> \<forall>(h, u) \<in> set xs. map_of (bm_registrations s) h = Some u \<Longrightarrow> distinct (map fst xs) \<Longrightarrow>
   wp (for_each xs (end_registration env)) (\<lambda>_ s'. market_below n s'
     \<and> bm_registrations s' = fold (\<lambda>(h, u). umap_erase h) xs (bm_registrations s)
     \<and> (\<forall>u. u \<notin> snd ` set xs \<longrightarrow> in_cache (dd_stallions (bm_data s')) u = in_cache (dd_stallions (bm_data s)) u)) E s"
proof (induction xs arbitrary: s)
  case (Cons x xs)
  obtain h u where x: "x = (h, u)" by (cases x)
  let ?done = "\<lambda>w. s\<lparr>bm_messenger := w, bm_registrations := umap_erase h (bm_registrations s)\<rparr>"
  have hu: "map_of (bm_registrations s) h = Some u" using Cons.prems(2) x by simp
  obtain st horse where rows: "in_cache (dd_stallions (bm_data s)) u = Some st" "in_cache (dd_horses (bm_data s)) h = Some horse"
    using registered_rows [OF Cons.prems(1) hu] by blast
  have step: "wp (for_each xs (end_registration env)) (\<lambda>_ s'. market_below n s'
      \<and> bm_registrations s' = fold (\<lambda>(h, u). umap_erase h) xs (umap_erase h (bm_registrations s))
      \<and> (\<forall>v. v \<notin> snd ` set (x # xs) \<longrightarrow> in_cache (dd_stallions (bm_data s')) v = in_cache (dd_stallions (bm_data s)) v)) E (?done w)"
    if "retired h u (bm_data s) (me_data w)" for w
  proof (rule wp_mono [OF Cons.IH])
    show "market_below n (?done w)" by (rule retired_below [OF Cons.prems(1) hu]) (use that in simp_all)
    show "\<forall>(h, u) \<in> set xs. map_of (bm_registrations (?done w)) h = Some u" using Cons.prems(2,3) x by (force simp: image_iff)
    show "distinct (map fst xs)" using Cons.prems(3) by simp
  qed (use that x in \<open>auto simp: retired_def\<close>)
  have unfold: "end_registration env (h, u) = seq (on_messenger (UnregisterStallion env h u)) (\<lambda>_.
     modify (\<lambda>s. s\<lparr>bm_registrations := umap_erase h (bm_registrations s)\<rparr>))"
    by (simp add: end_registration_def)
  show ?case unfolding for_each.simps x wp_seq unfold wp_market
  proof (rule wp_UnregisterStallion)
    fix w :: messenger assume "retired h u (me_data (bm_messenger s)) (me_data w)"
    then show "wp (modify (\<lambda>s. s\<lparr>bm_registrations := umap_erase h (bm_registrations s)\<rparr>)) (\<lambda>_. wp (for_each xs (end_registration env))
        (\<lambda>_ s'. market_below n s' \<and> bm_registrations s' = fold (\<lambda>(h, u). umap_erase h) ((h, u) # xs) (bm_registrations s)
          \<and> (\<forall>v. v \<notin> snd ` set ((h, u) # xs) \<longrightarrow> in_cache (dd_stallions (bm_data s')) v = in_cache (dd_stallions (bm_data s)) v)) E) E
        (s\<lparr>bm_messenger := w\<rparr>)"
      using step [of w] x by (simp add: wp_simps)
  qed (use rows in simp_all)
qed (simp add: wp_simps)

lemma umap_erase_filter: "umap_erase h m = filter (\<lambda>(g, u). g \<noteq> h) m"
  by (induction m) (auto simp: umap_erase_def)

lemma fold_erase: "fold (\<lambda>(h, u). umap_erase h) xs m = filter (\<lambda>(h, u). h \<notin> fst ` set xs) m"
  by (induction xs arbitrary: m) (auto simp: umap_erase_filter split_def intro: filter_cong)

lemma expired_registrations_from: "(h, u) \<in> set (expired_registrations now s) \<longleftrightarrow>
    (h, u) \<in> set (bm_registrations s) \<and> (\<exists>st. get_row (dd_stallions (bm_data s)) u = Some st \<and> now > st_expiresAt st)"
  by (auto simp: expired_registrations_def split: option.splits)

lemma expiration_check:
  assumes "market_below n s"
  shows "wp (RunExpirationCheck env) (\<lambda>_ s'. market_below n s' \<and> bm_registrations s' =
      filter (\<lambda>(h, u). h \<notin> fst ` set (expired_registrations (mv_now env) s)) (bm_registrations s)) E s"
proof -
  let ?xs = "expired_registrations (mv_now env) s"
  have ok: "umap_ok (bm_registrations s)" using assms by (simp add: market_below_def market_ok_def)
  have regs: "\<forall>(h, u) \<in> set ?xs. map_of (bm_registrations s) h = Some u"
    using ok by (auto simp: expired_registrations_from umap_ok_def)
  have dist: "distinct (map fst ?xs)"
    using ok by (simp add: expired_registrations_def umap_ok_def distinct_map_filter)
  have "wp (for_each ?xs (end_registration env)) (\<lambda>_ s'. market_below n s' \<and> bm_registrations s' =
      filter (\<lambda>(h, u). h \<notin> fst ` set ?xs) (bm_registrations s)) E s"
    by (rule wp_mono [OF end_registrations [OF assms regs dist]]) (simp_all add: fold_erase)
  then show ?thesis by (simp add: wp_def RunExpirationCheck_eq)
qed

text \<open>C27: the check ends exactly the registrations whose day is over and keeps all the others.\<close>

theorem expiration_check_exact:
  assumes "market_ok s"
  shows "bm_registrations (snd (RunExpirationCheck env s)) =
    filter (\<lambda>(h, u). case get_row (dd_stallions (bm_data s)) u of None \<Rightarrow> True | Some st \<Rightarrow> mv_now env \<le> st_expiresAt st)
      (bm_registrations s)"
proof -
  have below: "market_below (stallion_number s) s" using assms by (simp add: market_below_def)
  have "wp (RunExpirationCheck env) (\<lambda>_ s'. bm_registrations s' =
      filter (\<lambda>(h, u). h \<notin> fst ` set (expired_registrations (mv_now env) s)) (bm_registrations s)) (\<lambda>_. False) s"
    by (rule wp_mono [OF expiration_check [OF below]]) simp_all
  then have "bm_registrations (snd (RunExpirationCheck env s)) =
      filter (\<lambda>(h, u). h \<notin> fst ` set (expired_registrations (mv_now env) s)) (bm_registrations s)"
    by (auto simp: wp_def split: prod.splits sum.splits)
  also have "\<dots> = filter (\<lambda>(h, u). case get_row (dd_stallions (bm_data s)) u of None \<Rightarrow> True | Some st \<Rightarrow> mv_now env \<le> st_expiresAt st)
      (bm_registrations s)"
  proof (rule filter_cong [OF refl])
    fix x assume x: "x \<in> set (bm_registrations s)"
    obtain h u where hu: "x = (h, u)" by (cases x)
    have "v = u" if "(h, v) \<in> set (expired_registrations (mv_now env) s)" for v
      using that x hu assms by (auto simp: expired_registrations_from market_ok_def umap_ok_def dest: eq_key_imp_eq_value)
    then have "h \<in> fst ` set (expired_registrations (mv_now env) s) \<longleftrightarrow> (h, u) \<in> set (expired_registrations (mv_now env) s)"
      by force
    then show "(case x of (h, u) \<Rightarrow> h \<notin> fst ` set (expired_registrations (mv_now env) s)) =
        (case x of (h, u) \<Rightarrow> case get_row (dd_stallions (bm_data s)) u of None \<Rightarrow> True | Some st \<Rightarrow> mv_now env \<le> st_expiresAt st)"
      using x hu by (auto simp: expired_registrations_from not_less split: option.splits)
  qed
  finally show ?thesis .
qed

section \<open>Whole runs\<close>

datatype market_event =
    Register_Event time_point uid uid i32
  | Unregister_Event messenger_env uid uid
  | Tick_Event messenger_env

fun market_step :: "market_event \<Rightarrow> market \<Rightarrow> market" where
  "market_step (Register_Event now c h fee) s = snd (HandleRegisterStallion now c h fee s)"
| "market_step (Unregister_Event env c h) s = snd (HandleUnregisterStallion env c h s)"
| "market_step (Tick_Event env) s = snd (Market_Tick env s)"

lemma market_scheduler [simp]: "market_below n (s\<lparr>bm_scheduler := x\<rparr>) = market_below n s"
  by (simp add: market_below_def market_ok_def)

lemma tick_below:
  assumes "market_below n s"
  shows "market_below n (snd (Market_Tick env s))"
proof -
  have "market_below n (fst (snd (market_exec env t w)))" if "market_below n w" for t w
    using expiration_check [OF that, of env "market_below n"]
    by (auto simp: market_exec_def wp_def split: prod.splits sum.splits)
  then have "market_below n (snd (snd (Scheduler_Tick (market_exec env) (mv_now env) (bm_scheduler s) s)))"
    by (rule Scheduler_Tick_keeps [where P = "market_below n", OF assms])
  then show ?thesis by (auto simp: Market_Tick_def split: prod.splits)
qed

lemma market_below_mono: "market_below n s \<Longrightarrow> n \<le> m \<Longrightarrow> market_below m s"
  by (simp add: market_below_def)

lemma market_step_below: "market_below n s \<Longrightarrow> Suc n < 2 ^ 32 \<Longrightarrow> market_below (Suc n) (market_step e s)"
  by (cases e) (auto intro: register_below market_below_mono [OF unregister_below] market_below_mono [OF tick_below])

text \<open>C17: whatever players register and unregister and however the market ticks, every registration has its stallion record
  and a horse that is a stallion, and no player has more than three, as long as there are numbers for stallions.\<close>

theorem market_stays_ok:
  assumes "market_ok s" "stallion_number s + length es < 2 ^ 32"
  shows "market_ok (fold market_step es s)"
proof -
  have "market_below (n + length es) (fold market_step es s)" if "market_below n s" "n + length es < 2 ^ 32" for n s
    using that
  proof (induction es arbitrary: n s)
    case (Cons e es)
    then have "market_below (Suc n) (market_step e s)" by (intro market_step_below) simp_all
    then show ?case using Cons.IH [of "Suc n"] Cons.prems(2) by simp
  qed simp
  then show ?thesis using assms by (auto simp: market_below_def)
qed

definition open_market :: market where
  "open_market = closed_market\<lparr>bm_registrations := [(9, 4)],
     bm_messenger := (bm_messenger closed_market)\<lparr>me_data := stabled offered_stallion\<rparr>\<rparr>"

lemmas open_market_defs = open_market_def closed_market_def stabled_def offered_stallion_def put_row_def empty_table_def
  umap_put_def empty_director_def

lemma open_market_ok: "market_ok open_market" "stallion_number open_market = 4"
  by (auto simp: open_market_defs market_ok_def registered_ok_def limit_ok_def stables_ok_def numbers_ok_def horses_of_def
      in_cache_def get_row_def umap_ok_def MaxStallionsPerCharacter_def split: if_splits)

lemma expiration_check_exact_witness:
  "bm_registrations (snd (RunExpirationCheck (quiet_env\<lparr>mv_now := MarketDuration + 1\<rparr>) open_market)) = []"
  unfolding expiration_check_exact [OF open_market_ok(1)]
  by (simp add: open_market_defs get_row_def)

lemma market_stays_ok_witness:
  "market_ok (fold market_step [Unregister_Event quiet_env 3 9, Register_Event 5 3 9 5000, Tick_Event quiet_env] open_market)"
  by (rule market_stays_ok [OF open_market_ok(1)]) (simp add: open_market_ok)

section \<open>The payment\<close>

lemma wp_reward [wp_simps]:
  "wp (on_data (\<lambda>d. let (u, d) = CreateReward n c k r d in (Inr u, d))) Q E w =
     (let t = dd_rewards (me_data w); u = tb_sequentialUid t + 1 in
      if tb_failing t then Q InvalidUid w
      else Q u (w\<lparr>me_data := (me_data w)\<lparr>dd_rewards := t\<lparr>tb_sequentialUid := u, tb_rows := umap_put u
        \<lparr>rw_claimUid = u, rw_characterUid = c, rw_type = k, rw_carrots = r, rw_isClaimed = False, rw_createdAt = n, rw_claimedAt = 0\<rparr>
        (tb_rows t)\<rparr>\<rparr>\<rparr>))"
  by (simp add: wp_def on_data_def CreateReward_def create_row_def Let_def)

lemma wp_try_catch [wp_simps]: "wp (try_catch m) R E s = wp m (\<lambda>_. R ()) (R ()) s"
  by (simp add: wp_def try_catch_def split: prod.splits sum.splits)

lemma wp_view_row [wp_simps]:
  "wp (on_data (view_row sel u)) Q E w = (case get_row (sel (me_data w)) u of None \<Rightarrow> E w | Some x \<Rightarrow> Q x w)"
  by (simp add: wp_def on_data_def view_row_def split: option.splits)

lemma pay_out_pays:
  assumes "get_row (dd_characters (me_data w)) c = Some ch" "get_row (dd_horses (me_data w)) h = Some horse"
    "0 < ea_timesMated e" "\<not> tb_failing (dd_rewards (me_data w))" "\<not> tb_failing (dd_mails (me_data w))"
  shows "wp (pay_out env c h e) (\<lambda>_ w. paid_by_letter c (ea_earnings e) (me_data w)) E w"
proof -
  have c: "c \<noteq> InvalidUid" using assms(1) by (auto simp: get_row_def)
  let ?claim = "tb_sequentialUid (dd_rewards (me_data w)) + 1" and ?letter = "tb_sequentialUid (dd_mails (me_data w)) + 1"
  have paid: "paid_by_letter c (ea_earnings e) d"
    if "in_cache (dd_rewards d) ?claim = Some \<lparr>rw_claimUid = ?claim, rw_characterUid = c, rw_type = Reward_Breeding,
        rw_carrots = ea_earnings e, rw_isClaimed = False, rw_createdAt = mv_now env, rw_claimedAt = 0\<rparr>"
      "get_row (dd_characters d) c = Some (receive_mail ?letter ch)"
      "in_cache (dd_mails d) ?letter = Some (new_mail InvalidUid c BreedingReward ?claim t body ?letter)" for d t body
    using that unfolding paid_by_letter_def receive_mail_def new_mail_def by fastforce
  show ?thesis unfolding pay_out_def SendStallionReward_def
    using assms c by (auto simp: wp_simps wp_reward [unfolded Let_def] Let_def intro!: paid split: option.splits prod.splits)
qed

text \<open>C19: a player who ends the registration of a horse that has been mated gets a reward over the revenue less the tax and
  an unread letter to claim it with; the horse is an adult again and its registration and stallion record are gone.\<close>

theorem unregister_pays:
  assumes "market_ok s" and u: "map_of (bm_registrations s) h = Some u"
    and ch: "get_row (dd_characters (bm_data s)) c = Some ch" "h \<in> set (ci_horses ch)"
    and st: "in_cache (dd_stallions (bm_data s)) u = Some st" "st_ownerUid st = c" "0 < st_timesMated st"
    and h: "h \<noteq> InvalidUid" and works: "\<not> tb_failing (dd_rewards (bm_data s))" "\<not> tb_failing (dd_mails (bm_data s))"
  shows "\<exists>s'. HandleUnregisterStallion env c h s = (Inr True, s') \<and> paid_by_letter c (ea_earnings (stallion_earnings st)) (bm_data s')
    \<and> retired h u (bm_data s) (bm_data s') \<and> \<not> IsRegistered h s'"
proof -
  obtain horse where horse: "in_cache (dd_horses (bm_data s)) h = Some horse"
    using assms(1) u by (auto simp: market_ok_def registered_ok_def)
  then have row: "get_row (dd_horses (bm_data s)) h = Some horse" using h by (simp add: in_cache_def get_row_def)
  define paid where "paid = snd (pay_out env c h (stallion_earnings st) (bm_messenger s))"
  have "wp (pay_out env c h (stallion_earnings st)) (\<lambda>_ w. paid_by_letter c (ea_earnings (stallion_earnings st)) (me_data w))
      (\<lambda>_. False) (bm_messenger s)"
    using ch(1) row st(3) works by (intro pay_out_pays) (simp_all add: stallion_earnings_def Let_def)
  then have paid: "paid_by_letter c (ea_earnings (stallion_earnings st)) (me_data paid)"
    by (auto simp: paid_def wp_def split: prod.splits sum.splits)
  have "wp (UnregisterStallion env h u) (\<lambda>_ w. paid_by_letter c (ea_earnings (stallion_earnings st)) (me_data w)
      \<and> retired h u (bm_data s) (me_data w)) (\<lambda>_. False) (bm_messenger s)"
    by (rule wp_UnregisterStallion [of _ u st]) (use st horse paid in \<open>simp_all flip: paid_def\<close>)
  then have "wp (HandleUnregisterStallion env c h) (\<lambda>r s'. r \<and> paid_by_letter c (ea_earnings (stallion_earnings st)) (bm_data s')
      \<and> retired h u (bm_data s) (bm_data s') \<and> \<not> IsRegistered h s') (\<lambda>_. False) s"
    using u ch st horse by (simp add: HandleUnregisterStallion_def wp_simps IsRegistered_def)
  then show ?thesis by (auto simp: wp_def split: prod.splits sum.splits)
qed

lemma unregister_pays_witness:
  "\<exists>s'. HandleUnregisterStallion quiet_env 3 9 open_market = (Inr True, s')
    \<and> paid_by_letter 3 (ea_earnings (stallion_earnings offered_stallion)) (bm_data s') \<and> \<not> IsRegistered 9 s'"
proof -
  have "\<exists>ch. get_row (dd_characters (bm_data open_market)) 3 = Some ch \<and> 9 \<in> set (ci_horses ch)"
    by (simp add: open_market_defs get_row_def)
  then show ?thesis
    using unregister_pays [OF open_market_ok(1), of 9 4 3 _ offered_stallion quiet_env]
    by (fastforce simp: open_market_defs get_row_def in_cache_def)
qed

end
