(* ===== verification/Messenger_Letters.thy ===== *)
theory Messenger_Letters imports Messenger begin

text \<open>
  Letters: one that is sent arrives, and a client that pages through its inbox is shown every letter of it once.
\<close>

section \<open>Paging\<close>

text \<open>What the client is shown of a page of its inbox: the numbers of the letters, and whether there are more.\<close>

definition shown_page :: "chat_out \<Rightarrow> (uid list \<times> bool) option" where
  "shown_page out = (case out of
     Out_LetterListAckOk r \<Rightarrow> Some (map ChatCmdLetterListAckOk_InboxMail_uid (ChatCmdLetterListAckOk_inboxMails r),
       ChatCmdLetterListAckOk_MailboxInfo_hasMoreMail (ChatCmdLetterListAckOk_mailboxInfo r) \<noteq> 0)
   | _ \<Rightarrow> None)"

definition ask_page :: "client_id \<Rightarrow> uid \<Rightarrow> u32 \<Rightarrow> messenger \<Rightarrow> (uid list \<times> bool) option \<times> messenger" where
  "ask_page c lastMailUid wanted s =
     (let s' = snd (HandleChatterLetterList c (ChatCmdLetterList Folder_Inbox (ChatCmdLetterList_Request lastMailUid wanted)) s)
      in (if length (me_sent s') = Suc (length (me_sent s)) then shown_page (snd (last (me_sent s'))) else None, s'))"

text \<open>A client that asks for the letters after the last one it knows until it is told that there are no more; at most \<open>n\<close>
  times.\<close>

fun browse :: "nat \<Rightarrow> client_id \<Rightarrow> uid \<Rightarrow> u32 \<Rightarrow> messenger \<Rightarrow> uid list option" where
  "browse 0 c lastMailUid wanted s = None"
| "browse (Suc n) c lastMailUid wanted s =
     (case ask_page c lastMailUid wanted s of
        (None, s') \<Rightarrow> None
      | (Some (us, further), s') \<Rightarrow>
          if further then map_option (\<lambda>vs. us @ vs) (browse n c (last us) wanted s') else Some us)"

text \<open>A letter that can be listed.\<close>

definition listed :: "data_director \<Rightarrow> uid \<Rightarrow> bool" where
  "listed d u \<longleftrightarrow> (\<exists>m. get_row (dd_mails d) u = Some m \<and> ma_uid m = u \<and> \<not> ma_isDeleted m
     \<and> (if ma_from m = InvalidUid then ma_type m \<noteq> CanReply else get_row (dd_characters d) (ma_from m) \<noteq> None))"

lemma listing: "listed d u \<Longrightarrow> \<exists>m name. mail_listing d Folder_Inbox u = Inr (m, name) \<and> ma_uid m = u"
  by (cases "ma_type (the (get_row (dd_mails d) u))")
    (auto simp: listed_def mail_listing_def Let_def split: if_splits option.splits)

lemma listings: "\<forall>u \<in> set us. listed d u \<Longrightarrow> \<exists>ms. mail_listings d Folder_Inbox us = Inr ms \<and> map (ma_uid \<circ> fst) ms = us"
proof (induction us)
  case (Cons u us)
  then show ?case using listing [of d u] by fastforce
qed simp

lemma visible_listed: "\<forall>u \<in> set us. listed d u \<Longrightarrow> visible_mails d us = us"
  by (auto simp: visible_mails_def listed_def filter_id_conv)

lemma after_mail_suffix:
  "distinct (us @ vs) \<Longrightarrow> 0 \<notin> set us \<Longrightarrow> after_mail (if us = [] then 0 else last us) (us @ vs) = vs"
proof (induction us rule: rev_induct)
  case (snoc u us)
  then have "u \<notin> set us" "u \<noteq> 0" by auto
  then have "dropWhile (\<lambda>w. w \<noteq> u) (us @ u # vs) = u # vs" by (induction us) auto
  with \<open>u \<noteq> 0\<close> show ?case by (simp add: after_mail_def)
qed (simp add: after_mail_def)

lemma inbox_uids: "ChatCmdLetterListAckOk_InboxMail_uid \<circ> inbox_entry = ma_uid \<circ> fst"
  by (rule ext) (simp add: inbox_entry_def split: prod.splits)

text \<open>One page: the next letters after those the client knows.\<close>

definition page_size :: "u32 \<Rightarrow> uid list \<Rightarrow> nat" where
  "page_size k vs = min (min (unat k) MaxMailsPerRequest) (length vs)"

lemma page_size_bounds: "page_size k vs \<le> length vs" "0 < k \<Longrightarrow> vs \<noteq> [] \<Longrightarrow> 0 < page_size k vs"
  by (simp_all add: page_size_def MaxMailsPerRequest_def unat_gt_0 word_neq_0_conv)

lemma ask_page_next:
  assumes "map_of (me_clients s) c = Some x" "mc_isAuthenticated x"
    and "get_row (dd_characters (me_data s)) (mc_characterUid x) = Some ch"
    and "mx_inbox (ci_mailbox ch) = us @ vs" "distinct (us @ vs)" "\<forall>u \<in> set (us @ vs). listed (me_data s) u"
  shows "\<exists>out. ask_page c (if us = [] then 0 else last us) k s =
     (Some (take (page_size k vs) vs, page_size k vs \<noteq> length vs), s\<lparr>me_sent := me_sent s @ [out]\<rparr>)"
proof -
  let ?last = "if us = [] then 0 else last us" let ?n = "page_size k vs"
  have nz: "0 \<notin> set (us @ vs)" using assms(6) by (auto simp: listed_def get_row_def split: if_splits)
  have "after_mail ?last (us @ vs) = vs" using assms(5) nz by (intro after_mail_suffix) auto
  then have page: "mail_page ?last (unat k) (us @ vs) = (take ?n vs, ?n \<noteq> length vs)"
    by (simp add: mail_page_def Let_def page_size_def)
  have known: "?last = 0 \<or> ?last \<in> set (us @ vs)" by auto
  obtain ms where ms: "mail_listings (me_data s) Folder_Inbox (take ?n vs) = Inr ms" "map (ma_uid \<circ> fst) ms = take ?n vs"
    using listings [of "take ?n vs" "me_data s"] assms(6) by (auto dest: in_set_takeD)
  let ?out = "(c, Out_LetterListAckOk (letter_list Folder_Inbox (?n \<noteq> length vs) ms))"
  have "HandleChatterLetterList c (ChatCmdLetterList Folder_Inbox (ChatCmdLetterList_Request ?last k)) s
    = (Inr (), s\<lparr>me_sent := me_sent s @ [?out]\<rparr>)"
    using assms(1-4) known visible_listed [OF assms(6)] page ms(1)
    by (simp add: HandleChatterLetterList_def act_defs GetMessengerContext_def view_character_def view_row_def on_data_def
        queue_chat_def Let_def)
  then have "ask_page c ?last k s = (Some (take ?n vs, ?n \<noteq> length vs), s\<lparr>me_sent := me_sent s @ [?out]\<rparr>)"
    using ms(2) by (simp add: ask_page_def shown_page_def letter_list_def inbox_uids Let_def)
  then show ?thesis by blast
qed

text \<open>C23: A client that pages through its inbox is shown every letter exactly once and in order, however many letters it asks for
  at a time, and after no more requests than there are letters (one, if there are none). This is so when the inbox holds no
  letter twice and each of its letters can be listed, that is, its record and that of its sender are available and it is not
  deleted, and when nothing else happens between the requests.\<close>

theorem browsing_shows_inbox:
  assumes "map_of (me_clients s) c = Some x" "mc_isAuthenticated x"
    and "get_row (dd_characters (me_data s)) (mc_characterUid x) = Some ch"
    and "distinct (mx_inbox (ci_mailbox ch))" "\<forall>u \<in> set (mx_inbox (ci_mailbox ch)). listed (me_data s) u"
    and "0 < k" "0 < n" "length (mx_inbox (ci_mailbox ch)) \<le> n"
  shows "browse n c 0 k s = Some (mx_inbox (ci_mailbox ch))"
proof -
  have "browse n c (if us = [] then 0 else last us) k s = Some vs"
    if "map_of (me_clients s) c = Some x" "get_row (dd_characters (me_data s)) (mc_characterUid x) = Some ch"
      "mx_inbox (ci_mailbox ch) = us @ vs" "\<forall>u \<in> set (us @ vs). listed (me_data s) u" "0 < n" "length vs \<le> n" for us vs s
    using that
  proof (induction n arbitrary: us vs s)
    case (Suc n)
    define j where "j = page_size k vs"
    from ask_page_next [OF Suc.prems(1) assms(2) Suc.prems(2,3) _ Suc.prems(4), of k] assms(4) Suc.prems(3)
    obtain out where ask: "ask_page c (if us = [] then 0 else last us) k s =
        (Some (take j vs, j \<noteq> length vs), s\<lparr>me_sent := me_sent s @ [out]\<rparr>)" by (auto simp: j_def)
    show ?case
    proof (cases "j = length vs")
      case False
      then have j: "0 < j" "j \<le> length vs" "vs \<noteq> []"
        using page_size_bounds(2) [OF assms(6), of vs] page_size_bounds(1) [of k vs]
        by (cases "vs = []"; simp add: j_def)+
      have "browse n c (if us @ take j vs = [] then 0 else last (us @ take j vs)) k (s\<lparr>me_sent := me_sent s @ [out]\<rparr>)
          = Some (drop j vs)"
      proof (rule Suc.IH)
        show "mx_inbox (ci_mailbox ch) = (us @ take j vs) @ drop j vs" using Suc.prems(3) by simp
        show "length (drop j vs) \<le> n" "0 < n"
          using Suc.prems(6) j False by (auto intro: ccontr)
      qed (use Suc.prems in \<open>auto dest: in_set_takeD in_set_dropD\<close>)
      moreover have "(if us @ take j vs = [] then 0 else last (us @ take j vs)) = last (take j vs)" using j by auto
      ultimately show ?thesis using ask False by simp
    qed (use ask in simp)
  qed simp
  from this [of s "[]" "mx_inbox (ci_mailbox ch)"] assms show ?thesis by simp
qed

definition reader_state :: messenger where
  "reader_state = \<lparr>me_clients = [(1, new_context\<lparr>mc_isAuthenticated := True, mc_characterUid := 2\<rparr>)],
     me_data = empty_director\<lparr>
       dd_characters := put_row 2 (default_character\<lparr>ci_uid := 2, ci_mailbox :=
          \<lparr>mx_hasNewMail = True, mx_inbox = [8, 5], mx_sent = []\<rparr>\<rparr>) empty_table,
       dd_mails := put_row 5 (new_mail 2 2 CanReply 0 0 [] 5) (put_row 8 (new_mail 0 2 NoReply 0 0 [65] 8) empty_table)\<rparr>,
     me_otp = \<lparr>os_codes = [], os_ltks = []\<rparr>, me_sent = []\<rparr>"

lemma browsing_shows_inbox_witness: "browse 2 1 0 1 reader_state = Some [8, 5]"
proof -
  let ?ch = "default_character\<lparr>ci_uid := 2, ci_mailbox := \<lparr>mx_hasNewMail = True, mx_inbox = [8, 5], mx_sent = []\<rparr>\<rparr>"
  have "browse 2 1 0 1 reader_state = Some (mx_inbox (ci_mailbox ?ch))"
    by (rule browsing_shows_inbox [where x = "new_context\<lparr>mc_isAuthenticated := True, mc_characterUid := 2\<rparr>"])
      (simp_all add: reader_state_def listed_def new_mail_def)
  then show ?thesis by simp
qed

section \<open>Delivery\<close>

text \<open>C25: A letter arrives: a player who is logged in sends one to the name of another who is, with the records of both at hand.
  Then the sender is told so and the recipient's client that the letter came, the letter is the first of the sent box of the
  one and of the inbox of the other, who has new mail, and the first letter the recipient is shown, asking for one, is this
  one, with the name of the sender, the date and the text.\<close>

theorem letter_arrives:
  assumes "map_of (me_clients s) c = Some x" "mc_isAuthenticated x"
    and "get_row (dd_characters (me_data s)) (mc_characterUid x) = Some sender" "ci_uid sender = mc_characterUid x"
    and "mv_uid_of_name env name = r" "get_row (dd_characters (me_data s)) r = Some recipient"
    and "\<not> tb_failing (dd_mails (me_data s))" "tb_sequentialUid (dd_mails (me_data s)) + 1 \<noteq> 0"
    and "map_of (me_clients s) t = Some y" "mc_isAuthenticated y" "GetClientByCharacterUid r s = Some (t, y)"
    and "s' = snd (HandleChatterLetterSend env c (ChatCmdLetterSend name body) s)"
    and "s'' = snd (HandleChatterLetterList t (ChatCmdLetterList Folder_Inbox (ChatCmdLetterList_Request 0 1)) s')"
  shows "let u = tb_sequentialUid (dd_mails (me_data s)) + 1; utcNow = floor_seconds (mv_now env); date = format_date utcNow;
      letter = new_mail (mc_characterUid x) r CanReply 0 utcNow body u in
    me_sent s' = me_sent s @ [(c, Out_LetterSendAckOk (ChatCmdLetterSendAckOk u name date body)),
      (t, Out_LetterArriveTrs (ChatCmdLetterArriveTrs u 0 0 (ci_name sender) date body))]
    \<and> get_row (dd_mails (me_data s')) u = Some letter
    \<and> (\<exists>ch. get_row (dd_characters (me_data s')) (mc_characterUid x) = Some ch
         \<and> mx_sent (ci_mailbox ch) = u # mx_sent (ci_mailbox sender))
    \<and> (\<exists>ch. get_row (dd_characters (me_data s')) r = Some ch \<and> mx_hasNewMail (ci_mailbox ch)
         \<and> mx_inbox (ci_mailbox ch) = u # mx_inbox (ci_mailbox recipient))
    \<and> (\<exists>further. last (me_sent s'') = (t, Out_LetterListAckOk (letter_list Folder_Inbox further [(letter, ci_name sender)])))"
proof -
  let ?u = "tb_sequentialUid (dd_mails (me_data s)) + 1"
  let ?m = "new_mail (mc_characterUid x) r CanReply 0 (floor_seconds (mv_now env)) body ?u"
  have nz: "r \<noteq> InvalidUid" "mc_characterUid x \<noteq> InvalidUid" using assms(3,6) by (auto dest: get_row_uid)
  have y: "mc_characterUid y = r" using assms(11) by (auto simp: GetClientByCharacterUid_def find_Some_iff)
  let ?date = "format_date (floor_seconds (mv_now env))"
  let ?Q = "\<lambda>s'. me_clients s' = me_clients s \<and> get_row (dd_mails (me_data s')) ?u = Some ?m
      \<and> (\<exists>ch. get_row (dd_characters (me_data s')) r = Some ch \<and> mx_hasNewMail (ci_mailbox ch)
          \<and> mx_inbox (ci_mailbox ch) = ?u # mx_inbox (ci_mailbox recipient))
      \<and> (\<exists>ch. get_row (dd_characters (me_data s')) (mc_characterUid x) = Some ch \<and> ci_name ch = ci_name sender
          \<and> mx_sent (ci_mailbox ch) = ?u # mx_sent (ci_mailbox sender))
      \<and> me_sent s' = me_sent s @ [(c, Out_LetterSendAckOk (ChatCmdLetterSendAckOk ?u name ?date body)),
          (t, Out_LetterArriveTrs (ChatCmdLetterArriveTrs ?u 0 0 (ci_name sender) ?date body))]"
  have "wp (HandleChatterLetterSend env c (ChatCmdLetterSend name body)) (\<lambda>_. ?Q) ?Q s"
    using assms(1-8) assms(11) nz
    by (auto simp: HandleChatterLetterSend_def wp_simps Let_def receive_mail_def get_row_put_rows put_character_def
        GetClientByCharacterUid_def split: option.splits)
  then have "?Q s'" unfolding assms(12) by (auto simp: wp_def split: prod.splits sum.splits)
  note Q = this
  then obtain ch ch' where s': "me_clients s' = me_clients s" "get_row (dd_mails (me_data s')) ?u = Some ?m"
    "get_row (dd_characters (me_data s')) r = Some ch" "mx_inbox (ci_mailbox ch) = ?u # mx_inbox (ci_mailbox recipient)"
    "get_row (dd_characters (me_data s')) (mc_characterUid x) = Some ch'" "ci_name ch' = ci_name sender" by blast
  define rest where "rest = visible_mails (me_data s') (mx_inbox (ci_mailbox recipient))"
  have visible: "visible_mails (me_data s') (mx_inbox (ci_mailbox ch)) = ?u # rest"
    using s'(2) by (simp add: s'(4) rest_def visible_mails_def) (simp add: new_mail_def)
  have page: "mail_page 0 1 (?u # rest) = ([?u], rest \<noteq> [])"
    by (simp add: mail_page_def after_mail_def MaxMailsPerRequest_def)
  have listing: "mail_listings (me_data s') Folder_Inbox [?u] = Inr [(?m, ci_name sender)]"
    using s'(2,5,6) nz by (simp add: mail_listing_def) (simp add: new_mail_def)
  have "HandleChatterLetterList t (ChatCmdLetterList Folder_Inbox (ChatCmdLetterList_Request 0 1)) s' =
      (Inr (), s'\<lparr>me_sent := me_sent s' @ [(t, Out_LetterListAckOk (letter_list Folder_Inbox (rest \<noteq> []) [(?m, ci_name sender)]))]\<rparr>)"
    using assms(9,10) y s'(1,3) visible page listing
    by (simp add: HandleChatterLetterList_def act_defs GetMessengerContext_def view_character_def view_row_def on_data_def
        queue_chat_def)
  then have "last (me_sent s'') = (t, Out_LetterListAckOk (letter_list Folder_Inbox (rest \<noteq> []) [(?m, ci_name sender)]))"
    unfolding assms(13) by simp
  with Q show ?thesis unfolding Let_def by blast
qed

definition post_state :: messenger where
  "post_state = \<lparr>me_clients = [(1, new_context\<lparr>mc_isAuthenticated := True, mc_characterUid := 2\<rparr>),
       (4, new_context\<lparr>mc_isAuthenticated := True, mc_characterUid := 3\<rparr>)],
     me_data = empty_director\<lparr>dd_characters := put_row 2 (default_character\<lparr>ci_uid := 2, ci_name := [65]\<rparr>)
        (put_row 3 (default_character\<lparr>ci_uid := 3, ci_name := [66]\<rparr>) empty_table)\<rparr>,
     me_otp = \<lparr>os_codes = [], os_ltks = []\<rparr>, me_sent = []\<rparr>"

definition quiet_post :: messenger_env where
  "quiet_post = \<lparr>mv_now = 5, mv_hash = \<lambda>u k. ucast (u XOR k), mv_uid_of_name = \<lambda>n. if n = [66] then 3 else 0, mv_draw = 7,
     mv_address = \<lambda>_. 0, mv_privateChat = (False, [], 0), mv_allChat = (False, [], 0), mv_grouped = \<lambda>_. [], mv_percent = \<lambda>_. []\<rparr>"

lemma letter_arrives_witness:
  "let env = quiet_post; s' = snd (HandleChatterLetterSend env 1 (ChatCmdLetterSend [66] [72, 105]) post_state)
   in me_sent s' = [(1, Out_LetterSendAckOk (ChatCmdLetterSendAckOk 1 [66] (format_date 0) [72, 105])),
        (4, Out_LetterArriveTrs (ChatCmdLetterArriveTrs 1 0 0 [65] (format_date 0) [72, 105]))]
    \<and> (\<exists>further. last (me_sent (snd (HandleChatterLetterList 4 (ChatCmdLetterList Folder_Inbox (ChatCmdLetterList_Request 0 1)) s')))
     = (4, Out_LetterListAckOk (letter_list Folder_Inbox further [(new_mail 2 3 CanReply 0 0 [72, 105] 1, [65])])))"
proof -
  note arrives = letter_arrives [where s = post_state and c = 1 and t = 4 and env = quiet_post and name = "[66]" and r = 3
      and x = "new_context\<lparr>mc_isAuthenticated := True, mc_characterUid := 2\<rparr>"
      and y = "new_context\<lparr>mc_isAuthenticated := True, mc_characterUid := 3\<rparr>"
      and sender = "default_character\<lparr>ci_uid := 2, ci_name := [65]\<rparr>"
      and recipient = "default_character\<lparr>ci_uid := 3, ci_name := [66]\<rparr>" and body = "[72, 105]", OF _ _ _ _ _ _ _ _ _ _ _ refl refl]
  have "GetClientByCharacterUid 3 post_state = Some (4, new_context\<lparr>mc_isAuthenticated := True, mc_characterUid := 3\<rparr>)"
    by (simp add: GetClientByCharacterUid_def post_state_def new_context_def)
  note arrives = arrives [OF _ _ _ _ _ _ _ _ _ _ this]
  show ?thesis
    using arrives by (simp add: post_state_def quiet_post_def floor_seconds_def empty_director_def empty_table_def put_row_def
        get_row_def umap_put_def Let_def)
qed

end
