(* ===== verification/Msg_Common.thy ===== *)
theory Msg_Common imports Messages begin

text \<open>
  \<open>libserver/network/command/proto/CommonMessageDefinitions.hpp\<close> and \<open>.cpp\<close>: the messages
  more than one of the lobby, ranch and race servers handles.
\<close>

datatype (plugins only:) AcCmdCRInviteUser = AcCmdCRInviteUser
  (AcCmdCRInviteUser_recipientCharacterUid: "u32")
  (AcCmdCRInviteUser_recipientCharacterName: "bytes")

definition AcCmdCRInviteUser_Write :: "AcCmdCRInviteUser \<Rightarrow> stream \<Rightarrow> exn + stream" where
  "AcCmdCRInviteUser_Write _ = throws (RuntimeError ''Not implemented'')"

definition AcCmdCRInviteUser_Read :: "icu \<Rightarrow> stream \<Rightarrow> exn + (AcCmdCRInviteUser \<times> stream)" where
  "AcCmdCRInviteUser_Read cv =
     rd r32 (\<lambda>recipientCharacterUid'.
     rd (rstr cv) (\<lambda>recipientCharacterName'.
     ret (AcCmdCRInviteUser recipientCharacterUid' recipientCharacterName')))"

datatype (plugins only:) AcCmdCRInviteUserCancel = AcCmdCRInviteUserCancel
  (AcCmdCRInviteUserCancel_recipientCharacterUid: "u32")
  (AcCmdCRInviteUserCancel_recipientCharacterName: "bytes")

definition AcCmdCRInviteUserCancel_Write :: "icu \<Rightarrow> AcCmdCRInviteUserCancel \<Rightarrow> stream \<Rightarrow> exn + stream" where
  "AcCmdCRInviteUserCancel_Write cv v = seqw [
     w32 (AcCmdCRInviteUserCancel_recipientCharacterUid v),
     wstr cv (AcCmdCRInviteUserCancel_recipientCharacterName v)]"

definition AcCmdCRInviteUserCancel_Read :: "stream \<Rightarrow> exn + (AcCmdCRInviteUserCancel \<times> stream)" where
  "AcCmdCRInviteUserCancel_Read = throws (RuntimeError ''Not implemented'')"

datatype (plugins only:) AcCmdCRInviteUserOK = AcCmdCRInviteUserOK
  (AcCmdCRInviteUserOK_recipientCharacterUid: "u32")
  (AcCmdCRInviteUserOK_recipientCharacterName: "bytes")

definition AcCmdCRInviteUserOK_Write :: "icu \<Rightarrow> AcCmdCRInviteUserOK \<Rightarrow> stream \<Rightarrow> exn + stream" where
  "AcCmdCRInviteUserOK_Write cv v = seqw [
     w32 (AcCmdCRInviteUserOK_recipientCharacterUid v),
     wstr cv (AcCmdCRInviteUserOK_recipientCharacterName v)]"

definition AcCmdCRInviteUserOK_Read :: "stream \<Rightarrow> exn + (AcCmdCRInviteUserOK \<times> stream)" where
  "AcCmdCRInviteUserOK_Read = throws (RuntimeError ''Not implemented'')"

datatype (plugins only:) AcCmdCRRequestUser = AcCmdCRRequestUser
  (AcCmdCRRequestUser_force: "bool")
  (AcCmdCRRequestUser_characterName: "bytes")
  (AcCmdCRRequestUser_roomUid: "u32")
  (AcCmdCRRequestUser_ranchUid: "u32")

definition AcCmdCRRequestUser_Write :: "AcCmdCRRequestUser \<Rightarrow> stream \<Rightarrow> exn + stream" where
  "AcCmdCRRequestUser_Write _ = throws (RuntimeError ''Not implemented'')"

definition AcCmdCRRequestUser_Read :: "icu \<Rightarrow> stream \<Rightarrow> exn + (AcCmdCRRequestUser \<times> stream)" where
  "AcCmdCRRequestUser_Read cv =
     rd rbool (\<lambda>force'.
     rd (rstr cv) (\<lambda>characterName'.
     rd r32 (\<lambda>roomUid'.
     rd r32 (\<lambda>ranchUid'.
     ret (AcCmdCRRequestUser force' characterName' roomUid' ranchUid')))))"

datatype (plugins only:) AcCmdCRRequestUserOK = AcCmdCRRequestUserOK
  (AcCmdCRRequestUserOK_force: "bool")
  (AcCmdCRRequestUserOK_characterName: "bytes")
  (AcCmdCRRequestUserOK_roomUid: "u32")
  (AcCmdCRRequestUserOK_ranchUid: "u32")

definition AcCmdCRRequestUserOK_Write :: "icu \<Rightarrow> AcCmdCRRequestUserOK \<Rightarrow> stream \<Rightarrow> exn + stream" where
  "AcCmdCRRequestUserOK_Write cv v = seqw [
     wbool (AcCmdCRRequestUserOK_force v),
     wstr cv (AcCmdCRRequestUserOK_characterName v),
     w32 (AcCmdCRRequestUserOK_roomUid v),
     w32 (AcCmdCRRequestUserOK_ranchUid v)]"

definition AcCmdCRRequestUserOK_Read :: "stream \<Rightarrow> exn + (AcCmdCRRequestUserOK \<times> stream)" where
  "AcCmdCRRequestUserOK_Read = throws (RuntimeError ''Not implemented'')"

datatype (plugins only:) AcCmdCRRequestUserCancel = AcCmdCRRequestUserCancel
  (AcCmdCRRequestUserCancel_force: "bool")
  (AcCmdCRRequestUserCancel_characterName: "bytes")
  (AcCmdCRRequestUserCancel_roomUid: "u32")
  (AcCmdCRRequestUserCancel_ranchUid: "u32")

definition AcCmdCRRequestUserCancel_Write :: "icu \<Rightarrow> AcCmdCRRequestUserCancel \<Rightarrow> stream \<Rightarrow> exn + stream" where
  "AcCmdCRRequestUserCancel_Write cv v = seqw [
     wbool (AcCmdCRRequestUserCancel_force v),
     wstr cv (AcCmdCRRequestUserCancel_characterName v),
     w32 (AcCmdCRRequestUserCancel_roomUid v),
     w32 (AcCmdCRRequestUserCancel_ranchUid v)]"

definition AcCmdCRRequestUserCancel_Read :: "stream \<Rightarrow> exn + (AcCmdCRRequestUserCancel \<times> stream)" where
  "AcCmdCRRequestUserCancel_Read = throws (RuntimeError ''Not implemented'')"

datatype (plugins only:) AcCmdRCRequestUser = AcCmdRCRequestUser
  (AcCmdRCRequestUser_force: "bool")
  (AcCmdRCRequestUser_characterName: "bytes")
  (AcCmdRCRequestUser_roomUid: "u32")
  (AcCmdRCRequestUser_ranchUid: "u32")

definition AcCmdRCRequestUser_Write :: "icu \<Rightarrow> AcCmdRCRequestUser \<Rightarrow> stream \<Rightarrow> exn + stream" where
  "AcCmdRCRequestUser_Write cv v = seqw [
     wbool (AcCmdRCRequestUser_force v),
     wstr cv (AcCmdRCRequestUser_characterName v),
     w32 (AcCmdRCRequestUser_roomUid v),
     w32 (AcCmdRCRequestUser_ranchUid v)]"

definition AcCmdRCRequestUser_Read :: "stream \<Rightarrow> exn + (AcCmdRCRequestUser \<times> stream)" where
  "AcCmdRCRequestUser_Read = throws (RuntimeError ''Not implemented'')"

datatype (plugins only:) AcCmdRCUpdateQuestNotify = AcCmdRCUpdateQuestNotify
  (AcCmdRCUpdateQuestNotify_characterUid: "u32")
  (AcCmdRCUpdateQuestNotify_questTid: "u16")
  (AcCmdRCUpdateQuestNotify_objectiveProgress: "wire_objective")

definition AcCmdRCUpdateQuestNotify_Write :: "AcCmdRCUpdateQuestNotify \<Rightarrow> stream \<Rightarrow> exn + stream" where
  "AcCmdRCUpdateQuestNotify_Write v = seqw [
     w32 (AcCmdRCUpdateQuestNotify_characterUid v),
     w16 (AcCmdRCUpdateQuestNotify_questTid v),
     ObjectiveProgress_Write (AcCmdRCUpdateQuestNotify_objectiveProgress v)]"

definition AcCmdRCUpdateQuestNotify_Read :: "stream \<Rightarrow> exn + (AcCmdRCUpdateQuestNotify \<times> stream)" where
  "AcCmdRCUpdateQuestNotify_Read = throws (RuntimeError ''Not implemented'')"

datatype (plugins only:) AcCmdRCUpdateDailyQuestNotify = AcCmdRCUpdateDailyQuestNotify
  (AcCmdRCUpdateDailyQuestNotify_characterUid: "u32")
  (AcCmdRCUpdateDailyQuestNotify_questId: "u16")
  (AcCmdRCUpdateDailyQuestNotify_objectiveProgress: "wire_objective")
  (AcCmdRCUpdateDailyQuestNotify_carrotsReward: "u32")
  (AcCmdRCUpdateDailyQuestNotify_rewardType: "u8")
  (AcCmdRCUpdateDailyQuestNotify_unk2: "u32")
  (AcCmdRCUpdateDailyQuestNotify_mountExp: "u32")

definition AcCmdRCUpdateDailyQuestNotify_Write :: "AcCmdRCUpdateDailyQuestNotify \<Rightarrow> stream \<Rightarrow> exn + stream" where
  "AcCmdRCUpdateDailyQuestNotify_Write v = seqw [
     w32 (AcCmdRCUpdateDailyQuestNotify_characterUid v),
     w16 (AcCmdRCUpdateDailyQuestNotify_questId v),
     ObjectiveProgress_Write (AcCmdRCUpdateDailyQuestNotify_objectiveProgress v),
     w32 (AcCmdRCUpdateDailyQuestNotify_carrotsReward v),
     w8 (AcCmdRCUpdateDailyQuestNotify_rewardType v),
     w32 (AcCmdRCUpdateDailyQuestNotify_unk2 v),
     w32 (AcCmdRCUpdateDailyQuestNotify_mountExp v)]"

definition AcCmdRCUpdateDailyQuestNotify_Read :: "stream \<Rightarrow> exn + (AcCmdRCUpdateDailyQuestNotify \<times> stream)" where
  "AcCmdRCUpdateDailyQuestNotify_Read = throws (RuntimeError ''Not implemented.'')"

datatype (plugins only:) AcCmdCROpCmd = AcCmdCROpCmd
  (AcCmdCROpCmd_command: "bytes")

definition AcCmdCROpCmd_Write :: "AcCmdCROpCmd \<Rightarrow> stream \<Rightarrow> exn + stream" where
  "AcCmdCROpCmd_Write _ = throws (RuntimeError ''Not implemented'')"

definition AcCmdCROpCmd_Read :: "icu \<Rightarrow> stream \<Rightarrow> exn + (AcCmdCROpCmd \<times> stream)" where
  "AcCmdCROpCmd_Read cv =
     rd (rstr cv) (\<lambda>command'.
     ret (AcCmdCROpCmd command'))"

datatype (plugins only:) AcCmdRCUpdateMountInfoNotify = AcCmdRCUpdateMountInfoNotify
  (AcCmdRCUpdateMountInfoNotify_characterUid: "u32")
  (AcCmdRCUpdateMountInfoNotify_action: "u8")
  (AcCmdRCUpdateMountInfoNotify_horse: "wire_horse")

definition AcCmdRCUpdateMountInfoNotify_Write :: "icu \<Rightarrow> AcCmdRCUpdateMountInfoNotify \<Rightarrow> stream \<Rightarrow> exn + stream" where
  "AcCmdRCUpdateMountInfoNotify_Write cv v = seqw [
     w32 (AcCmdRCUpdateMountInfoNotify_characterUid v),
     w8 (AcCmdRCUpdateMountInfoNotify_action v),
     Horse_Write cv (AcCmdRCUpdateMountInfoNotify_horse v)]"

definition AcCmdRCUpdateMountInfoNotify_Read :: "stream \<Rightarrow> exn + (AcCmdRCUpdateMountInfoNotify \<times> stream)" where
  "AcCmdRCUpdateMountInfoNotify_Read = throws (RuntimeError ''Not implemented.'')"

datatype (plugins only:) AcCmdRCMobDead = AcCmdRCMobDead
  (AcCmdRCMobDead_mobOid: "u16")

definition AcCmdRCMobDead_Write :: "AcCmdRCMobDead \<Rightarrow> stream \<Rightarrow> exn + stream" where
  "AcCmdRCMobDead_Write v = seqw [
     w16 (AcCmdRCMobDead_mobOid v)]"

definition AcCmdRCMobDead_Read :: "stream \<Rightarrow> exn + (AcCmdRCMobDead \<times> stream)" where
  "AcCmdRCMobDead_Read =
     rd r16 (\<lambda>mobOid'.
     ret (AcCmdRCMobDead mobOid'))"

section \<open>Messages that are both written and read\<close>

interpretation AcCmdRCMobDead_codec: codec AcCmdRCMobDead_Write AcCmdRCMobDead_Read "\<lambda>_. True"
  by unfold_locales (unfold AcCmdRCMobDead_Write_def AcCmdRCMobDead_Read_def, (rule codec_intros | simp)+)

declare AcCmdRCMobDead_codec.codec_matches [codec_intros]

section \<open>Every reader is a parser\<close>

lemma Msg_Common_parsers [parser_intros]:
  "parser (AcCmdCRInviteUser_Read cv)"
  "parser (AcCmdCRRequestUser_Read cv)"
  "parser (AcCmdCROpCmd_Read cv)"
  "parser AcCmdRCMobDead_Read"
  unfolding AcCmdCRInviteUser_Read_def
    AcCmdCRRequestUser_Read_def
    AcCmdCROpCmd_Read_def
    AcCmdRCMobDead_Read_def
  by (intro parser_intros)+

end
