(* ===== verification/Protocol_Helper.thy ===== *)
theory Protocol_Helper imports Data_Records Times Msg_Common begin

text \<open>
  \<open>libserver/data/helper/ProtocolHelper.cpp\<close>: records as the protocol shows them.

  \<^item> A conversion fills in a structure that may hold something already; what it does not mention stays. The
    \<open>new_wire_\<close> values are the structures as they are constructed.
  \<^item> Fields of the protocol are narrower than those of the records, which are cut.
\<close>

section \<open>Fresh structures\<close>

definition new_wire_character :: wire_character where
  "new_wire_character = \<lparr>wch_parts = \<lparr>wcp_charId = 10, wcp_mouthSerialId = 0, wcp_faceSerialId = 0, wcp_val0 = 0\<rparr>,
     wch_appearance = \<lparr>wca_voiceId = 0, wca_headSize = 0, wca_height = 0, wca_thighVolume = 0, wca_legVolume = 0,
       wca_emblemId = 0\<rparr>\<rparr>"

definition new_wire_item :: wire_item where
  "new_wire_item = \<lparr>wi_uid = 0, wi_tid = 0, wi_expiresAt = 0, wi_count = 0\<rparr>"

definition new_wire_stored_item :: wire_stored_item where
  "new_wire_stored_item = \<lparr>wsi_uid = 0, wsi_goodsSq = 0, wsi_status = 0, wsi_val3 = 0, wsi_val4 = 0, wsi_carrots = 0,
     wsi_priceId = 0, wsi_sender = [], wsi_message = [], wsi_dateAndTime = 0\<rparr>"

definition new_wire_guild :: wire_guild where
  "new_wire_guild = \<lparr>wgu_uid = 0, wgu_val1 = 0, wgu_val2 = 0, wgu_name = [], wgu_guildRole = 0, wgu_val5 = 0, wgu_val6 = 0\<rparr>"

definition new_wire_pet :: wire_pet where
  "new_wire_pet = \<lparr>wpe_petId = 0, wpe_member2 = 0, wpe_name = [], wpe_birthDate = 0\<rparr>"

definition new_wire_rent :: wire_rent where
  "new_wire_rent = \<lparr>wre_mountUid = 0, wre_val1 = 0, wre_val2 = 0\<rparr>"

definition new_wire_housing :: wire_housing where
  "new_wire_housing = \<lparr>wh_uid = 0, wh_tid = 0, wh_durability = 0\<rparr>"

definition new_wire_egg :: wire_egg where
  "new_wire_egg = \<lparr>weg_uid = 0, weg_itemTid = 0, weg_member3 = 0, weg_member4 = 0, weg_remainingHatchingTime = 0,
     weg_timeRemaining = 0, weg_boostPreviewValue = 0, weg_hatchingProgress = 0, weg_boostCooldown = 0\<rparr>"

definition new_wire_settings :: wire_settings where
  "new_wire_settings = \<lparr>ws_typeBitset = 0, ws_keyboard = [], ws_macros = replicate 8 [], ws_valueOption = 0, ws_gamepad = [],
     ws_age = 0, ws_hideAge = 0\<rparr>"

definition new_wire_quest :: wire_quest where
  "new_wire_quest = \<lparr>wq_tid = 0, wq_member0 = 0, wq_status = 0, wq_progress = 0, wq_member3 = 0, wq_member4 = 0\<rparr>"

definition new_wire_daily_quest :: wire_daily_quest where
  "new_wire_daily_quest = \<lparr>wdq_questId = 0, wdq_progress = 0, wdq_rewardType = 0, wdq_rewardId = 0\<rparr>"

section \<open>Characters and horses\<close>

definition BuildProtocolCharacter :: "character_info \<Rightarrow> wire_character" where
  "BuildProtocolCharacter c =
     \<lparr>wch_parts = (let p = ci_parts c in
        \<lparr>wcp_charId = ucast (cp_modelId p), wcp_mouthSerialId = ucast (cp_mouthId p), wcp_faceSerialId = ucast (cp_faceId p),
         wcp_val0 = 0\<rparr>),
      wch_appearance = (let a = ci_appearance c in
        \<lparr>wca_voiceId = ucast (ca_voiceId a), wca_headSize = ucast (ca_headSize a), wca_height = ucast (ca_height a),
         wca_thighVolume = ucast (ca_thighVolume a), wca_legVolume = ucast (ca_legVolume a),
         wca_emblemId = ucast (ca_emblemId a)\<rparr>)\<rparr>"

fun HorseTypeToProtocolHorseType :: "HorseType \<Rightarrow> u8" where
  "HorseTypeToProtocolHorseType Type_Rent = 3"
| "HorseTypeToProtocolHorseType Type_Stallion = 2"
| "HorseTypeToProtocolHorseType Type_Foal = 1"
| "HorseTypeToProtocolHorseType Type_Adult = 0"

definition BuildProtocolHorseParts :: "horse_parts \<Rightarrow> wire_horse_parts" where
  "BuildProtocolHorseParts p =
     \<lparr>whp_skinId = ucast (hp_skinTid p), whp_maneId = ucast (hp_maneTid p), whp_tailId = ucast (hp_tailTid p),
      whp_faceId = ucast (hp_faceTid p)\<rparr>"

definition BuildProtocolHorseAppearance :: "horse_appearance \<Rightarrow> wire_horse_appearance" where
  "BuildProtocolHorseAppearance a =
     (let MaxAppearanceValue = 10 in
      \<lparr>wha_scale = min (ucast (hpa_scale a)) MaxAppearanceValue,
       wha_legLength = min (ucast (hpa_legLength a)) MaxAppearanceValue,
       wha_legVolume = min (ucast (hpa_legVolume a)) MaxAppearanceValue,
       wha_bodyLength = min (ucast (hpa_bodyLength a)) MaxAppearanceValue,
       wha_bodyVolume = min (ucast (hpa_bodyVolume a)) MaxAppearanceValue\<rparr>)"

definition BuildProtocolHorseStats :: "horse_stats \<Rightarrow> wire_horse_stats" where
  "BuildProtocolHorseStats s =
     \<lparr>whs_agility = hs_agility s, whs_ambition = hs_ambition s, whs_rush = hs_rush s, whs_endurance = hs_endurance s,
      whs_courage = hs_courage s\<rparr>"

definition BuildProtocolHorseMastery :: "horse_mastery \<Rightarrow> wire_horse_mastery" where
  "BuildProtocolHorseMastery m =
     \<lparr>whm_spurMagicCount = hm_spurMagicCount m, whm_jumpCount = hm_jumpCount m, whm_slidingTime = hm_slidingTime m,
      whm_glidingDistance = hm_glidingDistance m\<rparr>"

definition protocol_mount_condition :: "mount_condition \<Rightarrow> wire_mount_condition" where
  "protocol_mount_condition c =
     \<lparr>wmc_stamina = ucast (mc_stamina c), wmc_charmPoint = ucast (mc_charm c), wmc_friendlyPoint = ucast (mc_friendliness c),
      wmc_injuryPoint = ucast (mc_injury c), wmc_plenitude = ucast (mc_plenitude c),
      wmc_bodyDirtiness = ucast (mc_bodyDirtiness c), wmc_maneDirtiness = ucast (mc_maneDirtiness c),
      wmc_tailDirtiness = ucast (mc_tailDirtiness c), wmc_attachment = ucast (mc_attachment c),
      wmc_boredom = ucast (mc_boredom c), wmc_bodyPolish = ucast (mc_bodyPolish c),
      wmc_manePolish = ucast (mc_manePolish c), wmc_tailPolish = ucast (mc_tailPolish c),
      wmc_stopAmendsPoint = ucast (mc_stopAmendsPoint c)\<rparr>"

definition protocol_horse_vals1 :: "horse_info \<Rightarrow> wire_horse_vals1" where
  "protocol_horse_vals1 h =
     \<lparr>whv_type = HorseTypeToProtocolHorseType (hi_type h), whv_val1 = 0,
      whv_dateOfBirth = TimePointToAliciaTime (hi_dateOfBirth h), whv_tendency = ucast (hi_tendency h),
      whv_spirit = ucast (hi_spirit h), whv_classProgression = hi_clazzProgress h, whv_val5 = 0,
      whv_potentialLevel = ucast (po_level (hi_potential h)), whv_potentialType = ucast (po_type (hi_potential h)),
      whv_potentialValue = ucast (po_value (hi_potential h)), whv_val9 = 0, whv_luck = ucast (hi_luckState h),
      whv_injury = 0, whv_val12 = 0, whv_fatigue = ucast (hi_fatigue h), whv_val14 = 0,
      whv_emblem = ucast (hi_emblemUid h)\<rparr>"

text \<open>\<open>AllLightSparkles\<close>: the bits 2, 12 and 22.\<close>

definition AllLightSparkles :: u32 where "AllLightSparkles = 0x00401004"

definition BuildProtocolHorse :: "horse_info \<Rightarrow> wire_horse" where
  "BuildProtocolHorse h =
     \<lparr>who_uid = hi_uid h, who_tid = hi_tid h, who_name = hi_name h, who_parts = BuildProtocolHorseParts (hi_parts h),
      who_appearance = BuildProtocolHorseAppearance (hi_appearance h), who_stats = BuildProtocolHorseStats (hi_stats h),
      who_rating = hi_rating h, who_clazz = ucast (hi_clazz h), who_val0 = 1, who_grade = ucast (hi_grade h),
      who_growthPoints = ucast (hi_growthPoints h), who_mountCondition = protocol_mount_condition (hi_mountCondition h),
      who_vals1 = protocol_horse_vals1 h, who_mastery = BuildProtocolHorseMastery (hi_mastery h), who_val16 = 0xb8a167e4,
      who_visualCleanlinessBitset = AllLightSparkles\<rparr>"

definition BuildProtocolHorses :: "horse_info list \<Rightarrow> wire_horse list" where
  "BuildProtocolHorses hs = map BuildProtocolHorse hs"

section \<open>Items\<close>

definition BuildProtocolItem :: "item \<Rightarrow> wire_item" where
  "BuildProtocolItem i =
     \<lparr>wi_uid = it_uid i, wi_tid = it_tid i, wi_expiresAt = TimePointToAliciaTime (it_createdAt i + seconds (it_duration i)),
      wi_count = it_count i\<rparr>"

definition BuildProtocolItems :: "item list \<Rightarrow> wire_item list" where
  "BuildProtocolItems is = map BuildProtocolItem is"

definition BuildProtocolStorageItem :: "time_point \<Rightarrow> storage_item \<Rightarrow> wire_stored_item" where
  "BuildProtocolStorageItem now s =
     (let hasExpiration = si_duration s \<noteq> 0; isExpired = si_createdAt s + seconds (si_duration s) < now in
      \<lparr>wsi_uid = si_uid s, wsi_goodsSq = si_goodsSq s,
       wsi_status = (if hasExpiration \<and> isExpired then 1 else if si_checked s then 2 else 0), wsi_val3 = 0, wsi_val4 = 0,
       wsi_carrots = ucast (si_carrots s), wsi_priceId = si_priceId s, wsi_sender = si_sender s,
       wsi_message = si_message s, wsi_dateAndTime = TimePointToAliciaTime (si_createdAt s)\<rparr>)"

definition BuildProtocolStorageItems :: "time_point \<Rightarrow> storage_item list \<Rightarrow> wire_stored_item list" where
  "BuildProtocolStorageItems now ss = map (BuildProtocolStorageItem now) ss"

section \<open>Guilds, pets, housing, eggs\<close>

definition BuildProtocolGuild :: "guild \<Rightarrow> wire_guild \<Rightarrow> wire_guild" where
  "BuildProtocolGuild g w = w\<lparr>wgu_name := gu_name g, wgu_uid := gu_uid g\<rparr>"

definition BuildProtocolPet :: "pet \<Rightarrow> wire_pet" where
  "BuildProtocolPet p =
     \<lparr>wpe_petId = pt_petId p, wpe_member2 = 0, wpe_name = pt_name p,
      wpe_birthDate = TimePointToAliciaTime (pt_birthDate p)\<rparr>"

definition BuildProtocolPets :: "pet list \<Rightarrow> wire_pet list" where
  "BuildProtocolPets ps = map BuildProtocolPet ps"

definition BuildProtocolHousing :: "housing \<Rightarrow> bool \<Rightarrow> wire_housing" where
  "BuildProtocolHousing h hasDurability =
     \<lparr>wh_uid = hg_uid h, wh_tid = ucast (hg_housingId h),
      wh_durability = (if hasDurability then hg_durability h else TimePointToAliciaTime (hg_expiresAt h))\<rparr>"

definition BuildProtocolHousings :: "housing list \<Rightarrow> wire_housing list" where
  "BuildProtocolHousings hs = map (\<lambda>h. BuildProtocolHousing h False) hs"

text \<open>\<open>duration_cast<seconds>\<close>, which cuts towards zero, in 32 bits.\<close>

definition count_seconds :: "int \<Rightarrow> u32" where
  "count_seconds d = of_int (sgn d * (\<bar>d\<bar> div seconds 1))"

definition BuildProtocolEgg :: "time_point \<Rightarrow> egg_record \<Rightarrow> int \<Rightarrow> wire_egg \<Rightarrow> wire_egg" where
  "BuildProtocolEgg now e hatchDuration w =
     (let totalHatchingDuration = now - eg_incubatedAt e;
          totalBoostedDuration = uint (eg_boostsUsed e) * hours 8;
          totalHatchingProgress = totalHatchingDuration + totalBoostedDuration;
          remainingHatchingProgress = hatchDuration - totalHatchingProgress
      in w\<lparr>weg_uid := eg_itemUid e, weg_itemTid := eg_itemTid e,
           weg_remainingHatchingTime := count_seconds remainingHatchingProgress,
           weg_timeRemaining := count_seconds remainingHatchingProgress,
           weg_boostPreviewValue := count_seconds (totalHatchingProgress + hours 8),
           weg_hatchingProgress := count_seconds totalHatchingProgress\<rparr>)"

section \<open>Settings and quests\<close>

definition BuildProtocolSettings :: "settings_record \<Rightarrow> wire_settings \<Rightarrow> wire_settings" where
  "BuildProtocolSettings r w =
     (let w = (case se_keyboardBindings r of None \<Rightarrow> w
        | Some bs \<Rightarrow> w\<lparr>ws_typeBitset := Bit_Operations.set_bit 0 (ws_typeBitset w),
            ws_keyboard := ws_keyboard w @ map (\<lambda>b. \<lparr>ko_secondaryKey = ucast (ob_secondaryKey b), ko_type = ucast (ob_type b),
              ko_unused = 0, ko_primaryKey = ucast (ob_primaryKey b)\<rparr>) bs\<rparr>);
          w = (case se_gamepadBindings r of None \<Rightarrow> w
        | Some bs \<Rightarrow> w\<lparr>ws_typeBitset := Bit_Operations.set_bit 5 (ws_typeBitset w),
            ws_gamepad := ws_gamepad w @ map (\<lambda>b. \<lparr>go_secondaryButton = ucast (ob_secondaryKey b), go_type = ucast (ob_type b),
              go_unused = 0, go_primaryButton = ucast (ob_primaryKey b)\<rparr>) bs\<rparr>)
      in case se_macros r of None \<Rightarrow> w
        | Some ms \<Rightarrow> w\<lparr>ws_typeBitset := Bit_Operations.set_bit 3 (ws_typeBitset w), ws_macros := ms\<rparr>)"

text \<open>The numbers of \<open>data::Quest\<close> are those of the protocol.\<close>

fun quest_status_code :: "QuestStatus \<Rightarrow> u8" where
  "quest_status_code InProgress = 0" | "quest_status_code ReadyToClaim = 1" | "quest_status_code Completed = 3"

definition BuildProtocolQuest :: "quest \<Rightarrow> wire_quest" where
  "BuildProtocolQuest q =
     \<lparr>wq_tid = ucast (qu_questId q), wq_member0 = 0, wq_status = quest_status_code (qu_isCompleted q),
      wq_progress = qu_progress q, wq_member3 = 0, wq_member4 = 0\<rparr>"

definition BuildProtocolQuests :: "quest list \<Rightarrow> wire_quest list" where
  "BuildProtocolQuests qs = map BuildProtocolQuest qs"

end
