(* ===== verification/Matchmaking.thy ===== *)
theory Matchmaking imports Rooms Job_Scheduler begin

text \<open>
  \<open>server/system/MatchmakingSystem.cpp\<close>: the queue of characters looking for a room, searched once
  a second by jobs of the lobby's scheduler. The snapshots of the rooms and the time are arguments
  of a tick; the notifications sent through the lobby are collected in \<open>mm_results\<close>. A protocol
  game mode or team mode is the byte the client sent.
\<close>

section \<open>Choosing a room\<close>

record mm_entry =
  mme_queuedAt :: time_point
  mme_gameMode :: u8
  mme_teamMode :: u8

datatype mm_result = NoRoom | MakeRoom | FoundRoom uid

definition ResolveRoomGameMode :: "u8 \<Rightarrow> GameMode option" where
  "ResolveRoomGameMode m =
     (if m = 1 then Some Game_Speed else if m = 2 then Some Game_Magic
      else if m = 6 then Some Game_Tutorial else None)"

definition ResolveRoomTeamMode :: "u8 \<Rightarrow> TeamMode option" where
  "ResolveRoomTeamMode m =
     (if m = 1 then Some Mode_FFA else if m = 2 then Some Mode_Team
      else if m = 3 then Some Mode_Single else None)"

text \<open>The rooms the loop does not skip.\<close>

definition eligible :: "mm_entry \<Rightarrow> room_snapshot \<Rightarrow> bool" where
  "eligible e r \<longleftrightarrow>
     \<not> (rd_password (rsn_details r) \<noteq> [] \<or> rsn_isPlaying r)
     \<and> Some (rd_gameMode (rsn_details r)) = ResolveRoomGameMode (mme_gameMode e)
     \<and> Some (rd_teamMode (rsn_details r)) = ResolveRoomTeamMode (mme_teamMode e)
     \<and> \<not> rsn_playerCount r \<ge> unat (rd_maxPlayerCount (rsn_details r))"

fun mm_loop :: "mm_entry \<Rightarrow> room_snapshot list \<Rightarrow> uid \<Rightarrow> nat \<Rightarrow> uid" where
  "mm_loop e [] selectedRoomUid selectedPlayerCount = selectedRoomUid"
| "mm_loop e (r # rs) selectedRoomUid selectedPlayerCount =
     (if \<not> eligible e r then mm_loop e rs selectedRoomUid selectedPlayerCount
      else if selectedRoomUid = InvalidUid \<or> rsn_playerCount r > selectedPlayerCount
      then mm_loop e rs (rsn_uid r) (rsn_playerCount r)
      else mm_loop e rs selectedRoomUid selectedPlayerCount)"

definition Matchmake :: "mm_entry \<Rightarrow> room_snapshot list \<Rightarrow> uid option" where
  "Matchmake e rs =
     (let selectedRoomUid = mm_loop e rs InvalidUid 0
      in if selectedRoomUid = InvalidUid then None else Some selectedRoomUid)"

text \<open>The room \<open>u\<close> is the best of the eligible ones.\<close>

definition best_room :: "mm_entry \<Rightarrow> room_snapshot list \<Rightarrow> uid \<Rightarrow> bool" where
  "best_room e rs u \<longleftrightarrow> (\<exists>r \<in> set rs. rsn_uid r = u \<and> eligible e r
     \<and> (\<forall>q \<in> set rs. eligible e q \<longrightarrow> rsn_playerCount q \<le> rsn_playerCount r))"

lemma best_room_skip: "best_room e rs u \<Longrightarrow> \<not> eligible e r \<Longrightarrow> best_room e (r # rs) u"
  unfolding best_room_def by auto

lemma mm_loop_selected:
  assumes "\<forall>r \<in> set rs. rsn_uid r \<noteq> InvalidUid" "selected \<noteq> InvalidUid"
  shows "if \<exists>q \<in> set rs. eligible e q \<and> n < rsn_playerCount q
    then best_room e rs (mm_loop e rs selected n) else mm_loop e rs selected n = selected"
  using assms
proof (induction rs arbitrary: selected n)
  case (Cons r rs)
  then have rs: "\<forall>r \<in> set rs. rsn_uid r \<noteq> InvalidUid" and r: "rsn_uid r \<noteq> InvalidUid" by auto
  show ?case
  proof (cases "eligible e r \<and> n < rsn_playerCount r")
    case True
    have l: "mm_loop e (r # rs) selected n = mm_loop e rs (rsn_uid r) (rsn_playerCount r)"
      using True by simp
    note IH = Cons.IH [OF rs r, of "rsn_playerCount r"]
    have "best_room e (r # rs) (mm_loop e rs (rsn_uid r) (rsn_playerCount r))"
    proof (cases "\<exists>q \<in> set rs. eligible e q \<and> rsn_playerCount r < rsn_playerCount q")
      case bigger: True
      with IH obtain q where "q \<in> set rs" "rsn_uid q = mm_loop e rs (rsn_uid r) (rsn_playerCount r)"
        "eligible e q" "\<forall>p \<in> set rs. eligible e p \<longrightarrow> rsn_playerCount p \<le> rsn_playerCount q"
        by (auto simp: best_room_def)
      with bigger show ?thesis unfolding best_room_def by (intro bexI [of _ q]) auto
    next
      case False
      with IH True show ?thesis unfolding best_room_def by (intro bexI [of _ r]) (auto simp: not_less)
    qed
    with True l show ?thesis by auto
  next
    case False
    then have l: "mm_loop e (r # rs) selected n = mm_loop e rs selected n"
      using Cons.prems(2) by auto
    have e: "(\<exists>q \<in> set (r # rs). eligible e q \<and> n < rsn_playerCount q)
        \<longleftrightarrow> (\<exists>q \<in> set rs. eligible e q \<and> n < rsn_playerCount q)"
      using False by auto
    have "best_room e (r # rs) u" if u: "best_room e rs u" "\<exists>q \<in> set rs. eligible e q \<and> n < rsn_playerCount q" for u
    proof -
      obtain q where q: "q \<in> set rs" "rsn_uid q = u" "eligible e q"
          "\<forall>p \<in> set rs. eligible e p \<longrightarrow> rsn_playerCount p \<le> rsn_playerCount q"
        using u(1) by (auto simp: best_room_def)
      with u(2) have "n < rsn_playerCount q" by (meson less_le_trans)
      with False q show ?thesis unfolding best_room_def by (intro bexI [of _ q]) auto
    qed
    with Cons.IH [OF rs Cons.prems(2), of n] show ?thesis unfolding l e by auto
  qed
qed simp

lemma mm_loop_none:
  assumes "\<forall>r \<in> set rs. rsn_uid r \<noteq> InvalidUid"
  shows "if \<exists>q \<in> set rs. eligible e q then best_room e rs (mm_loop e rs InvalidUid 0)
    else mm_loop e rs InvalidUid 0 = InvalidUid"
  using assms
proof (induction rs)
  case (Cons r rs)
  then have rs: "\<forall>r \<in> set rs. rsn_uid r \<noteq> InvalidUid" and r: "rsn_uid r \<noteq> InvalidUid" by auto
  show ?case
  proof (cases "eligible e r")
    case True
    note sel = mm_loop_selected [OF rs r, of e "rsn_playerCount r"]
    show ?thesis
    proof (cases "\<exists>q \<in> set rs. eligible e q \<and> rsn_playerCount r < rsn_playerCount q")
      case bigger: True
      with sel obtain q where "q \<in> set rs" "rsn_uid q = mm_loop e rs (rsn_uid r) (rsn_playerCount r)"
        "eligible e q" "\<forall>p \<in> set rs. eligible e p \<longrightarrow> rsn_playerCount p \<le> rsn_playerCount q"
        by (auto simp: best_room_def)
      with bigger True have "best_room e (r # rs) (mm_loop e rs (rsn_uid r) (rsn_playerCount r))"
        unfolding best_room_def by (intro bexI [of _ q]) auto
      with True show ?thesis by simp
    next
      case False
      with sel True have "best_room e (r # rs) (mm_loop e rs (rsn_uid r) (rsn_playerCount r))"
        unfolding best_room_def by (intro bexI [of _ r]) (auto simp: not_less)
      with True show ?thesis by simp
    qed
  next
    case False
    with Cons.IH [OF rs] best_room_skip [of e rs _ r] show ?thesis by (auto split: if_splits)
  qed
qed simp

text \<open>C15: A search finds a room exactly when some room is eligible: unlocked, not playing, of the
  requested modes and with a free place. The room found is eligible, and no eligible room has more
  players.\<close>

theorem Matchmake_best:
  assumes "\<forall>r \<in> set rs. rsn_uid r \<noteq> InvalidUid"
  shows "case Matchmake e rs of
      Some u \<Rightarrow> \<exists>r \<in> set rs. rsn_uid r = u \<and> eligible e r
        \<and> (\<forall>q \<in> set rs. eligible e q \<longrightarrow> rsn_playerCount q \<le> rsn_playerCount r)
    | None \<Rightarrow> \<forall>r \<in> set rs. \<not> eligible e r"
  using mm_loop_none [OF assms, of e] assms
  by (auto simp: Matchmake_def Let_def best_room_def split: if_splits)

definition sample_snapshot :: "u32 \<Rightarrow> nat \<Rightarrow> room_snapshot" where
  "sample_snapshot u n = \<lparr>rsn_uid = u,
     rsn_details = new_details\<lparr>rd_maxPlayerCount := 8, rd_gameMode := Game_Speed, rd_teamMode := Mode_FFA\<rparr>,
     rsn_playerCount = n, rsn_isPlaying = False\<rparr>"

definition sample_entry :: mm_entry where
  "sample_entry = \<lparr>mme_queuedAt = 0, mme_gameMode = 1, mme_teamMode = 1\<rparr>"

lemma sample_eligible: "eligible sample_entry (sample_snapshot u n) \<longleftrightarrow> n < 8"
  by (simp add: eligible_def sample_entry_def sample_snapshot_def new_details_def
      ResolveRoomGameMode_def ResolveRoomTeamMode_def not_le)

lemma Matchmake_best_witness:
  "Matchmake sample_entry [sample_snapshot 1 2, sample_snapshot 2 7, sample_snapshot 3 8] = Some 2"
proof -
  let ?rs = "[sample_snapshot 1 2, sample_snapshot 2 7, sample_snapshot 3 8]"
  have "\<forall>r \<in> set ?rs. rsn_uid r \<noteq> InvalidUid" by (simp add: sample_snapshot_def)
  from Matchmake_best [OF this, of sample_entry] show ?thesis
    by (auto simp: sample_eligible split: option.splits) (auto simp: sample_snapshot_def)
qed

section \<open>The queue\<close>

definition MatchmakingInterval :: int where "MatchmakingInterval = milliseconds 1000"
definition MatchmakingQueueTimeout :: int where "MatchmakingQueueTimeout = milliseconds 30000"

datatype search_task = Search_Task uid u8 u8

record matchmaking =
  mm_queue :: "(uid, mm_entry) umap"
  mm_results :: "(uid \<times> mm_result) list"

type_synonym search_scheduler = "search_task scheduler"

definition Search :: "time_point \<Rightarrow> uid \<Rightarrow> u8 \<Rightarrow> u8 \<Rightarrow> search_task job" where
  "Search now characterUid gameMode teamMode =
     \<lparr>job_when = now + MatchmakingInterval, job_task = Search_Task characterUid gameMode teamMode\<rparr>"

text \<open>The job \<open>Search\<close> queues.\<close>

definition run_search ::
  "time_point \<Rightarrow> room_snapshot list \<Rightarrow> (search_task, matchmaking) exec" where
  "run_search now rooms task mm =
     (case task of Search_Task characterUid gameMode teamMode \<Rightarrow>
        case map_of (mm_queue mm) characterUid of
          None \<Rightarrow> ([], mm, None)
        | Some entry \<Rightarrow>
            if now - mme_queuedAt entry \<ge> MatchmakingQueueTimeout
            then ([], mm\<lparr>mm_queue := umap_erase characterUid (mm_queue mm),
                     mm_results := mm_results mm @ [(characterUid, NoRoom)]\<rparr>, None)
            else case Matchmake entry rooms of
                   Some roomUid \<Rightarrow>
                     ([], mm\<lparr>mm_queue := umap_erase characterUid (mm_queue mm),
                        mm_results := mm_results mm @ [(characterUid, FoundRoom roomUid)]\<rparr>, None)
                 | None \<Rightarrow> ([Search now characterUid gameMode teamMode], mm, None))"

definition Matchmaking_Queue ::
  "time_point \<Rightarrow> uid \<Rightarrow> u8 \<Rightarrow> u8 \<Rightarrow> matchmaking \<Rightarrow> search_scheduler \<Rightarrow> bool \<times> matchmaking \<times> search_scheduler" where
  "Matchmaking_Queue now characterUid gameMode teamMode mm sch =
     (if has_key (mm_queue mm) characterUid then (False, mm, sch)
      else (True,
        mm\<lparr>mm_queue := umap_put characterUid
             \<lparr>mme_queuedAt = now, mme_gameMode = gameMode, mme_teamMode = teamMode\<rparr> (mm_queue mm)\<rparr>,
        Scheduler_Queue (Search_Task characterUid gameMode teamMode) (now + MatchmakingInterval) sch))"

definition Matchmaking_Dequeue :: "uid \<Rightarrow> matchmaking \<Rightarrow> bool \<times> matchmaking" where
  "Matchmaking_Dequeue characterUid mm =
     (has_key (mm_queue mm) characterUid, mm\<lparr>mm_queue := umap_erase characterUid (mm_queue mm)\<rparr>)"

text \<open>The steps of the lobby that concern the queue, in any order and at any times.\<close>

inductive mm_step :: "matchmaking \<times> search_scheduler \<Rightarrow> matchmaking \<times> search_scheduler \<Rightarrow> bool" where
  queue: "Matchmaking_Queue now u g t mm sch = (b, mm', sch') \<Longrightarrow> mm_step (mm, sch) (mm', sch')"
| dequeue: "Matchmaking_Dequeue u mm = (b, mm') \<Longrightarrow> mm_step (mm, sch) (mm', sch)"
| tick: "Scheduler_Tick (run_search now rooms) now sch mm = (r, sch', mm') \<Longrightarrow>
     mm_step (mm, sch) (mm', sch')"

inductive mm_reachable :: "matchmaking \<times> search_scheduler \<Rightarrow> bool" where
  initial: "mm_reachable (\<lparr>mm_queue = [], mm_results = []\<rparr>, new_scheduler)"
| step: "mm_reachable s \<Longrightarrow> mm_step s s' \<Longrightarrow> mm_reachable s'"

inductive_cases mm_stepE: "mm_step s s'"

definition task_uid :: "search_task \<Rightarrow> uid" where
  "task_uid t = (case t of Search_Task u g m \<Rightarrow> u)"

text \<open>Every queued character has a pending search.\<close>

definition mm_inv :: "matchmaking \<Rightarrow> search_scheduler \<Rightarrow> bool" where
  "mm_inv mm sch \<longleftrightarrow> scheduler_ok sch
     \<and> (\<forall>u. has_key (mm_queue mm) u \<longrightarrow> (\<exists>j \<in> set (sch_jobs sch). task_uid (job_task j) = u))"

lemma run_search_cases:
  assumes "run_search now rooms t mm = (queued, mm', thrown)"
  shows "(\<forall>u. u \<noteq> task_uid t \<longrightarrow> map_of (mm_queue mm') u = map_of (mm_queue mm) u)
    \<and> (has_key (mm_queue mm') (task_uid t) \<longrightarrow> (\<exists>j \<in> set queued. task_uid (job_task j) = task_uid t))"
  using assms
  by (cases t)
    (auto simp: run_search_def task_uid_def Search_def split: option.splits if_splits)

lemma mm_inv_tick:
  assumes "mm_inv mm sch" "Scheduler_Tick (run_search now rooms) now sch mm = (r, sch', mm')"
  shows "mm_inv mm' sch'"
proof -
  have ok: "scheduler_ok sch" "scheduler_ok sch'"
    using assms scheduler_ok_Tick by (auto simp: mm_inv_def)
  from ok(1) assms(2) show ?thesis
  proof (cases rule: tick_cases)
    case 1
    with assms(1) ok show ?thesis by (simp add: mm_inv_def)
  next
    case (2 before j later queued thrown)
    note run = run_search_cases [OF 2(3)]
    have "\<exists>k \<in> set (sch_jobs sch'). task_uid (job_task k) = u" if u: "has_key (mm_queue mm') u" for u
    proof (cases "u = task_uid (job_task j)")
      case True
      with run u 2(4) show ?thesis by (metis UnI2 set_append)
    next
      case False
      with run u have "has_key (mm_queue mm) u" by metis
      with assms(1) obtain k where "k \<in> set (sch_jobs sch)" "task_uid (job_task k) = u"
        by (auto simp: mm_inv_def)
      with False 2(1,4) show ?thesis by auto
    qed
    with ok show ?thesis by (simp add: mm_inv_def)
  qed
qed

lemma mm_inv_queue:
  assumes "mm_inv mm sch" "Matchmaking_Queue now u g t mm sch = (b, mm', sch')"
  shows "mm_inv mm' sch'"
  using assms scheduler_ok_Queue [of sch "Search_Task u g t" "now + MatchmakingInterval"]
  by (auto simp: mm_inv_def Matchmaking_Queue_def Scheduler_Queue_def task_uid_def split: if_splits)

lemma mm_inv_step: "mm_step s s' \<Longrightarrow> mm_inv (fst s) (snd s) \<Longrightarrow> mm_inv (fst s') (snd s')"
proof (induction rule: mm_step.induct)
  case (dequeue u mm b mm' sch)
  then show ?case by (auto simp: mm_inv_def Matchmaking_Dequeue_def split: if_splits)
qed (auto intro: mm_inv_queue mm_inv_tick)

lemma mm_inv_reachable: "mm_reachable s \<Longrightarrow> mm_inv (fst s) (snd s)"
proof (induction rule: mm_reachable.induct)
  case initial
  show ?case by (simp add: mm_inv_def scheduler_ok_def new_scheduler_def)
qed (rule mm_inv_step)

text \<open>C11: A queued character is never forgotten: in every reachable state of the lobby a search for
  it is pending in the scheduler, so that it will be given a room or told there is none.\<close>

theorem queued_has_search:
  assumes "mm_reachable (mm, sch)" "has_key (mm_queue mm) u"
  shows "\<exists>j \<in> set (sch_jobs sch). task_uid (job_task j) = u"
  using mm_inv_reachable [OF assms(1)] assms(2) by (simp add: mm_inv_def)

lemma queued_has_search_witness:
  "let (b, mm, sch) = Matchmaking_Queue 0 7 1 1 \<lparr>mm_queue = [], mm_results = []\<rparr> new_scheduler
   in has_key (mm_queue mm) 7 \<and> (\<exists>j \<in> set (sch_jobs sch). task_uid (job_task j) = 7)"
proof -
  let ?r = "Matchmaking_Queue 0 7 1 1 \<lparr>mm_queue = [], mm_results = []\<rparr> new_scheduler"
  obtain b mm sch where r: "?r = (b, mm, sch)" by (metis prod_cases3)
  then have "mm_reachable (mm, sch)"
    by (intro mm_reachable.step [OF mm_reachable.initial]) (rule mm_step.queue)
  moreover have q: "has_key (mm_queue mm) 7"
    using r by (auto simp: Matchmaking_Queue_def)
  ultimately show ?thesis using queued_has_search [of mm sch 7] r by simp
qed

text \<open>When its search runs, a queued character that has waited for the whole timeout is dropped
  with no room; otherwise it is given the best room and leaves the queue, or, if no room is
  eligible, keeps its place and is searched for again after the interval. Nobody else's place or
  result is touched.\<close>

theorem run_search_outcome:
  assumes "map_of (mm_queue mm) u = Some e" "\<forall>r \<in> set rooms. rsn_uid r \<noteq> InvalidUid"
    and "run_search now rooms (Search_Task u g t) mm = (queued, mm', thrown)"
  shows "thrown = None \<and>
    (if now - mme_queuedAt e \<ge> MatchmakingQueueTimeout
     then queued = [] \<and> mm_queue mm' = umap_erase u (mm_queue mm)
        \<and> mm_results mm' = mm_results mm @ [(u, NoRoom)]
     else if \<exists>r \<in> set rooms. eligible e r
     then queued = [] \<and> mm_queue mm' = umap_erase u (mm_queue mm)
        \<and> (\<exists>r. best_room e rooms r \<and> mm_results mm' = mm_results mm @ [(u, FoundRoom r)])
     else mm' = mm \<and> queued = [Search now u g t])"
  using assms(1,3) mm_loop_none [OF assms(2), of e] assms(2)
  by (auto simp: run_search_def Matchmake_def Let_def best_room_def split: if_splits)

lemma run_search_outcome_witness:
  "let mm = \<lparr>mm_queue = [(7, sample_entry)], mm_results = []\<rparr>;
       (queued, mm', thrown) = run_search 5 [sample_snapshot 2 3] (Search_Task 7 1 1) mm
   in queued = [] \<and> mm_queue mm' = [] \<and> (\<exists>r. best_room sample_entry [sample_snapshot 2 3] r
        \<and> mm_results mm' = [(7, FoundRoom r)])"
proof -
  let ?mm = "\<lparr>mm_queue = [(7, sample_entry)], mm_results = []\<rparr>"
  obtain queued mm' thrown where r: "run_search 5 [sample_snapshot 2 3] (Search_Task 7 1 1) ?mm = (queued, mm', thrown)"
    by (metis prod_cases3)
  have "\<forall>r \<in> set [sample_snapshot 2 3]. rsn_uid r \<noteq> InvalidUid" by (simp add: sample_snapshot_def)
  from run_search_outcome [OF _ this r, of sample_entry]
  have "queued = [] \<and> mm_queue mm' = [] \<and> (\<exists>r. best_room sample_entry [sample_snapshot 2 3] r
      \<and> mm_results mm' = [(7, FoundRoom r)])"
    by (simp add: sample_eligible MatchmakingQueueTimeout_def milliseconds_def umap_erase_def
        sample_entry_def [THEN arg_cong [where f = mme_queuedAt]])
  with r show ?thesis by (simp add: Let_def)
qed

end
