(* ===== verification/Msg_Lobby.thy ===== *)
theory Msg_Lobby imports Messages begin

text \<open>
  \<open>libserver/network/command/proto/LobbyMessageDefinitions.hpp\<close> and \<open>.cpp\<close>: the messages of
  the lobby server.
\<close>

datatype (plugins only:) AcCmdCLLogin = AcCmdCLLogin
  (AcCmdCLLogin_constant0: "u16")
  (AcCmdCLLogin_constant1: "u16")
  (AcCmdCLLogin_loginId: "bytes")
  (AcCmdCLLogin_memberNo: "u32")
  (AcCmdCLLogin_authKey: "bytes")
  (AcCmdCLLogin_val0: "u8")

definition AcCmdCLLogin_Write :: "AcCmdCLLogin \<Rightarrow> stream \<Rightarrow> exn + stream" where
  "AcCmdCLLogin_Write _ = throws (RuntimeError ''Not implemented.'')"

definition AcCmdCLLogin_Read :: "icu \<Rightarrow> stream \<Rightarrow> exn + (AcCmdCLLogin \<times> stream)" where
  "AcCmdCLLogin_Read cv =
     rd r16 (\<lambda>constant0'.
     rd r16 (\<lambda>constant1'.
     rd (rstr cv) (\<lambda>loginId'.
     rd r32 (\<lambda>memberNo'.
     rd (rstr cv) (\<lambda>authKey'.
     rd r8 (\<lambda>val0'.
     ret (AcCmdCLLogin constant0' constant1' loginId' memberNo' authKey' val0')))))))"

datatype (plugins only:) LobbyCommandLoginOK_Mission_Progress = LobbyCommandLoginOK_Mission_Progress
  (LobbyCommandLoginOK_Mission_Progress_id: "u32")
  (LobbyCommandLoginOK_Mission_Progress_value: "u32")

datatype (plugins only:) LobbyCommandLoginOK_Mission = LobbyCommandLoginOK_Mission
  (LobbyCommandLoginOK_Mission_id: "u16")
  (LobbyCommandLoginOK_Mission_progress: "LobbyCommandLoginOK_Mission_Progress list")

datatype (plugins only:) LobbyCommandLoginOK_SystemContent = LobbyCommandLoginOK_SystemContent
  (LobbyCommandLoginOK_SystemContent_values: "(u32 \<times> u32) list")

definition LobbyCommandLoginOK_SystemContent_Write :: "LobbyCommandLoginOK_SystemContent \<Rightarrow> stream \<Rightarrow> exn + stream" where
  "LobbyCommandLoginOK_SystemContent_Write v = seqw [
     w8 (of_nat (length (LobbyCommandLoginOK_SystemContent_values v))),
     seqw (map (\<lambda>x. seqw [
       w32 (fst x),
       w32 (snd x)]) (LobbyCommandLoginOK_SystemContent_values v))]"

definition LobbyCommandLoginOK_SystemContent_Read :: "stream \<Rightarrow> exn + (LobbyCommandLoginOK_SystemContent \<times> stream)" where
  "LobbyCommandLoginOK_SystemContent_Read = throws (RuntimeError ''Not implemented.'')"

datatype (plugins only:) LobbyCommandLoginOK_Struct1 = LobbyCommandLoginOK_Struct1
  (LobbyCommandLoginOK_Struct1_val0: "u16")
  (LobbyCommandLoginOK_Struct1_val1: "u16")
  (LobbyCommandLoginOK_Struct1_val2: "u16")

datatype (plugins only:) LobbyCommandLoginOK_ManagementSkills = LobbyCommandLoginOK_ManagementSkills
  (LobbyCommandLoginOK_ManagementSkills_val0: "u8")
  (LobbyCommandLoginOK_ManagementSkills_progress: "u32")
  (LobbyCommandLoginOK_ManagementSkills_points: "u16")

datatype (plugins only:) LobbyCommandLoginOK_SkillRanks_Skill = LobbyCommandLoginOK_SkillRanks_Skill
  (LobbyCommandLoginOK_SkillRanks_Skill_id: "u8")
  (LobbyCommandLoginOK_SkillRanks_Skill_rank: "u8")

datatype (plugins only:) LobbyCommandLoginOK_SkillRanks = LobbyCommandLoginOK_SkillRanks
  (LobbyCommandLoginOK_SkillRanks_values: "LobbyCommandLoginOK_SkillRanks_Skill list")

datatype (plugins only:) LobbyCommandLoginOK_TrainingProgression_MapProgressInfo = LobbyCommandLoginOK_TrainingProgression_MapProgressInfo
  (LobbyCommandLoginOK_TrainingProgression_MapProgressInfo_mapBlockId: "u16")
  (LobbyCommandLoginOK_TrainingProgression_MapProgressInfo_gameMode: "u8")
  (LobbyCommandLoginOK_TrainingProgression_MapProgressInfo_clearStage: "u8")

datatype (plugins only:) LobbyCommandLoginOK_TrainingProgression = LobbyCommandLoginOK_TrainingProgression
  (LobbyCommandLoginOK_TrainingProgression_mapProggressInfos: "LobbyCommandLoginOK_TrainingProgression_MapProgressInfo list")

datatype (plugins only:) LobbyCommandLoginOK = LobbyCommandLoginOK
  (LobbyCommandLoginOK_lobbyTime: "(u32 \<times> u32)")
  (LobbyCommandLoginOK_member0: "u32")
  (LobbyCommandLoginOK_uid: "u32")
  (LobbyCommandLoginOK_name: "bytes")
  (LobbyCommandLoginOK_notice: "bytes")
  (LobbyCommandLoginOK_gender: "u8")
  (LobbyCommandLoginOK_introduction: "bytes")
  (LobbyCommandLoginOK_equipmentItems: "wire_item list")
  (LobbyCommandLoginOK_expiredItems: "wire_item list")
  (LobbyCommandLoginOK_level: "u16")
  (LobbyCommandLoginOK_carrots: "u32")
  (LobbyCommandLoginOK_levelProgress: "u32")
  (LobbyCommandLoginOK_role: "u32")
  (LobbyCommandLoginOK_val3: "u8")
  (LobbyCommandLoginOK_settings: "wire_settings")
  (LobbyCommandLoginOK_missions: "LobbyCommandLoginOK_Mission list")
  (LobbyCommandLoginOK_val6: "bytes")
  (LobbyCommandLoginOK_ranchAddress: "u32")
  (LobbyCommandLoginOK_ranchPort: "u16")
  (LobbyCommandLoginOK_scramblingConstant: "u32")
  (LobbyCommandLoginOK_character: "wire_character")
  (LobbyCommandLoginOK_horse: "wire_horse")
  (LobbyCommandLoginOK_systemContent: "LobbyCommandLoginOK_SystemContent")
  (LobbyCommandLoginOK_bitfield: "u32")
  (LobbyCommandLoginOK_val9: "LobbyCommandLoginOK_Struct1")
  (LobbyCommandLoginOK_val10: "u32")
  (LobbyCommandLoginOK_managementSkills: "LobbyCommandLoginOK_ManagementSkills")
  (LobbyCommandLoginOK_skillRanks: "LobbyCommandLoginOK_SkillRanks")
  (LobbyCommandLoginOK_trainingProgression: "LobbyCommandLoginOK_TrainingProgression")
  (LobbyCommandLoginOK_characterCreationDate: "u32")
  (LobbyCommandLoginOK_guild: "wire_guild")
  (LobbyCommandLoginOK_val16: "u8")
  (LobbyCommandLoginOK_val17: "wire_rent")
  (LobbyCommandLoginOK_val18: "u32")
  (LobbyCommandLoginOK_val19: "u32")
  (LobbyCommandLoginOK_val20: "u32")
  (LobbyCommandLoginOK_pet: "wire_pet")

definition LobbyCommandLoginOK_Write :: "icu \<Rightarrow> LobbyCommandLoginOK \<Rightarrow> stream \<Rightarrow> exn + stream" where
  "LobbyCommandLoginOK_Write cv v = seqw [
     w32 (fst (LobbyCommandLoginOK_lobbyTime v)),
     w32 (snd (LobbyCommandLoginOK_lobbyTime v)),
     w32 (LobbyCommandLoginOK_member0 v),
     w32 (LobbyCommandLoginOK_uid v),
     wstr cv (LobbyCommandLoginOK_name v),
     wstr cv (LobbyCommandLoginOK_notice v),
     w8 (LobbyCommandLoginOK_gender v),
     wstr cv (LobbyCommandLoginOK_introduction v),
     throw_if (length (LobbyCommandLoginOK_equipmentItems v) > 16) (RuntimeError ''Equipment item count is over the limit''),
     w8 (of_nat (length (LobbyCommandLoginOK_equipmentItems v))),
     seqw (map Item_Write (LobbyCommandLoginOK_equipmentItems v)),
     throw_if (length (LobbyCommandLoginOK_expiredItems v) > 250) (RuntimeError ''Expired item count is over the limit''),
     w8 (of_nat (length (LobbyCommandLoginOK_expiredItems v))),
     seqw (map Item_Write (LobbyCommandLoginOK_expiredItems v)),
     w16 (LobbyCommandLoginOK_level v),
     w32 (LobbyCommandLoginOK_carrots v),
     w32 (LobbyCommandLoginOK_levelProgress v),
     w32 (LobbyCommandLoginOK_role v),
     w8 (LobbyCommandLoginOK_val3 v),
     Settings_Write cv (LobbyCommandLoginOK_settings v),
     w8 (of_nat (length (LobbyCommandLoginOK_missions v))),
     seqw (map (\<lambda>val. seqw [
         w16 (LobbyCommandLoginOK_Mission_id val),
         w8 (of_nat (length (LobbyCommandLoginOK_Mission_progress val))),
         seqw (map (\<lambda>nestedVal. seqw [
             w32 (LobbyCommandLoginOK_Mission_Progress_id nestedVal),
             w32 (LobbyCommandLoginOK_Mission_Progress_value nestedVal)]) (LobbyCommandLoginOK_Mission_progress val))]) (LobbyCommandLoginOK_missions v)),
     wstr cv (LobbyCommandLoginOK_val6 v),
     w32 (LobbyCommandLoginOK_ranchAddress v),
     w16 (LobbyCommandLoginOK_ranchPort v),
     w32 (LobbyCommandLoginOK_scramblingConstant v),
     Character_Write (LobbyCommandLoginOK_character v),
     Horse_Write cv (LobbyCommandLoginOK_horse v),
     LobbyCommandLoginOK_SystemContent_Write (LobbyCommandLoginOK_systemContent v),
     w32 (LobbyCommandLoginOK_bitfield v),
     w16 (LobbyCommandLoginOK_Struct1_val0 (LobbyCommandLoginOK_val9 v)),
     w16 (LobbyCommandLoginOK_Struct1_val1 (LobbyCommandLoginOK_val9 v)),
     w16 (LobbyCommandLoginOK_Struct1_val2 (LobbyCommandLoginOK_val9 v)),
     w32 (LobbyCommandLoginOK_val10 v),
     w8 (LobbyCommandLoginOK_ManagementSkills_val0 (LobbyCommandLoginOK_managementSkills v)),
     w32 (LobbyCommandLoginOK_ManagementSkills_progress (LobbyCommandLoginOK_managementSkills v)),
     w16 (LobbyCommandLoginOK_ManagementSkills_points (LobbyCommandLoginOK_managementSkills v)),
     w8 (of_nat (length (LobbyCommandLoginOK_SkillRanks_values (LobbyCommandLoginOK_skillRanks v)))),
     seqw (map (\<lambda>value. seqw [
         w8 (LobbyCommandLoginOK_SkillRanks_Skill_id value),
         w8 (LobbyCommandLoginOK_SkillRanks_Skill_rank value)]) (LobbyCommandLoginOK_SkillRanks_values (LobbyCommandLoginOK_skillRanks v))),
     w8 (of_nat (length (LobbyCommandLoginOK_TrainingProgression_mapProggressInfos (LobbyCommandLoginOK_trainingProgression v)))),
     seqw (map (\<lambda>value. seqw [
         w16 (LobbyCommandLoginOK_TrainingProgression_MapProgressInfo_mapBlockId value),
         w8 (LobbyCommandLoginOK_TrainingProgression_MapProgressInfo_gameMode value),
         w8 (LobbyCommandLoginOK_TrainingProgression_MapProgressInfo_clearStage value)]) (LobbyCommandLoginOK_TrainingProgression_mapProggressInfos (LobbyCommandLoginOK_trainingProgression v))),
     w32 (LobbyCommandLoginOK_characterCreationDate v),
     w32 (wgu_uid (LobbyCommandLoginOK_guild v)),
     w8 (wgu_val1 (LobbyCommandLoginOK_guild v)),
     w32 (wgu_val2 (LobbyCommandLoginOK_guild v)),
     wstr cv (wgu_name (LobbyCommandLoginOK_guild v)),
     w8 (wgu_guildRole (LobbyCommandLoginOK_guild v)),
     w32 (wgu_val5 (LobbyCommandLoginOK_guild v)),
     w8 (wgu_val6 (LobbyCommandLoginOK_guild v)),
     w8 (LobbyCommandLoginOK_val16 v),
     w32 (wre_mountUid (LobbyCommandLoginOK_val17 v)),
     w32 (wre_val1 (LobbyCommandLoginOK_val17 v)),
     w32 (wre_val2 (LobbyCommandLoginOK_val17 v)),
     w32 (LobbyCommandLoginOK_val18 v),
     w32 (LobbyCommandLoginOK_val19 v),
     w32 (LobbyCommandLoginOK_val20 v),
     Pet_Write cv (LobbyCommandLoginOK_pet v)]"

definition LobbyCommandLoginOK_Read :: "stream \<Rightarrow> exn + (LobbyCommandLoginOK \<times> stream)" where
  "LobbyCommandLoginOK_Read = throws (RuntimeError ''Not implemented.'')"

datatype (plugins only:) AcCmdCLLoginCancel = AcCmdCLLoginCancel
  (AcCmdCLLoginCancel_reason: "u8")

definition AcCmdCLLoginCancel_Write :: "AcCmdCLLoginCancel \<Rightarrow> stream \<Rightarrow> exn + stream" where
  "AcCmdCLLoginCancel_Write v = seqw [
     w8 (AcCmdCLLoginCancel_reason v)]"

definition AcCmdCLLoginCancel_Read :: "stream \<Rightarrow> exn + (AcCmdCLLoginCancel \<times> stream)" where
  "AcCmdCLLoginCancel_Read = throws (RuntimeError ''Not implemented.'')"

type_synonym AcCmdCLShowInventory = unit

definition AcCmdCLShowInventory_Write :: "AcCmdCLShowInventory \<Rightarrow> stream \<Rightarrow> exn + stream" where
  "AcCmdCLShowInventory_Write _ = throws (RuntimeError ''Not implemented.'')"

definition AcCmdCLShowInventory_Read :: "stream \<Rightarrow> exn + (AcCmdCLShowInventory \<times> stream)" where
  "AcCmdCLShowInventory_Read = ret ()"

datatype (plugins only:) LobbyCommandShowInventoryOK = LobbyCommandShowInventoryOK
  (LobbyCommandShowInventoryOK_items: "wire_item list")
  (LobbyCommandShowInventoryOK_horses: "wire_horse list")

definition LobbyCommandShowInventoryOK_Write :: "icu \<Rightarrow> LobbyCommandShowInventoryOK \<Rightarrow> stream \<Rightarrow> exn + stream" where
  "LobbyCommandShowInventoryOK_Write cv v = seqw [
     throw_if (length (LobbyCommandShowInventoryOK_items v) > 250) (RuntimeError ''Item count greater than protocol max (250)''),
     throw_if (length (LobbyCommandShowInventoryOK_horses v) > 10) (RuntimeError ''Horse count greater than protocol max (10)''),
     w8 (of_nat (length (LobbyCommandShowInventoryOK_items v))),
     seqw (map Item_Write (LobbyCommandShowInventoryOK_items v)),
     w8 (of_nat (length (LobbyCommandShowInventoryOK_horses v))),
     seqw (map (Horse_Write cv) (LobbyCommandShowInventoryOK_horses v))]"

definition LobbyCommandShowInventoryOK_Read :: "stream \<Rightarrow> exn + (LobbyCommandShowInventoryOK \<times> stream)" where
  "LobbyCommandShowInventoryOK_Read = throws (RuntimeError ''Not implemented.'')"

type_synonym LobbyCommandShowInventoryCancel = unit

definition LobbyCommandShowInventoryCancel_Write :: "LobbyCommandShowInventoryCancel \<Rightarrow> stream \<Rightarrow> exn + stream" where
  "LobbyCommandShowInventoryCancel_Write _ = throws (RuntimeError ''Not implemented.'')"

definition LobbyCommandShowInventoryCancel_Read :: "stream \<Rightarrow> exn + (LobbyCommandShowInventoryCancel \<times> stream)" where
  "LobbyCommandShowInventoryCancel_Read = ret ()"

type_synonym LobbyCommandCreateNicknameNotify = unit

definition LobbyCommandCreateNicknameNotify_Write :: "LobbyCommandCreateNicknameNotify \<Rightarrow> stream \<Rightarrow> exn + stream" where
  "LobbyCommandCreateNicknameNotify_Write _ = seqw []"

definition LobbyCommandCreateNicknameNotify_Read :: "stream \<Rightarrow> exn + (LobbyCommandCreateNicknameNotify \<times> stream)" where
  "LobbyCommandCreateNicknameNotify_Read = throws (RuntimeError ''Not implemented.'')"

datatype (plugins only:) AcCmdCLCreateNickname = AcCmdCLCreateNickname
  (AcCmdCLCreateNickname_nickname: "bytes")
  (AcCmdCLCreateNickname_character: "wire_character")
  (AcCmdCLCreateNickname_requestedHorseTid: "u32")

definition AcCmdCLCreateNickname_Write :: "AcCmdCLCreateNickname \<Rightarrow> stream \<Rightarrow> exn + stream" where
  "AcCmdCLCreateNickname_Write _ = throws (RuntimeError ''Not implemented.'')"

definition AcCmdCLCreateNickname_Read :: "icu \<Rightarrow> stream \<Rightarrow> exn + (AcCmdCLCreateNickname \<times> stream)" where
  "AcCmdCLCreateNickname_Read cv =
     rd (rstr cv) (\<lambda>nickname'.
     rd Character_Read (\<lambda>character'.
     rd r32 (\<lambda>requestedHorseTid'.
     ret (AcCmdCLCreateNickname nickname' character' requestedHorseTid'))))"

datatype (plugins only:) AcCmdCLCreateNicknameCancel = AcCmdCLCreateNicknameCancel
  (AcCmdCLCreateNicknameCancel_error: "u8")

definition AcCmdCLCreateNicknameCancel_Write :: "AcCmdCLCreateNicknameCancel \<Rightarrow> stream \<Rightarrow> exn + stream" where
  "AcCmdCLCreateNicknameCancel_Write v = seqw [
     w8 (AcCmdCLCreateNicknameCancel_error v)]"

definition AcCmdCLCreateNicknameCancel_Read :: "stream \<Rightarrow> exn + (AcCmdCLCreateNicknameCancel \<times> stream)" where
  "AcCmdCLCreateNicknameCancel_Read = throws (RuntimeError ''Not implemented.'')"

type_synonym AcCmdCLRequestLeagueInfo = unit

definition AcCmdCLRequestLeagueInfo_Write :: "AcCmdCLRequestLeagueInfo \<Rightarrow> stream \<Rightarrow> exn + stream" where
  "AcCmdCLRequestLeagueInfo_Write _ = seqw []"

definition AcCmdCLRequestLeagueInfo_Read :: "stream \<Rightarrow> exn + (AcCmdCLRequestLeagueInfo \<times> stream)" where
  "AcCmdCLRequestLeagueInfo_Read = ret ()"

datatype (plugins only:) AcCmdCLRequestLeagueInfoOK = AcCmdCLRequestLeagueInfoOK
  (AcCmdCLRequestLeagueInfoOK_season: "u8")
  (AcCmdCLRequestLeagueInfoOK_league: "u8")
  (AcCmdCLRequestLeagueInfoOK_unk2: "u32")
  (AcCmdCLRequestLeagueInfoOK_unk3: "u32")
  (AcCmdCLRequestLeagueInfoOK_rankingPercentile: "u8")
  (AcCmdCLRequestLeagueInfoOK_unk5: "u8")
  (AcCmdCLRequestLeagueInfoOK_unk6: "u32")
  (AcCmdCLRequestLeagueInfoOK_unk7: "u32")
  (AcCmdCLRequestLeagueInfoOK_unk8: "u8")
  (AcCmdCLRequestLeagueInfoOK_leagueReward: "u8")
  (AcCmdCLRequestLeagueInfoOK_place: "u32")
  (AcCmdCLRequestLeagueInfoOK_rank: "u8")
  (AcCmdCLRequestLeagueInfoOK_claimedReward: "u8")
  (AcCmdCLRequestLeagueInfoOK_unk13: "u8")

definition AcCmdCLRequestLeagueInfoOK_Write :: "AcCmdCLRequestLeagueInfoOK \<Rightarrow> stream \<Rightarrow> exn + stream" where
  "AcCmdCLRequestLeagueInfoOK_Write v = seqw [
     w8 (AcCmdCLRequestLeagueInfoOK_season v),
     w8 (AcCmdCLRequestLeagueInfoOK_league v),
     w32 (AcCmdCLRequestLeagueInfoOK_unk2 v),
     w32 (AcCmdCLRequestLeagueInfoOK_unk3 v),
     w8 (AcCmdCLRequestLeagueInfoOK_rankingPercentile v),
     w8 (AcCmdCLRequestLeagueInfoOK_unk5 v),
     w32 (AcCmdCLRequestLeagueInfoOK_unk6 v),
     w32 (AcCmdCLRequestLeagueInfoOK_unk7 v),
     w8 (AcCmdCLRequestLeagueInfoOK_unk8 v),
     w8 (AcCmdCLRequestLeagueInfoOK_leagueReward v),
     w32 (AcCmdCLRequestLeagueInfoOK_place v),
     w8 (AcCmdCLRequestLeagueInfoOK_rank v),
     w8 (AcCmdCLRequestLeagueInfoOK_claimedReward v),
     w8 (AcCmdCLRequestLeagueInfoOK_unk13 v)]"

definition AcCmdCLRequestLeagueInfoOK_Read :: "stream \<Rightarrow> exn + (AcCmdCLRequestLeagueInfoOK \<times> stream)" where
  "AcCmdCLRequestLeagueInfoOK_Read = throws (RuntimeError ''Not implemented.'')"

type_synonym AcCmdCLRequestLeagueInfoCancel = unit

definition AcCmdCLRequestLeagueInfoCancel_Write :: "AcCmdCLRequestLeagueInfoCancel \<Rightarrow> stream \<Rightarrow> exn + stream" where
  "AcCmdCLRequestLeagueInfoCancel_Write _ = seqw []"

definition AcCmdCLRequestLeagueInfoCancel_Read :: "stream \<Rightarrow> exn + (AcCmdCLRequestLeagueInfoCancel \<times> stream)" where
  "AcCmdCLRequestLeagueInfoCancel_Read = ret ()"

datatype (plugins only:) AcCmdCLAchievementCompleteList = AcCmdCLAchievementCompleteList
  (AcCmdCLAchievementCompleteList_unk0: "u32")

definition AcCmdCLAchievementCompleteList_Write :: "AcCmdCLAchievementCompleteList \<Rightarrow> stream \<Rightarrow> exn + stream" where
  "AcCmdCLAchievementCompleteList_Write _ = throws (RuntimeError ''Not implemented.'')"

definition AcCmdCLAchievementCompleteList_Read :: "stream \<Rightarrow> exn + (AcCmdCLAchievementCompleteList \<times> stream)" where
  "AcCmdCLAchievementCompleteList_Read =
     rd r32 (\<lambda>unk0'.
     ret (AcCmdCLAchievementCompleteList unk0'))"

datatype (plugins only:) AcCmdCLAchievementCompleteListOK = AcCmdCLAchievementCompleteListOK
  (AcCmdCLAchievementCompleteListOK_unk0: "u32")
  (AcCmdCLAchievementCompleteListOK_achievements: "wire_quest list")

definition AcCmdCLAchievementCompleteListOK_Write :: "AcCmdCLAchievementCompleteListOK \<Rightarrow> stream \<Rightarrow> exn + stream" where
  "AcCmdCLAchievementCompleteListOK_Write v = seqw [
     w32 (AcCmdCLAchievementCompleteListOK_unk0 v),
     w16 (of_nat (length (AcCmdCLAchievementCompleteListOK_achievements v))),
     seqw (map Quest_Write (AcCmdCLAchievementCompleteListOK_achievements v))]"

definition AcCmdCLAchievementCompleteListOK_Read :: "stream \<Rightarrow> exn + (AcCmdCLAchievementCompleteListOK \<times> stream)" where
  "AcCmdCLAchievementCompleteListOK_Read = throws (RuntimeError ''Not implemented.'')"

datatype (plugins only:) AcCmdCLEnterChannel = AcCmdCLEnterChannel
  (AcCmdCLEnterChannel_channel: "u8")

definition AcCmdCLEnterChannel_Write :: "AcCmdCLEnterChannel \<Rightarrow> stream \<Rightarrow> exn + stream" where
  "AcCmdCLEnterChannel_Write _ = throws (RuntimeError ''Not implemented.'')"

definition AcCmdCLEnterChannel_Read :: "stream \<Rightarrow> exn + (AcCmdCLEnterChannel \<times> stream)" where
  "AcCmdCLEnterChannel_Read =
     rd r8 (\<lambda>channel'.
     ret (AcCmdCLEnterChannel channel'))"

datatype (plugins only:) AcCmdCLEnterChannelOK = AcCmdCLEnterChannelOK
  (AcCmdCLEnterChannelOK_unk0: "u8")
  (AcCmdCLEnterChannelOK_unk1: "u16")

definition AcCmdCLEnterChannelOK_Write :: "AcCmdCLEnterChannelOK \<Rightarrow> stream \<Rightarrow> exn + stream" where
  "AcCmdCLEnterChannelOK_Write v = seqw [
     w8 (AcCmdCLEnterChannelOK_unk0 v),
     w16 (AcCmdCLEnterChannelOK_unk1 v)]"

definition AcCmdCLEnterChannelOK_Read :: "stream \<Rightarrow> exn + (AcCmdCLEnterChannelOK \<times> stream)" where
  "AcCmdCLEnterChannelOK_Read = throws (RuntimeError ''Not implemented.'')"

type_synonym AcCmdCLEnterChannelCancel = unit

definition AcCmdCLEnterChannelCancel_Write :: "AcCmdCLEnterChannelCancel \<Rightarrow> stream \<Rightarrow> exn + stream" where
  "AcCmdCLEnterChannelCancel_Write _ = seqw []"

definition AcCmdCLEnterChannelCancel_Read :: "stream \<Rightarrow> exn + (AcCmdCLEnterChannelCancel \<times> stream)" where
  "AcCmdCLEnterChannelCancel_Read = throws (RuntimeError ''Not implemented.'')"

type_synonym AcCmdCLLeaveChannel = unit

definition AcCmdCLLeaveChannel_Write :: "AcCmdCLLeaveChannel \<Rightarrow> stream \<Rightarrow> exn + stream" where
  "AcCmdCLLeaveChannel_Write _ = throws (RuntimeError ''Not implemented.'')"

definition AcCmdCLLeaveChannel_Read :: "stream \<Rightarrow> exn + (AcCmdCLLeaveChannel \<times> stream)" where
  "AcCmdCLLeaveChannel_Read = ret ()"

type_synonym AcCmdCLLeaveChannelOK = unit

definition AcCmdCLLeaveChannelOK_Write :: "AcCmdCLLeaveChannelOK \<Rightarrow> stream \<Rightarrow> exn + stream" where
  "AcCmdCLLeaveChannelOK_Write _ = seqw []"

definition AcCmdCLLeaveChannelOK_Read :: "stream \<Rightarrow> exn + (AcCmdCLLeaveChannelOK \<times> stream)" where
  "AcCmdCLLeaveChannelOK_Read = throws (RuntimeError ''Not implemented.'')"

datatype (plugins only:) AcCmdCLRoomList = AcCmdCLRoomList
  (AcCmdCLRoomList_page: "u8")
  (AcCmdCLRoomList_gameMode: "u8")
  (AcCmdCLRoomList_teamMode: "u8")

definition AcCmdCLRoomList_Write :: "AcCmdCLRoomList \<Rightarrow> stream \<Rightarrow> exn + stream" where
  "AcCmdCLRoomList_Write _ = throws (RuntimeError ''Not implemented.'')"

definition AcCmdCLRoomList_Read :: "stream \<Rightarrow> exn + (AcCmdCLRoomList \<times> stream)" where
  "AcCmdCLRoomList_Read =
     rd r8 (\<lambda>page'.
     rd r8 (\<lambda>gameMode'.
     rd r8 (\<lambda>teamMode'.
     ret (AcCmdCLRoomList page' gameMode' teamMode'))))"

datatype (plugins only:) LobbyCommandRoomListOK_Room = LobbyCommandRoomListOK_Room
  (LobbyCommandRoomListOK_Room_uid: "u32")
  (LobbyCommandRoomListOK_Room_name: "bytes")
  (LobbyCommandRoomListOK_Room_playerCount: "u8")
  (LobbyCommandRoomListOK_Room_maxPlayerCount: "u8")
  (LobbyCommandRoomListOK_Room_isLocked: "u8")
  (LobbyCommandRoomListOK_Room_unk0: "u8")
  (LobbyCommandRoomListOK_Room_unk1: "u8")
  (LobbyCommandRoomListOK_Room_map: "u16")
  (LobbyCommandRoomListOK_Room_state: "u8")
  (LobbyCommandRoomListOK_Room_unk2: "u16")
  (LobbyCommandRoomListOK_Room_unk3: "u8")
  (LobbyCommandRoomListOK_Room_skillBracket: "u8")
  (LobbyCommandRoomListOK_Room_unk4: "u32")

definition LobbyCommandRoomListOK_Room_Write :: "icu \<Rightarrow> LobbyCommandRoomListOK_Room \<Rightarrow> stream \<Rightarrow> exn + stream" where
  "LobbyCommandRoomListOK_Room_Write cv v = seqw [
     w32 (LobbyCommandRoomListOK_Room_uid v),
     wstr cv (LobbyCommandRoomListOK_Room_name v),
     w8 (LobbyCommandRoomListOK_Room_playerCount v),
     w8 (LobbyCommandRoomListOK_Room_maxPlayerCount v),
     w8 (LobbyCommandRoomListOK_Room_isLocked v),
     w8 (LobbyCommandRoomListOK_Room_unk0 v),
     w8 (LobbyCommandRoomListOK_Room_unk1 v),
     w16 (LobbyCommandRoomListOK_Room_map v),
     w8 (LobbyCommandRoomListOK_Room_state v),
     w16 (LobbyCommandRoomListOK_Room_unk2 v),
     w8 (LobbyCommandRoomListOK_Room_unk3 v),
     w8 (LobbyCommandRoomListOK_Room_skillBracket v),
     w32 (LobbyCommandRoomListOK_Room_unk4 v)]"

definition LobbyCommandRoomListOK_Room_Read :: "stream \<Rightarrow> exn + (LobbyCommandRoomListOK_Room \<times> stream)" where
  "LobbyCommandRoomListOK_Room_Read = throws (RuntimeError ''Not implemented.'')"

datatype (plugins only:) LobbyCommandRoomListOK_Anon_unk3 = LobbyCommandRoomListOK_Anon_unk3
  (LobbyCommandRoomListOK_Anon_unk3_unk0: "u32")
  (LobbyCommandRoomListOK_Anon_unk3_unk1: "bytes")
  (LobbyCommandRoomListOK_Anon_unk3_unk2: "u16")

datatype (plugins only:) LobbyCommandRoomListOK = LobbyCommandRoomListOK
  (LobbyCommandRoomListOK_page: "u8")
  (LobbyCommandRoomListOK_gameMode: "u8")
  (LobbyCommandRoomListOK_teamMode: "u8")
  (LobbyCommandRoomListOK_rooms: "LobbyCommandRoomListOK_Room list")
  (LobbyCommandRoomListOK_unk3: "LobbyCommandRoomListOK_Anon_unk3")

definition LobbyCommandRoomListOK_Write :: "icu \<Rightarrow> LobbyCommandRoomListOK \<Rightarrow> stream \<Rightarrow> exn + stream" where
  "LobbyCommandRoomListOK_Write cv v = seqw [
     w8 (LobbyCommandRoomListOK_page v),
     w8 (LobbyCommandRoomListOK_gameMode v),
     w8 (LobbyCommandRoomListOK_teamMode v),
     w8 (of_nat (length (LobbyCommandRoomListOK_rooms v))),
     seqw (map (LobbyCommandRoomListOK_Room_Write cv) (LobbyCommandRoomListOK_rooms v)),
     w32 (LobbyCommandRoomListOK_Anon_unk3_unk0 (LobbyCommandRoomListOK_unk3 v)),
     wstr cv (LobbyCommandRoomListOK_Anon_unk3_unk1 (LobbyCommandRoomListOK_unk3 v)),
     w16 (LobbyCommandRoomListOK_Anon_unk3_unk2 (LobbyCommandRoomListOK_unk3 v))]"

definition LobbyCommandRoomListOK_Read :: "stream \<Rightarrow> exn + (LobbyCommandRoomListOK \<times> stream)" where
  "LobbyCommandRoomListOK_Read = throws (RuntimeError ''Not implemented.'')"

datatype (plugins only:) AcCmdCLMakeRoom = AcCmdCLMakeRoom
  (AcCmdCLMakeRoom_name: "bytes")
  (AcCmdCLMakeRoom_password: "bytes")
  (AcCmdCLMakeRoom_playerCount: "u8")
  (AcCmdCLMakeRoom_gameMode: "u8")
  (AcCmdCLMakeRoom_teamMode: "u8")
  (AcCmdCLMakeRoom_missionId: "u16")
  (AcCmdCLMakeRoom_unk3: "u8")
  (AcCmdCLMakeRoom_bitset: "u16")
  (AcCmdCLMakeRoom_unk4: "u8")

definition AcCmdCLMakeRoom_Write :: "AcCmdCLMakeRoom \<Rightarrow> stream \<Rightarrow> exn + stream" where
  "AcCmdCLMakeRoom_Write _ = throws (RuntimeError ''Not implemented.'')"

definition AcCmdCLMakeRoom_Read :: "icu \<Rightarrow> stream \<Rightarrow> exn + (AcCmdCLMakeRoom \<times> stream)" where
  "AcCmdCLMakeRoom_Read cv =
     rd (rstr cv) (\<lambda>name'.
     rd (rstr cv) (\<lambda>password'.
     rd r8 (\<lambda>playerCount'.
     rd r8 (\<lambda>gameMode'.
     rd r8 (\<lambda>teamMode'.
     rd r16 (\<lambda>missionId'.
     rd r8 (\<lambda>unk3'.
     rd r16 (\<lambda>bitset'.
     rd r8 (\<lambda>unk4'.
     ret (AcCmdCLMakeRoom name' password' playerCount' gameMode' teamMode' missionId' unk3' bitset' unk4'))))))))))"

datatype (plugins only:) AcCmdCLMakeRoomOK = AcCmdCLMakeRoomOK
  (AcCmdCLMakeRoomOK_roomUid: "u32")
  (AcCmdCLMakeRoomOK_oneTimePassword: "u32")
  (AcCmdCLMakeRoomOK_raceServerAddress: "u32")
  (AcCmdCLMakeRoomOK_raceServerPort: "u16")
  (AcCmdCLMakeRoomOK_unk2: "u8")

definition AcCmdCLMakeRoomOK_Write :: "AcCmdCLMakeRoomOK \<Rightarrow> stream \<Rightarrow> exn + stream" where
  "AcCmdCLMakeRoomOK_Write v = seqw [
     w32 (AcCmdCLMakeRoomOK_roomUid v),
     w32 (AcCmdCLMakeRoomOK_oneTimePassword v),
     w32 (htonl (AcCmdCLMakeRoomOK_raceServerAddress v)),
     w16 (AcCmdCLMakeRoomOK_raceServerPort v),
     w8 (AcCmdCLMakeRoomOK_unk2 v)]"

definition AcCmdCLMakeRoomOK_Read :: "stream \<Rightarrow> exn + (AcCmdCLMakeRoomOK \<times> stream)" where
  "AcCmdCLMakeRoomOK_Read = throws (RuntimeError ''Not implemented.'')"

datatype (plugins only:) AcCmdCLMakeRoomCancel = AcCmdCLMakeRoomCancel
  (AcCmdCLMakeRoomCancel_unk0: "u8")

definition AcCmdCLMakeRoomCancel_Write :: "AcCmdCLMakeRoomCancel \<Rightarrow> stream \<Rightarrow> exn + stream" where
  "AcCmdCLMakeRoomCancel_Write v = seqw [
     w8 (AcCmdCLMakeRoomCancel_unk0 v)]"

definition AcCmdCLMakeRoomCancel_Read :: "stream \<Rightarrow> exn + (AcCmdCLMakeRoomCancel \<times> stream)" where
  "AcCmdCLMakeRoomCancel_Read = throws (RuntimeError ''Not implemented.'')"

datatype (plugins only:) AcCmdCLEnterRoom = AcCmdCLEnterRoom
  (AcCmdCLEnterRoom_roomUid: "u32")
  (AcCmdCLEnterRoom_password: "bytes")
  (AcCmdCLEnterRoom_enterRoomType: "u32")

definition AcCmdCLEnterRoom_Write :: "AcCmdCLEnterRoom \<Rightarrow> stream \<Rightarrow> exn + stream" where
  "AcCmdCLEnterRoom_Write _ = throws (RuntimeError ''Not implemented.'')"

definition AcCmdCLEnterRoom_Read :: "icu \<Rightarrow> stream \<Rightarrow> exn + (AcCmdCLEnterRoom \<times> stream)" where
  "AcCmdCLEnterRoom_Read cv =
     rd r32 (\<lambda>roomUid'.
     rd (rstr cv) (\<lambda>password'.
     rd r32 (\<lambda>enterRoomType'.
     ret (AcCmdCLEnterRoom roomUid' password' enterRoomType'))))"

datatype (plugins only:) AcCmdCLEnterRoomOK = AcCmdCLEnterRoomOK
  (AcCmdCLEnterRoomOK_roomUid: "u32")
  (AcCmdCLEnterRoomOK_oneTimePassword: "u32")
  (AcCmdCLEnterRoomOK_raceServerAddress: "u32")
  (AcCmdCLEnterRoomOK_raceServerPort: "u16")
  (AcCmdCLEnterRoomOK_member6: "u8")

definition AcCmdCLEnterRoomOK_Write :: "AcCmdCLEnterRoomOK \<Rightarrow> stream \<Rightarrow> exn + stream" where
  "AcCmdCLEnterRoomOK_Write v = seqw [
     w32 (AcCmdCLEnterRoomOK_roomUid v),
     w32 (AcCmdCLEnterRoomOK_oneTimePassword v),
     w32 (htonl (AcCmdCLEnterRoomOK_raceServerAddress v)),
     w16 (AcCmdCLEnterRoomOK_raceServerPort v),
     w8 (AcCmdCLEnterRoomOK_member6 v)]"

definition AcCmdCLEnterRoomOK_Read :: "stream \<Rightarrow> exn + (AcCmdCLEnterRoomOK \<times> stream)" where
  "AcCmdCLEnterRoomOK_Read = throws (RuntimeError ''Not implemented.'')"

datatype (plugins only:) AcCmdCLEnterRoomCancel = AcCmdCLEnterRoomCancel
  (AcCmdCLEnterRoomCancel_status: "u8")

definition AcCmdCLEnterRoomCancel_Write :: "AcCmdCLEnterRoomCancel \<Rightarrow> stream \<Rightarrow> exn + stream" where
  "AcCmdCLEnterRoomCancel_Write v = seqw [
     w8 (AcCmdCLEnterRoomCancel_status v)]"

definition AcCmdCLEnterRoomCancel_Read :: "stream \<Rightarrow> exn + (AcCmdCLEnterRoomCancel \<times> stream)" where
  "AcCmdCLEnterRoomCancel_Read = throws (RuntimeError ''Not implemented.'')"

type_synonym AcCmdCLLeaveRoom = unit

definition AcCmdCLLeaveRoom_Write :: "AcCmdCLLeaveRoom \<Rightarrow> stream \<Rightarrow> exn + stream" where
  "AcCmdCLLeaveRoom_Write _ = throws (RuntimeError ''Not implemented.'')"

definition AcCmdCLLeaveRoom_Read :: "stream \<Rightarrow> exn + (AcCmdCLLeaveRoom \<times> stream)" where
  "AcCmdCLLeaveRoom_Read = ret ()"

type_synonym AcCmdCLLeaveRoomOK = unit

definition AcCmdCLLeaveRoomOK_Write :: "AcCmdCLLeaveRoomOK \<Rightarrow> stream \<Rightarrow> exn + stream" where
  "AcCmdCLLeaveRoomOK_Write _ = seqw []"

definition AcCmdCLLeaveRoomOK_Read :: "stream \<Rightarrow> exn + (AcCmdCLLeaveRoomOK \<times> stream)" where
  "AcCmdCLLeaveRoomOK_Read = throws (RuntimeError ''Not implemented.'')"

datatype (plugins only:) AcCmdCLRequestQuestList = AcCmdCLRequestQuestList
  (AcCmdCLRequestQuestList_unk0: "u32")

definition AcCmdCLRequestQuestList_Write :: "AcCmdCLRequestQuestList \<Rightarrow> stream \<Rightarrow> exn + stream" where
  "AcCmdCLRequestQuestList_Write _ = throws (RuntimeError ''Not implemented.'')"

definition AcCmdCLRequestQuestList_Read :: "stream \<Rightarrow> exn + (AcCmdCLRequestQuestList \<times> stream)" where
  "AcCmdCLRequestQuestList_Read =
     rd r32 (\<lambda>unk0'.
     ret (AcCmdCLRequestQuestList unk0'))"

datatype (plugins only:) AcCmdCLRequestQuestListOK = AcCmdCLRequestQuestListOK
  (AcCmdCLRequestQuestListOK_unk0: "u32")
  (AcCmdCLRequestQuestListOK_quests: "wire_quest list")

definition AcCmdCLRequestQuestListOK_Write :: "AcCmdCLRequestQuestListOK \<Rightarrow> stream \<Rightarrow> exn + stream" where
  "AcCmdCLRequestQuestListOK_Write v = seqw [
     w32 (AcCmdCLRequestQuestListOK_unk0 v),
     w16 (of_nat (length (AcCmdCLRequestQuestListOK_quests v))),
     seqw (map Quest_Write (AcCmdCLRequestQuestListOK_quests v))]"

definition AcCmdCLRequestQuestListOK_Read :: "stream \<Rightarrow> exn + (AcCmdCLRequestQuestListOK \<times> stream)" where
  "AcCmdCLRequestQuestListOK_Read = throws (RuntimeError ''Not implemented.'')"

datatype (plugins only:) AcCmdCLRequestDailyQuestList = AcCmdCLRequestDailyQuestList
  (AcCmdCLRequestDailyQuestList_val0: "u32")

definition AcCmdCLRequestDailyQuestList_Write :: "AcCmdCLRequestDailyQuestList \<Rightarrow> stream \<Rightarrow> exn + stream" where
  "AcCmdCLRequestDailyQuestList_Write _ = throws (RuntimeError ''Not implemented.'')"

definition AcCmdCLRequestDailyQuestList_Read :: "stream \<Rightarrow> exn + (AcCmdCLRequestDailyQuestList \<times> stream)" where
  "AcCmdCLRequestDailyQuestList_Read =
     rd r32 (\<lambda>val0'.
     ret (AcCmdCLRequestDailyQuestList val0'))"

datatype (plugins only:) AcCmdCLRequestDailyQuestListOK = AcCmdCLRequestDailyQuestListOK
  (AcCmdCLRequestDailyQuestListOK_characterUid: "u32")
  (AcCmdCLRequestDailyQuestListOK_unk: "wire_quest list")
  (AcCmdCLRequestDailyQuestListOK_dailyQuests: "wire_daily_quest list")

definition AcCmdCLRequestDailyQuestListOK_Write :: "AcCmdCLRequestDailyQuestListOK \<Rightarrow> stream \<Rightarrow> exn + stream" where
  "AcCmdCLRequestDailyQuestListOK_Write v = seqw [
     w32 (AcCmdCLRequestDailyQuestListOK_characterUid v),
     w16 (of_nat (length (AcCmdCLRequestDailyQuestListOK_unk v))),
     seqw (map Quest_Write (AcCmdCLRequestDailyQuestListOK_unk v)),
     w16 (of_nat (length (AcCmdCLRequestDailyQuestListOK_dailyQuests v))),
     seqw (map DailyQuest_Write (AcCmdCLRequestDailyQuestListOK_dailyQuests v))]"

definition AcCmdCLRequestDailyQuestListOK_Read :: "stream \<Rightarrow> exn + (AcCmdCLRequestDailyQuestListOK \<times> stream)" where
  "AcCmdCLRequestDailyQuestListOK_Read = throws (RuntimeError ''Not implemented.'')"

datatype (plugins only:) AcCmdCLEnterRanch = AcCmdCLEnterRanch
  (AcCmdCLEnterRanch_rancherUid: "u32")
  (AcCmdCLEnterRanch_unk1: "bytes")
  (AcCmdCLEnterRanch_unk2: "u8")

definition AcCmdCLEnterRanch_Write :: "AcCmdCLEnterRanch \<Rightarrow> stream \<Rightarrow> exn + stream" where
  "AcCmdCLEnterRanch_Write _ = throws (RuntimeError ''Not implemented.'')"

definition AcCmdCLEnterRanch_Read :: "icu \<Rightarrow> stream \<Rightarrow> exn + (AcCmdCLEnterRanch \<times> stream)" where
  "AcCmdCLEnterRanch_Read cv =
     rd r32 (\<lambda>rancherUid'.
     rd (rstr cv) (\<lambda>unk1'.
     rd r8 (\<lambda>unk2'.
     ret (AcCmdCLEnterRanch rancherUid' unk1' unk2'))))"

datatype (plugins only:) AcCmdCLEnterRanchOK = AcCmdCLEnterRanchOK
  (AcCmdCLEnterRanchOK_rancherUid: "u32")
  (AcCmdCLEnterRanchOK_otp: "u32")
  (AcCmdCLEnterRanchOK_ranchAddress: "u32")
  (AcCmdCLEnterRanchOK_ranchPort: "u16")

definition AcCmdCLEnterRanchOK_Write :: "AcCmdCLEnterRanchOK \<Rightarrow> stream \<Rightarrow> exn + stream" where
  "AcCmdCLEnterRanchOK_Write v = seqw [
     w32 (AcCmdCLEnterRanchOK_rancherUid v),
     w32 (AcCmdCLEnterRanchOK_otp v),
     w32 (htonl (AcCmdCLEnterRanchOK_ranchAddress v)),
     w16 (AcCmdCLEnterRanchOK_ranchPort v)]"

definition AcCmdCLEnterRanchOK_Read :: "stream \<Rightarrow> exn + (AcCmdCLEnterRanchOK \<times> stream)" where
  "AcCmdCLEnterRanchOK_Read = throws (RuntimeError ''Not implemented.'')"

datatype (plugins only:) AcCmdCLEnterRanchCancel = AcCmdCLEnterRanchCancel
  (AcCmdCLEnterRanchCancel_reason: "u16")

definition AcCmdCLEnterRanchCancel_Write :: "AcCmdCLEnterRanchCancel \<Rightarrow> stream \<Rightarrow> exn + stream" where
  "AcCmdCLEnterRanchCancel_Write v = seqw [
     w16 (AcCmdCLEnterRanchCancel_reason v)]"

definition AcCmdCLEnterRanchCancel_Read :: "stream \<Rightarrow> exn + (AcCmdCLEnterRanchCancel \<times> stream)" where
  "AcCmdCLEnterRanchCancel_Read = throws (RuntimeError ''Not implemented.'')"

type_synonym AcCmdCLGetMessengerInfo = unit

definition AcCmdCLGetMessengerInfo_Write :: "AcCmdCLGetMessengerInfo \<Rightarrow> stream \<Rightarrow> exn + stream" where
  "AcCmdCLGetMessengerInfo_Write _ = throws (RuntimeError ''Not implemented.'')"

definition AcCmdCLGetMessengerInfo_Read :: "stream \<Rightarrow> exn + (AcCmdCLGetMessengerInfo \<times> stream)" where
  "AcCmdCLGetMessengerInfo_Read = ret ()"

datatype (plugins only:) AcCmdCLGetMessengerInfoOK = AcCmdCLGetMessengerInfoOK
  (AcCmdCLGetMessengerInfoOK_code: "u32")
  (AcCmdCLGetMessengerInfoOK_ip: "u32")
  (AcCmdCLGetMessengerInfoOK_port: "u16")

definition AcCmdCLGetMessengerInfoOK_Write :: "AcCmdCLGetMessengerInfoOK \<Rightarrow> stream \<Rightarrow> exn + stream" where
  "AcCmdCLGetMessengerInfoOK_Write v = seqw [
     w32 (AcCmdCLGetMessengerInfoOK_code v),
     w32 (AcCmdCLGetMessengerInfoOK_ip v),
     w16 (AcCmdCLGetMessengerInfoOK_port v)]"

definition AcCmdCLGetMessengerInfoOK_Read :: "stream \<Rightarrow> exn + (AcCmdCLGetMessengerInfoOK \<times> stream)" where
  "AcCmdCLGetMessengerInfoOK_Read = throws (RuntimeError ''Not implemented.'')"

type_synonym AcCmdCLGetMessengerInfoCancel = unit

definition AcCmdCLGetMessengerInfoCancel_Write :: "AcCmdCLGetMessengerInfoCancel \<Rightarrow> stream \<Rightarrow> exn + stream" where
  "AcCmdCLGetMessengerInfoCancel_Write _ = seqw []"

definition AcCmdCLGetMessengerInfoCancel_Read :: "stream \<Rightarrow> exn + (AcCmdCLGetMessengerInfoCancel \<times> stream)" where
  "AcCmdCLGetMessengerInfoCancel_Read = throws (RuntimeError ''Not implemented.'')"

datatype (plugins only:) AcCmdCLCheckWaitingSeqno = AcCmdCLCheckWaitingSeqno
  (AcCmdCLCheckWaitingSeqno_uid: "u32")

definition AcCmdCLCheckWaitingSeqno_Write :: "AcCmdCLCheckWaitingSeqno \<Rightarrow> stream \<Rightarrow> exn + stream" where
  "AcCmdCLCheckWaitingSeqno_Write _ = throws (RuntimeError ''Not implemented.'')"

definition AcCmdCLCheckWaitingSeqno_Read :: "stream \<Rightarrow> exn + (AcCmdCLCheckWaitingSeqno \<times> stream)" where
  "AcCmdCLCheckWaitingSeqno_Read =
     rd r32 (\<lambda>uid'.
     ret (AcCmdCLCheckWaitingSeqno uid'))"

datatype (plugins only:) AcCmdCLCheckWaitingSeqnoOK = AcCmdCLCheckWaitingSeqnoOK
  (AcCmdCLCheckWaitingSeqnoOK_time: "u32")
  (AcCmdCLCheckWaitingSeqnoOK_position: "u32")

definition AcCmdCLCheckWaitingSeqnoOK_Write :: "AcCmdCLCheckWaitingSeqnoOK \<Rightarrow> stream \<Rightarrow> exn + stream" where
  "AcCmdCLCheckWaitingSeqnoOK_Write v = seqw [
     w32 (AcCmdCLCheckWaitingSeqnoOK_time v),
     w32 (AcCmdCLCheckWaitingSeqnoOK_position v)]"

definition AcCmdCLCheckWaitingSeqnoOK_Read :: "stream \<Rightarrow> exn + (AcCmdCLCheckWaitingSeqnoOK \<times> stream)" where
  "AcCmdCLCheckWaitingSeqnoOK_Read = throws (RuntimeError ''Not implemented.'')"

datatype (plugins only:) AcCmdCLRequestSpecialEventList = AcCmdCLRequestSpecialEventList
  (AcCmdCLRequestSpecialEventList_unk0: "u32")

definition AcCmdCLRequestSpecialEventList_Write :: "AcCmdCLRequestSpecialEventList \<Rightarrow> stream \<Rightarrow> exn + stream" where
  "AcCmdCLRequestSpecialEventList_Write _ = throws (RuntimeError ''Not implemented.'')"

definition AcCmdCLRequestSpecialEventList_Read :: "stream \<Rightarrow> exn + (AcCmdCLRequestSpecialEventList \<times> stream)" where
  "AcCmdCLRequestSpecialEventList_Read =
     rd r32 (\<lambda>unk0'.
     ret (AcCmdCLRequestSpecialEventList unk0'))"

datatype (plugins only:) Event = Event
  (Event_unk0: "u16")
  (Event_unk1: "u32")

datatype (plugins only:) AcCmdCLRequestSpecialEventListOK = AcCmdCLRequestSpecialEventListOK
  (AcCmdCLRequestSpecialEventListOK_unk0: "u32")
  (AcCmdCLRequestSpecialEventListOK_quests: "wire_quest list")
  (AcCmdCLRequestSpecialEventListOK_events: "Event list")

definition AcCmdCLRequestSpecialEventListOK_Write :: "AcCmdCLRequestSpecialEventListOK \<Rightarrow> stream \<Rightarrow> exn + stream" where
  "AcCmdCLRequestSpecialEventListOK_Write v = seqw [
     w32 (AcCmdCLRequestSpecialEventListOK_unk0 v),
     w16 (of_nat (length (AcCmdCLRequestSpecialEventListOK_quests v))),
     seqw (map Quest_Write (AcCmdCLRequestSpecialEventListOK_quests v)),
     w16 (of_nat (length (AcCmdCLRequestSpecialEventListOK_events v))),
     seqw (map (\<lambda>event. seqw [
         w16 (Event_unk0 event),
         w32 (Event_unk1 event)]) (AcCmdCLRequestSpecialEventListOK_events v))]"

definition AcCmdCLRequestSpecialEventListOK_Read :: "stream \<Rightarrow> exn + (AcCmdCLRequestSpecialEventListOK \<times> stream)" where
  "AcCmdCLRequestSpecialEventListOK_Read = throws (RuntimeError ''Not implemented.'')"

type_synonym AcCmdCLHeartbeat = unit

definition AcCmdCLHeartbeat_Write :: "AcCmdCLHeartbeat \<Rightarrow> stream \<Rightarrow> exn + stream" where
  "AcCmdCLHeartbeat_Write _ = throws (RuntimeError ''Not implemented.'')"

definition AcCmdCLHeartbeat_Read :: "stream \<Rightarrow> exn + (AcCmdCLHeartbeat \<times> stream)" where
  "AcCmdCLHeartbeat_Read = ret ()"

record AcCmdCLGoodsShopList =
  AcCmdCLGoodsShopList_cachedShopTimestamp :: "time_point"

definition AcCmdCLGoodsShopList_Write :: "AcCmdCLGoodsShopList \<Rightarrow> stream \<Rightarrow> exn + stream" where
  "AcCmdCLGoodsShopList_Write _ = throws (RuntimeError ''Not implemented.'')"

definition AcCmdCLGoodsShopList_default :: "AcCmdCLGoodsShopList" where
  "AcCmdCLGoodsShopList_default = \<lparr>AcCmdCLGoodsShopList_cachedShopTimestamp = 0\<rparr>"

definition AcCmdCLGoodsShopList_Read :: "stream \<Rightarrow> exn + (AcCmdCLGoodsShopList \<times> stream)" where
  "AcCmdCLGoodsShopList_Read = build AcCmdCLGoodsShopList_default [
     fld (rd rshop (\<lambda>cachedShopTimestamp. ret (AliciaShopTimeToTimePoint cachedShopTimestamp)))
       AcCmdCLGoodsShopList_cachedShopTimestamp_update]"

datatype (plugins only:) AcCmdCLGoodsShopListOK = AcCmdCLGoodsShopListOK
  (AcCmdCLGoodsShopListOK_shopTimestamp: "time_point")

definition AcCmdCLGoodsShopListOK_Write :: "AcCmdCLGoodsShopListOK \<Rightarrow> stream \<Rightarrow> exn + stream" where
  "AcCmdCLGoodsShopListOK_Write v = seqw [
     wshop (TimePointToAliciaShopTime (AcCmdCLGoodsShopListOK_shopTimestamp v))]"

definition AcCmdCLGoodsShopListOK_Read :: "stream \<Rightarrow> exn + (AcCmdCLGoodsShopListOK \<times> stream)" where
  "AcCmdCLGoodsShopListOK_Read = throws (RuntimeError ''Not implemented.'')"

type_synonym AcCmdCLGoodsShopListCancel = unit

definition AcCmdCLGoodsShopListCancel_Write :: "AcCmdCLGoodsShopListCancel \<Rightarrow> stream \<Rightarrow> exn + stream" where
  "AcCmdCLGoodsShopListCancel_Write _ = seqw []"

definition AcCmdCLGoodsShopListCancel_Read :: "stream \<Rightarrow> exn + (AcCmdCLGoodsShopListCancel \<times> stream)" where
  "AcCmdCLGoodsShopListCancel_Read = throws (RuntimeError ''Not implemented.'')"

record AcCmdLCGoodsShopListData =
  AcCmdLCGoodsShopListData_timestamp :: "time_point"
  AcCmdLCGoodsShopListData_index :: "u8"
  AcCmdLCGoodsShopListData_count :: "u8"
  AcCmdLCGoodsShopListData_data :: "u8 list"

definition AcCmdLCGoodsShopListData_Write :: "AcCmdLCGoodsShopListData \<Rightarrow> stream \<Rightarrow> exn + stream" where
  "AcCmdLCGoodsShopListData_Write v = seqw [
     wshop (TimePointToAliciaShopTime (AcCmdLCGoodsShopListData_timestamp v)),
     w8 (AcCmdLCGoodsShopListData_index v),
     w8 (AcCmdLCGoodsShopListData_count v),
     w32 (of_nat (length (AcCmdLCGoodsShopListData_data v))),
     seqw (map w8 (AcCmdLCGoodsShopListData_data v))]"

definition AcCmdLCGoodsShopListData_default :: "AcCmdLCGoodsShopListData" where
  "AcCmdLCGoodsShopListData_default = \<lparr>AcCmdLCGoodsShopListData_timestamp = 0,
     AcCmdLCGoodsShopListData_index = 0,
     AcCmdLCGoodsShopListData_count = 0,
     AcCmdLCGoodsShopListData_data = []\<rparr>"

definition AcCmdLCGoodsShopListData_Read :: "stream \<Rightarrow> exn + (AcCmdLCGoodsShopListData \<times> stream)" where
  "AcCmdLCGoodsShopListData_Read = build AcCmdLCGoodsShopListData_default []"

type_synonym AcCmdCLInquiryTreecash = unit

definition AcCmdCLInquiryTreecash_Write :: "AcCmdCLInquiryTreecash \<Rightarrow> stream \<Rightarrow> exn + stream" where
  "AcCmdCLInquiryTreecash_Write _ = throws (RuntimeError ''Not implemented.'')"

definition AcCmdCLInquiryTreecash_Read :: "stream \<Rightarrow> exn + (AcCmdCLInquiryTreecash \<times> stream)" where
  "AcCmdCLInquiryTreecash_Read = ret ()"

datatype (plugins only:) LobbyCommandInquiryTreecashOK = LobbyCommandInquiryTreecashOK
  (LobbyCommandInquiryTreecashOK_cash: "u32")

definition LobbyCommandInquiryTreecashOK_Write :: "LobbyCommandInquiryTreecashOK \<Rightarrow> stream \<Rightarrow> exn + stream" where
  "LobbyCommandInquiryTreecashOK_Write v = seqw [
     w32 (LobbyCommandInquiryTreecashOK_cash v)]"

definition LobbyCommandInquiryTreecashOK_Read :: "stream \<Rightarrow> exn + (LobbyCommandInquiryTreecashOK \<times> stream)" where
  "LobbyCommandInquiryTreecashOK_Read = throws (RuntimeError ''Not implemented.'')"

type_synonym LobbyCommandInquiryTreecashCancel = unit

definition LobbyCommandInquiryTreecashCancel_Write :: "LobbyCommandInquiryTreecashCancel \<Rightarrow> stream \<Rightarrow> exn + stream" where
  "LobbyCommandInquiryTreecashCancel_Write _ = seqw []"

definition LobbyCommandInquiryTreecashCancel_Read :: "stream \<Rightarrow> exn + (LobbyCommandInquiryTreecashCancel \<times> stream)" where
  "LobbyCommandInquiryTreecashCancel_Read = throws (RuntimeError ''Not implemented.'')"

datatype (plugins only:) AcCmdClientNotify = AcCmdClientNotify
  (AcCmdClientNotify_val0: "u16")
  (AcCmdClientNotify_val1: "u32")

definition AcCmdClientNotify_Write :: "AcCmdClientNotify \<Rightarrow> stream \<Rightarrow> exn + stream" where
  "AcCmdClientNotify_Write _ = throws (RuntimeError ''Not implemented.'')"

definition AcCmdClientNotify_Read :: "stream \<Rightarrow> exn + (AcCmdClientNotify \<times> stream)" where
  "AcCmdClientNotify_Read =
     rd r16 (\<lambda>val0'.
     rd r32 (\<lambda>val1'.
     ret (AcCmdClientNotify val0' val1')))"

type_synonym LobbyCommandGuildPartyList = unit

definition LobbyCommandGuildPartyList_Write :: "LobbyCommandGuildPartyList \<Rightarrow> stream \<Rightarrow> exn + stream" where
  "LobbyCommandGuildPartyList_Write _ = throws (RuntimeError ''Not implemented.'')"

definition LobbyCommandGuildPartyList_Read :: "stream \<Rightarrow> exn + (LobbyCommandGuildPartyList \<times> stream)" where
  "LobbyCommandGuildPartyList_Read = ret ()"

datatype (plugins only:) LobbyCommandGuildPartyListOK_Member = LobbyCommandGuildPartyListOK_Member
  (LobbyCommandGuildPartyListOK_Member_val0: "u32")
  (LobbyCommandGuildPartyListOK_Member_val1: "u32")
  (LobbyCommandGuildPartyListOK_Member_val3: "bytes")
  (LobbyCommandGuildPartyListOK_Member_val4: "u32")
  (LobbyCommandGuildPartyListOK_Member_val5: "u32")
  (LobbyCommandGuildPartyListOK_Member_val6: "u32")
  (LobbyCommandGuildPartyListOK_Member_val7: "u32")
  (LobbyCommandGuildPartyListOK_Member_val8: "u8")
  (LobbyCommandGuildPartyListOK_Member_val9: "u32")

datatype (plugins only:) LobbyCommandGuildPartyListOK = LobbyCommandGuildPartyListOK
  (LobbyCommandGuildPartyListOK_members: "LobbyCommandGuildPartyListOK_Member list")

definition LobbyCommandGuildPartyListOK_Write :: "LobbyCommandGuildPartyListOK \<Rightarrow> stream \<Rightarrow> exn + stream" where
  "LobbyCommandGuildPartyListOK_Write v = seqw [
     w8 (of_nat (length (LobbyCommandGuildPartyListOK_members v)))]"

definition LobbyCommandGuildPartyListOK_Read :: "stream \<Rightarrow> exn + (LobbyCommandGuildPartyListOK \<times> stream)" where
  "LobbyCommandGuildPartyListOK_Read = throws (RuntimeError ''Not implemented'')"

type_synonym AcCmdCLEnterRanchRandomly = unit

definition AcCmdCLEnterRanchRandomly_Write :: "AcCmdCLEnterRanchRandomly \<Rightarrow> stream \<Rightarrow> exn + stream" where
  "AcCmdCLEnterRanchRandomly_Write _ = throws (RuntimeError ''Not implemented'')"

definition AcCmdCLEnterRanchRandomly_Read :: "stream \<Rightarrow> exn + (AcCmdCLEnterRanchRandomly \<times> stream)" where
  "AcCmdCLEnterRanchRandomly_Read = ret ()"

datatype (plugins only:) AcCmdCLFeatureCommand = AcCmdCLFeatureCommand
  (AcCmdCLFeatureCommand_command: "bytes")

definition AcCmdCLFeatureCommand_Write :: "AcCmdCLFeatureCommand \<Rightarrow> stream \<Rightarrow> exn + stream" where
  "AcCmdCLFeatureCommand_Write _ = throws (RuntimeError ''Not implemented'')"

definition AcCmdCLFeatureCommand_Read :: "icu \<Rightarrow> stream \<Rightarrow> exn + (AcCmdCLFeatureCommand \<times> stream)" where
  "AcCmdCLFeatureCommand_Read cv =
     rd (rstr cv) (\<lambda>command'.
     ret (AcCmdCLFeatureCommand command'))"

datatype (plugins only:) AcCmdCLRequestFestivalResult = AcCmdCLRequestFestivalResult
  (AcCmdCLRequestFestivalResult_member1: "u32")

definition AcCmdCLRequestFestivalResult_Write :: "AcCmdCLRequestFestivalResult \<Rightarrow> stream \<Rightarrow> exn + stream" where
  "AcCmdCLRequestFestivalResult_Write _ = throws (RuntimeError ''Not implemented'')"

definition AcCmdCLRequestFestivalResult_Read :: "stream \<Rightarrow> exn + (AcCmdCLRequestFestivalResult \<times> stream)" where
  "AcCmdCLRequestFestivalResult_Read =
     rd r32 (\<lambda>member1'.
     ret (AcCmdCLRequestFestivalResult member1'))"

type_synonym AcCmdCLRequestFestivalResultOK = unit

definition AcCmdCLRequestFestivalResultOK_Write :: "AcCmdCLRequestFestivalResultOK \<Rightarrow> stream \<Rightarrow> exn + stream" where
  "AcCmdCLRequestFestivalResultOK_Write _ = throws (RuntimeError ''Command needs to be discovered'')"

definition AcCmdCLRequestFestivalResultOK_Read :: "stream \<Rightarrow> exn + (AcCmdCLRequestFestivalResultOK \<times> stream)" where
  "AcCmdCLRequestFestivalResultOK_Read = throws (RuntimeError ''Not implemented'')"

datatype (plugins only:) AcCmdCLRequestPersonalInfo = AcCmdCLRequestPersonalInfo
  (AcCmdCLRequestPersonalInfo_characterUid: "u32")
  (AcCmdCLRequestPersonalInfo_type: "u32")

definition AcCmdCLRequestPersonalInfo_Write :: "AcCmdCLRequestPersonalInfo \<Rightarrow> stream \<Rightarrow> exn + stream" where
  "AcCmdCLRequestPersonalInfo_Write _ = throws (RuntimeError ''Not implemented'')"

definition AcCmdCLRequestPersonalInfo_Read :: "stream \<Rightarrow> exn + (AcCmdCLRequestPersonalInfo \<times> stream)" where
  "AcCmdCLRequestPersonalInfo_Read =
     rd r32 (\<lambda>characterUid'.
     rd r32 (\<lambda>type'.
     ret (AcCmdCLRequestPersonalInfo characterUid' type')))"

datatype (plugins only:) AcCmdLCPersonalInfo_Basic = AcCmdLCPersonalInfo_Basic
  (AcCmdLCPersonalInfo_Basic_distanceTravelled: "u32")
  (AcCmdLCPersonalInfo_Basic_topSpeed: "u32")
  (AcCmdLCPersonalInfo_Basic_longestGlidingDistance: "u32")
  (AcCmdLCPersonalInfo_Basic_jumpSuccessRate: "u32")
  (AcCmdLCPersonalInfo_Basic_perfectJumpSuccessRate: "u32")
  (AcCmdLCPersonalInfo_Basic_speedSingleWinCombo: "u16")
  (AcCmdLCPersonalInfo_Basic_speedTeamWinCombo: "u16")
  (AcCmdLCPersonalInfo_Basic_magicSingleWinCombo: "u16")
  (AcCmdLCPersonalInfo_Basic_magicTeamWinCombo: "u16")
  (AcCmdLCPersonalInfo_Basic_averageRank: "u32")
  (AcCmdLCPersonalInfo_Basic_completionRate: "u32")
  (AcCmdLCPersonalInfo_Basic_member12: "u32")
  (AcCmdLCPersonalInfo_Basic_highestCarnivalPrize: "u32")
  (AcCmdLCPersonalInfo_Basic_member14: "u16")
  (AcCmdLCPersonalInfo_Basic_member15: "u16")
  (AcCmdLCPersonalInfo_Basic_member16: "u16")
  (AcCmdLCPersonalInfo_Basic_introduction: "bytes")
  (AcCmdLCPersonalInfo_Basic_level: "u32")
  (AcCmdLCPersonalInfo_Basic_levelProgress: "u32")
  (AcCmdLCPersonalInfo_Basic_member20: "bytes")
  (AcCmdLCPersonalInfo_Basic_perfectBoostCombo: "u16")
  (AcCmdLCPersonalInfo_Basic_perfectJumpCombo: "u16")
  (AcCmdLCPersonalInfo_Basic_magicDefenseCombo: "u16")
  (AcCmdLCPersonalInfo_Basic_member24: "u32")
  (AcCmdLCPersonalInfo_Basic_member25: "u32")
  (AcCmdLCPersonalInfo_Basic_member26: "u32")
  (AcCmdLCPersonalInfo_Basic_guildName: "bytes")
  (AcCmdLCPersonalInfo_Basic_member28: "u8")
  (AcCmdLCPersonalInfo_Basic_member29: "u8")

definition AcCmdLCPersonalInfo_Basic_Write :: "icu \<Rightarrow> AcCmdLCPersonalInfo_Basic \<Rightarrow> stream \<Rightarrow> exn + stream" where
  "AcCmdLCPersonalInfo_Basic_Write cv v = seqw [
     w32 (AcCmdLCPersonalInfo_Basic_distanceTravelled v),
     w32 (AcCmdLCPersonalInfo_Basic_topSpeed v),
     w32 (AcCmdLCPersonalInfo_Basic_longestGlidingDistance v),
     w32 (AcCmdLCPersonalInfo_Basic_jumpSuccessRate v),
     w32 (AcCmdLCPersonalInfo_Basic_perfectJumpSuccessRate v),
     w16 (AcCmdLCPersonalInfo_Basic_speedSingleWinCombo v),
     w16 (AcCmdLCPersonalInfo_Basic_speedTeamWinCombo v),
     w16 (AcCmdLCPersonalInfo_Basic_magicSingleWinCombo v),
     w16 (AcCmdLCPersonalInfo_Basic_magicTeamWinCombo v),
     w32 (AcCmdLCPersonalInfo_Basic_averageRank v),
     w32 (AcCmdLCPersonalInfo_Basic_completionRate v),
     w32 (AcCmdLCPersonalInfo_Basic_member12 v),
     w32 (AcCmdLCPersonalInfo_Basic_highestCarnivalPrize v),
     w16 (AcCmdLCPersonalInfo_Basic_member14 v),
     w16 (AcCmdLCPersonalInfo_Basic_member15 v),
     w16 (AcCmdLCPersonalInfo_Basic_member16 v),
     wstr cv (AcCmdLCPersonalInfo_Basic_introduction v),
     w32 (AcCmdLCPersonalInfo_Basic_level v),
     w32 (AcCmdLCPersonalInfo_Basic_levelProgress v),
     wstr cv (AcCmdLCPersonalInfo_Basic_member20 v),
     w16 (AcCmdLCPersonalInfo_Basic_perfectBoostCombo v),
     w16 (AcCmdLCPersonalInfo_Basic_perfectJumpCombo v),
     w16 (AcCmdLCPersonalInfo_Basic_magicDefenseCombo v),
     w32 (AcCmdLCPersonalInfo_Basic_member24 v),
     w32 (AcCmdLCPersonalInfo_Basic_member25 v),
     w32 (AcCmdLCPersonalInfo_Basic_member26 v),
     wstr cv (AcCmdLCPersonalInfo_Basic_guildName v),
     w8 (AcCmdLCPersonalInfo_Basic_member28 v),
     w8 (AcCmdLCPersonalInfo_Basic_member29 v)]"

definition AcCmdLCPersonalInfo_Basic_Read :: "stream \<Rightarrow> exn + (AcCmdLCPersonalInfo_Basic \<times> stream)" where
  "AcCmdLCPersonalInfo_Basic_Read = throws (RuntimeError ''Not implemented'')"

datatype (plugins only:) AcCmdLCPersonalInfo_CourseInformation_Course = AcCmdLCPersonalInfo_CourseInformation_Course
  (AcCmdLCPersonalInfo_CourseInformation_Course_courseId: "u16")
  (AcCmdLCPersonalInfo_CourseInformation_Course_recordTime: "u32")
  (AcCmdLCPersonalInfo_CourseInformation_Course_timesRaced: "u32")
  (AcCmdLCPersonalInfo_CourseInformation_Course_member4: "u8 list")

datatype (plugins only:) AcCmdLCPersonalInfo_CourseInformation = AcCmdLCPersonalInfo_CourseInformation
  (AcCmdLCPersonalInfo_CourseInformation_totalGames: "u32")
  (AcCmdLCPersonalInfo_CourseInformation_totalSpeedGames: "u32")
  (AcCmdLCPersonalInfo_CourseInformation_totalMagicGames: "u32")
  (AcCmdLCPersonalInfo_CourseInformation_courses: "AcCmdLCPersonalInfo_CourseInformation_Course list")

definition AcCmdLCPersonalInfo_CourseInformation_Write :: "AcCmdLCPersonalInfo_CourseInformation \<Rightarrow> stream \<Rightarrow> exn + stream" where
  "AcCmdLCPersonalInfo_CourseInformation_Write v = seqw [
     w32 (AcCmdLCPersonalInfo_CourseInformation_totalGames v),
     w32 (AcCmdLCPersonalInfo_CourseInformation_totalSpeedGames v),
     w32 (AcCmdLCPersonalInfo_CourseInformation_totalMagicGames v),
     w8 (of_nat (length (AcCmdLCPersonalInfo_CourseInformation_courses v))),
     seqw (map (\<lambda>entry. seqw [
         w16 (AcCmdLCPersonalInfo_CourseInformation_Course_courseId entry),
         w32 (AcCmdLCPersonalInfo_CourseInformation_Course_timesRaced entry),
         w32 (AcCmdLCPersonalInfo_CourseInformation_Course_recordTime entry),
         seqw (map w8 (AcCmdLCPersonalInfo_CourseInformation_Course_member4 entry))]) (AcCmdLCPersonalInfo_CourseInformation_courses v))]"

definition AcCmdLCPersonalInfo_CourseInformation_Read :: "stream \<Rightarrow> exn + (AcCmdLCPersonalInfo_CourseInformation \<times> stream)" where
  "AcCmdLCPersonalInfo_CourseInformation_Read = throws (RuntimeError ''Not implemented'')"

datatype (plugins only:) AcCmdLCPersonalInfo_Eight_Unk = AcCmdLCPersonalInfo_Eight_Unk
  (AcCmdLCPersonalInfo_Eight_Unk_member1: "u32")
  (AcCmdLCPersonalInfo_Eight_Unk_member2: "u32")

datatype (plugins only:) AcCmdLCPersonalInfo_Eight = AcCmdLCPersonalInfo_Eight
  (AcCmdLCPersonalInfo_Eight_member1: "AcCmdLCPersonalInfo_Eight_Unk list")

definition AcCmdLCPersonalInfo_Eight_Write :: "AcCmdLCPersonalInfo_Eight \<Rightarrow> stream \<Rightarrow> exn + stream" where
  "AcCmdLCPersonalInfo_Eight_Write v = seqw [
     w8 (of_nat (length (AcCmdLCPersonalInfo_Eight_member1 v))),
     seqw (map (\<lambda>entry. seqw [
         w32 (AcCmdLCPersonalInfo_Eight_Unk_member1 entry),
         w32 (AcCmdLCPersonalInfo_Eight_Unk_member2 entry)]) (AcCmdLCPersonalInfo_Eight_member1 v))]"

definition AcCmdLCPersonalInfo_Eight_Read :: "stream \<Rightarrow> exn + (AcCmdLCPersonalInfo_Eight \<times> stream)" where
  "AcCmdLCPersonalInfo_Eight_Read = throws (RuntimeError ''Not implemented'')"

datatype (plugins only:) AcCmdLCPersonalInfo = AcCmdLCPersonalInfo
  (AcCmdLCPersonalInfo_characterUid: "u32")
  (AcCmdLCPersonalInfo_type: "u32")
  (AcCmdLCPersonalInfo_basic: "AcCmdLCPersonalInfo_Basic")
  (AcCmdLCPersonalInfo_courseInformation: "AcCmdLCPersonalInfo_CourseInformation")
  (AcCmdLCPersonalInfo_eight: "AcCmdLCPersonalInfo_Eight")

definition AcCmdLCPersonalInfo_Write :: "icu \<Rightarrow> AcCmdLCPersonalInfo \<Rightarrow> stream \<Rightarrow> exn + stream" where
  "AcCmdLCPersonalInfo_Write cv v = seqw [
     w32 (AcCmdLCPersonalInfo_characterUid v),
     w32 (AcCmdLCPersonalInfo_type v),
     (if AcCmdLCPersonalInfo_type v = 6 then AcCmdLCPersonalInfo_Basic_Write cv (AcCmdLCPersonalInfo_basic v)
      else if AcCmdLCPersonalInfo_type v = 7 then AcCmdLCPersonalInfo_CourseInformation_Write (AcCmdLCPersonalInfo_courseInformation v)
      else if AcCmdLCPersonalInfo_type v = 8 then AcCmdLCPersonalInfo_Eight_Write (AcCmdLCPersonalInfo_eight v)
      else seqw [])]"

definition AcCmdLCPersonalInfo_Read :: "stream \<Rightarrow> exn + (AcCmdLCPersonalInfo \<times> stream)" where
  "AcCmdLCPersonalInfo_Read = throws (RuntimeError ''Not implemented'')"

datatype (plugins only:) AcCmdCLSetIntroduction = AcCmdCLSetIntroduction
  (AcCmdCLSetIntroduction_introduction: "bytes")

definition AcCmdCLSetIntroduction_Write :: "AcCmdCLSetIntroduction \<Rightarrow> stream \<Rightarrow> exn + stream" where
  "AcCmdCLSetIntroduction_Write _ = throws (RuntimeError ''Not implemented'')"

definition AcCmdCLSetIntroduction_Read :: "icu \<Rightarrow> stream \<Rightarrow> exn + (AcCmdCLSetIntroduction \<times> stream)" where
  "AcCmdCLSetIntroduction_Read cv =
     rd (rstr cv) (\<lambda>introduction'.
     ret (AcCmdCLSetIntroduction introduction'))"

datatype (plugins only:) AcCmdCLUpdateSystemContent = AcCmdCLUpdateSystemContent
  (AcCmdCLUpdateSystemContent_member1: "u8")
  (AcCmdCLUpdateSystemContent_key: "u32")
  (AcCmdCLUpdateSystemContent_value: "u32")

definition AcCmdCLUpdateSystemContent_Write :: "AcCmdCLUpdateSystemContent \<Rightarrow> stream \<Rightarrow> exn + stream" where
  "AcCmdCLUpdateSystemContent_Write _ = throws (RuntimeError ''Not implemented'')"

definition AcCmdCLUpdateSystemContent_Read :: "stream \<Rightarrow> exn + (AcCmdCLUpdateSystemContent \<times> stream)" where
  "AcCmdCLUpdateSystemContent_Read =
     rd r8 (\<lambda>member1'.
     rd r32 (\<lambda>key'.
     rd r32 (\<lambda>value'.
     ret (AcCmdCLUpdateSystemContent member1' key' value'))))"

datatype (plugins only:) AcCmdLCUpdateSystemContent = AcCmdLCUpdateSystemContent
  (AcCmdLCUpdateSystemContent_systemContent: "LobbyCommandLoginOK_SystemContent")

definition AcCmdLCUpdateSystemContent_Write :: "AcCmdLCUpdateSystemContent \<Rightarrow> stream \<Rightarrow> exn + stream" where
  "AcCmdLCUpdateSystemContent_Write v = seqw [
     LobbyCommandLoginOK_SystemContent_Write (AcCmdLCUpdateSystemContent_systemContent v)]"

definition AcCmdLCUpdateSystemContent_Read :: "stream \<Rightarrow> exn + (AcCmdLCUpdateSystemContent \<times> stream)" where
  "AcCmdLCUpdateSystemContent_Read = throws (RuntimeError ''Not implemented'')"

type_synonym AcCmdCLEnterRoomQuickStop = unit

definition AcCmdCLEnterRoomQuickStop_Write :: "AcCmdCLEnterRoomQuickStop \<Rightarrow> stream \<Rightarrow> exn + stream" where
  "AcCmdCLEnterRoomQuickStop_Write _ = throws (RuntimeError ''Not implemented'')"

definition AcCmdCLEnterRoomQuickStop_Read :: "stream \<Rightarrow> exn + (AcCmdCLEnterRoomQuickStop \<times> stream)" where
  "AcCmdCLEnterRoomQuickStop_Read = ret ()"

type_synonym AcCmdCLEnterRoomQuickStopOK = unit

definition AcCmdCLEnterRoomQuickStopOK_Write :: "AcCmdCLEnterRoomQuickStopOK \<Rightarrow> stream \<Rightarrow> exn + stream" where
  "AcCmdCLEnterRoomQuickStopOK_Write _ = seqw []"

definition AcCmdCLEnterRoomQuickStopOK_Read :: "stream \<Rightarrow> exn + (AcCmdCLEnterRoomQuickStopOK \<times> stream)" where
  "AcCmdCLEnterRoomQuickStopOK_Read = throws (RuntimeError ''Not implemented'')"

type_synonym AcCmdCLEnterRoomQuickStopCancel = unit

definition AcCmdCLEnterRoomQuickStopCancel_Write :: "AcCmdCLEnterRoomQuickStopCancel \<Rightarrow> stream \<Rightarrow> exn + stream" where
  "AcCmdCLEnterRoomQuickStopCancel_Write _ = seqw []"

definition AcCmdCLEnterRoomQuickStopCancel_Read :: "stream \<Rightarrow> exn + (AcCmdCLEnterRoomQuickStopCancel \<times> stream)" where
  "AcCmdCLEnterRoomQuickStopCancel_Read = throws (RuntimeError ''Not implemented'')"

datatype (plugins only:) AcCmdCLRequestFestivalPrize = AcCmdCLRequestFestivalPrize
  (AcCmdCLRequestFestivalPrize_member1: "u32")

definition AcCmdCLRequestFestivalPrize_Write :: "AcCmdCLRequestFestivalPrize \<Rightarrow> stream \<Rightarrow> exn + stream" where
  "AcCmdCLRequestFestivalPrize_Write _ = throws (RuntimeError ''Not implemented'')"

definition AcCmdCLRequestFestivalPrize_Read :: "stream \<Rightarrow> exn + (AcCmdCLRequestFestivalPrize \<times> stream)" where
  "AcCmdCLRequestFestivalPrize_Read =
     rd r32 (\<lambda>member1'.
     ret (AcCmdCLRequestFestivalPrize member1'))"

type_synonym AcCmdCLQueryServerTime = unit

definition AcCmdCLQueryServerTime_Write :: "AcCmdCLQueryServerTime \<Rightarrow> stream \<Rightarrow> exn + stream" where
  "AcCmdCLQueryServerTime_Write _ = throws (RuntimeError ''Not implemented'')"

definition AcCmdCLQueryServerTime_Read :: "stream \<Rightarrow> exn + (AcCmdCLQueryServerTime \<times> stream)" where
  "AcCmdCLQueryServerTime_Read = ret ()"

datatype (plugins only:) AcCmdCLQueryServerTimeOK = AcCmdCLQueryServerTimeOK
  (AcCmdCLQueryServerTimeOK_lobbyTime: "(u32 \<times> u32)")

definition AcCmdCLQueryServerTimeOK_Write :: "AcCmdCLQueryServerTimeOK \<Rightarrow> stream \<Rightarrow> exn + stream" where
  "AcCmdCLQueryServerTimeOK_Write v = seqw [
     w32 (fst (AcCmdCLQueryServerTimeOK_lobbyTime v)),
     w32 (snd (AcCmdCLQueryServerTimeOK_lobbyTime v))]"

definition AcCmdCLQueryServerTimeOK_Read :: "stream \<Rightarrow> exn + (AcCmdCLQueryServerTimeOK \<times> stream)" where
  "AcCmdCLQueryServerTimeOK_Read = throws (RuntimeError ''Not implemented'')"

type_synonym AcCmdCLRequestFestivalPrizeOK = unit

definition AcCmdCLRequestFestivalPrizeOK_Write :: "AcCmdCLRequestFestivalPrizeOK \<Rightarrow> stream \<Rightarrow> exn + stream" where
  "AcCmdCLRequestFestivalPrizeOK_Write _ = throws (RuntimeError ''Not implemented'')"

definition AcCmdCLRequestFestivalPrizeOK_Read :: "stream \<Rightarrow> exn + (AcCmdCLRequestFestivalPrizeOK \<times> stream)" where
  "AcCmdCLRequestFestivalPrizeOK_Read = throws (RuntimeError ''Not implemented'')"

type_synonym AcCmdCLRequestFestivalPrizeCancel = unit

definition AcCmdCLRequestFestivalPrizeCancel_Write :: "AcCmdCLRequestFestivalPrizeCancel \<Rightarrow> stream \<Rightarrow> exn + stream" where
  "AcCmdCLRequestFestivalPrizeCancel_Write _ = throws (RuntimeError ''Not implemented'')"

definition AcCmdCLRequestFestivalPrizeCancel_Read :: "stream \<Rightarrow> exn + (AcCmdCLRequestFestivalPrizeCancel \<times> stream)" where
  "AcCmdCLRequestFestivalPrizeCancel_Read = throws (RuntimeError ''Not implemented'')"

datatype (plugins only:) AcCmdCLChangeRanchOption = AcCmdCLChangeRanchOption
  (AcCmdCLChangeRanchOption_unk0: "u32")
  (AcCmdCLChangeRanchOption_unk1: "u16")
  (AcCmdCLChangeRanchOption_unk2: "u8")

definition AcCmdCLChangeRanchOption_Read :: "stream \<Rightarrow> exn + (AcCmdCLChangeRanchOption \<times> stream)" where
  "AcCmdCLChangeRanchOption_Read =
     rd r32 (\<lambda>unk0'.
     rd r16 (\<lambda>unk1'.
     rd r8 (\<lambda>unk2'.
     ret (AcCmdCLChangeRanchOption unk0' unk1' unk2'))))"

datatype (plugins only:) AcCmdCLChangeRanchOptionOK = AcCmdCLChangeRanchOptionOK
  (AcCmdCLChangeRanchOptionOK_unk0: "u32")
  (AcCmdCLChangeRanchOptionOK_unk1: "u16")
  (AcCmdCLChangeRanchOptionOK_unk2: "u8")

definition AcCmdCLChangeRanchOptionOK_Write :: "AcCmdCLChangeRanchOptionOK \<Rightarrow> stream \<Rightarrow> exn + stream" where
  "AcCmdCLChangeRanchOptionOK_Write v = seqw [
     w32 (AcCmdCLChangeRanchOptionOK_unk0 v),
     w16 (AcCmdCLChangeRanchOptionOK_unk1 v),
     w8 (AcCmdCLChangeRanchOptionOK_unk2 v)]"

type_synonym AcCmdLCOpKick = unit

definition AcCmdLCOpKick_Write :: "AcCmdLCOpKick \<Rightarrow> stream \<Rightarrow> exn + stream" where
  "AcCmdLCOpKick_Write _ = seqw []"

definition AcCmdLCOpKick_Read :: "stream \<Rightarrow> exn + (AcCmdLCOpKick \<times> stream)" where
  "AcCmdLCOpKick_Read = throws (RuntimeError ''Not implemented'')"

datatype (plugins only:) AcCmdLCOpMute = AcCmdLCOpMute
  (AcCmdLCOpMute_duration: "u32")

definition AcCmdLCOpMute_Write :: "AcCmdLCOpMute \<Rightarrow> stream \<Rightarrow> exn + stream" where
  "AcCmdLCOpMute_Write v = seqw [
     w32 (AcCmdLCOpMute_duration v)]"

definition AcCmdLCOpMute_Read :: "stream \<Rightarrow> exn + (AcCmdLCOpMute \<times> stream)" where
  "AcCmdLCOpMute_Read = throws (RuntimeError ''Not implemented'')"

datatype (plugins only:) AcCmdLCNotice = AcCmdLCNotice
  (AcCmdLCNotice_notice: "bytes")

definition AcCmdLCNotice_Write :: "icu \<Rightarrow> AcCmdLCNotice \<Rightarrow> stream \<Rightarrow> exn + stream" where
  "AcCmdLCNotice_Write cv v = seqw [
     wstr cv (AcCmdLCNotice_notice v)]"

definition AcCmdLCNotice_Read :: "stream \<Rightarrow> exn + (AcCmdLCNotice \<times> stream)" where
  "AcCmdLCNotice_Read = throws (RuntimeError ''Not implemented'')"

datatype (plugins only:) AcCmdCLRequestMountInfo = AcCmdCLRequestMountInfo
  (AcCmdCLRequestMountInfo_characterUid: "u32")

definition AcCmdCLRequestMountInfo_Write :: "AcCmdCLRequestMountInfo \<Rightarrow> stream \<Rightarrow> exn + stream" where
  "AcCmdCLRequestMountInfo_Write _ = throws (RuntimeError ''Not implemented.'')"

definition AcCmdCLRequestMountInfo_Read :: "stream \<Rightarrow> exn + (AcCmdCLRequestMountInfo \<times> stream)" where
  "AcCmdCLRequestMountInfo_Read =
     rd r32 (\<lambda>characterUid'.
     ret (AcCmdCLRequestMountInfo characterUid'))"

datatype (plugins only:) AcCmdCLRequestMountInfoOK_MountInfo = AcCmdCLRequestMountInfoOK_MountInfo
  (AcCmdCLRequestMountInfoOK_MountInfo_horseUid: "u32")
  (AcCmdCLRequestMountInfoOK_MountInfo_boostsInARow: "u16")
  (AcCmdCLRequestMountInfoOK_MountInfo_winsSpeedSingle: "u16")
  (AcCmdCLRequestMountInfoOK_MountInfo_winsSpeedTeam: "u16")
  (AcCmdCLRequestMountInfoOK_MountInfo_winsMagicSingle: "u16")
  (AcCmdCLRequestMountInfoOK_MountInfo_winsMagicTeam: "u16")
  (AcCmdCLRequestMountInfoOK_MountInfo_totalDistance: "u32")
  (AcCmdCLRequestMountInfoOK_MountInfo_topSpeed: "u32")
  (AcCmdCLRequestMountInfoOK_MountInfo_longestGlideDistance: "u32")
  (AcCmdCLRequestMountInfoOK_MountInfo_participated: "u32")
  (AcCmdCLRequestMountInfoOK_MountInfo_cumulativePrize: "u32")
  (AcCmdCLRequestMountInfoOK_MountInfo_biggestPrize: "u32")

datatype (plugins only:) AcCmdCLRequestMountInfoOK = AcCmdCLRequestMountInfoOK
  (AcCmdCLRequestMountInfoOK_characterUid: "u32")
  (AcCmdCLRequestMountInfoOK_mountInfos: "AcCmdCLRequestMountInfoOK_MountInfo list")

definition AcCmdCLRequestMountInfoOK_Write :: "AcCmdCLRequestMountInfoOK \<Rightarrow> stream \<Rightarrow> exn + stream" where
  "AcCmdCLRequestMountInfoOK_Write v = seqw [
     w32 (AcCmdCLRequestMountInfoOK_characterUid v),
     w8 (of_nat (length (AcCmdCLRequestMountInfoOK_mountInfos v))),
     seqw (map (\<lambda>mountInfo. seqw [
         w32 (AcCmdCLRequestMountInfoOK_MountInfo_horseUid mountInfo),
         w16 (AcCmdCLRequestMountInfoOK_MountInfo_boostsInARow mountInfo),
         w16 (AcCmdCLRequestMountInfoOK_MountInfo_winsSpeedSingle mountInfo),
         w16 (AcCmdCLRequestMountInfoOK_MountInfo_winsSpeedTeam mountInfo),
         w16 (AcCmdCLRequestMountInfoOK_MountInfo_winsMagicSingle mountInfo),
         w16 (AcCmdCLRequestMountInfoOK_MountInfo_winsMagicTeam mountInfo),
         w32 (AcCmdCLRequestMountInfoOK_MountInfo_totalDistance mountInfo),
         w32 (AcCmdCLRequestMountInfoOK_MountInfo_topSpeed mountInfo),
         w32 (AcCmdCLRequestMountInfoOK_MountInfo_longestGlideDistance mountInfo),
         w32 (AcCmdCLRequestMountInfoOK_MountInfo_participated mountInfo),
         w32 (AcCmdCLRequestMountInfoOK_MountInfo_cumulativePrize mountInfo),
         w32 (AcCmdCLRequestMountInfoOK_MountInfo_biggestPrize mountInfo)]) (AcCmdCLRequestMountInfoOK_mountInfos v))]"

datatype (plugins only:) AcCmdLCSkillCardPresetList = AcCmdLCSkillCardPresetList
  (AcCmdLCSkillCardPresetList_speedActiveSetId: "u8")
  (AcCmdLCSkillCardPresetList_magicActiveSetId: "u8")
  (AcCmdLCSkillCardPresetList_skillSets: "wire_skill_set list")

definition AcCmdLCSkillCardPresetList_Write :: "AcCmdLCSkillCardPresetList \<Rightarrow> stream \<Rightarrow> exn + stream" where
  "AcCmdLCSkillCardPresetList_Write v = seqw [
     w8 (AcCmdLCSkillCardPresetList_speedActiveSetId v),
     w8 (AcCmdLCSkillCardPresetList_magicActiveSetId v),
     w8 (of_nat (length (AcCmdLCSkillCardPresetList_skillSets v))),
     seqw (map SkillSet_Write (AcCmdLCSkillCardPresetList_skillSets v))]"

definition AcCmdLCSkillCardPresetList_Read :: "stream \<Rightarrow> exn + (AcCmdLCSkillCardPresetList \<times> stream)" where
  "AcCmdLCSkillCardPresetList_Read = throws (RuntimeError ''Not implemented.'')"

record AcCmdCLUpdateUserSettings =
  AcCmdCLUpdateUserSettings_settings :: "wire_settings"

definition AcCmdCLUpdateUserSettings_Write :: "AcCmdCLUpdateUserSettings \<Rightarrow> stream \<Rightarrow> exn + stream" where
  "AcCmdCLUpdateUserSettings_Write _ = throws (RuntimeError ''Not implemented'')"

definition AcCmdCLUpdateUserSettings_default :: "AcCmdCLUpdateUserSettings" where
  "AcCmdCLUpdateUserSettings_default = \<lparr>AcCmdCLUpdateUserSettings_settings = Settings_default\<rparr>"

definition AcCmdCLUpdateUserSettings_Read :: "icu \<Rightarrow> stream \<Rightarrow> exn + (AcCmdCLUpdateUserSettings \<times> stream)" where
  "AcCmdCLUpdateUserSettings_Read cv = build AcCmdCLUpdateUserSettings_default [
     (\<lambda>c. fld (Settings_Read cv (AcCmdCLUpdateUserSettings_settings c))
       AcCmdCLUpdateUserSettings_settings_update c)]"

type_synonym AcCmdCLUpdateUserSettingsOK = unit

definition AcCmdCLUpdateUserSettingsOK_Write :: "AcCmdCLUpdateUserSettingsOK \<Rightarrow> stream \<Rightarrow> exn + stream" where
  "AcCmdCLUpdateUserSettingsOK_Write _ = seqw []"

definition AcCmdCLUpdateUserSettingsOK_Read :: "stream \<Rightarrow> exn + (AcCmdCLUpdateUserSettingsOK \<times> stream)" where
  "AcCmdCLUpdateUserSettingsOK_Read = throws (RuntimeError ''Not implemented'')"

datatype (plugins only:) AcCmdCLEnterRoomQuick = AcCmdCLEnterRoomQuick
  (AcCmdCLEnterRoomQuick_gameMode: "u8")
  (AcCmdCLEnterRoomQuick_teamMode: "u8")

definition AcCmdCLEnterRoomQuick_Write :: "AcCmdCLEnterRoomQuick \<Rightarrow> stream \<Rightarrow> exn + stream" where
  "AcCmdCLEnterRoomQuick_Write _ = throws (RuntimeError ''Not implemented'')"

definition AcCmdCLEnterRoomQuick_Read :: "stream \<Rightarrow> exn + (AcCmdCLEnterRoomQuick \<times> stream)" where
  "AcCmdCLEnterRoomQuick_Read =
     rd r8 (\<lambda>gameMode'.
     rd r8 (\<lambda>teamMode'.
     ret (AcCmdCLEnterRoomQuick gameMode' teamMode')))"

type_synonym AcCmdCLEnterRoomQuickCancel = unit

definition AcCmdCLEnterRoomQuickCancel_Write :: "AcCmdCLEnterRoomQuickCancel \<Rightarrow> stream \<Rightarrow> exn + stream" where
  "AcCmdCLEnterRoomQuickCancel_Write _ = seqw []"

definition AcCmdCLEnterRoomQuickCancel_Read :: "stream \<Rightarrow> exn + (AcCmdCLEnterRoomQuickCancel \<times> stream)" where
  "AcCmdCLEnterRoomQuickCancel_Read = throws (RuntimeError ''Not implemented'')"

datatype (plugins only:) AcCmdLCInviteGuildJoin = AcCmdLCInviteGuildJoin
  (AcCmdLCInviteGuildJoin_characterUid: "u32")
  (AcCmdLCInviteGuildJoin_inviterCharacterUid: "u32")
  (AcCmdLCInviteGuildJoin_inviterCharacterName: "bytes")
  (AcCmdLCInviteGuildJoin_unk3: "bytes")
  (AcCmdLCInviteGuildJoin_guild: "wire_guild")

definition AcCmdLCInviteGuildJoin_Write :: "icu \<Rightarrow> AcCmdLCInviteGuildJoin \<Rightarrow> stream \<Rightarrow> exn + stream" where
  "AcCmdLCInviteGuildJoin_Write cv v = seqw [
     w32 (AcCmdLCInviteGuildJoin_characterUid v),
     w32 (AcCmdLCInviteGuildJoin_inviterCharacterUid v),
     wstr cv (AcCmdLCInviteGuildJoin_inviterCharacterName v),
     wstr cv (AcCmdLCInviteGuildJoin_unk3 v),
     Guild_Write cv (AcCmdLCInviteGuildJoin_guild v)]"

definition AcCmdLCInviteGuildJoin_Read :: "stream \<Rightarrow> exn + (AcCmdLCInviteGuildJoin \<times> stream)" where
  "AcCmdLCInviteGuildJoin_Read = throws (RuntimeError ''Not implemented'')"

datatype (plugins only:) AcCmdLCInviteGuildJoinCancel = AcCmdLCInviteGuildJoinCancel
  (AcCmdLCInviteGuildJoinCancel_characterUid: "u32")
  (AcCmdLCInviteGuildJoinCancel_inviterCharacterUid: "u32")
  (AcCmdLCInviteGuildJoinCancel_inviterCharacterName: "bytes")
  (AcCmdLCInviteGuildJoinCancel_unk3: "bytes")
  (AcCmdLCInviteGuildJoinCancel_guild: "wire_guild")
  (AcCmdLCInviteGuildJoinCancel_error: "u8")

definition AcCmdLCInviteGuildJoinCancel_Write :: "AcCmdLCInviteGuildJoinCancel \<Rightarrow> stream \<Rightarrow> exn + stream" where
  "AcCmdLCInviteGuildJoinCancel_Write _ = throws (RuntimeError ''Not implemented'')"

definition AcCmdLCInviteGuildJoinCancel_Read :: "icu \<Rightarrow> stream \<Rightarrow> exn + (AcCmdLCInviteGuildJoinCancel \<times> stream)" where
  "AcCmdLCInviteGuildJoinCancel_Read cv =
     rd r32 (\<lambda>characterUid'.
     rd r32 (\<lambda>inviterCharacterUid'.
     rd (rstr cv) (\<lambda>inviterCharacterName'.
     rd (rstr cv) (\<lambda>unk3'.
     rd (Guild_Read cv) (\<lambda>guild'.
     rd r8 (\<lambda>error'.
     ret (AcCmdLCInviteGuildJoinCancel characterUid' inviterCharacterUid' inviterCharacterName' unk3' guild' error')))))))"

datatype (plugins only:) AcCmdLCInviteGuildJoinOK = AcCmdLCInviteGuildJoinOK
  (AcCmdLCInviteGuildJoinOK_characterUid: "u32")
  (AcCmdLCInviteGuildJoinOK_inviterCharacterUid: "u32")
  (AcCmdLCInviteGuildJoinOK_inviterCharacterName: "bytes")
  (AcCmdLCInviteGuildJoinOK_unk3: "bytes")
  (AcCmdLCInviteGuildJoinOK_guild: "wire_guild")

definition AcCmdLCInviteGuildJoinOK_Write :: "AcCmdLCInviteGuildJoinOK \<Rightarrow> stream \<Rightarrow> exn + stream" where
  "AcCmdLCInviteGuildJoinOK_Write _ = throws (RuntimeError ''Not implemented'')"

definition AcCmdLCInviteGuildJoinOK_Read :: "icu \<Rightarrow> stream \<Rightarrow> exn + (AcCmdLCInviteGuildJoinOK \<times> stream)" where
  "AcCmdLCInviteGuildJoinOK_Read cv =
     rd r32 (\<lambda>characterUid'.
     rd r32 (\<lambda>inviterCharacterUid'.
     rd (rstr cv) (\<lambda>inviterCharacterName'.
     rd (rstr cv) (\<lambda>unk3'.
     rd (Guild_Read cv) (\<lambda>guild'.
     ret (AcCmdLCInviteGuildJoinOK characterUid' inviterCharacterUid' inviterCharacterName' unk3' guild'))))))"

type_synonym AcCmdLCAchievementRewardNotify = unit

definition AcCmdLCAchievementRewardNotify_Write :: "AcCmdLCAchievementRewardNotify \<Rightarrow> stream \<Rightarrow> exn + stream" where
  "AcCmdLCAchievementRewardNotify_Write _ = seqw []"

definition AcCmdLCAchievementRewardNotify_Read :: "stream \<Rightarrow> exn + (AcCmdLCAchievementRewardNotify \<times> stream)" where
  "AcCmdLCAchievementRewardNotify_Read = throws (RuntimeError ''Not implemented'')"

datatype (plugins only:) AcCmdCLEnterRoomQuickSuccess = AcCmdCLEnterRoomQuickSuccess
  (AcCmdCLEnterRoomQuickSuccess_result: "u8")

definition AcCmdCLEnterRoomQuickSuccess_Write :: "AcCmdCLEnterRoomQuickSuccess \<Rightarrow> stream \<Rightarrow> exn + stream" where
  "AcCmdCLEnterRoomQuickSuccess_Write v = seqw [
     w8 (AcCmdCLEnterRoomQuickSuccess_result v)]"

definition AcCmdCLEnterRoomQuickSuccess_Read :: "stream \<Rightarrow> exn + (AcCmdCLEnterRoomQuickSuccess \<times> stream)" where
  "AcCmdCLEnterRoomQuickSuccess_Read = throws (RuntimeError ''Not implemented'')"

section \<open>Every reader is a parser\<close>

lemma Msg_Lobby_parsers_1 [parser_intros]:
  "parser (AcCmdCLLogin_Read cv)"
  "parser AcCmdCLShowInventory_Read"
  "parser LobbyCommandShowInventoryCancel_Read"
  "parser (AcCmdCLCreateNickname_Read cv)"
  "parser AcCmdCLRequestLeagueInfo_Read"
  "parser AcCmdCLRequestLeagueInfoCancel_Read"
  "parser AcCmdCLAchievementCompleteList_Read"
  "parser AcCmdCLEnterChannel_Read"
  "parser AcCmdCLLeaveChannel_Read"
  "parser AcCmdCLRoomList_Read"
  "parser (AcCmdCLMakeRoom_Read cv)"
  "parser (AcCmdCLEnterRoom_Read cv)"
  "parser AcCmdCLLeaveRoom_Read"
  "parser AcCmdCLRequestQuestList_Read"
  "parser AcCmdCLRequestDailyQuestList_Read"
  "parser (AcCmdCLEnterRanch_Read cv)"
  "parser AcCmdCLGetMessengerInfo_Read"
  "parser AcCmdCLCheckWaitingSeqno_Read"
  "parser AcCmdCLRequestSpecialEventList_Read"
  "parser AcCmdCLHeartbeat_Read"
  "parser AcCmdCLGoodsShopList_Read"
  "parser AcCmdLCGoodsShopListData_Read"
  "parser AcCmdCLInquiryTreecash_Read"
  "parser AcCmdClientNotify_Read"
  "parser LobbyCommandGuildPartyList_Read"
  unfolding AcCmdCLLogin_Read_def
    AcCmdCLShowInventory_Read_def
    LobbyCommandShowInventoryCancel_Read_def
    AcCmdCLCreateNickname_Read_def
    AcCmdCLRequestLeagueInfo_Read_def
    AcCmdCLRequestLeagueInfoCancel_Read_def
    AcCmdCLAchievementCompleteList_Read_def
    AcCmdCLEnterChannel_Read_def
    AcCmdCLLeaveChannel_Read_def
    AcCmdCLRoomList_Read_def
    AcCmdCLMakeRoom_Read_def
    AcCmdCLEnterRoom_Read_def
    AcCmdCLLeaveRoom_Read_def
    AcCmdCLRequestQuestList_Read_def
    AcCmdCLRequestDailyQuestList_Read_def
    AcCmdCLEnterRanch_Read_def
    AcCmdCLGetMessengerInfo_Read_def
    AcCmdCLCheckWaitingSeqno_Read_def
    AcCmdCLRequestSpecialEventList_Read_def
    AcCmdCLHeartbeat_Read_def
    AcCmdCLGoodsShopList_Read_def
    AcCmdLCGoodsShopListData_Read_def
    AcCmdCLInquiryTreecash_Read_def
    AcCmdClientNotify_Read_def
    LobbyCommandGuildPartyList_Read_def
  by (intro parser_intros)+

lemma Msg_Lobby_parsers_2 [parser_intros]:
  "parser AcCmdCLEnterRanchRandomly_Read"
  "parser (AcCmdCLFeatureCommand_Read cv)"
  "parser AcCmdCLRequestFestivalResult_Read"
  "parser AcCmdCLRequestPersonalInfo_Read"
  "parser (AcCmdCLSetIntroduction_Read cv)"
  "parser AcCmdCLUpdateSystemContent_Read"
  "parser AcCmdCLEnterRoomQuickStop_Read"
  "parser AcCmdCLRequestFestivalPrize_Read"
  "parser AcCmdCLQueryServerTime_Read"
  "parser AcCmdCLChangeRanchOption_Read"
  "parser AcCmdCLRequestMountInfo_Read"
  "parser (AcCmdCLUpdateUserSettings_Read cv)"
  "parser AcCmdCLEnterRoomQuick_Read"
  "parser (AcCmdLCInviteGuildJoinCancel_Read cv)"
  "parser (AcCmdLCInviteGuildJoinOK_Read cv)"
  unfolding AcCmdCLEnterRanchRandomly_Read_def
    AcCmdCLFeatureCommand_Read_def
    AcCmdCLRequestFestivalResult_Read_def
    AcCmdCLRequestPersonalInfo_Read_def
    AcCmdCLSetIntroduction_Read_def
    AcCmdCLUpdateSystemContent_Read_def
    AcCmdCLEnterRoomQuickStop_Read_def
    AcCmdCLRequestFestivalPrize_Read_def
    AcCmdCLQueryServerTime_Read_def
    AcCmdCLChangeRanchOption_Read_def
    AcCmdCLRequestMountInfo_Read_def
    AcCmdCLUpdateUserSettings_Read_def
    AcCmdCLEnterRoomQuick_Read_def
    AcCmdLCInviteGuildJoinCancel_Read_def
    AcCmdLCInviteGuildJoinOK_Read_def
  by (intro parser_intros)+

end
