(* ===== verification/Lobby_State.thy ===== *)
theory Lobby_State imports Protocol_Helper Messenger Matchmaking Msg_Lobby begin

text \<open>
  The state of \<open>server/lobby/LobbyDirector.hpp\<close>, \<open>server/lobby/LobbyNetworkHandler.hpp\<close> and
  \<open>server/authentication/AuthenticationService.hpp\<close>, and the ways the lobby reaches it.

  \<^item> \<open>lo_clients\<close> are the contexts of the connected clients, \<open>lo_logins\<close> the logins being processed,
    \<open>lo_requests\<close> and \<open>lo_responses\<close> the two queues, \<open>lo_users\<close> the users that are online.
  \<^item> \<open>lo_loads\<close> are the flags the data director keeps of the loads of a user; loading itself is done by other threads,
    which change \<open>lo_data\<close> and the flags.
  \<^item> What is sent is appended to \<open>lo_sent\<close>; calls of the ranch and the race director are appended to \<open>lo_calls\<close>.
  \<^item> \<open>lobby_env\<close> holds the clocks, the random draws, the configuration, the registries and the libraries the lobby asks.
\<close>

section \<open>Records\<close>

record lobby_client =
  lc_isAuthenticated :: bool
  lc_isInCharacterCreator :: bool
  lc_justCreatedCharacter :: bool
  lc_lastHeartbeat :: time_point
  lc_userName :: bytes
  lc_characterUid :: uid
  lc_rancherVisitPreference :: uid

definition new_lobby_client :: lobby_client where
  "new_lobby_client = \<lparr>lc_isAuthenticated = False, lc_isInCharacterCreator = False, lc_justCreatedCharacter = False,
     lc_lastHeartbeat = 0, lc_userName = [], lc_characterUid = InvalidUid, lc_rancherVisitPreference = InvalidUid\<rparr>"

record queued_login =
  ql_userName :: bytes
  ql_userToken :: bytes
  ql_isAuthenticated :: "bool option"
  ql_userAuthenticationRequested :: bool
  ql_userLoadRequested :: bool
  ql_userCharacterLoadRequested :: bool

definition new_login :: queued_login where
  "new_login = \<lparr>ql_userName = [], ql_userToken = [], ql_isAuthenticated = None, ql_userAuthenticationRequested = False,
     ql_userLoadRequested = False, ql_userCharacterLoadRequested = False\<rparr>"

record user_instance =
  ui_ranchOtpCode :: u32
  ui_raceOtpCode :: u32
  ui_userName :: bytes
  ui_characterUid :: uid
  ui_roomUid :: uid
  ui_visitPreference :: uid

definition new_user :: user_instance where
  "new_user = \<lparr>ui_ranchOtpCode = 0, ui_raceOtpCode = 0, ui_userName = [], ui_characterUid = InvalidUid,
     ui_roomUid = InvalidUid, ui_visitPreference = InvalidUid\<rparr>"

record user_load =
  ul_isBeingLoaded :: bool
  ul_isUserDataLoaded :: bool
  ul_isCharacterDataLoaded :: bool

definition no_load :: user_load where
  "no_load = \<lparr>ul_isBeingLoaded = False, ul_isUserDataLoaded = False, ul_isCharacterDataLoaded = False\<rparr>"

record authentication =
  au_queue :: "(bytes \<times> bytes) list"
  au_verdicts :: "(bytes \<times> bool) list"

datatype lobby_task =
    Task_Connect client_id
  | Task_Disconnect bool client_id bytes
  | Task_Login client_id bytes bytes
  | Task_SetUserRoom bytes uid
  | Task_RoomEntered bytes uid u32
  | Task_SetCharacter bytes uid
  | Task_SendWaitingSeqno client_id

datatype (plugins only:) lobby_out =
    LO_LoginOK LobbyCommandLoginOK
  | LO_LoginCancel AcCmdCLLoginCancel
  | LO_SkillCardPresetList AcCmdLCSkillCardPresetList
  | LO_CreateNicknameNotify LobbyCommandCreateNicknameNotify
  | LO_CreateNicknameCancel AcCmdCLCreateNicknameCancel
  | LO_InviteGuildJoin AcCmdLCInviteGuildJoin
  | LO_OpMute AcCmdLCOpMute
  | LO_Notice AcCmdLCNotice
  | LO_AchievementRewardNotify AcCmdLCAchievementRewardNotify
  | LO_EnterRoomQuickCancel AcCmdCLEnterRoomQuickCancel
  | LO_EnterRoomQuickSuccess AcCmdCLEnterRoomQuickSuccess
  | LO_EnterRoomQuickStopOK AcCmdCLEnterRoomQuickStopOK
  | LO_EnterRoomQuickStopCancel AcCmdCLEnterRoomQuickStopCancel
  | LO_RoomListOK LobbyCommandRoomListOK
  | LO_MakeRoomOK AcCmdCLMakeRoomOK
  | LO_MakeRoomCancel AcCmdCLMakeRoomCancel
  | LO_EnterRoomOK AcCmdCLEnterRoomOK
  | LO_EnterRoomCancel AcCmdCLEnterRoomCancel
  | LO_EnterChannelOK AcCmdCLEnterChannelOK
  | LO_LeaveChannelOK AcCmdCLLeaveChannelOK
  | LO_ShowInventoryOK LobbyCommandShowInventoryOK
  | LO_UpdateUserSettingsOK AcCmdCLUpdateUserSettingsOK
  | LO_GoodsShopListOK AcCmdCLGoodsShopListOK
  | LO_GoodsShopListData AcCmdLCGoodsShopListData
  | LO_GoodsShopListCancel AcCmdCLGoodsShopListCancel
  | LO_AchievementCompleteListOK AcCmdCLAchievementCompleteListOK
  | LO_PersonalInfo AcCmdLCPersonalInfo
  | LO_EnterRanchOK AcCmdCLEnterRanchOK
  | LO_EnterRanchCancel AcCmdCLEnterRanchCancel
  | LO_GetMessengerInfoOK AcCmdCLGetMessengerInfoOK
  | LO_GetMessengerInfoCancel AcCmdCLGetMessengerInfoCancel
  | LO_CheckWaitingSeqnoOK AcCmdCLCheckWaitingSeqnoOK
  | LO_UpdateSystemContent AcCmdLCUpdateSystemContent
  | LO_QueryServerTimeOK AcCmdCLQueryServerTimeOK
  | LO_RequestMountInfoOK AcCmdCLRequestMountInfoOK
  | LO_InquiryTreecashOK LobbyCommandInquiryTreecashOK
  | LO_ChangeRanchOptionOK AcCmdCLChangeRanchOptionOK
  | LO_RequestDailyQuestListOK AcCmdCLRequestDailyQuestListOK
  | LO_RequestLeagueInfoOK AcCmdCLRequestLeagueInfoOK
  | LO_RequestQuestListOK AcCmdCLRequestQuestListOK
  | LO_RequestSpecialEventListOK AcCmdCLRequestSpecialEventListOK

datatype lobby_call =
    Lobby_SetCode client_id
  | Ranch_Disconnect uid
  | Race_DisconnectCharacter uid
  | Ranch_BroadcastSetIntroductionNotify uid bytes
  | Ranch_SendGuildInviteAccepted uid uid bytes
  | Ranch_SendGuildInviteDeclined uid uid bytes uid

record lobby =
  lo_clients :: "(client_id, lobby_client) umap"
  lo_logins :: "(client_id, queued_login) umap"
  lo_requests :: "client_id list"
  lo_responses :: "client_id list"
  lo_users :: "(bytes, user_instance) umap"
  lo_guilds :: "(uid, uid list) umap"
  lo_forced :: "uid list"
  lo_jobs :: "lobby_task scheduler"
  lo_auth :: authentication
  lo_loads :: "(bytes, user_load) umap"
  lo_data :: data_director
  lo_rooms :: room_system
  lo_otp :: otp_system
  lo_matchmaking :: matchmaking
  lo_searches :: search_scheduler
  lo_content :: "(u32, u32) umap"
  lo_sent :: "(client_id \<times> lobby_out) list"
  lo_calls :: "lobby_call list"

record lobby_env =
  lv_now :: time_point
  lv_steady :: time_point
  lv_draw :: u32
  lv_pick :: nat
  lv_hash :: "uid \<Rightarrow> u32 \<Rightarrow> otp_key"
  lv_authenticate :: "bytes \<Rightarrow> bytes \<Rightarrow> bool option"
  lv_isNameValid :: "bytes \<Rightarrow> bool"
  lv_isPrevented :: "bytes \<Rightarrow> bool"
  lv_isNameUnique :: "bytes \<Rightarrow> bool"
  lv_ranch :: "u32 \<times> u16"
  lv_race :: "u32 \<times> u16"
  lv_messenger :: "u32 \<times> u16"
  lv_messengerEnabled :: bool
  lv_notice :: bytes
  lv_quests :: "(u32, quest_info) umap"
  lv_repeatableQuests :: "u32 list"
  lv_shopList :: bytes
  lv_compress :: "bytes \<Rightarrow> bytes"
  lv_newShopTimestamp :: time_point

type_synonym 'a lobby_act = "(lobby, 'a) act"

section \<open>Access\<close>

definition send_lobby :: "client_id \<Rightarrow> lobby_out \<Rightarrow> unit lobby_act" where
  "send_lobby c m = modify (\<lambda>s. s\<lparr>lo_sent := lo_sent s @ [(c, m)]\<rparr>)"

definition call_out :: "lobby_call \<Rightarrow> unit lobby_act" where
  "call_out x = modify (\<lambda>s. s\<lparr>lo_calls := lo_calls s @ [x]\<rparr>)"

text \<open>An action on the records, the rooms and the codes.\<close>

definition on_records :: "'a data_act \<Rightarrow> 'a lobby_act" where
  "on_records m s = (case m (lo_data s) of (r, d) \<Rightarrow> (r, s\<lparr>lo_data := d\<rparr>))"

definition on_rooms :: "(room_system \<Rightarrow> (exn + 'a) \<times> room_system) \<Rightarrow> 'a lobby_act" where
  "on_rooms m s = (case m (lo_rooms s) of (r, d) \<Rightarrow> (r, s\<lparr>lo_rooms := d\<rparr>))"

definition grant_code :: "lobby_env \<Rightarrow> otp_key \<Rightarrow> u32 lobby_act" where
  "grant_code env key s = (case GrantCode key (lv_draw env) (lv_steady env) (lo_otp s) of (code, otp) \<Rightarrow> (Inr code, s\<lparr>lo_otp := otp\<rparr>))"

abbreviation view_character :: "uid \<Rightarrow> character_info lobby_act" where
  "view_character u \<equiv> on_records (view_row dd_characters u)"

abbreviation change_character_info :: "uid \<Rightarrow> (character_info \<Rightarrow> character_info) \<Rightarrow> unit lobby_act" where
  "change_character_info u f \<equiv> on_records (change_row dd_characters dd_characters_update u f)"

text \<open>The record of a user, if it is available.\<close>

definition view_user :: "bytes \<Rightarrow> user_record lobby_act" where
  "view_user name s = (case map_of (dd_users (lo_data s)) name of None \<Rightarrow> (Inl unavailable, s) | Some u \<Rightarrow> (Inr u, s))"

definition change_user :: "bytes \<Rightarrow> (user_record \<Rightarrow> user_record) \<Rightarrow> unit lobby_act" where
  "change_user name f s = (case map_of (dd_users (lo_data s)) name of
     None \<Rightarrow> (Inl unavailable, s)
   | Some u \<Rightarrow> (Inr (), s\<lparr>lo_data := (lo_data s)\<lparr>dd_users := umap_put name (f u) (dd_users (lo_data s))\<rparr>\<rparr>))"

definition queue_task_at :: "time_point \<Rightarrow> lobby_task \<Rightarrow> unit lobby_act" where
  "queue_task_at t task = modify (\<lambda>s. s\<lparr>lo_jobs := Scheduler_Queue task t (lo_jobs s)\<rparr>)"

abbreviation queue_task :: "lobby_env \<Rightarrow> lobby_task \<Rightarrow> unit lobby_act" where
  "queue_task env task \<equiv> queue_task_at (lv_steady env) task"

text \<open>\<open>if (not record) throw\<close>.\<close>

definition or_throw :: "string \<Rightarrow> 'a lobby_act \<Rightarrow> 'a lobby_act" where
  "or_throw t m s = (case m s of (Inl e, s') \<Rightarrow> (Inl (RuntimeError t), s') | (Inr x, s') \<Rightarrow> (Inr x, s'))"

text \<open>Clients.\<close>

definition Lobby_GetClientContext :: "client_id \<Rightarrow> bool \<Rightarrow> lobby_client lobby_act" where
  "Lobby_GetClientContext c requireAuthentication s = (case map_of (lo_clients s) c of
     None \<Rightarrow> throw ''Lobby client is not available'' s
   | Some x \<Rightarrow> if requireAuthentication \<and> \<not> lc_isAuthenticated x then throw ''Lobby client is not authenticated'' s
       else (Inr x, s))"

abbreviation authenticated :: "client_id \<Rightarrow> lobby_client lobby_act" where
  "authenticated c \<equiv> Lobby_GetClientContext c True"

text \<open>What is done through the reference to a context.\<close>

definition update_client :: "client_id \<Rightarrow> (lobby_client \<Rightarrow> lobby_client) \<Rightarrow> unit lobby_act" where
  "update_client c f = modify (\<lambda>s. s\<lparr>lo_clients := (case map_of (lo_clients s) c of
     None \<Rightarrow> lo_clients s | Some x \<Rightarrow> umap_put c (f x) (lo_clients s))\<rparr>)"

definition GetClientIdByUserName :: "bytes \<Rightarrow> bool \<Rightarrow> client_id lobby_act" where
  "GetClientIdByUserName userName requiresAuthorization s =
     (case find (\<lambda>(c, x). lc_userName x = userName \<and> (lc_isAuthenticated x \<or> \<not> requiresAuthorization)) (lo_clients s) of
        None \<Rightarrow> throw ''Lobby client with the user name is not available or not authenticated'' s
      | Some (c, x) \<Rightarrow> (Inr c, s))"

definition Lobby_GetClientIdByCharacterUid :: "uid \<Rightarrow> bool \<Rightarrow> client_id lobby_act" where
  "Lobby_GetClientIdByCharacterUid characterUid requiresAuthorization s =
     (case find (\<lambda>(c, x). lc_characterUid x = characterUid \<and> (lc_isAuthenticated x \<or> \<not> requiresAuthorization)) (lo_clients s) of
        None \<Rightarrow> throw ''Lobby client with the character uid is not available or not authenticated'' s
      | Some (c, x) \<Rightarrow> (Inr c, s))"

section \<open>Authentication\<close>

definition QueueAuthentication :: "bytes \<Rightarrow> bytes \<Rightarrow> authentication \<Rightarrow> authentication" where
  "QueueAuthentication userName userToken a = a\<lparr>au_queue := au_queue a @ [(userName, userToken)]\<rparr>"

text \<open>The backend may have no answer yet.\<close>

definition AuthenticationService_Tick :: "(bytes \<Rightarrow> bytes \<Rightarrow> bool option) \<Rightarrow> authentication \<Rightarrow> authentication" where
  "AuthenticationService_Tick authenticate a = (case au_queue a of
     [] \<Rightarrow> a
   | (userName, userToken) # rest \<Rightarrow> (case authenticate userName userToken of
        None \<Rightarrow> a
      | Some b \<Rightarrow> a\<lparr>au_verdicts := au_verdicts a @ [(userName, b)], au_queue := rest\<rparr>))"

definition PollAuthenticationVerdicts :: "authentication \<Rightarrow> (bytes \<times> bool) list \<times> authentication" where
  "PollAuthenticationVerdicts a = (au_verdicts a, a\<lparr>au_verdicts := []\<rparr>)"

definition LocalBackend_Authenticate :: "bytes \<Rightarrow> bytes \<Rightarrow> bool option" where
  "LocalBackend_Authenticate userName userToken = Some True"

section \<open>Loads\<close>

definition load_of :: "bytes \<Rightarrow> lobby \<Rightarrow> user_load" where
  "load_of name s = (case map_of (lo_loads s) name of None \<Rightarrow> no_load | Some l \<Rightarrow> l)"

definition AreDataBeingLoaded :: "bytes \<Rightarrow> lobby \<Rightarrow> bool" where
  "AreDataBeingLoaded name s = ul_isBeingLoaded (load_of name s)"

definition AreUserDataLoaded :: "bytes \<Rightarrow> lobby \<Rightarrow> bool" where
  "AreUserDataLoaded name s = ul_isUserDataLoaded (load_of name s)"

definition AreCharacterDataLoaded :: "bytes \<Rightarrow> lobby \<Rightarrow> bool" where
  "AreCharacterDataLoaded name s = ul_isCharacterDataLoaded (load_of name s)"

definition RequestLoadUserData :: "bytes \<Rightarrow> lobby \<Rightarrow> lobby" where
  "RequestLoadUserData name s =
     (let l = load_of name s in
      s\<lparr>lo_loads := umap_put name
         (if ul_isBeingLoaded l \<or> ul_isUserDataLoaded l then l else l\<lparr>ul_isBeingLoaded := True\<rparr>) (lo_loads s)\<rparr>)"

definition RequestLoadCharacterData :: "bytes \<Rightarrow> lobby \<Rightarrow> lobby" where
  "RequestLoadCharacterData name s =
     (let l = load_of name s in
      s\<lparr>lo_loads := umap_put name
         (if ul_isBeingLoaded l \<or> ul_isCharacterDataLoaded l then l else l\<lparr>ul_isBeingLoaded := True\<rparr>) (lo_loads s)\<rparr>)"

end
