(* ===== verification/Lobby_Handlers.thy ===== *)
theory Lobby_Handlers imports Lobby_State begin

text \<open>
  \<open>server/lobby/LobbyNetworkHandler.cpp\<close>: what clients of the lobby ask for. The login itself is in
  \<open>Lobby_Login\<close>.

  \<^item> A page of the room list is computed from the rooms in an order that keeps the order of equal rooms, which the
    code leaves open.
  \<^item> A character of the cache is one that has a record.
\<close>

section \<open>The answer to a login\<close>

fun starts_with :: "bytes \<Rightarrow> bytes \<Rightarrow> bool" where
  "starts_with [] t = True"
| "starts_with (p # ps) [] = False"
| "starts_with (p # ps) (c # cs) = (p = c \<and> starts_with ps cs)"

text \<open>The first occurrence of a text is replaced.\<close>

fun replace_first :: "bytes \<Rightarrow> bytes \<Rightarrow> bytes \<Rightarrow> bytes" where
  "replace_first p r [] = (if p = [] then r else [])"
| "replace_first p r (c # cs) = (if starts_with p (c # cs) then r @ drop (length p) (c # cs) else c # replace_first p r cs)"

definition PlayersOnlinePlaceholder :: bytes where "PlayersOnlinePlaceholder = ascii ''{players_online}''"

definition login_missions :: "LobbyCommandLoginOK_Mission list" where
  "login_missions = map (\<lambda>i. LobbyCommandLoginOK_Mission i [LobbyCommandLoginOK_Mission_Progress 2 1])
     [0x18, 0x1F, 0x23, 0x29, 0x2A, 0x2B, 0x2C, 0x2D, 0x2E, 0x2F]"

abbreviation (input) GuildRole_Owner :: u8 where "GuildRole_Owner \<equiv> 10"
abbreviation (input) GuildRole_Officer :: u8 where "GuildRole_Officer \<equiv> 100"
abbreviation (input) GuildRole_Member :: u8 where "GuildRole_Member \<equiv> 200"

definition login_guild :: "data_director \<Rightarrow> character_info \<Rightarrow> exn + wire_guild" where
  "login_guild d ch =
     (if ci_guildUid ch = InvalidUid then Inr new_wire_guild
      else case get_row (dd_guilds d) (ci_guildUid ch) of
          None \<Rightarrow> Inl (RuntimeError ''Character's guild not available'')
        | Some g \<Rightarrow>
            let w = BuildProtocolGuild g new_wire_guild in
            if gu_owner g = ci_uid ch then Inr (w\<lparr>wgu_guildRole := GuildRole_Owner\<rparr>)
            else if ci_uid ch \<in> set (gu_officers g) then Inr (w\<lparr>wgu_guildRole := GuildRole_Officer\<rparr>)
            else if ci_uid ch \<in> set (gu_members g) then Inr (w\<lparr>wgu_guildRole := GuildRole_Member\<rparr>)
            else Inl (RuntimeError ''Character is in a guild but not a member''))"

definition login_pet :: "data_director \<Rightarrow> character_info \<Rightarrow> exn + wire_pet" where
  "login_pet d ch =
     (if ci_petUid ch = InvalidUid then Inr new_wire_pet
      else case get_row (dd_pets d) (ci_petUid ch) of
          None \<Rightarrow> Inl (RuntimeError ''Character's pet not available'')
        | Some p \<Rightarrow> Inr (BuildProtocolPet p))"

definition login_settings :: "data_director \<Rightarrow> character_info \<Rightarrow> exn + wire_settings" where
  "login_settings d ch =
     (if ci_settingsUid ch = InvalidUid then Inr new_wire_settings
      else case get_row (dd_settings d) (ci_settingsUid ch) of
          None \<Rightarrow> Inl (RuntimeError ''Character's settings not available'')
        | Some r \<Rightarrow> Inr (BuildProtocolSettings r (new_wire_settings\<lparr>ws_age := ucast (se_age r),
            ws_hideAge := (if se_hideAge r then 1 else 0)\<rparr>)))"

definition records_or :: "string \<Rightarrow> 'a option \<Rightarrow> exn + 'a" where
  "records_or t m = (case m of None \<Rightarrow> Inl (RuntimeError t) | Some x \<Rightarrow> Inr x)"

fun role_number :: "Role \<Rightarrow> u32" where
  "role_number Role_User = 0" | "role_number Role_Op = 1" | "role_number Role_GameMaster = 2"

definition login_notice :: "lobby_env \<Rightarrow> nat \<Rightarrow> bytes" where
  "login_notice env online = replace_first PlayersOnlinePlaceholder (decimal online) (lv_notice env)"

definition lobby_login_response ::
  "lobby_env \<Rightarrow> lobby \<Rightarrow> lobby_client \<Rightarrow> character_info \<Rightarrow> exn + LobbyCommandLoginOK" where
  "lobby_login_response env s ctx ch =
     bnd (records_or ''Equipment items unavailable'' (get_rows (dd_items (lo_data s)) (ci_characterEquipment ch))) (\<lambda>equipment.
     bnd (records_or ''Expired items unavailable'' (get_rows (dd_items (lo_data s)) (ci_expiredEquipment ch))) (\<lambda>expired.
     bnd (login_guild (lo_data s) ch) (\<lambda>guild.
     bnd (login_pet (lo_data s) ch) (\<lambda>pet.
     bnd (login_settings (lo_data s) ch) (\<lambda>settings.
     bnd (records_or ''Horse mount record unavailable'' (get_row (dd_horses (lo_data s)) (ci_mountUid ch))) (\<lambda>mount.
     Inr (LobbyCommandLoginOK (TimePointToFileTime (lv_now env)) 0 (ci_uid ch) (ci_name ch)
       (login_notice env (length (lo_users s))) (if cp_modelId (ci_parts ch) = 10 then 1 else 2) (ci_introduction ch)
       (BuildProtocolItems equipment) (BuildProtocolItems expired) (ucast (ci_level ch)) (ci_carrots ch)
       (ci_experience ch) (role_number (ci_role ch)) 0 settings login_missions [] (fst (lv_ranch env)) (snd (lv_ranch env)) 0
       (BuildProtocolCharacter ch) (BuildProtocolHorse mount) (LobbyCommandLoginOK_SystemContent (lo_content s))
       (if lc_justCreatedCharacter ctx then 0 else 2) (LobbyCommandLoginOK_Struct1 0 0 0) 0
       (LobbyCommandLoginOK_ManagementSkills 0 0 0) (LobbyCommandLoginOK_SkillRanks [])
       (LobbyCommandLoginOK_TrainingProgression [LobbyCommandLoginOK_TrainingProgression_MapProgressInfo 1 1 0]) 0 guild 0
       new_wire_rent 0 0 0 pet)))))))"

definition skill_presets :: "character_info \<Rightarrow> AcCmdLCSkillCardPresetList" where
  "skill_presets ch =
     (let speed = ci_speed_skills ch; magic = ci_magic_skills ch; slots = (\<lambda>(a, b). [a, b]) in
      AcCmdLCSkillCardPresetList (ucast (sk_activeSetId speed)) (ucast (sk_activeSetId magic))
        [\<lparr>wss_setId = 0, wss_gamemode = 1, wss_skills = slots (sk_set1 speed)\<rparr>,
         \<lparr>wss_setId = 1, wss_gamemode = 1, wss_skills = slots (sk_set2 speed)\<rparr>,
         \<lparr>wss_setId = 0, wss_gamemode = 2, wss_skills = slots (sk_set1 magic)\<rparr>,
         \<lparr>wss_setId = 1, wss_gamemode = 2, wss_skills = slots (sk_set2 magic)\<rparr>])"

definition SendLoginOK :: "lobby_env \<Rightarrow> client_id \<Rightarrow> unit lobby_act" where
  "SendLoginOK env c =
     seq (authenticated c) (\<lambda>ctx.
     seq (or_throw ''User record unavailable'' (view_user (lc_userName ctx))) (\<lambda>user.
     seq (update_client c (\<lambda>x. x\<lparr>lc_characterUid := us_characterUid user\<rparr>)) (\<lambda>_.
     seq (on_records (\<lambda>d. (Inr (), snd (PromoteMaturedFoals (lv_now env) (us_characterUid user) d)))) (\<lambda>_.
     seq (or_throw ''Character record unavailable'' (view_character (us_characterUid user))) (\<lambda>ch.
     seq get_state (\<lambda>s.
     seq (lift (lobby_login_response env s ctx ch)) (\<lambda>response.
     seq (call_out (Lobby_SetCode c)) (\<lambda>_.
     seq (send_lobby c (LO_LoginOK response)) (\<lambda>_.
     send_lobby c (LO_SkillCardPresetList (skill_presets ch)))))))))))"

definition SendLoginCancel :: "client_id \<Rightarrow> u8 \<Rightarrow> unit lobby_act" where
  "SendLoginCancel c reason = send_lobby c (LO_LoginCancel (AcCmdCLLoginCancel reason))"

definition SendCreateNicknameNotify :: "client_id \<Rightarrow> unit lobby_act" where
  "SendCreateNicknameNotify c =
     seq (authenticated c) (\<lambda>_.
     seq (update_client c (\<lambda>x. x\<lparr>lc_isInCharacterCreator := True\<rparr>)) (\<lambda>_.
     send_lobby c (LO_CreateNicknameNotify ())))"

definition AcceptLogin :: "lobby_env \<Rightarrow> client_id \<Rightarrow> bool \<Rightarrow> unit lobby_act" where
  "AcceptLogin env c sendToCharacterCreator = try_catch (
     seq (Lobby_GetClientContext c False) (\<lambda>_.
     seq (update_client c (\<lambda>x. x\<lparr>lc_isAuthenticated := True\<rparr>)) (\<lambda>_.
     if sendToCharacterCreator then SendCreateNicknameNotify c else SendLoginOK env c)))"

definition RejectLogin :: "client_id \<Rightarrow> u8 \<Rightarrow> unit lobby_act" where
  "RejectLogin c reason = try_catch (seq (Lobby_GetClientContext c False) (\<lambda>_. SendLoginCancel c reason))"

section \<open>Calls from the other servers\<close>

definition SendCharacterGuildInvitation :: "uid \<Rightarrow> uid \<Rightarrow> uid \<Rightarrow> unit lobby_act" where
  "SendCharacterGuildInvitation inviteeUid guildUid inviterUid =
     seq (Lobby_GetClientIdByCharacterUid inviteeUid True) (\<lambda>c.
     seq (view_character inviterUid) (\<lambda>inviter.
     seq (on_records (view_row dd_guilds guildUid)) (\<lambda>g.
     send_lobby c (LO_InviteGuildJoin (AcCmdLCInviteGuildJoin inviteeUid inviterUid (ci_name inviter) (gu_description g)
       \<lparr>wgu_uid = guildUid, wgu_val1 = 1, wgu_val2 = 2, wgu_name = gu_name g, wgu_guildRole = GuildRole_Member, wgu_val5 = 5,
        wgu_val6 = 6\<rparr>)))))"

definition SetCharacterVisitPreference :: "uid \<Rightarrow> uid \<Rightarrow> unit lobby_act" where
  "SetCharacterVisitPreference characterUid rancherUid = try_catch (
     seq (Lobby_GetClientIdByCharacterUid characterUid True) (\<lambda>c.
     seq (authenticated c) (\<lambda>_.
     update_client c (\<lambda>x. x\<lparr>lc_rancherVisitPreference := rancherUid\<rparr>))))"

definition MuteCharacter :: "uid \<Rightarrow> time_point \<Rightarrow> unit lobby_act" where
  "MuteCharacter characterUid expiration = try_catch (
     seq (Lobby_GetClientIdByCharacterUid characterUid True) (\<lambda>c.
     send_lobby c (LO_OpMute (AcCmdLCOpMute (TimePointToAliciaTime expiration)))))"

definition NotifyCharacter :: "uid \<Rightarrow> bytes \<Rightarrow> unit lobby_act" where
  "NotifyCharacter characterUid message = try_catch (
     seq (Lobby_GetClientIdByCharacterUid characterUid True) (\<lambda>c. send_lobby c (LO_Notice (AcCmdLCNotice message))))"

definition NotifyAchievementReward :: "uid \<Rightarrow> unit lobby_act" where
  "NotifyAchievementReward characterUid = try_catch (
     seq (Lobby_GetClientIdByCharacterUid characterUid True) (\<lambda>c. send_lobby c (LO_AchievementRewardNotify ())))"

section \<open>Connections\<close>

definition Lobby_HandleClientConnected :: "lobby_env \<Rightarrow> client_id \<Rightarrow> unit lobby_act" where
  "Lobby_HandleClientConnected env c =
     seq (modify (\<lambda>s. s\<lparr>lo_clients := (let m = lo_clients s in
        umap_put c ((case map_of m c of None \<Rightarrow> new_lobby_client | Some x \<Rightarrow> x)\<lparr>lc_lastHeartbeat := lv_steady env\<rparr>) m)\<rparr>)) (\<lambda>_.
     queue_task env (Task_Connect c))"

definition Lobby_HandleClientDisconnected :: "lobby_env \<Rightarrow> client_id \<Rightarrow> unit lobby_act" where
  "Lobby_HandleClientDisconnected env c =
     seq (Lobby_GetClientContext c False) (\<lambda>ctx.
     seq (queue_task env (Task_Disconnect (lc_isAuthenticated ctx) c (lc_userName ctx))) (\<lambda>_.
     modify (\<lambda>s. s\<lparr>lo_clients := umap_erase c (lo_clients s)\<rparr>)))"

definition DisconnectCharacter :: "lobby_env \<Rightarrow> uid \<Rightarrow> unit lobby_act" where
  "DisconnectCharacter env characterUid = try_catch (
     seq (Lobby_GetClientIdByCharacterUid characterUid True) (\<lambda>c. Lobby_HandleClientDisconnected env c))"

definition heartbeat_timeout :: "lobby_client \<Rightarrow> int" where
  "heartbeat_timeout x = (if lc_isInCharacterCreator x then seconds (15 * 60) else seconds 60)"

definition HandleNetworkTick :: "lobby_env \<Rightarrow> unit lobby_act" where
  "HandleNetworkTick env =
     seq get_state (\<lambda>s.
     let timed_out = filter (\<lambda>(c, x). lv_steady env - lc_lastHeartbeat x > heartbeat_timeout x) (lo_clients s) in
     seq (for_each timed_out (\<lambda>(c, x). seq (call_out (Ranch_Disconnect (lc_characterUid x))) (\<lambda>_.
        call_out (Race_DisconnectCharacter (lc_characterUid x))))) (\<lambda>_.
     for_each (map fst timed_out) (Lobby_HandleClientDisconnected env)))"

definition HandleHeartbeat :: "lobby_env \<Rightarrow> client_id \<Rightarrow> unit lobby_act" where
  "HandleHeartbeat env c =
     seq (authenticated c) (\<lambda>_. update_client c (\<lambda>x. x\<lparr>lc_lastHeartbeat := lv_steady env\<rparr>))"

text \<open>The constants of the command are asserted, and assertions are compiled out.\<close>

definition HandleLogin :: "lobby_env \<Rightarrow> client_id \<Rightarrow> bytes \<Rightarrow> bytes \<Rightarrow> unit lobby_act" where
  "HandleLogin env c loginId authKey =
     seq get_state (\<lambda>s.
     if loginId = [] \<or> authKey = [] then SendLoginCancel c 5
     else if list_ex (\<lambda>(_, x). lc_userName x = loginId \<and> lc_isAuthenticated x) (lo_clients s) then SendLoginCancel c 2
     else seq (Lobby_GetClientContext c False) (\<lambda>_.
       seq (update_client c (\<lambda>x. x\<lparr>lc_userName := loginId\<rparr>)) (\<lambda>_.
       queue_task env (Task_Login c loginId authKey))))"

section \<open>Rooms\<close>

fun room_game_mode :: "GameMode \<Rightarrow> u8" where
  "room_game_mode Game_Unset = 0" | "room_game_mode Game_Speed = 1" | "room_game_mode Game_Magic = 2"
| "room_game_mode Game_Guild = 3" | "room_game_mode Game_Tutorial = 6"

fun room_team_mode :: "TeamMode \<Rightarrow> u8" where
  "room_team_mode Mode_Unset = 0" | "room_team_mode Mode_FFA = 1" | "room_team_mode Mode_Team = 2"
| "room_team_mode Mode_Single = 3"

definition RoomsPerPage :: nat where "RoomsPerPage = 9"

definition room_priority :: "room_snapshot \<Rightarrow> nat" where
  "room_priority r = (if rd_password (rsn_details r) \<noteq> [] then 2 else if rsn_isPlaying r then 1 else 0)"

text \<open>Sorted by priority, then by the number of players.\<close>

definition sorted_rooms :: "u8 \<Rightarrow> u8 \<Rightarrow> room_system \<Rightarrow> room_snapshot list" where
  "sorted_rooms gameMode teamMode rs =
     sort_key (\<lambda>r. (room_priority r, rsn_playerCount r))
       (filter (\<lambda>r. room_game_mode (rd_gameMode (rsn_details r)) = gameMode \<and> room_team_mode (rd_teamMode (rsn_details r)) = teamMode)
         (GetRoomsSnapshot rs))"

definition room_entry :: "room_snapshot \<Rightarrow> LobbyCommandRoomListOK_Room" where
  "room_entry r = (let d = rsn_details r in
     LobbyCommandRoomListOK_Room (rsn_uid r) (rd_name d) (of_nat (rsn_playerCount r)) (ucast (rd_maxPlayerCount d))
       (if rd_password d \<noteq> [] then 1 else 0) 0 0 (rd_courseId d) (if rsn_isPlaying r then 1 else 0) 0 0 2 0)"

definition room_page :: "u8 \<Rightarrow> room_snapshot list \<Rightarrow> u8 \<times> room_snapshot list" where
  "room_page page rooms =
     (let roomChunks = chunks RoomsPerPage rooms in
      if roomChunks = [] then (0, [])
      else let i = max (min (length roomChunks - 1) (unat page)) 0 in (of_nat i, roomChunks ! i))"

definition HandleRoomList :: "client_id \<Rightarrow> AcCmdCLRoomList \<Rightarrow> unit lobby_act" where
  "HandleRoomList c command =
     seq get_state (\<lambda>s.
     case room_page (AcCmdCLRoomList_page command)
       (sorted_rooms (AcCmdCLRoomList_gameMode command) (AcCmdCLRoomList_teamMode command) (lo_rooms s)) of
       (page, rooms) \<Rightarrow> send_lobby c (LO_RoomListOK (LobbyCommandRoomListOK page (AcCmdCLRoomList_gameMode command)
         (AcCmdCLRoomList_teamMode command) (map room_entry rooms) (LobbyCommandRoomListOK_Anon_unk3 0 [] 0))))"

definition setup_room :: "AcCmdCLMakeRoom \<Rightarrow> uid \<Rightarrow> u32 room_consumer" where
  "setup_room command characterUid r =
     (if AcCmdCLMakeRoom_name command = [] \<and> AcCmdCLMakeRoom_playerCount command \<noteq> 1 then (Inr 0, r)
      else let d = rm_details r;
        r = r\<lparr>rm_details := d\<lparr>rd_name := AcCmdCLMakeRoom_name command, rd_password := AcCmdCLMakeRoom_password command,
          rd_missionId := AcCmdCLMakeRoom_missionId command,
          rd_maxPlayerCount := ucast (max (min (AcCmdCLMakeRoom_playerCount command) 8) 0),
          rd_gameMode := (case ResolveRoomGameMode (AcCmdCLMakeRoom_gameMode command) of None \<Rightarrow> rd_gameMode d | Some g \<Rightarrow> g),
          rd_teamMode := (case ResolveRoomTeamMode (AcCmdCLMakeRoom_teamMode command) of None \<Rightarrow> rd_teamMode d | Some t \<Rightarrow> t),
          rd_npcDifficulty := AcCmdCLMakeRoom_unk3 command, rd_skillBracket := AcCmdCLMakeRoom_unk4 command,
          rd_courseId := 10002\<rparr>\<rparr>
      in (Inr (rm_uid r), snd (QueuePlayer characterUid r)))"

definition GetUserByCharacterUid :: "uid \<Rightarrow> user_instance lobby_act" where
  "GetUserByCharacterUid characterUid s = (case find (\<lambda>(n, u). ui_characterUid u = characterUid) (lo_users s) of
     None \<Rightarrow> throw ''User instance for character not available'' s | Some (n, u) \<Rightarrow> (Inr u, s))"

definition HandleMakeRoom :: "lobby_env \<Rightarrow> client_id \<Rightarrow> AcCmdCLMakeRoom \<Rightarrow> unit lobby_act" where
  "HandleMakeRoom env c command =
     seq (authenticated c) (\<lambda>ctx.
     if lv_isPrevented env (AcCmdCLMakeRoom_name command) then send_lobby c (LO_MakeRoomCancel (AcCmdCLMakeRoomCancel 0))
     else seq (on_rooms (CreateRoom (setup_room command (lc_characterUid ctx)))) (\<lambda>createdRoomUid.
       if createdRoomUid = 0 then send_lobby c (LO_MakeRoomCancel (AcCmdCLMakeRoomCancel 0))
       else seq (view_character (lc_characterUid ctx)) (\<lambda>ch.
         seq (GetUserByCharacterUid (ci_uid ch)) (\<lambda>_.
         seq (grant_code env (lv_hash env (lc_characterUid ctx) createdRoomUid)) (\<lambda>code.
         seq (send_lobby c (LO_MakeRoomOK (AcCmdCLMakeRoomOK createdRoomUid code (fst (lv_race env)) (snd (lv_race env))
           (AcCmdCLMakeRoom_unk4 command)))) (\<lambda>_.
         queue_task env (Task_SetUserRoom (lc_userName ctx) createdRoomUid)))))))"

abbreviation (input) CR_INVALID_ROOM :: u8 where "CR_INVALID_ROOM \<equiv> 5"
abbreviation (input) CR_CROWDED_ROOM :: u8 where "CR_CROWDED_ROOM \<equiv> 6"
abbreviation (input) CR_BAD_PASSWORD :: u8 where "CR_BAD_PASSWORD \<equiv> 11"
abbreviation (input) ShowRoomPassword :: u8 where "ShowRoomPassword \<equiv> 17"

text \<open>Whether the client may enter and whether the room is full. The character is queued in either case, unless it is full.\<close>

definition try_enter :: "bytes \<Rightarrow> uid \<Rightarrow> (bool \<times> bool) room_consumer" where
  "try_enter password characterUid r =
     (let isAuthorized = (rd_password (rm_details r) = [] \<or> rd_password (rm_details r) = password) in
      if IsRoomFull r then (Inr (isAuthorized, True), r)
      else (Inr (isAuthorized, False), snd (QueuePlayer characterUid r)))"

definition bad_password_status :: "u32 \<Rightarrow> u8" where
  "bad_password_status enterRoomType =
     (if enterRoomType = 0 then CR_BAD_PASSWORD else if enterRoomType = 3 \<or> enterRoomType = 5 then ShowRoomPassword else 0)"

definition Lobby_HandleEnterRoom :: "lobby_env \<Rightarrow> client_id \<Rightarrow> AcCmdCLEnterRoom \<Rightarrow> unit lobby_act" where
  "Lobby_HandleEnterRoom env c command =
     seq (authenticated c) (\<lambda>ctx.
     let roomUid = AcCmdCLEnterRoom_roomUid command;
         cancel = (\<lambda>status. send_lobby c (LO_EnterRoomCancel (AcCmdCLEnterRoomCancel status))) in
     seq (\<lambda>s. case GetRoom roomUid (try_enter (AcCmdCLEnterRoom_password command) (lc_characterUid ctx)) (lo_rooms s) of
        (Inl e, rs) \<Rightarrow> (Inr None, s\<lparr>lo_rooms := rs\<rparr>) | (Inr x, rs) \<Rightarrow> (Inr (Some x), s\<lparr>lo_rooms := rs\<rparr>)) (\<lambda>verdict.
     case verdict of
       None \<Rightarrow> cancel CR_INVALID_ROOM
     | Some (isAuthorized, isRoomFull) \<Rightarrow>
         if \<not> isAuthorized then cancel (bad_password_status (AcCmdCLEnterRoom_enterRoomType command))
         else if isRoomFull then cancel CR_CROWDED_ROOM
         else seq (grant_code env (lv_hash env (lc_characterUid ctx) roomUid)) (\<lambda>code.
           seq (send_lobby c (LO_EnterRoomOK (AcCmdCLEnterRoomOK roomUid code (fst (lv_race env)) (snd (lv_race env)) 1))) (\<lambda>_.
           queue_task_at (lv_steady env + seconds 7) (Task_RoomEntered (lc_userName ctx) (lc_characterUid ctx) roomUid)))))"

definition Lobby_HandleLeaveRoom :: "lobby_env \<Rightarrow> client_id \<Rightarrow> unit lobby_act" where
  "Lobby_HandleLeaveRoom env c = seq (authenticated c) (\<lambda>ctx. queue_task env (Task_SetUserRoom (lc_userName ctx) 0))"

definition HandleEnterChannel :: "client_id \<Rightarrow> AcCmdCLEnterChannel \<Rightarrow> unit lobby_act" where
  "HandleEnterChannel c command = send_lobby c (LO_EnterChannelOK (AcCmdCLEnterChannelOK (AcCmdCLEnterChannel_channel command) 557))"

definition HandleLeaveChannel :: "client_id \<Rightarrow> unit lobby_act" where
  "HandleLeaveChannel c = send_lobby c (LO_LeaveChannelOK ())"

definition HandleEnterRoomQuick :: "lobby_env \<Rightarrow> client_id \<Rightarrow> AcCmdCLEnterRoomQuick \<Rightarrow> unit lobby_act" where
  "HandleEnterRoomQuick env c command =
     seq (authenticated c) (\<lambda>ctx.
     seq (\<lambda>s. case Matchmaking_Queue (lv_steady env) (lc_characterUid ctx) (AcCmdCLEnterRoomQuick_gameMode command)
          (AcCmdCLEnterRoomQuick_teamMode command) (lo_matchmaking s) (lo_searches s) of
        (b, mm, sch) \<Rightarrow> (Inr b, s\<lparr>lo_matchmaking := mm, lo_searches := sch\<rparr>)) (\<lambda>hasQueued.
     if hasQueued then pure () else send_lobby c (LO_EnterRoomQuickCancel ())))"

definition HandleEnterRoomQuickStop :: "client_id \<Rightarrow> unit lobby_act" where
  "HandleEnterRoomQuickStop c =
     seq (authenticated c) (\<lambda>ctx.
     seq (\<lambda>s. case Matchmaking_Dequeue (lc_characterUid ctx) (lo_matchmaking s) of
        (b, mm) \<Rightarrow> (Inr b, s\<lparr>lo_matchmaking := mm\<rparr>)) (\<lambda>dequeued.
     send_lobby c (if dequeued then LO_EnterRoomQuickStopOK () else LO_EnterRoomQuickStopCancel ())))"

text \<open>What the code throws for a room to make is a pointer, which no handler of exceptions catches.\<close>

definition NotifyMatchmakeResult :: "lobby_env \<Rightarrow> uid \<Rightarrow> mm_result \<Rightarrow> unit lobby_act" where
  "NotifyMatchmakeResult env characterUid result =
     seq (Lobby_GetClientIdByCharacterUid characterUid True) (\<lambda>c.
     case result of
       NoRoom \<Rightarrow> send_lobby c (LO_EnterRoomQuickCancel ())
     | MakeRoom \<Rightarrow> throw ''Matchmaking system verdict make room not implemented''
     | FoundRoom roomUid \<Rightarrow>
         seq (send_lobby c (LO_EnterRoomQuickSuccess (AcCmdCLEnterRoomQuickSuccess 1))) (\<lambda>_.
         Lobby_HandleEnterRoom env c (AcCmdCLEnterRoom roomUid [] 0)))"

end
