(* ===== verification/Lobby_Account.thy ===== *)
theory Lobby_Account imports Lobby_Handlers begin

text \<open>
  \<open>server/lobby/LobbyNetworkHandler.cpp\<close>: characters, inventories, settings, ranches, guild invitations, quests and
  the other things clients of the lobby ask for.

  \<^item> The code dereferences the records of an inventory without asking whether they are there; here it throws.
  \<^item> \<open>lv_newShopTimestamp\<close> is the time a shop list is sent with.
\<close>

section \<open>Creation of a character\<close>

text \<open>\<open>HorseRegistry::BuildDefaultHorse\<close>.\<close>

definition BuildDefaultHorse :: "time_point \<Rightarrow> tid \<Rightarrow> horse_info \<Rightarrow> horse_info" where
  "BuildDefaultHorse now horseTid h =
     h\<lparr>hi_tid := horseTid, hi_dateOfBirth := now, hi_mountCondition := (hi_mountCondition h)\<lparr>mc_stamina := 4000\<rparr>,
       hi_tendency := 1, hi_clazz := 1, hi_grade := 1,
       hi_appearance := \<lparr>hpa_scale = 5, hpa_legLength = 5, hpa_legVolume = 5, hpa_bodyLength = 5, hpa_bodyVolume = 5\<rparr>,
       hi_parts := \<lparr>hp_skinTid = 1, hp_faceTid = 1, hp_maneTid = 3, hp_tailTid = 3\<rparr>\<rparr>"

definition DefaultHorseTid :: tid where "DefaultHorseTid = 20001"

abbreviation (input) Nickname_ServerError :: u8 where "Nickname_ServerError \<equiv> 0"
abbreviation (input) Nickname_Duplicate :: u8 where "Nickname_Duplicate \<equiv> 2"
abbreviation (input) Nickname_Invalid :: u8 where "Nickname_Invalid \<equiv> 3"

definition SendCreateNicknameCancel :: "client_id \<Rightarrow> u8 \<Rightarrow> unit lobby_act" where
  "SendCreateNicknameCancel c reason = send_lobby c (LO_CreateNicknameCancel (AcCmdCLCreateNicknameCancel reason))"

definition new_group :: contact_group where
  "new_group = \<lparr>cg_uid = InvalidUid, cg_name = [], cg_members = [], cg_createdAt = 0\<rparr>"

definition start_character :: "bytes \<Rightarrow> uid \<Rightarrow> character_info \<Rightarrow> character_info" where
  "start_character nickname mountUid ch =
     ch\<lparr>ci_name := (if ci_name ch = [] then nickname else ci_name ch), ci_level := 40, ci_experience := 557300,
       ci_carrots := 200000, ci_mountUid := mountUid, ci_horseSlotCount := 5,
       ci_contacts := (let cn = ci_contacts ch in
         cn\<lparr>cn_groups := (if has_key (cn_groups cn) 0 then cn_groups cn else omap_put 0 new_group (cn_groups cn))\<rparr>)\<rparr>"

text \<open>A new character with its mount, for a user that has none; the name is taken, or the character.\<close>

definition create_character :: "lobby_env \<Rightarrow> bytes \<Rightarrow> bytes \<Rightarrow> tid \<Rightarrow> uid lobby_act" where
  "create_character env userName nickname horseTid =
     seq (or_throw ''Failed to create horse'' (on_records (fresh_row dd_horses dd_horses_update
       (\<lambda>u. default_horse\<lparr>hi_uid := u\<rparr>)))) (\<lambda>mountUid.
     seq (on_records (change_row dd_horses dd_horses_update mountUid (BuildDefaultHorse (lv_now env) horseTid))) (\<lambda>_.
     seq (or_throw ''Failed to create character'' (on_records (fresh_row dd_characters dd_characters_update
       (\<lambda>u. default_character\<lparr>ci_uid := u\<rparr>)))) (\<lambda>characterUid.
     seq (change_character_info characterUid (start_character nickname mountUid)) (\<lambda>_.
     seq (change_user userName (\<lambda>u. u\<lparr>us_characterUid := characterUid\<rparr>)) (\<lambda>_.
     seq (queue_task env (Task_SetCharacter userName characterUid)) (\<lambda>_. pure characterUid))))))"

definition look_of :: "wire_character \<Rightarrow> character_info \<Rightarrow> character_info" where
  "look_of w ch = (let p = wch_parts w; a = wch_appearance w in
     ch\<lparr>ci_parts := \<lparr>cp_modelId = ucast (wcp_charId p), cp_mouthId = ucast (wcp_mouthSerialId p), cp_faceId = ucast (wcp_faceSerialId p)\<rparr>,
       ci_appearance := \<lparr>ca_voiceId = ucast (wca_voiceId a), ca_headSize = ucast (wca_headSize a), ca_height = ucast (wca_height a),
         ca_thighVolume = ucast (wca_thighVolume a), ca_legVolume = ucast (wca_legVolume a),
         ca_emblemId = ucast (wca_emblemId a)\<rparr>\<rparr>)"

definition HandleCreateNickname :: "lobby_env \<Rightarrow> client_id \<Rightarrow> AcCmdCLCreateNickname \<Rightarrow> unit lobby_act" where
  "HandleCreateNickname env c command =
     seq (authenticated c) (\<lambda>ctx.
     let nickname = AcCmdCLCreateNickname_nickname command; name = lc_userName ctx;
         finish = (\<lambda>characterUid.
           seq (change_character_info characterUid (look_of (AcCmdCLCreateNickname_character command))) (\<lambda>_. SendLoginOK env c)) in
     if AcCmdCLCreateNickname_requestedHorseTid command \<noteq> DefaultHorseTid then SendCreateNicknameCancel c Nickname_ServerError
     else if \<not> lv_isNameValid env nickname \<or> lv_isPrevented env nickname then SendCreateNicknameCancel c Nickname_Invalid
     else seq (update_client c (\<lambda>x. x\<lparr>lc_justCreatedCharacter := True, lc_lastHeartbeat := lv_steady env,
         lc_isInCharacterCreator := False\<rparr>)) (\<lambda>_.
       seq (or_throw ''User record does not exist'' (view_user name)) (\<lambda>user.
       if us_characterUid user \<noteq> InvalidUid then finish (us_characterUid user)
       else if \<not> lv_isNameUnique env nickname then SendCreateNicknameCancel c Nickname_Duplicate
       else seq (create_character env name nickname (AcCmdCLCreateNickname_requestedHorseTid command)) finish)))"

section \<open>Inventory and settings\<close>

definition HandleShowInventory :: "client_id \<Rightarrow> unit lobby_act" where
  "HandleShowInventory c =
     seq (authenticated c) (\<lambda>ctx.
     seq (or_throw ''Character record unavailable'' (view_character (lc_characterUid ctx))) (\<lambda>ch.
     seq get_state (\<lambda>s.
     seq (lift (records_or ''Items'' (get_rows (dd_items (lo_data s)) (ci_inventory ch)))) (\<lambda>items.
     seq (lift (records_or ''Horses'' (get_rows (dd_horses (lo_data s)) (ci_horses ch)))) (\<lambda>horses.
     let responses = map (\<lambda>is. LobbyCommandShowInventoryOK (BuildProtocolItems is) []) (chunks 250 items)
           @ map (\<lambda>hs. LobbyCommandShowInventoryOK [] (BuildProtocolHorses hs)) (chunks 10 horses) in
     for_each (if responses = [] then [LobbyCommandShowInventoryOK [] []] else responses)
       (\<lambda>r. send_lobby c (LO_ShowInventoryOK r)))))))"

definition update_settings :: "wire_settings \<Rightarrow> settings_record \<Rightarrow> settings_record" where
  "update_settings w r =
     (let r = (if bit (ws_typeBitset w) 0 then r\<lparr>se_keyboardBindings := Some (map (\<lambda>b.
            \<lparr>ob_primaryKey = ucast (ko_primaryKey b), ob_type = ucast (ko_type b), ob_secondaryKey = ucast (ko_secondaryKey b)\<rparr>)
            (ws_keyboard w))\<rparr> else r);
          r = (if bit (ws_typeBitset w) 5 then r\<lparr>se_gamepadBindings := Some (map (\<lambda>b.
            \<lparr>ob_primaryKey = ucast (go_primaryButton b), ob_type = ucast (go_type b), ob_secondaryKey = ucast (go_secondaryButton b)\<rparr>)
            (butlast (ws_gamepad w)))\<rparr> else r)
      in if bit (ws_typeBitset w) 3 then r\<lparr>se_macros := Some (ws_macros w)\<rparr> else r)"

definition new_settings :: "uid \<Rightarrow> settings_record" where
  "new_settings u = \<lparr>se_uid = u, se_keyboardBindings = None, se_macros = None, se_gamepadBindings = None, se_age = 0,
     se_hideAge = False\<rparr>"

definition HandleUpdateUserSettings :: "client_id \<Rightarrow> AcCmdCLUpdateUserSettings \<Rightarrow> unit lobby_act" where
  "HandleUpdateUserSettings c command =
     seq (authenticated c) (\<lambda>ctx.
     seq (view_character (lc_characterUid ctx)) (\<lambda>ch.
     let wasCreated = (ci_settingsUid ch = InvalidUid) in
     seq (if wasCreated then on_records (fresh_row dd_settings dd_settings_update new_settings) else pure (ci_settingsUid ch)) (\<lambda>u.
     seq (on_records (view_row dd_settings u)) (\<lambda>r.
     seq (on_records (change_row dd_settings dd_settings_update u (update_settings (AcCmdCLUpdateUserSettings_settings command)))) (\<lambda>_.
     seq (if wasCreated then change_character_info (lc_characterUid ctx) (\<lambda>ch. ch\<lparr>ci_settingsUid := se_uid r\<rparr>) else pure ()) (\<lambda>_.
     send_lobby c (LO_UpdateUserSettingsOK ())))))))"

section \<open>Shop and achievements\<close>

definition ChunkSize :: nat where "ChunkSize = 7168"
definition MaxShopDataSize :: nat where "MaxShopDataSize = 0x8000"

definition HandleGoodsShopList :: "lobby_env \<Rightarrow> client_id \<Rightarrow> unit lobby_act" where
  "HandleGoodsShopList env c =
     (let dataParts = chunks ChunkSize (lv_compress env (lv_shopList env)); chunkCount = length dataParts in
      if chunkCount * ChunkSize > MaxShopDataSize then send_lobby c (LO_GoodsShopListCancel ())
      else seq (for_each (zip [0 ..< chunkCount] dataParts) (\<lambda>(i, part). send_lobby c (LO_GoodsShopListData
           \<lparr>AcCmdLCGoodsShopListData_timestamp = lv_newShopTimestamp env, AcCmdLCGoodsShopListData_index = of_nat i,
            AcCmdLCGoodsShopListData_count = of_nat chunkCount, AcCmdLCGoodsShopListData_data = part\<rparr>))) (\<lambda>_.
        send_lobby c (LO_GoodsShopListOK (AcCmdCLGoodsShopListOK (lv_newShopTimestamp env)))))"

definition HandleAchievementCompleteList :: "client_id \<Rightarrow> unit lobby_act" where
  "HandleAchievementCompleteList c =
     seq (authenticated c) (\<lambda>ctx.
     seq (view_character (lc_characterUid ctx)) (\<lambda>ch.
     send_lobby c (LO_AchievementCompleteListOK (AcCmdCLAchievementCompleteListOK (ci_uid ch)
       (map (\<lambda>t. new_wire_quest\<lparr>wq_tid := t\<rparr>) [20008, 20009, 20010, 20011, 20012])))))"

section \<open>People and ranches\<close>

definition new_basic_info :: AcCmdLCPersonalInfo_Basic where
  "new_basic_info = AcCmdLCPersonalInfo_Basic 0 0 0 0 0 0 0 0 0 0 0 0 0 0 0 0 [] 0 0 [] 0 0 0 0 0 0 [] 0 0"

definition basic_info :: "data_director \<Rightarrow> character_info \<Rightarrow> AcCmdLCPersonalInfo_Basic" where
  "basic_info d ch = AcCmdLCPersonalInfo_Basic 0 0 0 0 0 0 0 0 0 0 0 0 0 0 0 0 (ci_introduction ch) (ci_level ch)
     (ci_experience ch) [] 0 0 0 0 0 0 (case get_row (dd_guilds d) (ci_guildUid ch) of None \<Rightarrow> [] | Some g \<Rightarrow> gu_name g) 0 0"

definition HandleRequestPersonalInfo :: "client_id \<Rightarrow> AcCmdCLRequestPersonalInfo \<Rightarrow> unit lobby_act" where
  "HandleRequestPersonalInfo c command =
     seq (view_character (AcCmdCLRequestPersonalInfo_characterUid command)) (\<lambda>ch.
     seq get_state (\<lambda>s.
     send_lobby c (LO_PersonalInfo (AcCmdLCPersonalInfo (AcCmdCLRequestPersonalInfo_characterUid command)
       (AcCmdCLRequestPersonalInfo_type command)
       (if AcCmdCLRequestPersonalInfo_type command = 6 then basic_info (lo_data s) ch else new_basic_info)
       (AcCmdLCPersonalInfo_CourseInformation 0 0 0 []) (AcCmdLCPersonalInfo_Eight [])))))"

definition SendEnterRanchOK :: "lobby_env \<Rightarrow> client_id \<Rightarrow> uid \<Rightarrow> unit lobby_act" where
  "SendEnterRanchOK env c rancherUid =
     seq (authenticated c) (\<lambda>ctx.
     seq (grant_code env (ucast (lc_characterUid ctx))) (\<lambda>otp.
     send_lobby c (LO_EnterRanchOK (AcCmdCLEnterRanchOK rancherUid otp (fst (lv_ranch env)) (snd (lv_ranch env))))))"

definition HandleEnterRanch :: "lobby_env \<Rightarrow> client_id \<Rightarrow> uid \<Rightarrow> unit lobby_act" where
  "HandleEnterRanch env c rancherUid =
     seq (authenticated c) (\<lambda>ctx.
     seq get_state (\<lambda>s.
     let isRanchLocked = (case get_row (dd_characters (lo_data s)) rancherUid of None \<Rightarrow> True | Some r \<Rightarrow> ci_isRanchLocked r) in
     if isRanchLocked \<and> rancherUid \<noteq> lc_characterUid ctx then send_lobby c (LO_EnterRanchCancel (AcCmdCLEnterRanchCancel 3))
     else SendEnterRanchOK env c rancherUid))"

definition available_ranches :: "uid \<Rightarrow> data_director \<Rightarrow> uid list" where
  "available_ranches u d =
     map ci_uid (filter (\<lambda>ch. \<not> (ci_isRanchLocked ch \<or> ci_uid ch = u)) (vals_of (tb_rows (dd_characters d))))"

definition HandleEnterRanchRandomly :: "lobby_env \<Rightarrow> client_id \<Rightarrow> unit lobby_act" where
  "HandleEnterRanchRandomly env c =
     seq (authenticated c) (\<lambda>ctx.
     seq (update_client c (\<lambda>x. x\<lparr>lc_rancherVisitPreference := InvalidUid\<rparr>)) (\<lambda>_.
     if lc_rancherVisitPreference ctx \<noteq> InvalidUid then SendEnterRanchOK env c (lc_rancherVisitPreference ctx)
     else seq get_state (\<lambda>s.
       let us = available_ranches (lc_characterUid ctx) (lo_data s); us = (if us = [] then [lc_characterUid ctx] else us) in
       SendEnterRanchOK env c (us ! (lv_pick env mod length us)))))"

definition HandleSetIntroduction :: "client_id \<Rightarrow> bytes \<Rightarrow> unit lobby_act" where
  "HandleSetIntroduction c introduction =
     seq (authenticated c) (\<lambda>ctx.
     seq (change_character_info (lc_characterUid ctx) (\<lambda>ch. ch\<lparr>ci_introduction := introduction\<rparr>)) (\<lambda>_.
     call_out (Ranch_BroadcastSetIntroductionNotify (lc_characterUid ctx) introduction)))"

definition HandleChangeRanchOption :: "client_id \<Rightarrow> AcCmdCLChangeRanchOption \<Rightarrow> unit lobby_act" where
  "HandleChangeRanchOption c command =
     seq (authenticated c) (\<lambda>ctx.
     seq (change_character_info (lc_characterUid ctx) (\<lambda>ch. ch\<lparr>ci_isRanchLocked := \<not> ci_isRanchLocked ch\<rparr>)) (\<lambda>_.
     send_lobby c (LO_ChangeRanchOptionOK (AcCmdCLChangeRanchOptionOK (AcCmdCLChangeRanchOption_unk0 command)
       (AcCmdCLChangeRanchOption_unk1 command) (AcCmdCLChangeRanchOption_unk2 command)))))"

section \<open>The messenger, the queue, the clock, the content\<close>

definition HandleGetMessengerInfo :: "lobby_env \<Rightarrow> client_id \<Rightarrow> unit lobby_act" where
  "HandleGetMessengerInfo env c =
     seq (authenticated c) (\<lambda>ctx.
     if \<not> lv_messengerEnabled env then send_lobby c (LO_GetMessengerInfoCancel ())
     else seq (grant_code env (lv_hash env (lc_characterUid ctx) MessengerOtpConstant)) (\<lambda>code.
       send_lobby c (LO_GetMessengerInfoOK (AcCmdCLGetMessengerInfoOK code (htonl (fst (lv_messenger env))) (snd (lv_messenger env))))))"

definition HandleCheckWaitingSeqno :: "lobby_env \<Rightarrow> client_id \<Rightarrow> unit lobby_act" where
  "HandleCheckWaitingSeqno env c = queue_task env (Task_SendWaitingSeqno c)"

definition SendWaitingSeqno :: "client_id \<Rightarrow> nat \<Rightarrow> unit lobby_act" where
  "SendWaitingSeqno c queuePosition = send_lobby c (LO_CheckWaitingSeqnoOK (AcCmdCLCheckWaitingSeqnoOK 0 (of_nat queuePosition)))"

definition HandleUpdateSystemContent :: "client_id \<Rightarrow> u32 \<Rightarrow> u32 \<Rightarrow> unit lobby_act" where
  "HandleUpdateSystemContent c k v =
     seq (authenticated c) (\<lambda>ctx.
     seq (view_character (lc_characterUid ctx)) (\<lambda>ch.
     if ci_role ch = Role_User then pure ()
     else seq (modify (\<lambda>s. s\<lparr>lo_content := umap_put k v (lo_content s)\<rparr>)) (\<lambda>_.
       seq get_state (\<lambda>s.
       for_each (keys_of (lo_clients s)) (\<lambda>other.
         send_lobby other (LO_UpdateSystemContent (AcCmdLCUpdateSystemContent (LobbyCommandLoginOK_SystemContent [(k, v)]))))))))"

definition HandleQueryServerTime :: "lobby_env \<Rightarrow> client_id \<Rightarrow> unit lobby_act" where
  "HandleQueryServerTime env c = send_lobby c (LO_QueryServerTimeOK (AcCmdCLQueryServerTimeOK (TimePointToFileTime (lv_now env))))"

definition protocol_mount_info :: "uid \<Rightarrow> mount_info \<Rightarrow> AcCmdCLRequestMountInfoOK_MountInfo" where
  "protocol_mount_info u m = (let cut = (\<lambda>w :: u32. ucast (ucast w :: u16) :: u32) in
     AcCmdCLRequestMountInfoOK_MountInfo u (ucast (mi_boostsInARow m)) (ucast (mi_winsSpeedSingle m)) (ucast (mi_winsSpeedTeam m))
       (ucast (mi_winsMagicSingle m)) (ucast (mi_winsMagicTeam m)) (cut (mi_totalDistance m)) (cut (mi_topSpeed m))
       (cut (mi_longestGlideDistance m)) (cut (mi_participated m)) (cut (mi_cumulativePrize m)) (cut (mi_biggestPrize m)))"

fun mount_infos :: "data_director \<Rightarrow> uid list \<Rightarrow> exn + AcCmdCLRequestMountInfoOK_MountInfo list" where
  "mount_infos d [] = Inr []"
| "mount_infos d (u # us) = (case get_row (dd_horses d) u of
     None \<Rightarrow> Inl unavailable
   | Some h \<Rightarrow> bnd (mount_infos d us) (\<lambda>ms. Inr (protocol_mount_info u (hi_mountInfo h) # ms)))"

definition HandleRequestMountInfo :: "client_id \<Rightarrow> uid \<Rightarrow> unit lobby_act" where
  "HandleRequestMountInfo c characterUid =
     seq (authenticated c) (\<lambda>ctx.
     seq (view_character (lc_characterUid ctx)) (\<lambda>ch.
     seq get_state (\<lambda>s.
     seq (lift (mount_infos (lo_data s) (ci_horses ch @ (if ci_mountUid ch \<noteq> InvalidUid then [ci_mountUid ch] else [])))) (\<lambda>ms.
     send_lobby c (LO_RequestMountInfoOK (AcCmdCLRequestMountInfoOK characterUid ms))))))"

definition HandleInquiryTreecash :: "client_id \<Rightarrow> unit lobby_act" where
  "HandleInquiryTreecash c =
     seq (authenticated c) (\<lambda>ctx.
     seq (view_character (lc_characterUid ctx)) (\<lambda>ch.
     send_lobby c (LO_InquiryTreecashOK (LobbyCommandInquiryTreecashOK (ci_cash ch)))))"

section \<open>Guild invitations\<close>

definition invites_of :: "uid \<Rightarrow> lobby \<Rightarrow> uid list" where
  "invites_of g s = (case map_of (lo_guilds s) g of None \<Rightarrow> [] | Some us \<Rightarrow> us)"

definition InviteCharacterToGuild :: "uid \<Rightarrow> uid \<Rightarrow> uid \<Rightarrow> unit lobby_act" where
  "InviteCharacterToGuild inviteeCharacterUid guildUid inviterCharacterUid =
     seq (modify (\<lambda>s. s\<lparr>lo_guilds := umap_put guildUid (invites_of guildUid s @ [inviteeCharacterUid]) (lo_guilds s)\<rparr>)) (\<lambda>_.
     SendCharacterGuildInvitation inviteeCharacterUid guildUid inviterCharacterUid)"

definition in_guild :: "guild \<Rightarrow> uid \<Rightarrow> bool" where
  "in_guild g u \<longleftrightarrow> u \<in> set (gu_members g) \<or> u \<in> set (gu_officers g) \<or> gu_owner g = u"

definition HandleAcceptInviteToGuild :: "client_id \<Rightarrow> uid \<Rightarrow> uid \<Rightarrow> unit lobby_act" where
  "HandleAcceptInviteToGuild c guildUid commandCharacterUid =
     seq (authenticated c) (\<lambda>ctx.
     seq get_state (\<lambda>s.
     let u = lc_characterUid ctx; invites = invites_of guildUid s in
     seq (modify (\<lambda>s. s\<lparr>lo_guilds := umap_put guildUid (remove1 u invites) (lo_guilds s)\<rparr>)) (\<lambda>_.
     if u \<notin> set invites then pure ()
     else seq (view_character u) (\<lambda>ch.
       seq (change_character_info u (\<lambda>ch. ch\<lparr>ci_guildUid := guildUid\<rparr>)) (\<lambda>_.
       seq (on_records (view_row dd_guilds guildUid)) (\<lambda>g.
       if in_guild g commandCharacterUid then pure ()
       else seq (on_records (change_row dd_guilds dd_guilds_update guildUid
             (\<lambda>g. g\<lparr>gu_members := gu_members g @ [commandCharacterUid]\<rparr>))) (\<lambda>_.
         call_out (Ranch_SendGuildInviteAccepted guildUid commandCharacterUid (ci_name ch)))))))))"

definition HandleDeclineInviteToGuild :: "AcCmdLCInviteGuildJoinCancel \<Rightarrow> unit lobby_act" where
  "HandleDeclineInviteToGuild command = call_out (Ranch_SendGuildInviteDeclined
     (AcCmdLCInviteGuildJoinCancel_characterUid command) (AcCmdLCInviteGuildJoinCancel_inviterCharacterUid command)
     (AcCmdLCInviteGuildJoinCancel_inviterCharacterName command) (wgu_uid (AcCmdLCInviteGuildJoinCancel_guild command)))"

section \<open>Quests\<close>

definition idle_quest :: wire_quest where "idle_quest = new_wire_quest\<lparr>wq_status := 2\<rparr>"

definition daily_done :: "lobby_env \<Rightarrow> daily_quest_entry \<Rightarrow> bool" where
  "daily_done env q = (case map_of (lv_quests env) (ucast (dqe_questId q)) of
     None \<Rightarrow> False | Some t \<Rightarrow> qi_successValue t > 0 \<and> dqe_progress q \<ge> qi_successValue t)"

definition daily_lists :: "lobby_env \<Rightarrow> daily_quest_group \<Rightarrow> wire_quest list \<times> wire_daily_quest list" where
  "daily_lists env g =
     (let repeatableTids = sort (map ucast (lv_repeatableQuests env) :: u16 list);
          assigned = filter (\<lambda>(i, q). dqe_questId q \<noteq> 0) (zip [0 ..< 3] (dq_quests g));
          unk = fold (\<lambda>(i, q) l. l[i + 2 := \<lparr>wq_tid = dqe_questId q, wq_member0 = 0,
            wq_status = (if daily_done env q then 1 else 0), wq_progress = dqe_progress q, wq_member3 = 0, wq_member4 = 0\<rparr>])
            assigned (replicate 10 idle_quest);
          daily = fold (\<lambda>(i, q) l. l[i := \<lparr>wdq_questId = dqe_questId q, wdq_progress = dqe_progress q,
            wdq_rewardType = dq_rewardType g, wdq_rewardId = dq_rewardId g\<rparr>]) assigned (replicate 3 new_wire_daily_quest);
          unk = (if length repeatableTids \<ge> 1 then unk[0 := new_wire_quest\<lparr>wq_tid := repeatableTids ! 0,
            wq_status := (if dq_carrotsClaimed g then 1 else 0)\<rparr>] else unk);
          unk = (if assigned \<noteq> [] \<and> length repeatableTids \<ge> 2 then unk[1 := new_wire_quest\<lparr>wq_tid := repeatableTids ! 1\<rparr>] else unk)
      in (unk, daily))"

definition HandleRequestDailyQuestList :: "lobby_env \<Rightarrow> client_id \<Rightarrow> unit lobby_act" where
  "HandleRequestDailyQuestList env c =
     seq (authenticated c) (\<lambda>ctx.
     seq (view_character (lc_characterUid ctx)) (\<lambda>ch.
     seq get_state (\<lambda>s.
     let (unk, daily) = (case get_row (dd_dailyQuestGroups (lo_data s)) (ci_dailyQuestGroupUid ch) of
       None \<Rightarrow> (replicate 10 idle_quest, replicate 3 new_wire_daily_quest) | Some g \<Rightarrow> daily_lists env g) in
     send_lobby c (LO_RequestDailyQuestListOK (AcCmdCLRequestDailyQuestListOK (ci_uid ch) unk daily)))))"

definition HandleRequestLeagueInfo :: "client_id \<Rightarrow> unit lobby_act" where
  "HandleRequestLeagueInfo c =
     send_lobby c (LO_RequestLeagueInfoOK (AcCmdCLRequestLeagueInfoOK 0 0 0 0 0 0 0 0 0 0 0 0 0 0))"

definition HandleRequestQuestList :: "client_id \<Rightarrow> unit lobby_act" where
  "HandleRequestQuestList c =
     seq (authenticated c) (\<lambda>ctx.
     seq (view_character (lc_characterUid ctx)) (\<lambda>ch.
     seq get_state (\<lambda>s.
     send_lobby c (LO_RequestQuestListOK (AcCmdCLRequestQuestListOK (ci_uid ch)
       (case get_rows (dd_quests (lo_data s)) (ci_quests ch) of None \<Rightarrow> [] | Some qs \<Rightarrow> BuildProtocolQuests qs))))))"

definition HandleRequestSpecialEventList :: "client_id \<Rightarrow> unit lobby_act" where
  "HandleRequestSpecialEventList c =
     seq (authenticated c) (\<lambda>_.
     send_lobby c (LO_RequestSpecialEventListOK (AcCmdCLRequestSpecialEventListOK 0 [] [])))"

end
