(* ===== verification/Lobby_Login.thy ===== *)
theory Lobby_Login imports Lobby_Account begin

text \<open>
  \<open>server/lobby/LobbyDirector.cpp\<close>: the queues of the logins, the users that are online and the tick of the lobby.

  \<^item> \<open>Lobby_Tick\<close> is one tick: the first login response, the first login request, the verdicts of the authentication, one
    job of the scheduler. What throws ends the tick.
  \<^item> \<open>lobby_step\<close> is what may happen between two states: commands of clients, connections, ticks, and what other threads
    do to the records.
\<close>

section \<open>Users\<close>

definition login_of :: "client_id \<Rightarrow> lobby \<Rightarrow> queued_login" where
  "login_of c s = (case map_of (lo_logins s) c of None \<Rightarrow> new_login | Some l \<Rightarrow> l)"

definition put_login :: "client_id \<Rightarrow> queued_login \<Rightarrow> lobby \<Rightarrow> lobby" where
  "put_login c l s = s\<lparr>lo_logins := umap_put c l (lo_logins s)\<rparr>"

definition QueueClientConnect :: "client_id \<Rightarrow> lobby \<Rightarrow> bool \<times> lobby" where
  "QueueClientConnect c s = (if has_key (lo_logins s) c then (False, s) else (True, put_login c new_login s))"

definition QueueClientLogin :: "client_id \<Rightarrow> bytes \<Rightarrow> bytes \<Rightarrow> lobby \<Rightarrow> nat \<times> lobby" where
  "QueueClientLogin c userName userToken s = (case map_of (lo_logins s) c of
     None \<Rightarrow> (99, s)
   | Some l \<Rightarrow>
       let s = put_login c (l\<lparr>ql_userName := userName, ql_userToken := userToken\<rparr>) s;
           s = s\<lparr>lo_requests := lo_requests s @ [c]\<rparr>
       in (length (lo_requests s) + length (lo_responses s), s))"

fun position_in :: "'a \<Rightarrow> 'a list \<Rightarrow> nat option" where
  "position_in x [] = None"
| "position_in x (y # ys) = (if y = x then Some 0 else map_option Suc (position_in x ys))"

definition GetClientQueuePosition :: "client_id \<Rightarrow> lobby \<Rightarrow> nat" where
  "GetClientQueuePosition c s =
     (case position_in c (lo_responses s) of None \<Rightarrow> 0 | Some i \<Rightarrow> i)
     + (case position_in c (lo_requests s) of None \<Rightarrow> 0 | Some i \<Rightarrow> i)"

definition QueueClientDisconnect :: "client_id \<Rightarrow> lobby \<Rightarrow> lobby" where
  "QueueClientDisconnect c s = s\<lparr>lo_requests := filter (\<lambda>d. d \<noteq> c) (lo_requests s),
     lo_responses := filter (\<lambda>d. d \<noteq> c) (lo_responses s), lo_logins := umap_erase c (lo_logins s)\<rparr>"

definition QueueClientLogout :: "lobby_env \<Rightarrow> bytes \<Rightarrow> lobby \<Rightarrow> lobby" where
  "QueueClientLogout env userName s =
     (let s = snd (change_user userName (\<lambda>u. u\<lparr>us_lastSeenOnline := lv_now env\<rparr>) s) in
      s\<lparr>lo_users := umap_erase userName (lo_users s)\<rparr>)"

definition IsUserOnline :: "bytes \<Rightarrow> lobby \<Rightarrow> bool" where
  "IsUserOnline userName s \<longleftrightarrow> has_key (lo_users s) userName"

definition GetLobbyUser :: "bytes \<Rightarrow> user_instance lobby_act" where
  "GetLobbyUser userName s = (case map_of (lo_users s) userName of
     None \<Rightarrow> throw ''User instance not available'' s | Some u \<Rightarrow> (Inr u, s))"

definition update_user :: "bytes \<Rightarrow> (user_instance \<Rightarrow> user_instance) \<Rightarrow> lobby \<Rightarrow> lobby" where
  "update_user userName f s = (case map_of (lo_users s) userName of
     None \<Rightarrow> s | Some u \<Rightarrow> s\<lparr>lo_users := umap_put userName (f u) (lo_users s)\<rparr>)"

definition SetUserRoom :: "bytes \<Rightarrow> uid \<Rightarrow> lobby \<Rightarrow> lobby" where
  "SetUserRoom userName roomUid = update_user userName (\<lambda>u. u\<lparr>ui_roomUid := roomUid\<rparr>)"

definition SetCharacterForcedIntoCreator :: "uid \<Rightarrow> bool \<Rightarrow> lobby \<Rightarrow> lobby" where
  "SetCharacterForcedIntoCreator u forced s =
     s\<lparr>lo_forced := (if forced then uset_insert u (lo_forced s) else uset_erase u (lo_forced s))\<rparr>"

definition IsCharacterForcedIntoCreator :: "uid \<Rightarrow> lobby \<Rightarrow> bool" where
  "IsCharacterForcedIntoCreator u s \<longleftrightarrow> u \<in> set (lo_forced s)"

section \<open>The login queues\<close>

abbreviation (input) Reason_Generic :: u8 where "Reason_Generic \<equiv> 0"
abbreviation (input) Reason_InvalidUser :: u8 where "Reason_InvalidUser \<equiv> 1"
abbreviation (input) Reason_Duplicated :: u8 where "Reason_Duplicated \<equiv> 2"
abbreviation (input) Reason_DisconnectYourself :: u8 where "Reason_DisconnectYourself \<equiv> 6"

definition pop_request :: "lobby \<Rightarrow> lobby" where
  "pop_request s = s\<lparr>lo_requests := tl (lo_requests s)\<rparr>"

definition pop_response :: "lobby \<Rightarrow> lobby" where
  "pop_response s = s\<lparr>lo_responses := tl (lo_responses s)\<rparr>"

definition ProcessLoginRequest :: "lobby_env \<Rightarrow> unit lobby_act" where
  "ProcessLoginRequest env s =
     (let c = hd (lo_requests s); l = login_of c s; s = put_login c l s in
      if \<not> ql_userAuthenticationRequested l then
        (Inr (), put_login c (l\<lparr>ql_userAuthenticationRequested := True\<rparr>)
          (s\<lparr>lo_auth := QueueAuthentication (ql_userName l) (ql_userToken l) (lo_auth s)\<rparr>))
      else case ql_isAuthenticated l of
          None \<Rightarrow> (Inr (), s)
        | Some False \<Rightarrow> seq (RejectLogin c Reason_InvalidUser) (\<lambda>_. modify pop_request) s
        | Some True \<Rightarrow>
            if \<not> ql_userLoadRequested l then
              (Inr (), put_login c (l\<lparr>ql_userLoadRequested := True\<rparr>) (RequestLoadUserData (ql_userName l) s))
            else if AreDataBeingLoaded (ql_userName l) s then (Inr (), s)
            else let s = pop_request s in
              if \<not> AreUserDataLoaded (ql_userName l) s then RejectLogin c Reason_Generic s
              else seq (lift (CheckOutstandingPunishments (lv_now env) (ql_userName l) (lo_data s))) (\<lambda>v.
                if pv_preventServerJoining v then RejectLogin c Reason_DisconnectYourself
                else modify (\<lambda>s. s\<lparr>lo_responses := lo_responses s @ [c]\<rparr>)) s)"

text \<open>The address of the client is only asked for the log, but it throws if the client is gone.\<close>

definition GetClientAddress :: "client_id \<Rightarrow> unit lobby_act" where
  "GetClientAddress c s = (if has_key (lo_clients s) c then (Inr (), s) else throw ''Invalid client'' s)"

definition admit_user :: "lobby_env \<Rightarrow> client_id \<Rightarrow> bytes \<Rightarrow> uid \<Rightarrow> unit lobby_act" where
  "admit_user env c userName characterUid =
     seq (modify (\<lambda>s. s\<lparr>lo_users := umap_put userName new_user (lo_users s)\<rparr>)) (\<lambda>_.
     seq get_state (\<lambda>s.
     let requiresCharacterCreator = (characterUid \<in> set (lo_forced s) \<or> characterUid = InvalidUid) in
     seq (modify (\<lambda>s. s\<lparr>lo_forced := uset_erase characterUid (lo_forced s)\<rparr>)) (\<lambda>_.
     seq (AcceptLogin env c requiresCharacterCreator) (\<lambda>_.
     seq (modify (update_user userName (\<lambda>u. u\<lparr>ui_userName := userName, ui_characterUid := characterUid\<rparr>))) (\<lambda>_.
     seq (GetClientAddress c) (\<lambda>_.
     seq (change_user userName (\<lambda>u. u\<lparr>us_lastSeenOnline := seconds 1\<rparr>)) (\<lambda>_.
     modify (\<lambda>s. s\<lparr>lo_logins := umap_erase c (lo_logins s)\<rparr>))))))))"

definition ProcesLoginResponse :: "lobby_env \<Rightarrow> unit lobby_act" where
  "ProcesLoginResponse env s =
     (let c = hd (lo_responses s); l = login_of c s; s = put_login c l s; userName = ql_userName l in
      if ql_userCharacterLoadRequested l \<and> AreDataBeingLoaded userName s then (Inr (), s)
      else seq (view_user userName) (\<lambda>user.
        if us_characterUid user \<noteq> InvalidUid \<and> \<not> ql_userCharacterLoadRequested l then
          modify (\<lambda>s. put_login c (l\<lparr>ql_userCharacterLoadRequested := True\<rparr>) (RequestLoadCharacterData userName s))
        else seq (modify pop_response) (\<lambda>_. seq get_state (\<lambda>s.
          if us_characterUid user \<noteq> InvalidUid \<and> \<not> AreCharacterDataLoaded userName s then RejectLogin c Reason_Generic
          else if has_key (lo_users s) userName then RejectLogin c Reason_Duplicated
          else admit_user env c userName (us_characterUid user)))) s)"

section \<open>The tick\<close>

definition apply_verdicts :: "(bytes \<times> bool) list \<Rightarrow> queued_login \<Rightarrow> queued_login" where
  "apply_verdicts vs l = fold (\<lambda>(name, b) l. if name = ql_userName l then l\<lparr>ql_isAuthenticated := Some b\<rparr> else l) vs l"

definition take_verdicts :: "lobby \<Rightarrow> lobby" where
  "take_verdicts s = (case PollAuthenticationVerdicts (lo_auth s) of (vs, a) \<Rightarrow>
     s\<lparr>lo_auth := a, lo_logins := map (\<lambda>(c, l). (c, apply_verdicts vs l)) (lo_logins s)\<rparr>)"

fun lobby_task_run :: "lobby_env \<Rightarrow> lobby_task \<Rightarrow> unit lobby_act" where
  "lobby_task_run env (Task_Connect c) = modify (\<lambda>s. snd (QueueClientConnect c s))"
| "lobby_task_run env (Task_Disconnect isAuthenticated c userName) =
     modify (\<lambda>s. QueueClientDisconnect c (if isAuthenticated then QueueClientLogout env userName s else s))"
| "lobby_task_run env (Task_Login c userName userToken) = modify (\<lambda>s. snd (QueueClientLogin c userName userToken s))"
| "lobby_task_run env (Task_SetUserRoom userName roomUid) = modify (SetUserRoom userName roomUid)"
| "lobby_task_run env (Task_RoomEntered userName characterUid roomUid) =
     (\<lambda>s. case GetRoom roomUid (\<lambda>r. case DequeuePlayer characterUid r of (b, r) \<Rightarrow> (Inr (\<not> b), r)) (lo_rooms s) of
        (Inl e, rs) \<Rightarrow> (Inr (), s)
      | (Inr hasEnteredRaceRoom, rs) \<Rightarrow>
          (Inr (), (if hasEnteredRaceRoom then SetUserRoom userName roomUid else id) (s\<lparr>lo_rooms := rs\<rparr>)))"
| "lobby_task_run env (Task_SetCharacter userName characterUid) =
     seq (GetLobbyUser userName) (\<lambda>_. modify (update_user userName (\<lambda>u. u\<lparr>ui_characterUid := characterUid\<rparr>)))"
| "lobby_task_run env (Task_SendWaitingSeqno c) =
     seq get_state (\<lambda>s. SendWaitingSeqno c (GetClientQueuePosition c s))"

text \<open>No task queues another.\<close>

definition lobby_exec :: "lobby_env \<Rightarrow> (lobby_task, lobby) exec" where
  "lobby_exec env task s = (case lobby_task_run env task s of
     (Inl e, s) \<Rightarrow> ([], s, Some (what e)) | (Inr _, s) \<Rightarrow> ([], s, None))"

definition run_jobs :: "lobby_env \<Rightarrow> unit lobby_act" where
  "run_jobs env s = (case Scheduler_Tick (lobby_exec env) (lv_steady env) (lo_jobs s) s of
     (r, jobs, s) \<Rightarrow> (r, s\<lparr>lo_jobs := jobs\<rparr>))"

definition Lobby_Tick :: "lobby_env \<Rightarrow> unit lobby_act" where
  "Lobby_Tick env =
     seq (\<lambda>s. if lo_responses s = [] then (Inr (), s) else ProcesLoginResponse env s) (\<lambda>_.
     seq (\<lambda>s. if lo_requests s = [] then (Inr (), s) else ProcessLoginRequest env s) (\<lambda>_.
     seq (modify (\<lambda>s. if au_verdicts (lo_auth s) = [] then s else take_verdicts s)) (\<lambda>_.
     run_jobs env)))"

end
