(* ===== verification/Lobby_Run.thy ===== *)
theory Lobby_Run imports Lobby_Login begin

text \<open>
  The lobby as a whole: the commands it has handlers for, the events that drive it, and runs of events. An
  exception of a handler ends the handler; the command server and the loop of the director catch it.
\<close>

section \<open>Commands and events\<close>

datatype (plugins only: code) lobby_command =
    C_Login bytes bytes
  | C_RoomList AcCmdCLRoomList
  | C_Heartbeat
  | C_MakeRoom AcCmdCLMakeRoom
  | C_EnterRoom AcCmdCLEnterRoom
  | C_LeaveRoom
  | C_EnterChannel AcCmdCLEnterChannel
  | C_LeaveChannel
  | C_CreateNickname AcCmdCLCreateNickname
  | C_ShowInventory
  | C_UpdateUserSettings AcCmdCLUpdateUserSettings
  | C_EnterRoomQuick AcCmdCLEnterRoomQuick
  | C_GoodsShopList
  | C_AchievementCompleteList
  | C_RequestPersonalInfo AcCmdCLRequestPersonalInfo
  | C_EnterRanch uid
  | C_EnterRanchRandomly
  | C_FeatureCommand bytes
  | C_RequestFestivalResult
  | C_SetIntroduction bytes
  | C_GetMessengerInfo
  | C_CheckWaitingSeqno
  | C_UpdateSystemContent u32 u32
  | C_EnterRoomQuickStop
  | C_RequestFestivalPrize
  | C_QueryServerTime
  | C_RequestMountInfo uid
  | C_InquiryTreecash
  | C_InviteGuildJoinOK uid uid
  | C_InviteGuildJoinCancel AcCmdLCInviteGuildJoinCancel
  | C_ClientNotify u16 u32
  | C_ChangeRanchOption AcCmdCLChangeRanchOption
  | C_RequestDailyQuestList
  | C_RequestLeagueInfo
  | C_RequestQuestList
  | C_RequestSpecialEventList

fun lobby_command_run :: "lobby_env \<Rightarrow> client_id \<Rightarrow> lobby_command \<Rightarrow> unit lobby_act" where
  "lobby_command_run env c (C_Login loginId authKey) = HandleLogin env c loginId authKey"
| "lobby_command_run env c (C_RoomList m) = HandleRoomList c m"
| "lobby_command_run env c C_Heartbeat = HandleHeartbeat env c"
| "lobby_command_run env c (C_MakeRoom m) = HandleMakeRoom env c m"
| "lobby_command_run env c (C_EnterRoom m) = Lobby_HandleEnterRoom env c m"
| "lobby_command_run env c C_LeaveRoom = Lobby_HandleLeaveRoom env c"
| "lobby_command_run env c (C_EnterChannel m) = HandleEnterChannel c m"
| "lobby_command_run env c C_LeaveChannel = HandleLeaveChannel c"
| "lobby_command_run env c (C_CreateNickname m) = HandleCreateNickname env c m"
| "lobby_command_run env c C_ShowInventory = HandleShowInventory c"
| "lobby_command_run env c (C_UpdateUserSettings m) = HandleUpdateUserSettings c m"
| "lobby_command_run env c (C_EnterRoomQuick m) = HandleEnterRoomQuick env c m"
| "lobby_command_run env c C_GoodsShopList = HandleGoodsShopList env c"
| "lobby_command_run env c C_AchievementCompleteList = HandleAchievementCompleteList c"
| "lobby_command_run env c (C_RequestPersonalInfo m) = HandleRequestPersonalInfo c m"
| "lobby_command_run env c (C_EnterRanch u) = HandleEnterRanch env c u"
| "lobby_command_run env c C_EnterRanchRandomly = HandleEnterRanchRandomly env c"
| "lobby_command_run env c (C_FeatureCommand t) = pure ()"
| "lobby_command_run env c C_RequestFestivalResult = pure ()"
| "lobby_command_run env c (C_SetIntroduction t) = HandleSetIntroduction c t"
| "lobby_command_run env c C_GetMessengerInfo = HandleGetMessengerInfo env c"
| "lobby_command_run env c C_CheckWaitingSeqno = HandleCheckWaitingSeqno env c"
| "lobby_command_run env c (C_UpdateSystemContent k v) = HandleUpdateSystemContent c k v"
| "lobby_command_run env c C_EnterRoomQuickStop = HandleEnterRoomQuickStop c"
| "lobby_command_run env c C_RequestFestivalPrize = pure ()"
| "lobby_command_run env c C_QueryServerTime = HandleQueryServerTime env c"
| "lobby_command_run env c (C_RequestMountInfo u) = HandleRequestMountInfo c u"
| "lobby_command_run env c C_InquiryTreecash = HandleInquiryTreecash c"
| "lobby_command_run env c (C_InviteGuildJoinOK g u) = HandleAcceptInviteToGuild c g u"
| "lobby_command_run env c (C_InviteGuildJoinCancel m) = HandleDeclineInviteToGuild m"
| "lobby_command_run env c (C_ClientNotify a b) = pure ()"
| "lobby_command_run env c (C_ChangeRanchOption m) = HandleChangeRanchOption c m"
| "lobby_command_run env c C_RequestDailyQuestList = HandleRequestDailyQuestList env c"
| "lobby_command_run env c C_RequestLeagueInfo = HandleRequestLeagueInfo c"
| "lobby_command_run env c C_RequestQuestList = HandleRequestQuestList c"
| "lobby_command_run env c C_RequestSpecialEventList = HandleRequestSpecialEventList c"

text \<open>\<open>Ev_Records\<close> is what other threads do: the records become those given, and the load of a user ends, if it was being
  loaded, with or without success.\<close>

datatype lobby_event =
    Ev_Connected client_id
  | Ev_Disconnected client_id
  | Ev_NetworkTick
  | Ev_Command client_id lobby_command
  | Ev_Tick
  | Ev_AuthenticationTick
  | Ev_Matchmake uid mm_result
  | Ev_DisconnectCharacter uid
  | Ev_InviteToGuild uid uid uid
  | Ev_VisitPreference uid uid
  | Ev_Mute uid time_point
  | Ev_Notify uid bytes
  | Ev_AchievementReward uid
  | Ev_ForceCreator uid bool
  | Ev_Records bytes user_load data_director

fun lobby_event_run :: "lobby_env \<Rightarrow> lobby_event \<Rightarrow> unit lobby_act" where
  "lobby_event_run env (Ev_Connected c) = Lobby_HandleClientConnected env c"
| "lobby_event_run env (Ev_Disconnected c) = Lobby_HandleClientDisconnected env c"
| "lobby_event_run env Ev_NetworkTick = HandleNetworkTick env"
| "lobby_event_run env (Ev_Command c m) = lobby_command_run env c m"
| "lobby_event_run env Ev_Tick = Lobby_Tick env"
| "lobby_event_run env Ev_AuthenticationTick =
     modify (\<lambda>s. s\<lparr>lo_auth := AuthenticationService_Tick (lv_authenticate env) (lo_auth s)\<rparr>)"
| "lobby_event_run env (Ev_Matchmake u r) = NotifyMatchmakeResult env u r"
| "lobby_event_run env (Ev_DisconnectCharacter u) = DisconnectCharacter env u"
| "lobby_event_run env (Ev_InviteToGuild u g v) = InviteCharacterToGuild u g v"
| "lobby_event_run env (Ev_VisitPreference u v) = SetCharacterVisitPreference u v"
| "lobby_event_run env (Ev_Mute u t) = MuteCharacter u t"
| "lobby_event_run env (Ev_Notify u t) = NotifyCharacter u t"
| "lobby_event_run env (Ev_AchievementReward u) = NotifyAchievementReward u"
| "lobby_event_run env (Ev_ForceCreator u b) = modify (SetCharacterForcedIntoCreator u b)"
| "lobby_event_run env (Ev_Records name l d) =
     modify (\<lambda>s. s\<lparr>lo_data := d, lo_loads := (if AreDataBeingLoaded name s then umap_put name l (lo_loads s) else lo_loads s)\<rparr>)"

definition lobby_step :: "lobby_env \<times> lobby_event \<Rightarrow> lobby \<Rightarrow> lobby" where
  "lobby_step e s = snd (lobby_event_run (fst e) (snd e) s)"

definition lobby_run :: "(lobby_env \<times> lobby_event) list \<Rightarrow> lobby \<Rightarrow> lobby" where
  "lobby_run es s = fold lobby_step es s"

definition empty_lobby :: lobby where
  "empty_lobby = \<lparr>lo_clients = [], lo_logins = [], lo_requests = [], lo_responses = [], lo_users = [], lo_guilds = [],
     lo_forced = [], lo_jobs = new_scheduler, lo_auth = \<lparr>au_queue = [], au_verdicts = []\<rparr>, lo_loads = [],
     lo_data = empty_director, lo_rooms = \<lparr>rs_sequencedId = 0, rs_rooms = []\<rparr>, lo_otp = \<lparr>os_codes = [], os_ltks = []\<rparr>,
     lo_matchmaking = \<lparr>mm_queue = [], mm_results = []\<rparr>, lo_searches = new_scheduler, lo_content = [], lo_sent = [],
     lo_calls = []\<rparr>"

section \<open>What handlers leave alone\<close>

text \<open>The login queues, the users that are online and the authentication are touched by the tick only; handlers add
  jobs. \<open>login_part\<close> is what they leave.\<close>

definition login_part :: "lobby \<Rightarrow> (client_id, queued_login) umap \<times> client_id list \<times> client_id list \<times> (bytes, user_instance) umap
    \<times> authentication \<times> (bytes, user_load) umap" where
  "login_part s = (lo_logins s, lo_requests s, lo_responses s, lo_users s, lo_auth s, lo_loads s)"

text \<open>A handler changes no names and no authentication of contexts and adds jobs that are no
  logins; the users there are records of stay.\<close>

definition names_of :: "lobby \<Rightarrow> client_id \<Rightarrow> (bytes \<times> bool) option" where
  "names_of s c = map_option (\<lambda>x. (lc_userName x, lc_isAuthenticated x)) (map_of (lo_clients s) c)"

definition user_names :: "lobby \<Rightarrow> bytes set" where
  "user_names s = dom (map_of (dd_users (lo_data s)))"

lemma user_names_code [code]: "user_names s = fst ` set (dd_users (lo_data s))"
  by (simp add: user_names_def dom_map_of_conv_image_fst)

definition is_login_task :: "lobby_task \<Rightarrow> bool" where
  "is_login_task t = (case t of Task_Login c n k \<Rightarrow> True | _ \<Rightarrow> False)"

definition calm :: "lobby \<Rightarrow> lobby \<Rightarrow> bool" where
  "calm s s' \<longleftrightarrow> login_part s' = login_part s \<and> user_names s' = user_names s
     \<and> (\<forall>c x. names_of s' c = Some x \<longrightarrow> names_of s c = Some x)
     \<and> (\<exists>js. lo_jobs s' = (lo_jobs s)\<lparr>sch_jobs := sch_jobs (lo_jobs s) @ js\<rparr> \<and> (\<forall>j \<in> set js. \<not> is_login_task (job_task j)))"

definition quiet :: "'a lobby_act \<Rightarrow> bool" where
  "quiet m \<longleftrightarrow> (\<forall>s. calm s (snd (m s)))"

lemma calmI:
  assumes "login_part s' = login_part s" "user_names s' = user_names s" "lo_jobs s' = lo_jobs s"
    "\<And>c. names_of s' c = names_of s c"
  shows "calm s s'"
  using assms by (auto simp: calm_def intro!: exI [of _ "[]"])

lemma calm_refl [simp]: "calm s s"
  by (rule calmI) simp_all

lemma calm_trans:
  assumes "calm s t" "calm t u"
  shows "calm s u"
proof -
  obtain js where js: "lo_jobs t = (lo_jobs s)\<lparr>sch_jobs := sch_jobs (lo_jobs s) @ js\<rparr>" "\<forall>j \<in> set js. \<not> is_login_task (job_task j)"
    using assms(1) by (auto simp: calm_def)
  obtain ks where ks: "lo_jobs u = (lo_jobs t)\<lparr>sch_jobs := sch_jobs (lo_jobs t) @ ks\<rparr>" "\<forall>j \<in> set ks. \<not> is_login_task (job_task j)"
    using assms(2) by (auto simp: calm_def)
  have "lo_jobs u = (lo_jobs s)\<lparr>sch_jobs := sch_jobs (lo_jobs s) @ (js @ ks)\<rparr>" "\<forall>j \<in> set (js @ ks). \<not> is_login_task (job_task j)"
    using js ks by auto
  moreover have "\<forall>c x. names_of u c = Some x \<longrightarrow> names_of s c = Some x"
    using assms unfolding calm_def by blast
  ultimately show ?thesis using assms unfolding calm_def by metis
qed

named_theorems quiet_intros "actions that leave the logins alone"

lemma quietI: "(\<And>s. calm s (snd (m s))) \<Longrightarrow> quiet m"
  by (simp add: quiet_def)

lemma quiet_basic [quiet_intros]: "quiet (pure x)" "quiet (throw e)" "quiet (lift z)" "quiet get_state"
  by (simp_all add: quiet_def act_defs)

lemma quiet_seq [quiet_intros]:
  assumes "quiet m" "\<And>x. quiet (f x)"
  shows "quiet (seq m f)"
proof (rule quietI)
  fix s
  obtain r t where m: "m s = (r, t)" by fastforce
  then have 1: "calm s t" using assms(1) by (metis quiet_def snd_conv)
  show "calm s (snd (seq m f s))"
  proof (cases r)
    case (Inl e) then show ?thesis using 1 m by (simp add: seq_def)
  next
    case (Inr x)
    then have "calm t (snd (f x t))" using assms(2) by (simp add: quiet_def)
    then show ?thesis using 1 m Inr calm_trans by (simp add: seq_def)
  qed
qed

lemma quiet_if [quiet_intros]:
  "(b \<Longrightarrow> quiet m) \<Longrightarrow> (\<not> b \<Longrightarrow> quiet m') \<Longrightarrow> quiet (if b then m else m')"
  "(z = None \<Longrightarrow> quiet m) \<Longrightarrow> (\<And>x. z = Some x \<Longrightarrow> quiet (f x)) \<Longrightarrow> quiet (case z of None \<Rightarrow> m | Some x \<Rightarrow> f x)"
  "(\<And>a b. p = (a, b) \<Longrightarrow> quiet (g a b)) \<Longrightarrow> quiet (case p of (a, b) \<Rightarrow> g a b)"
  "quiet (h t) \<Longrightarrow> quiet (Let t h)"
  by (auto simp: Let_def split: option.splits prod.splits)

lemma quiet_for_each [quiet_intros]: "(\<And>x. quiet (f x)) \<Longrightarrow> quiet (for_each xs f)"
  by (induction xs) (auto intro: quiet_intros)

lemma quiet_try_catch [quiet_intros]: "quiet m \<Longrightarrow> quiet (try_catch m)"
  by (simp add: quiet_def try_catch_def)

lemma quiet_or_throw [quiet_intros]: "quiet m \<Longrightarrow> quiet (or_throw t m)"
  unfolding quiet_def or_throw_def by (auto split: prod.splits sum.splits) (metis snd_conv)+

lemma quiet_modify:
  assumes "\<And>s. login_part (f s) = login_part s" "\<And>s. user_names (f s) = user_names s" "\<And>s. lo_jobs (f s) = lo_jobs s"
    "\<And>s c. names_of (f s) c = names_of s c"
  shows "quiet (modify f)"
  using assms by (auto simp: quiet_def modify_def intro: calmI)

lemma quiet_access [quiet_intros]:
  "quiet (send_lobby c m)" "quiet (call_out x)" "quiet (grant_code env k)" "quiet (on_rooms r)" "quiet (view_user name)"
  "quiet (Lobby_GetClientContext c b)" "quiet (GetClientIdByUserName name b)" "quiet (Lobby_GetClientIdByCharacterUid u b)"
  "quiet (GetUserByCharacterUid u)" "quiet (GetLobbyUser name)" "quiet (GetClientAddress c)"
  unfolding send_lobby_def call_out_def
  by (rule quiet_modify; simp add: login_part_def user_names_def names_of_def)+
    (auto simp: quiet_def grant_code_def GrantCode_def on_rooms_def view_user_def Lobby_GetClientContext_def throw_def
      GetClientIdByUserName_def Lobby_GetClientIdByCharacterUid_def GetUserByCharacterUid_def GetLobbyUser_def GetClientAddress_def
      login_part_def user_names_def names_of_def split: option.splits prod.splits intro!: calmI)

lemma quiet_update_client [quiet_intros]:
  "(\<And>x. lc_userName (f x) = lc_userName x \<and> lc_isAuthenticated (f x) = lc_isAuthenticated x) \<Longrightarrow> quiet (update_client c f)"
  unfolding update_client_def
  by (rule quiet_modify) (auto simp: login_part_def user_names_def names_of_def split: option.splits)

lemma quiet_change_user [quiet_intros]: "quiet (change_user name f)"
  by (auto simp: quiet_def change_user_def login_part_def user_names_def names_of_def dom_def split: option.splits if_splits
      intro!: calmI)

lemma quiet_records [quiet_intros]:
  "(\<And>d. map_of (dd_users (snd (m d))) = map_of (dd_users d)) \<Longrightarrow> quiet (on_records m)"
  by (auto simp: quiet_def on_records_def login_part_def user_names_def names_of_def split: prod.splits intro!: calmI)
    (metis snd_conv)+

lemma quiet_queue_task [quiet_intros]: "\<not> is_login_task task \<Longrightarrow> quiet (queue_task_at t task)"
  by (auto simp: quiet_def queue_task_at_def modify_def calm_def login_part_def user_names_def names_of_def Scheduler_Queue_def)

lemma quiet_rows [quiet_intros]:
  "quiet (on_records (view_row sel u))"
  "(\<And>h d. dd_users (upd h d) = dd_users d) \<Longrightarrow> quiet (on_records (change_row sel upd u f))"
  "(\<And>h d. dd_users (upd h d) = dd_users d) \<Longrightarrow> quiet (on_records (fresh_row sel upd g))"
  by (rule quiet_records; simp add: view_row_def change_row_def fresh_row_def split: option.splits prod.splits)+

lemma promote_users: "dd_users (snd (promote_loop now us m d)) = dd_users d"
  by (induction us arbitrary: m d) (simp_all split: option.splits)

lemma quiet_promote [quiet_intros]: "quiet (on_records (\<lambda>d. (Inr (), snd (PromoteMaturedFoals now u d))))"
  by (rule quiet_records) (simp add: PromoteMaturedFoals_def promote_users split: option.splits)

lemma quiet_fields:
  "quiet (modify (\<lambda>s. s\<lparr>lo_content := f s\<rparr>))" "quiet (modify (\<lambda>s. s\<lparr>lo_guilds := g s\<rparr>))"
  "quiet (modify (SetCharacterForcedIntoCreator u b))"
  by (rule quiet_modify; simp add: login_part_def user_names_def names_of_def SetCharacterForcedIntoCreator_def)+

lemma quiet_rooms:
  "quiet (\<lambda>s. case GetRoom u r (lo_rooms s) of
     (Inl e, rs) \<Rightarrow> (Inr None, s\<lparr>lo_rooms := rs\<rparr>) | (Inr x, rs) \<Rightarrow> (Inr (Some x), s\<lparr>lo_rooms := rs\<rparr>))"
  "quiet (\<lambda>s. case Matchmaking_Queue now u g t (lo_matchmaking s) (lo_searches s) of
     (b, mm, sch) \<Rightarrow> (Inr b, s\<lparr>lo_matchmaking := mm, lo_searches := sch\<rparr>))"
  "quiet (\<lambda>s. case Matchmaking_Dequeue u (lo_matchmaking s) of (b, mm) \<Rightarrow> (Inr b, s\<lparr>lo_matchmaking := mm\<rparr>))"
  by (auto simp: quiet_def login_part_def user_names_def names_of_def split: prod.splits sum.splits intro!: calmI)

declare quiet_fields [quiet_intros] quiet_rooms [quiet_intros]

lemma quiet_leave: "quiet (modify (\<lambda>s. s\<lparr>lo_clients := umap_erase c (lo_clients s)\<rparr>))"
  by (auto simp: quiet_def modify_def calm_def login_part_def user_names_def names_of_def intro!: exI [of _ "[]"] split: if_splits)

lemma quiet_disconnect [quiet_intros]: "quiet (Lobby_HandleClientDisconnected env c)"
  unfolding Lobby_HandleClientDisconnected_def by (intro quiet_intros quiet_leave) (simp add: is_login_task_def)

lemma quiet_NetworkTick [quiet_intros]: "quiet (HandleNetworkTick env)"
  unfolding HandleNetworkTick_def by (intro quiet_intros)

lemma quiet_SendLoginOK [quiet_intros]: "quiet (SendLoginOK env c)"
  unfolding SendLoginOK_def by (intro quiet_intros) simp

lemma quiet_EnterRoom [quiet_intros]: "quiet (Lobby_HandleEnterRoom env c m)"
  unfolding Lobby_HandleEnterRoom_def by (intro quiet_intros) (simp add: is_login_task_def)

lemma quiet_EnterRanch [quiet_intros]: "quiet (SendEnterRanchOK env c u)"
  unfolding SendEnterRanchOK_def by (intro quiet_intros)

lemma quiet_CreateNickname [quiet_intros]: "quiet (HandleCreateNickname env c m)"
  unfolding HandleCreateNickname_def create_character_def SendCreateNicknameCancel_def
  by (intro quiet_intros) (simp_all add: is_login_task_def)

lemma quiet_others:
  "quiet (RejectLogin c reason)" "quiet (HandleRoomList c m1)" "quiet (HandleHeartbeat env c)" "quiet (HandleMakeRoom env c m2)"
  "quiet (Lobby_HandleLeaveRoom env c)" "quiet (HandleEnterChannel c m3)" "quiet (HandleLeaveChannel c)" "quiet (HandleShowInventory c)"
  "quiet (HandleUpdateUserSettings c m4)" "quiet (HandleEnterRoomQuick env c m5)" "quiet (HandleGoodsShopList env c)"
  "quiet (HandleAchievementCompleteList c)" "quiet (HandleRequestPersonalInfo c m6)" "quiet (HandleEnterRanch env c u)"
  "quiet (HandleEnterRanchRandomly env c)" "quiet (HandleSetIntroduction c t)" "quiet (HandleGetMessengerInfo env c)"
  unfolding RejectLogin_def SendLoginCancel_def HandleRoomList_def HandleHeartbeat_def HandleMakeRoom_def Lobby_HandleLeaveRoom_def
    HandleEnterChannel_def HandleLeaveChannel_def HandleShowInventory_def HandleUpdateUserSettings_def HandleEnterRoomQuick_def
    HandleGoodsShopList_def HandleAchievementCompleteList_def HandleRequestPersonalInfo_def HandleEnterRanch_def
    HandleEnterRanchRandomly_def HandleSetIntroduction_def HandleGetMessengerInfo_def
  by ((intro quiet_intros)?, (simp_all add: is_login_task_def)?; fail)+

lemma quiet_rest:
  "quiet (HandleCheckWaitingSeqno env c)" "quiet (HandleUpdateSystemContent c k v)" "quiet (HandleEnterRoomQuickStop c)"
  "quiet (HandleQueryServerTime env c)" "quiet (HandleRequestMountInfo c u)" "quiet (HandleInquiryTreecash c)"
  "quiet (HandleAcceptInviteToGuild c g u)" "quiet (HandleDeclineInviteToGuild m)" "quiet (HandleChangeRanchOption c m1)"
  "quiet (HandleRequestDailyQuestList env c)" "quiet (HandleRequestLeagueInfo c)" "quiet (HandleRequestQuestList c)"
  "quiet (HandleRequestSpecialEventList c)" "quiet (SendWaitingSeqno c i)"
  unfolding HandleCheckWaitingSeqno_def HandleUpdateSystemContent_def HandleEnterRoomQuickStop_def HandleQueryServerTime_def
    HandleRequestMountInfo_def HandleInquiryTreecash_def HandleAcceptInviteToGuild_def HandleDeclineInviteToGuild_def
    HandleChangeRanchOption_def HandleRequestDailyQuestList_def HandleRequestLeagueInfo_def HandleRequestQuestList_def
    HandleRequestSpecialEventList_def SendWaitingSeqno_def
  by ((intro quiet_intros)?, (simp_all add: is_login_task_def)?; fail)+

lemma quiet_calls:
  "quiet (SendCharacterGuildInvitation u g v)" "quiet (SetCharacterVisitPreference u v)" "quiet (MuteCharacter u t)"
  "quiet (NotifyCharacter u n)" "quiet (NotifyAchievementReward u)" "quiet (DisconnectCharacter env u)"
  "quiet (InviteCharacterToGuild u g v)"
  unfolding SendCharacterGuildInvitation_def SetCharacterVisitPreference_def MuteCharacter_def NotifyCharacter_def
    NotifyAchievementReward_def DisconnectCharacter_def InviteCharacterToGuild_def
  by ((intro quiet_intros)?, simp?; fail)+

lemma quiet_Matchmake [quiet_intros]: "quiet (NotifyMatchmakeResult env u r)"
  unfolding NotifyMatchmakeResult_def by (cases r) (auto intro: quiet_intros)

declare quiet_others [quiet_intros] quiet_rest [quiet_intros] quiet_calls [quiet_intros]

lemma quiet_command: "(\<And>n k. m \<noteq> C_Login n k) \<Longrightarrow> quiet (lobby_command_run env c m)"
  by (cases m) (auto intro: quiet_intros)

text \<open>The events after which the logins have to be looked at.\<close>

fun login_event :: "lobby_event \<Rightarrow> bool" where
  "login_event (Ev_Command c (C_Login n k)) = True"
| "login_event (Ev_Connected c) = True" | "login_event Ev_Tick = True" | "login_event Ev_AuthenticationTick = True" | "login_event (Ev_Records n l d) = True"
| "login_event e = False"

lemma quiet_event: "\<not> login_event e \<Longrightarrow> quiet (lobby_event_run env e)"
proof (cases e)
  case (Ev_Command c m)
  moreover assume "\<not> login_event e"
  ultimately have "\<And>n k. m \<noteq> C_Login n k" by auto
  then show ?thesis using Ev_Command by (simp add: quiet_command)
qed (auto intro: quiet_intros)

lemma login_of_put [simp]: "login_of c (put_login d l s) = (if c = d then l else login_of c s)"
  by (simp add: login_of_def put_login_def)

lemma login_of_same: "login_of d (put_login c (login_of c s) s) = login_of d s"
  by simp

lemma put_login_simps [simp]:
  "lo_responses (put_login c l s) = lo_responses s" "lo_requests (put_login c l s) = lo_requests s"
  "lo_users (put_login c l s) = lo_users s" "lo_jobs (put_login c l s) = lo_jobs s" "lo_data (put_login c l s) = lo_data s"
  "lo_auth (put_login c l s) = lo_auth s" "lo_loads (put_login c l s) = lo_loads s" "lo_clients (put_login c l s) = lo_clients s"
  "lo_forced (put_login c l s) = lo_forced s"
  by (simp_all add: put_login_def)

section \<open>Samples\<close>

definition lobby_env0 :: lobby_env where
  "lobby_env0 = \<lparr>lv_now = 0, lv_steady = 0, lv_draw = 0, lv_pick = 0, lv_hash = (\<lambda>u k. 0),
     lv_authenticate = (\<lambda>n k. Some (k = [1])), lv_isNameValid = (\<lambda>n. True), lv_isPrevented = (\<lambda>n. False),
     lv_isNameUnique = (\<lambda>n. True), lv_ranch = (0, 0), lv_race = (0, 0), lv_messenger = (0, 0), lv_messengerEnabled = False,
     lv_notice = [], lv_quests = [], lv_repeatableQuests = [], lv_shopList = [], lv_compress = id, lv_newShopTimestamp = 0\<rparr>"

abbreviation (input) "at_lobby es \<equiv> map (Pair lobby_env0) es"

definition sample_user :: "bytes \<Rightarrow> uid \<Rightarrow> user_record" where
  "sample_user n u = \<lparr>us_name = n, us_token = [], us_infractions = [], us_characterUid = u, us_lastSeenOnline = 0\<rparr>"

definition sample_records :: data_director where
  "sample_records = empty_director\<lparr>dd_users := [([97], sample_user [97] 3), ([98], sample_user [98] 4)]\<rparr>"

abbreviation (input) "user_loaded n \<equiv> Ev_Records n (no_load\<lparr>ul_isUserDataLoaded := True\<rparr>) sample_records"
abbreviation (input) "character_loaded n \<equiv>
  Ev_Records n (no_load\<lparr>ul_isUserDataLoaded := True, ul_isCharacterDataLoaded := True\<rparr>) sample_records"

text \<open>What a run of logins unfolds to.\<close>

lemmas login_runs = lobby_run_def lobby_step_def list.map append.simps fold_simps fst_conv snd_conv lobby_event_run.simps lobby_command_run.simps

end
