(* ===== verification/Lobby_Safety.thy ===== *)
theory Lobby_Safety imports Lobby_Run begin

text \<open>
  Whom the lobby lets in. If every client connects once and logs in once, which the network server and an honest client
  see to, nobody is online whose name was not presented with a token the backend accepts.
\<close>

section \<open>Runs\<close>

definition is_connection :: "client_id \<Rightarrow> lobby_event \<Rightarrow> bool" where
  "is_connection c e = (case e of Ev_Connected d \<Rightarrow> d = c | _ \<Rightarrow> False)"

definition is_login :: "client_id \<Rightarrow> lobby_event \<Rightarrow> bool" where
  "is_login c e = (case e of Ev_Command d (C_Login n k) \<Rightarrow> d = c | _ \<Rightarrow> False)"

definition connections :: "client_id \<Rightarrow> (lobby_env \<times> lobby_event) list \<Rightarrow> nat" where
  "connections c es = length (filter (\<lambda>e. is_connection c (snd e)) es)"

definition login_attempts :: "client_id \<Rightarrow> (lobby_env \<times> lobby_event) list \<Rightarrow> nat" where
  "login_attempts c es = length (filter (\<lambda>e. is_login c (snd e)) es)"

text \<open>A name was presented with a token, and the backend accepted a token the name was presented with.\<close>

definition presented :: "(lobby_env \<times> lobby_event) list \<Rightarrow> (bytes \<times> bytes) set" where
  "presented es = {(n, k). \<exists>env c. (env, Ev_Command c (C_Login n k)) \<in> set es}"

definition vouched :: "(lobby_env \<times> lobby_event) list \<Rightarrow> bytes \<Rightarrow> bool" where
  "vouched es n \<longleftrightarrow> (\<exists>k env. (n, k) \<in> presented es \<and> (env, Ev_AuthenticationTick) \<in> set es \<and> lv_authenticate env n k = Some True)"

section \<open>The invariant\<close>

definition login_of_task :: "client_id \<Rightarrow> lobby_task \<Rightarrow> (bytes \<times> bytes) list" where
  "login_of_task c t = (case t of Task_Login d n k \<Rightarrow> if d = c then [(n, k)] else [] | _ \<Rightarrow> [])"

definition pending_logins :: "client_id \<Rightarrow> lobby_task job list \<Rightarrow> (bytes \<times> bytes) list" where
  "pending_logins c js = concat (map (\<lambda>j. login_of_task c (job_task j)) js)"

type_synonym client_view = "queued_login \<times> (bytes \<times> bool) option \<times> (bytes \<times> bytes) list \<times> nat \<times> nat"

definition view_of :: "lobby \<Rightarrow> client_id \<Rightarrow> client_view" where
  "view_of s c = (login_of c s, names_of s c, pending_logins c (sch_jobs (lo_jobs s)),
     count_list (lo_requests s) c, count_list (lo_responses s) c)"

text \<open>What holds of a client that will log in \<open>a\<close> times and connect \<open>b\<close> times.\<close>

fun client_ok :: "(bytes \<times> bytes) set \<Rightarrow> (bytes \<Rightarrow> bool) \<Rightarrow> nat \<Rightarrow> nat \<Rightarrow> client_view \<Rightarrow> bool" where
  "client_ok P V a b (l, x, ts, q, r) \<longleftrightarrow>
     a + length ts + of_bool (ql_userName l \<noteq> []) \<le> 1 \<and> b \<le> 1
   \<and> (ql_userName l \<noteq> [] \<or> ts \<noteq> [] \<or> x \<noteq> None \<longrightarrow> b = 0)
   \<and> q + r \<le> of_bool (ql_userName l \<noteq> [])
   \<and> (ql_userName l = [] \<longrightarrow> ql_isAuthenticated l = None)
   \<and> (ql_userName l \<noteq> [] \<longrightarrow> (ql_userName l, ql_userToken l) \<in> P)
   \<and> (ql_isAuthenticated l = Some True \<or> 0 < r \<longrightarrow> V (ql_userName l))
   \<and> (\<forall>t \<in> set ts. fst t \<noteq> [] \<and> t \<in> P)
   \<and> (\<forall>n y. x = Some (n, y) \<longrightarrow> (ql_userName l \<noteq> [] \<longrightarrow> n = ql_userName l) \<and> (\<forall>t \<in> set ts. n = fst t) \<and> (y \<longrightarrow> V n \<and> a = 0))"

definition rest_ok :: "(bytes \<times> bytes) set \<Rightarrow> (bytes \<Rightarrow> bool) \<Rightarrow> lobby \<Rightarrow> bool" where
  "rest_ok P V s \<longleftrightarrow> (\<forall>x \<in> set (au_queue (lo_auth s)). fst x \<noteq> [] \<and> x \<in> P)
   \<and> (\<forall>x \<in> set (au_verdicts (lo_auth s)). fst x \<noteq> [] \<and> (snd x \<longrightarrow> V (fst x)))
   \<and> (\<forall>n \<in> set (keys_of (lo_users s)). V n)"

definition honest :: "(bytes \<times> bytes) set \<Rightarrow> (bytes \<Rightarrow> bool) \<Rightarrow> (client_id \<Rightarrow> nat) \<Rightarrow> (client_id \<Rightarrow> nat) \<Rightarrow> lobby \<Rightarrow> bool" where
  "honest P V a b s \<longleftrightarrow> (\<forall>c. client_ok P V (a c) (b c) (view_of s c)) \<and> rest_ok P V s"

lemma pending_logins_simps [simp]:
  "pending_logins c [] = []" "pending_logins c (js @ ks) = pending_logins c js @ pending_logins c ks"
  "pending_logins c (j # js) = login_of_task c (job_task j) @ pending_logins c js"
  by (simp_all add: pending_logins_def)

lemma pending_logins_quiet: "(\<forall>j \<in> set js. \<not> is_login_task (job_task j)) \<Longrightarrow> pending_logins c js = []"
  by (auto simp: pending_logins_def login_of_task_def is_login_task_def split: lobby_task.splits)

lemma client_ok_fewer:
  "client_ok P V a b (l, x, ts, q, r) \<Longrightarrow> a' \<le> a \<Longrightarrow> b' \<le> b \<Longrightarrow> q' \<le> q \<Longrightarrow> r' \<le> r \<Longrightarrow> x' = None \<or> x' = x \<Longrightarrow>
   client_ok P V a' b' (l, x', ts, q', r')"
  by auto

lemma client_ok_less: "client_ok P V a b v \<Longrightarrow> a' \<le> a \<Longrightarrow> b' \<le> b \<Longrightarrow> client_ok P V a' b' v"
  by (cases v) (auto intro: client_ok_fewer)

lemma client_ok_unlogged:
  assumes "client_ok P V a b (l, x, ts, q, r)" "0 < a \<or> ts \<noteq> []"
  shows "a + length ts = 1" "ql_userName l = []" "q = 0" "r = 0" "ql_isAuthenticated l = None"
  using assms by (cases "ql_userName l = []"; cases ts; auto)+

lemma client_ok_unconnected:
  assumes "client_ok P V a b (l, x, ts, q, r)" "0 < b"
  shows "b = 1" "ts = []" "ql_userName l = []" "q = 0" "r = 0" "x = None" "ql_isAuthenticated l = None"
  using assms by (cases "ql_userName l = []"; cases ts; cases x; auto)+

lemma client_ok_unlogged_view:
  assumes "client_ok P V a b (view_of s c)" "0 < a"
  shows "a = 1" "pending_logins c (sch_jobs (lo_jobs s)) = []" "ql_userName (login_of c s) = []" "count_list (lo_requests s) c = 0"
    "count_list (lo_responses s) c = 0" "ql_isAuthenticated (login_of c s) = None"
proof -
  note un = client_ok_unlogged [OF assms(1) [unfolded view_of_def] disjI1 [OF assms(2)]]
  then have "a = 1 \<and> length (pending_logins c (sch_jobs (lo_jobs s))) = 0" using assms(2) by linarith
  then show "a = 1" "pending_logins c (sch_jobs (lo_jobs s)) = []" by simp_all
qed (use client_ok_unlogged [OF assms(1) [unfolded view_of_def]] assms(2) in simp_all)

lemma honest_calm:
  assumes "honest P V a b s" "calm s s'"
  shows "honest P V a b s'"
proof -
  obtain js where js: "lo_jobs s' = (lo_jobs s)\<lparr>sch_jobs := sch_jobs (lo_jobs s) @ js\<rparr>" "\<forall>j \<in> set js. \<not> is_login_task (job_task j)"
    using assms(2) by (auto simp: calm_def)
  have same: "lo_logins s' = lo_logins s" "lo_requests s' = lo_requests s" "lo_responses s' = lo_responses s" "lo_users s' = lo_users s"
    "lo_auth s' = lo_auth s" using assms(2) by (auto simp: calm_def login_part_def)
  have "names_of s' c = None \<or> names_of s' c = names_of s c" for c
    using assms(2) by (cases "names_of s' c") (auto simp: calm_def)
  moreover have "pending_logins c (sch_jobs (lo_jobs s')) = pending_logins c (sch_jobs (lo_jobs s))" for c
    using js pending_logins_quiet [OF js(2)] by simp
  ultimately have "client_ok P V (a c) (b c) (view_of s' c)" for c
    using assms(1) same client_ok_fewer [of P V "a c" "b c" "login_of c s" "names_of s c"]
    unfolding honest_def view_of_def login_of_def by (metis order_refl)
  then show ?thesis using assms(1) same by (simp add: honest_def rest_ok_def)
qed

lemma honest_quiet: "quiet m \<Longrightarrow> preserves (honest P V a b) m"
  by (auto simp: preserves_def quiet_def intro: honest_calm)

lemma honest_fewer: "honest P V a b s \<Longrightarrow> (\<And>c. a' c \<le> a c \<and> b' c \<le> b c) \<Longrightarrow> honest P V a' b' s"
  unfolding honest_def by (blast intro: client_ok_less)

text \<open>If only one client changes, only it has to be looked at.\<close>

lemma honest_one:
  assumes "honest P V a b s" "\<And>d. d \<noteq> c \<Longrightarrow> view_of s' d = view_of s d" "\<And>d. d \<noteq> c \<Longrightarrow> a' d \<le> a d \<and> b' d \<le> b d"
    "client_ok P V (a' c) (b' c) (view_of s' c)" "rest_ok P V s'"
  shows "honest P V a' b' s'"
  unfolding honest_def
proof (intro conjI allI assms(5))
  fix d show "client_ok P V (a' d) (b' d) (view_of s' d)"
  proof (cases "d = c")
    case False
    then have "client_ok P V (a d) (b d) (view_of s' d)" using assms(1,2) by (simp add: honest_def)
    then show ?thesis using client_ok_less assms(3) [OF False] by blast
  qed (simp add: assms(4))
qed

lemma honest_view: "honest P V a b s \<Longrightarrow> view_of s' = view_of s \<Longrightarrow> rest_ok P V s' \<Longrightarrow> honest P V a b s'"
  by (simp add: honest_def)

section \<open>What clients do\<close>

lemma honest_Connected:
  assumes "honest P V a b s" "0 < b c"
  shows "honest P V a (b(c := b c - 1)) (snd (Lobby_HandleClientConnected env c s))"
proof (rule honest_one [OF assms(1), of c])
  have v: "client_ok P V (a c) (b c) (view_of s c)" using assms(1) by (simp add: honest_def)
  note un = client_ok_unconnected [OF v [unfolded view_of_def] assms(2)]
  show "client_ok P V (a c) ((b(c := b c - 1)) c) (view_of (snd (Lobby_HandleClientConnected env c s)) c)"
    using v un by (auto simp: view_of_def Lobby_HandleClientConnected_def act_defs queue_task_at_def names_of_def login_of_def new_lobby_client_def
        Scheduler_Queue_def login_of_task_def)
  show "rest_ok P V (snd (Lobby_HandleClientConnected env c s))" using assms(1)
    by (simp add: honest_def rest_ok_def Lobby_HandleClientConnected_def act_defs queue_task_at_def)
qed (auto simp: view_of_def Lobby_HandleClientConnected_def act_defs queue_task_at_def names_of_def login_of_def Scheduler_Queue_def
    login_of_task_def Let_def)

lemma HandleLogin_cases:
  "(\<exists>x. snd (HandleLogin env c n k s) = s\<lparr>lo_sent := x\<rparr>) \<or>
   n \<noteq> [] \<and> (\<exists>ctx. map_of (lo_clients s) c = Some ctx \<and> snd (HandleLogin env c n k s) =
      s\<lparr>lo_clients := umap_put c (ctx\<lparr>lc_userName := n\<rparr>) (lo_clients s),
        lo_jobs := Scheduler_Queue (Task_Login c n k) (lv_steady env) (lo_jobs s)\<rparr>)"
proof -
  have "\<exists>x. s = s\<lparr>lo_sent := x\<rparr>" by (rule exI [of _ "lo_sent s"]) simp
  then show ?thesis
    by (auto simp: HandleLogin_def act_defs SendLoginCancel_def send_lobby_def Lobby_GetClientContext_def update_client_def
        queue_task_at_def split: option.splits)
qed

lemma honest_Login:
  assumes "honest P V a b s" "0 < a c" "(n, k) \<in> P"
  shows "honest P V (a(c := a c - 1)) b (snd (HandleLogin env c n k s))"
  using HandleLogin_cases [of env c n k s]
proof (elim disjE exE conjE)
  fix x assume "snd (HandleLogin env c n k s) = s\<lparr>lo_sent := x\<rparr>"
  moreover have "honest P V (a(c := a c - 1)) b s" by (rule honest_fewer [OF assms(1)]) simp
  moreover have "view_of (s\<lparr>lo_sent := x\<rparr>) = view_of s" by (simp add: fun_eq_iff view_of_def names_of_def login_of_def)
  ultimately show ?thesis using honest_view by (simp add: honest_def rest_ok_def)
next
  fix ctx assume n: "n \<noteq> []" and ctx: "map_of (lo_clients s) c = Some ctx"
    and s': "snd (HandleLogin env c n k s) = s\<lparr>lo_clients := umap_put c (ctx\<lparr>lc_userName := n\<rparr>) (lo_clients s),
        lo_jobs := Scheduler_Queue (Task_Login c n k) (lv_steady env) (lo_jobs s)\<rparr>"
  have v: "client_ok P V (a c) (b c) (view_of s c)" using assms(1) by (simp add: honest_def)
  note un = client_ok_unlogged_view [OF v assms(2)]
  show ?thesis unfolding s'
  proof (rule honest_one [OF assms(1), of c])
    fix d assume "d \<noteq> c"
    then show "view_of (s\<lparr>lo_clients := umap_put c (ctx\<lparr>lc_userName := n\<rparr>) (lo_clients s),
        lo_jobs := Scheduler_Queue (Task_Login c n k) (lv_steady env) (lo_jobs s)\<rparr>) d = view_of s d"
      by (simp add: view_of_def names_of_def login_of_def Scheduler_Queue_def login_of_task_def)
  next
    have "names_of s c = Some (lc_userName ctx, lc_isAuthenticated ctx)" using ctx by (simp add: names_of_def)
    then have "\<not> lc_isAuthenticated ctx" "b c = 0" using v un by (auto simp: view_of_def)
    then show "client_ok P V ((a(c := a c - 1)) c) (b c) (view_of (s\<lparr>lo_clients := umap_put c (ctx\<lparr>lc_userName := n\<rparr>) (lo_clients s),
        lo_jobs := Scheduler_Queue (Task_Login c n k) (lv_steady env) (lo_jobs s)\<rparr>) c)"
      using un n assms(3) by (simp add: view_of_def names_of_def login_of_def Scheduler_Queue_def login_of_task_def)
  qed (use assms(1) in \<open>simp_all add: honest_def rest_ok_def\<close>)
qed

lemma honest_AuthenticationTick:
  assumes "honest P V a b s" "\<And>n k. (n, k) \<in> P \<Longrightarrow> lv_authenticate env n k = Some True \<Longrightarrow> V n"
  shows "honest P V a b (snd (lobby_event_run env Ev_AuthenticationTick s))"
proof (rule honest_view [OF assms(1)])
  show "view_of (snd (lobby_event_run env Ev_AuthenticationTick s)) = view_of s"
    by (simp add: fun_eq_iff view_of_def act_defs names_of_def login_of_def)
  show "rest_ok P V (snd (lobby_event_run env Ev_AuthenticationTick s))"
    using assms by (auto simp: honest_def rest_ok_def act_defs AuthenticationService_Tick_def split: list.splits option.splits)
qed

lemma honest_Records:
  assumes "honest P V a b s"
  shows "honest P V a b (snd (lobby_event_run env (Ev_Records n l d) s))"
proof (rule honest_view [OF assms])
  show "view_of (snd (lobby_event_run env (Ev_Records n l d) s)) = view_of s"
    by (simp add: fun_eq_iff view_of_def act_defs names_of_def login_of_def)
  show "rest_ok P V (snd (lobby_event_run env (Ev_Records n l d) s))"
    using assms by (simp add: honest_def rest_ok_def act_defs)
qed

section \<open>What the tick does\<close>

lemma honest_same:
  assumes "honest P V a b s" "view_of s' = view_of s" "lo_auth s' = lo_auth s" "lo_users s' = lo_users s"
  shows "honest P V a b s'"
  using honest_view [OF assms(1,2)] assms(1,3,4) by (simp add: honest_def rest_ok_def)

lemma view_of_put: "view_of (put_login c l s) d = (if d = c then (l, snd (view_of s c)) else view_of s d)"
  by (simp add: view_of_def names_of_def)

text \<open>The parts of a login that the requests change.\<close>

lemma honest_put:
  assumes "honest P V a b s" "ql_userName l = ql_userName (login_of c s)" "ql_userToken l = ql_userToken (login_of c s)"
    "ql_isAuthenticated l = ql_isAuthenticated (login_of c s)"
  shows "honest P V a b (put_login c l s)"
proof (rule honest_one [OF assms(1), of c])
  have "client_ok P V (a c) (b c) (view_of s c)" using assms(1) by (simp add: honest_def)
  then show "client_ok P V (a c) (b c) (view_of (put_login c l s) c)"
    using assms(2-4) by (simp add: view_of_put) (simp add: view_of_def)
  show "rest_ok P V (put_login c l s)" using assms(1) by (simp add: honest_def rest_ok_def)
qed (simp_all add: view_of_put)

lemma honest_loads:
  "honest P V a b s \<Longrightarrow> honest P V a b (RequestLoadUserData n s)" "honest P V a b s \<Longrightarrow> honest P V a b (RequestLoadCharacterData n s)"
  by (rule honest_same; auto simp: RequestLoadUserData_def RequestLoadCharacterData_def Let_def fun_eq_iff view_of_def names_of_def login_of_def)+

lemma honest_pop:
  assumes "honest P V a b s"
  shows "honest P V a b (pop_request s)" "honest P V a b (pop_response s)"
proof -
  have count: "count_list (tl xs) x \<le> count_list xs x" for xs and x :: client_id by (cases xs) auto
  have "client_ok P V (a c) (b c) (view_of (pop_request s) c) \<and> client_ok P V (a c) (b c) (view_of (pop_response s) c)" for c
  proof -
    have v: "client_ok P V (a c) (b c) (view_of s c)" using assms by (simp add: honest_def)
    have "view_of (pop_request s) c = (login_of c s, names_of s c, pending_logins c (sch_jobs (lo_jobs s)),
        count_list (tl (lo_requests s)) c, count_list (lo_responses s) c)"
      "view_of (pop_response s) c = (login_of c s, names_of s c, pending_logins c (sch_jobs (lo_jobs s)),
        count_list (lo_requests s) c, count_list (tl (lo_responses s)) c)"
      by (simp_all add: view_of_def pop_request_def pop_response_def login_of_def names_of_def)
    then show ?thesis
      using client_ok_fewer [OF v [unfolded view_of_def] order_refl order_refl count order_refl disjI2 [OF refl]]
        client_ok_fewer [OF v [unfolded view_of_def] order_refl order_refl order_refl count disjI2 [OF refl]]
      by (simp del: client_ok.simps)
  qed
  then show "honest P V a b (pop_request s)" "honest P V a b (pop_response s)"
    using assms by (simp_all add: honest_def rest_ok_def pop_request_def pop_response_def)
qed

lemma honest_client: "honest P V a b s \<Longrightarrow> client_ok P V (a c) (b c) (view_of s c)"
  by (simp add: honest_def)

text \<open>Who is queued has a name.\<close>

lemma honest_queued:
  assumes "honest P V a b s" "c \<in> set (lo_requests s) \<or> c \<in> set (lo_responses s)"
  shows "ql_userName (login_of c s) \<noteq> []" "(ql_userName (login_of c s), ql_userToken (login_of c s)) \<in> P" "a c = 0"
    "c \<in> set (lo_responses s) \<Longrightarrow> V (ql_userName (login_of c s))"
    "count_list (lo_requests s) c + count_list (lo_responses s) c = 1"
proof -
  have v: "client_ok P V (a c) (b c) (view_of s c)" using assms(1) by (rule honest_client)
  have q: "0 < count_list (lo_requests s) c + count_list (lo_responses s) c"
    using assms(2) by (metis add_is_0 count_list_0_iff gr0I)
  show n: "ql_userName (login_of c s) \<noteq> []" using v q by (auto simp: view_of_def)
  show "(ql_userName (login_of c s), ql_userToken (login_of c s)) \<in> P" "a c = 0"
    "count_list (lo_requests s) c + count_list (lo_responses s) c = 1"
    using v q n by (auto simp: view_of_def)
  show "V (ql_userName (login_of c s))" if "c \<in> set (lo_responses s)"
    using v that by (auto simp: view_of_def count_list_0_iff)
qed

text \<open>The login requests.\<close>

lemma honest_QueueAuthentication:
  assumes "honest P V a b s" "n \<noteq> []" "(n, k) \<in> P"
  shows "honest P V a b (s\<lparr>lo_auth := QueueAuthentication n k (lo_auth s)\<rparr>)"
proof (rule honest_view [OF assms(1)])
  show "view_of (s\<lparr>lo_auth := QueueAuthentication n k (lo_auth s)\<rparr>) = view_of s"
    by (simp add: fun_eq_iff view_of_def names_of_def login_of_def)
  show "rest_ok P V (s\<lparr>lo_auth := QueueAuthentication n k (lo_auth s)\<rparr>)"
    using assms by (auto simp: honest_def rest_ok_def QueueAuthentication_def)
qed

lemma honest_respond:
  assumes "honest P V a b s" "lo_requests s = c # cs" "ql_isAuthenticated (login_of c s) = Some True"
  shows "honest P V a b ((pop_request s)\<lparr>lo_responses := lo_responses s @ [c]\<rparr>)"
proof (rule honest_one [OF assms(1), of c])
  have v: "client_ok P V (a c) (b c) (view_of s c)" using assms(1) by (rule honest_client)
  have q: "count_list (lo_requests s) c + count_list (lo_responses s) c = 1" and n: "ql_userName (login_of c s) \<noteq> []"
    using honest_queued [OF assms(1), of c] assms(2) by auto
  then show "client_ok P V (a c) (b c) (view_of ((pop_request s)\<lparr>lo_responses := lo_responses s @ [c]\<rparr>) c)"
    using v assms(2,3) by (auto simp: view_of_def pop_request_def login_of_def names_of_def)
  show "rest_ok P V ((pop_request s)\<lparr>lo_responses := lo_responses s @ [c]\<rparr>)"
    using assms(1) by (simp add: honest_def rest_ok_def pop_request_def)
qed (use assms(2) in \<open>auto simp: view_of_def pop_request_def login_of_def names_of_def\<close>)

lemma honest_RejectLogin: "honest P V a b s \<Longrightarrow> honest P V a b (snd (RejectLogin c reason s))"
  using honest_quiet [of "RejectLogin c reason"] quiet_others(1) by (simp add: preserves_def)

lemma login_of_upd [simp]:
  "login_of c (s\<lparr>lo_auth := x\<rparr>) = login_of c s" "login_of c (s\<lparr>lo_responses := y\<rparr>) = login_of c s"
  "login_of c (pop_request s) = login_of c s" "login_of c (pop_response s) = login_of c s"
  "login_of c (RequestLoadUserData n s) = login_of c s" "login_of c (RequestLoadCharacterData n s) = login_of c s"
  by (simp_all add: login_of_def pop_request_def pop_response_def RequestLoadUserData_def RequestLoadCharacterData_def Let_def)

lemma honest_ProcessLoginRequest:
  assumes h: "honest P V a b s" and ne: "lo_requests s \<noteq> []"
  shows "honest P V a b (snd (ProcessLoginRequest env s))"
proof -
  obtain c cs where cs: "lo_requests s = c # cs" using ne by (cases "lo_requests s") auto
  let ?l = "login_of c s"
  define t where "t = put_login c ?l s"
  have ht: "honest P V a b t" unfolding t_def by (rule honest_put [OF h]) simp_all
  have t: "login_of c t = ?l" "lo_requests t = c # cs" by (simp_all add: t_def cs)
  note named = honest_queued [OF h, of c]
  have put: "honest P V a b (put_login c (?l\<lparr>ql_userAuthenticationRequested := True\<rparr>)
      (t\<lparr>lo_auth := QueueAuthentication (ql_userName ?l) (ql_userToken ?l) (lo_auth t)\<rparr>))"
    by (rule honest_put [OF honest_QueueAuthentication [OF ht]]) (use named cs t in auto)
  have load: "honest P V a b (put_login c (?l\<lparr>ql_userLoadRequested := True\<rparr>) (RequestLoadUserData (ql_userName ?l) t))"
    by (rule honest_put [OF honest_loads(1) [OF ht]]) (use t in auto)
  have rej: "honest P V a b (snd (seq (RejectLogin c r) (\<lambda>_. modify pop_request) t))" for r
    using honest_pop(1) [OF honest_RejectLogin [OF ht, of c r]] by (auto simp: RejectLogin_def act_defs)
  have pop: "honest P V a b (snd (RejectLogin c r (pop_request t)))" for r
    by (rule honest_RejectLogin [OF honest_pop(1) [OF ht]])
  have check: "honest P V a b (snd (seq (lift z) (\<lambda>v. if pv_preventServerJoining v then RejectLogin c r
      else modify (\<lambda>s. s\<lparr>lo_responses := lo_responses s @ [c]\<rparr>)) (pop_request t)))" if "ql_isAuthenticated ?l = Some True" for z r
    using honest_pop(1) [OF ht] pop honest_respond [OF ht t(2)] that t
    by (auto simp: act_defs pop_request_def split: sum.splits)
  show ?thesis
    using put load rej pop check ht t
    by (auto simp: ProcessLoginRequest_def cs t_def [symmetric] Let_def split: option.splits bool.splits)
qed

text \<open>The login responses: until the login is erased, the client that is admitted is no longer queued and has a name that
  was vouched for.\<close>

definition admitting :: "(bytes \<times> bytes) set \<Rightarrow> (bytes \<Rightarrow> bool) \<Rightarrow> (client_id \<Rightarrow> nat) \<Rightarrow> (client_id \<Rightarrow> nat) \<Rightarrow> client_id \<Rightarrow> lobby \<Rightarrow> bool" where
  "admitting P V a b c s \<longleftrightarrow> honest P V a b s \<and> a c = 0 \<and> c \<notin> set (lo_requests s) \<and> c \<notin> set (lo_responses s)
     \<and> (\<forall>n y. names_of s c = Some (n, y) \<longrightarrow> V n)"

lemma admitting_quiet: "quiet m \<Longrightarrow> preserves (admitting P V a b c) m"
proof (rule preservesI)
  fix s assume "quiet m" and h: "admitting P V a b c s"
  then have calm: "calm s (snd (m s))" by (simp add: quiet_def)
  then have "lo_requests (snd (m s)) = lo_requests s" "lo_responses (snd (m s)) = lo_responses s"
    and "\<And>x. names_of (snd (m s)) c = Some x \<Longrightarrow> names_of s c = Some x"
    by (auto simp: calm_def login_part_def)
  then show "admitting P V a b c (snd (m s))" using h honest_calm [OF _ calm] by (auto simp: admitting_def)
qed

lemma admitting_authenticated: "preserves (admitting P V a b c) (update_client c (\<lambda>x. x\<lparr>lc_isAuthenticated := True\<rparr>))"
proof (rule preservesI)
  fix s assume ad: "admitting P V a b c s"
  define s' where "s' = snd (update_client c (\<lambda>x. x\<lparr>lc_isAuthenticated := True\<rparr>) s)"
  have s': "lo_requests s' = lo_requests s" "lo_responses s' = lo_responses s" "lo_jobs s' = lo_jobs s" "lo_logins s' = lo_logins s"
    "lo_auth s' = lo_auth s" "lo_users s' = lo_users s"
    and names: "names_of s' d = (if d = c then map_option (\<lambda>(n, y). (n, True)) (names_of s c) else names_of s d)" for d
    by (auto simp: s'_def update_client_def act_defs names_of_def split: option.splits)
  have h: "honest P V a b s" using ad by (simp add: admitting_def)
  then have v: "client_ok P V (a c) (b c) (view_of s c)" by (rule honest_client)
  have "honest P V a b s'"
  proof (rule honest_one [where c = c])
    show "honest P V a b s" by (rule h)
    show "client_ok P V (a c) (b c) (view_of s' c)"
      using v s' names [of c] ad by (auto simp: view_of_def login_of_def admitting_def split: option.splits)
    show "rest_ok P V s'" using ad s' by (simp add: admitting_def honest_def rest_ok_def)
  qed (use s' names in \<open>auto simp: view_of_def login_of_def\<close>)
  then show "admitting P V a b c (snd (update_client c (\<lambda>x. x\<lparr>lc_isAuthenticated := True\<rparr>) s))"
    using ad s' names [of c] unfolding s'_def [symmetric] by (auto simp: admitting_def split: option.splits)
qed

lemma admitting_AcceptLogin: "preserves (admitting P V a b c) (AcceptLogin env c creator)"
proof -
  have "preserves (admitting P V a b c) (seq (Lobby_GetClientContext c False) (\<lambda>_.
     seq (update_client c (\<lambda>x. x\<lparr>lc_isAuthenticated := True\<rparr>)) (\<lambda>_.
     if creator then SendCreateNicknameNotify c else SendLoginOK env c)))"
    by (intro preserves_intros admitting_authenticated admitting_quiet quiet_access quiet_SendLoginOK)
      (auto simp: SendCreateNicknameNotify_def intro!: quiet_intros)
  then show ?thesis by (simp add: AcceptLogin_def preserves_def try_catch_def)
qed

lemma admitting_users:
  assumes "\<And>s. \<exists>us. f s = s\<lparr>lo_users := us\<rparr> \<and> set (keys_of us) \<subseteq> set (keys_of (lo_users s)) \<union> {n}" "V n"
  shows "preserves (admitting P V a b c) (modify f)"
proof (rule preservesI)
  fix s assume ad: "admitting P V a b c s"
  obtain us where us: "f s = s\<lparr>lo_users := us\<rparr>" "set (keys_of us) \<subseteq> set (keys_of (lo_users s)) \<union> {n}" using assms(1) by blast
  have "view_of (s\<lparr>lo_users := us\<rparr>) = view_of s" by (simp add: fun_eq_iff view_of_def names_of_def login_of_def)
  moreover have "rest_ok P V (s\<lparr>lo_users := us\<rparr>)"
  proof -
    have r: "rest_ok P V s" using ad by (simp add: admitting_def honest_def)
    then have "\<forall>m \<in> set (keys_of (lo_users s)) \<union> {n}. V m" using assms(2) by (auto simp: rest_ok_def)
    then have "\<forall>m \<in> set (keys_of us). V m" using us(2) by blast
    then show ?thesis using r by (simp add: rest_ok_def)
  qed
  ultimately show "admitting P V a b c (snd (modify f s))"
    using ad us(1) honest_view by (auto simp: admitting_def modify_def names_of_def)
qed

lemma admitting_erase:
  assumes "admitting P V a b c s"
  shows "honest P V a b (s\<lparr>lo_logins := umap_erase c (lo_logins s)\<rparr>)"
proof (rule honest_one [where c = c])
  show "honest P V a b s" using assms by (simp add: admitting_def)
  have "honest P V a b s" using assms by (simp add: admitting_def)
  then have "client_ok P V (a c) (b c) (view_of s c)" by (rule honest_client)
  then show "client_ok P V (a c) (b c) (view_of (s\<lparr>lo_logins := umap_erase c (lo_logins s)\<rparr>) c)"
    using assms by (auto simp: view_of_def login_of_def names_of_def new_login_def admitting_def count_list_0_iff)
  show "rest_ok P V (s\<lparr>lo_logins := umap_erase c (lo_logins s)\<rparr>)" using assms by (simp add: admitting_def honest_def rest_ok_def)
qed (auto simp: view_of_def login_of_def names_of_def)

definition leads :: "('s \<Rightarrow> bool) \<Rightarrow> ('s \<Rightarrow> bool) \<Rightarrow> ('s, 'a) act \<Rightarrow> bool" where
  "leads P Q m \<longleftrightarrow> (\<forall>s. P s \<longrightarrow> Q (snd (m s)))"

lemma leads_seq: "preserves P m \<Longrightarrow> (\<And>x. leads P Q (f x)) \<Longrightarrow> (\<And>s. P s \<Longrightarrow> Q s) \<Longrightarrow> leads P Q (seq m f)"
  by (auto simp: leads_def preserves_def seq_def split: prod.splits sum.splits)

lemma honest_admit_user:
  assumes "admitting P V a b c s" "V n"
  shows "honest P V a b (snd (admit_user env c n u s))"
proof -
  have keys: "set (keys_of (umap_put n x us)) \<subseteq> set (keys_of us) \<union> {n}" for x :: user_instance and us
    using keys_umap_put [of n x us] by blast
  have put: "preserves (admitting P V a b c) (modify (\<lambda>s. s\<lparr>lo_users := umap_put n new_user (lo_users s)\<rparr>))"
  proof (rule admitting_users [where n = n and V = V])
    fix s :: lobby
    show "\<exists>us. s\<lparr>lo_users := umap_put n new_user (lo_users s)\<rparr> = s\<lparr>lo_users := us\<rparr> \<and> set (keys_of us) \<subseteq> set (keys_of (lo_users s)) \<union> {n}"
      using keys by blast
  qed (rule assms(2))
  have upd: "preserves (admitting P V a b c) (modify (update_user n f))" for f
  proof (rule admitting_users [where n = n and V = V])
    fix s show "\<exists>us. update_user n f s = s\<lparr>lo_users := us\<rparr> \<and> set (keys_of us) \<subseteq> set (keys_of (lo_users s)) \<union> {n}"
    proof (cases "map_of (lo_users s) n")
      case None
      then have "update_user n f s = s\<lparr>lo_users := lo_users s\<rparr>" by (simp add: update_user_def)
      then show ?thesis by blast
    next
      case (Some x)
      then have "update_user n f s = s\<lparr>lo_users := umap_put n (f x) (lo_users s)\<rparr>" by (simp add: update_user_def)
      then show ?thesis using keys by blast
    qed
  qed (rule assms(2))
  have forced: "quiet (modify (\<lambda>s. s\<lparr>lo_forced := uset_erase u (lo_forced s)\<rparr>))"
    by (rule quiet_modify) (simp_all add: login_part_def user_names_def names_of_def)
  have last: "leads (admitting P V a b c) (honest P V a b) (modify (\<lambda>s. s\<lparr>lo_logins := umap_erase c (lo_logins s)\<rparr>))"
    using admitting_erase by (auto simp: leads_def modify_def)
  have "leads (admitting P V a b c) (honest P V a b) (admit_user env c n u)"
    unfolding admit_user_def Let_def
    by (intro leads_seq put upd last admitting_AcceptLogin admitting_quiet [OF forced] admitting_quiet quiet_intros)
      (simp_all add: admitting_def)
  then show ?thesis using assms(1) by (simp add: leads_def)
qed

lemma honest_ProcesLoginResponse:
  assumes h: "honest P V a b s" and ne: "lo_responses s \<noteq> []"
  shows "honest P V a b (snd (ProcesLoginResponse env s))"
proof -
  obtain c cs where cs: "lo_responses s = c # cs" using ne by (cases "lo_responses s") auto
  let ?l = "login_of c s" and ?n = "ql_userName (login_of c s)"
  define t where "t = put_login c ?l s"
  have ht: "honest P V a b t" unfolding t_def by (rule honest_put [OF h]) simp_all
  have t: "login_of c t = ?l" "lo_responses t = c # cs" by (simp_all add: t_def cs)
  note named = honest_queued [OF ht, of c, unfolded t(1)]
  have load: "honest P V a b (put_login c (?l\<lparr>ql_userCharacterLoadRequested := True\<rparr>) (RequestLoadCharacterData ?n t))"
    by (rule honest_put [OF honest_loads(2) [OF ht]]) (use t in auto)
  have V: "V ?n" using named(4) t(2) by simp
  have "admitting P V a b c (pop_response t)"
    unfolding admitting_def
  proof (intro conjI allI impI)
    show "honest P V a b (pop_response t)" by (rule honest_pop(2) [OF ht])
    show "a c = 0" using named(3) t(2) by simp
    have "count_list (lo_requests t) c + count_list cs c = 0" using named(5) t(2) by simp
    then show "c \<notin> set (lo_requests (pop_response t))" "c \<notin> set (lo_responses (pop_response t))"
      using t(2) by (auto simp: pop_response_def count_list_0_iff)
    fix n y assume "names_of (pop_response t) c = Some (n, y)"
    then have "names_of t c = Some (n, y)" by (simp add: names_of_def pop_response_def)
    then have "n = ?n" using honest_client [OF ht, of c] named(1) t by (auto simp: view_of_def)
    then show "V n" using V by simp
  qed
  then have admit: "honest P V a b (snd (admit_user env c ?n u (pop_response t)))" for u
    using honest_admit_user [of P V a b c "pop_response t" ?n] V by blast
  have rej: "honest P V a b (snd (RejectLogin c r (pop_response t)))" for r
    by (rule honest_RejectLogin [OF honest_pop(2) [OF ht]])
  have view: "view_user ?n t = (case map_of (dd_users (lo_data t)) ?n of None \<Rightarrow> (Inl unavailable, t) | Some x \<Rightarrow> (Inr x, t))"
    by (simp add: view_user_def)
  show ?thesis
    using admit rej load ht
    by (auto simp: ProcesLoginResponse_def cs t_def [symmetric] Let_def seq_def view get_state_def modify_def split: option.splits)
qed

text \<open>The verdicts.\<close>

lemma apply_verdicts_fields:
  "ql_userName (apply_verdicts vs l) = ql_userName l \<and> ql_userToken (apply_verdicts vs l) = ql_userToken l"
  unfolding apply_verdicts_def by (induction vs arbitrary: l) auto

lemma apply_verdicts_verdict:
  assumes "\<And>x. x \<in> set vs \<Longrightarrow> fst x \<noteq> [] \<and> (snd x \<longrightarrow> V (fst x))" "ql_userName l = [] \<Longrightarrow> ql_isAuthenticated l = None"
    "ql_isAuthenticated l = Some True \<Longrightarrow> V (ql_userName l)"
  shows "(ql_userName l = [] \<longrightarrow> ql_isAuthenticated (apply_verdicts vs l) = None)
    \<and> (ql_isAuthenticated (apply_verdicts vs l) = Some True \<longrightarrow> V (ql_userName l))"
  using assms
proof (induction vs arbitrary: l)
  case Nil then show ?case by (auto simp: apply_verdicts_def)
next
  case (Cons v vs)
  obtain n y where v: "v = (n, y)" by fastforce
  let ?l = "if n = ql_userName l then l\<lparr>ql_isAuthenticated := Some y\<rparr> else l"
  have n: "n \<noteq> []" "y \<longrightarrow> V n" using Cons.prems(1) [of v] v by auto
  have "apply_verdicts (v # vs) l = apply_verdicts vs ?l" by (simp add: apply_verdicts_def v)
  moreover have "(ql_userName ?l = [] \<longrightarrow> ql_isAuthenticated (apply_verdicts vs ?l) = None)
    \<and> (ql_isAuthenticated (apply_verdicts vs ?l) = Some True \<longrightarrow> V (ql_userName ?l))"
    by (rule Cons.IH) (use Cons.prems n in \<open>auto split: if_splits\<close>)
  moreover have "ql_userName ?l = ql_userName l" by simp
  ultimately show ?case by simp
qed

lemma login_of_take_verdicts:
  "login_of c (take_verdicts s) = (if map_of (lo_logins s) c = None then new_login else apply_verdicts (au_verdicts (lo_auth s)) (login_of c s))"
  by (auto simp: login_of_def take_verdicts_def PollAuthenticationVerdicts_def map_of_map split: option.splits)

lemma honest_take_verdicts:
  assumes "honest P V a b s"
  shows "honest P V a b (take_verdicts s)"
proof -
  have vs: "\<And>x. x \<in> set (au_verdicts (lo_auth s)) \<Longrightarrow> fst x \<noteq> [] \<and> (snd x \<longrightarrow> V (fst x))" using assms by (simp add: honest_def rest_ok_def)
  have "client_ok P V (a c) (b c) (view_of (take_verdicts s) c)" for c
  proof -
    have v: "client_ok P V (a c) (b c) (view_of s c)" using assms by (rule honest_client)
    have eq: "view_of (take_verdicts s) c = (login_of c (take_verdicts s), snd (view_of s c))"
      by (simp add: view_of_def names_of_def take_verdicts_def PollAuthenticationVerdicts_def)
    show ?thesis
    proof (cases "map_of (lo_logins s) c")
      case None
      then have "login_of c s = new_login" by (simp add: login_of_def)
      then show ?thesis using v None eq by (simp add: login_of_take_verdicts view_of_def)
    next
      case (Some l)
      have "ql_userName (login_of c s) = [] \<Longrightarrow> ql_isAuthenticated (login_of c s) = None"
        "ql_isAuthenticated (login_of c s) = Some True \<Longrightarrow> V (ql_userName (login_of c s))" using v by (auto simp: view_of_def)
      note av = apply_verdicts_verdict [OF vs this, of "au_verdicts (lo_auth s)"] apply_verdicts_fields [of "au_verdicts (lo_auth s)" "login_of c s"]
      show ?thesis using v av Some eq by (simp add: login_of_take_verdicts) (simp add: view_of_def)
    qed
  qed
  then show ?thesis using assms by (simp add: honest_def rest_ok_def take_verdicts_def PollAuthenticationVerdicts_def)
qed

section \<open>The jobs\<close>

lemma update_user_cases: "\<exists>us. update_user n f s = s\<lparr>lo_users := us\<rparr> \<and> set (keys_of us) = set (keys_of (lo_users s))"
proof (cases "map_of (lo_users s) n")
  case None
  then have "update_user n f s = s\<lparr>lo_users := lo_users s\<rparr>" by (simp add: update_user_def)
  then show ?thesis by blast
next
  case (Some x)
  then have "n \<in> set (keys_of (lo_users s))" by (force simp: map_of_eq_None_iff dest: map_of_SomeD)
  then have "set (keys_of (umap_put n (f x) (lo_users s))) = set (keys_of (lo_users s))"
    using keys_umap_put [of n "f x" "lo_users s"] by (simp only: insert_absorb)
  moreover have "update_user n f s = s\<lparr>lo_users := umap_put n (f x) (lo_users s)\<rparr>" using Some by (simp add: update_user_def)
  ultimately show ?thesis by blast
qed

text \<open>Jobs other than logins and disconnections: nothing of the logins changes.\<close>

definition harmless :: "lobby_task \<Rightarrow> bool" where
  "harmless t = (case t of Task_Login c n k \<Rightarrow> False | Task_Disconnect y c n \<Rightarrow> False | _ \<Rightarrow> True)"

definition same_logins :: "lobby \<Rightarrow> lobby \<Rightarrow> bool" where
  "same_logins s s' \<longleftrightarrow> (\<forall>c. login_of c s' = login_of c s) \<and> lo_requests s' = lo_requests s \<and> lo_responses s' = lo_responses s
     \<and> lo_clients s' = lo_clients s \<and> lo_auth s' = lo_auth s \<and> set (keys_of (lo_users s')) = set (keys_of (lo_users s))"

lemma same_logins_update_user: "same_logins s (update_user n f s)"
proof -
  obtain us where "update_user n f s = s\<lparr>lo_users := us\<rparr>" "set (keys_of us) = set (keys_of (lo_users s))" using update_user_cases by blast
  then show ?thesis by (simp add: same_logins_def login_of_def)
qed

lemma same_logins_harmless:
  assumes "harmless t"
  shows "same_logins s (snd (lobby_task_run env t s))"
proof (cases t)
  case (Task_Connect c)
  then show ?thesis
    by (auto simp: act_defs QueueClientConnect_def same_logins_def put_login_def login_of_def split: option.splits)
next
  case (Task_SetUserRoom n r)
  then show ?thesis using same_logins_update_user by (simp add: act_defs SetUserRoom_def)
next
  case (Task_RoomEntered n u r)
  have rooms: "same_logins s (SetUserRoom n r (s\<lparr>lo_rooms := x\<rparr>))" "same_logins s (s\<lparr>lo_rooms := x\<rparr>)" for x
    using same_logins_update_user [of "s\<lparr>lo_rooms := x\<rparr>" n] by (auto simp: SetUserRoom_def same_logins_def login_of_def)
  have same: "same_logins s s" by (simp add: same_logins_def)
  show ?thesis using Task_RoomEntered rooms same by (auto split: prod.splits sum.splits)
next
  case (Task_SetCharacter n u)
  have same: "same_logins s s" by (simp add: same_logins_def)
  show ?thesis using Task_SetCharacter same same_logins_update_user by (auto simp: act_defs GetLobbyUser_def split: option.splits)
next
  case (Task_SendWaitingSeqno c)
  then show ?thesis by (simp add: act_defs SendWaitingSeqno_def send_lobby_def same_logins_def login_of_def)
qed (use assms in \<open>simp_all add: harmless_def\<close>)

lemma honest_harmless_job:
  assumes "honest P V a b s" "sch_jobs (lo_jobs s) = js @ j # ks" "sch_jobs J = js @ ks" "harmless (job_task j)"
  shows "honest P V a b ((snd (lobby_task_run env (job_task j) s))\<lparr>lo_jobs := J\<rparr>)"
proof (rule honest_view [OF assms(1)])
  have same: "same_logins s (snd (lobby_task_run env (job_task j) s))" by (rule same_logins_harmless [OF assms(4)])
  have "login_of_task d (job_task j) = []" for d using assms(4) by (auto simp: harmless_def login_of_task_def split: lobby_task.splits)
  then have "pending_logins d (sch_jobs (lo_jobs s)) = pending_logins d (sch_jobs J)" for d
    using assms(2,3) by simp
  then show "view_of ((snd (lobby_task_run env (job_task j) s))\<lparr>lo_jobs := J\<rparr>) = view_of s"
    using same by (auto simp: fun_eq_iff view_of_def same_logins_def names_of_def login_of_def)
  have "rest_ok P V s" using assms(1) by (simp add: honest_def)
  then show "rest_ok P V ((snd (lobby_task_run env (job_task j) s))\<lparr>lo_jobs := J\<rparr>)"
    using same unfolding same_logins_def rest_ok_def by simp
qed

lemma honest_job:
  assumes h: "honest P V a b s" and js: "sch_jobs (lo_jobs s) = js @ j # ks" and J: "sch_jobs J = js @ ks"
  shows "honest P V a b ((snd (lobby_task_run env (job_task j) s))\<lparr>lo_jobs := J\<rparr>)"
proof (cases "job_task j")
  case (Task_Login c n k)
  have pend: "pending_logins d (sch_jobs (lo_jobs s)) = (if d = c then pending_logins c js @ (n, k) # pending_logins c ks
      else pending_logins d js @ pending_logins d ks)" for d
    using js Task_Login by (simp add: login_of_task_def)
  have v: "client_ok P V (a c) (b c) (view_of s c)" using h by (rule honest_client)
  have "pending_logins c (sch_jobs (lo_jobs s)) \<noteq> []" using pend [of c] by simp
  note un = client_ok_unlogged [OF v [unfolded view_of_def] disjI2 [OF this]]
  then have none: "pending_logins c js = []" "pending_logins c ks = []" "a c = 0" using pend [of c] by auto
  have nk: "n \<noteq> []" "(n, k) \<in> P" "b c = 0" "\<And>m y. names_of s c = Some (m, y) \<Longrightarrow> m = n \<and> (y \<longrightarrow> V m)"
    using v pend [of c] by (auto simp: view_of_def)
  show ?thesis
  proof (rule honest_one [OF h, of c])
    show "client_ok P V (a c) (b c) (view_of ((snd (lobby_task_run env (job_task j) s))\<lparr>lo_jobs := J\<rparr>) c)"
      using un none nk Task_Login J
      by (auto simp: view_of_def act_defs QueueClientLogin_def Let_def login_of_def put_login_def names_of_def count_list_0_iff
          split: option.splits)
    show "rest_ok P V ((snd (lobby_task_run env (job_task j) s))\<lparr>lo_jobs := J\<rparr>)"
      using h Task_Login by (auto simp: honest_def rest_ok_def act_defs QueueClientLogin_def Let_def split: option.splits)
    fix d assume "d \<noteq> c"
    then show "view_of ((snd (lobby_task_run env (job_task j) s))\<lparr>lo_jobs := J\<rparr>) d = view_of s d"
      using Task_Login J pend [of d]
      by (auto simp: view_of_def act_defs QueueClientLogin_def Let_def login_of_def put_login_def names_of_def split: option.splits)
  qed simp
next
  case (Task_Disconnect y c n)
  define t where "t = (if y then QueueClientLogout env n s else s)"
  have t: "login_of d t = login_of d s" "names_of t d = names_of s d" "lo_requests t = lo_requests s" "lo_responses t = lo_responses s"
    "lo_auth t = lo_auth s" "set (keys_of (lo_users t)) \<subseteq> set (keys_of (lo_users s))" for d
    using keys_umap_erase [of n "lo_users s"]
    by (auto simp: t_def QueueClientLogout_def change_user_def Let_def login_of_def names_of_def split: option.splits)
  have pend: "pending_logins d (sch_jobs (lo_jobs s)) = pending_logins d js @ pending_logins d ks" for d
    using js Task_Disconnect by (simp add: login_of_task_def)
  have eq: "snd (lobby_task_run env (job_task j) s) = QueueClientDisconnect c t" using Task_Disconnect by (simp add: act_defs t_def)
  have filter: "count_list (filter (\<lambda>d. d \<noteq> c) xs) d = (if d = c then 0 else count_list xs d)" for xs d
    by (induction xs) auto
  show ?thesis unfolding eq
  proof (rule honest_one [OF h, of c])
    have "client_ok P V (a c) (b c) (view_of s c)" using h by (rule honest_client)
    then show "client_ok P V (a c) (b c) (view_of ((QueueClientDisconnect c t)\<lparr>lo_jobs := J\<rparr>) c)"
      using t J pend [of c] filter
      by (auto simp: view_of_def QueueClientDisconnect_def login_of_def names_of_def new_login_def)
    have "rest_ok P V s" using h by (simp add: honest_def)
    moreover from this have "\<forall>m \<in> set (keys_of (lo_users t)). V m" using t(6) unfolding rest_ok_def by blast
    ultimately show "rest_ok P V ((QueueClientDisconnect c t)\<lparr>lo_jobs := J\<rparr>)" using t(5) by (simp add: rest_ok_def QueueClientDisconnect_def)
    fix d assume "d \<noteq> c"
    then show "view_of ((QueueClientDisconnect c t)\<lparr>lo_jobs := J\<rparr>) d = view_of s d"
      using t J pend [of d] filter by (simp add: view_of_def QueueClientDisconnect_def login_of_def names_of_def)
  qed simp
qed (use h js J in \<open>rule honest_harmless_job; simp add: harmless_def\<close>)+

lemma find_due_less: "find_due now k js = Some i \<Longrightarrow> k \<le> i \<and> i < k + length js"
proof (induction js arbitrary: k)
  case (Cons j js)
  show ?case
  proof (cases "now \<ge> job_when j")
    case False
    then have "find_due now (Suc k) js = Some i" using Cons.prems by simp
    then have "Suc k \<le> i \<and> i < Suc k + length js" by (rule Cons.IH)
    then show ?thesis by simp
  qed (use Cons.prems in simp)
qed simp

lemma honest_run_jobs:
  assumes h: "honest P V a b s"
  shows "honest P V a b (snd (run_jobs env s))"
proof -
  let ?start = "case sch_iterator (lo_jobs s) of None \<Rightarrow> 0 | Some i \<Rightarrow> i" and ?jobs = "sch_jobs (lo_jobs s)"
  have same: "honest P V a b (s\<lparr>lo_jobs := J\<rparr>)" if "sch_jobs J = ?jobs" for J
    by (rule honest_same [OF h]) (use that in \<open>simp_all add: fun_eq_iff view_of_def names_of_def login_of_def\<close>)
  show ?thesis
  proof (cases "?jobs = [] \<or> find_due (lv_steady env) ?start (drop ?start ?jobs) = None")
    case True
    then show ?thesis using same h by (auto simp: run_jobs_def Scheduler_Tick_def Let_def)
  next
    case False
    then obtain i where i: "find_due (lv_steady env) ?start (drop ?start ?jobs) = Some i" by auto
    then have "i < length ?jobs" using find_due_less [OF i] by auto
    then have split: "?jobs = take i ?jobs @ ?jobs ! i # drop (Suc i) ?jobs" by (simp add: id_take_nth_drop)
    have "honest P V a b ((snd (lobby_task_run env (job_task (?jobs ! i)) s))\<lparr>lo_jobs := J\<rparr>)"
      if "sch_jobs J = take i ?jobs @ drop (Suc i) ?jobs" for J
      by (rule honest_job [OF h split that])
    then show ?thesis using False i
      by (auto simp: run_jobs_def Scheduler_Tick_def Let_def lobby_exec_def split: prod.splits sum.splits)
  qed
qed

lemma honest_Lobby_Tick: "preserves (honest P V a b) (Lobby_Tick env)"
  unfolding Lobby_Tick_def
  by (intro preserves_intros preservesI)
    (auto simp: modify_def honest_ProcesLoginResponse honest_ProcessLoginRequest honest_take_verdicts honest_run_jobs)

section \<open>Runs\<close>

lemma honest_step:
  assumes h: "honest P V a b s"
    and "\<And>c. is_connection c ev \<Longrightarrow> 0 < b c" "\<And>c. is_login c ev \<Longrightarrow> 0 < a c"
    and "\<And>c n k. ev = Ev_Command c (C_Login n k) \<Longrightarrow> (n, k) \<in> P"
    and "\<And>n k. ev = Ev_AuthenticationTick \<Longrightarrow> (n, k) \<in> P \<Longrightarrow> lv_authenticate env n k = Some True \<Longrightarrow> V n"
  shows "honest P V (\<lambda>c. a c - of_bool (is_login c ev)) (\<lambda>c. b c - of_bool (is_connection c ev)) (lobby_step (env, ev) s)"
proof (cases "login_event ev")
  case False
  then have "honest P V a b (lobby_step (env, ev) s)"
    using honest_quiet [OF quiet_event [OF False]] h by (simp add: preserves_def lobby_step_def)
  then show ?thesis by (rule honest_fewer) simp
next
  case True
  then consider c n k where "ev = Ev_Command c (C_Login n k)" | c where "ev = Ev_Connected c" | "ev = Ev_Tick"
    | "ev = Ev_AuthenticationTick" | n l d where "ev = Ev_Records n l d"
    by (cases ev rule: login_event.cases) auto
  then show ?thesis
  proof cases
    case (1 c n k)
    have "(\<lambda>d. a d - of_bool (is_login d ev)) = a(c := a c - 1)" using 1 by (auto simp: is_login_def fun_eq_iff)
    then show ?thesis using honest_Login [OF h, of c n k env] assms(3,4) 1
      by (simp add: lobby_step_def is_connection_def is_login_def)
  next
    case (2 c)
    have "(\<lambda>d. b d - of_bool (is_connection d ev)) = b(c := b c - 1)" using 2 by (auto simp: is_connection_def fun_eq_iff)
    then show ?thesis using honest_Connected [OF h, of c env] assms(2) 2
      by (simp add: lobby_step_def is_connection_def is_login_def)
  next
    case 3
    then show ?thesis using honest_Lobby_Tick h by (simp add: preserves_def lobby_step_def is_connection_def is_login_def)
  next
    case 4
    then show ?thesis using honest_AuthenticationTick [OF h, of env] assms(5)
      by (simp add: lobby_step_def is_connection_def is_login_def)
  next
    case (5 n l d)
    then show ?thesis using honest_Records [OF h, of env n l d] by (simp add: lobby_step_def is_connection_def is_login_def)
  qed
qed

lemma honest_run:
  assumes "honest P V (\<lambda>c. login_attempts c es) (\<lambda>c. connections c es) s"
    and "presented es \<subseteq> P" "\<And>env n k. (env, Ev_AuthenticationTick) \<in> set es \<Longrightarrow> (n, k) \<in> P \<Longrightarrow> lv_authenticate env n k = Some True \<Longrightarrow> V n"
  shows "honest P V (\<lambda>c. 0) (\<lambda>c. 0) (lobby_run es s)"
  using assms
proof (induction es arbitrary: s)
  case Nil then show ?case by (simp add: lobby_run_def login_attempts_def connections_def)
next
  case (Cons e es)
  obtain env ev where e: "e = (env, ev)" by fastforce
  have "honest P V (\<lambda>c. login_attempts c (e # es) - of_bool (is_login c ev)) (\<lambda>c. connections c (e # es) - of_bool (is_connection c ev))
      (lobby_step e s)"
    unfolding e
  proof (rule honest_step)
    show "(n, k) \<in> P" if "ev = Ev_Command c (C_Login n k)" for c n k
      using Cons.prems(2) that e by (auto simp: presented_def)
    show "V n" if "ev = Ev_AuthenticationTick" "(n, k) \<in> P" "lv_authenticate env n k = Some True" for n k
      using Cons.prems(3) that e by auto
  qed (use Cons.prems(1) in \<open>simp_all add: e login_attempts_def connections_def\<close>)
  then have "honest P V (\<lambda>c. login_attempts c es) (\<lambda>c. connections c es) (lobby_step e s)"
    by (rule honest_fewer) (simp add: e login_attempts_def connections_def)
  then have "honest P V (\<lambda>c. 0) (\<lambda>c. 0) (lobby_run es (lobby_step e s))"
  proof (rule Cons.IH)
    show "presented es \<subseteq> P" using Cons.prems(2) by (auto simp: presented_def)
    show "V n" if "(env, Ev_AuthenticationTick) \<in> set es" "(n, k) \<in> P" "lv_authenticate env n k = Some True" for env n k
      by (rule Cons.prems(3) [of env n k]) (use that in simp_all)
  qed
  then show ?case by (simp add: lobby_run_def)
qed

text \<open>C8: if every client connects at most once and logs in at most once, then whatever else happens, a user is online and a
  client is authenticated only under a name that was presented together with a token the backend accepts.\<close>

theorem only_vouched_online:
  assumes "\<And>c. connections c es \<le> 1" "\<And>c. login_attempts c es \<le> 1"
  shows "(IsUserOnline n (lobby_run es empty_lobby) \<longrightarrow> vouched es n)
    \<and> (names_of (lobby_run es empty_lobby) c = Some (n, True) \<longrightarrow> vouched es n)"
proof -
  have "honest (presented es) (vouched es) (\<lambda>c. login_attempts c es) (\<lambda>c. connections c es) empty_lobby"
    using assms by (simp add: honest_def rest_ok_def view_of_def login_of_def names_of_def empty_lobby_def new_login_def new_scheduler_def)
  then have h: "honest (presented es) (vouched es) (\<lambda>c. 0) (\<lambda>c. 0) (lobby_run es empty_lobby)"
    by (rule honest_run) (auto simp: vouched_def)
  then have "vouched es n" if "IsUserOnline n (lobby_run es empty_lobby)"
    using that by (force simp: IsUserOnline_def honest_def rest_ok_def dest: map_of_SomeD)
  moreover have "vouched es n" if "names_of (lobby_run es empty_lobby) c = Some (n, True)"
    using honest_client [OF h, of c] that by (auto simp: view_of_def)
  ultimately show ?thesis by blast
qed

definition honest_login :: "(lobby_env \<times> lobby_event) list" where
  "honest_login = at_lobby [Ev_Connected 7, Ev_Tick, Ev_Command 7 (C_Login [97] [1]), Ev_Tick, Ev_Tick, Ev_AuthenticationTick,
     Ev_Tick, Ev_Tick, user_loaded [97], Ev_Tick, Ev_Tick, character_loaded [97], Ev_Tick]"

lemma honest_login_online: "IsUserOnline [97] (lobby_run honest_login empty_lobby)"
  by (simp only: honest_login_def login_runs) code_simp

lemma only_vouched_online_witness: "IsUserOnline [97] (lobby_run honest_login empty_lobby) \<and> vouched honest_login [97]"
proof -
  have "connections c honest_login \<le> 1" "login_attempts c honest_login \<le> 1" for c
    by (simp_all add: honest_login_def connections_def login_attempts_def is_connection_def is_login_def)
  from only_vouched_online [OF this] honest_login_online show ?thesis by blast
qed

end
