(* ===== verification/Lobby_Stall.thy ===== *)
theory Lobby_Stall imports Lobby_Run "HOL-Library.Sublist" begin

text \<open>
  What clients can do to the lobby by logging in twice or leaving early: a queue that never moves again, and a user
  that stays online for good.
\<close>

section \<open>A queue that never moves\<close>

text \<open>At the head of the responses stands a client whose login is gone.\<close>

definition stalled :: "lobby \<Rightarrow> bool" where
  "stalled s \<longleftrightarrow> (case lo_responses s of [] \<Rightarrow> False
     | c # cs \<Rightarrow> ql_userName (login_of c s) = [] \<and> \<not> ql_userCharacterLoadRequested (login_of c s)) \<and> [] \<notin> user_names s"

lemma user_names_iff: "n \<in> user_names s \<longleftrightarrow> map_of (dd_users (lo_data s)) n \<noteq> None"
  by (auto simp: user_names_def)

lemma stalled_tick:
  assumes "stalled s"
  shows "\<exists>c. Lobby_Tick env s = (Inl unavailable, put_login c (login_of c s) s)"
  using assms by (auto simp: stalled_def Lobby_Tick_def seq_def ProcesLoginResponse_def view_user_def user_names_iff Let_def
      split: list.splits option.splits)

lemma stalled_cong:
  "lo_responses s' = lo_responses s \<Longrightarrow> (\<And>c. login_of c s' = login_of c s) \<Longrightarrow> [] \<notin> user_names s' \<Longrightarrow> stalled s \<Longrightarrow> stalled s'"
  by (auto simp: stalled_def split: list.splits)

text \<open>Events in which no user without a name appears among the records.\<close>

definition named_records :: "lobby_event \<Rightarrow> bool" where
  "named_records e = (case e of Ev_Records n l d \<Rightarrow> map_of (dd_users d) [] = None | _ \<Rightarrow> True)"

definition later :: "lobby \<Rightarrow> lobby \<Rightarrow> bool" where
  "later s s' \<longleftrightarrow> lo_users s' = lo_users s \<and> prefix (sch_jobs (lo_jobs s)) (sch_jobs (lo_jobs s'))"

lemma HandleLogin_keeps:
  "login_part (snd (HandleLogin env c n k s)) = login_part s" "lo_data (snd (HandleLogin env c n k s)) = lo_data s"
  "prefix (sch_jobs (lo_jobs s)) (sch_jobs (lo_jobs (snd (HandleLogin env c n k s))))"
  by (auto simp: HandleLogin_def act_defs SendLoginCancel_def send_lobby_def Lobby_GetClientContext_def update_client_def queue_task_at_def
      login_part_def Scheduler_Queue_def split: option.splits)

lemma Lobby_HandleClientConnected_keeps:
  "login_part (snd (Lobby_HandleClientConnected env c s)) = login_part s" "lo_data (snd (Lobby_HandleClientConnected env c s)) = lo_data s"
  "prefix (sch_jobs (lo_jobs s)) (sch_jobs (lo_jobs (snd (Lobby_HandleClientConnected env c s))))"
  by (auto simp: Lobby_HandleClientConnected_def act_defs queue_task_at_def login_part_def Scheduler_Queue_def Let_def)

lemma login_part_cong:
  assumes "login_part s' = login_part s" "user_names s' = user_names s" "stalled s"
  shows "stalled s' \<and> lo_users s' = lo_users s"
proof -
  have "lo_responses s' = lo_responses s" "lo_users s' = lo_users s" and "login_of c s' = login_of c s" for c
    using assms(1) by (auto simp: login_part_def login_of_def)
  then show ?thesis using stalled_cong [of s' s] assms(2,3) by (auto simp: stalled_def)
qed

lemma stalled_step:
  assumes "stalled s" "named_records (snd e)"
  shows "stalled (lobby_step e s) \<and> later s (lobby_step e s)"
proof -
  obtain env ev where e: "e = (env, ev)" by fastforce
  show ?thesis
  proof (cases "login_event ev")
    case False
    then have "calm s (lobby_step e s)" using quiet_event e by (simp add: quiet_def lobby_step_def)
    then show ?thesis using login_part_cong [of "lobby_step e s" s] assms(1) by (auto simp: calm_def later_def)
  next
    case True
    then consider c n k where "ev = Ev_Command c (C_Login n k)" | c where "ev = Ev_Connected c" | "ev = Ev_Tick"
      | "ev = Ev_AuthenticationTick" | n l d where "ev = Ev_Records n l d"
      by (cases ev rule: login_event.cases) auto
    then show ?thesis
    proof cases
      case 1
      then show ?thesis using assms e HandleLogin_keeps [where env = env and c = c and n = n and k = k and s = s] login_part_cong [of "snd (HandleLogin env c n k s)" s]
        by (simp add: lobby_step_def later_def user_names_def)
    next
      case 2
      then show ?thesis using assms e Lobby_HandleClientConnected_keeps [where env = env and c = c and s = s] login_part_cong [of "snd (Lobby_HandleClientConnected env c s)" s]
        by (simp add: lobby_step_def later_def user_names_def)
    next
      case 3
      obtain c where "Lobby_Tick env s = (Inl unavailable, put_login c (login_of c s) s)" using stalled_tick [OF assms(1)] by blast
      moreover have "stalled (put_login c (login_of c s) s)"
      proof (rule stalled_cong [OF _ _ _ assms(1)])
        show "[] \<notin> user_names (put_login c (login_of c s) s)" using assms(1) by (simp add: stalled_def user_names_def)
      qed (simp_all add: login_of_same)
      ultimately show ?thesis using 3 e by (simp add: lobby_step_def later_def)
    next
      case 4
      then show ?thesis using assms e by (auto simp: lobby_step_def later_def modify_def stalled_def login_of_def user_names_iff
            split: list.splits)
    next
      case 5
      then show ?thesis using assms e by (auto simp: lobby_step_def later_def modify_def stalled_def login_of_def user_names_iff
            named_records_def split: list.splits)
    qed
  qed
qed

text \<open>C9: A lobby at whose head of the responses stands a client whose login is gone never moves again: whatever happens,
  every tick throws, nobody comes online or goes offline, and no job is run any more.\<close>

theorem stalled_forever:
  assumes "stalled s" "\<And>e. e \<in> set es \<Longrightarrow> named_records (snd e)"
  shows "fst (Lobby_Tick env (lobby_run es s)) = Inl unavailable \<and> lo_users (lobby_run es s) = lo_users s
    \<and> prefix (sch_jobs (lo_jobs s)) (sch_jobs (lo_jobs (lobby_run es s)))"
proof -
  have "stalled (lobby_run es s) \<and> later s (lobby_run es s)"
    using assms
  proof (induction es arbitrary: s)
    case Nil then show ?case by (simp add: lobby_run_def later_def)
  next
    case (Cons e es)
    then have 1: "stalled (lobby_step e s)" "later s (lobby_step e s)" using stalled_step [of s e] by auto
    moreover have "stalled (lobby_run es (lobby_step e s)) \<and> later (lobby_step e s) (lobby_run es (lobby_step e s))"
      using Cons.IH [OF 1(1)] Cons.prems(2) by simp
    ultimately show ?case by (auto simp: lobby_run_def later_def)
  qed
  then show ?thesis using stalled_tick [of "lobby_run es s" env] by (auto simp: later_def)
qed

section \<open>A client that logs in twice\<close>

text \<open>Client 8 logs in, and client 7 logs in twice while the character of the first is loaded.\<close>

definition double_login :: "(lobby_env \<times> lobby_event) list" where
  "double_login = at_lobby [Ev_Connected 8, Ev_Connected 7, Ev_Tick, Ev_Tick,
     Ev_Command 8 (C_Login [98] [1]), Ev_Command 7 (C_Login [97] [1]), Ev_Command 7 (C_Login [97] [1]),
     Ev_Tick, Ev_Tick, Ev_Tick, Ev_AuthenticationTick, Ev_Tick, Ev_Tick, user_loaded [98], Ev_Tick, Ev_Tick,
     Ev_AuthenticationTick, Ev_Tick, Ev_Tick, user_loaded [97], Ev_Tick, Ev_Tick, character_loaded [98], Ev_Tick, Ev_Tick,
     character_loaded [97], Ev_Tick]"

lemma double_login_stalls: "stalled (lobby_run double_login empty_lobby)"
  by (simp only: double_login_def login_runs) code_simp

text \<open>A third user waits in vain.\<close>

definition late_login :: "(lobby_env \<times> lobby_event) list" where
  "late_login = at_lobby [Ev_Connected 9, Ev_Tick, Ev_Command 9 (C_Login [99] [1]), Ev_Tick, Ev_AuthenticationTick, Ev_Tick]"

theorem stalled_forever_witness:
  "fst (Lobby_Tick lobby_env0 (lobby_run late_login (lobby_run double_login empty_lobby))) = Inl unavailable"
proof -
  have "named_records (snd e)" if "e \<in> set late_login" for e
    using that by (auto simp: named_records_def late_login_def)
  with stalled_forever [OF double_login_stalls, of late_login lobby_env0] show ?thesis by blast
qed

end
