(* ===== verification/Lobby_Ghosts.thy ===== *)
theory Lobby_Ghosts imports Lobby_Run begin

text \<open>
  Two ways in which the tables of the lobby come to say what nobody has shown: a user who is online although nobody
  knew its token, and one who stays online although its client is gone.
\<close>

section \<open>A user taken over\<close>

text \<open>The token \<open>[1]\<close> is the one \<open>lobby_env0\<close> accepts for everybody.\<close>

definition accepted_login :: "bytes \<Rightarrow> lobby_env \<times> lobby_event \<Rightarrow> bool" where
  "accepted_login name e = (case e of (env, Ev_Command c (C_Login n k)) \<Rightarrow> n = name \<and> lv_authenticate env n k = Some True | _ \<Rightarrow> False)"

definition takeover :: "(lobby_env \<times> lobby_event) list" where
  "takeover = at_lobby [Ev_Connected 7, Ev_Tick, Ev_Command 7 (C_Login [97] [1]), Ev_Tick, Ev_Tick, Ev_AuthenticationTick,
     Ev_Command 7 (C_Login [98] [2]), Ev_Tick, Ev_Tick, user_loaded [98], Ev_Tick, Ev_Tick, character_loaded [98], Ev_Tick]"

text \<open>Who logs in under its own name and, between the verdict on its token and the load of its user, sends a second login
  with the name of somebody else, is that user afterwards, whatever token it sent.\<close>

theorem takeover_succeeds:
  "\<not> list_ex (accepted_login [98]) takeover
   \<and> (let s = lobby_run takeover empty_lobby in IsUserOnline [98] s \<and> names_of s 7 = Some ([98], True))"
  by (simp only: takeover_def login_runs) code_simp

section \<open>A user that stays\<close>

definition early_leave :: "(lobby_env \<times> lobby_event) list" where
  "early_leave = at_lobby [Ev_Connected 7, Ev_Tick, Ev_Command 7 (C_Login [97] [1]), Ev_Tick, Ev_Tick, Ev_AuthenticationTick,
     Ev_Tick, Ev_Tick, user_loaded [97], Ev_Tick, Ev_Tick, character_loaded [97], Ev_Disconnected 7, Ev_Tick, Ev_Tick]"

definition come_back :: "(lobby_env \<times> lobby_event) list" where
  "come_back = at_lobby [Ev_Connected 8, Ev_Tick, Ev_Command 8 (C_Login [97] [1]), Ev_Tick, Ev_Tick, Ev_AuthenticationTick,
     Ev_Tick, Ev_Tick, Ev_Tick, Ev_Tick, Ev_Tick]"

text \<open>A client that leaves after its character was loaded and before its response is processed leaves its user online
  although nobody is connected and no job is left; the next login of the user, with the right token, leaves both queues
  with one message sent, and is not admitted.\<close>

theorem early_leave_stays_online:
  "let s = lobby_run early_leave empty_lobby; t = lobby_run come_back s in
     lo_clients s = [] \<and> lo_jobs s = new_scheduler \<and> IsUserOnline [97] s
   \<and> lo_requests t = [] \<and> lo_responses t = [] \<and> names_of t 8 = Some ([97], False) \<and> length (lo_sent t) = 1"
  by (simp only: early_leave_def come_back_def login_runs) code_simp

end
