(* ===== verification/Lobby_Rooms.thy ===== *)
theory Lobby_Rooms imports Lobby_Run begin

text \<open>
  What the lobby promises about rooms: the pages of the room list show every matching room, and a code to a room is one
  the race server accepts.
\<close>

section \<open>The room list\<close>

lemma chunks_nth:
  assumes "i * n < length xs" "0 < n"
  shows "i < length (chunks n xs) \<and> chunks n xs ! i = take n (drop (i * n) xs)"
  using assms(1)
proof (induction i arbitrary: xs)
  case 0 then show ?case using assms(2) by (auto simp: chunks.simps [of n xs])
next
  case (Suc i)
  then have "i * n < length (drop n xs)" "xs \<noteq> []" by auto
  then show ?case using Suc.IH [of "drop n xs"] assms(2) by (auto simp: chunks.simps [of n xs] ac_simps)
qed

lemma length_chunks: "0 < n \<Longrightarrow> length (chunks n xs) = (length xs + n - 1) div n"
proof (induction n xs rule: chunks.induct)
  case (1 n xs)
  show ?case
  proof (cases "xs = []")
    case True then show ?thesis using 1 by (simp add: chunks.simps)
  next
    case False
    then have l: "0 < length xs" by simp
    then have "length (chunks n xs) = Suc ((length xs - n + n - 1) div n)"
      using 1 False by (simp add: chunks.simps [of n xs])
    also have "\<dots> = (length xs + n - 1) div n"
    proof (cases "n \<le> length xs")
      case True
      then have "length xs + n - 1 = (length xs - n + n - 1) + n" using l by simp
      then show ?thesis using 1(2) by (metis Suc_eq_plus1 div_add_self2 less_not_refl)
    next
      case le: False
      then obtain m where "length xs + n - 1 = m + n" "m < n" using l by (metis add.commute add_diff_assoc2 less_imp_diff_less not_le Suc_leI One_nat_def)
      then have "(n - 1) div n = 0" "(length xs + n - 1) div n = 1" using 1(2) by (simp_all add: div_add_self2)
      then show ?thesis using le by simp
    qed
    finally show ?thesis .
  qed
qed

lemma concat_chunks: "0 < n \<Longrightarrow> concat (chunks n xs) = xs"
  by (induction n xs rule: chunks.induct) (metis append_take_drop_id chunks.simps concat.simps less_irrefl)

lemma chunks_length: "x \<in> set (chunks n xs) \<Longrightarrow> length x \<le> n"
proof (induction n xs rule: chunks.induct)
  case (1 n xs)
  show ?case
  proof (cases "xs = [] \<or> n = 0")
    case True then show ?thesis using 1(2) by (auto simp: chunks.simps [of n xs])
  next
    case False
    then have "x = take n xs \<or> x \<in> set (chunks n (drop n xs))" using 1(2) by (simp add: chunks.simps [of n xs])
    then show ?thesis using 1(1) False by auto
  qed
qed

definition room_pages :: "room_snapshot list \<Rightarrow> nat" where
  "room_pages rooms = (length rooms + 8) div 9"

lemma room_page_nth:
  assumes "i < room_pages rooms" "room_pages rooms \<le> 256"
  shows "room_page (of_nat i) rooms = (of_nat i, chunks 9 rooms ! i)"
proof -
  have "length (chunks 9 rooms) = room_pages rooms" using length_chunks [of 9 rooms] by (simp add: room_pages_def)
  moreover have "unat (of_nat i :: u8) = i" using assms by (simp add: unat_of_nat)
  ultimately show ?thesis using assms(1) by (auto simp: room_page_def RoomsPerPage_def Let_def)
qed

text \<open>A client that asks for the pages from the first to the last.\<close>

definition ask_pages :: "client_id \<Rightarrow> u8 \<Rightarrow> u8 \<Rightarrow> nat \<Rightarrow> unit lobby_act" where
  "ask_pages c gameMode teamMode n =
     for_each [0 ..< n] (\<lambda>i. HandleRoomList c (AcCmdCLRoomList (of_nat i) gameMode teamMode))"

abbreviation (input) room_list_page :: "u8 \<Rightarrow> u8 \<Rightarrow> room_snapshot list \<Rightarrow> nat \<Rightarrow> LobbyCommandRoomListOK" where
  "room_list_page g t rooms i \<equiv> LobbyCommandRoomListOK (of_nat i) g t (map room_entry (chunks 9 rooms ! i)) (LobbyCommandRoomListOK_Anon_unk3 0 [] 0)"

lemma ask_page:
  assumes "i < room_pages (sorted_rooms g t (lo_rooms s))" "room_pages (sorted_rooms g t (lo_rooms s)) \<le> 256"
  shows "HandleRoomList c (AcCmdCLRoomList (of_nat i) g t) s
    = (Inr (), s\<lparr>lo_sent := lo_sent s @ [(c, LO_RoomListOK (room_list_page g t (sorted_rooms g t (lo_rooms s)) i))]\<rparr>)"
  using room_page_nth [OF assms] by (simp add: HandleRoomList_def act_defs send_lobby_def)

lemma ask_pages_from:
  assumes "k + n = room_pages (sorted_rooms g t (lo_rooms s))" "k + n \<le> 256"
  shows "for_each [k ..< k + n] (\<lambda>i. HandleRoomList c (AcCmdCLRoomList (of_nat i) g t)) s
    = (Inr (), s\<lparr>lo_sent := lo_sent s @ map (\<lambda>i. (c, LO_RoomListOK (room_list_page g t (sorted_rooms g t (lo_rooms s)) i))) [k ..< k + n]\<rparr>)"
  using assms
proof (induction n arbitrary: k s)
  case 0 then show ?case by (simp add: act_defs)
next
  case (Suc n)
  let ?s = "s\<lparr>lo_sent := lo_sent s @ [(c, LO_RoomListOK (room_list_page g t (sorted_rooms g t (lo_rooms s)) k))]\<rparr>"
  have up: "[k ..< k + Suc n] = k # [Suc k ..< Suc k + n]" by (simp add: upt_conv_Cons)
  have "HandleRoomList c (AcCmdCLRoomList (of_nat k) g t) s = (Inr (), ?s)" using ask_page [of k g t s] Suc.prems by simp
  moreover have "for_each [Suc k ..< Suc k + n] (\<lambda>i. HandleRoomList c (AcCmdCLRoomList (of_nat i) g t)) ?s
    = (Inr (), ?s\<lparr>lo_sent := lo_sent ?s @ map (\<lambda>i. (c, LO_RoomListOK (room_list_page g t (sorted_rooms g t (lo_rooms s)) i))) [Suc k ..< Suc k + n]\<rparr>)"
    using Suc.IH [of "Suc k" ?s] Suc.prems by (simp del: upt_Suc)
  ultimately show ?case unfolding up by (simp add: seq_def del: upt_Suc)
qed

text \<open>C22: a client that asks for the pages of the room list from the first on is sent at most nine rooms a page, and all of
  them together are the matching rooms, each once: the ones without a password first, waiting before playing, the ones
  with fewer players before the others.\<close>

theorem room_list_complete:
  assumes "room_pages (sorted_rooms g t (lo_rooms s)) \<le> 256"
  shows "\<exists>pages. ask_pages c g t (room_pages (sorted_rooms g t (lo_rooms s))) s
      = (Inr (), s\<lparr>lo_sent := lo_sent s @ map (\<lambda>p. (c, LO_RoomListOK p)) pages\<rparr>)
    \<and> concat (map LobbyCommandRoomListOK_rooms pages) = map room_entry (sorted_rooms g t (lo_rooms s))
    \<and> (\<forall>p \<in> set pages. length (LobbyCommandRoomListOK_rooms p) \<le> 9)
    \<and> mset (sorted_rooms g t (lo_rooms s)) = mset (filter (\<lambda>r. room_game_mode (rd_gameMode (rsn_details r)) = g
        \<and> room_team_mode (rd_teamMode (rsn_details r)) = t) (GetRoomsSnapshot (lo_rooms s)))
    \<and> sorted (map (\<lambda>r. (room_priority r, rsn_playerCount r)) (sorted_rooms g t (lo_rooms s)))"
proof -
  let ?rooms = "sorted_rooms g t (lo_rooms s)" and ?page = "\<lambda>i. room_list_page g t (sorted_rooms g t (lo_rooms s)) i"
  let ?pages = "map ?page [0 ..< room_pages ?rooms]"
  have "length (chunks 9 ?rooms) = room_pages ?rooms" using length_chunks [of 9 ?rooms] by (simp add: room_pages_def)
  then have "map (\<lambda>i. chunks 9 ?rooms ! i) [0 ..< room_pages ?rooms] = chunks 9 ?rooms" by (metis map_nth)
  then have cs: "map LobbyCommandRoomListOK_rooms ?pages = map (map room_entry) (chunks 9 ?rooms)"
  proof -
    have "map LobbyCommandRoomListOK_rooms ?pages = map (\<lambda>i. map room_entry (chunks 9 ?rooms ! i)) [0 ..< room_pages ?rooms]"
      by simp
    also have "\<dots> = map (map room_entry) (map (\<lambda>i. chunks 9 ?rooms ! i) [0 ..< room_pages ?rooms])" by simp
    finally show ?thesis using \<open>map (\<lambda>i. chunks 9 ?rooms ! i) [0 ..< room_pages ?rooms] = chunks 9 ?rooms\<close> by simp
  qed
  then have "concat (map LobbyCommandRoomListOK_rooms ?pages) = map room_entry ?rooms"
    using concat_chunks [of 9 ?rooms] by (simp add: map_concat [symmetric])
  moreover have "length (LobbyCommandRoomListOK_rooms p) \<le> 9" if "p \<in> set ?pages" for p
  proof -
    have "LobbyCommandRoomListOK_rooms p \<in> set (map LobbyCommandRoomListOK_rooms ?pages)"
      using that unfolding set_map by (rule imageI)
    then have "LobbyCommandRoomListOK_rooms p \<in> set (map (map room_entry) (chunks 9 ?rooms))" unfolding cs .
    then show ?thesis using chunks_length [of _ 9 ?rooms] by auto
  qed
  moreover have "ask_pages c g t (room_pages ?rooms) s = (Inr (), s\<lparr>lo_sent := lo_sent s @ map (\<lambda>p. (c, LO_RoomListOK p)) ?pages\<rparr>)"
    using ask_pages_from [of 0 "room_pages ?rooms" g t s c] assms by (simp add: ask_pages_def comp_def)
  moreover have "sorted (map (\<lambda>r. (room_priority r, rsn_playerCount r)) ?rooms)" by (simp add: sorted_rooms_def)
  ultimately show ?thesis by (intro exI [of _ ?pages]) (simp add: sorted_rooms_def)
qed

definition sample_room :: "u32 \<Rightarrow> bytes \<Rightarrow> room" where
  "sample_room u password = (new_room u)\<lparr>rm_details := new_details\<lparr>rd_password := password, rd_maxPlayerCount := 8,
     rd_gameMode := Game_Speed, rd_teamMode := Mode_FFA\<rparr>\<rparr>"

definition two_rooms :: lobby where
  "two_rooms = empty_lobby\<lparr>lo_rooms := \<lparr>rs_sequencedId = 5, rs_rooms = [(4, sample_room 4 [1]), (5, sample_room 5 [])]\<rparr>,
     lo_clients := [(7, new_lobby_client\<lparr>lc_isAuthenticated := True, lc_characterUid := 3\<rparr>)]\<rparr>"

lemma two_rooms_sorted: "map rsn_uid (sorted_rooms 1 1 (lo_rooms two_rooms)) = [5, 4]"
  by (simp add: two_rooms_def sorted_rooms_def GetRoomsSnapshot_def GetRoomSnapshot_def sample_room_def new_room_def new_details_def
      room_priority_def)

lemma room_list_complete_witness:
  "\<exists>pages. snd (ask_pages 7 1 1 1 two_rooms) = two_rooms\<lparr>lo_sent := map (\<lambda>p. (7, LO_RoomListOK p)) pages\<rparr>
    \<and> map LobbyCommandRoomListOK_Room_uid (concat (map LobbyCommandRoomListOK_rooms pages)) = [5, 4]"
proof -
  have two: "length (sorted_rooms 1 1 (lo_rooms two_rooms)) = 2" using arg_cong [OF two_rooms_sorted, of length] by simp
  have uid: "LobbyCommandRoomListOK_Room_uid (room_entry r) = rsn_uid r" for r by (simp add: room_entry_def Let_def)
  then have "LobbyCommandRoomListOK_Room_uid \<circ> room_entry = rsn_uid" by (simp add: fun_eq_iff)
  then have "map LobbyCommandRoomListOK_Room_uid (map room_entry (sorted_rooms 1 1 (lo_rooms two_rooms))) = [5, 4]"
    using two_rooms_sorted by simp
  moreover have "lo_sent two_rooms = []" by (simp add: two_rooms_def empty_lobby_def)
  moreover have one: "room_pages (sorted_rooms 1 1 (lo_rooms two_rooms)) = 1" using two by (simp add: room_pages_def)
  then have "room_pages (sorted_rooms 1 1 (lo_rooms two_rooms)) \<le> 256" by simp
  from room_list_complete [OF this, of 7] one obtain pages where
    "ask_pages 7 1 1 1 two_rooms = (Inr (), two_rooms\<lparr>lo_sent := lo_sent two_rooms @ map (\<lambda>p. (7, LO_RoomListOK p)) pages\<rparr>)"
    "concat (map LobbyCommandRoomListOK_rooms pages) = map room_entry (sorted_rooms 1 1 (lo_rooms two_rooms))" by metis
  ultimately show ?thesis by (intro exI [of _ pages]) simp
qed

section \<open>The way into a room\<close>

text \<open>C20: only an authenticated client is sent a code for a room, and only for a room there is, is not full and has no
  password or the one that was given; the character is then among the queued players, and the race server accepts the
  code for this character and this room, within half a minute.\<close>

theorem EnterRoom_lets_in:
  assumes "Lobby_HandleEnterRoom env c m s = (r, s')" "lo_sent s' = lo_sent s @ [(d, LO_EnterRoomOK ok)]"
    and "lv_steady env \<le> now" "now \<le> lv_steady env + seconds 30"
  shows "\<exists>ctx room. map_of (lo_clients s) c = Some ctx \<and> lc_isAuthenticated ctx \<and> d = c
    \<and> map_of (rs_rooms (lo_rooms s)) (AcCmdCLEnterRoom_roomUid m) = Some room \<and> \<not> IsRoomFull room
    \<and> (rd_password (rm_details room) = [] \<or> rd_password (rm_details room) = AcCmdCLEnterRoom_password m)
    \<and> (\<exists>room'. map_of (rs_rooms (lo_rooms s')) (AcCmdCLEnterRoom_roomUid m) = Some room'
        \<and> lc_characterUid ctx \<in> set (rm_queuedPlayers room') \<and> rm_players room' = rm_players room)
    \<and> AcCmdCLEnterRoomOK_roomUid ok = AcCmdCLEnterRoom_roomUid m
    \<and> fst (AuthorizeCode (lv_hash env (lc_characterUid ctx) (AcCmdCLEnterRoom_roomUid m))
        (AcCmdCLEnterRoomOK_oneTimePassword ok) now (lo_otp s'))"
proof -
  obtain ctx where ctx: "map_of (lo_clients s) c = Some ctx"
    using assms(1,2) by (auto simp: Lobby_HandleEnterRoom_def act_defs Lobby_GetClientContext_def split: option.splits)
  show ?thesis
    by (rule exI [of _ ctx]) (use assms ctx in \<open>auto simp: Lobby_HandleEnterRoom_def act_defs send_lobby_def
      Lobby_GetClientContext_def try_enter_def GetRoom_def QueuePlayer_def grant_code_def GrantCode_def queue_task_at_def
      AuthorizeCode_def Let_def uset_insert_def split: option.splits if_splits\<close>)
qed

lemma EnterRoom_lets_in_witness:
  "let s' = snd (Lobby_HandleEnterRoom lobby_env0 7 (AcCmdCLEnterRoom 5 [] 0) two_rooms) in
   (\<exists>room. map_of (rs_rooms (lo_rooms s')) 5 = Some room \<and> 3 \<in> set (rm_queuedPlayers room))
   \<and> fst (AuthorizeCode (lv_hash lobby_env0 3 5) 0 (seconds 29) (lo_otp s'))"
proof -
  let ?s = two_rooms and ?m = "AcCmdCLEnterRoom 5 [] 0"
  let ?s' = "snd (Lobby_HandleEnterRoom lobby_env0 7 ?m ?s)"
  have ctx: "map_of (lo_clients ?s) 7 = Some (new_lobby_client\<lparr>lc_isAuthenticated := True, lc_characterUid := 3\<rparr>)"
    by (simp add: two_rooms_def)
  have "\<exists>r. Lobby_HandleEnterRoom lobby_env0 7 ?m ?s = (r, ?s')" by (metis prod.collapse)
  then obtain r where r: "Lobby_HandleEnterRoom lobby_env0 7 ?m ?s = (r, ?s')" by blast
  have "lo_sent ?s' = lo_sent ?s @ [(7, LO_EnterRoomOK (AcCmdCLEnterRoomOK 5 0 0 0 1))]"
    by (simp add: two_rooms_def empty_lobby_def sample_room_def new_room_def new_details_def lobby_env0_def new_lobby_client_def
        Lobby_HandleEnterRoom_def act_defs send_lobby_def Lobby_GetClientContext_def try_enter_def GetRoom_def QueuePlayer_def
        IsRoomFull_def grant_code_def GrantCode_def queue_task_at_def Let_def)
  moreover have "lv_steady lobby_env0 \<le> seconds 29" "seconds 29 \<le> lv_steady lobby_env0 + seconds 30"
    by (simp_all add: lobby_env0_def seconds_def)
  ultimately have "\<exists>ctx room'. map_of (lo_clients ?s) 7 = Some ctx
      \<and> map_of (rs_rooms (lo_rooms ?s')) 5 = Some room' \<and> lc_characterUid ctx \<in> set (rm_queuedPlayers room')
      \<and> fst (AuthorizeCode (lv_hash lobby_env0 (lc_characterUid ctx) 5) 0 (seconds 29) (lo_otp ?s'))"
    using EnterRoom_lets_in [OF r, of 7 "AcCmdCLEnterRoomOK 5 0 0 0 1" "seconds 29"] by auto
  then show ?thesis using ctx by (auto simp: Let_def)
qed

end
