(* ===== verification/Data_Storage.thy ===== *)
theory Data_Storage imports Prelude begin

text \<open>
  \<open>libserver/data/DataStorage.hpp\<close> and \<open>Record.hpp\<close>: the cache every kind of persistent data is
  kept in, with its queues of retrievals, stores and deletions, and the records that give access to
  a cached value.

  \<^item> A \<open>Record\<close> is a pointer into the cache: here it is the key of the entry, and \<open>Immutable\<close> and
    \<open>Mutable\<close> read and write the entry under that key. A consumer may throw.
  \<^item> The three listeners are the data source behind the cache, the record \<open>listeners\<close> over the
    state of that source. What the cache needs of them is the predicate \<open>faithful\<close>.
  \<^item> An operation is one step: the mutexes of the entries and of the queues are not modelled.
  \<^item> \<open>dflt\<close> is the value-initialised datum of a fresh entry.
\<close>

section \<open>Operations\<close>

record 'd entry =
  en_available :: bool
  en_retrieveFailureCount :: u32
  en_firstRetrieveFailure :: time_point
  en_value :: 'd

record 'k queue =
  qu_dataFlag :: bool
  qu_data :: "'k list"

record ('k, 'd) data_storage =
  ds_entries :: "('k, 'd entry) umap"
  ds_retrieveQueue :: "'k queue"
  ds_storeQueue :: "'k queue"
  ds_deleteQueue :: "'k queue"

record ('k, 'd, 's) listeners =
  retrieveListener :: "'k \<Rightarrow> 'd \<Rightarrow> 's \<Rightarrow> bool \<times> 'd"
  storeListener :: "'k \<Rightarrow> 'd \<Rightarrow> 's \<Rightarrow> bool \<times> 's"
  deleteListener :: "'k \<Rightarrow> 's \<Rightarrow> bool \<times> 's"

definition empty_queue :: "'k queue" where
  "empty_queue = \<lparr>qu_dataFlag = False, qu_data = []\<rparr>"

definition empty_storage :: "('k, 'd) data_storage" where
  "empty_storage = \<lparr>ds_entries = [], ds_retrieveQueue = empty_queue, ds_storeQueue = empty_queue,
     ds_deleteQueue = empty_queue\<rparr>"

definition enqueue :: "'k \<Rightarrow> 'k queue \<Rightarrow> 'k queue" where
  "enqueue key q = \<lparr>qu_dataFlag = True, qu_data = uset_insert key (qu_data q)\<rparr>"

definition RequestRetrieve :: "'k \<Rightarrow> ('k, 'd) data_storage \<Rightarrow> ('k, 'd) data_storage" where
  "RequestRetrieve key s = s\<lparr>ds_retrieveQueue := enqueue key (ds_retrieveQueue s)\<rparr>"

definition RequestStore :: "'k \<Rightarrow> ('k, 'd) data_storage \<Rightarrow> ('k, 'd) data_storage" where
  "RequestStore key s = s\<lparr>ds_storeQueue := enqueue key (ds_storeQueue s)\<rparr>"

definition RequestDelete :: "'k \<Rightarrow> ('k, 'd) data_storage \<Rightarrow> ('k, 'd) data_storage" where
  "RequestDelete key s = s\<lparr>ds_deleteQueue := enqueue key (ds_deleteQueue s)\<rparr>"

definition new_entry :: "'d \<Rightarrow> 'd entry" where
  "new_entry dflt = \<lparr>en_available = False, en_retrieveFailureCount = 0, en_firstRetrieveFailure = 0,
     en_value = dflt\<rparr>"

text \<open>\<open>_entries[key]\<close>: the entry under a key, made if it is not there.\<close>

definition entry_at :: "'d \<Rightarrow> 'k \<Rightarrow> ('k, 'd) data_storage \<Rightarrow> 'd entry" where
  "entry_at dflt key s = (case map_of (ds_entries s) key of Some e \<Rightarrow> e | None \<Rightarrow> new_entry dflt)"

definition set_entry :: "'k \<Rightarrow> 'd entry \<Rightarrow> ('k, 'd) data_storage \<Rightarrow> ('k, 'd) data_storage" where
  "set_entry key e s = s\<lparr>ds_entries := umap_put key e (ds_entries s)\<rparr>"

definition IsAvailable :: "'k \<Rightarrow> ('k, 'd) data_storage \<Rightarrow> bool" where
  "IsAvailable key s = (case map_of (ds_entries s) key of None \<Rightarrow> False | Some e \<Rightarrow> en_available e)"

definition IsAvailable_all :: "'k list \<Rightarrow> ('k, 'd) data_storage \<Rightarrow> bool" where
  "IsAvailable_all keys s = list_all (\<lambda>key. IsAvailable key s) keys"

definition GetRetrieveFailureCount :: "'k \<Rightarrow> ('k, 'd) data_storage \<Rightarrow> u32" where
  "GetRetrieveFailureCount key s =
     (case map_of (ds_entries s) key of None \<Rightarrow> 0 | Some e \<Rightarrow> en_retrieveFailureCount e)"

definition HasRetrieveFailedFor :: "time_point \<Rightarrow> 'k \<Rightarrow> int \<Rightarrow> ('k, 'd) data_storage \<Rightarrow> bool" where
  "HasRetrieveFailedFor now key duration s =
     (case map_of (ds_entries s) key of
        None \<Rightarrow> False
      | Some e \<Rightarrow> en_retrieveFailureCount e \<noteq> 0 \<and> now - en_firstRetrieveFailure e \<ge> duration)"

definition RetryRetrieve :: "'k \<Rightarrow> ('k, 'd) data_storage \<Rightarrow> ('k, 'd) data_storage" where
  "RetryRetrieve key s = RequestRetrieve key s"

definition Create :: "'d \<Rightarrow> 'k \<times> 'd \<Rightarrow> ('k, 'd) data_storage \<Rightarrow> (exn + 'k) \<times> ('k, 'd) data_storage" where
  "Create dflt supplied s =
     (case supplied of (key, data) \<Rightarrow>
        if has_key (ds_entries s) key then (Inl (RuntimeError ''Entry with key already exists''), s)
        else (Inr key, RequestStore key
               (set_entry key ((new_entry dflt)\<lparr>en_value := data, en_available := True\<rparr>) s)))"

definition GetOrCreate :: "'d \<Rightarrow> 'k \<times> 'd \<Rightarrow> ('k, 'd) data_storage \<Rightarrow> 'k \<times> ('k, 'd) data_storage" where
  "GetOrCreate dflt supplied s =
     (case supplied of (key, data) \<Rightarrow>
        if has_key (ds_entries s) key then (key, s)
        else (key, RequestStore key
               (set_entry key ((new_entry dflt)\<lparr>en_value := data, en_available := True\<rparr>) s)))"

definition Get :: "'d \<Rightarrow> 'k \<Rightarrow> bool \<Rightarrow> ('k, 'd) data_storage \<Rightarrow> 'k option \<times> ('k, 'd) data_storage" where
  "Get dflt key retrieve s =
     (let created = (\<not> has_key (ds_entries s) key);
          e = entry_at dflt key s;
          s = set_entry key e s
      in if created \<and> retrieve then (None, RequestRetrieve key s)
         else if en_available e then (Some key, s) else (None, s))"

fun Get_loop :: "'d \<Rightarrow> 'k list \<Rightarrow> bool \<Rightarrow> 'k list \<Rightarrow> ('k, 'd) data_storage
    \<Rightarrow> 'k list option \<times> ('k, 'd) data_storage" where
  "Get_loop dflt [] isComplete records s = (if isComplete then Some records else None, s)"
| "Get_loop dflt (key # keys) isComplete records s =
     (case Get dflt key True s of
        (None, s) \<Rightarrow> Get_loop dflt keys False records s
      | (Some r, s) \<Rightarrow> Get_loop dflt keys isComplete (records @ [r]) s)"

definition Get_all :: "'d \<Rightarrow> 'k list \<Rightarrow> ('k, 'd) data_storage \<Rightarrow> 'k list option \<times> ('k, 'd) data_storage" where
  "Get_all dflt keys s = Get_loop dflt keys True [] s"

definition Delete :: "'k \<Rightarrow> ('k, 'd) data_storage \<Rightarrow> ('k, 'd) data_storage" where
  "Delete key s = RequestDelete key s"

definition Save :: "'k \<Rightarrow> ('k, 'd) data_storage \<Rightarrow> ('k, 'd) data_storage" where
  "Save key s = RequestStore key s"

text \<open>Access through a record: the value under its key, and the patch listener that requests a store
  unless the consumer threw.\<close>

definition Immutable :: "'d \<Rightarrow> 'k \<Rightarrow> ('k, 'd) data_storage \<Rightarrow> 'd" where
  "Immutable dflt key s = en_value (entry_at dflt key s)"

definition Mutable ::
  "'d \<Rightarrow> 'k \<Rightarrow> ('d \<Rightarrow> (exn + 'a) \<times> 'd) \<Rightarrow> ('k, 'd) data_storage \<Rightarrow> (exn + 'a) \<times> ('k, 'd) data_storage" where
  "Mutable dflt key consumer s =
     (let e = entry_at dflt key s; (res, v) = consumer (en_value e);
          s = set_entry key (e\<lparr>en_value := v\<rparr>) s
      in (res, case res of Inl _ \<Rightarrow> s | Inr _ \<Rightarrow> RequestStore key s))"

section \<open>Processing the queues\<close>

definition retrieve_one ::
  "('k, 'd, 's) listeners \<Rightarrow> 'd \<Rightarrow> time_point \<Rightarrow> 's \<Rightarrow> 'k \<Rightarrow> ('k, 'd) data_storage \<Rightarrow> ('k, 'd) data_storage" where
  "retrieve_one L dflt now src key s =
     (let e = entry_at dflt key s; (ok, v) = retrieveListener L key (en_value e) src;
          e = e\<lparr>en_value := v\<rparr>
      in set_entry key
           (if ok then e\<lparr>en_available := True, en_retrieveFailureCount := 0\<rparr>
            else e\<lparr>en_retrieveFailureCount := en_retrieveFailureCount e + 1,
                   en_firstRetrieveFailure :=
                     (if en_retrieveFailureCount e = 0 then now else en_firstRetrieveFailure e)\<rparr>) s)"

definition ProcessRetrieveQueue ::
  "('k, 'd, 's) listeners \<Rightarrow> 'd \<Rightarrow> time_point \<Rightarrow> ('k, 'd) data_storage \<times> 's \<Rightarrow> ('k, 'd) data_storage \<times> 's" where
  "ProcessRetrieveQueue L dflt now w =
     (case w of (s, src) \<Rightarrow>
        if \<not> qu_dataFlag (ds_retrieveQueue s) then (s, src)
        else (fold (retrieve_one L dflt now src) (qu_data (ds_retrieveQueue s)) s
               \<lparr>ds_retrieveQueue := empty_queue\<rparr>, src))"

definition store_one ::
  "('k, 'd, 's) listeners \<Rightarrow> 'd \<Rightarrow> 'k \<Rightarrow> ('k, 'd) data_storage \<times> 's \<Rightarrow> ('k, 'd) data_storage \<times> 's" where
  "store_one L dflt key w =
     (case w of (s, src) \<Rightarrow>
        let e = entry_at dflt key s; s = set_entry key e s
        in if en_available e then (s, snd (storeListener L key (en_value e) src)) else (s, src))"

definition ProcessStoreQueue ::
  "('k, 'd, 's) listeners \<Rightarrow> 'd \<Rightarrow> ('k, 'd) data_storage \<times> 's \<Rightarrow> ('k, 'd) data_storage \<times> 's" where
  "ProcessStoreQueue L dflt w =
     (if \<not> qu_dataFlag (ds_storeQueue (fst w)) then w
      else case fold (store_one L dflt) (qu_data (ds_storeQueue (fst w))) w of
             (s, src) \<Rightarrow> (s\<lparr>ds_storeQueue := empty_queue\<rparr>, src))"

definition delete_one ::
  "('k, 'd, 's) listeners \<Rightarrow> 'd \<Rightarrow> 'k \<Rightarrow> ('k, 'd) data_storage \<times> 's \<Rightarrow> ('k, 'd) data_storage \<times> 's" where
  "delete_one L dflt key w =
     (case w of (s, src) \<Rightarrow>
        let e = entry_at dflt key s; s = set_entry key e s
        in if en_available e
           then case deleteListener L key src of
                  (ok, src) \<Rightarrow> (if ok then set_entry key (e\<lparr>en_available := False\<rparr>) s else s, src)
           else (s, src))"

definition ProcessDeleteQueue ::
  "('k, 'd, 's) listeners \<Rightarrow> 'd \<Rightarrow> ('k, 'd) data_storage \<times> 's \<Rightarrow> ('k, 'd) data_storage \<times> 's" where
  "ProcessDeleteQueue L dflt w =
     (if \<not> qu_dataFlag (ds_deleteQueue (fst w)) then w
      else case fold (delete_one L dflt) (qu_data (ds_deleteQueue (fst w))) w of
             (s, src) \<Rightarrow> (s\<lparr>ds_deleteQueue := empty_queue\<rparr>, src))"

definition Storage_Tick ::
  "('k, 'd, 's) listeners \<Rightarrow> 'd \<Rightarrow> time_point \<Rightarrow> ('k, 'd) data_storage \<times> 's \<Rightarrow> ('k, 'd) data_storage \<times> 's" where
  "Storage_Tick L dflt now w =
     ProcessDeleteQueue L dflt (ProcessStoreQueue L dflt (ProcessRetrieveQueue L dflt now w))"

definition Terminate ::
  "('k, 'd, 's) listeners \<Rightarrow> 'd \<Rightarrow> time_point \<Rightarrow> ('k, 'd) data_storage \<times> 's \<Rightarrow> ('k, 'd) data_storage \<times> 's" where
  "Terminate L dflt now w =
     (case w of (s, src) \<Rightarrow>
        let s = fold RequestStore (map fst (filter (\<lambda>(k, e). en_available e) (ds_entries s))) s
        in case Storage_Tick L dflt now (s, src) of
             (s, src) \<Rightarrow> (s\<lparr>ds_entries := []\<rparr>, src))"

section \<open>The contract of the data source\<close>

text \<open>
  \<open>M\<close> reads the state of the source as a map. A retrieval that succeeds returns what the source
  holds, though it may fail at any time; a store succeeds and changes nothing else; a deletion
  removes the datum or fails and changes nothing.
\<close>

definition faithful :: "('k, 'd, 's) listeners \<Rightarrow> ('s \<Rightarrow> 'k \<Rightarrow> 'd option) \<Rightarrow> bool" where
  "faithful L M \<longleftrightarrow>
     (\<forall>k d src v. retrieveListener L k d src = (True, v) \<longrightarrow> M src k = Some v)
   \<and> (\<forall>k d src. M (snd (storeListener L k d src)) = (M src)(k \<mapsto> d))
   \<and> (\<forall>k src ok src'. deleteListener L k src = (ok, src') \<longrightarrow>
        M src' = (if ok then (M src)(k := None) else M src))"

lemma faithfulD:
  assumes "faithful L M"
  shows "retrieveListener L k d src = (True, v) \<Longrightarrow> M src k = Some v"
    "M (snd (storeListener L k d src)) = (M src)(k \<mapsto> d)"
    "deleteListener L k src = (True, src') \<Longrightarrow> M src' = (M src)(k := None)"
    "deleteListener L k src = (False, src') \<Longrightarrow> M src' = M src"
proof -
  have d: "deleteListener L k src = (ok, src') \<Longrightarrow> M src' = (if ok then (M src)(k := None) else M src)"
    for ok using assms unfolding faithful_def by iprover
  show "retrieveListener L k d src = (True, v) \<Longrightarrow> M src k = Some v"
    "M (snd (storeListener L k d src)) = (M src)(k \<mapsto> d)"
    using assms unfolding faithful_def by iprover+
  show "deleteListener L k src = (True, src') \<Longrightarrow> M src' = (M src)(k := None)"
    "deleteListener L k src = (False, src') \<Longrightarrow> M src' = M src"
    using d [of True] d [of False] by simp_all
qed

text \<open>What the cache holds available.\<close>

definition cached :: "('k, 'd) data_storage \<Rightarrow> 'k \<Rightarrow> 'd option" where
  "cached s k = (case map_of (ds_entries s) k of
      Some e \<Rightarrow> if en_available e then Some (en_value e) else None | None \<Rightarrow> None)"

definition queue_ok :: "'k queue \<Rightarrow> bool" where
  "queue_ok q \<longleftrightarrow> distinct (qu_data q) \<and> (qu_data q \<noteq> [] \<longrightarrow> qu_dataFlag q)"

text \<open>The invariant: a cached value is in the source or waits to be stored, and nothing available
  waits to be retrieved.\<close>

definition coherent :: "('s \<Rightarrow> 'k \<Rightarrow> 'd option) \<Rightarrow> ('k, 'd) data_storage \<times> 's \<Rightarrow> bool" where
  "coherent M w \<longleftrightarrow> (case w of (s, src) \<Rightarrow>
     (\<forall>k v. cached s k = Some v \<longrightarrow> M src k = Some v \<or> k \<in> set (qu_data (ds_storeQueue s)))
   \<and> queue_ok (ds_retrieveQueue s) \<and> queue_ok (ds_storeQueue s) \<and> queue_ok (ds_deleteQueue s)
   \<and> (\<forall>k \<in> set (qu_data (ds_retrieveQueue s)). cached s k = None)
   \<and> (\<forall>k v. cached s k = Some v \<longrightarrow> GetRetrieveFailureCount k s = 0))"

lemma coherentI:
  assumes "\<And>k v. cached s k = Some v \<Longrightarrow> M src k = Some v \<or> k \<in> set (qu_data (ds_storeQueue s))"
    and "queue_ok (ds_retrieveQueue s)" "queue_ok (ds_storeQueue s)" "queue_ok (ds_deleteQueue s)"
    and "\<And>k. k \<in> set (qu_data (ds_retrieveQueue s)) \<Longrightarrow> cached s k = None"
    and "\<And>k v. cached s k = Some v \<Longrightarrow> GetRetrieveFailureCount k s = 0"
  shows "coherent M (s, src)"
  unfolding coherent_def prod.case using assms by blast

lemma coherentD:
  assumes "coherent M (s, src)"
  shows "cached s k = Some v \<Longrightarrow> M src k = Some v \<or> k \<in> set (qu_data (ds_storeQueue s))"
    "queue_ok (ds_retrieveQueue s)" "queue_ok (ds_storeQueue s)" "queue_ok (ds_deleteQueue s)"
    "k \<in> set (qu_data (ds_retrieveQueue s)) \<Longrightarrow> cached s k = None"
    "cached s k = Some v \<Longrightarrow> GetRetrieveFailureCount k s = 0"
  using assms unfolding coherent_def by simp_all

lemma cached_simps [storage_simps]:
  "cached (set_entry k e s) j = (if j = k then if en_available e then Some (en_value e) else None else cached s j)"
  "cached (RequestStore k s) j = cached s j"
  "cached (RequestRetrieve k s) j = cached s j"
  "cached (RequestDelete k s) j = cached s j"
  "cached (s\<lparr>ds_retrieveQueue := q\<rparr>) j = cached s j"
  "cached (s\<lparr>ds_storeQueue := q\<rparr>) j = cached s j"
  "cached (s\<lparr>ds_deleteQueue := q\<rparr>) j = cached s j"
  "cached empty_storage j = None"
  by (simp_all add: cached_def set_entry_def RequestStore_def RequestRetrieve_def RequestDelete_def
      empty_storage_def)

lemma entry_at_cached [storage_simps]:
  "en_available (entry_at dflt k s) \<longleftrightarrow> cached s k \<noteq> None"
  "cached s k = Some v \<Longrightarrow> en_value (entry_at dflt k s) = v"
  "cached s k = Some v \<Longrightarrow> en_available (entry_at dflt k s)"
  by (auto simp: cached_def entry_at_def new_entry_def split: option.splits if_splits)

lemma failures_simps [storage_simps]:
  "GetRetrieveFailureCount j (set_entry k e s) =
     (if j = k then en_retrieveFailureCount e else GetRetrieveFailureCount j s)"
  "GetRetrieveFailureCount j (RequestStore k s) = GetRetrieveFailureCount j s"
  "GetRetrieveFailureCount j (RequestRetrieve k s) = GetRetrieveFailureCount j s"
  "GetRetrieveFailureCount j (RequestDelete k s) = GetRetrieveFailureCount j s"
  "en_retrieveFailureCount (entry_at dflt k s) = GetRetrieveFailureCount k s"
  by (simp_all add: GetRetrieveFailureCount_def set_entry_def RequestStore_def RequestRetrieve_def
      RequestDelete_def entry_at_def new_entry_def split: option.splits)

lemma queue_simps [storage_simps]:
  "ds_storeQueue (set_entry k e s) = ds_storeQueue s"
  "ds_retrieveQueue (set_entry k e s) = ds_retrieveQueue s"
  "ds_deleteQueue (set_entry k e s) = ds_deleteQueue s"
  "ds_storeQueue (RequestStore k s) = enqueue k (ds_storeQueue s)"
  "ds_storeQueue (RequestRetrieve k s) = ds_storeQueue s"
  "ds_storeQueue (RequestDelete k s) = ds_storeQueue s"
  "ds_retrieveQueue (RequestRetrieve k s) = enqueue k (ds_retrieveQueue s)"
  "ds_retrieveQueue (RequestStore k s) = ds_retrieveQueue s"
  "ds_retrieveQueue (RequestDelete k s) = ds_retrieveQueue s"
  "ds_deleteQueue (RequestDelete k s) = enqueue k (ds_deleteQueue s)"
  "ds_deleteQueue (RequestStore k s) = ds_deleteQueue s"
  "ds_deleteQueue (RequestRetrieve k s) = ds_deleteQueue s"
  "set (qu_data (enqueue k q)) = insert k (set (qu_data q))"
  "queue_ok q \<Longrightarrow> queue_ok (enqueue k q)"
  "queue_ok empty_queue" "qu_data empty_queue = []"
  by (simp_all add: set_entry_def RequestStore_def RequestRetrieve_def RequestDelete_def enqueue_def
      queue_ok_def empty_queue_def)

section \<open>A tick\<close>

lemma retrieve_fold:
  assumes "faithful L M" "distinct ks" "\<forall>k \<in> set ks. cached s k = None"
    and "\<forall>k v. cached s k = Some v \<longrightarrow> GetRetrieveFailureCount k s = 0"
    and "s' = fold (retrieve_one L dflt now src) ks s"
  shows "(\<forall>k. cached s' k = cached s k \<or> (k \<in> set ks \<and> cached s' k = M src k))
    \<and> ds_storeQueue s' = ds_storeQueue s \<and> ds_deleteQueue s' = ds_deleteQueue s
    \<and> (\<forall>k v. cached s' k = Some v \<longrightarrow> GetRetrieveFailureCount k s' = 0)"
  using assms(2-)
proof (induction ks arbitrary: s)
  case Nil
  then show ?case by simp
next
  case (Cons k ks)
  let ?s = "retrieve_one L dflt now src k s"
  have k: "\<not> en_available (entry_at dflt k s)" using Cons.prems(2) by (simp add: storage_simps)
  have one: "cached ?s j = cached s j \<or> (j = k \<and> cached ?s j = M src j)"
    "j \<noteq> k \<Longrightarrow> cached ?s j = cached s j"
    "cached ?s j = Some v \<Longrightarrow> GetRetrieveFailureCount j ?s = 0" for j v
    using assms(1) Cons.prems(2,3) k
    by (auto simp: retrieve_one_def faithful_def Let_def storage_simps split: prod.splits if_splits)
  have q: "ds_storeQueue ?s = ds_storeQueue s" "ds_deleteQueue ?s = ds_deleteQueue s"
    by (simp_all add: retrieve_one_def Let_def storage_simps split: prod.splits)
  have "\<forall>j \<in> set ks. cached ?s j = None"
    using Cons.prems(1,2) one(2) by (metis distinct.simps(2) list.set_intros(2))
  from Cons.IH [OF _ this] Cons.prems(1,4) one(3)
  have IH: "(\<forall>j. cached s' j = cached ?s j \<or> (j \<in> set ks \<and> cached s' j = M src j))
    \<and> ds_storeQueue s' = ds_storeQueue ?s \<and> ds_deleteQueue s' = ds_deleteQueue ?s
    \<and> (\<forall>j v. cached s' j = Some v \<longrightarrow> GetRetrieveFailureCount j s' = 0)" by simp
  with one q show ?case by (metis list.set_intros(1) list.set_intros(2))
qed

lemma store_fold:
  assumes "faithful L M" "(s', src') = fold (store_one L dflt) ks (s, src)"
  shows "(\<forall>k. cached s' k = cached s k)
    \<and> (\<forall>k. M src' k = (if k \<in> set ks \<and> cached s k \<noteq> None then cached s k else M src k))
    \<and> ds_retrieveQueue s' = ds_retrieveQueue s \<and> ds_deleteQueue s' = ds_deleteQueue s
    \<and> (\<forall>k. GetRetrieveFailureCount k s' = GetRetrieveFailureCount k s)"
  using assms(2)
proof (induction ks arbitrary: s src)
  case Nil
  then show ?case by simp
next
  case (Cons k ks)
  obtain s1 src1 where one: "store_one L dflt k (s, src) = (s1, src1)" by fastforce
  have c: "cached s1 j = cached s j" for j
    using one by (auto simp: store_one_def Let_def storage_simps split: if_splits)
  have m: "M src1 j = (if j = k \<and> cached s k \<noteq> None then cached s k else M src j)" for j
    using one assms(1)
    by (auto simp: store_one_def faithful_def Let_def storage_simps split: if_splits)
  have r: "ds_retrieveQueue s1 = ds_retrieveQueue s" "ds_deleteQueue s1 = ds_deleteQueue s"
    "GetRetrieveFailureCount j s1 = GetRetrieveFailureCount j s" for j
    using one by (auto simp: store_one_def Let_def storage_simps split: if_splits)
  from Cons.IH [of s1 src1] Cons.prems one c m r show ?case by auto
qed

lemma delete_fold:
  assumes "faithful L M" "(s', src') = fold (delete_one L dflt) ks (s, src)"
  shows "(\<forall>k. (cached s' k = cached s k \<and> M src' k = M src k)
        \<or> (k \<in> set ks \<and> cached s' k = None \<and> M src' k = None))
    \<and> ds_retrieveQueue s' = ds_retrieveQueue s \<and> ds_storeQueue s' = ds_storeQueue s
    \<and> (\<forall>k. GetRetrieveFailureCount k s' = GetRetrieveFailureCount k s)"
  using assms(2)
proof (induction ks arbitrary: s src)
  case Nil
  then show ?case by simp
next
  case (Cons k ks)
  obtain s1 src1 where one: "delete_one L dflt k (s, src) = (s1, src1)" by fastforce
  have c: "(cached s1 j = cached s j \<and> M src1 j = M src j)
      \<or> (j = k \<and> cached s1 j = None \<and> M src1 j = None)" for j
    using one faithfulD(3,4) [OF assms(1), of k src src1]
    by (auto simp: delete_one_def Let_def storage_simps split: if_splits prod.splits)
  have r: "ds_retrieveQueue s1 = ds_retrieveQueue s" "ds_storeQueue s1 = ds_storeQueue s"
    "GetRetrieveFailureCount j s1 = GetRetrieveFailureCount j s" for j
    using one by (auto simp: delete_one_def Let_def storage_simps split: if_splits prod.splits)
  from Cons.IH [of s1 src1] Cons.prems one r
  have IH: "(\<forall>j. (cached s' j = cached s1 j \<and> M src' j = M src1 j)
        \<or> (j \<in> set ks \<and> cached s' j = None \<and> M src' j = None))
    \<and> ds_retrieveQueue s' = ds_retrieveQueue s \<and> ds_storeQueue s' = ds_storeQueue s
    \<and> (\<forall>j. GetRetrieveFailureCount j s' = GetRetrieveFailureCount j s)" by simp
  with c show ?case by (metis list.set_intros(1) list.set_intros(2))
qed

text \<open>The three queues in turn; afterwards everything cached is in the source.\<close>

lemma process_retrieve:
  assumes "faithful L M" "coherent M (s, src)" "(s', src') = ProcessRetrieveQueue L dflt now (s, src)"
  shows "src' = src" "coherent M (s', src')" "qu_data (ds_retrieveQueue s') = []"
    "cached s k = Some v \<Longrightarrow> cached s' k = Some v" "ds_deleteQueue s' = ds_deleteQueue s"
proof -
  have inv: "\<forall>k v. cached s k = Some v \<longrightarrow> M src k = Some v \<or> k \<in> set (qu_data (ds_storeQueue s))"
    "queue_ok (ds_retrieveQueue s)" "queue_ok (ds_storeQueue s)" "queue_ok (ds_deleteQueue s)"
    "\<forall>k \<in> set (qu_data (ds_retrieveQueue s)). cached s k = None"
    "\<forall>k v. cached s k = Some v \<longrightarrow> GetRetrieveFailureCount k s = 0"
    using assms(2) by (auto simp: coherent_def)
  show "src' = src" using assms(3) by (simp add: ProcessRetrieveQueue_def split: if_splits)
  have "coherent M (s', src') \<and> qu_data (ds_retrieveQueue s') = []
    \<and> (cached s k = Some v \<longrightarrow> cached s' k = Some v) \<and> ds_deleteQueue s' = ds_deleteQueue s"
  proof (cases "qu_dataFlag (ds_retrieveQueue s)")
    case False
    with inv(2) have "qu_data (ds_retrieveQueue s) = []" by (simp add: queue_ok_def)
    with assms False show ?thesis by (simp add: ProcessRetrieveQueue_def)
  next
    case True
    let ?ks = "qu_data (ds_retrieveQueue s)"
    let ?f = "fold (retrieve_one L dflt now src) ?ks s"
    have s': "s' = ?f\<lparr>ds_retrieveQueue := empty_queue\<rparr>" "src' = src"
      using True assms(3) by (simp_all add: ProcessRetrieveQueue_def)
    have "distinct ?ks" using inv(2) by (simp add: queue_ok_def)
    note f = retrieve_fold [OF assms(1) this inv(5,6) refl, of dflt now src]
    have c: "cached s' j = cached s j \<or> (j \<in> set ?ks \<and> cached s' j = M src j)" for j
      using f s' by (simp add: storage_simps)
    have q: "ds_storeQueue s' = ds_storeQueue s" "ds_deleteQueue s' = ds_deleteQueue s"
      "ds_retrieveQueue s' = empty_queue"
      "\<forall>j v. cached s' j = Some v \<longrightarrow> GetRetrieveFailureCount j s' = 0"
      using f s' by (simp_all add: storage_simps GetRetrieveFailureCount_def)
    have "cached s' j = Some u \<Longrightarrow> M src j = Some u \<or> j \<in> set (qu_data (ds_storeQueue s))" for j u
      using c [of j] inv(1) by metis
    moreover have "cached s k = Some v \<longrightarrow> cached s' k = Some v"
      using c [of k] inv(5) by auto
    ultimately show ?thesis
      using inv(3,4) q s'(2) by (simp add: coherent_def storage_simps)
  qed
  then show "coherent M (s', src')" "qu_data (ds_retrieveQueue s') = []"
    "cached s k = Some v \<Longrightarrow> cached s' k = Some v" "ds_deleteQueue s' = ds_deleteQueue s" by auto
qed

lemma process_store:
  assumes "faithful L M" "coherent M (s, src)" "(s', src') = ProcessStoreQueue L dflt (s, src)"
  shows "coherent M (s', src')" "cached s' k = cached s k" "qu_data (ds_storeQueue s') = []"
    "ds_deleteQueue s' = ds_deleteQueue s" "ds_retrieveQueue s' = ds_retrieveQueue s"
    "M src' k = (if k \<in> set (qu_data (ds_storeQueue s)) \<and> cached s k \<noteq> None then cached s k else M src k)"
proof -
  have "coherent M (s', src') \<and> cached s' k = cached s k \<and> qu_data (ds_storeQueue s') = []
    \<and> ds_deleteQueue s' = ds_deleteQueue s \<and> ds_retrieveQueue s' = ds_retrieveQueue s
    \<and> M src' k = (if k \<in> set (qu_data (ds_storeQueue s)) \<and> cached s k \<noteq> None then cached s k else M src k)"
  proof (cases "qu_dataFlag (ds_storeQueue s)")
    case False
    with assms(2) have "qu_data (ds_storeQueue s) = []" by (simp add: coherent_def queue_ok_def)
    with assms False show ?thesis by (simp add: ProcessStoreQueue_def)
  next
    case True
    obtain s1 where f: "(s1, src') = fold (store_one L dflt) (qu_data (ds_storeQueue s)) (s, src)"
      "s' = s1\<lparr>ds_storeQueue := empty_queue\<rparr>"
      using True assms(3) by (auto simp: ProcessStoreQueue_def split: prod.splits)
    note st = store_fold [OF assms(1) f(1)]
    have c: "cached s' j = cached s j" "GetRetrieveFailureCount j s' = GetRetrieveFailureCount j s"
      "ds_storeQueue s' = empty_queue" "ds_deleteQueue s' = ds_deleteQueue s"
      "ds_retrieveQueue s' = ds_retrieveQueue s" for j
      using st f(2) by (simp_all add: storage_simps GetRetrieveFailureCount_def)
    with st assms(2) show ?thesis by (auto simp: coherent_def storage_simps)
  qed
  then show "coherent M (s', src')" "cached s' k = cached s k" "qu_data (ds_storeQueue s') = []"
    "ds_deleteQueue s' = ds_deleteQueue s" "ds_retrieveQueue s' = ds_retrieveQueue s"
    "M src' k = (if k \<in> set (qu_data (ds_storeQueue s)) \<and> cached s k \<noteq> None then cached s k else M src k)"
    by auto
qed

lemma process_delete:
  assumes "faithful L M" "coherent M (s, src)" "(s', src') = ProcessDeleteQueue L dflt (s, src)"
  shows "coherent M (s', src')"
    "(cached s' k = cached s k \<and> M src' k = M src k)
     \<or> (k \<in> set (qu_data (ds_deleteQueue s)) \<and> cached s' k = None \<and> M src' k = None)"
    "qu_data (ds_deleteQueue s') = []" "ds_storeQueue s' = ds_storeQueue s"
    "ds_retrieveQueue s' = ds_retrieveQueue s"
proof -
  have "coherent M (s', src') \<and> ((cached s' k = cached s k \<and> M src' k = M src k)
     \<or> (k \<in> set (qu_data (ds_deleteQueue s)) \<and> cached s' k = None \<and> M src' k = None))
     \<and> qu_data (ds_deleteQueue s') = [] \<and> ds_storeQueue s' = ds_storeQueue s
     \<and> ds_retrieveQueue s' = ds_retrieveQueue s"
  proof (cases "qu_dataFlag (ds_deleteQueue s)")
    case False
    with assms(2) have "qu_data (ds_deleteQueue s) = []" by (simp add: coherent_def queue_ok_def)
    with assms False show ?thesis by (simp add: ProcessDeleteQueue_def)
  next
    case True
    obtain s1 where f: "(s1, src') = fold (delete_one L dflt) (qu_data (ds_deleteQueue s)) (s, src)"
      "s' = s1\<lparr>ds_deleteQueue := empty_queue\<rparr>"
      using True assms(3) by (auto simp: ProcessDeleteQueue_def split: prod.splits)
    note st = delete_fold [OF assms(1) f(1)]
    have c: "(cached s' j = cached s j \<and> M src' j = M src j)
        \<or> (j \<in> set (qu_data (ds_deleteQueue s)) \<and> cached s' j = None \<and> M src' j = None)" for j
      using st f(2) by (simp add: storage_simps)
    have q: "GetRetrieveFailureCount j s' = GetRetrieveFailureCount j s"
      "ds_deleteQueue s' = empty_queue" "ds_storeQueue s' = ds_storeQueue s"
      "ds_retrieveQueue s' = ds_retrieveQueue s" for j
      using st f(2) by (simp_all add: storage_simps GetRetrieveFailureCount_def)
    have "cached s' j = Some u \<Longrightarrow> cached s j = Some u \<and> M src' j = M src j" for j u
      using c [of j] by auto
    moreover have "cached s j = None \<Longrightarrow> cached s' j = None" for j using c [of j] by auto
    ultimately have "coherent M (s', src')"
      using coherentD [OF assms(2)] by (intro coherentI) (simp_all add: q storage_simps)
    then show ?thesis using c [of k] q by (simp add: storage_simps)
  qed
  then show "coherent M (s', src')"
    "(cached s' k = cached s k \<and> M src' k = M src k)
     \<or> (k \<in> set (qu_data (ds_deleteQueue s)) \<and> cached s' k = None \<and> M src' k = None)"
    "qu_data (ds_deleteQueue s') = []" "ds_storeQueue s' = ds_storeQueue s"
    "ds_retrieveQueue s' = ds_retrieveQueue s" by auto
qed

lemma tick_spec:
  assumes "faithful L M" "coherent M (s, src)" "(s', src') = Storage_Tick L dflt now (s, src)"
  shows "coherent M (s', src')"
    and "cached s' k = Some v \<Longrightarrow> M src' k = Some v"
    and "cached s k = Some v \<Longrightarrow> k \<notin> set (qu_data (ds_deleteQueue s)) \<Longrightarrow> cached s' k = Some v"
    and "qu_data (ds_retrieveQueue s') = []" "qu_data (ds_deleteQueue s') = []"
proof -
  obtain s1 src1 where 1: "(s1, src1) = ProcessRetrieveQueue L dflt now (s, src)" by (metis surj_pair)
  obtain s2 src2 where 2: "(s2, src2) = ProcessStoreQueue L dflt (s1, src1)" by (metis surj_pair)
  have 3: "(s', src') = ProcessDeleteQueue L dflt (s2, src2)"
    using assms(3) 1 2 by (simp add: Storage_Tick_def)
  note r = process_retrieve [OF assms(1,2) 1]
  note st = process_store [OF assms(1) r(2) 2]
  note d = process_delete [OF assms(1) st(1) 3]
  show "coherent M (s', src')" by (rule d(1))
  with d(4) st(3) show "cached s' k = Some v \<Longrightarrow> M src' k = Some v" by (simp add: coherent_def)
  show "cached s k = Some v \<Longrightarrow> k \<notin> set (qu_data (ds_deleteQueue s)) \<Longrightarrow> cached s' k = Some v"
    using r(4) [of k v] r(5) st(2,4) d(2) [of k] by auto
  show "qu_data (ds_retrieveQueue s') = []" "qu_data (ds_deleteQueue s') = []"
    using r(3) st(5) d(3,5) by simp_all
qed

section \<open>Histories of a storage\<close>

text \<open>
  The calls the server makes on a storage. A mutation is one whose consumer does not throw, and
  \<open>S_Retry\<close> is guarded the way \<open>DataRepair\<close> guards it: only a datum whose retrieval failed is
  retrieved again.
\<close>

datatype ('k, 'd) storage_op =
    S_Create 'k 'd
  | S_GetOrCreate 'k 'd
  | S_Get 'k bool
  | S_Mutate 'k "'d \<Rightarrow> 'd"
  | S_Save 'k
  | S_Delete 'k
  | S_Retry 'k
  | S_Tick time_point

fun storage_exec ::
  "('k, 'd, 's) listeners \<Rightarrow> 'd \<Rightarrow> ('k, 'd) storage_op \<Rightarrow> ('k, 'd) data_storage \<times> 's \<Rightarrow> ('k, 'd) data_storage \<times> 's"
where
  "storage_exec L dflt (S_Create k d) (s, src) = (snd (Create dflt (k, d) s), src)"
| "storage_exec L dflt (S_GetOrCreate k d) (s, src) = (snd (GetOrCreate dflt (k, d) s), src)"
| "storage_exec L dflt (S_Get k retrieve) (s, src) = (snd (Get dflt k retrieve s), src)"
| "storage_exec L dflt (S_Mutate k f) (s, src) = (snd (Mutable dflt k (\<lambda>d. (Inr (), f d)) s), src)"
| "storage_exec L dflt (S_Save k) (s, src) = (Save k s, src)"
| "storage_exec L dflt (S_Delete k) (s, src) = (Delete k s, src)"
| "storage_exec L dflt (S_Retry k) (s, src) =
     (if GetRetrieveFailureCount k s \<noteq> 0 then RetryRetrieve k s else s, src)"
| "storage_exec L dflt (S_Tick now) w = Storage_Tick L dflt now w"

definition storage_run ::
  "('k, 'd, 's) listeners \<Rightarrow> 'd \<Rightarrow> ('k, 'd) storage_op list \<Rightarrow> ('k, 'd) data_storage \<times> 's \<Rightarrow> ('k, 'd) data_storage \<times> 's"
where
  "storage_run L dflt ops w = fold (storage_exec L dflt) ops w"

text \<open>The operations that change or remove the datum of a key.\<close>

fun touches :: "'k \<Rightarrow> ('k, 'd) storage_op \<Rightarrow> bool" where
  "touches k (S_Mutate j f) \<longleftrightarrow> j = k"
| "touches k (S_Delete j) \<longleftrightarrow> j = k"
| "touches k _ \<longleftrightarrow> False"

text \<open>A key waits to be retrieved only if it has an entry.\<close>

definition tracked :: "('k, 'd) data_storage \<Rightarrow> bool" where
  "tracked s \<longleftrightarrow> (\<forall>k \<in> set (qu_data (ds_retrieveQueue s)). has_key (ds_entries s) k)"

definition storage_inv :: "('s \<Rightarrow> 'k \<Rightarrow> 'd option) \<Rightarrow> ('k, 'd) data_storage \<times> 's \<Rightarrow> bool" where
  "storage_inv M w \<longleftrightarrow> coherent M w \<and> tracked (fst w)"

lemma storage_inv_empty: "storage_inv M (empty_storage, src)"
  by (simp add: storage_inv_def coherent_def tracked_def empty_storage_def cached_def
      queue_ok_def empty_queue_def)

lemma entries_simps [storage_simps]:
  "has_key (ds_entries (set_entry k e s)) j \<longleftrightarrow> j = k \<or> has_key (ds_entries s) j"
  "ds_entries (RequestStore k s) = ds_entries s"
  "ds_entries (RequestRetrieve k s) = ds_entries s"
  "ds_entries (RequestDelete k s) = ds_entries s"
  by (simp_all add: set_entry_def RequestStore_def RequestRetrieve_def RequestDelete_def)

lemma no_key [storage_simps]:
  "\<not> has_key (ds_entries s) k \<Longrightarrow> cached s k = None"
  "\<not> has_key (ds_entries s) k \<Longrightarrow> GetRetrieveFailureCount k s = 0"
  by (simp_all add: cached_def GetRetrieveFailureCount_def)

lemma inv_RequestStore: "storage_inv M (s, src) \<Longrightarrow> storage_inv M (RequestStore k s, src)"
  by (auto simp: storage_inv_def coherent_def tracked_def storage_simps)

lemma inv_RequestDelete: "storage_inv M (s, src) \<Longrightarrow> storage_inv M (RequestDelete k s, src)"
  by (auto simp: storage_inv_def coherent_def tracked_def storage_simps)

lemma inv_RequestRetrieve:
  "storage_inv M (s, src) \<Longrightarrow> has_key (ds_entries s) k \<Longrightarrow> cached s k = None
    \<Longrightarrow> storage_inv M (RequestRetrieve k s, src)"
  by (auto simp: storage_inv_def coherent_def tracked_def storage_simps)

lemma inv_set_entry:
  assumes "storage_inv M (s, src)"
    and "en_available e \<Longrightarrow> en_retrieveFailureCount e = 0 \<and> k \<notin> set (qu_data (ds_retrieveQueue s))
      \<and> (M src k = Some (en_value e) \<or> k \<in> set (qu_data (ds_storeQueue s)))"
  shows "storage_inv M (set_entry k e s, src)"
proof -
  have "coherent M (set_entry k e s, src)"
    using assms by (intro coherentI) (auto simp: storage_inv_def coherent_def storage_simps split: if_splits)
  with assms(1) show ?thesis
    unfolding storage_inv_def tracked_def fst_conv storage_simps by blast
qed

lemma inv_set_stored:
  assumes "storage_inv M (s, src)"
    and "en_available e \<Longrightarrow> en_retrieveFailureCount e = 0 \<and> k \<notin> set (qu_data (ds_retrieveQueue s))"
  shows "storage_inv M (RequestStore k (set_entry k e s), src)"
proof -
  have "RequestStore k (set_entry k e s) = set_entry k e (RequestStore k s)"
    by (simp add: RequestStore_def set_entry_def)
  then show ?thesis
    using inv_set_entry [OF inv_RequestStore [OF assms(1), of k]] assms(2) by (simp add: storage_simps)
qed

lemma inv_fresh:
  assumes "storage_inv M (s, src)" "\<not> has_key (ds_entries s) k"
  shows "k \<notin> set (qu_data (ds_retrieveQueue s))"
  using assms unfolding storage_inv_def tracked_def by auto

lemma inv_cached:
  assumes "storage_inv M (s, src)" "cached s k \<noteq> None"
  shows "k \<notin> set (qu_data (ds_retrieveQueue s))" "GetRetrieveFailureCount k s = 0"
  using assms unfolding storage_inv_def coherent_def by auto

lemma inv_tick:
  assumes "faithful L M" "storage_inv M (s, src)" "(s', src') = Storage_Tick L dflt now (s, src)"
  shows "storage_inv M (s', src')"
  using tick_spec [OF assms(1) _ assms(3)] assms(2) by (simp add: storage_inv_def tracked_def)

lemma inv_Get:
  assumes "storage_inv M (s, src)"
  shows "storage_inv M (snd (Get dflt k retrieve s), src)"
proof (cases "has_key (ds_entries s) k")
  case True
  then have "set_entry k (entry_at dflt k s) s = s"
    by (cases s) (auto simp: set_entry_def entry_at_def umap_put_def update_triv)
  with True assms show ?thesis by (simp add: Get_def Let_def)
next
  case False
  let ?s = "set_entry k (entry_at dflt k s) s"
  have "storage_inv M (?s, src)" "cached ?s k = None"
    using False assms by (auto intro!: inv_set_entry simp: storage_simps)
  moreover have "has_key (ds_entries ?s) k" by (simp only: storage_simps simp_thms)
  ultimately show ?thesis using False inv_RequestRetrieve [of M ?s src k]
    by (simp add: Get_def Let_def storage_simps)
qed

lemma storage_exec_inv:
  assumes "faithful L M" "storage_inv M (s, src)"
  shows "storage_inv M (storage_exec L dflt op (s, src))"
proof (cases op)
  case (S_Mutate k f)
  have "storage_inv M (RequestStore k (set_entry k ((entry_at dflt k s)\<lparr>en_value := f (en_value (entry_at dflt k s))\<rparr>) s), src)"
    using inv_cached [OF assms(2), of k] by (intro inv_set_stored [OF assms(2)]) (simp add: storage_simps)
  with S_Mutate show ?thesis by (simp add: Mutable_def Let_def)
next
  case (S_Retry k)
  have "cached s k = None \<and> has_key (ds_entries s) k" if "GetRetrieveFailureCount k s \<noteq> 0"
    using that inv_cached(2) [OF assms(2), of k] no_key(2) [of s k] by metis
  with S_Retry assms(2) show ?thesis
    by (auto simp: RetryRetrieve_def intro: inv_RequestRetrieve)
next
  case (S_Tick now)
  with inv_tick [OF assms] show ?thesis by (metis storage_exec.simps(8) surj_pair)
next
  case (S_Create k d)
  then show ?thesis
    using assms(2) inv_fresh [OF assms(2), of k]
    by (auto simp: Create_def new_entry_def intro!: inv_set_stored split: if_splits)
next
  case (S_GetOrCreate k d)
  then show ?thesis
    using assms(2) inv_fresh [OF assms(2), of k]
    by (auto simp: GetOrCreate_def new_entry_def intro!: inv_set_stored split: if_splits)
qed (simp_all add: assms inv_Get inv_RequestStore inv_RequestDelete Save_def Delete_def)

lemma storage_run_inv:
  assumes "faithful L M" "storage_inv M w"
  shows "storage_inv M (storage_run L dflt ops w)"
  using assms(2) unfolding storage_run_def
proof (induction ops arbitrary: w)
  case (Cons op ops)
  then show ?case using storage_exec_inv [OF assms(1)] by (cases w) simp
qed simp

text \<open>An operation that does not touch a key keeps what is cached under it.\<close>

lemma storage_exec_keeps:
  assumes "faithful L M" "storage_inv M (s, src)" "(s', src') = storage_exec L dflt op (s, src)"
    and "cached s k = Some v" "k \<notin> set (qu_data (ds_deleteQueue s))" "\<not> touches k op"
  shows "cached s' k = Some v \<and> k \<notin> set (qu_data (ds_deleteQueue s'))"
proof (cases op)
  case (S_Tick now)
  with assms(3) have "(s', src') = Storage_Tick L dflt now (s, src)" by simp
  from tick_spec [OF assms(1) _ this] assms(2,4,5) show ?thesis by (simp add: storage_inv_def)
next
  case (S_Get j r)
  with assms(3-5) show ?thesis
    by (auto simp: Get_def Let_def storage_simps no_key split: if_splits)
next
  case (S_Create j d)
  with assms(3-5) no_key(1) [of s j] show ?thesis
    by (auto simp: Create_def storage_simps split: if_splits)
next
  case (S_GetOrCreate j d)
  with assms(3-5) no_key(1) [of s j] show ?thesis
    by (auto simp: GetOrCreate_def storage_simps split: if_splits)
qed (use assms(3-) in \<open>auto simp: Mutable_def Save_def Delete_def RetryRetrieve_def Let_def storage_simps\<close>)

lemma storage_run_keeps:
  assumes "faithful L M" "storage_inv M (s, src)" "(s', src') = storage_run L dflt ops (s, src)"
    and "cached s k = Some v" "k \<notin> set (qu_data (ds_deleteQueue s))" "list_all (\<lambda>op. \<not> touches k op) ops"
  shows "cached s' k = Some v \<and> k \<notin> set (qu_data (ds_deleteQueue s'))"
  using assms(2-)
proof (induction ops arbitrary: s src)
  case Nil
  then show ?case by (simp add: storage_run_def)
next
  case (Cons op ops)
  obtain s1 src1 where 1: "(s1, src1) = storage_exec L dflt op (s, src)" by (metis surj_pair)
  have "storage_inv M (s1, src1)" using storage_exec_inv [OF assms(1) Cons.prems(1)] 1 by metis
  moreover have "cached s1 k = Some v \<and> k \<notin> set (qu_data (ds_deleteQueue s1))"
    using storage_exec_keeps [OF assms(1) Cons.prems(1) 1 Cons.prems(3,4)] Cons.prems(5) by simp
  moreover have "(s', src') = storage_run L dflt ops (s1, src1)"
    using Cons.prems(2) 1 by (simp add: storage_run_def)
  ultimately show ?case using Cons.IH [of s1 src1] Cons.prems(5) by simp
qed

lemma storage_run_append:
  "storage_run L dflt (ops @ ops') w = storage_run L dflt ops' (storage_run L dflt ops w)"
  "storage_run L dflt (op # ops) w = storage_run L dflt ops (storage_exec L dflt op w)"
  by (simp_all add: storage_run_def)

lemma Mutable_cached:
  assumes "cached s k = Some v"
  shows "cached (snd (Mutable dflt k (\<lambda>d. (Inr (), f d)) s)) k = Some (f v)"
    "ds_deleteQueue (snd (Mutable dflt k c s)) = ds_deleteQueue s"
  using assms by (auto simp: Mutable_def Let_def storage_simps split: prod.splits sum.splits)

text \<open>C2: a change is never lost. Take any history of a storage over a data source that keeps its
  contract, in which the datum of a key is available and not queued for deletion. Mutate the datum
  through its record, let any calls that neither mutate nor delete that key follow (other keys may be
  created, retrieved, changed, deleted, and retrievals may fail), and let the storage tick: the
  changed value is what a record reads and it is what the data source holds.\<close>

theorem mutation_persisted:
  assumes "faithful L M" and "(s, src) = storage_run L dflt before (empty_storage, src0)"
    and "IsAvailable k s" "k \<notin> set (qu_data (ds_deleteQueue s))"
    and "list_all (\<lambda>op. \<not> touches k op) between"
    and "(s', src') = storage_run L dflt (S_Mutate k f # between @ [S_Tick now]) (s, src)"
  shows "IsAvailable k s' \<and> Immutable dflt k s' = f (Immutable dflt k s)
    \<and> M src' k = Some (f (Immutable dflt k s))"
proof -
  have inv: "storage_inv M (s, src)"
    using storage_run_inv [OF assms(1) storage_inv_empty] assms(2) by metis
  obtain v where v: "cached s k = Some v" "Immutable dflt k s = v"
    using assms(3) by (auto simp: IsAvailable_def cached_def Immutable_def entry_at_def split: option.splits)
  let ?m = "snd (Mutable dflt k (\<lambda>d. (Inr (), f d)) s)"
  obtain s2 src2 where 2: "(s2, src2) = storage_run L dflt between (?m, src)" by (metis surj_pair)
  have "storage_inv M (?m, src)" using storage_exec_inv [OF assms(1) inv, of dflt "S_Mutate k f"] by simp
  note keep = storage_run_keeps [OF assms(1) this 2 Mutable_cached(1) [OF v(1)]]
  have inv2: "storage_inv M (s2, src2)"
    using storage_run_inv [OF assms(1) \<open>storage_inv M (?m, src)\<close>] 2 by metis
  have 3: "(s', src') = Storage_Tick L dflt now (s2, src2)"
    using assms(6) 2 by (simp add: storage_run_append) (simp add: storage_run_def)
  from keep assms(4,5) v(1) have "cached s2 k = Some (f v)" "k \<notin> set (qu_data (ds_deleteQueue s2))"
    by (simp_all add: Mutable_cached)
  with tick_spec [OF assms(1) _ 3] inv2 have "cached s' k = Some (f v)" "M src' k = Some (f v)"
    by (simp_all add: storage_inv_def)
  with v(2) show ?thesis
    by (auto simp: cached_def IsAvailable_def Immutable_def entry_at_def split: option.splits if_splits)
qed

text \<open>A data source that keeps the contract: a map of its own.\<close>

definition map_listeners :: "('k, 'd, ('k, 'd) umap) listeners" where
  "map_listeners = \<lparr>
     retrieveListener = (\<lambda>k d src. case map_of src k of None \<Rightarrow> (False, d) | Some v \<Rightarrow> (True, v)),
     storeListener = (\<lambda>k d src. (True, umap_put k d src)),
     deleteListener = (\<lambda>k src. (has_key src k, umap_erase k src))\<rparr>"

lemma faithful_map: "faithful map_listeners map_of"
  by (auto simp: faithful_def map_listeners_def fun_eq_iff split: option.splits)

lemma mutation_persisted_witness:
  "let (s, src) = storage_run map_listeners (0::nat) [S_Get (1::nat) True, S_Get 2 True, S_Tick 0]
                    (empty_storage, [(1, 10)]);
       (s', src') = storage_run map_listeners 0
                      (S_Mutate 1 Suc # [S_Create 3 30, S_Delete 3, S_Retry 2, S_Tick 5, S_Get 1 True] @ [S_Tick 9])
                      (s, src)
   in IsAvailable 1 s' \<and> Immutable 0 1 s' = 11 \<and> map_of src' 1 = Some 11"
proof -
  let ?b = "[S_Get (1::nat) True, S_Get 2 True, S_Tick 0] :: (nat, nat) storage_op list"
  let ?m = "[S_Create (3::nat) (30::nat), S_Delete 3, S_Retry 2, S_Tick 5, S_Get 1 True]"
  obtain s src where s: "(s, src) = storage_run map_listeners (0::nat) ?b (empty_storage, [(1, 10)])"
    by (metis surj_pair)
  obtain s' src' where s': "(s', src') =
      storage_run map_listeners 0 (S_Mutate 1 Suc # ?m @ [S_Tick 9]) (s, src)" by (metis surj_pair)
  have "storage_run map_listeners (0::nat) ?b (empty_storage, [(1, 10)]) =
    (\<lparr>ds_entries =
        [(1, \<lparr>en_available = True, en_retrieveFailureCount = 0, en_firstRetrieveFailure = 0, en_value = 10\<rparr>),
         (2, \<lparr>en_available = False, en_retrieveFailureCount = 1, en_firstRetrieveFailure = 0, en_value = 0\<rparr>)],
      ds_retrieveQueue = empty_queue, ds_storeQueue = empty_queue, ds_deleteQueue = empty_queue\<rparr>, [(1, 10)])"
    by code_simp
  with s have at: "IsAvailable 1 s" "1 \<notin> set (qu_data (ds_deleteQueue s))" "Immutable 0 1 s = 10"
    by (simp_all add: IsAvailable_def Immutable_def entry_at_def empty_queue_def)
  have "list_all (\<lambda>op. \<not> touches 1 op) ?m" by simp
  from mutation_persisted [OF faithful_map s at(1,2) this s'] at(3) s s' show ?thesis
    by (simp add: Let_def case_prod_unfold prod_eq_iff)
qed

text \<open>C5: a clean shutdown loses nothing. After any history over a data source that keeps its
  contract, terminating the storage leaves every datum that is available and not queued for deletion
  in the data source with its latest value, whether or not a store was requested for it, and empties
  the cache.\<close>

theorem terminate_saves:
  assumes "faithful L M" and "(s, src) = storage_run L dflt ops (empty_storage, src0)"
    and "IsAvailable k s" "k \<notin> set (qu_data (ds_deleteQueue s))"
    and "(s', src') = Terminate L dflt now (s, src)"
  shows "M src' k = Some (Immutable dflt k s) \<and> ds_entries s' = []"
proof -
  obtain v where v: "cached s k = Some v" "Immutable dflt k s = v"
    using assms(3) by (auto simp: IsAvailable_def cached_def Immutable_def entry_at_def split: option.splits)
  have inv: "storage_inv M (s, src)"
    using storage_run_inv [OF assms(1) storage_inv_empty] assms(2) by metis
  have *: "storage_inv M (fold RequestStore ks u, src) \<and> cached (fold RequestStore ks u) k = cached u k
      \<and> ds_deleteQueue (fold RequestStore ks u) = ds_deleteQueue u" if "storage_inv M (u, src)" for ks u
    using that by (induction ks arbitrary: u) (simp_all add: inv_RequestStore storage_simps)
  let ?s1 = "fold RequestStore (map fst (filter (\<lambda>(k, e). en_available e) (ds_entries s))) s"
  obtain s2 src2 where 2: "(s2, src2) = Storage_Tick L dflt now (?s1, src)" by (metis surj_pair)
  have "M src2 k = Some v"
    using tick_spec(2,3) [OF assms(1) _ 2] * [OF inv] v(1) assms(4) by (simp add: storage_inv_def)
  moreover have "s' = s2\<lparr>ds_entries := []\<rparr>" "src' = src2"
    using assms(5) by (simp_all add: Terminate_def Let_def 2 [symmetric])
  ultimately show ?thesis using v(2) by simp
qed

lemma terminate_saves_witness:
  "let (s, src) = storage_run map_listeners (0::nat) [S_Get (1::nat) True, S_Tick 0, S_Mutate 1 Suc]
                    (empty_storage, [(1, 10)]);
       (s', src') = Terminate map_listeners 0 7 (s, src)
   in map_of src' 1 = Some 11"
proof -
  let ?b = "[S_Get (1::nat) True, S_Tick 0, S_Mutate 1 Suc] :: (nat, nat) storage_op list"
  obtain s src where s: "(s, src) = storage_run map_listeners (0::nat) ?b (empty_storage, [(1, 10)])"
    by (metis surj_pair)
  obtain s' src' where s': "(s', src') = Terminate map_listeners 0 7 (s, src)" by (metis surj_pair)
  have "storage_run map_listeners (0::nat) ?b (empty_storage, [(1, 10)]) =
    (\<lparr>ds_entries =
        [(1, \<lparr>en_available = True, en_retrieveFailureCount = 0, en_firstRetrieveFailure = 0, en_value = 11\<rparr>)],
      ds_retrieveQueue = empty_queue, ds_storeQueue = \<lparr>qu_dataFlag = True, qu_data = [1]\<rparr>,
      ds_deleteQueue = empty_queue\<rparr>, [(1, 10)])"
    by code_simp
  with s have at: "IsAvailable 1 s" "1 \<notin> set (qu_data (ds_deleteQueue s))" "Immutable 0 1 s = 11"
    by (simp_all add: IsAvailable_def Immutable_def entry_at_def empty_queue_def)
  from terminate_saves [OF faithful_map s at(1,2) s'] at(3) s s' show ?thesis
    by (simp add: Let_def case_prod_unfold prod_eq_iff)
qed

end
