(* ===== verification/Race_Instance.thy ===== *)
theory Race_Instance imports Race_State begin

text \<open>
  \<open>server/race/RaceInstance.cpp\<close>: the preparation of a race, its stages, its results and what happens on
  the course in every tick.

  \<^item> A method of the instance of a room is an action of the race server with the number of the room.
  \<^item> The draws of the random engine are arguments: the index of a random map, and for the deck with a
    given object id the coin toss for a positional spawner and the index of its item.
  \<^item> The scoreboard is sorted stably; the code leaves the order of equal racers open.
\<close>

section \<open>Preparation\<close>

type_synonym 'a instance_act = "(race_instance, 'a) act"

definition PrepareGameMode :: "race_env \<Rightarrow> unit instance_act" where
  "PrepareGameMode env =
     seq (modify (\<lambda>i. i\<lparr>in_gameModeId := ucast (pa_gameMode (in_parameters i))\<rparr>)) (\<lambda>_.
     seq get_state (\<lambda>i.
     seq (lift (GetCourseGameModeInfo env (in_gameModeId i))) (\<lambda>info.
     modify (\<lambda>i. i\<lparr>in_gameModeInfo := info\<rparr>))))"

definition level_suffices :: "race_env \<Rightarrow> u32 \<Rightarrow> u32 \<Rightarrow> bool" where
  "level_suffices env masterLevel k =
     (case GetMapBlockInfo env k of Inl _ \<Rightarrow> False | Inr info \<Rightarrow> mb_requiredLevel info \<le> masterLevel)"

definition PickRandomMapFromCourse :: "race_env \<Rightarrow> exn + u32 \<Rightarrow> nat \<Rightarrow> unit instance_act" where
  "PickRandomMapFromCourse env masterLevel draw =
     seq (lift masterLevel) (\<lambda>level.
     seq get_state (\<lambda>i.
     let filtered = filter (level_suffices env level) (gm_mapBlockPool (in_gameModeInfo i))
     in if filtered = [] then lift (Inl (OutOfRange ''filtered''))
        else modify (\<lambda>i. i\<lparr>in_mapBlockId := filtered ! (draw mod length filtered)\<rparr>)))"

definition PickRandomItemFromDeck :: "nat \<Rightarrow> item_deck \<Rightarrow> item_deck" where
  "PickRandomItemFromDeck draw deck =
     (if id_items deck = [] then deck
      else deck\<lparr>id_currentItem := id_items deck ! (draw mod length (id_items deck))\<rparr>)"

text \<open>The lookups of \<open>std::erase_if\<close> may throw.\<close>

fun solo_items :: "race_env \<Rightarrow> u32 list \<Rightarrow> exn + u32 list" where
  "solo_items env [] = Inr []"
| "solo_items env (k # ks) =
     bnd (GetDeckItemSlot env k) (\<lambda>magicSlot.
     bnd (GetSlotInfo (env_magic env) magicSlot) (\<lambda>slotInfo.
     bnd (solo_items env ks) (\<lambda>rest.
     Inr (if sl_teamMode slotInfo \<noteq> 0 then rest else k # rest))))"

definition deck_items :: "race_env \<Rightarrow> race_parameters \<Rightarrow> bool \<Rightarrow> u32 list \<Rightarrow> exn + u32 list" where
  "deck_items env p positional items =
     (if pa_gameMode p = Mode_Magic_Race
      then if positional then Inr [412]
           else if pa_teamMode p \<noteq> Teams_Team then solo_items env items else Inr items
      else Inr items)"

definition add_deck ::
  "race_env \<Rightarrow> (oid \<Rightarrow> bool \<times> nat) \<Rightarrow> deck_info \<Rightarrow> wire_vector3 \<Rightarrow> unit instance_act" where
  "add_deck env draws info position =
     seq get_state (\<lambda>i.
     case AddItemDeck (in_tracker i) of
       (Inl x, t) \<Rightarrow> lift (Inl x)
     | (Inr deck, t) \<Rightarrow>
         seq (modify (\<lambda>i. i\<lparr>in_tracker := t\<rparr>)) (\<lambda>_.
         case draws (id_oid deck) of (positional, draw) \<Rightarrow>
         let deck = deck\<lparr>id_items := dk_items info, id_respawnTime := dk_respawnTime info\<rparr> in
         seq (modify (\<lambda>i. i\<lparr>in_tracker := set_item_deck (id_oid deck) deck t\<rparr>)) (\<lambda>_.
         seq (lift (deck_items env (in_parameters i) positional (dk_items info))) (\<lambda>items.
         let deck = deck\<lparr>id_items := items, id_position := env_move env position (mb_offset (in_mapBlockInfo i))\<rparr>
         in modify (\<lambda>i. i\<lparr>in_tracker := set_item_deck (id_oid deck) (PickRandomItemFromDeck draw deck) t\<rparr>)))))"

definition PrepareItemDecks :: "race_env \<Rightarrow> (oid \<Rightarrow> bool \<times> nat) \<Rightarrow> unit instance_act" where
  "PrepareItemDecks env draws =
     seq get_state (\<lambda>i.
     for_each (gm_usedDeckIds (in_gameModeInfo i)) (\<lambda>usedDeckId.
     seq (lift (GetDeckInfo env usedDeckId)) (\<lambda>info.
     for_each (filter (\<lambda>d. di_deckId d = usedDeckId) (mb_itemDecks (in_mapBlockInfo i)))
       (\<lambda>d. add_deck env draws info (di_position d)))))"

definition is_course :: "u32 \<Rightarrow> bool" where
  "is_course k \<longleftrightarrow> k = 10000 \<or> k = 10001 \<or> k = 10002"

text \<open>Any exception of the preparation of the item decks becomes a \<open>std::runtime_error\<close>.\<close>

definition rethrow :: "string \<Rightarrow> 'a instance_act \<Rightarrow> 'a instance_act" where
  "rethrow description m i =
     (case m i of (Inl e, i) \<Rightarrow> (Inl (RuntimeError (description @ what e)), i) | (Inr x, i) \<Rightarrow> (Inr x, i))"

definition PrepareMap ::
  "race_env \<Rightarrow> exn + u32 \<Rightarrow> nat \<Rightarrow> (oid \<Rightarrow> bool \<times> nat) \<Rightarrow> unit instance_act" where
  "PrepareMap env masterLevel mapDraw draws =
     seq get_state (\<lambda>i.
     if gm_mapBlockPool (in_gameModeInfo i) = [] then throw ''Game mode does not have any maps''
     else
       seq (if is_course (pa_mapBlockId (in_parameters i))
            then PickRandomMapFromCourse env masterLevel mapDraw
            else modify (\<lambda>i. i\<lparr>in_mapBlockId := pa_mapBlockId (in_parameters i)\<rparr>)) (\<lambda>_.
       seq get_state (\<lambda>i.
       seq (lift (GetMapBlockInfo env (in_mapBlockId i))) (\<lambda>info.
       seq (modify (\<lambda>i. i\<lparr>in_mapBlockInfo := info\<rparr>)) (\<lambda>_.
       rethrow ''Exception while preparing items: '' (PrepareItemDecks env draws))))))"

text \<open>Only a \<open>std::runtime_error\<close> is caught.\<close>

definition Start ::
  "race_env \<Rightarrow> exn + u32 \<Rightarrow> nat \<Rightarrow> (oid \<Rightarrow> bool \<times> nat) \<Rightarrow> time_point \<Rightarrow> race_parameters \<Rightarrow> bool instance_act" where
  "Start env masterLevel mapDraw draws now parameters i =
     (case seq (modify (\<lambda>i. i\<lparr>in_parameters := parameters\<rparr>)) (\<lambda>_.
           seq (PrepareGameMode env) (\<lambda>_. PrepareMap env masterLevel mapDraw draws)) i of
        (Inl (RuntimeError _), i) \<Rightarrow> (Inr False, i)
      | (Inl x, i) \<Rightarrow> (Inl x, i)
      | (Inr _, i) \<Rightarrow> (Inr True, i\<lparr>in_stage := Stage_Loading, in_loadingStart := Some now,
                               in_stageTimeout := Some (now + seconds 60)\<rparr>))"

section \<open>Results\<close>

definition Bit_LevelUp :: u32 where "Bit_LevelUp = push_bit 1 1"
definition Bit_Connected :: u32 where "Bit_Connected = push_bit 6 1"
definition Bit_EventBonusCarrots :: u32 where "Bit_EventBonusCarrots = push_bit 11 1"
definition Bit_EventBonusExperience :: u32 where "Bit_EventBonusExperience = push_bit 12 1"

fun first_finisher :: "racer list \<Rightarrow> u32 \<Rightarrow> TeamColor \<Rightarrow> TeamColor" where
  "first_finisher [] best winningTeam = winningTeam"
| "first_finisher (r # rs) best winningTeam =
     (if ra_state r \<noteq> Disconnected \<and> ra_courseTime r \<noteq> InvalidCourseTime \<and> ra_courseTime r < best
      then first_finisher rs (ra_courseTime r) (ra_team r)
      else first_finisher rs best winningTeam)"

definition winning_team :: "race_instance \<Rightarrow> TeamColor" where
  "winning_team i =
     (if pa_teamMode (in_parameters i) = Teams_Team
      then first_finisher (vals_of (rt_racers (in_tracker i))) InvalidCourseTime Color_Solo
      else Color_Solo)"

text \<open>The two rewards and their bits: \<open>env_carrots\<close> gives the carrots without and with the event bonus, and
  the doubled experience is exact in a float.\<close>

definition reward :: "race_env \<Rightarrow> u16 \<Rightarrow> racer \<Rightarrow> u32 \<times> u32 \<times> u32" where
  "reward env bonus r =
     (if ra_courseTime r = InvalidCourseTime then (2500, 420, 0)
      else let event_carrots = (bonus = 1 \<or> bonus = 3); event_experience = (bonus = 2 \<or> bonus = 3)
           in (env_carrots env event_carrots, if event_experience then 840 else 420,
               (if event_carrots then Bit_EventBonusCarrots else 0)
               OR (if event_experience then Bit_EventBonusExperience else 0)))"

definition score_racer :: "race_env \<Rightarrow> u16 \<Rightarrow> uid \<Rightarrow> racer \<Rightarrow> score race_act" where
  "score_racer env bonus u r =
     (case reward env bonus r of (carrots, experience, bits) \<Rightarrow>
      seq (get_character u) (\<lambda>ch.
      let total = ch_experience ch + experience;
          newLevel = GetLevelForExp env total;
          levelUp = (newLevel > ch_level ch);
          ch = ch\<lparr>ch_carrots := ch_carrots ch + carrots, ch_experience := total,
                 ch_level := (if levelUp then newLevel else ch_level ch)\<rparr>
      in seq (put_character u ch) (\<lambda>_.
         seq (get_horse (ch_mountUid ch)) (\<lambda>h.
         pure \<lparr>sc_uid = u, sc_name = ch_name ch,
           sc_bitset = (if ra_state r \<noteq> Disconnected then Bit_Connected else 0) OR bits
              OR (if levelUp then Bit_LevelUp else 0),
           sc_courseTime = (if ra_state r \<noteq> Disconnected then ra_courseTime r else InvalidCourseTime),
           sc_experience = experience, sc_carrots = carrots, sc_teamColor = ra_team r,
           sc_level = ch_level ch, sc_levelProgress = ch_experience ch, sc_mountName = ho_name h,
           sc_horseClass = ucast (ho_clazz h), sc_horseClassProgress = ho_clazzProgress h,
           sc_growthPoints = ucast (ho_growthPoints h)\<rparr>))))"

fun score_loop :: "race_env \<Rightarrow> u16 \<Rightarrow> (uid \<times> racer) list \<Rightarrow> score list race_act" where
  "score_loop env bonus [] = pure []"
| "score_loop env bonus ((u, r) # rs) =
     seq (score_racer env bonus u r) (\<lambda>sc.
     seq (score_loop env bonus rs) (\<lambda>scs. pure (sc # scs)))"

definition result_rank :: "score \<Rightarrow> nat" where
  "result_rank sc = (if sc_bitset sc AND Bit_Connected = 0 then 2
     else if sc_courseTime sc < InvalidCourseTime then 0 else 1)"

definition priority :: "TeamColor \<Rightarrow> score \<Rightarrow> nat \<times> nat \<times> u32" where
  "priority winningTeam sc =
     (if sc_teamColor sc \<noteq> winningTeam then 1 else 0, result_rank sc, sc_courseTime sc)"

definition sort_scores :: "TeamColor \<Rightarrow> score list \<Rightarrow> score list" where
  "sort_scores winningTeam scs = sort_key (priority winningTeam) scs"

text \<open>The master after the race: the best racer of the board that is still in the room.\<close>

definition next_master :: "room \<Rightarrow> score list \<Rightarrow> uid option" where
  "next_master room scs =
     (if rm_players room = [] then None
      else map_option sc_uid (find (\<lambda>sc. HasPlayer (sc_uid sc) room) scs))"

definition choose_master :: "u32 \<Rightarrow> score list \<Rightarrow> unit race_act" where
  "choose_master u scs =
     (if scs = [] then pure ()
      else seq (get_room u) (\<lambda>room.
        case next_master room scs of
          None \<Rightarrow> pure ()
        | Some m \<Rightarrow>
            seq (put_room u (room\<lparr>rm_details := (rm_details room)\<lparr>rd_masterUid := m\<rparr>\<rparr>)) (\<lambda>_.
            if m = InvalidUid then pure ()
            else seq (get_user m) (\<lambda>_. broadcast u (Room_msg (ChangeMasterNotify m))))))"

text \<open>The players are made unready and told their balance one after the other.\<close>

definition settle_player :: "u32 \<Rightarrow> uid \<Rightarrow> player \<Rightarrow> unit race_act" where
  "settle_player u c p =
     seq (get_room u) (\<lambda>room.
     seq (put_room u (room\<lparr>rm_players := umap_put c (SetReady False p) (rm_players room)\<rparr>)) (\<lambda>_.
     seq (get_character c) (\<lambda>ch.
     send (pl_clientId p) (Course_msg (UpdateGameMoney (ch_carrots ch))))))"

definition settle_room :: "u32 \<Rightarrow> unit race_act" where
  "settle_room u =
     seq (get_room u) (\<lambda>room.
     seq (put_room u (SetRoomPlaying False room)) (\<lambda>_.
     for_each (rm_players room) (\<lambda>(c, p). settle_player u c p)))"

definition Stop :: "race_env \<Rightarrow> u32 \<Rightarrow> unit race_act" where
  "Stop env u =
     seq (get_instance u) (\<lambda>i.
     seq (score_loop env (in_bonusCourseType i) (rt_racers (in_tracker i))) (\<lambda>scs.
     let scs = sort_scores (winning_team i) scs in
     seq (broadcast u (Course_msg (RaceResultNotify scs))) (\<lambda>_.
     seq (choose_master u scs) (\<lambda>_. settle_room u))))"

section \<open>Stages\<close>

definition reached :: "time_point \<Rightarrow> time_point option \<Rightarrow> bool" where
  "reached now timeout = (case timeout of None \<Rightarrow> False | Some t \<Rightarrow> now \<ge> t)"

definition all_racers :: "(racer \<Rightarrow> bool) \<Rightarrow> race_instance \<Rightarrow> bool" where
  "all_racers P i = list_all P (vals_of (rt_racers (in_tracker i)))"

definition disconnect_unloaded :: "race_tracker \<Rightarrow> race_tracker" where
  "disconnect_unloaded t = t\<lparr>rt_racers := map (\<lambda>(u, r).
     (u, if ra_state r \<noteq> Racing then r\<lparr>ra_state := Disconnected\<rparr> else r)) (rt_racers t)\<rparr>"

definition TickLoading :: "race_env \<Rightarrow> time_point \<Rightarrow> u32 \<Rightarrow> unit race_act" where
  "TickLoading env now u =
     seq (get_instance u) (\<lambda>i.
     if \<not> all_racers (\<lambda>r. ra_state r = Racing \<or> ra_state r = Disconnected) i
        \<and> \<not> reached now (in_stageTimeout i)
     then pure ()
     else
       let i = i\<lparr>in_tracker := disconnect_unloaded (in_tracker i)\<rparr> in
       seq (put_instance u i) (\<lambda>_.
       seq (lift (GetMapBlockInfo env (in_mapBlockId i))) (\<lambda>info.
       let start = now + seconds (uint (mb_waitTime info)) in
       seq (put_instance u (i\<lparr>in_stage := Stage_Racing, in_raceStart := Some start,
              in_stageTimeout := (if pa_teamMode (in_parameters i) = Teams_Single then None
                                  else Some (now + seconds (uint (mb_timeLimit info))))\<rparr>)) (\<lambda>_.
       broadcast u (Course_msg (UserRaceCountdown (of_int (start div 100))))))))"

definition TickRacing :: "time_point \<Rightarrow> u32 \<Rightarrow> unit race_act" where
  "TickRacing now u =
     seq (get_instance u) (\<lambda>i.
     let raceTimeoutReached = reached now (in_stageTimeout i);
         isFinishing = \<not> all_racers (\<lambda>r. ra_state r \<noteq> Finishing) i
     in if \<not> isFinishing \<and> \<not> raceTimeoutReached then pure ()
        else seq (put_instance u (i\<lparr>in_stage := Stage_Finishing,
                    in_stageTimeout := Some (now + seconds 15)\<rparr>)) (\<lambda>_.
          if \<not> raceTimeoutReached then pure ()
          else seq (get_room u) (\<lambda>room.
            for_each (rm_players room) (\<lambda>(c, p).
              if \<not> IsRacer c (in_tracker i) then pure ()
              else send (pl_clientId p) (Course_msg (UserRaceFinalNotify 0 0))))))"

definition TickFinishing :: "race_env \<Rightarrow> time_point \<Rightarrow> u32 \<Rightarrow> unit race_act" where
  "TickFinishing env now u =
     seq (get_instance u) (\<lambda>i.
     if \<not> all_racers (\<lambda>r. ra_state r = Finishing \<or> ra_state r = Disconnected) i
        \<and> \<not> reached now (in_stageTimeout i)
     then pure ()
     else seq (Stop env u) (\<lambda>_.
       seq (get_instance u) (\<lambda>i. put_instance u (i\<lparr>in_stage := Stage_Waiting\<rparr>))))"

section \<open>The course\<close>

text \<open>\<open>processItemSpawn\<close>: what becomes of an item for a racer, and whether it is created for the client.\<close>

definition process_item ::
  "race_env \<Rightarrow> bool \<Rightarrow> oid \<Rightarrow> wire_vector3 \<Rightarrow> racer \<Rightarrow> bool \<times> racer" where
  "process_item env firstPass i position r =
     (let isInProximity = env_near env (ra_worldPosition r) position in
      if i \<in> set (ra_trackedDecks r)
      then (False, if isInProximity then r else r\<lparr>ra_trackedDecks := uset_erase i (ra_trackedDecks r)\<rparr>)
      else if \<not> isInProximity \<and> \<not> firstPass then (False, r)
      else (True, r\<lparr>ra_trackedDecks := uset_insert i (ra_trackedDecks r)\<rparr>))"

definition spawn_item ::
  "race_env \<Rightarrow> u32 \<Rightarrow> uid \<Rightarrow> client_id \<Rightarrow> oid \<Rightarrow> u32 \<Rightarrow> wire_vector3 \<Rightarrow> u32 \<Rightarrow> unit race_act" where
  "spawn_item env u c client i itemType position spawnStyle =
     seq (get_instance u) (\<lambda>inst.
     seq (lift (GetRacer c (in_tracker inst))) (\<lambda>r.
     seq (put_racer u c (snd (process_item env (rt_firstPassItemSpawn (in_tracker inst)) i position r))) (\<lambda>_.
     if fst (process_item env (rt_firstPassItemSpawn (in_tracker inst)) i position r)
     then send client (Magic_msg (CreateItem i itemType position spawnStyle)) else pure ())))"

definition TickItemSpawners :: "race_env \<Rightarrow> time_point \<Rightarrow> u32 \<Rightarrow> unit race_act" where
  "TickItemSpawners env now u =
     seq (get_room u) (\<lambda>room.
     seq (for_each (rm_players room) (\<lambda>(c, p).
       seq (get_instance u) (\<lambda>i.
       case map_of (rt_racers (in_tracker i)) c of
         None \<Rightarrow> pure ()
       | Some racer \<Rightarrow>
           seq (for_each (vals_of (rt_itemDecks (in_tracker i))) (\<lambda>d.
             case map_of (ra_deckCooldown racer) (id_oid d) of
               Some t \<Rightarrow> if now < t then pure ()
                 else spawn_item env u c (pl_clientId p) (id_oid d) (id_currentItem d) (id_position d) 0
             | None \<Rightarrow> spawn_item env u c (pl_clientId p) (id_oid d) (id_currentItem d) (id_position d) 0)) (\<lambda>_.
           for_each (ra_eventItems racer) (\<lambda>e.
             spawn_item env u c (pl_clientId p) (ei_oid e) (ei_itemType e) (ei_position e) 3))))) (\<lambda>_.
     seq (get_instance u) (\<lambda>i. put_tracker u ((in_tracker i)\<lparr>rt_firstPassItemSpawn := False\<rparr>))))"

definition has_gauge_buff :: "racer \<Rightarrow> bool" where
  "has_gauge_buff r \<longleftrightarrow> has_effect r Effect_BufGauge \<or> has_effect r Effect_BufGaugeCritical"

definition gained_per_tick :: "regen_info \<Rightarrow> set_bonus_info \<Rightarrow> racer \<Rightarrow> u32" where
  "gained_per_tick regen bonus r =
     (let g = ri_pointPerTick regen * (1000 + ri_courageScaleBp regen * ms_courage (ra_mountStats r)) div 1000;
          g = (if ra_activeSetEffect r = PassiveGaugeFaster then g * (10000 + sb_passiveGaugeScaleBp bonus) div 10000 else g);
          g = (if has_gauge_buff r then g * 2 else g)
      in if ra_magicItem r \<noteq> None then g * sb_holdingGaugeScaleBp bonus div 10000 else g)"

text \<open>One racer in \<open>TickMagicGauge\<close>. The interval of the configuration is not zero: the code divides by it.\<close>

definition regen_gauge ::
  "regen_info \<Rightarrow> set_bonus_info \<Rightarrow> u32 \<Rightarrow> time_point \<Rightarrow> time_point \<Rightarrow> racer \<Rightarrow> racer" where
  "regen_gauge regen bonus starPointsMax raceStart now r =
     (let last = (case ra_lastGaugeUpdate r of None \<Rightarrow> raceStart | Some t \<Rightarrow> t);
          r = r\<lparr>ra_lastGaugeUpdate := Some last\<rparr>;
          elapsedTickCount = (now - last) div milliseconds (uint (ri_intervalMs regen))
      in if elapsedTickCount > 0
         then let r = r\<lparr>ra_lastGaugeUpdate := Some now\<rparr>;
                  canRegen = (ra_magicItem r = None \<or> ra_activeSetEffect r = GaugeWhileHolding)
              in if canRegen \<and> ra_starPointValue r < starPointsMax
                 then r\<lparr>ra_starPointValue := min starPointsMax
                        (ra_starPointValue r + gained_per_tick regen bonus r * of_int elapsedTickCount)\<rparr>
                 else r
         else r)"

definition TickMagicGauge :: "race_env \<Rightarrow> time_point \<Rightarrow> u32 \<Rightarrow> unit race_act" where
  "TickMagicGauge env now u =
     seq (get_instance u) (\<lambda>i.
     case in_raceStart i of
       None \<Rightarrow> pure ()
     | Some raceStart \<Rightarrow>
         if now \<le> raceStart then pure ()
         else seq (get_room u) (\<lambda>room.
           for_each (rm_players room) (\<lambda>(c, p).
             seq (get_instance u) (\<lambda>i.
             case map_of (rt_racers (in_tracker i)) c of
               None \<Rightarrow> pure ()
             | Some racer \<Rightarrow>
                 let starPointsMax = gm_starPointsMax (in_gameModeInfo i);
                     r = regen_gauge (mr_regenInfo (env_magic env)) (mr_setBonusInfo (env_magic env))
                           starPointsMax raceStart now racer
                 in seq (put_racer u c r) (\<lambda>_.
                    send (pl_clientId p) (Course_msg (StarPointGetOK (ra_oid r) (ra_starPointValue r)
                      (ra_magicItem r = None \<and> ra_starPointValue r \<ge> starPointsMax))))))))"

definition TickActiveRaceContent :: "race_env \<Rightarrow> time_point \<Rightarrow> u32 \<Rightarrow> unit race_act" where
  "TickActiveRaceContent env now u =
     seq (TickItemSpawners env now u) (\<lambda>_.
     seq (get_instance u) (\<lambda>i.
     if pa_gameMode (in_parameters i) = Mode_Magic_Race then TickMagicGauge env now u else pure ()))"

definition Instance_Tick :: "race_env \<Rightarrow> time_point \<Rightarrow> u32 \<Rightarrow> unit race_act" where
  "Instance_Tick env now u =
     seq (try_catch (seq (get_instance u) (\<lambda>i.
       case in_stage i of
         Stage_Waiting \<Rightarrow> pure ()
       | Stage_Loading \<Rightarrow> TickLoading env now u
       | Stage_Racing \<Rightarrow> TickRacing now u
       | Stage_Finishing \<Rightarrow> TickFinishing env now u))) (\<lambda>_.
     try_catch (seq (get_instance u) (\<lambda>i.
       case in_stage i of
         Stage_Waiting \<Rightarrow> pure ()
       | Stage_Loading \<Rightarrow> pure ()
       | Stage_Racing \<Rightarrow> TickActiveRaceContent env now u
       | Stage_Finishing \<Rightarrow> TickActiveRaceContent env now u)))"

end
