(* ===== verification/Race_Stages.thy ===== *)
theory Race_Stages imports Race_Instance begin

text \<open>
  What a race does over its stages: it always ends, its scoreboard is led by the fastest racer, and its
  decks hold only spells the racers may use.
\<close>

section \<open>Updating a racer\<close>

definition with_racer :: "u32 \<Rightarrow> race_instance \<Rightarrow> uid \<Rightarrow> racer \<Rightarrow> race_server \<Rightarrow> race_server" where
  "with_racer u i c r s = s\<lparr>sv_raceInstances :=
     umap_put u (i\<lparr>in_tracker := set_racer c r (in_tracker i)\<rparr>) (sv_raceInstances s)\<rparr>"

text \<open>\<open>P\<close> survives when a racer of a race is changed in a way \<open>good\<close> allows.\<close>

definition racer_update_ok ::
  "(race_server \<Rightarrow> bool) \<Rightarrow> u32 \<Rightarrow> (race_instance \<Rightarrow> racer \<Rightarrow> racer \<Rightarrow> bool) \<Rightarrow> bool" where
  "racer_update_ok P u good \<longleftrightarrow> (\<forall>s i c r r'. P s \<longrightarrow> map_of (sv_raceInstances s) u = Some i \<longrightarrow>
     map_of (rt_racers (in_tracker i)) c = Some r \<longrightarrow> good i r r' \<longrightarrow> P (with_racer u i c r' s))"

lemma put_racer_eq:
  "put_racer u c r s = (case map_of (sv_raceInstances s) u of
     None \<Rightarrow> (Inl (RuntimeError ''Race instance does not exist''), s)
   | Some i \<Rightarrow> (Inr (), with_racer u i c r s))"
  by (simp add: put_racer_def put_instance_def get_instance_def with_racer_def act_defs split: option.splits)

lemma preserves_update_racer:
  assumes "racer_update_ok P u good" "\<And>i r. good i r (F i r)"
    and "\<And>i. preserves P (m i)" "\<And>i r. preserves P (n i r)"
  shows "preserves P (seq (get_instance u) (\<lambda>i. case map_of (rt_racers (in_tracker i)) c of
     None \<Rightarrow> m i | Some r \<Rightarrow> seq (put_racer u c (F i r)) (\<lambda>_. n i r)))"
proof (rule preservesI)
  fix s assume P: "P s"
  let ?a = "seq (get_instance u) (\<lambda>i. case map_of (rt_racers (in_tracker i)) c of
     None \<Rightarrow> m i | Some r \<Rightarrow> seq (put_racer u c (F i r)) (\<lambda>_. n i r))"
  show "P (snd (?a s))"
  proof (cases "map_of (sv_raceInstances s) u")
    case None
    with P show ?thesis by (simp add: seq_def get_instance_def)
  next
    case (Some i)
    show ?thesis
    proof (cases "map_of (rt_racers (in_tracker i)) c")
      case None
      with Some P preservesD [OF assms(3) P] show ?thesis by (simp add: seq_def get_instance_def)
    next
      case r: (Some r)
      have "P (with_racer u i c (F i r) s)"
        using assms(1,2) P Some r unfolding racer_update_ok_def by blast
      from preservesD [OF assms(4) this] Some r show ?thesis
        by (simp add: seq_def get_instance_def put_racer_eq)
    qed
  qed
qed

lemma preserves_update_racer':
  assumes "racer_update_ok P u good" "\<And>i r. good i r (F i r)" "\<And>i r. preserves P (n i r)"
  shows "preserves P (seq (get_instance u) (\<lambda>i. seq (lift (GetRacer c (in_tracker i))) (\<lambda>r.
     seq (put_racer u c (F i r)) (\<lambda>_. n i r))))"
proof -
  have "seq (lift (GetRacer c (in_tracker i))) (\<lambda>r. seq (put_racer u c (F i r)) (\<lambda>_. n i r)) =
    (case map_of (rt_racers (in_tracker i)) c of
       None \<Rightarrow> throw ''Character is not a racer'' | Some r \<Rightarrow> seq (put_racer u c (F i r)) (\<lambda>_. n i r))" for i
    by (rule ext) (simp add: GetRacer_def act_defs split: option.splits)
  then show ?thesis
    using preserves_update_racer [OF assms(1,2) preserves_basic(2) assms(3)] by simp
qed

section \<open>Ending a race\<close>

definition settleable :: "race_server \<Rightarrow> uid \<Rightarrow> bool" where
  "settleable s c \<longleftrightarrow> (\<exists>ch. map_of (sv_characters s) c = Some ch \<and> has_key (sv_horses s) (ch_mountUid ch))"

text \<open>The race of room \<open>u\<close> is in a stage with a timeout, its racers \<open>K\<close> can be paid and reached in the
  lobby, and the players of the room can be told their balance.\<close>

definition race_at ::
  "u32 \<Rightarrow> u32 \<Rightarrow> Stage \<Rightarrow> time_point option \<Rightarrow> uid set \<Rightarrow> uid set \<Rightarrow> race_server \<Rightarrow> bool" where
  "race_at u mb st timeout K players s \<longleftrightarrow>
     (\<exists>room. map_of (rs_rooms (sv_rooms s)) u = Some room \<and> set (keys_of (rm_players room)) = players)
   \<and> (\<exists>i. map_of (sv_raceInstances s) u = Some i \<and> in_stage i = st \<and> in_stageTimeout i = timeout
        \<and> in_mapBlockId i = mb \<and> pa_teamMode (in_parameters i) \<noteq> Teams_Single
        \<and> set (keys_of (rt_racers (in_tracker i))) = K)
   \<and> (\<forall>c \<in> K. settleable s c \<and> c \<in> set (sv_users s)) \<and> (\<forall>c \<in> players. settleable s c)"

lemma race_at_update: "racer_update_ok (race_at u mb st to K ps) u (\<lambda>_ _ _. True)"
  unfolding racer_update_ok_def
proof (intro allI impI)
  fix s i c r r'
  assume P: "race_at u mb st to K ps s" and i: "map_of (sv_raceInstances s) u = Some i"
    and r: "map_of (rt_racers (in_tracker i)) c = Some r"
  from r have "c \<in> set (keys_of (rt_racers (in_tracker i)))" by (metis has_key_iff option.distinct(1))
  with P i show "race_at u mb st to K ps (with_racer u i c r' s)"
    by (auto simp: race_at_def with_racer_def set_racer_def settleable_def simp del: set_map)
qed

lemma race_at_send: "preserves (race_at u mb st to K ps) (send c m)"
  by (simp add: preserves_def send_def modify_def race_at_def settleable_def)

lemma race_at_first_pass:
  "preserves (race_at u mb st to K ps)
     (seq (get_instance u) (\<lambda>i. put_tracker u ((in_tracker i)\<lparr>rt_firstPassItemSpawn := b\<rparr>)))"
  by (auto simp: preserves_def put_tracker_def put_instance_def get_instance_def act_defs race_at_def
      settleable_def split: option.splits)

text \<open>The course keeps whatever survives the updates of racers and the sending of commands.\<close>

lemma process_item_decks:
  "snd (process_item env b i pos r) = r\<lparr>ra_trackedDecks := ra_trackedDecks (snd (process_item env b i pos r))\<rparr>"
  by (simp add: process_item_def Let_def)

lemma preserves_spawn_item:
  assumes "racer_update_ok P u good"
    and "\<And>i r r'. r' = r\<lparr>ra_trackedDecks := ra_trackedDecks r'\<rparr> \<Longrightarrow> good i r r'"
    and "\<And>c m. preserves P (send c m)"
  shows "preserves P (spawn_item env u c client i k pos style)"
  unfolding spawn_item_def
  by (rule preserves_update_racer' [OF assms(1)])
    (intro assms(2,3) process_item_decks preserves_intros)+

lemma preserves_TickItemSpawners:
  assumes "racer_update_ok P u good"
    and "\<And>i r r'. r' = r\<lparr>ra_trackedDecks := ra_trackedDecks r'\<rparr> \<Longrightarrow> good i r r'"
    and "\<And>c m. preserves P (send c m)"
    and "\<And>b. preserves P (seq (get_instance u) (\<lambda>i. put_tracker u ((in_tracker i)\<lparr>rt_firstPassItemSpawn := b\<rparr>)))"
  shows "preserves P (TickItemSpawners env now u)"
  unfolding TickItemSpawners_def
  by (intro preserves_intros preserves_spawn_item [OF assms(1-3)] assms(4))

lemma preserves_TickMagicGauge:
  assumes "racer_update_ok P u good"
    and "\<And>i r raceStart. good i r (regen_gauge (mr_regenInfo (env_magic env)) (mr_setBonusInfo (env_magic env))
          (gm_starPointsMax (in_gameModeInfo i)) raceStart now r)"
    and "\<And>c m. preserves P (send c m)"
  shows "preserves P (TickMagicGauge env now u)"
  unfolding TickMagicGauge_def Let_def
  by (intro preserves_intros preserves_update_racer [OF assms(1)] assms(2,3))

lemma preserves_TickActive:
  assumes "racer_update_ok P u good"
    and "\<And>i r r'. r' = r\<lparr>ra_trackedDecks := ra_trackedDecks r'\<rparr> \<Longrightarrow> good i r r'"
    and "\<And>i r raceStart. good i r (regen_gauge (mr_regenInfo (env_magic env)) (mr_setBonusInfo (env_magic env))
          (gm_starPointsMax (in_gameModeInfo i)) raceStart now r)"
    and "\<And>c m. preserves P (send c m)"
    and "\<And>b. preserves P (seq (get_instance u) (\<lambda>i. put_tracker u ((in_tracker i)\<lparr>rt_firstPassItemSpawn := b\<rparr>)))"
  shows "preserves P (TickActiveRaceContent env now u)"
  unfolding TickActiveRaceContent_def
  by (intro preserves_intros preserves_TickItemSpawners [OF assms(1,2,4,5)]
      preserves_TickMagicGauge [OF assms(1,3,4)])

lemma race_at_active: "preserves (race_at u mb st to K ps) (TickActiveRaceContent env now u)"
  by (rule preserves_TickActive [OF race_at_update]) (simp_all add: race_at_send race_at_first_pass)

text \<open>Paying the racers, choosing the master and settling the players all succeed.\<close>

lemma race_at_characters:
  assumes "race_at u mb st to K ps s" "map_of (sv_characters s) c = Some ch" "ch_mountUid ch' = ch_mountUid ch"
    and "has_key (sv_horses s) (ch_mountUid ch)"
  shows "race_at u mb st to K ps (s\<lparr>sv_characters := umap_put c ch' (sv_characters s)\<rparr>)"
  using assms by (auto simp: race_at_def settleable_def)

lemma score_racer_valid:
  assumes "c \<in> K"
  shows "valid (race_at u mb st to K ps) (score_racer env bonus c r)
    (\<lambda>sc s. race_at u mb st to K ps s \<and> sc_uid sc = c)"
proof (rule validI)
  fix s assume P: "race_at u mb st to K ps s"
  with assms obtain ch h where ch: "map_of (sv_characters s) c = Some ch"
    "map_of (sv_horses s) (ch_mountUid ch) = Some h"
    unfolding race_at_def settleable_def by blast
  then show "\<exists>x s'. score_racer env bonus c r s = (Inr x, s') \<and> race_at u mb st to K ps s' \<and> sc_uid x = c"
    using race_at_characters [OF P ch(1)]
    by (auto simp: score_racer_def get_character_def put_character_def get_horse_def act_defs Let_def
        split: prod.splits)
qed

lemma score_loop_valid:
  "set (keys_of rs) \<subseteq> K \<Longrightarrow> valid (race_at u mb st to K ps) (score_loop env bonus rs)
    (\<lambda>scs s. race_at u mb st to K ps s \<and> map sc_uid scs = keys_of rs)"
proof (induction rs)
  case Nil
  then show ?case by (simp add: valid_pure)
next
  case (Cons p rs)
  obtain c r where p: "p = (c, r)" by fastforce
  have "valid (race_at u mb st to K ps) (score_loop env bonus rs)
    (\<lambda>scs s. race_at u mb st to K ps s \<and> map sc_uid scs = keys_of rs)"
    using Cons by simp
  moreover have "valid (race_at u mb st to K ps) (score_racer env bonus c r)
    (\<lambda>sc s. race_at u mb st to K ps s \<and> sc_uid sc = c)"
    using Cons.prems p by (intro score_racer_valid) simp
  ultimately show ?case
    unfolding p score_loop.simps valid_def seq_def pure_def by fastforce
qed

lemma broadcast_valid: "valid (race_at u mb st to K ps) (broadcast u m) (\<lambda>_. race_at u mb st to K ps)"
  by (auto simp: valid_def broadcast_def get_room_def act_defs race_at_def settleable_def)

lemma race_at_room:
  assumes "race_at u mb st to K ps s" "map_of (rs_rooms (sv_rooms s)) u = Some room"
    and "set (keys_of (rm_players room')) = set (keys_of (rm_players room))"
  shows "race_at u mb st to K ps
    (s\<lparr>sv_rooms := (sv_rooms s)\<lparr>rs_rooms := umap_put u room' (rs_rooms (sv_rooms s))\<rparr>\<rparr>)"
  using assms by (auto simp: race_at_def settleable_def)

lemma choose_master_valid:
  assumes "set (map sc_uid scs) \<subseteq> K"
  shows "valid (race_at u mb st to K ps) (choose_master u scs) (\<lambda>_. race_at u mb st to K ps)"
proof (rule validI)
  fix s assume P: "race_at u mb st to K ps s"
  then obtain room where room: "map_of (rs_rooms (sv_rooms s)) u = Some room" by (auto simp: race_at_def)
  show "\<exists>x s'. choose_master u scs s = (Inr x, s') \<and> race_at u mb st to K ps s'"
  proof (cases "scs = [] \<or> next_master room scs = None")
    case True
    with P room show ?thesis by (auto simp: choose_master_def get_room_def act_defs)
  next
    case False
    then obtain m where m: "next_master room scs = Some m" by auto
    then have "m \<in> set (map sc_uid scs)"
      by (auto simp: next_master_def find_Some_iff split: if_splits)
    with assms P have user: "m \<in> set (sv_users s)" by (auto simp: race_at_def)
    let ?room = "room\<lparr>rm_details := (rm_details room)\<lparr>rd_masterUid := m\<rparr>\<rparr>"
    let ?s = "s\<lparr>sv_rooms := (sv_rooms s)\<lparr>rs_rooms := umap_put u ?room (rs_rooms (sv_rooms s))\<rparr>\<rparr>"
    have P': "race_at u mb st to K ps ?s" by (rule race_at_room [OF P room]) simp
    obtain x s' where
      b: "broadcast u (Room_msg (ChangeMasterNotify m)) ?s = (Inr x, s')" "race_at u mb st to K ps s'"
      by (rule validE [OF broadcast_valid P'])
    with P' False m room user show ?thesis
      by (auto simp: choose_master_def get_room_def put_room_def get_user_def act_defs)
  qed
qed

lemma settle_player_valid:
  assumes "c \<in> ps"
  shows "valid (race_at u mb st to K ps) (settle_player u c p) (\<lambda>_. race_at u mb st to K ps)"
proof (rule validI)
  fix s assume P: "race_at u mb st to K ps s"
  then obtain room where room: "map_of (rs_rooms (sv_rooms s)) u = Some room"
    "set (keys_of (rm_players room)) = ps" by (auto simp: race_at_def)
  from P assms obtain ch where ch: "map_of (sv_characters s) c = Some ch"
    unfolding race_at_def settleable_def by blast
  let ?room = "room\<lparr>rm_players := umap_put c (SetReady False p) (rm_players room)\<rparr>"
  let ?s = "s\<lparr>sv_rooms := (sv_rooms s)\<lparr>rs_rooms := umap_put u ?room (rs_rooms (sv_rooms s))\<rparr>\<rparr>"
  have "race_at u mb st to K ps ?s"
    using room assms by (intro race_at_room [OF P room(1)]) (auto simp del: set_map)
  from preservesD [OF race_at_send this] room ch
  show "\<exists>x s'. settle_player u c p s = (Inr x, s') \<and> race_at u mb st to K ps s'"
    by (simp add: settle_player_def get_room_def put_room_def get_character_def send_def act_defs)
qed

lemma settle_room_valid: "valid (race_at u mb st to K ps) (settle_room u) (\<lambda>_. race_at u mb st to K ps)"
proof (rule validI)
  fix s assume P: "race_at u mb st to K ps s"
  then obtain room where room: "map_of (rs_rooms (sv_rooms s)) u = Some room"
    "set (keys_of (rm_players room)) = ps" by (auto simp: race_at_def)
  let ?s = "s\<lparr>sv_rooms := (sv_rooms s)\<lparr>rs_rooms := umap_put u (SetRoomPlaying False room) (rs_rooms (sv_rooms s))\<rparr>\<rparr>"
  have P': "race_at u mb st to K ps ?s" by (rule race_at_room [OF P room(1)]) (simp add: SetRoomPlaying_def)
  have "valid (race_at u mb st to K ps) (for_each (rm_players room) (\<lambda>(c, p). settle_player u c p))
    (\<lambda>_. race_at u mb st to K ps)"
    using room(2) by (intro valid_for_each) (force intro: settle_player_valid)
  from validE [OF this P'] obtain s' where
    "for_each (rm_players room) (\<lambda>(c, p). settle_player u c p) ?s = (Inr (), s')" "race_at u mb st to K ps s'"
    by auto
  with room show "\<exists>x s'. settle_room u s = (Inr x, s') \<and> race_at u mb st to K ps s'"
    by (simp add: settle_room_def get_room_def put_room_def act_defs)
qed

lemma Stop_valid: "valid (race_at u mb st to K ps) (Stop env u) (\<lambda>_. race_at u mb st to K ps)"
proof (rule validI)
  fix s assume P: "race_at u mb st to K ps s"
  then obtain i where i: "map_of (sv_raceInstances s) u = Some i"
    "set (keys_of (rt_racers (in_tracker i))) = K" by (auto simp: race_at_def)
  then have "set (keys_of (rt_racers (in_tracker i))) \<subseteq> K" by simp
  from validE [OF score_loop_valid [OF this] P] obtain scs s1 where
    1: "score_loop env (in_bonusCourseType i) (rt_racers (in_tracker i)) s = (Inr scs, s1)"
    "race_at u mb st to K ps s1" "map sc_uid scs = keys_of (rt_racers (in_tracker i))" by blast
  let ?scs = "sort_scores (winning_team i) scs"
  obtain x s2 where 2: "broadcast u (Course_msg (RaceResultNotify ?scs)) s1 = (Inr x, s2)"
    "race_at u mb st to K ps s2" by (rule validE [OF broadcast_valid 1(2)])
  have "set (map sc_uid ?scs) \<subseteq> K"
    using 1(3) i(2) by (simp add: sort_scores_def) (metis image_set subset_refl)
  from validE [OF choose_master_valid [OF this] 2(2)] obtain y s3 where
    3: "choose_master u ?scs s2 = (Inr y, s3)" "race_at u mb st to K ps s3" by blast
  obtain z s4 where 4: "settle_room u s3 = (Inr z, s4)" "race_at u mb st to K ps s4"
    by (rule validE [OF settle_room_valid 3(2)])
  show "\<exists>x s'. Stop env u s = (Inr x, s') \<and> race_at u mb st to K ps s'"
    using i 1 2 3 4 by (simp add: Stop_def get_instance_def act_defs Let_def)
qed

lemma race_at_instance:
  assumes "race_at u mb st to K ps s" "map_of (sv_raceInstances s) u = Some i"
    and "in_mapBlockId i' = in_mapBlockId i" "in_parameters i' = in_parameters i"
    and "set (keys_of (rt_racers (in_tracker i'))) = set (keys_of (rt_racers (in_tracker i)))"
  shows "race_at u mb (in_stage i') (in_stageTimeout i') K ps
    (s\<lparr>sv_raceInstances := umap_put u i' (sv_raceInstances s)\<rparr>)"
  using assms by (auto simp: race_at_def settleable_def)

lemma tick_loading_times_out:
  assumes "race_at u mb Stage_Loading (Some T) K ps s" "T \<le> now"
    and "map_of (env_mapBlocks env) mb = Some info"
  shows "race_at u mb Stage_Racing (Some (now + seconds (uint (mb_timeLimit info)))) K ps
    (snd (TickLoading env now u s))"
proof -
  from assms(1) obtain i where i: "map_of (sv_raceInstances s) u = Some i" "in_stageTimeout i = Some T"
    "in_mapBlockId i = mb" "pa_teamMode (in_parameters i) \<noteq> Teams_Single" by (auto simp: race_at_def)
  let ?i = "i\<lparr>in_tracker := disconnect_unloaded (in_tracker i)\<rparr>"
  let ?i' = "?i\<lparr>in_stage := Stage_Racing, in_raceStart := Some (now + seconds (uint (mb_waitTime info))),
    in_stageTimeout := Some (now + seconds (uint (mb_timeLimit info)))\<rparr>"
  have "keys_of (rt_racers (disconnect_unloaded t)) = keys_of (rt_racers t)" for t
    by (simp add: disconnect_unloaded_def case_prod_unfold comp_def)
  then have "race_at u mb Stage_Racing (Some (now + seconds (uint (mb_timeLimit info)))) K ps
      (s\<lparr>sv_raceInstances := umap_put u ?i' (sv_raceInstances s)\<rparr>)"
    using race_at_instance [OF assms(1) i(1), of ?i'] by simp
  note P' = this
  from validE [OF broadcast_valid P'] obtain x s' where
    "broadcast u (Course_msg (UserRaceCountdown (of_int ((now + seconds (uint (mb_waitTime info))) div 100))))
      (s\<lparr>sv_raceInstances := umap_put u ?i' (sv_raceInstances s)\<rparr>) = (Inr x, s')"
    "race_at u mb Stage_Racing (Some (now + seconds (uint (mb_timeLimit info)))) K ps s'" by blast
  with i assms(2,3) show ?thesis
    by (simp add: TickLoading_def get_instance_def put_instance_def reached_def act_defs Let_def
        GetMapBlockInfo_def)
qed

lemma tick_racing_times_out:
  assumes "race_at u mb Stage_Racing (Some T) K ps s" "T \<le> now"
  shows "race_at u mb Stage_Finishing (Some (now + seconds 15)) K ps (snd (TickRacing now u s))"
proof -
  from assms(1) obtain i where i: "map_of (sv_raceInstances s) u = Some i" "in_stageTimeout i = Some T"
    by (auto simp: race_at_def)
  let ?i = "i\<lparr>in_stage := Stage_Finishing, in_stageTimeout := Some (now + seconds 15)\<rparr>"
  let ?s = "s\<lparr>sv_raceInstances := umap_put u ?i (sv_raceInstances s)\<rparr>"
  let ?P = "race_at u mb Stage_Finishing (Some (now + seconds 15)) K ps"
  have P': "?P ?s" using race_at_instance [OF assms(1) i(1), of ?i] by simp
  have "preserves ?P (seq (get_room u) (\<lambda>room. for_each (rm_players room) (\<lambda>(c, p).
      if \<not> IsRacer c (in_tracker i) then pure ()
      else send (pl_clientId p) (Course_msg (UserRaceFinalNotify 0 0)))))"
    by (intro preserves_intros race_at_send)
  from preservesD [OF this P'] i assms(2) show ?thesis
    by (simp add: TickRacing_def get_instance_def put_instance_def reached_def seq_def modify_def pure_def Let_def)
qed

lemma tick_finishing_times_out:
  assumes "race_at u mb Stage_Finishing (Some T) K ps s" "T \<le> now"
  shows "race_at u mb Stage_Waiting (Some T) K ps (snd (TickFinishing env now u s))"
proof -
  from assms(1) obtain i where i: "map_of (sv_raceInstances s) u = Some i" "in_stageTimeout i = Some T"
    by (auto simp: race_at_def)
  from validE [OF Stop_valid assms(1)] obtain x s1 where
    1: "Stop env u s = (Inr x, s1)" "race_at u mb Stage_Finishing (Some T) K ps s1" by blast
  from 1(2) obtain j where j: "map_of (sv_raceInstances s1) u = Some j" "in_stageTimeout j = Some T"
    by (auto simp: race_at_def)
  with race_at_instance [OF 1(2) j(1), of "j\<lparr>in_stage := Stage_Waiting\<rparr>"] i 1 assms(2)
  show ?thesis
    by (simp add: TickFinishing_def get_instance_def put_instance_def reached_def act_defs)
qed

lemma Instance_Tick_eq:
  assumes "race_at u mb st to K ps s"
  shows "snd (Instance_Tick env now u s) =
    (let s' = snd ((case st of Stage_Waiting \<Rightarrow> pure () | Stage_Loading \<Rightarrow> TickLoading env now u
                   | Stage_Racing \<Rightarrow> TickRacing now u | Stage_Finishing \<Rightarrow> TickFinishing env now u) s)
     in snd (seq (get_instance u) (\<lambda>i. case in_stage i of Stage_Waiting \<Rightarrow> pure ()
          | Stage_Loading \<Rightarrow> pure () | Stage_Racing \<Rightarrow> TickActiveRaceContent env now u
          | Stage_Finishing \<Rightarrow> TickActiveRaceContent env now u) s'))"
proof -
  from assms obtain i where "map_of (sv_raceInstances s) u = Some i" "in_stage i = st"
    by (auto simp: race_at_def)
  then show ?thesis
    by (simp add: Instance_Tick_def try_catch_def seq_def get_instance_def Let_def)
qed

text \<open>The content after the stage keeps what the stage established.\<close>

lemma tick_after_stage:
  assumes "race_at u mb st to K ps s"
    and "race_at u mb st' to' K ps (snd ((case st of Stage_Waiting \<Rightarrow> pure () | Stage_Loading \<Rightarrow> TickLoading env now u
                   | Stage_Racing \<Rightarrow> TickRacing now u | Stage_Finishing \<Rightarrow> TickFinishing env now u) s))"
  shows "race_at u mb st' to' K ps (snd (Instance_Tick env now u s))"
proof -
  have "preserves (race_at u mb st' to' K ps) (seq (get_instance u) (\<lambda>i. case in_stage i of Stage_Waiting \<Rightarrow> pure ()
          | Stage_Loading \<Rightarrow> pure () | Stage_Racing \<Rightarrow> TickActiveRaceContent env now u
          | Stage_Finishing \<Rightarrow> TickActiveRaceContent env now u))"
    by (intro preserves_intros) (auto split: Stage.splits intro: preserves_intros race_at_active)
  from preservesD [OF this assms(2)] show ?thesis
    by (simp add: Instance_Tick_eq [OF assms(1)] Let_def)
qed

text \<open>C32: A race ends. Take a race with a time limit that is loading in a room, whose racers' records and
  users can be reached: whatever state its racers are in, a tick after its loading timeout, one after the time limit of the map, and one after another fifteen seconds bring
  it back to the waiting stage, its results having been settled without an error.\<close>

theorem race_ends:
  assumes "race_at u mb Stage_Loading (Some T) K ps s" "map_of (env_mapBlocks env) mb = Some info"
    and "T \<le> t1" "t1 + seconds (uint (mb_timeLimit info)) \<le> t2" "t2 + seconds 15 \<le> t3"
    and "s1 = snd (Instance_Tick env t1 u s)" "s2 = snd (Instance_Tick env t2 u s1)"
    and "s3 = snd (Instance_Tick env t3 u s2)"
  shows "\<exists>i. map_of (sv_raceInstances s3) u = Some i \<and> in_stage i = Stage_Waiting"
proof -
  have 1: "race_at u mb Stage_Racing (Some (t1 + seconds (uint (mb_timeLimit info)))) K ps s1"
    unfolding assms(6) using tick_loading_times_out [OF assms(1,3,2)]
    by (intro tick_after_stage [OF assms(1)]) simp
  have 2: "race_at u mb Stage_Finishing (Some (t2 + seconds 15)) K ps s2"
    unfolding assms(7) using tick_racing_times_out [OF 1 assms(4)]
    by (intro tick_after_stage [OF 1]) simp
  have "race_at u mb Stage_Waiting (Some (t2 + seconds 15)) K ps s3"
    unfolding assms(8) using tick_finishing_times_out [OF 2 assms(5)]
    by (intro tick_after_stage [OF 2]) simp
  then show ?thesis by (auto simp: race_at_def)
qed

text \<open>A server with one room, whose player 7 races on client 1, and its configuration.\<close>

definition sample_mode :: game_mode_info where
  "sample_mode = \<lparr>gm_goodJumpStarPoints = 2000, gm_perfectJumpStarPoints = 4000,
     gm_perfectJumpMaxBonusCombo = 9, gm_perfectJumpUnitStarPoints = 500,
     gm_spurConsumeStarPoints = 40000, gm_starPointsMax = 120000, gm_usedDeckIds = [1], gm_mapBlockPool = [1]\<rparr>"

definition sample_map :: map_block_info where
  "sample_map = \<lparr>mb_requiredLevel = 1, mb_offset = new_vector3, mb_trainingFee = 0, mb_timeLimit = 180,
     mb_waitTime = 5, mb_itemDecks = [\<lparr>di_deckId = 1, di_position = new_vector3\<rparr>]\<rparr>"

definition sample_env :: race_env where
  "sample_env = \<lparr>env_gameModes = [(1, sample_mode), (2, sample_mode\<lparr>gm_starPointsMax := 100000\<rparr>)],
     env_mapBlocks = [(1, sample_map)],
     env_decks = [(1, \<lparr>dk_respawnTime = 1000, dk_items = [408, 409]\<rparr>)],
     env_deckItemSlots = [(408, 2), (409, 3)], env_magic = sample_registry,
     env_levels = [\<lparr>li_level = 1, li_expRequired = 0\<rparr>, \<lparr>li_level = 2, li_expRequired = 800\<rparr>],
     env_countdown = None, env_carrots = (\<lambda>event. if event then 3750 else 2500),
     env_effect_ms = (\<lambda>f. 2000), env_spur_ms = (\<lambda>p n. 10000),
     env_near = (\<lambda>p q. True), env_move = (\<lambda>p q. p)\<rparr>"

definition sample_instance :: race_instance where
  "sample_instance = \<lparr>in_roomUid = 5,
     in_parameters = \<lparr>pa_gameMode = 1, pa_teamMode = 1, pa_mapBlockId = 1, pa_missionId = 0, pa_masterUid = 7\<rparr>,
     in_gameModeId = 1, in_gameModeInfo = sample_mode, in_mapBlockId = 1, in_mapBlockInfo = sample_map,
     in_loadingStart = Some 0, in_raceStart = None, in_stage = Stage_Loading, in_stageTimeout = Some (seconds 60),
     in_tracker = new_tracker\<lparr>rt_racers := [(7, new_racer\<lparr>ra_oid := 1, ra_state := Loading\<rparr>)]\<rparr>,
     in_bonusCourseType = 0\<rparr>"

definition no_skills :: skill_sets where
  "no_skills = \<lparr>sk_set1 = (0, 0), sk_set2 = (0, 0), sk_activeSetId = 0\<rparr>"

definition sample_character :: character where
  "sample_character = \<lparr>ch_name = [65], ch_level = 1, ch_carrots = 100, ch_experience = 0, ch_mountUid = 9,
     ch_role = Role_User, ch_speed_skills = no_skills, ch_magic_skills = no_skills\<rparr>"

definition sample_server :: race_server where
  "sample_server = \<lparr>sv_scheduler = new_scheduler,
     sv_clients = [(1, \<lparr>cc_characterUid = 7, cc_roomUid = 5, cc_isAuthenticated = True\<rparr>)],
     sv_p2dIds = [], sv_p2dIdPool = empty_pool, sv_raceInstances = [(5, sample_instance)],
     sv_rooms = \<lparr>rs_sequencedId = 5, rs_rooms = [(5, (new_room 5)\<lparr>rm_players := [(7, new_player 1)]\<rparr>)]\<rparr>,
     sv_otp = \<lparr>os_codes = [], os_ltks = []\<rparr>, sv_characters = [(7, sample_character)],
     sv_horses = [(9, \<lparr>ho_name = [66], ho_clazz = 1, ho_clazzProgress = 0, ho_growthPoints = 0,
       ho_fatigue = 0, ho_potentialType = 0, ho_potentialLevel = 0, ho_potentialValue = 0\<rparr>)],
     sv_users = [7], sv_sent = [], sv_resets = []\<rparr>"

lemma sample_race_at:
  "race_at 5 1 Stage_Loading (Some (seconds 60)) {7} {7} sample_server"
  by (simp add: race_at_def sample_server_def sample_instance_def settleable_def sample_character_def
      new_room_def)

lemma race_ends_witness:
  "let tick = (\<lambda>t s. snd (Instance_Tick sample_env (seconds t) 5 s))
   in \<exists>i. map_of (sv_raceInstances (tick 300 (tick 250 (tick 60 sample_server)))) 5 = Some i
        \<and> in_stage i = Stage_Waiting"
  using race_ends [OF sample_race_at, of sample_env sample_map "seconds 60" "seconds 250" "seconds 300"
      "snd (Instance_Tick sample_env (seconds 60) 5 sample_server)"
      "snd (Instance_Tick sample_env (seconds 250) 5 (snd (Instance_Tick sample_env (seconds 60) 5 sample_server)))"]
  by (simp add: sample_env_def sample_map_def seconds_def Let_def)

section \<open>The scoreboard\<close>

definition finished :: "racer \<Rightarrow> bool" where
  "finished r \<longleftrightarrow> ra_state r \<noteq> Disconnected \<and> ra_courseTime r \<noteq> InvalidCourseTime"

definition scores_racer :: "uid \<times> racer \<Rightarrow> score \<Rightarrow> bool" where
  "scores_racer p sc \<longleftrightarrow> sc_uid sc = fst p \<and> sc_teamColor sc = ra_team (snd p)
     \<and> (result_rank sc = 0 \<longleftrightarrow> finished (snd p)) \<and> (finished (snd p) \<longrightarrow> sc_courseTime sc = ra_courseTime (snd p))"

lemma reward_bits:
  "reward env bonus r = (c, x, b) \<Longrightarrow>
    ((if connected then Bit_Connected else 0) OR b OR (if up then Bit_LevelUp else 0)) AND Bit_Connected
      = (if connected then Bit_Connected else 0)"
  by (auto simp: reward_def Let_def Bit_Connected_def Bit_LevelUp_def Bit_EventBonusCarrots_def
      Bit_EventBonusExperience_def split: if_splits)

lemma courseTime_less: "t \<noteq> InvalidCourseTime \<longleftrightarrow> t < InvalidCourseTime" for t :: u32
proof -
  have "InvalidCourseTime = - 1" by (simp add: InvalidCourseTime_def)
  then show ?thesis using word_order.not_eq_extremum [of t] by simp
qed

lemma score_racer_scores:
  assumes "score_racer env bonus u r s = (Inr sc, s')"
  shows "scores_racer (u, r) sc"
proof -
  obtain c x b where b: "reward env bonus r = (c, x, b)" by (metis prod_cases3)
  from assms b obtain up where
    "sc_bitset sc = (if ra_state r \<noteq> Disconnected then Bit_Connected else 0) OR b OR (if up then Bit_LevelUp else 0)"
    "sc_uid sc = u" "sc_teamColor sc = ra_team r"
    "sc_courseTime sc = (if ra_state r \<noteq> Disconnected then ra_courseTime r else InvalidCourseTime)"
    by (auto simp: score_racer_def get_character_def put_character_def get_horse_def act_defs Let_def
        split: option.splits)
  then show ?thesis
    using reward_bits [OF b, of "ra_state r \<noteq> Disconnected" up] courseTime_less [of "ra_courseTime r"]
    by (auto simp: scores_racer_def result_rank_def finished_def Bit_Connected_def)
qed

lemma score_loop_scores:
  "score_loop env bonus rs s = (Inr scs, s') \<Longrightarrow> list_all2 scores_racer rs scs"
proof (induction rs arbitrary: s scs)
  case Nil
  then show ?case by (simp add: pure_def)
next
  case (Cons p rs)
  obtain u r where p: "p = (u, r)" by fastforce
  from Cons.prems obtain sc s1 scs' where
    "score_racer env bonus u r s = (Inr sc, s1)" "score_loop env bonus rs s1 = (Inr scs', s')" "scs = sc # scs'"
    by (auto simp: p seq_def pure_def split: prod.splits sum.splits)
  with Cons.IH p score_racer_scores show ?case by simp
qed

lemma first_finisher_spec:
  assumes "\<exists>r \<in> set rs. finished r \<and> ra_courseTime r < best"
  shows "\<exists>q \<in> set rs. finished q \<and> first_finisher rs best w = ra_team q
    \<and> (\<forall>p \<in> set rs. finished p \<longrightarrow> ra_courseTime q \<le> ra_courseTime p) \<and> ra_courseTime q < best"
  using assms
proof (induction rs arbitrary: best w)
  case (Cons r rs)
  show ?case
  proof (cases "finished r \<and> ra_courseTime r < best")
    case True
    note r = this
    show ?thesis
    proof (cases "\<exists>q \<in> set rs. finished q \<and> ra_courseTime q < ra_courseTime r")
      case True
      from Cons.IH [OF this, of "ra_team r"] r show ?thesis
        by (auto simp: finished_def)
    next
      case False
      then have "first_finisher rs (ra_courseTime r) (ra_team r) = ra_team r"
        by (induction rs) (auto simp: finished_def)
      with r False show ?thesis by (auto simp: finished_def not_less)
    qed
  next
    case False
    with Cons.prems have "\<exists>q \<in> set rs. finished q \<and> ra_courseTime q < best" by auto
    from Cons.IH [OF this, of w] obtain q where q: "q \<in> set rs" "finished q"
      "first_finisher rs best w = ra_team q" "\<forall>p \<in> set rs. finished p \<longrightarrow> ra_courseTime q \<le> ra_courseTime p"
      "ra_courseTime q < best" by blast
    moreover have "first_finisher (r # rs) best w = first_finisher rs best w"
      using False by (auto simp: finished_def)
    moreover have "ra_courseTime q \<le> ra_courseTime r" if "finished r"
      using False that q(5) by (metis le_less_trans less_imp_le not_less)
    ultimately show ?thesis by auto
  qed
qed simp

text \<open>Who can win: everybody in a team race, and the racers without a team colour in any other.\<close>

definition competes :: "race_instance \<Rightarrow> racer \<Rightarrow> bool" where
  "competes i r \<longleftrightarrow> pa_teamMode (in_parameters i) = Teams_Team \<or> ra_team r = Color_Solo"

lemma winning_team_spec:
  assumes "r \<in> set (vals_of (rt_racers (in_tracker i)))" "finished r" "competes i r"
  shows "\<exists>q \<in> set (vals_of (rt_racers (in_tracker i))). finished q \<and> competes i q \<and> winning_team i = ra_team q
    \<and> (\<forall>p \<in> set (vals_of (rt_racers (in_tracker i))). finished p \<and> competes i p \<longrightarrow>
         ra_courseTime q \<le> ra_courseTime p)"
proof -
  let ?rs = "filter (competes i) (vals_of (rt_racers (in_tracker i)))"
  have "\<exists>r \<in> set ?rs. finished r \<and> ra_courseTime r < InvalidCourseTime"
    using assms courseTime_less by (auto simp: finished_def)
  from first_finisher_spec [OF this, of Color_Solo] obtain q where
    q: "q \<in> set ?rs" "finished q" "first_finisher ?rs InvalidCourseTime Color_Solo = ra_team q"
    "\<forall>p \<in> set ?rs. finished p \<longrightarrow> ra_courseTime q \<le> ra_courseTime p" by blast
  have "winning_team i = ra_team q"
    using q(1,3) by (auto simp: winning_team_def competes_def)
  with q show ?thesis by auto
qed

text \<open>C33: When anybody who can win finished the race - in a team race any racer, in a race without
  teams any racer without a team colour - the scoreboard is led by a racer that is connected,
  finished, and was the fastest of all the finishers that can win: that racer is first on the board
  the clients are shown and first in line to become the master of the room.\<close>

theorem fastest_wins:
  assumes "score_loop env bonus (rt_racers (in_tracker i)) s = (Inr scs, s')"
    and "r \<in> set (vals_of (rt_racers (in_tracker i)))" "finished r" "competes i r"
  shows "\<exists>v q. (v, q) \<in> set (rt_racers (in_tracker i)) \<and> finished q \<and> competes i q
    \<and> sc_uid (hd (sort_scores (winning_team i) scs)) = v
    \<and> (\<forall>p \<in> set (vals_of (rt_racers (in_tracker i))). finished p \<and> competes i p \<longrightarrow>
         ra_courseTime q \<le> ra_courseTime p)"
proof -
  let ?rs = "rt_racers (in_tracker i)" and ?w = "winning_team i"
  let ?board = "sort_scores ?w scs"
  note sc = score_loop_scores [OF assms(1)]
  obtain u q where q: "(u, q) \<in> set ?rs" "finished q" "competes i q" "?w = ra_team q"
    "\<forall>p \<in> set (vals_of ?rs). finished p \<and> competes i p \<longrightarrow> ra_courseTime q \<le> ra_courseTime p"
    using winning_team_spec [OF assms(2-4)] by auto
  from sc q(1) obtain a where a: "a \<in> set scs" "scores_racer (u, q) a"
    by (metis list_all2_conv_all_nth in_set_conv_nth)
  then have ne: "?board \<noteq> []" by (metis set_sort sort_scores_def empty_iff list.set(1))
  have "sorted (map (priority ?w) ?board)" by (simp add: sort_scores_def)
  moreover have "a \<in> set ?board" using a(1) by (simp add: sort_scores_def)
  ultimately have "priority ?w (hd ?board) \<le> priority ?w a"
    using ne by (cases ?board) auto
  with a(2) q(2,4) have h: "sc_teamColor (hd ?board) = ?w" "result_rank (hd ?board) = 0"
    "sc_courseTime (hd ?board) \<le> ra_courseTime q"
    by (auto simp: priority_def scores_racer_def less_eq_prod_def split: if_splits)
  have "hd ?board \<in> set scs" using ne by (metis hd_in_set set_sort sort_scores_def)
  with sc obtain p where p: "p \<in> set ?rs" "scores_racer p (hd ?board)"
    by (metis list_all2_conv_all_nth in_set_conv_nth)
  with h have "finished (snd p)" "ra_team (snd p) = ?w" "ra_courseTime (snd p) \<le> ra_courseTime q"
    "sc_uid (hd ?board) = fst p"
    by (auto simp: scores_racer_def)
  moreover from this(2) have "competes i (snd p)" using q(3,4) by (simp add: competes_def)
  ultimately show ?thesis by (intro exI [of _ "fst p"] exI [of _ "snd p"]) (use p(1) q(5) in \<open>auto intro: order_trans\<close>)
qed

lemma fastest_wins_witness:
  "let i = sample_instance\<lparr>in_tracker := new_tracker\<lparr>rt_racers :=
         [(7, new_racer\<lparr>ra_oid := 1, ra_state := Finishing, ra_courseTime := 90000\<rparr>)]\<rparr>\<rparr>;
       (r, s') = score_loop sample_env 0 (rt_racers (in_tracker i)) sample_server
   in \<exists>scs. r = Inr scs \<and> sc_uid (hd (sort_scores (winning_team i) scs)) = 7"
proof -
  let ?r = "new_racer\<lparr>ra_oid := 1, ra_state := Finishing, ra_courseTime := 90000\<rparr>"
  let ?i = "sample_instance\<lparr>in_tracker := new_tracker\<lparr>rt_racers := [(7, ?r)]\<rparr>\<rparr>"
  have racers: "rt_racers (in_tracker ?i) = [(7, ?r)]" by simp
  then have "set (keys_of (rt_racers (in_tracker ?i))) \<subseteq> {7}" by simp
  from validE [OF score_loop_valid [OF this] sample_race_at] obtain scs s' where
    s: "score_loop sample_env 0 (rt_racers (in_tracker ?i)) sample_server = (Inr scs, s')" by blast
  have "competes ?i ?r" "finished ?r"
    by (simp_all add: new_racer_def finished_def competes_def InvalidCourseTime_def)
  then have "sc_uid (hd (sort_scores (winning_team ?i) scs)) = 7"
    using fastest_wins [OF s, of ?r] by (simp add: racers)
  with s show ?thesis by (simp add: Let_def)
qed

text \<open>In a race without teams a racer with a team colour, which the command that chooses a team gives
  whatever the mode of the room is, never leads the board while somebody without one is on it, were
  that one disconnected and the coloured racer the fastest of all.\<close>

theorem coloured_racer_never_leads:
  assumes "score_loop env bonus (rt_racers (in_tracker i)) s = (Inr scs, s')"
    and "pa_teamMode (in_parameters i) \<noteq> Teams_Team"
    and "r \<in> set (vals_of (rt_racers (in_tracker i)))" "ra_team r = Color_Solo"
  shows "sc_teamColor (hd (sort_scores (winning_team i) scs)) = Color_Solo"
proof -
  let ?rs = "rt_racers (in_tracker i)" and ?board = "sort_scores (winning_team i) scs"
  have w: "winning_team i = Color_Solo" using assms(2) by (simp add: winning_team_def)
  obtain u where "(u, r) \<in> set ?rs" using assms(3) by auto
  with score_loop_scores [OF assms(1)] obtain a where a: "a \<in> set scs" "scores_racer (u, r) a"
    by (metis list_all2_conv_all_nth in_set_conv_nth)
  then have "a \<in> set ?board" by (simp add: sort_scores_def)
  moreover have "sorted (map (priority (winning_team i)) ?board)" by (simp add: sort_scores_def)
  ultimately have "priority (winning_team i) (hd ?board) \<le> priority (winning_team i) a"
    by (cases ?board) auto
  with a(2) assms(4) show ?thesis
    by (auto simp: priority_def scores_racer_def less_eq_prod_def w split: if_splits)
qed

definition stranded_server :: race_server where
  "stranded_server = sample_server\<lparr>sv_users := [],
     sv_raceInstances := [(5, sample_instance\<lparr>in_stage := Stage_Finishing, in_tracker := new_tracker\<lparr>rt_racers :=
         [(7, new_racer\<lparr>ra_oid := 1, ra_state := Finishing, ra_courseTime := 90000\<rparr>)]\<rparr>\<rparr>)]\<rparr>"

text \<open>When settling a race fails after the racers were paid, as it does when the next master is no
  longer a user of the lobby, the race stays in the finishing stage and the next tick pays everybody
  again: two ticks give the racer of the example twice the reward, and the race is still not over.\<close>

theorem failed_settlement_pays_again:
  "let tick = (\<lambda>s. snd (Instance_Tick sample_env (seconds 100) 5 s));
       carrots = (\<lambda>s. map_option ch_carrots (map_of (sv_characters s) 7));
       stage = (\<lambda>s. map_option in_stage (map_of (sv_raceInstances s) 5))
   in carrots stranded_server = Some 100 \<and> carrots (tick stranded_server) = Some 2600
    \<and> carrots (tick (tick stranded_server)) = Some 5100
    \<and> stage (tick (tick stranded_server)) = Some Stage_Finishing"
  by code_simp

section \<open>The decks\<close>

text \<open>When an action returns.\<close>

definition returns :: "('s \<Rightarrow> bool) \<Rightarrow> ('s, 'a) act \<Rightarrow> ('a \<Rightarrow> 's \<Rightarrow> bool) \<Rightarrow> bool" where
  "returns P m Q \<longleftrightarrow> (\<forall>s x s'. P s \<longrightarrow> m s = (Inr x, s') \<longrightarrow> Q x s')"

lemma returns_seq: "returns P m R \<Longrightarrow> (\<And>x. returns (R x) (f x) Q) \<Longrightarrow> returns P (seq m f) Q"
  unfolding returns_def seq_def by (fastforce split: prod.splits sum.splits)

lemma returns_for_each:
  "(\<And>x. x \<in> set xs \<Longrightarrow> returns P (f x) (\<lambda>_. P)) \<Longrightarrow> returns P (for_each xs f) (\<lambda>_. P)"
proof (induction xs)
  case (Cons x xs)
  then show ?case by (auto intro!: returns_seq)
qed (simp add: returns_def pure_def)

lemma returns_basic:
  "returns P (throw x) Q" "returns P (lift z) (\<lambda>_. P)"
  "(\<And>i. returns P (f i) Q) \<Longrightarrow> returns P (seq get_state f) Q"
  "(\<And>s. P s \<Longrightarrow> P (g s)) \<Longrightarrow> returns P (modify g) (\<lambda>_. P)"
  by (auto simp: returns_def act_defs)

lemma returns_rethrow: "returns P m Q \<Longrightarrow> returns P (rethrow description m) Q"
  by (auto simp: returns_def rethrow_def split: prod.splits sum.splits)

lemma returns_if: "returns P m Q \<Longrightarrow> returns P m' Q \<Longrightarrow> returns P (if b then m else m') Q"
  by simp

definition item_allowed :: "race_env \<Rightarrow> race_parameters \<Rightarrow> u32 \<Rightarrow> bool" where
  "item_allowed env p k \<longleftrightarrow> pa_gameMode p = Mode_Magic_Race \<longrightarrow> pa_teamMode p \<noteq> Teams_Team \<longrightarrow> k \<noteq> 412 \<longrightarrow>
     (\<exists>slot s. GetDeckItemSlot env k = Inr slot \<and> GetSlotInfo (env_magic env) slot = Inr s \<and> sl_teamMode s = 0)"

definition deck_ok :: "race_env \<Rightarrow> race_parameters \<Rightarrow> item_deck \<Rightarrow> bool" where
  "deck_ok env p d \<longleftrightarrow> list_all (item_allowed env p) (id_items d)
     \<and> (id_items d \<noteq> [] \<longrightarrow> id_currentItem d \<in> set (id_items d))"

lemma solo_items_allowed: "solo_items env ks = Inr js \<Longrightarrow> list_all (item_allowed env p) js"
  by (induction env ks arbitrary: js rule: solo_items.induct)
    (auto simp: bnd_Inr_iff item_allowed_def split: if_splits)

lemma deck_items_allowed: "deck_items env p b ks = Inr js \<Longrightarrow> list_all (item_allowed env p) js"
  by (auto simp: deck_items_def solo_items_allowed split: if_splits)
    (auto simp: item_allowed_def list_all_iff)

lemma PickRandomItem_ok:
  "list_all (item_allowed env p) (id_items d) \<Longrightarrow> deck_ok env p (PickRandomItemFromDeck n d)"
  by (auto simp: deck_ok_def PickRandomItemFromDeck_def)

definition decks_ok :: "race_env \<Rightarrow> race_parameters \<Rightarrow> race_instance \<Rightarrow> bool" where
  "decks_ok env p i \<longleftrightarrow> in_parameters i = p \<and> (\<forall>k d. map_of (rt_itemDecks (in_tracker i)) k = Some d \<longrightarrow> deck_ok env p d)"

lemma add_deck_ok: "returns (decks_ok env p) (add_deck env draws info pos) (\<lambda>_. decks_ok env p)"
  unfolding returns_def
  by (auto simp: add_deck_def act_defs AddItemDeck_def set_item_deck_def Let_def decks_ok_def
      split: prod.splits sum.splits if_splits intro!: PickRandomItem_ok dest!: deck_items_allowed)

lemma PrepareItemDecks_ok: "returns (decks_ok env p) (PrepareItemDecks env draws) (\<lambda>_. decks_ok env p)"
  unfolding PrepareItemDecks_def
  by (intro returns_basic(3) returns_for_each returns_seq [OF returns_basic(2)] add_deck_ok)

text \<open>C21: A race that starts is loading with a minute to go, and in its course every deck that has items
  shows one of them; in a magic race without teams no deck holds a team spell, only the positional
  item or items whose spell is one for everybody.\<close>

theorem Start_decks:
  assumes "Start env masterLevel mapDraw draws now p i = (Inr True, i')" "rt_itemDecks (in_tracker i) = []"
  shows "in_stage i' = Stage_Loading \<and> in_stageTimeout i' = Some (now + seconds 60)
    \<and> (\<forall>k d. map_of (rt_itemDecks (in_tracker i')) k = Some d \<longrightarrow> deck_ok env p d)"
proof -
  let ?m = "seq (modify (\<lambda>i. i\<lparr>in_parameters := p\<rparr>)) (\<lambda>_.
    seq (PrepareGameMode env) (\<lambda>_. PrepareMap env masterLevel mapDraw draws))"
  obtain i1 where 1: "?m i = (Inr (), i1)" "i' = i1\<lparr>in_stage := Stage_Loading, in_loadingStart := Some now,
      in_stageTimeout := Some (now + seconds 60)\<rparr>"
    using assms(1) by (auto simp: Start_def split: prod.splits sum.splits exn.splits)
  have mode: "returns (decks_ok env p) (PrepareGameMode env) (\<lambda>_. decks_ok env p)"
    unfolding PrepareGameMode_def
    by (intro returns_basic(3) returns_seq [where R = "\<lambda>_. decks_ok env p"] returns_basic(2,4))
      (simp_all add: decks_ok_def)
  have pick: "returns (decks_ok env p) (PickRandomMapFromCourse env masterLevel mapDraw) (\<lambda>_. decks_ok env p)"
    unfolding PickRandomMapFromCourse_def Let_def
    by (intro returns_basic(3) returns_if returns_seq [where R = "\<lambda>_. decks_ok env p"] returns_basic(2,4))
      (simp_all add: decks_ok_def)
  have "returns (decks_ok env p) (PrepareMap env masterLevel mapDraw draws) (\<lambda>_. decks_ok env p)"
    unfolding PrepareMap_def
    by (intro returns_basic(1,3) returns_if returns_seq [where R = "\<lambda>_. decks_ok env p"]
        returns_rethrow PrepareItemDecks_ok pick returns_basic(2,4)) (simp_all add: decks_ok_def)
  with mode have "returns (decks_ok env p) (seq (PrepareGameMode env) (\<lambda>_. PrepareMap env masterLevel mapDraw draws)) (\<lambda>_. decks_ok env p)"
    by (rule returns_seq)
  moreover have "decks_ok env p (i\<lparr>in_parameters := p\<rparr>)" using assms(2) by (simp add: decks_ok_def)
  ultimately have "decks_ok env p i1"
    using 1(1) unfolding returns_def by (auto simp: seq_def [of "modify _"] modify_def)
  with 1(2) show ?thesis by (simp add: decks_ok_def)
qed

lemma Start_decks_witness:
  "let p = \<lparr>pa_gameMode = 2, pa_teamMode = 1, pa_mapBlockId = 10000, pa_missionId = 0, pa_masterUid = 7\<rparr>;
       (r, i) = Start sample_env (Inr 1) 0 (\<lambda>_. (False, 1)) 0 p (sample_instance\<lparr>in_stage := Stage_Waiting\<rparr>)
   in r = Inr True \<and> in_stage i = Stage_Loading \<and> keys_of (rt_itemDecks (in_tracker i)) = [1]
    \<and> (\<forall>k d. map_of (rt_itemDecks (in_tracker i)) k = Some d \<longrightarrow> deck_ok sample_env p d)"
proof -
  let ?p = "\<lparr>pa_gameMode = 2, pa_teamMode = 1, pa_mapBlockId = 10000, pa_missionId = 0, pa_masterUid = 7\<rparr>"
  let ?S = "Start sample_env (Inr 1) 0 (\<lambda>_. (False, 1)) 0 ?p (sample_instance\<lparr>in_stage := Stage_Waiting\<rparr>)"
  have r: "fst ?S = Inr True \<and> keys_of (rt_itemDecks (in_tracker (snd ?S))) = [1]" by code_simp
  then have "?S = (Inr True, snd ?S)" by (metis prod.collapse)
  moreover have "rt_itemDecks (in_tracker (sample_instance\<lparr>in_stage := Stage_Waiting\<rparr>)) = []"
    by (simp add: sample_instance_def new_tracker_def)
  ultimately have "in_stage (snd ?S) = Stage_Loading
      \<and> (\<forall>k d. map_of (rt_itemDecks (in_tracker (snd ?S))) k = Some d \<longrightarrow> deck_ok sample_env ?p d)"
    using Start_decks [of sample_env "Inr 1" 0 "\<lambda>_. (False, 1)" 0 ?p] by blast
  with r show ?thesis by (simp add: Let_def case_prod_unfold)
qed

end
