(* ===== verification/Race_Handlers.thy ===== *)
theory Race_Handlers imports Race_Stages begin

text \<open>
  \<open>server/race/RaceNetworkHandler.cpp\<close>, the commands of a racer: loading, the gauge, hurdles, events,
  items and the end of the race.

  \<^item> A handler is an action of the race server with the client and the fields of its command that the
    code uses; an exception ends it, and the command server only logs it.
  \<^item> The records and registries a handler reads beyond \<open>env\<close> are arguments: the stats of a mount, the egg
    of an event item and the item it becomes.
\<close>

section \<open>The own racer\<close>

definition with_own_racer ::
  "client_id \<Rightarrow> (client_context \<Rightarrow> race_instance \<Rightarrow> racer \<Rightarrow> unit race_act) \<Rightarrow> unit race_act" where
  "with_own_racer c f =
     seq (GetClientContext c True) (\<lambda>ctx.
     seq (GetRaceInstance ctx True) (\<lambda>i.
     seq (lift (GetRacer (cc_characterUid ctx) (in_tracker i))) (\<lambda>r. f ctx i r)))"

definition put_own :: "client_context \<Rightarrow> racer \<Rightarrow> unit race_act" where
  "put_own ctx r = put_racer (cc_roomUid ctx) (cc_characterUid ctx) r"

abbreviation mode_of :: "race_env \<Rightarrow> race_instance \<Rightarrow> exn + game_mode_info" where
  "mode_of env i \<equiv> GetCourseGameModeInfo env (ucast (pa_gameMode (in_parameters i)))"

abbreviation other_racer :: string where
  "other_racer \<equiv> ''Client tried to perform action on behalf of different racer''"

section \<open>Finishing\<close>

definition HandleUserRaceFinal :: "client_id \<Rightarrow> u32 \<Rightarrow> u32 \<Rightarrow> unit race_act" where
  "HandleUserRaceFinal c courseTime raceTrackProgress =
     with_own_racer c (\<lambda>ctx i r.
     let didNotFinish = float_gt raceTrackProgress 0;
         r = r\<lparr>ra_state := Finishing,
               ra_courseTime := (if didNotFinish then InvalidCourseTime else courseTime)\<rparr> in
     seq (put_own ctx r) (\<lambda>_.
     broadcast (cc_roomUid ctx) (Course_msg (UserRaceFinalNotify (ra_oid r) (ra_courseTime r)))))"

definition HandleRaceUserPos :: "client_id \<Rightarrow> oid \<Rightarrow> wire_vector3 \<Rightarrow> u32 \<Rightarrow> unit race_act" where
  "HandleRaceUserPos c i position progress =
     with_own_racer c (\<lambda>ctx inst r.
     if i \<noteq> ra_oid r then throw other_racer
     else put_own ctx (r\<lparr>ra_worldPosition := position, ra_raceProgress := progress\<rparr>))"

section \<open>The gauge\<close>

definition gain :: "u32 \<Rightarrow> game_mode_info \<Rightarrow> racer \<Rightarrow> racer" where
  "gain points mode r = r\<lparr>ra_starPointValue := min (ra_starPointValue r + points) (gm_starPointsMax mode)\<rparr>"

definition buffed :: "racer \<Rightarrow> u32 \<Rightarrow> u32" where
  "buffed r points = (if has_gauge_buff r then points * 2 else points)"

definition HandleStarPointGet :: "race_env \<Rightarrow> client_id \<Rightarrow> oid \<Rightarrow> u32 \<Rightarrow> unit race_act" where
  "HandleStarPointGet env c characterOid gainedStarPoints =
     with_own_racer c (\<lambda>ctx i r.
     if characterOid \<noteq> ra_oid r then throw other_racer
     else seq (lift (mode_of env i)) (\<lambda>mode.
       let r = gain (buffed r gainedStarPoints) mode r in
       seq (put_own ctx r) (\<lambda>_.
       send c (Course_msg (StarPointGetOK characterOid (ra_starPointValue r) False)))))"

definition HandleRequestSpur :: "race_env \<Rightarrow> client_id \<Rightarrow> oid \<Rightarrow> u8 \<Rightarrow> u8 \<Rightarrow> unit race_act" where
  "HandleRequestSpur env c characterOid activeBoosters comboBreak =
     with_own_racer c (\<lambda>ctx i r.
     if characterOid \<noteq> ra_oid r then throw other_racer
     else seq (lift (mode_of env i)) (\<lambda>mode.
       if ra_starPointValue r < gm_spurConsumeStarPoints mode then throw ''Client is cheating or desynced''
       else
         let r = r\<lparr>ra_starPointValue := ra_starPointValue r - gm_spurConsumeStarPoints mode\<rparr> in
         seq (put_own ctx r) (\<lambda>_.
         seq (send c (Course_msg (RequestSpurOK characterOid activeBoosters (ra_starPointValue r) comboBreak))) (\<lambda>_.
         send c (Course_msg (StarPointGetOK characterOid (ra_starPointValue r) False))))))"

abbreviation Perfect :: u8 where "Perfect \<equiv> 0"
abbreviation Good :: u8 where "Good \<equiv> 1"
abbreviation DoubleJumpOrGlide :: u8 where "DoubleJumpOrGlide \<equiv> 2"
abbreviation Collision :: u8 where "Collision \<equiv> 3"

text \<open>What a cleared hurdle does to the racer, and the combo shown; other types are ignored.\<close>

definition clear_hurdle :: "u8 \<Rightarrow> game_mode_info \<Rightarrow> u8 \<Rightarrow> racer \<Rightarrow> (racer \<times> u32) option" where
  "clear_hurdle gameMode mode kind r =
     (if kind = Perfect
      then let r = r\<lparr>ra_jumpComboValue := min 99 (ra_jumpComboValue r + 1)\<rparr>;
               applicable = min (gm_perfectJumpMaxBonusCombo mode) (ra_jumpComboValue r);
               r = gain (gm_perfectJumpStarPoints mode + applicable * gm_perfectJumpUnitStarPoints mode) mode r
           in Some (r, if gameMode = Mode_Speed_Race then ra_jumpComboValue r else 0)
      else if kind = Good \<or> kind = DoubleJumpOrGlide
      then let r = r\<lparr>ra_jumpComboValue := 0\<rparr>
           in Some (gain (buffed r (gm_goodJumpStarPoints mode)) mode r, 0)
      else if kind = Collision then Some (r\<lparr>ra_jumpComboValue := 0\<rparr>, 0)
      else None)"

definition HandleHurdleClearResult :: "race_env \<Rightarrow> client_id \<Rightarrow> oid \<Rightarrow> u8 \<Rightarrow> unit race_act" where
  "HandleHurdleClearResult env c characterOid kind =
     with_own_racer c (\<lambda>ctx i r.
     if characterOid \<noteq> ra_oid r then throw other_racer
     else seq (lift (mode_of env i)) (\<lambda>mode.
       case clear_hurdle (pa_gameMode (in_parameters i)) mode kind r of
         None \<Rightarrow> pure ()
       | Some (r, combo) \<Rightarrow>
           seq (put_own ctx r) (\<lambda>_.
           seq (if kind \<noteq> Collision
                then send c (Course_msg (StarPointGetOK characterOid (ra_starPointValue r)
                  (pa_gameMode (in_parameters i) = Mode_Magic_Race \<and> ra_starPointValue r \<ge> gm_starPointsMax mode
                   \<and> ra_magicItem r = None \<and> kind = Perfect)))
                else pure ()) (\<lambda>_.
           send c (Course_msg (HurdleClearResultOK characterOid kind combo))))))"

definition HandleStartingRate :: "race_env \<Rightarrow> client_id \<Rightarrow> oid \<Rightarrow> u32 \<Rightarrow> u32 \<Rightarrow> unit race_act" where
  "HandleStartingRate env c characterOid velocity boostGained =
     (if velocity < 1 \<and> boostGained < 1 then pure ()
      else with_own_racer c (\<lambda>ctx i r.
        if characterOid \<noteq> ra_oid r then throw other_racer
        else seq (lift (mode_of env i)) (\<lambda>mode.
          let r = gain boostGained mode r in
          seq (put_own ctx r) (\<lambda>_.
          send c (Course_msg (StarPointGetOK characterOid (ra_starPointValue r) False))))))"

section \<open>Team gauge\<close>

definition team_of :: "TeamColor \<Rightarrow> race_tracker \<Rightarrow> team_info" where
  "team_of color t = (if color = Color_Red then rt_redTeam t else rt_blueTeam t)"

definition put_team :: "TeamColor \<Rightarrow> team_info \<Rightarrow> race_tracker \<Rightarrow> race_tracker" where
  "put_team color info t = (if color = Color_Red then t\<lparr>rt_redTeam := info\<rparr> else t\<lparr>rt_blueTeam := info\<rparr>)"

definition color_count :: "TeamColor \<Rightarrow> race_tracker \<Rightarrow> u32" where
  "color_count color t = of_nat (length (filter (\<lambda>r. ra_team r = color) (vals_of (rt_racers t))))"

definition team_size :: "race_tracker \<Rightarrow> u32" where
  "team_size t = max (color_count Color_Red t) (color_count Color_Blue t)"

definition boost_points :: "u32 \<Rightarrow> u32" where
  "boost_points teamSize = 50 + (20 * (teamSize - 1) + 10 * (teamSize - 1))"

definition max_points :: "u32 \<Rightarrow> u32" where
  "max_points teamSize = 250 + 150 * (teamSize - 1)"

text \<open>The team's points before and after a boost, whether the team spurs, and the tracker after it.\<close>

definition fill_gauge :: "TeamColor \<Rightarrow> race_tracker \<Rightarrow> u32 \<times> u32 \<times> bool \<times> race_tracker" where
  "fill_gauge color t =
     (let size = team_size t; info = team_of color t;
          old = ti_points info;
          new = min (max_points size) (old + boost_points size);
          t = put_team color (info\<lparr>ti_boostCount := ti_boostCount info + 1, ti_points := new\<rparr>) t;
          full = (ti_points (rt_redTeam t) \<ge> max_points size \<or> ti_points (rt_blueTeam t) \<ge> max_points size);
          spur = (full \<and> ti_points (team_of color t) \<ge> max_points size);
          t = (if full then t\<lparr>rt_redTeam := (rt_redTeam t)\<lparr>ti_points := 0\<rparr>,
                             rt_blueTeam := (rt_blueTeam t)\<lparr>ti_points := 0\<rparr>\<rparr> else t);
          t = (if spur then let t = t\<lparr>rt_redTeam := (rt_redTeam t)\<lparr>ti_boostCount := 0\<rparr>,
                                     rt_blueTeam := (rt_blueTeam t)\<lparr>ti_boostCount := 0\<rparr>\<rparr>
                            in put_team color ((team_of color t)\<lparr>ti_gaugeLocked := True\<rparr>) t
               else t)
      in (old, new, spur, t))"

definition HandleTeamGauge :: "time_point \<Rightarrow> client_id \<Rightarrow> unit race_act" where
  "HandleTeamGauge now c =
     seq (GetClientContext c True) (\<lambda>ctx.
     seq (GetRaceInstance ctx True) (\<lambda>i.
     if pa_teamMode (in_parameters i) \<noteq> Teams_Team \<or> pa_gameMode (in_parameters i) \<noteq> Mode_Speed_Race
     then pure ()
     else seq (lift (GetRacer (cc_characterUid ctx) (in_tracker i))) (\<lambda>r.
       if ra_team r \<noteq> Color_Red \<and> ra_team r \<noteq> Color_Blue then throw ''Racer is on unrecognised team''
       else if ti_gaugeLocked (team_of (ra_team r) (in_tracker i)) then pure ()
       else case fill_gauge (ra_team r) (in_tracker i) of (old, new, spur, t) \<Rightarrow>
         let size = team_size (in_tracker i) in
         seq (put_tracker (cc_roomUid ctx) t) (\<lambda>_.
         seq (if spur then queue_task (Task_SpurStart (cc_roomUid ctx) (ra_team r) (max_points size) size)
                             (now + milliseconds 1500)
              else pure ()) (\<lambda>_.
         broadcast (cc_roomUid ctx) (Course_msg (TeamSpurGauge (ra_team r) old new
           (min (ti_boostCount (team_of (ra_team r) (in_tracker i)) + 1) 5))))))))"

text \<open>The two jobs of a spur. The code unlocks the gauge through a reference into the instance, which is
  the gauge of the room's race if the room is still there.\<close>

definition other_color :: "TeamColor \<Rightarrow> TeamColor" where
  "other_color color = (if color = Color_Red then Color_Blue else Color_Red)"

definition run_spur_start :: "race_env \<Rightarrow> time_point \<Rightarrow> u32 \<Rightarrow> TeamColor \<Rightarrow> u32 \<Rightarrow> u32 \<Rightarrow> unit race_act" where
  "run_spur_start env now u color maxPoints teamSize =
     seq get_state (\<lambda>s.
     if \<not> has_key (sv_raceInstances s) u then pure ()
     else seq (queue_task (Task_UnlockGauge u color) (now + milliseconds (env_spur_ms env maxPoints teamSize))) (\<lambda>_.
          seq (broadcast u (Course_msg (TeamSpurGauge (other_color color) 0 0 0))) (\<lambda>_.
          broadcast u (Course_msg (TeamSpurGauge color maxPoints 0 0)))))"

definition run_unlock_gauge :: "u32 \<Rightarrow> TeamColor \<Rightarrow> unit race_act" where
  "run_unlock_gauge u color =
     seq get_state (\<lambda>s. case map_of (sv_raceInstances s) u of
       None \<Rightarrow> pure ()
     | Some i \<Rightarrow> put_instance u (i\<lparr>in_tracker :=
         put_team color ((team_of color (in_tracker i))\<lparr>ti_gaugeLocked := False\<rparr>) (in_tracker i)\<rparr>))"

end
