(* ===== verification/Race_Magic.thy ===== *)
theory Race_Magic imports Race_Handlers begin

text \<open>
  The magic of \<open>server/race/RaceNetworkHandler.cpp\<close>: spells that are drawn, picked up and cast, the effects
  they leave on racers, the jobs that end these effects, and the bolt that is passed on.

  \<^item> The code changes a racer through a reference into the instance; here each change is a
    \<open>update_racer\<close> of the racer's key, in the order of the code.
  \<^item> \<open>draw\<close> and \<open>roll\<close> are the two draws of a random spell, \<open>deckDraw\<close> that of a deck's next item.
\<close>

section \<open>The racer of a key\<close>

definition get_racer :: "u32 \<Rightarrow> uid \<Rightarrow> racer race_act" where
  "get_racer u c = seq (get_instance u) (\<lambda>i. lift (GetRacer c (in_tracker i)))"

definition update_racer :: "u32 \<Rightarrow> uid \<Rightarrow> (racer \<Rightarrow> racer) \<Rightarrow> unit race_act" where
  "update_racer u c f = seq (get_racer u c) (\<lambda>r. put_racer u c (f r))"

abbreviation own_update :: "client_context \<Rightarrow> (racer \<Rightarrow> racer) \<Rightarrow> unit race_act" where
  "own_update ctx f \<equiv> update_racer (cc_roomUid ctx) (cc_characterUid ctx) f"

section \<open>Events\<close>

definition HandleUserRaceDeactivateEvent :: "time_point \<Rightarrow> client_id \<Rightarrow> u32 \<Rightarrow> unit race_act" where
  "HandleUserRaceDeactivateEvent now c eventId =
     with_own_racer c (\<lambda>ctx i r.
     case IsEventThrottled now eventId (in_tracker i) of (throttled, t) \<Rightarrow>
     seq (put_tracker (cc_roomUid ctx) t) (\<lambda>_.
     if throttled then pure ()
     else broadcast (cc_roomUid ctx) (Course_msg (DeactivateEventNotify eventId (ra_oid r)))))"

definition HandleUserRaceActivateEvent :: "time_point \<Rightarrow> client_id \<Rightarrow> u32 \<Rightarrow> unit race_act" where
  "HandleUserRaceActivateEvent now c eventId =
     with_own_racer c (\<lambda>ctx i r.
     case IsEventThrottled now eventId (in_tracker i) of (throttled, t) \<Rightarrow>
     seq (put_tracker (cc_roomUid ctx) t) (\<lambda>_.
     if throttled then pure ()
     else seq (queue_task (Task_DeactivateEvent c eventId) (now + EventThrottleDuration)) (\<lambda>_.
          broadcast (cc_roomUid ctx) (Course_msg (ActivateEventNotify eventId (ra_oid r))))))"

section \<open>Effects\<close>

definition set_effect :: "u32 \<Rightarrow> bool \<Rightarrow> racer \<Rightarrow> racer" where
  "set_effect e b r = r\<lparr>ra_effects := (ra_effects r)[unat e := b]\<rparr>"

definition effect_generation :: "u32 \<Rightarrow> racer \<Rightarrow> u32" where
  "effect_generation e r = ra_effectGenerations r ! unat e"

definition next_generation :: "u32 \<Rightarrow> racer \<Rightarrow> racer" where
  "next_generation e r = r\<lparr>ra_effectGenerations := (ra_effectGenerations r)[unat e := effect_generation e r + 1]\<rparr>"

definition RemoveEffect :: "u32 \<Rightarrow> uid \<Rightarrow> u32 \<Rightarrow> unit race_act" where
  "RemoveEffect u c e =
     (if \<not> IsValidSkillEffectId e then pure ()
      else seq (update_racer u c (\<lambda>r. next_generation e (set_effect e False r))) (\<lambda>_.
           seq (get_racer u c) (\<lambda>r. broadcast u (Magic_msg (RemoveSkillEffect (ra_oid r) e)))))"

definition StripEffectsOnAttack :: "race_env \<Rightarrow> u32 \<Rightarrow> uid \<Rightarrow> slot_info \<Rightarrow> unit race_act" where
  "StripEffectsOnAttack env u c attack =
     for_each (vals_of (mr_slotInfo (env_magic env))) (\<lambda>slot.
       if \<not> IsValidSkillEffectId (sl_skillEffectId slot) then pure ()
       else seq (get_racer u c) (\<lambda>r.
         if IsStrippedByAttack attack slot \<and> has_effect r (sl_skillEffectId slot)
         then RemoveEffect u c (sl_skillEffectId slot) else pure ()))"

definition DrainGauge :: "u32 \<Rightarrow> uid \<Rightarrow> unit race_act" where
  "DrainGauge u c =
     seq (update_racer u c (\<lambda>r. r\<lparr>ra_starPointValue := 0\<rparr>)) (\<lambda>_.
     seq (get_racer u c) (\<lambda>r.
     seq get_state (\<lambda>s.
     case FindClientIdByCharacterUid c s of
       None \<Rightarrow> pure ()
     | Some client \<Rightarrow> send client (Course_msg (StarPointGetOK (ra_oid r) (ra_starPointValue r) False)))))"

definition QueueEffectExpiry ::
  "time_point \<Rightarrow> u32 \<Rightarrow> uid \<Rightarrow> oid \<Rightarrow> u32 \<Rightarrow> slot_info \<Rightarrow> u32 \<Rightarrow> u32 \<Rightarrow> unit race_act" where
  "QueueEffectExpiry now u c targetOid e s generation durationMs =
     queue_task (Task_EffectExpiry u c targetOid e generation (sl_attackRank s))
       (now + milliseconds (uint durationMs))"

text \<open>The job of \<open>QueueEffectExpiry\<close>.\<close>

definition end_effect :: "u32 \<Rightarrow> u32 \<Rightarrow> racer \<Rightarrow> racer" where
  "end_effect e attackRank r =
     (let r = set_effect e False r
      in if attackRank > 0 \<and> ra_attackRank r = attackRank then r\<lparr>ra_attackRank := 0\<rparr> else r)"

definition run_effect_expiry :: "u32 \<Rightarrow> uid \<Rightarrow> oid \<Rightarrow> u32 \<Rightarrow> u32 \<Rightarrow> u32 \<Rightarrow> unit race_act" where
  "run_effect_expiry u c targetOid e generation attackRank =
     seq get_state (\<lambda>s. case map_of (sv_raceInstances s) u of
       None \<Rightarrow> pure ()
     | Some i \<Rightarrow> (case map_of (rt_racers (in_tracker i)) c of
         None \<Rightarrow> pure ()
       | Some r \<Rightarrow>
           if effect_generation e r \<noteq> generation then pure ()
           else seq (put_racer u c (end_effect e attackRank r)) (\<lambda>_.
                broadcast u (Magic_msg (RemoveSkillEffect targetOid e)))))"

datatype EffectVerdict = Verdict_Failed | Verdict_Shielded | Verdict_Duplicated | Verdict_Applied

definition apply_effect :: "u32 \<Rightarrow> slot_info \<Rightarrow> racer \<Rightarrow> racer" where
  "apply_effect e s r =
     (let r = next_generation e (set_effect e True r)
      in if sl_attackRank s > 0 then r\<lparr>ra_attackRank := sl_attackRank s\<rparr> else r)"

definition ScheduleSkillEffect ::
  "race_env \<Rightarrow> time_point \<Rightarrow> u32 \<Rightarrow> oid \<Rightarrow> oid \<Rightarrow> slot_info \<Rightarrow> u16 \<Rightarrow> EffectVerdict race_act" where
  "ScheduleSkillEffect env now u attackerOid targetOid s effectInstanceId =
     seq (get_instance u) (\<lambda>i.
     case FindRacerByOid (rt_racers (in_tracker i)) targetOid of
       None \<Rightarrow> pure Verdict_Failed
     | Some (c, target) \<Rightarrow>
         if \<not> IsValidSkillEffectId (sl_skillEffectId s) then pure Verdict_Failed
         else
           seq (lift (ResolveEffect (env_magic env) s target)) (\<lambda>res.
           let attacker = map_option snd (FindRacerByOid (rt_racers (in_tracker i)) attackerOid);
               durationMs = ComputeEffectDurationMs (env_effect_ms env) (env_magic env) s attacker target
           in
           seq (broadcast u (Magic_msg (AddSkillEffect targetOid (er_effectId res) attackerOid effectInstanceId
                  (er_isDuplicated res) (er_shieldBlocks res) durationMs))) (\<lambda>_.
           if er_shieldBlocks res then pure Verdict_Shielded
           else if er_isDuplicated res then pure Verdict_Duplicated
           else
             let applied = apply_effect (er_effectId res) s target in
             seq (put_racer u c applied) (\<lambda>_.
             seq (if sl_attackValue s > 0
                  then seq (StripEffectsOnAttack env u c s) (\<lambda>_.
                       if DrainsGaugeOnHit s then DrainGauge u c else pure ())
                  else pure ()) (\<lambda>_.
             seq (QueueEffectExpiry now u c targetOid (er_effectId res) s
                   (effect_generation (er_effectId res) applied) durationMs) (\<lambda>_.
             pure Verdict_Applied))))))"

section \<open>Drawing a spell\<close>

definition hold_spell :: "u32 \<Rightarrow> racer \<Rightarrow> racer" where
  "hold_spell k r = r\<lparr>ra_magicItem := Some k, ra_starPointValue := 0\<rparr>"

definition HandleRequestMagicItem :: "race_env \<Rightarrow> nat \<Rightarrow> int \<Rightarrow> client_id \<Rightarrow> oid \<Rightarrow> unit race_act" where
  "HandleRequestMagicItem env draw roll c characterOid =
     with_own_racer c (\<lambda>ctx i r.
     if characterOid \<noteq> ra_oid r then pure ()
     else seq (lift (mode_of env i)) (\<lambda>mode.
       if ra_magicItem r \<noteq> None \<or> ra_starPointValue r < gm_starPointsMax mode then pure ()
       else
         seq (lift (RandomMagicItem (env_magic env) draw roll (in_tracker i) (cc_characterUid ctx))) (\<lambda>s.
         seq (put_own ctx (hold_spell (sl_type s) r)) (\<lambda>_.
         seq (send c (Course_msg (StarPointGetOK characterOid 0 False))) (\<lambda>_.
         seq (send c (Magic_msg (RequestMagicItemOK characterOid (sl_type s)))) (\<lambda>_.
         broadcast_except (cc_roomUid ctx) (Magic_msg (RequestMagicItemNotify (sl_type s) characterOid))
           (cc_characterUid ctx)))))))"

section \<open>Picking up an item\<close>

definition game_mode_number :: "GameMode \<Rightarrow> u8" where
  "game_mode_number g = (case g of Game_Unset \<Rightarrow> 0 | Game_Speed \<Rightarrow> 1 | Game_Magic \<Rightarrow> 2
     | Game_Guild \<Rightarrow> 3 | Game_Tutorial \<Rightarrow> 6)"

definition collect_cooldown :: "uid \<Rightarrow> oid \<Rightarrow> time_point \<Rightarrow> race_tracker \<Rightarrow> race_tracker" where
  "collect_cooldown c deckId until t = t\<lparr>rt_racers := map (\<lambda>(v, r). (v,
     if v \<noteq> c then r\<lparr>ra_deckCooldown := umap_erase deckId (ra_deckCooldown r)\<rparr>
     else r\<lparr>ra_deckCooldown := umap_put deckId until (ra_deckCooldown r)\<rparr>)) (rt_racers t)\<rparr>"

definition untrack_deck :: "oid \<Rightarrow> racer \<Rightarrow> racer" where
  "untrack_deck deckId r = r\<lparr>ra_trackedDecks := uset_erase deckId (ra_trackedDecks r)\<rparr>"

definition horseshoe :: "u32 \<Rightarrow> u32 \<Rightarrow> u32 \<Rightarrow> u32" where
  "horseshoe item starPointsMax points =
     (if item = 101 then min ((points div 40000 + 1) * 40000) starPointsMax
      else if item = 102 then min (points + 10000) starPointsMax
      else points)"

definition pick_event_item :: "exn + (uid \<times> tid) \<Rightarrow> client_context \<Rightarrow> oid \<Rightarrow> oid \<Rightarrow> event_item \<Rightarrow> unit race_act" where
  "pick_event_item egg ctx characterOid deckId item =
     seq (lift egg) (\<lambda>(itemUid, itemTid).
     seq (broadcast (cc_roomUid ctx) (Magic_msg (ObtainEgg (cc_characterUid ctx) itemUid itemTid))) (\<lambda>_.
     seq (broadcast (cc_roomUid ctx) (Magic_msg (GameRaceItemGet characterOid deckId (ei_itemType item)))) (\<lambda>_.
     seq (get_instance (cc_roomUid ctx)) (\<lambda>i.
     case RemoveEventItem (cc_characterUid ctx) deckId (in_tracker i) of (_, t) \<Rightarrow>
     seq (put_tracker (cc_roomUid ctx) t) (\<lambda>_.
     own_update ctx (untrack_deck deckId))))))"

definition pick_speed_item :: "client_id \<Rightarrow> client_context \<Rightarrow> game_mode_info \<Rightarrow> oid \<Rightarrow> item_deck \<Rightarrow> unit race_act" where
  "pick_speed_item c ctx mode characterOid deck =
     seq (own_update ctx (\<lambda>r. r\<lparr>ra_starPointValue :=
            horseshoe (id_currentItem deck) (gm_starPointsMax mode) (ra_starPointValue r)\<rparr>)) (\<lambda>_.
     seq (get_racer (cc_roomUid ctx) (cc_characterUid ctx)) (\<lambda>r.
     send c (Course_msg (StarPointGetOK characterOid (ra_starPointValue r) False))))"

text \<open>The spell of a picked up item: its own, or a random one if it gives positional magic.\<close>

definition spell_of_item :: "race_env \<Rightarrow> nat \<Rightarrow> int \<Rightarrow> race_tracker \<Rightarrow> uid \<Rightarrow> u32 \<Rightarrow> exn + u32" where
  "spell_of_item env draw roll t u item =
     bnd (GetDeckItemSlot env item) (\<lambda>magicSlot.
     bnd (GetSlotInfo (env_magic env) magicSlot) (\<lambda>s.
     if sl_givePositionalMagic s \<noteq> 0
     then bnd (RandomMagicItem (env_magic env) draw roll t u) (\<lambda>s. Inr (sl_type s))
     else Inr magicSlot))"

definition pick_magic_item ::
  "race_env \<Rightarrow> nat \<Rightarrow> int \<Rightarrow> nat \<Rightarrow> client_id \<Rightarrow> client_context \<Rightarrow> oid \<Rightarrow> oid \<Rightarrow> item_deck \<Rightarrow> unit race_act" where
  "pick_magic_item env draw roll deckDraw c ctx characterOid deckId deck =
     seq (get_instance (cc_roomUid ctx)) (\<lambda>i.
     seq (get_racer (cc_roomUid ctx) (cc_characterUid ctx)) (\<lambda>r.
     seq (case ra_magicItem r of
            Some k \<Rightarrow> pure k
          | None \<Rightarrow>
              seq (lift (spell_of_item env draw roll (in_tracker i) (cc_characterUid ctx) (id_currentItem deck))) (\<lambda>k.
              seq (own_update ctx (hold_spell k)) (\<lambda>_.
              seq (send c (Magic_msg (RequestMagicItemOK characterOid k))) (\<lambda>_.
              seq (send c (Course_msg (StarPointGetOK characterOid 0 False))) (\<lambda>_. pure k))))) (\<lambda>k.
     seq (get_instance (cc_roomUid ctx)) (\<lambda>i.
     seq (put_tracker (cc_roomUid ctx) (set_item_deck deckId (PickRandomItemFromDeck deckDraw deck) (in_tracker i))) (\<lambda>_.
     broadcast_except (cc_roomUid ctx) (Magic_msg (RequestMagicItemNotify k characterOid)) (cc_characterUid ctx))))))"

definition pick_deck_item ::
  "race_env \<Rightarrow> nat \<Rightarrow> int \<Rightarrow> nat \<Rightarrow> time_point \<Rightarrow> client_id \<Rightarrow> client_context \<Rightarrow> oid \<Rightarrow> oid \<Rightarrow> item_deck \<Rightarrow> unit race_act" where
  "pick_deck_item env draw roll deckDraw now c ctx characterOid deckId deck =
     seq (get_instance (cc_roomUid ctx)) (\<lambda>i.
     seq (put_tracker (cc_roomUid ctx)
            (collect_cooldown (cc_characterUid ctx) deckId (now + id_respawnTime deck) (in_tracker i))) (\<lambda>_.
     seq (get_room (cc_roomUid ctx)) (\<lambda>room.
     let gameMode = rd_gameMode (rm_details room) in
     seq (lift (GetCourseGameModeInfo env (ucast (game_mode_number gameMode)))) (\<lambda>mode.
     seq (if gameMode = Game_Speed then pick_speed_item c ctx mode characterOid deck
          else if gameMode = Game_Magic
          then pick_magic_item env draw roll deckDraw c ctx characterOid deckId deck
          else pure ()) (\<lambda>_.
     seq (get_instance (cc_roomUid ctx)) (\<lambda>i.
     seq (lift (GetItemDeck deckId (in_tracker i))) (\<lambda>deck.
     seq (broadcast (cc_roomUid ctx) (Magic_msg (GameRaceItemGet characterOid deckId (id_currentItem deck)))) (\<lambda>_.
     put_tracker (cc_roomUid ctx) ((in_tracker i)\<lparr>rt_racers :=
       map (\<lambda>(v, r). (v, untrack_deck (id_oid deck) r)) (rt_racers (in_tracker i))\<rparr>)))))))))"

definition HandleUserRaceItemGet ::
  "race_env \<Rightarrow> (u32 \<Rightarrow> exn + (uid \<times> tid)) \<Rightarrow> nat \<Rightarrow> int \<Rightarrow> nat \<Rightarrow> time_point \<Rightarrow> client_id \<Rightarrow> oid \<Rightarrow> oid \<Rightarrow> unit race_act" where
  "HandleUserRaceItemGet env egg draw roll deckDraw now c characterOid deckId =
     with_own_racer c (\<lambda>ctx i r.
     seq (lift (FindEventItem (cc_characterUid ctx) deckId (in_tracker i))) (\<lambda>eventItemOid.
     if eventItemOid \<noteq> InvalidEntityOid
     then seq (lift (GetEventItem (cc_characterUid ctx) eventItemOid (in_tracker i))) (\<lambda>item.
          pick_event_item (egg (ei_itemType item)) ctx characterOid deckId item)
     else case map_of (rt_itemDecks (in_tracker i)) deckId of
       None \<Rightarrow> pure ()
     | Some deck \<Rightarrow>
         if (case map_of (ra_deckCooldown r) deckId of None \<Rightarrow> False | Some t \<Rightarrow> t > now)
         then own_update ctx (untrack_deck deckId)
         else pick_deck_item env draw roll deckDraw now c ctx characterOid deckId deck))"

section \<open>Casting a spell\<close>

text \<open>The spell that is cast: with the aura of power the critical variant, which uses the aura up.\<close>

definition aura_effects :: "u32 list" where
  "aura_effects = [Effect_BufPower, Effect_BufPowerCritical]"

definition ConsumeCriticalAura :: "race_env \<Rightarrow> u32 \<Rightarrow> uid \<Rightarrow> slot_info \<Rightarrow> slot_info race_act" where
  "ConsumeCriticalAura env u c s =
     seq (get_racer u c) (\<lambda>r.
     if \<not> list_ex (has_effect r) aura_effects \<or> sl_criticalType s = 0 then pure s
     else seq (for_each aura_effects (\<lambda>e.
            seq (get_racer u c) (\<lambda>r. if has_effect r e then RemoveEffect u c e else pure ()))) (\<lambda>_.
          lift (GetSlotInfo (env_magic env) (sl_criticalType s))))"

text \<open>\<open>resize(1)\<close> cuts the list or adds a zero.\<close>

definition ResolveMagicTargets :: "race_instance \<Rightarrow> slot_info \<Rightarrow> oid list \<Rightarrow> oid list" where
  "ResolveMagicTargets i s targetList =
     (if sl_type s = Magic_DarkFire then (case targetList of [] \<Rightarrow> [0] | t # _ \<Rightarrow> [t])
      else if sl_basicType s = Magic_Summon \<and> targetList \<noteq> []
      then (case FindRacerByOid (rt_racers (in_tracker i)) (hd targetList) of
              None \<Rightarrow> []
            | Some (_, r) \<Rightarrow> if ra_pendingMagicTarget r \<noteq> None then [] else targetList)
      else targetList)"

definition QueueIceWallExpiry :: "time_point \<Rightarrow> u32 \<Rightarrow> u32 \<Rightarrow> u16 \<Rightarrow> unit race_act" where
  "QueueIceWallExpiry now u magicType firstObstacleInstanceId =
     queue_task (Task_IceWallExpiry u magicType firstObstacleInstanceId) (now + seconds 4)"

definition run_ice_wall_expiry :: "u32 \<Rightarrow> u32 \<Rightarrow> u16 \<Rightarrow> unit race_act" where
  "run_ice_wall_expiry u magicType firstObstacleInstanceId =
     seq get_state (\<lambda>s. if has_key (sv_raceInstances s) u
       then broadcast u (Magic_msg (MagicExpire magicType firstObstacleInstanceId 3 0)) else pure ())"

text \<open>The casting racer \<open>r\<close> is read through its reference; its id and team do not change meanwhile.\<close>

definition ApplyImmediateMagicEffects ::
  "race_env \<Rightarrow> time_point \<Rightarrow> u32 \<Rightarrow> racer \<Rightarrow> slot_info \<Rightarrow> u16 \<Rightarrow> unit race_act" where
  "ApplyImmediateMagicEffects env now u r s effectInstanceId =
     (if IsSelfCast (sl_type s)
      then seq (ScheduleSkillEffect env now u (ra_oid r) (ra_oid r) s effectInstanceId) (\<lambda>_. pure ())
      else if IsIceWall (sl_type s) then QueueIceWallExpiry now u (sl_type s) effectInstanceId
      else if IsTeamBuff (sl_type s)
      then seq (get_instance u) (\<lambda>i.
           for_each (vals_of (rt_racers (in_tracker i))) (\<lambda>other.
             if ra_oid r = ra_oid other \<or> (ra_team r \<noteq> Color_Solo \<and> ra_team r = ra_team other)
             then seq (ScheduleSkillEffect env now u (ra_oid r) (ra_oid other) s effectInstanceId) (\<lambda>_. pure ())
             else pure ()))
      else pure ())"

definition drop_spell :: "racer \<Rightarrow> racer" where
  "drop_spell r = r\<lparr>ra_magicItem := None\<rparr>"

definition HandleUseMagicItem ::
  "race_env \<Rightarrow> time_point \<Rightarrow> client_id \<Rightarrow> oid \<Rightarrow> u32 \<Rightarrow> oid list \<Rightarrow> unit race_act" where
  "HandleUseMagicItem env now c characterOid magicItemId targets =
     with_own_racer c (\<lambda>ctx i r.
     let u = cc_roomUid ctx in
     if characterOid \<noteq> ra_oid r then pure ()
     else if ra_magicItem r = None \<or> magicItemId = 0
     then seq (own_update ctx drop_spell) (\<lambda>_. send c (Magic_msg (UseMagicItemOK characterOid 0 [] 0 0)))
     else
       seq (lift (GetSlotInfo (env_magic env) magicItemId)) (\<lambda>s.
       seq (ConsumeCriticalAura env u (cc_characterUid ctx) s) (\<lambda>s.
       seq (get_instance u) (\<lambda>i.
       let targetList = ResolveMagicTargets i s targets in
       case GetNextEffectInstanceIdAndIncrementBy
              (if IsIceWall (sl_type s) then of_nat (length targets) else 1) (in_tracker i) of
         (effectInstanceId, t) \<Rightarrow>
       seq (put_tracker u t) (\<lambda>_.
       seq (send c (Magic_msg (UseMagicItemOK characterOid (sl_type s) targetList effectInstanceId (sl_castingTime s)))) (\<lambda>_.
       seq (broadcast_except u (Magic_msg (UseMagicItemNotify characterOid (sl_type s) targetList effectInstanceId
              (sl_castingTime s))) (cc_characterUid ctx)) (\<lambda>_.
       seq (ApplyImmediateMagicEffects env now u r s effectInstanceId) (\<lambda>_.
       own_update ctx drop_spell))))))))"

section \<open>Being hit\<close>

definition QueueHeldMagicItemStrip :: "time_point \<Rightarrow> u32 \<Rightarrow> uid \<Rightarrow> unit race_act" where
  "QueueHeldMagicItemStrip now u c = queue_task (Task_StripMagicItem u c) (now + milliseconds 500)"

definition StripHeldMagicItem :: "u32 \<Rightarrow> uid \<Rightarrow> unit race_act" where
  "StripHeldMagicItem u c =
     seq (update_racer u c drop_spell) (\<lambda>_.
     seq (get_racer u c) (\<lambda>r. broadcast u (Magic_msg (UseItemSlotNotify (ra_oid r)))))"

definition run_strip_magic_item :: "u32 \<Rightarrow> uid \<Rightarrow> unit race_act" where
  "run_strip_magic_item u c =
     seq get_state (\<lambda>s. case map_of (sv_raceInstances s) u of
       None \<Rightarrow> pure ()
     | Some i \<Rightarrow> (case map_of (rt_racers (in_tracker i)) c of
         None \<Rightarrow> pure ()
       | Some r \<Rightarrow> if ra_magicItem r = None then pure () else StripHeldMagicItem u c))"

definition clear_target :: "racer \<Rightarrow> racer" where
  "clear_target r = r\<lparr>ra_pendingMagicTarget := None\<rparr>"

definition dark_fire_slot :: "race_env \<Rightarrow> racer \<Rightarrow> slot_info \<Rightarrow> exn + slot_info" where
  "dark_fire_slot env r s =
     (if (has_effect r Effect_DarkFire \<or> has_effect r Effect_DarkFireCritical) \<and> sl_criticalByDarkFire s \<noteq> 0
      then GetSlotInfo (env_magic env) (sl_criticalType s) else Inr s)"

definition HandleActivateSkillEffect ::
  "race_env \<Rightarrow> time_point \<Rightarrow> client_id \<Rightarrow> oid \<Rightarrow> oid \<Rightarrow> u32 \<Rightarrow> u16 \<Rightarrow> unit race_act" where
  "HandleActivateSkillEffect env now c attackerOid targetOid effectId effectInstanceId =
     with_own_racer c (\<lambda>ctx i r.
     let u = cc_roomUid ctx; own = cc_characterUid ctx in
     if targetOid \<noteq> ra_oid r then pure ()
     else
       seq (lift (GetSlotInfoByEffectId (env_magic env) effectId)) (\<lambda>s.
       seq (lift (dark_fire_slot env r s)) (\<lambda>s.
       seq (if IsIceWall (sl_type s)
            then broadcast u (Magic_msg (MagicExpire (sl_type s) effectInstanceId 1 1)) else pure ()) (\<lambda>_.
       seq (ScheduleSkillEffect env now u attackerOid targetOid s effectInstanceId) (\<lambda>verdict.
       seq (get_racer u own) (\<lambda>r.
       seq (if verdict = Verdict_Applied
            then seq (case ra_pendingMagicTarget r of
                   Some m \<Rightarrow>
                     if sl_attackRank s > 1
                     then seq (broadcast u (Magic_msg (RemoveMagicTarget (mt_effectInstanceId m) (mt_casterOid m)
                            targetOid targetOid))) (\<lambda>_. own_update ctx clear_target)
                     else pure ()
                 | None \<Rightarrow> pure ()) (\<lambda>_.
                 if sl_removeMagic s = 1 \<and> ra_magicItem r \<noteq> None
                 then QueueHeldMagicItemStrip now u own else pure ())
            else pure ()) (\<lambda>_.
       if sl_basicType s = Magic_Summon then own_update ctx clear_target else pure ())))))))"

section \<open>The bolt\<close>

definition set_target :: "time_point \<Rightarrow> oid \<Rightarrow> u16 \<Rightarrow> racer \<Rightarrow> racer" where
  "set_target now casterOid effectInstanceId r = r\<lparr>ra_dragonReceivedAt := now,
     ra_pendingMagicTarget := Some \<lparr>mt_casterOid = casterOid, mt_effectInstanceId = effectInstanceId\<rparr>\<rparr>"

definition HandleStartMagicTarget ::
  "time_point \<Rightarrow> client_id \<Rightarrow> u16 \<Rightarrow> oid \<Rightarrow> oid \<Rightarrow> oid \<Rightarrow> unit race_act" where
  "HandleStartMagicTarget now c effectInstanceId casterOid targetOid targetOid2 =
     with_own_racer c (\<lambda>ctx i r.
     let u = cc_roomUid ctx in
     if casterOid \<noteq> ra_oid r then pure ()
     else case FindRacerByOid (rt_racers (in_tracker i)) targetOid of
       None \<Rightarrow> pure ()
     | Some (v, target) \<Rightarrow>
         if ra_pendingMagicTarget target \<noteq> None
         then broadcast u (Magic_msg (RemoveMagicTarget effectInstanceId casterOid targetOid targetOid2))
         else put_racer u v (set_target now casterOid effectInstanceId target))"

definition DragonPassCooldown :: int where "DragonPassCooldown = milliseconds 500"

definition HandleChangeMagicTarget ::
  "time_point \<Rightarrow> client_id \<Rightarrow> u16 \<Rightarrow> oid \<Rightarrow> oid \<Rightarrow> oid \<Rightarrow> unit race_act" where
  "HandleChangeMagicTarget now c effectInstanceId casterOid targetOid targetOid2 =
     with_own_racer c (\<lambda>ctx i r.
     let u = cc_roomUid ctx;
         cancel = send c (Magic_msg (ChangeMagicTargetCancel effectInstanceId casterOid targetOid targetOid2)) in
     if targetOid \<noteq> ra_oid r then pure ()
     else if ra_pendingMagicTarget r = None then cancel
     else case FindRacerByOid (rt_racers (in_tracker i)) targetOid2 of
       None \<Rightarrow> pure ()
     | Some (v, target) \<Rightarrow>
         if now - ra_dragonReceivedAt r < DragonPassCooldown then cancel
         else if ra_pendingMagicTarget target \<noteq> None then cancel
         else
           seq (put_racer u v (set_target now casterOid effectInstanceId target)) (\<lambda>_.
           seq (own_update ctx clear_target) (\<lambda>_.
           seq (send c (Magic_msg (ChangeMagicTargetOK effectInstanceId casterOid targetOid targetOid2))) (\<lambda>_.
           broadcast u (Magic_msg (ChangeMagicTargetNotify effectInstanceId casterOid targetOid targetOid2))))))"

end
