(* ===== verification/Race_Rooms.thy ===== *)
theory Race_Rooms imports Race_Magic begin

text \<open>
  The commands of the waiting room, the clients and the tick of \<open>server/race/RaceNetworkHandler.cpp\<close>.

  \<^item> What the answers show of characters, mounts and guilds is left out; \<open>records\<close> tells for a character
    whether reading these records throws.
  \<^item> \<open>hash\<close> is the hash of a character and a room that keys the one-time codes.
  \<^item> Draws are arguments: the coin that picks a team, the number from 1 to 100 and the type of a bonus
    course, a racer's bonus skill.
\<close>

section \<open>Clients\<close>

definition put_client :: "client_id \<Rightarrow> client_context \<Rightarrow> unit race_act" where
  "put_client c ctx = modify (\<lambda>s. s\<lparr>sv_clients := umap_put c ctx (sv_clients s)\<rparr>)"

definition new_client :: client_context where
  "new_client = \<lparr>cc_characterUid = InvalidUid, cc_roomUid = InvalidUid, cc_isAuthenticated = False\<rparr>"

definition HandleClientConnected :: "client_id \<Rightarrow> unit race_act" where
  "HandleClientConnected c =
     seq get_state (\<lambda>s. if has_key (sv_clients s) c then pure () else put_client c new_client)"

definition GetClientContextByCharacterUid :: "uid \<Rightarrow> client_context race_act" where
  "GetClientContextByCharacterUid u s =
     (case find (\<lambda>ctx. cc_characterUid ctx = u \<and> cc_isAuthenticated ctx) (vals_of (sv_clients s)) of
        None \<Rightarrow> (Inl (RuntimeError ''Character not associated with any client''), s)
      | Some ctx \<Rightarrow> (Inr ctx, s))"

section \<open>Entering a room\<close>

definition new_instance :: "u32 \<Rightarrow> race_instance" where
  "new_instance u = \<lparr>in_roomUid = u,
     in_parameters = \<lparr>pa_gameMode = 0, pa_teamMode = 0, pa_mapBlockId = 0, pa_missionId = 0, pa_masterUid = 0\<rparr>,
     in_gameModeId = 0,
     in_gameModeInfo = \<lparr>gm_goodJumpStarPoints = 0, gm_perfectJumpStarPoints = 0,
       gm_perfectJumpMaxBonusCombo = 0, gm_perfectJumpUnitStarPoints = 0, gm_spurConsumeStarPoints = 0,
       gm_starPointsMax = 0, gm_usedDeckIds = [], gm_mapBlockPool = []\<rparr>,
     in_mapBlockId = 0,
     in_mapBlockInfo = \<lparr>mb_requiredLevel = 0, mb_offset = new_vector3, mb_trainingFee = 0, mb_timeLimit = 0,
       mb_waitTime = 0, mb_itemDecks = []\<rparr>,
     in_loadingStart = None, in_raceStart = None, in_stage = Stage_Waiting, in_stageTimeout = None,
     in_tracker = new_tracker, in_bonusCourseType = 0\<rparr>"

text \<open>\<open>try_emplace\<close> of the instance, and the master of a room that is new.\<close>

definition enter_instance :: "uid \<Rightarrow> u32 \<Rightarrow> bool race_act" where
  "enter_instance characterUid u =
     seq get_state (\<lambda>s.
     if has_key (sv_raceInstances s) u then pure False
     else
       seq (put_instance u (new_instance u)) (\<lambda>_.
       seq (get_room u) (\<lambda>room.
       seq (put_room u (room\<lparr>rm_details := (rm_details room)\<lparr>rd_masterUid := characterUid\<rparr>\<rparr>)) (\<lambda>_. pure True))))"

fun room_players ::
  "(uid \<Rightarrow> exn + unit) \<Rightarrow> u32 \<Rightarrow> uid \<Rightarrow> uid list \<Rightarrow> (uid \<times> bool \<times> bool \<times> Team) list race_act" where
  "room_players records u master [] = pure []"
| "room_players records u master (c # cs) =
     seq (get_room u) (\<lambda>room.
     seq (lift (GetPlayer c room)) (\<lambda>p.
     seq (get_character c) (\<lambda>_.
     seq (lift (records c)) (\<lambda>_.
     seq (room_players records u master cs) (\<lambda>ps.
     pure ((c, c = master, pl_isReady p, pl_team p) # ps))))))"

definition HandleEnterRoom ::
  "(uid \<Rightarrow> u32 \<Rightarrow> otp_key) \<Rightarrow> (uid \<Rightarrow> exn + unit) \<Rightarrow> bool \<Rightarrow> time_point \<Rightarrow> client_id \<Rightarrow> uid \<Rightarrow> u32 \<Rightarrow> u32 \<Rightarrow> unit race_act" where
  "HandleEnterRoom hash records coin now c characterUid u otp =
     seq get_state (\<lambda>s.
     let ctx = (case map_of (sv_clients s) c of None \<Rightarrow> new_client | Some ctx \<Rightarrow> ctx);
         (ok, codes) = AuthorizeCode (hash characterUid u) otp now (sv_otp s);
         ctx = ctx\<lparr>cc_isAuthenticated := ok\<rparr> in
     seq (put_client c ctx) (\<lambda>_.
     seq (modify (\<lambda>s. s\<lparr>sv_otp := codes\<rparr>)) (\<lambda>_.
     seq (if \<not> ok then pure False
          else seq (get_room u) (\<lambda>room. case AddPlayer coin c characterUid room of
                 (res, room) \<Rightarrow> seq (put_room u room) (\<lambda>_. lift res))) (\<lambda>added.
     if \<not> ok \<or> \<not> RoomExists u (sv_rooms s) \<or> \<not> added then send c (Room_msg EnterRoomCancel)
     else
       let ctx = ctx\<lparr>cc_characterUid := characterUid, cc_roomUid := u\<rparr> in
       seq (put_client c ctx) (\<lambda>_.
       seq (get_user characterUid) (\<lambda>_.
       seq (enter_instance characterUid u) (\<lambda>inserted.
       seq (get_character characterUid) (\<lambda>_.
       seq (modify (\<lambda>s. s\<lparr>sv_resets := sv_resets s @ [c]\<rparr>)) (\<lambda>_.
       seq (get_instance u) (\<lambda>i.
       let waiting = (in_stage i = Stage_Waiting);
           elapsed = (case in_loadingStart i of
             None \<Rightarrow> 0 | Some t \<Rightarrow> if \<not> inserted \<and> \<not> waiting then (now - t) div seconds 1 else 0) in
       seq (get_room u) (\<lambda>room.
       seq (room_players records u (rd_masterUid (rm_details room)) (keys_of (rm_players room))) (\<lambda>players.
       seq (send c (Room_msg (EnterRoomOK waiting u (of_int elapsed) players))) (\<lambda>_.
       case map_of players characterUid of
         None \<Rightarrow> broadcast_except u (Room_msg (EnterRoomNotify InvalidUid False False Team_Solo)) characterUid
       | Some (master, ready, team) \<Rightarrow>
           broadcast_except u (Room_msg (EnterRoomNotify characterUid master ready team)) characterUid)))))))))))))"

section \<open>Leaving a room\<close>

definition delete_empty_room :: "u32 \<Rightarrow> unit race_act" where
  "delete_empty_room u =
     seq (get_room u) (\<lambda>room.
     if rm_players room \<noteq> [] then pure ()
     else
       seq (\<lambda>s. case DeleteRoom u (sv_rooms s) of (res, rooms) \<Rightarrow> (res, s\<lparr>sv_rooms := rooms\<rparr>)) (\<lambda>_.
       modify (\<lambda>s. s\<lparr>sv_raceInstances := umap_erase u (sv_raceInstances s)\<rparr>)))"

text \<open>Those who may succeed a master: the players of a waiting room, the connected racers of a race.\<close>

definition candidates :: "race_instance \<Rightarrow> room \<Rightarrow> uid list" where
  "candidates i room =
     (if in_stage i = Stage_Waiting then keys_of (rm_players room)
      else keys_of (filter (\<lambda>(c, r). ra_state r \<noteq> Disconnected) (rt_racers (in_tracker i))))"

definition succeed_master :: "u32 \<Rightarrow> uid list \<Rightarrow> unit race_act" where
  "succeed_master u cs =
     (case cs of
        [] \<Rightarrow> pure ()
      | candidateUid # _ \<Rightarrow>
          seq (GetClientContextByCharacterUid candidateUid) (\<lambda>ctx.
          seq (get_character (cc_characterUid ctx)) (\<lambda>_.
          seq (get_room u) (\<lambda>room.
          seq (put_room u (room\<lparr>rm_details := (rm_details room)\<lparr>rd_masterUid := cc_characterUid ctx\<rparr>\<rparr>)) (\<lambda>_.
          broadcast u (Room_msg (ChangeMasterNotify (cc_characterUid ctx))))))))"

definition HandleLeaveRoom :: "client_id \<Rightarrow> unit race_act" where
  "HandleLeaveRoom c =
     seq (GetClientContext c True) (\<lambda>ctx.
     if cc_roomUid ctx = 0 then pure ()
     else
       let u = cc_roomUid ctx; own = cc_characterUid ctx in
       seq (GetRaceInstance ctx False) (\<lambda>i.
       seq (get_character own) (\<lambda>_.
       seq (if \<not> IsRacer own (in_tracker i) then pure ()
            else
              seq (update_racer u own (\<lambda>r. r\<lparr>ra_state := Disconnected\<rparr>)) (\<lambda>_.
              seq (get_racer u own) (\<lambda>r.
              broadcast_except u (Course_msg (RaceDeleteNotify (ra_oid r))) own))) (\<lambda>_.
       seq (get_room u) (\<lambda>room.
       seq (put_room u (RemovePlayer own room)) (\<lambda>_.
       seq (broadcast u (Room_msg (LeaveRoomNotify own))) (\<lambda>_.
       seq (get_instance u) (\<lambda>i.
       seq (if rd_masterUid (rm_details room) = own
            then succeed_master u (candidates i (RemovePlayer own room)) else pure ()) (\<lambda>_.
       seq (delete_empty_room u) (\<lambda>_.
       seq (put_client c (ctx\<lparr>cc_roomUid := InvalidUid\<rparr>)) (\<lambda>_.
       send c (Room_msg LeaveRoomOK))))))))))))"

definition release_p2d :: "client_id \<Rightarrow> race_server \<Rightarrow> race_server" where
  "release_p2d c s = (case map_of (sv_p2dIds s) c of
     None \<Rightarrow> s
   | Some i \<Rightarrow> s\<lparr>sv_p2dIds := umap_erase c (sv_p2dIds s), sv_p2dIdPool := Release i (sv_p2dIdPool s)\<rparr>)"

definition HandleClientDisconnected :: "client_id \<Rightarrow> unit race_act" where
  "HandleClientDisconnected c =
     seq (GetClientContext c False) (\<lambda>ctx.
     seq get_state (\<lambda>s.
     seq (if cc_isAuthenticated ctx \<and> has_key (sv_raceInstances s) (cc_roomUid ctx)
          then HandleLeaveRoom c else pure ()) (\<lambda>_.
     modify (\<lambda>s. (release_p2d c s)\<lparr>sv_clients := umap_erase c (sv_clients s)\<rparr>))))"

text \<open>The second search for a client of the target, whose failure is caught, finds the client of the first.\<close>

definition HandleKickUser :: "client_id \<Rightarrow> uid \<Rightarrow> unit race_act" where
  "HandleKickUser c target =
     seq (GetClientContext c True) (\<lambda>ctx.
     let u = cc_roomUid ctx; own = cc_characterUid ctx in
     seq (GetRaceInstance ctx False) (\<lambda>_.
     seq (get_character own) (\<lambda>_.
     seq (get_character target) (\<lambda>targetCharacter.
     seq (GetClientContextByCharacterUid target) (\<lambda>_.
     seq (get_room u) (\<lambda>room.
     if own \<noteq> rd_masterUid (rm_details room) \<or> target = own \<or> \<not> HasPlayer target room
        \<or> ch_role targetCharacter = Role_GameMaster
     then pure ()
     else
       seq get_state (\<lambda>s.
       case FindClientIdByCharacterUid target s of
         None \<Rightarrow> pure ()
       | Some targetClient \<Rightarrow>
           seq (broadcast u (Room_msg (KickNotify target))) (\<lambda>_. HandleLeaveRoom targetClient))))))))"

section \<open>Changing the room\<close>

definition HandleReadyRace :: "client_id \<Rightarrow> unit race_act" where
  "HandleReadyRace c =
     seq (GetClientContext c True) (\<lambda>ctx.
     let u = cc_roomUid ctx; own = cc_characterUid ctx in
     seq (get_room u) (\<lambda>room.
     seq (lift (GetPlayer own room)) (\<lambda>p.
     case ToggleReady p of (isReady, p) \<Rightarrow>
     seq (put_room u (room\<lparr>rm_players := umap_put own p (rm_players room)\<rparr>)) (\<lambda>_.
     seq (GetRaceInstance ctx False) (\<lambda>_.
     broadcast u (Room_msg (ReadyRaceNotify own isReady)))))))"

abbreviation Protocol_Red :: u32 where "Protocol_Red \<equiv> 2"
abbreviation Protocol_Blue :: u32 where "Protocol_Blue \<equiv> 3"

definition HandleChangeTeam :: "client_id \<Rightarrow> uid \<Rightarrow> u32 \<Rightarrow> unit race_act" where
  "HandleChangeTeam c characterOid teamColor =
     seq (GetClientContext c True) (\<lambda>ctx.
     let u = cc_roomUid ctx in
     seq (get_room u) (\<lambda>room.
     seq (lift (GetPlayer characterOid room)) (\<lambda>p.
     let p = (if teamColor = Protocol_Red then SetTeam Team_Red p
              else if teamColor = Protocol_Blue then SetTeam Team_Blue p else p) in
     seq (put_room u (room\<lparr>rm_players := umap_put characterOid p (rm_players room)\<rparr>)) (\<lambda>_.
     seq (GetRaceInstance ctx False) (\<lambda>i.
     if in_stage i \<noteq> Stage_Waiting then pure ()
     else
       seq (send c (Room_msg (ChangeTeamOK characterOid teamColor))) (\<lambda>_.
       broadcast_except u (Room_msg (ChangeTeamNotify characterOid teamColor)) (cc_characterUid ctx)))))))"

definition change_details :: "room_options \<Rightarrow> room_details \<Rightarrow> room_details" where
  "change_details cmd d =
     (let has = (\<lambda>i. bit (op_bitfield cmd) i);
          d = (if has 0 then d\<lparr>rd_name := op_name cmd\<rparr> else d);
          d = (if has 1 then d\<lparr>rd_maxPlayerCount := ucast (op_playerCount cmd)\<rparr> else d);
          d = (if has 2 then d\<lparr>rd_password := op_password cmd\<rparr> else d);
          d = (if \<not> has 3 then d
               else if op_gameMode cmd = 1 then d\<lparr>rd_gameMode := Game_Speed\<rparr>
               else if op_gameMode cmd = 2 then d\<lparr>rd_gameMode := Game_Magic\<rparr>
               else if op_gameMode cmd = 6 then d\<lparr>rd_gameMode := Game_Tutorial\<rparr>
               else d);
          d = (if has 4 then d\<lparr>rd_courseId := op_mapBlockId cmd\<rparr> else d)
      in if has 5 then d\<lparr>rd_npcDifficulty := op_npcDifficulty cmd\<rparr> else d)"

definition HandleChangeRoomOptions :: "client_id \<Rightarrow> room_options \<Rightarrow> unit race_act" where
  "HandleChangeRoomOptions c cmd =
     seq (GetClientContext c True) (\<lambda>ctx.
     let u = cc_roomUid ctx in
     if op_bitfield cmd = 0 then pure ()
     else
       seq (if bit (op_bitfield cmd) 0
            then seq (get_character (cc_characterUid ctx)) (\<lambda>_. pure ()) else pure ()) (\<lambda>_.
       seq (get_room u) (\<lambda>room.
       seq (put_room u (room\<lparr>rm_details := change_details cmd (rm_details room)\<rparr>)) (\<lambda>_.
       broadcast u (Room_msg (ChangeRoomOptionsNotify cmd))))))"

definition HandleChangeSkillCardPresetId :: "client_id \<Rightarrow> u8 \<Rightarrow> u8 \<Rightarrow> unit race_act" where
  "HandleChangeSkillCardPresetId c setId gamemode =
     (if setId > 2 then pure ()
      else if gamemode \<noteq> Mode_Speed_Race \<and> gamemode \<noteq> Mode_Magic_Race then pure ()
      else
        seq (GetClientContext c True) (\<lambda>ctx.
        seq (get_character (cc_characterUid ctx)) (\<lambda>ch.
        put_character (cc_characterUid ctx)
          (if gamemode = Mode_Speed_Race
           then ch\<lparr>ch_speed_skills := (ch_speed_skills ch)\<lparr>sk_activeSetId := ucast setId\<rparr>\<rparr>
           else ch\<lparr>ch_magic_skills := (ch_magic_skills ch)\<lparr>sk_activeSetId := ucast setId\<rparr>\<rparr>))))"

section \<open>Starting a race\<close>

abbreviation Cancel_Generic :: nat where "Cancel_Generic \<equiv> 0"
abbreviation Cancel_NotReady :: nat where "Cancel_NotReady \<equiv> 1"
abbreviation Cancel_NotTeamBalance :: nat where "Cancel_NotTeamBalance \<equiv> 2"

definition team_mode_number :: "TeamMode \<Rightarrow> u8" where
  "team_mode_number m = (case m of Mode_Unset \<Rightarrow> 0 | Mode_FFA \<Rightarrow> 1 | Mode_Team \<Rightarrow> 2 | Mode_Single \<Rightarrow> 3)"

definition racer_team :: "Team \<Rightarrow> TeamColor" where
  "racer_team t = (case t of Team_Solo \<Rightarrow> Color_Solo | Team_Red \<Rightarrow> Color_Red | Team_Blue \<Rightarrow> Color_Blue)"

definition SendStartRaceCancel :: "client_id \<Rightarrow> nat \<Rightarrow> unit race_act" where
  "SendStartRaceCancel c reason = send c (Room_msg (StartRaceCancel reason))"

text \<open>\<open>RaceInstance::Start\<close> on the instance of the room, whose tracker was cleared.\<close>

definition start_instance ::
  "race_env \<Rightarrow> nat \<Rightarrow> (oid \<Rightarrow> bool \<times> nat) \<Rightarrow> time_point \<Rightarrow> u32 \<Rightarrow> race_parameters \<Rightarrow> bool race_act" where
  "start_instance env mapDraw draws now u parameters =
     seq (get_instance u) (\<lambda>i.
     seq get_state (\<lambda>s.
     let masterLevel = (case map_of (sv_characters s) (pa_masterUid parameters) of
           None \<Rightarrow> Inl (RuntimeError ''Value of the record is unavailable'') | Some ch \<Rightarrow> Inr (ch_level ch)) in
     case Start env masterLevel mapDraw draws now parameters (i\<lparr>in_tracker := Tracker_Clear (in_tracker i)\<rparr>) of
       (res, i) \<Rightarrow> seq (put_instance u i) (\<lambda>_. lift res)))"

definition add_start_racer :: "u32 \<Rightarrow> uid \<Rightarrow> player \<Rightarrow> unit race_act" where
  "add_start_racer u c p =
     seq (get_instance u) (\<lambda>i.
     case AddRacer c (in_tracker i) of
       (Inl x, t) \<Rightarrow> lift (Inl x)
     | (Inr r, t) \<Rightarrow>
         put_tracker u (set_racer c (r\<lparr>ra_state := Loading, ra_team := racer_team (pl_team p)\<rparr>) t))"

definition bonus_course :: "nat \<Rightarrow> nat \<Rightarrow> u16 \<Rightarrow> u16" where
  "bonus_course playerCount chance kind = (if playerCount = 8 \<and> chance \<le> 25 then kind else 0)"

definition HandleStartRace ::
  "race_env \<Rightarrow> nat \<Rightarrow> (oid \<Rightarrow> bool \<times> nat) \<Rightarrow> nat \<Rightarrow> u16 \<Rightarrow> time_point \<Rightarrow> client_id \<Rightarrow> unit race_act" where
  "HandleStartRace env mapDraw draws chance kind now c =
     seq (GetClientContext c True) (\<lambda>ctx.
     let u = cc_roomUid ctx in
     seq (GetRaceInstance ctx False) (\<lambda>_.
     seq (get_room u) (\<lambda>room.
     let details = rm_details room in
     if cc_characterUid ctx \<noteq> rd_masterUid details
     then throw ''Client tried to start the race even though they're not the master''
     else case CanRoomStart room of
       NotAllPlayersReady \<Rightarrow> SendStartRaceCancel c Cancel_NotReady
     | TeamImbalance \<Rightarrow> SendStartRaceCancel c Cancel_NotTeamBalance
     | PreventNone \<Rightarrow>
         seq (start_instance env mapDraw draws now u
                \<lparr>pa_gameMode = game_mode_number (rd_gameMode details),
                 pa_teamMode = team_mode_number (rd_teamMode details),
                 pa_mapBlockId = ucast (rd_courseId details), pa_missionId = rd_missionId details,
                 pa_masterUid = rd_masterUid details\<rparr>) (\<lambda>started.
         if \<not> started then SendStartRaceCancel c Cancel_Generic
         else
           let countdown = (case env_countdown env of None \<Rightarrow> 5310 | Some ms \<Rightarrow> ms);
               bonus = bonus_course (length (rm_players room)) chance kind in
           seq (get_instance u) (\<lambda>i.
           seq (put_instance u (i\<lparr>in_bonusCourseType := bonus\<rparr>)) (\<lambda>_.
           seq (broadcast u (Room_msg (RoomCountdown countdown (ucast (in_mapBlockId i)) bonus))) (\<lambda>_.
           seq (for_each (rm_players room) (\<lambda>(v, p). add_start_racer u v p)) (\<lambda>_.
           seq (put_room u (SetRoomPlaying True room)) (\<lambda>_.
           queue_task (Task_StartRace u) (now + milliseconds (uint countdown)))))))))))"

text \<open>The job of \<open>HandleStartRace\<close>.\<close>

fun start_racers :: "(uid \<times> racer) list \<Rightarrow> start_racer list race_act" where
  "start_racers [] = pure []"
| "start_racers ((c, r) # rs) =
     (if ra_state r = Disconnected then start_racers rs
      else
        seq (get_character c) (\<lambda>ch.
        seq (GetClientIdByCharacterUid c) (\<lambda>client.
        seq (GetOrCreateP2dId client) (\<lambda>p2dId.
        seq (start_racers rs) (\<lambda>srs.
        pure (\<lparr>sr_oid = ra_oid r, sr_name = ch_name ch, sr_p2dId = p2dId, sr_teamColor = ra_team r\<rparr> # srs))))))"

definition bonus_skills :: "u8 \<Rightarrow> u32 list" where
  "bonus_skills gameMode = [43, 29, 30] @
     (if gameMode = Mode_Speed_Race then [59, 32, 31]
      else if gameMode = Mode_Magic_Race then [34, 35, 36, 57, 58] else [])"

definition active_skills :: "skill_sets \<Rightarrow> exn + (u32 \<times> u32)" where
  "active_skills sets =
     (if sk_activeSetId sets = 0 then Inr (sk_set1 sets)
      else if sk_activeSetId sets = 1 then Inr (sk_set2 sets)
      else Inl (RuntimeError ''Invalid skill set ID''))"

definition racer_skills :: "nat \<Rightarrow> uid \<Rightarrow> start_notify \<Rightarrow> start_notify race_act" where
  "racer_skills bonusDraw c n =
     (if \<not> ((sn_raceGameMode n = Mode_Speed_Race \<or> sn_raceGameMode n = Mode_Magic_Race)
            \<and> sn_raceTeamMode n = Teams_FFA)
      then pure n
      else
        seq (get_character c) (\<lambda>ch.
        let sets = (if sn_raceGameMode n = Mode_Speed_Race then ch_speed_skills ch else ch_magic_skills ch);
            bonus = bonus_skills (sn_raceGameMode n) in
        seq (lift (active_skills sets)) (\<lambda>(slot1, slot2).
        pure (n\<lparr>sn_setId := ucast (sk_activeSetId sets),
                sn_skills := [slot1, slot2, bonus ! (bonusDraw mod length bonus)]\<rparr>))))"

definition run_start_race :: "(uid \<Rightarrow> nat) \<Rightarrow> u32 \<Rightarrow> unit race_act" where
  "run_start_race bonusDraw u =
     seq get_state (\<lambda>s. case map_of (sv_raceInstances s) u of
       None \<Rightarrow> pure ()
     | Some i \<Rightarrow>
         let p = in_parameters i in
         seq (start_racers (rt_racers (in_tracker i))) (\<lambda>racers.
         seq (get_room u) (\<lambda>room.
         for_each (rm_players room) (\<lambda>(c, player).
           case map_of (rt_racers (in_tracker i)) c of
             None \<Rightarrow> pure ()
           | Some r \<Rightarrow>
               seq (racer_skills (bonusDraw c) c
                 \<lparr>sn_raceGameMode = pa_gameMode p, sn_raceTeamMode = pa_teamMode p, sn_hostOid = ra_oid r,
                  sn_raceMapBlockId = ucast (in_mapBlockId i), sn_raceMissionId = pa_missionId p,
                  sn_racers = racers, sn_setId = 0, sn_skills = [0, 0, 0]\<rparr>) (\<lambda>n.
               send (pl_clientId player) (Room_msg (StartRaceNotify n)))))))"

section \<open>The tick\<close>

definition run_task :: "race_env \<Rightarrow> (uid \<Rightarrow> nat) \<Rightarrow> time_point \<Rightarrow> race_task \<Rightarrow> unit race_act" where
  "run_task env bonusDraw now task =
     (case task of
        Task_StartRace u \<Rightarrow> run_start_race bonusDraw u
      | Task_EffectExpiry u c targetOid e generation attackRank \<Rightarrow>
          run_effect_expiry u c targetOid e generation attackRank
      | Task_StripMagicItem u c \<Rightarrow> run_strip_magic_item u c
      | Task_IceWallExpiry u magicType firstId \<Rightarrow> run_ice_wall_expiry u magicType firstId
      | Task_DeactivateEvent c eventId \<Rightarrow> HandleUserRaceDeactivateEvent now c eventId
      | Task_SpurStart u color maxPoints teamSize \<Rightarrow> run_spur_start env now u color maxPoints teamSize
      | Task_UnlockGauge u color \<Rightarrow> run_unlock_gauge u color)"

text \<open>A task run by the scheduler: the jobs it queues are those of a scheduler that was empty.\<close>

definition race_exec :: "race_env \<Rightarrow> (uid \<Rightarrow> nat) \<Rightarrow> time_point \<Rightarrow> (race_task, race_server) exec" where
  "race_exec env bonusDraw now task s =
     (case run_task env bonusDraw now task (s\<lparr>sv_scheduler := new_scheduler\<rparr>) of
        (res, s') \<Rightarrow> (sch_jobs (sv_scheduler s'), s',
          case res of Inl x \<Rightarrow> Some (what x) | Inr _ \<Rightarrow> None))"

definition Server_Tick :: "race_env \<Rightarrow> (uid \<Rightarrow> nat) \<Rightarrow> time_point \<Rightarrow> unit race_act" where
  "Server_Tick env bonusDraw now s =
     (case Scheduler_Tick (race_exec env bonusDraw now) now (sv_scheduler s) s of
        (_, sch, s) \<Rightarrow>
          let s = s\<lparr>sv_scheduler := sch\<rparr>
          in for_each (keys_of (sv_raceInstances s)) (Instance_Tick env now) s)"

section \<open>The capacity of a room\<close>

text \<open>All that happens to the players and the limit of a room once it exists.\<close>

datatype room_op =
    Op_Queue uid
  | Op_Dequeue uid
  | Op_Add bool client_id uid
  | Op_Remove uid
  | Op_Ready uid bool
  | Op_Team uid Team
  | Op_Options room_options

definition with_player :: "uid \<Rightarrow> (player \<Rightarrow> player) \<Rightarrow> room \<Rightarrow> room" where
  "with_player u f r = (case GetPlayer u r of
      Inl e \<Rightarrow> r | Inr p \<Rightarrow> r\<lparr>rm_players := umap_put u (f p) (rm_players r)\<rparr>)"

fun room_step :: "room_op \<Rightarrow> room \<Rightarrow> room" where
  "room_step (Op_Queue u) r = snd (QueuePlayer u r)"
| "room_step (Op_Dequeue u) r = snd (DequeuePlayer u r)"
| "room_step (Op_Add coin c u) r = snd (AddPlayer coin c u r)"
| "room_step (Op_Remove u) r = RemovePlayer u r"
| "room_step (Op_Ready u ready) r = with_player u (SetReady ready) r"
| "room_step (Op_Team u team) r = with_player u (SetTeam team) r"
| "room_step (Op_Options cmd) r = r\<lparr>rm_details := change_details cmd (rm_details r)\<rparr>"

definition player_limit :: "room \<Rightarrow> nat" where
  "player_limit r = unat (rd_maxPlayerCount (rm_details r))"

lemma with_player_same [simp]:
  "length (rm_players (with_player u f r)) = length (rm_players r)"
  "umap_ok (rm_players (with_player u f r)) = umap_ok (rm_players r)"
  "rm_details (with_player u f r) = rm_details r"
  by (auto simp: with_player_def GetPlayer_def umap_ok_def umap_update_keys split: option.splits)

lemma room_step_distinct: "umap_ok (rm_players r) \<Longrightarrow> umap_ok (rm_players (room_step oper r))"
  by (cases oper)
    (auto simp: QueuePlayer_def DequeuePlayer_def AddPlayer_def RemovePlayer_def Let_def)

text \<open>Only \<open>AddPlayer\<close> lets anybody in, and only below the limit; only the options change the limit.\<close>

lemma room_step_grows:
  assumes "umap_ok (rm_players r)" "length (rm_players r) < length (rm_players (room_step oper r))"
  shows "length (rm_players (room_step oper r)) \<le> player_limit r"
  using assms
  by (cases oper) (auto simp: QueuePlayer_def DequeuePlayer_def AddPlayer_def RemovePlayer_def
      player_limit_def Let_def length_umap_erase split: if_splits)

lemma room_steps:
  assumes "umap_ok (rm_players r)" "length (rm_players r) \<le> player_limit r"
  shows "umap_ok (rm_players (fold room_step ops r))
    \<and> (\<exists>k \<le> length ops. length (rm_players (fold room_step ops r)) \<le> player_limit (fold room_step (take k ops) r))"
proof (induction ops rule: rev_induct)
  case Nil
  with assms show ?case by simp
next
  case (snoc oper ops)
  let ?r = "fold room_step ops r"
  have ok: "umap_ok (rm_players ?r)" using snoc.IH by blast
  obtain k where k: "k \<le> length ops" "length (rm_players ?r) \<le> player_limit (fold room_step (take k ops) r)"
    using snoc.IH by blast
  show ?case
  proof (cases "length (rm_players ?r) < length (rm_players (room_step oper ?r))")
    case True
    with room_step_grows [OF ok, of oper] room_step_distinct [OF ok] show ?thesis
      by (intro conjI exI [of _ "length ops"]) auto
  next
    case False
    with k room_step_distinct [OF ok] show ?thesis by (intro conjI exI [of _ k]) auto
  qed
qed

text \<open>C13: Whatever sequence of queueing, entering, leaving, readying, choosing teams and changing the
  room's options happens, no player is in a room twice, a player is let in only while there are
  fewer players than the limit in force, and there are never more players than the limit was at
  some moment since the room was made: more than the limit in force only after the options lowered
  it, which the server lets them do however many players there are.\<close>

theorem room_capacity:
  assumes "umap_ok (rm_players r)" "length (rm_players r) \<le> player_limit r"
  shows "let now = fold room_step ops r in
    distinct (keys_of (rm_players now))
    \<and> (\<forall>oper. length (rm_players now) < length (rm_players (room_step oper now)) \<longrightarrow>
         length (rm_players (room_step oper now)) \<le> player_limit now)
    \<and> (\<exists>k \<le> length ops. length (rm_players now) \<le> player_limit (fold room_step (take k ops) r))"
  using room_steps [OF assms, of ops] room_step_grows [of "fold room_step ops r"]
  by (auto simp: Let_def umap_ok_def)

text \<open>Two players enter a room for two, a third one does not; then the limit is lowered to one.\<close>

lemma room_capacity_witness:
  "let ops = [Op_Add True 1 10, Op_Add True 2 11, Op_Add True 3 12, Op_Options
        \<lparr>op_bitfield = 2, op_name = [], op_playerCount = 1, op_password = [], op_gameMode = 1,
          op_mapBlockId = 0, op_npcDifficulty = 0\<rparr>];
       now = fold room_step ops sample_room
   in distinct (keys_of (rm_players now)) \<and> keys_of (rm_players now) = [10, 11] \<and> player_limit now = 1"
proof -
  let ?ops = "[Op_Add True 1 10, Op_Add True 2 11, Op_Add True 3 12, Op_Options
        \<lparr>op_bitfield = 2, op_name = [], op_playerCount = 1, op_password = [], op_gameMode = 1,
          op_mapBlockId = 0, op_npcDifficulty = 0\<rparr>]"
  have "umap_ok (rm_players sample_room)" "length (rm_players sample_room) \<le> player_limit sample_room"
    by (simp_all add: sample_room_def new_room_def)
  from room_capacity [OF this, of ?ops]
  have "distinct (keys_of (rm_players (fold room_step ?ops sample_room)))" unfolding Let_def by blast
  moreover have "keys_of (rm_players (fold room_step ?ops sample_room)) = [10, 11]"
    "player_limit (fold room_step ?ops sample_room) = 1" by code_simp+
  ultimately show ?thesis unfolding Let_def by blast
qed

end
