(* ===== verification/Race_Social.thy ===== *)
theory Race_Social imports Race_Rooms Horse_Registry begin

text \<open>
  The remaining commands of \<open>server/race/RaceNetworkHandler.cpp\<close>: the clock, loading, the reports of
  a finished race, chat, relayed packets, invitations and summons, the objects of a map, eggs.

  \<^item> The chat system answers a message with a \<open>chat_verdict\<close>; it is an argument, as are the messenger's
    answer about a recipient, the character a name belongs to, and the eggs of the map's region.
  \<^item> The summon also goes to the ranch server, which is not part of this state.
\<close>

section \<open>Clock and loading\<close>

definition HandleRaceTimer :: "time_point \<Rightarrow> client_id \<Rightarrow> u64 \<Rightarrow> unit race_act" where
  "HandleRaceTimer now c clientClock =
     send c (Social_msg (UserRaceTimerOK clientClock (TimePointToRaceTimePoint now)))"

definition is_character_eligible :: "u32 option \<Rightarrow> u32 \<Rightarrow> bool" where
  "is_character_eligible minLevel level \<longleftrightarrow> level > (case minLevel of Some l \<Rightarrow> l | None \<Rightarrow> 12)"

text \<open>Who has loaded the race, in Speed or Magic and above the minimum level, may get an egg.\<close>

definition HandleLoadingComplete ::
  "exn + (mount_stats \<times> SetEquipEffect) \<Rightarrow> u32 option \<Rightarrow> bool \<Rightarrow> client_id \<Rightarrow> unit race_act" where
  "HandleLoadingComplete stats minLevel coin c =
     with_own_racer c (\<lambda>ctx i r.
     let r = r\<lparr>ra_state := Racing\<rparr>; gameMode = pa_gameMode (in_parameters i) in
     seq (put_own ctx r) (\<lambda>_.
     seq (lift stats) (\<lambda>(ms, effect).
     seq (put_own ctx (r\<lparr>ra_mountStats := ms, ra_activeSetEffect := effect\<rparr>)) (\<lambda>_.
     seq (broadcast (cc_roomUid ctx) (Course_msg (LoadingCompleteNotify (ra_oid r)))) (\<lambda>_.
     if gameMode \<noteq> Mode_Speed_Race \<and> gameMode \<noteq> Mode_Magic_Race then pure ()
     else seq (get_character (cc_characterUid ctx)) (\<lambda>ch.
       if is_character_eligible minLevel (ch_level ch) \<and> coin
       then send c (Social_msg (GameCreateClientItem (ra_oid r) 0)) else pure ()))))))"

section \<open>Reports of a finished race\<close>

definition put_horse :: "uid \<Rightarrow> horse \<Rightarrow> unit race_act" where
  "put_horse u h = modify (\<lambda>s. s\<lparr>sv_horses := umap_put u h (sv_horses s)\<rparr>)"

definition HandleRaceResult :: "horse_config \<Rightarrow> (nat \<Rightarrow> nat) \<Rightarrow> client_id \<Rightarrow> u32 \<Rightarrow> unit race_act" where
  "HandleRaceResult cfg raffle c gainedClassProgress =
     seq (GetClientContext c True) (\<lambda>ctx.
     seq (get_character (cc_characterUid ctx)) (\<lambda>ch.
     seq (get_horse (ch_mountUid ch)) (\<lambda>h.
     case ApplyPotentialGrowth cfg raffle (ApplyClassProgress cfg gainedClassProgress h) of
       (gained, h') \<Rightarrow>
     seq (put_horse (ch_mountUid ch) h') (\<lambda>_.
     seq (send c (Social_msg (RaceResultOK (ucast (ho_fatigue h)) (ch_carrots ch)))) (\<lambda>_.
     if gained > 0 then send c (Social_msg (UpdateMountInfoNotify (cc_characterUid ctx))) else pure ())))))"

text \<open>The two reports of the peers and the end of the award are ignored.\<close>

definition HandleP2PRaceResult :: "client_id \<Rightarrow> unit race_act" where
  "HandleP2PRaceResult c = pure ()"

definition HandleP2PUserRaceResult :: "client_id \<Rightarrow> unit race_act" where
  "HandleP2PUserRaceResult c = pure ()"

definition HandleAwardEnd :: "client_id \<Rightarrow> unit race_act" where
  "HandleAwardEnd c = pure ()"

definition participating :: "race_instance \<Rightarrow> uid \<Rightarrow> bool" where
  "participating i c = (case map_of (rt_racers (in_tracker i)) c of
     None \<Rightarrow> False | Some r \<Rightarrow> ra_state r \<noteq> Disconnected)"

definition HandleAwardStart :: "client_id \<Rightarrow> u32 \<Rightarrow> unit race_act" where
  "HandleAwardStart c member1 =
     seq (GetClientContext c True) (\<lambda>ctx.
     seq (GetRaceInstance ctx True) (\<lambda>i.
     seq (get_room (cc_roomUid ctx)) (\<lambda>room.
     for_each (rm_players room) (\<lambda>(v, p).
       if participating i v then pure ()
       else send (pl_clientId p) (Social_msg (AwardNotify member1))))))"

section \<open>Chat and relay\<close>

record chat_verdict =
  cv_message :: bytes
  cv_isMuted :: bool
  cv_isPrevented :: bool
  cv_result :: "bytes list option"

abbreviation AutoMod :: bytes where "AutoMod \<equiv> [65, 117, 116, 111, 77, 111, 100]"
abbreviation SystemAuthor :: bytes where "SystemAuthor \<equiv> [83, 121, 115, 116, 101, 109]"

definition HandleChat :: "(uid \<Rightarrow> bytes \<Rightarrow> chat_verdict) \<Rightarrow> client_id \<Rightarrow> bytes \<Rightarrow> unit race_act" where
  "HandleChat chat c message =
     seq (GetClientContext c True) (\<lambda>ctx.
     let verdict = chat (cc_characterUid ctx) message in
     seq (get_character (cc_characterUid ctx)) (\<lambda>ch.
     case cv_result verdict of
       Some result \<Rightarrow> for_each result (\<lambda>line. send c (Social_msg (ChatNotify line [] True)))
     | None \<Rightarrow>
         if cv_isMuted verdict
         then send c (Social_msg (ChatNotify (cv_message verdict)
                (if cv_isPrevented verdict then AutoMod else SystemAuthor) True))
         else seq (GetRaceInstance ctx False) (\<lambda>_.
              broadcast (cc_roomUid ctx) (Social_msg (ChatNotify (cv_message verdict) (ch_name ch) False)))))"

definition OpCmd_prefix :: bytes where "OpCmd_prefix = [47, 47]"

definition HandleOpCmd :: "(uid \<Rightarrow> bytes \<Rightarrow> chat_verdict) \<Rightarrow> client_id \<Rightarrow> bytes \<Rightarrow> unit race_act" where
  "HandleOpCmd chat c command =
     seq (GetClientContext c True) (\<lambda>ctx.
     case cv_result (chat (cc_characterUid ctx) (OpCmd_prefix @ command)) of
       None \<Rightarrow> pure ()
     | Some result \<Rightarrow> for_each result (\<lambda>line. send c (Social_msg (OpCmdOK line))))"

definition HandleRelayCommand :: "client_id \<Rightarrow> u8 \<Rightarrow> u16 \<Rightarrow> unit race_act" where
  "HandleRelayCommand c member1 member2 =
     seq (GetClientContext c True) (\<lambda>ctx.
     seq (GetRaceInstance ctx True) (\<lambda>_.
     broadcast_except (cc_roomUid ctx) (Social_msg (RelayCommandNotify member1 member2)) (cc_characterUid ctx)))"

definition HandleRelay :: "client_id \<Rightarrow> oid \<Rightarrow> oid \<Rightarrow> u16 \<Rightarrow> bytes \<Rightarrow> unit race_act" where
  "HandleRelay c fromOid toOid payloadType payload =
     seq (GetClientContext c True) (\<lambda>ctx.
     seq (GetRaceInstance ctx True) (\<lambda>_.
     broadcast_except (cc_roomUid ctx) (Social_msg (RelayNotify fromOid toOid payloadType payload))
       (cc_characterUid ctx)))"

definition HandleUserRaceActivateInteractiveEvent :: "client_id \<Rightarrow> u32 \<Rightarrow> u64 \<Rightarrow> unit race_act" where
  "HandleUserRaceActivateInteractiveEvent c member1 member3 =
     with_own_racer c (\<lambda>ctx i r.
     broadcast (cc_roomUid ctx) (Social_msg (ActivateInteractiveEvent member1 (ra_oid r) member3)))"

section \<open>Invitations and summons\<close>

abbreviation Status_Online :: u8 where "Status_Online \<equiv> 2"
abbreviation Status_Away :: u8 where "Status_Away \<equiv> 3"
abbreviation Status_WaitingRoom :: u8 where "Status_WaitingRoom \<equiv> 5"

definition HandleInviteUser :: "(uid \<Rightarrow> u8 option) \<Rightarrow> client_id \<Rightarrow> uid \<Rightarrow> bytes \<Rightarrow> unit race_act" where
  "HandleInviteUser presence c recipientUid recipientName =
     seq (GetClientContext c True) (\<lambda>_.
     let cancel = send c (Social_msg (InviteUserCancel recipientUid recipientName)) in
     case presence recipientUid of
       None \<Rightarrow> cancel
     | Some status \<Rightarrow>
         seq (get_character recipientUid) (\<lambda>ch.
         if ch_name ch \<noteq> recipientName then cancel
         else if status \<notin> {Status_Away, Status_Online, Status_WaitingRoom} then cancel
         else send c (Social_msg (InviteUserOK recipientUid recipientName))))"

definition NotifySummonCharacter :: "uid \<Rightarrow> bool \<Rightarrow> bytes \<Rightarrow> u32 \<Rightarrow> u32 \<Rightarrow> unit race_act" where
  "NotifySummonCharacter characterUid force characterName roomUid ranchUid =
     seq get_state (\<lambda>s. case FindClientIdByCharacterUid characterUid s of
       None \<Rightarrow> pure ()
     | Some client \<Rightarrow> send client (Summon_msg (RequestUserNotify force characterName roomUid ranchUid)))"

definition HandleRequestUser ::
  "(bytes \<Rightarrow> uid) \<Rightarrow> client_id \<Rightarrow> bool \<Rightarrow> bytes \<Rightarrow> u32 \<Rightarrow> u32 \<Rightarrow> unit race_act" where
  "HandleRequestUser uid_of_name c force characterName roomUid ranchUid =
     seq (GetClientContext c True) (\<lambda>ctx.
     seq get_state (\<lambda>s. case map_of (sv_characters s) (cc_characterUid ctx) of
       None \<Rightarrow> pure ()
     | Some invoker \<Rightarrow>
         if ch_role invoker = Role_User then pure ()
         else
           let cancel = send c (Summon_msg (RequestUserCancel force characterName roomUid ranchUid));
               characterUid = uid_of_name characterName in
           if characterUid = InvalidUid \<or> characterUid \<notin> set (sv_users s) then cancel
           else
             seq (NotifySummonCharacter characterUid force characterName roomUid ranchUid) (\<lambda>_.
             send c (Summon_msg (RequestUserOK force characterName roomUid ranchUid)))))"

section \<open>Notifications of other components\<close>

definition NotifyRoomNameChanged :: "u32 \<Rightarrow> unit race_act" where
  "NotifyRoomNameChanged u =
     seq (get_room u) (\<lambda>room.
     let notify = Room_msg (ChangeRoomOptionsNotify \<lparr>op_bitfield = 1, op_name = rd_name (rm_details room),
           op_playerCount = 0, op_password = [], op_gameMode = 0, op_mapBlockId = 0, op_npcDifficulty = 0\<rparr>) in
     for_each (vals_of (rm_players room)) (\<lambda>p. send (pl_clientId p) notify))"

definition SendDailyQuestNotificationToCharacter ::
  "uid \<Rightarrow> u16 \<Rightarrow> wire_objective \<Rightarrow> u32 \<Rightarrow> u8 \<Rightarrow> u32 \<Rightarrow> u32 \<Rightarrow> unit race_act" where
  "SendDailyQuestNotificationToCharacter characterUid questId progress carrotsReward rewardType unk2 mountExp =
     seq get_state (\<lambda>s. case FindClientIdByCharacterUid characterUid s of
       None \<Rightarrow> pure ()
     | Some client \<Rightarrow> send client (Social_msg (UpdateDailyQuestNotify characterUid questId progress
         carrotsReward rewardType unk2 mountExp)))"

definition GetRoomCount :: "race_server \<Rightarrow> nat" where
  "GetRoomCount s = length (sv_raceInstances s)"

section \<open>The objects of a map\<close>

definition HandleTriggerizeAct :: "race_env \<Rightarrow> client_id \<Rightarrow> u32 \<Rightarrow> u16 \<Rightarrow> unit race_act" where
  "HandleTriggerizeAct env c unk1 unk2 =
     seq (GetClientContext c True) (\<lambda>ctx.
     seq (GetRaceInstance ctx True) (\<lambda>i.
     seq (lift (GetMapBlockInfo env (in_mapBlockId i))) (\<lambda>info.
     if pa_gameMode (in_parameters i) \<noteq> Mode_Speed_Race \<or> \<not> mb_trainingFee info > 0 then pure ()
     else broadcast_except (cc_roomUid ctx) (Social_msg (TriggerizeAct 1 unk1 unk2)) (cc_characterUid ctx))))"

record egg_info =
  eg_tid :: tid
  eg_deckItemId :: u32

text \<open>A client that does not report an egg makes the code throw a pointer, which no handler of
  \<open>std::exception\<close> catches; here it is an exception like any other. \<open>draw\<close> picks the egg by weight.\<close>

definition HandleGameCreateClientItem ::
  "race_env \<Rightarrow> (u32 \<Rightarrow> egg_info list) \<Rightarrow> nat \<Rightarrow> (uid \<Rightarrow> tid \<Rightarrow> bool) \<Rightarrow> client_id \<Rightarrow> u8 \<Rightarrow> wire_vector3 \<Rightarrow> unit race_act" where
  "HandleGameCreateClientItem env regionEggs draw owns c unk1 position =
     (if unk1 \<noteq> 0 then throw ''AcCmdCRGameCreateClientItem::unk1 != 0, other case not implemented''
      else
        seq (GetClientContext c True) (\<lambda>ctx.
        seq (GetRaceInstance ctx True) (\<lambda>i.
        seq (lift (GetMapBlockInfo env (in_mapBlockId i))) (\<lambda>_.
        let eggs = regionEggs (in_mapBlockId i) in
        if eggs = [] then pure ()
        else
          let egg = eggs ! (draw mod length eggs) in
          seq (get_character (cc_characterUid ctx)) (\<lambda>_.
          if owns (cc_characterUid ctx) (eg_tid egg) then pure ()
          else case AddEventItem (cc_characterUid ctx) (eg_deckItemId egg) position (in_tracker i) of
            (res, t) \<Rightarrow> seq (put_tracker (cc_roomUid ctx) t) (\<lambda>_. seq (lift res) (\<lambda>_. pure ())))))))"

end
