(* ===== verification/Race_Invariant.thy ===== *)
theory Race_Invariant imports Race_Social begin

text \<open>
  What no command and no tick of the race server can break: the gauges stay below the largest limit of the
  game modes, the combo counters below 100, and every racer has one flag and one counter per effect,
  so that the code's unchecked accesses to these arrays stay inside them.

  \<^item> \<open>races_ok M\<close> is the invariant, \<open>M\<close> the largest gauge.
  \<^item> The rules of \<open>races_intros\<close> follow the code: what is read from the state satisfies the invariant,
    what is written has to.
\<close>

named_theorems races_intros "rules of the invariant of the races"

section \<open>The invariant\<close>

definition racer_ok :: "u32 \<Rightarrow> racer \<Rightarrow> bool" where
  "racer_ok M r \<longleftrightarrow> length (ra_effects r) = EffectCount \<and> length (ra_effectGenerations r) = EffectCount
     \<and> ra_starPointValue r \<le> M \<and> ra_jumpComboValue r \<le> 99"

definition tracker_ok :: "u32 \<Rightarrow> race_tracker \<Rightarrow> bool" where
  "tracker_ok M t \<longleftrightarrow> (\<forall>r \<in> set (vals_of (rt_racers t)). racer_ok M r)"

definition instance_ok :: "u32 \<Rightarrow> race_instance \<Rightarrow> bool" where
  "instance_ok M i \<longleftrightarrow> gm_starPointsMax (in_gameModeInfo i) \<le> M \<and> tracker_ok M (in_tracker i)"

definition races_ok :: "u32 \<Rightarrow> race_server \<Rightarrow> bool" where
  "races_ok M s \<longleftrightarrow> (\<forall>i \<in> set (vals_of (sv_raceInstances s)). instance_ok M i)"

definition env_ok :: "u32 \<Rightarrow> race_env \<Rightarrow> bool" where
  "env_ok M env \<longleftrightarrow> (\<forall>mode \<in> set (vals_of (env_gameModes env)). gm_starPointsMax mode \<le> M)"

section \<open>Maps\<close>

lemma vals_umap_put: "x \<in> set (vals_of (umap_put k v m)) \<Longrightarrow> x = v \<or> x \<in> set (vals_of m)"
  by (induction m) (auto simp: umap_put_def split: if_splits)

lemma vals_umap_erase: "x \<in> set (vals_of (umap_erase k m)) \<Longrightarrow> x \<in> set (vals_of m)"
  by (induction m) (auto simp: umap_erase_def split: if_splits)

lemma vals_omap_put: "x \<in> set (vals_of (omap_put k v m)) \<Longrightarrow> x = v \<or> x \<in> set (vals_of m)"
  by (induction k v m rule: omap_put.induct) (auto split: if_splits)

lemma map_of_vals: "map_of m k = Some v \<Longrightarrow> v \<in> set (vals_of m)"
  by (force dest: map_of_SomeD)

section \<open>What is read\<close>

lemma tracker_racer: "tracker_ok M t \<Longrightarrow> map_of (rt_racers t) c = Some r \<Longrightarrow> racer_ok M r"
  unfolding tracker_ok_def by (blast dest: map_of_vals)

lemma tracker_GetRacer: "GetRacer c t = Inr r \<Longrightarrow> tracker_ok M t \<Longrightarrow> racer_ok M r"
  by (auto simp: GetRacer_def split: option.splits dest: tracker_racer)

lemma tracker_found: "tracker_ok M t \<Longrightarrow> FindRacerByOid (rt_racers t) k = Some (c, r) \<Longrightarrow> racer_ok M r"
  by (force simp: tracker_ok_def FindRacerByOid_def find_Some_iff in_set_conv_nth)

lemma instance_tracker: "instance_ok M i \<Longrightarrow> tracker_ok M (in_tracker i)"
  by (simp add: instance_ok_def)

lemma races_instance: "races_ok M s \<Longrightarrow> map_of (sv_raceInstances s) u = Some i \<Longrightarrow> instance_ok M i"
  unfolding races_ok_def by (blast dest: map_of_vals)

lemma preserves_from_state:
  "(\<And>s. P s \<Longrightarrow> preserves P (f s)) \<Longrightarrow> preserves P (seq get_state f)"
  by (simp add: preserves_def act_defs)

lemma preserves_lift_seq:
  "(\<And>x. z = Inr x \<Longrightarrow> preserves P (f x)) \<Longrightarrow> preserves P (seq (lift z) f)"
  by (simp add: preserves_def act_defs split: sum.splits)

lemma races_read_instance:
  "(\<And>i. instance_ok M i \<Longrightarrow> preserves (races_ok M) (f i)) \<Longrightarrow> preserves (races_ok M) (seq (get_instance u) f)"
  by (auto simp: preserves_def act_defs get_instance_def races_instance split: option.splits)

lemma races_read_race:
  "(\<And>i. instance_ok M i \<Longrightarrow> preserves (races_ok M) (f i)) \<Longrightarrow>
     preserves (races_ok M) (seq (GetRaceInstance ctx b) f)"
  by (auto simp: preserves_def act_defs get_instance_def GetRaceInstance_def races_instance split: option.splits)

lemma races_read_racer:
  "(\<And>r. racer_ok M r \<Longrightarrow> preserves (races_ok M) (f r)) \<Longrightarrow> preserves (races_ok M) (seq (get_racer u c) f)"
  unfolding get_racer_def preserves_def act_defs
  by (auto simp: get_instance_def GetRacer_def split: option.splits
      dest: races_instance instance_tracker tracker_racer)

lemma races_own_racer:
  "(\<And>ctx i r. instance_ok M i \<Longrightarrow> racer_ok M r \<Longrightarrow> preserves (races_ok M) (f ctx i r)) \<Longrightarrow>
     preserves (races_ok M) (with_own_racer c f)"
  unfolding with_own_racer_def
  by (rule races_read_race preserves_lift_seq preserves_seq preserves_reads
      | blast intro: tracker_GetRacer instance_tracker)+

section \<open>What is written\<close>

lemma races_put_instance: "instance_ok M i \<Longrightarrow> preserves (races_ok M) (put_instance u i)"
  by (auto simp: preserves_def put_instance_def modify_def races_ok_def simp del: set_map dest: vals_umap_put)

lemma races_put_tracker: "tracker_ok M t \<Longrightarrow> preserves (races_ok M) (put_tracker u t)"
  unfolding put_tracker_def
  by (intro races_read_instance races_put_instance) (simp add: instance_ok_def)

lemma tracker_set_racer: "tracker_ok M t \<Longrightarrow> racer_ok M r \<Longrightarrow> tracker_ok M (set_racer c r t)"
  by (auto simp: tracker_ok_def set_racer_def simp del: set_map dest: vals_omap_put)

lemma races_put_racer: "racer_ok M r \<Longrightarrow> preserves (races_ok M) (put_racer u c r)"
  unfolding put_racer_def
  by (intro races_read_instance races_put_instance) (simp add: instance_ok_def tracker_set_racer)

lemma races_put_own: "racer_ok M r \<Longrightarrow> preserves (races_ok M) (put_own ctx r)"
  unfolding put_own_def by (rule races_put_racer)

lemma races_update_racer:
  "(\<And>r. racer_ok M r \<Longrightarrow> racer_ok M (f r)) \<Longrightarrow> preserves (races_ok M) (update_racer u c f)"
  unfolding update_racer_def by (intro races_read_racer races_put_racer)

text \<open>The other actions leave the races alone.\<close>

lemma races_frame: "(\<And>s. sv_raceInstances (snd (m s)) = sv_raceInstances s) \<Longrightarrow> preserves (races_ok M) m"
  by (simp add: preserves_def races_ok_def)

lemma races_others:
  "preserves (races_ok M) (send c msg)" "preserves (races_ok M) (queue_task task when)"
  "preserves (races_ok M) (put_room u room)" "preserves (races_ok M) (put_character u ch)"
  "preserves (races_ok M) (put_horse u h)" "preserves (races_ok M) (put_client c ctx)"
  "preserves (races_ok M) (broadcast u msg)" "preserves (races_ok M) (broadcast_except u msg v)"
  "preserves (races_ok M) (GetOrCreateP2dId c)" "preserves (races_ok M) (GetClientContextByCharacterUid v)"
  "preserves (races_ok M) (modify (\<lambda>s. s\<lparr>sv_otp := codes\<rparr>))"
  "preserves (races_ok M) (modify (\<lambda>s. s\<lparr>sv_resets := sv_resets s @ [c]\<rparr>))"
  by (rule races_frame; auto simp: send_def queue_task_def put_room_def put_character_def put_horse_def
      put_client_def broadcast_def broadcast_except_def get_room_def GetOrCreateP2dId_def
      GetClientContextByCharacterUid_def act_defs split: option.splits prod.splits)+

lemmas races_rules = races_read_instance races_read_race races_read_racer races_own_racer
  races_put_instance races_put_tracker races_put_racer races_put_own races_update_racer
  preserves_from_state preserves_lift_seq races_others preserves_intros

section \<open>Racers and trackers\<close>

lemma racer_simps [simp]:
  "racer_ok M (r\<lparr>ra_oid := a\<rparr>) = racer_ok M r"
  "racer_ok M (r\<lparr>ra_state := b\<rparr>) = racer_ok M r"
  "racer_ok M (r\<lparr>ra_team := d\<rparr>) = racer_ok M r"
  "racer_ok M (r\<lparr>ra_courseTime := k\<rparr>) = racer_ok M r"
  "racer_ok M (r\<lparr>ra_worldPosition := p\<rparr>) = racer_ok M r"
  "racer_ok M (r\<lparr>ra_raceProgress := k\<rparr>) = racer_ok M r"
  "racer_ok M (r\<lparr>ra_magicItem := m\<rparr>) = racer_ok M r"
  "racer_ok M (r\<lparr>ra_trackedDecks := ds\<rparr>) = racer_ok M r"
  "racer_ok M (r\<lparr>ra_deckCooldown := cd\<rparr>) = racer_ok M r"
  "racer_ok M (r\<lparr>ra_eventItems := es\<rparr>) = racer_ok M r"
  "racer_ok M (r\<lparr>ra_attackRank := k\<rparr>) = racer_ok M r"
  "racer_ok M (r\<lparr>ra_dragonReceivedAt := t\<rparr>) = racer_ok M r"
  "racer_ok M (r\<lparr>ra_lastGaugeUpdate := g\<rparr>) = racer_ok M r"
  "racer_ok M (r\<lparr>ra_mountStats := ms\<rparr>) = racer_ok M r"
  "racer_ok M (r\<lparr>ra_activeSetEffect := se\<rparr>) = racer_ok M r"
  "racer_ok M (r\<lparr>ra_pendingMagicTarget := mt\<rparr>) = racer_ok M r"
  by (auto simp: racer_ok_def)

lemma racer_zero [simp, intro]:
  "racer_ok M r \<Longrightarrow> v \<le> M \<Longrightarrow> racer_ok M (r\<lparr>ra_starPointValue := v\<rparr>)"
  "racer_ok M r \<Longrightarrow> racer_ok M (r\<lparr>ra_jumpComboValue := 0\<rparr>)"
  "racer_ok M r \<Longrightarrow> racer_ok M (r\<lparr>ra_jumpComboValue := min 99 k\<rparr>)"
  "racer_ok M new_racer"
  by (simp_all add: racer_ok_def new_racer_def)

lemma racer_points: "racer_ok M r \<Longrightarrow> ra_starPointValue r \<le> M"
  by (simp add: racer_ok_def)

lemma tracker_simps' [simp]:
  "tracker_ok M (t\<lparr>rt_blueTeam := a\<rparr>) = tracker_ok M t"
  "tracker_ok M (t\<lparr>rt_redTeam := a\<rparr>) = tracker_ok M t"
  "tracker_ok M (t\<lparr>rt_firstPassItemSpawn := b\<rparr>) = tracker_ok M t"
  "tracker_ok M (t\<lparr>rt_characterOids := ks\<rparr>) = tracker_ok M t"
  "tracker_ok M (t\<lparr>rt_nextCharacterOid := k\<rparr>) = tracker_ok M t"
  "tracker_ok M (t\<lparr>rt_nextItemDeckOid := k\<rparr>) = tracker_ok M t"
  "tracker_ok M (t\<lparr>rt_itemDecks := ds\<rparr>) = tracker_ok M t"
  "tracker_ok M (t\<lparr>rt_events := es\<rparr>) = tracker_ok M t"
  "tracker_ok M (t\<lparr>rt_nextEffectInstanceId := k\<rparr>) = tracker_ok M t"
  "tracker_ok M new_tracker"
  by (simp_all add: tracker_ok_def new_tracker_def)

lemma tracker_map:
  "tracker_ok M t \<Longrightarrow> (\<And>c r. racer_ok M r \<Longrightarrow> racer_ok M (f c r)) \<Longrightarrow>
     tracker_ok M (t\<lparr>rt_racers := map (\<lambda>(c, r). (c, f c r)) (rt_racers t)\<rparr>)"
  by (auto simp: tracker_ok_def)

lemma tracker_AddRacer: "tracker_ok M t \<Longrightarrow> tracker_ok M (snd (AddRacer c t))"
  "tracker_ok M t \<Longrightarrow> AddRacer c t = (Inr r, t') \<Longrightarrow> racer_ok M r"
  by (auto simp: AddRacer_def Let_def tracker_set_racer split: if_splits)

lemma tracker_AddItemDeck: "tracker_ok M t \<Longrightarrow> tracker_ok M (snd (AddItemDeck t))"
  by (simp add: AddItemDeck_def Let_def)

lemma tracker_AddEventItem: "tracker_ok M t \<Longrightarrow> tracker_ok M (snd (AddEventItem c k p t))"
  by (auto simp: AddEventItem_def Let_def tracker_set_racer split: sum.splits dest: tracker_GetRacer)

lemma tracker_RemoveEventItem: "tracker_ok M t \<Longrightarrow> tracker_ok M (snd (RemoveEventItem c k t))"
  by (auto simp: RemoveEventItem_def Let_def tracker_set_racer split: sum.splits dest: tracker_GetRacer)

lemma tracker_misc [simp]:
  "tracker_ok M (snd (IsEventThrottled now e t)) = tracker_ok M t"
  "tracker_ok M (snd (GetNextEffectInstanceIdAndIncrementBy n t)) = tracker_ok M t"
  "tracker_ok M (set_item_deck d deck t) = tracker_ok M t"
  "tracker_ok M (put_team color info t) = tracker_ok M t"
  "tracker_ok M (Tracker_Clear t)"
  by (auto simp: IsEventThrottled_def GetNextEffectInstanceIdAndIncrementBy_def set_item_deck_def
      put_team_def Tracker_Clear_def tracker_ok_def Let_def split: option.splits)

lemma instance_simps [simp]:
  "instance_ok M (i\<lparr>in_tracker := t\<rparr>) = (gm_starPointsMax (in_gameModeInfo i) \<le> M \<and> tracker_ok M t)"
  "instance_ok M (i\<lparr>in_stage := st\<rparr>) = instance_ok M i"
  "instance_ok M (i\<lparr>in_stageTimeout := to\<rparr>) = instance_ok M i"
  "instance_ok M (i\<lparr>in_raceStart := to\<rparr>) = instance_ok M i"
  "instance_ok M (i\<lparr>in_loadingStart := to\<rparr>) = instance_ok M i"
  "instance_ok M (i\<lparr>in_parameters := ps\<rparr>) = instance_ok M i"
  "instance_ok M (i\<lparr>in_gameModeId := k\<rparr>) = instance_ok M i"
  "instance_ok M (i\<lparr>in_mapBlockId := k\<rparr>) = instance_ok M i"
  "instance_ok M (i\<lparr>in_mapBlockInfo := mb\<rparr>) = instance_ok M i"
  "instance_ok M (i\<lparr>in_bonusCourseType := b\<rparr>) = instance_ok M i"
  "instance_ok M (i\<lparr>in_gameModeInfo := mode\<rparr>) = (gm_starPointsMax mode \<le> M \<and> tracker_ok M (in_tracker i))"
  "instance_ok M (new_instance u)"
  by (auto simp: instance_ok_def new_instance_def)

lemma instanceD: "instance_ok M i \<Longrightarrow> gm_starPointsMax (in_gameModeInfo i) \<le> M"
  "instance_ok M i \<Longrightarrow> tracker_ok M (in_tracker i)"
  by (simp_all add: instance_ok_def)

lemma mode_ok: "GetCourseGameModeInfo env k = Inr mode \<Longrightarrow> env_ok M env \<Longrightarrow> gm_starPointsMax mode \<le> M"
  unfolding GetCourseGameModeInfo_def env_ok_def by (auto split: option.splits dest: map_of_vals simp del: set_map)

section \<open>The gauge, the combo, the effects\<close>

lemma racer_gain: "racer_ok M r \<Longrightarrow> gm_starPointsMax mode \<le> M \<Longrightarrow> racer_ok M (gain points mode r)"
  by (simp add: gain_def min.coboundedI2)

lemma racer_clear_hurdle:
  "clear_hurdle gameMode mode kind r = Some (r', combo) \<Longrightarrow> racer_ok M r \<Longrightarrow> gm_starPointsMax mode \<le> M \<Longrightarrow>
     racer_ok M r'"
  by (auto simp: clear_hurdle_def Let_def intro!: racer_gain split: if_splits)

lemma racer_spur:
  "racer_ok M r \<Longrightarrow> \<not> ra_starPointValue r < k \<Longrightarrow> racer_ok M (r\<lparr>ra_starPointValue := ra_starPointValue r - k\<rparr>)"
  by (rule racer_zero) (auto dest!: racer_points simp: not_less intro: order_trans [OF word_sub_le])

lemma horseshoe_bound: "points \<le> M \<Longrightarrow> k \<le> M \<Longrightarrow> horseshoe item k points \<le> M"
  by (simp add: horseshoe_def min.coboundedI2)

lemma racer_effect:
  "racer_ok M r \<Longrightarrow> racer_ok M (set_effect e b r)"
  "racer_ok M r \<Longrightarrow> racer_ok M (next_generation e r)"
  "racer_ok M r \<Longrightarrow> racer_ok M (apply_effect e slot r)"
  "racer_ok M r \<Longrightarrow> racer_ok M (end_effect e rank r)"
  by (simp_all add: racer_ok_def set_effect_def next_generation_def apply_effect_def end_effect_def Let_def)

lemma racer_magic:
  "racer_ok M r \<Longrightarrow> racer_ok M (hold_spell k r)"
  "racer_ok M r \<Longrightarrow> racer_ok M (drop_spell r)"
  "racer_ok M r \<Longrightarrow> racer_ok M (untrack_deck d r)"
  "racer_ok M r \<Longrightarrow> racer_ok M (clear_target r)"
  "racer_ok M r \<Longrightarrow> racer_ok M (set_target now i j r)"
  by (simp_all add: racer_ok_def hold_spell_def drop_spell_def untrack_deck_def clear_target_def set_target_def)

lemma racer_regen:
  "racer_ok M r \<Longrightarrow> k \<le> M \<Longrightarrow> racer_ok M (regen_gauge regen bonus k start now r)"
  by (simp add: regen_gauge_def Let_def min.coboundedI1)

lemma tracker_gauge: "tracker_ok M t \<Longrightarrow> fill_gauge color t = (old, new, spur, t') \<Longrightarrow> tracker_ok M t'"
  by (auto simp: fill_gauge_def Let_def split: if_splits)

lemma tracker_collect: "tracker_ok M t \<Longrightarrow> tracker_ok M (collect_cooldown c d until t)"
  unfolding collect_cooldown_def by (rule tracker_map) auto

lemma tracker_untrack: "tracker_ok M t \<Longrightarrow>
    tracker_ok M (t\<lparr>rt_racers := map (\<lambda>(v, r). (v, untrack_deck d r)) (rt_racers t)\<rparr>)"
  by (rule tracker_map) (auto intro: racer_magic)

lemmas races_facts = instanceD mode_ok racer_gain racer_clear_hurdle racer_spur racer_effect racer_magic
  racer_regen tracker_gauge tracker_collect tracker_untrack tracker_found tracker_racer tracker_GetRacer

section \<open>The commands of a racer\<close>

lemma races_racer_handlers [races_intros]:
  "preserves (races_ok M) (HandleRaceTimer now c clock)"
  "preserves (races_ok M) (HandleLoadingComplete stats minLevel coin c)"
  "preserves (races_ok M) (HandleUserRaceFinal c time progress)"
  "preserves (races_ok M) (HandleRaceUserPos c k position progress)"
  "env_ok M env \<Longrightarrow> preserves (races_ok M) (HandleStarPointGet env c k points)"
  "env_ok M env \<Longrightarrow> preserves (races_ok M) (HandleRequestSpur env c k boosters break)"
  "env_ok M env \<Longrightarrow> preserves (races_ok M) (HandleHurdleClearResult env c k kind)"
  "env_ok M env \<Longrightarrow> preserves (races_ok M) (HandleStartingRate env c k velocity boost)"
  "preserves (races_ok M) (HandleTeamGauge now c)"
  "preserves (races_ok M) (HandleRaceResult cfg raffle c gained)"
  "preserves (races_ok M) (HandleP2PRaceResult c)"
  "preserves (races_ok M) (HandleP2PUserRaceResult c)"
  "preserves (races_ok M) (HandleAwardStart c member1)"
  "preserves (races_ok M) (HandleAwardEnd c)"
  unfolding HandleRaceTimer_def HandleLoadingComplete_def HandleUserRaceFinal_def HandleRaceUserPos_def
    HandleStarPointGet_def HandleRequestSpur_def HandleHurdleClearResult_def HandleStartingRate_def
    HandleTeamGauge_def HandleRaceResult_def HandleP2PRaceResult_def HandleP2PUserRaceResult_def
    HandleAwardStart_def HandleAwardEnd_def Let_def
  by (rule races_rules | simp | blast intro: races_facts)+

lemma races_company_handlers [races_intros]:
  "preserves (races_ok M) (HandleChat chat c message)"
  "preserves (races_ok M) (HandleOpCmd chat c message)"
  "preserves (races_ok M) (HandleRelayCommand c k1 k2)"
  "preserves (races_ok M) (HandleRelay c i j payloadType payload)"
  "preserves (races_ok M) (HandleUserRaceActivateInteractiveEvent c e1 e3)"
  "preserves (races_ok M) (HandleInviteUser presence c u name)"
  "preserves (races_ok M) (NotifySummonCharacter u force name room ranch)"
  "preserves (races_ok M) (HandleRequestUser uid_of_name c force name room ranch)"
  "preserves (races_ok M) (NotifyRoomNameChanged u)"
  "preserves (races_ok M) (SendDailyQuestNotificationToCharacter u quest prog carrots k8 k32 mountExp)"
  "preserves (races_ok M) (HandleTriggerizeAct env c a1 a2)"
  "preserves (races_ok M) (HandleGameCreateClientItem env eggs draw owns c unk1 position)"
  unfolding HandleChat_def HandleOpCmd_def HandleRelayCommand_def HandleRelay_def
    HandleUserRaceActivateInteractiveEvent_def HandleInviteUser_def NotifySummonCharacter_def
    HandleRequestUser_def NotifyRoomNameChanged_def SendDailyQuestNotificationToCharacter_def
    HandleTriggerizeAct_def HandleGameCreateClientItem_def Let_def
  by (rule races_rules | simp | metis instanceD(2) tracker_AddEventItem snd_conv)+

section \<open>Magic\<close>

lemma races_RemoveEffect [races_intros]: "preserves (races_ok M) (RemoveEffect u c e)"
  unfolding RemoveEffect_def by (rule races_rules racer_effect | assumption)+

lemma races_DrainGauge [races_intros]: "preserves (races_ok M) (DrainGauge u c)"
  unfolding DrainGauge_def by (rule races_rules racer_zero word_zero_le | assumption)+

lemma races_Strip [races_intros]: "preserves (races_ok M) (StripEffectsOnAttack env u c slot)"
  unfolding StripEffectsOnAttack_def by (rule races_rules races_RemoveEffect)+

lemma races_expiry [races_intros]:
  "preserves (races_ok M) (QueueEffectExpiry now u c k e slot g d)"
  "preserves (races_ok M) (run_effect_expiry u c k e g rank)"
  unfolding QueueEffectExpiry_def run_effect_expiry_def
  by (rule races_rules racer_effect | blast dest: races_instance instance_tracker tracker_racer)+

lemma races_Schedule [races_intros]:
  "preserves (races_ok M) (ScheduleSkillEffect env now u a t slot n)"
  unfolding ScheduleSkillEffect_def Let_def
  by (rule races_rules races_intros racer_effect | blast dest: instance_tracker tracker_found)+

lemma races_pick [races_intros]:
  "preserves (races_ok M) (pick_event_item egg ctx k d item)"
  "gm_starPointsMax mode \<le> M \<Longrightarrow> preserves (races_ok M) (pick_speed_item c ctx mode k deck)"
  "preserves (races_ok M) (pick_magic_item env draw roll deckDraw c ctx k d deck)"
  unfolding pick_event_item_def pick_speed_item_def pick_magic_item_def
  by (rule races_rules racer_magic racer_zero horseshoe_bound racer_points | assumption
      | simp add: instanceD | metis instanceD(2) tracker_RemoveEventItem snd_conv)+

lemma races_pick_deck [races_intros]:
  "env_ok M env \<Longrightarrow>
     preserves (races_ok M) (pick_deck_item env draw roll deckDraw now c ctx k d deck)"
  unfolding pick_deck_item_def Let_def
  by (rule races_rules races_pick tracker_untrack tracker_collect instanceD | assumption | erule mode_ok)+

lemma races_ConsumeCriticalAura [races_intros]:
  "preserves (races_ok M) (ConsumeCriticalAura env u c slot)"
  unfolding ConsumeCriticalAura_def by (rule races_rules races_intros)+

lemma races_ApplyImmediateMagicEffects [races_intros]:
  "preserves (races_ok M) (ApplyImmediateMagicEffects env now u r slot n)"
  unfolding ApplyImmediateMagicEffects_def QueueIceWallExpiry_def by (rule races_rules races_intros)+

lemma races_events [races_intros]:
  "preserves (races_ok M) (HandleUserRaceDeactivateEvent now c e)"
  "preserves (races_ok M) (HandleUserRaceActivateEvent now c e)"
  unfolding HandleUserRaceDeactivateEvent_def HandleUserRaceActivateEvent_def
  by (rule races_rules | metis instanceD(2) tracker_misc(1) snd_conv)+

lemma races_magic_handlers [races_intros]:
  "env_ok M env \<Longrightarrow> preserves (races_ok M) (HandleRequestMagicItem env draw roll c k)"
  "env_ok M env \<Longrightarrow> preserves (races_ok M) (HandleUserRaceItemGet env egg draw roll deckDraw now c k d)"
  "preserves (races_ok M) (HandleStartMagicTarget now c e i j k)"
  "preserves (races_ok M) (HandleChangeMagicTarget now c e i j k)"
  "preserves (races_ok M) (HandleActivateSkillEffect env now c i j effect e)"
  unfolding HandleRequestMagicItem_def HandleUserRaceItemGet_def HandleStartMagicTarget_def
    HandleChangeMagicTarget_def HandleActivateSkillEffect_def QueueHeldMagicItemStrip_def Let_def
  by (rule races_rules races_intros racer_magic | assumption | blast dest: instance_tracker tracker_found)+

lemma races_UseMagicItem [races_intros]:
  "preserves (races_ok M) (HandleUseMagicItem env now c k item targets)"
  unfolding HandleUseMagicItem_def Let_def
  by (rule races_rules races_intros racer_magic | assumption | metis instanceD(2) tracker_misc(2) snd_conv)+

lemma races_jobs [races_intros]:
  "preserves (races_ok M) (run_strip_magic_item u c)"
  "preserves (races_ok M) (run_ice_wall_expiry u k n1)"
  "preserves (races_ok M) (run_spur_start env now u color points n2)"
  "preserves (races_ok M) (run_unlock_gauge u color)"
  unfolding run_strip_magic_item_def StripHeldMagicItem_def run_ice_wall_expiry_def run_spur_start_def
    run_unlock_gauge_def
  by (rule races_rules racer_magic | assumption | simp | blast dest: races_instance instanceD)+

section \<open>Rooms\<close>

lemma preserves_cases:
  "(l = [] \<Longrightarrow> preserves P m) \<Longrightarrow> (\<And>x xs. l = x # xs \<Longrightarrow> preserves P (f x xs)) \<Longrightarrow>
     preserves P (case l of [] \<Rightarrow> m | x # xs \<Rightarrow> f x xs)"
  "(\<And>x. z = Inl x \<Longrightarrow> preserves P (g x)) \<Longrightarrow> (\<And>y. z = Inr y \<Longrightarrow> preserves P (h y)) \<Longrightarrow>
     preserves P (case z of Inl x \<Rightarrow> g x | Inr y \<Rightarrow> h y)"
  by (auto split: list.splits sum.splits)

lemma races_room_players: "preserves (races_ok M) (room_players records u master cs)"
  by (induction cs) (unfold room_players.simps, (rule races_rules | assumption)+)

lemma races_enter_instance: "preserves (races_ok M) (enter_instance c u)"
  unfolding enter_instance_def by (rule races_rules | simp)+

lemma races_EnterRoom [races_intros]:
  "preserves (races_ok M) (HandleEnterRoom hash records coin now c character u code)"
  unfolding HandleEnterRoom_def Let_def
  by (rule races_enter_instance races_room_players races_rules)+

lemma races_erase: "preserves (races_ok M) (modify (\<lambda>s. s\<lparr>sv_raceInstances := umap_erase u (sv_raceInstances s)\<rparr>))"
  by (auto simp: preserves_def modify_def races_ok_def simp del: set_map dest: vals_umap_erase)

lemma races_delete_empty_room [races_intros]: "preserves (races_ok M) (delete_empty_room u)"
  unfolding delete_empty_room_def
  by (rule races_erase races_rules | (rule races_frame, simp split: prod.splits))+

lemma races_leaving [races_intros]:
  "preserves (races_ok M) (succeed_master u cs)"
  unfolding succeed_master_def Let_def
  by (rule preserves_cases races_rules)+

lemma races_LeaveRoom [races_intros]: "preserves (races_ok M) (HandleLeaveRoom c)"
  unfolding HandleLeaveRoom_def Let_def by (rule races_intros races_rules | simp)+

lemma races_clients [races_intros]:
  "preserves (races_ok M) (HandleClientConnected c)"
  "preserves (races_ok M) (HandleClientDisconnected c)"
  "preserves (races_ok M) (HandleKickUser c target)"
  unfolding HandleClientConnected_def HandleClientDisconnected_def HandleKickUser_def Let_def
  by (rule races_intros races_rules
      | rule races_frame, simp add: modify_def release_p2d_def split: option.split)+

lemma races_room_handlers [races_intros]:
  "preserves (races_ok M) (HandleReadyRace c)"
  "preserves (races_ok M) (HandleChangeTeam c k color)"
  "preserves (races_ok M) (HandleChangeRoomOptions c options)"
  "preserves (races_ok M) (HandleChangeSkillCardPresetId c setId mode)"
  unfolding HandleReadyRace_def HandleChangeTeam_def HandleChangeRoomOptions_def
    HandleChangeSkillCardPresetId_def Let_def
  by (rule races_rules)+

section \<open>Starting a race\<close>

lemma instance_keeps:
  "preserves (instance_ok M) (modify (\<lambda>i. i\<lparr>in_gameModeId := f i\<rparr>))"
  "preserves (instance_ok M) (modify (\<lambda>i. i\<lparr>in_mapBlockId := g i\<rparr>))"
  "preserves (instance_ok M) (modify (\<lambda>i. i\<lparr>in_mapBlockInfo := h i\<rparr>))"
  "preserves (instance_ok M) (modify (\<lambda>i. i\<lparr>in_parameters := p i\<rparr>))"
  "gm_starPointsMax mode \<le> M \<Longrightarrow> preserves (instance_ok M) (modify (\<lambda>i. i\<lparr>in_gameModeInfo := mode\<rparr>))"
  "tracker_ok M t \<Longrightarrow> preserves (instance_ok M) (modify (\<lambda>i. i\<lparr>in_tracker := t\<rparr>))"
  by (auto simp: preserves_def modify_def instanceD)

lemma instance_add_deck: "preserves (instance_ok M) (add_deck env draws info position)"
  unfolding add_deck_def Let_def
  by (rule preserves_from_state preserves_lift_seq preserves_cases preserves_intros instance_keeps
      | simp | metis instanceD(2) tracker_AddItemDeck snd_conv)+

lemma preserves_rethrow: "preserves P m \<Longrightarrow> preserves P (rethrow description m)"
  by (auto simp: preserves_def rethrow_def split: prod.splits sum.splits)

lemma instance_prepare:
  "env_ok M env \<Longrightarrow> preserves (instance_ok M) (PrepareGameMode env)"
  "preserves (instance_ok M) (PrepareMap env level mapDraw draws)"
  unfolding PrepareGameMode_def PrepareMap_def PickRandomMapFromCourse_def PrepareItemDecks_def Let_def
  by (rule instance_keeps instance_add_deck preserves_from_state preserves_lift_seq preserves_rethrow
        preserves_intros
      | erule mode_ok | assumption)+

lemma instance_Start:
  assumes "env_ok M env" "instance_ok M i"
  shows "instance_ok M (snd (Start env level mapDraw draws now ps i))"
proof -
  have "preserves (instance_ok M) (seq (modify (\<lambda>i. i\<lparr>in_parameters := ps\<rparr>)) (\<lambda>_.
      seq (PrepareGameMode env) (\<lambda>_. PrepareMap env level mapDraw draws)))"
    by (intro preserves_seq instance_keeps instance_prepare assms(1))
  from preservesD [OF this assms(2)] show ?thesis
    by (auto simp: Start_def split: prod.splits sum.splits exn.splits)
qed

lemma instance_started:
  assumes "Start env level mapDraw draws now ps (i\<lparr>in_tracker := Tracker_Clear (in_tracker i)\<rparr>) = (res, i')"
    and "env_ok M env" "instance_ok M i"
  shows "instance_ok M i'"
  using instance_Start [OF assms(2), of "i\<lparr>in_tracker := Tracker_Clear (in_tracker i)\<rparr>" level mapDraw draws now ps]
    assms(1,3) by (simp add: instanceD)

lemma tracker_started:
  assumes "AddRacer c t = (Inr r, t')" "tracker_ok M t"
  shows "tracker_ok M (set_racer c (r\<lparr>ra_state := st, ra_team := team\<rparr>) t')"
  using tracker_AddRacer(1) [OF assms(2), of c] tracker_AddRacer(2) [OF assms(2,1)] assms(1)
  by (simp add: tracker_set_racer)

lemma races_start [races_intros]:
  "env_ok M env \<Longrightarrow> preserves (races_ok M) (start_instance env mapDraw draws now u ps)"
  "preserves (races_ok M) (add_start_racer u c player)"
  unfolding start_instance_def add_start_racer_def Let_def
  by (rule preserves_cases races_rules | erule instance_started | assumption
      | blast intro: tracker_started dest: instanceD)+

lemma start_prevention:
  "preserves P m1 \<Longrightarrow> preserves P m2 \<Longrightarrow> preserves P m3 \<Longrightarrow>
     preserves P (case z of NotAllPlayersReady \<Rightarrow> m1 | TeamImbalance \<Rightarrow> m2 | PreventNone \<Rightarrow> m3)"
  by (cases z) auto

lemma races_StartRace [races_intros]:
  "env_ok M env \<Longrightarrow> preserves (races_ok M) (HandleStartRace env mapDraw draws chance kind now c)"
  unfolding HandleStartRace_def SendStartRaceCancel_def Let_def
  by (rule start_prevention races_start races_rules | assumption | simp)+

section \<open>The tick\<close>

lemma races_start_racers: "preserves (races_ok M) (start_racers rs)"
  by (induction rs) (auto simp: split_paired_all intro!: races_rules)

lemma races_run_start_race [races_intros]: "preserves (races_ok M) (run_start_race draw u)"
  unfolding run_start_race_def racer_skills_def Let_def
  by (rule races_start_racers races_rules)+

lemma races_results: "preserves (races_ok M) (score_loop env bonus rs)"
  unfolding score_racer_def
  by (induction rs) (auto simp: split_paired_all score_racer_def Let_def intro!: races_rules)

lemma races_Stop [races_intros]: "preserves (races_ok M) (Stop env u)"
  unfolding Stop_def choose_master_def settle_room_def settle_player_def Let_def
  by (rule races_results races_rules)+

lemma tracker_disconnect: "tracker_ok M t \<Longrightarrow> tracker_ok M (disconnect_unloaded t)"
  unfolding disconnect_unloaded_def by (rule tracker_map) auto

lemma races_stages [races_intros]:
  "preserves (races_ok M) (TickLoading env now u)"
  "preserves (races_ok M) (TickRacing now u)"
  "preserves (races_ok M) (TickFinishing env now u)"
  unfolding TickLoading_def TickRacing_def TickFinishing_def Let_def
  by (rule races_Stop races_rules | simp add: instanceD tracker_disconnect)+

lemma races_update: "racer_update_ok (races_ok M) u (\<lambda>i r r'. instance_ok M i \<longrightarrow> racer_ok M r \<longrightarrow> racer_ok M r')"
  unfolding racer_update_ok_def
proof (intro allI impI)
  fix s i c r r'
  assume "races_ok M s" "map_of (sv_raceInstances s) u = Some i" "map_of (rt_racers (in_tracker i)) c = Some r"
    and "instance_ok M i \<longrightarrow> racer_ok M r \<longrightarrow> racer_ok M r'"
  then have "racer_ok M r'" by (blast dest: races_instance instance_tracker tracker_racer)
  from preservesD [OF races_put_racer [OF this, of u c] \<open>races_ok M s\<close>] \<open>map_of (sv_raceInstances s) u = Some i\<close>
  show "races_ok M (with_racer u i c r' s)" by (simp add: put_racer_eq)
qed

lemma races_active [races_intros]: "preserves (races_ok M) (TickActiveRaceContent env now u)"
proof (rule preserves_TickActive [OF races_update])
  show "instance_ok M i \<longrightarrow> racer_ok M r \<longrightarrow> racer_ok M r'" if "r' = r\<lparr>ra_trackedDecks := ra_trackedDecks r'\<rparr>" for i r r'
    by (subst that) simp
qed (rule races_rules | simp add: instanceD racer_regen)+

lemma races_Instance_Tick [races_intros]: "preserves (races_ok M) (Instance_Tick env now u)"
  unfolding Instance_Tick_def
  by (rule races_rules races_intros | simp split: Stage.split, intro conjI impI)+

lemma races_run_task [races_intros]: "preserves (races_ok M) (run_task env draw now task)"
  unfolding run_task_def by (cases task) (simp_all add: races_intros)

lemma races_scheduler [simp]: "races_ok M (s\<lparr>sv_scheduler := sch\<rparr>) = races_ok M s"
  by (simp add: races_ok_def)

lemma races_exec: "races_ok M s \<Longrightarrow> races_ok M (fst (snd (race_exec env draw now task s)))"
  using preservesD [OF races_run_task, of M "s\<lparr>sv_scheduler := new_scheduler\<rparr>" env draw now task]
  by (auto simp: race_exec_def split: prod.splits)

lemma races_Server_Tick [races_intros]: "preserves (races_ok M) (Server_Tick env draw now)"
proof (rule preservesI)
  fix s assume s: "races_ok M s"
  obtain res sch s' where t: "Scheduler_Tick (race_exec env draw now) now (sv_scheduler s) s = (res, sch, s')"
    by (metis prod.exhaust)
  have "races_ok M (snd (snd (Scheduler_Tick (race_exec env draw now) now (sv_scheduler s) s)))"
    by (rule Scheduler_Tick_keeps [OF s races_exec])
  then have "races_ok M (s'\<lparr>sv_scheduler := sch\<rparr>)" by (simp add: t)
  then show "races_ok M (snd (Server_Tick env draw now s))"
    by (simp add: Server_Tick_def t Let_def preservesD [OF preserves_for_each [OF races_Instance_Tick]])
qed

end
