(* ===== verification/Command_Protocol.thy ===== *)
theory Command_Protocol imports Streams begin

text \<open>
  \<open>libserver/network/command/CommandProtocol.hpp\<close> and \<open>CommandProtocol.cpp\<close>: the message magic
  in front of every command, and the constants of the rolling code. The table of command names
  is only used by log lines.
\<close>

section \<open>Constants\<close>

definition BufferSize :: u32 where "BufferSize = 4096"
definition XorControl :: i32 where "XorControl = 0xA20191CB"
definition XorMultiplier :: i32 where "XorMultiplier = 0x20080825"

text \<open>\<open>Command::Count\<close>, the last enumerator.\<close>

definition Command_Count :: u16 where "Command_Count = 0x10A4"

section \<open>The message magic\<close>

record MessageMagic =
  magic_id :: u16
  magic_length :: u16

definition decode_message_magic :: "u32 \<Rightarrow> MessageMagic" where
  "decode_message_magic value =
     (let len = (if value AND push_bit 15 1 \<noteq> 0
                 then let section = value AND 0x3FFF
                      in ucast (push_bit 4 (value AND 0xFF) OR (drop_bit 8 section AND 0xF)
                           OR (section AND 0xF000))
                 else 0);
          firstTwoBytes = ucast (value AND 0xFFFF) :: u16;
          secondTwoBytes = ucast (drop_bit 16 value AND 0xFFFF) :: u16;
          xorResult = firstTwoBytes XOR secondTwoBytes
      in \<lparr>magic_id = NOT (xorResult AND 0xC000) AND xorResult, magic_length = len\<rparr>)"

definition encode_message_magic :: "MessageMagic \<Rightarrow> u32" where
  "encode_message_magic magic =
     (let id = magic_id magic AND 0xFFFF;
          len = push_bit 16 BufferSize OR ucast (magic_length magic);
          e1 = ((len AND 0x3FFF) OR push_bit 14 len) AND 0xFFFF;
          e2 = (push_bit 8 ((e1 AND 0xF) OR 0xFF80) OR (drop_bit 4 len AND 0xFF)
                  OR (e1 AND 0xF000)) AND 0xFFFF
      in e2 OR push_bit 16 (e2 XOR ucast id))"

lemma less_16_cases:
  "(n::nat) < 16 \<Longrightarrow> n \<in> {0, 1, 2, 3, 4, 5, 6, 7, 8, 9, 10, 11, 12, 13, 14, 15}"
  by (simp add: numeral_eq_Suc less_Suc_eq)

text \<open>The bits of the constants the two functions mask with.\<close>

lemma bit_u32_masks:
  "bit (0x3FFF :: u32) n \<longleftrightarrow> n < 14" "bit (0xFF :: u32) n \<longleftrightarrow> n < 8" "bit (0xF :: u32) n \<longleftrightarrow> n < 4"
  "bit (0xFFFF :: u32) n \<longleftrightarrow> n < 16" "bit (0xF000 :: u32) n \<longleftrightarrow> 12 \<le> n \<and> n < 16"
  "bit (0xFF80 :: u32) n \<longleftrightarrow> 7 \<le> n \<and> n < 16" "bit BufferSize n \<longleftrightarrow> n = 12"
  "bit (0x8000 :: u32) n \<longleftrightarrow> n = 15"
proof -
  have m: "(0x3FFF :: u32) = mask 14" "(0xFF :: u32) = mask 8" "(0xF :: u32) = mask 4"
    "(0xFFFF :: u32) = mask 16" "(0xF000 :: u32) = push_bit 12 (mask 4)"
    "(0xFF80 :: u32) = push_bit 7 (mask 9)" "BufferSize = push_bit 12 1"
    "(0x8000 :: u32) = push_bit 15 1"
    by (simp_all add: mask_eq_exp_minus_1 push_bit_eq_mult BufferSize_def)
  show "bit (0x3FFF :: u32) n \<longleftrightarrow> n < 14" "bit (0xFF :: u32) n \<longleftrightarrow> n < 8"
    "bit (0xF :: u32) n \<longleftrightarrow> n < 4" "bit (0xFFFF :: u32) n \<longleftrightarrow> n < 16"
    unfolding m by (auto simp only: bit_mask_iff possible_bit_word) (auto simp: word_size)
  show "bit (0xF000 :: u32) n \<longleftrightarrow> 12 \<le> n \<and> n < 16" "bit (0xFF80 :: u32) n \<longleftrightarrow> 7 \<le> n \<and> n < 16"
    unfolding m by (auto simp only: bit_push_bit_iff bit_mask_iff possible_bit_word) auto
  show "bit BufferSize n \<longleftrightarrow> n = 12" "bit (0x8000 :: u32) n \<longleftrightarrow> n = 15"
    unfolding m by (auto simp only: bit_push_bit_iff bit_1_iff possible_bit_word) auto
qed

lemma bit_u16_masks: "bit (0xC000 :: u16) n \<longleftrightarrow> 14 \<le> n \<and> n < 16" "bit (0x3FFF :: u16) n \<longleftrightarrow> n < 14"
  "bit (0xFFFF :: u16) n \<longleftrightarrow> n < 16"
proof -
  have m: "(0xC000 :: u16) = push_bit 14 (mask 2)" "(0x3FFF :: u16) = mask 14" "(0xFFFF :: u16) = mask 16"
    by (simp_all add: mask_eq_exp_minus_1 push_bit_eq_mult)
  show "bit (0xC000 :: u16) n \<longleftrightarrow> 14 \<le> n \<and> n < 16" "bit (0x3FFF :: u16) n \<longleftrightarrow> n < 14"
    "bit (0xFFFF :: u16) n \<longleftrightarrow> n < 16"
    unfolding m by (auto simp only: bit_push_bit_iff bit_mask_iff possible_bit_word) auto
qed

lemmas magic_bits = bit_u32_masks bit_u16_masks bit_and_iff bit_or_iff bit_xor_iff bit_not_iff
  bit_push_bit_iff bit_drop_bit_eq bit_ucast_iff possible_bit_word comp_apply

text \<open>The lower half of the encoded magic; the upper half is the lower one scrambled with the
  identifier.\<close>

definition magic_low :: "u16 \<Rightarrow> u32" where
  "magic_low len' =
     (let len = push_bit 16 BufferSize OR ucast len';
          e1 = ((len AND 0x3FFF) OR push_bit 14 len) AND 0xFFFF
      in (push_bit 8 ((e1 AND 0xF) OR 0xFF80) OR (drop_bit 4 len AND 0xFF)
                  OR (e1 AND 0xF000)) AND 0xFFFF)"

lemma encode_low:
  "encode_message_magic m = magic_low (magic_length m)
     OR push_bit 16 (magic_low (magic_length m) XOR ucast (magic_id m AND 0xFFFF))"
  by (simp only: encode_message_magic_def magic_low_def Let_def)

lemma bit_u16_less: "bit (w :: u16) n \<Longrightarrow> n < 16"
  using bit_imp_le_length by force

lemma bit_first_step:
  fixes L :: u32
  assumes "\<And>k. bit L k \<longleftrightarrow> k = 28 \<or> bit (w :: u16) k"
  shows "bit ((L AND 0x3FFF OR push_bit 14 L) AND 0xFFFF) k
    \<longleftrightarrow> (k < 14 \<and> bit w k) \<or> (14 \<le> k \<and> k < 16 \<and> bit w (k - 14))"
proof (cases "k < 16")
  case True
  with less_16_cases [OF True] show ?thesis by (elim insertE) (simp_all add: magic_bits assms)
next
  case False
  then show ?thesis by (simp add: magic_bits del: bit_numeral_word_iff)
qed

lemma bit_second_step:
  fixes L E :: u32
  shows "bit ((push_bit 8 ((E AND 0xF) OR 0xFF80) OR (drop_bit 4 L AND 0xFF) OR (E AND 0xF000))
      AND 0xFFFF) n
    \<longleftrightarrow> n < 16 \<and> (n = 15 \<or> (n < 8 \<and> bit L (n + 4)) \<or> (8 \<le> n \<and> n < 12 \<and> bit E (n - 8))
        \<or> (12 \<le> n \<and> bit E n))"
proof (cases "n < 16")
  case True
  with less_16_cases [OF True] show ?thesis by (elim insertE) (simp_all add: magic_bits)
next
  case False
  then show ?thesis by (simp add: magic_bits del: bit_numeral_word_iff)
qed

lemma bit_magic_low:
  "bit (magic_low w) n \<longleftrightarrow>
     (if n < 8 then bit w (n + 4)
      else if n < 12 then bit w (n - 8)
      else if n < 14 then bit w n
      else if n = 14 then bit w 0
      else n = 15)"
proof -
  have l: "bit (push_bit 16 BufferSize OR ucast w :: u32) k \<longleftrightarrow> k = 28 \<or> bit w k" for k
    by (auto simp: magic_bits dest: bit_u16_less)
  show ?thesis
    unfolding magic_low_def Let_def bit_second_step bit_first_step [OF l] l
    by (cases "n = 14") auto
qed

lemma bit_encode:
  "n < 16 \<Longrightarrow> bit (encode_message_magic m) n \<longleftrightarrow> bit (magic_low (magic_length m)) n"
  "n < 16 \<Longrightarrow> bit (encode_message_magic m) (n + 16) \<longleftrightarrow>
     bit (magic_low (magic_length m)) n \<noteq> bit (magic_id m) n"
  using bit_magic_low [of "magic_length m" "n + 16"]
  unfolding encode_low magic_bits len_num1 len_bit0 by auto

text \<open>\<open>decode_message_magic\<close> undoes \<open>encode_message_magic\<close> on the fourteen low bits of
  the identifier and of the length; the scene lock bit of the identifier does not survive.\<close>

theorem decode_encode_message_magic:
  "decode_message_magic (encode_message_magic m) =
     \<lparr>magic_id = magic_id m AND 0x3FFF, magic_length = magic_length m AND 0x3FFF\<rparr>"
proof -
  let ?e = "encode_message_magic m"
  have "bit (?e AND push_bit 15 1) 15"
    by (simp add: bit_and_iff bit_encode bit_magic_low bit_push_bit_iff)
  then have flag: "?e AND push_bit 15 1 \<noteq> 0"
    by (metis bit_0_eq bot_apply bot_bool_def)
  have len: "bit (push_bit 4 (e AND 0xFF) OR (drop_bit 8 (e AND 0x3FFF) AND 0xF)
      OR ((e AND 0x3FFF) AND 0xF000)) n
    \<longleftrightarrow> (if n < 4 then bit e (n + 8) else if n < 12 then bit e (n - 4) else n < 14 \<and> bit e n)"
    if "n < 16" for e :: u32 and n
    using less_16_cases [OF that] by (elim insertE) (simp_all add: magic_bits)
  have "ucast (push_bit 4 (?e AND 0xFF) OR (drop_bit 8 (?e AND 0x3FFF) AND 0xF)
      OR ((?e AND 0x3FFF) AND 0xF000)) = magic_length m AND 0x3FFF"
  proof (rule bit_word_eqI, unfold len_num1 len_bit0)
    fix n :: nat
    assume n: "n < 2 * (2 * (2 * (2 * 1)))"
    then have n: "n < 16" by simp
    show "bit (ucast (push_bit 4 (?e AND 0xFF) OR (drop_bit 8 (?e AND 0x3FFF) AND 0xF)
      OR ((?e AND 0x3FFF) AND 0xF000)) :: u16) n = bit (magic_length m AND 0x3FFF) n"
      unfolding bit_ucast_iff len [OF n] bit_and_iff [of "magic_length m"]
      using less_16_cases [OF n]
      by (elim insertE) (simp_all add: bit_encode bit_magic_low bit_u16_masks)
  qed
  moreover have "(ucast (?e AND 0xFFFF) XOR ucast (drop_bit 16 ?e AND 0xFFFF) :: u16) = magic_id m"
    by (rule bit_word_eqI)
      (auto simp: bit_ucast_iff bit_and_iff bit_xor_iff bit_u32_masks bit_drop_bit_eq bit_encode
        add.commute [of 16] simp del: bit_numeral_word_iff)
  moreover have "NOT (x AND 0xC000) AND x = x AND 0x3FFF" for x :: u16
    by (rule bit_word_eqI) (unfold bit_and_iff bit_not_iff bit_u16_masks possible_bit_word, auto)
  ultimately show ?thesis
    unfolding decode_message_magic_def Let_def if_P [OF flag] by simp
qed

end
