(* ===== verification/Command_Server.thy ===== *)
theory Command_Server imports Command_Protocol Network begin

text \<open>
  \<open>libserver/network/command/CommandServer.cpp\<close>: the framing of commands, the rolling code that
  scrambles what a client sends, and the writing of the commands sent to it.

  \<^item> A \<open>XorCode\<close> is its four bytes read as one little endian integer, which is what \<open>RollCode\<close>
    does to it. The products wrap: signed overflow has that result on the targets of the program.
  \<^item> The handlers registered by the directors are the parameter \<open>hs\<close>. A handler gets the data of
    its command and leaves a state of the server, in which it may have set codes; it leaves one
    too when it throws, because the exception is caught and logged.
  \<^item> The fixed buffer of \<open>MaxCommandDataSize\<close> bytes always has room: the size was checked. The
    scrambled data are overwritten in place, which a copy is equal to.
\<close>

section \<open>Rolling codes\<close>

definition MaxCommandDataSize :: nat where "MaxCommandDataSize = 8192"
definition MaxCommandSize :: nat where "MaxCommandSize = MaxCommandDataSize + 4"

record 'w command_server =
  cs_clients :: "(client_id, i32) umap"
  cs_world :: 'w

definition code_of :: "client_id \<Rightarrow> 'w command_server \<Rightarrow> i32" where
  "code_of c s = (case map_of (cs_clients s) c of Some code \<Rightarrow> code | None \<Rightarrow> 0)"

definition SetCode :: "client_id \<Rightarrow> i32 \<Rightarrow> 'w command_server \<Rightarrow> 'w command_server" where
  "SetCode c code s = s\<lparr>cs_clients := umap_put c code (cs_clients s)\<rparr>"

lemma code_of_SetCode [simp]:
  "code_of c (SetCode c' code s) = (if c = c' then code else code_of c s)"
  "SetCode c code (SetCode c code' s) = SetCode c code s"
  by (simp_all add: code_of_def SetCode_def)

definition roll :: "i32 \<Rightarrow> i32" where
  "roll code = XorControl - code * XorMultiplier"

definition RollCode :: "client_id \<Rightarrow> 'w command_server \<Rightarrow> 'w command_server" where
  "RollCode c s = SetCode c (roll (code_of c s)) s"

fun xor_from :: "nat \<Rightarrow> bytes \<Rightarrow> bytes \<Rightarrow> bytes" where
  "xor_from idx key [] = []"
| "xor_from idx key (v # vs) = (v XOR key ! (idx mod 4)) # xor_from (Suc idx) key vs"

definition XorAlgorithm :: "i32 \<Rightarrow> bytes \<Rightarrow> bytes" where
  "XorAlgorithm key source = xor_from 0 (bytes_of_u32 key) source"

section \<open>Receiving commands\<close>

type_synonym 'w handlers = "u16 \<Rightarrow> (client_id \<Rightarrow> bytes \<Rightarrow> 'w command_server \<Rightarrow> 'w command_server) option"

definition dispatch ::
  "'w handlers \<Rightarrow> client_id \<Rightarrow> u16 \<Rightarrow> bytes \<Rightarrow> 'w command_server \<Rightarrow> 'w command_server" where
  "dispatch hs c commandId commandData s =
     (case hs commandId of None \<Rightarrow> s | Some handler \<Rightarrow> handler c commandData s)"

text \<open>One turn of the loop of \<open>OnClientData\<close>, on the data that were not read yet.\<close>

definition read_command ::
  "'w handlers \<Rightarrow> client_id \<Rightarrow> bytes \<Rightarrow> 'w command_server \<Rightarrow> 'w command_server frame_result" where
  "read_command hs c data s =
     (if length data < 4 then Wait
      else let magic = decode_message_magic (u32_of_bytes (take 4 data))
      in if magic_id magic > Command_Count
         then Bad (RuntimeError ''Invalid command magic: Bad command ID'') s
         else if unat (magic_length magic) < 4 \<or> unat (magic_length magic) > MaxCommandSize
         then Bad (RuntimeError ''Invalid command magic: Bad command data size'') s
         else let commandDataSize = unat (magic_length magic) - 4;
                  availableDataSize = length data - 4
         in if commandDataSize > availableDataSize then Wait
            else let commandData = take commandDataSize (drop 4 data);
                     s = SetCode c (code_of c s) s
            in if commandDataSize = 0
               then Took 4 (dispatch hs c (magic_id magic) [] s)
               else let s = RollCode c s;
                        code = code_of c s;
                        padding = unat (code AND 7)
               in if padding \<ge> commandDataSize
                  then Bad (RuntimeError ''Malformed command'') s
                  else Took (4 + commandDataSize)
                    (dispatch hs c (magic_id magic)
                      (take (commandDataSize - padding) (XorAlgorithm code commandData)) s))"

function OnClientData :: "'w handlers \<Rightarrow> client_id \<Rightarrow> 'w command_server on_data" where
  "OnClientData hs c data s =
     (if data = [] then (Inr 0, s)
      else case read_command hs c data s of
             Wait \<Rightarrow> (Inr 0, s)
           | Bad e s' \<Rightarrow> (Inl e, s')
           | Took n s' \<Rightarrow> advance n (OnClientData hs c (drop n data) s'))"
  by pat_completeness auto
termination
  by (relation "measure (\<lambda>(hs, c, data, s). length data)")
    (auto simp: read_command_def Let_def split: if_splits)

declare OnClientData.simps [simp del]

lemma read_command_Took:
  "read_command hs c d s = Took n s' \<Longrightarrow> 0 < n \<and> n \<le> length d"
  by (auto simp: read_command_def Let_def split: if_splits)

lemma read_command_more:
  assumes "read_command hs c d s \<noteq> Wait"
  shows "read_command hs c (d @ e) s = read_command hs c d s"
proof -
  have l: "\<not> length d < 4" using assms by (auto simp: read_command_def)
  then have t: "take 4 (d @ e) = take 4 d" "drop 4 (d @ e) = drop 4 d @ e" by simp_all
  obtain magic where m: "decode_message_magic (u32_of_bytes (take 4 d)) = magic" by simp
  let ?n = "unat (magic_length magic) - 4"
  show ?thesis
  proof (cases "?n \<le> length d - 4")
    case True
    then have "take ?n (drop 4 d @ e) = take ?n (drop 4 d)" by simp
    moreover have "\<not> length (d @ e) - 4 < ?n" "\<not> length d - 4 < ?n" using True by auto
    ultimately show ?thesis unfolding read_command_def t m using l by (simp add: Let_def)
  next
    case False
    with assms l show ?thesis unfolding read_command_def t m by (auto simp: Let_def split: if_splits)
  qed
qed

interpretation commands: frame_parser "read_command hs c" "OnClientData hs c" for hs c
proof unfold_locales
  fix d and s :: "'a command_server"
  show "OnClientData hs c d s =
      (if d = [] then (Inr 0, s)
       else case read_command hs c d s of
              Wait \<Rightarrow> (Inr 0, s)
            | Bad e s' \<Rightarrow> (Inl e, s')
            | Took n s' \<Rightarrow> advance n (OnClientData hs c (drop n d) s'))"
    by (subst OnClientData.simps) (rule refl)
qed (simp_all add: read_command_Took read_command_more)

text \<open>A handler ends the client it serves when it has the server disconnect it. \<open>never_ends\<close>: no
  handler does.\<close>

definition never_ends :: "'w command_server client_view \<Rightarrow> 'w handlers \<Rightarrow> client_id \<Rightarrow> bool" where
  "never_ends view hs c \<longleftrightarrow> (\<forall>s. cv_shouldRun view s \<longrightarrow>
     (\<forall>code. cv_shouldRun view (SetCode c code s))
     \<and> (\<forall>i handler data. hs i = Some handler \<longrightarrow> cv_shouldRun view (handler c data s)))"

lemma never_ends_read_command:
  assumes "never_ends view hs c" "read_command hs c d s = Took n s'" "cv_shouldRun view s"
  shows "cv_shouldRun view s'"
proof -
  have keeps: "cv_shouldRun view (SetCode c code t)" "cv_shouldRun view (RollCode c t)"
    "cv_shouldRun view (dispatch hs c i data t)" if "cv_shouldRun view t" for code t i data
    using assms(1) that by (auto simp: never_ends_def RollCode_def dispatch_def split: option.splits)
  show ?thesis
    using assms(2,3) keeps by (auto simp: read_command_def Let_def split: if_splits)
qed

text \<open>C3: However the network fragments the commands a client sends, the reads leave the same state
  of the server, and the same bytes to be read, as one read of the bytes that arrived up to the
  read in which the client was ended; if no handler ends the client it serves, as one read of all
  the bytes.\<close>

theorem OnClientData_fragmentation:
  "same_outcome (ReadLoop_all view (OnClientData hs c) (chunk # chunks) client)
     (ReadLoop view (OnClientData hs c)
       (concat (take (reads_used view (OnClientData hs c) (chunk # chunks) client) (chunk # chunks))) client)
   \<and> (never_ends view hs c \<and> (rl_waiting client \<longrightarrow> cv_shouldRun view (rl_state client)) \<longrightarrow>
      same_outcome (ReadLoop_all view (OnClientData hs c) (chunk # chunks) client)
        (ReadLoop view (OnClientData hs c) (concat (chunk # chunks)) client))"
proof (intro conjI impI)
  assume a: "never_ends view hs c \<and> (rl_waiting client \<longrightarrow> cv_shouldRun view (rl_state client))"
  then have "rl_waiting client \<Longrightarrow> cv_shouldRun view (rl_state client)" by blast
  with never_ends_read_command [OF conjunct1 [OF a]]
  show "same_outcome (ReadLoop_all view (OnClientData hs c) (chunk # chunks) client)
      (ReadLoop view (OnClientData hs c) (concat (chunk # chunks)) client)"
    by (intro commands.fragmentation_whole) simp_all
qed (rule commands.fragmentation, simp)

text \<open>A server whose world is a log of what the handlers got, and whether the client runs.\<close>

definition logging_handlers :: "((u16 \<times> bytes) list \<times> bool) handlers" where
  "logging_handlers i = Some (\<lambda>c data s.
     s\<lparr>cs_world := (fst (cs_world s) @ [(i, data)], snd (cs_world s))\<rparr>)"

definition logging_view :: "((u16 \<times> bytes) list \<times> bool) command_server client_view" where
  "logging_view = \<lparr>cv_shouldRun = (\<lambda>s. snd (cs_world s)),
     cv_End = (\<lambda>s. (None, s\<lparr>cs_world := (fst (cs_world s), False)\<rparr>))\<rparr>"

definition logging_client :: "((u16 \<times> bytes) list \<times> bool) command_server read_client" where
  "logging_client = \<lparr>rl_waiting = True, rl_buffer = [], rl_escaped = None,
     rl_state = \<lparr>cs_clients = [], cs_world = ([], True)\<rparr>\<rparr>"

text \<open>The two bytes of a command's magic arrive one read after the other.\<close>

lemma OnClientData_fragmentation_witness:
  "let d = bytes_of_u32 (encode_message_magic \<lparr>magic_id = 0x12, magic_length = 4\<rparr>);
       read = ReadLoop logging_view (OnClientData logging_handlers 5);
       reads = ReadLoop_all logging_view (OnClientData logging_handlers 5)
   in same_outcome (reads [take 1 d, drop 1 d] logging_client) (read d logging_client)"
proof -
  have "never_ends logging_view logging_handlers 5"
    by (simp add: never_ends_def logging_view_def logging_handlers_def SetCode_def)
  moreover have "rl_waiting logging_client \<longrightarrow> cv_shouldRun logging_view (rl_state logging_client)"
    by (simp add: logging_view_def logging_client_def)
  moreover have "concat [take 1 d, drop 1 d] = d" for d :: bytes by simp
  ultimately show ?thesis
    using OnClientData_fragmentation [of logging_view logging_handlers 5] unfolding Let_def by metis
qed

text \<open>A handler that ends the client it serves is what makes the cut between reads matter: the rest of
  its read is handled all the same, later reads are not.\<close>

definition ending_handlers :: "((u16 \<times> bytes) list \<times> bool) handlers" where
  "ending_handlers i = Some (\<lambda>c data s.
     s\<lparr>cs_world := (fst (cs_world s) @ [(i, data)], i \<noteq> 0x12 \<and> snd (cs_world s))\<rparr>)"

lemma commands_after_the_end:
  "let d = bytes_of_u32 (encode_message_magic \<lparr>magic_id = 0x12, magic_length = 4\<rparr>);
       e = bytes_of_u32 (encode_message_magic \<lparr>magic_id = 0x13, magic_length = 4\<rparr>);
       handled = (\<lambda>c. map fst (fst (cs_world (rl_state c))));
       reads = ReadLoop_all logging_view (OnClientData ending_handlers 5)
   in handled (reads [d @ e] logging_client) = [0x12, 0x13]
    \<and> handled (reads [d, e] logging_client) = [0x12]"
  by code_simp

section \<open>A command travels unharmed\<close>

lemma xor_from_involutive: "xor_from idx key (xor_from idx key vs) = vs"
  by (induction vs arbitrary: idx) (auto simp: xor.assoc)

lemma length_xor_from [simp]: "length (xor_from idx key vs) = length vs"
  by (induction vs arbitrary: idx) auto

lemma XorAlgorithm_involutive [simp]: "XorAlgorithm key (XorAlgorithm key vs) = vs"
  by (simp add: XorAlgorithm_def xor_from_involutive)

lemma length_XorAlgorithm [simp]: "length (XorAlgorithm key vs) = length vs"
  by (simp add: XorAlgorithm_def)

text \<open>The frame a client sends for a command with the given data, its code already rolled: the
  data, followed by as many padding bytes as the code says, are scrambled behind the magic.\<close>

definition client_frame :: "i32 \<Rightarrow> u16 \<Rightarrow> bytes \<Rightarrow> bytes \<Rightarrow> bytes" where
  "client_frame code commandId commandData padding =
     bytes_of_u32 (encode_message_magic
       \<lparr>magic_id = commandId, magic_length = of_nat (4 + length commandData + length padding)\<rparr>)
     @ XorAlgorithm code (commandData @ padding)"

lemma u16_mask_small: "(w :: u16) \<le> 0x3FFF \<Longrightarrow> w AND 0x3FFF = w"
proof -
  assume "w \<le> 0x3FFF"
  then have "w < 2 ^ 14" by (simp add: word_less_nat_alt word_le_nat_alt)
  then have "unat (take_bit 14 w) = unat w"
    by (simp add: unsigned_take_bit_eq take_bit_nat_eq_self word_less_nat_alt)
  then have "take_bit 14 w = w" by (simp only: word_unat_eq_iff)
  moreover have "(0x3FFF :: u16) = mask 14" by (simp add: mask_eq_exp_minus_1)
  ultimately show ?thesis by (simp add: take_bit_eq_mask)
qed

lemma decode_small:
  assumes "i \<le> Command_Count" "n \<le> MaxCommandSize"
  shows "decode_message_magic (encode_message_magic \<lparr>magic_id = i, magic_length = of_nat n\<rparr>)
    = \<lparr>magic_id = i, magic_length = of_nat n\<rparr>"
proof -
  have "i \<le> 0x3FFF" using assms(1) by (simp add: Command_Count_def word_le_nat_alt)
  moreover have "(of_nat n :: u16) \<le> 0x3FFF"
    using assms(2) by (simp add: word_le_nat_alt unat_of_nat MaxCommandSize_def MaxCommandDataSize_def)
  ultimately show ?thesis by (simp add: decode_encode_message_magic u16_mask_small)
qed

lemma read_command_frame:
  assumes "i \<le> Command_Count" "code = roll (code_of c s)"
    and "data \<noteq> []" "length padding = unat (code AND 7)"
    and "length data + length padding \<le> MaxCommandDataSize"
  shows "read_command hs c (client_frame code i data padding @ rest) s
    = Took (length (client_frame code i data padding)) (dispatch hs c i data (SetCode c code s))"
proof -
  let ?n = "length data + length padding"
  let ?frame = "client_frame code i data padding"
  let ?magic = "\<lparr>magic_id = i, magic_length = of_nat (4 + ?n) :: u16\<rparr>"
  have small: "4 + ?n \<le> MaxCommandSize" using assms(5) by (simp add: MaxCommandSize_def)
  then have len: "unat (of_nat (4 + ?n) :: u16) = 4 + ?n"
    by (subst unat_of_nat) (simp add: MaxCommandSize_def MaxCommandDataSize_def del: of_nat_add)
  have "decode_message_magic (encode_message_magic ?magic) = ?magic"
    by (rule decode_small [OF assms(1) small])
  then have magic: "decode_message_magic (u32_of_bytes (take 4 (?frame @ rest))) = ?magic"
    by (simp add: client_frame_def add.assoc)
  have data: "take ?n (drop 4 (?frame @ rest)) = XorAlgorithm code (data @ padding)"
    "length (?frame @ rest) = 4 + ?n + length rest"
    by (simp_all add: client_frame_def)
  have ne: "0 < length data" using assms(3) by simp
  have rolled: "RollCode c (SetCode c (code_of c s) s) = SetCode c code s"
    "code_of c (SetCode c code s) = code"
    using assms(2) by (simp_all add: RollCode_def)
  show ?thesis
    unfolding read_command_def magic Let_def data
    using assms(1,4) small ne len rolled data
    by (simp add: client_frame_def not_le)
qed

text \<open>A command without data is not scrambled and does not roll the code.\<close>

lemma read_command_empty_frame:
  assumes "i \<le> Command_Count"
  shows "read_command hs c (client_frame code i [] [] @ rest) s
    = Took (length (client_frame code i [] [])) (dispatch hs c i [] (SetCode c (code_of c s) s))"
proof -
  have "decode_message_magic (encode_message_magic \<lparr>magic_id = i, magic_length = of_nat 4\<rparr>)
      = \<lparr>magic_id = i, magic_length = of_nat 4\<rparr>"
    by (rule decode_small [OF assms]) (simp add: MaxCommandSize_def)
  then have "decode_message_magic (u32_of_bytes (take 4 (client_frame code i [] [] @ rest)))
      = \<lparr>magic_id = i, magic_length = 4\<rparr>"
    by (simp add: client_frame_def XorAlgorithm_def)
  with assms show ?thesis
    by (simp add: read_command_def Let_def client_frame_def XorAlgorithm_def MaxCommandSize_def not_le)
qed

text \<open>The bytes of a sequence of commands, each with the padding bytes it carries, and what the
  server is expected to do about them.\<close>

type_synonym client_command = "u16 \<times> bytes \<times> bytes"

definition next_code :: "i32 \<Rightarrow> bytes \<Rightarrow> i32" where
  "next_code code commandData = (if commandData = [] then code else roll code)"

fun client_stream :: "i32 \<Rightarrow> client_command list \<Rightarrow> bytes" where
  "client_stream code [] = []"
| "client_stream code ((i, data, padding) # cmds) =
     client_frame (next_code code data) i data padding @ client_stream (next_code code data) cmds"

fun well_formed :: "i32 \<Rightarrow> client_command list \<Rightarrow> bool" where
  "well_formed code [] \<longleftrightarrow> True"
| "well_formed code ((i, data, padding) # cmds) \<longleftrightarrow>
     i \<le> Command_Count \<and> length data + length padding \<le> MaxCommandDataSize
     \<and> length padding = (if data = [] then 0 else unat (roll code AND 7))
     \<and> well_formed (next_code code data) cmds"

fun deliver :: "'w handlers \<Rightarrow> client_id \<Rightarrow> i32 \<Rightarrow> client_command list
    \<Rightarrow> 'w command_server \<Rightarrow> 'w command_server" where
  "deliver hs c code [] s = s"
| "deliver hs c code ((i, data, padding) # cmds) s =
     deliver hs c (next_code code data) cmds (dispatch hs c i data (SetCode c (next_code code data) s))"

definition keeps_code :: "'w handlers \<Rightarrow> client_id \<Rightarrow> bool" where
  "keeps_code hs c \<longleftrightarrow> (\<forall>i handler data s. hs i = Some handler \<longrightarrow>
     code_of c (handler c data s) = code_of c s)"

lemma OnClientData_Took:
  "d \<noteq> [] \<Longrightarrow> read_command hs c (d @ rest) s = Took (length d) s' \<Longrightarrow>
     OnClientData hs c (d @ rest) s = advance (length d) (OnClientData hs c rest s')"
  by (subst OnClientData.simps) simp

text \<open>C1: The server delivers to the handlers exactly the commands and the data a client sent, in
  order and with the padding removed, and consumes every byte: its code rolls in step with the
  client's.\<close>

theorem OnClientData_delivers:
  assumes "keeps_code hs c" "well_formed (code_of c s) cmds"
  shows "OnClientData hs c (client_stream (code_of c s) cmds) s
    = (Inr (length (client_stream (code_of c s) cmds)), deliver hs c (code_of c s) cmds s)"
  using assms(2)
proof (induction cmds arbitrary: s)
  case Nil
  then show ?case by (subst OnClientData.simps) simp
next
  case (Cons cmd cmds)
  obtain i data padding where cmd: "cmd = (i, data, padding)" by (cases cmd)
  let ?code = "next_code (code_of c s) data"
  let ?frame = "client_frame ?code i data padding"
  let ?s = "dispatch hs c i data (SetCode c ?code s)"
  have read: "read_command hs c (?frame @ rest) s = Took (length ?frame) ?s" for rest
    using Cons.prems read_command_frame [of i ?code c s data padding hs rest]
      read_command_empty_frame [of i hs c ?code rest s]
    by (cases "data = []") (auto simp: cmd next_code_def)
  have code: "code_of c ?s = ?code"
    using assms(1) by (simp add: dispatch_def keeps_code_def split: option.splits)
  have "?frame \<noteq> []" by (simp add: client_frame_def bytes_of_u32_def)
  from OnClientData_Took [OF this read] Cons.IH [of ?s] Cons.prems code show ?case
    by (simp add: cmd)
qed

lemma OnClientData_delivers_witness:
  "let s = \<lparr>cs_clients = [], cs_world = ([], True)\<rparr>;
       d = client_stream 0 [(0x12, [], []), (7, [1, 2, 3], [0, 0, 0])]
   in OnClientData logging_handlers 5 d s
     = (Inr 14, \<lparr>cs_clients = [(5, XorControl)], cs_world = ([(0x12, []), (7, [1, 2, 3])], True)\<rparr>)"
proof -
  let ?s = "\<lparr>cs_clients = [], cs_world = ([], True)\<rparr> :: ((u16 \<times> bytes) list \<times> bool) command_server"
  have code: "code_of 5 ?s = 0" by (simp add: code_of_def)
  have k: "keeps_code logging_handlers 5"
    by (simp add: keeps_code_def logging_handlers_def code_of_def)
  have "well_formed (code_of 5 ?s) [(0x12, [], []), (7, [1, 2, 3], [0, 0, 0])]"
    unfolding code by code_simp
  from OnClientData_delivers [OF k this] show ?thesis
    unfolding code
    by (simp add: Let_def dispatch_def logging_handlers_def SetCode_def next_code_def roll_def
        client_frame_def umap_put_def)
qed

section \<open>Sending commands\<close>

text \<open>
  What \<open>SendCommand\<close> appends to the write buffer of a client: \<open>area\<close> is the memory
  \<open>writeBuffer.prepare(MaxCommandSize)\<close> returned, \<open>supplier\<close> writes the structure of the command.
  An exception, which leaves the buffer alone, makes \<open>WriteLoop\<close> end the client.
\<close>

definition SendCommand ::
  "u16 \<Rightarrow> (stream \<Rightarrow> exn + stream) \<Rightarrow> bytes \<Rightarrow> exn + bytes" where
  "SendCommand commandId supplier area =
     bnd (Seek 4 (stream_of area)) (\<lambda>sink.
     bnd (supplier sink) (\<lambda>sink.
     let commandSize = cursor sink
     in bnd (Seek 0 sink) (\<lambda>sink.
        let magic = \<lparr>magic_id = commandId, magic_length = of_nat commandSize\<rparr>
        in bnd (w32 (encode_message_magic magic) sink) (\<lambda>sink.
           Inr (take (unat (magic_length magic)) (storage sink))))))"

text \<open>A command whose structure writes the bytes \<open>bs\<close> is sent as its magic and these bytes if
  they fit in \<open>MaxCommandDataSize\<close>; otherwise nothing is sent. The receiver decodes the identifier
  and the size of the whole command from the magic.\<close>

theorem SendCommand_frame:
  assumes "writes supplier bs" "commandId \<le> Command_Count" "length area = MaxCommandSize"
  shows "if length bs \<le> MaxCommandDataSize
    then \<exists>m. SendCommand commandId supplier area = Inr (bytes_of_u32 m @ bs)
       \<and> decode_message_magic m = \<lparr>magic_id = commandId, magic_length = of_nat (4 + length bs)\<rparr>
    else SendCommand commandId supplier area = Inl OverflowError"
proof (cases "length bs \<le> MaxCommandDataSize")
  case True
  let ?m = "encode_message_magic \<lparr>magic_id = commandId, magic_length = of_nat (4 + length bs)\<rparr>"
  have small: "4 + length bs \<le> MaxCommandSize" using True by (simp add: MaxCommandSize_def)
  then have len: "unat (of_nat (4 + length bs) :: u16) = 4 + length bs"
    by (subst unat_of_nat) (simp add: MaxCommandSize_def MaxCommandDataSize_def del: of_nat_add)
  have "4 \<le> length area" using assms(3) by (simp add: MaxCommandSize_def)
  then have "supplier \<lparr>storage = area, cursor = 4\<rparr>
      = Inr \<lparr>storage = take 4 area @ bs @ drop (4 + length bs) area, cursor = 4 + length bs\<rparr>"
    using assms(1,3) small by (simp add: writes_def sink_write_def poke_eq)
  then have "SendCommand commandId supplier area = Inr (bytes_of_u32 ?m @ bs)"
    using assms(3) small len \<open>4 \<le> length area\<close>
    by (simp add: SendCommand_def Seek_def stream_of_def Let_def w32_def sink_write_def poke_eq)
  with True decode_small [OF assms(2) small] show ?thesis by auto
next
  case False
  then have "supplier \<lparr>storage = area, cursor = 4\<rparr> = Inl OverflowError"
    using assms(1,3) by (simp add: writes_def sink_write_def MaxCommandSize_def)
  with False assms(3) show ?thesis
    by (simp add: SendCommand_def Seek_def stream_of_def MaxCommandSize_def)
qed

lemma SendCommand_frame_witness:
  "\<exists>m. SendCommand 0x13 (sink_write [9]) (replicate MaxCommandSize 0) = Inr (bytes_of_u32 m @ [9])
     \<and> decode_message_magic m = \<lparr>magic_id = 0x13, magic_length = 5\<rparr>"
  using SendCommand_frame [of "sink_write [9]" "[9]" "0x13" "replicate MaxCommandSize 0"]
  by (simp add: writes_def Command_Count_def MaxCommandDataSize_def)

end
