(* ===== verification/Msg_Race.thy ===== *)
theory Msg_Race imports Messages begin

text \<open>
  \<open>libserver/network/command/proto/RaceMessageDefinitions.hpp\<close> and \<open>.cpp\<close>, with the relayed
  payloads of \<open>relay/RelayMessageDefinitions.hpp\<close>: the messages of the race server.
\<close>

record relay_Snapshot_Quarternion =
  relay_Snapshot_Quarternion_X :: "u32"
  relay_Snapshot_Quarternion_Y :: "u32"
  relay_Snapshot_Quarternion_Z :: "u32"
  relay_Snapshot_Quarternion_W :: "u32"

record relay_Snapshot =
  relay_Snapshot_racerOid :: "u16"
  relay_Snapshot_networkTickCounter :: "u32"
  relay_Snapshot_animationState :: "u8"
  relay_Snapshot_mountState :: "u8"
  relay_Snapshot_unidentifiedData :: "u8 list"
  relay_Snapshot_position :: "wire_vector3"
  relay_Snapshot_rotation :: "relay_Snapshot_Quarternion"
  relay_Snapshot_forwardSpeed :: "u32"
  relay_Snapshot_reverseSpeed :: "u32"
  relay_Snapshot_turningRate :: "u32"

record relay_SyncProgress =
  relay_SyncProgress_racerOid :: "u16"
  relay_SyncProgress_lapCount :: "u32"
  relay_SyncProgress_lapProgress :: "u32"

record relay_SlidingMotion =
  relay_SlidingMotion_racerOid :: "u16"
  relay_SlidingMotion_isSliding :: "bool"
  relay_SlidingMotion_slidingAngle :: "u32"

record relay_SpurLevel =
  relay_SpurLevel_racerOid :: "u16"
  relay_SpurLevel_successiveSpurCount :: "u8"

record relay_SyncGoalIn =
  relay_SyncGoalIn_racerOid :: "u16"
  relay_SyncGoalIn_raceTimeMs :: "u32"
  relay_SyncGoalIn_raceTrackProgress :: "u32"

record relay_NetSetLayerAnimation =
  relay_NetSetLayerAnimation_racerOid :: "u16"
  relay_NetSetLayerAnimation_layerAnimation :: "u16"

record relay_BroadcastCharacterUid =
  relay_BroadcastCharacterUid_selfCharacterUid :: "u32"

record relay_ResetPosOther =
  relay_ResetPosOther_affectedOid :: "u16"
  relay_ResetPosOther_right :: "wire_packed_vector3"
  relay_ResetPosOther_up :: "wire_packed_vector3"
  relay_ResetPosOther_forward :: "wire_packed_vector3"
  relay_ResetPosOther_position :: "wire_packed_vector3"

record relay_SetTargetState =
  relay_SetTargetState_targetLocked :: "bool"
  relay_SetTargetState_magicEffectId :: "u32"
  relay_SetTargetState_invokerRacerOid :: "u16"
  relay_SetTargetState_targetRacerOid :: "u16"

record relay_NetSetState_State =
  relay_NetSetState_State_val1 :: "u32"
  relay_NetSetState_State_val2 :: "u32"

record relay_NetSetState =
  relay_NetSetState_racerOid :: "u16"
  relay_NetSetState_state :: "relay_NetSetState_State"

datatype (plugins only:) Avatar = Avatar
  (Avatar_equipment: "wire_item list")
  (Avatar_character: "wire_character")
  (Avatar_mount: "wire_horse")
  (Avatar_unk0: "u32")

datatype (plugins only:) Racer_Anon_unk8 = Racer_Anon_unk8
  (Racer_Anon_unk8_unk0: "u8")
  (Racer_Anon_unk8_rent: "wire_rent")

datatype (plugins only:) Racer = Racer
  (Racer_isMaster: "bool")
  (Racer_member2: "u8")
  (Racer_level: "u32")
  (Racer_oid: "u32")
  (Racer_uid: "u32")
  (Racer_name: "bytes")
  (Racer_isReady: "bool")
  (Racer_teamColor: "u32")
  (Racer_isHidden: "bool")
  (Racer_isNPC: "bool")
  (Racer_avatar: "Avatar option")
  (Racer_npcTid: "u32 option")
  (Racer_unk8: "Racer_Anon_unk8")
  (Racer_pet: "wire_pet")
  (Racer_guild: "wire_guild")
  (Racer_unk9: "wire_league")
  (Racer_role: "u8")
  (Racer_unk11: "u8")
  (Racer_unk12: "u8")
  (Racer_gender: "u8")

datatype (plugins only:) RoomDescription = RoomDescription
  (RoomDescription_name: "bytes")
  (RoomDescription_maxPlayerCount: "u8")
  (RoomDescription_password: "bytes")
  (RoomDescription_gameModeMaps: "u8")
  (RoomDescription_gameMode: "u8")
  (RoomDescription_mapBlockId: "u16")
  (RoomDescription_teamMode: "u8")
  (RoomDescription_missionId: "u16")
  (RoomDescription_unk6: "u8")
  (RoomDescription_skillBracket: "u8")

datatype (plugins only:) AcCmdCREnterRoom = AcCmdCREnterRoom
  (AcCmdCREnterRoom_characterUid: "u32")
  (AcCmdCREnterRoom_oneTimePassword: "u32")
  (AcCmdCREnterRoom_roomUid: "u32")

definition WritePlayerRacer :: "icu \<Rightarrow> Avatar \<Rightarrow> stream \<Rightarrow> exn + stream" where
  "WritePlayerRacer cv v = seqw [
     w8 (of_nat (length (Avatar_equipment v))),
     seqw (map Item_Write (Avatar_equipment v)),
     Character_Write (Avatar_character v),
     Horse_Write cv (Avatar_mount v),
     w32 (Avatar_unk0 v)]"

definition WriteRacer :: "icu \<Rightarrow> Racer \<Rightarrow> stream \<Rightarrow> exn + stream" where
  "WriteRacer cv v = seqw [
     wbool (Racer_isMaster v),
     w8 (Racer_member2 v),
     w32 (Racer_level v),
     w32 (Racer_oid v),
     w32 (Racer_uid v),
     wstr cv (Racer_name v),
     wbool (Racer_isReady v),
     w32 (Racer_teamColor v),
     wbool (Racer_isHidden v),
     wbool (Racer_isNPC v),
     (if Racer_isNPC v
      then seqw [
            wopt (\<lambda>x. w32 x) (Racer_npcTid v)]
      else seqw [
            wopt (WritePlayerRacer cv) (Racer_avatar v)]),
     w8 (Racer_Anon_unk8_unk0 (Racer_unk8 v)),
     w32 (wre_mountUid (Racer_Anon_unk8_rent (Racer_unk8 v))),
     w32 (wre_val1 (Racer_Anon_unk8_rent (Racer_unk8 v))),
     w32 (wre_val2 (Racer_Anon_unk8_rent (Racer_unk8 v))),
     Pet_Write cv (Racer_pet v),
     w32 (wgu_uid (Racer_guild v)),
     w8 (wgu_val1 (Racer_guild v)),
     w32 (wgu_val2 (Racer_guild v)),
     wstr cv (wgu_name (Racer_guild v)),
     w8 (wgu_guildRole (Racer_guild v)),
     w32 (wgu_val5 (Racer_guild v)),
     w8 (wgu_val6 (Racer_guild v)),
     League_Write (Racer_unk9 v),
     w8 (Racer_role v),
     w8 (Racer_unk11 v),
     w8 (Racer_unk12 v),
     w8 (Racer_gender v)]"

definition WriteRoomDescription :: "icu \<Rightarrow> RoomDescription \<Rightarrow> stream \<Rightarrow> exn + stream" where
  "WriteRoomDescription cv v = seqw [
     wstr cv (RoomDescription_name v),
     w8 (RoomDescription_maxPlayerCount v),
     wstr cv (RoomDescription_password v),
     w8 (RoomDescription_gameModeMaps v),
     w8 (RoomDescription_teamMode v),
     w16 (RoomDescription_mapBlockId v),
     w8 (RoomDescription_gameMode v),
     w16 (RoomDescription_missionId v),
     w8 (RoomDescription_unk6 v),
     w8 (RoomDescription_skillBracket v)]"

definition AcCmdCREnterRoom_Write :: "AcCmdCREnterRoom \<Rightarrow> stream \<Rightarrow> exn + stream" where
  "AcCmdCREnterRoom_Write _ = throws (LogicError ''Not implemented.'')"

definition AcCmdCREnterRoom_Read :: "stream \<Rightarrow> exn + (AcCmdCREnterRoom \<times> stream)" where
  "AcCmdCREnterRoom_Read =
     rd r32 (\<lambda>characterUid'.
     rd r32 (\<lambda>oneTimePassword'.
     rd r32 (\<lambda>roomUid'.
     ret (AcCmdCREnterRoom characterUid' oneTimePassword' roomUid'))))"

datatype (plugins only:) AcCmdCREnterRoomOK_Anon_unk9 = AcCmdCREnterRoomOK_Anon_unk9
  (AcCmdCREnterRoomOK_Anon_unk9_unk0: "u32")
  (AcCmdCREnterRoomOK_Anon_unk9_unk1: "u16")
  (AcCmdCREnterRoomOK_Anon_unk9_unk2: "u32 list")

datatype (plugins only:) AcCmdCREnterRoomOK = AcCmdCREnterRoomOK
  (AcCmdCREnterRoomOK_racers: "Racer list")
  (AcCmdCREnterRoomOK_isRoomWaiting: "bool")
  (AcCmdCREnterRoomOK_uid: "u32")
  (AcCmdCREnterRoomOK_roomDescription: "RoomDescription")
  (AcCmdCREnterRoomOK_unk2: "u32")
  (AcCmdCREnterRoomOK_unk3: "u16")
  (AcCmdCREnterRoomOK_unk4: "u32")
  (AcCmdCREnterRoomOK_unk5: "u32")
  (AcCmdCREnterRoomOK_elapsedTime: "u32")
  (AcCmdCREnterRoomOK_unk7: "u32")
  (AcCmdCREnterRoomOK_unk8: "u16")
  (AcCmdCREnterRoomOK_unk9: "AcCmdCREnterRoomOK_Anon_unk9")
  (AcCmdCREnterRoomOK_unk10: "u32")
  (AcCmdCREnterRoomOK_unk11: "u32")
  (AcCmdCREnterRoomOK_unk12: "u32")
  (AcCmdCREnterRoomOK_scrambleValue: "u32")

definition AcCmdCREnterRoomOK_Write :: "icu \<Rightarrow> AcCmdCREnterRoomOK \<Rightarrow> stream \<Rightarrow> exn + stream" where
  "AcCmdCREnterRoomOK_Write cv v = seqw [
     throw_if (length (AcCmdCREnterRoomOK_racers v) > 10) (LogicError ''Racers size is greater than 10.''),
     w32 (of_nat (length (AcCmdCREnterRoomOK_racers v))),
     seqw (map (\<lambda>racer. WriteRacer cv racer) (AcCmdCREnterRoomOK_racers v)),
     wbool (AcCmdCREnterRoomOK_isRoomWaiting v),
     w32 (AcCmdCREnterRoomOK_uid v),
     WriteRoomDescription cv (AcCmdCREnterRoomOK_roomDescription v),
     w32 (AcCmdCREnterRoomOK_unk2 v),
     w16 (AcCmdCREnterRoomOK_unk3 v),
     w32 (AcCmdCREnterRoomOK_unk4 v),
     w32 (AcCmdCREnterRoomOK_unk5 v),
     w32 (AcCmdCREnterRoomOK_elapsedTime v),
     w32 (AcCmdCREnterRoomOK_unk7 v),
     w16 (AcCmdCREnterRoomOK_unk8 v),
     w32 (AcCmdCREnterRoomOK_Anon_unk9_unk0 (AcCmdCREnterRoomOK_unk9 v)),
     w16 (AcCmdCREnterRoomOK_Anon_unk9_unk1 (AcCmdCREnterRoomOK_unk9 v)),
     w8 (of_nat (length (AcCmdCREnterRoomOK_Anon_unk9_unk2 (AcCmdCREnterRoomOK_unk9 v)))),
     seqw (map w32 (AcCmdCREnterRoomOK_Anon_unk9_unk2 (AcCmdCREnterRoomOK_unk9 v))),
     w32 (AcCmdCREnterRoomOK_unk10 v),
     w32 (AcCmdCREnterRoomOK_unk11 v),
     w32 (AcCmdCREnterRoomOK_unk12 v),
     w32 (AcCmdCREnterRoomOK_scrambleValue v)]"

definition AcCmdCREnterRoomOK_Read :: "stream \<Rightarrow> exn + (AcCmdCREnterRoomOK \<times> stream)" where
  "AcCmdCREnterRoomOK_Read = throws (LogicError ''Not implemented.'')"

type_synonym AcCmdCREnterRoomCancel = unit

definition AcCmdCREnterRoomCancel_Write :: "AcCmdCREnterRoomCancel \<Rightarrow> stream \<Rightarrow> exn + stream" where
  "AcCmdCREnterRoomCancel_Write _ = seqw []"

definition AcCmdCREnterRoomCancel_Read :: "stream \<Rightarrow> exn + (AcCmdCREnterRoomCancel \<times> stream)" where
  "AcCmdCREnterRoomCancel_Read = ret ()"

datatype (plugins only:) AcCmdCREnterRoomNotify = AcCmdCREnterRoomNotify
  (AcCmdCREnterRoomNotify_racer: "Racer")
  (AcCmdCREnterRoomNotify_averageTimeRecord: "u32")

definition AcCmdCREnterRoomNotify_Write :: "icu \<Rightarrow> AcCmdCREnterRoomNotify \<Rightarrow> stream \<Rightarrow> exn + stream" where
  "AcCmdCREnterRoomNotify_Write cv v = seqw [
     WriteRacer cv (AcCmdCREnterRoomNotify_racer v),
     w32 (AcCmdCREnterRoomNotify_averageTimeRecord v)]"

definition AcCmdCREnterRoomNotify_Read :: "stream \<Rightarrow> exn + (AcCmdCREnterRoomNotify \<times> stream)" where
  "AcCmdCREnterRoomNotify_Read = throws (LogicError ''Not implemented.'')"

record AcCmdCRChangeRoomOptions =
  AcCmdCRChangeRoomOptions_optionsBitfield :: "u16"
  AcCmdCRChangeRoomOptions_name :: "bytes"
  AcCmdCRChangeRoomOptions_playerCount :: "u8"
  AcCmdCRChangeRoomOptions_password :: "bytes"
  AcCmdCRChangeRoomOptions_gameMode :: "u8"
  AcCmdCRChangeRoomOptions_mapBlockId :: "u16"
  AcCmdCRChangeRoomOptions_npcDifficulty :: "u8"

definition AcCmdCRChangeRoomOptions_Write :: "AcCmdCRChangeRoomOptions \<Rightarrow> stream \<Rightarrow> exn + stream" where
  "AcCmdCRChangeRoomOptions_Write _ = throws (LogicError ''Not implemented.'')"

definition AcCmdCRChangeRoomOptions_default :: "AcCmdCRChangeRoomOptions" where
  "AcCmdCRChangeRoomOptions_default = \<lparr>AcCmdCRChangeRoomOptions_optionsBitfield = 0,
     AcCmdCRChangeRoomOptions_name = [],
     AcCmdCRChangeRoomOptions_playerCount = 0,
     AcCmdCRChangeRoomOptions_password = [],
     AcCmdCRChangeRoomOptions_gameMode = 0,
     AcCmdCRChangeRoomOptions_mapBlockId = 0,
     AcCmdCRChangeRoomOptions_npcDifficulty = 0\<rparr>"

definition AcCmdCRChangeRoomOptions_Read :: "icu \<Rightarrow> stream \<Rightarrow> exn + (AcCmdCRChangeRoomOptions \<times> stream)" where
  "AcCmdCRChangeRoomOptions_Read cv = build AcCmdCRChangeRoomOptions_default [
     fld r16 AcCmdCRChangeRoomOptions_optionsBitfield_update,
     (\<lambda>c. if AcCmdCRChangeRoomOptions_optionsBitfield c AND 1 \<noteq> 0
       then seqr [fld (rstr cv) AcCmdCRChangeRoomOptions_name_update] c
       else seqr [] c),
     (\<lambda>c. if AcCmdCRChangeRoomOptions_optionsBitfield c AND 2 \<noteq> 0
       then seqr [fld r8 AcCmdCRChangeRoomOptions_playerCount_update] c
       else seqr [] c),
     (\<lambda>c. if AcCmdCRChangeRoomOptions_optionsBitfield c AND 4 \<noteq> 0
       then seqr [fld (rstr cv) AcCmdCRChangeRoomOptions_password_update] c
       else seqr [] c),
     (\<lambda>c. if AcCmdCRChangeRoomOptions_optionsBitfield c AND 8 \<noteq> 0
       then seqr [fld r8 AcCmdCRChangeRoomOptions_gameMode_update] c
       else seqr [] c),
     (\<lambda>c. if AcCmdCRChangeRoomOptions_optionsBitfield c AND 16 \<noteq> 0
       then seqr [fld r16 AcCmdCRChangeRoomOptions_mapBlockId_update] c
       else seqr [] c),
     (\<lambda>c. if AcCmdCRChangeRoomOptions_optionsBitfield c AND 32 \<noteq> 0
       then seqr [fld r8 AcCmdCRChangeRoomOptions_npcDifficulty_update] c
       else seqr [] c)]"

datatype (plugins only:) AcCmdCRChangeRoomOptionsNotify = AcCmdCRChangeRoomOptionsNotify
  (AcCmdCRChangeRoomOptionsNotify_optionsBitfield: "u16")
  (AcCmdCRChangeRoomOptionsNotify_name: "bytes")
  (AcCmdCRChangeRoomOptionsNotify_playerCount: "u8")
  (AcCmdCRChangeRoomOptionsNotify_password: "bytes")
  (AcCmdCRChangeRoomOptionsNotify_gameMode: "u8")
  (AcCmdCRChangeRoomOptionsNotify_mapBlockId: "u16")
  (AcCmdCRChangeRoomOptionsNotify_npcDifficulty: "u8")

definition AcCmdCRChangeRoomOptionsNotify_Write :: "icu \<Rightarrow> AcCmdCRChangeRoomOptionsNotify \<Rightarrow> stream \<Rightarrow> exn + stream" where
  "AcCmdCRChangeRoomOptionsNotify_Write cv v = seqw [
     w16 (AcCmdCRChangeRoomOptionsNotify_optionsBitfield v),
     (if AcCmdCRChangeRoomOptionsNotify_optionsBitfield v AND 1 \<noteq> 0
      then seqw [
            wstr cv (AcCmdCRChangeRoomOptionsNotify_name v)]
      else seqw []),
     (if AcCmdCRChangeRoomOptionsNotify_optionsBitfield v AND 2 \<noteq> 0
      then seqw [
            w8 (AcCmdCRChangeRoomOptionsNotify_playerCount v)]
      else seqw []),
     (if AcCmdCRChangeRoomOptionsNotify_optionsBitfield v AND 4 \<noteq> 0
      then seqw [
            wstr cv (AcCmdCRChangeRoomOptionsNotify_password v)]
      else seqw []),
     (if AcCmdCRChangeRoomOptionsNotify_optionsBitfield v AND 8 \<noteq> 0
      then seqw [
            w8 (AcCmdCRChangeRoomOptionsNotify_gameMode v)]
      else seqw []),
     (if AcCmdCRChangeRoomOptionsNotify_optionsBitfield v AND 16 \<noteq> 0
      then seqw [
            w16 (AcCmdCRChangeRoomOptionsNotify_mapBlockId v)]
      else seqw []),
     (if AcCmdCRChangeRoomOptionsNotify_optionsBitfield v AND 32 \<noteq> 0
      then seqw [
            w8 (AcCmdCRChangeRoomOptionsNotify_npcDifficulty v)]
      else seqw [])]"

definition AcCmdCRChangeRoomOptionsNotify_Read :: "stream \<Rightarrow> exn + (AcCmdCRChangeRoomOptionsNotify \<times> stream)" where
  "AcCmdCRChangeRoomOptionsNotify_Read = throws (LogicError ''Not implemented.'')"

datatype (plugins only:) AcCmdCRChangeTeam = AcCmdCRChangeTeam
  (AcCmdCRChangeTeam_characterOid: "u32")
  (AcCmdCRChangeTeam_teamColor: "u32")

definition AcCmdCRChangeTeam_Write :: "AcCmdCRChangeTeam \<Rightarrow> stream \<Rightarrow> exn + stream" where
  "AcCmdCRChangeTeam_Write _ = throws (LogicError ''Not implemented.'')"

definition AcCmdCRChangeTeam_Read :: "stream \<Rightarrow> exn + (AcCmdCRChangeTeam \<times> stream)" where
  "AcCmdCRChangeTeam_Read =
     rd r32 (\<lambda>characterOid'.
     rd r32 (\<lambda>teamColor'.
     ret (AcCmdCRChangeTeam characterOid' teamColor')))"

datatype (plugins only:) AcCmdCRChangeTeamOK = AcCmdCRChangeTeamOK
  (AcCmdCRChangeTeamOK_characterOid: "u32")
  (AcCmdCRChangeTeamOK_teamColor: "u32")

definition AcCmdCRChangeTeamOK_Write :: "AcCmdCRChangeTeamOK \<Rightarrow> stream \<Rightarrow> exn + stream" where
  "AcCmdCRChangeTeamOK_Write v = seqw [
     w32 (AcCmdCRChangeTeamOK_characterOid v),
     w32 (AcCmdCRChangeTeamOK_teamColor v)]"

definition AcCmdCRChangeTeamOK_Read :: "stream \<Rightarrow> exn + (AcCmdCRChangeTeamOK \<times> stream)" where
  "AcCmdCRChangeTeamOK_Read = throws (LogicError ''Not implemented.'')"

datatype (plugins only:) AcCmdCRChangeTeamNotify = AcCmdCRChangeTeamNotify
  (AcCmdCRChangeTeamNotify_characterOid: "u32")
  (AcCmdCRChangeTeamNotify_teamColor: "u32")

definition AcCmdCRChangeTeamNotify_Write :: "AcCmdCRChangeTeamNotify \<Rightarrow> stream \<Rightarrow> exn + stream" where
  "AcCmdCRChangeTeamNotify_Write v = seqw [
     w32 (AcCmdCRChangeTeamNotify_characterOid v),
     w32 (AcCmdCRChangeTeamNotify_teamColor v)]"

definition AcCmdCRChangeTeamNotify_Read :: "stream \<Rightarrow> exn + (AcCmdCRChangeTeamNotify \<times> stream)" where
  "AcCmdCRChangeTeamNotify_Read = throws (LogicError ''Not implemented.'')"

type_synonym AcCmdCRLeaveRoom = unit

definition AcCmdCRLeaveRoom_Write :: "AcCmdCRLeaveRoom \<Rightarrow> stream \<Rightarrow> exn + stream" where
  "AcCmdCRLeaveRoom_Write _ = throws (LogicError ''Not implemented.'')"

definition AcCmdCRLeaveRoom_Read :: "stream \<Rightarrow> exn + (AcCmdCRLeaveRoom \<times> stream)" where
  "AcCmdCRLeaveRoom_Read = ret ()"

type_synonym AcCmdCRLeaveRoomOK = unit

definition AcCmdCRLeaveRoomOK_Write :: "AcCmdCRLeaveRoomOK \<Rightarrow> stream \<Rightarrow> exn + stream" where
  "AcCmdCRLeaveRoomOK_Write _ = seqw []"

definition AcCmdCRLeaveRoomOK_Read :: "stream \<Rightarrow> exn + (AcCmdCRLeaveRoomOK \<times> stream)" where
  "AcCmdCRLeaveRoomOK_Read = throws (LogicError ''Not implemented.'')"

datatype (plugins only:) AcCmdCRLeaveRoomNotify = AcCmdCRLeaveRoomNotify
  (AcCmdCRLeaveRoomNotify_characterId: "u32")
  (AcCmdCRLeaveRoomNotify_unk0: "u32")

definition AcCmdCRLeaveRoomNotify_Write :: "AcCmdCRLeaveRoomNotify \<Rightarrow> stream \<Rightarrow> exn + stream" where
  "AcCmdCRLeaveRoomNotify_Write v = seqw [
     w32 (AcCmdCRLeaveRoomNotify_characterId v),
     w32 (AcCmdCRLeaveRoomNotify_unk0 v)]"

definition AcCmdCRLeaveRoomNotify_Read :: "stream \<Rightarrow> exn + (AcCmdCRLeaveRoomNotify \<times> stream)" where
  "AcCmdCRLeaveRoomNotify_Read = throws (RuntimeError ''Not implemented.'')"

record AcCmdCRStartRace =
  AcCmdCRStartRace_unk0 :: "u16 list"

definition AcCmdCRStartRace_Write :: "AcCmdCRStartRace \<Rightarrow> stream \<Rightarrow> exn + stream" where
  "AcCmdCRStartRace_Write _ = throws (LogicError ''Not implemented.'')"

definition AcCmdCRStartRace_default :: "AcCmdCRStartRace" where
  "AcCmdCRStartRace_default = \<lparr>AcCmdCRStartRace_unk0 = []\<rparr>"

definition AcCmdCRStartRace_Read :: "stream \<Rightarrow> exn + (AcCmdCRStartRace \<times> stream)" where
  "AcCmdCRStartRace_Read = build AcCmdCRStartRace_default [
     fld (rlist_by r8 r16) AcCmdCRStartRace_unk0_update]"

datatype (plugins only:) AcCmdCRStartRaceNotify_Player = AcCmdCRStartRaceNotify_Player
  (AcCmdCRStartRaceNotify_Player_oid: "u16")
  (AcCmdCRStartRaceNotify_Player_name: "bytes")
  (AcCmdCRStartRaceNotify_Player_unk2: "u8")
  (AcCmdCRStartRaceNotify_Player_unk3: "u8")
  (AcCmdCRStartRaceNotify_Player_p2dId: "u16")
  (AcCmdCRStartRaceNotify_Player_teamColor: "u32")
  (AcCmdCRStartRaceNotify_Player_unk6: "u16")
  (AcCmdCRStartRaceNotify_Player_unk7: "u32")

record AcCmdCRStartRaceNotify_RaceRecord_LapRecord =
  AcCmdCRStartRaceNotify_RaceRecord_LapRecord_sector1Ms :: "u32"
  AcCmdCRStartRaceNotify_RaceRecord_LapRecord_sector2Ms :: "u32"
  AcCmdCRStartRaceNotify_RaceRecord_LapRecord_sector3Ms :: "u32"

datatype (plugins only:) AcCmdCRStartRaceNotify_RaceRecord_TrainingRecord = AcCmdCRStartRaceNotify_RaceRecord_TrainingRecord
  (AcCmdCRStartRaceNotify_RaceRecord_TrainingRecord_totalNumberOfSpurs: "u16")
  (AcCmdCRStartRaceNotify_RaceRecord_TrainingRecord_maximumContinuousSpurs: "u16")
  (AcCmdCRStartRaceNotify_RaceRecord_TrainingRecord_numberOfPerfectSpurs: "u16")
  (AcCmdCRStartRaceNotify_RaceRecord_TrainingRecord_perfectJumpMaximumCombo: "u16")
  (AcCmdCRStartRaceNotify_RaceRecord_TrainingRecord_numberOfJumpObstacleCollisions: "u16")
  (AcCmdCRStartRaceNotify_RaceRecord_TrainingRecord_clearedDifficulty: "u8")

datatype (plugins only:) AcCmdCRStartRaceNotify_RaceRecord = AcCmdCRStartRaceNotify_RaceRecord
  (AcCmdCRStartRaceNotify_RaceRecord_mapBlockId: "u16")
  (AcCmdCRStartRaceNotify_RaceRecord_gameMode: "u8")
  (AcCmdCRStartRaceNotify_RaceRecord_teamMode: "u8")
  (AcCmdCRStartRaceNotify_RaceRecord_finalRecordMs: "u32")
  (AcCmdCRStartRaceNotify_RaceRecord_lapRecords: "AcCmdCRStartRaceNotify_RaceRecord_LapRecord list")
  (AcCmdCRStartRaceNotify_RaceRecord_trainingRecord: "AcCmdCRStartRaceNotify_RaceRecord_TrainingRecord")
  (AcCmdCRStartRaceNotify_RaceRecord_member13: "u32")

definition AcCmdCRStartRaceNotify_RaceRecord_Write :: "AcCmdCRStartRaceNotify_RaceRecord \<Rightarrow> stream \<Rightarrow> exn + stream" where
  "AcCmdCRStartRaceNotify_RaceRecord_Write v = seqw [
     w16 (AcCmdCRStartRaceNotify_RaceRecord_mapBlockId v),
     w8 (AcCmdCRStartRaceNotify_RaceRecord_gameMode v),
     w8 (AcCmdCRStartRaceNotify_RaceRecord_teamMode v),
     w32 (AcCmdCRStartRaceNotify_RaceRecord_finalRecordMs v),
     w8 (of_nat (length (AcCmdCRStartRaceNotify_RaceRecord_lapRecords v) * 3)),
     seqw (map (\<lambda>lapRecord. seqw [
         w32 (AcCmdCRStartRaceNotify_RaceRecord_LapRecord_sector1Ms lapRecord),
         w32 (AcCmdCRStartRaceNotify_RaceRecord_LapRecord_sector2Ms lapRecord),
         w32 (AcCmdCRStartRaceNotify_RaceRecord_LapRecord_sector3Ms lapRecord)]) (AcCmdCRStartRaceNotify_RaceRecord_lapRecords v)),
     (if AcCmdCRStartRaceNotify_RaceRecord_teamMode v = 3
      then seqw [
            w16 (AcCmdCRStartRaceNotify_RaceRecord_TrainingRecord_totalNumberOfSpurs (AcCmdCRStartRaceNotify_RaceRecord_trainingRecord v)),
            w16 (AcCmdCRStartRaceNotify_RaceRecord_TrainingRecord_maximumContinuousSpurs (AcCmdCRStartRaceNotify_RaceRecord_trainingRecord v)),
            w16 (AcCmdCRStartRaceNotify_RaceRecord_TrainingRecord_numberOfPerfectSpurs (AcCmdCRStartRaceNotify_RaceRecord_trainingRecord v)),
            w16 (AcCmdCRStartRaceNotify_RaceRecord_TrainingRecord_perfectJumpMaximumCombo (AcCmdCRStartRaceNotify_RaceRecord_trainingRecord v)),
            w16 (AcCmdCRStartRaceNotify_RaceRecord_TrainingRecord_numberOfJumpObstacleCollisions (AcCmdCRStartRaceNotify_RaceRecord_trainingRecord v)),
            w8 (AcCmdCRStartRaceNotify_RaceRecord_TrainingRecord_clearedDifficulty (AcCmdCRStartRaceNotify_RaceRecord_trainingRecord v))]
      else seqw []),
     w32 (AcCmdCRStartRaceNotify_RaceRecord_member13 v)]"

definition AcCmdCRStartRaceNotify_RaceRecord_Read :: "stream \<Rightarrow> exn + (AcCmdCRStartRaceNotify_RaceRecord \<times> stream)" where
  "AcCmdCRStartRaceNotify_RaceRecord_Read = throws (RuntimeError ''Not implemented.'')"

datatype (plugins only:) AcCmdCRStartRaceNotify_Struct2 = AcCmdCRStartRaceNotify_Struct2
  (AcCmdCRStartRaceNotify_Struct2_unk0: "u32")
  (AcCmdCRStartRaceNotify_Struct2_unk1: "u32")
  (AcCmdCRStartRaceNotify_Struct2_unk2: "u32")
  (AcCmdCRStartRaceNotify_Struct2_unk3: "u32")

definition AcCmdCRStartRaceNotify_Struct2_Write :: "AcCmdCRStartRaceNotify_Struct2 \<Rightarrow> stream \<Rightarrow> exn + stream" where
  "AcCmdCRStartRaceNotify_Struct2_Write v = seqw [
     w32 (AcCmdCRStartRaceNotify_Struct2_unk0 v),
     w32 (AcCmdCRStartRaceNotify_Struct2_unk1 v),
     w32 (AcCmdCRStartRaceNotify_Struct2_unk2 v),
     w32 (AcCmdCRStartRaceNotify_Struct2_unk3 v)]"

definition AcCmdCRStartRaceNotify_Struct2_Read :: "stream \<Rightarrow> exn + (AcCmdCRStartRaceNotify_Struct2 \<times> stream)" where
  "AcCmdCRStartRaceNotify_Struct2_Read = throws (RuntimeError ''Not implemented.'')"

datatype (plugins only:) AcCmdCRStartRaceNotify_ActiveSkillSet = AcCmdCRStartRaceNotify_ActiveSkillSet
  (AcCmdCRStartRaceNotify_ActiveSkillSet_setId: "u8")
  (AcCmdCRStartRaceNotify_ActiveSkillSet_unk1: "u32")
  (AcCmdCRStartRaceNotify_ActiveSkillSet_skills: "u32 list")

definition AcCmdCRStartRaceNotify_ActiveSkillSet_Write :: "AcCmdCRStartRaceNotify_ActiveSkillSet \<Rightarrow> stream \<Rightarrow> exn + stream" where
  "AcCmdCRStartRaceNotify_ActiveSkillSet_Write v = seqw [
     w8 (AcCmdCRStartRaceNotify_ActiveSkillSet_setId v),
     w32 (AcCmdCRStartRaceNotify_ActiveSkillSet_unk1 v),
     w8 (of_nat (length (AcCmdCRStartRaceNotify_ActiveSkillSet_skills v))),
     seqw (map w32 (AcCmdCRStartRaceNotify_ActiveSkillSet_skills v))]"

definition AcCmdCRStartRaceNotify_ActiveSkillSet_Read :: "stream \<Rightarrow> exn + (AcCmdCRStartRaceNotify_ActiveSkillSet \<times> stream)" where
  "AcCmdCRStartRaceNotify_ActiveSkillSet_Read = throws (RuntimeError ''Not implemented.'')"

datatype (plugins only:) AcCmdCRStartRaceNotify_Unk18Element = AcCmdCRStartRaceNotify_Unk18Element
  (AcCmdCRStartRaceNotify_Unk18Element_unk0: "u16")
  (AcCmdCRStartRaceNotify_Unk18Element_unk1: "u32 list")

datatype (plugins only:) AcCmdCRStartRaceNotify = AcCmdCRStartRaceNotify
  (AcCmdCRStartRaceNotify_raceGameMode: "u8")
  (AcCmdCRStartRaceNotify_raceTeamMode: "u8")
  (AcCmdCRStartRaceNotify_hostOid: "u16")
  (AcCmdCRStartRaceNotify_member4: "u32")
  (AcCmdCRStartRaceNotify_raceMapBlockId: "u16")
  (AcCmdCRStartRaceNotify_racers: "AcCmdCRStartRaceNotify_Player list")
  (AcCmdCRStartRaceNotify_p2pRelayAddress: "u32")
  (AcCmdCRStartRaceNotify_p2pRelayPort: "u16")
  (AcCmdCRStartRaceNotify_unk6: "u8")
  (AcCmdCRStartRaceNotify_raceRecord: "AcCmdCRStartRaceNotify_RaceRecord")
  (AcCmdCRStartRaceNotify_unk10: "AcCmdCRStartRaceNotify_Struct2")
  (AcCmdCRStartRaceNotify_raceMissionId: "u16")
  (AcCmdCRStartRaceNotify_unk12: "u8")
  (AcCmdCRStartRaceNotify_racerActiveSkillSet: "AcCmdCRStartRaceNotify_ActiveSkillSet")
  (AcCmdCRStartRaceNotify_isHorseInjuryEnabled: "bool")
  (AcCmdCRStartRaceNotify_carnivalType: "u32")
  (AcCmdCRStartRaceNotify_weatherType: "u32")
  (AcCmdCRStartRaceNotify_unk17: "u8")
  (AcCmdCRStartRaceNotify_unk18: "AcCmdCRStartRaceNotify_Unk18Element list")

definition AcCmdCRStartRaceNotify_Write :: "icu \<Rightarrow> AcCmdCRStartRaceNotify \<Rightarrow> stream \<Rightarrow> exn + stream" where
  "AcCmdCRStartRaceNotify_Write cv v = seqw [
     w8 (AcCmdCRStartRaceNotify_raceGameMode v),
     w8 (AcCmdCRStartRaceNotify_raceTeamMode v),
     w16 (AcCmdCRStartRaceNotify_hostOid v),
     w32 (AcCmdCRStartRaceNotify_member4 v),
     w16 (AcCmdCRStartRaceNotify_raceMapBlockId v),
     w8 (of_nat (length (AcCmdCRStartRaceNotify_racers v))),
     seqw (map (\<lambda>element. seqw [
         w16 (AcCmdCRStartRaceNotify_Player_oid element),
         wstr cv (AcCmdCRStartRaceNotify_Player_name element),
         w8 (AcCmdCRStartRaceNotify_Player_unk2 element),
         w8 (AcCmdCRStartRaceNotify_Player_unk3 element),
         w16 (AcCmdCRStartRaceNotify_Player_p2dId element),
         w32 (AcCmdCRStartRaceNotify_Player_teamColor element),
         w16 (AcCmdCRStartRaceNotify_Player_unk6 element),
         w32 (AcCmdCRStartRaceNotify_Player_unk7 element)]) (AcCmdCRStartRaceNotify_racers v)),
     w32 (htonl (AcCmdCRStartRaceNotify_p2pRelayAddress v)),
     w16 (AcCmdCRStartRaceNotify_p2pRelayPort v),
     w8 (AcCmdCRStartRaceNotify_unk6 v),
     AcCmdCRStartRaceNotify_RaceRecord_Write (AcCmdCRStartRaceNotify_raceRecord v),
     AcCmdCRStartRaceNotify_Struct2_Write (AcCmdCRStartRaceNotify_unk10 v),
     w16 (AcCmdCRStartRaceNotify_raceMissionId v),
     w8 (AcCmdCRStartRaceNotify_unk12 v),
     AcCmdCRStartRaceNotify_ActiveSkillSet_Write (AcCmdCRStartRaceNotify_racerActiveSkillSet v),
     wbool (AcCmdCRStartRaceNotify_isHorseInjuryEnabled v),
     w32 (AcCmdCRStartRaceNotify_carnivalType v),
     w32 (AcCmdCRStartRaceNotify_weatherType v),
     w8 (AcCmdCRStartRaceNotify_unk17 v),
     w8 (of_nat (length (AcCmdCRStartRaceNotify_unk18 v))),
     seqw (map (\<lambda>element. seqw [
         w16 (AcCmdCRStartRaceNotify_Unk18Element_unk0 element),
         w8 (of_nat (length (AcCmdCRStartRaceNotify_Unk18Element_unk1 element))),
         seqw (map w32 (AcCmdCRStartRaceNotify_Unk18Element_unk1 element))]) (AcCmdCRStartRaceNotify_unk18 v))]"

definition AcCmdCRStartRaceNotify_Read :: "stream \<Rightarrow> exn + (AcCmdCRStartRaceNotify \<times> stream)" where
  "AcCmdCRStartRaceNotify_Read = throws (LogicError ''Not implemented.'')"

datatype (plugins only:) AcCmdCRStartRaceCancel = AcCmdCRStartRaceCancel
  (AcCmdCRStartRaceCancel_reason: "u8")

definition AcCmdCRStartRaceCancel_Write :: "AcCmdCRStartRaceCancel \<Rightarrow> stream \<Rightarrow> exn + stream" where
  "AcCmdCRStartRaceCancel_Write v = seqw [
     w8 (AcCmdCRStartRaceCancel_reason v)]"

definition AcCmdCRStartRaceCancel_Read :: "stream \<Rightarrow> exn + (AcCmdCRStartRaceCancel \<times> stream)" where
  "AcCmdCRStartRaceCancel_Read = throws (LogicError ''Not implemented.'')"

datatype (plugins only:) AcCmdUserRaceTimer = AcCmdUserRaceTimer
  (AcCmdUserRaceTimer_clientClock: "u64")

definition AcCmdUserRaceTimer_Write :: "AcCmdUserRaceTimer \<Rightarrow> stream \<Rightarrow> exn + stream" where
  "AcCmdUserRaceTimer_Write _ = throws (LogicError ''Not implemented.'')"

definition AcCmdUserRaceTimer_Read :: "stream \<Rightarrow> exn + (AcCmdUserRaceTimer \<times> stream)" where
  "AcCmdUserRaceTimer_Read =
     rd r64 (\<lambda>clientClock'.
     ret (AcCmdUserRaceTimer clientClock'))"

datatype (plugins only:) AcCmdUserRaceTimerOK = AcCmdUserRaceTimerOK
  (AcCmdUserRaceTimerOK_clientRaceClock: "u64")
  (AcCmdUserRaceTimerOK_serverRaceClock: "u64")

definition AcCmdUserRaceTimerOK_Write :: "AcCmdUserRaceTimerOK \<Rightarrow> stream \<Rightarrow> exn + stream" where
  "AcCmdUserRaceTimerOK_Write v = seqw [
     w64 (AcCmdUserRaceTimerOK_clientRaceClock v),
     w64 (AcCmdUserRaceTimerOK_serverRaceClock v)]"

definition AcCmdUserRaceTimerOK_Read :: "stream \<Rightarrow> exn + (AcCmdUserRaceTimerOK \<times> stream)" where
  "AcCmdUserRaceTimerOK_Read = throws (LogicError ''Not implemented.'')"

type_synonym AcCmdCRLoadingComplete = unit

definition AcCmdCRLoadingComplete_Write :: "AcCmdCRLoadingComplete \<Rightarrow> stream \<Rightarrow> exn + stream" where
  "AcCmdCRLoadingComplete_Write _ = throws (LogicError ''Not implemented.'')"

definition AcCmdCRLoadingComplete_Read :: "stream \<Rightarrow> exn + (AcCmdCRLoadingComplete \<times> stream)" where
  "AcCmdCRLoadingComplete_Read = ret ()"

datatype (plugins only:) AcCmdCRLoadingCompleteNotify = AcCmdCRLoadingCompleteNotify
  (AcCmdCRLoadingCompleteNotify_oid: "u16")

definition AcCmdCRLoadingCompleteNotify_Write :: "AcCmdCRLoadingCompleteNotify \<Rightarrow> stream \<Rightarrow> exn + stream" where
  "AcCmdCRLoadingCompleteNotify_Write v = seqw [
     w16 (AcCmdCRLoadingCompleteNotify_oid v)]"

definition AcCmdCRLoadingCompleteNotify_Read :: "stream \<Rightarrow> exn + (AcCmdCRLoadingCompleteNotify \<times> stream)" where
  "AcCmdCRLoadingCompleteNotify_Read = throws (LogicError ''Not implemented.'')"

datatype (plugins only:) AcCmdCRChat = AcCmdCRChat
  (AcCmdCRChat_message: "bytes")
  (AcCmdCRChat_unknown: "u8")

definition AcCmdCRChat_Write :: "AcCmdCRChat \<Rightarrow> stream \<Rightarrow> exn + stream" where
  "AcCmdCRChat_Write _ = throws (RuntimeError ''Not implemented'')"

definition AcCmdCRChat_Read :: "icu \<Rightarrow> stream \<Rightarrow> exn + (AcCmdCRChat \<times> stream)" where
  "AcCmdCRChat_Read cv =
     rd (rstr cv) (\<lambda>message'.
     rd r8 (\<lambda>unknown'.
     ret (AcCmdCRChat message' unknown')))"

datatype (plugins only:) AcCmdCRChatNotify = AcCmdCRChatNotify
  (AcCmdCRChatNotify_message: "bytes")
  (AcCmdCRChatNotify_author: "bytes")
  (AcCmdCRChatNotify_isSystem: "bool")

definition AcCmdCRChatNotify_Write :: "icu \<Rightarrow> AcCmdCRChatNotify \<Rightarrow> stream \<Rightarrow> exn + stream" where
  "AcCmdCRChatNotify_Write cv v = seqw [
     wstr cv (AcCmdCRChatNotify_message v),
     wstr cv (AcCmdCRChatNotify_author v),
     wbool (AcCmdCRChatNotify_isSystem v)]"

definition AcCmdCRChatNotify_Read :: "stream \<Rightarrow> exn + (AcCmdCRChatNotify \<times> stream)" where
  "AcCmdCRChatNotify_Read = throws (RuntimeError ''Not implemented'')"

type_synonym AcCmdCRReadyRace = unit

definition AcCmdCRReadyRace_Write :: "AcCmdCRReadyRace \<Rightarrow> stream \<Rightarrow> exn + stream" where
  "AcCmdCRReadyRace_Write _ = throws (RuntimeError ''Not implemented'')"

definition AcCmdCRReadyRace_Read :: "stream \<Rightarrow> exn + (AcCmdCRReadyRace \<times> stream)" where
  "AcCmdCRReadyRace_Read = ret ()"

datatype (plugins only:) AcCmdCRReadyRaceNotify = AcCmdCRReadyRaceNotify
  (AcCmdCRReadyRaceNotify_characterUid: "u32")
  (AcCmdCRReadyRaceNotify_isReady: "bool")

definition AcCmdCRReadyRaceNotify_Write :: "AcCmdCRReadyRaceNotify \<Rightarrow> stream \<Rightarrow> exn + stream" where
  "AcCmdCRReadyRaceNotify_Write v = seqw [
     w32 (AcCmdCRReadyRaceNotify_characterUid v),
     wbool (AcCmdCRReadyRaceNotify_isReady v)]"

definition AcCmdCRReadyRaceNotify_Read :: "stream \<Rightarrow> exn + (AcCmdCRReadyRaceNotify \<times> stream)" where
  "AcCmdCRReadyRaceNotify_Read = throws (RuntimeError ''Not implemented'')"

datatype (plugins only:) AcCmdUserRaceCountdown = AcCmdUserRaceCountdown
  (AcCmdUserRaceCountdown_raceStartTimestamp: "u64")

definition AcCmdUserRaceCountdown_Write :: "AcCmdUserRaceCountdown \<Rightarrow> stream \<Rightarrow> exn + stream" where
  "AcCmdUserRaceCountdown_Write v = seqw [
     w64 (AcCmdUserRaceCountdown_raceStartTimestamp v)]"

definition AcCmdUserRaceCountdown_Read :: "stream \<Rightarrow> exn + (AcCmdUserRaceCountdown \<times> stream)" where
  "AcCmdUserRaceCountdown_Read = throws (RuntimeError ''Not implemented'')"

record AcCmdUserRaceFinal =
  AcCmdUserRaceFinal_oid :: "u16"
  AcCmdUserRaceFinal_courseTime :: "u32"
  AcCmdUserRaceFinal_raceTrackProgress :: "u32"

definition AcCmdUserRaceFinal_Write :: "AcCmdUserRaceFinal \<Rightarrow> stream \<Rightarrow> exn + stream" where
  "AcCmdUserRaceFinal_Write _ = throws (RuntimeError ''Not implemented'')"

definition AcCmdUserRaceFinal_default :: "AcCmdUserRaceFinal" where
  "AcCmdUserRaceFinal_default = \<lparr>AcCmdUserRaceFinal_oid = 0,
     AcCmdUserRaceFinal_courseTime = 0,
     AcCmdUserRaceFinal_raceTrackProgress = 0\<rparr>"

definition AcCmdUserRaceFinal_Read :: "stream \<Rightarrow> exn + (AcCmdUserRaceFinal \<times> stream)" where
  "AcCmdUserRaceFinal_Read = build AcCmdUserRaceFinal_default [
     fld r16 AcCmdUserRaceFinal_oid_update,
     fld r32 AcCmdUserRaceFinal_courseTime_update,
     fld r32 AcCmdUserRaceFinal_raceTrackProgress_update]"

datatype (plugins only:) AcCmdUserRaceFinalNotify = AcCmdUserRaceFinalNotify
  (AcCmdUserRaceFinalNotify_oid: "u16")
  (AcCmdUserRaceFinalNotify_courseTime: "u32")

definition AcCmdUserRaceFinalNotify_Write :: "AcCmdUserRaceFinalNotify \<Rightarrow> stream \<Rightarrow> exn + stream" where
  "AcCmdUserRaceFinalNotify_Write v = seqw [
     w16 (AcCmdUserRaceFinalNotify_oid v),
     w32 (AcCmdUserRaceFinalNotify_courseTime v)]"

definition AcCmdUserRaceFinalNotify_Read :: "stream \<Rightarrow> exn + (AcCmdUserRaceFinalNotify \<times> stream)" where
  "AcCmdUserRaceFinalNotify_Read = throws (RuntimeError ''Not implemented'')"

record AcCmdCRRaceResult =
  AcCmdCRRaceResult_member1 :: "u8"
  AcCmdCRRaceResult_gainedClassProgress :: "u32"
  AcCmdCRRaceResult_member3 :: "u32"
  AcCmdCRRaceResult_member4 :: "u32"
  AcCmdCRRaceResult_member5 :: "u32"
  AcCmdCRRaceResult_member6 :: "u32"
  AcCmdCRRaceResult_member7 :: "u32"
  AcCmdCRRaceResult_member8 :: "u32"
  AcCmdCRRaceResult_member9 :: "u32"
  AcCmdCRRaceResult_lapRecords :: "AcCmdCRStartRaceNotify_RaceRecord_LapRecord list"
  AcCmdCRRaceResult_member11 :: "u8"
  AcCmdCRRaceResult_member12 :: "u32"
  AcCmdCRRaceResult_member13 :: "u16"
  AcCmdCRRaceResult_member14 :: "u8"

definition AcCmdCRRaceResult_Write :: "AcCmdCRRaceResult \<Rightarrow> stream \<Rightarrow> exn + stream" where
  "AcCmdCRRaceResult_Write _ = throws (RuntimeError ''Not implemented'')"

definition AcCmdCRRaceResult_default :: "AcCmdCRRaceResult" where
  "AcCmdCRRaceResult_default = \<lparr>AcCmdCRRaceResult_member1 = 0,
     AcCmdCRRaceResult_gainedClassProgress = 0,
     AcCmdCRRaceResult_member3 = 0,
     AcCmdCRRaceResult_member4 = 0,
     AcCmdCRRaceResult_member5 = 0,
     AcCmdCRRaceResult_member6 = 0,
     AcCmdCRRaceResult_member7 = 0,
     AcCmdCRRaceResult_member8 = 0,
     AcCmdCRRaceResult_member9 = 0,
     AcCmdCRRaceResult_lapRecords = [],
     AcCmdCRRaceResult_member11 = 0,
     AcCmdCRRaceResult_member12 = 0,
     AcCmdCRRaceResult_member13 = 0,
     AcCmdCRRaceResult_member14 = 0\<rparr>"

definition AcCmdCRStartRaceNotify_RaceRecord_LapRecord_default :: "AcCmdCRStartRaceNotify_RaceRecord_LapRecord" where
  "AcCmdCRStartRaceNotify_RaceRecord_LapRecord_default = \<lparr>AcCmdCRStartRaceNotify_RaceRecord_LapRecord_sector1Ms = 0,
     AcCmdCRStartRaceNotify_RaceRecord_LapRecord_sector2Ms = 0,
     AcCmdCRStartRaceNotify_RaceRecord_LapRecord_sector3Ms = 0\<rparr>"

definition AcCmdCRRaceResult_Read :: "stream \<Rightarrow> exn + (AcCmdCRRaceResult \<times> stream)" where
  "AcCmdCRRaceResult_Read = build AcCmdCRRaceResult_default [
     fld r8 AcCmdCRRaceResult_member1_update,
     fld r32 AcCmdCRRaceResult_gainedClassProgress_update,
     fld r32 AcCmdCRRaceResult_member3_update,
     fld r32 AcCmdCRRaceResult_member4_update,
     fld r32 AcCmdCRRaceResult_member5_update,
     fld r32 AcCmdCRRaceResult_member6_update,
     fld r32 AcCmdCRRaceResult_member7_update,
     fld r32 AcCmdCRRaceResult_member8_update,
     fld r32 AcCmdCRRaceResult_member9_update,
     fld (rd r8 (\<lambda>size. read_n (unat size div 3) (build AcCmdCRStartRaceNotify_RaceRecord_LapRecord_default [
       fld r32 AcCmdCRStartRaceNotify_RaceRecord_LapRecord_sector1Ms_update,
       fld r32 AcCmdCRStartRaceNotify_RaceRecord_LapRecord_sector2Ms_update,
       fld r32 AcCmdCRStartRaceNotify_RaceRecord_LapRecord_sector3Ms_update]))) AcCmdCRRaceResult_lapRecords_update,
     fld r8 AcCmdCRRaceResult_member11_update,
     fld r32 AcCmdCRRaceResult_member12_update,
     fld r16 AcCmdCRRaceResult_member13_update,
     fld r8 AcCmdCRRaceResult_member14_update]"

datatype (plugins only:) AcCmdCRRaceResultOK = AcCmdCRRaceResultOK
  (AcCmdCRRaceResultOK_recordReplay: "bool")
  (AcCmdCRRaceResultOK_resultKey: "u64")
  (AcCmdCRRaceResultOK_horseFatigue: "u16")
  (AcCmdCRRaceResultOK_member4: "u16")
  (AcCmdCRRaceResultOK_notifyEmblemUnlocked: "bool")
  (AcCmdCRRaceResultOK_currentCarrots: "u32")

definition AcCmdCRRaceResultOK_Write :: "AcCmdCRRaceResultOK \<Rightarrow> stream \<Rightarrow> exn + stream" where
  "AcCmdCRRaceResultOK_Write v = seqw [
     wbool (AcCmdCRRaceResultOK_recordReplay v),
     w64 (AcCmdCRRaceResultOK_resultKey v),
     w16 (AcCmdCRRaceResultOK_horseFatigue v),
     w16 (AcCmdCRRaceResultOK_member4 v),
     wbool (AcCmdCRRaceResultOK_notifyEmblemUnlocked v),
     w32 (AcCmdCRRaceResultOK_currentCarrots v)]"

definition AcCmdCRRaceResultOK_Read :: "stream \<Rightarrow> exn + (AcCmdCRRaceResultOK \<times> stream)" where
  "AcCmdCRRaceResultOK_Read = throws (RuntimeError ''Not implemented'')"

datatype (plugins only:) AcCmdRCRaceResultNotify_ScoreInfo = AcCmdRCRaceResultNotify_ScoreInfo
  (AcCmdRCRaceResultNotify_ScoreInfo_uid: "u32")
  (AcCmdRCRaceResultNotify_ScoreInfo_name: "bytes")
  (AcCmdRCRaceResultNotify_ScoreInfo_courseTime: "u32")
  (AcCmdRCRaceResultNotify_ScoreInfo_member4: "u32")
  (AcCmdRCRaceResultNotify_ScoreInfo_experience: "u32")
  (AcCmdRCRaceResultNotify_ScoreInfo_member6: "u32")
  (AcCmdRCRaceResultNotify_ScoreInfo_carrots: "u32")
  (AcCmdRCRaceResultNotify_ScoreInfo_level: "u32")
  (AcCmdRCRaceResultNotify_ScoreInfo_teamColor: "u32")
  (AcCmdRCRaceResultNotify_ScoreInfo_member10: "u32")
  (AcCmdRCRaceResultNotify_ScoreInfo_member11: "u16")
  (AcCmdRCRaceResultNotify_ScoreInfo_member12: "u16")
  (AcCmdRCRaceResultNotify_ScoreInfo_recordTimeDifference: "u32")
  (AcCmdRCRaceResultNotify_ScoreInfo_levelProgress: "u32")
  (AcCmdRCRaceResultNotify_ScoreInfo_horseClassProgress: "u32")
  (AcCmdRCRaceResultNotify_ScoreInfo_achievements: "AcCmdCRStartRaceNotify_Struct2")
  (AcCmdRCRaceResultNotify_ScoreInfo_bitset: "u32")
  (AcCmdRCRaceResultNotify_ScoreInfo_mountName: "bytes")
  (AcCmdRCRaceResultNotify_ScoreInfo_growthPoints: "u16")
  (AcCmdRCRaceResultNotify_ScoreInfo_horseClass: "u8")
  (AcCmdRCRaceResultNotify_ScoreInfo_bonusCarrots: "u32")
  (AcCmdRCRaceResultNotify_ScoreInfo_member22: "u32")
  (AcCmdRCRaceResultNotify_ScoreInfo_raceRecord: "AcCmdCRStartRaceNotify_RaceRecord")
  (AcCmdRCRaceResultNotify_ScoreInfo_trainingCarrotReward: "u32")
  (AcCmdRCRaceResultNotify_ScoreInfo_member25: "u8")
  (AcCmdRCRaceResultNotify_ScoreInfo_member26: "u32")
  (AcCmdRCRaceResultNotify_ScoreInfo_member27: "u32")

datatype (plugins only:) AcCmdRCRaceResultNotify = AcCmdRCRaceResultNotify
  (AcCmdRCRaceResultNotify_scores: "AcCmdRCRaceResultNotify_ScoreInfo list")
  (AcCmdRCRaceResultNotify_racerActiveSkillSet: "AcCmdCRStartRaceNotify_ActiveSkillSet")
  (AcCmdRCRaceResultNotify_member3: "u32")
  (AcCmdRCRaceResultNotify_member4: "u32")

definition AcCmdRCRaceResultNotify_Write :: "icu \<Rightarrow> AcCmdRCRaceResultNotify \<Rightarrow> stream \<Rightarrow> exn + stream" where
  "AcCmdRCRaceResultNotify_Write cv v = seqw [
     w16 (of_nat (length (AcCmdRCRaceResultNotify_scores v))),
     seqw (map (\<lambda>score. seqw [
         w32 (AcCmdRCRaceResultNotify_ScoreInfo_uid score),
         wstr cv (AcCmdRCRaceResultNotify_ScoreInfo_name score),
         w32 (AcCmdRCRaceResultNotify_ScoreInfo_courseTime score),
         w32 (AcCmdRCRaceResultNotify_ScoreInfo_member4 score),
         w32 (AcCmdRCRaceResultNotify_ScoreInfo_experience score),
         w32 (AcCmdRCRaceResultNotify_ScoreInfo_member6 score),
         w32 (AcCmdRCRaceResultNotify_ScoreInfo_carrots score),
         w32 (AcCmdRCRaceResultNotify_ScoreInfo_level score),
         w32 (AcCmdRCRaceResultNotify_ScoreInfo_teamColor score),
         w32 (AcCmdRCRaceResultNotify_ScoreInfo_member10 score),
         w16 (AcCmdRCRaceResultNotify_ScoreInfo_member11 score),
         w16 (AcCmdRCRaceResultNotify_ScoreInfo_member12 score),
         w32 (AcCmdRCRaceResultNotify_ScoreInfo_recordTimeDifference score),
         w32 (AcCmdRCRaceResultNotify_ScoreInfo_levelProgress score),
         w32 (AcCmdRCRaceResultNotify_ScoreInfo_horseClassProgress score),
         AcCmdCRStartRaceNotify_Struct2_Write (AcCmdRCRaceResultNotify_ScoreInfo_achievements score),
         w32 (AcCmdRCRaceResultNotify_ScoreInfo_bitset score),
         wstr cv (AcCmdRCRaceResultNotify_ScoreInfo_mountName score),
         w16 (AcCmdRCRaceResultNotify_ScoreInfo_growthPoints score),
         w8 (AcCmdRCRaceResultNotify_ScoreInfo_horseClass score),
         w32 (AcCmdRCRaceResultNotify_ScoreInfo_bonusCarrots score),
         w32 (AcCmdRCRaceResultNotify_ScoreInfo_member22 score),
         AcCmdCRStartRaceNotify_RaceRecord_Write (AcCmdRCRaceResultNotify_ScoreInfo_raceRecord score),
         w32 (AcCmdRCRaceResultNotify_ScoreInfo_trainingCarrotReward score),
         w8 (AcCmdRCRaceResultNotify_ScoreInfo_member25 score),
         w32 (AcCmdRCRaceResultNotify_ScoreInfo_member26 score),
         w32 (AcCmdRCRaceResultNotify_ScoreInfo_member27 score)]) (AcCmdRCRaceResultNotify_scores v)),
     AcCmdCRStartRaceNotify_ActiveSkillSet_Write (AcCmdRCRaceResultNotify_racerActiveSkillSet v),
     w32 (AcCmdRCRaceResultNotify_member3 v),
     w32 (AcCmdRCRaceResultNotify_member4 v)]"

definition AcCmdRCRaceResultNotify_Read :: "stream \<Rightarrow> exn + (AcCmdRCRaceResultNotify \<times> stream)" where
  "AcCmdRCRaceResultNotify_Read = throws (RuntimeError ''Not implemented'')"

record AcCmdCRP2PResult =
  AcCmdCRP2PResult_oid :: "u16"
  AcCmdCRP2PResult_member2 :: "u32"
  AcCmdCRP2PResult_podium :: "bytes list"

definition AcCmdCRP2PResult_Write :: "AcCmdCRP2PResult \<Rightarrow> stream \<Rightarrow> exn + stream" where
  "AcCmdCRP2PResult_Write _ = throws (RuntimeError ''Not implemented'')"

definition AcCmdCRP2PResult_default :: "AcCmdCRP2PResult" where
  "AcCmdCRP2PResult_default = \<lparr>AcCmdCRP2PResult_oid = 0,
     AcCmdCRP2PResult_member2 = 0,
     AcCmdCRP2PResult_podium = replicate 3 []\<rparr>"

definition AcCmdCRP2PResult_Read :: "icu \<Rightarrow> stream \<Rightarrow> exn + (AcCmdCRP2PResult \<times> stream)" where
  "AcCmdCRP2PResult_Read cv = build AcCmdCRP2PResult_default [
     fld r16 AcCmdCRP2PResult_oid_update,
     fld r32 AcCmdCRP2PResult_member2_update,
     fld (read_n 3 (rstr cv)) AcCmdCRP2PResult_podium_update]"

record AcCmdUserRaceP2PResult_Something =
  AcCmdUserRaceP2PResult_Something_oid :: "u16"
  AcCmdUserRaceP2PResult_Something_member2 :: "u8"

record AcCmdUserRaceP2PResult =
  AcCmdUserRaceP2PResult_member1 :: "AcCmdUserRaceP2PResult_Something list"

definition AcCmdUserRaceP2PResult_Write :: "AcCmdUserRaceP2PResult \<Rightarrow> stream \<Rightarrow> exn + stream" where
  "AcCmdUserRaceP2PResult_Write _ = throws (RuntimeError ''Not implemented'')"

definition AcCmdUserRaceP2PResult_default :: "AcCmdUserRaceP2PResult" where
  "AcCmdUserRaceP2PResult_default = \<lparr>AcCmdUserRaceP2PResult_member1 = []\<rparr>"

definition AcCmdUserRaceP2PResult_Something_default :: "AcCmdUserRaceP2PResult_Something" where
  "AcCmdUserRaceP2PResult_Something_default = \<lparr>AcCmdUserRaceP2PResult_Something_oid = 0,
     AcCmdUserRaceP2PResult_Something_member2 = 0\<rparr>"

definition AcCmdUserRaceP2PResult_Read :: "stream \<Rightarrow> exn + (AcCmdUserRaceP2PResult \<times> stream)" where
  "AcCmdUserRaceP2PResult_Read = build AcCmdUserRaceP2PResult_default [
     fld (rlist_by r8 (build AcCmdUserRaceP2PResult_Something_default [fld r16 AcCmdUserRaceP2PResult_Something_oid_update, fld r8 AcCmdUserRaceP2PResult_Something_member2_update])) AcCmdUserRaceP2PResult_member1_update]"

datatype (plugins only:) AcCmdGameRaceP2PResult_Something = AcCmdGameRaceP2PResult_Something
  (AcCmdGameRaceP2PResult_Something_oid: "u16")
  (AcCmdGameRaceP2PResult_Something_member2: "u8")

datatype (plugins only:) AcCmdGameRaceP2PResult = AcCmdGameRaceP2PResult
  (AcCmdGameRaceP2PResult_member1: "AcCmdGameRaceP2PResult_Something list")

definition AcCmdGameRaceP2PResult_Write :: "AcCmdGameRaceP2PResult \<Rightarrow> stream \<Rightarrow> exn + stream" where
  "AcCmdGameRaceP2PResult_Write v = seqw [
     w8 (of_nat (length (AcCmdGameRaceP2PResult_member1 v))),
     seqw (map (\<lambda>value. seqw [
         w16 (AcCmdGameRaceP2PResult_Something_oid value),
         w8 (AcCmdGameRaceP2PResult_Something_member2 value)]) (AcCmdGameRaceP2PResult_member1 v))]"

definition AcCmdGameRaceP2PResult_Read :: "stream \<Rightarrow> exn + (AcCmdGameRaceP2PResult \<times> stream)" where
  "AcCmdGameRaceP2PResult_Read = throws (RuntimeError ''Not implemented'')"

datatype (plugins only:) AcCmdCRAwardStart = AcCmdCRAwardStart
  (AcCmdCRAwardStart_member1: "u32")

definition AcCmdCRAwardStart_Write :: "AcCmdCRAwardStart \<Rightarrow> stream \<Rightarrow> exn + stream" where
  "AcCmdCRAwardStart_Write _ = throws (RuntimeError ''Not implemented'')"

definition AcCmdCRAwardStart_Read :: "stream \<Rightarrow> exn + (AcCmdCRAwardStart \<times> stream)" where
  "AcCmdCRAwardStart_Read =
     rd r32 (\<lambda>member1'.
     ret (AcCmdCRAwardStart member1'))"

type_synonym AcCmdCRAwardEnd = unit

definition AcCmdCRAwardEnd_Write :: "AcCmdCRAwardEnd \<Rightarrow> stream \<Rightarrow> exn + stream" where
  "AcCmdCRAwardEnd_Write _ = throws (RuntimeError ''Not implemented'')"

definition AcCmdCRAwardEnd_Read :: "stream \<Rightarrow> exn + (AcCmdCRAwardEnd \<times> stream)" where
  "AcCmdCRAwardEnd_Read = ret ()"

datatype (plugins only:) AcCmdRCAwardNotify = AcCmdRCAwardNotify
  (AcCmdRCAwardNotify_member1: "u32")

definition AcCmdRCAwardNotify_Write :: "AcCmdRCAwardNotify \<Rightarrow> stream \<Rightarrow> exn + stream" where
  "AcCmdRCAwardNotify_Write v = seqw [
     w32 (AcCmdRCAwardNotify_member1 v)]"

definition AcCmdRCAwardNotify_Read :: "stream \<Rightarrow> exn + (AcCmdRCAwardNotify \<times> stream)" where
  "AcCmdRCAwardNotify_Read = throws (RuntimeError ''Not implemented'')"

datatype (plugins only:) AcCmdCRAwardEndNotify = AcCmdCRAwardEndNotify
  (AcCmdCRAwardEndNotify_unk0: "u16")

definition AcCmdCRAwardEndNotify_Write :: "AcCmdCRAwardEndNotify \<Rightarrow> stream \<Rightarrow> exn + stream" where
  "AcCmdCRAwardEndNotify_Write v = seqw [
     w16 (AcCmdCRAwardEndNotify_unk0 v)]"

definition AcCmdCRAwardEndNotify_Read :: "stream \<Rightarrow> exn + (AcCmdCRAwardEndNotify \<times> stream)" where
  "AcCmdCRAwardEndNotify_Read = throws (RuntimeError ''Not implemented'')"

datatype (plugins only: code) AcCmdCRStarPointGet = AcCmdCRStarPointGet
  (AcCmdCRStarPointGet_characterOid: "u16")
  (AcCmdCRStarPointGet_unk1: "u32")
  (AcCmdCRStarPointGet_gainedStarPoints: "u32")

definition AcCmdCRStarPointGet_Write :: "AcCmdCRStarPointGet \<Rightarrow> stream \<Rightarrow> exn + stream" where
  "AcCmdCRStarPointGet_Write _ = throws (RuntimeError ''Not implemented'')"

definition AcCmdCRStarPointGet_Read :: "stream \<Rightarrow> exn + (AcCmdCRStarPointGet \<times> stream)" where
  "AcCmdCRStarPointGet_Read =
     rd r16 (\<lambda>characterOid'.
     rd r32 (\<lambda>unk1'.
     rd r32 (\<lambda>gainedStarPoints'.
     ret (AcCmdCRStarPointGet characterOid' unk1' gainedStarPoints'))))"

datatype (plugins only: code) AcCmdCRStarPointGetOK = AcCmdCRStarPointGetOK
  (AcCmdCRStarPointGetOK_characterOid: "u16")
  (AcCmdCRStarPointGetOK_starPointValue: "u32")
  (AcCmdCRStarPointGetOK_giveMagicItem: "bool")

definition AcCmdCRStarPointGetOK_Write :: "AcCmdCRStarPointGetOK \<Rightarrow> stream \<Rightarrow> exn + stream" where
  "AcCmdCRStarPointGetOK_Write v = seqw [
     w16 (AcCmdCRStarPointGetOK_characterOid v),
     w32 (AcCmdCRStarPointGetOK_starPointValue v),
     wbool (AcCmdCRStarPointGetOK_giveMagicItem v)]"

definition AcCmdCRStarPointGetOK_Read :: "stream \<Rightarrow> exn + (AcCmdCRStarPointGetOK \<times> stream)" where
  "AcCmdCRStarPointGetOK_Read = throws (RuntimeError ''Not implemented'')"

datatype (plugins only:) AcCmdCRRequestSpur = AcCmdCRRequestSpur
  (AcCmdCRRequestSpur_characterOid: "u16")
  (AcCmdCRRequestSpur_activeBoosters: "u8")
  (AcCmdCRRequestSpur_comboBreak: "u8")

definition AcCmdCRRequestSpur_Write :: "AcCmdCRRequestSpur \<Rightarrow> stream \<Rightarrow> exn + stream" where
  "AcCmdCRRequestSpur_Write _ = throws (RuntimeError ''Not implemented'')"

definition AcCmdCRRequestSpur_Read :: "stream \<Rightarrow> exn + (AcCmdCRRequestSpur \<times> stream)" where
  "AcCmdCRRequestSpur_Read =
     rd r16 (\<lambda>characterOid'.
     rd r8 (\<lambda>activeBoosters'.
     rd r8 (\<lambda>comboBreak'.
     ret (AcCmdCRRequestSpur characterOid' activeBoosters' comboBreak'))))"

datatype (plugins only:) AcCmdCRRequestSpurOK = AcCmdCRRequestSpurOK
  (AcCmdCRRequestSpurOK_characterOid: "u16")
  (AcCmdCRRequestSpurOK_activeBoosters: "u8")
  (AcCmdCRRequestSpurOK_startPointValue: "u32")
  (AcCmdCRRequestSpurOK_comboBreak: "u8")

definition AcCmdCRRequestSpurOK_Write :: "AcCmdCRRequestSpurOK \<Rightarrow> stream \<Rightarrow> exn + stream" where
  "AcCmdCRRequestSpurOK_Write v = seqw [
     w16 (AcCmdCRRequestSpurOK_characterOid v),
     w8 (AcCmdCRRequestSpurOK_activeBoosters v),
     w32 (AcCmdCRRequestSpurOK_startPointValue v),
     w8 (AcCmdCRRequestSpurOK_comboBreak v)]"

definition AcCmdCRRequestSpurOK_Read :: "stream \<Rightarrow> exn + (AcCmdCRRequestSpurOK \<times> stream)" where
  "AcCmdCRRequestSpurOK_Read = throws (RuntimeError ''Not implemented'')"

datatype (plugins only:) AcCmdCRHurdleClearResult = AcCmdCRHurdleClearResult
  (AcCmdCRHurdleClearResult_characterOid: "u16")
  (AcCmdCRHurdleClearResult_hurdleClearType: "u8")

definition AcCmdCRHurdleClearResult_Write :: "AcCmdCRHurdleClearResult \<Rightarrow> stream \<Rightarrow> exn + stream" where
  "AcCmdCRHurdleClearResult_Write _ = throws (RuntimeError ''Not implemented'')"

definition AcCmdCRHurdleClearResult_Read :: "stream \<Rightarrow> exn + (AcCmdCRHurdleClearResult \<times> stream)" where
  "AcCmdCRHurdleClearResult_Read =
     rd r16 (\<lambda>characterOid'.
     rd r8 (\<lambda>hurdleClearType'.
     ret (AcCmdCRHurdleClearResult characterOid' hurdleClearType')))"

datatype (plugins only:) AcCmdCRHurdleClearResultOK = AcCmdCRHurdleClearResultOK
  (AcCmdCRHurdleClearResultOK_characterOid: "u16")
  (AcCmdCRHurdleClearResultOK_hurdleClearType: "u8")
  (AcCmdCRHurdleClearResultOK_jumpCombo: "u32")
  (AcCmdCRHurdleClearResultOK_unk3: "u32")

definition AcCmdCRHurdleClearResultOK_Write :: "AcCmdCRHurdleClearResultOK \<Rightarrow> stream \<Rightarrow> exn + stream" where
  "AcCmdCRHurdleClearResultOK_Write v = seqw [
     w16 (AcCmdCRHurdleClearResultOK_characterOid v),
     w8 (AcCmdCRHurdleClearResultOK_hurdleClearType v),
     w32 (AcCmdCRHurdleClearResultOK_jumpCombo v),
     w32 (AcCmdCRHurdleClearResultOK_unk3 v)]"

definition AcCmdCRHurdleClearResultOK_Read :: "stream \<Rightarrow> exn + (AcCmdCRHurdleClearResultOK \<times> stream)" where
  "AcCmdCRHurdleClearResultOK_Read = throws (RuntimeError ''Not implemented'')"

datatype (plugins only:) AcCmdCRStartingRate = AcCmdCRStartingRate
  (AcCmdCRStartingRate_characterOid: "u16")
  (AcCmdCRStartingRate_unk1: "u32")
  (AcCmdCRStartingRate_boostGained: "u32")

definition AcCmdCRStartingRate_Write :: "AcCmdCRStartingRate \<Rightarrow> stream \<Rightarrow> exn + stream" where
  "AcCmdCRStartingRate_Write _ = throws (RuntimeError ''Not implemented'')"

definition AcCmdCRStartingRate_Read :: "stream \<Rightarrow> exn + (AcCmdCRStartingRate \<times> stream)" where
  "AcCmdCRStartingRate_Read =
     rd r16 (\<lambda>characterOid'.
     rd r32 (\<lambda>unk1'.
     rd r32 (\<lambda>boostGained'.
     ret (AcCmdCRStartingRate characterOid' unk1' boostGained'))))"

datatype (plugins only:) AcCmdCRRequestMagicItem = AcCmdCRRequestMagicItem
  (AcCmdCRRequestMagicItem_characterOid: "u16")
  (AcCmdCRRequestMagicItem_member2: "u32")

definition AcCmdCRRequestMagicItem_Write :: "AcCmdCRRequestMagicItem \<Rightarrow> stream \<Rightarrow> exn + stream" where
  "AcCmdCRRequestMagicItem_Write _ = throws (RuntimeError ''Not implemented'')"

definition AcCmdCRRequestMagicItem_Read :: "stream \<Rightarrow> exn + (AcCmdCRRequestMagicItem \<times> stream)" where
  "AcCmdCRRequestMagicItem_Read =
     rd r16 (\<lambda>characterOid'.
     rd r32 (\<lambda>member2'.
     ret (AcCmdCRRequestMagicItem characterOid' member2')))"

datatype (plugins only:) AcCmdCRRequestMagicItemOK = AcCmdCRRequestMagicItemOK
  (AcCmdCRRequestMagicItemOK_characterOid: "u16")
  (AcCmdCRRequestMagicItemOK_magicItemId: "u32")
  (AcCmdCRRequestMagicItemOK_member3: "u32")

definition AcCmdCRRequestMagicItemOK_Write :: "AcCmdCRRequestMagicItemOK \<Rightarrow> stream \<Rightarrow> exn + stream" where
  "AcCmdCRRequestMagicItemOK_Write v = seqw [
     w16 (AcCmdCRRequestMagicItemOK_characterOid v),
     w32 (AcCmdCRRequestMagicItemOK_magicItemId v),
     w32 (AcCmdCRRequestMagicItemOK_member3 v)]"

definition AcCmdCRRequestMagicItemOK_Read :: "stream \<Rightarrow> exn + (AcCmdCRRequestMagicItemOK \<times> stream)" where
  "AcCmdCRRequestMagicItemOK_Read = throws (RuntimeError ''Not implemented'')"

datatype (plugins only:) AcCmdCRRequestMagicItemNotify = AcCmdCRRequestMagicItemNotify
  (AcCmdCRRequestMagicItemNotify_magicItemId: "u32")
  (AcCmdCRRequestMagicItemNotify_characterOid: "u16")

definition AcCmdCRRequestMagicItemNotify_Write :: "AcCmdCRRequestMagicItemNotify \<Rightarrow> stream \<Rightarrow> exn + stream" where
  "AcCmdCRRequestMagicItemNotify_Write v = seqw [
     w32 (AcCmdCRRequestMagicItemNotify_magicItemId v),
     w16 (AcCmdCRRequestMagicItemNotify_characterOid v)]"

definition AcCmdCRRequestMagicItemNotify_Read :: "stream \<Rightarrow> exn + (AcCmdCRRequestMagicItemNotify \<times> stream)" where
  "AcCmdCRRequestMagicItemNotify_Read = throws (RuntimeError ''Not implemented'')"

record AcCmdUserRaceUpdatePos =
  AcCmdUserRaceUpdatePos_oid :: "u16"
  AcCmdUserRaceUpdatePos_position :: "wire_vector3"
  AcCmdUserRaceUpdatePos_member3 :: "u32 list"
  AcCmdUserRaceUpdatePos_member4 :: "u32"
  AcCmdUserRaceUpdatePos_member5 :: "u16"
  AcCmdUserRaceUpdatePos_progress :: "u32"
  AcCmdUserRaceUpdatePos_member7 :: "u32"

definition AcCmdUserRaceUpdatePos_Write :: "AcCmdUserRaceUpdatePos \<Rightarrow> stream \<Rightarrow> exn + stream" where
  "AcCmdUserRaceUpdatePos_Write _ = throws (RuntimeError ''Not implemented'')"

definition AcCmdUserRaceUpdatePos_default :: "AcCmdUserRaceUpdatePos" where
  "AcCmdUserRaceUpdatePos_default = \<lparr>AcCmdUserRaceUpdatePos_oid = 0,
     AcCmdUserRaceUpdatePos_position = \<lparr>wv_x = 0, wv_y = 0, wv_z = 0\<rparr>,
     AcCmdUserRaceUpdatePos_member3 = replicate 3 0,
     AcCmdUserRaceUpdatePos_member4 = 0,
     AcCmdUserRaceUpdatePos_member5 = 0,
     AcCmdUserRaceUpdatePos_progress = 0,
     AcCmdUserRaceUpdatePos_member7 = 0\<rparr>"

definition AcCmdUserRaceUpdatePos_Read :: "stream \<Rightarrow> exn + (AcCmdUserRaceUpdatePos \<times> stream)" where
  "AcCmdUserRaceUpdatePos_Read = build AcCmdUserRaceUpdatePos_default [
     fld r16 AcCmdUserRaceUpdatePos_oid_update,
     fld Vector3_Read AcCmdUserRaceUpdatePos_position_update,
     fld (read_n 3 r32) AcCmdUserRaceUpdatePos_member3_update,
     fld r32 AcCmdUserRaceUpdatePos_member4_update,
     fld r16 AcCmdUserRaceUpdatePos_member5_update,
     fld r32 AcCmdUserRaceUpdatePos_progress_update,
     fld r32 AcCmdUserRaceUpdatePos_member7_update]"

datatype (plugins only:) AcCmdRCRoomCountdown = AcCmdRCRoomCountdown
  (AcCmdRCRoomCountdown_countdown: "u32")
  (AcCmdRCRoomCountdown_mapBlockId: "u16")
  (AcCmdRCRoomCountdown_bonusCourseType: "u16")

definition AcCmdRCRoomCountdown_Write :: "AcCmdRCRoomCountdown \<Rightarrow> stream \<Rightarrow> exn + stream" where
  "AcCmdRCRoomCountdown_Write v = seqw [
     w32 (AcCmdRCRoomCountdown_countdown v),
     w16 (AcCmdRCRoomCountdown_mapBlockId v),
     w16 (AcCmdRCRoomCountdown_bonusCourseType v)]"

definition AcCmdRCRoomCountdown_Read :: "stream \<Rightarrow> exn + (AcCmdRCRoomCountdown \<times> stream)" where
  "AcCmdRCRoomCountdown_Read = throws (RuntimeError ''Not implemented'')"

type_synonym AcCmdRCRoomCountdownCancel = unit

definition AcCmdRCRoomCountdownCancel_Write :: "AcCmdRCRoomCountdownCancel \<Rightarrow> stream \<Rightarrow> exn + stream" where
  "AcCmdRCRoomCountdownCancel_Write _ = seqw []"

definition AcCmdRCRoomCountdownCancel_Read :: "stream \<Rightarrow> exn + (AcCmdRCRoomCountdownCancel \<times> stream)" where
  "AcCmdRCRoomCountdownCancel_Read = throws (RuntimeError ''Not implemented'')"

datatype (plugins only:) AcCmdCRChangeMasterNotify = AcCmdCRChangeMasterNotify
  (AcCmdCRChangeMasterNotify_masterUid: "u32")

definition AcCmdCRChangeMasterNotify_Write :: "AcCmdCRChangeMasterNotify \<Rightarrow> stream \<Rightarrow> exn + stream" where
  "AcCmdCRChangeMasterNotify_Write v = seqw [
     w32 (AcCmdCRChangeMasterNotify_masterUid v)]"

definition AcCmdCRChangeMasterNotify_Read :: "stream \<Rightarrow> exn + (AcCmdCRChangeMasterNotify \<times> stream)" where
  "AcCmdCRChangeMasterNotify_Read = throws (RuntimeError ''Not implemented'')"

datatype (plugins only:) AcCmdCRRelayCommand = AcCmdCRRelayCommand
  (AcCmdCRRelayCommand_member1: "u8")
  (AcCmdCRRelayCommand_member2: "u16")

definition AcCmdCRRelayCommand_Write :: "AcCmdCRRelayCommand \<Rightarrow> stream \<Rightarrow> exn + stream" where
  "AcCmdCRRelayCommand_Write _ = throws (RuntimeError ''Not implemented'')"

definition AcCmdCRRelayCommand_Read :: "stream \<Rightarrow> exn + (AcCmdCRRelayCommand \<times> stream)" where
  "AcCmdCRRelayCommand_Read =
     rd r8 (\<lambda>member1'.
     rd r16 (\<lambda>member2'.
     ret (AcCmdCRRelayCommand member1' member2')))"

datatype (plugins only:) AcCmdCRRelayCommandNotify = AcCmdCRRelayCommandNotify
  (AcCmdCRRelayCommandNotify_member1: "u8")
  (AcCmdCRRelayCommandNotify_member2: "u16")

definition AcCmdCRRelayCommandNotify_Write :: "AcCmdCRRelayCommandNotify \<Rightarrow> stream \<Rightarrow> exn + stream" where
  "AcCmdCRRelayCommandNotify_Write v = seqw [
     w8 (AcCmdCRRelayCommandNotify_member1 v),
     w16 (AcCmdCRRelayCommandNotify_member2 v)]"

definition AcCmdCRRelayCommandNotify_Read :: "stream \<Rightarrow> exn + (AcCmdCRRelayCommandNotify \<times> stream)" where
  "AcCmdCRRelayCommandNotify_Read = throws (RuntimeError ''Not implemented'')"

record AcCmdCRRelay =
  AcCmdCRRelay_fromOid :: "u16"
  AcCmdCRRelay_toOid :: "u16"
  AcCmdCRRelay_payloadType :: "u16"
  AcCmdCRRelay_data :: "u8 list"
  AcCmdCRRelay_snapshot :: "relay_Snapshot"
  AcCmdCRRelay_syncProgress :: "relay_SyncProgress"
  AcCmdCRRelay_slidingMotion :: "relay_SlidingMotion"
  AcCmdCRRelay_spurLevel :: "relay_SpurLevel"
  AcCmdCRRelay_syncGoalIn :: "relay_SyncGoalIn"
  AcCmdCRRelay_netSetLayerAnimation :: "relay_NetSetLayerAnimation"
  AcCmdCRRelay_broadcastCharacterUid :: "relay_BroadcastCharacterUid"
  AcCmdCRRelay_resetPosOther :: "relay_ResetPosOther"
  AcCmdCRRelay_setTargetState :: "relay_SetTargetState"
  AcCmdCRRelay_netSetState :: "relay_NetSetState"

definition AcCmdCRRelay_Write :: "AcCmdCRRelay \<Rightarrow> stream \<Rightarrow> exn + stream" where
  "AcCmdCRRelay_Write _ = throws (RuntimeError ''Not implemented'')"

definition relay_Snapshot_Quarternion_default :: "relay_Snapshot_Quarternion" where
  "relay_Snapshot_Quarternion_default = \<lparr>relay_Snapshot_Quarternion_X = 0,
     relay_Snapshot_Quarternion_Y = 0,
     relay_Snapshot_Quarternion_Z = 0,
     relay_Snapshot_Quarternion_W = 0\<rparr>"

definition relay_Snapshot_default :: "relay_Snapshot" where
  "relay_Snapshot_default = \<lparr>relay_Snapshot_racerOid = 0,
     relay_Snapshot_networkTickCounter = 0,
     relay_Snapshot_animationState = 0,
     relay_Snapshot_mountState = 0,
     relay_Snapshot_unidentifiedData = [],
     relay_Snapshot_position = \<lparr>wv_x = 0, wv_y = 0, wv_z = 0\<rparr>,
     relay_Snapshot_rotation = relay_Snapshot_Quarternion_default,
     relay_Snapshot_forwardSpeed = 0,
     relay_Snapshot_reverseSpeed = 0,
     relay_Snapshot_turningRate = 0\<rparr>"

definition relay_SyncProgress_default :: "relay_SyncProgress" where
  "relay_SyncProgress_default = \<lparr>relay_SyncProgress_racerOid = 0,
     relay_SyncProgress_lapCount = 0,
     relay_SyncProgress_lapProgress = 0\<rparr>"

definition relay_SlidingMotion_default :: "relay_SlidingMotion" where
  "relay_SlidingMotion_default = \<lparr>relay_SlidingMotion_racerOid = 0,
     relay_SlidingMotion_isSliding = False,
     relay_SlidingMotion_slidingAngle = 0\<rparr>"

definition relay_SpurLevel_default :: "relay_SpurLevel" where
  "relay_SpurLevel_default = \<lparr>relay_SpurLevel_racerOid = 0,
     relay_SpurLevel_successiveSpurCount = 0\<rparr>"

definition relay_SyncGoalIn_default :: "relay_SyncGoalIn" where
  "relay_SyncGoalIn_default = \<lparr>relay_SyncGoalIn_racerOid = 0,
     relay_SyncGoalIn_raceTimeMs = 0,
     relay_SyncGoalIn_raceTrackProgress = 0\<rparr>"

definition relay_NetSetLayerAnimation_default :: "relay_NetSetLayerAnimation" where
  "relay_NetSetLayerAnimation_default = \<lparr>relay_NetSetLayerAnimation_racerOid = 0,
     relay_NetSetLayerAnimation_layerAnimation = 0\<rparr>"

definition relay_BroadcastCharacterUid_default :: "relay_BroadcastCharacterUid" where
  "relay_BroadcastCharacterUid_default = \<lparr>relay_BroadcastCharacterUid_selfCharacterUid = 0\<rparr>"

definition relay_ResetPosOther_default :: "relay_ResetPosOther" where
  "relay_ResetPosOther_default = \<lparr>relay_ResetPosOther_affectedOid = 0,
     relay_ResetPosOther_right = \<lparr>wpv_x = 0, wpv_y = 0, wpv_z = 0, wpv_w = 0\<rparr>,
     relay_ResetPosOther_up = \<lparr>wpv_x = 0, wpv_y = 0, wpv_z = 0, wpv_w = 0\<rparr>,
     relay_ResetPosOther_forward = \<lparr>wpv_x = 0, wpv_y = 0, wpv_z = 0, wpv_w = 0\<rparr>,
     relay_ResetPosOther_position = \<lparr>wpv_x = 0, wpv_y = 0, wpv_z = 0, wpv_w = 0\<rparr>\<rparr>"

definition relay_SetTargetState_default :: "relay_SetTargetState" where
  "relay_SetTargetState_default = \<lparr>relay_SetTargetState_targetLocked = False,
     relay_SetTargetState_magicEffectId = 0,
     relay_SetTargetState_invokerRacerOid = 0,
     relay_SetTargetState_targetRacerOid = 0\<rparr>"

definition relay_NetSetState_State_default :: "relay_NetSetState_State" where
  "relay_NetSetState_State_default = \<lparr>relay_NetSetState_State_val1 = 0,
     relay_NetSetState_State_val2 = 0\<rparr>"

definition relay_NetSetState_default :: "relay_NetSetState" where
  "relay_NetSetState_default = \<lparr>relay_NetSetState_racerOid = 0,
     relay_NetSetState_state = relay_NetSetState_State_default\<rparr>"

definition AcCmdCRRelay_default :: "AcCmdCRRelay" where
  "AcCmdCRRelay_default = \<lparr>AcCmdCRRelay_fromOid = 0,
     AcCmdCRRelay_toOid = 0,
     AcCmdCRRelay_payloadType = 0,
     AcCmdCRRelay_data = [],
     AcCmdCRRelay_snapshot = relay_Snapshot_default,
     AcCmdCRRelay_syncProgress = relay_SyncProgress_default,
     AcCmdCRRelay_slidingMotion = relay_SlidingMotion_default,
     AcCmdCRRelay_spurLevel = relay_SpurLevel_default,
     AcCmdCRRelay_syncGoalIn = relay_SyncGoalIn_default,
     AcCmdCRRelay_netSetLayerAnimation = relay_NetSetLayerAnimation_default,
     AcCmdCRRelay_broadcastCharacterUid = relay_BroadcastCharacterUid_default,
     AcCmdCRRelay_resetPosOther = relay_ResetPosOther_default,
     AcCmdCRRelay_setTargetState = relay_SetTargetState_default,
     AcCmdCRRelay_netSetState = relay_NetSetState_default\<rparr>"

definition AcCmdCRRelay_Read :: "stream \<Rightarrow> exn + (AcCmdCRRelay \<times> stream)" where
  "AcCmdCRRelay_Read = build AcCmdCRRelay_default [
     fld r16 AcCmdCRRelay_fromOid_update,
     fld r16 AcCmdCRRelay_toOid_update,
     fld r16 AcCmdCRRelay_payloadType_update,
     fld (rlist_by r16 r8) AcCmdCRRelay_data_update,
     (\<lambda>c. if AcCmdCRRelay_payloadType c = 3 then nested AcCmdCRRelay_data (seqr [
         fld r16 (AcCmdCRRelay_snapshot_update \<circ> relay_Snapshot_racerOid_update),
         fld r32 (AcCmdCRRelay_snapshot_update \<circ> relay_Snapshot_networkTickCounter_update),
         fld r8 (AcCmdCRRelay_snapshot_update \<circ> relay_Snapshot_animationState_update),
         fld r8 (AcCmdCRRelay_snapshot_update \<circ> relay_Snapshot_mountState_update),
         fld (read_n 8 r8) (AcCmdCRRelay_snapshot_update \<circ> relay_Snapshot_unidentifiedData_update),
         fld Vector3_Read (AcCmdCRRelay_snapshot_update \<circ> relay_Snapshot_position_update),
         fld r32 (AcCmdCRRelay_snapshot_update \<circ> relay_Snapshot_rotation_update \<circ> relay_Snapshot_Quarternion_X_update),
         fld r32 (AcCmdCRRelay_snapshot_update \<circ> relay_Snapshot_rotation_update \<circ> relay_Snapshot_Quarternion_Y_update),
         fld r32 (AcCmdCRRelay_snapshot_update \<circ> relay_Snapshot_rotation_update \<circ> relay_Snapshot_Quarternion_Z_update),
         fld r32 (AcCmdCRRelay_snapshot_update \<circ> relay_Snapshot_rotation_update \<circ> relay_Snapshot_Quarternion_W_update),
         fld r32 (AcCmdCRRelay_snapshot_update \<circ> relay_Snapshot_forwardSpeed_update),
         fld r32 (AcCmdCRRelay_snapshot_update \<circ> relay_Snapshot_reverseSpeed_update),
         fld r32 (AcCmdCRRelay_snapshot_update \<circ> relay_Snapshot_turningRate_update)]) c
       else if AcCmdCRRelay_payloadType c = 7 then nested AcCmdCRRelay_data (seqr [
         fld r16 (AcCmdCRRelay_syncProgress_update \<circ> relay_SyncProgress_racerOid_update),
         fld r32 (AcCmdCRRelay_syncProgress_update \<circ> relay_SyncProgress_lapCount_update),
         fld r32 (AcCmdCRRelay_syncProgress_update \<circ> relay_SyncProgress_lapProgress_update)]) c
       else if AcCmdCRRelay_payloadType c \<in> {9, 10} then nested AcCmdCRRelay_data (seqr [
         (\<lambda>c. assign (if AcCmdCRRelay_payloadType c = 9
            then AcCmdCRRelay_setTargetState_update (relay_SetTargetState_targetLocked_update (\<lambda>_. True))
            else id) c),
         fld r32 (AcCmdCRRelay_setTargetState_update \<circ> relay_SetTargetState_magicEffectId_update),
         fld r16 (AcCmdCRRelay_setTargetState_update \<circ> relay_SetTargetState_invokerRacerOid_update),
         fld r16 (AcCmdCRRelay_setTargetState_update \<circ> relay_SetTargetState_targetRacerOid_update)]) c
       else if AcCmdCRRelay_payloadType c = 12 then nested AcCmdCRRelay_data (seqr [
         fld r16 (AcCmdCRRelay_netSetState_update \<circ> relay_NetSetState_racerOid_update),
         fld r32 (AcCmdCRRelay_netSetState_update \<circ> relay_NetSetState_state_update \<circ> relay_NetSetState_State_val1_update),
         fld r32 (AcCmdCRRelay_netSetState_update \<circ> relay_NetSetState_state_update \<circ> relay_NetSetState_State_val2_update)]) c
       else if AcCmdCRRelay_payloadType c = 13 then nested AcCmdCRRelay_data (seqr [
         fld r16 (AcCmdCRRelay_netSetLayerAnimation_update \<circ> relay_NetSetLayerAnimation_racerOid_update),
         fld r16 (AcCmdCRRelay_netSetLayerAnimation_update \<circ> relay_NetSetLayerAnimation_layerAnimation_update)]) c
       else if AcCmdCRRelay_payloadType c = 18 then nested AcCmdCRRelay_data (seqr [
         fld r16 (AcCmdCRRelay_syncGoalIn_update \<circ> relay_SyncGoalIn_racerOid_update),
         fld r32 (AcCmdCRRelay_syncGoalIn_update \<circ> relay_SyncGoalIn_raceTimeMs_update),
         fld r32 (AcCmdCRRelay_syncGoalIn_update \<circ> relay_SyncGoalIn_raceTrackProgress_update)]) c
       else if AcCmdCRRelay_payloadType c = 20 then nested AcCmdCRRelay_data (seqr [
         fld r16 (AcCmdCRRelay_spurLevel_update \<circ> relay_SpurLevel_racerOid_update),
         fld r8 (AcCmdCRRelay_spurLevel_update \<circ> relay_SpurLevel_successiveSpurCount_update)]) c
       else if AcCmdCRRelay_payloadType c = 22 then nested AcCmdCRRelay_data (seqr [
         fld r16 (AcCmdCRRelay_slidingMotion_update \<circ> relay_SlidingMotion_racerOid_update),
         fld rbool (AcCmdCRRelay_slidingMotion_update \<circ> relay_SlidingMotion_isSliding_update),
         fld r32 (AcCmdCRRelay_slidingMotion_update \<circ> relay_SlidingMotion_slidingAngle_update)]) c
       else if AcCmdCRRelay_payloadType c = 19 then nested AcCmdCRRelay_data (seqr [
         fld r32 (AcCmdCRRelay_broadcastCharacterUid_update \<circ> relay_BroadcastCharacterUid_selfCharacterUid_update)]) c
       else if AcCmdCRRelay_payloadType c = 21 then nested AcCmdCRRelay_data (seqr [
         fld r16 (AcCmdCRRelay_resetPosOther_update \<circ> relay_ResetPosOther_affectedOid_update),
         fld PackedVector3_Read (AcCmdCRRelay_resetPosOther_update \<circ> relay_ResetPosOther_right_update),
         fld PackedVector3_Read (AcCmdCRRelay_resetPosOther_update \<circ> relay_ResetPosOther_up_update),
         fld PackedVector3_Read (AcCmdCRRelay_resetPosOther_update \<circ> relay_ResetPosOther_forward_update),
         fld PackedVector3_Read (AcCmdCRRelay_resetPosOther_update \<circ> relay_ResetPosOther_position_update)]) c
       else ret c)]"

datatype (plugins only:) AcCmdCRRelayNotify = AcCmdCRRelayNotify
  (AcCmdCRRelayNotify_fromOid: "u16")
  (AcCmdCRRelayNotify_toOid: "u16")
  (AcCmdCRRelayNotify_payloadType: "u16")
  (AcCmdCRRelayNotify_data: "u8 list")

definition AcCmdCRRelayNotify_Write :: "AcCmdCRRelayNotify \<Rightarrow> stream \<Rightarrow> exn + stream" where
  "AcCmdCRRelayNotify_Write v = seqw [
     w16 (AcCmdCRRelayNotify_fromOid v),
     w16 (AcCmdCRRelayNotify_toOid v),
     w16 (AcCmdCRRelayNotify_payloadType v),
     w16 (of_nat (length (AcCmdCRRelayNotify_data v))),
     seqw (map w8 (AcCmdCRRelayNotify_data v))]"

definition AcCmdCRRelayNotify_Read :: "stream \<Rightarrow> exn + (AcCmdCRRelayNotify \<times> stream)" where
  "AcCmdCRRelayNotify_Read = throws (RuntimeError ''Not implemented'')"

datatype (plugins only:) AcCmdRCTeamSpurGauge = AcCmdRCTeamSpurGauge
  (AcCmdRCTeamSpurGauge_team: "u32")
  (AcCmdRCTeamSpurGauge_currentPoints: "u32")
  (AcCmdRCTeamSpurGauge_newPoints: "u32")
  (AcCmdRCTeamSpurGauge_markerSpeed: "u32")
  (AcCmdRCTeamSpurGauge_reserved1: "u16")
  (AcCmdRCTeamSpurGauge_unk5: "u32")

definition AcCmdRCTeamSpurGauge_Write :: "AcCmdRCTeamSpurGauge \<Rightarrow> stream \<Rightarrow> exn + stream" where
  "AcCmdRCTeamSpurGauge_Write v = seqw [
     w32 (AcCmdRCTeamSpurGauge_team v),
     w32 (AcCmdRCTeamSpurGauge_currentPoints v),
     w32 (AcCmdRCTeamSpurGauge_newPoints v),
     w32 (AcCmdRCTeamSpurGauge_markerSpeed v),
     w16 (AcCmdRCTeamSpurGauge_reserved1 v),
     w32 (AcCmdRCTeamSpurGauge_unk5 v)]"

definition AcCmdRCTeamSpurGauge_Read :: "stream \<Rightarrow> exn + (AcCmdRCTeamSpurGauge \<times> stream)" where
  "AcCmdRCTeamSpurGauge_Read = throws (RuntimeError ''Not implemented'')"

record AcCmdUserRaceActivateInteractiveEvent =
  AcCmdUserRaceActivateInteractiveEvent_member1 :: "u32"
  AcCmdUserRaceActivateInteractiveEvent_characterOid :: "u16"
  AcCmdUserRaceActivateInteractiveEvent_member3 :: "u64"

definition AcCmdUserRaceActivateInteractiveEvent_Write :: "AcCmdUserRaceActivateInteractiveEvent \<Rightarrow> stream \<Rightarrow> exn + stream" where
  "AcCmdUserRaceActivateInteractiveEvent_Write v = seqw [
     w32 (AcCmdUserRaceActivateInteractiveEvent_member1 v),
     w16 (AcCmdUserRaceActivateInteractiveEvent_characterOid v),
     w64 (AcCmdUserRaceActivateInteractiveEvent_member3 v)]"

definition AcCmdUserRaceActivateInteractiveEvent_default :: "AcCmdUserRaceActivateInteractiveEvent" where
  "AcCmdUserRaceActivateInteractiveEvent_default = \<lparr>AcCmdUserRaceActivateInteractiveEvent_member1 = 0,
     AcCmdUserRaceActivateInteractiveEvent_characterOid = 0,
     AcCmdUserRaceActivateInteractiveEvent_member3 = 0\<rparr>"

definition AcCmdUserRaceActivateInteractiveEvent_Read :: "stream \<Rightarrow> exn + (AcCmdUserRaceActivateInteractiveEvent \<times> stream)" where
  "AcCmdUserRaceActivateInteractiveEvent_Read = build AcCmdUserRaceActivateInteractiveEvent_default [
     fld r32 AcCmdUserRaceActivateInteractiveEvent_member1_update,
     fld r64 AcCmdUserRaceActivateInteractiveEvent_member3_update]"

datatype (plugins only:) AcCmdUserRaceActivateEvent = AcCmdUserRaceActivateEvent
  (AcCmdUserRaceActivateEvent_eventId: "u32")

definition AcCmdUserRaceActivateEvent_Write :: "AcCmdUserRaceActivateEvent \<Rightarrow> stream \<Rightarrow> exn + stream" where
  "AcCmdUserRaceActivateEvent_Write v = seqw [
     w32 (AcCmdUserRaceActivateEvent_eventId v)]"

definition AcCmdUserRaceActivateEvent_Read :: "stream \<Rightarrow> exn + (AcCmdUserRaceActivateEvent \<times> stream)" where
  "AcCmdUserRaceActivateEvent_Read =
     rd r32 (\<lambda>eventId'.
     ret (AcCmdUserRaceActivateEvent eventId'))"

datatype (plugins only:) AcCmdUserRaceActivateEventNotify = AcCmdUserRaceActivateEventNotify
  (AcCmdUserRaceActivateEventNotify_eventId: "u32")
  (AcCmdUserRaceActivateEventNotify_characterOid: "u16")

definition AcCmdUserRaceActivateEventNotify_Write :: "AcCmdUserRaceActivateEventNotify \<Rightarrow> stream \<Rightarrow> exn + stream" where
  "AcCmdUserRaceActivateEventNotify_Write v = seqw [
     w32 (AcCmdUserRaceActivateEventNotify_eventId v),
     w16 (AcCmdUserRaceActivateEventNotify_characterOid v)]"

definition AcCmdUserRaceActivateEventNotify_Read :: "stream \<Rightarrow> exn + (AcCmdUserRaceActivateEventNotify \<times> stream)" where
  "AcCmdUserRaceActivateEventNotify_Read =
     rd r32 (\<lambda>eventId'.
     rd r16 (\<lambda>characterOid'.
     ret (AcCmdUserRaceActivateEventNotify eventId' characterOid')))"

datatype (plugins only:) AcCmdUserRaceDeactivateEvent = AcCmdUserRaceDeactivateEvent
  (AcCmdUserRaceDeactivateEvent_eventId: "u32")

definition AcCmdUserRaceDeactivateEvent_Write :: "AcCmdUserRaceDeactivateEvent \<Rightarrow> stream \<Rightarrow> exn + stream" where
  "AcCmdUserRaceDeactivateEvent_Write v = seqw [
     w32 (AcCmdUserRaceDeactivateEvent_eventId v)]"

definition AcCmdUserRaceDeactivateEvent_Read :: "stream \<Rightarrow> exn + (AcCmdUserRaceDeactivateEvent \<times> stream)" where
  "AcCmdUserRaceDeactivateEvent_Read =
     rd r32 (\<lambda>eventId'.
     ret (AcCmdUserRaceDeactivateEvent eventId'))"

datatype (plugins only:) AcCmdUserRaceDeactivateEventNotify = AcCmdUserRaceDeactivateEventNotify
  (AcCmdUserRaceDeactivateEventNotify_eventId: "u32")
  (AcCmdUserRaceDeactivateEventNotify_characterOid: "u16")

definition AcCmdUserRaceDeactivateEventNotify_Write :: "AcCmdUserRaceDeactivateEventNotify \<Rightarrow> stream \<Rightarrow> exn + stream" where
  "AcCmdUserRaceDeactivateEventNotify_Write v = seqw [
     w32 (AcCmdUserRaceDeactivateEventNotify_eventId v),
     w16 (AcCmdUserRaceDeactivateEventNotify_characterOid v)]"

definition AcCmdUserRaceDeactivateEventNotify_Read :: "stream \<Rightarrow> exn + (AcCmdUserRaceDeactivateEventNotify \<times> stream)" where
  "AcCmdUserRaceDeactivateEventNotify_Read =
     rd r32 (\<lambda>eventId'.
     rd r16 (\<lambda>characterOid'.
     ret (AcCmdUserRaceDeactivateEventNotify eventId' characterOid')))"

record AcCmdCRUseMagicItem_IceWallProperties =
  AcCmdCRUseMagicItem_IceWallProperties_member1 :: "u32 list"
  AcCmdCRUseMagicItem_IceWallProperties_member2 :: "u32 list"

record AcCmdCRUseMagicItem_Optional3 =
  AcCmdCRUseMagicItem_Optional3_member1 :: "u32"
  AcCmdCRUseMagicItem_Optional3_member2 :: "u32"

record AcCmdCRUseMagicItem =
  AcCmdCRUseMagicItem_characterOid :: "u16"
  AcCmdCRUseMagicItem_magicItemId :: "u32"
  AcCmdCRUseMagicItem_iceWallProperties :: "AcCmdCRUseMagicItem_IceWallProperties option"
  AcCmdCRUseMagicItem_targetList :: "u16 list"
  AcCmdCRUseMagicItem_unk3 :: "u32"
  AcCmdCRUseMagicItem_optional3 :: "AcCmdCRUseMagicItem_Optional3 option"

definition AcCmdCRUseMagicItem_Write :: "AcCmdCRUseMagicItem \<Rightarrow> stream \<Rightarrow> exn + stream" where
  "AcCmdCRUseMagicItem_Write _ = throws (RuntimeError ''Not implemented'')"

definition AcCmdCRUseMagicItem_default :: "AcCmdCRUseMagicItem" where
  "AcCmdCRUseMagicItem_default = \<lparr>AcCmdCRUseMagicItem_characterOid = 0,
     AcCmdCRUseMagicItem_magicItemId = 0,
     AcCmdCRUseMagicItem_iceWallProperties = None,
     AcCmdCRUseMagicItem_targetList = [],
     AcCmdCRUseMagicItem_unk3 = 0,
     AcCmdCRUseMagicItem_optional3 = None\<rparr>"

definition AcCmdCRUseMagicItem_Read :: "stream \<Rightarrow> exn + (AcCmdCRUseMagicItem \<times> stream)" where
  "AcCmdCRUseMagicItem_Read = build AcCmdCRUseMagicItem_default [
     fld r16 AcCmdCRUseMagicItem_characterOid_update,
     fld r32 AcCmdCRUseMagicItem_magicItemId_update,
     (\<lambda>c. if AcCmdCRUseMagicItem_magicItemId c \<in> {10, 11}
       then fld (emplace (rd (read_n 3 r32) (\<lambda>member1'. rd (read_n 3 r32) (\<lambda>member2'.
             ret \<lparr>AcCmdCRUseMagicItem_IceWallProperties_member1 = member1',
               AcCmdCRUseMagicItem_IceWallProperties_member2 = member2'\<rparr>)))) AcCmdCRUseMagicItem_iceWallProperties_update c
       else ret c),
     (\<lambda>c. if AcCmdCRUseMagicItem_magicItemId c \<in> {10, 11, 2, 3, 12, 13, 14, 15, 16, 17, 18, 19}
       then fld (rlist_by r8 r16) AcCmdCRUseMagicItem_targetList_update c
       else ret c),
     fld r32 AcCmdCRUseMagicItem_unk3_update,
     (\<lambda>c. if AcCmdCRUseMagicItem_magicItemId c \<in> {2, 3, 14, 15, 16, 17, 18, 19}
       then fld (emplace (rd r32 (\<lambda>member1'. rd r32 (\<lambda>member2'.
             ret \<lparr>AcCmdCRUseMagicItem_Optional3_member1 = member1',
               AcCmdCRUseMagicItem_Optional3_member2 = member2'\<rparr>)))) AcCmdCRUseMagicItem_optional3_update c
       else ret c)]"

type_synonym AcCmdCRUseMagicItemCancel = unit

definition AcCmdCRUseMagicItemCancel_Write :: "AcCmdCRUseMagicItemCancel \<Rightarrow> stream \<Rightarrow> exn + stream" where
  "AcCmdCRUseMagicItemCancel_Write _ = seqw []"

definition AcCmdCRUseMagicItemCancel_Read :: "stream \<Rightarrow> exn + (AcCmdCRUseMagicItemCancel \<times> stream)" where
  "AcCmdCRUseMagicItemCancel_Read = throws (RuntimeError ''Not implemented'')"

datatype (plugins only:) AcCmdCRUseMagicItemOK = AcCmdCRUseMagicItemOK
  (AcCmdCRUseMagicItemOK_characterOid: "u16")
  (AcCmdCRUseMagicItemOK_magicItemId: "u32")
  (AcCmdCRUseMagicItemOK_iceWallProperties: "AcCmdCRUseMagicItem_IceWallProperties option")
  (AcCmdCRUseMagicItemOK_targetList: "u16 list")
  (AcCmdCRUseMagicItemOK_effectInstanceId: "u16")
  (AcCmdCRUseMagicItemOK_unk4: "u32")

definition AcCmdCRUseMagicItemOK_Write :: "AcCmdCRUseMagicItemOK \<Rightarrow> stream \<Rightarrow> exn + stream" where
  "AcCmdCRUseMagicItemOK_Write v = seqw [
     w16 (AcCmdCRUseMagicItemOK_characterOid v),
     w32 (AcCmdCRUseMagicItemOK_magicItemId v),
     (if AcCmdCRUseMagicItemOK_magicItemId v \<in> {10, 11} then seqw [
            wopt (\<lambda>x. seqw (map w32 (AcCmdCRUseMagicItem_IceWallProperties_member1 x))) (AcCmdCRUseMagicItemOK_iceWallProperties v),
            wopt (\<lambda>x. seqw (map w32 (AcCmdCRUseMagicItem_IceWallProperties_member2 x))) (AcCmdCRUseMagicItemOK_iceWallProperties v),
            w8 (of_nat (length (AcCmdCRUseMagicItemOK_targetList v))),
            seqw (map w16 (AcCmdCRUseMagicItemOK_targetList v))]
      else if AcCmdCRUseMagicItemOK_magicItemId v \<in> {2, 3, 12, 13, 14, 15, 16, 17, 18, 19} then seqw [
            w8 (of_nat (length (AcCmdCRUseMagicItemOK_targetList v))),
            seqw (map w16 (AcCmdCRUseMagicItemOK_targetList v))]
      else seqw []),
     w16 (AcCmdCRUseMagicItemOK_effectInstanceId v),
     w32 (AcCmdCRUseMagicItemOK_unk4 v)]"

definition AcCmdCRUseMagicItemOK_Read :: "stream \<Rightarrow> exn + (AcCmdCRUseMagicItemOK \<times> stream)" where
  "AcCmdCRUseMagicItemOK_Read = throws (RuntimeError ''Not implemented'')"

record AcCmdCRUseMagicItemNotify =
  AcCmdCRUseMagicItemNotify_characterOid :: "u16"
  AcCmdCRUseMagicItemNotify_magicItemId :: "u32"
  AcCmdCRUseMagicItemNotify_iceWallProperties :: "AcCmdCRUseMagicItem_IceWallProperties option"
  AcCmdCRUseMagicItemNotify_targetList :: "u16 list"
  AcCmdCRUseMagicItemNotify_effectInstanceId :: "u16"
  AcCmdCRUseMagicItemNotify_unk4 :: "u32"

definition AcCmdCRUseMagicItemNotify_Write :: "AcCmdCRUseMagicItemNotify \<Rightarrow> stream \<Rightarrow> exn + stream" where
  "AcCmdCRUseMagicItemNotify_Write v = seqw [
     w16 (AcCmdCRUseMagicItemNotify_characterOid v),
     w32 (AcCmdCRUseMagicItemNotify_magicItemId v),
     (if AcCmdCRUseMagicItemNotify_magicItemId v \<in> {10, 11} then seqw [
            wopt (\<lambda>x. seqw (map w32 (AcCmdCRUseMagicItem_IceWallProperties_member1 x))) (AcCmdCRUseMagicItemNotify_iceWallProperties v),
            wopt (\<lambda>x. seqw (map w32 (AcCmdCRUseMagicItem_IceWallProperties_member2 x))) (AcCmdCRUseMagicItemNotify_iceWallProperties v),
            w8 (of_nat (length (AcCmdCRUseMagicItemNotify_targetList v))),
            seqw (map w16 (AcCmdCRUseMagicItemNotify_targetList v))]
      else if AcCmdCRUseMagicItemNotify_magicItemId v \<in> {2, 3, 12, 13, 14, 15, 16, 17, 18, 19} then seqw [
            w8 (of_nat (length (AcCmdCRUseMagicItemNotify_targetList v))),
            seqw (map w16 (AcCmdCRUseMagicItemNotify_targetList v))]
      else seqw []),
     w16 (AcCmdCRUseMagicItemNotify_effectInstanceId v),
     w32 (AcCmdCRUseMagicItemNotify_unk4 v)]"

definition AcCmdCRUseMagicItemNotify_default :: "AcCmdCRUseMagicItemNotify" where
  "AcCmdCRUseMagicItemNotify_default = \<lparr>AcCmdCRUseMagicItemNotify_characterOid = 0,
     AcCmdCRUseMagicItemNotify_magicItemId = 0,
     AcCmdCRUseMagicItemNotify_iceWallProperties = None,
     AcCmdCRUseMagicItemNotify_targetList = [],
     AcCmdCRUseMagicItemNotify_effectInstanceId = 0,
     AcCmdCRUseMagicItemNotify_unk4 = 0\<rparr>"

definition AcCmdCRUseMagicItemNotify_Read :: "stream \<Rightarrow> exn + (AcCmdCRUseMagicItemNotify \<times> stream)" where
  "AcCmdCRUseMagicItemNotify_Read = build AcCmdCRUseMagicItemNotify_default [
     fld r16 AcCmdCRUseMagicItemNotify_characterOid_update,
     fld r32 AcCmdCRUseMagicItemNotify_magicItemId_update,
     (\<lambda>c. if AcCmdCRUseMagicItemNotify_magicItemId c \<in> {10, 11}
       then fld (emplace (rd (read_n 3 r32) (\<lambda>member1'. rd (read_n 3 r32) (\<lambda>member2'.
             ret \<lparr>AcCmdCRUseMagicItem_IceWallProperties_member1 = member1',
               AcCmdCRUseMagicItem_IceWallProperties_member2 = member2'\<rparr>)))) AcCmdCRUseMagicItemNotify_iceWallProperties_update c
       else ret c),
     (\<lambda>c. if AcCmdCRUseMagicItemNotify_magicItemId c \<in> {10, 11, 2, 3, 12, 13, 14, 15, 17, 18, 19}
       then fld (rlist_by r8 r16) AcCmdCRUseMagicItemNotify_targetList_update c
       else ret c),
     fld r16 AcCmdCRUseMagicItemNotify_effectInstanceId_update,
     fld r32 AcCmdCRUseMagicItemNotify_unk4_update]"

datatype (plugins only:) AcCmdCRUseItemSlotOK = AcCmdCRUseItemSlotOK
  (AcCmdCRUseItemSlotOK_magicItemId: "u32")
  (AcCmdCRUseItemSlotOK_characterOid: "u16")

definition AcCmdCRUseItemSlotOK_Write :: "AcCmdCRUseItemSlotOK \<Rightarrow> stream \<Rightarrow> exn + stream" where
  "AcCmdCRUseItemSlotOK_Write v = seqw [
     w32 (AcCmdCRUseItemSlotOK_magicItemId v),
     w16 (AcCmdCRUseItemSlotOK_characterOid v)]"

definition AcCmdCRUseItemSlotOK_Read :: "stream \<Rightarrow> exn + (AcCmdCRUseItemSlotOK \<times> stream)" where
  "AcCmdCRUseItemSlotOK_Read = throws (RuntimeError ''Not implemented'')"

datatype (plugins only:) AcCmdCRUseItemSlotNotify = AcCmdCRUseItemSlotNotify
  (AcCmdCRUseItemSlotNotify_magicItemId: "u32")
  (AcCmdCRUseItemSlotNotify_unk1: "u16")
  (AcCmdCRUseItemSlotNotify_characterOid: "u16")

definition AcCmdCRUseItemSlotNotify_Write :: "AcCmdCRUseItemSlotNotify \<Rightarrow> stream \<Rightarrow> exn + stream" where
  "AcCmdCRUseItemSlotNotify_Write v = seqw [
     w32 (AcCmdCRUseItemSlotNotify_magicItemId v),
     w16 (AcCmdCRUseItemSlotNotify_unk1 v),
     w16 (AcCmdCRUseItemSlotNotify_characterOid v)]"

datatype (plugins only:) AcCmdGameRaceItemSpawn = AcCmdGameRaceItemSpawn
  (AcCmdGameRaceItemSpawn_itemId: "u32")
  (AcCmdGameRaceItemSpawn_itemType: "u32")
  (AcCmdGameRaceItemSpawn_position: "u32 list")
  (AcCmdGameRaceItemSpawn_orientation: "u32 list")
  (AcCmdGameRaceItemSpawn_sizeLevel: "u8")
  (AcCmdGameRaceItemSpawn_removeDelay: "u32")

definition AcCmdGameRaceItemSpawn_Write :: "AcCmdGameRaceItemSpawn \<Rightarrow> stream \<Rightarrow> exn + stream" where
  "AcCmdGameRaceItemSpawn_Write v = seqw [
     w32 (AcCmdGameRaceItemSpawn_itemId v),
     w32 (AcCmdGameRaceItemSpawn_itemType v),
     seqw (map w32 (AcCmdGameRaceItemSpawn_position v)),
     seqw (map w32 (AcCmdGameRaceItemSpawn_orientation v)),
     w8 (AcCmdGameRaceItemSpawn_sizeLevel v),
     w32 (AcCmdGameRaceItemSpawn_removeDelay v)]"

definition AcCmdGameRaceItemSpawn_Read :: "stream \<Rightarrow> exn + (AcCmdGameRaceItemSpawn \<times> stream)" where
  "AcCmdGameRaceItemSpawn_Read = throws (RuntimeError ''Not implemented'')"

datatype (plugins only:) AcCmdUserRaceItemGet = AcCmdUserRaceItemGet
  (AcCmdUserRaceItemGet_characterOid: "u16")
  (AcCmdUserRaceItemGet_itemDeckId: "u16")
  (AcCmdUserRaceItemGet_unk3: "u32")

definition AcCmdUserRaceItemGet_Write :: "AcCmdUserRaceItemGet \<Rightarrow> stream \<Rightarrow> exn + stream" where
  "AcCmdUserRaceItemGet_Write _ = throws (RuntimeError ''Not implemented'')"

definition AcCmdUserRaceItemGet_Read :: "stream \<Rightarrow> exn + (AcCmdUserRaceItemGet \<times> stream)" where
  "AcCmdUserRaceItemGet_Read =
     rd r16 (\<lambda>characterOid'.
     rd r16 (\<lambda>itemDeckId'.
     rd r32 (\<lambda>unk3'.
     ret (AcCmdUserRaceItemGet characterOid' itemDeckId' unk3'))))"

datatype (plugins only:) AcCmdGameRaceItemGet = AcCmdGameRaceItemGet
  (AcCmdGameRaceItemGet_characterOid: "u16")
  (AcCmdGameRaceItemGet_itemId: "u32")
  (AcCmdGameRaceItemGet_itemType: "u32")

definition AcCmdGameRaceItemGet_Write :: "AcCmdGameRaceItemGet \<Rightarrow> stream \<Rightarrow> exn + stream" where
  "AcCmdGameRaceItemGet_Write v = seqw [
     w16 (AcCmdGameRaceItemGet_characterOid v),
     w32 (AcCmdGameRaceItemGet_itemId v),
     w32 (AcCmdGameRaceItemGet_itemType v)]"

definition AcCmdGameRaceItemGet_Read :: "stream \<Rightarrow> exn + (AcCmdGameRaceItemGet \<times> stream)" where
  "AcCmdGameRaceItemGet_Read =
     rd r16 (\<lambda>characterOid'.
     rd r32 (\<lambda>itemId'.
     rd r32 (\<lambda>itemType'.
     ret (AcCmdGameRaceItemGet characterOid' itemId' itemType'))))"

datatype (plugins only:) AcCmdCRStartMagicTarget = AcCmdCRStartMagicTarget
  (AcCmdCRStartMagicTarget_effectInstanceId: "u16")
  (AcCmdCRStartMagicTarget_casterOid: "u16")
  (AcCmdCRStartMagicTarget_targetOid: "u16")
  (AcCmdCRStartMagicTarget_targetOid2: "u16")

definition AcCmdCRStartMagicTarget_Read :: "stream \<Rightarrow> exn + (AcCmdCRStartMagicTarget \<times> stream)" where
  "AcCmdCRStartMagicTarget_Read =
     rd r16 (\<lambda>effectInstanceId'.
     rd r16 (\<lambda>casterOid'.
     rd r16 (\<lambda>targetOid'.
     rd r16 (\<lambda>targetOid2'.
     ret (AcCmdCRStartMagicTarget effectInstanceId' casterOid' targetOid' targetOid2')))))"

datatype (plugins only:) AcCmdCRChangeMagicTarget = AcCmdCRChangeMagicTarget
  (AcCmdCRChangeMagicTarget_effectInstanceId: "u16")
  (AcCmdCRChangeMagicTarget_casterOid: "u16")
  (AcCmdCRChangeMagicTarget_targetOid: "u16")
  (AcCmdCRChangeMagicTarget_targetOid2: "u16")

definition AcCmdCRChangeMagicTarget_Read :: "stream \<Rightarrow> exn + (AcCmdCRChangeMagicTarget \<times> stream)" where
  "AcCmdCRChangeMagicTarget_Read =
     rd r16 (\<lambda>effectInstanceId'.
     rd r16 (\<lambda>casterOid'.
     rd r16 (\<lambda>targetOid'.
     rd r16 (\<lambda>targetOid2'.
     ret (AcCmdCRChangeMagicTarget effectInstanceId' casterOid' targetOid' targetOid2')))))"

datatype (plugins only:) AcCmdCRChangeMagicTargetNotify = AcCmdCRChangeMagicTargetNotify
  (AcCmdCRChangeMagicTargetNotify_effectInstanceId: "u16")
  (AcCmdCRChangeMagicTargetNotify_casterOid: "u16")
  (AcCmdCRChangeMagicTargetNotify_targetOid: "u16")
  (AcCmdCRChangeMagicTargetNotify_targetOid2: "u16")

definition AcCmdCRChangeMagicTargetNotify_Write :: "AcCmdCRChangeMagicTargetNotify \<Rightarrow> stream \<Rightarrow> exn + stream" where
  "AcCmdCRChangeMagicTargetNotify_Write v = seqw [
     w16 (AcCmdCRChangeMagicTargetNotify_effectInstanceId v),
     w16 (AcCmdCRChangeMagicTargetNotify_casterOid v),
     w16 (AcCmdCRChangeMagicTargetNotify_targetOid v),
     w16 (AcCmdCRChangeMagicTargetNotify_targetOid2 v)]"

definition AcCmdCRChangeMagicTargetNotify_Read :: "stream \<Rightarrow> exn + (AcCmdCRChangeMagicTargetNotify \<times> stream)" where
  "AcCmdCRChangeMagicTargetNotify_Read =
     rd r16 (\<lambda>effectInstanceId'.
     rd r16 (\<lambda>casterOid'.
     rd r16 (\<lambda>targetOid'.
     rd r16 (\<lambda>targetOid2'.
     ret (AcCmdCRChangeMagicTargetNotify effectInstanceId' casterOid' targetOid' targetOid2')))))"

datatype (plugins only:) AcCmdCRChangeMagicTargetOK = AcCmdCRChangeMagicTargetOK
  (AcCmdCRChangeMagicTargetOK_effectInstanceId: "u16")
  (AcCmdCRChangeMagicTargetOK_casterOid: "u16")
  (AcCmdCRChangeMagicTargetOK_targetOid: "u16")
  (AcCmdCRChangeMagicTargetOK_targetOid2: "u16")

definition AcCmdCRChangeMagicTargetOK_Write :: "AcCmdCRChangeMagicTargetOK \<Rightarrow> stream \<Rightarrow> exn + stream" where
  "AcCmdCRChangeMagicTargetOK_Write v = seqw [
     w16 (AcCmdCRChangeMagicTargetOK_effectInstanceId v),
     w16 (AcCmdCRChangeMagicTargetOK_casterOid v),
     w16 (AcCmdCRChangeMagicTargetOK_targetOid v),
     w16 (AcCmdCRChangeMagicTargetOK_targetOid2 v)]"

datatype (plugins only:) AcCmdCRChangeMagicTargetCancel = AcCmdCRChangeMagicTargetCancel
  (AcCmdCRChangeMagicTargetCancel_effectInstanceId: "u16")
  (AcCmdCRChangeMagicTargetCancel_casterOid: "u16")
  (AcCmdCRChangeMagicTargetCancel_targetOid: "u16")
  (AcCmdCRChangeMagicTargetCancel_targetOid2: "u16")

definition AcCmdCRChangeMagicTargetCancel_Write :: "AcCmdCRChangeMagicTargetCancel \<Rightarrow> stream \<Rightarrow> exn + stream" where
  "AcCmdCRChangeMagicTargetCancel_Write v = seqw [
     w16 (AcCmdCRChangeMagicTargetCancel_effectInstanceId v),
     w16 (AcCmdCRChangeMagicTargetCancel_casterOid v),
     w16 (AcCmdCRChangeMagicTargetCancel_targetOid v),
     w16 (AcCmdCRChangeMagicTargetCancel_targetOid2 v)]"

datatype (plugins only:) AcCmdRCRemoveMagicTarget = AcCmdRCRemoveMagicTarget
  (AcCmdRCRemoveMagicTarget_effectInstanceId: "u16")
  (AcCmdRCRemoveMagicTarget_casterOid: "u16")
  (AcCmdRCRemoveMagicTarget_targetOid: "u16")
  (AcCmdRCRemoveMagicTarget_targetOid2: "u16")

definition AcCmdRCRemoveMagicTarget_Write :: "AcCmdRCRemoveMagicTarget \<Rightarrow> stream \<Rightarrow> exn + stream" where
  "AcCmdRCRemoveMagicTarget_Write v = seqw [
     w16 (AcCmdRCRemoveMagicTarget_effectInstanceId v),
     w16 (AcCmdRCRemoveMagicTarget_casterOid v),
     w16 (AcCmdRCRemoveMagicTarget_targetOid v),
     w16 (AcCmdRCRemoveMagicTarget_targetOid2 v)]"

datatype (plugins only:) AcCmdRCMagicExpire = AcCmdRCMagicExpire
  (AcCmdRCMagicExpire_magicType: "u32")
  (AcCmdRCMagicExpire_firstObstacleInstanceId: "u16")
  (AcCmdRCMagicExpire_obstacleInstanceCount: "u16")
  (AcCmdRCMagicExpire_breakdown: "u8")

definition AcCmdRCMagicExpire_Write :: "AcCmdRCMagicExpire \<Rightarrow> stream \<Rightarrow> exn + stream" where
  "AcCmdRCMagicExpire_Write v = seqw [
     w32 (AcCmdRCMagicExpire_magicType v),
     w16 (AcCmdRCMagicExpire_firstObstacleInstanceId v),
     w16 (AcCmdRCMagicExpire_obstacleInstanceCount v),
     w8 (AcCmdRCMagicExpire_breakdown v)]"

datatype (plugins only:) AcCmdRCTriggerActivate = AcCmdRCTriggerActivate
  (AcCmdRCTriggerActivate_characterOid: "u16")
  (AcCmdRCTriggerActivate_triggerType: "u32")
  (AcCmdRCTriggerActivate_triggerValue: "u32")
  (AcCmdRCTriggerActivate_duration: "u32")

definition AcCmdRCTriggerActivate_Write :: "AcCmdRCTriggerActivate \<Rightarrow> stream \<Rightarrow> exn + stream" where
  "AcCmdRCTriggerActivate_Write v = seqw [
     w16 (AcCmdRCTriggerActivate_characterOid v),
     w32 (AcCmdRCTriggerActivate_triggerType v),
     w32 (AcCmdRCTriggerActivate_triggerValue v),
     w32 (AcCmdRCTriggerActivate_duration v)]"

definition AcCmdRCTriggerActivate_Read :: "stream \<Rightarrow> exn + (AcCmdRCTriggerActivate \<times> stream)" where
  "AcCmdRCTriggerActivate_Read =
     rd r16 (\<lambda>characterOid'.
     rd r32 (\<lambda>triggerType'.
     rd r32 (\<lambda>triggerValue'.
     rd r32 (\<lambda>duration'.
     ret (AcCmdRCTriggerActivate characterOid' triggerType' triggerValue' duration')))))"

datatype (plugins only:) AcCmdCRActivateSkillEffect = AcCmdCRActivateSkillEffect
  (AcCmdCRActivateSkillEffect_targetOid: "u16")
  (AcCmdCRActivateSkillEffect_effectId: "u32")
  (AcCmdCRActivateSkillEffect_attackerOid: "u16")
  (AcCmdCRActivateSkillEffect_effectInstanceId: "u16")
  (AcCmdCRActivateSkillEffect_unk2: "u32")

definition AcCmdCRActivateSkillEffect_Write :: "AcCmdCRActivateSkillEffect \<Rightarrow> stream \<Rightarrow> exn + stream" where
  "AcCmdCRActivateSkillEffect_Write v = seqw [
     w16 (AcCmdCRActivateSkillEffect_targetOid v),
     w32 (AcCmdCRActivateSkillEffect_effectId v),
     w16 (AcCmdCRActivateSkillEffect_attackerOid v),
     w16 (AcCmdCRActivateSkillEffect_effectInstanceId v),
     w32 (AcCmdCRActivateSkillEffect_unk2 v)]"

definition AcCmdCRActivateSkillEffect_Read :: "stream \<Rightarrow> exn + (AcCmdCRActivateSkillEffect \<times> stream)" where
  "AcCmdCRActivateSkillEffect_Read =
     rd r16 (\<lambda>targetOid'.
     rd r32 (\<lambda>effectId'.
     rd r16 (\<lambda>attackerOid'.
     rd r16 (\<lambda>effectInstanceId'.
     rd r32 (\<lambda>unk2'.
     ret (AcCmdCRActivateSkillEffect targetOid' effectId' attackerOid' effectInstanceId' unk2'))))))"

record AcCmdRCAddSkillEffect_ShieldEffect =
  AcCmdRCAddSkillEffect_ShieldEffect_unk0 :: "u32"
  AcCmdRCAddSkillEffect_ShieldEffect_unk1 :: "u32"

record AcCmdRCAddSkillEffect =
  AcCmdRCAddSkillEffect_characterOid :: "u16"
  AcCmdRCAddSkillEffect_effectId :: "u32"
  AcCmdRCAddSkillEffect_targetOid :: "u16"
  AcCmdRCAddSkillEffect_attackerOid :: "u16"
  AcCmdRCAddSkillEffect_unk2 :: "u16"
  AcCmdRCAddSkillEffect_unk3 :: "u32"
  AcCmdRCAddSkillEffect_shieldEffect :: "AcCmdRCAddSkillEffect_ShieldEffect option"
  AcCmdRCAddSkillEffect_boostEffectMs :: "u32 option"

definition AcCmdRCAddSkillEffect_Write :: "AcCmdRCAddSkillEffect \<Rightarrow> stream \<Rightarrow> exn + stream" where
  "AcCmdRCAddSkillEffect_Write v = seqw [
     w16 (AcCmdRCAddSkillEffect_characterOid v),
     w32 (AcCmdRCAddSkillEffect_effectId v),
     w16 (AcCmdRCAddSkillEffect_targetOid v),
     w16 (AcCmdRCAddSkillEffect_attackerOid v),
     w16 (AcCmdRCAddSkillEffect_unk2 v),
     w32 (AcCmdRCAddSkillEffect_unk3 v),
     (if AcCmdRCAddSkillEffect_effectId v \<in> {2, 3} then seqw [
            wopt (\<lambda>x. w32 (AcCmdRCAddSkillEffect_ShieldEffect_unk0 x)) (AcCmdRCAddSkillEffect_shieldEffect v),
            wopt (\<lambda>x. w32 (AcCmdRCAddSkillEffect_ShieldEffect_unk1 x)) (AcCmdRCAddSkillEffect_shieldEffect v)]
      else if AcCmdRCAddSkillEffect_effectId v \<in> {5, 6, 7, 22, 23} then wopt (\<lambda>x. w32 x) (AcCmdRCAddSkillEffect_boostEffectMs v)
      else seqw [])]"

definition AcCmdRCAddSkillEffect_default :: "AcCmdRCAddSkillEffect" where
  "AcCmdRCAddSkillEffect_default = \<lparr>AcCmdRCAddSkillEffect_characterOid = 0,
     AcCmdRCAddSkillEffect_effectId = 0,
     AcCmdRCAddSkillEffect_targetOid = 0,
     AcCmdRCAddSkillEffect_attackerOid = 0,
     AcCmdRCAddSkillEffect_unk2 = 0,
     AcCmdRCAddSkillEffect_unk3 = 0,
     AcCmdRCAddSkillEffect_shieldEffect = None,
     AcCmdRCAddSkillEffect_boostEffectMs = None\<rparr>"

definition AcCmdRCAddSkillEffect_Read :: "stream \<Rightarrow> exn + (AcCmdRCAddSkillEffect \<times> stream)" where
  "AcCmdRCAddSkillEffect_Read = build AcCmdRCAddSkillEffect_default [
     fld r16 AcCmdRCAddSkillEffect_characterOid_update,
     fld r32 AcCmdRCAddSkillEffect_effectId_update,
     fld r16 AcCmdRCAddSkillEffect_targetOid_update,
     fld r16 AcCmdRCAddSkillEffect_attackerOid_update,
     fld r16 AcCmdRCAddSkillEffect_unk2_update,
     fld r32 AcCmdRCAddSkillEffect_unk3_update,
     (\<lambda>c. if AcCmdRCAddSkillEffect_effectId c \<in> {2, 3}
       then fld (emplace (rd r32 (\<lambda>unk0'. rd r32 (\<lambda>unk1'.
             ret \<lparr>AcCmdRCAddSkillEffect_ShieldEffect_unk0 = unk0', AcCmdRCAddSkillEffect_ShieldEffect_unk1 = unk1'\<rparr>)))) AcCmdRCAddSkillEffect_shieldEffect_update c
       else if AcCmdRCAddSkillEffect_effectId c \<in> {5, 6, 7, 22, 23}
       then fld (emplace r32) AcCmdRCAddSkillEffect_boostEffectMs_update c
       else ret c)]"

datatype (plugins only:) AcCmdRCRemoveSkillEffect = AcCmdRCRemoveSkillEffect
  (AcCmdRCRemoveSkillEffect_characterOid: "u16")
  (AcCmdRCRemoveSkillEffect_effectId: "u32")
  (AcCmdRCRemoveSkillEffect_targetOid: "u16")
  (AcCmdRCRemoveSkillEffect_unk1: "u8")

definition AcCmdRCRemoveSkillEffect_Write :: "AcCmdRCRemoveSkillEffect \<Rightarrow> stream \<Rightarrow> exn + stream" where
  "AcCmdRCRemoveSkillEffect_Write v = seqw [
     w16 (AcCmdRCRemoveSkillEffect_characterOid v),
     w32 (AcCmdRCRemoveSkillEffect_effectId v),
     w16 (AcCmdRCRemoveSkillEffect_targetOid v),
     w8 (AcCmdRCRemoveSkillEffect_unk1 v)]"

definition AcCmdRCRemoveSkillEffect_Read :: "stream \<Rightarrow> exn + (AcCmdRCRemoveSkillEffect \<times> stream)" where
  "AcCmdRCRemoveSkillEffect_Read =
     rd r16 (\<lambda>characterOid'.
     rd r32 (\<lambda>effectId'.
     rd r16 (\<lambda>targetOid'.
     rd r8 (\<lambda>unk1'.
     ret (AcCmdRCRemoveSkillEffect characterOid' effectId' targetOid' unk1')))))"

record AcCmdCRChangeSkillCardPresetID =
  AcCmdCRChangeSkillCardPresetID_setId :: "u8"
  AcCmdCRChangeSkillCardPresetID_gamemode :: "u8"

definition AcCmdCRChangeSkillCardPresetID_Write :: "AcCmdCRChangeSkillCardPresetID \<Rightarrow> stream \<Rightarrow> exn + stream" where
  "AcCmdCRChangeSkillCardPresetID_Write _ = throws (RuntimeError ''Not implemented'')"

definition AcCmdCRChangeSkillCardPresetID_default :: "AcCmdCRChangeSkillCardPresetID" where
  "AcCmdCRChangeSkillCardPresetID_default = \<lparr>AcCmdCRChangeSkillCardPresetID_setId = 0,
     AcCmdCRChangeSkillCardPresetID_gamemode = 0\<rparr>"

definition AcCmdCRChangeSkillCardPresetID_Read :: "stream \<Rightarrow> exn + (AcCmdCRChangeSkillCardPresetID \<times> stream)" where
  "AcCmdCRChangeSkillCardPresetID_Read = build AcCmdCRChangeSkillCardPresetID_default [
     fld r8 AcCmdCRChangeSkillCardPresetID_setId_update,
     fld (rd r32 (\<lambda>commandGameMode. ret (ucast commandGameMode))) AcCmdCRChangeSkillCardPresetID_gamemode_update]"

datatype (plugins only:) AcCmdRCCreateObstacle = AcCmdRCCreateObstacle
  (AcCmdRCCreateObstacle_unk0: "u16")
  (AcCmdRCCreateObstacle_unk1: "u16")
  (AcCmdRCCreateObstacle_unk2: "u16")
  (AcCmdRCCreateObstacle_position: "u32 list")

definition AcCmdRCCreateObstacle_Write :: "AcCmdRCCreateObstacle \<Rightarrow> stream \<Rightarrow> exn + stream" where
  "AcCmdRCCreateObstacle_Write v = seqw [
     w16 (AcCmdRCCreateObstacle_unk0 v),
     w16 (AcCmdRCCreateObstacle_unk1 v),
     w16 (AcCmdRCCreateObstacle_unk2 v),
     seqw (map w32 (AcCmdRCCreateObstacle_position v))]"

datatype (plugins only:) AcCmdRCObstacleStatus = AcCmdRCObstacleStatus
  (AcCmdRCObstacleStatus_unk0: "u8")
  (AcCmdRCObstacleStatus_deactivate: "u32")
  (AcCmdRCObstacleStatus_unk2: "u32")

definition AcCmdRCObstacleStatus_Write :: "AcCmdRCObstacleStatus \<Rightarrow> stream \<Rightarrow> exn + stream" where
  "AcCmdRCObstacleStatus_Write v = seqw [
     w8 (AcCmdRCObstacleStatus_unk0 v),
     w32 (AcCmdRCObstacleStatus_deactivate v),
     w32 (AcCmdRCObstacleStatus_unk2 v)]"

datatype (plugins only:) AcCmdUserRaceDeleteNotify = AcCmdUserRaceDeleteNotify
  (AcCmdUserRaceDeleteNotify_racerOid: "u16")

definition AcCmdUserRaceDeleteNotify_Write :: "AcCmdUserRaceDeleteNotify \<Rightarrow> stream \<Rightarrow> exn + stream" where
  "AcCmdUserRaceDeleteNotify_Write v = seqw [
     w16 (AcCmdUserRaceDeleteNotify_racerOid v)]"

definition AcCmdUserRaceDeleteNotify_Read :: "stream \<Rightarrow> exn + (AcCmdUserRaceDeleteNotify \<times> stream)" where
  "AcCmdUserRaceDeleteNotify_Read = throws (RuntimeError ''Not implemented'')"

datatype (plugins only:) AcCmdCRKick = AcCmdCRKick
  (AcCmdCRKick_characterUid: "u32")

definition AcCmdCRKick_Write :: "AcCmdCRKick \<Rightarrow> stream \<Rightarrow> exn + stream" where
  "AcCmdCRKick_Write _ = throws (RuntimeError ''Not implemented'')"

definition AcCmdCRKick_Read :: "stream \<Rightarrow> exn + (AcCmdCRKick \<times> stream)" where
  "AcCmdCRKick_Read =
     rd r32 (\<lambda>characterUid'.
     ret (AcCmdCRKick characterUid'))"

datatype (plugins only:) AcCmdCRKickNotify = AcCmdCRKickNotify
  (AcCmdCRKickNotify_characterUid: "u32")

definition AcCmdCRKickNotify_Write :: "AcCmdCRKickNotify \<Rightarrow> stream \<Rightarrow> exn + stream" where
  "AcCmdCRKickNotify_Write v = seqw [
     w32 (AcCmdCRKickNotify_characterUid v)]"

definition AcCmdCRKickNotify_Read :: "stream \<Rightarrow> exn + (AcCmdCRKickNotify \<times> stream)" where
  "AcCmdCRKickNotify_Read = throws (RuntimeError ''Not implemented'')"

datatype (plugins only:) AcCmdRCTimeoutCareUser = AcCmdRCTimeoutCareUser
  (AcCmdRCTimeoutCareUser_characterUid: "u32")

definition AcCmdRCTimeoutCareUser_Write :: "AcCmdRCTimeoutCareUser \<Rightarrow> stream \<Rightarrow> exn + stream" where
  "AcCmdRCTimeoutCareUser_Write v = seqw [
     w32 (AcCmdRCTimeoutCareUser_characterUid v)]"

definition AcCmdRCTimeoutCareUser_Read :: "stream \<Rightarrow> exn + (AcCmdRCTimeoutCareUser \<times> stream)" where
  "AcCmdRCTimeoutCareUser_Read = throws (RuntimeError ''Not implemented'')"

datatype (plugins only:) AcCmdRCAchievementUpdateNotify = AcCmdRCAchievementUpdateNotify
  (AcCmdRCAchievementUpdateNotify_achievementTid: "u16")
  (AcCmdRCAchievementUpdateNotify_objectiveProgress: "wire_objective")
  (AcCmdRCAchievementUpdateNotify_carrotBalance: "u32")

definition AcCmdRCAchievementUpdateNotify_Write :: "AcCmdRCAchievementUpdateNotify \<Rightarrow> stream \<Rightarrow> exn + stream" where
  "AcCmdRCAchievementUpdateNotify_Write v = seqw [
     w16 (AcCmdRCAchievementUpdateNotify_achievementTid v),
     ObjectiveProgress_Write (AcCmdRCAchievementUpdateNotify_objectiveProgress v),
     w32 (AcCmdRCAchievementUpdateNotify_carrotBalance v)]"

definition AcCmdRCAchievementUpdateNotify_Read :: "stream \<Rightarrow> exn + (AcCmdRCAchievementUpdateNotify \<times> stream)" where
  "AcCmdRCAchievementUpdateNotify_Read = throws (RuntimeError ''Not implemented'')"

datatype (plugins only:) AcCmdCRTriggerizeAct = AcCmdCRTriggerizeAct
  (AcCmdCRTriggerizeAct_unk0: "u8")
  (AcCmdCRTriggerizeAct_unk1: "u32")
  (AcCmdCRTriggerizeAct_unk2: "u16")

definition AcCmdCRTriggerizeAct_Write :: "AcCmdCRTriggerizeAct \<Rightarrow> stream \<Rightarrow> exn + stream" where
  "AcCmdCRTriggerizeAct_Write v = seqw [
     w8 (AcCmdCRTriggerizeAct_unk0 v),
     w32 (AcCmdCRTriggerizeAct_unk1 v),
     w16 (AcCmdCRTriggerizeAct_unk2 v)]"

definition AcCmdCRTriggerizeAct_Read :: "stream \<Rightarrow> exn + (AcCmdCRTriggerizeAct \<times> stream)" where
  "AcCmdCRTriggerizeAct_Read =
     rd r8 (\<lambda>unk0'.
     rd r32 (\<lambda>unk1'.
     rd r16 (\<lambda>unk2'.
     ret (AcCmdCRTriggerizeAct unk0' unk1' unk2'))))"

datatype (plugins only:) AcCmdRCCreateItem = AcCmdRCCreateItem
  (AcCmdRCCreateItem_itemId: "u32")
  (AcCmdRCCreateItem_itemType: "u32")
  (AcCmdRCCreateItem_position: "wire_vector3")
  (AcCmdRCCreateItem_spawnStyle: "u32")
  (AcCmdRCCreateItem_spawnerId: "u16")
  (AcCmdRCCreateItem_sizeLevel: "u32")

definition AcCmdRCCreateItem_Write :: "AcCmdRCCreateItem \<Rightarrow> stream \<Rightarrow> exn + stream" where
  "AcCmdRCCreateItem_Write v = seqw [
     w32 (AcCmdRCCreateItem_itemId v),
     w32 (AcCmdRCCreateItem_itemType v),
     Vector3_Write (AcCmdRCCreateItem_position v),
     w32 (AcCmdRCCreateItem_spawnStyle v),
     w16 (AcCmdRCCreateItem_spawnerId v),
     w32 (AcCmdRCCreateItem_sizeLevel v)]"

definition AcCmdRCCreateItem_Read :: "stream \<Rightarrow> exn + (AcCmdRCCreateItem \<times> stream)" where
  "AcCmdRCCreateItem_Read = throws (RuntimeError ''Not implemented'')"

datatype (plugins only:) AcCmdRCUpdateGameMoney = AcCmdRCUpdateGameMoney
  (AcCmdRCUpdateGameMoney_carrotBalance: "u32")
  (AcCmdRCUpdateGameMoney_unk1: "u32")
  (AcCmdRCUpdateGameMoney_unk2: "u32")

definition AcCmdRCUpdateGameMoney_Write :: "AcCmdRCUpdateGameMoney \<Rightarrow> stream \<Rightarrow> exn + stream" where
  "AcCmdRCUpdateGameMoney_Write v = seqw [
     w32 (AcCmdRCUpdateGameMoney_carrotBalance v),
     w32 (AcCmdRCUpdateGameMoney_unk1 v),
     w32 (AcCmdRCUpdateGameMoney_unk2 v)]"

definition AcCmdRCUpdateGameMoney_Read :: "stream \<Rightarrow> exn + (AcCmdRCUpdateGameMoney \<times> stream)" where
  "AcCmdRCUpdateGameMoney_Read = throws (RuntimeError ''Not implemented'')"

datatype (plugins only:) AcCmdRCGameCreateClientItem = AcCmdRCGameCreateClientItem
  (AcCmdRCGameCreateClientItem_racerOid: "u16")
  (AcCmdRCGameCreateClientItem_unk1: "u8")

definition AcCmdRCGameCreateClientItem_Write :: "AcCmdRCGameCreateClientItem \<Rightarrow> stream \<Rightarrow> exn + stream" where
  "AcCmdRCGameCreateClientItem_Write v = seqw [
     w16 (AcCmdRCGameCreateClientItem_racerOid v),
     w8 (AcCmdRCGameCreateClientItem_unk1 v)]"

definition AcCmdRCGameCreateClientItem_Read :: "stream \<Rightarrow> exn + (AcCmdRCGameCreateClientItem \<times> stream)" where
  "AcCmdRCGameCreateClientItem_Read = throws (RuntimeError ''Not implemented'')"

record AcCmdCRGameCreateClientItem =
  AcCmdCRGameCreateClientItem_someonesOid :: "u16"
  AcCmdCRGameCreateClientItem_unk1 :: "u8"
  AcCmdCRGameCreateClientItem_position :: "wire_vector3"
  AcCmdCRGameCreateClientItem_unk3 :: "u32 list"

definition AcCmdCRGameCreateClientItem_Write :: "AcCmdCRGameCreateClientItem \<Rightarrow> stream \<Rightarrow> exn + stream" where
  "AcCmdCRGameCreateClientItem_Write _ = throws (RuntimeError ''Not implemented'')"

definition AcCmdCRGameCreateClientItem_default :: "AcCmdCRGameCreateClientItem" where
  "AcCmdCRGameCreateClientItem_default = \<lparr>AcCmdCRGameCreateClientItem_someonesOid = 0,
     AcCmdCRGameCreateClientItem_unk1 = 0,
     AcCmdCRGameCreateClientItem_position = \<lparr>wv_x = 0, wv_y = 0, wv_z = 0\<rparr>,
     AcCmdCRGameCreateClientItem_unk3 = replicate 4 0\<rparr>"

definition AcCmdCRGameCreateClientItem_Read :: "stream \<Rightarrow> exn + (AcCmdCRGameCreateClientItem \<times> stream)" where
  "AcCmdCRGameCreateClientItem_Read = build AcCmdCRGameCreateClientItem_default [
     fld r16 AcCmdCRGameCreateClientItem_someonesOid_update,
     fld r8 AcCmdCRGameCreateClientItem_unk1_update,
     fld Vector3_Read AcCmdCRGameCreateClientItem_position_update,
     fld (read_n 4 r32) AcCmdCRGameCreateClientItem_unk3_update]"

datatype (plugins only:) AcCmdRCObtainEgg = AcCmdRCObtainEgg
  (AcCmdRCObtainEgg_characterUid: "u32")
  (AcCmdRCObtainEgg_ItemUid: "u32")
  (AcCmdRCObtainEgg_ItemTid: "u32")

definition AcCmdRCObtainEgg_Write :: "AcCmdRCObtainEgg \<Rightarrow> stream \<Rightarrow> exn + stream" where
  "AcCmdRCObtainEgg_Write v = seqw [
     w32 (AcCmdRCObtainEgg_characterUid v),
     w32 (AcCmdRCObtainEgg_ItemUid v),
     w32 (AcCmdRCObtainEgg_ItemTid v)]"

definition AcCmdRCObtainEgg_Read :: "stream \<Rightarrow> exn + (AcCmdRCObtainEgg \<times> stream)" where
  "AcCmdRCObtainEgg_Read = throws (RuntimeError ''Not implemented'')"

section \<open>Messages that are both written and read\<close>

interpretation AcCmdUserRaceActivateEvent_codec: codec AcCmdUserRaceActivateEvent_Write AcCmdUserRaceActivateEvent_Read "\<lambda>_. True"
  by unfold_locales (unfold AcCmdUserRaceActivateEvent_Write_def AcCmdUserRaceActivateEvent_Read_def, (rule codec_intros | simp)+)

declare AcCmdUserRaceActivateEvent_codec.codec_matches [codec_intros]

interpretation AcCmdUserRaceActivateEventNotify_codec: codec AcCmdUserRaceActivateEventNotify_Write AcCmdUserRaceActivateEventNotify_Read "\<lambda>_. True"
  by unfold_locales (unfold AcCmdUserRaceActivateEventNotify_Write_def AcCmdUserRaceActivateEventNotify_Read_def, (rule codec_intros | simp)+)

declare AcCmdUserRaceActivateEventNotify_codec.codec_matches [codec_intros]

interpretation AcCmdUserRaceDeactivateEvent_codec: codec AcCmdUserRaceDeactivateEvent_Write AcCmdUserRaceDeactivateEvent_Read "\<lambda>_. True"
  by unfold_locales (unfold AcCmdUserRaceDeactivateEvent_Write_def AcCmdUserRaceDeactivateEvent_Read_def, (rule codec_intros | simp)+)

declare AcCmdUserRaceDeactivateEvent_codec.codec_matches [codec_intros]

interpretation AcCmdUserRaceDeactivateEventNotify_codec: codec AcCmdUserRaceDeactivateEventNotify_Write AcCmdUserRaceDeactivateEventNotify_Read "\<lambda>_. True"
  by unfold_locales (unfold AcCmdUserRaceDeactivateEventNotify_Write_def AcCmdUserRaceDeactivateEventNotify_Read_def, (rule codec_intros | simp)+)

declare AcCmdUserRaceDeactivateEventNotify_codec.codec_matches [codec_intros]

interpretation AcCmdGameRaceItemGet_codec: codec AcCmdGameRaceItemGet_Write AcCmdGameRaceItemGet_Read "\<lambda>_. True"
  by unfold_locales (unfold AcCmdGameRaceItemGet_Write_def AcCmdGameRaceItemGet_Read_def, (rule codec_intros | simp)+)

declare AcCmdGameRaceItemGet_codec.codec_matches [codec_intros]

interpretation AcCmdCRChangeMagicTargetNotify_codec: codec AcCmdCRChangeMagicTargetNotify_Write AcCmdCRChangeMagicTargetNotify_Read "\<lambda>_. True"
  by unfold_locales (unfold AcCmdCRChangeMagicTargetNotify_Write_def AcCmdCRChangeMagicTargetNotify_Read_def, (rule codec_intros | simp)+)

declare AcCmdCRChangeMagicTargetNotify_codec.codec_matches [codec_intros]

interpretation AcCmdRCTriggerActivate_codec: codec AcCmdRCTriggerActivate_Write AcCmdRCTriggerActivate_Read "\<lambda>_. True"
  by unfold_locales (unfold AcCmdRCTriggerActivate_Write_def AcCmdRCTriggerActivate_Read_def, (rule codec_intros | simp)+)

declare AcCmdRCTriggerActivate_codec.codec_matches [codec_intros]

interpretation AcCmdCRActivateSkillEffect_codec: codec AcCmdCRActivateSkillEffect_Write AcCmdCRActivateSkillEffect_Read "\<lambda>_. True"
  by unfold_locales (unfold AcCmdCRActivateSkillEffect_Write_def AcCmdCRActivateSkillEffect_Read_def, (rule codec_intros | simp)+)

declare AcCmdCRActivateSkillEffect_codec.codec_matches [codec_intros]

interpretation AcCmdRCRemoveSkillEffect_codec: codec AcCmdRCRemoveSkillEffect_Write AcCmdRCRemoveSkillEffect_Read "\<lambda>_. True"
  by unfold_locales (unfold AcCmdRCRemoveSkillEffect_Write_def AcCmdRCRemoveSkillEffect_Read_def, (rule codec_intros | simp)+)

declare AcCmdRCRemoveSkillEffect_codec.codec_matches [codec_intros]

interpretation AcCmdCRTriggerizeAct_codec: codec AcCmdCRTriggerizeAct_Write AcCmdCRTriggerizeAct_Read "\<lambda>_. True"
  by unfold_locales (unfold AcCmdCRTriggerizeAct_Write_def AcCmdCRTriggerizeAct_Read_def, (rule codec_intros | simp)+)

declare AcCmdCRTriggerizeAct_codec.codec_matches [codec_intros]

section \<open>Every reader is a parser\<close>

lemma Msg_Race_parsers_1 [parser_intros]:
  "parser AcCmdCREnterRoom_Read"
  "parser AcCmdCREnterRoomCancel_Read"
  "parser (AcCmdCRChangeRoomOptions_Read cv)"
  "parser AcCmdCRChangeTeam_Read"
  "parser AcCmdCRLeaveRoom_Read"
  "parser AcCmdCRStartRace_Read"
  "parser AcCmdUserRaceTimer_Read"
  "parser AcCmdCRLoadingComplete_Read"
  "parser (AcCmdCRChat_Read cv)"
  "parser AcCmdCRReadyRace_Read"
  "parser AcCmdUserRaceFinal_Read"
  "parser AcCmdCRRaceResult_Read"
  "parser (AcCmdCRP2PResult_Read cv)"
  "parser AcCmdUserRaceP2PResult_Read"
  "parser AcCmdCRAwardStart_Read"
  "parser AcCmdCRAwardEnd_Read"
  "parser AcCmdCRStarPointGet_Read"
  "parser AcCmdCRRequestSpur_Read"
  "parser AcCmdCRHurdleClearResult_Read"
  "parser AcCmdCRStartingRate_Read"
  "parser AcCmdCRRequestMagicItem_Read"
  "parser AcCmdUserRaceUpdatePos_Read"
  "parser AcCmdCRRelayCommand_Read"
  "parser AcCmdCRRelay_Read"
  "parser AcCmdUserRaceActivateInteractiveEvent_Read"
  unfolding AcCmdCREnterRoom_Read_def
    AcCmdCREnterRoomCancel_Read_def
    AcCmdCRChangeRoomOptions_Read_def
    AcCmdCRChangeTeam_Read_def
    AcCmdCRLeaveRoom_Read_def
    AcCmdCRStartRace_Read_def
    AcCmdUserRaceTimer_Read_def
    AcCmdCRLoadingComplete_Read_def
    AcCmdCRChat_Read_def
    AcCmdCRReadyRace_Read_def
    AcCmdUserRaceFinal_Read_def
    AcCmdCRRaceResult_Read_def
    AcCmdCRP2PResult_Read_def
    AcCmdUserRaceP2PResult_Read_def
    AcCmdCRAwardStart_Read_def
    AcCmdCRAwardEnd_Read_def
    AcCmdCRStarPointGet_Read_def
    AcCmdCRRequestSpur_Read_def
    AcCmdCRHurdleClearResult_Read_def
    AcCmdCRStartingRate_Read_def
    AcCmdCRRequestMagicItem_Read_def
    AcCmdUserRaceUpdatePos_Read_def
    AcCmdCRRelayCommand_Read_def
    AcCmdCRRelay_Read_def
    AcCmdUserRaceActivateInteractiveEvent_Read_def
  by (intro parser_intros)+

lemma Msg_Race_parsers_2 [parser_intros]:
  "parser AcCmdUserRaceActivateEvent_Read"
  "parser AcCmdUserRaceActivateEventNotify_Read"
  "parser AcCmdUserRaceDeactivateEvent_Read"
  "parser AcCmdUserRaceDeactivateEventNotify_Read"
  "parser AcCmdCRUseMagicItem_Read"
  "parser AcCmdCRUseMagicItemNotify_Read"
  "parser AcCmdUserRaceItemGet_Read"
  "parser AcCmdGameRaceItemGet_Read"
  "parser AcCmdCRStartMagicTarget_Read"
  "parser AcCmdCRChangeMagicTarget_Read"
  "parser AcCmdCRChangeMagicTargetNotify_Read"
  "parser AcCmdRCTriggerActivate_Read"
  "parser AcCmdCRActivateSkillEffect_Read"
  "parser AcCmdRCAddSkillEffect_Read"
  "parser AcCmdRCRemoveSkillEffect_Read"
  "parser AcCmdCRChangeSkillCardPresetID_Read"
  "parser AcCmdCRKick_Read"
  "parser AcCmdCRTriggerizeAct_Read"
  "parser AcCmdCRGameCreateClientItem_Read"
  unfolding AcCmdUserRaceActivateEvent_Read_def
    AcCmdUserRaceActivateEventNotify_Read_def
    AcCmdUserRaceDeactivateEvent_Read_def
    AcCmdUserRaceDeactivateEventNotify_Read_def
    AcCmdCRUseMagicItem_Read_def
    AcCmdCRUseMagicItemNotify_Read_def
    AcCmdUserRaceItemGet_Read_def
    AcCmdGameRaceItemGet_Read_def
    AcCmdCRStartMagicTarget_Read_def
    AcCmdCRChangeMagicTarget_Read_def
    AcCmdCRChangeMagicTargetNotify_Read_def
    AcCmdRCTriggerActivate_Read_def
    AcCmdCRActivateSkillEffect_Read_def
    AcCmdRCAddSkillEffect_Read_def
    AcCmdRCRemoveSkillEffect_Read_def
    AcCmdCRChangeSkillCardPresetID_Read_def
    AcCmdCRKick_Read_def
    AcCmdCRTriggerizeAct_Read_def
    AcCmdCRGameCreateClientItem_Read_def
  by (intro parser_intros)+

end
