(* ===== verification/Race_Server.thy ===== *)
theory Race_Server imports Race_Invariant Command_Server Msg_Common Msg_Race begin

text \<open>
  The race server as a whole: \<open>server/race/RaceNetworkHandler.cpp\<close> registers its handlers at the command
  server, which decodes the data of a command and calls the handler; clients come and go, and the server
  ticks.

  \<^item> The choices of a command (clock, draws, and what the parts outside of this state answer) are a record,
    a function \<open>pick\<close> of the state the command is run in.
  \<^item> A handler that throws leaves the state it has reached: the command server catches and logs.
\<close>

section \<open>Registering\<close>

record race_choices =
  rc_env :: race_env
  rc_now :: time_point
  rc_icu :: icu
  rc_hash :: "uid \<Rightarrow> u32 \<Rightarrow> otp_key"
  rc_records :: "uid \<Rightarrow> exn + unit"
  rc_coin :: bool
  rc_mapDraw :: nat
  rc_draws :: "oid \<Rightarrow> bool \<times> nat"
  rc_chance :: nat
  rc_bonus :: u16
  rc_stats :: "exn + (mount_stats \<times> SetEquipEffect)"
  rc_minLevel :: "u32 option"
  rc_eggCoin :: bool
  rc_horses :: horse_config
  rc_raffle :: "nat \<Rightarrow> nat"
  rc_chat :: "uid \<Rightarrow> bytes \<Rightarrow> chat_verdict"
  rc_presence :: "uid \<Rightarrow> u8 option"
  rc_uid_of_name :: "bytes \<Rightarrow> uid"
  rc_regionEggs :: "u32 \<Rightarrow> egg_info list"
  rc_eggDraw :: nat
  rc_owns :: "uid \<Rightarrow> tid \<Rightarrow> bool"
  rc_egg :: "u32 \<Rightarrow> exn + (uid \<times> tid)"
  rc_draw :: nat
  rc_roll :: int
  rc_deckDraw :: nat

type_synonym race_command_server = "race_server command_server"

text \<open>\<open>SetCode(clientId, {})\<close> for the clients whose code a handler has reset.\<close>

definition apply_resets :: "race_command_server \<Rightarrow> race_command_server" where
  "apply_resets s = (fold (\<lambda>c. SetCode c 0) (sv_resets (cs_world s)) s)
     \<lparr>cs_world := (cs_world s)\<lparr>sv_resets := []\<rparr>\<rparr>"

definition RegisterCommandHandler ::
  "(stream \<Rightarrow> exn + ('m \<times> stream)) \<Rightarrow> (client_id \<Rightarrow> 'm \<Rightarrow> unit race_act)
    \<Rightarrow> client_id \<Rightarrow> bytes \<Rightarrow> race_command_server \<Rightarrow> race_command_server" where
  "RegisterCommandHandler reader handler c data s =
     (case reader (stream_of data) of
        Inl _ \<Rightarrow> s
      | Inr (command, _) \<Rightarrow> apply_resets (s\<lparr>cs_world := snd (handler c command (cs_world s))\<rparr>))"

type_synonym race_table = "(u16 \<times> (client_id \<Rightarrow> bytes \<Rightarrow> race_command_server \<Rightarrow> race_command_server)) list"

definition room_commands :: "race_choices \<Rightarrow> race_table" where
  "room_commands ch = [
     (0x30, RegisterCommandHandler AcCmdCREnterRoom_Read (\<lambda>c m.
        HandleEnterRoom (rc_hash ch) (rc_records ch) (rc_coin ch) (rc_now ch) c (AcCmdCREnterRoom_characterUid m)
          (AcCmdCREnterRoom_roomUid m) (AcCmdCREnterRoom_oneTimePassword m))),
     (0x54, RegisterCommandHandler (AcCmdCRChangeRoomOptions_Read (rc_icu ch)) (\<lambda>c m.
        HandleChangeRoomOptions c \<lparr>op_bitfield = AcCmdCRChangeRoomOptions_optionsBitfield m,
          op_name = AcCmdCRChangeRoomOptions_name m, op_playerCount = AcCmdCRChangeRoomOptions_playerCount m,
          op_password = AcCmdCRChangeRoomOptions_password m, op_gameMode = AcCmdCRChangeRoomOptions_gameMode m,
          op_mapBlockId = AcCmdCRChangeRoomOptions_mapBlockId m,
          op_npcDifficulty = AcCmdCRChangeRoomOptions_npcDifficulty m\<rparr>)),
     (0x8a, RegisterCommandHandler AcCmdCRChangeTeam_Read (\<lambda>c m.
        HandleChangeTeam c (AcCmdCRChangeTeam_characterOid m) (AcCmdCRChangeTeam_teamColor m))),
     (0x34, RegisterCommandHandler AcCmdCRLeaveRoom_Read (\<lambda>c m. HandleLeaveRoom c)),
     (0x5a, RegisterCommandHandler AcCmdCRStartRace_Read (\<lambda>c m.
        HandleStartRace (rc_env ch) (rc_mapDraw ch) (rc_draws ch) (rc_chance ch) (rc_bonus ch) (rc_now ch) c)),
     (0x1024, RegisterCommandHandler AcCmdUserRaceTimer_Read (\<lambda>c m.
        HandleRaceTimer (rc_now ch) c (AcCmdUserRaceTimer_clientClock m))),
     (0x1b6, RegisterCommandHandler AcCmdCRLoadingComplete_Read (\<lambda>c m.
        HandleLoadingComplete (rc_stats ch) (rc_minLevel ch) (rc_eggCoin ch) c)),
     (0x58, RegisterCommandHandler AcCmdCRReadyRace_Read (\<lambda>c m. HandleReadyRace c))]"

definition course_commands :: "race_choices \<Rightarrow> race_table" where
  "course_commands ch = [
     (0x1037, RegisterCommandHandler AcCmdUserRaceFinal_Read (\<lambda>c m.
        HandleUserRaceFinal c (AcCmdUserRaceFinal_courseTime m) (AcCmdUserRaceFinal_raceTrackProgress m))),
     (0x69, RegisterCommandHandler AcCmdCRRaceResult_Read (\<lambda>c m.
        HandleRaceResult (rc_horses ch) (rc_raffle ch) c (AcCmdCRRaceResult_gainedClassProgress m))),
     (0x121, RegisterCommandHandler (AcCmdCRP2PResult_Read (rc_icu ch)) (\<lambda>c m. HandleP2PRaceResult c)),
     (0x109e, RegisterCommandHandler AcCmdUserRaceP2PResult_Read (\<lambda>c m. HandleP2PUserRaceResult c)),
     (0x19d, RegisterCommandHandler AcCmdCRAwardStart_Read (\<lambda>c m.
        HandleAwardStart c (AcCmdCRAwardStart_member1 m))),
     (0x17b, RegisterCommandHandler AcCmdCRAwardEnd_Read (\<lambda>c m. HandleAwardEnd c)),
     (0x9b, RegisterCommandHandler AcCmdCRStarPointGet_Read (\<lambda>c m.
        HandleStarPointGet (rc_env ch) c (AcCmdCRStarPointGet_characterOid m)
          (AcCmdCRStarPointGet_gainedStarPoints m))),
     (0x99, RegisterCommandHandler AcCmdCRRequestSpur_Read (\<lambda>c m.
        seq (HandleRequestSpur (rc_env ch) c (AcCmdCRRequestSpur_characterOid m)
              (AcCmdCRRequestSpur_activeBoosters m) (AcCmdCRRequestSpur_comboBreak m)) (\<lambda>_.
        HandleTeamGauge (rc_now ch) c))),
     (0xe7, RegisterCommandHandler AcCmdCRHurdleClearResult_Read (\<lambda>c m.
        HandleHurdleClearResult (rc_env ch) c (AcCmdCRHurdleClearResult_characterOid m)
          (AcCmdCRHurdleClearResult_hurdleClearType m))),
     (0xb0, RegisterCommandHandler AcCmdCRStartingRate_Read (\<lambda>c m.
        HandleStartingRate (rc_env ch) c (AcCmdCRStartingRate_characterOid m) (AcCmdCRStartingRate_unk1 m)
          (AcCmdCRStartingRate_boostGained m))),
     (0x103f, RegisterCommandHandler AcCmdUserRaceUpdatePos_Read (\<lambda>c m.
        HandleRaceUserPos c (AcCmdUserRaceUpdatePos_oid m) (AcCmdUserRaceUpdatePos_position m)
          (AcCmdUserRaceUpdatePos_progress m)))]"

definition event_commands :: "race_choices \<Rightarrow> race_table" where
  "event_commands ch = [
     (0x52, RegisterCommandHandler (AcCmdCRChat_Read (rc_icu ch)) (\<lambda>c m.
        HandleChat (rc_chat ch) c (AcCmdCRChat_message m))),
     (0x2f5, RegisterCommandHandler AcCmdCRRelayCommand_Read (\<lambda>c m.
        HandleRelayCommand c (AcCmdCRRelayCommand_member1 m) (AcCmdCRRelayCommand_member2 m))),
     (0x2f7, RegisterCommandHandler AcCmdCRRelay_Read (\<lambda>c m.
        HandleRelay c (AcCmdCRRelay_fromOid m) (AcCmdCRRelay_toOid m) (AcCmdCRRelay_payloadType m)
          (AcCmdCRRelay_data m))),
     (0x10a1, RegisterCommandHandler AcCmdUserRaceActivateInteractiveEvent_Read (\<lambda>c m.
        HandleUserRaceActivateInteractiveEvent c (AcCmdUserRaceActivateInteractiveEvent_member1 m)
          (AcCmdUserRaceActivateInteractiveEvent_member3 m))),
     (0x10a0, RegisterCommandHandler AcCmdUserRaceActivateEvent_Read (\<lambda>c m.
        HandleUserRaceActivateEvent (rc_now ch) c (AcCmdUserRaceActivateEvent_eventId m))),
     (0x10a2, RegisterCommandHandler AcCmdUserRaceDeactivateEvent_Read (\<lambda>c m.
        HandleUserRaceDeactivateEvent (rc_now ch) c (AcCmdUserRaceDeactivateEvent_eventId m)))]"

definition magic_commands :: "race_choices \<Rightarrow> race_table" where
  "magic_commands ch = [
     (0xb5, RegisterCommandHandler AcCmdCRRequestMagicItem_Read (\<lambda>c m.
        HandleRequestMagicItem (rc_env ch) (rc_draw ch) (rc_roll ch) c (AcCmdCRRequestMagicItem_characterOid m))),
     (0xb8, RegisterCommandHandler AcCmdCRUseMagicItem_Read (\<lambda>c m.
        HandleUseMagicItem (rc_env ch) (rc_now ch) c (AcCmdCRUseMagicItem_characterOid m)
          (AcCmdCRUseMagicItem_magicItemId m) (AcCmdCRUseMagicItem_targetList m))),
     (0x10a3, RegisterCommandHandler AcCmdUserRaceItemGet_Read (\<lambda>c m.
        HandleUserRaceItemGet (rc_env ch) (rc_egg ch) (rc_draw ch) (rc_roll ch) (rc_deckDraw ch) (rc_now ch) c
          (AcCmdUserRaceItemGet_characterOid m) (AcCmdUserRaceItemGet_itemDeckId m))),
     (0x232, RegisterCommandHandler AcCmdCRStartMagicTarget_Read (\<lambda>c m.
        HandleStartMagicTarget (rc_now ch) c (AcCmdCRStartMagicTarget_effectInstanceId m)
          (AcCmdCRStartMagicTarget_casterOid m) (AcCmdCRStartMagicTarget_targetOid m)
          (AcCmdCRStartMagicTarget_targetOid2 m))),
     (0x22c, RegisterCommandHandler AcCmdCRChangeMagicTarget_Read (\<lambda>c m.
        HandleChangeMagicTarget (rc_now ch) c (AcCmdCRChangeMagicTarget_effectInstanceId m)
          (AcCmdCRChangeMagicTarget_casterOid m) (AcCmdCRChangeMagicTarget_targetOid m)
          (AcCmdCRChangeMagicTarget_targetOid2 m))),
     (0xa8, RegisterCommandHandler AcCmdCRActivateSkillEffect_Read (\<lambda>c m.
        HandleActivateSkillEffect (rc_env ch) (rc_now ch) c (AcCmdCRActivateSkillEffect_attackerOid m)
          (AcCmdCRActivateSkillEffect_targetOid m) (AcCmdCRActivateSkillEffect_effectId m)
          (AcCmdCRActivateSkillEffect_effectInstanceId m))),
     (0x237, RegisterCommandHandler AcCmdCRChangeSkillCardPresetID_Read (\<lambda>c m.
        HandleChangeSkillCardPresetId c (AcCmdCRChangeSkillCardPresetID_setId m)
          (AcCmdCRChangeSkillCardPresetID_gamemode m)))]"

definition company_commands :: "race_choices \<Rightarrow> race_table" where
  "company_commands ch = [
     (0x28e, RegisterCommandHandler (AcCmdCROpCmd_Read (rc_icu ch)) (\<lambda>c m.
        HandleOpCmd (rc_chat ch) c (AcCmdCROpCmd_command m))),
     (0x36d, RegisterCommandHandler (AcCmdCRInviteUser_Read (rc_icu ch)) (\<lambda>c m.
        HandleInviteUser (rc_presence ch) c (AcCmdCRInviteUser_recipientCharacterUid m)
          (AcCmdCRInviteUser_recipientCharacterName m))),
     (0x35e, RegisterCommandHandler (AcCmdCRRequestUser_Read (rc_icu ch)) (\<lambda>c m.
        HandleRequestUser (rc_uid_of_name ch) c (AcCmdCRRequestUser_force m) (AcCmdCRRequestUser_characterName m)
          (AcCmdCRRequestUser_roomUid m) (AcCmdCRRequestUser_ranchUid m))),
     (0x5e, RegisterCommandHandler AcCmdCRKick_Read (\<lambda>c m. HandleKickUser c (AcCmdCRKick_characterUid m))),
     (0x283, RegisterCommandHandler AcCmdCRTriggerizeAct_Read (\<lambda>c m.
        HandleTriggerizeAct (rc_env ch) c (AcCmdCRTriggerizeAct_unk1 m) (AcCmdCRTriggerizeAct_unk2 m))),
     (0x399, RegisterCommandHandler AcCmdCRGameCreateClientItem_Read (\<lambda>c m.
        HandleGameCreateClientItem (rc_env ch) (rc_regionEggs ch) (rc_eggDraw ch) (rc_owns ch) c
          (AcCmdCRGameCreateClientItem_unk1 m) (AcCmdCRGameCreateClientItem_position m)))]"

definition race_commands :: "race_choices \<Rightarrow> race_table" where
  "race_commands ch =
     room_commands ch @ course_commands ch @ event_commands ch @ magic_commands ch @ company_commands ch"

text \<open>A command that is not registered does nothing.\<close>

definition race_handlers :: "(race_server \<Rightarrow> race_choices) \<Rightarrow> race_server handlers" where
  "race_handlers choices commandId = Some (\<lambda>c data s.
     case map_of (race_commands (choices (cs_world s))) commandId of
       None \<Rightarrow> s | Some handler \<Rightarrow> handler c data s)"

section \<open>Every decoder is a parser\<close>

text \<open>A handler rejects the data of a command, or what follows the bytes it has read makes no difference.\<close>

definition ignores_tail :: "(client_id \<Rightarrow> bytes \<Rightarrow> race_command_server \<Rightarrow> race_command_server) \<Rightarrow> bool" where
  "ignores_tail h \<longleftrightarrow> (\<forall>c data. (\<forall>s. h c data s = s) \<or> (\<forall>tail s. h c (data @ tail) s = h c data s))"

lemma ignores_register:
  assumes "parser reader"
  shows "ignores_tail (RegisterCommandHandler reader handler)"
  unfolding ignores_tail_def
proof (intro allI)
  fix c data
  show "(\<forall>s. RegisterCommandHandler reader handler c data s = s) \<or>
    (\<forall>tail s. RegisterCommandHandler reader handler c (data @ tail) s = RegisterCommandHandler reader handler c data s)"
  proof (cases "reader (stream_of data)")
    case (Inl e)
    then show ?thesis by (simp add: RegisterCommandHandler_def)
  next
    case (Inr p)
    then obtain m s' where r: "reader (stream_of data) = Inr (m, s')" by (cases p) auto
    obtain bs where bs: "consumes (stream_of data) bs s'" "reads reader m bs" by (rule parserE [OF assms r])
    have "reader (stream_of (data @ tail)) = Inr (m, \<lparr>storage = data @ tail, cursor = length bs\<rparr>)" for tail
      using bs by (auto simp: consumes_def reads_def stream_of_def)
    with r show ?thesis by (simp add: RegisterCommandHandler_def)
  qed
qed

lemma race_commands_ignore_tail: "list_all (\<lambda>(i, h). ignores_tail h) (race_commands ch)"
  unfolding race_commands_def room_commands_def course_commands_def event_commands_def magic_commands_def
    company_commands_def
  by (simp only: append.simps list.pred_inject prod.case)
    (intro conjI TrueI ignores_register parser_intros)

section \<open>The invariant of the races\<close>

lemma apply_resets_world [simp]: "cs_world (apply_resets s) = (cs_world s)\<lparr>sv_resets := []\<rparr>"
  by (simp add: apply_resets_def)

definition keeps_races :: "u32 \<Rightarrow> (client_id \<Rightarrow> bytes \<Rightarrow> race_command_server \<Rightarrow> race_command_server) \<Rightarrow> bool" where
  "keeps_races M h \<longleftrightarrow> (\<forall>c data s. races_ok M (cs_world s) \<longrightarrow> races_ok M (cs_world (h c data s)))"

lemma keeps_register:
  "(\<And>c m. preserves (races_ok M) (handler c m)) \<Longrightarrow> keeps_races M (RegisterCommandHandler reader handler)"
  by (auto simp: keeps_races_def RegisterCommandHandler_def races_ok_def preserves_def split: sum.splits)

lemma keeps_commands: "env_ok M (rc_env ch) \<Longrightarrow> list_all (\<lambda>(i, h). keeps_races M h) (race_commands ch)"
  unfolding race_commands_def room_commands_def course_commands_def event_commands_def magic_commands_def
    company_commands_def
  by (simp only: append.simps list.pred_inject prod.case)
    (intro conjI TrueI keeps_register races_intros preserves_seq; assumption)

lemma handlers_keep:
  assumes "\<And>w. env_ok M (rc_env (choices w))" "race_handlers choices i = Some h"
  shows "keeps_races M h"
proof -
  have "keeps_races M h'" if "map_of (race_commands (choices w)) i = Some h'" for w h'
    using keeps_commands [OF assms(1), of w] map_of_SomeD [OF that] by (force simp: list_all_iff)
  with assms(2) show ?thesis by (auto simp: race_handlers_def keeps_races_def split: option.splits)
qed

lemma dispatch_keeps:
  assumes "\<And>w. env_ok M (rc_env (choices w))" "races_ok M (cs_world s)"
  shows "races_ok M (cs_world (dispatch (race_handlers choices) c i data s))"
  using handlers_keep [OF assms(1)] assms(2) by (auto simp: dispatch_def keeps_races_def split: option.splits)

lemma world_SetCode [simp]: "cs_world (SetCode c code s) = cs_world s" "cs_world (RollCode c s) = cs_world s"
  by (simp_all add: SetCode_def RollCode_def)

lemma read_command_keeps:
  assumes "\<And>w. env_ok M (rc_env (choices w))" "races_ok M (cs_world s)"
  shows "(read_command (race_handlers choices) c data s = Took n s' \<longrightarrow> races_ok M (cs_world s'))
    \<and> (read_command (race_handlers choices) c data s = Bad e s' \<longrightarrow> races_ok M (cs_world s'))"
  using assms(2) by (auto simp: read_command_def Let_def intro: dispatch_keeps [OF assms(1)] split: if_splits)

lemma OnClientData_keeps:
  assumes "\<And>w. env_ok M (rc_env (choices w))" "races_ok M (cs_world s)"
  shows "races_ok M (cs_world (snd (OnClientData (race_handlers choices) c data s)))"
  using assms(2)
proof (induction "length data" arbitrary: data s rule: less_induct)
  case less
  show ?case
  proof (cases "read_command (race_handlers choices) c data s")
    case Wait
    with less.prems show ?thesis by (subst OnClientData.simps) auto
  next
    case (Bad e s')
    then have "races_ok M (cs_world s')"
      using read_command_keeps [where choices = choices, OF assms(1) less.prems] by blast
    with Bad less.prems show ?thesis by (subst OnClientData.simps) auto
  next
    case (Took n s')
    then have "races_ok M (cs_world s')" "0 < n" "n \<le> length data"
      using read_command_keeps [where choices = choices, OF assms(1) less.prems] read_command_Took by blast+
    with less.hyps [of "drop n data" s'] Took less.prems show ?thesis
      by (subst OnClientData.simps) (auto simp: advance_def split: prod.splits sum.splits)
  qed
qed

section \<open>Runs of the server\<close>

text \<open>What happens to a race server whose configuration is \<open>env\<close>: clients connect, send bytes and
  disconnect, time passes, and other servers pass on summons, room names and quests.\<close>

definition on_world :: "unit race_act \<Rightarrow> race_command_server \<Rightarrow> race_command_server" where
  "on_world m s = s\<lparr>cs_world := snd (m (cs_world s))\<rparr>"

inductive race_step :: "race_env \<Rightarrow> race_command_server \<Rightarrow> race_command_server \<Rightarrow> bool" for env where
  Connect: "race_step env s (on_world (HandleClientConnected c) s)"
| Disconnect: "race_step env s (on_world (HandleClientDisconnected c) s)"
| Data: "(\<And>w. rc_env (choices w) = env) \<Longrightarrow> race_step env s (snd (OnClientData (race_handlers choices) c data s))"
| Tick: "race_step env s (on_world (Server_Tick env bonusDraw now) s)"
| Summon: "race_step env s (on_world (NotifySummonCharacter u force name room ranch) s)"
| Rename: "race_step env s (on_world (NotifyRoomNameChanged u) s)"
| Quest: "race_step env s
    (on_world (SendDailyQuestNotificationToCharacter u quest prog carrots k8 k32 mountExp) s)"

inductive race_run :: "race_env \<Rightarrow> race_command_server \<Rightarrow> race_command_server \<Rightarrow> bool" for env where
  Start_run: "race_run env s s"
| Step_run: "race_run env s s' \<Longrightarrow> race_step env s' s'' \<Longrightarrow> race_run env s s''"

lemma step_keeps:
  assumes "race_step env s s'" "env_ok M env" "races_ok M (cs_world s)"
  shows "races_ok M (cs_world s')"
  using assms
proof (cases rule: race_step.cases)
  case Data
  with assms(2,3) show ?thesis by (auto intro: OnClientData_keeps)
qed (auto simp: on_world_def assms intro!: preservesD [OF races_clients(1)] preservesD [OF races_clients(2)]
    preservesD [OF races_Server_Tick] preservesD [OF races_company_handlers(7)]
    preservesD [OF races_company_handlers(9)] preservesD [OF races_company_handlers(10)])

lemma run_keeps: "race_run env s s' \<Longrightarrow> env_ok M env \<Longrightarrow> races_ok M (cs_world s) \<Longrightarrow> races_ok M (cs_world s')"
  by (induction rule: race_run.induct) (auto intro: step_keeps)

text \<open>C31: Whatever bytes its clients send, in whatever order they come and go, and however often it ticks:
  in a race server that starts without a race, or with races of which this is true, no racer ever has a
  gauge above the largest limit of the configured game modes or a combo above 99, and the effects of every
  racer are one flag and one generation per effect, so that no access to these arrays by a valid
  effect id is out of range.\<close>

theorem racers_stay_in_bounds:
  assumes "race_run env s s'" "races_ok M (cs_world s)"
    and "\<forall>mode \<in> set (vals_of (env_gameModes env)). gm_starPointsMax mode \<le> M"
    and "map_of (sv_raceInstances (cs_world s')) u = Some i" "map_of (rt_racers (in_tracker i)) c = Some r"
  shows "ra_starPointValue r \<le> M \<and> ra_jumpComboValue r \<le> 99
    \<and> length (ra_effects r) = EffectCount \<and> length (ra_effectGenerations r) = EffectCount"
proof -
  have "races_ok M (cs_world s')"
    using run_keeps [OF assms(1), of M] assms(2,3) by (simp add: env_ok_def)
  then have "racer_ok M r" using assms(4,5) by (blast dest: races_instance instance_tracker tracker_racer)
  then show ?thesis by (simp add: racer_ok_def)
qed

text \<open>What the parts outside of the state answer in the examples.\<close>

definition sample_choices :: race_choices where
  "sample_choices = \<lparr>rc_env = sample_env, rc_now = 0, rc_icu = plain_icu, rc_hash = (\<lambda>c u. 0),
     rc_records = (\<lambda>c. Inr ()), rc_coin = True, rc_mapDraw = 0, rc_draws = (\<lambda>d. (False, 0)),
     rc_chance = 100, rc_bonus = 0, rc_stats = Inl BadOptionalAccess, rc_minLevel = None, rc_eggCoin = False,
     rc_horses = plain_horses, rc_raffle = (\<lambda>n. 0),
     rc_chat = (\<lambda>c m. \<lparr>cv_message = m, cv_isMuted = False, cv_isPrevented = False, cv_result = None\<rparr>),
     rc_presence = (\<lambda>c. None), rc_uid_of_name = (\<lambda>n. InvalidUid), rc_regionEggs = (\<lambda>k. []), rc_eggDraw = 0,
     rc_owns = (\<lambda>c t. False), rc_egg = (\<lambda>k. Inl BadOptionalAccess), rc_draw = 0, rc_roll = 0, rc_deckDraw = 0\<rparr>"

text \<open>Player 7, on client 1, reports 200000 star points.\<close>

definition sample_report :: bytes where
  "sample_report = client_stream 0 [(0x9b, [1, 0, 0, 0, 0, 0, 0x40, 0x0d, 3, 0], replicate (unat (roll 0 AND 7)) 0)]"

definition sample_state :: race_command_server where
  "sample_state = \<lparr>cs_clients = [(1, 0)], cs_world = sample_server\<rparr>"

definition gauge_of :: "race_server \<Rightarrow> u32 \<Rightarrow> uid \<Rightarrow> u32 option" where
  "gauge_of s u c = (case map_of (sv_raceInstances s) u of
     None \<Rightarrow> None | Some i \<Rightarrow> map_option ra_starPointValue (map_of (rt_racers (in_tracker i)) c))"

lemma racers_stay_in_bounds_witness:
  "let s' = snd (OnClientData (race_handlers (\<lambda>_. sample_choices)) 1 sample_report sample_state)
   in \<exists>i r. map_of (sv_raceInstances (cs_world s')) 5 = Some i \<and> map_of (rt_racers (in_tracker i)) 7 = Some r
        \<and> ra_starPointValue r = 120000 \<and> ra_jumpComboValue r \<le> 99 \<and> length (ra_effects r) = EffectCount"
proof -
  let ?s = "snd (OnClientData (race_handlers (\<lambda>_. sample_choices)) 1 sample_report sample_state)"
  have "gauge_of (cs_world ?s) 5 7 = Some 120000" by code_simp
  then obtain i r where r: "map_of (sv_raceInstances (cs_world ?s)) 5 = Some i"
    "map_of (rt_racers (in_tracker i)) 7 = Some r" "ra_starPointValue r = 120000"
    by (auto simp: gauge_of_def split: option.splits)
  have "race_step sample_env sample_state ?s"
    by (rule race_step.Data) (simp add: sample_choices_def)
  from Step_run [OF Start_run this] have run: "race_run sample_env sample_state ?s" .
  have "races_ok 120000 (cs_world sample_state)"
    by (simp add: races_ok_def sample_state_def sample_server_def sample_instance_def instance_ok_def
        sample_mode_def tracker_ok_def racer_ok_def new_racer_def)
  from racers_stay_in_bounds [OF run this _ r(1,2)] r show ?thesis
    by (auto simp: Let_def sample_env_def sample_mode_def)
qed

text \<open>Of the data of a command, a handler of the race server uses only what its decoder reads: it rejects the
  data and changes nothing, or any bytes that follow them make no difference.\<close>

theorem commands_ignore_tail:
  "(\<forall>s. dispatch (race_handlers (\<lambda>_. ch)) c commandId data s = s)
   \<or> (\<forall>tail s. dispatch (race_handlers (\<lambda>_. ch)) c commandId (data @ tail) s
                = dispatch (race_handlers (\<lambda>_. ch)) c commandId data s)"
proof (cases "map_of (race_commands ch) commandId")
  case None
  then show ?thesis by (simp add: dispatch_def race_handlers_def)
next
  case (Some h)
  then have "ignores_tail h"
    using race_commands_ignore_tail [of ch] by (force simp: list_all_iff dest: map_of_SomeD)
  with Some show ?thesis by (simp add: dispatch_def race_handlers_def ignores_tail_def)
qed

end
