(* ===== verification/File_Data.thy ===== *)
theory File_Data imports Data_Records begin

text \<open>
  \<open>libserver/data/file/FileDataSource.cpp\<close>: a record is a JSON document in a file of its own.

  \<^item> The JSON library is a parameter: \<open>json_lib\<close> names the operations the code calls, on documents \<open>'j\<close> and texts \<open>'t\<close>,
    and \<open>json_ok\<close> says what their documentation promises. Numbers are 64 bits wide.
  \<^item> A file is known by its folder and its number, or by the name of its user; files that the server has not written are
    not in the model. \<open>fs_denied\<close> are the files that cannot be opened.
  \<^item> Opening a file to write it empties it. A document that cannot be written, because a text in it is not UTF-8,
    leaves it so.
  \<^item> A number that is no value of its enumeration is refused where the code keeps it.
  \<^item> A time is a number of nanoseconds, and a number of seconds in a file.
\<close>

section \<open>Documents\<close>

record ('j, 't) json_lib =
  js_null :: 'j
  js_new_object :: 'j
  js_number :: "int \<Rightarrow> 'j"
  js_string :: "bytes \<Rightarrow> 'j"
  js_bool :: "bool \<Rightarrow> 'j"
  js_array :: "'j list \<Rightarrow> 'j"
  js_put :: "string \<Rightarrow> 'j \<Rightarrow> 'j \<Rightarrow> 'j"
  js_member :: "'j \<Rightarrow> string \<Rightarrow> exn + 'j option"
  js_items :: "'j \<Rightarrow> 'j list"
  js_is_bool :: "'j \<Rightarrow> bool"
  js_get_number :: "'j \<Rightarrow> exn + int"
  js_get_string :: "'j \<Rightarrow> exn + bytes"
  js_get_bool :: "'j \<Rightarrow> exn + bool"
  js_get_array :: "'j \<Rightarrow> exn + 'j list"
  js_dump :: "'j \<Rightarrow> exn + 't"
  js_parse :: "'t \<Rightarrow> exn + 'j"
  js_empty :: 't

definition js_object :: "('j, 't) json_lib \<Rightarrow> (string \<times> 'j) list \<Rightarrow> 'j" where
  "js_object L kvs = fold (\<lambda>(k, v) j. js_put L k v j) kvs (js_null L)"

text \<open>A list that is built by appending to a fresh document, which stays null when nothing is appended.\<close>

definition js_list :: "('j, 't) json_lib \<Rightarrow> 'j list \<Rightarrow> 'j" where
  "js_list L xs = (if xs = [] then js_null L else js_array L xs)"

definition json_ok :: "('j, 't) json_lib \<Rightarrow> bool" where
  "json_ok L \<longleftrightarrow>
     (\<forall>k. js_member L (js_new_object L) k = Inr None)
     \<and> (\<forall>k v k'. js_member L (js_put L k v (js_null L)) k' = Inr (if k' = k then Some v else None))
     \<and> (\<forall>k v j m k'. js_member L j k' = Inr m \<longrightarrow> js_member L (js_put L k v j) k' = Inr (if k' = k then Some v else m))
     \<and> (\<forall>xs. js_items L (js_array L xs) = xs) \<and> js_items L (js_null L) = []
     \<and> (\<forall>xs. js_get_array L (js_array L xs) = Inr xs)
     \<and> (\<forall>i. - (2 ^ 63) \<le> i \<and> i < 2 ^ 64 \<longrightarrow> js_get_number L (js_number L i) = Inr i)
     \<and> (\<forall>s. js_get_string L (js_string L s) = Inr s)
     \<and> (\<forall>b. js_is_bool L (js_bool L b) \<and> js_get_bool L (js_bool L b) = Inr b)
     \<and> (\<forall>j t. js_dump L j = Inr t \<longrightarrow> js_parse L t = Inr j)
     \<and> (\<exists>e. js_parse L (js_empty L) = Inl e)"

section \<open>Fields\<close>

abbreviation js_word :: "('j, 't) json_lib \<Rightarrow> 'w::len word \<Rightarrow> 'j" where
  "js_word L w \<equiv> js_number L (uint w)"

text \<open>\<open>json.value(key, default)\<close>, at the type of the default.\<close>

definition js_value :: "('j, 't) json_lib \<Rightarrow> ('j \<Rightarrow> exn + 'a) \<Rightarrow> 'a \<Rightarrow> string \<Rightarrow> 'j \<Rightarrow> exn + 'a" where
  "js_value L get dflt k j = bnd (js_member L j k) (\<lambda>m. case m of None \<Rightarrow> Inr dflt | Some v \<Rightarrow> get v)"

definition as_word :: "('j, 't) json_lib \<Rightarrow> 'j \<Rightarrow> exn + 'w::len word" where
  "as_word L j = bnd (js_get_number L j) (\<lambda>i. Inr (of_int i))"

definition as_int64 :: "('j, 't) json_lib \<Rightarrow> 'j \<Rightarrow> exn + int" where
  "as_int64 L j = bnd (js_get_number L j) (\<lambda>i. Inr (sint (of_int i :: 64 word)))"

fun all_of :: "('j \<Rightarrow> exn + 'a) \<Rightarrow> 'j list \<Rightarrow> exn + 'a list" where
  "all_of get [] = Inr []"
| "all_of get (j # js) = bnd (get j) (\<lambda>x. bnd (all_of get js) (\<lambda>xs. Inr (x # xs)))"

definition as_words :: "('j, 't) json_lib \<Rightarrow> 'j \<Rightarrow> exn + 'w::len word list" where
  "as_words L j = bnd (js_get_array L j) (all_of (as_word L))"

text \<open>A set is an ascending list.\<close>

definition as_uid_set :: "('j, 't) json_lib \<Rightarrow> 'j \<Rightarrow> exn + uid list" where
  "as_uid_set L j = bnd (as_words L j) (\<lambda>us. Inr (fold insort_insert us []))"

definition as_enum :: "('j, 't) json_lib \<Rightarrow> 'e list \<Rightarrow> 'j \<Rightarrow> exn + 'e" where
  "as_enum L es j = bnd (as_word L j) (\<lambda>w :: u32. if unat w < length es then Inr (es ! unat w)
     else Inl (RuntimeError ''not a value of the enumeration''))"

abbreviation value_word :: "('j, 't) json_lib \<Rightarrow> string \<Rightarrow> 'j \<Rightarrow> exn + 'w::len word" where
  "value_word L \<equiv> js_value L (as_word L) 0"

abbreviation value_string :: "('j, 't) json_lib \<Rightarrow> string \<Rightarrow> 'j \<Rightarrow> exn + bytes" where
  "value_string L \<equiv> js_value L (js_get_string L) []"

abbreviation value_bool :: "('j, 't) json_lib \<Rightarrow> string \<Rightarrow> 'j \<Rightarrow> exn + bool" where
  "value_bool L \<equiv> js_value L (js_get_bool L) False"

abbreviation value_uids :: "('j, 't) json_lib \<Rightarrow> string \<Rightarrow> 'j \<Rightarrow> exn + uid list" where
  "value_uids L \<equiv> js_value L (as_words L) []"

abbreviation value_int :: "('j, 't) json_lib \<Rightarrow> string \<Rightarrow> 'j \<Rightarrow> exn + int" where
  "value_int L \<equiv> js_value L (as_int64 L) 0"

abbreviation value_object :: "('j, 't) json_lib \<Rightarrow> string \<Rightarrow> 'j \<Rightarrow> exn + 'j" where
  "value_object L \<equiv> js_value L Inr (js_new_object L)"

text \<open>\<open>for (auto& x : json.value(key, json::array()))\<close>.\<close>

definition value_items :: "('j, 't) json_lib \<Rightarrow> ('j \<Rightarrow> exn + 'a) \<Rightarrow> string \<Rightarrow> 'j \<Rightarrow> exn + 'a list" where
  "value_items L get k j = bnd (js_value L Inr (js_array L []) k j) (\<lambda>v. all_of get (js_items L v))"

abbreviation js_sword :: "('j, 't) json_lib \<Rightarrow> 'w::len word \<Rightarrow> 'j" where
  "js_sword L w \<equiv> js_number L (sint w)"

abbreviation js_words :: "('j, 't) json_lib \<Rightarrow> 'w::len word list \<Rightarrow> 'j" where
  "js_words L ws \<equiv> js_array L (map (js_word L) ws)"

section \<open>Seconds\<close>

definition ceil_seconds :: "time_point \<Rightarrow> int" where
  "ceil_seconds t = - (- t div 1000000000)"

definition cast_seconds :: "time_point \<Rightarrow> int" where
  "cast_seconds t = (if t < 0 then - (- t div 1000000000) else t div 1000000000)"

definition value_time :: "('j, 't) json_lib \<Rightarrow> string \<Rightarrow> 'j \<Rightarrow> exn + time_point" where
  "value_time L k j = bnd (value_int L k j) (\<lambda>s. Inr (s * 1000000000))"

section \<open>Files\<close>

datatype folder =
    Infractions | Characters | Items | Horses | Storage | Eggs | Pets | Housings | Guilds | Settings_Folder
  | DailyQuestGroups | Mails | Quests | Stallions | Rewards

datatype data_file = User_File bytes | Row_File folder uid | Meta_File

text \<open>The numbers given out; horses and items share theirs.\<close>

record sequences =
  sq_infraction :: u32
  sq_character :: u32
  sq_equipment :: u32
  sq_storageItem :: u32
  sq_egg :: u32
  sq_pet :: u32
  sq_housing :: u32
  sq_guild :: u32
  sq_settings :: u32
  sq_dailyQuestGroup :: u32
  sq_mail :: u32
  sq_quest :: u32
  sq_stallion :: u32
  sq_reward :: u32

record 't file_source =
  fs_files :: "(data_file, 't) umap"
  fs_denied :: "data_file list"
  fs_sequences :: sequences

type_synonym ('t, 'a) file_act = "('t file_source, 'a) act"

definition write_file :: "data_file \<Rightarrow> 't \<Rightarrow> 't file_source \<Rightarrow> 't file_source" where
  "write_file f t s = s\<lparr>fs_files := umap_put f t (fs_files s)\<rparr>"

text \<open>\<open>std::ofstream\<close> and \<open>dataFile << json.dump(2)\<close>.\<close>

definition store_file :: "('j, 't) json_lib \<Rightarrow> string \<Rightarrow> data_file \<Rightarrow> 'j \<Rightarrow> ('t, unit) file_act" where
  "store_file L label f j s =
     (if f \<in> set (fs_denied s) then (Inl (RuntimeError (label @ '' file not accessible'')), s)
      else case js_dump L j of
          Inl e \<Rightarrow> (Inl e, write_file f (js_empty L) s)
        | Inr t \<Rightarrow> (Inr (), write_file f t s))"

text \<open>\<open>std::ifstream\<close> and \<open>nlohmann::json::parse\<close>.\<close>

definition load_file :: "('j, 't) json_lib \<Rightarrow> string \<Rightarrow> data_file \<Rightarrow> ('t, 'j) file_act" where
  "load_file L label f s =
     (if f \<in> set (fs_denied s) then (Inl (RuntimeError (label @ '' file not accessible'')), s)
      else case map_of (fs_files s) f of
          None \<Rightarrow> (Inl (RuntimeError (label @ '' file not accessible'')), s)
        | Some t \<Rightarrow> (js_parse L t, s))"

definition delete_file :: "data_file \<Rightarrow> ('t, unit) file_act" where
  "delete_file f = modify (\<lambda>s. s\<lparr>fs_files := umap_erase f (fs_files s)\<rparr>)"

section \<open>The meta file\<close>

definition meta_json :: "('j, 't) json_lib \<Rightarrow> sequences \<Rightarrow> 'j" where
  "meta_json L q = js_object L [
     (''infractionSequentialUid'', js_word L (sq_infraction q)),
     (''characterSequentialUid'', js_word L (sq_character q)),
     (''equipmentSequentialUid'', js_word L (sq_equipment q)),
     (''storageItemSequentialUid'', js_word L (sq_storageItem q)),
     (''eggSequentialUid'', js_word L (sq_egg q)),
     (''petSequentialUid'', js_word L (sq_pet q)),
     (''housingSequentialUid'', js_word L (sq_housing q)),
     (''guildSequentialId'', js_word L (sq_guild q)),
     (''settingsSequentialId'', js_word L (sq_settings q)),
     (''dailyQuestGroupSequentialId'', js_word L (sq_dailyQuestGroup q)),
     (''mailSequentialId'', js_word L (sq_mail q)),
     (''questSequentialId'', js_word L (sq_quest q)),
     (''stallionSequentialUid'', js_word L (sq_stallion q)),
     (''rewardSequentialUid'', js_word L (sq_reward q))]"

definition meta_of_json :: "('j, 't) json_lib \<Rightarrow> 'j \<Rightarrow> exn + sequences" where
  "meta_of_json L j =
     bnd (value_word L ''infractionSequentialUid'' j) (\<lambda>infraction.
     bnd (value_word L ''characterSequentialUid'' j) (\<lambda>character.
     bnd (value_word L ''equipmentSequentialUid'' j) (\<lambda>equipment.
     bnd (value_word L ''storageItemSequentialUid'' j) (\<lambda>storageItem.
     bnd (value_word L ''eggSequentialUid'' j) (\<lambda>egg.
     bnd (value_word L ''petSequentialUid'' j) (\<lambda>pet.
     bnd (value_word L ''housingSequentialUid'' j) (\<lambda>housing.
     bnd (value_word L ''guildSequentialId'' j) (\<lambda>guild.
     bnd (value_word L ''settingsSequentialId'' j) (\<lambda>settings.
     bnd (value_word L ''dailyQuestGroupSequentialId'' j) (\<lambda>dailyQuestGroup.
     bnd (value_word L ''mailSequentialId'' j) (\<lambda>mail.
     bnd (value_word L ''questSequentialId'' j) (\<lambda>quest.
     bnd (value_word L ''stallionSequentialUid'' j) (\<lambda>stallion.
     bnd (value_word L ''rewardSequentialUid'' j) (\<lambda>rew.
     Inr \<lparr>sq_infraction = infraction, sq_character = character, sq_equipment = equipment, sq_storageItem = storageItem,
       sq_egg = egg, sq_pet = pet, sq_housing = housing, sq_guild = guild, sq_settings = settings,
       sq_dailyQuestGroup = dailyQuestGroup, sq_mail = mail, sq_quest = quest, sq_stallion = stallion,
       sq_reward = rew\<rparr>))))))))))))))"

definition empty_sequences :: sequences where
  "empty_sequences = \<lparr>sq_infraction = 0, sq_character = 0, sq_equipment = 0, sq_storageItem = 0, sq_egg = 0, sq_pet = 0,
     sq_housing = 0, sq_guild = 0, sq_settings = 0, sq_dailyQuestGroup = 0, sq_mail = 0, sq_quest = 0, sq_stallion = 0,
     sq_reward = 0\<rparr>"

text \<open>A meta file that cannot be opened is passed over in silence, to read and to write.\<close>

definition FileDataSource_Initialize :: "('j, 't) json_lib \<Rightarrow> ('t, unit) file_act" where
  "FileDataSource_Initialize L s =
     (if Meta_File \<in> set (fs_denied s) \<or> \<not> has_key (fs_files s) Meta_File then (Inr (), s\<lparr>fs_sequences := empty_sequences\<rparr>)
      else case bnd (fst (load_file L ''Meta'' Meta_File s)) (meta_of_json L) of
          Inl e \<Rightarrow> (Inl e, s\<lparr>fs_sequences := empty_sequences\<rparr>)
        | Inr q \<Rightarrow> (Inr (), s\<lparr>fs_sequences := q\<rparr>))"

definition SaveMetadata :: "('j, 't) json_lib \<Rightarrow> ('t, unit) file_act" where
  "SaveMetadata L s =
     (if Meta_File \<in> set (fs_denied s) then (Inr (), s)
      else store_file L ''Meta'' Meta_File (meta_json L (fs_sequences s)) s)"

definition FileDataSource_Terminate :: "('j, 't) json_lib \<Rightarrow> ('t, unit) file_act" where
  "FileDataSource_Terminate = SaveMetadata"

text \<open>The next number of a sequence, saved before the record is used.\<close>

definition next_number ::
  "('j, 't) json_lib \<Rightarrow> (sequences \<Rightarrow> u32) \<Rightarrow> ((u32 \<Rightarrow> u32) \<Rightarrow> sequences \<Rightarrow> sequences) \<Rightarrow> ('t, u32) file_act" where
  "next_number L sel upd =
     seq (modify (\<lambda>s. s\<lparr>fs_sequences := upd (\<lambda>n. n + 1) (fs_sequences s)\<rparr>)) (\<lambda>_.
     seq get_state (\<lambda>s. let u = sel (fs_sequences s) in
     seq (SaveMetadata L) (\<lambda>_. pure u)))"

section \<open>Records\<close>

text \<open>Users. Creating one does nothing; a user is stored in the file of its own name, whatever name it is asked for by.\<close>

definition user_json :: "('j, 't) json_lib \<Rightarrow> user_record \<Rightarrow> 'j" where
  "user_json L x = js_object L [
     (''name'', js_string L (us_name x)), (''token'', js_string L (us_token x)),
     (''characterUid'', js_word L (us_characterUid x)), (''infractions'', js_words L (us_infractions x)),
     (''lastSeenOnline'', js_number L (ceil_seconds (us_lastSeenOnline x)))]"

definition user_of_json :: "('j, 't) json_lib \<Rightarrow> 'j \<Rightarrow> exn + user_record" where
  "user_of_json L j =
     bnd (value_string L ''name'' j) (\<lambda>name. bnd (value_string L ''token'' j) (\<lambda>token.
     bnd (value_word L ''characterUid'' j) (\<lambda>characterUid. bnd (value_uids L ''infractions'' j) (\<lambda>infractions.
     bnd (value_time L ''lastSeenOnline'' j) (\<lambda>lastSeenOnline.
     Inr \<lparr>us_name = name, us_token = token, us_infractions = infractions, us_characterUid = characterUid,
       us_lastSeenOnline = lastSeenOnline\<rparr>)))))"

definition CreateUser :: "user_record \<Rightarrow> ('t, user_record) file_act" where
  "CreateUser x = pure x"

definition RetrieveUser :: "('j, 't) json_lib \<Rightarrow> bytes \<Rightarrow> ('t, user_record) file_act" where
  "RetrieveUser L name = seq (load_file L ''User'' (User_File name)) (\<lambda>j. lift (user_of_json L j))"

definition StoreUser :: "('j, 't) json_lib \<Rightarrow> user_record \<Rightarrow> ('t, unit) file_act" where
  "StoreUser L x = store_file L ''User'' (User_File (us_name x)) (user_json L x)"

fun punishment_code :: "Punishment \<Rightarrow> nat" where
  "punishment_code Punishment_None = 0" | "punishment_code Punishment_Mute = 1" | "punishment_code Punishment_Ban = 2"

definition infraction_json :: "('j, 't) json_lib \<Rightarrow> infraction \<Rightarrow> 'j" where
  "infraction_json L x = js_object L [
     (''uid'', js_word L (if_uid x)), (''description'', js_string L (if_description x)),
     (''punishment'', js_number L (int (punishment_code (if_punishment x)))),
     (''duration'', js_number L (if_duration x)), (''createdAt'', js_number L (cast_seconds (if_createdAt x)))]"

definition infraction_of_json :: "('j, 't) json_lib \<Rightarrow> 'j \<Rightarrow> exn + infraction" where
  "infraction_of_json L j =
     bnd (value_word L ''uid'' j) (\<lambda>uid. bnd (value_string L ''description'' j) (\<lambda>description.
     bnd (js_value L (as_enum L [Punishment_None, Punishment_Mute, Punishment_Ban]) Punishment_None ''punishment'' j) (\<lambda>punishment.
     bnd (value_int L ''duration'' j) (\<lambda>duration. bnd (value_time L ''createdAt'' j) (\<lambda>createdAt.
     Inr \<lparr>if_uid = uid, if_description = description, if_punishment = punishment, if_duration = duration,
       if_createdAt = createdAt\<rparr>)))))"

definition CreateInfraction :: "('j, 't) json_lib \<Rightarrow> infraction \<Rightarrow> ('t, infraction) file_act" where
  "CreateInfraction L x = seq (next_number L sq_infraction sq_infraction_update) (\<lambda>u. pure (x\<lparr>if_uid := u\<rparr>))"

definition RetrieveInfraction :: "('j, 't) json_lib \<Rightarrow> uid \<Rightarrow> ('t, infraction) file_act" where
  "RetrieveInfraction L u = seq (load_file L ''Infraction'' (Row_File Infractions u)) (\<lambda>j. lift (infraction_of_json L j))"

definition StoreInfraction :: "('j, 't) json_lib \<Rightarrow> uid \<Rightarrow> infraction \<Rightarrow> ('t, unit) file_act" where
  "StoreInfraction L u x = store_file L ''Infraction'' (Row_File Infractions u) (infraction_json L x)"

definition DeleteInfraction :: "uid \<Rightarrow> ('t, unit) file_act" where
  "DeleteInfraction u = delete_file (Row_File Infractions u)"

definition item_json :: "('j, 't) json_lib \<Rightarrow> item \<Rightarrow> 'j" where
  "item_json L x = js_object L [
     (''uid'', js_word L (it_uid x)), (''tid'', js_word L (it_tid x)), (''count'', js_word L (it_count x)),
     (''duration'', js_number L (it_duration x)), (''createdAt'', js_number L (ceil_seconds (it_createdAt x)))]"

definition item_of_json :: "('j, 't) json_lib \<Rightarrow> 'j \<Rightarrow> exn + item" where
  "item_of_json L j =
     bnd (value_word L ''uid'' j) (\<lambda>uid. bnd (value_word L ''tid'' j) (\<lambda>tid.
     bnd (value_word L ''count'' j) (\<lambda>amount. bnd (value_int L ''duration'' j) (\<lambda>duration.
     bnd (value_time L ''createdAt'' j) (\<lambda>createdAt.
     Inr \<lparr>it_uid = uid, it_tid = tid, it_count = amount, it_duration = duration, it_createdAt = createdAt\<rparr>)))))"

definition CreateItem :: "('j, 't) json_lib \<Rightarrow> item \<Rightarrow> ('t, item) file_act" where
  "CreateItem L x = seq (next_number L sq_equipment sq_equipment_update) (\<lambda>u. pure (x\<lparr>it_uid := u\<rparr>))"

definition RetrieveItem :: "('j, 't) json_lib \<Rightarrow> uid \<Rightarrow> ('t, item) file_act" where
  "RetrieveItem L u = seq (load_file L ''Item'' (Row_File Items u)) (\<lambda>j. lift (item_of_json L j))"

definition StoreItem :: "('j, 't) json_lib \<Rightarrow> uid \<Rightarrow> item \<Rightarrow> ('t, unit) file_act" where
  "StoreItem L u x = store_file L ''Item'' (Row_File Items u) (item_json L x)"

definition DeleteItem :: "uid \<Rightarrow> ('t, unit) file_act" where
  "DeleteItem u = delete_file (Row_File Items u)"

text \<open>What is in a gift or purchase.\<close>

definition part_json :: "('j, 't) json_lib \<Rightarrow> storage_item_part \<Rightarrow> 'j" where
  "part_json L x = js_object L [
     (''tid'', js_word L (sip_tid x)), (''count'', js_word L (sip_count x)), (''duration'', js_number L (sip_duration x))]"

definition part_of_json :: "('j, 't) json_lib \<Rightarrow> 'j \<Rightarrow> exn + storage_item_part" where
  "part_of_json L j = bnd (value_word L ''tid'' j) (\<lambda>tid. bnd (value_word L ''count'' j) (\<lambda>amount.
     bnd (value_int L ''duration'' j) (\<lambda>duration. Inr \<lparr>sip_tid = tid, sip_count = amount, sip_duration = duration\<rparr>)))"

definition storage_item_json :: "('j, 't) json_lib \<Rightarrow> storage_item \<Rightarrow> 'j" where
  "storage_item_json L x = js_object L [
     (''uid'', js_word L (si_uid x)), (''sender'', js_string L (si_sender x)),
     (''message'', js_string L (si_message x)), (''carrots'', js_sword L (si_carrots x)),
     (''items'', js_list L (map (part_json L) (si_items x))), (''checked'', js_bool L (si_checked x)),
     (''createdAt'', js_number L (ceil_seconds (si_createdAt x))), (''duration'', js_number L (si_duration x)),
     (''goodsSq'', js_word L (si_goodsSq x)), (''priceId'', js_word L (si_priceId x))]"

definition storage_item_of_json :: "('j, 't) json_lib \<Rightarrow> 'j \<Rightarrow> exn + storage_item" where
  "storage_item_of_json L j =
     bnd (value_word L ''uid'' j) (\<lambda>uid. bnd (value_string L ''sender'' j) (\<lambda>sender.
     bnd (value_string L ''message'' j) (\<lambda>message. bnd (value_word L ''carrots'' j) (\<lambda>carrots.
     bnd (value_items L (part_of_json L) ''items'' j) (\<lambda>parts.
     bnd (value_bool L ''checked'' j) (\<lambda>checked. bnd (value_int L ''duration'' j) (\<lambda>duration.
     bnd (value_time L ''createdAt'' j) (\<lambda>createdAt. bnd (value_word L ''goodsSq'' j) (\<lambda>goodsSq.
     bnd (value_word L ''priceId'' j) (\<lambda>priceId.
     Inr \<lparr>si_uid = uid, si_sender = sender, si_message = message, si_carrots = carrots, si_items = parts,
       si_checked = checked, si_createdAt = createdAt, si_duration = duration, si_goodsSq = goodsSq,
       si_priceId = priceId\<rparr>))))))))))"

definition CreateStorageItem :: "('j, 't) json_lib \<Rightarrow> storage_item \<Rightarrow> ('t, storage_item) file_act" where
  "CreateStorageItem L x = seq (next_number L sq_storageItem sq_storageItem_update) (\<lambda>u. pure (x\<lparr>si_uid := u\<rparr>))"

definition RetrieveStorageItem :: "('j, 't) json_lib \<Rightarrow> uid \<Rightarrow> ('t, storage_item) file_act" where
  "RetrieveStorageItem L u = seq (load_file L ''Storage item'' (Row_File Storage u)) (\<lambda>j. lift (storage_item_of_json L j))"

definition StoreStorageItem :: "('j, 't) json_lib \<Rightarrow> uid \<Rightarrow> storage_item \<Rightarrow> ('t, unit) file_act" where
  "StoreStorageItem L u x = store_file L ''Storage item'' (Row_File Storage u) (storage_item_json L x)"

definition DeleteStorageItem :: "uid \<Rightarrow> ('t, unit) file_act" where
  "DeleteStorageItem u = delete_file (Row_File Storage u)"

definition egg_json :: "('j, 't) json_lib \<Rightarrow> egg_record \<Rightarrow> 'j" where
  "egg_json L x = js_object L [
     (''uid'', js_word L (eg_uid x)), (''itemUid'', js_word L (eg_itemUid x)),
     (''itemTid'', js_word L (eg_itemTid x)), (''incubatedAt'', js_number L (cast_seconds (eg_incubatedAt x))),
     (''incubatorSlot'', js_word L (eg_incubatorSlot x)), (''boostsUsed'', js_word L (eg_boostsUsed x))]"

definition egg_of_json :: "('j, 't) json_lib \<Rightarrow> 'j \<Rightarrow> exn + egg_record" where
  "egg_of_json L j =
     bnd (value_word L ''uid'' j) (\<lambda>uid. bnd (value_word L ''itemUid'' j) (\<lambda>itemUid.
     bnd (value_word L ''itemTid'' j) (\<lambda>itemTid. bnd (value_time L ''incubatedAt'' j) (\<lambda>incubatedAt.
     bnd (value_word L ''incubatorSlot'' j) (\<lambda>incubatorSlot.
     bnd (value_word L ''boostsUsed'' j) (\<lambda>boostsUsed.
     Inr \<lparr>eg_uid = uid, eg_itemUid = itemUid, eg_itemTid = itemTid, eg_incubatedAt = incubatedAt,
       eg_incubatorSlot = incubatorSlot, eg_boostsUsed = boostsUsed\<rparr>))))))"

definition CreateEgg :: "('j, 't) json_lib \<Rightarrow> egg_record \<Rightarrow> ('t, egg_record) file_act" where
  "CreateEgg L x = seq (next_number L sq_egg sq_egg_update) (\<lambda>u. pure (x\<lparr>eg_uid := u\<rparr>))"

definition RetrieveEgg :: "('j, 't) json_lib \<Rightarrow> uid \<Rightarrow> ('t, egg_record) file_act" where
  "RetrieveEgg L u = seq (load_file L ''Egg'' (Row_File Eggs u)) (\<lambda>j. lift (egg_of_json L j))"

definition StoreEgg :: "('j, 't) json_lib \<Rightarrow> uid \<Rightarrow> egg_record \<Rightarrow> ('t, unit) file_act" where
  "StoreEgg L u x = store_file L ''Egg'' (Row_File Eggs u) (egg_json L x)"

definition DeleteEgg :: "uid \<Rightarrow> ('t, unit) file_act" where
  "DeleteEgg u = delete_file (Row_File Eggs u)"

definition pet_json :: "('j, 't) json_lib \<Rightarrow> pet \<Rightarrow> 'j" where
  "pet_json L x = js_object L [
     (''uid'', js_word L (pt_uid x)), (''itemUid'', js_word L (pt_itemUid x)),
     (''petId'', js_word L (pt_petId x)), (''name'', js_string L (pt_name x)),
     (''birthDate'', js_number L (cast_seconds (pt_birthDate x)))]"

definition pet_of_json :: "('j, 't) json_lib \<Rightarrow> 'j \<Rightarrow> exn + pet" where
  "pet_of_json L j =
     bnd (value_word L ''uid'' j) (\<lambda>uid. bnd (value_word L ''itemUid'' j) (\<lambda>itemUid.
     bnd (value_word L ''petId'' j) (\<lambda>petId. bnd (value_string L ''name'' j) (\<lambda>name.
     bnd (value_time L ''birthDate'' j) (\<lambda>birthDate.
     Inr \<lparr>pt_uid = uid, pt_itemUid = itemUid, pt_petId = petId, pt_name = name, pt_birthDate = birthDate\<rparr>)))))"

definition CreatePet :: "('j, 't) json_lib \<Rightarrow> pet \<Rightarrow> ('t, pet) file_act" where
  "CreatePet L x = seq (next_number L sq_pet sq_pet_update) (\<lambda>u. pure (x\<lparr>pt_uid := u\<rparr>))"

definition RetrievePet :: "('j, 't) json_lib \<Rightarrow> uid \<Rightarrow> ('t, pet) file_act" where
  "RetrievePet L u = seq (load_file L ''Pet'' (Row_File Pets u)) (\<lambda>j. lift (pet_of_json L j))"

definition StorePet :: "('j, 't) json_lib \<Rightarrow> uid \<Rightarrow> pet \<Rightarrow> ('t, unit) file_act" where
  "StorePet L u x = store_file L ''Pet'' (Row_File Pets u) (pet_json L x)"

definition DeletePet :: "uid \<Rightarrow> ('t, unit) file_act" where
  "DeletePet u = delete_file (Row_File Pets u)"

definition housing_json :: "('j, 't) json_lib \<Rightarrow> housing \<Rightarrow> 'j" where
  "housing_json L x = js_object L [
     (''uid'', js_word L (hg_uid x)), (''housingId'', js_word L (hg_housingId x)),
     (''expiresAt'', js_number L (cast_seconds (hg_expiresAt x))),
     (''durability'', js_word L (hg_durability x))]"

definition housing_of_json :: "('j, 't) json_lib \<Rightarrow> 'j \<Rightarrow> exn + housing" where
  "housing_of_json L j =
     bnd (value_word L ''uid'' j) (\<lambda>uid. bnd (value_word L ''housingId'' j) (\<lambda>housingId.
     bnd (value_time L ''expiresAt'' j) (\<lambda>expiresAt.
     bnd (value_word L ''durability'' j) (\<lambda>durability.
     Inr \<lparr>hg_uid = uid, hg_housingId = housingId, hg_expiresAt = expiresAt, hg_durability = durability\<rparr>))))"

definition CreateHousing :: "('j, 't) json_lib \<Rightarrow> housing \<Rightarrow> ('t, housing) file_act" where
  "CreateHousing L x = seq (next_number L sq_housing sq_housing_update) (\<lambda>u. pure (x\<lparr>hg_uid := u\<rparr>))"

definition RetrieveHousing :: "('j, 't) json_lib \<Rightarrow> uid \<Rightarrow> ('t, housing) file_act" where
  "RetrieveHousing L u = seq (load_file L ''Housing'' (Row_File Housings u)) (\<lambda>j. lift (housing_of_json L j))"

definition StoreHousing :: "('j, 't) json_lib \<Rightarrow> uid \<Rightarrow> housing \<Rightarrow> ('t, unit) file_act" where
  "StoreHousing L u x = store_file L ''Housing'' (Row_File Housings u) (housing_json L x)"

definition DeleteHousing :: "uid \<Rightarrow> ('t, unit) file_act" where
  "DeleteHousing u = delete_file (Row_File Housings u)"

definition guild_json :: "('j, 't) json_lib \<Rightarrow> guild \<Rightarrow> 'j" where
  "guild_json L x = js_object L [
     (''uid'', js_word L (gu_uid x)), (''name'', js_string L (gu_name x)),
     (''description'', js_string L (gu_description x)), (''owner'', js_word L (gu_owner x)),
     (''officers'', js_words L (gu_officers x)), (''members'', js_words L (gu_members x)),
     (''rank'', js_word L (gu_rank x)), (''totalWins'', js_word L (gu_totalWins x)),
     (''totalLosses'', js_word L (gu_totalLosses x)), (''seasonalWins'', js_word L (gu_seasonalWins x)),
     (''seasonalLosses'', js_word L (gu_seasonalLosses x))]"

definition guild_of_json :: "('j, 't) json_lib \<Rightarrow> 'j \<Rightarrow> exn + guild" where
  "guild_of_json L j =
     bnd (value_word L ''uid'' j) (\<lambda>uid. bnd (value_string L ''name'' j) (\<lambda>name.
     bnd (value_string L ''description'' j) (\<lambda>description. bnd (value_word L ''owner'' j) (\<lambda>owner.
     bnd (value_uids L ''officers'' j) (\<lambda>officers. bnd (value_uids L ''members'' j) (\<lambda>members.
     bnd (value_word L ''rank'' j) (\<lambda>place. bnd (value_word L ''totalWins'' j) (\<lambda>totalWins.
     bnd (value_word L ''totalLosses'' j) (\<lambda>totalLosses.
     bnd (value_word L ''seasonalWins'' j) (\<lambda>seasonalWins.
     bnd (value_word L ''seasonalLosses'' j) (\<lambda>seasonalLosses.
     Inr \<lparr>gu_uid = uid, gu_name = name, gu_description = description, gu_owner = owner,
       gu_officers = officers, gu_members = members, gu_rank = place, gu_totalWins = totalWins,
       gu_totalLosses = totalLosses, gu_seasonalWins = seasonalWins, gu_seasonalLosses = seasonalLosses\<rparr>)))))))))))"

definition CreateGuild :: "('j, 't) json_lib \<Rightarrow> guild \<Rightarrow> ('t, guild) file_act" where
  "CreateGuild L x = seq (next_number L sq_guild sq_guild_update) (\<lambda>u. pure (x\<lparr>gu_uid := u\<rparr>))"

definition RetrieveGuild :: "('j, 't) json_lib \<Rightarrow> uid \<Rightarrow> ('t, guild) file_act" where
  "RetrieveGuild L u = seq (load_file L ''Guild'' (Row_File Guilds u)) (\<lambda>j. lift (guild_of_json L j))"

definition StoreGuild :: "('j, 't) json_lib \<Rightarrow> uid \<Rightarrow> guild \<Rightarrow> ('t, unit) file_act" where
  "StoreGuild L u x = store_file L ''Guild'' (Row_File Guilds u) (guild_json L x)"

definition DeleteGuild :: "uid \<Rightarrow> ('t, unit) file_act" where
  "DeleteGuild u = delete_file (Row_File Guilds u)"

text \<open>Key bindings: an empty list of them is stored, and read back as none.\<close>

definition binding_json :: "('j, 't) json_lib \<Rightarrow> string \<Rightarrow> string \<Rightarrow> option_binding \<Rightarrow> 'j" where
  "binding_json L primary secondary x = js_object L [
     (''type'', js_word L (ob_type x)), (primary, js_word L (ob_primaryKey x)), (secondary, js_word L (ob_secondaryKey x))]"

definition binding_of_json :: "('j, 't) json_lib \<Rightarrow> string \<Rightarrow> string \<Rightarrow> 'j \<Rightarrow> exn + option_binding" where
  "binding_of_json L primary secondary j =
     bnd (value_word L primary j) (\<lambda>primaryKey. bnd (value_word L ''type'' j) (\<lambda>kind.
     bnd (value_word L secondary j) (\<lambda>secondaryKey.
     Inr \<lparr>ob_primaryKey = primaryKey, ob_type = kind, ob_secondaryKey = secondaryKey\<rparr>)))"

definition bindings_json :: "('j, 't) json_lib \<Rightarrow> string \<Rightarrow> string \<Rightarrow> option_binding list option \<Rightarrow> 'j" where
  "bindings_json L primary secondary bs = js_object L [
     (''bindings'', js_list L (map (binding_json L primary secondary) (case bs of None \<Rightarrow> [] | Some bs \<Rightarrow> bs)))]"

definition bindings_of_json ::
  "('j, 't) json_lib \<Rightarrow> string \<Rightarrow> string \<Rightarrow> string \<Rightarrow> 'j \<Rightarrow> exn + option_binding list option" where
  "bindings_of_json L k primary secondary j =
     bnd (value_object L k j) (\<lambda>device.
     bnd (value_items L (binding_of_json L primary secondary) ''bindings'' device) (\<lambda>bs.
     Inr (if bs = [] then None else Some bs)))"

text \<open>\<open>std::array<std::string, 8>\<close>.\<close>

definition as_macros :: "('j, 't) json_lib \<Rightarrow> 'j \<Rightarrow> exn + bytes list" where
  "as_macros L j = bnd (js_get_array L j) (\<lambda>js. if length js < 8 then Inl (RuntimeError ''array index out of range'')
     else all_of (js_get_string L) (take 8 js))"

definition settings_json :: "('j, 't) json_lib \<Rightarrow> settings_record \<Rightarrow> 'j" where
  "settings_json L x = js_object L ([
     (''uid'', js_word L (se_uid x)), (''age'', js_word L (se_age x)), (''hideGenderAndAge'', js_bool L (se_hideAge x)),
     (''keyboard'', bindings_json L ''primaryKey'' ''secondaryKey'' (se_keyboardBindings x)),
     (''gamepad'', bindings_json L ''primaryButton'' ''secondaryButton'' (se_gamepadBindings x))]
     @ (case se_macros x of None \<Rightarrow> [] | Some ms \<Rightarrow> [(''macros'', js_array L (map (js_string L) ms))]))"

definition settings_of_json :: "('j, 't) json_lib \<Rightarrow> 'j \<Rightarrow> exn + settings_record" where
  "settings_of_json L j =
     bnd (value_word L ''uid'' j) (\<lambda>uid. bnd (value_word L ''age'' j) (\<lambda>age.
     bnd (value_bool L ''hideGenderAndAge'' j) (\<lambda>hideAge.
     bnd (bindings_of_json L ''keyboard'' ''primaryKey'' ''secondaryKey'' j) (\<lambda>keyboard.
     bnd (bindings_of_json L ''gamepad'' ''primaryButton'' ''secondaryButton'' j) (\<lambda>gamepad.
     bnd (js_value L (\<lambda>v. bnd (as_macros L v) (\<lambda>ms. Inr (Some ms))) None ''macros'' j) (\<lambda>macros.
     Inr \<lparr>se_uid = uid, se_keyboardBindings = keyboard, se_macros = macros, se_gamepadBindings = gamepad, se_age = age,
       se_hideAge = hideAge\<rparr>))))))"

definition CreateSettings :: "('j, 't) json_lib \<Rightarrow> settings_record \<Rightarrow> ('t, settings_record) file_act" where
  "CreateSettings L x = seq (next_number L sq_settings sq_settings_update) (\<lambda>u. pure (x\<lparr>se_uid := u\<rparr>))"

definition RetrieveSettings :: "('j, 't) json_lib \<Rightarrow> uid \<Rightarrow> ('t, settings_record) file_act" where
  "RetrieveSettings L u = seq (load_file L ''Settings'' (Row_File Settings_Folder u)) (\<lambda>j. lift (settings_of_json L j))"

definition StoreSettings :: "('j, 't) json_lib \<Rightarrow> uid \<Rightarrow> settings_record \<Rightarrow> ('t, unit) file_act" where
  "StoreSettings L u x = store_file L ''Settings'' (Row_File Settings_Folder u) (settings_json L x)"

definition DeleteSettings :: "uid \<Rightarrow> ('t, unit) file_act" where
  "DeleteSettings u = delete_file (Row_File Settings_Folder u)"

text \<open>The three entries of a daily quest group; a file may hold fewer, or more.\<close>

definition daily_quest_json :: "('j, 't) json_lib \<Rightarrow> daily_quest_entry \<Rightarrow> 'j" where
  "daily_quest_json L x = js_object L [(''questId'', js_word L (dqe_questId x)), (''progress'', js_word L (dqe_progress x))]"

definition daily_quest_of_json :: "('j, 't) json_lib \<Rightarrow> 'j \<Rightarrow> exn + daily_quest_entry" where
  "daily_quest_of_json L j = bnd (value_word L ''questId'' j) (\<lambda>questId. bnd (value_word L ''progress'' j) (\<lambda>progress.
     Inr \<lparr>dqe_questId = questId, dqe_progress = progress\<rparr>))"

definition daily_quests_of_json :: "('j, 't) json_lib \<Rightarrow> string \<Rightarrow> 'j \<Rightarrow> exn + daily_quest_entry list" where
  "daily_quests_of_json L k j = bnd (js_value L Inr (js_array L []) k j) (\<lambda>v.
     bnd (all_of (daily_quest_of_json L) (take 3 (js_items L v))) (\<lambda>qs.
     Inr (qs @ replicate (3 - length qs) \<lparr>dqe_questId = 0, dqe_progress = 0\<rparr>)))"

text \<open>A flag that older files hold as a number.\<close>

definition as_claimed :: "('j, 't) json_lib \<Rightarrow> 'j \<Rightarrow> exn + bool" where
  "as_claimed L j = (if js_is_bool L j then js_get_bool L j else bnd (as_word L j) (\<lambda>i :: u32. Inr (i \<noteq> 0)))"

definition daily_quest_group_json :: "('j, 't) json_lib \<Rightarrow> daily_quest_group \<Rightarrow> 'j" where
  "daily_quest_group_json L x = js_object L [
     (''uid'', js_word L (dq_uid x)), (''rewardId'', js_word L (dq_rewardId x)),
     (''rewardType'', js_word L (dq_rewardType x)), (''rewardPoints'', js_word L (dq_rewardPoints x)),
     (''carrotsClaimed'', js_bool L (dq_carrotsClaimed x)),
     (''quests'', js_array L (map (daily_quest_json L) (dq_quests x)))]"

definition daily_quest_group_of_json :: "('j, 't) json_lib \<Rightarrow> 'j \<Rightarrow> exn + daily_quest_group" where
  "daily_quest_group_of_json L j =
     bnd (value_word L ''uid'' j) (\<lambda>uid. bnd (value_word L ''rewardId'' j) (\<lambda>rewardId.
     bnd (value_word L ''rewardType'' j) (\<lambda>rewardType.
     bnd (value_word L ''rewardPoints'' j) (\<lambda>rewardPoints.
     bnd (js_value L (as_claimed L) False ''carrotsClaimed'' j) (\<lambda>carrotsClaimed.
     bnd (daily_quests_of_json L ''quests'' j) (\<lambda>quests.
     Inr \<lparr>dq_uid = uid, dq_rewardId = rewardId, dq_rewardType = rewardType, dq_rewardPoints = rewardPoints,
       dq_carrotsClaimed = carrotsClaimed, dq_quests = quests\<rparr>))))))"

definition CreateDailyQuestGroup :: "('j, 't) json_lib \<Rightarrow> daily_quest_group \<Rightarrow> ('t, daily_quest_group) file_act" where
  "CreateDailyQuestGroup L x = seq (next_number L sq_dailyQuestGroup sq_dailyQuestGroup_update) (\<lambda>u. pure (x\<lparr>dq_uid := u\<rparr>))"

definition RetrieveDailyQuestGroup :: "('j, 't) json_lib \<Rightarrow> uid \<Rightarrow> ('t, daily_quest_group) file_act" where
  "RetrieveDailyQuestGroup L u = seq (load_file L ''Daily quest group'' (Row_File DailyQuestGroups u)) (\<lambda>j. lift (daily_quest_group_of_json L j))"

definition StoreDailyQuestGroup :: "('j, 't) json_lib \<Rightarrow> uid \<Rightarrow> daily_quest_group \<Rightarrow> ('t, unit) file_act" where
  "StoreDailyQuestGroup L u x = store_file L ''Daily quest group'' (Row_File DailyQuestGroups u) (daily_quest_group_json L x)"

definition DeleteDailyQuestGroup :: "uid \<Rightarrow> ('t, unit) file_act" where
  "DeleteDailyQuestGroup u = delete_file (Row_File DailyQuestGroups u)"

fun mail_code :: "MailType \<Rightarrow> nat" where
  "mail_code CanReply = 0" | "mail_code NoReply = 1" | "mail_code CarnivalReward = 2" | "mail_code BreedingReward = 3"

definition mail_json :: "('j, 't) json_lib \<Rightarrow> mail \<Rightarrow> 'j" where
  "mail_json L x = js_object L [
     (''uid'', js_word L (ma_uid x)), (''from'', js_word L (ma_from x)), (''to'', js_word L (ma_to x)),
     (''isRead'', js_bool L (ma_isRead x)), (''isDeleted'', js_bool L (ma_isDeleted x)),
     (''type'', js_number L (int (mail_code (ma_type x)))), (''claimUid'', js_word L (ma_claimUid x)),
     (''createdAt'', js_number L (cast_seconds (ma_createdAt x))), (''body'', js_string L (ma_body x))]"

definition mail_of_json :: "('j, 't) json_lib \<Rightarrow> 'j \<Rightarrow> exn + mail" where
  "mail_of_json L j =
     bnd (value_word L ''uid'' j) (\<lambda>uid. bnd (value_word L ''from'' j) (\<lambda>sender.
     bnd (value_word L ''to'' j) (\<lambda>recipient. bnd (value_bool L ''isRead'' j) (\<lambda>isRead.
     bnd (value_bool L ''isDeleted'' j) (\<lambda>isDeleted.
     bnd (js_value L (as_enum L [CanReply, NoReply, CarnivalReward, BreedingReward]) CanReply ''type'' j) (\<lambda>kind.
     bnd (value_word L ''claimUid'' j) (\<lambda>claimUid. bnd (value_time L ''createdAt'' j) (\<lambda>createdAt.
     bnd (value_string L ''body'' j) (\<lambda>body.
     Inr \<lparr>ma_uid = uid, ma_from = sender, ma_to = recipient, ma_isRead = isRead, ma_isDeleted = isDeleted,
       ma_type = kind, ma_claimUid = claimUid, ma_createdAt = createdAt, ma_body = body\<rparr>)))))))))"

definition CreateMail :: "('j, 't) json_lib \<Rightarrow> mail \<Rightarrow> ('t, mail) file_act" where
  "CreateMail L x = seq (next_number L sq_mail sq_mail_update) (\<lambda>u. pure (x\<lparr>ma_uid := u\<rparr>))"

definition RetrieveMail :: "('j, 't) json_lib \<Rightarrow> uid \<Rightarrow> ('t, mail) file_act" where
  "RetrieveMail L u = seq (load_file L ''Mail'' (Row_File Mails u)) (\<lambda>j. lift (mail_of_json L j))"

definition StoreMail :: "('j, 't) json_lib \<Rightarrow> uid \<Rightarrow> mail \<Rightarrow> ('t, unit) file_act" where
  "StoreMail L u x = store_file L ''Mail'' (Row_File Mails u) (mail_json L x)"

definition DeleteMail :: "uid \<Rightarrow> ('t, unit) file_act" where
  "DeleteMail u = delete_file (Row_File Mails u)"

text \<open>A status is 0, 1 or 3.\<close>

fun status_code :: "QuestStatus \<Rightarrow> nat" where
  "status_code InProgress = 0" | "status_code ReadyToClaim = 1" | "status_code Completed = 3"

definition as_status :: "('j, 't) json_lib \<Rightarrow> 'j \<Rightarrow> exn + QuestStatus" where
  "as_status L j = bnd (as_word L j) (\<lambda>w :: u32. if w = 0 then Inr InProgress else if w = 1 then Inr ReadyToClaim
     else if w = 3 then Inr Completed else Inl (RuntimeError ''not a value of the enumeration''))"

definition quest_json :: "('j, 't) json_lib \<Rightarrow> quest \<Rightarrow> 'j" where
  "quest_json L x = js_object L [
     (''uid'', js_word L (qu_uid x)), (''questId'', js_word L (qu_questId x)),
     (''isCompleted'', js_number L (int (status_code (qu_isCompleted x)))),
     (''progress'', js_word L (qu_progress x))]"

definition quest_of_json :: "('j, 't) json_lib \<Rightarrow> 'j \<Rightarrow> exn + quest" where
  "quest_of_json L j =
     bnd (value_word L ''uid'' j) (\<lambda>uid. bnd (value_word L ''questId'' j) (\<lambda>questId.
     bnd (js_value L (as_status L) InProgress ''isCompleted'' j) (\<lambda>isCompleted.
     bnd (value_word L ''progress'' j) (\<lambda>progress.
     Inr \<lparr>qu_uid = uid, qu_questId = questId, qu_isCompleted = isCompleted, qu_progress = progress\<rparr>))))"

definition CreateQuest :: "('j, 't) json_lib \<Rightarrow> quest \<Rightarrow> ('t, quest) file_act" where
  "CreateQuest L x = seq (next_number L sq_quest sq_quest_update) (\<lambda>u. pure (x\<lparr>qu_uid := u\<rparr>))"

definition RetrieveQuest :: "('j, 't) json_lib \<Rightarrow> uid \<Rightarrow> ('t, quest) file_act" where
  "RetrieveQuest L u = seq (load_file L ''Quest'' (Row_File Quests u)) (\<lambda>j. lift (quest_of_json L j))"

definition StoreQuest :: "('j, 't) json_lib \<Rightarrow> uid \<Rightarrow> quest \<Rightarrow> ('t, unit) file_act" where
  "StoreQuest L u x = store_file L ''Quest'' (Row_File Quests u) (quest_json L x)"

definition DeleteQuest :: "uid \<Rightarrow> ('t, unit) file_act" where
  "DeleteQuest u = delete_file (Row_File Quests u)"

definition stallion_json :: "('j, 't) json_lib \<Rightarrow> stallion \<Rightarrow> 'j" where
  "stallion_json L x = js_object L [
     (''uid'', js_word L (st_uid x)), (''horseUid'', js_word L (st_horseUid x)),
     (''ownerUid'', js_word L (st_ownerUid x)), (''breedingCharge'', js_word L (st_breedingCharge x)),
     (''timesMated'', js_word L (st_timesMated x)),
     (''registeredAt'', js_number L (cast_seconds (st_registeredAt x))),
     (''expiresAt'', js_number L (cast_seconds (st_expiresAt x)))]"

definition stallion_of_json :: "('j, 't) json_lib \<Rightarrow> 'j \<Rightarrow> exn + stallion" where
  "stallion_of_json L j =
     bnd (value_word L ''uid'' j) (\<lambda>uid. bnd (value_word L ''horseUid'' j) (\<lambda>horseUid.
     bnd (value_word L ''ownerUid'' j) (\<lambda>ownerUid.
     bnd (value_word L ''breedingCharge'' j) (\<lambda>breedingCharge.
     bnd (value_word L ''timesMated'' j) (\<lambda>timesMated.
     bnd (value_time L ''registeredAt'' j) (\<lambda>registeredAt.
     bnd (value_time L ''expiresAt'' j) (\<lambda>expiresAt.
     Inr \<lparr>st_uid = uid, st_horseUid = horseUid, st_ownerUid = ownerUid, st_breedingCharge = breedingCharge,
       st_timesMated = timesMated, st_registeredAt = registeredAt, st_expiresAt = expiresAt\<rparr>)))))))"

definition CreateStallion :: "('j, 't) json_lib \<Rightarrow> stallion \<Rightarrow> ('t, stallion) file_act" where
  "CreateStallion L x = seq (next_number L sq_stallion sq_stallion_update) (\<lambda>u. pure (x\<lparr>st_uid := u\<rparr>))"

definition RetrieveStallion :: "('j, 't) json_lib \<Rightarrow> uid \<Rightarrow> ('t, stallion) file_act" where
  "RetrieveStallion L u = seq (load_file L ''Stallion'' (Row_File Stallions u)) (\<lambda>j. lift (stallion_of_json L j))"

definition StoreStallion :: "('j, 't) json_lib \<Rightarrow> uid \<Rightarrow> stallion \<Rightarrow> ('t, unit) file_act" where
  "StoreStallion L u x = store_file L ''Stallion'' (Row_File Stallions u) (stallion_json L x)"

definition DeleteStallion :: "uid \<Rightarrow> ('t, unit) file_act" where
  "DeleteStallion u = delete_file (Row_File Stallions u)"

fun reward_code :: "RewardType \<Rightarrow> nat" where
  "reward_code Reward_Breeding = 0" | "reward_code Reward_Carnival = 1"

definition reward_json :: "('j, 't) json_lib \<Rightarrow> reward_record \<Rightarrow> 'j" where
  "reward_json L x = js_object L [
     (''claimUid'', js_word L (rw_claimUid x)), (''characterUid'', js_word L (rw_characterUid x)),
     (''type'', js_number L (int (reward_code (rw_type x)))), (''carrots'', js_word L (rw_carrots x)),
     (''isClaimed'', js_bool L (rw_isClaimed x)), (''createdAt'', js_number L (cast_seconds (rw_createdAt x))),
     (''claimedAt'', js_number L (cast_seconds (rw_claimedAt x)))]"

definition reward_of_json :: "('j, 't) json_lib \<Rightarrow> 'j \<Rightarrow> exn + reward_record" where
  "reward_of_json L j =
     bnd (value_word L ''claimUid'' j) (\<lambda>claimUid.
     bnd (value_word L ''characterUid'' j) (\<lambda>characterUid.
     bnd (js_value L (as_enum L [Reward_Breeding, Reward_Carnival]) Reward_Breeding ''type'' j) (\<lambda>kind.
     bnd (value_word L ''carrots'' j) (\<lambda>carrots. bnd (value_bool L ''isClaimed'' j) (\<lambda>isClaimed.
     bnd (value_time L ''createdAt'' j) (\<lambda>createdAt. bnd (value_time L ''claimedAt'' j) (\<lambda>claimedAt.
     Inr \<lparr>rw_claimUid = claimUid, rw_characterUid = characterUid, rw_type = kind, rw_carrots = carrots,
       rw_isClaimed = isClaimed, rw_createdAt = createdAt, rw_claimedAt = claimedAt\<rparr>)))))))"

definition CreateRewardFile :: "('j, 't) json_lib \<Rightarrow> reward_record \<Rightarrow> ('t, reward_record) file_act" where
  "CreateRewardFile L x = seq (next_number L sq_reward sq_reward_update) (\<lambda>u. pure (x\<lparr>rw_claimUid := u\<rparr>))"

definition RetrieveReward :: "('j, 't) json_lib \<Rightarrow> uid \<Rightarrow> ('t, reward_record) file_act" where
  "RetrieveReward L u = seq (load_file L ''Reward'' (Row_File Rewards u)) (\<lambda>j. lift (reward_of_json L j))"

definition StoreReward :: "('j, 't) json_lib \<Rightarrow> uid \<Rightarrow> reward_record \<Rightarrow> ('t, unit) file_act" where
  "StoreReward L u x = store_file L ''Reward'' (Row_File Rewards u) (reward_json L x)"

definition DeleteReward :: "uid \<Rightarrow> ('t, unit) file_act" where
  "DeleteReward u = delete_file (Row_File Rewards u)"

section \<open>Searches\<close>

text \<open>The stallions there are files of.\<close>

definition ListRegisteredStallions :: "'t file_source \<Rightarrow> uid list" where
  "ListRegisteredStallions s =
     List.map_filter (\<lambda>(f, t). case f of Row_File Stallions u \<Rightarrow> Some u | _ \<Rightarrow> None) (fs_files s)"

text \<open>\<open>std::tolower\<close> in the C locale.\<close>

definition lower_char :: "u8 \<Rightarrow> u8" where
  "lower_char c = (if 65 \<le> c \<and> c \<le> 90 then c + 32 else c)"

text \<open>Files that cannot be read or parsed are skipped.\<close>

definition guild_file_name :: "('j, 't) json_lib \<Rightarrow> 't file_source \<Rightarrow> data_file \<times> 't \<Rightarrow> bytes option" where
  "guild_file_name L s = (\<lambda>(f, t). case f of
     Row_File Guilds u \<Rightarrow> if f \<in> set (fs_denied s) then None
       else (case bnd (js_parse L t) (value_string L ''name'') of Inl e \<Rightarrow> None | Inr name \<Rightarrow> Some name)
   | _ \<Rightarrow> None)"

definition IsGuildNameUnique :: "('j, 't) json_lib \<Rightarrow> bytes \<Rightarrow> 't file_source \<Rightarrow> bool" where
  "IsGuildNameUnique L name s \<longleftrightarrow>
     \<not> list_ex (\<lambda>n. map lower_char n = map lower_char name) (List.map_filter (guild_file_name L s) (fs_files s))"

section \<open>Search by name\<close>

text \<open>The library of regular expressions is a parameter: it compiles a pattern, or throws, to the texts that match as a whole,
  in either case of their letters.\<close>

type_synonym regex_icase = "bytes \<Rightarrow> exn + (bytes \<Rightarrow> bool)"

definition dot_star :: bytes where "dot_star = [46, 42]"
definition dot_json :: bytes where "dot_json = [46, 106, 115, 111, 110]"

text \<open>The name in question is a pattern.\<close>

definition IsUserNameUnique :: "regex_icase \<Rightarrow> bytes \<Rightarrow> 't file_source \<Rightarrow> exn + bool" where
  "IsUserNameUnique regex name s = bnd (regex (name @ dot_star)) (\<lambda>rg.
     Inr (\<not> list_ex (\<lambda>(f, t). case f of User_File existing \<Rightarrow> rg (existing @ dot_json) | _ \<Rightarrow> False) (fs_files s)))"

text \<open>Characters are read one after the other, in the order of the folder, until one matches. A document without the
  field is none of this server.\<close>

definition js_at :: "('j, 't) json_lib \<Rightarrow> 'j \<Rightarrow> string \<Rightarrow> exn + 'j" where
  "js_at L j k = bnd (js_member L j k) (\<lambda>m. case m of None \<Rightarrow> Inl (RuntimeError ''no such field'') | Some v \<Rightarrow> Inr v)"

fun first_character :: "('j, 't) json_lib \<Rightarrow> (bytes \<Rightarrow> bool) \<Rightarrow> data_file list \<Rightarrow> (data_file \<times> 't) list \<Rightarrow> exn + uid" where
  "first_character L rg denied [] = Inr InvalidUid"
| "first_character L rg denied ((Row_File Characters u, t) # fs) =
     (if Row_File Characters u \<in> set denied then first_character L rg denied fs
      else bnd (js_parse L t) (\<lambda>j. bnd (js_at L j ''name'') (\<lambda>n. bnd (js_get_string L n) (\<lambda>existing.
        if rg existing then bnd (js_at L j ''uid'') (as_word L) else first_character L rg denied fs))))"
| "first_character L rg denied (_ # fs) = first_character L rg denied fs"

definition RetrieveCharacterUidByName :: "('j, 't) json_lib \<Rightarrow> regex_icase \<Rightarrow> bytes \<Rightarrow> 't file_source \<Rightarrow> exn + uid" where
  "RetrieveCharacterUidByName L regex name s =
     bnd (regex name) (\<lambda>rg. first_character L rg (fs_denied s) (fs_files s))"

definition IsCharacterNameUnique :: "('j, 't) json_lib \<Rightarrow> regex_icase \<Rightarrow> bytes \<Rightarrow> 't file_source \<Rightarrow> exn + bool" where
  "IsCharacterNameUnique L regex name s =
     bnd (RetrieveCharacterUidByName L regex name s) (\<lambda>u. Inr (u = InvalidUid))"

end
