(* ===== verification/File_Players.thy ===== *)
theory File_Players imports File_Data begin

text \<open>
  \<open>libserver/data/file/FileDataSource.cpp\<close>: the files of characters and horses, whose documents have documents inside.
\<close>

section \<open>Characters\<close>

definition character_parts_json :: "('j, 't) json_lib \<Rightarrow> character_parts \<Rightarrow> 'j" where
  "character_parts_json L x = js_object L [
     (''modelId'', js_word L (cp_modelId x)), (''mouthId'', js_word L (cp_mouthId x)),
     (''faceId'', js_word L (cp_faceId x))]"

definition character_parts_of_json :: "('j, 't) json_lib \<Rightarrow> 'j \<Rightarrow> exn + character_parts" where
  "character_parts_of_json L j =
     bnd (value_word L ''modelId'' j) (\<lambda>modelId. bnd (value_word L ''mouthId'' j) (\<lambda>mouthId.
     bnd (value_word L ''faceId'' j) (\<lambda>faceId.
     Inr \<lparr>cp_modelId = modelId, cp_mouthId = mouthId, cp_faceId = faceId\<rparr>)))"

definition character_appearance_json :: "('j, 't) json_lib \<Rightarrow> character_appearance \<Rightarrow> 'j" where
  "character_appearance_json L x = js_object L [
     (''voiceId'', js_word L (ca_voiceId x)), (''headSize'', js_word L (ca_headSize x)),
     (''height'', js_word L (ca_height x)), (''thighVolume'', js_word L (ca_thighVolume x)),
     (''legVolume'', js_word L (ca_legVolume x)), (''emblemId'', js_word L (ca_emblemId x))]"

definition character_appearance_of_json :: "('j, 't) json_lib \<Rightarrow> 'j \<Rightarrow> exn + character_appearance" where
  "character_appearance_of_json L j =
     bnd (value_word L ''voiceId'' j) (\<lambda>voiceId. bnd (value_word L ''headSize'' j) (\<lambda>headSize.
     bnd (value_word L ''height'' j) (\<lambda>height. bnd (value_word L ''thighVolume'' j) (\<lambda>thighVolume.
     bnd (value_word L ''legVolume'' j) (\<lambda>legVolume. bnd (value_word L ''emblemId'' j) (\<lambda>emblemId.
     Inr \<lparr>ca_voiceId = voiceId, ca_headSize = headSize, ca_height = height, ca_thighVolume = thighVolume,
       ca_legVolume = legVolume, ca_emblemId = emblemId\<rparr>))))))"

text \<open>A group is read under its own number; the first of two with the same number stays.\<close>

definition group_json :: "('j, 't) json_lib \<Rightarrow> contact_group \<Rightarrow> 'j" where
  "group_json L x = js_object L [
     (''uid'', js_word L (cg_uid x)), (''name'', js_string L (cg_name x)),
     (''members'', js_words L (cg_members x)), (''createdAt'', js_number L (ceil_seconds (cg_createdAt x)))]"

definition group_of_json :: "('j, 't) json_lib \<Rightarrow> 'j \<Rightarrow> exn + contact_group" where
  "group_of_json L j =
     bnd (value_word L ''uid'' j) (\<lambda>uid. bnd (value_string L ''name'' j) (\<lambda>name.
     bnd (js_value L (as_uid_set L) [] ''members'' j) (\<lambda>members.
     bnd (value_time L ''createdAt'' j) (\<lambda>createdAt.
     Inr \<lparr>cg_uid = uid, cg_name = name, cg_members = members, cg_createdAt = createdAt\<rparr>))))"

definition read_groups :: "contact_group list \<Rightarrow> (uid, contact_group) omap" where
  "read_groups gs = fold (\<lambda>g m. if has_key m (cg_uid g) then m else omap_put (cg_uid g) g m) gs []"

definition contacts_json :: "('j, 't) json_lib \<Rightarrow> contacts \<Rightarrow> 'j" where
  "contacts_json L x = js_object L [
     (''pending'', js_words L (cn_pending x)), (''groups'', js_list L (map (group_json L \<circ> snd) (cn_groups x)))]"

definition contacts_of_json :: "('j, 't) json_lib \<Rightarrow> 'j \<Rightarrow> exn + contacts" where
  "contacts_of_json L j =
     bnd (js_value L (as_uid_set L) [] ''pending'' j) (\<lambda>pending.
     bnd (value_items L (group_of_json L) ''groups'' j) (\<lambda>groups.
     Inr \<lparr>cn_pending = pending, cn_groups = read_groups groups\<rparr>))"

definition skill_set_json :: "('j, 't) json_lib \<Rightarrow> u32 \<times> u32 \<Rightarrow> 'j" where
  "skill_set_json L x = js_object L [(''slot1'', js_word L (fst x)), (''slot2'', js_word L (snd x))]"

definition skill_set_of_json :: "('j, 't) json_lib \<Rightarrow> 'j \<Rightarrow> exn + u32 \<times> u32" where
  "skill_set_of_json L j = bnd (value_word L ''slot1'' j) (\<lambda>slot1. bnd (value_word L ''slot2'' j) (\<lambda>slot2. Inr (slot1, slot2)))"

text \<open>A document inside, read from an empty one if it is missing.\<close>

definition value_inner :: "('j, 't) json_lib \<Rightarrow> ('j \<Rightarrow> exn + 'a) \<Rightarrow> string \<Rightarrow> 'j \<Rightarrow> exn + 'a" where
  "value_inner L get k j = bnd (value_object L k j) get"

definition skills_json :: "('j, 't) json_lib \<Rightarrow> skill_sets \<Rightarrow> 'j" where
  "skills_json L x = js_object L [
     (''set1'', skill_set_json L (sk_set1 x)), (''set2'', skill_set_json L (sk_set2 x)),
     (''activeSetId'', js_word L (sk_activeSetId x))]"

definition skills_of_json :: "('j, 't) json_lib \<Rightarrow> 'j \<Rightarrow> exn + skill_sets" where
  "skills_of_json L j =
     bnd (value_inner L (skill_set_of_json L) ''set1'' j) (\<lambda>set1. bnd (value_inner L (skill_set_of_json L) ''set2'' j) (\<lambda>set2.
     bnd (value_word L ''activeSetId'' j) (\<lambda>active. Inr \<lparr>sk_set1 = set1, sk_set2 = set2, sk_activeSetId = active\<rparr>)))"

definition both_skills_json :: "('j, 't) json_lib \<Rightarrow> character_info \<Rightarrow> 'j" where
  "both_skills_json L x = js_object L [
     (''speed'', skills_json L (ci_speed_skills x)), (''magic'', skills_json L (ci_magic_skills x))]"

definition both_skills_of_json :: "('j, 't) json_lib \<Rightarrow> 'j \<Rightarrow> exn + skill_sets \<times> skill_sets" where
  "both_skills_of_json L j = bnd (value_inner L (skills_of_json L) ''speed'' j) (\<lambda>speed.
     bnd (value_inner L (skills_of_json L) ''magic'' j) (\<lambda>magic. Inr (speed, magic)))"

definition mailbox_json :: "('j, 't) json_lib \<Rightarrow> mailbox \<Rightarrow> 'j" where
  "mailbox_json L x = js_object L [
     (''hasNewMail'', js_bool L (mx_hasNewMail x)), (''inbox'', js_words L (mx_inbox x)),
     (''sent'', js_words L (mx_sent x))]"

definition mailbox_of_json :: "('j, 't) json_lib \<Rightarrow> 'j \<Rightarrow> exn + mailbox" where
  "mailbox_of_json L j =
     bnd (value_bool L ''hasNewMail'' j) (\<lambda>hasNewMail. bnd (value_uids L ''inbox'' j) (\<lambda>inbox.
     bnd (value_uids L ''sent'' j) (\<lambda>sent.
     Inr \<lparr>mx_hasNewMail = hasNewMail, mx_inbox = inbox, mx_sent = sent\<rparr>)))"

fun role_code :: "Role \<Rightarrow> nat" where
  "role_code Role_User = 0" | "role_code Role_Op = 1" | "role_code Role_GameMaster = 2"

fun rank_code :: "RoleRank \<Rightarrow> nat" where
  "rank_code Rank_None = 0" | "rank_code Rank_Trial = 1" | "rank_code Rank_Moderator = 2" | "rank_code Rank_Admin = 3"

text \<open>A plain user has no rank, whatever the file says.\<close>

definition read_rank :: "('j, 't) json_lib \<Rightarrow> Role \<Rightarrow> 'j \<Rightarrow> exn + RoleRank" where
  "read_rank L role j = (if role = Role_User then Inr Rank_None
     else js_value L (as_enum L [Rank_None, Rank_Trial, Rank_Moderator, Rank_Admin]) Rank_None ''staffRank'' j)"

definition character_json :: "('j, 't) json_lib \<Rightarrow> character_info \<Rightarrow> 'j" where
  "character_json L x = js_object L [
     (''uid'', js_word L (ci_uid x)), (''name'', js_string L (ci_name x)),
     (''introduction'', js_string L (ci_introduction x)), (''level'', js_word L (ci_level x)),
     (''experience'', js_word L (ci_experience x)), (''carrots'', js_sword L (ci_carrots x)),
     (''cash'', js_sword L (ci_cash x)), (''role'', js_number L (int (role_code (ci_role x)))),
     (''staffRank'', js_number L (int (rank_code (ci_roleRank x)))),
     (''parts'', character_parts_json L (ci_parts x)),
     (''appearance'', character_appearance_json L (ci_appearance x)),
     (''guildUid'', js_word L (ci_guildUid x)), (''contacts'', contacts_json L (ci_contacts x)),
     (''gifts'', js_words L (ci_gifts x)), (''purchases'', js_words L (ci_purchases x)),
     (''inventory'', js_words L (ci_inventory x)),
     (''characterEquipment'', js_words L (ci_characterEquipment x)),
     (''horseEquipment'', js_words L (ci_expiredEquipment x)), (''horses'', js_words L (ci_horses x)),
     (''horseSlotCount'', js_word L (ci_horseSlotCount x)),
     (''breedingWishlist'', js_words L (ci_breedingWishlist x)), (''pets'', js_words L (ci_pets x)),
     (''mountUid'', js_word L (ci_mountUid x)), (''petUid'', js_word L (ci_petUid x)),
     (''eggs'', js_words L (ci_eggs x)), (''housing'', js_words L (ci_housing x)),
     (''isRanchLocked'', js_bool L (ci_isRanchLocked x)), (''settingsUid'', js_word L (ci_settingsUid x)),
     (''skills'', both_skills_json L x), (''dailyQuestGroupUid'', js_word L (ci_dailyQuestGroupUid x)),
     (''mailbox'', mailbox_json L (ci_mailbox x)), (''quests'', js_words L (ci_quests x))]"

definition character_of_json :: "('j, 't) json_lib \<Rightarrow> 'j \<Rightarrow> exn + character_info" where
  "character_of_json L j =
     bnd (value_word L ''uid'' j) (\<lambda>uid. bnd (value_string L ''name'' j) (\<lambda>name.
     bnd (value_string L ''introduction'' j) (\<lambda>introduction. bnd (value_word L ''level'' j) (\<lambda>level.
     bnd (value_word L ''experience'' j) (\<lambda>experience. bnd (value_word L ''carrots'' j) (\<lambda>carrots.
     bnd (value_word L ''cash'' j) (\<lambda>cash.
     bnd (js_value L (as_enum L [Role_User, Role_Op, Role_GameMaster]) Role_User ''role'' j) (\<lambda>role.
     bnd (read_rank L role j) (\<lambda>roleRank.
     bnd (value_inner L (character_parts_of_json L) ''parts'' j) (\<lambda>parts.
     bnd (value_inner L (character_appearance_of_json L) ''appearance'' j) (\<lambda>appearance.
     bnd (value_word L ''guildUid'' j) (\<lambda>guildUid.
     bnd (value_inner L (contacts_of_json L) ''contacts'' j) (\<lambda>contacts.
     bnd (value_uids L ''gifts'' j) (\<lambda>gifts. bnd (value_uids L ''purchases'' j) (\<lambda>purchases.
     bnd (value_uids L ''inventory'' j) (\<lambda>inventory.
     bnd (value_uids L ''characterEquipment'' j) (\<lambda>characterEquipment.
     bnd (value_uids L ''horseEquipment'' j) (\<lambda>expired.
     bnd (value_uids L ''horses'' j) (\<lambda>horses.
     bnd (value_word L ''horseSlotCount'' j) (\<lambda>horseSlotCount.
     bnd (js_value L (as_uid_set L) [] ''breedingWishlist'' j) (\<lambda>breedingWishlist.
     bnd (value_uids L ''pets'' j) (\<lambda>pets. bnd (value_word L ''mountUid'' j) (\<lambda>mountUid.
     bnd (value_word L ''petUid'' j) (\<lambda>petUid. bnd (value_uids L ''eggs'' j) (\<lambda>eggs.
     bnd (value_uids L ''housing'' j) (\<lambda>housing.
     bnd (value_bool L ''isRanchLocked'' j) (\<lambda>isRanchLocked.
     bnd (value_word L ''settingsUid'' j) (\<lambda>settingsUid.
     bnd (value_inner L (both_skills_of_json L) ''skills'' j) (\<lambda>skills.
     bnd (value_word L ''dailyQuestGroupUid'' j) (\<lambda>dailyQuestGroupUid.
     bnd (value_inner L (mailbox_of_json L) ''mailbox'' j) (\<lambda>mailbox.
     bnd (value_uids L ''quests'' j) (\<lambda>quests.
     Inr \<lparr>ci_uid = uid, ci_name = name, ci_introduction = introduction, ci_level = level,
       ci_experience = experience, ci_carrots = carrots, ci_cash = cash, ci_role = role, ci_roleRank = roleRank,
       ci_parts = parts, ci_appearance = appearance, ci_guildUid = guildUid, ci_contacts = contacts, ci_gifts = gifts,
       ci_purchases = purchases, ci_inventory = inventory, ci_characterEquipment = characterEquipment,
       ci_expiredEquipment = expired, ci_horses = horses, ci_horseSlotCount = horseSlotCount,
       ci_breedingWishlist = breedingWishlist, ci_pets = pets, ci_mountUid = mountUid, ci_petUid = petUid,
       ci_eggs = eggs, ci_housing = housing, ci_isRanchLocked = isRanchLocked, ci_settingsUid = settingsUid,
       ci_speed_skills = fst skills, ci_magic_skills = snd skills, ci_dailyQuestGroupUid = dailyQuestGroupUid, ci_mailbox = mailbox, ci_quests = quests\<rparr>))))))))))))))))))))))))))))))))"

definition CreateCharacter :: "('j, 't) json_lib \<Rightarrow> character_info \<Rightarrow> ('t, character_info) file_act" where
  "CreateCharacter L x = seq (next_number L sq_character sq_character_update) (\<lambda>u. pure (x\<lparr>ci_uid := u\<rparr>))"

definition RetrieveCharacter :: "('j, 't) json_lib \<Rightarrow> uid \<Rightarrow> ('t, character_info) file_act" where
  "RetrieveCharacter L u = seq (load_file L ''Character'' (Row_File Characters u)) (\<lambda>j. lift (character_of_json L j))"

definition StoreCharacter :: "('j, 't) json_lib \<Rightarrow> uid \<Rightarrow> character_info \<Rightarrow> ('t, unit) file_act" where
  "StoreCharacter L u x = store_file L ''Character'' (Row_File Characters u) (character_json L x)"

definition DeleteCharacter :: "uid \<Rightarrow> ('t, unit) file_act" where
  "DeleteCharacter u = delete_file (Row_File Characters u)"

section \<open>Horses\<close>

definition horse_parts_json :: "('j, 't) json_lib \<Rightarrow> horse_parts \<Rightarrow> 'j" where
  "horse_parts_json L x = js_object L [
     (''skinId'', js_word L (hp_skinTid x)), (''faceId'', js_word L (hp_faceTid x)),
     (''maneId'', js_word L (hp_maneTid x)), (''tailId'', js_word L (hp_tailTid x))]"

definition horse_parts_of_json :: "('j, 't) json_lib \<Rightarrow> 'j \<Rightarrow> exn + horse_parts" where
  "horse_parts_of_json L j =
     bnd (value_word L ''skinId'' j) (\<lambda>skinId. bnd (value_word L ''faceId'' j) (\<lambda>faceId.
     bnd (value_word L ''maneId'' j) (\<lambda>maneId. bnd (value_word L ''tailId'' j) (\<lambda>tailId.
     Inr \<lparr>hp_skinTid = skinId, hp_faceTid = faceId, hp_maneTid = maneId, hp_tailTid = tailId\<rparr>))))"

definition horse_appearance_json :: "('j, 't) json_lib \<Rightarrow> horse_appearance \<Rightarrow> 'j" where
  "horse_appearance_json L x = js_object L [
     (''scale'', js_word L (hpa_scale x)), (''legLength'', js_word L (hpa_legLength x)),
     (''legVolume'', js_word L (hpa_legVolume x)), (''bodyLength'', js_word L (hpa_bodyLength x)),
     (''bodyVolume'', js_word L (hpa_bodyVolume x))]"

definition horse_appearance_of_json :: "('j, 't) json_lib \<Rightarrow> 'j \<Rightarrow> exn + horse_appearance" where
  "horse_appearance_of_json L j =
     bnd (value_word L ''scale'' j) (\<lambda>scale. bnd (value_word L ''legLength'' j) (\<lambda>legLength.
     bnd (value_word L ''legVolume'' j) (\<lambda>legVolume.
     bnd (value_word L ''bodyLength'' j) (\<lambda>bodyLength.
     bnd (value_word L ''bodyVolume'' j) (\<lambda>bodyVolume.
     Inr \<lparr>hpa_scale = scale, hpa_legLength = legLength, hpa_legVolume = legVolume,
       hpa_bodyLength = bodyLength, hpa_bodyVolume = bodyVolume\<rparr>)))))"

definition horse_stats_json :: "('j, 't) json_lib \<Rightarrow> horse_stats \<Rightarrow> 'j" where
  "horse_stats_json L x = js_object L [
     (''agility'', js_word L (hs_agility x)), (''courage'', js_word L (hs_courage x)),
     (''rush'', js_word L (hs_rush x)), (''endurance'', js_word L (hs_endurance x)),
     (''ambition'', js_word L (hs_ambition x))]"

definition horse_stats_of_json :: "('j, 't) json_lib \<Rightarrow> 'j \<Rightarrow> exn + horse_stats" where
  "horse_stats_of_json L j =
     bnd (value_word L ''agility'' j) (\<lambda>agility. bnd (value_word L ''courage'' j) (\<lambda>courage.
     bnd (value_word L ''rush'' j) (\<lambda>rush. bnd (value_word L ''endurance'' j) (\<lambda>endurance.
     bnd (value_word L ''ambition'' j) (\<lambda>ambition.
     Inr \<lparr>hs_agility = agility, hs_courage = courage, hs_rush = rush, hs_endurance = endurance,
       hs_ambition = ambition\<rparr>)))))"

definition horse_mastery_json :: "('j, 't) json_lib \<Rightarrow> horse_mastery \<Rightarrow> 'j" where
  "horse_mastery_json L x = js_object L [
     (''spurMagicCount'', js_word L (hm_spurMagicCount x)), (''jumpCount'', js_word L (hm_jumpCount x)),
     (''slidingTime'', js_word L (hm_slidingTime x)), (''glidingDistance'', js_word L (hm_glidingDistance x))]"

definition horse_mastery_of_json :: "('j, 't) json_lib \<Rightarrow> 'j \<Rightarrow> exn + horse_mastery" where
  "horse_mastery_of_json L j =
     bnd (value_word L ''spurMagicCount'' j) (\<lambda>spurMagicCount.
     bnd (value_word L ''jumpCount'' j) (\<lambda>jumpCount.
     bnd (value_word L ''slidingTime'' j) (\<lambda>slidingTime.
     bnd (value_word L ''glidingDistance'' j) (\<lambda>glidingDistance.
     Inr \<lparr>hm_spurMagicCount = spurMagicCount, hm_jumpCount = jumpCount, hm_slidingTime = slidingTime,
       hm_glidingDistance = glidingDistance\<rparr>))))"

definition mount_condition_json :: "('j, 't) json_lib \<Rightarrow> mount_condition \<Rightarrow> 'j" where
  "mount_condition_json L x = js_object L [
     (''stamina'', js_word L (mc_stamina x)), (''charm'', js_word L (mc_charm x)),
     (''friendliness'', js_word L (mc_friendliness x)), (''injury'', js_word L (mc_injury x)),
     (''plenitude'', js_word L (mc_plenitude x)), (''bodyDirtiness'', js_word L (mc_bodyDirtiness x)),
     (''maneDirtiness'', js_word L (mc_maneDirtiness x)), (''tailDirtiness'', js_word L (mc_tailDirtiness x)),
     (''bodyPolish'', js_word L (mc_bodyPolish x)), (''manePolish'', js_word L (mc_manePolish x)),
     (''tailPolish'', js_word L (mc_tailPolish x)), (''attachment'', js_word L (mc_attachment x)),
     (''boredom'', js_word L (mc_boredom x)), (''stopAmendsPoint'', js_word L (mc_stopAmendsPoint x))]"

definition mount_condition_of_json :: "('j, 't) json_lib \<Rightarrow> 'j \<Rightarrow> exn + mount_condition" where
  "mount_condition_of_json L j =
     bnd (value_word L ''stamina'' j) (\<lambda>stamina. bnd (value_word L ''charm'' j) (\<lambda>charm.
     bnd (value_word L ''friendliness'' j) (\<lambda>friendliness. bnd (value_word L ''injury'' j) (\<lambda>injury.
     bnd (value_word L ''plenitude'' j) (\<lambda>plenitude.
     bnd (value_word L ''bodyDirtiness'' j) (\<lambda>bodyDirtiness.
     bnd (value_word L ''maneDirtiness'' j) (\<lambda>maneDirtiness.
     bnd (value_word L ''tailDirtiness'' j) (\<lambda>tailDirtiness.
     bnd (value_word L ''bodyPolish'' j) (\<lambda>bodyPolish.
     bnd (value_word L ''manePolish'' j) (\<lambda>manePolish.
     bnd (value_word L ''tailPolish'' j) (\<lambda>tailPolish.
     bnd (value_word L ''attachment'' j) (\<lambda>attachment. bnd (value_word L ''boredom'' j) (\<lambda>boredom.
     bnd (value_word L ''stopAmendsPoint'' j) (\<lambda>stopAmendsPoint.
     Inr \<lparr>mc_stamina = stamina, mc_charm = charm, mc_friendliness = friendliness, mc_injury = injury,
       mc_plenitude = plenitude, mc_bodyDirtiness = bodyDirtiness, mc_maneDirtiness = maneDirtiness,
       mc_tailDirtiness = tailDirtiness, mc_bodyPolish = bodyPolish, mc_manePolish = manePolish,
       mc_tailPolish = tailPolish, mc_attachment = attachment, mc_boredom = boredom,
       mc_stopAmendsPoint = stopAmendsPoint\<rparr>))))))))))))))"

definition potential_json :: "('j, 't) json_lib \<Rightarrow> horse_potential \<Rightarrow> 'j" where
  "potential_json L x = js_object L [
     (''type'', js_word L (po_type x)), (''level'', js_word L (po_level x)),
     (''value'', js_word L (po_value x))]"

definition potential_of_json :: "('j, 't) json_lib \<Rightarrow> 'j \<Rightarrow> exn + horse_potential" where
  "potential_of_json L j =
     bnd (value_word L ''type'' j) (\<lambda>kind. bnd (value_word L ''level'' j) (\<lambda>level.
     bnd (value_word L ''value'' j) (\<lambda>val.
     Inr \<lparr>po_type = kind, po_level = level, po_value = val\<rparr>)))"

definition mount_info_json :: "('j, 't) json_lib \<Rightarrow> mount_info \<Rightarrow> 'j" where
  "mount_info_json L x = js_object L [
     (''boostsInARow'', js_word L (mi_boostsInARow x)),
     (''winsSpeedSingle'', js_word L (mi_winsSpeedSingle x)),
     (''winsSpeedTeam'', js_word L (mi_winsSpeedTeam x)),
     (''winsMagicSingle'', js_word L (mi_winsMagicSingle x)),
     (''winsMagicTeam'', js_word L (mi_winsMagicTeam x)), (''totalDistance'', js_word L (mi_totalDistance x)),
     (''topSpeed'', js_word L (mi_topSpeed x)),
     (''longestGlideDistance'', js_word L (mi_longestGlideDistance x)),
     (''participated'', js_word L (mi_participated x)),
     (''cumulativePrize'', js_word L (mi_cumulativePrize x)),
     (''biggestPrize'', js_word L (mi_biggestPrize x))]"

definition mount_info_of_json :: "('j, 't) json_lib \<Rightarrow> 'j \<Rightarrow> exn + mount_info" where
  "mount_info_of_json L j =
     bnd (value_word L ''boostsInARow'' j) (\<lambda>boostsInARow.
     bnd (value_word L ''winsSpeedSingle'' j) (\<lambda>winsSpeedSingle.
     bnd (value_word L ''winsSpeedTeam'' j) (\<lambda>winsSpeedTeam.
     bnd (value_word L ''winsMagicSingle'' j) (\<lambda>winsMagicSingle.
     bnd (value_word L ''winsMagicTeam'' j) (\<lambda>winsMagicTeam.
     bnd (value_word L ''totalDistance'' j) (\<lambda>totalDistance.
     bnd (value_word L ''topSpeed'' j) (\<lambda>topSpeed.
     bnd (value_word L ''longestGlideDistance'' j) (\<lambda>longestGlideDistance.
     bnd (value_word L ''participated'' j) (\<lambda>participated.
     bnd (value_word L ''cumulativePrize'' j) (\<lambda>cumulativePrize.
     bnd (value_word L ''biggestPrize'' j) (\<lambda>biggestPrize.
     Inr \<lparr>mi_boostsInARow = boostsInARow, mi_winsSpeedSingle = winsSpeedSingle,
       mi_winsSpeedTeam = winsSpeedTeam, mi_winsMagicSingle = winsMagicSingle, mi_winsMagicTeam = winsMagicTeam,
       mi_totalDistance = totalDistance, mi_topSpeed = topSpeed, mi_longestGlideDistance = longestGlideDistance,
       mi_participated = participated, mi_cumulativePrize = cumulativePrize, mi_biggestPrize = biggestPrize\<rparr>)))))))))))"

definition ancestors_json :: "('j, 't) json_lib \<Rightarrow> horse_info \<Rightarrow> 'j" where
  "ancestors_json L x = js_object L [(''father'', js_word L (hi_father x)), (''mother'', js_word L (hi_mother x))]"

definition ancestors_of_json :: "('j, 't) json_lib \<Rightarrow> 'j \<Rightarrow> exn + uid \<times> uid" where
  "ancestors_of_json L j = bnd (value_word L ''father'' j) (\<lambda>father. bnd (value_word L ''mother'' j) (\<lambda>mother. Inr (father, mother)))"

fun horse_type_code :: "HorseType \<Rightarrow> nat" where
  "horse_type_code Type_Adult = 0" | "horse_type_code Type_Foal = 1" | "horse_type_code Type_Stallion = 2"
| "horse_type_code Type_Rent = 3"

definition horse_json :: "('j, 't) json_lib \<Rightarrow> horse_info \<Rightarrow> 'j" where
  "horse_json L x = js_object L [
     (''uid'', js_word L (hi_uid x)), (''tid'', js_word L (hi_tid x)), (''name'', js_string L (hi_name x)),
     (''parts'', horse_parts_json L (hi_parts x)), (''appearance'', horse_appearance_json L (hi_appearance x)),
     (''stats'', horse_stats_json L (hi_stats x)), (''mastery'', horse_mastery_json L (hi_mastery x)),
     (''mountCondition'', mount_condition_json L (hi_mountCondition x)), (''rating'', js_word L (hi_rating x)),
     (''clazz'', js_word L (hi_clazz x)), (''clazzProgress'', js_word L (hi_clazzProgress x)),
     (''grade'', js_word L (hi_grade x)), (''growthPoints'', js_word L (hi_growthPoints x)),
     (''breedingCount'', js_word L (hi_breedingCount x)), (''breedingCombo'', js_word L (hi_breedingCombo x)),
     (''type'', js_number L (int (horse_type_code (hi_type x)))),
     (''dateOfBirth'', js_number L (ceil_seconds (hi_dateOfBirth x))),
     (''tendency'', js_word L (hi_tendency x)), (''spirit'', js_word L (hi_spirit x)),
     (''potential'', potential_json L (hi_potential x)), (''luckState'', js_word L (hi_luckState x)),
     (''fatigue'', js_word L (hi_fatigue x)), (''emblem'', js_word L (hi_emblemUid x)),
     (''mountInfo'', mount_info_json L (hi_mountInfo x)), (''ancestors'', ancestors_json L x),
     (''lineage'', js_word L (hi_lineage x))]"

definition horse_of_json :: "('j, 't) json_lib \<Rightarrow> 'j \<Rightarrow> exn + horse_info" where
  "horse_of_json L j =
     bnd (value_word L ''uid'' j) (\<lambda>uid. bnd (value_word L ''tid'' j) (\<lambda>tid.
     bnd (value_string L ''name'' j) (\<lambda>name.
     bnd (value_inner L (horse_parts_of_json L) ''parts'' j) (\<lambda>parts.
     bnd (value_inner L (horse_appearance_of_json L) ''appearance'' j) (\<lambda>appearance.
     bnd (value_inner L (horse_stats_of_json L) ''stats'' j) (\<lambda>stats.
     bnd (value_inner L (horse_mastery_of_json L) ''mastery'' j) (\<lambda>mastery.
     bnd (value_inner L (mount_condition_of_json L) ''mountCondition'' j) (\<lambda>mountCondition.
     bnd (value_word L ''rating'' j) (\<lambda>rating. bnd (value_word L ''clazz'' j) (\<lambda>clazz.
     bnd (value_word L ''clazzProgress'' j) (\<lambda>clazzProgress. bnd (value_word L ''grade'' j) (\<lambda>grade.
     bnd (value_word L ''growthPoints'' j) (\<lambda>growthPoints.
     bnd (value_inner L (potential_of_json L) ''potential'' j) (\<lambda>potential.
     bnd (value_word L ''luckState'' j) (\<lambda>luckState. bnd (value_word L ''fatigue'' j) (\<lambda>fatigue.
     bnd (value_word L ''emblem'' j) (\<lambda>emblem. bnd (value_word L ''tendency'' j) (\<lambda>tendency.
     bnd (value_word L ''spirit'' j) (\<lambda>spirit.
     bnd (js_value L (as_enum L [Type_Adult, Type_Foal, Type_Stallion, Type_Rent]) Type_Adult ''type'' j) (\<lambda>kind.
     bnd (value_word L ''breedingCount'' j) (\<lambda>breedingCount.
     bnd (value_word L ''breedingCombo'' j) (\<lambda>breedingCombo.
     bnd (js_value L (as_word L) 1 ''lineage'' j) (\<lambda>lineage.
     bnd (value_inner L (ancestors_of_json L) ''ancestors'' j) (\<lambda>ancestors.
     bnd (value_time L ''dateOfBirth'' j) (\<lambda>dateOfBirth.
     bnd (value_inner L (mount_info_of_json L) ''mountInfo'' j) (\<lambda>mountInfo.
     Inr \<lparr>hi_uid = uid, hi_tid = tid, hi_name = name, hi_parts = parts, hi_appearance = appearance,
       hi_stats = stats, hi_mastery = mastery, hi_rating = rating, hi_clazz = clazz, hi_clazzProgress = clazzProgress,
       hi_grade = grade, hi_growthPoints = growthPoints, hi_breedingCount = breedingCount,
       hi_breedingCombo = breedingCombo, hi_type = kind, hi_dateOfBirth = dateOfBirth, hi_tendency = tendency,
       hi_spirit = spirit, hi_potential = potential, hi_luckState = luckState, hi_fatigue = fatigue,
       hi_emblemUid = emblem, hi_mountCondition = mountCondition, hi_mountInfo = mountInfo, hi_father = fst ancestors, hi_mother = snd ancestors,
       hi_lineage = lineage\<rparr>))))))))))))))))))))))))))"

definition CreateHorse :: "('j, 't) json_lib \<Rightarrow> horse_info \<Rightarrow> ('t, horse_info) file_act" where
  "CreateHorse L x = seq (next_number L sq_equipment sq_equipment_update) (\<lambda>u. pure (x\<lparr>hi_uid := u\<rparr>))"

definition RetrieveHorse :: "('j, 't) json_lib \<Rightarrow> uid \<Rightarrow> ('t, horse_info) file_act" where
  "RetrieveHorse L u = seq (load_file L ''Horse'' (Row_File Horses u)) (\<lambda>j. lift (horse_of_json L j))"

definition StoreHorse :: "('j, 't) json_lib \<Rightarrow> uid \<Rightarrow> horse_info \<Rightarrow> ('t, unit) file_act" where
  "StoreHorse L u x = store_file L ''Horse'' (Row_File Horses u) (horse_json L x)"

definition DeleteHorse :: "uid \<Rightarrow> ('t, unit) file_act" where
  "DeleteHorse u = delete_file (Row_File Horses u)"

end
