(* ===== verification/File_Restart.thy ===== *)
theory File_Restart imports File_Players begin

text \<open>
  What the files keep: a record that has been stored is read back, up to what the format drops, and a number is never
  given out twice, also over restarts.
\<close>

section \<open>Laws of documents\<close>

lemma json_laws:
  assumes "json_ok L"
  shows "js_member L (js_new_object L) k = Inr None"
    "js_member L (js_put L k v (js_null L)) k' = Inr (if k' = k then Some v else None)"
    "js_member L j k' = Inr m \<Longrightarrow> js_member L (js_put L k v j) k' = Inr (if k' = k then Some v else m)"
    "js_items L (js_array L xs) = xs" "js_items L (js_null L) = []" "js_get_array L (js_array L xs) = Inr xs"
    "- (2 ^ 63) \<le> i \<Longrightarrow> i < 2 ^ 64 \<Longrightarrow> js_get_number L (js_number L i) = Inr i"
    "js_get_string L (js_string L t) = Inr t" "js_is_bool L (js_bool L b)" "js_get_bool L (js_bool L b) = Inr b"
    "js_dump L j = Inr d \<Longrightarrow> js_parse L d = Inr j" "\<exists>e. js_parse L (js_empty L) = Inl e"
  using assms unfolding json_ok_def by blast+

lemma js_member_puts:
  "json_ok L \<Longrightarrow> \<forall>k. js_member L j k = Inr (m k) \<Longrightarrow>
   js_member L (fold (\<lambda>(k, v) j. js_put L k v j) kvs j) k = Inr ((m ++ map_of (rev kvs)) k)"
proof (induction kvs arbitrary: j m)
  case (Cons kv kvs)
  obtain k0 v0 where kv: "kv = (k0, v0)" by (cases kv)
  have "\<forall>k. js_member L (js_put L k0 v0 j) k = Inr ((m(k0 \<mapsto> v0)) k)"
    using Cons.prems by (simp add: json_laws(3))
  then show ?case using Cons.IH [OF Cons.prems(1)] kv by (simp add: map_add_upd_left)
qed simp

lemma js_member_object:
  assumes "json_ok L" "kvs \<noteq> []"
  shows "js_member L (js_object L kvs) k = Inr (map_of (rev kvs) k)"
proof -
  obtain k0 v0 rest where kvs: "kvs = (k0, v0) # rest" using assms(2) by (cases kvs) auto
  have "\<forall>k. js_member L (js_put L k0 v0 (js_null L)) k = Inr ([k0 \<mapsto> v0] k)" using assms(1) by (simp add: json_laws)
  then show ?thesis using js_member_puts [OF assms(1), of "js_put L k0 v0 (js_null L)" "[k0 \<mapsto> v0]" rest] kvs
    by (simp add: js_object_def)
qed

lemma js_value_object:
  "json_ok L \<Longrightarrow> kvs \<noteq> [] \<Longrightarrow>
   js_value L get d k (js_object L kvs) = (case map_of (rev kvs) k of None \<Rightarrow> Inr d | Some v \<Rightarrow> get v)"
  by (simp add: js_value_def js_member_object)

lemma js_items_list: "json_ok L \<Longrightarrow> js_items L (js_list L xs) = xs"
  by (simp add: js_list_def json_laws)

section \<open>Laws of values\<close>

definition int64 :: "int \<Rightarrow> bool" where "int64 i \<longleftrightarrow> - (2 ^ 63) \<le> i \<and> i < 2 ^ 63"

lemma as_word_law:
  assumes "json_ok L" "LENGTH('w) \<le> 64"
  shows "as_word L (js_word L w) = Inr (w :: 'w::len word)"
proof -
  have "uint w < 2 ^ 64"
    using uint_bounded [of w] power_increasing [OF assms(2), of "2 :: int"] by linarith
  moreover have "- (2 ^ 63) \<le> uint w" by (rule order_trans [of _ 0]) simp_all
  ultimately show ?thesis using assms(1) by (simp add: as_word_def json_laws)
qed

lemma as_sword_law: "json_ok L \<Longrightarrow> as_word L (js_sword L w) = Inr (w :: 32 word)"
  using sint_range_size [of w] by (simp add: as_word_def json_laws word_size)

lemma as_int64_law: "json_ok L \<Longrightarrow> int64 i \<Longrightarrow> as_int64 L (js_number L i) = Inr i"
  by (simp add: as_int64_def json_laws int64_def int_word_sint mod_pos_pos_trivial)

lemma all_of_map: "(\<And>x. x \<in> set xs \<Longrightarrow> get (f x) = Inr (g x)) \<Longrightarrow> all_of get (map f xs) = Inr (map g xs)"
  by (induction xs) auto

lemma as_words_law: "json_ok L \<Longrightarrow> LENGTH('w) \<le> 64 \<Longrightarrow> as_words L (js_words L ws) = Inr (ws :: 'w::len word list)"
  by (simp add: as_words_def json_laws all_of_map [where g = id, simplified] as_word_law)

definition ascending :: "uid list \<Rightarrow> bool" where "ascending us \<longleftrightarrow> sorted us \<and> distinct us"

lemma fold_insort_insert: "ascending us \<Longrightarrow> fold insort_insert us [] = us"
proof (induction us rule: rev_induct)
  case (snoc u us)
  then have "insort_insert u us = us @ [u]"
    by (auto simp: ascending_def insort_insert_key_def sorted_append sorted_insort_is_snoc)
  then show ?case using snoc by (auto simp: ascending_def sorted_append)
qed simp

lemma as_uid_set_law: "json_ok L \<Longrightarrow> ascending us \<Longrightarrow> as_uid_set L (js_words L us) = Inr us"
  by (simp add: as_uid_set_def as_words_law fold_insort_insert)

lemma as_enum_law:
  "json_ok L \<Longrightarrow> n < length es \<Longrightarrow> n < 2 ^ 32 \<Longrightarrow> as_enum L es (js_number L (int n)) = Inr (es ! n)"
  by (simp add: as_enum_def as_word_def json_laws unat_of_nat take_bit_nat_eq_self)

lemma enum_laws:
  assumes "json_ok L"
  shows "as_enum L [Punishment_None, Punishment_Mute, Punishment_Ban] (js_number L (int (punishment_code p))) = Inr p"
    "as_enum L [CanReply, NoReply, CarnivalReward, BreedingReward] (js_number L (int (mail_code m))) = Inr m"
    "as_enum L [Reward_Breeding, Reward_Carnival] (js_number L (int (reward_code w))) = Inr w"
    "as_enum L [Role_User, Role_Op, Role_GameMaster] (js_number L (int (role_code r))) = Inr r"
    "as_enum L [Rank_None, Rank_Trial, Rank_Moderator, Rank_Admin] (js_number L (int (rank_code k))) = Inr k"
    "as_enum L [Type_Adult, Type_Foal, Type_Stallion, Type_Rent] (js_number L (int (horse_type_code t))) = Inr t"
    "as_status L (js_number L (int (status_code q))) = Inr q"
  by (cases p; subst as_enum_law [OF assms]; simp; fail)
    (cases m; subst as_enum_law [OF assms]; simp; fail
    | cases w; subst as_enum_law [OF assms]; simp; fail
    | cases r; subst as_enum_law [OF assms]; simp; fail
    | cases k; subst as_enum_law [OF assms]; simp; fail
    | cases t; subst as_enum_law [OF assms]; simp; fail
    | cases q; simp add: as_status_def as_word_def json_laws [OF assms])+

lemma value_items_law:
  "json_ok L \<Longrightarrow> kvs \<noteq> [] \<Longrightarrow> map_of (rev kvs) k = Some (js_list L xs) \<Longrightarrow>
   value_items L get k (js_object L kvs) = all_of get xs"
  by (simp add: value_items_def js_value_object js_items_list)

section \<open>Times\<close>

text \<open>A time is kept to the second: rounded up, or towards zero.\<close>

definition up_to_second :: "time_point \<Rightarrow> time_point" where
  "up_to_second t = ceil_seconds t * 1000000000"

definition cut_to_second :: "time_point \<Rightarrow> time_point" where
  "cut_to_second t = cast_seconds t * 1000000000"

lemma int64_seconds: "int64 t \<Longrightarrow> int64 (ceil_seconds t)" "int64 t \<Longrightarrow> int64 (cast_seconds t)"
  by (auto simp: int64_def ceil_seconds_def cast_seconds_def)

lemma seconds_idem [simp]: "up_to_second (up_to_second t) = up_to_second t" "cut_to_second (cut_to_second t) = cut_to_second t"
  by (simp_all add: up_to_second_def cut_to_second_def ceil_seconds_def cast_seconds_def)

lemma value_time_law:
  "json_ok L \<Longrightarrow> kvs \<noteq> [] \<Longrightarrow> map_of (rev kvs) k = Some (js_number L i) \<Longrightarrow> int64 i \<Longrightarrow>
   value_time L k (js_object L kvs) = Inr (i * 1000000000)"
  by (simp add: value_time_def js_value_object as_int64_law)

lemmas read_laws = js_value_object as_word_law as_sword_law as_int64_law as_words_law as_uid_set_law enum_laws
  value_items_law value_time_law int64_seconds json_laws(8,10) up_to_second_def cut_to_second_def

section \<open>Records are read back\<close>

definition saved_user :: "user_record \<Rightarrow> user_record" where
  "saved_user = us_lastSeenOnline_update up_to_second"

lemma user_saved:
  "json_ok L \<Longrightarrow> int64 (us_lastSeenOnline x) \<Longrightarrow> user_of_json L (user_json L x) = Inr (saved_user x)"
  by (simp add: user_of_json_def user_json_def read_laws saved_user_def)

definition saved_infraction :: "infraction \<Rightarrow> infraction" where
  "saved_infraction = if_createdAt_update cut_to_second"

lemma infraction_saved:
  "json_ok L \<Longrightarrow> int64 (if_createdAt x) \<Longrightarrow> int64 (if_duration x) \<Longrightarrow> infraction_of_json L (infraction_json L x) = Inr (saved_infraction x)"
  by (simp add: infraction_of_json_def infraction_json_def read_laws saved_infraction_def)

definition saved_item :: "item \<Rightarrow> item" where
  "saved_item = it_createdAt_update up_to_second"

lemma item_saved:
  "json_ok L \<Longrightarrow> int64 (it_createdAt x) \<Longrightarrow> int64 (it_duration x) \<Longrightarrow> item_of_json L (item_json L x) = Inr (saved_item x)"
  by (simp add: item_of_json_def item_json_def read_laws saved_item_def)

definition saved_storage_item :: "storage_item \<Rightarrow> storage_item" where
  "saved_storage_item = si_createdAt_update up_to_second"

lemma storage_item_saved:
  "json_ok L \<Longrightarrow> int64 (si_createdAt x) \<Longrightarrow> int64 (si_duration x) \<Longrightarrow> \<forall>p \<in> set (si_items x). int64 (sip_duration p) \<Longrightarrow>
   storage_item_of_json L (storage_item_json L x) = Inr (saved_storage_item x)"
proof -
  assume L: "json_ok L" and x: "int64 (si_createdAt x)" "int64 (si_duration x)" "\<forall>p \<in> set (si_items x). int64 (sip_duration p)"
  have "all_of (part_of_json L) (map (part_json L) (si_items x)) = Inr (map id (si_items x))"
    by (rule all_of_map) (use L x(3) in \<open>simp add: part_of_json_def part_json_def read_laws\<close>)
  then show ?thesis using L x
    by (simp add: storage_item_of_json_def storage_item_json_def read_laws saved_storage_item_def)
qed

definition saved_egg :: "egg_record \<Rightarrow> egg_record" where "saved_egg = eg_incubatedAt_update cut_to_second"

lemma egg_saved: "json_ok L \<Longrightarrow> int64 (eg_incubatedAt x) \<Longrightarrow> egg_of_json L (egg_json L x) = Inr (saved_egg x)"
  by (simp add: egg_of_json_def egg_json_def read_laws saved_egg_def)

definition saved_pet :: "pet \<Rightarrow> pet" where "saved_pet = pt_birthDate_update cut_to_second"

lemma pet_saved: "json_ok L \<Longrightarrow> int64 (pt_birthDate x) \<Longrightarrow> pet_of_json L (pet_json L x) = Inr (saved_pet x)"
  by (simp add: pet_of_json_def pet_json_def read_laws saved_pet_def)

definition saved_housing :: "housing \<Rightarrow> housing" where "saved_housing = hg_expiresAt_update cut_to_second"

lemma housing_saved: "json_ok L \<Longrightarrow> int64 (hg_expiresAt x) \<Longrightarrow> housing_of_json L (housing_json L x) = Inr (saved_housing x)"
  by (simp add: housing_of_json_def housing_json_def read_laws saved_housing_def)

lemma guild_saved: "json_ok L \<Longrightarrow> guild_of_json L (guild_json L x) = Inr x"
  by (simp add: guild_of_json_def guild_json_def read_laws)

definition saved_mail :: "mail \<Rightarrow> mail" where "saved_mail = ma_createdAt_update cut_to_second"

lemma mail_saved: "json_ok L \<Longrightarrow> int64 (ma_createdAt x) \<Longrightarrow> mail_of_json L (mail_json L x) = Inr (saved_mail x)"
  by (simp add: mail_of_json_def mail_json_def read_laws saved_mail_def)

lemma quest_saved: "json_ok L \<Longrightarrow> quest_of_json L (quest_json L x) = Inr x"
  by (simp add: quest_of_json_def quest_json_def read_laws)

definition saved_stallion :: "stallion \<Rightarrow> stallion" where
  "saved_stallion x = x\<lparr>st_registeredAt := cut_to_second (st_registeredAt x), st_expiresAt := cut_to_second (st_expiresAt x)\<rparr>"

lemma stallion_saved:
  "json_ok L \<Longrightarrow> int64 (st_registeredAt x) \<Longrightarrow> int64 (st_expiresAt x) \<Longrightarrow> stallion_of_json L (stallion_json L x) = Inr (saved_stallion x)"
  by (simp add: stallion_of_json_def stallion_json_def read_laws saved_stallion_def)

definition saved_reward :: "reward_record \<Rightarrow> reward_record" where
  "saved_reward x = x\<lparr>rw_createdAt := cut_to_second (rw_createdAt x), rw_claimedAt := cut_to_second (rw_claimedAt x)\<rparr>"

lemma reward_saved:
  "json_ok L \<Longrightarrow> int64 (rw_createdAt x) \<Longrightarrow> int64 (rw_claimedAt x) \<Longrightarrow> reward_of_json L (reward_json L x) = Inr (saved_reward x)"
  by (simp add: reward_of_json_def reward_json_def read_laws saved_reward_def)

definition saved_settings :: "settings_record \<Rightarrow> settings_record" where
  "saved_settings x = x\<lparr>se_keyboardBindings := (if se_keyboardBindings x = Some [] then None else se_keyboardBindings x),
     se_gamepadBindings := (if se_gamepadBindings x = Some [] then None else se_gamepadBindings x)\<rparr>"

lemma bindings_saved:
  assumes L: "json_ok L" and keys: "primary \<noteq> secondary" "primary \<noteq> ''type''" "secondary \<noteq> ''type''"
    and k: "kvs \<noteq> []" "map_of (rev kvs) k = Some (bindings_json L primary secondary bs)"
  shows "bindings_of_json L k primary secondary (js_object L kvs) = Inr (if bs = Some [] then None else bs)"
proof -
  have "all_of (binding_of_json L primary secondary) (map (binding_json L primary secondary) xs) = Inr (map id xs)" for xs
    by (rule all_of_map) (use L keys keys(1) [symmetric] in \<open>simp add: binding_of_json_def binding_json_def read_laws\<close>)
  then show ?thesis using L k
    by (auto simp: bindings_of_json_def bindings_json_def read_laws split: option.splits)
qed

lemma settings_saved:
  assumes "json_ok L" "\<And>ms. se_macros x = Some ms \<Longrightarrow> length ms = 8"
  shows "settings_of_json L (settings_json L x) = Inr (saved_settings x)"
proof -
  have "as_macros L (js_array L (map (js_string L) ms)) = Inr ms" if "length ms = 8" for ms
    using that assms(1) by (simp add: as_macros_def json_laws all_of_map [where g = id, simplified])
  then show ?thesis using assms
    by (cases "se_macros x")
      (simp_all add: settings_of_json_def settings_json_def read_laws bindings_saved saved_settings_def)
qed

lemma daily_quests_saved:
  assumes "json_ok L" "length (dq_quests x) = 3"
  shows "daily_quest_group_of_json L (daily_quest_group_json L x) = Inr x"
proof -
  have "all_of (daily_quest_of_json L) (map (daily_quest_json L) qs) = Inr (map id qs)" for qs
    by (rule all_of_map) (use assms(1) in \<open>simp add: daily_quest_of_json_def daily_quest_json_def read_laws\<close>)
  then show ?thesis using assms
    by (simp add: daily_quest_group_of_json_def daily_quest_group_json_def read_laws daily_quests_of_json_def as_claimed_def json_laws)
qed

section \<open>Horses\<close>

lemma inner_law:
  "json_ok L \<Longrightarrow> kvs \<noteq> [] \<Longrightarrow> map_of (rev kvs) k = Some v \<Longrightarrow> value_inner L get k (js_object L kvs) = get v"
  by (simp add: value_inner_def js_value_object)

definition saved_horse :: "horse_info \<Rightarrow> horse_info" where
  "saved_horse = hi_dateOfBirth_update up_to_second"

lemma horse_parts_saved:
  assumes "json_ok L"
  shows "horse_parts_of_json L (horse_parts_json L a) = Inr a"
    "horse_appearance_of_json L (horse_appearance_json L b) = Inr b"
    "horse_stats_of_json L (horse_stats_json L c) = Inr c"
    "horse_mastery_of_json L (horse_mastery_json L m) = Inr m"
    "mount_condition_of_json L (mount_condition_json L n) = Inr n"
    "potential_of_json L (potential_json L p) = Inr p"
    "mount_info_of_json L (mount_info_json L i) = Inr i"
    "ancestors_of_json L (ancestors_json L x) = Inr (hi_father x, hi_mother x)"
  using assms by (simp_all add: read_laws horse_parts_of_json_def horse_parts_json_def horse_appearance_of_json_def
      horse_appearance_json_def horse_stats_of_json_def horse_stats_json_def horse_mastery_of_json_def horse_mastery_json_def
      mount_condition_of_json_def mount_condition_json_def potential_of_json_def potential_json_def mount_info_of_json_def
      mount_info_json_def ancestors_of_json_def ancestors_json_def)

lemma horse_saved: "json_ok L \<Longrightarrow> int64 (hi_dateOfBirth x) \<Longrightarrow> horse_of_json L (horse_json L x) = Inr (saved_horse x)"
  by (simp add: horse_of_json_def horse_json_def read_laws inner_law horse_parts_saved saved_horse_def)

section \<open>Characters\<close>

definition saved_group :: "contact_group \<Rightarrow> contact_group" where
  "saved_group = cg_createdAt_update up_to_second"

definition saved_groups :: "(uid, contact_group) omap \<Rightarrow> (uid, contact_group) omap" where
  "saved_groups = map (\<lambda>(k, g). (k, saved_group g))"

definition saved_character :: "character_info \<Rightarrow> character_info" where
  "saved_character x = x\<lparr>ci_roleRank := (if ci_role x = Role_User then Rank_None else ci_roleRank x),
     ci_contacts := cn_groups_update saved_groups (ci_contacts x)\<rparr>"

text \<open>What the handlers keep of a character: sets ascend, and groups stand under their own numbers.\<close>

definition character_savable :: "character_info \<Rightarrow> bool" where
  "character_savable x \<longleftrightarrow> ascending (cn_pending (ci_contacts x)) \<and> ascending (ci_breedingWishlist x)
     \<and> omap_ok (cn_groups (ci_contacts x))
     \<and> (\<forall>(k, g) \<in> set (cn_groups (ci_contacts x)). cg_uid g = k \<and> ascending (cg_members g) \<and> int64 (cg_createdAt g))"

lemma omap_put_last: "\<forall>x \<in> set m. fst x < k \<Longrightarrow> omap_put k v m = m @ [(k, v)]"
  by (induction k v m rule: omap_put.induct) auto

lemma read_groups_snoc:
  "read_groups (gs @ [g]) = (let m = read_groups gs in if has_key m (cg_uid g) then m else omap_put (cg_uid g) g m)"
  by (simp add: read_groups_def Let_def)

lemma read_groups_law: "omap_ok gs \<Longrightarrow> \<forall>(k, g) \<in> set gs. cg_uid g = k \<Longrightarrow> read_groups (map snd gs) = gs"
proof (induction gs rule: rev_induct)
  case (snoc x gs)
  obtain k g where x: "x = (k, g)" by (cases x)
  have gs: "read_groups (map snd gs) = gs" and less: "\<forall>y \<in> set gs. fst y < k"
    using snoc x by (auto simp: omap_ok_def sorted_wrt_append)
  then have "map_of gs k = None" by (force simp: map_of_eq_None_iff)
  then show ?case using gs less snoc.prems(2) x by (simp add: read_groups_snoc omap_put_last)
qed (simp add: read_groups_def)

lemma contacts_saved:
  assumes L: "json_ok L" and x: "ascending (cn_pending x)" "omap_ok (cn_groups x)"
    "\<forall>(k, g) \<in> set (cn_groups x). cg_uid g = k \<and> ascending (cg_members g) \<and> int64 (cg_createdAt g)"
  shows "contacts_of_json L (contacts_json L x) = Inr (cn_groups_update saved_groups x)"
proof -
  have "group_of_json L (group_json L g) = Inr (saved_group g)" if "ascending (cg_members g)" "int64 (cg_createdAt g)" for g
    using L that by (simp add: group_of_json_def group_json_def read_laws saved_group_def)
  then have "all_of (group_of_json L) (map (group_json L) (map snd (cn_groups x))) = Inr (map saved_group (map snd (cn_groups x)))"
    using x(3) by (intro all_of_map) fastforce
  moreover have "map saved_group (map snd gs) = map snd (saved_groups gs)" for gs
    by (simp add: saved_groups_def split_def)
  moreover have "read_groups (map snd (saved_groups (cn_groups x))) = saved_groups (cn_groups x)"
  proof (rule read_groups_law)
    show "omap_ok (saved_groups (cn_groups x))" using x(2) by (simp add: omap_ok_def saved_groups_def split_def comp_def)
    show "\<forall>(k, g) \<in> set (saved_groups (cn_groups x)). cg_uid g = k" using x(3) by (auto simp: saved_groups_def saved_group_def)
  qed
  ultimately show ?thesis using L x(1)
    by (simp add: contacts_of_json_def contacts_json_def read_laws)
qed

lemma character_parts_saved:
  assumes "json_ok L"
  shows "character_parts_of_json L (character_parts_json L a) = Inr a"
    "character_appearance_of_json L (character_appearance_json L b) = Inr b"
    "skill_set_of_json L (skill_set_json L c) = Inr c"
    "mailbox_of_json L (mailbox_json L m) = Inr m"
  using assms by (simp_all add: read_laws character_parts_of_json_def character_parts_json_def character_appearance_of_json_def
      character_appearance_json_def skill_set_of_json_def skill_set_json_def mailbox_of_json_def mailbox_json_def)

lemma skills_saved:
  assumes "json_ok L"
  shows "skills_of_json L (skills_json L k) = Inr k"
    "both_skills_of_json L (both_skills_json L x) = Inr (ci_speed_skills x, ci_magic_skills x)"
proof -
  show "skills_of_json L (skills_json L k) = Inr k" for k
    using assms by (simp add: skills_of_json_def skills_json_def read_laws inner_law character_parts_saved)
  then show "both_skills_of_json L (both_skills_json L x) = Inr (ci_speed_skills x, ci_magic_skills x)"
    using assms by (simp add: both_skills_of_json_def both_skills_json_def inner_law)
qed

lemma read_rank_law:
  "json_ok L \<Longrightarrow> kvs \<noteq> [] \<Longrightarrow> map_of (rev kvs) ''staffRank'' = Some (js_number L (int (rank_code k))) \<Longrightarrow>
   read_rank L role (js_object L kvs) = Inr (if role = Role_User then Rank_None else k)"
  by (simp add: read_rank_def js_value_object enum_laws)

lemma character_saved:
  "json_ok L \<Longrightarrow> character_savable x \<Longrightarrow> character_of_json L (character_json L x) = Inr (saved_character x)"
  by (simp add: character_of_json_def character_json_def read_laws inner_law character_parts_saved skills_saved contacts_saved
      read_rank_law saved_character_def character_savable_def)

section \<open>Every kind of record\<close>

datatype any_record =
    R_Infraction infraction
  | R_Character character_info
  | R_Item item
  | R_Horse horse_info
  | R_StorageItem storage_item
  | R_Egg egg_record
  | R_Pet pet
  | R_Housing housing
  | R_Guild guild
  | R_Settings settings_record
  | R_DailyQuestGroup daily_quest_group
  | R_Mail mail
  | R_Quest quest
  | R_Stallion stallion
  | R_Reward reward_record

fun folder_of :: "any_record \<Rightarrow> folder" where
  "folder_of (R_Infraction x) = Infractions"
| "folder_of (R_Character x) = Characters"
| "folder_of (R_Item x) = Items"
| "folder_of (R_Horse x) = Horses"
| "folder_of (R_StorageItem x) = Storage"
| "folder_of (R_Egg x) = Eggs"
| "folder_of (R_Pet x) = Pets"
| "folder_of (R_Housing x) = Housings"
| "folder_of (R_Guild x) = Guilds"
| "folder_of (R_Settings x) = Settings_Folder"
| "folder_of (R_DailyQuestGroup x) = DailyQuestGroups"
| "folder_of (R_Mail x) = Mails"
| "folder_of (R_Quest x) = Quests"
| "folder_of (R_Stallion x) = Stallions"
| "folder_of (R_Reward x) = Rewards"

fun store_any :: "('j, 't) json_lib \<Rightarrow> uid \<Rightarrow> any_record \<Rightarrow> ('t, unit) file_act" where
  "store_any L u (R_Infraction x) = StoreInfraction L u x"
| "store_any L u (R_Character x) = StoreCharacter L u x"
| "store_any L u (R_Item x) = StoreItem L u x"
| "store_any L u (R_Horse x) = StoreHorse L u x"
| "store_any L u (R_StorageItem x) = StoreStorageItem L u x"
| "store_any L u (R_Egg x) = StoreEgg L u x"
| "store_any L u (R_Pet x) = StorePet L u x"
| "store_any L u (R_Housing x) = StoreHousing L u x"
| "store_any L u (R_Guild x) = StoreGuild L u x"
| "store_any L u (R_Settings x) = StoreSettings L u x"
| "store_any L u (R_DailyQuestGroup x) = StoreDailyQuestGroup L u x"
| "store_any L u (R_Mail x) = StoreMail L u x"
| "store_any L u (R_Quest x) = StoreQuest L u x"
| "store_any L u (R_Stallion x) = StoreStallion L u x"
| "store_any L u (R_Reward x) = StoreReward L u x"

fun load_any :: "('j, 't) json_lib \<Rightarrow> folder \<Rightarrow> uid \<Rightarrow> ('t, any_record) file_act" where
  "load_any L Infractions u = seq (RetrieveInfraction L u) (\<lambda>x. pure (R_Infraction x))"
| "load_any L Characters u = seq (RetrieveCharacter L u) (\<lambda>x. pure (R_Character x))"
| "load_any L Items u = seq (RetrieveItem L u) (\<lambda>x. pure (R_Item x))"
| "load_any L Horses u = seq (RetrieveHorse L u) (\<lambda>x. pure (R_Horse x))"
| "load_any L Storage u = seq (RetrieveStorageItem L u) (\<lambda>x. pure (R_StorageItem x))"
| "load_any L Eggs u = seq (RetrieveEgg L u) (\<lambda>x. pure (R_Egg x))"
| "load_any L Pets u = seq (RetrievePet L u) (\<lambda>x. pure (R_Pet x))"
| "load_any L Housings u = seq (RetrieveHousing L u) (\<lambda>x. pure (R_Housing x))"
| "load_any L Guilds u = seq (RetrieveGuild L u) (\<lambda>x. pure (R_Guild x))"
| "load_any L Settings_Folder u = seq (RetrieveSettings L u) (\<lambda>x. pure (R_Settings x))"
| "load_any L DailyQuestGroups u = seq (RetrieveDailyQuestGroup L u) (\<lambda>x. pure (R_DailyQuestGroup x))"
| "load_any L Mails u = seq (RetrieveMail L u) (\<lambda>x. pure (R_Mail x))"
| "load_any L Quests u = seq (RetrieveQuest L u) (\<lambda>x. pure (R_Quest x))"
| "load_any L Stallions u = seq (RetrieveStallion L u) (\<lambda>x. pure (R_Stallion x))"
| "load_any L Rewards u = seq (RetrieveReward L u) (\<lambda>x. pure (R_Reward x))"

text \<open>What a file keeps of a record.\<close>

fun saved :: "any_record \<Rightarrow> any_record" where
  "saved (R_Infraction x) = R_Infraction (saved_infraction x)"
| "saved (R_Character x) = R_Character (saved_character x)"
| "saved (R_Item x) = R_Item (saved_item x)"
| "saved (R_Horse x) = R_Horse (saved_horse x)"
| "saved (R_StorageItem x) = R_StorageItem (saved_storage_item x)"
| "saved (R_Egg x) = R_Egg (saved_egg x)"
| "saved (R_Pet x) = R_Pet (saved_pet x)"
| "saved (R_Housing x) = R_Housing (saved_housing x)"
| "saved (R_Guild x) = R_Guild x"
| "saved (R_Settings x) = R_Settings (saved_settings x)"
| "saved (R_DailyQuestGroup x) = R_DailyQuestGroup x"
| "saved (R_Mail x) = R_Mail (saved_mail x)"
| "saved (R_Quest x) = R_Quest x"
| "saved (R_Stallion x) = R_Stallion (saved_stallion x)"
| "saved (R_Reward x) = R_Reward (saved_reward x)"

text \<open>The sizes the types of the code give: times and durations of 64 bits, arrays of their length.\<close>

fun savable :: "any_record \<Rightarrow> bool" where
  "savable (R_Infraction x) \<longleftrightarrow> int64 (if_createdAt x) \<and> int64 (if_duration x)"
| "savable (R_Character x) \<longleftrightarrow> character_savable x"
| "savable (R_Item x) \<longleftrightarrow> int64 (it_createdAt x) \<and> int64 (it_duration x)"
| "savable (R_Horse x) \<longleftrightarrow> int64 (hi_dateOfBirth x)"
| "savable (R_StorageItem x) \<longleftrightarrow> int64 (si_createdAt x) \<and> int64 (si_duration x) \<and> (\<forall>p \<in> set (si_items x). int64 (sip_duration p))"
| "savable (R_Egg x) \<longleftrightarrow> int64 (eg_incubatedAt x)"
| "savable (R_Pet x) \<longleftrightarrow> int64 (pt_birthDate x)"
| "savable (R_Housing x) \<longleftrightarrow> int64 (hg_expiresAt x)"
| "savable (R_Guild x) \<longleftrightarrow> True"
| "savable (R_Settings x) \<longleftrightarrow> (\<forall>ms. se_macros x = Some ms \<longrightarrow> length ms = 8)"
| "savable (R_DailyQuestGroup x) \<longleftrightarrow> length (dq_quests x) = 3"
| "savable (R_Mail x) \<longleftrightarrow> int64 (ma_createdAt x)"
| "savable (R_Quest x) \<longleftrightarrow> True"
| "savable (R_Stallion x) \<longleftrightarrow> int64 (st_registeredAt x) \<and> int64 (st_expiresAt x)"
| "savable (R_Reward x) \<longleftrightarrow> int64 (rw_createdAt x) \<and> int64 (rw_claimedAt x)"

lemmas all_saved = infraction_saved character_saved item_saved horse_saved storage_item_saved egg_saved pet_saved housing_saved guild_saved settings_saved daily_quests_saved mail_saved quest_saved stallion_saved reward_saved

lemmas store_defs =
  StoreInfraction_def RetrieveInfraction_def StoreCharacter_def RetrieveCharacter_def StoreItem_def
  RetrieveItem_def StoreHorse_def RetrieveHorse_def StoreStorageItem_def RetrieveStorageItem_def StoreEgg_def
  RetrieveEgg_def StorePet_def RetrievePet_def StoreHousing_def RetrieveHousing_def StoreGuild_def
  RetrieveGuild_def StoreSettings_def RetrieveSettings_def StoreDailyQuestGroup_def RetrieveDailyQuestGroup_def
  StoreMail_def RetrieveMail_def StoreQuest_def RetrieveQuest_def StoreStallion_def RetrieveStallion_def
  StoreReward_def RetrieveReward_def

lemma load_stored:
  assumes "json_ok L" "store_file L label f j s = (Inr (), s')"
  shows "load_file L label' f s' = (Inr j, s')"
  using assms json_laws(11) [OF assms(1)]
  by (auto simp: store_file_def load_file_def write_file_def split: if_splits sum.splits)

lemma load_stored_seq:
  "json_ok L \<Longrightarrow> store_file L label f j s = (Inr (), s') \<Longrightarrow> seq (load_file L label' f) g s' = g j s'"
  by (simp add: seq_def load_stored)

text \<open>C6: a record of any kind that has been stored is read back as it was, with its times cut to the second, no rank for
  plain users, and empty key bindings forgotten.\<close>

theorem records_read_back:
  assumes "json_ok L" "savable r" "store_any L u r s = (Inr (), s')"
  shows "load_any L (folder_of r) u s' = (Inr (saved r), s')"
  using assms
  by (cases r) (simp_all add: store_defs load_stored_seq all_saved seq_def [of "seq _ _"] lift_def pure_def)

text \<open>What is lost is lost at once: records that have been read back stay as they are.\<close>

lemma saved_idem: "saved (saved r) = saved r"
  by (cases r) (auto simp: saved_infraction_def saved_character_def saved_item_def saved_horse_def saved_storage_item_def
      saved_egg_def saved_pet_def saved_housing_def saved_settings_def saved_mail_def saved_stallion_def saved_reward_def
      saved_groups_def saved_group_def split_def comp_def intro!: infraction.equality item.equality)

section \<open>Numbers\<close>

text \<open>The sequence a folder takes its numbers from.\<close>

fun pool :: "folder \<Rightarrow> folder" where
  "pool Horses = Items" | "pool f = f"

fun sequence_of :: "folder \<Rightarrow> sequences \<Rightarrow> u32" where
  "sequence_of Infractions q = sq_infraction q" | "sequence_of Characters q = sq_character q"
| "sequence_of Items q = sq_equipment q" | "sequence_of Horses q = sq_equipment q"
| "sequence_of Storage q = sq_storageItem q" | "sequence_of Eggs q = sq_egg q" | "sequence_of Pets q = sq_pet q"
| "sequence_of Housings q = sq_housing q" | "sequence_of Guilds q = sq_guild q"
| "sequence_of Settings_Folder q = sq_settings q" | "sequence_of DailyQuestGroups q = sq_dailyQuestGroup q"
| "sequence_of Mails q = sq_mail q" | "sequence_of Quests q = sq_quest q" | "sequence_of Stallions q = sq_stallion q"
| "sequence_of Rewards q = sq_reward q"

fun create_any :: "('j, 't) json_lib \<Rightarrow> any_record \<Rightarrow> ('t, any_record) file_act" where
  "create_any L (R_Infraction x) = seq (CreateInfraction L x) (\<lambda>x. pure (R_Infraction x))"
| "create_any L (R_Character x) = seq (CreateCharacter L x) (\<lambda>x. pure (R_Character x))"
| "create_any L (R_Item x) = seq (CreateItem L x) (\<lambda>x. pure (R_Item x))"
| "create_any L (R_Horse x) = seq (CreateHorse L x) (\<lambda>x. pure (R_Horse x))"
| "create_any L (R_StorageItem x) = seq (CreateStorageItem L x) (\<lambda>x. pure (R_StorageItem x))"
| "create_any L (R_Egg x) = seq (CreateEgg L x) (\<lambda>x. pure (R_Egg x))"
| "create_any L (R_Pet x) = seq (CreatePet L x) (\<lambda>x. pure (R_Pet x))"
| "create_any L (R_Housing x) = seq (CreateHousing L x) (\<lambda>x. pure (R_Housing x))"
| "create_any L (R_Guild x) = seq (CreateGuild L x) (\<lambda>x. pure (R_Guild x))"
| "create_any L (R_Settings x) = seq (CreateSettings L x) (\<lambda>x. pure (R_Settings x))"
| "create_any L (R_DailyQuestGroup x) = seq (CreateDailyQuestGroup L x) (\<lambda>x. pure (R_DailyQuestGroup x))"
| "create_any L (R_Mail x) = seq (CreateMail L x) (\<lambda>x. pure (R_Mail x))"
| "create_any L (R_Quest x) = seq (CreateQuest L x) (\<lambda>x. pure (R_Quest x))"
| "create_any L (R_Stallion x) = seq (CreateStallion L x) (\<lambda>x. pure (R_Stallion x))"
| "create_any L (R_Reward x) = seq (CreateRewardFile L x) (\<lambda>x. pure (R_Reward x))"

fun number_of :: "any_record \<Rightarrow> uid" where
  "number_of (R_Infraction x) = if_uid x"
| "number_of (R_Character x) = ci_uid x"
| "number_of (R_Item x) = it_uid x"
| "number_of (R_Horse x) = hi_uid x"
| "number_of (R_StorageItem x) = si_uid x"
| "number_of (R_Egg x) = eg_uid x"
| "number_of (R_Pet x) = pt_uid x"
| "number_of (R_Housing x) = hg_uid x"
| "number_of (R_Guild x) = gu_uid x"
| "number_of (R_Settings x) = se_uid x"
| "number_of (R_DailyQuestGroup x) = dq_uid x"
| "number_of (R_Mail x) = ma_uid x"
| "number_of (R_Quest x) = qu_uid x"
| "number_of (R_Stallion x) = st_uid x"
| "number_of (R_Reward x) = rw_claimUid x"

datatype file_event = Create_Event any_record | Store_Event uid any_record | Delete_Event folder uid | Restart_Event

text \<open>What an event does to the files, and the numbers it gives out. A restart reads the meta file; the server may have been
  killed before it.\<close>

fun file_step :: "('j, 't) json_lib \<Rightarrow> file_event \<Rightarrow> 't file_source \<Rightarrow> (folder \<times> uid) list \<times> 't file_source" where
  "file_step L (Create_Event r) s = (case create_any L r s of
     (Inl e, s') \<Rightarrow> ([], s') | (Inr r', s') \<Rightarrow> ([(pool (folder_of r'), number_of r')], s'))"
| "file_step L (Store_Event u r) s = ([], snd (store_any L u r s))"
| "file_step L (Delete_Event f u) s = ([], snd (delete_file (Row_File f u) s))"
| "file_step L Restart_Event s = ([], snd (FileDataSource_Initialize L s))"

fun file_run :: "('j, 't) json_lib \<Rightarrow> file_event list \<Rightarrow> 't file_source \<Rightarrow> (folder \<times> uid) list \<times> 't file_source" where
  "file_run L [] s = ([], s)"
| "file_run L (e # es) s = (let (us, s) = file_step L e s; (vs, s) = file_run L es s in (us @ vs, s))"

text \<open>The meta file holds the sequences, or there is none and nothing has been given out. It can be opened and written.\<close>

definition meta_saved :: "('j, 't) json_lib \<Rightarrow> 't file_source \<Rightarrow> bool" where
  "meta_saved L s \<longleftrightarrow> Meta_File \<notin> set (fs_denied s) \<and> (\<forall>q. \<exists>t. js_dump L (meta_json L q) = Inr t)
     \<and> (case map_of (fs_files s) Meta_File of None \<Rightarrow> fs_sequences s = empty_sequences
        | Some t \<Rightarrow> js_dump L (meta_json L (fs_sequences s)) = Inr t)"

lemma meta_of_meta: "json_ok L \<Longrightarrow> meta_of_json L (meta_json L q) = Inr q"
  by (simp add: meta_of_json_def meta_json_def read_laws)

lemma restart_keeps:
  assumes "json_ok L" "meta_saved L s"
  shows "snd (FileDataSource_Initialize L s) = s"
  using assms json_laws(11) [OF assms(1)]
  by (auto simp: FileDataSource_Initialize_def meta_saved_def load_file_def meta_of_meta split: option.splits)

lemma meta_saved_write: "meta_saved L s \<Longrightarrow> f \<noteq> Meta_File \<Longrightarrow> meta_saved L (write_file f t s)"
  and meta_saved_erase: "meta_saved L s \<Longrightarrow> f \<noteq> Meta_File \<Longrightarrow> meta_saved L (s\<lparr>fs_files := umap_erase f (fs_files s)\<rparr>)"
  by (auto simp: meta_saved_def write_file_def split: option.splits)

lemma meta_saved_rows:
  assumes "meta_saved L s" "f \<noteq> Meta_File"
  shows "meta_saved L (snd (store_file L label f j s))" "fs_sequences (snd (store_file L label f j s)) = fs_sequences s"
    "meta_saved L (snd (delete_file f s))" "fs_sequences (snd (delete_file f s)) = fs_sequences s"
  using assms
  by (simp_all add: store_file_def delete_file_def modify_def meta_saved_write meta_saved_erase split: sum.splits)
     (simp_all add: write_file_def)

lemma store_any_file: "\<exists>label j. store_any L u r = store_file L label (Row_File (folder_of r) u) j"
  by (cases r) (auto simp: store_defs)

lemma next_number_saves:
  assumes "meta_saved L s"
  shows "\<exists>s'. next_number L sel upd s = (Inr (sel (upd (\<lambda>n. n + 1) (fs_sequences s))), s') \<and> meta_saved L s'
    \<and> fs_sequences s' = upd (\<lambda>n. n + 1) (fs_sequences s)"
proof -
  let ?q = "upd (\<lambda>n. n + 1) (fs_sequences s)"
  obtain t where t: "js_dump L (meta_json L ?q) = Inr t" using assms by (auto simp: meta_saved_def)
  then show ?thesis using assms
    by (auto simp: next_number_def act_defs Let_def SaveMetadata_def store_file_def write_file_def meta_saved_def)
qed

definition bump :: "folder \<Rightarrow> sequences \<Rightarrow> sequences \<Rightarrow> bool" where
  "bump f q q' \<longleftrightarrow> (\<forall>g. sequence_of g q' = (if pool g = pool f then sequence_of g q + 1 else sequence_of g q))"

lemma seq_seq_pure: "seq (seq a (\<lambda>u. pure (g u))) (\<lambda>x. pure (h x)) = seq a (\<lambda>u. pure (h (g u)))"
  by (auto simp: seq_def pure_def split: prod.splits sum.splits)

lemma create_with:
  assumes "meta_saved L s" "create_any L r = seq (next_number L sel upd) (\<lambda>u. pure (h u))"
    "\<And>q. sel (upd (\<lambda>n. n + 1) q) = sequence_of (folder_of r) q + 1" "\<And>q. bump (folder_of r) q (upd (\<lambda>n. n + 1) q)"
    "\<And>u. folder_of (h u) = folder_of r" "\<And>u. number_of (h u) = u"
  shows "\<exists>s' r'. create_any L r s = (Inr r', s') \<and> folder_of r' = folder_of r
    \<and> number_of r' = sequence_of (folder_of r) (fs_sequences s) + 1 \<and> meta_saved L s'
    \<and> bump (folder_of r) (fs_sequences s) (fs_sequences s')"
  using next_number_saves [OF assms(1), of sel upd] assms(2-) by (auto simp: seq_def pure_def)

lemmas create_defs = CreateInfraction_def CreateCharacter_def CreateItem_def CreateHorse_def CreateStorageItem_def
  CreateEgg_def CreatePet_def CreateHousing_def CreateGuild_def CreateSettings_def CreateDailyQuestGroup_def
  CreateMail_def CreateQuest_def CreateStallion_def CreateRewardFile_def

lemma bump_one:
  "(\<And>g. sequence_of g q' = (if pool g = pool f then sequence_of g q + 1 else sequence_of g q)) \<Longrightarrow> bump f q q'"
  by (simp add: bump_def)

lemma create_saves:
  assumes "meta_saved L s"
  shows "\<exists>s' r'. create_any L r s = (Inr r', s') \<and> folder_of r' = folder_of r
    \<and> number_of r' = sequence_of (folder_of r) (fs_sequences s) + 1 \<and> meta_saved L s'
    \<and> bump (folder_of r) (fs_sequences s) (fs_sequences s')"
  apply (cases r; hypsubst; rule create_with [OF assms])
  apply (unfold create_any.simps create_defs seq_seq_pure)
  apply (rule refl, simp, rule bump_one, (case_tac g; simp), simp, simp)+
  done

section \<open>Numbers given out\<close>

lemma file_step_saved:
  assumes "json_ok L" "meta_saved L s" "file_step L e s = (us, s')"
  shows "meta_saved L s' \<and> ((us = [] \<and> (\<forall>g. sequence_of g (fs_sequences s') = sequence_of g (fs_sequences s)))
    \<or> (\<exists>f. us = [(pool f, sequence_of f (fs_sequences s) + 1)] \<and> bump f (fs_sequences s) (fs_sequences s')))"
proof (cases e)
  case (Create_Event r)
  then show ?thesis using create_saves [OF assms(2), of r] assms(3) by fastforce
next
  case (Store_Event u r)
  then show ?thesis using store_any_file [of L u r] assms(2,3) by (auto simp: meta_saved_rows)
next
  case (Delete_Event f u)
  then show ?thesis using assms(2,3) by (auto simp: meta_saved_rows)
next
  case Restart_Event
  then show ?thesis using assms restart_keeps [OF assms(1,2)] by auto
qed

lemma pool_pool [simp]: "pool (pool f) = pool f"
  by (cases f) auto

lemma sequence_of_pool [simp]: "sequence_of (pool f) q = sequence_of f q"
  by (cases f) auto

text \<open>The numbers a run gives out lie above the sequence it starts from.\<close>

lemma file_run_above:
  assumes "json_ok L" "meta_saved L s" "file_run L es s = (us, s')"
    "\<And>f. unat (sequence_of f (fs_sequences s)) + length es < 2 ^ 32"
  shows "distinct us \<and> (\<forall>(p, u) \<in> set us. unat (sequence_of p (fs_sequences s)) < unat u)"
  using assms(2-)
proof (induction es arbitrary: s us)
  case Nil
  then show ?case by simp
next
  case (Cons e es)
  obtain vs s1 where 1: "file_step L e s = (vs, s1)" by force
  obtain ws where 2: "file_run L es s1 = (ws, s')" and us: "us = vs @ ws" using 1 Cons.prems(2) by (auto split: prod.splits)
  from file_step_saved [OF assms(1) Cons.prems(1) 1] have ok: "meta_saved L s1"
    and out: "(vs = [] \<and> (\<forall>g. sequence_of g (fs_sequences s1) = sequence_of g (fs_sequences s)))
      \<or> (\<exists>f. vs = [(pool f, sequence_of f (fs_sequences s) + 1)] \<and> bump f (fs_sequences s) (fs_sequences s1))" by auto
  have next1: "unat (sequence_of g (fs_sequences s) + 1) = unat (sequence_of g (fs_sequences s)) + 1" for g
    using Cons.prems(3) [of g] by (simp add: unat_word_ariths)
  have le: "unat (sequence_of g (fs_sequences s)) \<le> unat (sequence_of g (fs_sequences s1))
      \<and> unat (sequence_of g (fs_sequences s1)) + length es < 2 ^ 32" for g
    using out Cons.prems(3) [of g] next1 [of g] by (auto simp: bump_def)
  have ih: "distinct ws \<and> (\<forall>(p, u) \<in> set ws. unat (sequence_of p (fs_sequences s1)) < unat u)"
    using Cons.IH [OF ok 2] le by blast
  have above: "unat (sequence_of p (fs_sequences s)) < unat u" if "(p, u) \<in> set ws" for p u
    using ih le [of p] that by fastforce
  show ?case using out
  proof (elim disjE conjE exE)
    assume "vs = []"
    then show ?thesis using us ih above by auto
  next
    fix f assume vs: "vs = [(pool f, sequence_of f (fs_sequences s) + 1)]" and b: "bump f (fs_sequences s) (fs_sequences s1)"
    have "(pool f, sequence_of f (fs_sequences s) + 1) \<notin> set ws"
      using ih b by (fastforce simp: bump_def)
    then show ?thesis using us vs ih above next1 [of f] by auto
  qed
qed

text \<open>C7: no number is given out twice, whatever is created, stored and deleted and however often the server is restarted or
  killed between two operations, as long as the 32 bits of the sequences last: every number is written to the meta file
  before it is used, and a restart reads the sequences back as they were.\<close>

theorem numbers_never_reused:
  assumes "json_ok L" "meta_saved L s" "\<And>f. unat (sequence_of f (fs_sequences s)) + length es < 2 ^ 32"
  shows "distinct (fst (file_run L es s))"
  using file_run_above [OF assms(1,2) prod.collapse [symmetric] assms(3)] by blast

section \<open>An instance\<close>

text \<open>Documents as trees, and a text that holds a tree or nothing.\<close>

datatype tree = T_Null | T_Number int | T_String bytes | T_Bool bool | T_Array "tree list" | T_Object "(string, tree) umap"

definition tree_lib :: "(tree, tree option) json_lib" where
  "tree_lib = \<lparr>js_null = T_Null, js_new_object = T_Object [], js_number = T_Number, js_string = T_String, js_bool = T_Bool,
     js_array = T_Array,
     js_put = (\<lambda>k v j. case j of T_Null \<Rightarrow> T_Object [(k, v)] | T_Object m \<Rightarrow> T_Object (umap_put k v m) | _ \<Rightarrow> T_Null),
     js_member = (\<lambda>j k. case j of T_Object m \<Rightarrow> Inr (map_of m k) | _ \<Rightarrow> Inl (LogicError ''type'')),
     js_items = (\<lambda>j. case j of T_Array xs \<Rightarrow> xs | _ \<Rightarrow> []),
     js_is_bool = (\<lambda>j. case j of T_Bool b \<Rightarrow> True | _ \<Rightarrow> False),
     js_get_number = (\<lambda>j. case j of T_Number i \<Rightarrow> Inr i | _ \<Rightarrow> Inl (LogicError ''type'')),
     js_get_string = (\<lambda>j. case j of T_String t \<Rightarrow> Inr t | _ \<Rightarrow> Inl (LogicError ''type'')),
     js_get_bool = (\<lambda>j. case j of T_Bool b \<Rightarrow> Inr b | _ \<Rightarrow> Inl (LogicError ''type'')),
     js_get_array = (\<lambda>j. case j of T_Array xs \<Rightarrow> Inr xs | _ \<Rightarrow> Inl (LogicError ''type'')),
     js_dump = (\<lambda>j. Inr (Some j)),
     js_parse = (\<lambda>t. case t of None \<Rightarrow> Inl (LogicError ''parse'') | Some j \<Rightarrow> Inr j),
     js_empty = None\<rparr>"

lemma tree_lib_ok: "json_ok tree_lib"
  by (auto simp: json_ok_def tree_lib_def split: tree.splits)

definition new_files :: "tree option file_source" where
  "new_files = \<lparr>fs_files = [], fs_denied = [], fs_sequences = empty_sequences\<rparr>"

definition some_egg :: egg_record where
  "some_egg = \<lparr>eg_uid = 5, eg_itemUid = 6, eg_itemTid = 70001, eg_incubatedAt = 1500000000, eg_incubatorSlot = 2,
     eg_boostsUsed = 1\<rparr>"

lemma tree_dump [simp]: "js_dump tree_lib j = Inr (Some j)"
  by (simp add: tree_lib_def)

lemma records_read_back_witness:
  "load_any tree_lib Eggs 5 (snd (store_any tree_lib 5 (R_Egg some_egg) new_files))
     = (Inr (R_Egg (some_egg\<lparr>eg_incubatedAt := 1000000000\<rparr>)), snd (store_any tree_lib 5 (R_Egg some_egg) new_files))"
proof -
  have st: "store_any tree_lib 5 (R_Egg some_egg) new_files = (Inr (), snd (store_any tree_lib 5 (R_Egg some_egg) new_files))"
    by (simp add: StoreEgg_def store_file_def new_files_def)
  have "savable (R_Egg some_egg)" by (simp add: some_egg_def int64_def)
  from records_read_back [OF tree_lib_ok this st] show ?thesis
    by (simp add: saved_egg_def cut_to_second_def cast_seconds_def some_egg_def)
qed

lemma numbers_never_reused_witness:
  "distinct (fst (file_run tree_lib [Create_Event (R_Egg some_egg), Restart_Event, Create_Event (R_Egg some_egg)] new_files))"
proof (rule numbers_never_reused [OF tree_lib_ok])
  show "meta_saved tree_lib new_files" by (simp add: meta_saved_def new_files_def)
  show "unat (sequence_of f (fs_sequences new_files))
      + length [Create_Event (R_Egg some_egg), Restart_Event, Create_Event (R_Egg some_egg)] < 2 ^ 32" for f
    by (cases f) (simp_all add: new_files_def empty_sequences_def)
qed

end
