(* ===== verification/Msg_Ranch.thy ===== *)
theory Msg_Ranch imports Messages begin

text \<open>
  \<open>libserver/network/command/proto/RanchMessageDefinitions.hpp\<close> and \<open>.cpp\<close>: the messages of
  the ranch server.
\<close>

type_synonym AcCmdCRHeartbeat = unit

definition AcCmdCRHeartbeat_Write :: "AcCmdCRHeartbeat \<Rightarrow> stream \<Rightarrow> exn + stream" where
  "AcCmdCRHeartbeat_Write _ = throws (RuntimeError ''Not implemented.'')"

definition AcCmdCRHeartbeat_Read :: "stream \<Rightarrow> exn + (AcCmdCRHeartbeat \<times> stream)" where
  "AcCmdCRHeartbeat_Read = ret ()"

datatype (plugins only:) AcCmdCREnterRanch = AcCmdCREnterRanch
  (AcCmdCREnterRanch_characterUid: "u32")
  (AcCmdCREnterRanch_otp: "u32")
  (AcCmdCREnterRanch_rancherUid: "u32")

definition AcCmdCREnterRanch_Write :: "AcCmdCREnterRanch \<Rightarrow> stream \<Rightarrow> exn + stream" where
  "AcCmdCREnterRanch_Write _ = throws (RuntimeError ''Not implemented.'')"

definition AcCmdCREnterRanch_Read :: "stream \<Rightarrow> exn + (AcCmdCREnterRanch \<times> stream)" where
  "AcCmdCREnterRanch_Read =
     rd r32 (\<lambda>characterUid'.
     rd r32 (\<lambda>otp'.
     rd r32 (\<lambda>rancherUid'.
     ret (AcCmdCREnterRanch characterUid' otp' rancherUid'))))"

datatype (plugins only:) AcCmdCREnterRanchOK = AcCmdCREnterRanchOK
  (AcCmdCREnterRanchOK_rancherUid: "u32")
  (AcCmdCREnterRanchOK_rancherName: "bytes")
  (AcCmdCREnterRanchOK_ranchName: "bytes")
  (AcCmdCREnterRanchOK_horses: "wire_ranch_horse list")
  (AcCmdCREnterRanchOK_characters: "wire_ranch_character list")
  (AcCmdCREnterRanchOK_member6: "u64")
  (AcCmdCREnterRanchOK_scramblingConstant: "u32")
  (AcCmdCREnterRanchOK_ranchProgress: "u32")
  (AcCmdCREnterRanchOK_housing: "wire_housing list")
  (AcCmdCREnterRanchOK_horseSlots: "u8")
  (AcCmdCREnterRanchOK_member11: "u32")
  (AcCmdCREnterRanchOK_bitset: "u32")
  (AcCmdCREnterRanchOK_incubatorSlots: "u32")
  (AcCmdCREnterRanchOK_incubatorUseCount: "u32")
  (AcCmdCREnterRanchOK_incubator: "wire_egg list")
  (AcCmdCREnterRanchOK_league: "wire_league")
  (AcCmdCREnterRanchOK_member17: "u32")

definition AcCmdCREnterRanchOK_Write :: "icu \<Rightarrow> AcCmdCREnterRanchOK \<Rightarrow> stream \<Rightarrow> exn + stream" where
  "AcCmdCREnterRanchOK_Write cv v = seqw [
     w32 (AcCmdCREnterRanchOK_rancherUid v),
     wstr cv (AcCmdCREnterRanchOK_rancherName v),
     wstr cv (AcCmdCREnterRanchOK_ranchName v),
     w8 (of_nat (min (length (AcCmdCREnterRanchOK_horses v)) 10)),
     seqw (map (RanchHorse_Write cv) (take (min (length (AcCmdCREnterRanchOK_horses v)) 10) (AcCmdCREnterRanchOK_horses v))),
     w8 (of_nat (min (length (AcCmdCREnterRanchOK_characters v)) 20)),
     seqw (map (RanchCharacter_Write cv) (take (min (length (AcCmdCREnterRanchOK_characters v)) 20) (AcCmdCREnterRanchOK_characters v))),
     w64 (AcCmdCREnterRanchOK_member6 v),
     w32 (AcCmdCREnterRanchOK_scramblingConstant v),
     w32 (AcCmdCREnterRanchOK_ranchProgress v),
     w8 (of_nat (min (length (AcCmdCREnterRanchOK_housing v)) 13)),
     seqw (map Housing_Write (take (min (length (AcCmdCREnterRanchOK_housing v)) 13) (AcCmdCREnterRanchOK_housing v))),
     w8 (AcCmdCREnterRanchOK_horseSlots v),
     w32 (AcCmdCREnterRanchOK_member11 v),
     w32 (AcCmdCREnterRanchOK_bitset v),
     w32 (AcCmdCREnterRanchOK_incubatorSlots v),
     w32 (AcCmdCREnterRanchOK_incubatorUseCount v),
     seqw (map Egg_Write (AcCmdCREnterRanchOK_incubator v)),
     League_Write (AcCmdCREnterRanchOK_league v),
     w32 (AcCmdCREnterRanchOK_member17 v)]"

definition AcCmdCREnterRanchOK_Read :: "stream \<Rightarrow> exn + (AcCmdCREnterRanchOK \<times> stream)" where
  "AcCmdCREnterRanchOK_Read = throws (RuntimeError ''Not implemented.'')"

type_synonym RanchCommandEnterRanchCancel = unit

definition RanchCommandEnterRanchCancel_Write :: "RanchCommandEnterRanchCancel \<Rightarrow> stream \<Rightarrow> exn + stream" where
  "RanchCommandEnterRanchCancel_Write _ = seqw []"

definition RanchCommandEnterRanchCancel_Read :: "stream \<Rightarrow> exn + (RanchCommandEnterRanchCancel \<times> stream)" where
  "RanchCommandEnterRanchCancel_Read = throws (RuntimeError ''Not implemented.'')"

datatype (plugins only:) RanchCommandEnterRanchNotify = RanchCommandEnterRanchNotify
  (RanchCommandEnterRanchNotify_character: "wire_ranch_character")

definition RanchCommandEnterRanchNotify_Write :: "icu \<Rightarrow> RanchCommandEnterRanchNotify \<Rightarrow> stream \<Rightarrow> exn + stream" where
  "RanchCommandEnterRanchNotify_Write cv v = seqw [
     RanchCharacter_Write cv (RanchCommandEnterRanchNotify_character v)]"

definition RanchCommandEnterRanchNotify_Read :: "stream \<Rightarrow> exn + (RanchCommandEnterRanchNotify \<times> stream)" where
  "RanchCommandEnterRanchNotify_Read = throws (RuntimeError ''Not implemented.'')"

type_synonym AcCmdCRLeaveRanch = unit

definition AcCmdCRLeaveRanch_Write :: "AcCmdCRLeaveRanch \<Rightarrow> stream \<Rightarrow> exn + stream" where
  "AcCmdCRLeaveRanch_Write _ = throws (RuntimeError ''Not implemented.'')"

definition AcCmdCRLeaveRanch_Read :: "stream \<Rightarrow> exn + (AcCmdCRLeaveRanch \<times> stream)" where
  "AcCmdCRLeaveRanch_Read = ret ()"

type_synonym AcCmdCRLeaveRanchOK = unit

definition AcCmdCRLeaveRanchOK_Write :: "AcCmdCRLeaveRanchOK \<Rightarrow> stream \<Rightarrow> exn + stream" where
  "AcCmdCRLeaveRanchOK_Write _ = seqw []"

definition AcCmdCRLeaveRanchOK_Read :: "stream \<Rightarrow> exn + (AcCmdCRLeaveRanchOK \<times> stream)" where
  "AcCmdCRLeaveRanchOK_Read = throws (RuntimeError ''Not implemented.'')"

datatype (plugins only:) AcCmdCRLeaveRanchNotify = AcCmdCRLeaveRanchNotify
  (AcCmdCRLeaveRanchNotify_characterId: "u32")

definition AcCmdCRLeaveRanchNotify_Write :: "AcCmdCRLeaveRanchNotify \<Rightarrow> stream \<Rightarrow> exn + stream" where
  "AcCmdCRLeaveRanchNotify_Write v = seqw [
     w32 (AcCmdCRLeaveRanchNotify_characterId v)]"

definition AcCmdCRLeaveRanchNotify_Read :: "stream \<Rightarrow> exn + (AcCmdCRLeaveRanchNotify \<times> stream)" where
  "AcCmdCRLeaveRanchNotify_Read = throws (RuntimeError ''Not implemented.'')"

datatype (plugins only:) AcCmdCRRanchChat = AcCmdCRRanchChat
  (AcCmdCRRanchChat_message: "bytes")
  (AcCmdCRRanchChat_unknown: "u8")
  (AcCmdCRRanchChat_unknown2: "u8")

definition AcCmdCRRanchChat_Write :: "AcCmdCRRanchChat \<Rightarrow> stream \<Rightarrow> exn + stream" where
  "AcCmdCRRanchChat_Write _ = throws (RuntimeError ''Not implemented'')"

definition AcCmdCRRanchChat_Read :: "icu \<Rightarrow> stream \<Rightarrow> exn + (AcCmdCRRanchChat \<times> stream)" where
  "AcCmdCRRanchChat_Read cv =
     rd (rstr cv) (\<lambda>message'.
     rd r8 (\<lambda>unknown'.
     rd r8 (\<lambda>unknown2'.
     ret (AcCmdCRRanchChat message' unknown' unknown2'))))"

datatype (plugins only:) AcCmdCRRanchChatNotify = AcCmdCRRanchChatNotify
  (AcCmdCRRanchChatNotify_author: "bytes")
  (AcCmdCRRanchChatNotify_message: "bytes")
  (AcCmdCRRanchChatNotify_isSystem: "bool")
  (AcCmdCRRanchChatNotify_unknown2: "bool")

definition AcCmdCRRanchChatNotify_Write :: "icu \<Rightarrow> AcCmdCRRanchChatNotify \<Rightarrow> stream \<Rightarrow> exn + stream" where
  "AcCmdCRRanchChatNotify_Write cv v = seqw [
     wstr cv (AcCmdCRRanchChatNotify_author v),
     wstr cv (AcCmdCRRanchChatNotify_message v),
     wbool (AcCmdCRRanchChatNotify_isSystem v),
     wbool (AcCmdCRRanchChatNotify_unknown2 v)]"

definition AcCmdCRRanchChatNotify_Read :: "stream \<Rightarrow> exn + (AcCmdCRRanchChatNotify \<times> stream)" where
  "AcCmdCRRanchChatNotify_Read = throws (RuntimeError ''Not implemented'')"

record AcCmdCRRanchSnapshot_FullSpatial =
  AcCmdCRRanchSnapshot_FullSpatial_ranchIndex :: "u16"
  AcCmdCRRanchSnapshot_FullSpatial_time :: "u32"
  AcCmdCRRanchSnapshot_FullSpatial_action :: "u64"
  AcCmdCRRanchSnapshot_FullSpatial_timer :: "u16"
  AcCmdCRRanchSnapshot_FullSpatial_member4 :: "u8 list"
  AcCmdCRRanchSnapshot_FullSpatial_matrix :: "u8 list"
  AcCmdCRRanchSnapshot_FullSpatial_velocityX :: "u32"
  AcCmdCRRanchSnapshot_FullSpatial_velocityY :: "u32"
  AcCmdCRRanchSnapshot_FullSpatial_velocityZ :: "u32"

definition AcCmdCRRanchSnapshot_FullSpatial_Write :: "AcCmdCRRanchSnapshot_FullSpatial \<Rightarrow> stream \<Rightarrow> exn + stream" where
  "AcCmdCRRanchSnapshot_FullSpatial_Write v = seqw [
     w16 (AcCmdCRRanchSnapshot_FullSpatial_ranchIndex v),
     w32 (AcCmdCRRanchSnapshot_FullSpatial_time v),
     w64 (AcCmdCRRanchSnapshot_FullSpatial_action v),
     w16 (AcCmdCRRanchSnapshot_FullSpatial_timer v),
     seqw (map w8 (AcCmdCRRanchSnapshot_FullSpatial_member4 v)),
     seqw (map w8 (AcCmdCRRanchSnapshot_FullSpatial_matrix v)),
     w32 (AcCmdCRRanchSnapshot_FullSpatial_velocityX v),
     w32 (AcCmdCRRanchSnapshot_FullSpatial_velocityY v),
     w32 (AcCmdCRRanchSnapshot_FullSpatial_velocityZ v)]"

definition AcCmdCRRanchSnapshot_FullSpatial_default :: "AcCmdCRRanchSnapshot_FullSpatial" where
  "AcCmdCRRanchSnapshot_FullSpatial_default = \<lparr>AcCmdCRRanchSnapshot_FullSpatial_ranchIndex = 0,
     AcCmdCRRanchSnapshot_FullSpatial_time = 0,
     AcCmdCRRanchSnapshot_FullSpatial_action = 0,
     AcCmdCRRanchSnapshot_FullSpatial_timer = 0,
     AcCmdCRRanchSnapshot_FullSpatial_member4 = replicate 12 0,
     AcCmdCRRanchSnapshot_FullSpatial_matrix = replicate 16 0,
     AcCmdCRRanchSnapshot_FullSpatial_velocityX = 0,
     AcCmdCRRanchSnapshot_FullSpatial_velocityY = 0,
     AcCmdCRRanchSnapshot_FullSpatial_velocityZ = 0\<rparr>"

definition AcCmdCRRanchSnapshot_FullSpatial_Read :: "stream \<Rightarrow> exn + (AcCmdCRRanchSnapshot_FullSpatial \<times> stream)" where
  "AcCmdCRRanchSnapshot_FullSpatial_Read = build AcCmdCRRanchSnapshot_FullSpatial_default [
     fld r16 AcCmdCRRanchSnapshot_FullSpatial_ranchIndex_update,
     fld r32 AcCmdCRRanchSnapshot_FullSpatial_time_update,
     fld r64 AcCmdCRRanchSnapshot_FullSpatial_action_update,
     fld r16 AcCmdCRRanchSnapshot_FullSpatial_timer_update,
     fld (read_n 12 r8) AcCmdCRRanchSnapshot_FullSpatial_member4_update,
     fld (read_n 16 r8) AcCmdCRRanchSnapshot_FullSpatial_matrix_update,
     fld r32 AcCmdCRRanchSnapshot_FullSpatial_velocityX_update,
     fld r32 AcCmdCRRanchSnapshot_FullSpatial_velocityY_update,
     fld r32 AcCmdCRRanchSnapshot_FullSpatial_velocityZ_update]"

record AcCmdCRRanchSnapshot_PartialSpatial =
  AcCmdCRRanchSnapshot_PartialSpatial_ranchIndex :: "u16"
  AcCmdCRRanchSnapshot_PartialSpatial_time :: "u32"
  AcCmdCRRanchSnapshot_PartialSpatial_action :: "u64"
  AcCmdCRRanchSnapshot_PartialSpatial_timer :: "u16"
  AcCmdCRRanchSnapshot_PartialSpatial_member4 :: "u8 list"
  AcCmdCRRanchSnapshot_PartialSpatial_matrix :: "u8 list"

definition AcCmdCRRanchSnapshot_PartialSpatial_Write :: "AcCmdCRRanchSnapshot_PartialSpatial \<Rightarrow> stream \<Rightarrow> exn + stream" where
  "AcCmdCRRanchSnapshot_PartialSpatial_Write v = seqw [
     w16 (AcCmdCRRanchSnapshot_PartialSpatial_ranchIndex v),
     w32 (AcCmdCRRanchSnapshot_PartialSpatial_time v),
     w64 (AcCmdCRRanchSnapshot_PartialSpatial_action v),
     w16 (AcCmdCRRanchSnapshot_PartialSpatial_timer v),
     seqw (map w8 (AcCmdCRRanchSnapshot_PartialSpatial_member4 v)),
     seqw (map w8 (AcCmdCRRanchSnapshot_PartialSpatial_matrix v))]"

definition AcCmdCRRanchSnapshot_PartialSpatial_default :: "AcCmdCRRanchSnapshot_PartialSpatial" where
  "AcCmdCRRanchSnapshot_PartialSpatial_default = \<lparr>AcCmdCRRanchSnapshot_PartialSpatial_ranchIndex = 0,
     AcCmdCRRanchSnapshot_PartialSpatial_time = 0,
     AcCmdCRRanchSnapshot_PartialSpatial_action = 0,
     AcCmdCRRanchSnapshot_PartialSpatial_timer = 0,
     AcCmdCRRanchSnapshot_PartialSpatial_member4 = replicate 12 0,
     AcCmdCRRanchSnapshot_PartialSpatial_matrix = replicate 16 0\<rparr>"

definition AcCmdCRRanchSnapshot_PartialSpatial_Read :: "stream \<Rightarrow> exn + (AcCmdCRRanchSnapshot_PartialSpatial \<times> stream)" where
  "AcCmdCRRanchSnapshot_PartialSpatial_Read = build AcCmdCRRanchSnapshot_PartialSpatial_default [
     fld r16 AcCmdCRRanchSnapshot_PartialSpatial_ranchIndex_update,
     fld r32 AcCmdCRRanchSnapshot_PartialSpatial_time_update,
     fld r64 AcCmdCRRanchSnapshot_PartialSpatial_action_update,
     fld r16 AcCmdCRRanchSnapshot_PartialSpatial_timer_update,
     fld (read_n 12 r8) AcCmdCRRanchSnapshot_PartialSpatial_member4_update,
     fld (read_n 16 r8) AcCmdCRRanchSnapshot_PartialSpatial_matrix_update]"

record AcCmdCRRanchSnapshot =
  AcCmdCRRanchSnapshot_type :: "u8"
  AcCmdCRRanchSnapshot_full :: "AcCmdCRRanchSnapshot_FullSpatial"
  AcCmdCRRanchSnapshot_partial :: "AcCmdCRRanchSnapshot_PartialSpatial"

definition AcCmdCRRanchSnapshot_Write :: "AcCmdCRRanchSnapshot \<Rightarrow> stream \<Rightarrow> exn + stream" where
  "AcCmdCRRanchSnapshot_Write _ = throws (RuntimeError ''Not implemented.'')"

definition AcCmdCRRanchSnapshot_default :: "AcCmdCRRanchSnapshot" where
  "AcCmdCRRanchSnapshot_default = \<lparr>AcCmdCRRanchSnapshot_type = 0,
     AcCmdCRRanchSnapshot_full = AcCmdCRRanchSnapshot_FullSpatial_default,
     AcCmdCRRanchSnapshot_partial = AcCmdCRRanchSnapshot_PartialSpatial_default\<rparr>"

definition AcCmdCRRanchSnapshot_Read :: "stream \<Rightarrow> exn + (AcCmdCRRanchSnapshot \<times> stream)" where
  "AcCmdCRRanchSnapshot_Read = build AcCmdCRRanchSnapshot_default [
     fld r8 AcCmdCRRanchSnapshot_type_update,
     (\<lambda>c. if AcCmdCRRanchSnapshot_type c = 0 then seqr [fld AcCmdCRRanchSnapshot_FullSpatial_Read AcCmdCRRanchSnapshot_full_update] c
       else if AcCmdCRRanchSnapshot_type c = 1 then seqr [fld AcCmdCRRanchSnapshot_PartialSpatial_Read AcCmdCRRanchSnapshot_partial_update] c
       else seqr [(\<lambda>_. throws (RuntimeError ''Update type not implemented''))] c)]"

datatype (plugins only:) RanchCommandRanchSnapshotNotify = RanchCommandRanchSnapshotNotify
  (RanchCommandRanchSnapshotNotify_ranchIndex: "u16")
  (RanchCommandRanchSnapshotNotify_type: "u8")
  (RanchCommandRanchSnapshotNotify_full: "AcCmdCRRanchSnapshot_FullSpatial")
  (RanchCommandRanchSnapshotNotify_partial: "AcCmdCRRanchSnapshot_PartialSpatial")

definition RanchCommandRanchSnapshotNotify_Write :: "RanchCommandRanchSnapshotNotify \<Rightarrow> stream \<Rightarrow> exn + stream" where
  "RanchCommandRanchSnapshotNotify_Write v = seqw [
     w16 (RanchCommandRanchSnapshotNotify_ranchIndex v),
     w8 (RanchCommandRanchSnapshotNotify_type v),
     (if RanchCommandRanchSnapshotNotify_type v = 0 then AcCmdCRRanchSnapshot_FullSpatial_Write (RanchCommandRanchSnapshotNotify_full v)
      else if RanchCommandRanchSnapshotNotify_type v = 1 then AcCmdCRRanchSnapshot_PartialSpatial_Write (RanchCommandRanchSnapshotNotify_partial v)
      else throws (RuntimeError ''Update type not implemented''))]"

definition RanchCommandRanchSnapshotNotify_Read :: "stream \<Rightarrow> exn + (RanchCommandRanchSnapshotNotify \<times> stream)" where
  "RanchCommandRanchSnapshotNotify_Read = throws (RuntimeError ''Not implemented.'')"

type_synonym AcCmdCREnterBreedingMarket = unit

definition AcCmdCREnterBreedingMarket_Write :: "AcCmdCREnterBreedingMarket \<Rightarrow> stream \<Rightarrow> exn + stream" where
  "AcCmdCREnterBreedingMarket_Write _ = throws (RuntimeError ''Not implemented.'')"

definition AcCmdCREnterBreedingMarket_Read :: "stream \<Rightarrow> exn + (AcCmdCREnterBreedingMarket \<times> stream)" where
  "AcCmdCREnterBreedingMarket_Read = ret ()"

datatype (plugins only:) RanchCommandEnterBreedingMarketOK_Stallion = RanchCommandEnterBreedingMarketOK_Stallion
  (RanchCommandEnterBreedingMarketOK_Stallion_uid: "u32")
  (RanchCommandEnterBreedingMarketOK_Stallion_tid: "u32")
  (RanchCommandEnterBreedingMarketOK_Stallion_breedingCombo: "u8")
  (RanchCommandEnterBreedingMarketOK_Stallion_expiresAt: "u32")
  (RanchCommandEnterBreedingMarketOK_Stallion_hasBreedingBonus: "bool")
  (RanchCommandEnterBreedingMarketOK_Stallion_lineage: "u8")

datatype (plugins only:) RanchCommandEnterBreedingMarketOK = RanchCommandEnterBreedingMarketOK
  (RanchCommandEnterBreedingMarketOK_stallions: "RanchCommandEnterBreedingMarketOK_Stallion list")

definition RanchCommandEnterBreedingMarketOK_Write :: "RanchCommandEnterBreedingMarketOK \<Rightarrow> stream \<Rightarrow> exn + stream" where
  "RanchCommandEnterBreedingMarketOK_Write v = seqw [
     w8 (min (of_nat (length (RanchCommandEnterBreedingMarketOK_stallions v))) 20),
     seqw (map (\<lambda>element. seqw [
         w32 (RanchCommandEnterBreedingMarketOK_Stallion_uid element),
         w32 (RanchCommandEnterBreedingMarketOK_Stallion_tid element),
         w8 (RanchCommandEnterBreedingMarketOK_Stallion_breedingCombo element),
         w32 (RanchCommandEnterBreedingMarketOK_Stallion_expiresAt element),
         wbool (RanchCommandEnterBreedingMarketOK_Stallion_hasBreedingBonus element),
         w8 (RanchCommandEnterBreedingMarketOK_Stallion_lineage element)]) (take (unat (min (of_nat (length (RanchCommandEnterBreedingMarketOK_stallions v))) 20 :: u8)) (RanchCommandEnterBreedingMarketOK_stallions v)))]"

definition RanchCommandEnterBreedingMarketOK_Read :: "stream \<Rightarrow> exn + (RanchCommandEnterBreedingMarketOK \<times> stream)" where
  "RanchCommandEnterBreedingMarketOK_Read = throws (RuntimeError ''Not implemented.'')"

type_synonym RanchCommandEnterBreedingMarketCancel = unit

definition RanchCommandEnterBreedingMarketCancel_Write :: "RanchCommandEnterBreedingMarketCancel \<Rightarrow> stream \<Rightarrow> exn + stream" where
  "RanchCommandEnterBreedingMarketCancel_Write _ = seqw []"

definition RanchCommandEnterBreedingMarketCancel_Read :: "stream \<Rightarrow> exn + (RanchCommandEnterBreedingMarketCancel \<times> stream)" where
  "RanchCommandEnterBreedingMarketCancel_Read = throws (RuntimeError ''Not implemented.'')"

type_synonym RanchCommandLeaveBreedingMarket = unit

record AcCmdCRSearchStallion =
  AcCmdCRSearchStallion_page :: "u32"
  AcCmdCRSearchStallion_grade :: "u8"
  AcCmdCRSearchStallion_order :: "u8"
  AcCmdCRSearchStallion_unk3 :: "u8"
  AcCmdCRSearchStallion_unk4 :: "u8"
  AcCmdCRSearchStallion_unk5 :: "u8"
  AcCmdCRSearchStallion_unk6 :: "u8"
  AcCmdCRSearchStallion_firstRequiredStat :: "u8"
  AcCmdCRSearchStallion_secondRequiredStat :: "u8"
  AcCmdCRSearchStallion_filterCoats :: "u32 list"
  AcCmdCRSearchStallion_filterManes :: "u32 list"
  AcCmdCRSearchStallion_filterTails :: "u32 list"
  AcCmdCRSearchStallion_unk10 :: "u8"

definition AcCmdCRSearchStallion_Write :: "AcCmdCRSearchStallion \<Rightarrow> stream \<Rightarrow> exn + stream" where
  "AcCmdCRSearchStallion_Write _ = throws (RuntimeError ''Not implemented.'')"

definition AcCmdCRSearchStallion_default :: "AcCmdCRSearchStallion" where
  "AcCmdCRSearchStallion_default = \<lparr>AcCmdCRSearchStallion_page = 0,
     AcCmdCRSearchStallion_grade = 0,
     AcCmdCRSearchStallion_order = 0,
     AcCmdCRSearchStallion_unk3 = 0,
     AcCmdCRSearchStallion_unk4 = 0,
     AcCmdCRSearchStallion_unk5 = 0,
     AcCmdCRSearchStallion_unk6 = 0,
     AcCmdCRSearchStallion_firstRequiredStat = 0,
     AcCmdCRSearchStallion_secondRequiredStat = 0,
     AcCmdCRSearchStallion_filterCoats = [],
     AcCmdCRSearchStallion_filterManes = [],
     AcCmdCRSearchStallion_filterTails = [],
     AcCmdCRSearchStallion_unk10 = 0\<rparr>"

definition AcCmdCRSearchStallion_Read :: "stream \<Rightarrow> exn + (AcCmdCRSearchStallion \<times> stream)" where
  "AcCmdCRSearchStallion_Read = build AcCmdCRSearchStallion_default [
     fld r32 AcCmdCRSearchStallion_page_update,
     fld r8 AcCmdCRSearchStallion_grade_update,
     fld r8 AcCmdCRSearchStallion_order_update,
     fld r8 AcCmdCRSearchStallion_unk3_update,
     fld r8 AcCmdCRSearchStallion_unk4_update,
     fld r8 AcCmdCRSearchStallion_unk5_update,
     fld r8 AcCmdCRSearchStallion_unk6_update,
     fld r8 AcCmdCRSearchStallion_firstRequiredStat_update,
     fld r8 AcCmdCRSearchStallion_secondRequiredStat_update,
     fld (rlist_by r8 r32) AcCmdCRSearchStallion_filterCoats_update,
     fld (rlist_by r8 r32) AcCmdCRSearchStallion_filterManes_update,
     fld (rlist_by r8 r32) AcCmdCRSearchStallion_filterTails_update,
     fld r8 AcCmdCRSearchStallion_unk10_update]"

datatype (plugins only:) RanchCommandSearchStallionOK_Stallion = RanchCommandSearchStallionOK_Stallion
  (RanchCommandSearchStallionOK_Stallion_owner: "bytes")
  (RanchCommandSearchStallionOK_Stallion_uid: "u32")
  (RanchCommandSearchStallionOK_Stallion_tid: "u32")
  (RanchCommandSearchStallionOK_Stallion_name: "bytes")
  (RanchCommandSearchStallionOK_Stallion_grade: "u8")
  (RanchCommandSearchStallionOK_Stallion_heritability: "u8")
  (RanchCommandSearchStallionOK_Stallion_breedFee: "u32")
  (RanchCommandSearchStallionOK_Stallion_pregnancyChance: "u32")
  (RanchCommandSearchStallionOK_Stallion_expiresAt: "time_point")
  (RanchCommandSearchStallionOK_Stallion_stats: "wire_horse_stats")
  (RanchCommandSearchStallionOK_Stallion_parts: "wire_horse_parts")
  (RanchCommandSearchStallionOK_Stallion_appearance: "wire_horse_appearance")
  (RanchCommandSearchStallionOK_Stallion_unk11: "u8")
  (RanchCommandSearchStallionOK_Stallion_lineage: "u8")

datatype (plugins only:) RanchCommandSearchStallionOK = RanchCommandSearchStallionOK
  (RanchCommandSearchStallionOK_page: "u32")
  (RanchCommandSearchStallionOK_pageCount: "u32")
  (RanchCommandSearchStallionOK_stallions: "RanchCommandSearchStallionOK_Stallion list")

definition RanchCommandSearchStallionOK_Write :: "icu \<Rightarrow> RanchCommandSearchStallionOK \<Rightarrow> stream \<Rightarrow> exn + stream" where
  "RanchCommandSearchStallionOK_Write cv v = seqw [
     w32 (RanchCommandSearchStallionOK_page v),
     w32 (RanchCommandSearchStallionOK_pageCount v),
     w8 (min (of_nat (length (RanchCommandSearchStallionOK_stallions v))) 10),
     seqw (map (\<lambda>element. seqw [
         wstr cv (RanchCommandSearchStallionOK_Stallion_owner element),
         w32 (RanchCommandSearchStallionOK_Stallion_uid element),
         w32 (RanchCommandSearchStallionOK_Stallion_tid element),
         wstr cv (RanchCommandSearchStallionOK_Stallion_name element),
         w8 (RanchCommandSearchStallionOK_Stallion_grade element),
         w8 (RanchCommandSearchStallionOK_Stallion_heritability element),
         w32 (RanchCommandSearchStallionOK_Stallion_breedFee element),
         w32 (RanchCommandSearchStallionOK_Stallion_pregnancyChance element),
         w32 (TimePointToAliciaTime (RanchCommandSearchStallionOK_Stallion_expiresAt element)),
         HorseStats_Write (RanchCommandSearchStallionOK_Stallion_stats element),
         HorseParts_Write (RanchCommandSearchStallionOK_Stallion_parts element),
         HorseAppearance_Write (RanchCommandSearchStallionOK_Stallion_appearance element),
         w8 (RanchCommandSearchStallionOK_Stallion_unk11 element),
         w8 (RanchCommandSearchStallionOK_Stallion_lineage element)]) (take (unat (min (of_nat (length (RanchCommandSearchStallionOK_stallions v))) 10 :: u8)) (RanchCommandSearchStallionOK_stallions v)))]"

definition RanchCommandSearchStallionOK_Read :: "stream \<Rightarrow> exn + (RanchCommandSearchStallionOK \<times> stream)" where
  "RanchCommandSearchStallionOK_Read = throws (RuntimeError ''Not implemented.'')"

type_synonym RanchCommandSearchStallionCancel = unit

definition RanchCommandSearchStallionCancel_Write :: "RanchCommandSearchStallionCancel \<Rightarrow> stream \<Rightarrow> exn + stream" where
  "RanchCommandSearchStallionCancel_Write _ = seqw []"

definition RanchCommandSearchStallionCancel_Read :: "stream \<Rightarrow> exn + (RanchCommandSearchStallionCancel \<times> stream)" where
  "RanchCommandSearchStallionCancel_Read = throws (RuntimeError ''Not implemented'')"

datatype (plugins only:) AcCmdCRRegisterStallion = AcCmdCRRegisterStallion
  (AcCmdCRRegisterStallion_horseUid: "u32")
  (AcCmdCRRegisterStallion_breedingFee: "u32")

definition AcCmdCRRegisterStallion_Write :: "AcCmdCRRegisterStallion \<Rightarrow> stream \<Rightarrow> exn + stream" where
  "AcCmdCRRegisterStallion_Write _ = throws (RuntimeError ''Not implemented'')"

definition AcCmdCRRegisterStallion_Read :: "stream \<Rightarrow> exn + (AcCmdCRRegisterStallion \<times> stream)" where
  "AcCmdCRRegisterStallion_Read =
     rd r32 (\<lambda>horseUid'.
     rd r32 (\<lambda>breedingFee'.
     ret (AcCmdCRRegisterStallion horseUid' breedingFee')))"

datatype (plugins only:) AcCmdCRRegisterStallionOK = AcCmdCRRegisterStallionOK
  (AcCmdCRRegisterStallionOK_carrotBalance: "u32")

definition AcCmdCRRegisterStallionOK_Write :: "AcCmdCRRegisterStallionOK \<Rightarrow> stream \<Rightarrow> exn + stream" where
  "AcCmdCRRegisterStallionOK_Write v = seqw [
     w32 (AcCmdCRRegisterStallionOK_carrotBalance v)]"

definition AcCmdCRRegisterStallionOK_Read :: "stream \<Rightarrow> exn + (AcCmdCRRegisterStallionOK \<times> stream)" where
  "AcCmdCRRegisterStallionOK_Read = throws (RuntimeError ''Not implemented'')"

type_synonym RanchCommandRegisterStallionCancel = unit

definition RanchCommandRegisterStallionCancel_Write :: "RanchCommandRegisterStallionCancel \<Rightarrow> stream \<Rightarrow> exn + stream" where
  "RanchCommandRegisterStallionCancel_Write _ = seqw []"

definition RanchCommandRegisterStallionCancel_Read :: "stream \<Rightarrow> exn + (RanchCommandRegisterStallionCancel \<times> stream)" where
  "RanchCommandRegisterStallionCancel_Read = throws (RuntimeError ''Not implemented'')"

datatype (plugins only:) AcCmdCRUnregisterStallion = AcCmdCRUnregisterStallion
  (AcCmdCRUnregisterStallion_horseUid: "u32")

definition AcCmdCRUnregisterStallion_Write :: "AcCmdCRUnregisterStallion \<Rightarrow> stream \<Rightarrow> exn + stream" where
  "AcCmdCRUnregisterStallion_Write _ = throws (RuntimeError ''Not implemented'')"

definition AcCmdCRUnregisterStallion_Read :: "stream \<Rightarrow> exn + (AcCmdCRUnregisterStallion \<times> stream)" where
  "AcCmdCRUnregisterStallion_Read =
     rd r32 (\<lambda>horseUid'.
     ret (AcCmdCRUnregisterStallion horseUid'))"

type_synonym AcCmdCRUnregisterStallionOK = unit

definition AcCmdCRUnregisterStallionOK_Write :: "AcCmdCRUnregisterStallionOK \<Rightarrow> stream \<Rightarrow> exn + stream" where
  "AcCmdCRUnregisterStallionOK_Write _ = seqw []"

definition AcCmdCRUnregisterStallionOK_Read :: "stream \<Rightarrow> exn + (AcCmdCRUnregisterStallionOK \<times> stream)" where
  "AcCmdCRUnregisterStallionOK_Read = throws (RuntimeError ''Not implemented'')"

type_synonym AcCmdCRUnregisterStallionCancel = unit

definition AcCmdCRUnregisterStallionCancel_Write :: "AcCmdCRUnregisterStallionCancel \<Rightarrow> stream \<Rightarrow> exn + stream" where
  "AcCmdCRUnregisterStallionCancel_Write _ = seqw []"

definition AcCmdCRUnregisterStallionCancel_Read :: "stream \<Rightarrow> exn + (AcCmdCRUnregisterStallionCancel \<times> stream)" where
  "AcCmdCRUnregisterStallionCancel_Read = throws (RuntimeError ''Not implemented'')"

datatype (plugins only:) AcCmdCRUnregisterStallionEstimateInfo = AcCmdCRUnregisterStallionEstimateInfo
  (AcCmdCRUnregisterStallionEstimateInfo_horseUid: "u32")

definition AcCmdCRUnregisterStallionEstimateInfo_Write :: "AcCmdCRUnregisterStallionEstimateInfo \<Rightarrow> stream \<Rightarrow> exn + stream" where
  "AcCmdCRUnregisterStallionEstimateInfo_Write _ = throws (RuntimeError ''Not implemented'')"

definition AcCmdCRUnregisterStallionEstimateInfo_Read :: "stream \<Rightarrow> exn + (AcCmdCRUnregisterStallionEstimateInfo \<times> stream)" where
  "AcCmdCRUnregisterStallionEstimateInfo_Read =
     rd r32 (\<lambda>horseUid'.
     ret (AcCmdCRUnregisterStallionEstimateInfo horseUid'))"

datatype (plugins only:) AcCmdCRUnregisterStallionEstimateInfoOK = AcCmdCRUnregisterStallionEstimateInfoOK
  (AcCmdCRUnregisterStallionEstimateInfoOK_member1: "u32")
  (AcCmdCRUnregisterStallionEstimateInfoOK_timesMated: "u32")
  (AcCmdCRUnregisterStallionEstimateInfoOK_earnings: "u32")
  (AcCmdCRUnregisterStallionEstimateInfoOK_member4: "u32")
  (AcCmdCRUnregisterStallionEstimateInfoOK_breedingFee: "u32")

definition AcCmdCRUnregisterStallionEstimateInfoOK_Write :: "AcCmdCRUnregisterStallionEstimateInfoOK \<Rightarrow> stream \<Rightarrow> exn + stream" where
  "AcCmdCRUnregisterStallionEstimateInfoOK_Write v = seqw [
     w32 (AcCmdCRUnregisterStallionEstimateInfoOK_member1 v),
     w32 (AcCmdCRUnregisterStallionEstimateInfoOK_timesMated v),
     w32 (AcCmdCRUnregisterStallionEstimateInfoOK_earnings v),
     w32 (AcCmdCRUnregisterStallionEstimateInfoOK_member4 v),
     w32 (AcCmdCRUnregisterStallionEstimateInfoOK_breedingFee v)]"

definition AcCmdCRUnregisterStallionEstimateInfoOK_Read :: "stream \<Rightarrow> exn + (AcCmdCRUnregisterStallionEstimateInfoOK \<times> stream)" where
  "AcCmdCRUnregisterStallionEstimateInfoOK_Read = throws (RuntimeError ''Not implemented'')"

type_synonym AcCmdCRUnregisterStallionEstimateInfoCancel = unit

definition AcCmdCRUnregisterStallionEstimateInfoCancel_Write :: "AcCmdCRUnregisterStallionEstimateInfoCancel \<Rightarrow> stream \<Rightarrow> exn + stream" where
  "AcCmdCRUnregisterStallionEstimateInfoCancel_Write _ = seqw []"

definition AcCmdCRUnregisterStallionEstimateInfoCancel_Read :: "stream \<Rightarrow> exn + (AcCmdCRUnregisterStallionEstimateInfoCancel \<times> stream)" where
  "AcCmdCRUnregisterStallionEstimateInfoCancel_Read = throws (RuntimeError ''Not implemented'')"

datatype (plugins only:) AcCmdCRCheckStallionCharge = AcCmdCRCheckStallionCharge
  (AcCmdCRCheckStallionCharge_horseUid: "u32")

definition AcCmdCRCheckStallionCharge_Write :: "AcCmdCRCheckStallionCharge \<Rightarrow> stream \<Rightarrow> exn + stream" where
  "AcCmdCRCheckStallionCharge_Write _ = throws (RuntimeError ''Not implemented'')"

definition AcCmdCRCheckStallionCharge_Read :: "stream \<Rightarrow> exn + (AcCmdCRCheckStallionCharge \<times> stream)" where
  "AcCmdCRCheckStallionCharge_Read =
     rd r32 (\<lambda>horseUid'.
     ret (AcCmdCRCheckStallionCharge horseUid'))"

datatype (plugins only:) AcCmdCRCheckStallionChargeOK = AcCmdCRCheckStallionChargeOK
  (AcCmdCRCheckStallionChargeOK_hasFailed: "bool")
  (AcCmdCRCheckStallionChargeOK_minFee: "u32")
  (AcCmdCRCheckStallionChargeOK_maxFee: "u32")
  (AcCmdCRCheckStallionChargeOK_breedCount: "u32")
  (AcCmdCRCheckStallionChargeOK_member5: "u32")

definition AcCmdCRCheckStallionChargeOK_Write :: "AcCmdCRCheckStallionChargeOK \<Rightarrow> stream \<Rightarrow> exn + stream" where
  "AcCmdCRCheckStallionChargeOK_Write v = seqw [
     wbool (AcCmdCRCheckStallionChargeOK_hasFailed v),
     w32 (AcCmdCRCheckStallionChargeOK_minFee v),
     w32 (AcCmdCRCheckStallionChargeOK_maxFee v),
     w32 (AcCmdCRCheckStallionChargeOK_breedCount v),
     w32 (AcCmdCRCheckStallionChargeOK_member5 v)]"

definition AcCmdCRCheckStallionChargeOK_Read :: "stream \<Rightarrow> exn + (AcCmdCRCheckStallionChargeOK \<times> stream)" where
  "AcCmdCRCheckStallionChargeOK_Read = throws (RuntimeError ''Not implemented'')"

datatype (plugins only:) AcCmdCRUpdateEquipmentNotify = AcCmdCRUpdateEquipmentNotify
  (AcCmdCRUpdateEquipmentNotify_characterUid: "u32")
  (AcCmdCRUpdateEquipmentNotify_characterEquipment: "wire_item list")
  (AcCmdCRUpdateEquipmentNotify_mountEquipment: "wire_item list")
  (AcCmdCRUpdateEquipmentNotify_mount: "wire_horse")

definition AcCmdCRUpdateEquipmentNotify_Write :: "icu \<Rightarrow> AcCmdCRUpdateEquipmentNotify \<Rightarrow> stream \<Rightarrow> exn + stream" where
  "AcCmdCRUpdateEquipmentNotify_Write cv v = seqw [
     w32 (AcCmdCRUpdateEquipmentNotify_characterUid v),
     w8 (of_nat (length (AcCmdCRUpdateEquipmentNotify_characterEquipment v))),
     seqw (map Item_Write (AcCmdCRUpdateEquipmentNotify_characterEquipment v)),
     w8 (of_nat (length (AcCmdCRUpdateEquipmentNotify_mountEquipment v))),
     seqw (map Item_Write (AcCmdCRUpdateEquipmentNotify_mountEquipment v)),
     Horse_Write cv (AcCmdCRUpdateEquipmentNotify_mount v)]"

definition AcCmdCRUpdateEquipmentNotify_Read :: "stream \<Rightarrow> exn + (AcCmdCRUpdateEquipmentNotify \<times> stream)" where
  "AcCmdCRUpdateEquipmentNotify_Read = throws (RuntimeError ''Not implemented'')"

datatype (plugins only:) AcCmdCRRecoverMount = AcCmdCRRecoverMount
  (AcCmdCRRecoverMount_horseUid: "u32")

definition AcCmdCRRecoverMount_Write :: "AcCmdCRRecoverMount \<Rightarrow> stream \<Rightarrow> exn + stream" where
  "AcCmdCRRecoverMount_Write _ = throws (RuntimeError ''Not implemented.'')"

definition AcCmdCRRecoverMount_Read :: "stream \<Rightarrow> exn + (AcCmdCRRecoverMount \<times> stream)" where
  "AcCmdCRRecoverMount_Read =
     rd r32 (\<lambda>horseUid'.
     ret (AcCmdCRRecoverMount horseUid'))"

datatype (plugins only:) AcCmdCRRecoverMountOK = AcCmdCRRecoverMountOK
  (AcCmdCRRecoverMountOK_horseUid: "u32")
  (AcCmdCRRecoverMountOK_stamina: "u16")
  (AcCmdCRRecoverMountOK_updatedCarrots: "u32")

definition AcCmdCRRecoverMountOK_Write :: "AcCmdCRRecoverMountOK \<Rightarrow> stream \<Rightarrow> exn + stream" where
  "AcCmdCRRecoverMountOK_Write v = seqw [
     w32 (AcCmdCRRecoverMountOK_horseUid v),
     w16 (AcCmdCRRecoverMountOK_stamina v),
     w32 (AcCmdCRRecoverMountOK_updatedCarrots v)]"

definition AcCmdCRRecoverMountOK_Read :: "stream \<Rightarrow> exn + (AcCmdCRRecoverMountOK \<times> stream)" where
  "AcCmdCRRecoverMountOK_Read = throws (RuntimeError ''Not implemented.'')"

datatype (plugins only:) AcCmdCRRecoverMountCancel = AcCmdCRRecoverMountCancel
  (AcCmdCRRecoverMountCancel_horseUid: "u32")

definition AcCmdCRRecoverMountCancel_Write :: "AcCmdCRRecoverMountCancel \<Rightarrow> stream \<Rightarrow> exn + stream" where
  "AcCmdCRRecoverMountCancel_Write v = seqw [
     w32 (AcCmdCRRecoverMountCancel_horseUid v)]"

definition AcCmdCRRecoverMountCancel_Read :: "stream \<Rightarrow> exn + (AcCmdCRRecoverMountCancel \<times> stream)" where
  "AcCmdCRRecoverMountCancel_Read = throws (RuntimeError ''Not implemented.'')"

datatype (plugins only:) AcCmdCRStatusPointApply = AcCmdCRStatusPointApply
  (AcCmdCRStatusPointApply_horseUid: "u32")
  (AcCmdCRStatusPointApply_stats: "wire_horse_stats")

definition AcCmdCRStatusPointApply_Write :: "AcCmdCRStatusPointApply \<Rightarrow> stream \<Rightarrow> exn + stream" where
  "AcCmdCRStatusPointApply_Write _ = throws (RuntimeError ''Not implemented'')"

definition AcCmdCRStatusPointApply_Read :: "stream \<Rightarrow> exn + (AcCmdCRStatusPointApply \<times> stream)" where
  "AcCmdCRStatusPointApply_Read =
     rd r32 (\<lambda>horseUid'.
     rd HorseStats_Read (\<lambda>stats'.
     ret (AcCmdCRStatusPointApply horseUid' stats')))"

type_synonym AcCmdCRStatusPointApplyOK = unit

definition AcCmdCRStatusPointApplyOK_Write :: "AcCmdCRStatusPointApplyOK \<Rightarrow> stream \<Rightarrow> exn + stream" where
  "AcCmdCRStatusPointApplyOK_Write _ = seqw []"

definition AcCmdCRStatusPointApplyOK_Read :: "stream \<Rightarrow> exn + (AcCmdCRStatusPointApplyOK \<times> stream)" where
  "AcCmdCRStatusPointApplyOK_Read = throws (RuntimeError ''Not implemented'')"

type_synonym AcCmdCRStatusPointApplyCancel = unit

definition AcCmdCRStatusPointApplyCancel_Write :: "AcCmdCRStatusPointApplyCancel \<Rightarrow> stream \<Rightarrow> exn + stream" where
  "AcCmdCRStatusPointApplyCancel_Write _ = seqw []"

definition AcCmdCRStatusPointApplyCancel_Read :: "stream \<Rightarrow> exn + (AcCmdCRStatusPointApplyCancel \<times> stream)" where
  "AcCmdCRStatusPointApplyCancel_Read = ret ()"

datatype (plugins only:) AcCmdCRTryBreeding = AcCmdCRTryBreeding
  (AcCmdCRTryBreeding_mareUid: "u32")
  (AcCmdCRTryBreeding_stallionUid: "u32")

definition AcCmdCRTryBreeding_Write :: "AcCmdCRTryBreeding \<Rightarrow> stream \<Rightarrow> exn + stream" where
  "AcCmdCRTryBreeding_Write _ = throws (RuntimeError ''Not implemented.'')"

definition AcCmdCRTryBreeding_Read :: "stream \<Rightarrow> exn + (AcCmdCRTryBreeding \<times> stream)" where
  "AcCmdCRTryBreeding_Read =
     rd r32 (\<lambda>mareUid'.
     rd r32 (\<lambda>stallionUid'.
     ret (AcCmdCRTryBreeding mareUid' stallionUid')))"

datatype (plugins only:) RanchCommandTryBreedingOK = RanchCommandTryBreedingOK
  (RanchCommandTryBreedingOK_item: "wire_item")
  (RanchCommandTryBreedingOK_grade: "u8")
  (RanchCommandTryBreedingOK_parts: "wire_horse_parts")
  (RanchCommandTryBreedingOK_appearance: "wire_horse_appearance")
  (RanchCommandTryBreedingOK_stats: "wire_horse_stats")
  (RanchCommandTryBreedingOK_carrots: "u32")
  (RanchCommandTryBreedingOK_breedingBonus: "wire_breeding_bonus")
  (RanchCommandTryBreedingOK_tendency: "u8")
  (RanchCommandTryBreedingOK_potentialType: "u8")
  (RanchCommandTryBreedingOK_unk7: "u8")
  (RanchCommandTryBreedingOK_lineage: "u8")
  (RanchCommandTryBreedingOK_emblemId: "u16")
  (RanchCommandTryBreedingOK_stallionReturnedToRanch: "bool")

definition RanchCommandTryBreedingOK_Write :: "RanchCommandTryBreedingOK \<Rightarrow> stream \<Rightarrow> exn + stream" where
  "RanchCommandTryBreedingOK_Write v = seqw [
     Item_Write (RanchCommandTryBreedingOK_item v),
     w8 (RanchCommandTryBreedingOK_grade v),
     HorseParts_Write (RanchCommandTryBreedingOK_parts v),
     HorseAppearance_Write (RanchCommandTryBreedingOK_appearance v),
     HorseStats_Write (RanchCommandTryBreedingOK_stats v),
     w32 (RanchCommandTryBreedingOK_carrots v),
     BreedingBonus_Write (RanchCommandTryBreedingOK_breedingBonus v),
     w8 (RanchCommandTryBreedingOK_tendency v),
     w8 (RanchCommandTryBreedingOK_potentialType v),
     w8 (RanchCommandTryBreedingOK_unk7 v),
     w8 (RanchCommandTryBreedingOK_lineage v),
     w16 (RanchCommandTryBreedingOK_emblemId v),
     wbool (RanchCommandTryBreedingOK_stallionReturnedToRanch v)]"

definition RanchCommandTryBreedingOK_Read :: "stream \<Rightarrow> exn + (RanchCommandTryBreedingOK \<times> stream)" where
  "RanchCommandTryBreedingOK_Read = throws (RuntimeError ''Not implemented.'')"

datatype (plugins only:) RanchCommandTryBreedingCancel = RanchCommandTryBreedingCancel
  (RanchCommandTryBreedingCancel_resultCode: "u8")
  (RanchCommandTryBreedingCancel_carrots: "u32")
  (RanchCommandTryBreedingCancel_breedingBonus: "wire_breeding_bonus")
  (RanchCommandTryBreedingCancel_stallionReturnedToRanch: "u8")

definition RanchCommandTryBreedingCancel_Write :: "RanchCommandTryBreedingCancel \<Rightarrow> stream \<Rightarrow> exn + stream" where
  "RanchCommandTryBreedingCancel_Write v = seqw [
     w8 (RanchCommandTryBreedingCancel_resultCode v),
     w32 (RanchCommandTryBreedingCancel_carrots v),
     BreedingBonus_Write (RanchCommandTryBreedingCancel_breedingBonus v),
     w8 (RanchCommandTryBreedingCancel_stallionReturnedToRanch v)]"

definition RanchCommandTryBreedingCancel_Read :: "stream \<Rightarrow> exn + (RanchCommandTryBreedingCancel \<times> stream)" where
  "RanchCommandTryBreedingCancel_Read = throws (RuntimeError ''Not implemented'')"

datatype (plugins only:) AcCmdCRBreedingAbandon = AcCmdCRBreedingAbandon
  (AcCmdCRBreedingAbandon_foalUid: "u32")

definition AcCmdCRBreedingAbandon_Write :: "AcCmdCRBreedingAbandon \<Rightarrow> stream \<Rightarrow> exn + stream" where
  "AcCmdCRBreedingAbandon_Write _ = throws (RuntimeError ''Not implemented'')"

definition AcCmdCRBreedingAbandon_Read :: "stream \<Rightarrow> exn + (AcCmdCRBreedingAbandon \<times> stream)" where
  "AcCmdCRBreedingAbandon_Read =
     rd r32 (\<lambda>foalUid'.
     ret (AcCmdCRBreedingAbandon foalUid'))"

type_synonym AcCmdCRBreedingAbandonOK = unit

definition AcCmdCRBreedingAbandonOK_Write :: "AcCmdCRBreedingAbandonOK \<Rightarrow> stream \<Rightarrow> exn + stream" where
  "AcCmdCRBreedingAbandonOK_Write _ = seqw []"

definition AcCmdCRBreedingAbandonOK_Read :: "stream \<Rightarrow> exn + (AcCmdCRBreedingAbandonOK \<times> stream)" where
  "AcCmdCRBreedingAbandonOK_Read = throws (RuntimeError ''Not implemented'')"

type_synonym AcCmdCRBreedingAbandonCancel = unit

definition AcCmdCRBreedingAbandonCancel_Write :: "AcCmdCRBreedingAbandonCancel \<Rightarrow> stream \<Rightarrow> exn + stream" where
  "AcCmdCRBreedingAbandonCancel_Write _ = seqw []"

definition AcCmdCRBreedingAbandonCancel_Read :: "stream \<Rightarrow> exn + (AcCmdCRBreedingAbandonCancel \<times> stream)" where
  "AcCmdCRBreedingAbandonCancel_Read = throws (RuntimeError ''Not implemented'')"

datatype (plugins only:) AcCmdCRAchievementUpdateProperty = AcCmdCRAchievementUpdateProperty
  (AcCmdCRAchievementUpdateProperty_achievementEvent: "u16")
  (AcCmdCRAchievementUpdateProperty_member2: "u16")

definition AcCmdCRAchievementUpdateProperty_Write :: "AcCmdCRAchievementUpdateProperty \<Rightarrow> stream \<Rightarrow> exn + stream" where
  "AcCmdCRAchievementUpdateProperty_Write _ = throws (RuntimeError ''Not implemented'')"

definition AcCmdCRAchievementUpdateProperty_Read :: "stream \<Rightarrow> exn + (AcCmdCRAchievementUpdateProperty \<times> stream)" where
  "AcCmdCRAchievementUpdateProperty_Read =
     rd r16 (\<lambda>achievementEvent'.
     rd r16 (\<lambda>member2'.
     ret (AcCmdCRAchievementUpdateProperty achievementEvent' member2')))"

type_synonym AcCmdCRBreedingWishlist = unit

definition AcCmdCRBreedingWishlist_Write :: "AcCmdCRBreedingWishlist \<Rightarrow> stream \<Rightarrow> exn + stream" where
  "AcCmdCRBreedingWishlist_Write _ = throws (RuntimeError ''Not implemented.'')"

definition AcCmdCRBreedingWishlist_Read :: "stream \<Rightarrow> exn + (AcCmdCRBreedingWishlist \<times> stream)" where
  "AcCmdCRBreedingWishlist_Read = ret ()"

datatype (plugins only:) AcCmdCRBreedingWishlistOK_FavouritedStallion = AcCmdCRBreedingWishlistOK_FavouritedStallion
  (AcCmdCRBreedingWishlistOK_FavouritedStallion_ownerName: "bytes")
  (AcCmdCRBreedingWishlistOK_FavouritedStallion_uid: "u32")
  (AcCmdCRBreedingWishlistOK_FavouritedStallion_tid: "u32")
  (AcCmdCRBreedingWishlistOK_FavouritedStallion_grade: "u8")
  (AcCmdCRBreedingWishlistOK_FavouritedStallion_name: "bytes")
  (AcCmdCRBreedingWishlistOK_FavouritedStallion_heritability: "u8")
  (AcCmdCRBreedingWishlistOK_FavouritedStallion_breedingCount: "u32")
  (AcCmdCRBreedingWishlistOK_FavouritedStallion_breedingFee: "u32")
  (AcCmdCRBreedingWishlistOK_FavouritedStallion_expiresAt: "u32")
  (AcCmdCRBreedingWishlistOK_FavouritedStallion_unk7: "u32")
  (AcCmdCRBreedingWishlistOK_FavouritedStallion_unk8: "u32")
  (AcCmdCRBreedingWishlistOK_FavouritedStallion_stats: "wire_horse_stats")
  (AcCmdCRBreedingWishlistOK_FavouritedStallion_parts: "wire_horse_parts")
  (AcCmdCRBreedingWishlistOK_FavouritedStallion_appearance: "wire_horse_appearance")
  (AcCmdCRBreedingWishlistOK_FavouritedStallion_registrationEnded: "bool")
  (AcCmdCRBreedingWishlistOK_FavouritedStallion_unk10: "u8")
  (AcCmdCRBreedingWishlistOK_FavouritedStallion_lineage: "u8")

datatype (plugins only:) AcCmdCRBreedingWishlistOK = AcCmdCRBreedingWishlistOK
  (AcCmdCRBreedingWishlistOK_wishlist: "AcCmdCRBreedingWishlistOK_FavouritedStallion list")

definition AcCmdCRBreedingWishlistOK_Write :: "icu \<Rightarrow> AcCmdCRBreedingWishlistOK \<Rightarrow> stream \<Rightarrow> exn + stream" where
  "AcCmdCRBreedingWishlistOK_Write cv v = seqw [
     w8 (of_nat (length (AcCmdCRBreedingWishlistOK_wishlist v))),
     seqw (map (\<lambda>wishlistElement. seqw [
         wstr cv (AcCmdCRBreedingWishlistOK_FavouritedStallion_ownerName wishlistElement),
         w32 (AcCmdCRBreedingWishlistOK_FavouritedStallion_uid wishlistElement),
         w32 (AcCmdCRBreedingWishlistOK_FavouritedStallion_tid wishlistElement),
         w8 (AcCmdCRBreedingWishlistOK_FavouritedStallion_grade wishlistElement),
         wstr cv (AcCmdCRBreedingWishlistOK_FavouritedStallion_name wishlistElement),
         w8 (AcCmdCRBreedingWishlistOK_FavouritedStallion_heritability wishlistElement),
         w32 (AcCmdCRBreedingWishlistOK_FavouritedStallion_breedingCount wishlistElement),
         w32 (AcCmdCRBreedingWishlistOK_FavouritedStallion_breedingFee wishlistElement),
         w32 (AcCmdCRBreedingWishlistOK_FavouritedStallion_expiresAt wishlistElement),
         w32 (AcCmdCRBreedingWishlistOK_FavouritedStallion_unk7 wishlistElement),
         w32 (AcCmdCRBreedingWishlistOK_FavouritedStallion_unk8 wishlistElement),
         HorseStats_Write (AcCmdCRBreedingWishlistOK_FavouritedStallion_stats wishlistElement),
         HorseParts_Write (AcCmdCRBreedingWishlistOK_FavouritedStallion_parts wishlistElement),
         HorseAppearance_Write (AcCmdCRBreedingWishlistOK_FavouritedStallion_appearance wishlistElement),
         wbool (AcCmdCRBreedingWishlistOK_FavouritedStallion_registrationEnded wishlistElement),
         w8 (AcCmdCRBreedingWishlistOK_FavouritedStallion_unk10 wishlistElement),
         w8 (AcCmdCRBreedingWishlistOK_FavouritedStallion_lineage wishlistElement)]) (AcCmdCRBreedingWishlistOK_wishlist v))]"

definition AcCmdCRBreedingWishlistOK_Read :: "stream \<Rightarrow> exn + (AcCmdCRBreedingWishlistOK \<times> stream)" where
  "AcCmdCRBreedingWishlistOK_Read = throws (RuntimeError ''Not implemented.'')"

type_synonym AcCmdCRBreedingWishlistCancel = unit

definition AcCmdCRBreedingWishlistCancel_Write :: "AcCmdCRBreedingWishlistCancel \<Rightarrow> stream \<Rightarrow> exn + stream" where
  "AcCmdCRBreedingWishlistCancel_Write _ = seqw []"

definition AcCmdCRBreedingWishlistCancel_Read :: "stream \<Rightarrow> exn + (AcCmdCRBreedingWishlistCancel \<times> stream)" where
  "AcCmdCRBreedingWishlistCancel_Read = throws (RuntimeError ''Not implemented.'')"

record AcCmdCRRanchCmdAction =
  AcCmdCRRanchCmdAction_unk0 :: "u16"
  AcCmdCRRanchCmdAction_snapshot :: "u8 list"

definition AcCmdCRRanchCmdAction_Write :: "AcCmdCRRanchCmdAction \<Rightarrow> stream \<Rightarrow> exn + stream" where
  "AcCmdCRRanchCmdAction_Write _ = throws (RuntimeError ''Not implemented.'')"

definition AcCmdCRRanchCmdAction_default :: "AcCmdCRRanchCmdAction" where
  "AcCmdCRRanchCmdAction_default = \<lparr>AcCmdCRRanchCmdAction_unk0 = 0,
     AcCmdCRRanchCmdAction_snapshot = []\<rparr>"

definition AcCmdCRRanchCmdAction_Read :: "stream \<Rightarrow> exn + (AcCmdCRRanchCmdAction \<times> stream)" where
  "AcCmdCRRanchCmdAction_Read = build AcCmdCRRanchCmdAction_default [
     fld r16 AcCmdCRRanchCmdAction_unk0_update,
     (\<lambda>c s. fld (read_n (length (storage s) - cursor s) r8) AcCmdCRRanchCmdAction_snapshot_update c s)]"

datatype (plugins only:) RanchCommandRanchCmdActionNotify = RanchCommandRanchCmdActionNotify
  (RanchCommandRanchCmdActionNotify_unk0: "u16")
  (RanchCommandRanchCmdActionNotify_unk1: "u16")
  (RanchCommandRanchCmdActionNotify_unk2: "u8")

definition RanchCommandRanchCmdActionNotify_Write :: "RanchCommandRanchCmdActionNotify \<Rightarrow> stream \<Rightarrow> exn + stream" where
  "RanchCommandRanchCmdActionNotify_Write v = seqw [
     w16 (RanchCommandRanchCmdActionNotify_unk0 v),
     w16 (RanchCommandRanchCmdActionNotify_unk1 v),
     w8 (RanchCommandRanchCmdActionNotify_unk2 v)]"

definition RanchCommandRanchCmdActionNotify_Read :: "stream \<Rightarrow> exn + (RanchCommandRanchCmdActionNotify \<times> stream)" where
  "RanchCommandRanchCmdActionNotify_Read = throws (RuntimeError ''Not implemented.'')"

datatype (plugins only:) RanchCommandRanchStuff = RanchCommandRanchStuff
  (RanchCommandRanchStuff_eventId: "u32")
  (RanchCommandRanchStuff_value: "u32")

definition RanchCommandRanchStuff_Write :: "RanchCommandRanchStuff \<Rightarrow> stream \<Rightarrow> exn + stream" where
  "RanchCommandRanchStuff_Write _ = throws (RuntimeError ''Not implemented.'')"

definition RanchCommandRanchStuff_Read :: "stream \<Rightarrow> exn + (RanchCommandRanchStuff \<times> stream)" where
  "RanchCommandRanchStuff_Read =
     rd r32 (\<lambda>eventId'.
     rd r32 (\<lambda>value'.
     ret (RanchCommandRanchStuff eventId' value')))"

datatype (plugins only:) RanchCommandRanchStuffOK = RanchCommandRanchStuffOK
  (RanchCommandRanchStuffOK_eventId: "u32")
  (RanchCommandRanchStuffOK_moneyIncrement: "u32")
  (RanchCommandRanchStuffOK_totalMoney: "u32")

definition RanchCommandRanchStuffOK_Write :: "RanchCommandRanchStuffOK \<Rightarrow> stream \<Rightarrow> exn + stream" where
  "RanchCommandRanchStuffOK_Write v = seqw [
     w32 (RanchCommandRanchStuffOK_eventId v),
     w32 (RanchCommandRanchStuffOK_moneyIncrement v),
     w32 (RanchCommandRanchStuffOK_totalMoney v)]"

definition RanchCommandRanchStuffOK_Read :: "stream \<Rightarrow> exn + (RanchCommandRanchStuffOK \<times> stream)" where
  "RanchCommandRanchStuffOK_Read = throws (RuntimeError ''Not implemented.'')"

type_synonym AcCmdCRBreedingFailureCard = unit

definition AcCmdCRBreedingFailureCard_Write :: "AcCmdCRBreedingFailureCard \<Rightarrow> stream \<Rightarrow> exn + stream" where
  "AcCmdCRBreedingFailureCard_Write _ = seqw []"

definition AcCmdCRBreedingFailureCard_Read :: "stream \<Rightarrow> exn + (AcCmdCRBreedingFailureCard \<times> stream)" where
  "AcCmdCRBreedingFailureCard_Read = ret ()"

datatype (plugins only:) AcCmdCRBreedingFailureCardOK = AcCmdCRBreedingFailureCardOK
  (AcCmdCRBreedingFailureCardOK_cardType: "u8")

definition AcCmdCRBreedingFailureCardOK_Write :: "AcCmdCRBreedingFailureCardOK \<Rightarrow> stream \<Rightarrow> exn + stream" where
  "AcCmdCRBreedingFailureCardOK_Write v = seqw [
     w8 (AcCmdCRBreedingFailureCardOK_cardType v)]"

definition AcCmdCRBreedingFailureCardOK_Read :: "stream \<Rightarrow> exn + (AcCmdCRBreedingFailureCardOK \<times> stream)" where
  "AcCmdCRBreedingFailureCardOK_Read =
     rd r8 (\<lambda>cardType'.
     ret (AcCmdCRBreedingFailureCardOK cardType'))"

type_synonym AcCmdCRBreedingFailureCardCancel = unit

definition AcCmdCRBreedingFailureCardCancel_Write :: "AcCmdCRBreedingFailureCardCancel \<Rightarrow> stream \<Rightarrow> exn + stream" where
  "AcCmdCRBreedingFailureCardCancel_Write _ = seqw []"

definition AcCmdCRBreedingFailureCardCancel_Read :: "stream \<Rightarrow> exn + (AcCmdCRBreedingFailureCardCancel \<times> stream)" where
  "AcCmdCRBreedingFailureCardCancel_Read = ret ()"

record AcCmdCRBreedingFailureCardChoose =
  AcCmdCRBreedingFailureCardChoose_statusOrFlag :: "u16"

definition AcCmdCRBreedingFailureCardChoose_Write :: "AcCmdCRBreedingFailureCardChoose \<Rightarrow> stream \<Rightarrow> exn + stream" where
  "AcCmdCRBreedingFailureCardChoose_Write _ = seqw []"

definition AcCmdCRBreedingFailureCardChoose_default :: "AcCmdCRBreedingFailureCardChoose" where
  "AcCmdCRBreedingFailureCardChoose_default = \<lparr>AcCmdCRBreedingFailureCardChoose_statusOrFlag = 0\<rparr>"

definition AcCmdCRBreedingFailureCardChoose_Read :: "stream \<Rightarrow> exn + (AcCmdCRBreedingFailureCardChoose \<times> stream)" where
  "AcCmdCRBreedingFailureCardChoose_Read = build AcCmdCRBreedingFailureCardChoose_default []"

datatype (plugins only:) AcCmdCRBreedingFailureCardChooseOK = AcCmdCRBreedingFailureCardChooseOK
  (AcCmdCRBreedingFailureCardChooseOK_isChanceCard: "bool")
  (AcCmdCRBreedingFailureCardChooseOK_rewardId: "u32")
  (AcCmdCRBreedingFailureCardChooseOK_member4: "u32 list")
  (AcCmdCRBreedingFailureCardChooseOK_item: "wire_item")
  (AcCmdCRBreedingFailureCardChooseOK_rewardedCarrots: "u32")

definition AcCmdCRBreedingFailureCardChooseOK_Write :: "AcCmdCRBreedingFailureCardChooseOK \<Rightarrow> stream \<Rightarrow> exn + stream" where
  "AcCmdCRBreedingFailureCardChooseOK_Write v = seqw [
     wbool (AcCmdCRBreedingFailureCardChooseOK_isChanceCard v),
     w32 (AcCmdCRBreedingFailureCardChooseOK_rewardId v),
     w8 (of_nat (length (AcCmdCRBreedingFailureCardChooseOK_member4 v))),
     seqw (map w32 (AcCmdCRBreedingFailureCardChooseOK_member4 v)),
     Item_Write (AcCmdCRBreedingFailureCardChooseOK_item v),
     w32 (AcCmdCRBreedingFailureCardChooseOK_rewardedCarrots v)]"

definition AcCmdCRBreedingFailureCardChooseOK_Read :: "stream \<Rightarrow> exn + (AcCmdCRBreedingFailureCardChooseOK \<times> stream)" where
  "AcCmdCRBreedingFailureCardChooseOK_Read = throws (RuntimeError ''Not implemented'')"

type_synonym AcCmdCRBreedingFailureCardChooseCancel = unit

definition AcCmdCRBreedingFailureCardChooseCancel_Write :: "AcCmdCRBreedingFailureCardChooseCancel \<Rightarrow> stream \<Rightarrow> exn + stream" where
  "AcCmdCRBreedingFailureCardChooseCancel_Write _ = seqw []"

definition AcCmdCRBreedingFailureCardChooseCancel_Read :: "stream \<Rightarrow> exn + (AcCmdCRBreedingFailureCardChooseCancel \<times> stream)" where
  "AcCmdCRBreedingFailureCardChooseCancel_Read = ret ()"

datatype (plugins only:) RanchCommandUpdateBusyState = RanchCommandUpdateBusyState
  (RanchCommandUpdateBusyState_busyState: "u8")

definition RanchCommandUpdateBusyState_Write :: "RanchCommandUpdateBusyState \<Rightarrow> stream \<Rightarrow> exn + stream" where
  "RanchCommandUpdateBusyState_Write _ = throws (RuntimeError ''Not implemented.'')"

definition RanchCommandUpdateBusyState_Read :: "stream \<Rightarrow> exn + (RanchCommandUpdateBusyState \<times> stream)" where
  "RanchCommandUpdateBusyState_Read =
     rd r8 (\<lambda>busyState'.
     ret (RanchCommandUpdateBusyState busyState'))"

datatype (plugins only:) RanchCommandUpdateBusyStateNotify = RanchCommandUpdateBusyStateNotify
  (RanchCommandUpdateBusyStateNotify_characterUid: "u32")
  (RanchCommandUpdateBusyStateNotify_busyState: "u8")

definition RanchCommandUpdateBusyStateNotify_Write :: "RanchCommandUpdateBusyStateNotify \<Rightarrow> stream \<Rightarrow> exn + stream" where
  "RanchCommandUpdateBusyStateNotify_Write v = seqw [
     w32 (RanchCommandUpdateBusyStateNotify_characterUid v),
     w8 (RanchCommandUpdateBusyStateNotify_busyState v)]"

definition RanchCommandUpdateBusyStateNotify_Read :: "stream \<Rightarrow> exn + (RanchCommandUpdateBusyStateNotify \<times> stream)" where
  "RanchCommandUpdateBusyStateNotify_Read = throws (RuntimeError ''Not implemented.'')"

datatype (plugins only:) AcCmdCRUpdateMountNickname = AcCmdCRUpdateMountNickname
  (AcCmdCRUpdateMountNickname_horseUid: "u32")
  (AcCmdCRUpdateMountNickname_name: "bytes")
  (AcCmdCRUpdateMountNickname_itemUid: "u32")

definition AcCmdCRUpdateMountNickname_Write :: "AcCmdCRUpdateMountNickname \<Rightarrow> stream \<Rightarrow> exn + stream" where
  "AcCmdCRUpdateMountNickname_Write _ = throws (RuntimeError ''Not implemented.'')"

definition AcCmdCRUpdateMountNickname_Read :: "icu \<Rightarrow> stream \<Rightarrow> exn + (AcCmdCRUpdateMountNickname \<times> stream)" where
  "AcCmdCRUpdateMountNickname_Read cv =
     rd r32 (\<lambda>horseUid'.
     rd (rstr cv) (\<lambda>name'.
     rd r32 (\<lambda>itemUid'.
     ret (AcCmdCRUpdateMountNickname horseUid' name' itemUid'))))"

datatype (plugins only:) AcCmdCRUpdateMountNicknameOK = AcCmdCRUpdateMountNicknameOK
  (AcCmdCRUpdateMountNicknameOK_horseUid: "u32")
  (AcCmdCRUpdateMountNicknameOK_nickname: "bytes")
  (AcCmdCRUpdateMountNicknameOK_itemUid: "u32")
  (AcCmdCRUpdateMountNicknameOK_itemCount: "u32")

definition AcCmdCRUpdateMountNicknameOK_Write :: "icu \<Rightarrow> AcCmdCRUpdateMountNicknameOK \<Rightarrow> stream \<Rightarrow> exn + stream" where
  "AcCmdCRUpdateMountNicknameOK_Write cv v = seqw [
     w32 (AcCmdCRUpdateMountNicknameOK_horseUid v),
     wstr cv (AcCmdCRUpdateMountNicknameOK_nickname v),
     w32 (AcCmdCRUpdateMountNicknameOK_itemUid v),
     w32 (AcCmdCRUpdateMountNicknameOK_itemCount v)]"

definition AcCmdCRUpdateMountNicknameOK_Read :: "stream \<Rightarrow> exn + (AcCmdCRUpdateMountNicknameOK \<times> stream)" where
  "AcCmdCRUpdateMountNicknameOK_Read = throws (RuntimeError ''Not implemented.'')"

datatype (plugins only:) AcCmdCRUpdateMountNicknameCancel = AcCmdCRUpdateMountNicknameCancel
  (AcCmdCRUpdateMountNicknameCancel_error: "u8")

definition AcCmdCRUpdateMountNicknameCancel_Write :: "AcCmdCRUpdateMountNicknameCancel \<Rightarrow> stream \<Rightarrow> exn + stream" where
  "AcCmdCRUpdateMountNicknameCancel_Write v = seqw [
     w8 (AcCmdCRUpdateMountNicknameCancel_error v)]"

definition AcCmdCRUpdateMountNicknameCancel_Read :: "stream \<Rightarrow> exn + (AcCmdCRUpdateMountNicknameCancel \<times> stream)" where
  "AcCmdCRUpdateMountNicknameCancel_Read = throws (RuntimeError ''Not implemented.'')"

datatype (plugins only:) AcCmdRCAddIdleMountInfoNotify = AcCmdRCAddIdleMountInfoNotify
  (AcCmdRCAddIdleMountInfoNotify_horse: "wire_ranch_horse")

definition AcCmdRCAddIdleMountInfoNotify_Write :: "icu \<Rightarrow> AcCmdRCAddIdleMountInfoNotify \<Rightarrow> stream \<Rightarrow> exn + stream" where
  "AcCmdRCAddIdleMountInfoNotify_Write cv v = seqw [
     RanchHorse_Write cv (AcCmdRCAddIdleMountInfoNotify_horse v)]"

definition AcCmdRCAddIdleMountInfoNotify_Read :: "stream \<Rightarrow> exn + (AcCmdRCAddIdleMountInfoNotify \<times> stream)" where
  "AcCmdRCAddIdleMountInfoNotify_Read = throws (RuntimeError ''Not implemented.'')"

datatype (plugins only:) AcCmdCRRequestStorage = AcCmdCRRequestStorage
  (AcCmdCRRequestStorage_category: "u8")
  (AcCmdCRRequestStorage_page: "u16")

definition AcCmdCRRequestStorage_Write :: "AcCmdCRRequestStorage \<Rightarrow> stream \<Rightarrow> exn + stream" where
  "AcCmdCRRequestStorage_Write _ = throws (RuntimeError ''Not implemented.'')"

definition AcCmdCRRequestStorage_Read :: "stream \<Rightarrow> exn + (AcCmdCRRequestStorage \<times> stream)" where
  "AcCmdCRRequestStorage_Read =
     rd r8 (\<lambda>category'.
     rd r16 (\<lambda>page'.
     ret (AcCmdCRRequestStorage category' page')))"

datatype (plugins only:) AcCmdCRRequestStorageOK = AcCmdCRRequestStorageOK
  (AcCmdCRRequestStorageOK_category: "u8")
  (AcCmdCRRequestStorageOK_page: "u16")
  (AcCmdCRRequestStorageOK_pageCountAndNotification: "u16")
  (AcCmdCRRequestStorageOK_storedItems: "wire_stored_item list")

definition AcCmdCRRequestStorageOK_Write :: "icu \<Rightarrow> AcCmdCRRequestStorageOK \<Rightarrow> stream \<Rightarrow> exn + stream" where
  "AcCmdCRRequestStorageOK_Write cv v = seqw [
     w8 (AcCmdCRRequestStorageOK_category v),
     w16 (AcCmdCRRequestStorageOK_page v),
     w16 (AcCmdCRRequestStorageOK_pageCountAndNotification v),
     w8 (of_nat (length (AcCmdCRRequestStorageOK_storedItems v))),
     seqw (map (StoredItem_Write cv) (AcCmdCRRequestStorageOK_storedItems v))]"

definition AcCmdCRRequestStorageOK_Read :: "stream \<Rightarrow> exn + (AcCmdCRRequestStorageOK \<times> stream)" where
  "AcCmdCRRequestStorageOK_Read = throws (RuntimeError ''Not implemented.'')"

datatype (plugins only:) AcCmdCRRequestStorageCancel = AcCmdCRRequestStorageCancel
  (AcCmdCRRequestStorageCancel_category: "AcCmdCRRequestStorage")
  (AcCmdCRRequestStorageCancel_val1: "u8")

definition AcCmdCRRequestStorageCancel_Write :: "AcCmdCRRequestStorageCancel \<Rightarrow> stream \<Rightarrow> exn + stream" where
  "AcCmdCRRequestStorageCancel_Write v = seqw [
     AcCmdCRRequestStorage_Write (AcCmdCRRequestStorageCancel_category v),
     w8 (AcCmdCRRequestStorageCancel_val1 v)]"

definition AcCmdCRRequestStorageCancel_Read :: "stream \<Rightarrow> exn + (AcCmdCRRequestStorageCancel \<times> stream)" where
  "AcCmdCRRequestStorageCancel_Read = throws (RuntimeError ''Not implemented.'')"

datatype (plugins only:) AcCmdCRGetItemFromStorage = AcCmdCRGetItemFromStorage
  (AcCmdCRGetItemFromStorage_storageItemUid: "u32")

definition AcCmdCRGetItemFromStorage_Write :: "AcCmdCRGetItemFromStorage \<Rightarrow> stream \<Rightarrow> exn + stream" where
  "AcCmdCRGetItemFromStorage_Write _ = throws (RuntimeError ''Not implemented.'')"

definition AcCmdCRGetItemFromStorage_Read :: "stream \<Rightarrow> exn + (AcCmdCRGetItemFromStorage \<times> stream)" where
  "AcCmdCRGetItemFromStorage_Read =
     rd r32 (\<lambda>storageItemUid'.
     ret (AcCmdCRGetItemFromStorage storageItemUid'))"

datatype (plugins only:) AcCmdCRGetItemFromStorageOK = AcCmdCRGetItemFromStorageOK
  (AcCmdCRGetItemFromStorageOK_storageItemUid: "u32")
  (AcCmdCRGetItemFromStorageOK_items: "wire_item list")
  (AcCmdCRGetItemFromStorageOK_updatedCarrots: "u32")

definition AcCmdCRGetItemFromStorageOK_Write :: "AcCmdCRGetItemFromStorageOK \<Rightarrow> stream \<Rightarrow> exn + stream" where
  "AcCmdCRGetItemFromStorageOK_Write v = seqw [
     w32 (AcCmdCRGetItemFromStorageOK_storageItemUid v),
     w8 (of_nat (length (AcCmdCRGetItemFromStorageOK_items v))),
     seqw (map Item_Write (AcCmdCRGetItemFromStorageOK_items v)),
     w32 (AcCmdCRGetItemFromStorageOK_updatedCarrots v)]"

definition AcCmdCRGetItemFromStorageOK_Read :: "stream \<Rightarrow> exn + (AcCmdCRGetItemFromStorageOK \<times> stream)" where
  "AcCmdCRGetItemFromStorageOK_Read = throws (RuntimeError ''Not implemented.'')"

datatype (plugins only:) AcCmdCRGetItemFromStorageCancel = AcCmdCRGetItemFromStorageCancel
  (AcCmdCRGetItemFromStorageCancel_storageItemUid: "u32")
  (AcCmdCRGetItemFromStorageCancel_status: "u8")

definition AcCmdCRGetItemFromStorageCancel_Write :: "AcCmdCRGetItemFromStorageCancel \<Rightarrow> stream \<Rightarrow> exn + stream" where
  "AcCmdCRGetItemFromStorageCancel_Write v = seqw [
     w32 (AcCmdCRGetItemFromStorageCancel_storageItemUid v),
     w8 (AcCmdCRGetItemFromStorageCancel_status v)]"

definition AcCmdCRGetItemFromStorageCancel_Read :: "stream \<Rightarrow> exn + (AcCmdCRGetItemFromStorageCancel \<times> stream)" where
  "AcCmdCRGetItemFromStorageCancel_Read = throws (RuntimeError ''Not implemented.'')"

datatype (plugins only:) RanchCommandCheckStorageItem = RanchCommandCheckStorageItem
  (RanchCommandCheckStorageItem_storageItemUid: "u32")

definition RanchCommandCheckStorageItem_Write :: "RanchCommandCheckStorageItem \<Rightarrow> stream \<Rightarrow> exn + stream" where
  "RanchCommandCheckStorageItem_Write _ = throws (RuntimeError ''Not implemented.'')"

definition RanchCommandCheckStorageItem_Read :: "stream \<Rightarrow> exn + (RanchCommandCheckStorageItem \<times> stream)" where
  "RanchCommandCheckStorageItem_Read =
     rd r32 (\<lambda>storageItemUid'.
     ret (RanchCommandCheckStorageItem storageItemUid'))"

datatype (plugins only:) RanchCommandRequestNpcDressList = RanchCommandRequestNpcDressList
  (RanchCommandRequestNpcDressList_unk0: "u32")

definition RanchCommandRequestNpcDressList_Write :: "RanchCommandRequestNpcDressList \<Rightarrow> stream \<Rightarrow> exn + stream" where
  "RanchCommandRequestNpcDressList_Write _ = throws (RuntimeError ''Not implemented.'')"

definition RanchCommandRequestNpcDressList_Read :: "stream \<Rightarrow> exn + (RanchCommandRequestNpcDressList \<times> stream)" where
  "RanchCommandRequestNpcDressList_Read =
     rd r32 (\<lambda>unk0'.
     ret (RanchCommandRequestNpcDressList unk0'))"

datatype (plugins only:) RanchCommandRequestNpcDressListOK = RanchCommandRequestNpcDressListOK
  (RanchCommandRequestNpcDressListOK_unk0: "u32")
  (RanchCommandRequestNpcDressListOK_dressList: "wire_item list")

definition RanchCommandRequestNpcDressListOK_Write :: "RanchCommandRequestNpcDressListOK \<Rightarrow> stream \<Rightarrow> exn + stream" where
  "RanchCommandRequestNpcDressListOK_Write v = seqw [
     w32 (RanchCommandRequestNpcDressListOK_unk0 v),
     w8 (of_nat (length (RanchCommandRequestNpcDressListOK_dressList v))),
     seqw (map Item_Write (RanchCommandRequestNpcDressListOK_dressList v))]"

definition RanchCommandRequestNpcDressListOK_Read :: "stream \<Rightarrow> exn + (RanchCommandRequestNpcDressListOK \<times> stream)" where
  "RanchCommandRequestNpcDressListOK_Read = throws (RuntimeError ''Not implemented.'')"

type_synonym RanchCommandRequestNpcDressListCancel = unit

definition RanchCommandRequestNpcDressListCancel_Write :: "RanchCommandRequestNpcDressListCancel \<Rightarrow> stream \<Rightarrow> exn + stream" where
  "RanchCommandRequestNpcDressListCancel_Write _ = seqw []"

definition RanchCommandRequestNpcDressListCancel_Read :: "stream \<Rightarrow> exn + (RanchCommandRequestNpcDressListCancel \<times> stream)" where
  "RanchCommandRequestNpcDressListCancel_Read = ret ()"

datatype (plugins only:) AcCmdCRWearEquipment = AcCmdCRWearEquipment
  (AcCmdCRWearEquipment_equipmentUid: "u32")
  (AcCmdCRWearEquipment_member: "u8")

definition AcCmdCRWearEquipment_Write :: "AcCmdCRWearEquipment \<Rightarrow> stream \<Rightarrow> exn + stream" where
  "AcCmdCRWearEquipment_Write _ = throws (RuntimeError ''Not implemented'')"

definition AcCmdCRWearEquipment_Read :: "stream \<Rightarrow> exn + (AcCmdCRWearEquipment \<times> stream)" where
  "AcCmdCRWearEquipment_Read =
     rd r32 (\<lambda>equipmentUid'.
     rd r8 (\<lambda>member'.
     ret (AcCmdCRWearEquipment equipmentUid' member')))"

datatype (plugins only:) AcCmdCRWearEquipmentOK = AcCmdCRWearEquipmentOK
  (AcCmdCRWearEquipmentOK_itemUid: "u32")
  (AcCmdCRWearEquipmentOK_member: "u8")

definition AcCmdCRWearEquipmentOK_Write :: "AcCmdCRWearEquipmentOK \<Rightarrow> stream \<Rightarrow> exn + stream" where
  "AcCmdCRWearEquipmentOK_Write v = seqw [
     w32 (AcCmdCRWearEquipmentOK_itemUid v),
     w8 (AcCmdCRWearEquipmentOK_member v)]"

definition AcCmdCRWearEquipmentOK_Read :: "stream \<Rightarrow> exn + (AcCmdCRWearEquipmentOK \<times> stream)" where
  "AcCmdCRWearEquipmentOK_Read = throws (RuntimeError ''Not implemented'')"

datatype (plugins only:) AcCmdCRWearEquipmentCancel = AcCmdCRWearEquipmentCancel
  (AcCmdCRWearEquipmentCancel_itemUid: "u32")
  (AcCmdCRWearEquipmentCancel_member: "u8")

definition AcCmdCRWearEquipmentCancel_Write :: "AcCmdCRWearEquipmentCancel \<Rightarrow> stream \<Rightarrow> exn + stream" where
  "AcCmdCRWearEquipmentCancel_Write v = seqw [
     w32 (AcCmdCRWearEquipmentCancel_itemUid v),
     w8 (AcCmdCRWearEquipmentCancel_member v)]"

definition AcCmdCRWearEquipmentCancel_Read :: "stream \<Rightarrow> exn + (AcCmdCRWearEquipmentCancel \<times> stream)" where
  "AcCmdCRWearEquipmentCancel_Read = throws (RuntimeError ''Not implemented'')"

datatype (plugins only:) AcCmdCRRemoveEquipment = AcCmdCRRemoveEquipment
  (AcCmdCRRemoveEquipment_itemUid: "u32")

definition AcCmdCRRemoveEquipment_Write :: "AcCmdCRRemoveEquipment \<Rightarrow> stream \<Rightarrow> exn + stream" where
  "AcCmdCRRemoveEquipment_Write _ = throws (RuntimeError ''Not implemented'')"

definition AcCmdCRRemoveEquipment_Read :: "stream \<Rightarrow> exn + (AcCmdCRRemoveEquipment \<times> stream)" where
  "AcCmdCRRemoveEquipment_Read =
     rd r32 (\<lambda>itemUid'.
     ret (AcCmdCRRemoveEquipment itemUid'))"

datatype (plugins only:) AcCmdCRRemoveEquipmentOK = AcCmdCRRemoveEquipmentOK
  (AcCmdCRRemoveEquipmentOK_uid: "u32")

definition AcCmdCRRemoveEquipmentOK_Write :: "AcCmdCRRemoveEquipmentOK \<Rightarrow> stream \<Rightarrow> exn + stream" where
  "AcCmdCRRemoveEquipmentOK_Write v = seqw [
     w32 (AcCmdCRRemoveEquipmentOK_uid v)]"

definition AcCmdCRRemoveEquipmentOK_Read :: "stream \<Rightarrow> exn + (AcCmdCRRemoveEquipmentOK \<times> stream)" where
  "AcCmdCRRemoveEquipmentOK_Read = throws (RuntimeError ''Not implemented'')"

datatype (plugins only:) AcCmdCRRemoveEquipmentCancel = AcCmdCRRemoveEquipmentCancel
  (AcCmdCRRemoveEquipmentCancel_itemUid: "u32")
  (AcCmdCRRemoveEquipmentCancel_member: "u8")

definition AcCmdCRRemoveEquipmentCancel_Write :: "AcCmdCRRemoveEquipmentCancel \<Rightarrow> stream \<Rightarrow> exn + stream" where
  "AcCmdCRRemoveEquipmentCancel_Write v = seqw [
     w32 (AcCmdCRRemoveEquipmentCancel_itemUid v),
     w8 (AcCmdCRRemoveEquipmentCancel_member v)]"

definition AcCmdCRRemoveEquipmentCancel_Read :: "stream \<Rightarrow> exn + (AcCmdCRRemoveEquipmentCancel \<times> stream)" where
  "AcCmdCRRemoveEquipmentCancel_Read = throws (RuntimeError ''Not implemented'')"

datatype (plugins only:) RanchCommandSetIntroductionNotify = RanchCommandSetIntroductionNotify
  (RanchCommandSetIntroductionNotify_characterUid: "u32")
  (RanchCommandSetIntroductionNotify_introduction: "bytes")

definition RanchCommandSetIntroductionNotify_Write :: "icu \<Rightarrow> RanchCommandSetIntroductionNotify \<Rightarrow> stream \<Rightarrow> exn + stream" where
  "RanchCommandSetIntroductionNotify_Write cv v = seqw [
     w32 (RanchCommandSetIntroductionNotify_characterUid v),
     wstr cv (RanchCommandSetIntroductionNotify_introduction v)]"

definition RanchCommandSetIntroductionNotify_Read :: "stream \<Rightarrow> exn + (RanchCommandSetIntroductionNotify \<times> stream)" where
  "RanchCommandSetIntroductionNotify_Read = throws (RuntimeError ''Not implemented'')"

datatype (plugins only:) RanchCommandCreateGuild = RanchCommandCreateGuild
  (RanchCommandCreateGuild_name: "bytes")
  (RanchCommandCreateGuild_description: "bytes")

definition RanchCommandCreateGuild_Write :: "RanchCommandCreateGuild \<Rightarrow> stream \<Rightarrow> exn + stream" where
  "RanchCommandCreateGuild_Write _ = throws (RuntimeError ''Not implemented'')"

definition RanchCommandCreateGuild_Read :: "icu \<Rightarrow> stream \<Rightarrow> exn + (RanchCommandCreateGuild \<times> stream)" where
  "RanchCommandCreateGuild_Read cv =
     rd (rstr cv) (\<lambda>name'.
     rd (rstr cv) (\<lambda>description'.
     ret (RanchCommandCreateGuild name' description')))"

datatype (plugins only:) RanchCommandCreateGuildOK = RanchCommandCreateGuildOK
  (RanchCommandCreateGuildOK_uid: "u32")
  (RanchCommandCreateGuildOK_updatedCarrots: "u32")

definition RanchCommandCreateGuildOK_Write :: "RanchCommandCreateGuildOK \<Rightarrow> stream \<Rightarrow> exn + stream" where
  "RanchCommandCreateGuildOK_Write v = seqw [
     w32 (RanchCommandCreateGuildOK_uid v),
     w32 (RanchCommandCreateGuildOK_updatedCarrots v)]"

definition RanchCommandCreateGuildOK_Read :: "stream \<Rightarrow> exn + (RanchCommandCreateGuildOK \<times> stream)" where
  "RanchCommandCreateGuildOK_Read = throws (RuntimeError ''Not implemented'')"

datatype (plugins only:) AcCmdCRCreateGuildCancel = AcCmdCRCreateGuildCancel
  (AcCmdCRCreateGuildCancel_status: "u8")
  (AcCmdCRCreateGuildCancel_member2: "u32")

definition AcCmdCRCreateGuildCancel_Write :: "AcCmdCRCreateGuildCancel \<Rightarrow> stream \<Rightarrow> exn + stream" where
  "AcCmdCRCreateGuildCancel_Write v = seqw [
     w8 (AcCmdCRCreateGuildCancel_status v),
     w32 (AcCmdCRCreateGuildCancel_member2 v)]"

definition AcCmdCRCreateGuildCancel_Read :: "stream \<Rightarrow> exn + (AcCmdCRCreateGuildCancel \<times> stream)" where
  "AcCmdCRCreateGuildCancel_Read = throws (RuntimeError ''Not implemented'')"

type_synonym RanchCommandRequestGuildInfo = unit

definition RanchCommandRequestGuildInfo_Write :: "RanchCommandRequestGuildInfo \<Rightarrow> stream \<Rightarrow> exn + stream" where
  "RanchCommandRequestGuildInfo_Write _ = throws (RuntimeError ''Not implemented'')"

definition RanchCommandRequestGuildInfo_Read :: "stream \<Rightarrow> exn + (RanchCommandRequestGuildInfo \<times> stream)" where
  "RanchCommandRequestGuildInfo_Read = ret ()"

datatype (plugins only:) RanchCommandRequestGuildInfoOK_GuildInfo = RanchCommandRequestGuildInfoOK_GuildInfo
  (RanchCommandRequestGuildInfoOK_GuildInfo_uid: "u32")
  (RanchCommandRequestGuildInfoOK_GuildInfo_member1: "u8")
  (RanchCommandRequestGuildInfoOK_GuildInfo_member2: "u32")
  (RanchCommandRequestGuildInfoOK_GuildInfo_member3: "u32")
  (RanchCommandRequestGuildInfoOK_GuildInfo_memberCount: "u8")
  (RanchCommandRequestGuildInfoOK_GuildInfo_member5: "u32")
  (RanchCommandRequestGuildInfoOK_GuildInfo_name: "bytes")
  (RanchCommandRequestGuildInfoOK_GuildInfo_description: "bytes")
  (RanchCommandRequestGuildInfoOK_GuildInfo_inviteCooldown: "u32")
  (RanchCommandRequestGuildInfoOK_GuildInfo_member9: "u32")
  (RanchCommandRequestGuildInfoOK_GuildInfo_member10: "u32")
  (RanchCommandRequestGuildInfoOK_GuildInfo_member11: "u32")

definition RanchCommandRequestGuildInfoOK_GuildInfo_Write :: "icu \<Rightarrow> RanchCommandRequestGuildInfoOK_GuildInfo \<Rightarrow> stream \<Rightarrow> exn + stream" where
  "RanchCommandRequestGuildInfoOK_GuildInfo_Write cv v = seqw [
     w32 (RanchCommandRequestGuildInfoOK_GuildInfo_uid v),
     w8 (RanchCommandRequestGuildInfoOK_GuildInfo_member1 v),
     w32 (RanchCommandRequestGuildInfoOK_GuildInfo_member2 v),
     w32 (RanchCommandRequestGuildInfoOK_GuildInfo_member3 v),
     w8 (RanchCommandRequestGuildInfoOK_GuildInfo_memberCount v),
     w32 (RanchCommandRequestGuildInfoOK_GuildInfo_member5 v),
     wstr cv (RanchCommandRequestGuildInfoOK_GuildInfo_name v),
     wstr cv (RanchCommandRequestGuildInfoOK_GuildInfo_description v),
     w32 (RanchCommandRequestGuildInfoOK_GuildInfo_inviteCooldown v),
     w32 (RanchCommandRequestGuildInfoOK_GuildInfo_member9 v),
     w32 (RanchCommandRequestGuildInfoOK_GuildInfo_member10 v),
     w32 (RanchCommandRequestGuildInfoOK_GuildInfo_member11 v)]"

definition RanchCommandRequestGuildInfoOK_GuildInfo_Read :: "stream \<Rightarrow> exn + (RanchCommandRequestGuildInfoOK_GuildInfo \<times> stream)" where
  "RanchCommandRequestGuildInfoOK_GuildInfo_Read = throws (RuntimeError ''Not implemented'')"

datatype (plugins only:) RanchCommandRequestGuildInfoOK = RanchCommandRequestGuildInfoOK
  (RanchCommandRequestGuildInfoOK_guildInfo: "RanchCommandRequestGuildInfoOK_GuildInfo")

definition RanchCommandRequestGuildInfoOK_Write :: "icu \<Rightarrow> RanchCommandRequestGuildInfoOK \<Rightarrow> stream \<Rightarrow> exn + stream" where
  "RanchCommandRequestGuildInfoOK_Write cv v = seqw [
     RanchCommandRequestGuildInfoOK_GuildInfo_Write cv (RanchCommandRequestGuildInfoOK_guildInfo v)]"

definition RanchCommandRequestGuildInfoOK_Read :: "stream \<Rightarrow> exn + (RanchCommandRequestGuildInfoOK \<times> stream)" where
  "RanchCommandRequestGuildInfoOK_Read = throws (RuntimeError ''Not implemented'')"

datatype (plugins only:) RanchCommandRequestGuildInfoCancel = RanchCommandRequestGuildInfoCancel
  (RanchCommandRequestGuildInfoCancel_status: "u8")

definition RanchCommandRequestGuildInfoCancel_Write :: "RanchCommandRequestGuildInfoCancel \<Rightarrow> stream \<Rightarrow> exn + stream" where
  "RanchCommandRequestGuildInfoCancel_Write v = seqw [
     w8 (RanchCommandRequestGuildInfoCancel_status v)]"

definition RanchCommandRequestGuildInfoCancel_Read :: "stream \<Rightarrow> exn + (RanchCommandRequestGuildInfoCancel \<times> stream)" where
  "RanchCommandRequestGuildInfoCancel_Read = throws (RuntimeError ''Not implemented'')"

datatype (plugins only:) AcCmdCRWithdrawGuildMember = AcCmdCRWithdrawGuildMember
  (AcCmdCRWithdrawGuildMember_characterUid: "u32")
  (AcCmdCRWithdrawGuildMember_option: "u8")

definition AcCmdCRWithdrawGuildMember_Write :: "AcCmdCRWithdrawGuildMember \<Rightarrow> stream \<Rightarrow> exn + stream" where
  "AcCmdCRWithdrawGuildMember_Write _ = throws (RuntimeError ''Not implemented'')"

definition AcCmdCRWithdrawGuildMember_Read :: "stream \<Rightarrow> exn + (AcCmdCRWithdrawGuildMember \<times> stream)" where
  "AcCmdCRWithdrawGuildMember_Read =
     rd r32 (\<lambda>characterUid'.
     rd r8 (\<lambda>option'.
     ret (AcCmdCRWithdrawGuildMember characterUid' option')))"

datatype (plugins only:) AcCmdCRWithdrawGuildMemberOK = AcCmdCRWithdrawGuildMemberOK
  (AcCmdCRWithdrawGuildMemberOK_option: "u8")

definition AcCmdCRWithdrawGuildMemberOK_Write :: "AcCmdCRWithdrawGuildMemberOK \<Rightarrow> stream \<Rightarrow> exn + stream" where
  "AcCmdCRWithdrawGuildMemberOK_Write v = seqw [
     w8 (AcCmdCRWithdrawGuildMemberOK_option v)]"

definition AcCmdCRWithdrawGuildMemberOK_Read :: "stream \<Rightarrow> exn + (AcCmdCRWithdrawGuildMemberOK \<times> stream)" where
  "AcCmdCRWithdrawGuildMemberOK_Read = throws (RuntimeError ''Not implemented'')"

datatype (plugins only:) AcCmdCRWithdrawGuildMemberCancel = AcCmdCRWithdrawGuildMemberCancel
  (AcCmdCRWithdrawGuildMemberCancel_status: "u8")

definition AcCmdCRWithdrawGuildMemberCancel_Write :: "AcCmdCRWithdrawGuildMemberCancel \<Rightarrow> stream \<Rightarrow> exn + stream" where
  "AcCmdCRWithdrawGuildMemberCancel_Write v = seqw [
     w8 (AcCmdCRWithdrawGuildMemberCancel_status v)]"

definition AcCmdCRWithdrawGuildMemberCancel_Read :: "stream \<Rightarrow> exn + (AcCmdCRWithdrawGuildMemberCancel \<times> stream)" where
  "AcCmdCRWithdrawGuildMemberCancel_Read = throws (RuntimeError ''Not implemented'')"

datatype (plugins only:) AcCmdRCWithdrawGuildMemberNotify = AcCmdRCWithdrawGuildMemberNotify
  (AcCmdRCWithdrawGuildMemberNotify_guildUid: "u32")
  (AcCmdRCWithdrawGuildMemberNotify_guildMemberCharacterUid: "u32")
  (AcCmdRCWithdrawGuildMemberNotify_withdrawnCharacterUid: "u32")
  (AcCmdRCWithdrawGuildMemberNotify_option: "u8")

definition AcCmdRCWithdrawGuildMemberNotify_Write :: "AcCmdRCWithdrawGuildMemberNotify \<Rightarrow> stream \<Rightarrow> exn + stream" where
  "AcCmdRCWithdrawGuildMemberNotify_Write v = seqw [
     w32 (AcCmdRCWithdrawGuildMemberNotify_guildUid v),
     w32 (AcCmdRCWithdrawGuildMemberNotify_guildMemberCharacterUid v),
     w32 (AcCmdRCWithdrawGuildMemberNotify_withdrawnCharacterUid v),
     w8 (AcCmdRCWithdrawGuildMemberNotify_option v)]"

definition AcCmdRCWithdrawGuildMemberNotify_Read :: "stream \<Rightarrow> exn + (AcCmdRCWithdrawGuildMemberNotify \<times> stream)" where
  "AcCmdRCWithdrawGuildMemberNotify_Read = throws (RuntimeError ''Not implemented'')"

record AcCmdCRUpdatePet =
  AcCmdCRUpdatePet_petInfo :: "wire_pet_info"
  AcCmdCRUpdatePet_itemUid :: "u32 option"

definition AcCmdCRUpdatePet_Write :: "AcCmdCRUpdatePet \<Rightarrow> stream \<Rightarrow> exn + stream" where
  "AcCmdCRUpdatePet_Write _ = throws (RuntimeError ''Not implemented'')"

definition AcCmdCRUpdatePet_default :: "AcCmdCRUpdatePet" where
  "AcCmdCRUpdatePet_default = \<lparr>AcCmdCRUpdatePet_petInfo = \<lparr>wpi_characterUid = 0, wpi_itemUid = 0, wpi_pet = \<lparr>wpe_petId = 0, wpe_member2 = 0, wpe_name = [], wpe_birthDate = 0\<rparr>, wpi_member4 = 0\<rparr>,
     AcCmdCRUpdatePet_itemUid = None\<rparr>"

definition AcCmdCRUpdatePet_Read :: "icu \<Rightarrow> stream \<Rightarrow> exn + (AcCmdCRUpdatePet \<times> stream)" where
  "AcCmdCRUpdatePet_Read cv = build AcCmdCRUpdatePet_default [
     fld (PetInfo_Read cv) AcCmdCRUpdatePet_petInfo_update,
     (\<lambda>c s. if of_nat (cursor s) - of_nat (length (storage s)) > (4 :: u64)
       then fld (emplace r32) AcCmdCRUpdatePet_itemUid_update c s
       else ret (AcCmdCRUpdatePet_itemUid_update (\<lambda>_. Some 0) c) s)]"

record AcCmdRCUpdatePet =
  AcCmdRCUpdatePet_petInfo :: "wire_pet_info"
  AcCmdRCUpdatePet_itemUid :: "u32"

definition AcCmdRCUpdatePet_Write :: "icu \<Rightarrow> AcCmdRCUpdatePet \<Rightarrow> stream \<Rightarrow> exn + stream" where
  "AcCmdRCUpdatePet_Write cv v = seqw [
     PetInfo_Write cv (AcCmdRCUpdatePet_petInfo v),
     w32 (AcCmdRCUpdatePet_itemUid v)]"

definition AcCmdRCUpdatePet_default :: "AcCmdRCUpdatePet" where
  "AcCmdRCUpdatePet_default = \<lparr>AcCmdRCUpdatePet_petInfo = \<lparr>wpi_characterUid = 0, wpi_itemUid = 0, wpi_pet = \<lparr>wpe_petId = 0, wpe_member2 = 0, wpe_name = [], wpe_birthDate = 0\<rparr>, wpi_member4 = 0\<rparr>,
     AcCmdRCUpdatePet_itemUid = 0\<rparr>"

definition AcCmdRCUpdatePet_Read :: "icu \<Rightarrow> stream \<Rightarrow> exn + (AcCmdRCUpdatePet \<times> stream)" where
  "AcCmdRCUpdatePet_Read cv = build AcCmdRCUpdatePet_default [
     fld (PetInfo_Read cv) AcCmdRCUpdatePet_petInfo_update,
     (\<lambda>c s. if of_nat (cursor s) - of_nat (length (storage s)) > (4 :: u64)
       then fld (r32) AcCmdRCUpdatePet_itemUid_update c s
       else ret c s)]"

datatype (plugins only:) AcCmdRCUpdatePetCancel = AcCmdRCUpdatePetCancel
  (AcCmdRCUpdatePetCancel_petInfo: "wire_pet_info")
  (AcCmdRCUpdatePetCancel_member2: "u32")
  (AcCmdRCUpdatePetCancel_error: "u8")

definition AcCmdRCUpdatePetCancel_Write :: "icu \<Rightarrow> AcCmdRCUpdatePetCancel \<Rightarrow> stream \<Rightarrow> exn + stream" where
  "AcCmdRCUpdatePetCancel_Write cv v = seqw [
     PetInfo_Write cv (AcCmdRCUpdatePetCancel_petInfo v),
     w32 (AcCmdRCUpdatePetCancel_member2 v),
     w8 (AcCmdRCUpdatePetCancel_error v)]"

definition AcCmdRCUpdatePetCancel_Read :: "stream \<Rightarrow> exn + (AcCmdRCUpdatePetCancel \<times> stream)" where
  "AcCmdRCUpdatePetCancel_Read = throws (RuntimeError ''Not implemented'')"

datatype (plugins only:) AcCmdCRRequestPetBirth = AcCmdCRRequestPetBirth
  (AcCmdCRRequestPetBirth_eggLevel: "u32")
  (AcCmdCRRequestPetBirth_incubatorSlot: "u32")
  (AcCmdCRRequestPetBirth_petInfo: "wire_pet_info")

definition AcCmdCRRequestPetBirth_Write :: "AcCmdCRRequestPetBirth \<Rightarrow> stream \<Rightarrow> exn + stream" where
  "AcCmdCRRequestPetBirth_Write _ = throws (RuntimeError ''Not implemented'')"

definition AcCmdCRRequestPetBirth_Read :: "icu \<Rightarrow> stream \<Rightarrow> exn + (AcCmdCRRequestPetBirth \<times> stream)" where
  "AcCmdCRRequestPetBirth_Read cv =
     rd r32 (\<lambda>eggLevel'.
     rd r32 (\<lambda>incubatorSlot'.
     rd (PetInfo_Read cv) (\<lambda>petInfo'.
     ret (AcCmdCRRequestPetBirth eggLevel' incubatorSlot' petInfo'))))"

datatype (plugins only:) AcCmdCRRequestPetBirthOK = AcCmdCRRequestPetBirthOK
  (AcCmdCRRequestPetBirthOK_petBirthInfo: "wire_pet_birth_info")

definition AcCmdCRRequestPetBirthOK_Write :: "icu \<Rightarrow> AcCmdCRRequestPetBirthOK \<Rightarrow> stream \<Rightarrow> exn + stream" where
  "AcCmdCRRequestPetBirthOK_Write cv v = seqw [
     PetBirthInfo_Write cv (AcCmdCRRequestPetBirthOK_petBirthInfo v)]"

definition AcCmdCRRequestPetBirthOK_Read :: "stream \<Rightarrow> exn + (AcCmdCRRequestPetBirthOK \<times> stream)" where
  "AcCmdCRRequestPetBirthOK_Read = throws (RuntimeError ''Not implemented'')"

datatype (plugins only:) AcCmdCRRequestPetBirthNotify = AcCmdCRRequestPetBirthNotify
  (AcCmdCRRequestPetBirthNotify_petBirthInfo: "wire_pet_birth_info")

definition AcCmdCRRequestPetBirthNotify_Write :: "icu \<Rightarrow> AcCmdCRRequestPetBirthNotify \<Rightarrow> stream \<Rightarrow> exn + stream" where
  "AcCmdCRRequestPetBirthNotify_Write cv v = seqw [
     PetBirthInfo_Write cv (AcCmdCRRequestPetBirthNotify_petBirthInfo v)]"

definition AcCmdCRRequestPetBirthNotify_Read :: "stream \<Rightarrow> exn + (AcCmdCRRequestPetBirthNotify \<times> stream)" where
  "AcCmdCRRequestPetBirthNotify_Read = throws (RuntimeError ''Not implemented'')"

datatype (plugins only:) AcCmdCRRequestPetBirthCancel = AcCmdCRRequestPetBirthCancel
  (AcCmdCRRequestPetBirthCancel_petInfo: "wire_pet_info")

definition AcCmdCRRequestPetBirthCancel_Write :: "icu \<Rightarrow> AcCmdCRRequestPetBirthCancel \<Rightarrow> stream \<Rightarrow> exn + stream" where
  "AcCmdCRRequestPetBirthCancel_Write cv v = seqw [
     PetInfo_Write cv (AcCmdCRRequestPetBirthCancel_petInfo v)]"

definition AcCmdCRRequestPetBirthCancel_Read :: "stream \<Rightarrow> exn + (AcCmdCRRequestPetBirthCancel \<times> stream)" where
  "AcCmdCRRequestPetBirthCancel_Read = throws (RuntimeError ''Not implemented'')"

datatype (plugins only:) RanchCommandPetBirthNotify = RanchCommandPetBirthNotify
  (RanchCommandPetBirthNotify_petBirthInfo: "wire_pet_birth_info")

definition RanchCommandPetBirthNotify_Write :: "icu \<Rightarrow> RanchCommandPetBirthNotify \<Rightarrow> stream \<Rightarrow> exn + stream" where
  "RanchCommandPetBirthNotify_Write cv v = seqw [
     PetBirthInfo_Write cv (RanchCommandPetBirthNotify_petBirthInfo v)]"

definition RanchCommandPetBirthNotify_Read :: "stream \<Rightarrow> exn + (RanchCommandPetBirthNotify \<times> stream)" where
  "RanchCommandPetBirthNotify_Read = throws (RuntimeError ''Not implemented'')"

datatype (plugins only:) AcCmdCRPetBornResult = AcCmdCRPetBornResult
  (AcCmdCRPetBornResult_member1: "u32")
  (AcCmdCRPetBornResult_member2: "u32")

definition AcCmdCRPetBornResult_Write :: "AcCmdCRPetBornResult \<Rightarrow> stream \<Rightarrow> exn + stream" where
  "AcCmdCRPetBornResult_Write _ = throws (RuntimeError ''Not implemented'')"

definition AcCmdCRPetBornResult_Read :: "stream \<Rightarrow> exn + (AcCmdCRPetBornResult \<times> stream)" where
  "AcCmdCRPetBornResult_Read =
     rd r32 (\<lambda>member1'.
     rd r32 (\<lambda>member2'.
     ret (AcCmdCRPetBornResult member1' member2')))"

datatype (plugins only:) AcCmdCRPetBornResultNotify = AcCmdCRPetBornResultNotify
  (AcCmdCRPetBornResultNotify_member1: "u32")
  (AcCmdCRPetBornResultNotify_member2: "u32")

definition AcCmdCRPetBornResultNotify_Write :: "AcCmdCRPetBornResultNotify \<Rightarrow> stream \<Rightarrow> exn + stream" where
  "AcCmdCRPetBornResultNotify_Write v = seqw [
     w32 (AcCmdCRPetBornResultNotify_member1 v),
     w32 (AcCmdCRPetBornResultNotify_member2 v)]"

definition AcCmdCRPetBornResultNotify_Read :: "stream \<Rightarrow> exn + (AcCmdCRPetBornResultNotify \<times> stream)" where
  "AcCmdCRPetBornResultNotify_Read = throws (RuntimeError ''Not implemented'')"

datatype (plugins only:) AcCmdCRIncubateEgg = AcCmdCRIncubateEgg
  (AcCmdCRIncubateEgg_itemUid: "u32")
  (AcCmdCRIncubateEgg_itemTid: "u32")
  (AcCmdCRIncubateEgg_incubatorSlot: "u32")

definition AcCmdCRIncubateEgg_Write :: "AcCmdCRIncubateEgg \<Rightarrow> stream \<Rightarrow> exn + stream" where
  "AcCmdCRIncubateEgg_Write _ = throws (RuntimeError ''Not implemented'')"

definition AcCmdCRIncubateEgg_Read :: "stream \<Rightarrow> exn + (AcCmdCRIncubateEgg \<times> stream)" where
  "AcCmdCRIncubateEgg_Read =
     rd r32 (\<lambda>itemUid'.
     rd r32 (\<lambda>itemTid'.
     rd r32 (\<lambda>incubatorSlot'.
     ret (AcCmdCRIncubateEgg itemUid' itemTid' incubatorSlot'))))"

datatype (plugins only:) AcCmdCRIncubateEggOK = AcCmdCRIncubateEggOK
  (AcCmdCRIncubateEggOK_incubatorSlot: "u32")
  (AcCmdCRIncubateEggOK_egg: "wire_egg")
  (AcCmdCRIncubateEggOK_member3: "u32")

definition AcCmdCRIncubateEggOK_Write :: "AcCmdCRIncubateEggOK \<Rightarrow> stream \<Rightarrow> exn + stream" where
  "AcCmdCRIncubateEggOK_Write v = seqw [
     w32 (AcCmdCRIncubateEggOK_incubatorSlot v),
     Egg_Write (AcCmdCRIncubateEggOK_egg v),
     w32 (AcCmdCRIncubateEggOK_member3 v)]"

definition AcCmdCRIncubateEggOK_Read :: "stream \<Rightarrow> exn + (AcCmdCRIncubateEggOK \<times> stream)" where
  "AcCmdCRIncubateEggOK_Read = throws (RuntimeError ''Not implemented'')"

datatype (plugins only:) AcCmdCRIncubateEggNotify = AcCmdCRIncubateEggNotify
  (AcCmdCRIncubateEggNotify_characterUid: "u32")
  (AcCmdCRIncubateEggNotify_incubatorSlot: "u32")
  (AcCmdCRIncubateEggNotify_egg: "wire_egg")
  (AcCmdCRIncubateEggNotify_member3: "u32")

definition AcCmdCRIncubateEggNotify_Write :: "AcCmdCRIncubateEggNotify \<Rightarrow> stream \<Rightarrow> exn + stream" where
  "AcCmdCRIncubateEggNotify_Write v = seqw [
     w32 (AcCmdCRIncubateEggNotify_characterUid v),
     w32 (AcCmdCRIncubateEggNotify_incubatorSlot v),
     Egg_Write (AcCmdCRIncubateEggNotify_egg v),
     w32 (AcCmdCRIncubateEggNotify_member3 v)]"

definition AcCmdCRIncubateEggNotify_Read :: "stream \<Rightarrow> exn + (AcCmdCRIncubateEggNotify \<times> stream)" where
  "AcCmdCRIncubateEggNotify_Read = throws (RuntimeError ''Not implemented'')"

datatype (plugins only:) AcCmdCRIncubateEggCancel = AcCmdCRIncubateEggCancel
  (AcCmdCRIncubateEggCancel_cancel: "u8")
  (AcCmdCRIncubateEggCancel_itemUid: "u32")
  (AcCmdCRIncubateEggCancel_itemTid: "u32")
  (AcCmdCRIncubateEggCancel_incubatorSlot: "u32")

definition AcCmdCRIncubateEggCancel_Write :: "AcCmdCRIncubateEggCancel \<Rightarrow> stream \<Rightarrow> exn + stream" where
  "AcCmdCRIncubateEggCancel_Write v = seqw [
     w8 (AcCmdCRIncubateEggCancel_cancel v),
     w32 (AcCmdCRIncubateEggCancel_itemUid v),
     w32 (AcCmdCRIncubateEggCancel_itemTid v),
     w32 (AcCmdCRIncubateEggCancel_incubatorSlot v)]"

definition AcCmdCRIncubateEggCancel_Read :: "stream \<Rightarrow> exn + (AcCmdCRIncubateEggCancel \<times> stream)" where
  "AcCmdCRIncubateEggCancel_Read = throws (RuntimeError ''Not implemented'')"

datatype (plugins only:) AcCmdCRBoostIncubateInfoList = AcCmdCRBoostIncubateInfoList
  (AcCmdCRBoostIncubateInfoList_member1: "u32")
  (AcCmdCRBoostIncubateInfoList_member2: "u32")

definition AcCmdCRBoostIncubateInfoList_Write :: "AcCmdCRBoostIncubateInfoList \<Rightarrow> stream \<Rightarrow> exn + stream" where
  "AcCmdCRBoostIncubateInfoList_Write _ = throws (RuntimeError ''Not implemented'')"

definition AcCmdCRBoostIncubateInfoList_Read :: "stream \<Rightarrow> exn + (AcCmdCRBoostIncubateInfoList \<times> stream)" where
  "AcCmdCRBoostIncubateInfoList_Read =
     rd r32 (\<lambda>member1'.
     rd r32 (\<lambda>member2'.
     ret (AcCmdCRBoostIncubateInfoList member1' member2')))"

datatype (plugins only:) AcCmdCRBoostIncubateInfoListOK = AcCmdCRBoostIncubateInfoListOK
  (AcCmdCRBoostIncubateInfoListOK_member1: "u32")
  (AcCmdCRBoostIncubateInfoListOK_count: "u16")

definition AcCmdCRBoostIncubateInfoListOK_Write :: "AcCmdCRBoostIncubateInfoListOK \<Rightarrow> stream \<Rightarrow> exn + stream" where
  "AcCmdCRBoostIncubateInfoListOK_Write v = seqw [
     w32 (AcCmdCRBoostIncubateInfoListOK_member1 v),
     w16 (AcCmdCRBoostIncubateInfoListOK_count v)]"

definition AcCmdCRBoostIncubateInfoListOK_Read :: "stream \<Rightarrow> exn + (AcCmdCRBoostIncubateInfoListOK \<times> stream)" where
  "AcCmdCRBoostIncubateInfoListOK_Read = throws (RuntimeError ''Not implemented'')"

datatype (plugins only:) AcCmdCRBoostIncubateEgg = AcCmdCRBoostIncubateEgg
  (AcCmdCRBoostIncubateEgg_itemUid: "u32")
  (AcCmdCRBoostIncubateEgg_incubatorSlot: "u32")

definition AcCmdCRBoostIncubateEgg_Write :: "AcCmdCRBoostIncubateEgg \<Rightarrow> stream \<Rightarrow> exn + stream" where
  "AcCmdCRBoostIncubateEgg_Write _ = throws (RuntimeError ''Not implemented'')"

definition AcCmdCRBoostIncubateEgg_Read :: "stream \<Rightarrow> exn + (AcCmdCRBoostIncubateEgg \<times> stream)" where
  "AcCmdCRBoostIncubateEgg_Read =
     rd r32 (\<lambda>itemUid'.
     rd r32 (\<lambda>incubatorSlot'.
     ret (AcCmdCRBoostIncubateEgg itemUid' incubatorSlot')))"

datatype (plugins only:) AcCmdCRBoostIncubateEggOK = AcCmdCRBoostIncubateEggOK
  (AcCmdCRBoostIncubateEggOK_item: "wire_item")
  (AcCmdCRBoostIncubateEggOK_incubatorSlot: "u32")
  (AcCmdCRBoostIncubateEggOK_egg: "wire_egg")

definition AcCmdCRBoostIncubateEggOK_Write :: "AcCmdCRBoostIncubateEggOK \<Rightarrow> stream \<Rightarrow> exn + stream" where
  "AcCmdCRBoostIncubateEggOK_Write v = seqw [
     Item_Write (AcCmdCRBoostIncubateEggOK_item v),
     w32 (AcCmdCRBoostIncubateEggOK_incubatorSlot v),
     Egg_Write (AcCmdCRBoostIncubateEggOK_egg v)]"

definition AcCmdCRBoostIncubateEggOK_Read :: "stream \<Rightarrow> exn + (AcCmdCRBoostIncubateEggOK \<times> stream)" where
  "AcCmdCRBoostIncubateEggOK_Read = throws (RuntimeError ''Not implemented'')"

type_synonym RanchCommandUserPetInfos = unit

definition RanchCommandUserPetInfos_Write :: "RanchCommandUserPetInfos \<Rightarrow> stream \<Rightarrow> exn + stream" where
  "RanchCommandUserPetInfos_Write _ = throws (RuntimeError ''Not implemented'')"

definition RanchCommandUserPetInfos_Read :: "stream \<Rightarrow> exn + (RanchCommandUserPetInfos \<times> stream)" where
  "RanchCommandUserPetInfos_Read = ret ()"

datatype (plugins only:) RanchCommandUserPetInfosOK = RanchCommandUserPetInfosOK
  (RanchCommandUserPetInfosOK_pets: "wire_pet list")

definition RanchCommandUserPetInfosOK_Write :: "icu \<Rightarrow> RanchCommandUserPetInfosOK \<Rightarrow> stream \<Rightarrow> exn + stream" where
  "RanchCommandUserPetInfosOK_Write cv v = seqw [
     w16 (of_nat (length (RanchCommandUserPetInfosOK_pets v))),
     seqw (map (Pet_Write cv) (RanchCommandUserPetInfosOK_pets v))]"

definition RanchCommandUserPetInfosOK_Read :: "stream \<Rightarrow> exn + (RanchCommandUserPetInfosOK \<times> stream)" where
  "RanchCommandUserPetInfosOK_Read = throws (RuntimeError ''Not implemented'')"

datatype (plugins only:) AcCmdCRHousingBuild = AcCmdCRHousingBuild
  (AcCmdCRHousingBuild_housingTid: "u16")

definition AcCmdCRHousingBuild_Write :: "AcCmdCRHousingBuild \<Rightarrow> stream \<Rightarrow> exn + stream" where
  "AcCmdCRHousingBuild_Write _ = throws (RuntimeError ''Not implemented'')"

definition AcCmdCRHousingBuild_Read :: "stream \<Rightarrow> exn + (AcCmdCRHousingBuild \<times> stream)" where
  "AcCmdCRHousingBuild_Read =
     rd r16 (\<lambda>housingTid'.
     ret (AcCmdCRHousingBuild housingTid'))"

datatype (plugins only:) AcCmdCRHousingBuildOK = AcCmdCRHousingBuildOK
  (AcCmdCRHousingBuildOK_member1: "u32")
  (AcCmdCRHousingBuildOK_housingTid: "u16")
  (AcCmdCRHousingBuildOK_member3: "u32")

definition AcCmdCRHousingBuildOK_Write :: "AcCmdCRHousingBuildOK \<Rightarrow> stream \<Rightarrow> exn + stream" where
  "AcCmdCRHousingBuildOK_Write v = seqw [
     w32 (AcCmdCRHousingBuildOK_member1 v),
     w16 (AcCmdCRHousingBuildOK_housingTid v),
     w32 (AcCmdCRHousingBuildOK_member3 v)]"

definition AcCmdCRHousingBuildOK_Read :: "stream \<Rightarrow> exn + (AcCmdCRHousingBuildOK \<times> stream)" where
  "AcCmdCRHousingBuildOK_Read = throws (RuntimeError ''Not implemented'')"

datatype (plugins only:) AcCmdCRHousingBuildCancel = AcCmdCRHousingBuildCancel
  (AcCmdCRHousingBuildCancel_status: "u8")

definition AcCmdCRHousingBuildCancel_Write :: "AcCmdCRHousingBuildCancel \<Rightarrow> stream \<Rightarrow> exn + stream" where
  "AcCmdCRHousingBuildCancel_Write v = seqw [
     w8 (AcCmdCRHousingBuildCancel_status v)]"

definition AcCmdCRHousingBuildCancel_Read :: "stream \<Rightarrow> exn + (AcCmdCRHousingBuildCancel \<times> stream)" where
  "AcCmdCRHousingBuildCancel_Read = throws (RuntimeError ''Not implemented'')"

datatype (plugins only:) AcCmdCRHousingBuildNotify = AcCmdCRHousingBuildNotify
  (AcCmdCRHousingBuildNotify_member1: "u32")
  (AcCmdCRHousingBuildNotify_housingId: "u16")

definition AcCmdCRHousingBuildNotify_Write :: "AcCmdCRHousingBuildNotify \<Rightarrow> stream \<Rightarrow> exn + stream" where
  "AcCmdCRHousingBuildNotify_Write v = seqw [
     w32 (AcCmdCRHousingBuildNotify_member1 v),
     w16 (AcCmdCRHousingBuildNotify_housingId v)]"

definition AcCmdCRHousingBuildNotify_Read :: "stream \<Rightarrow> exn + (AcCmdCRHousingBuildNotify \<times> stream)" where
  "AcCmdCRHousingBuildNotify_Read = throws (RuntimeError ''Not implemented'')"

datatype (plugins only:) AcCmdCRHousingRepair = AcCmdCRHousingRepair
  (AcCmdCRHousingRepair_housingUid: "u32")

definition AcCmdCRHousingRepair_Write :: "AcCmdCRHousingRepair \<Rightarrow> stream \<Rightarrow> exn + stream" where
  "AcCmdCRHousingRepair_Write _ = throws (RuntimeError ''Not implemented'')"

definition AcCmdCRHousingRepair_Read :: "stream \<Rightarrow> exn + (AcCmdCRHousingRepair \<times> stream)" where
  "AcCmdCRHousingRepair_Read =
     rd r32 (\<lambda>housingUid'.
     ret (AcCmdCRHousingRepair housingUid'))"

datatype (plugins only:) AcCmdCRHousingRepairOK = AcCmdCRHousingRepairOK
  (AcCmdCRHousingRepairOK_housingUid: "u32")
  (AcCmdCRHousingRepairOK_member2: "u32")

definition AcCmdCRHousingRepairOK_Write :: "AcCmdCRHousingRepairOK \<Rightarrow> stream \<Rightarrow> exn + stream" where
  "AcCmdCRHousingRepairOK_Write v = seqw [
     w32 (AcCmdCRHousingRepairOK_housingUid v),
     w32 (AcCmdCRHousingRepairOK_member2 v)]"

definition AcCmdCRHousingRepairOK_Read :: "stream \<Rightarrow> exn + (AcCmdCRHousingRepairOK \<times> stream)" where
  "AcCmdCRHousingRepairOK_Read = throws (RuntimeError ''Not implemented'')"

datatype (plugins only:) AcCmdCRHousingRepairCancel = AcCmdCRHousingRepairCancel
  (AcCmdCRHousingRepairCancel_status: "u8")

definition AcCmdCRHousingRepairCancel_Write :: "AcCmdCRHousingRepairCancel \<Rightarrow> stream \<Rightarrow> exn + stream" where
  "AcCmdCRHousingRepairCancel_Write v = seqw [
     w8 (AcCmdCRHousingRepairCancel_status v)]"

definition AcCmdCRHousingRepairCancel_Read :: "stream \<Rightarrow> exn + (AcCmdCRHousingRepairCancel \<times> stream)" where
  "AcCmdCRHousingRepairCancel_Read = throws (RuntimeError ''Not implemented'')"

datatype (plugins only:) AcCmdCRHousingRepairNotify = AcCmdCRHousingRepairNotify
  (AcCmdCRHousingRepairNotify_member1: "u32")
  (AcCmdCRHousingRepairNotify_housingTid: "u16")

definition AcCmdCRHousingRepairNotify_Write :: "AcCmdCRHousingRepairNotify \<Rightarrow> stream \<Rightarrow> exn + stream" where
  "AcCmdCRHousingRepairNotify_Write v = seqw [
     w32 (AcCmdCRHousingRepairNotify_member1 v),
     w16 (AcCmdCRHousingRepairNotify_housingTid v)]"

definition AcCmdCRHousingRepairNotify_Read :: "stream \<Rightarrow> exn + (AcCmdCRHousingRepairNotify \<times> stream)" where
  "AcCmdCRHousingRepairNotify_Read = throws (RuntimeError ''Not implemented'')"

datatype (plugins only:) AcCmdRCMissionEvent = AcCmdRCMissionEvent
  (AcCmdRCMissionEvent_event: "u32")
  (AcCmdRCMissionEvent_callerOid: "u32")
  (AcCmdRCMissionEvent_calledOid: "u32")

definition AcCmdRCMissionEvent_Write :: "AcCmdRCMissionEvent \<Rightarrow> stream \<Rightarrow> exn + stream" where
  "AcCmdRCMissionEvent_Write v = seqw [
     w32 (AcCmdRCMissionEvent_event v),
     w32 (AcCmdRCMissionEvent_callerOid v),
     w32 (AcCmdRCMissionEvent_calledOid v)]"

definition AcCmdRCMissionEvent_Read :: "stream \<Rightarrow> exn + (AcCmdRCMissionEvent \<times> stream)" where
  "AcCmdRCMissionEvent_Read =
     rd r32 (\<lambda>event'.
     rd r32 (\<lambda>callerOid'.
     rd r32 (\<lambda>calledOid'.
     ret (AcCmdRCMissionEvent event' callerOid' calledOid'))))"

datatype (plugins only:) RanchCommandKickRanch = RanchCommandKickRanch
  (RanchCommandKickRanch_characterUid: "u32")

definition RanchCommandKickRanch_Write :: "RanchCommandKickRanch \<Rightarrow> stream \<Rightarrow> exn + stream" where
  "RanchCommandKickRanch_Write _ = throws (RuntimeError ''Not implemented'')"

definition RanchCommandKickRanch_Read :: "stream \<Rightarrow> exn + (RanchCommandKickRanch \<times> stream)" where
  "RanchCommandKickRanch_Read =
     rd r32 (\<lambda>characterUid'.
     ret (RanchCommandKickRanch characterUid'))"

type_synonym RanchCommandKickRanchOK = unit

definition RanchCommandKickRanchOK_Write :: "RanchCommandKickRanchOK \<Rightarrow> stream \<Rightarrow> exn + stream" where
  "RanchCommandKickRanchOK_Write _ = seqw []"

definition RanchCommandKickRanchOK_Read :: "stream \<Rightarrow> exn + (RanchCommandKickRanchOK \<times> stream)" where
  "RanchCommandKickRanchOK_Read = throws (RuntimeError ''Not implemented'')"

type_synonym RanchCommandKickRanchCancel = unit

definition RanchCommandKickRanchCancel_Write :: "RanchCommandKickRanchCancel \<Rightarrow> stream \<Rightarrow> exn + stream" where
  "RanchCommandKickRanchCancel_Write _ = seqw []"

definition RanchCommandKickRanchCancel_Read :: "stream \<Rightarrow> exn + (RanchCommandKickRanchCancel \<times> stream)" where
  "RanchCommandKickRanchCancel_Read = throws (RuntimeError ''Not implemented'')"

datatype (plugins only:) RanchCommandKickRanchNotify = RanchCommandKickRanchNotify
  (RanchCommandKickRanchNotify_characterUid: "u32")

definition RanchCommandKickRanchNotify_Write :: "RanchCommandKickRanchNotify \<Rightarrow> stream \<Rightarrow> exn + stream" where
  "RanchCommandKickRanchNotify_Write v = seqw [
     w32 (RanchCommandKickRanchNotify_characterUid v)]"

definition RanchCommandKickRanchNotify_Read :: "stream \<Rightarrow> exn + (RanchCommandKickRanchNotify \<times> stream)" where
  "RanchCommandKickRanchNotify_Read = throws (RuntimeError ''Not implemented'')"

datatype (plugins only:) RanchCommandOpCmdOK = RanchCommandOpCmdOK
  (RanchCommandOpCmdOK_feedback: "bytes")
  (RanchCommandOpCmdOK_observerState: "u32")

definition RanchCommandOpCmdOK_Write :: "icu \<Rightarrow> RanchCommandOpCmdOK \<Rightarrow> stream \<Rightarrow> exn + stream" where
  "RanchCommandOpCmdOK_Write cv v = seqw [
     wstr cv (RanchCommandOpCmdOK_feedback v),
     w32 (RanchCommandOpCmdOK_observerState v)]"

definition RanchCommandOpCmdOK_Read :: "stream \<Rightarrow> exn + (RanchCommandOpCmdOK \<times> stream)" where
  "RanchCommandOpCmdOK_Read = throws (RuntimeError ''Not implemented'')"

type_synonym RanchCommandRequestLeagueTeamList = unit

definition RanchCommandRequestLeagueTeamList_Write :: "RanchCommandRequestLeagueTeamList \<Rightarrow> stream \<Rightarrow> exn + stream" where
  "RanchCommandRequestLeagueTeamList_Write _ = throws (RuntimeError ''Not implemented'')"

definition RanchCommandRequestLeagueTeamList_Read :: "stream \<Rightarrow> exn + (RanchCommandRequestLeagueTeamList \<times> stream)" where
  "RanchCommandRequestLeagueTeamList_Read = ret ()"

datatype (plugins only:) RanchCommandRequestLeagueTeamListOK_Member = RanchCommandRequestLeagueTeamListOK_Member
  (RanchCommandRequestLeagueTeamListOK_Member_uid: "u32")
  (RanchCommandRequestLeagueTeamListOK_Member_points: "u32")
  (RanchCommandRequestLeagueTeamListOK_Member_name: "bytes")

datatype (plugins only:) RanchCommandRequestLeagueTeamListOK = RanchCommandRequestLeagueTeamListOK
  (RanchCommandRequestLeagueTeamListOK_season: "u8")
  (RanchCommandRequestLeagueTeamListOK_league: "u8")
  (RanchCommandRequestLeagueTeamListOK_group: "u32")
  (RanchCommandRequestLeagueTeamListOK_points: "u32")
  (RanchCommandRequestLeagueTeamListOK_rank: "u8")
  (RanchCommandRequestLeagueTeamListOK_previousRank: "u8")
  (RanchCommandRequestLeagueTeamListOK_breakPoints: "u32")
  (RanchCommandRequestLeagueTeamListOK_unk7: "u32")
  (RanchCommandRequestLeagueTeamListOK_unk8: "u8")
  (RanchCommandRequestLeagueTeamListOK_lastWeekLeague: "u8")
  (RanchCommandRequestLeagueTeamListOK_lastWeekGroup: "u32")
  (RanchCommandRequestLeagueTeamListOK_lastWeekRank: "u8")
  (RanchCommandRequestLeagueTeamListOK_lastWeekAvailable: "u8")
  (RanchCommandRequestLeagueTeamListOK_unk13: "u8")
  (RanchCommandRequestLeagueTeamListOK_members: "RanchCommandRequestLeagueTeamListOK_Member list")

definition RanchCommandRequestLeagueTeamListOK_Write :: "icu \<Rightarrow> RanchCommandRequestLeagueTeamListOK \<Rightarrow> stream \<Rightarrow> exn + stream" where
  "RanchCommandRequestLeagueTeamListOK_Write cv v = seqw [
     w8 (RanchCommandRequestLeagueTeamListOK_season v),
     w8 (RanchCommandRequestLeagueTeamListOK_league v),
     w32 (RanchCommandRequestLeagueTeamListOK_group v),
     w32 (RanchCommandRequestLeagueTeamListOK_points v),
     w8 (RanchCommandRequestLeagueTeamListOK_rank v),
     w8 (RanchCommandRequestLeagueTeamListOK_previousRank v),
     w32 (RanchCommandRequestLeagueTeamListOK_breakPoints v),
     w32 (RanchCommandRequestLeagueTeamListOK_unk7 v),
     w8 (RanchCommandRequestLeagueTeamListOK_unk8 v),
     w8 (RanchCommandRequestLeagueTeamListOK_lastWeekLeague v),
     w32 (RanchCommandRequestLeagueTeamListOK_lastWeekGroup v),
     w8 (RanchCommandRequestLeagueTeamListOK_lastWeekRank v),
     w8 (RanchCommandRequestLeagueTeamListOK_lastWeekAvailable v),
     w8 (RanchCommandRequestLeagueTeamListOK_unk13 v),
     w8 (of_nat (length (RanchCommandRequestLeagueTeamListOK_members v))),
     seqw (map (\<lambda>member. seqw [
         w32 (RanchCommandRequestLeagueTeamListOK_Member_uid member),
         w32 (RanchCommandRequestLeagueTeamListOK_Member_points member),
         wstr cv (RanchCommandRequestLeagueTeamListOK_Member_name member)]) (RanchCommandRequestLeagueTeamListOK_members v))]"

definition RanchCommandRequestLeagueTeamListOK_Read :: "stream \<Rightarrow> exn + (RanchCommandRequestLeagueTeamListOK \<times> stream)" where
  "RanchCommandRequestLeagueTeamListOK_Read = throws (RuntimeError ''Not implemented'')"

type_synonym RanchCommandRequestLeagueTeamListCancel = unit

datatype (plugins only:) AcCmdCRUseItem = AcCmdCRUseItem
  (AcCmdCRUseItem_itemUid: "u32")
  (AcCmdCRUseItem_always1: "u16")
  (AcCmdCRUseItem_horseUid: "u32")
  (AcCmdCRUseItem_playSuccessLevel: "u32")

definition AcCmdCRUseItem_Write :: "AcCmdCRUseItem \<Rightarrow> stream \<Rightarrow> exn + stream" where
  "AcCmdCRUseItem_Write _ = throws (RuntimeError ''Not implemented.'')"

definition AcCmdCRUseItem_Read :: "stream \<Rightarrow> exn + (AcCmdCRUseItem \<times> stream)" where
  "AcCmdCRUseItem_Read =
     rd r32 (\<lambda>itemUid'.
     rd r16 (\<lambda>always1'.
     rd r32 (\<lambda>horseUid'.
     rd r32 (\<lambda>playSuccessLevel'.
     ret (AcCmdCRUseItem itemUid' always1' horseUid' playSuccessLevel')))))"

datatype (plugins only:) AcCmdCRUseItemOK = AcCmdCRUseItemOK
  (AcCmdCRUseItemOK_itemUid: "u32")
  (AcCmdCRUseItemOK_remainingItemCount: "u16")
  (AcCmdCRUseItemOK_type: "u32")
  (AcCmdCRUseItemOK_experiencePoints: "u8")
  (AcCmdCRUseItemOK_playSuccessLevel: "u32")

definition AcCmdCRUseItemOK_Write :: "AcCmdCRUseItemOK \<Rightarrow> stream \<Rightarrow> exn + stream" where
  "AcCmdCRUseItemOK_Write v = seqw [
     w32 (AcCmdCRUseItemOK_itemUid v),
     w16 (AcCmdCRUseItemOK_remainingItemCount v),
     w32 (AcCmdCRUseItemOK_type v),
     (if AcCmdCRUseItemOK_type v = 0 then seqw []
      else seqw [
           w8 (AcCmdCRUseItemOK_experiencePoints v),
           (if AcCmdCRUseItemOK_type v = 1 \<or> AcCmdCRUseItemOK_type v = 2 \<or> AcCmdCRUseItemOK_type v = 3
           then seqw [
                 w32 (AcCmdCRUseItemOK_playSuccessLevel v)]
           else seqw [])])]"

definition AcCmdCRUseItemOK_Read :: "stream \<Rightarrow> exn + (AcCmdCRUseItemOK \<times> stream)" where
  "AcCmdCRUseItemOK_Read = throws (RuntimeError ''Not implemented.'')"

datatype (plugins only:) AcCmdCRUseItemCancel = AcCmdCRUseItemCancel
  (AcCmdCRUseItemCancel_itemUid: "u32")
  (AcCmdCRUseItemCancel_rewardExperience: "u8")

definition AcCmdCRUseItemCancel_Write :: "AcCmdCRUseItemCancel \<Rightarrow> stream \<Rightarrow> exn + stream" where
  "AcCmdCRUseItemCancel_Write v = seqw [
     w32 (AcCmdCRUseItemCancel_itemUid v),
     w8 (AcCmdCRUseItemCancel_rewardExperience v)]"

definition AcCmdCRUseItemCancel_Read :: "stream \<Rightarrow> exn + (AcCmdCRUseItemCancel \<times> stream)" where
  "AcCmdCRUseItemCancel_Read = throws (RuntimeError ''Not implemented.'')"

datatype (plugins only:) AcCmdCRMountFamilyTree = AcCmdCRMountFamilyTree
  (AcCmdCRMountFamilyTree_horseUid: "u32")

definition AcCmdCRMountFamilyTree_Write :: "AcCmdCRMountFamilyTree \<Rightarrow> stream \<Rightarrow> exn + stream" where
  "AcCmdCRMountFamilyTree_Write _ = throws (RuntimeError ''Not implemented.'')"

definition AcCmdCRMountFamilyTree_Read :: "stream \<Rightarrow> exn + (AcCmdCRMountFamilyTree \<times> stream)" where
  "AcCmdCRMountFamilyTree_Read =
     rd r32 (\<lambda>horseUid'.
     ret (AcCmdCRMountFamilyTree horseUid'))"

datatype (plugins only:) AcCmdCRMountFamilyTreeOK_MountFamilyTreeItem = AcCmdCRMountFamilyTreeOK_MountFamilyTreeItem
  (AcCmdCRMountFamilyTreeOK_MountFamilyTreeItem_hierarchyPosition: "u8")
  (AcCmdCRMountFamilyTreeOK_MountFamilyTreeItem_name: "bytes")
  (AcCmdCRMountFamilyTreeOK_MountFamilyTreeItem_grade: "u8")
  (AcCmdCRMountFamilyTreeOK_MountFamilyTreeItem_skinTid: "u16")

datatype (plugins only:) AcCmdCRMountFamilyTreeOK = AcCmdCRMountFamilyTreeOK
  (AcCmdCRMountFamilyTreeOK_ancestors: "AcCmdCRMountFamilyTreeOK_MountFamilyTreeItem list")

definition AcCmdCRMountFamilyTreeOK_Write :: "icu \<Rightarrow> AcCmdCRMountFamilyTreeOK \<Rightarrow> stream \<Rightarrow> exn + stream" where
  "AcCmdCRMountFamilyTreeOK_Write cv v = seqw [
     w8 (of_nat (length (AcCmdCRMountFamilyTreeOK_ancestors v))),
     seqw (map (\<lambda>item. seqw [
         w8 (AcCmdCRMountFamilyTreeOK_MountFamilyTreeItem_hierarchyPosition item),
         wstr cv (AcCmdCRMountFamilyTreeOK_MountFamilyTreeItem_name item),
         w8 (AcCmdCRMountFamilyTreeOK_MountFamilyTreeItem_grade item),
         w16 (AcCmdCRMountFamilyTreeOK_MountFamilyTreeItem_skinTid item)]) (AcCmdCRMountFamilyTreeOK_ancestors v))]"

definition AcCmdCRMountFamilyTreeOK_Read :: "stream \<Rightarrow> exn + (AcCmdCRMountFamilyTreeOK \<times> stream)" where
  "AcCmdCRMountFamilyTreeOK_Read = throws (RuntimeError ''Not implemented.'')"

type_synonym AcCmdCRMountFamilyTreeCancel = unit

definition AcCmdCRMountFamilyTreeCancel_Write :: "AcCmdCRMountFamilyTreeCancel \<Rightarrow> stream \<Rightarrow> exn + stream" where
  "AcCmdCRMountFamilyTreeCancel_Write _ = seqw []"

definition AcCmdCRMountFamilyTreeCancel_Read :: "stream \<Rightarrow> exn + (AcCmdCRMountFamilyTreeCancel \<times> stream)" where
  "AcCmdCRMountFamilyTreeCancel_Read = throws (RuntimeError ''Not implemented.'')"

datatype (plugins only:) AcCmdCRCheckStorageItem = AcCmdCRCheckStorageItem
  (AcCmdCRCheckStorageItem_storedItemUid: "u32")

definition AcCmdCRCheckStorageItem_Write :: "AcCmdCRCheckStorageItem \<Rightarrow> stream \<Rightarrow> exn + stream" where
  "AcCmdCRCheckStorageItem_Write _ = throws (RuntimeError ''Not implemented'')"

definition AcCmdCRCheckStorageItem_Read :: "stream \<Rightarrow> exn + (AcCmdCRCheckStorageItem \<times> stream)" where
  "AcCmdCRCheckStorageItem_Read =
     rd r32 (\<lambda>storedItemUid'.
     ret (AcCmdCRCheckStorageItem storedItemUid'))"

type_synonym AcCmdCRChangeAgeCancel = unit

definition AcCmdCRChangeAgeCancel_Write :: "AcCmdCRChangeAgeCancel \<Rightarrow> stream \<Rightarrow> exn + stream" where
  "AcCmdCRChangeAgeCancel_Write _ = seqw []"

definition AcCmdCRChangeAgeCancel_Read :: "stream \<Rightarrow> exn + (AcCmdCRChangeAgeCancel \<times> stream)" where
  "AcCmdCRChangeAgeCancel_Read = throws (RuntimeError ''Not implemented'')"

datatype (plugins only:) AcCmdCRChangeAge = AcCmdCRChangeAge
  (AcCmdCRChangeAge_age: "u8")

definition AcCmdCRChangeAge_Write :: "AcCmdCRChangeAge \<Rightarrow> stream \<Rightarrow> exn + stream" where
  "AcCmdCRChangeAge_Write _ = throws (RuntimeError ''Not implemented'')"

definition AcCmdCRChangeAge_Read :: "stream \<Rightarrow> exn + (AcCmdCRChangeAge \<times> stream)" where
  "AcCmdCRChangeAge_Read =
     rd r8 (\<lambda>age'.
     ret (AcCmdCRChangeAge age'))"

datatype (plugins only:) AcCmdCRChangeAgeOK = AcCmdCRChangeAgeOK
  (AcCmdCRChangeAgeOK_age: "u8")

definition AcCmdCRChangeAgeOK_Write :: "AcCmdCRChangeAgeOK \<Rightarrow> stream \<Rightarrow> exn + stream" where
  "AcCmdCRChangeAgeOK_Write v = seqw [
     w8 (AcCmdCRChangeAgeOK_age v)]"

definition AcCmdCRChangeAgeOK_Read :: "stream \<Rightarrow> exn + (AcCmdCRChangeAgeOK \<times> stream)" where
  "AcCmdCRChangeAgeOK_Read = throws (RuntimeError ''Not implemented'')"

datatype (plugins only:) AcCmdRCChangeAgeNotify = AcCmdRCChangeAgeNotify
  (AcCmdRCChangeAgeNotify_characterUid: "u32")
  (AcCmdRCChangeAgeNotify_age: "u8")

definition AcCmdRCChangeAgeNotify_Write :: "AcCmdRCChangeAgeNotify \<Rightarrow> stream \<Rightarrow> exn + stream" where
  "AcCmdRCChangeAgeNotify_Write v = seqw [
     w32 (AcCmdRCChangeAgeNotify_characterUid v),
     w8 (AcCmdRCChangeAgeNotify_age v)]"

definition AcCmdRCChangeAgeNotify_Read :: "stream \<Rightarrow> exn + (AcCmdRCChangeAgeNotify \<times> stream)" where
  "AcCmdRCChangeAgeNotify_Read = throws (RuntimeError ''Not implemented'')"

datatype (plugins only:) AcCmdCRHideAge = AcCmdCRHideAge
  (AcCmdCRHideAge_option: "u8")

definition AcCmdCRHideAge_Write :: "AcCmdCRHideAge \<Rightarrow> stream \<Rightarrow> exn + stream" where
  "AcCmdCRHideAge_Write _ = throws (RuntimeError ''Not implemented'')"

definition AcCmdCRHideAge_Read :: "stream \<Rightarrow> exn + (AcCmdCRHideAge \<times> stream)" where
  "AcCmdCRHideAge_Read =
     rd r8 (\<lambda>option'.
     ret (AcCmdCRHideAge option'))"

type_synonym AcCmdCRHideAgeCancel = unit

definition AcCmdCRHideAgeCancel_Write :: "AcCmdCRHideAgeCancel \<Rightarrow> stream \<Rightarrow> exn + stream" where
  "AcCmdCRHideAgeCancel_Write _ = seqw []"

definition AcCmdCRHideAgeCancel_Read :: "stream \<Rightarrow> exn + (AcCmdCRHideAgeCancel \<times> stream)" where
  "AcCmdCRHideAgeCancel_Read = throws (RuntimeError ''Not implemented'')"

datatype (plugins only:) AcCmdCRHideAgeOK = AcCmdCRHideAgeOK
  (AcCmdCRHideAgeOK_option: "u8")

definition AcCmdCRHideAgeOK_Write :: "AcCmdCRHideAgeOK \<Rightarrow> stream \<Rightarrow> exn + stream" where
  "AcCmdCRHideAgeOK_Write v = seqw [
     w8 (AcCmdCRHideAgeOK_option v)]"

definition AcCmdCRHideAgeOK_Read :: "stream \<Rightarrow> exn + (AcCmdCRHideAgeOK \<times> stream)" where
  "AcCmdCRHideAgeOK_Read = throws (RuntimeError ''Not implemented'')"

datatype (plugins only:) AcCmdRCHideAgeNotify = AcCmdRCHideAgeNotify
  (AcCmdRCHideAgeNotify_characterUid: "u32")
  (AcCmdRCHideAgeNotify_option: "u8")

definition AcCmdRCHideAgeNotify_Write :: "AcCmdRCHideAgeNotify \<Rightarrow> stream \<Rightarrow> exn + stream" where
  "AcCmdRCHideAgeNotify_Write v = seqw [
     w32 (AcCmdRCHideAgeNotify_characterUid v),
     w8 (AcCmdRCHideAgeNotify_option v)]"

definition AcCmdRCHideAgeNotify_Read :: "stream \<Rightarrow> exn + (AcCmdRCHideAgeNotify \<times> stream)" where
  "AcCmdRCHideAgeNotify_Read = throws (RuntimeError ''Not implemented'')"

datatype (plugins only:) AcCmdCRChangeNickname = AcCmdCRChangeNickname
  (AcCmdCRChangeNickname_itemUid: "u32")
  (AcCmdCRChangeNickname_newNickname: "bytes")

definition AcCmdCRChangeNickname_Write :: "AcCmdCRChangeNickname \<Rightarrow> stream \<Rightarrow> exn + stream" where
  "AcCmdCRChangeNickname_Write _ = throws (RuntimeError ''Not implemented'')"

definition AcCmdCRChangeNickname_Read :: "icu \<Rightarrow> stream \<Rightarrow> exn + (AcCmdCRChangeNickname \<times> stream)" where
  "AcCmdCRChangeNickname_Read cv =
     rd r32 (\<lambda>itemUid'.
     rd (rstr cv) (\<lambda>newNickname'.
     ret (AcCmdCRChangeNickname itemUid' newNickname')))"

datatype (plugins only:) AcCmdCRChangeNicknameCancel = AcCmdCRChangeNicknameCancel
  (AcCmdCRChangeNicknameCancel_member1: "u32")
  (AcCmdCRChangeNicknameCancel_error: "u8")

definition AcCmdCRChangeNicknameCancel_Write :: "AcCmdCRChangeNicknameCancel \<Rightarrow> stream \<Rightarrow> exn + stream" where
  "AcCmdCRChangeNicknameCancel_Write v = seqw [
     w32 (AcCmdCRChangeNicknameCancel_member1 v),
     w8 (AcCmdCRChangeNicknameCancel_error v)]"

definition AcCmdCRChangeNicknameCancel_Read :: "stream \<Rightarrow> exn + (AcCmdCRChangeNicknameCancel \<times> stream)" where
  "AcCmdCRChangeNicknameCancel_Read = throws (RuntimeError ''Not implemented'')"

datatype (plugins only:) AcCmdCRChangeNicknameOK = AcCmdCRChangeNicknameOK
  (AcCmdCRChangeNicknameOK_itemUid: "u32")
  (AcCmdCRChangeNicknameOK_remainingItemCount: "u16")
  (AcCmdCRChangeNicknameOK_newNickname: "bytes")

definition AcCmdCRChangeNicknameOK_Write :: "icu \<Rightarrow> AcCmdCRChangeNicknameOK \<Rightarrow> stream \<Rightarrow> exn + stream" where
  "AcCmdCRChangeNicknameOK_Write cv v = seqw [
     w32 (AcCmdCRChangeNicknameOK_itemUid v),
     w16 (AcCmdCRChangeNicknameOK_remainingItemCount v),
     wstr cv (AcCmdCRChangeNicknameOK_newNickname v)]"

datatype (plugins only:) AcCmdCRChangeSkillCardPreset = AcCmdCRChangeSkillCardPreset
  (AcCmdCRChangeSkillCardPreset_skillSet: "wire_skill_set")

definition AcCmdCRChangeSkillCardPreset_Write :: "AcCmdCRChangeSkillCardPreset \<Rightarrow> stream \<Rightarrow> exn + stream" where
  "AcCmdCRChangeSkillCardPreset_Write _ = throws (RuntimeError ''Not implemented'')"

definition AcCmdCRChangeSkillCardPreset_Read :: "stream \<Rightarrow> exn + (AcCmdCRChangeSkillCardPreset \<times> stream)" where
  "AcCmdCRChangeSkillCardPreset_Read =
     rd SkillSet_Read (\<lambda>skillSet'.
     ret (AcCmdCRChangeSkillCardPreset skillSet'))"

type_synonym AcCmdCRGuildMemberList = unit

definition AcCmdCRGuildMemberList_Write :: "AcCmdCRGuildMemberList \<Rightarrow> stream \<Rightarrow> exn + stream" where
  "AcCmdCRGuildMemberList_Write _ = throws (RuntimeError ''Not implemented'')"

definition AcCmdCRGuildMemberList_Read :: "stream \<Rightarrow> exn + (AcCmdCRGuildMemberList \<times> stream)" where
  "AcCmdCRGuildMemberList_Read = ret ()"

datatype (plugins only:) AcCmdCRGuildMemberListCancel = AcCmdCRGuildMemberListCancel
  (AcCmdCRGuildMemberListCancel_status: "u8")

definition AcCmdCRGuildMemberListCancel_Write :: "AcCmdCRGuildMemberListCancel \<Rightarrow> stream \<Rightarrow> exn + stream" where
  "AcCmdCRGuildMemberListCancel_Write v = seqw [
     w8 (AcCmdCRGuildMemberListCancel_status v)]"

definition AcCmdCRGuildMemberListCancel_Read :: "stream \<Rightarrow> exn + (AcCmdCRGuildMemberListCancel \<times> stream)" where
  "AcCmdCRGuildMemberListCancel_Read = throws (RuntimeError ''Not implemented'')"

datatype (plugins only:) AcCmdCRGuildMemberListOK_MemberInfo = AcCmdCRGuildMemberListOK_MemberInfo
  (AcCmdCRGuildMemberListOK_MemberInfo_memberUid: "u32")
  (AcCmdCRGuildMemberListOK_MemberInfo_nickname: "bytes")
  (AcCmdCRGuildMemberListOK_MemberInfo_unk0: "u32")
  (AcCmdCRGuildMemberListOK_MemberInfo_guildRole: "u8")
  (AcCmdCRGuildMemberListOK_MemberInfo_unk2: "u8")

datatype (plugins only:) AcCmdCRGuildMemberListOK = AcCmdCRGuildMemberListOK
  (AcCmdCRGuildMemberListOK_members: "AcCmdCRGuildMemberListOK_MemberInfo list")

definition AcCmdCRGuildMemberListOK_Write :: "icu \<Rightarrow> AcCmdCRGuildMemberListOK \<Rightarrow> stream \<Rightarrow> exn + stream" where
  "AcCmdCRGuildMemberListOK_Write cv v = seqw [
     w8 (of_nat (length (AcCmdCRGuildMemberListOK_members v))),
     seqw (map (\<lambda>member. seqw [
         w32 (AcCmdCRGuildMemberListOK_MemberInfo_memberUid member),
         wstr cv (AcCmdCRGuildMemberListOK_MemberInfo_nickname member),
         w32 (AcCmdCRGuildMemberListOK_MemberInfo_unk0 member),
         w8 (AcCmdCRGuildMemberListOK_MemberInfo_guildRole member),
         w8 (AcCmdCRGuildMemberListOK_MemberInfo_unk2 member)]) (AcCmdCRGuildMemberListOK_members v))]"

definition AcCmdCRGuildMemberListOK_Read :: "stream \<Rightarrow> exn + (AcCmdCRGuildMemberListOK \<times> stream)" where
  "AcCmdCRGuildMemberListOK_Read = throws (RuntimeError ''Not implemented'')"

datatype (plugins only:) AcCmdCRRequestGuildMatchInfo = AcCmdCRRequestGuildMatchInfo
  (AcCmdCRRequestGuildMatchInfo_guildUid: "u32")

definition AcCmdCRRequestGuildMatchInfo_Write :: "AcCmdCRRequestGuildMatchInfo \<Rightarrow> stream \<Rightarrow> exn + stream" where
  "AcCmdCRRequestGuildMatchInfo_Write _ = throws (RuntimeError ''Not implemented'')"

definition AcCmdCRRequestGuildMatchInfo_Read :: "stream \<Rightarrow> exn + (AcCmdCRRequestGuildMatchInfo \<times> stream)" where
  "AcCmdCRRequestGuildMatchInfo_Read =
     rd r32 (\<lambda>guildUid'.
     ret (AcCmdCRRequestGuildMatchInfo guildUid'))"

type_synonym AcCmdCRRequestGuildMatchInfoCancel = unit

definition AcCmdCRRequestGuildMatchInfoCancel_Write :: "AcCmdCRRequestGuildMatchInfoCancel \<Rightarrow> stream \<Rightarrow> exn + stream" where
  "AcCmdCRRequestGuildMatchInfoCancel_Write _ = seqw []"

definition AcCmdCRRequestGuildMatchInfoCancel_Read :: "stream \<Rightarrow> exn + (AcCmdCRRequestGuildMatchInfoCancel \<times> stream)" where
  "AcCmdCRRequestGuildMatchInfoCancel_Read = throws (RuntimeError ''Not implemented'')"

datatype (plugins only:) AcCmdCRRequestGuildMatchInfoOK = AcCmdCRRequestGuildMatchInfoOK
  (AcCmdCRRequestGuildMatchInfoOK_guildUid: "u32")
  (AcCmdCRRequestGuildMatchInfoOK_name: "bytes")
  (AcCmdCRRequestGuildMatchInfoOK_unk2: "u32")
  (AcCmdCRRequestGuildMatchInfoOK_unk3: "u32")
  (AcCmdCRRequestGuildMatchInfoOK_unk4: "u32")
  (AcCmdCRRequestGuildMatchInfoOK_unk5: "u32")
  (AcCmdCRRequestGuildMatchInfoOK_totalWins: "u32")
  (AcCmdCRRequestGuildMatchInfoOK_totalLosses: "u32")
  (AcCmdCRRequestGuildMatchInfoOK_unk8: "u32")
  (AcCmdCRRequestGuildMatchInfoOK_rank: "u32")
  (AcCmdCRRequestGuildMatchInfoOK_unk10: "u32")
  (AcCmdCRRequestGuildMatchInfoOK_seasonalWins: "u32")
  (AcCmdCRRequestGuildMatchInfoOK_seasonalLosses: "u32")

definition AcCmdCRRequestGuildMatchInfoOK_Write :: "icu \<Rightarrow> AcCmdCRRequestGuildMatchInfoOK \<Rightarrow> stream \<Rightarrow> exn + stream" where
  "AcCmdCRRequestGuildMatchInfoOK_Write cv v = seqw [
     w32 (AcCmdCRRequestGuildMatchInfoOK_guildUid v),
     wstr cv (AcCmdCRRequestGuildMatchInfoOK_name v),
     w32 (AcCmdCRRequestGuildMatchInfoOK_unk2 v),
     w32 (AcCmdCRRequestGuildMatchInfoOK_unk3 v),
     w32 (AcCmdCRRequestGuildMatchInfoOK_unk4 v),
     w32 (AcCmdCRRequestGuildMatchInfoOK_unk5 v),
     w32 (AcCmdCRRequestGuildMatchInfoOK_totalWins v),
     w32 (AcCmdCRRequestGuildMatchInfoOK_totalLosses v),
     w32 (AcCmdCRRequestGuildMatchInfoOK_unk8 v),
     w32 (AcCmdCRRequestGuildMatchInfoOK_rank v),
     w32 (AcCmdCRRequestGuildMatchInfoOK_unk10 v),
     w32 (AcCmdCRRequestGuildMatchInfoOK_seasonalWins v),
     w32 (AcCmdCRRequestGuildMatchInfoOK_seasonalLosses v)]"

definition AcCmdCRRequestGuildMatchInfoOK_Read :: "stream \<Rightarrow> exn + (AcCmdCRRequestGuildMatchInfoOK \<times> stream)" where
  "AcCmdCRRequestGuildMatchInfoOK_Read = throws (RuntimeError ''Not implemented'')"

datatype (plugins only:) AcCmdCRUpdateGuildMemberGrade = AcCmdCRUpdateGuildMemberGrade
  (AcCmdCRUpdateGuildMemberGrade_characterUid: "u32")
  (AcCmdCRUpdateGuildMemberGrade_guildRole: "u8")

definition AcCmdCRUpdateGuildMemberGrade_Write :: "AcCmdCRUpdateGuildMemberGrade \<Rightarrow> stream \<Rightarrow> exn + stream" where
  "AcCmdCRUpdateGuildMemberGrade_Write _ = throws (RuntimeError ''Not implemented'')"

definition AcCmdCRUpdateGuildMemberGrade_Read :: "stream \<Rightarrow> exn + (AcCmdCRUpdateGuildMemberGrade \<times> stream)" where
  "AcCmdCRUpdateGuildMemberGrade_Read =
     rd r32 (\<lambda>characterUid'.
     rd r8 (\<lambda>guildRole'.
     ret (AcCmdCRUpdateGuildMemberGrade characterUid' guildRole')))"

datatype (plugins only:) AcCmdCRUpdateGuildMemberGradeCancel = AcCmdCRUpdateGuildMemberGradeCancel
  (AcCmdCRUpdateGuildMemberGradeCancel_unk0: "u8")

definition AcCmdCRUpdateGuildMemberGradeCancel_Write :: "AcCmdCRUpdateGuildMemberGradeCancel \<Rightarrow> stream \<Rightarrow> exn + stream" where
  "AcCmdCRUpdateGuildMemberGradeCancel_Write v = seqw [
     w8 (AcCmdCRUpdateGuildMemberGradeCancel_unk0 v)]"

definition AcCmdCRUpdateGuildMemberGradeCancel_Read :: "stream \<Rightarrow> exn + (AcCmdCRUpdateGuildMemberGradeCancel \<times> stream)" where
  "AcCmdCRUpdateGuildMemberGradeCancel_Read = throws (RuntimeError ''Not implemented'')"

type_synonym AcCmdCRUpdateGuildMemberGradeOK = unit

definition AcCmdCRUpdateGuildMemberGradeOK_Write :: "AcCmdCRUpdateGuildMemberGradeOK \<Rightarrow> stream \<Rightarrow> exn + stream" where
  "AcCmdCRUpdateGuildMemberGradeOK_Write _ = seqw []"

definition AcCmdCRUpdateGuildMemberGradeOK_Read :: "stream \<Rightarrow> exn + (AcCmdCRUpdateGuildMemberGradeOK \<times> stream)" where
  "AcCmdCRUpdateGuildMemberGradeOK_Read = throws (RuntimeError ''Not implemented'')"

datatype (plugins only:) AcCmdRCUpdateGuildMemberGradeNotify = AcCmdRCUpdateGuildMemberGradeNotify
  (AcCmdRCUpdateGuildMemberGradeNotify_guildUid: "u32")
  (AcCmdRCUpdateGuildMemberGradeNotify_unk1: "u32")
  (AcCmdRCUpdateGuildMemberGradeNotify_targetCharacterUid: "u32")
  (AcCmdRCUpdateGuildMemberGradeNotify_unk3: "u8")
  (AcCmdRCUpdateGuildMemberGradeNotify_guildRole: "u8")

definition AcCmdRCUpdateGuildMemberGradeNotify_Write :: "AcCmdRCUpdateGuildMemberGradeNotify \<Rightarrow> stream \<Rightarrow> exn + stream" where
  "AcCmdRCUpdateGuildMemberGradeNotify_Write v = seqw [
     w32 (AcCmdRCUpdateGuildMemberGradeNotify_guildUid v),
     w32 (AcCmdRCUpdateGuildMemberGradeNotify_unk1 v),
     w32 (AcCmdRCUpdateGuildMemberGradeNotify_targetCharacterUid v),
     w8 (AcCmdRCUpdateGuildMemberGradeNotify_unk3 v),
     w8 (AcCmdRCUpdateGuildMemberGradeNotify_guildRole v)]"

definition AcCmdRCUpdateGuildMemberGradeNotify_Read :: "stream \<Rightarrow> exn + (AcCmdRCUpdateGuildMemberGradeNotify \<times> stream)" where
  "AcCmdRCUpdateGuildMemberGradeNotify_Read = throws (RuntimeError ''Not implemented'')"

datatype (plugins only:) AcCmdCRInviteGuildJoin = AcCmdCRInviteGuildJoin
  (AcCmdCRInviteGuildJoin_characterName: "bytes")

definition AcCmdCRInviteGuildJoin_Write :: "AcCmdCRInviteGuildJoin \<Rightarrow> stream \<Rightarrow> exn + stream" where
  "AcCmdCRInviteGuildJoin_Write _ = throws (RuntimeError ''Not implemented'')"

definition AcCmdCRInviteGuildJoin_Read :: "icu \<Rightarrow> stream \<Rightarrow> exn + (AcCmdCRInviteGuildJoin \<times> stream)" where
  "AcCmdCRInviteGuildJoin_Read cv =
     rd (rstr cv) (\<lambda>characterName'.
     ret (AcCmdCRInviteGuildJoin characterName'))"

datatype (plugins only:) AcCmdCRInviteGuildJoinCancel = AcCmdCRInviteGuildJoinCancel
  (AcCmdCRInviteGuildJoinCancel_unk0: "u32")
  (AcCmdCRInviteGuildJoinCancel_unk1: "u32")
  (AcCmdCRInviteGuildJoinCancel_unk2: "bytes")
  (AcCmdCRInviteGuildJoinCancel_error: "u8")
  (AcCmdCRInviteGuildJoinCancel_unk4: "u32")

definition AcCmdCRInviteGuildJoinCancel_Write :: "icu \<Rightarrow> AcCmdCRInviteGuildJoinCancel \<Rightarrow> stream \<Rightarrow> exn + stream" where
  "AcCmdCRInviteGuildJoinCancel_Write cv v = seqw [
     w32 (AcCmdCRInviteGuildJoinCancel_unk0 v),
     w32 (AcCmdCRInviteGuildJoinCancel_unk1 v),
     wstr cv (AcCmdCRInviteGuildJoinCancel_unk2 v),
     w8 (AcCmdCRInviteGuildJoinCancel_error v),
     w32 (AcCmdCRInviteGuildJoinCancel_unk4 v)]"

definition AcCmdCRInviteGuildJoinCancel_Read :: "stream \<Rightarrow> exn + (AcCmdCRInviteGuildJoinCancel \<times> stream)" where
  "AcCmdCRInviteGuildJoinCancel_Read = throws (RuntimeError ''Not implemented'')"

datatype (plugins only:) AcCmdRCAcceptGuildJoinNotify = AcCmdRCAcceptGuildJoinNotify
  (AcCmdRCAcceptGuildJoinNotify_guildMemberCharacterUid: "u32")
  (AcCmdRCAcceptGuildJoinNotify_newMemberCharacterUid: "u32")
  (AcCmdRCAcceptGuildJoinNotify_newMemberCharacterName: "bytes")

definition AcCmdRCAcceptGuildJoinNotify_Write :: "icu \<Rightarrow> AcCmdRCAcceptGuildJoinNotify \<Rightarrow> stream \<Rightarrow> exn + stream" where
  "AcCmdRCAcceptGuildJoinNotify_Write cv v = seqw [
     w32 (AcCmdRCAcceptGuildJoinNotify_guildMemberCharacterUid v),
     w32 (AcCmdRCAcceptGuildJoinNotify_newMemberCharacterUid v),
     wstr cv (AcCmdRCAcceptGuildJoinNotify_newMemberCharacterName v)]"

definition AcCmdRCAcceptGuildJoinNotify_Read :: "stream \<Rightarrow> exn + (AcCmdRCAcceptGuildJoinNotify \<times> stream)" where
  "AcCmdRCAcceptGuildJoinNotify_Read = throws (RuntimeError ''Not implemented'')"

type_synonym AcCmdCREmblemList = unit

definition AcCmdCREmblemList_Write :: "AcCmdCREmblemList \<Rightarrow> stream \<Rightarrow> exn + stream" where
  "AcCmdCREmblemList_Write _ = throws (RuntimeError ''Not implemented'')"

definition AcCmdCREmblemList_Read :: "stream \<Rightarrow> exn + (AcCmdCREmblemList \<times> stream)" where
  "AcCmdCREmblemList_Read = ret ()"

type_synonym AcCmdCREmblemListCancel = unit

definition AcCmdCREmblemListCancel_Write :: "AcCmdCREmblemListCancel \<Rightarrow> stream \<Rightarrow> exn + stream" where
  "AcCmdCREmblemListCancel_Write _ = seqw []"

definition AcCmdCREmblemListCancel_Read :: "stream \<Rightarrow> exn + (AcCmdCREmblemListCancel \<times> stream)" where
  "AcCmdCREmblemListCancel_Read = throws (RuntimeError ''Not implemented'')"

datatype (plugins only:) AcCmdCREmblemListOK = AcCmdCREmblemListOK
  (AcCmdCREmblemListOK_unk0: "u16 list")

definition AcCmdCREmblemListOK_Write :: "AcCmdCREmblemListOK \<Rightarrow> stream \<Rightarrow> exn + stream" where
  "AcCmdCREmblemListOK_Write v = seqw [
     w8 (of_nat (length (AcCmdCREmblemListOK_unk0 v))),
     seqw (map w16 (AcCmdCREmblemListOK_unk0 v))]"

definition AcCmdCREmblemListOK_Read :: "stream \<Rightarrow> exn + (AcCmdCREmblemListOK \<times> stream)" where
  "AcCmdCREmblemListOK_Read = throws (RuntimeError ''Not implemented'')"

datatype (plugins only:) AcCmdCRUpdateDailyQuest = AcCmdCRUpdateDailyQuest
  (AcCmdCRUpdateDailyQuest_quest: "wire_daily_quest")

definition AcCmdCRUpdateDailyQuest_Write :: "AcCmdCRUpdateDailyQuest \<Rightarrow> stream \<Rightarrow> exn + stream" where
  "AcCmdCRUpdateDailyQuest_Write _ = throws (RuntimeError ''Not implemented'')"

definition AcCmdCRUpdateDailyQuest_Read :: "stream \<Rightarrow> exn + (AcCmdCRUpdateDailyQuest \<times> stream)" where
  "AcCmdCRUpdateDailyQuest_Read =
     rd DailyQuest_Read (\<lambda>quest'.
     ret (AcCmdCRUpdateDailyQuest quest'))"

datatype (plugins only:) AcCmdCRUpdateDailyQuestOK = AcCmdCRUpdateDailyQuestOK
  (AcCmdCRUpdateDailyQuestOK_newCarrotBalance: "u32")
  (AcCmdCRUpdateDailyQuestOK_quest: "wire_daily_quest")
  (AcCmdCRUpdateDailyQuestOK_unk_1: "u32")
  (AcCmdCRUpdateDailyQuestOK_unk_2: "u32")

definition AcCmdCRUpdateDailyQuestOK_Write :: "AcCmdCRUpdateDailyQuestOK \<Rightarrow> stream \<Rightarrow> exn + stream" where
  "AcCmdCRUpdateDailyQuestOK_Write v = seqw [
     w32 (AcCmdCRUpdateDailyQuestOK_newCarrotBalance v),
     DailyQuest_Write (AcCmdCRUpdateDailyQuestOK_quest v),
     w32 (AcCmdCRUpdateDailyQuestOK_unk_1 v),
     w32 (AcCmdCRUpdateDailyQuestOK_unk_2 v)]"

definition AcCmdCRUpdateDailyQuestOK_Read :: "stream \<Rightarrow> exn + (AcCmdCRUpdateDailyQuestOK \<times> stream)" where
  "AcCmdCRUpdateDailyQuestOK_Read = throws (RuntimeError ''Not implemented'')"

type_synonym AcCmdCRUpdateDailyQuestCancel = unit

definition AcCmdCRUpdateDailyQuestCancel_Write :: "AcCmdCRUpdateDailyQuestCancel \<Rightarrow> stream \<Rightarrow> exn + stream" where
  "AcCmdCRUpdateDailyQuestCancel_Write _ = throws (RuntimeError ''Not implemented'')"

definition AcCmdCRUpdateDailyQuestCancel_Read :: "stream \<Rightarrow> exn + (AcCmdCRUpdateDailyQuestCancel \<times> stream)" where
  "AcCmdCRUpdateDailyQuestCancel_Read = throws (RuntimeError ''Not implemented'')"

datatype (plugins only:) AcCmdCRUpdateMountInfo = AcCmdCRUpdateMountInfo
  (AcCmdCRUpdateMountInfo_action: "u8")
  (AcCmdCRUpdateMountInfo_horse: "wire_horse")

definition AcCmdCRUpdateMountInfo_Write :: "AcCmdCRUpdateMountInfo \<Rightarrow> stream \<Rightarrow> exn + stream" where
  "AcCmdCRUpdateMountInfo_Write _ = throws (RuntimeError ''Not implemented'')"

definition AcCmdCRUpdateMountInfo_Read :: "icu \<Rightarrow> stream \<Rightarrow> exn + (AcCmdCRUpdateMountInfo \<times> stream)" where
  "AcCmdCRUpdateMountInfo_Read cv =
     rd r8 (\<lambda>action'.
     rd (Horse_Read cv) (\<lambda>horse'.
     ret (AcCmdCRUpdateMountInfo action' horse')))"

datatype (plugins only:) AcCmdCRUpdateMountInfoOK = AcCmdCRUpdateMountInfoOK
  (AcCmdCRUpdateMountInfoOK_action: "u8")
  (AcCmdCRUpdateMountInfoOK_horse: "wire_horse")

definition AcCmdCRUpdateMountInfoOK_Write :: "icu \<Rightarrow> AcCmdCRUpdateMountInfoOK \<Rightarrow> stream \<Rightarrow> exn + stream" where
  "AcCmdCRUpdateMountInfoOK_Write cv v = seqw [
     w8 (AcCmdCRUpdateMountInfoOK_action v),
     Horse_Write cv (AcCmdCRUpdateMountInfoOK_horse v)]"

definition AcCmdCRUpdateMountInfoOK_Read :: "stream \<Rightarrow> exn + (AcCmdCRUpdateMountInfoOK \<times> stream)" where
  "AcCmdCRUpdateMountInfoOK_Read = throws (RuntimeError ''Not implemented'')"

record AcCmdCRRegisterDailyQuestGroup =
  AcCmdCRRegisterDailyQuestGroup_unk_0 :: "u16"
  AcCmdCRRegisterDailyQuestGroup_dailyQuests :: "wire_daily_quest list"

definition AcCmdCRRegisterDailyQuestGroup_Write :: "AcCmdCRRegisterDailyQuestGroup \<Rightarrow> stream \<Rightarrow> exn + stream" where
  "AcCmdCRRegisterDailyQuestGroup_Write _ = throws (RuntimeError ''Not implemented'')"

definition AcCmdCRRegisterDailyQuestGroup_default :: "AcCmdCRRegisterDailyQuestGroup" where
  "AcCmdCRRegisterDailyQuestGroup_default = \<lparr>AcCmdCRRegisterDailyQuestGroup_unk_0 = 0,
     AcCmdCRRegisterDailyQuestGroup_dailyQuests = []\<rparr>"

definition AcCmdCRRegisterDailyQuestGroup_Read :: "stream \<Rightarrow> exn + (AcCmdCRRegisterDailyQuestGroup \<times> stream)" where
  "AcCmdCRRegisterDailyQuestGroup_Read = build AcCmdCRRegisterDailyQuestGroup_default [
     fld (rlist_by r16 DailyQuest_Read) AcCmdCRRegisterDailyQuestGroup_dailyQuests_update]"

datatype (plugins only:) AcCmdCRRegisterDailyQuestGroupOK = AcCmdCRRegisterDailyQuestGroupOK
  (AcCmdCRRegisterDailyQuestGroupOK_status: "u8")

definition AcCmdCRRegisterDailyQuestGroupOK_Write :: "AcCmdCRRegisterDailyQuestGroupOK \<Rightarrow> stream \<Rightarrow> exn + stream" where
  "AcCmdCRRegisterDailyQuestGroupOK_Write v = seqw [
     w8 (AcCmdCRRegisterDailyQuestGroupOK_status v)]"

definition AcCmdCRRegisterDailyQuestGroupOK_Read :: "stream \<Rightarrow> exn + (AcCmdCRRegisterDailyQuestGroupOK \<times> stream)" where
  "AcCmdCRRegisterDailyQuestGroupOK_Read = throws (RuntimeError ''Not implemented'')"

datatype (plugins only:) AcCmdCRRequestDailyQuestReward = AcCmdCRRequestDailyQuestReward
  (AcCmdCRRequestDailyQuestReward_questTid: "u16")
  (AcCmdCRRequestDailyQuestReward_rewardPoints: "u16")

definition AcCmdCRRequestDailyQuestReward_Write :: "AcCmdCRRequestDailyQuestReward \<Rightarrow> stream \<Rightarrow> exn + stream" where
  "AcCmdCRRequestDailyQuestReward_Write _ = throws (RuntimeError ''Not implemented'')"

definition AcCmdCRRequestDailyQuestReward_Read :: "stream \<Rightarrow> exn + (AcCmdCRRequestDailyQuestReward \<times> stream)" where
  "AcCmdCRRequestDailyQuestReward_Read =
     rd r16 (\<lambda>questTid'.
     rd r16 (\<lambda>rewardPoints'.
     ret (AcCmdCRRequestDailyQuestReward questTid' rewardPoints')))"

record AcCmdCRRequestDailyQuestRewardOK_Reward =
  AcCmdCRRequestDailyQuestRewardOK_Reward_items :: "wire_item list"

definition AcCmdCRRequestDailyQuestRewardOK_Reward_Write :: "AcCmdCRRequestDailyQuestRewardOK_Reward \<Rightarrow> stream \<Rightarrow> exn + stream" where
  "AcCmdCRRequestDailyQuestRewardOK_Reward_Write v = seqw [
     seqw (map Item_Write (AcCmdCRRequestDailyQuestRewardOK_Reward_items v))]"

definition AcCmdCRRequestDailyQuestRewardOK_Reward_default :: "AcCmdCRRequestDailyQuestRewardOK_Reward" where
  "AcCmdCRRequestDailyQuestRewardOK_Reward_default = \<lparr>AcCmdCRRequestDailyQuestRewardOK_Reward_items = []\<rparr>"

definition AcCmdCRRequestDailyQuestRewardOK_Reward_Read :: "stream \<Rightarrow> exn + (AcCmdCRRequestDailyQuestRewardOK_Reward \<times> stream)" where
  "AcCmdCRRequestDailyQuestRewardOK_Reward_Read = build AcCmdCRRequestDailyQuestRewardOK_Reward_default [
     (\<lambda>c. fld (read_n (length (AcCmdCRRequestDailyQuestRewardOK_Reward_items c)) Item_Read)
       AcCmdCRRequestDailyQuestRewardOK_Reward_items_update c)]"

datatype (plugins only:) AcCmdCRRequestDailyQuestRewardOK = AcCmdCRRequestDailyQuestRewardOK
  (AcCmdCRRequestDailyQuestRewardOK_rewards: "AcCmdCRRequestDailyQuestRewardOK_Reward")

definition AcCmdCRRequestDailyQuestRewardOK_Write :: "AcCmdCRRequestDailyQuestRewardOK \<Rightarrow> stream \<Rightarrow> exn + stream" where
  "AcCmdCRRequestDailyQuestRewardOK_Write v = seqw [
     w8 (of_nat (length (AcCmdCRRequestDailyQuestRewardOK_Reward_items (AcCmdCRRequestDailyQuestRewardOK_rewards v)))),
     seqw (map Item_Write (AcCmdCRRequestDailyQuestRewardOK_Reward_items (AcCmdCRRequestDailyQuestRewardOK_rewards v)))]"

definition AcCmdCRRequestDailyQuestRewardOK_Read :: "stream \<Rightarrow> exn + (AcCmdCRRequestDailyQuestRewardOK \<times> stream)" where
  "AcCmdCRRequestDailyQuestRewardOK_Read = throws (RuntimeError ''Not implemented'')"

datatype (plugins only:) AcCmdRCCompleteDailyQuestNotify = AcCmdRCCompleteDailyQuestNotify
  (AcCmdRCCompleteDailyQuestNotify_characterUid: "u32")
  (AcCmdRCCompleteDailyQuestNotify_questId: "u16")

definition AcCmdRCCompleteDailyQuestNotify_Write :: "AcCmdRCCompleteDailyQuestNotify \<Rightarrow> stream \<Rightarrow> exn + stream" where
  "AcCmdRCCompleteDailyQuestNotify_Write v = seqw [
     w32 (AcCmdRCCompleteDailyQuestNotify_characterUid v),
     w16 (AcCmdRCCompleteDailyQuestNotify_questId v)]"

definition AcCmdRCCompleteDailyQuestNotify_Read :: "stream \<Rightarrow> exn + (AcCmdRCCompleteDailyQuestNotify \<times> stream)" where
  "AcCmdRCCompleteDailyQuestNotify_Read = throws (RuntimeError ''Not implemented'')"

datatype (plugins only:) AcCmdCRMountInjuryHealOK = AcCmdCRMountInjuryHealOK
  (AcCmdCRMountInjuryHealOK_horseUid: "u32")
  (AcCmdCRMountInjuryHealOK_unk1: "u32")
  (AcCmdCRMountInjuryHealOK_unk2: "u8")
  (AcCmdCRMountInjuryHealOK_updatedCarrotCount: "u32")

definition AcCmdCRMountInjuryHealOK_Write :: "AcCmdCRMountInjuryHealOK \<Rightarrow> stream \<Rightarrow> exn + stream" where
  "AcCmdCRMountInjuryHealOK_Write v = seqw [
     w32 (AcCmdCRMountInjuryHealOK_horseUid v),
     w32 (AcCmdCRMountInjuryHealOK_unk1 v),
     w8 (AcCmdCRMountInjuryHealOK_unk2 v),
     w32 (AcCmdCRMountInjuryHealOK_updatedCarrotCount v)]"

definition AcCmdCRMountInjuryHealOK_Read :: "stream \<Rightarrow> exn + (AcCmdCRMountInjuryHealOK \<times> stream)" where
  "AcCmdCRMountInjuryHealOK_Read = throws (RuntimeError ''Not implemented'')"

datatype (plugins only:) AcCmdCRRegisterQuest = AcCmdCRRegisterQuest
  (AcCmdCRRegisterQuest_questId: "u16")
  (AcCmdCRRegisterQuest_npcId: "u32")

definition AcCmdCRRegisterQuest_Write :: "AcCmdCRRegisterQuest \<Rightarrow> stream \<Rightarrow> exn + stream" where
  "AcCmdCRRegisterQuest_Write _ = throws (RuntimeError ''Not implemented'')"

definition AcCmdCRRegisterQuest_Read :: "stream \<Rightarrow> exn + (AcCmdCRRegisterQuest \<times> stream)" where
  "AcCmdCRRegisterQuest_Read =
     rd r16 (\<lambda>questId'.
     rd r32 (\<lambda>npcId'.
     ret (AcCmdCRRegisterQuest questId' npcId')))"

datatype (plugins only:) AcCmdCRRegisterQuestOK = AcCmdCRRegisterQuestOK
  (AcCmdCRRegisterQuestOK_questId: "u16")
  (AcCmdCRRegisterQuestOK_progress: "u32")
  (AcCmdCRRegisterQuestOK_isCompleted: "u8")

definition AcCmdCRRegisterQuestOK_Write :: "AcCmdCRRegisterQuestOK \<Rightarrow> stream \<Rightarrow> exn + stream" where
  "AcCmdCRRegisterQuestOK_Write v = seqw [
     w16 (AcCmdCRRegisterQuestOK_questId v),
     w32 (AcCmdCRRegisterQuestOK_progress v),
     w8 (AcCmdCRRegisterQuestOK_isCompleted v)]"

definition AcCmdCRRegisterQuestOK_Read :: "stream \<Rightarrow> exn + (AcCmdCRRegisterQuestOK \<times> stream)" where
  "AcCmdCRRegisterQuestOK_Read = throws (RuntimeError ''Not implemented'')"

datatype (plugins only:) AcCmdCRRequestQuestReward = AcCmdCRRequestQuestReward
  (AcCmdCRRequestQuestReward_questTid: "u16")
  (AcCmdCRRequestQuestReward_npcId: "u32")
  (AcCmdCRRequestQuestReward_questRewardId: "u32")

definition AcCmdCRRequestQuestReward_Write :: "AcCmdCRRequestQuestReward \<Rightarrow> stream \<Rightarrow> exn + stream" where
  "AcCmdCRRequestQuestReward_Write _ = throws (RuntimeError ''Not implemented'')"

definition AcCmdCRRequestQuestReward_Read :: "stream \<Rightarrow> exn + (AcCmdCRRequestQuestReward \<times> stream)" where
  "AcCmdCRRequestQuestReward_Read =
     rd r16 (\<lambda>questTid'.
     rd r32 (\<lambda>npcId'.
     rd r32 (\<lambda>questRewardId'.
     ret (AcCmdCRRequestQuestReward questTid' npcId' questRewardId'))))"

datatype (plugins only:) AcCmdCRRequestQuestRewardOK_NpcDressList = AcCmdCRRequestQuestRewardOK_NpcDressList
  (AcCmdCRRequestQuestRewardOK_NpcDressList_npcId: "u32")
  (AcCmdCRRequestQuestRewardOK_NpcDressList_effectId: "u32")

definition AcCmdCRRequestQuestRewardOK_NpcDressList_Write :: "AcCmdCRRequestQuestRewardOK_NpcDressList \<Rightarrow> stream \<Rightarrow> exn + stream" where
  "AcCmdCRRequestQuestRewardOK_NpcDressList_Write v = seqw [
     w32 (AcCmdCRRequestQuestRewardOK_NpcDressList_npcId v),
     w32 (AcCmdCRRequestQuestRewardOK_NpcDressList_effectId v)]"

definition AcCmdCRRequestQuestRewardOK_NpcDressList_Read :: "stream \<Rightarrow> exn + (AcCmdCRRequestQuestRewardOK_NpcDressList \<times> stream)" where
  "AcCmdCRRequestQuestRewardOK_NpcDressList_Read =
     rd r32 (\<lambda>npcId'.
     rd r32 (\<lambda>effectId'.
     ret (AcCmdCRRequestQuestRewardOK_NpcDressList npcId' effectId')))"

datatype (plugins only:) AcCmdCRRequestQuestRewardOK = AcCmdCRRequestQuestRewardOK
  (AcCmdCRRequestQuestRewardOK_questTid: "u16")
  (AcCmdCRRequestQuestRewardOK_carrotsRewarded: "u32")
  (AcCmdCRRequestQuestRewardOK_rewards: "AcCmdCRRequestDailyQuestRewardOK_Reward")
  (AcCmdCRRequestQuestRewardOK_npcEffects: "AcCmdCRRequestQuestRewardOK_NpcDressList list")

definition AcCmdCRRequestQuestRewardOK_Write :: "AcCmdCRRequestQuestRewardOK \<Rightarrow> stream \<Rightarrow> exn + stream" where
  "AcCmdCRRequestQuestRewardOK_Write v = seqw [
     w16 (AcCmdCRRequestQuestRewardOK_questTid v),
     w32 (AcCmdCRRequestQuestRewardOK_carrotsRewarded v),
     w8 (of_nat (length (AcCmdCRRequestDailyQuestRewardOK_Reward_items (AcCmdCRRequestQuestRewardOK_rewards v)))),
     seqw (map Item_Write (AcCmdCRRequestDailyQuestRewardOK_Reward_items (AcCmdCRRequestQuestRewardOK_rewards v))),
     w8 (of_nat (length (AcCmdCRRequestQuestRewardOK_npcEffects v))),
     seqw (map AcCmdCRRequestQuestRewardOK_NpcDressList_Write (AcCmdCRRequestQuestRewardOK_npcEffects v))]"

definition AcCmdCRRequestQuestRewardOK_Read :: "stream \<Rightarrow> exn + (AcCmdCRRequestQuestRewardOK \<times> stream)" where
  "AcCmdCRRequestQuestRewardOK_Read = throws (RuntimeError ''Not implemented'')"

datatype (plugins only:) AcCmdCRGiveupQuest = AcCmdCRGiveupQuest
  (AcCmdCRGiveupQuest_questId: "u16")

definition AcCmdCRGiveupQuest_Write :: "AcCmdCRGiveupQuest \<Rightarrow> stream \<Rightarrow> exn + stream" where
  "AcCmdCRGiveupQuest_Write _ = throws (RuntimeError ''Not implemented'')"

definition AcCmdCRGiveupQuest_Read :: "stream \<Rightarrow> exn + (AcCmdCRGiveupQuest \<times> stream)" where
  "AcCmdCRGiveupQuest_Read =
     rd r16 (\<lambda>questId'.
     ret (AcCmdCRGiveupQuest questId'))"

type_synonym AcCmdCRGiveupQuestCancel = unit

definition AcCmdCRGiveupQuestCancel_Write :: "AcCmdCRGiveupQuestCancel \<Rightarrow> stream \<Rightarrow> exn + stream" where
  "AcCmdCRGiveupQuestCancel_Write _ = seqw []"

definition AcCmdCRGiveupQuestCancel_Read :: "stream \<Rightarrow> exn + (AcCmdCRGiveupQuestCancel \<times> stream)" where
  "AcCmdCRGiveupQuestCancel_Read = throws (RuntimeError ''Not implemented'')"

datatype (plugins only:) AcCmdCRGiveupQuestOK = AcCmdCRGiveupQuestOK
  (AcCmdCRGiveupQuestOK_questId: "u16")

definition AcCmdCRGiveupQuestOK_Write :: "AcCmdCRGiveupQuestOK \<Rightarrow> stream \<Rightarrow> exn + stream" where
  "AcCmdCRGiveupQuestOK_Write v = seqw [
     w16 (AcCmdCRGiveupQuestOK_questId v)]"

definition AcCmdCRGiveupQuestOK_Read :: "stream \<Rightarrow> exn + (AcCmdCRGiveupQuestOK \<times> stream)" where
  "AcCmdCRGiveupQuestOK_Read = throws (RuntimeError ''Not implemented'')"

datatype (plugins only:) AcCmdCRConfirmItem = AcCmdCRConfirmItem
  (AcCmdCRConfirmItem_recipientCharacterName: "bytes")
  (AcCmdCRConfirmItem_goodsSq: "u32")
  (AcCmdCRConfirmItem_member3: "u8")

definition AcCmdCRConfirmItem_Write :: "AcCmdCRConfirmItem \<Rightarrow> stream \<Rightarrow> exn + stream" where
  "AcCmdCRConfirmItem_Write _ = throws (RuntimeError ''Not implemented'')"

definition AcCmdCRConfirmItem_Read :: "icu \<Rightarrow> stream \<Rightarrow> exn + (AcCmdCRConfirmItem \<times> stream)" where
  "AcCmdCRConfirmItem_Read cv =
     rd (rstr cv) (\<lambda>recipientCharacterName'.
     rd r32 (\<lambda>goodsSq'.
     rd r8 (\<lambda>member3'.
     ret (AcCmdCRConfirmItem recipientCharacterName' goodsSq' member3'))))"

datatype (plugins only:) AcCmdCRConfirmItemOK = AcCmdCRConfirmItemOK
  (AcCmdCRConfirmItemOK_recipientCharacterName: "bytes")
  (AcCmdCRConfirmItemOK_goodsSq: "u32")
  (AcCmdCRConfirmItemOK_canPurchase: "bool")

definition AcCmdCRConfirmItemOK_Write :: "icu \<Rightarrow> AcCmdCRConfirmItemOK \<Rightarrow> stream \<Rightarrow> exn + stream" where
  "AcCmdCRConfirmItemOK_Write cv v = seqw [
     wstr cv (AcCmdCRConfirmItemOK_recipientCharacterName v),
     w32 (AcCmdCRConfirmItemOK_goodsSq v),
     wbool (AcCmdCRConfirmItemOK_canPurchase v)]"

definition AcCmdCRConfirmItemOK_Read :: "stream \<Rightarrow> exn + (AcCmdCRConfirmItemOK \<times> stream)" where
  "AcCmdCRConfirmItemOK_Read = throws (RuntimeError ''Not implemented'')"

datatype (plugins only:) AcCmdCRConfirmItemCancel = AcCmdCRConfirmItemCancel
  (AcCmdCRConfirmItemCancel_member1: "bytes")
  (AcCmdCRConfirmItemCancel_member2: "u32")
  (AcCmdCRConfirmItemCancel_member3: "u8")

definition AcCmdCRConfirmItemCancel_Write :: "icu \<Rightarrow> AcCmdCRConfirmItemCancel \<Rightarrow> stream \<Rightarrow> exn + stream" where
  "AcCmdCRConfirmItemCancel_Write cv v = seqw [
     wstr cv (AcCmdCRConfirmItemCancel_member1 v),
     w32 (AcCmdCRConfirmItemCancel_member2 v),
     w8 (AcCmdCRConfirmItemCancel_member3 v)]"

definition AcCmdCRConfirmItemCancel_Read :: "stream \<Rightarrow> exn + (AcCmdCRConfirmItemCancel \<times> stream)" where
  "AcCmdCRConfirmItemCancel_Read = throws (RuntimeError ''Not implemented'')"

datatype (plugins only:) AcCmdCRConfirmSetItem = AcCmdCRConfirmSetItem
  (AcCmdCRConfirmSetItem_goodsSq: "u32")

definition AcCmdCRConfirmSetItem_Write :: "AcCmdCRConfirmSetItem \<Rightarrow> stream \<Rightarrow> exn + stream" where
  "AcCmdCRConfirmSetItem_Write _ = throws (RuntimeError ''Not implemented'')"

definition AcCmdCRConfirmSetItem_Read :: "stream \<Rightarrow> exn + (AcCmdCRConfirmSetItem \<times> stream)" where
  "AcCmdCRConfirmSetItem_Read =
     rd r32 (\<lambda>goodsSq'.
     ret (AcCmdCRConfirmSetItem goodsSq'))"

datatype (plugins only:) AcCmdCRConfirmSetItemOK = AcCmdCRConfirmSetItemOK
  (AcCmdCRConfirmSetItemOK_goodsSq: "u32")
  (AcCmdCRConfirmSetItemOK_result: "u8")

definition AcCmdCRConfirmSetItemOK_Write :: "AcCmdCRConfirmSetItemOK \<Rightarrow> stream \<Rightarrow> exn + stream" where
  "AcCmdCRConfirmSetItemOK_Write v = seqw [
     w32 (AcCmdCRConfirmSetItemOK_goodsSq v),
     w8 (AcCmdCRConfirmSetItemOK_result v)]"

definition AcCmdCRConfirmSetItemOK_Read :: "stream \<Rightarrow> exn + (AcCmdCRConfirmSetItemOK \<times> stream)" where
  "AcCmdCRConfirmSetItemOK_Read = throws (RuntimeError ''Not implemented'')"

datatype (plugins only:) AcCmdCRConfirmSetItemCancel = AcCmdCRConfirmSetItemCancel
  (AcCmdCRConfirmSetItemCancel_unk0: "u32")
  (AcCmdCRConfirmSetItemCancel_unk1: "u8")

definition AcCmdCRConfirmSetItemCancel_Write :: "AcCmdCRConfirmSetItemCancel \<Rightarrow> stream \<Rightarrow> exn + stream" where
  "AcCmdCRConfirmSetItemCancel_Write v = seqw [
     w32 (AcCmdCRConfirmSetItemCancel_unk0 v),
     w8 (AcCmdCRConfirmSetItemCancel_unk1 v)]"

definition AcCmdCRConfirmSetItemCancel_Read :: "stream \<Rightarrow> exn + (AcCmdCRConfirmSetItemCancel \<times> stream)" where
  "AcCmdCRConfirmSetItemCancel_Read = throws (RuntimeError ''Not implemented'')"

record AcCmdCRBuyOwnItem =
  AcCmdCRBuyOwnItem_orders :: "wire_shop_order list"

definition AcCmdCRBuyOwnItem_Write :: "AcCmdCRBuyOwnItem \<Rightarrow> stream \<Rightarrow> exn + stream" where
  "AcCmdCRBuyOwnItem_Write _ = throws (RuntimeError ''Not implemented'')"

definition AcCmdCRBuyOwnItem_default :: "AcCmdCRBuyOwnItem" where
  "AcCmdCRBuyOwnItem_default = \<lparr>AcCmdCRBuyOwnItem_orders = []\<rparr>"

definition AcCmdCRBuyOwnItem_Read :: "stream \<Rightarrow> exn + (AcCmdCRBuyOwnItem \<times> stream)" where
  "AcCmdCRBuyOwnItem_Read = build AcCmdCRBuyOwnItem_default [
     fld (rlist_by r8 ShopOrder_Read) AcCmdCRBuyOwnItem_orders_update]"

datatype (plugins only:) AcCmdCRBuyOwnItemCancel = AcCmdCRBuyOwnItemCancel
  (AcCmdCRBuyOwnItemCancel_error: "u8")

definition AcCmdCRBuyOwnItemCancel_Write :: "AcCmdCRBuyOwnItemCancel \<Rightarrow> stream \<Rightarrow> exn + stream" where
  "AcCmdCRBuyOwnItemCancel_Write v = seqw [
     w8 (AcCmdCRBuyOwnItemCancel_error v)]"

definition AcCmdCRBuyOwnItemCancel_Read :: "stream \<Rightarrow> exn + (AcCmdCRBuyOwnItemCancel \<times> stream)" where
  "AcCmdCRBuyOwnItemCancel_Read = throws (RuntimeError ''Not implemented'')"

datatype (plugins only:) AcCmdCRBuyOwnItemOK_OrderResult = AcCmdCRBuyOwnItemOK_OrderResult
  (AcCmdCRBuyOwnItemOK_OrderResult_order: "wire_shop_order")
  (AcCmdCRBuyOwnItemOK_OrderResult_result: "u8")

datatype (plugins only:) AcCmdCRBuyOwnItemOK_Purchase = AcCmdCRBuyOwnItemOK_Purchase
  (AcCmdCRBuyOwnItemOK_Purchase_equipImmediately: "bool")
  (AcCmdCRBuyOwnItemOK_Purchase_item: "wire_item")

datatype (plugins only:) AcCmdCRBuyOwnItemOK = AcCmdCRBuyOwnItemOK
  (AcCmdCRBuyOwnItemOK_orderResults: "AcCmdCRBuyOwnItemOK_OrderResult list")
  (AcCmdCRBuyOwnItemOK_purchases: "AcCmdCRBuyOwnItemOK_Purchase list")
  (AcCmdCRBuyOwnItemOK_newCarrots: "u32")
  (AcCmdCRBuyOwnItemOK_newCash: "u32")

definition AcCmdCRBuyOwnItemOK_Write :: "AcCmdCRBuyOwnItemOK \<Rightarrow> stream \<Rightarrow> exn + stream" where
  "AcCmdCRBuyOwnItemOK_Write v = seqw [
     w8 (of_nat (length (AcCmdCRBuyOwnItemOK_orderResults v))),
     seqw (map (\<lambda>shopItemResult. seqw [
         ShopOrder_Write (AcCmdCRBuyOwnItemOK_OrderResult_order shopItemResult),
         w8 (AcCmdCRBuyOwnItemOK_OrderResult_result shopItemResult)]) (AcCmdCRBuyOwnItemOK_orderResults v)),
     w8 (of_nat (length (AcCmdCRBuyOwnItemOK_purchases v))),
     seqw (map (\<lambda>ownedItem. seqw [
         wbool (AcCmdCRBuyOwnItemOK_Purchase_equipImmediately ownedItem),
         Item_Write (AcCmdCRBuyOwnItemOK_Purchase_item ownedItem)]) (AcCmdCRBuyOwnItemOK_purchases v)),
     w32 (AcCmdCRBuyOwnItemOK_newCarrots v),
     w32 (AcCmdCRBuyOwnItemOK_newCash v)]"

definition AcCmdCRBuyOwnItemOK_Read :: "stream \<Rightarrow> exn + (AcCmdCRBuyOwnItemOK \<times> stream)" where
  "AcCmdCRBuyOwnItemOK_Read = throws (RuntimeError ''Not implemented'')"

datatype (plugins only:) AcCmdCRSendGift = AcCmdCRSendGift
  (AcCmdCRSendGift_recipientCharacterName: "bytes")
  (AcCmdCRSendGift_message: "bytes")
  (AcCmdCRSendGift_order: "wire_shop_order")

definition AcCmdCRSendGift_Write :: "AcCmdCRSendGift \<Rightarrow> stream \<Rightarrow> exn + stream" where
  "AcCmdCRSendGift_Write _ = throws (RuntimeError ''Not implemented'')"

definition AcCmdCRSendGift_Read :: "icu \<Rightarrow> stream \<Rightarrow> exn + (AcCmdCRSendGift \<times> stream)" where
  "AcCmdCRSendGift_Read cv =
     rd (rstr cv) (\<lambda>recipientCharacterName'.
     rd (rstr cv) (\<lambda>message'.
     rd ShopOrder_Read (\<lambda>order'.
     ret (AcCmdCRSendGift recipientCharacterName' message' order'))))"

datatype (plugins only:) AcCmdCRSendGiftCancel = AcCmdCRSendGiftCancel
  (AcCmdCRSendGiftCancel_unused: "u8")

definition AcCmdCRSendGiftCancel_Write :: "AcCmdCRSendGiftCancel \<Rightarrow> stream \<Rightarrow> exn + stream" where
  "AcCmdCRSendGiftCancel_Write v = seqw [
     w8 (AcCmdCRSendGiftCancel_unused v)]"

definition AcCmdCRSendGiftCancel_Read :: "stream \<Rightarrow> exn + (AcCmdCRSendGiftCancel \<times> stream)" where
  "AcCmdCRSendGiftCancel_Read = throws (RuntimeError ''Not implemented'')"

datatype (plugins only:) AcCmdCRSendGiftOK_GiftOrderResult = AcCmdCRSendGiftOK_GiftOrderResult
  (AcCmdCRSendGiftOK_GiftOrderResult_order: "wire_shop_order")
  (AcCmdCRSendGiftOK_GiftOrderResult_error: "bool")

datatype (plugins only:) AcCmdCRSendGiftOK = AcCmdCRSendGiftOK
  (AcCmdCRSendGiftOK_giftOrderResult: "AcCmdCRSendGiftOK_GiftOrderResult")
  (AcCmdCRSendGiftOK_carrots: "u32")
  (AcCmdCRSendGiftOK_cash: "u32")

definition AcCmdCRSendGiftOK_Write :: "AcCmdCRSendGiftOK \<Rightarrow> stream \<Rightarrow> exn + stream" where
  "AcCmdCRSendGiftOK_Write v = seqw [
     ShopOrder_Write (AcCmdCRSendGiftOK_GiftOrderResult_order (AcCmdCRSendGiftOK_giftOrderResult v)),
     wbool (AcCmdCRSendGiftOK_GiftOrderResult_error (AcCmdCRSendGiftOK_giftOrderResult v)),
     w32 (AcCmdCRSendGiftOK_carrots v),
     w32 (AcCmdCRSendGiftOK_cash v)]"

definition AcCmdCRSendGiftOK_Read :: "stream \<Rightarrow> exn + (AcCmdCRSendGiftOK \<times> stream)" where
  "AcCmdCRSendGiftOK_Read = throws (RuntimeError ''Not implemented'')"

record AcCmdCRPasswordAuth =
  AcCmdCRPasswordAuth_unk1 :: "u16"
  AcCmdCRPasswordAuth_unk2 :: "u32"
  AcCmdCRPasswordAuth_unk3 :: "bytes"

definition AcCmdCRPasswordAuth_Write :: "AcCmdCRPasswordAuth \<Rightarrow> stream \<Rightarrow> exn + stream" where
  "AcCmdCRPasswordAuth_Write _ = throws (RuntimeError ''Not implemented'')"

definition AcCmdCRPasswordAuth_default :: "AcCmdCRPasswordAuth" where
  "AcCmdCRPasswordAuth_default = \<lparr>AcCmdCRPasswordAuth_unk1 = 0,
     AcCmdCRPasswordAuth_unk2 = 0,
     AcCmdCRPasswordAuth_unk3 = []\<rparr>"

definition AcCmdCRPasswordAuth_Read :: "icu \<Rightarrow> stream \<Rightarrow> exn + (AcCmdCRPasswordAuth \<times> stream)" where
  "AcCmdCRPasswordAuth_Read cv = build AcCmdCRPasswordAuth_default [
     fld r16 AcCmdCRPasswordAuth_unk1_update,
     (\<lambda>c. if AcCmdCRPasswordAuth_unk1 c = 2
       then seqr [fld r32 AcCmdCRPasswordAuth_unk2_update, fld (rstr cv) AcCmdCRPasswordAuth_unk3_update] c
       else seqr [(\<lambda>c. if AcCmdCRPasswordAuth_unk1 c = 3
             then seqr [fld (rstr cv) AcCmdCRPasswordAuth_unk3_update] c
             else seqr [] c)] c)]"

datatype (plugins only:) AcCmdCRPasswordAuthOK = AcCmdCRPasswordAuthOK
  (AcCmdCRPasswordAuthOK_action: "u16")
  (AcCmdCRPasswordAuthOK_duration: "u32")

definition AcCmdCRPasswordAuthOK_Write :: "AcCmdCRPasswordAuthOK \<Rightarrow> stream \<Rightarrow> exn + stream" where
  "AcCmdCRPasswordAuthOK_Write v = seqw [
     w16 (AcCmdCRPasswordAuthOK_action v),
     w32 (AcCmdCRPasswordAuthOK_duration v)]"

definition AcCmdCRPasswordAuthOK_Read :: "stream \<Rightarrow> exn + (AcCmdCRPasswordAuthOK \<times> stream)" where
  "AcCmdCRPasswordAuthOK_Read = throws (RuntimeError ''Not implemented'')"

datatype (plugins only:) AcCmdCROpenRandomBox = AcCmdCROpenRandomBox
  (AcCmdCROpenRandomBox_itemUid: "u32")
  (AcCmdCROpenRandomBox_unk1: "u32")

definition AcCmdCROpenRandomBox_Write :: "AcCmdCROpenRandomBox \<Rightarrow> stream \<Rightarrow> exn + stream" where
  "AcCmdCROpenRandomBox_Write _ = throws (RuntimeError ''Not implemented'')"

definition AcCmdCROpenRandomBox_Read :: "stream \<Rightarrow> exn + (AcCmdCROpenRandomBox \<times> stream)" where
  "AcCmdCROpenRandomBox_Read =
     rd r32 (\<lambda>itemUid'.
     rd r32 (\<lambda>unk1'.
     ret (AcCmdCROpenRandomBox itemUid' unk1')))"

datatype (plugins only:) AcCmdCROpenRandomBoxOK = AcCmdCROpenRandomBoxOK
  (AcCmdCROpenRandomBoxOK_unk0: "u32")
  (AcCmdCROpenRandomBoxOK_unk1: "u32")
  (AcCmdCROpenRandomBoxOK_packageId: "u32")
  (AcCmdCROpenRandomBoxOK_carrotsObtained: "u32")
  (AcCmdCROpenRandomBoxOK_newBalance: "u32")
  (AcCmdCROpenRandomBoxOK_items: "wire_item list")

definition AcCmdCROpenRandomBoxOK_Write :: "AcCmdCROpenRandomBoxOK \<Rightarrow> stream \<Rightarrow> exn + stream" where
  "AcCmdCROpenRandomBoxOK_Write v = seqw [
     w32 (AcCmdCROpenRandomBoxOK_unk0 v),
     w32 (AcCmdCROpenRandomBoxOK_unk1 v),
     w32 (AcCmdCROpenRandomBoxOK_packageId v),
     w32 (AcCmdCROpenRandomBoxOK_carrotsObtained v),
     w32 (AcCmdCROpenRandomBoxOK_newBalance v),
     w8 (of_nat (length (AcCmdCROpenRandomBoxOK_items v))),
     seqw (map Item_Write (AcCmdCROpenRandomBoxOK_items v))]"

definition AcCmdCROpenRandomBoxOK_Read :: "stream \<Rightarrow> exn + (AcCmdCROpenRandomBoxOK \<times> stream)" where
  "AcCmdCROpenRandomBoxOK_Read = throws (RuntimeError ''Not implemented'')"

datatype (plugins only:) AcCmdCROpenRandomBoxCancel = AcCmdCROpenRandomBoxCancel
  (AcCmdCROpenRandomBoxCancel_member1: "u32")
  (AcCmdCROpenRandomBoxCancel_error: "u8")

definition AcCmdCROpenRandomBoxCancel_Write :: "AcCmdCROpenRandomBoxCancel \<Rightarrow> stream \<Rightarrow> exn + stream" where
  "AcCmdCROpenRandomBoxCancel_Write v = seqw [
     w32 (AcCmdCROpenRandomBoxCancel_member1 v),
     w8 (AcCmdCROpenRandomBoxCancel_error v)]"

definition AcCmdCROpenRandomBoxCancel_Read :: "stream \<Rightarrow> exn + (AcCmdCROpenRandomBoxCancel \<times> stream)" where
  "AcCmdCROpenRandomBoxCancel_Read = throws (RuntimeError ''Not implemented'')"

datatype (plugins only:) AcCmdCRBreedingTakeMoney = AcCmdCRBreedingTakeMoney
  (AcCmdCRBreedingTakeMoney_claimUid: "u32")

definition AcCmdCRBreedingTakeMoney_Write :: "AcCmdCRBreedingTakeMoney \<Rightarrow> stream \<Rightarrow> exn + stream" where
  "AcCmdCRBreedingTakeMoney_Write _ = throws (RuntimeError ''Not implemented'')"

definition AcCmdCRBreedingTakeMoney_Read :: "stream \<Rightarrow> exn + (AcCmdCRBreedingTakeMoney \<times> stream)" where
  "AcCmdCRBreedingTakeMoney_Read =
     rd r32 (\<lambda>claimUid'.
     ret (AcCmdCRBreedingTakeMoney claimUid'))"

type_synonym AcCmdCRBreedingTakeMoneyCancel = unit

definition AcCmdCRBreedingTakeMoneyCancel_Write :: "AcCmdCRBreedingTakeMoneyCancel \<Rightarrow> stream \<Rightarrow> exn + stream" where
  "AcCmdCRBreedingTakeMoneyCancel_Write _ = seqw []"

definition AcCmdCRBreedingTakeMoneyCancel_Read :: "stream \<Rightarrow> exn + (AcCmdCRBreedingTakeMoneyCancel \<times> stream)" where
  "AcCmdCRBreedingTakeMoneyCancel_Read = throws (RuntimeError ''Not implemented'')"

datatype (plugins only:) AcCmdCRBreedingTakeMoneyOK = AcCmdCRBreedingTakeMoneyOK
  (AcCmdCRBreedingTakeMoneyOK_unk0: "u32")
  (AcCmdCRBreedingTakeMoneyOK_carrotBalance: "u32")

definition AcCmdCRBreedingTakeMoneyOK_Write :: "AcCmdCRBreedingTakeMoneyOK \<Rightarrow> stream \<Rightarrow> exn + stream" where
  "AcCmdCRBreedingTakeMoneyOK_Write v = seqw [
     w32 (AcCmdCRBreedingTakeMoneyOK_unk0 v),
     w32 (AcCmdCRBreedingTakeMoneyOK_carrotBalance v)]"

definition AcCmdCRBreedingTakeMoneyOK_Read :: "stream \<Rightarrow> exn + (AcCmdCRBreedingTakeMoneyOK \<times> stream)" where
  "AcCmdCRBreedingTakeMoneyOK_Read = throws (RuntimeError ''Not implemented'')"

datatype (plugins only:) AcCmdCRExpandMountSlot = AcCmdCRExpandMountSlot
  (AcCmdCRExpandMountSlot_itemUid: "u32")

definition AcCmdCRExpandMountSlot_Write :: "AcCmdCRExpandMountSlot \<Rightarrow> stream \<Rightarrow> exn + stream" where
  "AcCmdCRExpandMountSlot_Write _ = throws (RuntimeError ''Not implemented'')"

definition AcCmdCRExpandMountSlot_Read :: "stream \<Rightarrow> exn + (AcCmdCRExpandMountSlot \<times> stream)" where
  "AcCmdCRExpandMountSlot_Read =
     rd r32 (\<lambda>itemUid'.
     ret (AcCmdCRExpandMountSlot itemUid'))"

type_synonym AcCmdCRExpandMountSlotCancel = unit

definition AcCmdCRExpandMountSlotCancel_Write :: "AcCmdCRExpandMountSlotCancel \<Rightarrow> stream \<Rightarrow> exn + stream" where
  "AcCmdCRExpandMountSlotCancel_Write _ = seqw []"

definition AcCmdCRExpandMountSlotCancel_Read :: "stream \<Rightarrow> exn + (AcCmdCRExpandMountSlotCancel \<times> stream)" where
  "AcCmdCRExpandMountSlotCancel_Read = throws (RuntimeError ''Not implemented'')"

datatype (plugins only:) AcCmdCRExpandMountSlotOK = AcCmdCRExpandMountSlotOK
  (AcCmdCRExpandMountSlotOK_mountSlots: "u8")

definition AcCmdCRExpandMountSlotOK_Write :: "AcCmdCRExpandMountSlotOK \<Rightarrow> stream \<Rightarrow> exn + stream" where
  "AcCmdCRExpandMountSlotOK_Write v = seqw [
     w8 (AcCmdCRExpandMountSlotOK_mountSlots v)]"

definition AcCmdCRExpandMountSlotOK_Read :: "stream \<Rightarrow> exn + (AcCmdCRExpandMountSlotOK \<times> stream)" where
  "AcCmdCRExpandMountSlotOK_Read = throws (RuntimeError ''Not implemented'')"

datatype (plugins only:) AcCmdCRBreedingWishlistAdd = AcCmdCRBreedingWishlistAdd
  (AcCmdCRBreedingWishlistAdd_horseUid: "u32")

definition AcCmdCRBreedingWishlistAdd_Write :: "AcCmdCRBreedingWishlistAdd \<Rightarrow> stream \<Rightarrow> exn + stream" where
  "AcCmdCRBreedingWishlistAdd_Write _ = throws (RuntimeError ''Not implemented'')"

definition AcCmdCRBreedingWishlistAdd_Read :: "stream \<Rightarrow> exn + (AcCmdCRBreedingWishlistAdd \<times> stream)" where
  "AcCmdCRBreedingWishlistAdd_Read =
     rd r32 (\<lambda>horseUid'.
     ret (AcCmdCRBreedingWishlistAdd horseUid'))"

type_synonym AcCmdCRBreedingWishlistAddCancel = unit

definition AcCmdCRBreedingWishlistAddCancel_Write :: "AcCmdCRBreedingWishlistAddCancel \<Rightarrow> stream \<Rightarrow> exn + stream" where
  "AcCmdCRBreedingWishlistAddCancel_Write _ = seqw []"

definition AcCmdCRBreedingWishlistAddCancel_Read :: "stream \<Rightarrow> exn + (AcCmdCRBreedingWishlistAddCancel \<times> stream)" where
  "AcCmdCRBreedingWishlistAddCancel_Read = throws (RuntimeError ''Not implemented'')"

type_synonym AcCmdCRBreedingWishlistAddOK = unit

definition AcCmdCRBreedingWishlistAddOK_Write :: "AcCmdCRBreedingWishlistAddOK \<Rightarrow> stream \<Rightarrow> exn + stream" where
  "AcCmdCRBreedingWishlistAddOK_Write _ = seqw []"

definition AcCmdCRBreedingWishlistAddOK_Read :: "stream \<Rightarrow> exn + (AcCmdCRBreedingWishlistAddOK \<times> stream)" where
  "AcCmdCRBreedingWishlistAddOK_Read = throws (RuntimeError ''Not implemented'')"

datatype (plugins only:) AcCmdCRBreedingWishlistDel = AcCmdCRBreedingWishlistDel
  (AcCmdCRBreedingWishlistDel_horseUid: "u32")

definition AcCmdCRBreedingWishlistDel_Write :: "AcCmdCRBreedingWishlistDel \<Rightarrow> stream \<Rightarrow> exn + stream" where
  "AcCmdCRBreedingWishlistDel_Write _ = throws (RuntimeError ''Not implemented'')"

definition AcCmdCRBreedingWishlistDel_Read :: "stream \<Rightarrow> exn + (AcCmdCRBreedingWishlistDel \<times> stream)" where
  "AcCmdCRBreedingWishlistDel_Read =
     rd r32 (\<lambda>horseUid'.
     ret (AcCmdCRBreedingWishlistDel horseUid'))"

type_synonym AcCmdCRBreedingWishlistDelCancel = unit

definition AcCmdCRBreedingWishlistDelCancel_Write :: "AcCmdCRBreedingWishlistDelCancel \<Rightarrow> stream \<Rightarrow> exn + stream" where
  "AcCmdCRBreedingWishlistDelCancel_Write _ = seqw []"

definition AcCmdCRBreedingWishlistDelCancel_Read :: "stream \<Rightarrow> exn + (AcCmdCRBreedingWishlistDelCancel \<times> stream)" where
  "AcCmdCRBreedingWishlistDelCancel_Read = throws (RuntimeError ''Not implemented'')"

type_synonym AcCmdCRBreedingWishlistDelOK = unit

definition AcCmdCRBreedingWishlistDelOK_Write :: "AcCmdCRBreedingWishlistDelOK \<Rightarrow> stream \<Rightarrow> exn + stream" where
  "AcCmdCRBreedingWishlistDelOK_Write _ = seqw []"

definition AcCmdCRBreedingWishlistDelOK_Read :: "stream \<Rightarrow> exn + (AcCmdCRBreedingWishlistDelOK \<times> stream)" where
  "AcCmdCRBreedingWishlistDelOK_Read = throws (RuntimeError ''Not implemented'')"

section \<open>Messages that are both written and read\<close>

interpretation AcCmdCRBreedingFailureCardOK_codec: codec AcCmdCRBreedingFailureCardOK_Write AcCmdCRBreedingFailureCardOK_Read "\<lambda>_. True"
  by unfold_locales (unfold AcCmdCRBreedingFailureCardOK_Write_def AcCmdCRBreedingFailureCardOK_Read_def, (rule codec_intros | simp)+)

declare AcCmdCRBreedingFailureCardOK_codec.codec_matches [codec_intros]

interpretation AcCmdRCMissionEvent_codec: codec AcCmdRCMissionEvent_Write AcCmdRCMissionEvent_Read "\<lambda>_. True"
  by unfold_locales (unfold AcCmdRCMissionEvent_Write_def AcCmdRCMissionEvent_Read_def, (rule codec_intros | simp)+)

declare AcCmdRCMissionEvent_codec.codec_matches [codec_intros]

interpretation AcCmdCRRequestQuestRewardOK_NpcDressList_codec: codec AcCmdCRRequestQuestRewardOK_NpcDressList_Write AcCmdCRRequestQuestRewardOK_NpcDressList_Read "\<lambda>_. True"
  by unfold_locales (unfold AcCmdCRRequestQuestRewardOK_NpcDressList_Write_def AcCmdCRRequestQuestRewardOK_NpcDressList_Read_def, (rule codec_intros | simp)+)

declare AcCmdCRRequestQuestRewardOK_NpcDressList_codec.codec_matches [codec_intros]

section \<open>Every reader is a parser\<close>

lemma Msg_Ranch_parsers_1 [parser_intros]:
  "parser AcCmdCRHeartbeat_Read"
  "parser AcCmdCREnterRanch_Read"
  "parser AcCmdCRLeaveRanch_Read"
  "parser (AcCmdCRRanchChat_Read cv)"
  "parser AcCmdCRRanchSnapshot_FullSpatial_Read"
  "parser AcCmdCRRanchSnapshot_PartialSpatial_Read"
  "parser AcCmdCRRanchSnapshot_Read"
  "parser AcCmdCREnterBreedingMarket_Read"
  "parser AcCmdCRSearchStallion_Read"
  "parser AcCmdCRRegisterStallion_Read"
  "parser AcCmdCRUnregisterStallion_Read"
  "parser AcCmdCRUnregisterStallionEstimateInfo_Read"
  "parser AcCmdCRCheckStallionCharge_Read"
  "parser AcCmdCRRecoverMount_Read"
  "parser AcCmdCRStatusPointApply_Read"
  "parser AcCmdCRStatusPointApplyCancel_Read"
  "parser AcCmdCRTryBreeding_Read"
  "parser AcCmdCRBreedingAbandon_Read"
  "parser AcCmdCRAchievementUpdateProperty_Read"
  "parser AcCmdCRBreedingWishlist_Read"
  "parser RanchCommandRanchStuff_Read"
  "parser AcCmdCRBreedingFailureCard_Read"
  "parser AcCmdCRBreedingFailureCardOK_Read"
  "parser AcCmdCRBreedingFailureCardCancel_Read"
  "parser AcCmdCRBreedingFailureCardChoose_Read"
  unfolding AcCmdCRHeartbeat_Read_def
    AcCmdCREnterRanch_Read_def
    AcCmdCRLeaveRanch_Read_def
    AcCmdCRRanchChat_Read_def
    AcCmdCRRanchSnapshot_FullSpatial_Read_def
    AcCmdCRRanchSnapshot_PartialSpatial_Read_def
    AcCmdCRRanchSnapshot_Read_def
    AcCmdCREnterBreedingMarket_Read_def
    AcCmdCRSearchStallion_Read_def
    AcCmdCRRegisterStallion_Read_def
    AcCmdCRUnregisterStallion_Read_def
    AcCmdCRUnregisterStallionEstimateInfo_Read_def
    AcCmdCRCheckStallionCharge_Read_def
    AcCmdCRRecoverMount_Read_def
    AcCmdCRStatusPointApply_Read_def
    AcCmdCRStatusPointApplyCancel_Read_def
    AcCmdCRTryBreeding_Read_def
    AcCmdCRBreedingAbandon_Read_def
    AcCmdCRAchievementUpdateProperty_Read_def
    AcCmdCRBreedingWishlist_Read_def
    RanchCommandRanchStuff_Read_def
    AcCmdCRBreedingFailureCard_Read_def
    AcCmdCRBreedingFailureCardOK_Read_def
    AcCmdCRBreedingFailureCardCancel_Read_def
    AcCmdCRBreedingFailureCardChoose_Read_def
  by (intro parser_intros)+

lemma Msg_Ranch_parsers_2 [parser_intros]:
  "parser AcCmdCRBreedingFailureCardChooseCancel_Read"
  "parser RanchCommandUpdateBusyState_Read"
  "parser (AcCmdCRUpdateMountNickname_Read cv)"
  "parser AcCmdCRRequestStorage_Read"
  "parser AcCmdCRGetItemFromStorage_Read"
  "parser RanchCommandCheckStorageItem_Read"
  "parser RanchCommandRequestNpcDressList_Read"
  "parser RanchCommandRequestNpcDressListCancel_Read"
  "parser AcCmdCRWearEquipment_Read"
  "parser AcCmdCRRemoveEquipment_Read"
  "parser (RanchCommandCreateGuild_Read cv)"
  "parser RanchCommandRequestGuildInfo_Read"
  "parser AcCmdCRWithdrawGuildMember_Read"
  "parser (AcCmdCRRequestPetBirth_Read cv)"
  "parser AcCmdCRPetBornResult_Read"
  "parser AcCmdCRIncubateEgg_Read"
  "parser AcCmdCRBoostIncubateInfoList_Read"
  "parser AcCmdCRBoostIncubateEgg_Read"
  "parser RanchCommandUserPetInfos_Read"
  "parser AcCmdCRHousingBuild_Read"
  "parser AcCmdCRHousingRepair_Read"
  "parser AcCmdRCMissionEvent_Read"
  "parser RanchCommandKickRanch_Read"
  "parser RanchCommandRequestLeagueTeamList_Read"
  "parser AcCmdCRUseItem_Read"
  unfolding AcCmdCRBreedingFailureCardChooseCancel_Read_def
    RanchCommandUpdateBusyState_Read_def
    AcCmdCRUpdateMountNickname_Read_def
    AcCmdCRRequestStorage_Read_def
    AcCmdCRGetItemFromStorage_Read_def
    RanchCommandCheckStorageItem_Read_def
    RanchCommandRequestNpcDressList_Read_def
    RanchCommandRequestNpcDressListCancel_Read_def
    AcCmdCRWearEquipment_Read_def
    AcCmdCRRemoveEquipment_Read_def
    RanchCommandCreateGuild_Read_def
    RanchCommandRequestGuildInfo_Read_def
    AcCmdCRWithdrawGuildMember_Read_def
    AcCmdCRRequestPetBirth_Read_def
    AcCmdCRPetBornResult_Read_def
    AcCmdCRIncubateEgg_Read_def
    AcCmdCRBoostIncubateInfoList_Read_def
    AcCmdCRBoostIncubateEgg_Read_def
    RanchCommandUserPetInfos_Read_def
    AcCmdCRHousingBuild_Read_def
    AcCmdCRHousingRepair_Read_def
    AcCmdRCMissionEvent_Read_def
    RanchCommandKickRanch_Read_def
    RanchCommandRequestLeagueTeamList_Read_def
    AcCmdCRUseItem_Read_def
  by (intro parser_intros)+

lemma Msg_Ranch_parsers_3 [parser_intros]:
  "parser AcCmdCRMountFamilyTree_Read"
  "parser AcCmdCRCheckStorageItem_Read"
  "parser AcCmdCRChangeAge_Read"
  "parser AcCmdCRHideAge_Read"
  "parser (AcCmdCRChangeNickname_Read cv)"
  "parser AcCmdCRChangeSkillCardPreset_Read"
  "parser AcCmdCRGuildMemberList_Read"
  "parser AcCmdCRRequestGuildMatchInfo_Read"
  "parser AcCmdCRUpdateGuildMemberGrade_Read"
  "parser (AcCmdCRInviteGuildJoin_Read cv)"
  "parser AcCmdCREmblemList_Read"
  "parser AcCmdCRUpdateDailyQuest_Read"
  "parser (AcCmdCRUpdateMountInfo_Read cv)"
  "parser AcCmdCRRegisterDailyQuestGroup_Read"
  "parser AcCmdCRRequestDailyQuestReward_Read"
  "parser AcCmdCRRequestDailyQuestRewardOK_Reward_Read"
  "parser AcCmdCRRegisterQuest_Read"
  "parser AcCmdCRRequestQuestReward_Read"
  "parser AcCmdCRRequestQuestRewardOK_NpcDressList_Read"
  "parser AcCmdCRGiveupQuest_Read"
  "parser (AcCmdCRConfirmItem_Read cv)"
  "parser AcCmdCRConfirmSetItem_Read"
  "parser AcCmdCRBuyOwnItem_Read"
  "parser (AcCmdCRSendGift_Read cv)"
  "parser (AcCmdCRPasswordAuth_Read cv)"
  unfolding AcCmdCRMountFamilyTree_Read_def
    AcCmdCRCheckStorageItem_Read_def
    AcCmdCRChangeAge_Read_def
    AcCmdCRHideAge_Read_def
    AcCmdCRChangeNickname_Read_def
    AcCmdCRChangeSkillCardPreset_Read_def
    AcCmdCRGuildMemberList_Read_def
    AcCmdCRRequestGuildMatchInfo_Read_def
    AcCmdCRUpdateGuildMemberGrade_Read_def
    AcCmdCRInviteGuildJoin_Read_def
    AcCmdCREmblemList_Read_def
    AcCmdCRUpdateDailyQuest_Read_def
    AcCmdCRUpdateMountInfo_Read_def
    AcCmdCRRegisterDailyQuestGroup_Read_def
    AcCmdCRRequestDailyQuestReward_Read_def
    AcCmdCRRequestDailyQuestRewardOK_Reward_Read_def
    AcCmdCRRegisterQuest_Read_def
    AcCmdCRRequestQuestReward_Read_def
    AcCmdCRRequestQuestRewardOK_NpcDressList_Read_def
    AcCmdCRGiveupQuest_Read_def
    AcCmdCRConfirmItem_Read_def
    AcCmdCRConfirmSetItem_Read_def
    AcCmdCRBuyOwnItem_Read_def
    AcCmdCRSendGift_Read_def
    AcCmdCRPasswordAuth_Read_def
  by (intro parser_intros)+

lemma Msg_Ranch_parsers_4 [parser_intros]:
  "parser AcCmdCROpenRandomBox_Read"
  "parser AcCmdCRBreedingTakeMoney_Read"
  "parser AcCmdCRExpandMountSlot_Read"
  "parser AcCmdCRBreedingWishlistAdd_Read"
  "parser AcCmdCRBreedingWishlistDel_Read"
  unfolding AcCmdCROpenRandomBox_Read_def
    AcCmdCRBreedingTakeMoney_Read_def
    AcCmdCRExpandMountSlot_Read_def
    AcCmdCRBreedingWishlistAdd_Read_def
    AcCmdCRBreedingWishlistDel_Read_def
  by (intro parser_intros)+

end
