(* ===== verification/Spec2Isabelle.thy ===== *)
theory Spec2Isabelle imports Item_System Market_Registrations Messenger_Friends Messenger_Letters Chatter_Server Id_Sources Lobby_Safety Lobby_Stall Lobby_Ghosts Lobby_Rooms Data_Storage Race_Server File_Restart Msg_Lobby Msg_Ranch Msg_Chatter begin

text \<open>
  Alicia Server, the server of an online horse racing game, as HOL definitions translated from its C++
  sources under \<open>src/\<close> (paths below are relative to \<open>src/src/\<close> and \<open>src/include/\<close>).

  \<^bold>\<open>The program.\<close> Clients talk to four servers: lobby, ranch, race (framed, scrambled \<^emph>\<open>commands\<close>) and messenger
  (\<^emph>\<open>chatter\<close>). Each server is a director with a map of its clients, a handler per command, and a scheduler of
  jobs it ticks. The directors share the data director, a cache of records over a data source, and a few systems:
  rooms, one-time codes that hand a client from one server to another, matchmaking, items, quests, rewards, horses,
  infractions, breeding.

  \<^bold>\<open>Conventions\<close> (\<open>Prelude\<close>). Machine integers are words of their width, so that they wrap as in the code.
  Exceptions are the values of \<open>exn\<close>; an operation that may throw has the type \<open>state \<Rightarrow> (exn + 'a) \<times> state\<close> and
  keeps the changes it made before it threw, because C++ does. Hash maps are association lists with distinct keys.
  The clock, random draws, and the order a hash map is walked in are arguments. Floats are their bit patterns, their
  arithmetic a parameter record; laws a theorem needs of it are its hypotheses. Third-party code (Boost.Asio, ICU, the
  YAML and JSON readers, the database) is a parameter. Logging, mutexes and threads are left out: a handler is atomic.

  \<^bold>\<open>The theories and the code they model.\<close>

  \<^item> \<open>Streams\<close>: \<open>util/Stream\<close> and the conversions of \<open>util/Locale.cpp\<close>. \<open>Times\<close>: \<open>util/Util.cpp\<close>, the packed dates of the
    client and the text utilities. \<open>Job_Scheduler\<close>: \<open>util/Scheduler.cpp\<close>.
  \<^item> \<open>Wire_Items\<close>, \<open>Wire_Ranch\<close>: the structures of \<open>proto/CommonStructureDefinitions\<close>, each with its writer and reader.
    \<open>Messages\<close> states the two contracts of a message (locales for writers and readers), and \<open>Msg_Common\<close>, \<open>Msg_Lobby\<close>,
    \<open>Msg_Ranch\<close>, \<open>Msg_Race\<close>, \<open>Msg_Chatter\<close> hold every message of the five \<open>*MessageDefinitions\<close> files.
  \<^item> \<open>Command_Protocol\<close>, \<open>Command_Server\<close>: the header magic, the rolling code, framing, dispatch and sending of
    \<open>network/command\<close>. \<open>Chatter_Server\<close>: the same of \<open>network/chatter\<close>. \<open>Network\<close>: throttling, admission and the read loop
    of \<open>network/Server.cpp\<close>.
  \<^item> \<open>Data_Storage\<close>: \<open>data/DataStorage.hpp\<close>, the cache with its three queues. \<open>Data_Records\<close>: the records of
    \<open>data/DataDefinitions.hpp\<close> and the tables of the data director as the handlers see them.
  \<^item> \<open>Rooms\<close>: \<open>room/Room.cpp\<close>, \<open>system/RoomSystem.cpp\<close>. \<open>Matchmaking\<close>, \<open>Otp\<close>: the systems of these names.
    \<open>Id_Sources\<close>: \<open>race/P2dIdPool.hpp\<close>, \<open>tracker/RanchTracker.cpp\<close>. \<open>Race_Tracker\<close>: \<open>tracker/RaceTracker.cpp\<close>.
  \<^item> \<open>Item_System\<close>: \<open>system/ItemSystem.cpp\<close>. \<open>Player_Systems\<close>: quests, rewards, foals, infractions, moderation of
    \<open>system/\<close>. \<open>Horse_Registry\<close>, \<open>Genetics\<close>: progress and parts of horses (\<open>registry/HorseRegistry.cpp\<close>) and
    the foals of \<open>ranch/Genetics.cpp\<close> with \<open>registry/BreedingRegistry.cpp\<close>.
  \<^item> \<open>Messenger\<close>: the handlers of \<open>messenger/MessengerDirector.cpp\<close>; \<open>Messenger_Friends\<close> and \<open>Messenger_Letters\<close> hold what they
    promise. \<open>Breeding_Market\<close>: \<open>ranch/BreedingMarket.cpp\<close>, and \<open>Market_Registrations\<close> what it promises.
  \<^item> \<open>Protocol_Helper\<close>: \<open>data/helper/ProtocolHelper.cpp\<close>. \<open>Lobby_State\<close>, \<open>Lobby_Handlers\<close>, \<open>Lobby_Account\<close>:
    \<open>lobby/LobbyNetworkHandler.cpp\<close>, its state, the authentication service and the load flags of the data director;
    \<open>Lobby_Login\<close>: \<open>lobby/LobbyDirector.cpp\<close>, the login queues and the tick; \<open>Lobby_Run\<close>: the commands, the events and
    runs of them. \<open>Lobby_Safety\<close>, \<open>Lobby_Stall\<close>, \<open>Lobby_Ghosts\<close>, \<open>Lobby_Rooms\<close>: what the lobby promises, and where it fails to.
  \<^item> \<open>File_Data\<close>, \<open>File_Players\<close>: \<open>data/file/FileDataSource.cpp\<close>, one document per record; \<open>File_Restart\<close>: what the
    files keep, also over restarts.
  \<^item> The race server: \<open>Magic_System\<close> (\<open>race/MagicSystem.cpp\<close>), \<open>Race_State\<close> (the state its handlers share),
    \<open>Race_Instance\<close> (\<open>race/RaceInstance.cpp\<close>), \<open>Race_Handlers\<close>, \<open>Race_Magic\<close>, \<open>Race_Rooms\<close>, \<open>Race_Social\<close> (the handlers,
    jobs and tick of \<open>race/RaceNetworkHandler.cpp\<close>), \<open>Race_Stages\<close> (what a race goes through), \<open>Race_Invariant\<close>
    (what no handler breaks) and \<open>Race_Server\<close> (the handlers behind the decoder and the command server).

  \<^bold>\<open>What the lemmas show.\<close> Messages and structures are read back as they are written. Framing does not depend on
  how the network cuts the bytes, and delivers what was sent. The cache loses no mutation, and terminating it saves
  all. Rooms stay within capacity, identifiers are unique, codes are good once. Every racer stays in bounds
  whatever clients send; a race ends; the scoreboard is sorted. Items implement an abstract stock; quests complete and
  rewards are paid once; foals get stats and coats their grade allows.
  Friendship stays mutual; letters arrive and are all shown; a stranger on the messenger changes nothing. A registration
  of the breeding market has its records, at most three belong to a player, and its end is paid exactly.
  A stored record is read back, and no number is given out twice, also over restarts.
  With clients that log in once, nobody is online whose name was not vouched for; clients that do not can take over a user
  or stop the lobby for good. A code to a room is given for the right password only and is accepted by the race server.

  \<^bold>\<open>Bounds and fuel.\<close> Loops of the code are structural recursions over the list they walk; the loop over due jobs
  restarts at the position after the executed one and is a recursion on the jobs left. None of the
  program's definitions has fuel. The loop that loads the breeding market may spin forever: it is a partial function, with a theorem when it returns. \<open>browse\<close>, a client that asks for page after page, has a bound on its requests, shown to suffice. Counters that may wrap carry a hypothesis on how often they are advanced.

  \<^bold>\<open>Not modelled.\<close> The handlers of the ranch server and the chat commands. Threads, sockets and
  timers; the reading of YAML and the wiring of \<open>ServerInstance\<close>; the Postgres source; telemetry.
\<close>

end
